(* ===== verification/Prelude.thy ===== *)
theory Prelude
  imports Main "HOL-Library.Word" "HOL-Library.Char_ord" "HOL-Library.List_Lexorder"
begin

text \<open>
  Shared vocabulary of the development: the machine types of the C++ sources
  (\<open>std::uint8_t\<close>, \<open>std::uint32_t\<close>, \<open>std::uint64_t\<close> as words of that width, byte buffers as
  lists of bytes), \<open>std::expected<T, std::string>\<close> as a sum whose left side is the error, and
  the generic lemmas on bytes, strings, lists and options that the component theories use.
  A size of a \<open>std::string\<close> or \<open>std::vector\<close> is a \<open>nat\<close>: no object of the program
  reaches \<open>2^64\<close> bytes, so \<open>std::size_t\<close> sums of sizes never wrap.
\<close>

type_synonym u8 = "8 word"
type_synonym u32 = "32 word"
type_synonym u64 = "64 word"
type_synonym bytes = "8 word list"

type_synonym 'a expected = "string + 'a"

named_theorems codec_simps \<open>lengths and shapes of the byte encodings\<close>
named_theorems codec_inj \<open>injectivity of the byte encodings in front of arbitrary input\<close>
named_theorems grammar_dest \<open>what the identifier and digest grammars give\<close>

subsection \<open>Bytes of a string\<close>

definition bytes_of_string :: "string \<Rightarrow> bytes" where
  "bytes_of_string s = map of_char s"

definition string_of_bytes :: "bytes \<Rightarrow> string" where
  "string_of_bytes bs = map (\<lambda>b. char_of (unat b)) bs"

lemma unat_of_char [simp]: "unat (of_char c :: u8) = of_char c"
proof -
  have "unat (of_char c :: u8) = unat (of_nat (of_char c) :: u8)"
    by (simp only: of_nat_of_char)
  also have "\<dots> = of_char c"
    by (simp only: unat_of_nat) (simp add: of_char_mod_256)
  finally show ?thesis .
qed

lemma of_char_u8_inject [simp]: "(of_char c :: u8) = of_char d \<longleftrightarrow> c = d"
proof
  assume "(of_char c :: u8) = of_char d"
  then have "unat (of_char c :: u8) = unat (of_char d :: u8)" by simp
  then have "(of_char c :: nat) = of_char d" by (simp only: unat_of_char)
  then show "c = d" by simp
qed simp

lemma length_bytes_of_string [simp, codec_simps]: "length (bytes_of_string s) = length s"
  by (simp add: bytes_of_string_def)

lemma bytes_of_string_inject [simp]: "bytes_of_string s = bytes_of_string t \<longleftrightarrow> s = t"
  unfolding bytes_of_string_def by (subst inj_map_eq_map) (auto intro: injI)

lemma string_of_bytes_of_string [simp]: "string_of_bytes (bytes_of_string s) = s"
  by (simp add: bytes_of_string_def string_of_bytes_def comp_def)

lemma bytes_of_string_of_bytes [simp]: "bytes_of_string (string_of_bytes bs) = bs"
proof -
  have "(of_char (char_of (unat b) :: char) :: u8) = b" for b :: u8
  proof -
    have "unat b < 256" using unsigned_less [of b] by simp
    then have "unat (of_char (char_of (unat b) :: char) :: u8) = unat b"
      by simp
    then show ?thesis by (rule unsigned_word_eqI)
  qed
  then show ?thesis
    by (simp add: bytes_of_string_def string_of_bytes_def comp_def)
qed

subsection \<open>Decimal rendering (\<open>std::to_string\<close>)\<close>

definition digit_char :: "nat \<Rightarrow> char" where
  "digit_char d = char_of (48 + d)"

fun decimal :: "nat \<Rightarrow> string" where
  "decimal n = (if n < 10 then [digit_char n] else decimal (n div 10) @ [digit_char (n mod 10)])"

declare decimal.simps [simp del]

lemma digit_char_code: "x < 10 \<Longrightarrow> of_char (digit_char x) = (48 + x :: nat)"
  by (simp add: digit_char_def)

lemma digit_char_inject: "a < 10 \<Longrightarrow> b < 10 \<Longrightarrow> digit_char a = digit_char b \<longleftrightarrow> a = b"
  by (metis add_left_cancel digit_char_code)

lemma decimal_Nil [simp]: "decimal n \<noteq> []"
  by (subst decimal.simps) simp

lemma decimal_inject [simp]: "decimal m = decimal n \<longleftrightarrow> m = n"
proof
  assume "decimal m = decimal n"
  then show "m = n"
  proof (induction m arbitrary: n rule: decimal.induct)
    case (1 m)
    note eq = "1.prems"
    show ?case
    proof (cases "m < 10")
      case True
      then have "decimal m = [digit_char m]" by (subst decimal.simps) simp
      with eq have n: "decimal n = [digit_char m]" by simp
      then have "n < 10"
        by (subst (asm) decimal.simps [of n]) (auto split: if_splits)
      with n True show ?thesis
        by (subst (asm) decimal.simps [of n]) (simp add: digit_char_inject)
    next
      case False
      then have m: "decimal m = decimal (m div 10) @ [digit_char (m mod 10)]"
        by (subst decimal.simps) simp
      have "\<not> n < 10"
        using eq m by (subst (asm) (2) decimal.simps) (auto split: if_splits)
      then have "decimal n = decimal (n div 10) @ [digit_char (n mod 10)]"
        by (subst decimal.simps) simp
      with eq m have "decimal (m div 10) = decimal (n div 10)"
        and d: "digit_char (m mod 10) = digit_char (n mod 10)" by auto
      with "1.IH" [OF False] have "m div 10 = n div 10" by blast
      moreover from d have "m mod 10 = n mod 10" by (simp add: digit_char_inject)
      ultimately show ?thesis by (metis div_mult_mod_eq)
    qed
  qed
qed simp

lemma decimal_digits: "c \<in> set (decimal n) \<Longrightarrow> 48 \<le> (of_char c :: nat)"
proof (induction n rule: decimal.induct)
  case (1 n)
  have d: "48 \<le> (of_char (digit_char x) :: nat)" if "x < 10" for x
    using that by (simp add: digit_char_code)
  show ?case
  proof (cases "n < 10")
    case True
    with "1.prems" d [of n] show ?thesis by (simp add: decimal.simps [of n])
  next
    case False
    with "1.prems" have "c \<in> set (decimal (n div 10)) \<or> c = digit_char (n mod 10)"
      by (auto simp: decimal.simps [of n])
    with "1.IH" False d [of "n mod 10"] show ?thesis by auto
  qed
qed

subsection \<open>Fallible computations\<close>

text \<open>\<open>std::expected::and_then\<close>: the error short-circuits, a value is handed on.\<close>

definition and_then :: "'e + 'a \<Rightarrow> ('a \<Rightarrow> 'e + 'b) \<Rightarrow> 'e + 'b" where
  "and_then r f = (case r of Inl e \<Rightarrow> Inl e | Inr x \<Rightarrow> f x)"

lemma and_then_simps [simp]:
  "and_then (Inl e) f = Inl e" "and_then (Inr x) f = f x"
  by (simp_all add: and_then_def)

lemma and_then_Inr: "and_then r f = Inr y \<longleftrightarrow> (\<exists>x. r = Inr x \<and> f x = Inr y)"
  by (cases r) simp_all

lemma and_then_if_Inl: "and_then (if b then r else Inl e) f = (if b then and_then r f else Inl e)"
  by simp

lemma and_then_assoc: "and_then (and_then r f) g = and_then r (\<lambda>x. and_then (f x) g)"
  by (cases r) simp_all

text \<open>An optional result with the error message of its call site.\<close>

definition or_error :: "'e \<Rightarrow> 'a option \<Rightarrow> 'e + 'a" where
  "or_error e r = (case r of None \<Rightarrow> Inl e | Some x \<Rightarrow> Inr x)"

lemma or_error_simps [simp]: "or_error e None = Inl e" "or_error e (Some x) = Inr x"
  by (simp_all add: or_error_def)

definition is_value :: "'e + 'a \<Rightarrow> bool" where
  "is_value r = (case r of Inl _ \<Rightarrow> False | Inr _ \<Rightarrow> True)"

lemma is_value_simps [simp]: "\<not> is_value (Inl e)" "is_value (Inr x)"
  by (simp_all add: is_value_def)

lemma is_value_iff: "is_value r \<longleftrightarrow> (\<exists>x. r = Inr x)"
  by (cases r) simp_all

subsection \<open>Lists and options\<close>

lemma take_drop_split: "n \<le> length xs \<Longrightarrow> xs = take n xs @ drop n xs"
  by simp

lemma append_eq_append_len:
  "length a = length b \<Longrightarrow> a @ x = b @ y \<longleftrightarrow> a = b \<and> x = y"
  by auto

lemma nth_append_last: "(xs @ [x]) ! length xs = x"
  by simp

definition lookup_default :: "'v \<Rightarrow> ('k \<rightharpoonup> 'v) \<Rightarrow> 'k \<Rightarrow> 'v" where
  "lookup_default d m k = (case m k of None \<Rightarrow> d | Some v \<Rightarrow> v)"

text \<open>\<open>std::unordered_map::emplace\<close>: an existing key keeps its value.\<close>

definition emplace :: "'k \<Rightarrow> 'v \<Rightarrow> ('k \<rightharpoonup> 'v) \<Rightarrow> ('k \<rightharpoonup> 'v)" where
  "emplace k v m = (if m k = None then m(k \<mapsto> v) else m)"

lemma emplace_fresh [simp]: "m k = None \<Longrightarrow> emplace k v m = m(k \<mapsto> v)"
  by (simp add: emplace_def)

lemma emplace_present: "m k = Some w \<Longrightarrow> emplace k v m = m"
  by (simp add: emplace_def)

lemma emplace_apply: "emplace k v m j =
    (if j = k \<and> m k = None then Some v else m j)"
  by (simp add: emplace_def)

end
