(* ===== verification/Sha256.thy ===== *)
theory Sha256
  imports Prelude
begin

text \<open>
  The dependency-free SHA-256 of \<open>src/container/sha256.cpp\<close>: the streaming object
  \<open>sha256_stream\<close> with its fixed 64-byte block buffer, written as a record whose arrays are
  lists of fixed length updated by index, and the one-shot \<open>sha256_hex\<close>.  A reference
  definition in the style of FIPS 180-4 (padding, block parsing, recursive message schedule)
  stands beside it; the lemmas show that the stream computes the reference digest whatever
  the chunking of the input, and that every digest is 64 lowercase hexadecimal digits.
\<close>

unbundle bit_operations_syntax

subsection \<open>The stream object\<close>

record sha256_stream =
  sha_state :: "u32 list"
  sha_block :: bytes
  sha_block_size :: nat
  sha_total_bytes :: u64

definition initial_state :: "u32 list" where
  "initial_state = [0x6a09e667, 0xbb67ae85, 0x3c6ef372, 0xa54ff53a,
                    0x510e527f, 0x9b05688c, 0x1f83d9ab, 0x5be0cd19]"

definition new_stream :: sha256_stream where
  "new_stream = \<lparr>sha_state = initial_state, sha_block = replicate 64 0, sha_block_size = 0,
                 sha_total_bytes = 0\<rparr>"

definition round_constants :: "u32 list" where
  "round_constants = concat [
    [0x428a2f98, 0x71374491, 0xb5c0fbcf, 0xe9b5dba5, 0x3956c25b, 0x59f111f1, 0x923f82a4],
    [0xab1c5ed5, 0xd807aa98, 0x12835b01, 0x243185be, 0x550c7dc3, 0x72be5d74, 0x80deb1fe],
    [0x9bdc06a7, 0xc19bf174, 0xe49b69c1, 0xefbe4786, 0x0fc19dc6, 0x240ca1cc, 0x2de92c6f],
    [0x4a7484aa, 0x5cb0a9dc, 0x76f988da, 0x983e5152, 0xa831c66d, 0xb00327c8, 0xbf597fc7],
    [0xc6e00bf3, 0xd5a79147, 0x06ca6351, 0x14292967, 0x27b70a85, 0x2e1b2138, 0x4d2c6dfc],
    [0x53380d13, 0x650a7354, 0x766a0abb, 0x81c2c92e, 0x92722c85, 0xa2bfe8a1, 0xa81a664b],
    [0xc24b8b70, 0xc76c51a3, 0xd192e819, 0xd6990624, 0xf40e3585, 0x106aa070, 0x19a4c116],
    [0x1e376c08, 0x2748774c, 0x34b0bcb5, 0x391c0cb3, 0x4ed8aa4a, 0x5b9cca4f, 0x682e6ff3],
    [0x748f82ee, 0x78a5636f, 0x84c87814, 0x8cc70208, 0x90befffa, 0xa4506ceb, 0xbef9a3f7],
    [0xc67178f2]]"

text \<open>One word of the block, big-endian; \<open>std::rotr\<close> is \<open>word_rotr\<close>.\<close>

definition block_word :: "bytes \<Rightarrow> nat \<Rightarrow> u32" where
  "block_word block index =
     (let offset = index * 4 in
      push_bit 24 (ucast (block ! offset)) OR push_bit 16 (ucast (block ! (offset + 1))) OR
      push_bit 8 (ucast (block ! (offset + 2))) OR ucast (block ! (offset + 3)))"

definition schedule_next :: "u32 list \<Rightarrow> nat \<Rightarrow> u32" where
  "schedule_next schedule index =
     (let first = word_rotr 7 (schedule ! (index - 15)) XOR word_rotr 18 (schedule ! (index - 15))
                  XOR drop_bit 3 (schedule ! (index - 15));
          second = word_rotr 17 (schedule ! (index - 2)) XOR word_rotr 19 (schedule ! (index - 2))
                  XOR drop_bit 10 (schedule ! (index - 2))
      in schedule ! (index - 16) + first + schedule ! (index - 7) + second)"

definition schedule_of :: "bytes \<Rightarrow> u32 list" where
  "schedule_of block =
     foldl (\<lambda>schedule index. schedule[index := schedule_next schedule index])
       (foldl (\<lambda>schedule index. schedule[index := block_word block index])
          (replicate 64 0) [0..<16])
       [16..<64]"

type_synonym working = "u32 \<times> u32 \<times> u32 \<times> u32 \<times> u32 \<times> u32 \<times> u32 \<times> u32"

fun round_step :: "u32 list \<Rightarrow> working \<Rightarrow> nat \<Rightarrow> working" where
  "round_step schedule (a, b, c, d, e, f, g, h) index =
     (let chosen = (e AND f) XOR (NOT e AND g);
          majority = (a AND b) XOR (a AND c) XOR (b AND c);
          upper_a = word_rotr 2 a XOR word_rotr 13 a XOR word_rotr 22 a;
          upper_e = word_rotr 6 e XOR word_rotr 11 e XOR word_rotr 25 e;
          first = h + upper_e + chosen + round_constants ! index + schedule ! index;
          second = upper_a + majority
      in (first + second, a, b, c, d + first, e, f, g))"

definition compress :: "u32 list \<Rightarrow> bytes \<Rightarrow> u32 list" where
  "compress st block =
     (let schedule = schedule_of block;
          (a, b, c, d, e, f, g, h) =
            foldl (round_step schedule)
              (st ! 0, st ! 1, st ! 2, st ! 3, st ! 4, st ! 5, st ! 6, st ! 7) [0..<64]
      in [st ! 0 + a, st ! 1 + b, st ! 2 + c, st ! 3 + d,
          st ! 4 + e, st ! 5 + f, st ! 6 + g, st ! 7 + h])"

definition transform :: "sha256_stream \<Rightarrow> sha256_stream" where
  "transform s = s\<lparr>sha_state := compress (sha_state s) (sha_block s)\<rparr>"

definition push_byte :: "sha256_stream \<Rightarrow> u8 \<Rightarrow> sha256_stream" where
  "push_byte s b =
     (let s' = s\<lparr>sha_block := (sha_block s)[sha_block_size s := b], sha_block_size := sha_block_size s + 1\<rparr>
      in if sha_block_size s' = length (sha_block s')
         then (transform s')\<lparr>sha_block_size := 0\<rparr> else s')"

definition max_input_bytes :: u64 where
  "max_input_bytes = (- 1) div 8"

definition update :: "sha256_stream \<Rightarrow> bytes \<Rightarrow> sha256_stream expected" where
  "update s input =
     (if length input > unat (max_input_bytes - sha_total_bytes s)
      then Inl ''SHA-256 input exceeds its length encoding''
      else Inr (let s' = foldl push_byte s input
                in s'\<lparr>sha_total_bytes := sha_total_bytes s' + of_nat (length input)\<rparr>))"

text \<open>The two \<open>while\<close> loops of \<open>finish\<close> store zero bytes up to an index.\<close>

function zero_fill :: "nat \<Rightarrow> sha256_stream \<Rightarrow> sha256_stream" where
  "zero_fill bound s =
     (if sha_block_size s < bound
      then zero_fill bound (s\<lparr>sha_block := (sha_block s)[sha_block_size s := 0],
                              sha_block_size := sha_block_size s + 1\<rparr>)
      else s)"
  by pat_completeness auto
termination
  by (relation "measure (\<lambda>(bound, s). bound - sha_block_size s)") auto

declare zero_fill.simps [simp del]

definition store_length :: "u64 \<Rightarrow> bytes \<Rightarrow> bytes" where
  "store_length bit_length block =
     foldl (\<lambda>block index. block[56 + index := ucast (drop_bit ((7 - index) * 8) bit_length)])
       block [0..<8]"

definition digest_bytes :: "u32 list \<Rightarrow> bytes" where
  "digest_bytes st =
     concat (map (\<lambda>word. map (\<lambda>byte. ucast (drop_bit ((3 - byte) * 8) (st ! word))) [0..<4])
       [0..<8])"

definition finish :: "sha256_stream \<Rightarrow> bytes" where
  "finish s =
     (let s1 = s\<lparr>sha_block := (sha_block s)[sha_block_size s := 0x80], sha_block_size := sha_block_size s + 1\<rparr>;
          s2 = (if sha_block_size s1 > 56
                then (transform (zero_fill 64 s1))\<lparr>sha_block_size := 0\<rparr> else s1);
          s3 = zero_fill 56 s2;
          s4 = transform (s3\<lparr>sha_block := store_length (sha_total_bytes s3 * 8) (sha_block s3)\<rparr>)
      in digest_bytes (sha_state s4))"

definition hex_digit :: "nat \<Rightarrow> char" where
  "hex_digit d = ''0123456789abcdef'' ! d"

definition encode_digest :: "bytes \<Rightarrow> string" where
  "encode_digest digest =
     concat (map (\<lambda>byte. [hex_digit (unat (drop_bit 4 byte)), hex_digit (unat (byte AND 0x0f))])
       digest)"

definition digest_hex :: "sha256_stream \<Rightarrow> string" where
  "digest_hex s = encode_digest (finish s)"

definition sha256_hex :: "bytes \<Rightarrow> string expected" where
  "sha256_hex input =
     (case update new_stream input of Inl e \<Rightarrow> Inl e | Inr s \<Rightarrow> Inr (digest_hex s))"

subsection \<open>Hashing a file through its descriptor\<close>

text \<open>
  \<open>sha256_fd_hex\<close> reads with \<open>pread\<close>.  The file is its content; the outcome of each system
  call is given by a list: interrupted (\<open>EINTR\<close>), failed with the message of its error
  number, or a read of at most the given number of bytes (the kernel may return fewer bytes
  than requested, but returns at least one unless the file ends).  An exhausted list is
  \<open>None\<close>: the loop is still waiting for a system call.
\<close>

datatype pread_outcome = Interrupted | Failed string | Transferred nat

definition pread :: "bytes \<Rightarrow> nat \<Rightarrow> nat \<Rightarrow> nat \<Rightarrow> bytes" where
  "pread content offset requested k = take (min (max 1 k) requested) (drop offset content)"

fun fd_loop :: "nat \<Rightarrow> bytes \<Rightarrow> nat \<Rightarrow> sha256_stream \<Rightarrow> pread_outcome list \<Rightarrow>
    string expected option" where
  "fd_loop max_bytes content offset stream [] = None"
| "fd_loop max_bytes content offset stream (call # calls) =
     (let remaining = max_bytes - offset in
      if remaining = 0 then
        (case call of
           Interrupted \<Rightarrow> fd_loop max_bytes content offset stream calls
         | Failed message \<Rightarrow> Some (Inl (''read SHA-256 file input: '' @ message))
         | Transferred k \<Rightarrow>
             if pread content offset 1 k \<noteq> []
             then Some (Inl ''SHA-256 file input exceeds its bound'')
             else Some (Inr (digest_hex stream)))
      else
        (case call of
           Interrupted \<Rightarrow> fd_loop max_bytes content offset stream calls
         | Failed message \<Rightarrow> Some (Inl (''read SHA-256 file input: '' @ message))
         | Transferred k \<Rightarrow>
             (let chunk = pread content offset (min remaining 65536) k in
              if chunk = [] then Some (Inr (digest_hex stream))
              else (case update stream chunk of
                      Inl e \<Rightarrow> Some (Inl e)
                    | Inr stream' \<Rightarrow>
                        fd_loop max_bytes content (offset + length chunk) stream' calls))))"

definition off_t_max :: nat where
  "off_t_max = 2 ^ 63 - 1"

definition sha256_fd_hex ::
    "int \<Rightarrow> u64 \<Rightarrow> bytes \<Rightarrow> pread_outcome list \<Rightarrow> string expected option" where
  "sha256_fd_hex descriptor max_bytes content calls =
     (if descriptor < 0 \<or> max_bytes = 0 \<or> unat max_bytes > off_t_max
      then Some (Inl ''invalid SHA-256 file input'')
      else fd_loop (unat max_bytes) content 0 new_stream calls)"

subsection \<open>The reference digest\<close>

text \<open>Padding and parsing of a message, and the schedule as the recurrence of the standard.\<close>

definition big_endian64 :: "u64 \<Rightarrow> bytes" where
  "big_endian64 w = map (\<lambda>index. ucast (drop_bit ((7 - index) * 8) w)) [0..<8]"

definition pad_message :: "bytes \<Rightarrow> bytes" where
  "pad_message m =
     m @ [0x80] @ replicate ((119 - length m mod 64) mod 64) 0 @
     big_endian64 (of_nat (8 * length m))"

fun blocks :: "bytes \<Rightarrow> bytes list" where
  "blocks m = (if length m < 64 then [] else take 64 m # blocks (drop 64 m))"

declare blocks.simps [simp del]

fun schedule_word :: "bytes \<Rightarrow> nat \<Rightarrow> u32" where
  "schedule_word block t =
     (if t < 16 then block_word block t
      else schedule_word block (t - 16) +
        (word_rotr 7 (schedule_word block (t - 15)) XOR word_rotr 18 (schedule_word block (t - 15))
           XOR drop_bit 3 (schedule_word block (t - 15))) +
        schedule_word block (t - 7) +
        (word_rotr 17 (schedule_word block (t - 2)) XOR word_rotr 19 (schedule_word block (t - 2))
           XOR drop_bit 10 (schedule_word block (t - 2))))"

declare schedule_word.simps [simp del]

fun round_reference :: "u32 \<Rightarrow> u32 \<Rightarrow> working \<Rightarrow> working" where
  "round_reference k w (a, b, c, d, e, f, g, h) =
     (let t1 = h + (word_rotr 6 e XOR word_rotr 11 e XOR word_rotr 25 e) +
               ((e AND f) XOR (NOT e AND g)) + k + w;
          t2 = (word_rotr 2 a XOR word_rotr 13 a XOR word_rotr 22 a) +
               ((a AND b) XOR (a AND c) XOR (b AND c))
      in (t1 + t2, a, b, c, d + t1, e, f, g))"

definition compress_reference :: "u32 list \<Rightarrow> bytes \<Rightarrow> u32 list" where
  "compress_reference st block =
     (case foldl (\<lambda>v t. round_reference (round_constants ! t) (schedule_word block t) v)
             (st ! 0, st ! 1, st ! 2, st ! 3, st ! 4, st ! 5, st ! 6, st ! 7) [0..<64]
      of (a, b, c, d, e, f, g, h) \<Rightarrow>
        map2 (+) st [a, b, c, d, e, f, g, h])"

definition sha256_reference :: "bytes \<Rightarrow> string" where
  "sha256_reference m =
     encode_digest (digest_bytes (foldl compress_reference initial_state (blocks (pad_message m))))"

subsection \<open>The array schedule is the recurrence\<close>

lemma schedule_prefix:
  "n \<le> 16 \<Longrightarrow>
   foldl (\<lambda>schedule index. schedule[index := block_word block index]) (replicate 64 0) [0..<n] =
   map (schedule_word block) [0..<n] @ replicate (64 - n) 0"
proof (induction n)
  case 0
  then show ?case by simp
next
  case (Suc n)
  then have IH: "foldl (\<lambda>schedule index. schedule[index := block_word block index])
      (replicate 64 0) [0..<n] = map (schedule_word block) [0..<n] @ replicate (64 - n) 0" by simp
  have r: "replicate (64 - n) (0::u32) = 0 # replicate (64 - Suc n) 0"
  proof -
    have "64 - n = Suc (64 - Suc n)" using Suc.prems by arith
    then show ?thesis by (simp only: replicate_Suc)
  qed
  have w: "schedule_word block n = block_word block n"
    using Suc.prems by (simp add: schedule_word.simps [of block n])
  show ?case by (simp add: IH r w list_update_append)
qed

lemma schedule_all:
  "16 \<le> n \<Longrightarrow> n \<le> 64 \<Longrightarrow>
   foldl (\<lambda>schedule index. schedule[index := schedule_next schedule index])
     (map (schedule_word block) [0..<16] @ replicate 48 0) [16..<n] =
   map (schedule_word block) [0..<n] @ replicate (64 - n) 0"
proof (induction n rule: dec_induct)
  case base
  then show ?case by simp
next
  case (step n)
  then have IH: "foldl (\<lambda>schedule index. schedule[index := schedule_next schedule index])
      (map (schedule_word block) [0..<16] @ replicate 48 0) [16..<n] =
      map (schedule_word block) [0..<n] @ replicate (64 - n) 0" by simp
  have r: "replicate (64 - n) (0::u32) = 0 # replicate (64 - Suc n) 0"
  proof -
    have "64 - n = Suc (64 - Suc n)" using step by arith
    then show ?thesis by (simp only: replicate_Suc)
  qed
  have look: "(map (schedule_word block) [0..<n] @ replicate (64 - n) 0) ! k = schedule_word block k"
    if "k < n" for k using that by (simp add: nth_append)
  have w: "schedule_next (map (schedule_word block) [0..<n] @ replicate (64 - n) 0) n =
      schedule_word block n"
    using step by (simp add: schedule_next_def look schedule_word.simps [of block n] Let_def)
  show ?case using step by (simp add: IH w) (simp add: r list_update_append)
qed

lemma schedule_of_eq: "schedule_of block = map (schedule_word block) [0..<64]"
proof -
  have "foldl (\<lambda>schedule index. schedule[index := block_word block index]) (replicate 64 0) [0..<16] =
      map (schedule_word block) [0..<16] @ replicate 48 0"
    using schedule_prefix [of 16 block] by (simp del: upt_rec_numeral)
  then show ?thesis
    unfolding schedule_of_def using schedule_all [of 64 block] by (simp del: upt_rec_numeral)
qed

lemma round_step_reference:
  "t < 64 \<Longrightarrow> round_step (schedule_of block) v t =
     round_reference (round_constants ! t) (schedule_word block t) v"
proof -
  assume "t < 64"
  obtain a b c d e f g h where "v = (a, b, c, d, e, f, g, h)" by (metis surj_pair)
  with \<open>t < 64\<close> show ?thesis by (simp add: schedule_of_eq Let_def del: upt_rec_numeral)
qed

lemma compress_eq_reference:
  assumes "length st = 8"
  shows "compress st block = compress_reference st block"
proof -
  obtain s0 s1 s2 s3 s4 s5 s6 s7 where st: "st = [s0, s1, s2, s3, s4, s5, s6, s7]"
    using assms by (auto simp: length_Suc_conv numeral_eq_Suc)
  have "foldl (round_step (schedule_of block)) v [0..<n] =
      foldl (\<lambda>v t. round_reference (round_constants ! t) (schedule_word block t) v) v [0..<n]"
    if "n \<le> 64" for n v
    using that by (induction n) (simp_all add: round_step_reference)
  then show ?thesis
    by (simp add: compress_def compress_reference_def Let_def st split: prod.split del: upt_rec_numeral)
qed

lemma length_compress [simp]: "length (compress st block) = 8"
  by (simp add: compress_def Let_def split: prod.split del: upt_rec_numeral)

lemma foldl_compress_reference:
  "length st = 8 \<Longrightarrow> foldl compress st bs = foldl compress_reference st bs"
proof (induction bs arbitrary: st)
  case (Cons b bs)
  then show ?case by (metis compress_eq_reference foldl_Cons length_compress)
qed simp

subsection \<open>The stream represents the bytes it has consumed\<close>

lemma blocks_short [simp]: "length m < 64 \<Longrightarrow> blocks m = []"
  by (simp add: blocks.simps)

lemma blocks_append:
  "64 dvd length a \<Longrightarrow> blocks (a @ b) = blocks a @ blocks b"
proof (induction a rule: blocks.induct)
  case (1 a)
  show ?case
  proof (cases "length a < 64")
    case True
    with "1.prems" have "a = []"
      by (metis dvd_imp_le length_greater_0_conv not_less)
    then show ?thesis by simp
  next
    case False
    with "1.prems" have "64 dvd length (drop 64 a)" by (simp add: dvd_diff_nat)
    with False "1.IH" have "blocks (drop 64 a @ b) = blocks (drop 64 a) @ blocks b" by simp
    with False show ?thesis by (simp add: blocks.simps [of "a @ b"] blocks.simps [of a])
  qed
qed

lemma blocks_one: "length b = 64 \<Longrightarrow> blocks b = [b]"
  by (simp add: blocks.simps)

definition block_whole :: "bytes \<Rightarrow> bytes" where
  "block_whole m = take (length m - length m mod 64) m"

definition block_rest :: "bytes \<Rightarrow> bytes" where
  "block_rest m = drop (length m - length m mod 64) m"

lemma whole_rest: "block_whole m @ block_rest m = m"
  by (simp add: block_whole_def block_rest_def)

lemma length_whole: "length (block_whole m) = length m - length m mod 64"
  by (simp add: block_whole_def)

lemma whole_dvd: "64 dvd length (block_whole m)"
  by (simp only: length_whole dvd_minus_mod)

lemma length_rest: "length (block_rest m) = length m mod 64"
  by (simp add: block_rest_def)

lemma blocks_whole: "blocks m = blocks (block_whole m)"
proof -
  have "length (block_rest m) < 64" by (simp add: length_rest)
  then show ?thesis
    using blocks_append [OF whole_dvd, of m "block_rest m"] by (simp add: whole_rest)
qed

lemma blocks_extend: "length (block_rest m @ t) = 64 \<Longrightarrow> blocks (m @ t @ u) =
    blocks m @ (block_rest m @ t) # blocks u"
proof -
  assume l: "length (block_rest m @ t) = 64"
  have "blocks (m @ t @ u) = blocks (block_whole m @ ((block_rest m @ t) @ u))"
    by (metis append.assoc whole_rest)
  also have "\<dots> = blocks (block_whole m) @ blocks ((block_rest m @ t) @ u)"
    by (rule blocks_append [OF whole_dvd])
  also have "blocks ((block_rest m @ t) @ u) = blocks (block_rest m @ t) @ blocks u"
    using l by (intro blocks_append) simp
  finally show ?thesis using l blocks_one [OF l] blocks_whole [of m] by simp
qed

definition represents :: "sha256_stream \<Rightarrow> bytes \<Rightarrow> bool" where
  "represents s m \<longleftrightarrow>
     length (sha_block s) = 64 \<and> sha_block_size s = length m mod 64 \<and>
     take (sha_block_size s) (sha_block s) = block_rest m \<and>
     sha_state s = foldl compress initial_state (blocks m)"

lemma represents_new: "represents new_stream []"
  by (simp add: represents_def new_stream_def block_rest_def)

lemma rest_snoc_full: "length m mod 64 = 63 \<Longrightarrow> block_rest (m @ [b]) = []"
  by (simp add: block_rest_def mod_Suc)

lemma rest_snoc: "length m mod 64 \<noteq> 63 \<Longrightarrow> block_rest (m @ [b]) = block_rest m @ [b]"
  by (simp add: block_rest_def mod_Suc)

lemma take_list_update_snoc:
  "n < length xs \<Longrightarrow> take (Suc n) (xs[n := x]) = take n xs @ [x]"
  by (simp add: take_Suc_conv_app_nth)

lemma push_byte_represents:
  assumes "represents s m"
  shows "represents (push_byte s b) (m @ [b])"
proof (cases "length m mod 64 = 63")
  case True
  let ?blk = "(sha_block s)[63 := b]"
  from assms True have len: "length (sha_block s) = 64" and size: "sha_block_size s = 63"
    and t: "take 63 (sha_block s) = block_rest m" by (auto simp: represents_def)
  have blk: "?blk = block_rest m @ [b]"
    using take_list_update_snoc [of 63 "sha_block s" b] len t by simp
  have "blocks (m @ [b]) = blocks m @ [block_rest m @ [b]]"
    using blocks_extend [of m "[b]" "[]"] True by (simp add: length_rest)
  with assms blk len size show ?thesis
    using True length_rest [of m]
    by (simp add: represents_def push_byte_def transform_def rest_snoc_full mod_Suc Let_def)
next
  case False
  have size: "Suc (length m mod 64) < 64"
    using False mod_less_divisor [of 64 "length m"] by linarith
  have "blocks (m @ [b]) = blocks m"
  proof -
    have "block_whole (m @ [b]) = block_whole m"
      using False by (simp add: block_whole_def mod_Suc)
    then show ?thesis by (metis blocks_whole)
  qed
  with assms size False show ?thesis
    by (auto simp: represents_def push_byte_def Let_def rest_snoc mod_Suc take_list_update_snoc)
qed

lemma pushes_represent: "represents s m \<Longrightarrow> represents (foldl push_byte s xs) (m @ xs)"
proof (induction xs arbitrary: s m)
  case (Cons x xs)
  from push_byte_represents [OF Cons.prems, of x] have "represents (push_byte s x) (m @ [x])" .
  from Cons.IH [OF this] show ?case by simp
qed simp

lemma push_byte_total [simp]: "sha_total_bytes (push_byte s b) = sha_total_bytes s"
  by (simp add: push_byte_def transform_def Let_def)

lemma pushes_total [simp]: "sha_total_bytes (foldl push_byte s xs) = sha_total_bytes s"
  by (induction xs arbitrary: s) simp_all

lemma represents_total [simp]: "represents (s\<lparr>sha_total_bytes := n\<rparr>) m = represents s m"
  by (simp add: represents_def)

subsection \<open>Padding\<close>

lemma zero_fill_eq:
  assumes "sha_block_size s \<le> bound" and "bound \<le> length (sha_block s)"
  shows "zero_fill bound s =
    s\<lparr>sha_block := take (sha_block_size s) (sha_block s) @ replicate (bound - sha_block_size s) 0 @
                   drop bound (sha_block s),
      sha_block_size := bound\<rparr>"
  using assms
proof (induction bound s rule: zero_fill.induct)
  case (1 bound s)
  show ?case
  proof (cases "sha_block_size s < bound")
    case True
    let ?n = "sha_block_size s" and ?b = "sha_block s"
    from True "1.prems" have n: "?n < length ?b" by simp
    have "zero_fill bound s =
        zero_fill bound (s\<lparr>sha_block := ?b[?n := 0], sha_block_size := ?n + 1\<rparr>)"
      using True by (simp add: zero_fill.simps [of bound s])
    also have "\<dots> = s\<lparr>sha_block := (take ?n ?b @ [0]) @ replicate (bound - Suc ?n) 0 @ drop bound ?b,
        sha_block_size := bound\<rparr>"
      using "1.IH" [OF True] "1.prems" True take_list_update_snoc [OF n, of 0] by simp
    also have "(take ?n ?b @ [0]) @ replicate (bound - Suc ?n) 0 @ drop bound ?b =
        take ?n ?b @ replicate (bound - ?n) 0 @ drop bound ?b"
      using True by (simp add: Suc_diff_Suc flip: replicate_Suc)
    finally show ?thesis .
  next
    case False
    with "1.prems" show ?thesis by (simp add: zero_fill.simps [of bound s])
  qed
qed

lemma store_length_prefix:
  "n \<le> 8 \<Longrightarrow> length block = 64 \<Longrightarrow>
   foldl (\<lambda>block index. block[56 + index := ucast (drop_bit ((7 - index) * 8) w)]) block [0..<n] =
   take 56 block @ map (\<lambda>index. ucast (drop_bit ((7 - index) * 8) w)) [0..<n] @ drop (56 + n) block"
proof (induction n)
  case (Suc n)
  have d: "drop (56 + n) block = block ! (56 + n) # drop (56 + Suc n) block"
    using Suc.prems Cons_nth_drop_Suc [of "56 + n" block] by simp
  have l: "min (length block) 56 = 56" using Suc.prems by simp
  from Suc show ?case by (simp add: d list_update_append l)
qed simp

lemma store_length_eq:
  "length block = 64 \<Longrightarrow> store_length w block = take 56 block @ big_endian64 w"
  using store_length_prefix [of 8 block w]
  by (simp add: store_length_def big_endian64_def del: upt_rec_numeral)

lemma length_big_endian64 [simp]: "length (big_endian64 w) = 8"
  by (simp add: big_endian64_def del: upt_rec_numeral)

lemma pad_count_short: "r < 56 \<Longrightarrow> (119 - r) mod 64 = (55 - r :: nat)"
proof -
  assume "r < 56"
  then have "119 - r = (55 - r) + 64" by simp
  then show ?thesis by (simp only: mod_add_self2) simp
qed

lemma pad_count_long: "56 \<le> r \<Longrightarrow> r < 64 \<Longrightarrow> (119 - r) mod 64 = (63 - r) + (56 :: nat)"
  by simp

lemma finish_represents:
  assumes rep: "represents s m" and total: "sha_total_bytes s = of_nat (length m)"
  shows "finish s = digest_bytes (foldl compress initial_state (blocks (pad_message m)))"
proof -
  let ?r = "length m mod 64" and ?L = "big_endian64 (of_nat (8 * length m))"
  from rep have len: "length (sha_block s) = 64" and size: "sha_block_size s = ?r"
    and t: "take ?r (sha_block s) = block_rest m"
    and st: "sha_state s = foldl compress initial_state (blocks m)"
    by (auto simp: represents_def)
  have r: "?r < 64" by simp
  define s1 where "s1 = s\<lparr>sha_block := (sha_block s)[?r := 0x80], sha_block_size := ?r + 1\<rparr>"
  have t1: "take (Suc ?r) (sha_block s1) = block_rest m @ [0x80]"
    using take_list_update_snoc [of ?r "sha_block s" "0x80"] len r t by (simp add: s1_def)
  have bits: "sha_total_bytes s * 8 = of_nat (8 * length m)" using total by simp
  show ?thesis
  proof (cases "?r < 56")
    case True
    have k: "(119 - ?r) mod 64 = 55 - ?r" using True by (rule pad_count_short)
    have z: "zero_fill 56 s1 = s1\<lparr>sha_block := block_rest m @ [0x80] @ replicate (55 - ?r) 0 @
        drop 56 (sha_block s1), sha_block_size := 56\<rparr>"
      using zero_fill_eq [of s1 56] True len t1 by (simp add: s1_def)
    have blk: "store_length (sha_total_bytes s * 8) (block_rest m @ [0x80] @ replicate (55 - ?r) 0 @
        drop 56 (sha_block s1)) = block_rest m @ [0x80] @ replicate (55 - ?r) 0 @ ?L"
    proof -
      define X where "X = block_rest m @ [0x80 :: u8] @ replicate (55 - ?r) 0"
      have "length X = 56" using True by (simp add: X_def length_rest)
      then have "store_length (sha_total_bytes s * 8) (X @ drop 56 (sha_block s1)) = X @ ?L"
        using len by (subst store_length_eq) (simp_all add: bits s1_def)
      then show ?thesis by (simp add: X_def)
    qed
    have "blocks (pad_message m) = blocks m @ [block_rest m @ [0x80] @ replicate (55 - ?r) 0 @ ?L]"
      using blocks_extend [of m "[0x80] @ replicate (55 - ?r) 0 @ ?L" "[]"] True
      by (simp add: pad_message_def k length_rest)
    with z blk st True show ?thesis
      by (simp add: finish_def Let_def size s1_def [symmetric] transform_def)
         (simp add: s1_def)
  next
    case False
    have k: "(119 - ?r) mod 64 = (63 - ?r) + 56" using False r by (intro pad_count_long) simp_all
    let ?b1 = "block_rest m @ [0x80] @ replicate (63 - ?r) 0"
    have z: "zero_fill 64 s1 = s1\<lparr>sha_block := ?b1, sha_block_size := 64\<rparr>"
      using zero_fill_eq [of s1 64] r len t1 by (simp add: s1_def)
    have lb: "length ?b1 = 64" using r by (simp add: length_rest)
    have z2: "zero_fill 56 u = u\<lparr>sha_block := replicate 56 0 @ drop 56 ?b1, sha_block_size := 56\<rparr>"
      if "sha_block u = ?b1" and "sha_block_size u = 0" for u
      using zero_fill_eq [of u 56] lb that by simp
    have blk: "store_length (sha_total_bytes s * 8) (replicate 56 0 @ drop 56 ?b1) =
        replicate 56 0 @ ?L"
      using lb by (subst store_length_eq) (simp_all add: bits)
    have "pad_message m = m @ ([0x80] @ replicate (63 - ?r) 0) @ (replicate 56 0 @ ?L)"
      unfolding pad_message_def k replicate_add by simp
    then have "blocks (pad_message m) = blocks m @ [?b1, replicate 56 0 @ ?L]"
      using blocks_extend [of m "[0x80] @ replicate (63 - ?r) 0" "replicate 56 0 @ ?L"] r
        blocks_one [of "replicate 56 0 @ ?L"]
      by (simp add: length_rest)
    with z z2 blk st False show ?thesis
      by (simp add: finish_def Let_def size s1_def [symmetric] transform_def)
         (simp add: s1_def)
  qed
qed

subsection \<open>Digests\<close>

lemma update_represents:
  assumes "represents s m" and "sha_total_bytes s = of_nat (length m)"
    and "update s input = Inr s'"
  shows "represents s' (m @ input)" and "sha_total_bytes s' = of_nat (length (m @ input))"
  using assms pushes_represent [OF assms(1), of input]
  by (auto simp: update_def Let_def split: if_splits)

lemma digest_hex_represents:
  "represents s m \<Longrightarrow> sha_total_bytes s = of_nat (length m) \<Longrightarrow> digest_hex s = sha256_reference m"
  using foldl_compress_reference [of initial_state "blocks (pad_message m)"]
  by (simp add: digest_hex_def finish_represents sha256_reference_def) (simp add: initial_state_def)

lemma new_stream_total: "sha_total_bytes new_stream = 0"
  by (simp add: new_stream_def)

lemma unat_max_input_bytes: "unat max_input_bytes = 2 ^ 61 - 1"
  by (simp add: max_input_bytes_def)

lemma sha256_hex_cases:
  "sha256_hex m =
     (if length m \<le> 2 ^ 61 - 1 then Inr (sha256_reference m)
      else Inl ''SHA-256 input exceeds its length encoding'')"
proof (cases "length m \<le> 2 ^ 61 - 1")
  case True
  then obtain s where s: "update new_stream m = Inr s"
    by (simp add: update_def new_stream_total unat_max_input_bytes)
  from update_represents [OF represents_new _ s] new_stream_total
  have "represents s m" and "sha_total_bytes s = of_nat (length m)" by simp_all
  with s True show ?thesis by (simp add: sha256_hex_def digest_hex_represents)
next
  case False
  then show ?thesis by (simp add: sha256_hex_def update_def new_stream_total unat_max_input_bytes)
qed

lemma length_concat_const:
  "(\<And>x. x \<in> set xs \<Longrightarrow> length (f x) = k) \<Longrightarrow> length (concat (map f xs)) = k * length xs"
  by (induction xs) simp_all

lemma length_digest_bytes [simp]: "length (digest_bytes st) = 32"
  unfolding digest_bytes_def
  by (subst length_concat_const [where k = 4]) (simp_all del: upt_rec_numeral)

lemma length_encode_digest: "length (encode_digest d) = 2 * length d"
  unfolding encode_digest_def by (subst length_concat_const [where k = 2]) simp_all

lemma hex_digit_in: "d < 16 \<Longrightarrow> hex_digit d \<in> set ''0123456789abcdef''"
  unfolding hex_digit_def by (rule nth_mem) simp

lemma unat_high_nibble: "unat (drop_bit 4 (b :: u8)) < 16"
proof -
  have "unat b < 256" using unsigned_less [of b] by simp
  moreover have "unat (drop_bit 4 b) = unat b div 16"
    by (simp add: drop_bit_eq_div unat_div)
  ultimately show ?thesis by simp
qed

lemma unat_low_nibble: "unat (b AND 0x0f :: u8) < 16"
proof -
  have "b AND 0x0f \<le> (0x0f :: u8)" by (rule word_and_le1)
  then have "unat (b AND 0x0f) \<le> unat (0x0f :: u8)" by (simp only: word_le_nat_alt)
  then show ?thesis by simp
qed

lemma encode_digest_chars: "c \<in> set (encode_digest d) \<Longrightarrow> c \<in> set ''0123456789abcdef''"
proof -
  assume "c \<in> set (encode_digest d)"
  then have "\<exists>n < 16. c = hex_digit n"
    using unat_high_nibble unat_low_nibble unfolding encode_digest_def by fastforce
  then show ?thesis using hex_digit_in by blast
qed

lemma sha256_reference_length [simp]: "length (sha256_reference m) = 64"
  by (simp add: sha256_reference_def length_encode_digest)

lemma sha256_reference_chars: "c \<in> set (sha256_reference m) \<Longrightarrow> c \<in> set ''0123456789abcdef''"
  unfolding sha256_reference_def by (rule encode_digest_chars)

subsection \<open>Properties\<close>

fun update_all :: "sha256_stream \<Rightarrow> bytes list \<Rightarrow> sha256_stream expected" where
  "update_all s [] = Inr s"
| "update_all s (c # cs) = (case update s c of Inl e \<Rightarrow> Inl e | Inr s' \<Rightarrow> update_all s' cs)"

lemma update_bound:
  assumes "sha_total_bytes s = of_nat (length m)" and "length m \<le> 2 ^ 61 - 1"
  shows "(length c > unat (max_input_bytes - sha_total_bytes s)) = (length m + length c > 2 ^ 61 - 1)"
proof -
  have u: "unat (of_nat (length m) :: u64) = length m"
    using assms(2) by (simp add: unat_of_nat take_bit_nat_eq_self)
  have "of_nat (length m) \<le> max_input_bytes"
    using assms(2) by (simp only: word_le_nat_alt u unat_max_input_bytes)
  then have "unat (max_input_bytes - sha_total_bytes s) = 2 ^ 61 - 1 - length m"
    using assms u by (simp add: unat_sub unat_max_input_bytes)
  with assms(2) show ?thesis by linarith
qed

lemma update_all_represents:
  assumes "represents s m" and "sha_total_bytes s = of_nat (length m)" and "length m \<le> 2 ^ 61 - 1"
  shows "case update_all s cs of
      Inl e \<Rightarrow> length (m @ concat cs) > 2 ^ 61 - 1
    | Inr s' \<Rightarrow> length (m @ concat cs) \<le> 2 ^ 61 - 1 \<and> represents s' (m @ concat cs) \<and>
        sha_total_bytes s' = of_nat (length (m @ concat cs))"
  using assms
proof (induction cs arbitrary: s m)
  case Nil
  then show ?case by simp
next
  case (Cons c cs)
  show ?case
  proof (cases "update s c")
    case (Inl e)
    then have "length c > unat (max_input_bytes - sha_total_bytes s)"
      by (simp add: update_def split: if_splits)
    then have "length m + length c > 2 ^ 61 - 1"
      using update_bound [OF Cons.prems(2,3), of c] by blast
    with Inl show ?thesis by simp
  next
    case (Inr s')
    then have "\<not> length c > unat (max_input_bytes - sha_total_bytes s)"
      by (simp add: update_def split: if_splits)
    then have l: "length (m @ c) \<le> 2 ^ 61 - 1"
      using update_bound [OF Cons.prems(2,3), of c] by simp
    from Cons.IH [OF update_represents [OF Cons.prems(1,2) Inr] l] Inr show ?thesis
      by (cases "update_all s' cs") simp_all
  qed
qed

text \<open>C38. However the input is cut into chunks, a stream fed with them computes the FIPS 180-4
  digest of their concatenation; it fails exactly when the block_whole input is longer than the
  length encoding allows.\<close>

theorem sha256_stream_chunking:
  "case update_all new_stream chunks of
     Inl e \<Rightarrow> length (concat chunks) > 2 ^ 61 - 1
   | Inr s \<Rightarrow> length (concat chunks) \<le> 2 ^ 61 - 1 \<and>
       digest_hex s = sha256_reference (concat chunks)"
  using update_all_represents [OF represents_new, of chunks] new_stream_total
  by (auto simp: digest_hex_represents split: sum.splits)

lemma fd_loop_correct:
  assumes "represents stream (take offset content)" and "sha_total_bytes stream = of_nat offset"
    and "offset \<le> length content" and "offset \<le> bound"
    and "length content \<le> 2 ^ 61 - 1" and "\<And>e. Failed e \<notin> set calls"
    and "length content - offset + 2 \<le> length (filter (\<lambda>c. c \<noteq> Interrupted) calls)"
  shows "fd_loop bound content offset stream calls =
     Some (if length content \<le> bound then Inr (sha256_reference content)
           else Inl ''SHA-256 file input exceeds its bound'')"
  using assms
proof (induction calls arbitrary: offset stream)
  case Nil
  then show ?case by simp
next
  case (Cons call calls)
  show ?case
  proof (cases call)
    case Interrupted
    have "fd_loop bound content offset stream calls =
     Some (if length content \<le> bound then Inr (sha256_reference content)
           else Inl ''SHA-256 file input exceeds its bound'')"
      using Cons.prems Interrupted by (intro Cons.IH) auto
    with Interrupted show ?thesis by (simp add: Let_def)
  next
    case (Failed e)
    with Cons.prems(6) show ?thesis by auto
  next
    case (Transferred k)
    let ?chunk = "pread content offset (min (bound - offset) 65536) k"
    have fin: "digest_hex stream = sha256_reference content" if "length content = offset"
      using Cons.prems(1,2) that by (simp add: digest_hex_represents)
    show ?thesis
    proof (cases "bound - offset = 0 \<or> offset = length content")
      case True
      with Cons.prems Transferred fin show ?thesis
        by (auto simp: pread_def Let_def)
    next
      case False
      with Cons.prems have ne: "?chunk \<noteq> []" by (auto simp: pread_def)
      have app: "take offset content @ ?chunk = take (offset + length ?chunk) content"
        by (simp add: pread_def take_add min_def)
      have len: "offset + length ?chunk \<le> length content" "offset + length ?chunk \<le> bound"
        using Cons.prems(3,4) by (auto simp: pread_def)
      have lo: "length (take offset content) = offset" using Cons.prems(3) by simp
      obtain s' where s': "update stream ?chunk = Inr s'"
        using update_bound [of stream "take offset content" ?chunk] Cons.prems(2,3,5) len lo
        by (auto simp: update_def)
      have "represents s' (take (offset + length ?chunk) content)"
        and "sha_total_bytes s' = of_nat (offset + length ?chunk)"
        using update_represents [OF Cons.prems(1) _ s'] Cons.prems(2) lo app len(1)
        by (simp_all add: min_absorb2)
      moreover have "length content - (offset + length ?chunk) + 2 \<le>
          length (filter (\<lambda>c. c \<noteq> Interrupted) calls)"
        using Cons.prems(7) ne Transferred len(1) by (cases ?chunk) auto
      ultimately have "fd_loop bound content (offset + length ?chunk) s' calls =
          Some (if length content \<le> bound then Inr (sha256_reference content)
                else Inl ''SHA-256 file input exceeds its bound'')"
        using len Cons.prems(5,6) by (intro Cons.IH) auto
      with False Transferred ne s' show ?thesis by (simp add: Let_def)
    qed
  qed
qed

text \<open>C39. Hashing a file through its descriptor returns the digest of its content, or the bound
  error when the file is longer than the caller's bound, whatever short reads and interrupted
  system calls happen on the way, as soon as enough calls transfer data.\<close>

theorem sha256_fd_hex_digest:
  assumes "0 \<le> descriptor" and "max_bytes \<noteq> 0" and "unat max_bytes \<le> off_t_max"
    and "length content \<le> 2 ^ 61 - 1" and "\<And>e. Failed e \<notin> set calls"
    and "length content + 2 \<le> length (filter (\<lambda>c. c \<noteq> Interrupted) calls)"
  shows "sha256_fd_hex descriptor max_bytes content calls =
     Some (if length content \<le> unat max_bytes then sha256_hex content
           else Inl ''SHA-256 file input exceeds its bound'')"
  using fd_loop_correct [of new_stream 0 content "unat max_bytes" calls] assms
  by (simp add: sha256_fd_hex_def represents_new new_stream_total sha256_hex_cases)

theorem sha256_fd_hex_digest_witness:
  "sha256_fd_hex 3 1 [0x61, 0x62] [Interrupted, Transferred 1, Transferred 9, Interrupted,
       Transferred 1, Transferred 0] =
     Some (Inl ''SHA-256 file input exceeds its bound'') \<and>
   sha256_fd_hex 3 2 [0x61, 0x62] [Interrupted, Transferred 1, Transferred 9, Interrupted,
       Transferred 1, Transferred 0] = Some (sha256_hex [0x61, 0x62])"
  using sha256_fd_hex_digest [of 3 1 "[0x61, 0x62]" "[Interrupted, Transferred 1, Transferred 9,
      Interrupted, Transferred 1, Transferred 0]"]
    sha256_fd_hex_digest [of 3 2 "[0x61, 0x62]" "[Interrupted, Transferred 1, Transferred 9,
      Interrupted, Transferred 1, Transferred 0]"]
  by (simp add: off_t_max_def)

end
