(* ===== verification/Codec.thy ===== *)
theory Codec
  imports Prelude
begin

text \<open>
  The length-prefixed big-endian byte encoding that every durable commitment of the program
  is hashed over: the free functions of \<open>src/control/session_registry_wire.cpp\<close> (bounded
  strings) and the class \<open>canonical_encoder\<close> of \<open>src/container/receipt_chain.cpp\<close>.
  Both append to a byte vector; here each function takes the vector and returns the extended
  one.  The locale \<open>prefix_code\<close> states what makes an encoding unambiguous in front of
  arbitrary further bytes; it is interpreted by the integer and string encodings, and a
  message of typed fields inherits it.
\<close>

unbundle bit_operations_syntax

subsection \<open>Primitives\<close>

definition append_u8 :: "bytes \<Rightarrow> u8 \<Rightarrow> bytes" where
  "append_u8 output value = output @ [value]"

definition append_u32 :: "bytes \<Rightarrow> u32 \<Rightarrow> bytes" where
  "append_u32 output value = output @
     [ucast (drop_bit 24 value AND 0xff), ucast (drop_bit 16 value AND 0xff),
      ucast (drop_bit 8 value AND 0xff), ucast (value AND 0xff)]"

definition append_u64 :: "bytes \<Rightarrow> u64 \<Rightarrow> bytes" where
  "append_u64 output value = output @
     [ucast (drop_bit 56 value AND 0xff), ucast (drop_bit 48 value AND 0xff),
      ucast (drop_bit 40 value AND 0xff), ucast (drop_bit 32 value AND 0xff),
      ucast (drop_bit 24 value AND 0xff), ucast (drop_bit 16 value AND 0xff),
      ucast (drop_bit 8 value AND 0xff), ucast (value AND 0xff)]"

text \<open>The bounded \<open>append_string\<close> returns false, here \<open>None\<close>, beyond 32-bit sizes.\<close>

definition append_string :: "bytes \<Rightarrow> string \<Rightarrow> bytes option" where
  "append_string output value =
     (if length value > 4294967295 then None
      else Some (append_u32 output (of_nat (length value)) @ bytes_of_string value))"

text \<open>The range-based \<open>for\<close> over a list of fields, failing with the message of its site.\<close>

fun append_strings :: "string \<Rightarrow> bytes \<Rightarrow> string list \<Rightarrow> bytes expected" where
  "append_strings message output [] = Inr output"
| "append_strings message output (value # values) =
     (case append_string output value of
        None \<Rightarrow> Inl message
      | Some output' \<Rightarrow> append_strings message output' values)"

definition decode_u32 :: "bytes \<Rightarrow> u32" where
  "decode_u32 input =
     push_bit 24 (ucast (input ! 0)) OR push_bit 16 (ucast (input ! 1)) OR
     push_bit 8 (ucast (input ! 2)) OR ucast (input ! 3)"

text \<open>\<open>canonical_encoder::append_string\<close> truncates the size instead of checking it.\<close>

definition encoder_append_string :: "bytes \<Rightarrow> string \<Rightarrow> bytes" where
  "encoder_append_string output value =
     append_u32 output (of_nat (length value)) @ bytes_of_string value"

subsection \<open>Unambiguous encodings\<close>

definition enc_u32 :: "u32 \<Rightarrow> bytes" where
  "enc_u32 v = append_u32 [] v"

definition enc_u64 :: "u64 \<Rightarrow> bytes" where
  "enc_u64 v = append_u64 [] v"

definition enc_string :: "string \<Rightarrow> bytes" where
  "enc_string s = enc_u32 (of_nat (length s)) @ bytes_of_string s"

lemma append_u32_enc: "append_u32 out v = out @ enc_u32 v"
  by (simp add: append_u32_def enc_u32_def)

lemma append_u64_enc: "append_u64 out v = out @ enc_u64 v"
  by (simp add: append_u64_def enc_u64_def)

lemma append_string_enc:
  "append_string out s = (if length s \<le> 4294967295 then Some (out @ enc_string s) else None)"
  by (auto simp: append_string_def enc_string_def append_u32_enc)

lemma encoder_append_string_enc: "encoder_append_string out s = out @ enc_string s"
  by (simp add: encoder_append_string_def enc_string_def append_u32_enc)

lemma append_strings_enc:
  "append_strings msg out vs =
     (if \<forall>v \<in> set vs. length v \<le> 4294967295 then Inr (out @ concat (map enc_string vs)) else Inl msg)"
  by (induction vs arbitrary: out) (simp_all add: append_string_enc)

lemma length_enc_u32 [simp, codec_simps]: "length (enc_u32 v) = 4"
  by (simp add: enc_u32_def append_u32_def)

lemma length_enc_u64 [simp, codec_simps]: "length (enc_u64 v) = 8"
  by (simp add: enc_u64_def append_u64_def)

lemma low_byte_u32: "ucast (x AND 0xff :: u32) = (ucast x :: u8)"
proof -
  have "bit (0xff :: u32) n" if "n < 8" for n
  proof -
    from that have "bit (mask 8 :: u32) n" by (simp only: bit_mask_iff) simp
    then show ?thesis by (simp add: mask_eq_exp_minus_1)
  qed
  then show ?thesis by (intro bit_word_eqI) (auto simp: bit_simps)
qed

lemma low_byte_u64: "ucast (x AND 0xff :: u64) = (ucast x :: u8)"
proof -
  have "bit (0xff :: u64) n" if "n < 8" for n
  proof -
    from that have "bit (mask 8 :: u64) n" by (simp only: bit_mask_iff) simp
    then show ?thesis by (simp add: mask_eq_exp_minus_1)
  qed
  then show ?thesis by (intro bit_word_eqI) (auto simp: bit_simps)
qed

lemma decode_enc_u32 [simp]: "decode_u32 (enc_u32 v) = v"
proof (rule bit_word_eqI)
  fix n assume n: "n < LENGTH(32)"
  consider "n < 8" | "8 \<le> n" "n < 16" | "16 \<le> n" "n < 24" | "24 \<le> n" "n < 32"
    using n by fastforce
  then show "bit (decode_u32 (enc_u32 v)) n \<longleftrightarrow> bit v n"
    by cases (auto simp: decode_u32_def enc_u32_def append_u32_def low_byte_u32 bit_simps)
qed

lemma enc_u32_inject [simp]: "enc_u32 a = enc_u32 b \<longleftrightarrow> a = b"
  by (metis decode_enc_u32)

lemma enc_u64_halves: "enc_u64 v = enc_u32 (ucast (drop_bit 32 v)) @ enc_u32 (ucast v)"
proof -
  have h: "ucast (drop_bit n (ucast (drop_bit 32 v) :: u32)) = (ucast (drop_bit (n + 32) v) :: u8)"
    if "n \<le> 24" for n
    using that by (intro bit_word_eqI) (auto simp: bit_simps ac_simps)
  have l: "ucast (drop_bit n (ucast v :: u32)) = (ucast (drop_bit n v) :: u8)" if "n \<le> 24" for n
    using that by (intro bit_word_eqI) (auto simp: bit_simps)
  show ?thesis
    using h [of 24] h [of 16] h [of 8] h [of 0] l [of 24] l [of 16] l [of 8] l [of 0]
    by (simp add: enc_u64_def append_u64_def enc_u32_def append_u32_def low_byte_u32 low_byte_u64)
qed

lemma enc_u64_inject [simp]: "enc_u64 a = enc_u64 b \<longleftrightarrow> a = b"
proof
  assume "enc_u64 a = enc_u64 b"
  then have hi: "(ucast (drop_bit 32 a) :: u32) = ucast (drop_bit 32 b)"
    and lo: "(ucast a :: u32) = ucast b"
    by (simp_all add: enc_u64_halves append_eq_append_len)
  show "a = b"
  proof (rule bit_word_eqI)
    fix n assume n: "n < LENGTH(64)"
    have "bit a n = bit (ucast a :: u32) n" "bit b n = bit (ucast b :: u32) n" if "n < 32"
      using that by (simp_all add: bit_simps)
    moreover have "bit a n = bit (ucast (drop_bit 32 a) :: u32) (n - 32)"
      "bit b n = bit (ucast (drop_bit 32 b) :: u32) (n - 32)" if "\<not> n < 32"
      using that n by (auto simp: bit_simps)
    ultimately show "bit a n \<longleftrightarrow> bit b n" using hi lo by (cases "n < 32") simp_all
  qed
qed simp

locale prefix_code =
  fixes enc :: "'a \<Rightarrow> bytes" and valid :: "'a \<Rightarrow> bool"
  assumes prefix_inj:
    "valid a \<Longrightarrow> valid b \<Longrightarrow> enc a @ x = enc b @ y \<Longrightarrow> a = b \<and> x = y"
begin

lemma enc_inj: "valid a \<Longrightarrow> valid b \<Longrightarrow> enc a = enc b \<Longrightarrow> a = b"
  using prefix_inj [of a b "[]" "[]"] by simp

lemma list_inj:
  "length xs = length ys \<Longrightarrow> \<forall>x \<in> set xs. valid x \<Longrightarrow> \<forall>y \<in> set ys. valid y \<Longrightarrow>
   concat (map enc xs) @ u = concat (map enc ys) @ v \<Longrightarrow> xs = ys \<and> u = v"
proof (induction xs ys arbitrary: u v rule: list_induct2)
  case Nil
  then show ?case by simp
next
  case (Cons x xs y ys)
  then have "x = y \<and> concat (map enc xs) @ u = concat (map enc ys) @ v"
    by (intro prefix_inj) auto
  with Cons show ?case by auto
qed

end

interpretation u32_code: prefix_code enc_u32 "\<lambda>_. True"
proof
  fix a b x y assume "enc_u32 a @ x = enc_u32 b @ y"
  then show "a = b \<and> x = y" by (simp add: append_eq_append_len)
qed

interpretation u64_code: prefix_code enc_u64 "\<lambda>_. True"
proof
  fix a b x y assume "enc_u64 a @ x = enc_u64 b @ y"
  then show "a = b \<and> x = y" by (simp add: append_eq_append_len)
qed

abbreviation bounded_string :: "string \<Rightarrow> bool" where
  "bounded_string s \<equiv> length s \<le> 4294967295"

lemma size_u32_inject:
  "bounded_string a \<Longrightarrow> bounded_string b \<Longrightarrow>
   (of_nat (length a) :: u32) = of_nat (length b) \<Longrightarrow> length a = length b"
proof -
  assume a: "bounded_string a" and b: "bounded_string b"
    and eq: "(of_nat (length a) :: u32) = of_nat (length b)"
  then have "unat (of_nat (length a) :: u32) = unat (of_nat (length b) :: u32)" by simp
  with a b show ?thesis by (simp add: unat_of_nat take_bit_nat_eq_self)
qed

interpretation string_code: prefix_code enc_string bounded_string
proof
  fix a b x y
  assume a: "bounded_string a" and b: "bounded_string b" and eq: "enc_string a @ x = enc_string b @ y"
  from eq have "enc_u32 (of_nat (length a)) @ (bytes_of_string a @ x) =
      enc_u32 (of_nat (length b)) @ (bytes_of_string b @ y)" by (simp add: enc_string_def)
  from u32_code.prefix_inj [OF _ _ this]
  have sz: "(of_nat (length a) :: u32) = of_nat (length b)"
    and rest: "bytes_of_string a @ x = bytes_of_string b @ y" by auto
  from size_u32_inject [OF a b sz] rest show "a = b \<and> x = y"
    by (simp add: append_eq_append_len)
qed

subsection \<open>Typed fields\<close>

text \<open>
  A commitment is a fixed sequence of typed fields.  \<open>same_layout\<close> says that two sequences
  have the same types in the same order; under a common layout the encoding is injective.
\<close>

datatype field = U8 u8 | U32 u32 | U64 u64 | Str string

fun enc_field :: "field \<Rightarrow> bytes" where
  "enc_field (U8 v) = [v]"
| "enc_field (U32 v) = enc_u32 v"
| "enc_field (U64 v) = enc_u64 v"
| "enc_field (Str s) = enc_string s"

fun bounded_field :: "field \<Rightarrow> bool" where
  "bounded_field (Str s) = bounded_string s"
| "bounded_field _ = True"

fun same_kind :: "field \<Rightarrow> field \<Rightarrow> bool" where
  "same_kind (U8 _) (U8 _) = True"
| "same_kind (U32 _) (U32 _) = True"
| "same_kind (U64 _) (U64 _) = True"
| "same_kind (Str _) (Str _) = True"
| "same_kind _ _ = False"

definition enc_fields :: "field list \<Rightarrow> bytes" where
  "enc_fields fs = concat (map enc_field fs)"

abbreviation same_layout :: "field list \<Rightarrow> field list \<Rightarrow> bool" where
  "same_layout \<equiv> list_all2 same_kind"

lemma enc_fields_simps [simp]:
  "enc_fields [] = []" "enc_fields (f # fs) = enc_field f @ enc_fields fs"
  "enc_fields (fs @ gs) = enc_fields fs @ enc_fields gs"
  by (simp_all add: enc_fields_def)

lemma enc_field_prefix:
  assumes "same_kind f g" and "bounded_field f" and "bounded_field g"
    and "enc_field f @ x = enc_field g @ y"
  shows "f = g \<and> x = y"
  using assms
  by (cases f; cases g)
     (auto dest: u32_code.prefix_inj [rotated 2] u64_code.prefix_inj [rotated 2]
        string_code.prefix_inj [rotated 2])

lemma enc_fields_prefix:
  "same_layout fs gs \<Longrightarrow> list_all bounded_field fs \<Longrightarrow> list_all bounded_field gs \<Longrightarrow>
   enc_fields fs @ x = enc_fields gs @ y \<Longrightarrow> fs = gs \<and> x = y"
proof (induction fs gs rule: list_all2_induct)
  case Nil
  then show ?case by simp
next
  case (Cons f fs g gs)
  then have "f = g \<and> enc_fields fs @ x = enc_fields gs @ y"
    by (intro enc_field_prefix) auto
  with Cons show ?case by auto
qed

lemma enc_fields_inject:
  "same_layout fs gs \<Longrightarrow> list_all bounded_field fs \<Longrightarrow> list_all bounded_field gs \<Longrightarrow>
   enc_fields fs = enc_fields gs \<Longrightarrow> fs = gs"
  using enc_fields_prefix [of fs gs "[]" "[]"] by simp

text \<open>Domain separation: encodings whose first field is a string differ when the strings do.\<close>

lemma enc_fields_domain:
  "bounded_string d \<Longrightarrow> bounded_string e \<Longrightarrow>
   enc_fields (Str d # fs) = enc_fields (Str e # gs) \<Longrightarrow> d = e"
  using string_code.prefix_inj [of d e "enc_fields fs" "enc_fields gs"] by simp

end
