(* ===== verification/Storage.thy ===== *)
theory Storage
  imports Sha256 Codec
begin

text \<open>
  The file descriptors the durable components work on, and the loops around \<open>pread\<close>, \<open>pwrite\<close> and
  \<open>fsync\<close> that the session registry, the receipt journal, the change-apply journal and the
  path-exposure journal each define.  The components differ only in the texts of the errors.

  A file is the byte list \<open>d_bytes\<close>.  What the kernel answers to the system calls still
  to be issued is the list \<open>d_outcomes\<close>, consumed from the front: \<open>Interrupted\<close> is \<open>EINTR\<close>,
  \<open>Failed\<close> any other error with its text, \<open>Progress n\<close> a successful call, which for \<open>pread\<close> and
  \<open>pwrite\<close> moves at most \<open>n\<close> bytes.  Once the list is exhausted every call succeeds in full, so the
  retry loops of the source end after finitely many interruptions and are structural recursions
  here.
\<close>

subsection \<open>The file and the kernel\<close>

datatype outcome = Interrupted | Failed string | Progress nat

record file_meta =
  fm_device :: u64
  fm_inode :: u64
  fm_regular :: bool
  fm_uid :: nat
  fm_permissions :: nat
  fm_links :: nat
  fm_change :: "int \<times> int"

record disk =
  d_bytes :: bytes
  d_meta :: file_meta
  d_path :: "file_meta option"
  d_euid :: nat
  d_clock :: "int \<times> int"
  d_outcomes :: "outcome list"

definition system_error :: "string \<Rightarrow> string \<Rightarrow> string" where
  "system_error operation error = operation @ '': '' @ error"

definition splice :: "bytes \<Rightarrow> bytes \<Rightarrow> nat \<Rightarrow> bytes" where
  "splice content bs offset =
     take offset (content @ replicate (offset - length content) 0) @ bs @
     drop (offset + length bs) content"

definition pwrite :: "disk \<Rightarrow> bytes \<Rightarrow> nat \<Rightarrow> disk" where
  "pwrite d bs offset =
     d\<lparr>d_bytes := splice (d_bytes d) bs offset, d_meta := (d_meta d)\<lparr>fm_change := d_clock d\<rparr>\<rparr>"

definition ftruncate :: "disk \<Rightarrow> nat \<Rightarrow> disk" where
  "ftruncate d n =
     d\<lparr>d_bytes := take n (d_bytes d @ replicate (n - length (d_bytes d)) 0),
       d_meta := (d_meta d)\<lparr>fm_change := d_clock d\<rparr>\<rparr>"

text \<open>A call issued once: the text of its error, if it fails.\<close>

definition single_call :: "disk \<Rightarrow> string option \<times> disk" where
  "single_call d =
     (case d_outcomes d of
        [] \<Rightarrow> (None, d)
      | Interrupted # os \<Rightarrow> (Some ''Interrupted system call'', d\<lparr>d_outcomes := os\<rparr>)
      | Failed e # os \<Rightarrow> (Some e, d\<lparr>d_outcomes := os\<rparr>)
      | Progress n # os \<Rightarrow> (None, d\<lparr>d_outcomes := os\<rparr>))"

text \<open>A call in a loop that retries after an interruption.\<close>

fun retry_outcomes :: "outcome list \<Rightarrow> string option \<times> outcome list" where
  "retry_outcomes [] = (None, [])"
| "retry_outcomes (Interrupted # os) = retry_outcomes os"
| "retry_outcomes (Failed e # os) = (Some e, os)"
| "retry_outcomes (Progress n # os) = (None, os)"

definition retried_call :: "disk \<Rightarrow> string option \<times> disk" where
  "retried_call d =
     (case retry_outcomes (d_outcomes d) of (e, os) \<Rightarrow> (e, d\<lparr>d_outcomes := os\<rparr>))"

text \<open>The texts a component puts into the errors of its loops.  A loop without a check of the platform
  range has no text for it; its offsets stay below a file size.\<close>

record io_text =
  io_range :: "string option"
  io_write :: string
  io_stalled :: string
  io_read :: string
  io_ended :: string

definition in_range :: "io_text \<Rightarrow> nat \<Rightarrow> bool" where
  "in_range t position = (io_range t = None \<or> position \<le> off_t_max)"

fun write_loop :: "io_text \<Rightarrow> outcome list \<Rightarrow> disk \<Rightarrow> bytes \<Rightarrow> u64 \<Rightarrow> nat \<Rightarrow> unit expected \<times> disk" where
  "write_loop t os d bs offset written =
     (if \<not> written < length bs then (Inr (), d\<lparr>d_outcomes := os\<rparr>)
      else if \<not> in_range t (unat offset + written)
      then (Inl (the (io_range t)), d\<lparr>d_outcomes := os\<rparr>)
      else (case os of
              [] \<Rightarrow> (Inr (), (pwrite d (drop written bs) (unat offset + written))\<lparr>d_outcomes := []\<rparr>)
            | Interrupted # rest \<Rightarrow> write_loop t rest d bs offset written
            | Failed e # rest \<Rightarrow>
                (Inl (system_error (io_write t) e), d\<lparr>d_outcomes := rest\<rparr>)
            | Progress n # rest \<Rightarrow>
                (let result = min n (length bs - written) in
                 if result = 0
                 then (Inl (io_stalled t), d\<lparr>d_outcomes := rest\<rparr>)
                 else write_loop t rest
                        (pwrite d (take result (drop written bs)) (unat offset + written))
                        bs offset (written + result))))"

declare write_loop.simps [simp del]

definition write_bytes :: "io_text \<Rightarrow> disk \<Rightarrow> bytes \<Rightarrow> u64 \<Rightarrow> unit expected \<times> disk" where
  "write_bytes t d bs offset = write_loop t (d_outcomes d) d bs offset 0"

fun read_loop :: "io_text \<Rightarrow> outcome list \<Rightarrow> disk \<Rightarrow> nat \<Rightarrow> u64 \<Rightarrow> bytes \<Rightarrow> bytes expected \<times> disk" where
  "read_loop t os d wanted offset consumed =
     (if \<not> length consumed < wanted then (Inr consumed, d\<lparr>d_outcomes := os\<rparr>)
      else if \<not> in_range t (unat offset + length consumed)
      then (Inl (the (io_range t)), d\<lparr>d_outcomes := os\<rparr>)
      else
        let available = take (wanted - length consumed)
              (drop (unat offset + length consumed) (d_bytes d))
        in (case os of
              [] \<Rightarrow>
                (if length available < wanted - length consumed
                 then (Inl (io_ended t), d\<lparr>d_outcomes := []\<rparr>)
                 else (Inr (consumed @ available), d\<lparr>d_outcomes := []\<rparr>))
            | Interrupted # rest \<Rightarrow> read_loop t rest d wanted offset consumed
            | Failed e # rest \<Rightarrow>
                (Inl (system_error (io_read t) e), d\<lparr>d_outcomes := rest\<rparr>)
            | Progress n # rest \<Rightarrow>
                (if take n available = []
                 then (Inl (io_ended t), d\<lparr>d_outcomes := rest\<rparr>)
                 else read_loop t rest d wanted offset (consumed @ take n available))))"

declare read_loop.simps [simp del]

definition read_bytes :: "io_text \<Rightarrow> disk \<Rightarrow> nat \<Rightarrow> u64 \<Rightarrow> bytes expected \<times> disk" where
  "read_bytes t d wanted offset = read_loop t (d_outcomes d) d wanted offset []"

definition sync_descriptor :: "disk \<Rightarrow> string \<Rightarrow> unit expected \<times> disk" where
  "sync_descriptor d operation =
     (case retried_call d of
        (None, d') \<Rightarrow> (Inr (), d')
      | (Some e, d') \<Rightarrow> (Inl (system_error operation e), d'))"

definition owner_only_file :: "nat \<Rightarrow> file_meta \<Rightarrow> bool" where
  "owner_only_file euid m =
     (fm_regular m \<and> fm_uid m = euid \<and> fm_permissions m = 384 \<and> fm_links m = 1)"

subsection \<open>What the calls and the loops guarantee\<close>

definition same_file :: "disk \<Rightarrow> disk \<Rightarrow> bool" where
  "same_file d d' =
     (d_path d' = d_path d \<and> d_euid d' = d_euid d \<and> d_clock d' = d_clock d \<and>
      fm_device (d_meta d') = fm_device (d_meta d) \<and> fm_inode (d_meta d') = fm_inode (d_meta d) \<and>
      fm_regular (d_meta d') = fm_regular (d_meta d) \<and> fm_uid (d_meta d') = fm_uid (d_meta d) \<and>
      fm_permissions (d_meta d') = fm_permissions (d_meta d) \<and>
      fm_links (d_meta d') = fm_links (d_meta d))"

lemma same_file_refl [simp]: "same_file d d"
  by (simp add: same_file_def)

lemma same_file_trans: "same_file d d' \<Longrightarrow> same_file d' d'' \<Longrightarrow> same_file d d''"
  by (simp add: same_file_def)

lemma same_file_outcomes [simp]: "same_file d (d'\<lparr>d_outcomes := os\<rparr>) = same_file d d'"
  by (simp add: same_file_def)

lemma same_file_pwrite [simp]:
  "same_file d (pwrite d' bs offset) = same_file d d'"
  "same_file (pwrite d bs offset) d' = same_file d d'"
  by (simp_all add: same_file_def pwrite_def)

lemma same_file_ftruncate [simp]: "same_file d (ftruncate d' n) = same_file d d'"
  by (simp add: same_file_def ftruncate_def)

lemma single_call_file:
  "single_call d = (e, d') \<Longrightarrow> d_bytes d' = d_bytes d \<and> d_meta d' = d_meta d \<and> same_file d d'"
  by (auto simp: single_call_def split: list.splits outcome.splits)

lemma retried_call_file:
  "retried_call d = (e, d') \<Longrightarrow> d_bytes d' = d_bytes d \<and> d_meta d' = d_meta d \<and> same_file d d'"
  by (auto simp: retried_call_def split: prod.splits)

lemma sync_descriptor_file:
  "sync_descriptor d operation = (r, d') \<Longrightarrow>
     d_bytes d' = d_bytes d \<and> d_meta d' = d_meta d \<and> same_file d d'"
  by (auto simp: sync_descriptor_def dest: retried_call_file split: prod.splits option.splits)

lemma splice_at_end [simp]: "splice content bs (length content) = content @ bs"
  by (simp add: splice_def)

lemma pwrite_at_end:
  "d_bytes d = content \<Longrightarrow> n = length content \<Longrightarrow> d_bytes (pwrite d bs n) = content @ bs"
  by (simp add: pwrite_def)

lemma write_loop_extends:
  assumes "write_loop t os d bs offset written = (r, d')"
    and "d_bytes d = content @ take written bs" and "unat offset = length content"
    and "written \<le> length bs"
  shows "same_file d d' \<and>
    (\<exists>k \<le> length bs. d_bytes d' = content @ take k bs \<and> (r = Inr () \<longrightarrow> k = length bs))"
  using assms
proof (induction t os d bs offset written rule: write_loop.induct)
  case (1 t os d bs offset written)
  show ?case
  proof (cases "written < length bs \<and> in_range t (unat offset + written)")
    case False
    then show ?thesis
      using 1(3-6) by (subst (asm) write_loop.simps) (auto split: if_splits)
  next
    case live: True
    note unfolded = 1(3)[unfolded write_loop.simps [of t os d]]
    have len: "length (d_bytes d) = unat offset + written"
      using 1 by simp
    show ?thesis
    proof (cases os)
      case Nil
      have "d_bytes (pwrite d (drop written bs) (unat offset + written)) = content @ bs"
        using 1(4) by (simp add: pwrite_at_end [OF refl len [symmetric]])
      with Nil show ?thesis
        using unfolded live by (auto intro!: exI [of _ "length bs"])
    next
      case (Cons outcome rest)
      show ?thesis
      proof (cases outcome)
        case Interrupted
        then show ?thesis
          using 1(1) [of Interrupted rest] unfolded live Cons 1(4-6) by simp
      next
        case (Failed e)
        then show ?thesis
          using unfolded live Cons 1(4,6) by (auto intro!: exI [of _ written])
      next
        case (Progress n)
        define result where "result = min n (length bs - written)"
        show ?thesis
        proof (cases "result = 0")
          case True
          then show ?thesis
            using unfolded live Cons Progress 1(4,6)
            by (auto simp: result_def Let_def intro!: exI [of _ written])
        next
          case False
          have step: "write_loop t rest (pwrite d (take result (drop written bs)) (unat offset + written))
              bs offset (written + result) = (r, d')"
            using unfolded live Cons Progress False
            by (auto simp: result_def Let_def split: if_splits)
          have bytes: "d_bytes (pwrite d (take result (drop written bs)) (unat offset + written)) =
              content @ take (written + result) bs"
            using 1(4) by (simp add: pwrite_at_end [OF refl len [symmetric]] take_add)
          have bound: "written + result \<le> length bs"
            using live by (auto simp: result_def)
          show ?thesis
            using 1(2) [of "Progress n" rest n result] step bytes bound 1(5) live Cons Progress False
            by (simp add: result_def)
        qed
      qed
    qed
  qed
qed

lemma write_bytes_extends:
  assumes "write_bytes t d bs offset = (r, d')" and "unat offset = length (d_bytes d)"
  shows "same_file d d' \<and>
    (\<exists>k \<le> length bs. d_bytes d' = d_bytes d @ take k bs \<and> (r = Inr () \<longrightarrow> k = length bs))"
  using write_loop_extends [of t "d_outcomes d" d bs offset 0 r d' "d_bytes d"] assms
  by (simp add: write_bytes_def)

lemma take_of_take_append:
  assumes "consumed = take (length consumed) xs"
  shows "consumed @ take n (take m (drop (length consumed) xs)) =
    take (length (consumed @ take n (take m (drop (length consumed) xs)))) xs"
proof -
  have prefix: "y = take k xs \<Longrightarrow> y = take (length y) xs" for y k
    by (simp add: min_def)
  have "consumed @ take n (take m (drop (length consumed) xs)) = take (length consumed + min n m) xs"
    using assms by (metis take_add take_take)
  then show ?thesis by (rule prefix)
qed

lemma read_loop_laws:
  assumes "read_loop t os d wanted offset consumed = (result, d')"
    and "length consumed \<le> wanted" and "consumed = take (length consumed) (drop (unat offset) (d_bytes d))"
  shows "(\<exists>os'. d' = d\<lparr>d_outcomes := os'\<rparr>)"
    "result = Inr bs \<Longrightarrow> length bs = wanted \<and> bs = take wanted (drop (unat offset) (d_bytes d))"
    "os = [] \<Longrightarrow> unat offset + wanted \<le> length (d_bytes d) \<Longrightarrow> length (d_bytes d) \<le> off_t_max \<Longrightarrow>
       \<exists>bs. result = Inr bs \<and> d' = d\<lparr>d_outcomes := []\<rparr>"
proof -
  have "(\<exists>os'. d' = d\<lparr>d_outcomes := os'\<rparr>) \<and>
    (\<forall>bs. result = Inr bs \<longrightarrow> length bs = wanted \<and> bs = take wanted (drop (unat offset) (d_bytes d)))"
    using assms
  proof (induction t os d wanted offset consumed rule: read_loop.induct)
    case (1 t os d wanted offset consumed)
    define available where "available = take (wanted - length consumed)
      (drop (unat offset + length consumed) (d_bytes d))"
    note unfolded = 1(3) [unfolded read_loop.simps [of t os d] Let_def, folded available_def]
    have extend: "consumed @ take n available =
        take (length (consumed @ take n available)) (drop (unat offset) (d_bytes d))"
      for n
    proof -
      have "available = take (wanted - length consumed) (drop (length consumed)
          (drop (unat offset) (d_bytes d)))"
        by (simp add: available_def add.commute)
      then show ?thesis
        by (simp only: take_of_take_append [OF 1(5), symmetric])
    qed
    have bound: "length (consumed @ take n available) \<le> wanted" for n
      using 1(4) by (simp add: available_def)
    show ?case
    proof (cases "length consumed < wanted \<and> in_range t (unat offset + length consumed)")
      case False
      then show ?thesis
        using unfolded 1(4,5) by (auto split: if_splits)
    next
      case live: True
      show ?thesis
      proof (cases os)
        case Nil
        then show ?thesis
          using unfolded live extend [of "wanted - length consumed"]
          by (auto simp: available_def Let_def split: if_splits)
      next
        case (Cons outcome rest)
        show ?thesis
        proof (cases outcome)
          case Interrupted
          with unfolded live Cons have "read_loop t rest d wanted offset consumed = (result, d')"
            by simp
          then show ?thesis
            using 1(1) [OF _ _ available_def Cons Interrupted] live 1(4,5) by simp
        next
          case (Failed e)
          with unfolded live Cons show ?thesis by auto
        next
          case (Progress n)
          show ?thesis
          proof (cases "take n available = []")
            case True
            with unfolded live Cons Progress show ?thesis by (auto split: if_splits)
          next
            case False
            with unfolded live Cons Progress
            have step: "read_loop t rest d wanted offset (consumed @ take n available) = (result, d')"
              by (simp split: if_splits)
            show ?thesis
              by (rule 1(2) [OF _ _ available_def Cons Progress False step bound extend])
                (use live in simp_all)
          qed
        qed
      qed
    qed
  qed
  then show "\<exists>os'. d' = d\<lparr>d_outcomes := os'\<rparr>"
    "result = Inr bs \<Longrightarrow> length bs = wanted \<and> bs = take wanted (drop (unat offset) (d_bytes d))"
    by blast+
  show "\<exists>bs. result = Inr bs \<and> d' = d\<lparr>d_outcomes := []\<rparr>"
    if "os = []" "unat offset + wanted \<le> length (d_bytes d)" "length (d_bytes d) \<le> off_t_max"
    using that assms(1,2)
    by (subst (asm) read_loop.simps) (auto simp: Let_def in_range_def split: if_splits)
qed

text \<open>What a read at the start of a known part of the file answers.\<close>

lemma read_bytes_laws:
  assumes "read_bytes t d (length part) offset = (result, d')"
    and "d_bytes d = pre @ part @ rest" and "unat offset = length pre"
    and "length (d_bytes d) \<le> off_t_max"
  shows "\<exists>os'. d' = d\<lparr>d_outcomes := os'\<rparr> \<and> (d_outcomes d = [] \<longrightarrow> os' = [] \<and> result = Inr part) \<and>
    (result = Inr part \<or> (\<exists>e. result = Inl e))"
proof -
  have step: "read_loop t (d_outcomes d) d (length part) offset [] = (result, d')"
    using assms(1) by (simp add: read_bytes_def)
  obtain os' where d': "d' = d\<lparr>d_outcomes := os'\<rparr>"
    using read_loop_laws(1) [OF step] by auto
  have answer: "result = Inr bs \<Longrightarrow> bs = part" for bs
    using read_loop_laws(2) [OF step, of bs] assms(2,3) by simp
  have "os' = [] \<and> result = Inr part" if calm: "d_outcomes d = []"
  proof -
    obtain bs where "result = Inr bs" "d\<lparr>d_outcomes := os'\<rparr> = d\<lparr>d_outcomes := []\<rparr>"
      using read_loop_laws(3) [OF step] calm assms(2,3,4) d' by auto
    then show ?thesis using answer by (cases d) simp
  qed
  with d' answer show ?thesis
    by (cases result) auto
qed

lemma read_bytes_sound:
  assumes "read_bytes t d n offset = (Inr bs, d')"
  shows "length bs = n" "bs = take n (drop (unat offset) (d_bytes d))" "\<exists>os. d' = d\<lparr>d_outcomes := os\<rparr>"
proof -
  have step: "read_loop t (d_outcomes d) d n offset [] = (Inr bs, d')" "length [] \<le> n"
    "[] = take (length []) (drop (unat offset) (d_bytes d))"
    using assms by (simp_all add: read_bytes_def)
  show "length bs = n" "bs = take n (drop (unat offset) (d_bytes d))" "\<exists>os. d' = d\<lparr>d_outcomes := os\<rparr>"
    using read_loop_laws(1) [OF step] read_loop_laws(2) [OF step refl] by blast+
qed

end
