(* ===== verification/Guest_Channel.thy ===== *)
theory Guest_Channel
  imports Prelude
begin

text \<open>
  The identifier and digest grammars of \<open>src/control/channel_identifier_grammar.hpp\<close>, the
  observation payload, the host-registered admission table \<open>channel_host\<close> of
  \<open>src/control/guest_channel.cpp\<close>, and the Sage adapter that builds one
  (\<open>src/adapters/sage/guest_channel.cpp\<close>).  The catalog's \<open>unordered_map\<close> is an association
  list with distinct keys; a nullable function pointer is an option.
\<close>

subsection \<open>Grammars\<close>

definition byte_of :: "char \<Rightarrow> nat" where
  "byte_of c = of_char c"

definition identifier_byte :: "char \<Rightarrow> bool" where
  "identifier_byte c =
     ((byte_of c \<ge> byte_of CHR ''a'' \<and> byte_of c \<le> byte_of CHR ''z'') \<or>
      (byte_of c \<ge> byte_of CHR ''A'' \<and> byte_of c \<le> byte_of CHR ''Z'') \<or>
      (byte_of c \<ge> byte_of CHR ''0'' \<and> byte_of c \<le> byte_of CHR ''9'') \<or>
      c = CHR ''-'' \<or> c = CHR ''_'' \<or> c = CHR '':'' \<or> c = CHR ''.'')"

definition hex_byte :: "char \<Rightarrow> bool" where
  "hex_byte c =
     ((byte_of c \<ge> byte_of CHR ''0'' \<and> byte_of c \<le> byte_of CHR ''9'') \<or>
      (byte_of c \<ge> byte_of CHR ''a'' \<and> byte_of c \<le> byte_of CHR ''f''))"

definition valid_identifier :: "string \<Rightarrow> bool" where
  "valid_identifier v = (v \<noteq> [] \<and> length v \<le> 128 \<and> list_all identifier_byte v)"

definition valid_digest :: "string \<Rightarrow> bool" where
  "valid_digest v = (length v = 64 \<and> list_all hex_byte v)"

lemma valid_identifierD [grammar_dest]:
  assumes "valid_identifier v"
  shows "v \<noteq> []" and "length v \<le> 128" and "list_all identifier_byte v"
  using assms by (auto simp: valid_identifier_def)

lemma valid_digestD [grammar_dest]:
  assumes "valid_digest v"
  shows "length v = 64" and "v \<noteq> []"
  using assms by (auto simp: valid_digest_def)

lemma hex_is_identifier_byte: "hex_byte c \<Longrightarrow> identifier_byte c"
  by (auto simp: hex_byte_def identifier_byte_def byte_of_def)

lemma valid_digest_identifier: "valid_digest v \<Longrightarrow> valid_identifier v"
  by (auto simp: valid_digest_def valid_identifier_def list_all_iff hex_is_identifier_byte)

lemma valid_identifier_append:
  "valid_identifier a \<Longrightarrow> valid_digest b \<Longrightarrow> length a \<le> 64 \<Longrightarrow> valid_identifier (a @ b)"
  by (auto simp: valid_digest_def valid_identifier_def list_all_iff hex_is_identifier_byte)

lemma identifier_no_newline: "valid_identifier v \<Longrightarrow> CHR ''\<newline>'' \<notin> set v"
  by (auto simp: valid_identifier_def list_all_iff identifier_byte_def byte_of_def)

subsection \<open>Payload and catalog\<close>

record glove_observation_body =
  ob_schema :: string
  ob_intent_id :: string
  ob_observation :: string
  ob_value_digest :: string
  ob_item_count :: u64

record channel_bounds =
  max_items :: nat
  max_body_bytes :: nat
  max_ttl_ms :: u64
  max_skew_ms :: u64

record channel_descriptor =
  schema_id :: string
  body_validator :: "(glove_observation_body \<Rightarrow> bool) option"
  bounds :: channel_bounds

record channel_host =
  descriptors :: "(string \<times> channel_descriptor) list"
  frozen :: bool

definition max_observation_items :: nat where "max_observation_items = 4096"
definition max_observation_body_bytes :: nat where "max_observation_body_bytes = 65536"
definition max_observation_intent_ttl_ms :: u64 where "max_observation_intent_ttl_ms = 600000"
definition max_observation_intent_clock_skew_ms :: u64 where
  "max_observation_intent_clock_skew_ms = 30000"

definition new_channel_host :: channel_host where
  "new_channel_host = \<lparr>descriptors = [], frozen = False\<rparr>"

definition valid_bounds :: "channel_bounds \<Rightarrow> bool" where
  "valid_bounds b =
     (\<not> (max_items b = 0 \<or> max_items b > max_observation_items \<or>
         max_body_bytes b = 0 \<or> max_body_bytes b > max_observation_body_bytes \<or>
         max_ttl_ms b = 0 \<or> max_ttl_ms b > max_observation_intent_ttl_ms \<or>
         max_skew_ms b > max_observation_intent_clock_skew_ms))"

definition register_channel ::
    "channel_host \<Rightarrow> channel_descriptor \<Rightarrow> unit expected \<times> channel_host" where
  "register_channel host descriptor =
     (if frozen host then (Inl ''channel catalog is frozen'', host)
      else if \<not> valid_identifier (schema_id descriptor) \<or> body_validator descriptor = None
      then (Inl ''channel descriptor identity is invalid'', host)
      else if \<not> valid_bounds (bounds descriptor)
      then (Inl ''channel descriptor bounds are invalid'', host)
      else if map_of (descriptors host) (schema_id descriptor) \<noteq> None
      then (Inl ''channel schema is already registered'', host)
      else (Inr (), host\<lparr>descriptors := (schema_id descriptor, descriptor) # descriptors host\<rparr>))"

definition freeze :: "channel_host \<Rightarrow> unit expected \<times> channel_host" where
  "freeze host =
     (if frozen host then (Inr (), host)
      else if descriptors host = [] then (Inl ''cannot freeze an empty channel catalog'', host)
      else (Inr (), host\<lparr>frozen := True\<rparr>))"

definition admits :: "channel_host \<Rightarrow> string \<Rightarrow> channel_descriptor option" where
  "admits host schema = (if \<not> frozen host then None else map_of (descriptors host) schema)"

subsection \<open>The Sage adapter\<close>

record guest_channel_adapter_binding =
  adapter_id :: string
  channel_schema_id :: string
  transport_id :: string
  runtime_ids :: "string list"
  channels :: channel_host
  service_alias :: "string option"
  service_alias_environment :: "string option"

definition observation_schema :: string where
  "observation_schema = ''sage.glove-observation.v1''"

definition accepts_observation :: "glove_observation_body \<Rightarrow> bool" where
  "accepts_observation body = True"

definition sage_descriptor :: channel_descriptor where
  "sage_descriptor =
     \<lparr>schema_id = observation_schema, body_validator = Some accepts_observation,
      bounds = \<lparr>max_items = max_observation_items, max_body_bytes = 8192,
                max_ttl_ms = 600000, max_skew_ms = 30000\<rparr>\<rparr>"

definition guest_channel_host :: "channel_host expected" where
  "guest_channel_host =
     (case register_channel new_channel_host sage_descriptor of
        (Inl e, _) \<Rightarrow> Inl (''register Sage observation channel: '' @ e)
      | (Inr _, host) \<Rightarrow>
          (case freeze host of
             (Inl e, _) \<Rightarrow> Inl (''freeze Sage channel catalog: '' @ e)
           | (Inr _, host') \<Rightarrow> Inr host'))"

definition resolve_guest_channel_adapter ::
    "string \<Rightarrow> string \<Rightarrow> string \<Rightarrow> guest_channel_adapter_binding expected" where
  "resolve_guest_channel_adapter configured_adapter_id configured_channel_schema_id transport =
     (if configured_adapter_id \<noteq> ''sage-observation'' \<or>
         configured_channel_schema_id \<noteq> observation_schema \<or>
         (transport \<noteq> [] \<and> transport \<noteq> ''inherited-stream-v1'')
      then Inl ''unsupported guest channel adapter binding''
      else and_then guest_channel_host (\<lambda>host. Inr
        \<lparr>adapter_id = ''sage-observation'', channel_schema_id = observation_schema,
         transport_id = transport, runtime_ids = [''pi''], channels = host,
         service_alias =
           (if transport = ''inherited-stream-v1'' then Some ''sage-observe'' else None),
         service_alias_environment =
           (if transport = ''inherited-stream-v1''
            then Some ''GLOVE_GUEST_CHANNEL_SERVICE_ALIAS=sage-observe'' else None)\<rparr>))"

subsection \<open>Catalog invariant\<close>

text \<open>
  Every registered descriptor is keyed by its own identifier, is admissible, and its bounds are
  within the ceilings of the core; a frozen catalog is not empty.
\<close>

definition admissible :: "channel_descriptor \<Rightarrow> bool" where
  "admissible d = (valid_identifier (schema_id d) \<and> body_validator d \<noteq> None \<and> valid_bounds (bounds d))"

definition catalog_ok :: "channel_host \<Rightarrow> bool" where
  "catalog_ok host =
     (distinct (map fst (descriptors host)) \<and>
      list_all (\<lambda>(k, d). k = schema_id d \<and> admissible d) (descriptors host) \<and>
      (frozen host \<longrightarrow> descriptors host \<noteq> []))"

inductive catalog_reachable :: "channel_host \<Rightarrow> bool" where
  new: "catalog_reachable new_channel_host"
| register: "catalog_reachable host \<Longrightarrow> catalog_reachable (snd (register_channel host d))"
| freeze: "catalog_reachable host \<Longrightarrow> catalog_reachable (snd (freeze host))"

lemma map_of_None_notin: "map_of xs k = None \<longleftrightarrow> k \<notin> fst ` set xs"
  by (simp add: map_of_eq_None_iff)

lemma register_catalog_ok:
  assumes "catalog_ok host"
  shows "catalog_ok (snd (register_channel host d))"
  using assms
  by (auto simp: register_channel_def catalog_ok_def admissible_def map_of_None_notin)

lemma freeze_catalog_ok: "catalog_ok host \<Longrightarrow> catalog_ok (snd (freeze host))"
  by (auto simp: freeze_def catalog_ok_def)

lemma catalog_reachable_ok: "catalog_reachable host \<Longrightarrow> catalog_ok host"
proof (induction rule: catalog_reachable.induct)
  case new
  show ?case by (simp add: catalog_ok_def new_channel_host_def)
next
  case (register host d)
  then show ?case by (simp add: register_catalog_ok)
next
  case (freeze host)
  then show ?case by (simp add: freeze_catalog_ok)
qed

lemma catalog_ok_admits:
  assumes "catalog_ok host" and "admits host schema = Some d"
  shows "schema_id d = schema" and "admissible d"
proof -
  from assms have "(schema, d) \<in> set (descriptors host)"
    by (auto simp: admits_def map_of_SomeD split: if_splits)
  with assms(1) show "schema_id d = schema" "admissible d"
    by (auto simp: catalog_ok_def list_all_iff)
qed

lemma frozen_register: "frozen host \<Longrightarrow> register_channel host d = (Inl ''channel catalog is frozen'', host)"
  by (simp add: register_channel_def)

lemma frozen_freeze: "frozen host \<Longrightarrow> freeze host = (Inr (), host)"
  by (simp add: freeze_def)

lemma observation_schema_valid: "valid_identifier observation_schema"
  by (simp add: valid_identifier_def observation_schema_def identifier_byte_def byte_of_def)

lemma sage_descriptor_admissible: "admissible sage_descriptor"
  by (simp add: admissible_def sage_descriptor_def observation_schema_valid valid_bounds_def
      max_observation_items_def max_observation_body_bytes_def max_observation_intent_ttl_ms_def
      max_observation_intent_clock_skew_ms_def)

lemma guest_channel_host_eq:
  "guest_channel_host = Inr \<lparr>descriptors = [(observation_schema, sage_descriptor)], frozen = True\<rparr>"
  using sage_descriptor_admissible
  by (simp add: guest_channel_host_def register_channel_def new_channel_host_def freeze_def
      admissible_def sage_descriptor_def)

definition within_ceilings :: "channel_bounds \<Rightarrow> bool" where
  "within_ceilings b =
     (0 < max_items b \<and> max_items b \<le> max_observation_items \<and>
      0 < max_body_bytes b \<and> max_body_bytes b \<le> max_observation_body_bytes \<and>
      0 < max_ttl_ms b \<and> max_ttl_ms b \<le> max_observation_intent_ttl_ms \<and>
      max_skew_ms b \<le> max_observation_intent_clock_skew_ms)"

lemma valid_bounds_within: "valid_bounds b \<longleftrightarrow> within_ceilings b"
  by (auto simp: valid_bounds_def within_ceilings_def not_less word_neq_0_conv)

text \<open>
  C40. Whatever sequence of registrations and freezes the host performs, a schema that the
  catalog admits is a valid identifier with a validator, and its bounds are within the ceilings
  the core enforces; before the freeze nothing is admitted; and after it neither
  \<open>register_channel\<close> nor \<open>freeze\<close> changes the catalog.
\<close>

theorem channel_catalog_admission:
  assumes "catalog_reachable host"
  shows "case admits host schema of
           None \<Rightarrow> True
         | Some d \<Rightarrow> frozen host \<and> schema_id d = schema \<and> valid_identifier schema \<and>
             body_validator d \<noteq> None \<and> within_ceilings (bounds d) \<and>
             snd (register_channel host d') = host \<and> snd (freeze host) = host"
proof (cases "admits host schema")
  case (Some d)
  then have "frozen host" by (simp add: admits_def split: if_splits)
  with Some catalog_ok_admits [OF catalog_reachable_ok [OF assms] Some] show ?thesis
    by (auto simp: admissible_def valid_bounds_within frozen_register frozen_freeze)
qed simp

theorem channel_catalog_admission_witness:
  "\<exists>host. guest_channel_host = Inr host \<and> admits host ''sage.glove-observation.v1'' = Some sage_descriptor \<and>
     within_ceilings (bounds sage_descriptor) \<and> snd (register_channel host sage_descriptor) = host"
proof -
  define host where
    "host = \<lparr>descriptors = [(observation_schema, sage_descriptor)], frozen = True\<rparr>"
  have "host = snd (freeze (snd (register_channel new_channel_host sage_descriptor)))"
    using sage_descriptor_admissible
    by (simp add: host_def register_channel_def new_channel_host_def freeze_def admissible_def
        sage_descriptor_def)
  then have reach: "catalog_reachable host"
    by (simp add: catalog_reachable.intros)
  have adm: "admits host ''sage.glove-observation.v1'' = Some sage_descriptor"
    by (simp add: host_def admits_def observation_schema_def)
  from channel_catalog_admission [OF reach, of "''sage.glove-observation.v1''" sage_descriptor]
    guest_channel_host_eq adm
  show ?thesis by (auto simp: host_def)
qed

end
