(* ===== verification/Paths.thy ===== *)
theory Paths
  imports Prelude "HOL-Library.Sublist"
begin

text \<open>
  The part of \<open>std::filesystem::path\<close> that the sources use on POSIX: iteration over path
  elements, absolute paths, root paths, file names and lexical normalisation.  A path is its
  native string; comparison, iteration and containment go through its element list, in which
  the root directory is the element \<open>/\<close> and a trailing separator gives an empty last element.
\<close>

fun split_on :: "char \<Rightarrow> string \<Rightarrow> string list" where
  "split_on d [] = [[]]"
| "split_on d (c # cs) =
     (if c = d then [] # split_on d cs
      else (case split_on d cs of [] \<Rightarrow> [[c]] | w # ws \<Rightarrow> (c # w) # ws))"

lemma split_on_not_Nil [simp]: "split_on d s \<noteq> []"
  by (induction s) (auto split: list.split)

text \<open>File names after the root: empty words between separators vanish, a final one stays.\<close>

definition name_elements :: "string \<Rightarrow> string list" where
  "name_elements s =
     (let words = split_on CHR ''/'' s; names = filter (\<lambda>w. w \<noteq> []) words
      in if names \<noteq> [] \<and> last words = [] then names @ [[]] else names)"

definition is_absolute :: "string \<Rightarrow> bool" where
  "is_absolute p = (case p of [] \<Rightarrow> False | c # _ \<Rightarrow> c = CHR ''/'')"

definition path_elements :: "string \<Rightarrow> string list" where
  "path_elements p = (if is_absolute p then ''/'' # name_elements p else name_elements p)"

definition path_equal :: "string \<Rightarrow> string \<Rightarrow> bool" where
  "path_equal p q = (path_elements p = path_elements q)"

definition root_path :: "string \<Rightarrow> string" where
  "root_path p = (if is_absolute p then ''/'' else [])"

definition filename :: "string \<Rightarrow> string" where
  "filename p = (case rev (name_elements p) of [] \<Rightarrow> [] | name # _ \<Rightarrow> name)"

text \<open>
  \<open>lexically_normal\<close> of an absolute path: dot elements vanish, a dot-dot element removes the name
  before it or, at the root, itself; what remains keeps a trailing separator when the last
  element was removed or empty.
\<close>

fun normal_step :: "string list \<Rightarrow> string \<Rightarrow> string list" where
  "normal_step stack name =
     (if name = [] \<or> name = ''.'' then stack
      else if name = ''..'' then (case stack of [] \<Rightarrow> [] | _ # rest \<Rightarrow> rest)
      else name # stack)"

definition normal_elements :: "string \<Rightarrow> string list" where
  "normal_elements p =
     (let names = name_elements p; stack = foldl normal_step [] names
      in ''/'' # rev stack @
         (if stack \<noteq> [] \<and> last names \<in> {[], ''.'', ''..''} then [[]] else []))"

definition path_within :: "string \<Rightarrow> string \<Rightarrow> bool" where
  "path_within candidate root = prefix (path_elements root) (path_elements candidate)"

lemma path_within_refl [simp]: "path_within p p"
  by (simp add: path_within_def)

lemma path_within_trans: "path_within p q \<Longrightarrow> path_within q r \<Longrightarrow> path_within p r"
  unfolding path_within_def using prefix_order.trans by blast

lemma path_within_antisym: "path_within p q \<Longrightarrow> path_within q p \<Longrightarrow> path_equal p q"
  unfolding path_within_def path_equal_def using prefix_order.antisym by blast

lemma path_within_linear: "path_within p q \<Longrightarrow> path_within p r \<Longrightarrow> path_within q r \<or> path_within r q"
  unfolding path_within_def by (metis prefix_same_cases)

lemma path_equal_within: "path_equal p q \<Longrightarrow> path_within p q"
  by (simp add: path_within_def path_equal_def)

lemma path_within_root: "is_absolute p \<Longrightarrow> path_within p ''/''"
  by (simp add: path_within_def path_elements_def is_absolute_def name_elements_def)

end
