(* ===== verification/Profile.thy ===== *)
theory Profile
  imports Guest_Channel Paths
begin

text \<open>
  The containment profile and the resource-enforcement receipt of
  \<open>src/container/profile.cpp\<close>: structural validation of a launch profile, the capability
  gate, and the validators of a local receipt and of a trusted remote claim.
  \<open>std::filesystem::weakly_canonical\<close> reads the file system; it is the parameter \<open>canonical\<close>,
  which returns the canonical native path or the message of the error code.
\<close>

subsection \<open>Data\<close>

record fs_rule =
  rule_path :: string
  writable :: bool

record proxy_settings =
  proxy_port :: "16 word"
  proxy_url :: string

record resource_limits =
  lim_cpu_time_ms :: u64
  lim_memory_bytes :: u64
  lim_pids :: u32
  lim_wall_time_ms :: u64
  lim_disk_bytes :: u64
  lim_terminal_output_bytes :: u64

datatype enforcement_mechanism =
  Unavailable | Rlimit | Cgroup_v2 | Watchdog | Filesystem_quota | Byte_counter

record resource_enforcement_capabilities =
  cap_cpu_time :: enforcement_mechanism
  cap_memory :: enforcement_mechanism
  cap_pids :: enforcement_mechanism
  cap_wall_time :: enforcement_mechanism
  cap_disk :: enforcement_mechanism
  cap_terminal_output :: enforcement_mechanism
  cap_receipt_schema_version :: u8

datatype resource_termination_cause =
  Exited | Signaled | Cpu_time_limit | Memory_limit | Pid_limit | Wall_time_limit | Disk_limit
| Terminal_output_limit | Supervisor_error_cause

datatype sandbox_backend =
  Linux_production | Remote_linux_container | Apple_container | Macos_experimental

datatype receipt_observation_authority = Local_enforcement | Trusted_remote_claim

record resource_usage =
  use_cpu_time_ms :: u64
  use_peak_memory_bytes :: u64
  use_peak_pids :: u32
  use_wall_time_ms :: u64
  use_disk_bytes :: u64
  use_terminal_output_bytes :: u64

record library_projection_receipt =
  lp_projection_id :: string
  lp_destination_alias :: string
  lp_target_path :: string
  lp_content_digest :: string

record retained_change_receipt =
  ch_exposure_id :: string
  ch_generation :: u64
  ch_scope_digest :: string
  ch_source_identity_digest :: string
  ch_baseline_tree_digest :: string
  ch_staged_tree_digest :: string
  ch_manifest_digest :: string
  ch_created :: u64
  ch_modified :: u64
  ch_renamed :: u64
  ch_removed :: u64
  ch_before_bytes :: u64
  ch_after_bytes :: u64

record resource_enforcement_receipt =
  rr_schema_version :: u8
  rr_profile_digest :: string
  rr_backend :: sandbox_backend
  rr_backend_id :: string
  rr_observation_authority :: receipt_observation_authority
  rr_independently_verified :: bool
  rr_configured_limits :: resource_limits
  rr_mechanisms :: resource_enforcement_capabilities
  rr_observed :: resource_usage
  rr_termination_cause :: resource_termination_cause
  rr_exit_code :: "int option"
  rr_started_at_ms :: u64
  rr_finished_at_ms :: u64
  rr_library_projections :: "library_projection_receipt list"
  rr_retained_changes :: "retained_change_receipt list"

record profile =
  filesystem :: "fs_rule list"
  runtime_filesystem :: "fs_rule list"
  environment :: "string list"
  home_dir :: "string option"
  managed_home_dir :: "string option"
  temp_dir :: "string option"
  work_dir :: "string option"
  proxy :: "proxy_settings option"
  bridge_endpoint :: "16 word option"
  required_limits :: "resource_limits option"

subsection \<open>Validation of a profile\<close>

definition quoted :: "string \<Rightarrow> string" where
  "quoted s = [CHR 0x27] @ s @ [CHR 0x27]"

definition canonical_path ::
    "(string \<Rightarrow> string expected) \<Rightarrow> string \<Rightarrow> string \<Rightarrow> string expected" where
  "canonical_path canonical raw label =
     (if raw = [] then Inl (label @ '' has empty path'')
      else if \<not> is_absolute raw then Inl (label @ '' must be absolute: '' @ quoted raw)
      else (case canonical raw of
              Inl message \<Rightarrow> Inl (''cannot canonicalise '' @ label @ '' '' @ quoted raw @ '': '' @ message)
            | Inr normal \<Rightarrow>
                if path_equal normal (root_path normal)
                then Inl (label @ '' may not grant the filesystem root'')
                else Inr normal))"

definition is_alpha :: "char \<Rightarrow> bool" where
  "is_alpha c = ((byte_of c \<ge> 65 \<and> byte_of c \<le> 90) \<or> (byte_of c \<ge> 97 \<and> byte_of c \<le> 122))"

definition is_digit :: "char \<Rightarrow> bool" where
  "is_digit c = (byte_of c \<ge> 48 \<and> byte_of c \<le> 57)"

definition is_alnum :: "char \<Rightarrow> bool" where
  "is_alnum c = (is_alpha c \<or> is_digit c)"

definition valid_environment_name :: "string \<Rightarrow> bool" where
  "valid_environment_name name =
     (case name of
        [] \<Rightarrow> False
      | c # cs \<Rightarrow> (is_alpha c \<or> c = CHR ''_'') \<and> list_all (\<lambda>c. is_alnum c \<or> c = CHR ''_'') cs)"

definition valid_bounded_identifier :: "string \<Rightarrow> bool" where
  "valid_bounded_identifier v =
     (v \<noteq> [] \<and> length v \<le> 128 \<and>
      list_all (\<lambda>c. is_alnum c \<or> c = CHR ''-'' \<or> c = CHR ''_'' \<or> c = CHR '':'' \<or> c = CHR ''.'') v)"

definition covered_by :: "fs_rule list \<Rightarrow> string \<Rightarrow> bool \<Rightarrow> bool" where
  "covered_by rules path needs_write =
     list_ex (\<lambda>rule. (needs_write \<longrightarrow> writable rule) \<and> path_within path (rule_path rule)) rules"

text \<open>The canonicalising loop over the ordinary rules, with the set of paths seen so far.\<close>

fun canonical_rules ::
    "(string \<Rightarrow> string expected) \<Rightarrow> string list \<Rightarrow> fs_rule list \<Rightarrow> fs_rule list expected" where
  "canonical_rules canonical seen [] = Inr []"
| "canonical_rules canonical seen (rule # rules) =
     and_then (canonical_path canonical (rule_path rule) ''filesystem rule'') (\<lambda>path.
       if path \<in> set seen then Inl (''duplicate filesystem rule: '' @ quoted path)
       else and_then (canonical_rules canonical (path # seen) rules) (\<lambda>rest.
         Inr (rule\<lparr>rule_path := path\<rparr> # rest)))"

fun overlap_check :: "string \<Rightarrow> fs_rule list \<Rightarrow> unit expected" where
  "overlap_check message [] = Inr ()"
| "overlap_check message (outer # inner_rules) =
     (case find (\<lambda>inner. path_within (rule_path outer) (rule_path inner) \<or>
                         path_within (rule_path inner) (rule_path outer)) inner_rules of
        Some inner \<Rightarrow>
          Inl (message @ quoted (rule_path outer) @ '' and '' @ quoted (rule_path inner))
      | None \<Rightarrow> overlap_check message inner_rules)"

fun canonical_runtime_rules ::
    "(string \<Rightarrow> string expected) \<Rightarrow> fs_rule list \<Rightarrow> string list \<Rightarrow> fs_rule list \<Rightarrow> fs_rule list expected" where
  "canonical_runtime_rules canonical ordinary seen [] = Inr []"
| "canonical_runtime_rules canonical ordinary seen (rule # rules) =
     (if writable rule then Inl ''runtime filesystem rule must be read-only''
      else and_then (canonical_path canonical (rule_path rule) ''runtime filesystem rule'') (\<lambda>path.
        if path \<in> set seen then Inl (''duplicate runtime filesystem rule: '' @ quoted path)
        else if list_ex (\<lambda>r. path_within path (rule_path r) \<or> path_within (rule_path r) path) ordinary
        then Inl (''runtime and ordinary filesystem rules overlap: '' @ quoted path)
        else and_then (canonical_runtime_rules canonical ordinary (path # seen) rules) (\<lambda>rest.
          Inr (rule\<lparr>rule_path := path\<rparr> # rest))))"

definition normalise_optional ::
    "(string \<Rightarrow> string expected) \<Rightarrow> fs_rule list \<Rightarrow> string option \<Rightarrow> string \<Rightarrow> bool \<Rightarrow>
     string option expected" where
  "normalise_optional canonical rules value label needs_write =
     (case value of
        None \<Rightarrow> Inr None
      | Some raw \<Rightarrow> and_then (canonical_path canonical raw label) (\<lambda>path.
          if \<not> covered_by rules path needs_write
          then Inl (label @ '' is not covered by an explicit '' @
                    (if needs_write then ''writable'' else ''filesystem'') @ '' rule'')
          else Inr (Some path)))"

definition reserved_names :: "string list" where
  "reserved_names =
     [''ALL_PROXY'', ''GLOVE_SANDBOXED'', ''HOME'', ''HTTP_PROXY'', ''HTTPS_PROXY'', ''TMPDIR'',
      ''all_proxy'', ''http_proxy'', ''https_proxy'']"

definition entry_name :: "string \<Rightarrow> string" where
  "entry_name entry = takeWhile (\<lambda>c. c \<noteq> CHR ''='') entry"

fun environment_check :: "string list \<Rightarrow> string list \<Rightarrow> unit expected" where
  "environment_check seen [] = Inr ()"
| "environment_check seen (entry # entries) =
     (if CHR ''='' \<notin> set entry then Inl (''environment entry must be NAME=VALUE: '' @ quoted entry)
      else let name = entry_name entry in
        if \<not> valid_environment_name name then Inl (''invalid environment name: '' @ quoted name)
        else if name \<in> set reserved_names
        then Inl (''environment name is managed by glove: '' @ quoted name)
        else if name \<in> set seen then Inl (''duplicate environment entry: '' @ quoted name)
        else environment_check (name # seen) entries)"

definition some_limit_zero :: "resource_limits \<Rightarrow> bool" where
  "some_limit_zero l =
     (lim_cpu_time_ms l = 0 \<or> lim_memory_bytes l = 0 \<or> lim_pids l = 0 \<or> lim_wall_time_ms l = 0 \<or>
      lim_disk_bytes l = 0 \<or> lim_terminal_output_bytes l = 0)"

definition validate :: "(string \<Rightarrow> string expected) \<Rightarrow> profile \<Rightarrow> profile expected" where
  "validate canonical p =
     and_then (canonical_rules canonical [] (filesystem p)) (\<lambda>rules.
     and_then (overlap_check ''overlapping filesystem rules are ambiguous: '' rules) (\<lambda>_.
     and_then (canonical_runtime_rules canonical rules [] (runtime_filesystem p)) (\<lambda>runtime.
     and_then (overlap_check ''overlapping runtime filesystem rules are ambiguous: '' runtime) (\<lambda>_.
     and_then (normalise_optional canonical rules (home_dir p) ''home_dir'' True) (\<lambda>home.
     and_then (case managed_home_dir p of
                 None \<Rightarrow> Inr None
               | Some raw \<Rightarrow> and_then (canonical_path canonical raw ''managed_home_dir'')
                   (\<lambda>path. Inr (Some path))) (\<lambda>managed.
     and_then (normalise_optional canonical rules (temp_dir p) ''temp_dir'' True) (\<lambda>temp.
     and_then (normalise_optional canonical rules (work_dir p) ''work_dir'' False) (\<lambda>work.
     and_then (environment_check [] (environment p)) (\<lambda>_.
       if (case proxy p of None \<Rightarrow> False | Some x \<Rightarrow> proxy_port x = 0 \<or> proxy_url x = [])
       then Inl ''proxy requires a non-zero port and URL''
       else if proxy p \<noteq> None \<and> bridge_endpoint p \<noteq> None
       then Inl (''proxy and bridge_endpoint are mutually exclusive: a credentialed '' @
                 ''reverse endpoint must not also be reachable over raw CONNECT egress'')
       else if bridge_endpoint p = Some 0 then Inl ''bridge_endpoint requires a non-zero port''
       else if (case required_limits p of None \<Rightarrow> False | Some l \<Rightarrow> some_limit_zero l)
       then Inl ''every required resource limit must be non-zero''
       else Inr (p\<lparr>filesystem := rules, runtime_filesystem := runtime, home_dir := home,
                  managed_home_dir := managed, temp_dir := temp, work_dir := work\<rparr>))))))))))"

subsection \<open>Capabilities\<close>

definition complete :: "resource_enforcement_capabilities \<Rightarrow> bool" where
  "complete c =
     ((cap_cpu_time c = Rlimit \<or> cap_cpu_time c = Cgroup_v2) \<and>
      (cap_memory c = Rlimit \<or> cap_memory c = Cgroup_v2) \<and>
      (cap_pids c = Rlimit \<or> cap_pids c = Cgroup_v2) \<and>
      cap_wall_time c = Watchdog \<and> cap_disk c = Filesystem_quota \<and>
      cap_terminal_output c = Byte_counter \<and> cap_receipt_schema_version c = 1)"

fun joined :: "string list \<Rightarrow> string" where
  "joined [] = []"
| "joined [x] = x"
| "joined (x # xs) = x @ '', '' @ joined xs"

definition missing_capabilities :: "resource_enforcement_capabilities \<Rightarrow> string list" where
  "missing_capabilities c =
     (if cap_cpu_time c = Rlimit \<or> cap_cpu_time c = Cgroup_v2 then [] else [''cpu_time'']) @
     (if cap_memory c = Rlimit \<or> cap_memory c = Cgroup_v2 then [] else [''memory'']) @
     (if cap_pids c \<noteq> Cgroup_v2 then [''pids''] else []) @
     (if cap_wall_time c \<noteq> Watchdog then [''wall_time''] else []) @
     (if cap_disk c \<noteq> Filesystem_quota then [''disk''] else []) @
     (if cap_terminal_output c \<noteq> Byte_counter then [''terminal_output''] else []) @
     (if cap_receipt_schema_version c \<noteq> 1 then [''observable_receipts''] else [])"

definition require_resource_enforcement ::
    "profile \<Rightarrow> resource_enforcement_capabilities \<Rightarrow> unit expected" where
  "require_resource_enforcement p capabilities =
     (if required_limits p = None then Inr ()
      else if complete capabilities then Inr ()
      else Inl (''mandatory resource enforcement unavailable: '' @
                joined (missing_capabilities capabilities)))"

subsection \<open>Receipts\<close>

fun projections_ok :: "string \<Rightarrow> string list \<Rightarrow> library_projection_receipt list \<Rightarrow> bool" where
  "projections_ok previous_id targets [] = True"
| "projections_ok previous_id targets (p # ps) =
     (let target = lp_target_path p in
      \<not> (\<not> valid_bounded_identifier (lp_projection_id p) \<or>
         \<not> valid_bounded_identifier (lp_destination_alias p) \<or>
         \<not> valid_digest (lp_content_digest p) \<or> \<not> is_absolute target \<or>
         path_equal target (root_path target) \<or> normal_elements target \<noteq> path_elements target \<or>
         filename target \<noteq> lp_content_digest p @ ''.json'' \<or>
         (previous_id \<noteq> [] \<and> previous_id \<ge> lp_projection_id p) \<or>
         list_ex (\<lambda>existing. path_within target existing \<or> path_within existing target) targets) \<and>
      projections_ok (lp_projection_id p) (targets @ [target]) ps)"

definition valid_library_projection_receipts :: "library_projection_receipt list \<Rightarrow> bool" where
  "valid_library_projection_receipts projections =
     (length projections \<le> 128 \<and> projections_ok [] [] projections)"

definition change_counts_ok :: "retained_change_receipt \<Rightarrow> bool" where
  "change_counts_ok c =
     (\<not> (ch_created c > 100000 \<or> ch_modified c > 100000 \<or> ch_renamed c > 100000 \<or>
         ch_removed c > 100000 \<or>
         ch_created c + ch_modified c + ch_renamed c + ch_removed c > 100000))"

fun changes_ok :: "string \<Rightarrow> u64 \<Rightarrow> retained_change_receipt list \<Rightarrow> bool" where
  "changes_ok previous_id disk_bytes [] = True"
| "changes_ok previous_id disk_bytes (c # cs) =
     (\<not> (\<not> valid_bounded_identifier (ch_exposure_id c) \<or> ch_generation c = 0 \<or>
         \<not> valid_digest (ch_scope_digest c) \<or> \<not> valid_digest (ch_source_identity_digest c) \<or>
         \<not> valid_digest (ch_baseline_tree_digest c) \<or> \<not> valid_digest (ch_staged_tree_digest c) \<or>
         \<not> valid_digest (ch_manifest_digest c) \<or>
         (previous_id \<noteq> [] \<and> previous_id \<ge> ch_exposure_id c) \<or> \<not> change_counts_ok c \<or>
         ch_before_bytes c > disk_bytes \<or> ch_after_bytes c > disk_bytes) \<and>
      changes_ok (ch_exposure_id c) disk_bytes cs)"

definition valid_retained_change_receipts :: "retained_change_receipt list \<Rightarrow> u64 \<Rightarrow> bool" where
  "valid_retained_change_receipts changes disk_bytes =
     (length changes \<le> 64 \<and> changes_ok [] disk_bytes changes)"

definition validate_resource_enforcement_receipt ::
    "resource_enforcement_receipt \<Rightarrow> resource_limits \<Rightarrow> resource_enforcement_capabilities \<Rightarrow>
     sandbox_backend \<Rightarrow> string \<Rightarrow> unit expected" where
  "validate_resource_enforcement_receipt r expected_limits expected_capabilities expected_backend
     expected_profile_digest =
     (if rr_backend r = Remote_linux_container \<or> expected_backend = Remote_linux_container \<or>
         rr_observation_authority r \<noteq> Local_enforcement \<or> \<not> rr_independently_verified r
      then Inl ''trusted remote claims are not local enforcement receipts''
      else if rr_schema_version r \<noteq> 1 then Inl ''unsupported resource receipt schema''
      else if \<not> valid_digest expected_profile_digest \<or> rr_profile_digest r \<noteq> expected_profile_digest
      then Inl ''resource receipt profile digest mismatch''
      else if \<not> valid_bounded_identifier (rr_backend_id r)
      then Inl ''resource receipt has invalid backend identity''
      else if rr_backend r \<noteq> expected_backend then Inl ''resource receipt sandbox backend mismatch''
      else if rr_configured_limits r \<noteq> expected_limits
      then Inl ''resource receipt configured limits mismatch''
      else if \<not> complete expected_capabilities \<or> rr_mechanisms r \<noteq> expected_capabilities
      then Inl ''resource receipt enforcement mechanisms mismatch''
      else if \<not> valid_library_projection_receipts (rr_library_projections r)
      then Inl ''resource receipt library projections are invalid''
      else if \<not> valid_retained_change_receipts (rr_retained_changes r)
                  (lim_disk_bytes (rr_configured_limits r))
      then Inl ''resource receipt retained changes are invalid''
      else if rr_started_at_ms r = 0 \<or> rr_finished_at_ms r < rr_started_at_ms r
      then Inl ''resource receipt has invalid time bounds''
      else if rr_termination_cause r = Exited
      then (case rr_exit_code r of
              None \<Rightarrow> Inl ''exited receipt requires a valid exit code''
            | Some code \<Rightarrow>
                if code < 0 \<or> code > 255 then Inl ''exited receipt requires a valid exit code''
                else Inr ())
      else if rr_exit_code r \<noteq> None
      then Inl ''non-exit termination receipt may not carry an exit code''
      else Inr ())"

definition validate_trusted_remote_resource_claim ::
    "resource_enforcement_receipt \<Rightarrow> resource_limits \<Rightarrow> string \<Rightarrow> unit expected" where
  "validate_trusted_remote_resource_claim r expected_limits expected_profile_digest =
     (if rr_backend r \<noteq> Remote_linux_container \<or> rr_observation_authority r \<noteq> Trusted_remote_claim \<or>
         rr_independently_verified r \<or> rr_retained_changes r \<noteq> []
      then Inl ''resource receipt is not a bounded trusted remote claim''
      else validate_resource_enforcement_receipt
             (r\<lparr>rr_backend := Linux_production, rr_observation_authority := Local_enforcement,
                rr_independently_verified := True\<rparr>)
             expected_limits (rr_mechanisms r) Linux_production expected_profile_digest)"

subsection \<open>What validation establishes\<close>

definition separate_rules :: "fs_rule \<Rightarrow> fs_rule \<Rightarrow> bool" where
  "separate_rules a b =
     (\<not> path_within (rule_path a) (rule_path b) \<and> \<not> path_within (rule_path b) (rule_path a))"

definition canonical_rule :: "(string \<Rightarrow> string expected) \<Rightarrow> fs_rule \<Rightarrow> bool" where
  "canonical_rule canonical r =
     (\<not> path_equal (rule_path r) (root_path (rule_path r)) \<and> (\<exists>raw. canonical raw = Inr (rule_path r)))"

fun covered_option :: "fs_rule list \<Rightarrow> string option \<Rightarrow> bool \<Rightarrow> bool" where
  "covered_option rules None w = True"
| "covered_option rules (Some path) w = covered_by rules path w"

definition environment_ok :: "string list \<Rightarrow> bool" where
  "environment_ok entries =
     (list_all (\<lambda>e. CHR ''='' \<in> set e \<and> valid_environment_name (entry_name e) \<and>
                    entry_name e \<notin> set reserved_names) entries \<and>
      distinct (map entry_name entries))"

definition contained_profile :: "(string \<Rightarrow> string expected) \<Rightarrow> profile \<Rightarrow> bool" where
  "contained_profile canonical q =
     (list_all (canonical_rule canonical) (filesystem q) \<and>
      sorted_wrt separate_rules (filesystem q) \<and>
      list_all (\<lambda>r. \<not> writable r \<and> canonical_rule canonical r \<and>
                    list_all (separate_rules r) (filesystem q)) (runtime_filesystem q) \<and>
      sorted_wrt separate_rules (runtime_filesystem q) \<and>
      covered_option (filesystem q) (home_dir q) True \<and>
      covered_option (filesystem q) (temp_dir q) True \<and>
      covered_option (filesystem q) (work_dir q) False \<and>
      environment_ok (environment q) \<and>
      \<not> (proxy q \<noteq> None \<and> bridge_endpoint q \<noteq> None) \<and> bridge_endpoint q \<noteq> Some 0 \<and>
      (case required_limits q of None \<Rightarrow> True | Some l \<Rightarrow> \<not> some_limit_zero l))"

lemma canonical_path_Inr:
  "canonical_path canonical raw label = Inr path \<longleftrightarrow>
     raw \<noteq> [] \<and> is_absolute raw \<and> canonical raw = Inr path \<and> \<not> path_equal path (root_path path)"
  by (auto simp: canonical_path_def split: sum.splits)

lemma overlap_check_Inr: "overlap_check m rules = Inr u \<longleftrightarrow> sorted_wrt separate_rules rules"
proof (induction rules)
  case (Cons r rs)
  have "find (\<lambda>i. path_within (rule_path r) (rule_path i) \<or> path_within (rule_path i) (rule_path r)) rs
      = None \<longleftrightarrow> (\<forall>i \<in> set rs. separate_rules r i)"
    by (auto simp: find_None_iff separate_rules_def)
  with Cons show ?case by (auto split: option.splits)
qed simp

lemma canonical_rules_Inr:
  "canonical_rules canonical seen rules = Inr out \<Longrightarrow>
     list_all (canonical_rule canonical) out \<and> map writable out = map writable rules"
proof (induction rules arbitrary: seen out)
  case (Cons r rs)
  then obtain path rest where path: "canonical_path canonical (rule_path r) ''filesystem rule'' = Inr path"
    and rest: "canonical_rules canonical (path # seen) rs = Inr rest"
    and out: "out = r\<lparr>rule_path := path\<rparr> # rest"
    by (auto simp: and_then_Inr split: if_splits)
  from path have "canonical_rule canonical (r\<lparr>rule_path := path\<rparr>)"
    by (auto simp: canonical_rule_def canonical_path_Inr)
  with out Cons.IH [OF rest] show ?case by simp
qed simp

lemma canonical_runtime_rules_Inr:
  "canonical_runtime_rules canonical ordinary seen rules = Inr out \<Longrightarrow>
     list_all (\<lambda>r. \<not> writable r \<and> canonical_rule canonical r \<and> list_all (separate_rules r) ordinary) out"
proof (induction rules arbitrary: seen out)
  case (Cons r rs)
  then obtain path rest where path: "canonical_path canonical (rule_path r) ''runtime filesystem rule'' = Inr path"
    and w: "\<not> writable r"
    and apart: "\<not> list_ex (\<lambda>f. path_within path (rule_path f) \<or> path_within (rule_path f) path) ordinary"
    and rest: "canonical_runtime_rules canonical ordinary (path # seen) rs = Inr rest"
    and out: "out = r\<lparr>rule_path := path\<rparr> # rest"
    by (auto simp: and_then_Inr split: if_splits)
  from path have "canonical_rule canonical (r\<lparr>rule_path := path\<rparr>)"
    by (auto simp: canonical_rule_def canonical_path_Inr)
  moreover from apart have "list_all (separate_rules (r\<lparr>rule_path := path\<rparr>)) ordinary"
    by (simp add: separate_rules_def list_all_iff list_ex_iff)
  ultimately show ?case using out w Cons.IH [OF rest] by simp
qed simp

lemma normalise_optional_Inr:
  "normalise_optional canonical rules v label w = Inr out \<Longrightarrow> covered_option rules out w"
  by (auto simp: normalise_optional_def and_then_Inr split: option.splits if_splits)

lemma environment_check_Inr:
  "environment_check seen entries = Inr u \<longleftrightarrow>
     environment_ok entries \<and> set (map entry_name entries) \<inter> set seen = {}"
  by (induction entries arbitrary: seen) (auto simp: environment_ok_def Let_def)

lemma validate_Inr:
  assumes "validate canonical p = Inr q"
  shows "contained_profile canonical q \<and> environment q = environment p \<and>
         required_limits q = required_limits p \<and> map writable (filesystem q) = map writable (filesystem p)"
  using assms
  by (auto simp: validate_def and_then_Inr contained_profile_def overlap_check_Inr
      environment_check_Inr
      dest: canonical_rules_Inr canonical_runtime_rules_Inr normalise_optional_Inr
      split: if_splits option.splits)

text \<open>
  C35. A profile that \<open>validate\<close> accepts is contained: every path is canonical and not the root,
  the ordinary and the runtime rules are pairwise unrelated, runtime rules are read-only, home
  and temporary directories lie under writable rules, the working directory under some rule,
  environment names are well formed, distinct and not managed, the CONNECT proxy and the
  credentialed endpoint are never combined, and no required limit is zero.
\<close>

theorem validate_contained:
  "case validate canonical p of
     Inl _ \<Rightarrow> True
   | Inr q \<Rightarrow> contained_profile canonical q \<and> environment q = environment p \<and>
              required_limits q = required_limits p \<and>
              map writable (filesystem q) = map writable (filesystem p)"
  using validate_Inr by (cases "validate canonical p") auto

text \<open>
  Mandatory limits are all or nothing: a profile with required limits passes the gate
  exactly when every one of the six mechanisms and the receipt schema is present.
\<close>

theorem require_resource_enforcement_iff:
  "require_resource_enforcement p c = Inr () \<longleftrightarrow>
     required_limits p = None \<or>
     (cap_cpu_time c \<in> {Rlimit, Cgroup_v2} \<and> cap_memory c \<in> {Rlimit, Cgroup_v2} \<and>
      cap_pids c \<in> {Rlimit, Cgroup_v2} \<and> cap_wall_time c = Watchdog \<and>
      cap_disk c = Filesystem_quota \<and> cap_terminal_output c = Byte_counter \<and>
      cap_receipt_schema_version c = 1)"
  by (simp add: require_resource_enforcement_def complete_def)

subsection \<open>What the receipt validators establish\<close>

lemma word_sum4_bound:
  fixes a b c d :: u64
  assumes "unat a \<le> 100000" and "unat b \<le> 100000" and "unat c \<le> 100000" and "unat d \<le> 100000"
  shows "unat (a + b + c + d) = unat a + unat b + unat c + unat d"
proof -
  have ab: "unat (a + b) = unat a + unat b"
    using assms by (simp add: unat_word_ariths)
  have abc: "unat (a + b + c) = unat a + unat b + unat c"
    using assms ab by (simp add: unat_word_ariths)
  show ?thesis using assms abc by (simp add: unat_word_ariths)
qed

lemma change_counts_exact:
  "change_counts_ok c \<longleftrightarrow>
     unat (ch_created c) + unat (ch_modified c) + unat (ch_renamed c) + unat (ch_removed c) \<le> 100000"
proof (cases "ch_created c \<le> 100000 \<and> ch_modified c \<le> 100000 \<and> ch_renamed c \<le> 100000 \<and> ch_removed c \<le> 100000")
  case True
  then have "unat (ch_created c) \<le> 100000" "unat (ch_modified c) \<le> 100000"
    "unat (ch_renamed c) \<le> 100000" "unat (ch_removed c) \<le> 100000"
    by (simp_all add: word_le_nat_alt)
  from word_sum4_bound [OF this] True show ?thesis
    by (auto simp: change_counts_ok_def not_less word_le_nat_alt)
next
  case False
  then show ?thesis by (auto simp: change_counts_ok_def not_less word_le_nat_alt)
qed

definition exit_code_ok :: "resource_termination_cause \<Rightarrow> int option \<Rightarrow> bool" where
  "exit_code_ok cause code =
     (case code of None \<Rightarrow> cause \<noteq> Exited | Some c \<Rightarrow> cause = Exited \<and> 0 \<le> c \<and> c \<le> 255)"

lemma validate_receipt_Inr:
  "validate_resource_enforcement_receipt r limits caps backend digest = Inr u \<longleftrightarrow>
     rr_backend r = backend \<and> backend \<noteq> Remote_linux_container \<and>
     rr_observation_authority r = Local_enforcement \<and> rr_independently_verified r \<and>
     rr_schema_version r = 1 \<and> valid_digest digest \<and> rr_profile_digest r = digest \<and>
     valid_bounded_identifier (rr_backend_id r) \<and> rr_configured_limits r = limits \<and>
     complete caps \<and> rr_mechanisms r = caps \<and>
     valid_library_projection_receipts (rr_library_projections r) \<and>
     valid_retained_change_receipts (rr_retained_changes r) (lim_disk_bytes limits) \<and>
     rr_started_at_ms r \<noteq> 0 \<and> rr_started_at_ms r \<le> rr_finished_at_ms r \<and>
     exit_code_ok (rr_termination_cause r) (rr_exit_code r)"
  by (auto simp: validate_resource_enforcement_receipt_def exit_code_ok_def not_less
      split: option.splits if_splits)

lemma validate_remote_Inr:
  "validate_trusted_remote_resource_claim r limits digest = Inr u \<longleftrightarrow>
     rr_backend r = Remote_linux_container \<and> rr_observation_authority r = Trusted_remote_claim \<and>
     \<not> rr_independently_verified r \<and> rr_retained_changes r = [] \<and>
     rr_schema_version r = 1 \<and> valid_digest digest \<and> rr_profile_digest r = digest \<and>
     valid_bounded_identifier (rr_backend_id r) \<and> rr_configured_limits r = limits \<and>
     complete (rr_mechanisms r) \<and>
     valid_library_projection_receipts (rr_library_projections r) \<and>
     rr_started_at_ms r \<noteq> 0 \<and> rr_started_at_ms r \<le> rr_finished_at_ms r \<and>
     exit_code_ok (rr_termination_cause r) (rr_exit_code r)"
  by (auto simp: validate_trusted_remote_resource_claim_def validate_receipt_Inr
      valid_retained_change_receipts_def split: if_splits)

lemma projections_sorted:
  "projections_ok prev targets ps \<Longrightarrow>
     sorted_wrt (<) (map lp_projection_id ps) \<and>
     (prev \<noteq> [] \<longrightarrow> list_all (\<lambda>p. prev < lp_projection_id p) ps) \<and>
     sorted_wrt (\<lambda>a b. \<not> path_within a b \<and> \<not> path_within b a) (map lp_target_path ps) \<and>
     list_all (\<lambda>p. list_all (\<lambda>t. \<not> path_within (lp_target_path p) t \<and> \<not> path_within t (lp_target_path p)) targets) ps"
proof (induction ps arbitrary: prev targets)
  case (Cons p ps)
  then have step: "projections_ok (lp_projection_id p) (targets @ [lp_target_path p]) ps"
    and id: "lp_projection_id p \<noteq> []" and lt: "prev \<noteq> [] \<longrightarrow> prev < lp_projection_id p"
    and apart: "list_all (\<lambda>t. \<not> path_within (lp_target_path p) t \<and> \<not> path_within t (lp_target_path p)) targets"
    by (auto simp: Let_def valid_bounded_identifier_def list_ex_iff list_all_iff not_le)
  from Cons.IH [OF step] id lt apart show ?case
    by (auto simp: list_all_iff)
qed simp

text \<open>
  C36. A receipt is either local enforcement evidence or a trusted remote claim, never both, and
  whichever validator accepts it: the projections have strictly increasing identifiers and
  pairwise unrelated target paths, the change counters of every retained workspace add up
  without wrap-around to at most 100,000, and an exit code in 0..255 is present exactly when
  the process exited.
\<close>

theorem receipt_validators:
  "\<not> (is_value (validate_resource_enforcement_receipt r limits caps backend digest) \<and>
      is_value (validate_trusted_remote_resource_claim r limits' digest')) \<and>
   (if is_value (validate_resource_enforcement_receipt r limits caps backend digest) \<or>
       is_value (validate_trusted_remote_resource_claim r limits' digest')
    then sorted_wrt (<) (map lp_projection_id (rr_library_projections r)) \<and>
         sorted_wrt (\<lambda>a b. \<not> path_within a b \<and> \<not> path_within b a)
           (map lp_target_path (rr_library_projections r)) \<and>
         list_all (\<lambda>c. unat (ch_created c) + unat (ch_modified c) + unat (ch_renamed c) +
                        unat (ch_removed c) \<le> 100000) (rr_retained_changes r) \<and>
         exit_code_ok (rr_termination_cause r) (rr_exit_code r)
    else True)"
proof -
  have changes: "changes_ok prev disk cs \<Longrightarrow> list_all change_counts_ok cs" for prev disk cs
    by (induction cs arbitrary: prev) auto
  show ?thesis
    by (auto simp: is_value_iff validate_receipt_Inr validate_remote_Inr
        valid_library_projection_receipts_def valid_retained_change_receipts_def
        simp flip: change_counts_exact dest: changes projections_sorted)
qed

end
