(* ===== verification/Receipt_Chain.thy ===== *)
theory Receipt_Chain
  imports Profile Codec Sha256
begin

text \<open>
  Authenticated terminal receipts: the canonical encoding and digest of a
  resource-enforcement receipt, the HMAC-SHA-256 chain over both receipt kinds and its
  verifier (\<open>src/container/receipt_chain.cpp\<close>), with the digest of a refinement evaluation
  receipt (\<open>src/container/refinement_protocol.cpp\<close>).  Wiping key material has no observable
  result and is not represented.  \<open>std::map\<close> metrics are a list of pairs in key order.
\<close>

unbundle bit_operations_syntax

subsection \<open>Hexadecimal digests\<close>

definition hex_nibble :: "char \<Rightarrow> u8 expected" where
  "hex_nibble c =
     (if byte_of c \<ge> 48 \<and> byte_of c \<le> 57 then Inr (of_nat (byte_of c) - 48)
      else if byte_of c \<ge> 97 \<and> byte_of c \<le> 102 then Inr (of_nat (byte_of c) - 97 + 10)
      else Inl ''invalid lowercase hexadecimal input'')"

fun decode_pairs :: "string \<Rightarrow> bytes expected" where
  "decode_pairs (h # l # rest) =
     (case (hex_nibble h, hex_nibble l) of
        (Inr high, Inr low) \<Rightarrow>
          and_then (decode_pairs rest) (\<lambda>bs. Inr ((push_bit 4 high OR low) # bs))
      | _ \<Rightarrow> Inl ''invalid lowercase hexadecimal input'')"
| "decode_pairs _ = Inr []"

definition decode_digest :: "string \<Rightarrow> bytes expected" where
  "decode_digest v =
     (if \<not> valid_digest v then Inl ''expected 32-byte lowercase hexadecimal input''
      else decode_pairs v)"

definition constant_time_digest_equal :: "string \<Rightarrow> string \<Rightarrow> bool" where
  "constant_time_digest_equal left right =
     (case (decode_digest left, decode_digest right) of
        (Inr left_bytes, Inr right_bytes) \<Rightarrow>
          foldl (\<lambda>difference (l, r). difference OR (l XOR r)) 0 (zip left_bytes right_bytes) = (0 :: u8)
      | _ \<Rightarrow> False)"

subsection \<open>Names of the enumerations\<close>

fun backend_name :: "sandbox_backend \<Rightarrow> string" where
  "backend_name Linux_production = ''linux_production''"
| "backend_name Remote_linux_container = ''remote_linux_container''"
| "backend_name Apple_container = ''apple_container''"
| "backend_name Macos_experimental = ''macos_experimental''"

fun authority_name :: "receipt_observation_authority \<Rightarrow> string" where
  "authority_name Local_enforcement = ''local_enforcement''"
| "authority_name Trusted_remote_claim = ''trusted_remote_claim''"

fun mechanism_name :: "enforcement_mechanism \<Rightarrow> string" where
  "mechanism_name Unavailable = ''unavailable''"
| "mechanism_name Rlimit = ''rlimit''"
| "mechanism_name Cgroup_v2 = ''cgroup_v2''"
| "mechanism_name Watchdog = ''watchdog''"
| "mechanism_name Filesystem_quota = ''filesystem_quota''"
| "mechanism_name Byte_counter = ''byte_counter''"

fun termination_name :: "resource_termination_cause \<Rightarrow> string" where
  "termination_name Exited = ''exited''"
| "termination_name Signaled = ''signaled''"
| "termination_name Cpu_time_limit = ''cpu_time_limit''"
| "termination_name Memory_limit = ''memory_limit''"
| "termination_name Pid_limit = ''pid_limit''"
| "termination_name Wall_time_limit = ''wall_time_limit''"
| "termination_name Disk_limit = ''disk_limit''"
| "termination_name Terminal_output_limit = ''terminal_output_limit''"
| "termination_name Supervisor_error_cause = ''supervisor_error''"

subsection \<open>Canonical receipt encoding\<close>

definition append_limits :: "bytes \<Rightarrow> resource_limits \<Rightarrow> bytes" where
  "append_limits encoder limits =
     (let encoder = append_u64 encoder (lim_cpu_time_ms limits);
          encoder = append_u64 encoder (lim_memory_bytes limits);
          encoder = append_u32 encoder (lim_pids limits);
          encoder = append_u64 encoder (lim_wall_time_ms limits);
          encoder = append_u64 encoder (lim_disk_bytes limits)
      in append_u64 encoder (lim_terminal_output_bytes limits))"

definition append_capabilities :: "bytes \<Rightarrow> resource_enforcement_capabilities \<Rightarrow> bytes" where
  "append_capabilities encoder capabilities =
     (let encoder = encoder_append_string encoder (mechanism_name (cap_cpu_time capabilities));
          encoder = encoder_append_string encoder (mechanism_name (cap_memory capabilities));
          encoder = encoder_append_string encoder (mechanism_name (cap_pids capabilities));
          encoder = encoder_append_string encoder (mechanism_name (cap_wall_time capabilities));
          encoder = encoder_append_string encoder (mechanism_name (cap_disk capabilities));
          encoder = encoder_append_string encoder (mechanism_name (cap_terminal_output capabilities))
      in append_u8 encoder (cap_receipt_schema_version capabilities))"

definition append_library_projection :: "bytes \<Rightarrow> library_projection_receipt \<Rightarrow> bytes" where
  "append_library_projection encoder p =
     (let encoder = encoder_append_string encoder (lp_projection_id p);
          encoder = encoder_append_string encoder (lp_destination_alias p);
          encoder = encoder_append_string encoder (lp_target_path p)
      in encoder_append_string encoder (lp_content_digest p))"

definition append_retained_change :: "bytes \<Rightarrow> retained_change_receipt \<Rightarrow> bytes" where
  "append_retained_change encoder c =
     (let encoder = encoder_append_string encoder (ch_exposure_id c);
          encoder = append_u64 encoder (ch_generation c);
          encoder = encoder_append_string encoder (ch_scope_digest c);
          encoder = encoder_append_string encoder (ch_source_identity_digest c);
          encoder = encoder_append_string encoder (ch_baseline_tree_digest c);
          encoder = encoder_append_string encoder (ch_staged_tree_digest c);
          encoder = encoder_append_string encoder (ch_manifest_digest c);
          encoder = append_u64 encoder (ch_created c);
          encoder = append_u64 encoder (ch_modified c);
          encoder = append_u64 encoder (ch_renamed c);
          encoder = append_u64 encoder (ch_removed c);
          encoder = append_u64 encoder (ch_before_bytes c)
      in append_u64 encoder (ch_after_bytes c))"

definition append_exit_code :: "bytes \<Rightarrow> int option \<Rightarrow> bytes" where
  "append_exit_code encoder code =
     (case code of
        None \<Rightarrow> append_u8 encoder 0
      | Some c \<Rightarrow> append_u32 (append_u8 encoder 1) (word_of_int c))"

definition encode_receipt :: "resource_enforcement_receipt \<Rightarrow> bytes expected" where
  "encode_receipt r =
     (case (if rr_backend r = Remote_linux_container
            then validate_trusted_remote_resource_claim r (rr_configured_limits r) (rr_profile_digest r)
            else validate_resource_enforcement_receipt r (rr_configured_limits r) (rr_mechanisms r)
                   (rr_backend r) (rr_profile_digest r)) of
        Inl e \<Rightarrow> Inl (''invalid receipt for audit: '' @ e)
      | Inr _ \<Rightarrow>
        let encoder = encoder_append_string [] ''glove.resource-enforcement-receipt'';
            encoder = append_u8 encoder 1;
            encoder = append_u8 encoder (rr_schema_version r);
            encoder = encoder_append_string encoder (rr_profile_digest r);
            encoder = encoder_append_string encoder (backend_name (rr_backend r));
            encoder = encoder_append_string encoder (rr_backend_id r);
            encoder =
              (if rr_backend r = Remote_linux_container
               then let encoder = encoder_append_string encoder ''glove.remote-observation-authority'';
                        encoder = append_u8 encoder 1;
                        encoder = encoder_append_string encoder (authority_name (rr_observation_authority r))
                    in append_u8 encoder (if rr_independently_verified r then 1 else 0)
               else encoder);
            encoder = append_limits encoder (rr_configured_limits r);
            encoder = append_capabilities encoder (rr_mechanisms r);
            encoder = append_u64 encoder (use_cpu_time_ms (rr_observed r));
            encoder = append_u64 encoder (use_peak_memory_bytes (rr_observed r));
            encoder = append_u32 encoder (use_peak_pids (rr_observed r));
            encoder = append_u64 encoder (use_wall_time_ms (rr_observed r));
            encoder = append_u64 encoder (use_disk_bytes (rr_observed r));
            encoder = append_u64 encoder (use_terminal_output_bytes (rr_observed r));
            encoder = encoder_append_string encoder (termination_name (rr_termination_cause r));
            encoder = append_exit_code encoder (rr_exit_code r);
            encoder = append_u64 encoder (rr_started_at_ms r);
            encoder = append_u64 encoder (rr_finished_at_ms r);
            encoder =
              (if rr_library_projections r = [] then encoder
               else let encoder = encoder_append_string encoder ''glove.library-projection-receipts'';
                        encoder = append_u8 encoder 1;
                        encoder = append_u32 encoder (of_nat (length (rr_library_projections r)))
                    in foldl append_library_projection encoder (rr_library_projections r));
            encoder =
              (if rr_retained_changes r = [] then encoder
               else let encoder = encoder_append_string encoder ''glove.retained-change-receipts'';
                        encoder = append_u8 encoder 1;
                        encoder = append_u32 encoder (of_nat (length (rr_retained_changes r)))
                    in foldl append_retained_change encoder (rr_retained_changes r))
        in Inr encoder)"

definition resource_enforcement_receipt_digest :: "resource_enforcement_receipt \<Rightarrow> string expected" where
  "resource_enforcement_receipt_digest r = and_then (encode_receipt r) sha256_hex"

subsection \<open>Keys and HMAC\<close>

definition derive_key_id :: "bytes \<Rightarrow> string expected" where
  "derive_key_id key =
     (let encoder = encoder_append_string [] ''glove.audit-key-id'';
          encoder = append_u8 encoder 1;
          encoder = append_u32 encoder (of_nat (length key));
          encoder = foldl append_u8 encoder key
      in sha256_hex encoder)"

definition xor_pad :: "u8 \<Rightarrow> bytes \<Rightarrow> bytes" where
  "xor_pad filler key =
     map (\<lambda>i. if i < length key then filler XOR key ! i else filler) [0..<64]"

definition hmac_sha256_hex :: "bytes \<Rightarrow> bytes \<Rightarrow> string expected" where
  "hmac_sha256_hex key message =
     (if length key > 64 then Inl ''HMAC key exceeds one SHA-256 block''
      else and_then (sha256_hex (xor_pad 0x36 key @ message)) (\<lambda>inner_hex.
           and_then (decode_digest inner_hex) (\<lambda>inner_digest.
             sha256_hex (xor_pad 0x5c key @ inner_digest))))"

definition envelope_material ::
    "u64 \<Rightarrow> string \<Rightarrow> string \<Rightarrow> string \<Rightarrow> string \<Rightarrow> string \<Rightarrow> bytes" where
  "envelope_material sequence key_id session_id controller_plan_digest receipt_digest previous_hmac =
     (let encoder = encoder_append_string [] ''glove.receipt-audit-envelope'';
          encoder = append_u8 encoder 1;
          encoder = append_u64 encoder sequence;
          encoder = encoder_append_string encoder key_id;
          encoder = encoder_append_string encoder session_id;
          encoder = encoder_append_string encoder controller_plan_digest;
          encoder = encoder_append_string encoder receipt_digest
      in encoder_append_string encoder previous_hmac)"

definition refinement_envelope_material ::
    "u64 \<Rightarrow> string \<Rightarrow> string \<Rightarrow> string \<Rightarrow> string \<Rightarrow> string \<Rightarrow> bytes" where
  "refinement_envelope_material sequence key_id session_id controller_plan_digest receipt_digest
     previous_hmac =
     (let encoder = encoder_append_string [] ''glove.refinement-receipt-audit-envelope'';
          encoder = append_u8 encoder 1;
          encoder = append_u64 encoder sequence;
          encoder = encoder_append_string encoder key_id;
          encoder = encoder_append_string encoder session_id;
          encoder = encoder_append_string encoder controller_plan_digest;
          encoder = encoder_append_string encoder receipt_digest
      in encoder_append_string encoder previous_hmac)"

subsection \<open>Refinement evaluation receipts\<close>

datatype refinement_variant = Base | Candidate
datatype refinement_evidence_status = Valid_outcome | Invalid_outcome

record refinement_projection_binding =
  rp_projection_id :: string
  rp_content_digest :: string
  rp_destination_alias :: string

record refinement_outcome =
  ro_schema :: string
  ro_encoding :: string
  ro_metrics :: "(string \<times> int) list"

record refinement_outcome_commitment =
  oc_schema :: string
  oc_encoding :: string
  oc_digest :: string
  oc_byte_length :: u64

record raw_pty_transcript_commitment =
  tc_schema :: string
  tc_digest :: string
  tc_byte_count :: u64
  tc_complete :: bool

record refinement_evaluator_commitment =
  ec_schema :: string
  ec_fixture_complete :: bool
  ec_transcript_utf8 :: bool
  ec_required_literals :: u32
  ec_forbidden_literals :: u32

record refinement_evaluation_receipt =
  re_schema_version :: u8
  re_runtime_template_id :: string
  re_resource_receipt :: resource_enforcement_receipt
  re_evidence_status :: refinement_evidence_status
  re_variant :: refinement_variant
  re_fixture :: refinement_projection_binding
  re_base :: refinement_projection_binding
  re_candidate :: refinement_projection_binding
  re_matched_context_digest :: string
  re_outcome :: refinement_outcome_commitment
  re_evaluated_outcome :: "refinement_outcome option"
  re_transcript :: raw_pty_transcript_commitment
  re_evaluator :: refinement_evaluator_commitment

definition refinement_runtime_template_id :: string where
  "refinement_runtime_template_id = ''refinement-eval-v1''"

definition refinement_outcome_schema :: string where
  "refinement_outcome_schema = ''sage.refinement-eval-outcome-v1''"

definition refinement_outcome_encoding :: string where
  "refinement_outcome_encoding = ''canonical-json-utf8''"

definition max_refinement_fixture_bytes :: nat where
  "max_refinement_fixture_bytes = 256 * 1024"

definition valid_token :: "string \<Rightarrow> nat \<Rightarrow> bool" where
  "valid_token v max_bytes =
     (v \<noteq> [] \<and> length v \<le> max_bytes \<and> list_all (\<lambda>c. \<not> (byte_of c < 0x20 \<or> byte_of c = 0x7f)) v)"

definition valid_metric_name :: "string \<Rightarrow> bool" where
  "valid_metric_name v =
     (case v of
        [] \<Rightarrow> False
      | c # _ \<Rightarrow> length v \<le> 64 \<and> byte_of c \<ge> 97 \<and> byte_of c \<le> 122 \<and>
          list_all (\<lambda>c. (byte_of c \<ge> 97 \<and> byte_of c \<le> 122) \<or> (byte_of c \<ge> 48 \<and> byte_of c \<le> 57) \<or>
                        c = CHR ''_'' \<or> c = CHR ''-'' \<or> c = CHR ''.'') v)"

definition valid_projection :: "refinement_projection_binding \<Rightarrow> bool" where
  "valid_projection p =
     (valid_token (rp_projection_id p) 128 \<and> valid_digest (rp_content_digest p) \<and>
      valid_token (rp_destination_alias p) 128)"

definition append_integer :: "string \<Rightarrow> int \<Rightarrow> string" where
  "append_integer output v =
     output @ (if v < 0 then CHR ''-'' # decimal (nat (- v)) else decimal (nat v))"

fun append_metrics :: "string \<Rightarrow> bool \<Rightarrow> (string \<times> int) list \<Rightarrow> string" where
  "append_metrics canonical first [] = canonical"
| "append_metrics canonical first ((name, v) # metrics) =
     (let canonical = (if first then canonical else canonical @ '','');
          canonical = canonical @ [CHR 0x22] @ name @ [CHR 0x22, CHR '':'']
      in append_metrics (append_integer canonical v) False metrics)"

definition json_name :: "string \<Rightarrow> string" where
  "json_name s = [CHR 0x22] @ s @ [CHR 0x22]"

definition outcome_prefix :: string where
  "outcome_prefix =
     CHR ''{'' # json_name ''schema'' @ '':'' @ json_name ''sage.refinement-eval-outcome-v1'' @ '','' @
     json_name ''encoding'' @ '':'' @ json_name ''canonical-json-utf8'' @ '','' @
     json_name ''metrics'' @ '':'' @ ''{''"

definition canonical_refinement_outcome_bytes :: "refinement_outcome \<Rightarrow> string expected" where
  "canonical_refinement_outcome_bytes outcome =
     (if ro_schema outcome \<noteq> refinement_outcome_schema \<or>
         ro_encoding outcome \<noteq> refinement_outcome_encoding \<or> ro_metrics outcome = [] \<or>
         length (ro_metrics outcome) > 256 \<or>
         list_ex (\<lambda>(name, _). \<not> valid_metric_name name) (ro_metrics outcome)
      then Inl ''invalid refinement outcome''
      else let canonical = append_metrics outcome_prefix True (ro_metrics outcome) @ ''}}'' in
        if length canonical > max_refinement_fixture_bytes
        then Inl ''canonical refinement outcome exceeds its bound''
        else Inr canonical)"

definition empty_outcome_commitment :: "refinement_outcome_commitment expected" where
  "empty_outcome_commitment =
     and_then (sha256_hex []) (\<lambda>digest.
       Inr \<lparr>oc_schema = refinement_outcome_schema, oc_encoding = refinement_outcome_encoding,
            oc_digest = digest, oc_byte_length = 0\<rparr>)"

definition outcome_commitment :: "refinement_outcome \<Rightarrow> refinement_outcome_commitment expected" where
  "outcome_commitment outcome =
     and_then (canonical_refinement_outcome_bytes outcome) (\<lambda>canonical.
     and_then (sha256_hex (bytes_of_string canonical)) (\<lambda>digest.
       Inr \<lparr>oc_schema = ro_schema outcome, oc_encoding = ro_encoding outcome, oc_digest = digest,
            oc_byte_length = of_nat (length canonical)\<rparr>))"

fun evidence_status_name :: "refinement_evidence_status \<Rightarrow> string" where
  "evidence_status_name Valid_outcome = ''valid_outcome''"
| "evidence_status_name Invalid_outcome = ''invalid_outcome''"

fun variant_name :: "refinement_variant \<Rightarrow> string" where
  "variant_name Base = ''base''"
| "variant_name Candidate = ''candidate''"

definition append_projection :: "bytes \<Rightarrow> refinement_projection_binding \<Rightarrow> bytes" where
  "append_projection encoder v =
     (let encoder = encoder_append_string encoder (rp_projection_id v);
          encoder = encoder_append_string encoder (rp_content_digest v)
      in encoder_append_string encoder (rp_destination_alias v))"

definition append_bool :: "bytes \<Rightarrow> bool \<Rightarrow> bytes" where
  "append_bool encoder v = append_u8 encoder (if v then 1 else 0)"

definition valid_receipt_evidence :: "refinement_evaluation_receipt \<Rightarrow> bool" where
  "valid_receipt_evidence r =
     (if re_schema_version r \<noteq> 1 \<or> re_runtime_template_id r \<noteq> refinement_runtime_template_id \<or>
         \<not> valid_projection (re_fixture r) \<or> \<not> valid_projection (re_base r) \<or>
         \<not> valid_projection (re_candidate r) \<or> \<not> valid_digest (re_matched_context_digest r) \<or>
         oc_schema (re_outcome r) \<noteq> refinement_outcome_schema \<or>
         oc_encoding (re_outcome r) \<noteq> refinement_outcome_encoding \<or>
         \<not> valid_digest (oc_digest (re_outcome r)) \<or>
         oc_byte_length (re_outcome r) > of_nat max_refinement_fixture_bytes \<or>
         tc_schema (re_transcript r) \<noteq> ''glove.raw-pty-transcript-v1'' \<or>
         \<not> valid_digest (tc_digest (re_transcript r)) \<or>
         tc_byte_count (re_transcript r) \<noteq>
           use_terminal_output_bytes (rr_observed (re_resource_receipt r)) \<or>
         ec_schema (re_evaluator r) \<noteq> ''glove.declarative-refinement-evaluator-v1''
      then False
      else if re_evidence_status r = Valid_outcome
      then (case re_evaluated_outcome r of
              None \<Rightarrow> False
            | Some outcome \<Rightarrow>
                tc_complete (re_transcript r) \<and> ec_fixture_complete (re_evaluator r) \<and>
                ec_transcript_utf8 (re_evaluator r) \<and> oc_byte_length (re_outcome r) \<noteq> 0 \<and>
                outcome_commitment outcome = Inr (re_outcome r))
      else re_evaluated_outcome r = None \<and> empty_outcome_commitment = Inr (re_outcome r) \<and>
           (\<not> tc_complete (re_transcript r) \<or> \<not> ec_transcript_utf8 (re_evaluator r)))"

definition refinement_evaluation_receipt_digest :: "refinement_evaluation_receipt \<Rightarrow> string expected" where
  "refinement_evaluation_receipt_digest r =
     (case resource_enforcement_receipt_digest (re_resource_receipt r) of
        Inl _ \<Rightarrow> Inl ''invalid refinement evaluation receipt''
      | Inr resource_digest \<Rightarrow>
        if \<not> valid_receipt_evidence r then Inl ''invalid refinement evaluation receipt''
        else
        let encoder = encoder_append_string [] ''glove.refinement-evaluation-receipt'';
            encoder = append_u8 encoder 2;
            encoder = append_u8 encoder (re_schema_version r);
            encoder = encoder_append_string encoder (re_runtime_template_id r);
            encoder = encoder_append_string encoder resource_digest;
            encoder = encoder_append_string encoder (evidence_status_name (re_evidence_status r));
            encoder = encoder_append_string encoder (variant_name (re_variant r));
            encoder = append_projection encoder (re_fixture r);
            encoder = append_projection encoder (re_base r);
            encoder = append_projection encoder (re_candidate r);
            encoder = encoder_append_string encoder (re_matched_context_digest r);
            encoder = encoder_append_string encoder (oc_schema (re_outcome r));
            encoder = encoder_append_string encoder (oc_encoding (re_outcome r));
            encoder = encoder_append_string encoder (oc_digest (re_outcome r));
            encoder = append_u64 encoder (oc_byte_length (re_outcome r));
            encoder = append_bool encoder (re_evaluated_outcome r \<noteq> None)
        in and_then
             (case re_evaluated_outcome r of
                None \<Rightarrow> Inr encoder
              | Some outcome \<Rightarrow> and_then (canonical_refinement_outcome_bytes outcome)
                  (\<lambda>outcome_bytes. Inr (encoder_append_string encoder outcome_bytes)))
             (\<lambda>encoder.
               let encoder = encoder_append_string encoder (tc_schema (re_transcript r));
                   encoder = encoder_append_string encoder (tc_digest (re_transcript r));
                   encoder = append_u64 encoder (tc_byte_count (re_transcript r));
                   encoder = append_bool encoder (tc_complete (re_transcript r));
                   encoder = encoder_append_string encoder (ec_schema (re_evaluator r));
                   encoder = append_bool encoder (ec_fixture_complete (re_evaluator r));
                   encoder = append_bool encoder (ec_transcript_utf8 (re_evaluator r));
                   encoder = append_u32 encoder (ec_required_literals (re_evaluator r));
                   encoder = append_u32 encoder (ec_forbidden_literals (re_evaluator r))
               in sha256_hex encoder))"

subsection \<open>The chain and its verifier\<close>

record authenticated_resource_enforcement_receipt =
  ar_schema_version :: u8
  ar_sequence :: u64
  ar_key_id :: string
  ar_session_id :: string
  ar_controller_plan_digest :: string
  ar_receipt :: resource_enforcement_receipt
  ar_receipt_digest :: string
  ar_previous_hmac :: string
  ar_this_hmac :: string

record authenticated_refinement_evaluation_receipt =
  af_schema_version :: u8
  af_sequence :: u64
  af_key_id :: string
  af_session_id :: string
  af_controller_plan_digest :: string
  af_receipt :: refinement_evaluation_receipt
  af_receipt_digest :: string
  af_previous_hmac :: string
  af_this_hmac :: string

record receipt_audit_anchor =
  an_key_id :: string
  an_sequence :: u64
  an_head_hmac :: string

record receipt_audit_chain =
  ac_key :: bytes
  ac_key_id :: string
  ac_sequence :: u64
  ac_head_hmac :: string

definition zero_digest :: string where
  "zero_digest = replicate 64 (CHR ''0'')"

definition chain_create :: "string \<Rightarrow> receipt_audit_chain expected" where
  "chain_create key_hex =
     and_then (decode_digest key_hex) (\<lambda>key.
     and_then (derive_key_id key) (\<lambda>key_id.
       Inr \<lparr>ac_key = key, ac_key_id = key_id, ac_sequence = 0, ac_head_hmac = zero_digest\<rparr>))"

definition anchor_create :: "string \<Rightarrow> receipt_audit_anchor expected" where
  "anchor_create key_hex =
     and_then (decode_digest key_hex) (\<lambda>key.
     and_then (derive_key_id key) (\<lambda>key_id.
       Inr \<lparr>an_key_id = key_id, an_sequence = 0, an_head_hmac = zero_digest\<rparr>))"

definition chain_append ::
    "receipt_audit_chain \<Rightarrow> string \<Rightarrow> string \<Rightarrow> resource_enforcement_receipt \<Rightarrow>
     authenticated_resource_enforcement_receipt expected \<times> receipt_audit_chain" where
  "chain_append chain session_id controller_plan_digest receipt =
     (if \<not> valid_identifier session_id then (Inl ''invalid receipt audit session identity'', chain)
      else if \<not> valid_digest controller_plan_digest
      then (Inl ''invalid receipt audit controller plan digest'', chain)
      else if ac_sequence chain = - 1 then (Inl ''receipt audit sequence exhausted'', chain)
      else (case resource_enforcement_receipt_digest receipt of
        Inl e \<Rightarrow> (Inl e, chain)
      | Inr receipt_digest \<Rightarrow>
        let next_sequence = ac_sequence chain + 1;
            material = envelope_material next_sequence (ac_key_id chain) session_id
                         controller_plan_digest receipt_digest (ac_head_hmac chain)
        in (case hmac_sha256_hex (ac_key chain) material of
              Inl e \<Rightarrow> (Inl e, chain)
            | Inr this_hmac \<Rightarrow>
              (Inr \<lparr>ar_schema_version = 1, ar_sequence = next_sequence, ar_key_id = ac_key_id chain,
                    ar_session_id = session_id, ar_controller_plan_digest = controller_plan_digest,
                    ar_receipt = receipt, ar_receipt_digest = receipt_digest,
                    ar_previous_hmac = ac_head_hmac chain, ar_this_hmac = this_hmac\<rparr>,
               chain\<lparr>ac_sequence := next_sequence, ac_head_hmac := this_hmac\<rparr>))))"

definition chain_append_refinement ::
    "receipt_audit_chain \<Rightarrow> string \<Rightarrow> string \<Rightarrow> refinement_evaluation_receipt \<Rightarrow>
     authenticated_refinement_evaluation_receipt expected \<times> receipt_audit_chain" where
  "chain_append_refinement chain session_id controller_plan_digest receipt =
     (if \<not> valid_identifier session_id \<or> \<not> valid_digest controller_plan_digest \<or>
         ac_sequence chain = - 1
      then (Inl ''invalid refinement receipt audit identity'', chain)
      else (case refinement_evaluation_receipt_digest receipt of
        Inl e \<Rightarrow> (Inl e, chain)
      | Inr receipt_digest \<Rightarrow>
        let next_sequence = ac_sequence chain + 1;
            material = refinement_envelope_material next_sequence (ac_key_id chain) session_id
                         controller_plan_digest receipt_digest (ac_head_hmac chain)
        in (case hmac_sha256_hex (ac_key chain) material of
              Inl e \<Rightarrow> (Inl e, chain)
            | Inr this_hmac \<Rightarrow>
              (Inr \<lparr>af_schema_version = 1, af_sequence = next_sequence, af_key_id = ac_key_id chain,
                    af_session_id = session_id, af_controller_plan_digest = controller_plan_digest,
                    af_receipt = receipt, af_receipt_digest = receipt_digest,
                    af_previous_hmac = ac_head_hmac chain, af_this_hmac = this_hmac\<rparr>,
               chain\<lparr>ac_sequence := next_sequence, ac_head_hmac := this_hmac\<rparr>))))"

definition verify_receipt_audit_envelope ::
    "authenticated_resource_enforcement_receipt \<Rightarrow> string \<Rightarrow> string \<Rightarrow> string \<Rightarrow> receipt_audit_anchor \<Rightarrow>
     unit expected \<times> receipt_audit_anchor" where
  "verify_receipt_audit_envelope envelope key_hex expected_session_id
     expected_controller_plan_digest anchor =
     (case decode_digest key_hex of Inl e \<Rightarrow> (Inl e, anchor) | Inr key \<Rightarrow>
     (case derive_key_id key of Inl e \<Rightarrow> (Inl e, anchor) | Inr key_id \<Rightarrow>
      if ar_schema_version envelope \<noteq> 1
      then (Inl ''unsupported receipt audit envelope schema'', anchor)
      else if \<not> valid_identifier expected_session_id \<or> ar_session_id envelope \<noteq> expected_session_id
      then (Inl ''receipt audit session identity mismatch'', anchor)
      else if \<not> valid_digest expected_controller_plan_digest \<or>
              ar_controller_plan_digest envelope \<noteq> expected_controller_plan_digest
      then (Inl ''receipt audit controller plan digest mismatch'', anchor)
      else if an_key_id anchor \<noteq> key_id \<or> ar_key_id envelope \<noteq> key_id
      then (Inl ''receipt audit key identity mismatch'', anchor)
      else if an_sequence anchor = - 1 \<or> ar_sequence envelope \<noteq> an_sequence anchor + 1
      then (Inl ''receipt audit sequence mismatch'', anchor)
      else if \<not> constant_time_digest_equal (ar_previous_hmac envelope) (an_head_hmac anchor)
      then (Inl ''receipt audit previous HMAC mismatch'', anchor)
      else if (case resource_enforcement_receipt_digest (ar_receipt envelope) of
                 Inl _ \<Rightarrow> True
               | Inr digest \<Rightarrow> \<not> constant_time_digest_equal (ar_receipt_digest envelope) digest)
      then (Inl ''receipt audit resource receipt digest mismatch'', anchor)
      else let material = envelope_material (ar_sequence envelope) (ar_key_id envelope)
                 (ar_session_id envelope) (ar_controller_plan_digest envelope)
                 (ar_receipt_digest envelope) (ar_previous_hmac envelope)
        in if (case hmac_sha256_hex key material of
                 Inl _ \<Rightarrow> True
               | Inr expected_hmac \<Rightarrow>
                   \<not> constant_time_digest_equal (ar_this_hmac envelope) expected_hmac)
           then (Inl ''receipt audit HMAC mismatch'', anchor)
           else (Inr (), anchor\<lparr>an_sequence := ar_sequence envelope,
                                an_head_hmac := ar_this_hmac envelope\<rparr>)))"

definition verify_refinement_receipt_audit_envelope ::
    "authenticated_refinement_evaluation_receipt \<Rightarrow> string \<Rightarrow> string \<Rightarrow> string \<Rightarrow> receipt_audit_anchor \<Rightarrow>
     unit expected \<times> receipt_audit_anchor" where
  "verify_refinement_receipt_audit_envelope envelope key_hex expected_session_id
     expected_controller_plan_digest anchor =
     (case decode_digest key_hex of Inl e \<Rightarrow> (Inl e, anchor) | Inr key \<Rightarrow>
     (case derive_key_id key of Inl e \<Rightarrow> (Inl e, anchor) | Inr key_id \<Rightarrow>
      if af_schema_version envelope \<noteq> 1
      then (Inl ''unsupported refinement receipt audit envelope schema'', anchor)
      else if \<not> valid_identifier expected_session_id \<or> af_session_id envelope \<noteq> expected_session_id
      then (Inl ''refinement receipt audit session identity mismatch'', anchor)
      else if \<not> valid_digest expected_controller_plan_digest \<or>
              af_controller_plan_digest envelope \<noteq> expected_controller_plan_digest
      then (Inl ''refinement receipt audit controller plan digest mismatch'', anchor)
      else if an_key_id anchor \<noteq> key_id \<or> af_key_id envelope \<noteq> key_id
      then (Inl ''refinement receipt audit key identity mismatch'', anchor)
      else if an_sequence anchor = - 1 \<or> af_sequence envelope \<noteq> an_sequence anchor + 1
      then (Inl ''refinement receipt audit sequence mismatch'', anchor)
      else if \<not> constant_time_digest_equal (af_previous_hmac envelope) (an_head_hmac anchor)
      then (Inl ''refinement receipt audit previous HMAC mismatch'', anchor)
      else if (case refinement_evaluation_receipt_digest (af_receipt envelope) of
                 Inl _ \<Rightarrow> True
               | Inr digest \<Rightarrow> \<not> constant_time_digest_equal (af_receipt_digest envelope) digest)
      then (Inl ''refinement receipt audit receipt digest mismatch'', anchor)
      else let material = refinement_envelope_material (af_sequence envelope) (af_key_id envelope)
                 (af_session_id envelope) (af_controller_plan_digest envelope)
                 (af_receipt_digest envelope) (af_previous_hmac envelope)
        in if (case hmac_sha256_hex key material of
                 Inl _ \<Rightarrow> True
               | Inr expected_hmac \<Rightarrow>
                   \<not> constant_time_digest_equal (af_this_hmac envelope) expected_hmac)
           then (Inl ''refinement receipt audit HMAC mismatch'', anchor)
           else (Inr (), anchor\<lparr>an_sequence := af_sequence envelope,
                                an_head_hmac := af_this_hmac envelope\<rparr>)))"

definition make_authenticated_refinement_evaluation_receipt ::
    "string \<Rightarrow> u64 \<Rightarrow> string \<Rightarrow> string \<Rightarrow> string \<Rightarrow> refinement_evaluation_receipt \<Rightarrow>
     authenticated_refinement_evaluation_receipt expected" where
  "make_authenticated_refinement_evaluation_receipt key_hex sequence previous_hmac session_id
     controller_plan_digest receipt =
     (if sequence = 0 \<or> \<not> valid_digest previous_hmac \<or> \<not> valid_identifier session_id \<or>
         \<not> valid_digest controller_plan_digest
      then Inl ''invalid refinement receipt envelope identity''
      else and_then (decode_digest key_hex) (\<lambda>key.
           and_then (derive_key_id key) (\<lambda>key_id.
           and_then (refinement_evaluation_receipt_digest receipt) (\<lambda>receipt_digest.
           and_then (hmac_sha256_hex key (refinement_envelope_material sequence key_id session_id
                       controller_plan_digest receipt_digest previous_hmac)) (\<lambda>this_hmac.
             Inr \<lparr>af_schema_version = 1, af_sequence = sequence, af_key_id = key_id,
                  af_session_id = session_id, af_controller_plan_digest = controller_plan_digest,
                  af_receipt = receipt, af_receipt_digest = receipt_digest,
                  af_previous_hmac = previous_hmac, af_this_hmac = this_hmac\<rparr>)))))"

subsection \<open>Digests decode to what was encoded\<close>

lemma nibble_cases: "n < 16 \<Longrightarrow> n \<in> {0, 1, 2, 3, 4, 5, 6, 7, 8, 9, 10, 11, 12, 13, 14, 15 :: nat}"
  by (simp only: insert_iff empty_iff) arith

lemma hex_nibble_hex_digit: "n < 16 \<Longrightarrow> hex_nibble (hex_digit n) = Inr (of_nat n)"
  by (drule nibble_cases) (elim insertE emptyE; simp add: hex_nibble_def hex_digit_def byte_of_def)

lemma hex_digit_byte: "n < 16 \<Longrightarrow> hex_byte (hex_digit n)"
  by (drule nibble_cases) (elim insertE emptyE; simp add: hex_byte_def hex_digit_def byte_of_def)

lemma of_char_hex_digit:
  "n < 16 \<Longrightarrow> of_char (hex_digit n) = (if n < 10 then n + 48 else n + 87 :: nat)"
  by (drule nibble_cases) (elim insertE emptyE; simp add: hex_digit_def)

lemma hex_byte_digit: "hex_byte c \<Longrightarrow> \<exists>n < 16. c = hex_digit n"
proof -
  assume "hex_byte c"
  then have c: "(48 \<le> (of_char c :: nat) \<and> (of_char c :: nat) \<le> 57) \<or>
      (97 \<le> (of_char c :: nat) \<and> (of_char c :: nat) \<le> 102)"
    by (simp add: hex_byte_def byte_of_def)
  define n where "n = (if (of_char c :: nat) \<le> 57 then of_char c - 48 else of_char c - 87 :: nat)"
  have n: "n < 16" using c unfolding n_def by (cases "(of_char c :: nat) \<le> 57") auto
  have "of_char (hex_digit n) = (of_char c :: nat)"
    using c n unfolding n_def by (auto simp: of_char_hex_digit)
  with n show ?thesis by (intro exI [of _ n]) simp
qed

lemma small_nibble_bit: "n < 16 \<Longrightarrow> 4 \<le> k \<Longrightarrow> \<not> bit (n :: nat) k"
proof -
  assume "n < 16" and k: "4 \<le> k"
  moreover have "(2 :: nat) ^ 4 \<le> 2 ^ k" using k by (intro power_increasing) simp_all
  ultimately have "n div 2 ^ k = 0" by simp
  then show ?thesis by (simp add: bit_iff_odd)
qed

lemma join_nibbles:
  assumes h: "h < 16" and l: "l < 16"
  shows "drop_bit 4 (push_bit 4 (of_nat h) OR of_nat l :: u8) = of_nat h"
    and "(push_bit 4 (of_nat h) OR of_nat l :: u8) AND 0x0f = of_nat l"
proof -
  have f: "(0x0f :: u8) = mask 4" by (simp add: mask_eq_exp_minus_1)
  have hb: "\<not> bit h n" if "\<not> n < 4" for n using small_nibble_bit [OF h] that by simp
  have lb: "\<not> bit l n" if "\<not> n < 4" for n using small_nibble_bit [OF l] that by simp
  show "drop_bit 4 (push_bit 4 (of_nat h) OR of_nat l :: u8) = of_nat h"
    by (rule bit_word_eqI) (use hb in \<open>auto simp: bit_simps lb\<close>)
  show "(push_bit 4 (of_nat h) OR of_nat l :: u8) AND 0x0f = of_nat l"
    unfolding f by (rule bit_word_eqI) (use lb in \<open>auto simp: bit_simps\<close>)
qed

lemma split_nibbles: "push_bit 4 (drop_bit 4 b) OR (b AND 0x0f) = (b :: u8)"
proof -
  have f: "(0x0f :: u8) = mask 4" by (simp add: mask_eq_exp_minus_1)
  show ?thesis unfolding f by (rule bit_word_eqI) (auto simp: bit_simps)
qed

lemma encode_digest_Cons:
  "encode_digest (b # bs) =
     hex_digit (unat (drop_bit 4 b)) # hex_digit (unat (b AND 0x0f)) # encode_digest bs"
  by (simp add: encode_digest_def)

lemma decode_pairs_encode: "decode_pairs (encode_digest bs) = Inr bs"
proof (induction bs)
  case Nil
  show ?case by (simp add: encode_digest_def)
next
  case (Cons b bs)
  then show ?case
    by (simp add: encode_digest_Cons hex_nibble_hex_digit unat_high_nibble unat_low_nibble split_nibbles)
qed

lemma valid_digest_encode: "length bs = 32 \<Longrightarrow> valid_digest (encode_digest bs)"
proof -
  assume "length bs = 32"
  moreover have "list_all hex_byte (encode_digest bs)"
    by (induction bs)
       (simp_all add: encode_digest_Cons encode_digest_def hex_digit_byte unat_high_nibble unat_low_nibble)
  ultimately show ?thesis by (simp add: valid_digest_def length_encode_digest)
qed

lemma decode_encode_digest: "length bs = 32 \<Longrightarrow> decode_digest (encode_digest bs) = Inr bs"
  by (simp add: decode_digest_def valid_digest_encode decode_pairs_encode)

lemma hex_pairs_encode:
  "list_all hex_byte v \<Longrightarrow> length v = 2 * n \<Longrightarrow> \<exists>bs. length bs = n \<and> encode_digest bs = v"
proof (induction n arbitrary: v)
  case 0
  then show ?case by (simp add: encode_digest_def)
next
  case (Suc n)
  then obtain h l rest where v: "v = h # l # rest" and len: "length rest = 2 * n"
    by (cases v; cases "tl v") auto
  with Suc.prems obtain a b where ab: "a < 16" "b < 16" "h = hex_digit a" "l = hex_digit b"
    by (auto dest!: hex_byte_digit)
  from Suc.IH [of rest] Suc.prems v len obtain bs where "length bs = n" "encode_digest bs = rest"
    by auto
  moreover have "unat (of_nat n :: u8) = n" if "n < 16" for n
    using that by (simp add: unat_of_nat take_bit_nat_eq_self)
  ultimately show ?case using ab v
    by (intro exI [of _ "(push_bit 4 (of_nat a) OR of_nat b) # bs"])
       (simp only: encode_digest_Cons join_nibbles list.size, simp)
qed

lemma valid_digest_decode:
  "valid_digest v \<Longrightarrow> \<exists>bs. length bs = 32 \<and> encode_digest bs = v \<and> decode_digest v = Inr bs"
proof -
  assume "valid_digest v"
  then have "list_all hex_byte v" "length v = 2 * 32" by (simp_all add: valid_digest_def)
  then obtain bs where "length bs = 32" "encode_digest bs = v"
    using hex_pairs_encode [of v 32] by blast
  with decode_encode_digest [of bs] show ?thesis by blast
qed

lemma or_zero_iff: "a OR b = 0 \<longleftrightarrow> a = 0 \<and> b = (0 :: u8)"
  by (auto simp: bit_eq_iff bit_or_iff)

lemma xor_zero_iff: "a XOR b = 0 \<longleftrightarrow> a = (b :: u8)"
proof
  assume "a XOR b = 0"
  then have "bit (a XOR b) n = bit (0 :: u8) n" for n by simp
  then show "a = b" by (intro bit_word_eqI) (simp add: bit_xor_iff)
qed simp

lemma xor_fold_zero:
  "length xs = length ys \<Longrightarrow>
   foldl (\<lambda>d (l, r). d OR (l XOR r)) d (zip xs ys) = (0 :: u8) \<longleftrightarrow> d = 0 \<and> xs = ys"
proof (induction xs ys arbitrary: d rule: list_induct2)
  case Nil
  show ?case by simp
next
  case (Cons x xs y ys)
  show ?case
    using Cons.IH [of "d OR (x XOR y)"] by (simp only: zip_Cons_Cons foldl_Cons prod.case
        or_zero_iff xor_zero_iff list.inject conj_assoc)
qed

lemma digest_equal_iff [simp]:
  "constant_time_digest_equal l r \<longleftrightarrow> valid_digest l \<and> l = r"
proof (cases "valid_digest l \<and> valid_digest r")
  case True
  then obtain a b where a: "length a = 32" "encode_digest a = l" "decode_digest l = Inr a"
    and b: "length b = 32" "encode_digest b = r" "decode_digest r = Inr b"
    using valid_digest_decode by blast
  then have "constant_time_digest_equal l r \<longleftrightarrow> a = b"
    by (simp add: constant_time_digest_equal_def xor_fold_zero)
  with True a(2,3) b(2,3) show ?thesis by auto
next
  case False
  then show ?thesis
    by (auto simp: constant_time_digest_equal_def decode_digest_def split: sum.split)
qed

lemma valid_zero_digest [simp]: "valid_digest zero_digest"
  by (simp add: zero_digest_def valid_digest_def list_all_iff hex_byte_def byte_of_def)

text \<open>
  Digest text is faithful: decoding inverts encoding on every 32-byte digest, exactly the
  well-formed digests decode, and the constant-time comparison is equality on well-formed
  digests and false on anything else.
\<close>

theorem digest_text_faithful:
  "(\<forall>bs. length bs = 32 \<longrightarrow> decode_digest (encode_digest bs) = Inr bs) \<and>
   (is_value (decode_digest v) \<longleftrightarrow> valid_digest v) \<and>
   (constant_time_digest_equal v w \<longleftrightarrow> valid_digest v \<and> v = w)"
  using decode_encode_digest valid_digest_decode [of v]
  by (auto simp: is_value_iff decode_digest_def)

theorem digest_text_faithful_witness:
  "decode_digest (encode_digest (replicate 32 7)) = Inr (replicate 32 7) \<and>
   constant_time_digest_equal zero_digest zero_digest"
  using digest_text_faithful [of zero_digest zero_digest] by simp

subsection \<open>HMAC-SHA-256\<close>

definition sha256_raw :: "bytes \<Rightarrow> bytes" where
  "sha256_raw m = digest_bytes (foldl compress_reference initial_state (blocks (pad_message m)))"

text \<open>The construction of RFC 2104 with a key of at most one block.\<close>

definition hmac_reference :: "bytes \<Rightarrow> bytes \<Rightarrow> bytes" where
  "hmac_reference key m =
     (let k = key @ replicate (64 - length key) 0
      in sha256_raw (map (\<lambda>b. b XOR 0x5c) k @ sha256_raw (map (\<lambda>b. b XOR 0x36) k @ m)))"

lemma sha256_reference_raw: "sha256_reference m = encode_digest (sha256_raw m)"
  by (simp add: sha256_reference_def sha256_raw_def)

lemma length_sha256_raw [simp]: "length (sha256_raw m) = 32"
  by (simp add: sha256_raw_def)

lemma valid_digest_reference [simp]: "valid_digest (sha256_reference m)"
  by (simp add: sha256_reference_raw valid_digest_encode)

lemma sha256_hex_valid: "sha256_hex m = Inr d \<Longrightarrow> valid_digest d"
  by (auto simp: sha256_hex_cases split: if_splits)

lemma xor_pad_eq:
  assumes "length key \<le> 64"
  shows "xor_pad f key = map (\<lambda>b. b XOR f) (key @ replicate (64 - length key) 0)"
proof (rule nth_equalityI)
  show "length (xor_pad f key) = length (map (\<lambda>b. b XOR f) (key @ replicate (64 - length key) 0))"
    using assms by (simp add: xor_pad_def del: upt_rec_numeral)
next
  fix i assume "i < length (xor_pad f key)"
  then have "i < 64" by (simp add: xor_pad_def del: upt_rec_numeral)
  then show "xor_pad f key ! i = map (\<lambda>b. b XOR f) (key @ replicate (64 - length key) 0) ! i"
    using assms by (simp add: xor_pad_def nth_append xor.commute del: upt_rec_numeral)
qed

lemma length_xor_pad [simp]: "length (xor_pad f key) = 64"
  by (simp add: xor_pad_def del: upt_rec_numeral)

lemma hmac_cases:
  "hmac_sha256_hex key m =
     (if length key > 64 then Inl ''HMAC key exceeds one SHA-256 block''
      else if length m + 64 \<le> 2 ^ 61 - 1 then Inr (encode_digest (hmac_reference key m))
      else Inl ''SHA-256 input exceeds its length encoding'')"
proof -
  have "sha256_hex (xor_pad 0x5c key @ sha256_raw x) =
      Inr (encode_digest (sha256_raw (xor_pad 0x5c key @ sha256_raw x)))" for x
    by (simp add: sha256_hex_cases sha256_reference_raw)
  moreover have "decode_digest (encode_digest (sha256_raw x)) = Inr (sha256_raw x)" for x
    by (simp add: decode_encode_digest)
  ultimately show ?thesis
    by (auto simp: hmac_sha256_hex_def sha256_hex_cases sha256_reference_raw hmac_reference_def
        Let_def xor_pad_eq not_less)
qed

text \<open>
  C37. The HMAC of the audit chain is HMAC-SHA-256: for a key of at most one block and any
  message SHA-256 can hash, it returns the lower-case hexadecimal digest of the two nested
  hashes of RFC 2104, and it refuses a longer key.
\<close>

theorem hmac_sha256_hex_reference:
  "hmac_sha256_hex key m =
     (if length key > 64 then Inl ''HMAC key exceeds one SHA-256 block''
      else if length m + 64 \<le> 2 ^ 61 - 1 then Inr (encode_digest (hmac_reference key m))
      else Inl ''SHA-256 input exceeds its length encoding'')"
  by (rule hmac_cases)

lemma hmac_valid: "hmac_sha256_hex key m = Inr d \<Longrightarrow> valid_digest d"
  by (auto simp: hmac_sha256_hex_def and_then_Inr dest: sha256_hex_valid split: if_splits)

subsection \<open>Envelope materials\<close>

definition envelope_fields ::
    "string \<Rightarrow> u64 \<Rightarrow> string \<Rightarrow> string \<Rightarrow> string \<Rightarrow> string \<Rightarrow> string \<Rightarrow> field list" where
  "envelope_fields domain n key_id sid plan digest prev =
     [Str domain, U8 1, U64 n, Str key_id, Str sid, Str plan, Str digest, Str prev]"

lemma envelope_material_fields:
  "envelope_material n key_id sid plan digest prev =
     enc_fields (envelope_fields ''glove.receipt-audit-envelope'' n key_id sid plan digest prev)"
  "refinement_envelope_material n key_id sid plan digest prev =
     enc_fields (envelope_fields ''glove.refinement-receipt-audit-envelope'' n key_id sid plan digest prev)"
  by (simp_all add: envelope_material_def refinement_envelope_material_def envelope_fields_def
      encoder_append_string_enc append_u8_def append_u64_enc)

lemma envelope_fields_inject:
  assumes "enc_fields (envelope_fields d n k s p r h) = enc_fields (envelope_fields d' n' k' s' p' r' h')"
    and "list_all bounded_string [d, k, s, p, r, h]" "list_all bounded_string [d', k', s', p', r', h']"
  shows "[Str d, U64 n, Str k, Str s, Str p, Str r, Str h] =
         [Str d', U64 n', Str k', Str s', Str p', Str r', Str h']"
  using enc_fields_inject [OF _ _ _ assms(1)] assms(2,3) by (simp add: envelope_fields_def)

text \<open>
  The two envelope kinds are domain separated and unambiguous: no resource envelope and
  refinement envelope are authenticated over the same bytes, and two resource envelopes over
  the same bytes agree on sequence, key, session, controller plan, receipt digest and previous
  HMAC (for fields within the 32-bit length bound).
\<close>

theorem envelope_material_binding:
  "(envelope_material n k s p r h \<noteq> refinement_envelope_material n' k' s' p' r' h') \<and>
   (if list_all bounded_string [k, s, p, r, h] \<and> list_all bounded_string [k', s', p', r', h']
    then envelope_material n k s p r h = envelope_material n' k' s' p' r' h' \<longleftrightarrow>
           n = n' \<and> k = k' \<and> s = s' \<and> p = p' \<and> r = r' \<and> h = h'
    else True)"
proof -
  have "envelope_material n k s p r h \<noteq> refinement_envelope_material n' k' s' p' r' h'"
    using enc_fields_domain [of "''glove.receipt-audit-envelope''"
        "''glove.refinement-receipt-audit-envelope''"]
    by (auto simp: envelope_material_fields envelope_fields_def simp del: enc_fields_simps)
  moreover have "envelope_material n k s p r h = envelope_material n' k' s' p' r' h' \<longleftrightarrow>
           n = n' \<and> k = k' \<and> s = s' \<and> p = p' \<and> r = r' \<and> h = h'"
    if "list_all bounded_string [k, s, p, r, h]" "list_all bounded_string [k', s', p', r', h']"
    using that envelope_fields_inject [of "''glove.receipt-audit-envelope''" n k s p r h
        "''glove.receipt-audit-envelope''" n' k' s' p' r' h']
    by (auto simp: envelope_material_fields)
  ultimately show ?thesis by simp
qed

subsection \<open>Appending and verifying\<close>

text \<open>
  A producer and a verifier of one chain: \<open>sync c a\<close> says that the verifier's anchor \<open>a\<close> is at
  the producer's head \<open>c\<close>.  What the producer appends is accepted by a synchronised verifier
  and keeps them synchronised, and a refused step changes neither side.
\<close>

locale audited_chain =
  fixes appendc :: "'c \<Rightarrow> 'm \<Rightarrow> 'e expected \<times> 'c"
    and verifyc :: "'e \<Rightarrow> 'a \<Rightarrow> unit expected \<times> 'a"
    and sync :: "'c \<Rightarrow> 'a \<Rightarrow> bool"
    and position :: "'a \<Rightarrow> u64"
  assumes append_verifies:
    "sync c a \<Longrightarrow> appendc c m = (Inr e, c') \<Longrightarrow> \<exists>a'. verifyc e a = (Inr (), a') \<and> sync c' a'"
  and append_error: "appendc c m = (Inl x, c') \<Longrightarrow> c' = c"
  and verify_error: "verifyc e a = (Inl x, a') \<Longrightarrow> a' = a"
  and verify_advances: "verifyc e a = (Inr u, a') \<Longrightarrow> position a \<noteq> - 1 \<and> position a' = position a + 1"
  and verify_position: "verifyc e a = (Inr u, a') \<Longrightarrow> verifyc e b = (Inr v, b') \<Longrightarrow> position a = position b"
begin

fun append_all :: "'c \<Rightarrow> 'm list \<Rightarrow> 'e list \<times> 'c" where
  "append_all c [] = ([], c)"
| "append_all c (m # ms) =
     (case appendc c m of
        (Inl _, c') \<Rightarrow> append_all c' ms
      | (Inr e, c') \<Rightarrow> (case append_all c' ms of (es, c'') \<Rightarrow> (e # es, c'')))"

fun verify_all :: "'a \<Rightarrow> 'e list \<Rightarrow> bool \<times> 'a" where
  "verify_all a [] = (True, a)"
| "verify_all a (e # es) =
     (case verifyc e a of (Inl _, a') \<Rightarrow> (False, a') | (Inr _, a') \<Rightarrow> verify_all a' es)"

lemma append_all_verifies:
  "sync c a \<Longrightarrow> append_all c ms = (es, c') \<Longrightarrow> \<exists>a'. verify_all a es = (True, a') \<and> sync c' a'"
proof (induction ms arbitrary: c a es)
  case Nil
  then show ?case by auto
next
  case (Cons m ms)
  show ?case
  proof (cases "appendc c m")
    case (Pair r c1)
    show ?thesis
    proof (cases r)
      case (Inl x)
      with Pair append_error have "c1 = c" by blast
      with Cons Pair Inl show ?thesis by auto
    next
      case (Inr e)
      from append_verifies Cons.prems(1) Pair Inr
      obtain a1 where a1: "verifyc e a = (Inr (), a1)" "sync c1 a1" by blast
      obtain es1 c2 where rest: "append_all c1 ms = (es1, c2)" by (cases "append_all c1 ms")
      with Cons.prems(2) Pair Inr have "es = e # es1" "c' = c2" by auto
      with Cons.IH [OF a1(2), of es1] rest a1(1) show ?thesis by auto
    qed
  qed
qed

lemma no_replay: "verifyc e a = (Inr u, a') \<Longrightarrow> \<exists>x. verifyc e a' = (Inl x, a')"
proof (cases "verifyc e a'")
  case (Pair r a'')
  assume ok: "verifyc e a = (Inr u, a')"
  from verify_advances [OF ok] have adv: "position a' = position a + 1" by simp
  show ?thesis
  proof (cases r)
    case (Inl x)
    with Pair verify_error show ?thesis by blast
  next
    case (Inr v)
    with Pair verify_position [OF ok] have "position a = position a'" by blast
    with adv show ?thesis by simp
  qed
qed

end

definition in_sync :: "string \<Rightarrow> receipt_audit_chain \<Rightarrow> receipt_audit_anchor \<Rightarrow> bool" where
  "in_sync key_hex chain anchor =
     (decode_digest key_hex = Inr (ac_key chain) \<and> derive_key_id (ac_key chain) = Inr (ac_key_id chain) \<and>
      an_key_id anchor = ac_key_id chain \<and> an_sequence anchor = ac_sequence chain \<and>
      an_head_hmac anchor = ac_head_hmac chain \<and> valid_digest (ac_head_hmac chain))"

lemma in_sync_start:
  "chain_create key_hex = Inr chain \<Longrightarrow> anchor_create key_hex = Inr anchor \<Longrightarrow> in_sync key_hex chain anchor"
  by (auto simp: chain_create_def anchor_create_def and_then_Inr in_sync_def)

lemma resource_digest_valid: "resource_enforcement_receipt_digest r = Inr d \<Longrightarrow> valid_digest d"
  by (auto simp: resource_enforcement_receipt_digest_def and_then_Inr dest: sha256_hex_valid)

lemma refinement_digest_valid: "refinement_evaluation_receipt_digest r = Inr d \<Longrightarrow> valid_digest d"
  by (auto simp: refinement_evaluation_receipt_digest_def and_then_Inr Let_def
      dest: sha256_hex_valid split: sum.splits if_splits)

lemma word_add_1_neq: "a + 1 = a \<longleftrightarrow> False" for a :: u64
  by simp

interpretation resource_chain: audited_chain
  "\<lambda>c (sid, plan, r). chain_append c sid plan r"
  "\<lambda>e a. verify_receipt_audit_envelope e key_hex (ar_session_id e) (ar_controller_plan_digest e) a"
  "in_sync key_hex" an_sequence for key_hex
proof
  fix c a m e c'
  assume "in_sync key_hex c a" and "(\<lambda>(sid, plan, r). chain_append c sid plan r) m = (Inr e, c')"
  then show "\<exists>a'. verify_receipt_audit_envelope e key_hex (ar_session_id e) (ar_controller_plan_digest e) a =
      (Inr (), a') \<and> in_sync key_hex c' a'"
    by (auto simp: chain_append_def verify_receipt_audit_envelope_def in_sync_def Let_def
        split: prod.splits if_splits sum.splits dest: resource_digest_valid hmac_valid)
qed (auto simp: chain_append_def verify_receipt_audit_envelope_def Let_def
      split: prod.splits if_splits sum.splits)

interpretation refinement_chain: audited_chain
  "\<lambda>c (sid, plan, r). chain_append_refinement c sid plan r"
  "\<lambda>e a. verify_refinement_receipt_audit_envelope e key_hex (af_session_id e)
           (af_controller_plan_digest e) a"
  "in_sync key_hex" an_sequence for key_hex
proof
  fix c a m e c'
  assume "in_sync key_hex c a" and "(\<lambda>(sid, plan, r). chain_append_refinement c sid plan r) m = (Inr e, c')"
  then show "\<exists>a'. verify_refinement_receipt_audit_envelope e key_hex (af_session_id e)
      (af_controller_plan_digest e) a = (Inr (), a') \<and> in_sync key_hex c' a'"
    by (auto simp: chain_append_refinement_def verify_refinement_receipt_audit_envelope_def in_sync_def Let_def
        split: prod.splits if_splits sum.splits dest: refinement_digest_valid hmac_valid)
qed (auto simp: chain_append_refinement_def verify_refinement_receipt_audit_envelope_def Let_def
      split: prod.splits if_splits sum.splits)

text \<open>
  C32. What the producer appends, a verifier at the producer's head accepts: the receipt it gets
  verifies, leaves producer and verifier synchronised again, and the same envelope is then
  refused as a replay.
\<close>

theorem chain_append_verifies:
  assumes "in_sync key_hex chain anchor"
    and "chain_append chain session_id plan receipt = (Inr envelope, chain')"
  shows "\<exists>anchor' e. verify_receipt_audit_envelope envelope key_hex session_id plan anchor = (Inr (), anchor') \<and>
           in_sync key_hex chain' anchor' \<and>
           verify_receipt_audit_envelope envelope key_hex session_id plan anchor' = (Inl e, anchor')"
proof -
  from assms(2) have ids: "ar_session_id envelope = session_id" "ar_controller_plan_digest envelope = plan"
    by (auto simp: chain_append_def Let_def split: if_splits sum.splits)
  from resource_chain.append_verifies [OF assms(1), of "(session_id, plan, receipt)" envelope chain'] assms(2)
  obtain anchor' where ok: "verify_receipt_audit_envelope envelope key_hex session_id plan anchor = (Inr (), anchor')"
    and sync: "in_sync key_hex chain' anchor'" by (auto simp: ids)
  from resource_chain.no_replay [of envelope key_hex anchor "()" anchor'] ok sync show ?thesis
    by (auto simp: ids)
qed

text \<open>
  The same for refinement evaluation receipts, on the same chain.
\<close>

theorem chain_append_refinement_verifies:
  assumes "in_sync key_hex chain anchor"
    and "chain_append_refinement chain session_id plan receipt = (Inr envelope, chain')"
  shows "\<exists>anchor' e. verify_refinement_receipt_audit_envelope envelope key_hex session_id plan anchor =
             (Inr (), anchor') \<and>
           in_sync key_hex chain' anchor' \<and>
           verify_refinement_receipt_audit_envelope envelope key_hex session_id plan anchor' =
             (Inl e, anchor')"
proof -
  from assms(2) have ids: "af_session_id envelope = session_id" "af_controller_plan_digest envelope = plan"
    by (auto simp: chain_append_refinement_def Let_def split: if_splits sum.splits)
  from refinement_chain.append_verifies [OF assms(1), of "(session_id, plan, receipt)" envelope chain'] assms(2)
  obtain anchor' where
    ok: "verify_refinement_receipt_audit_envelope envelope key_hex session_id plan anchor = (Inr (), anchor')"
    and sync: "in_sync key_hex chain' anchor'" by (auto simp: ids)
  from refinement_chain.no_replay [of envelope key_hex anchor "()" anchor'] ok sync show ?thesis
    by (auto simp: ids)
qed

text \<open>A verifier accepts an envelope exactly if the synchronised producer answers that envelope for its
  receipt.\<close>

lemma digest_check:
  "(case r of Inl _ \<Rightarrow> True | Inr d \<Rightarrow> \<not> constant_time_digest_equal x d) \<longleftrightarrow>
     \<not> (r = Inr x \<and> valid_digest x)"
  by (auto split: sum.split)

lemma appended_envelope:
  assumes "chain_append chain sid plan receipt = (Inr env, chain')"
  shows "ar_session_id env = sid" "ar_controller_plan_digest env = plan" "ar_receipt env = receipt"
    "chain' = chain\<lparr>ac_sequence := ar_sequence env, ac_head_hmac := ar_this_hmac env\<rparr>"
  using assms by (auto simp: chain_append_def Let_def split: if_splits sum.splits)

lemma in_sync_unique: "in_sync key_hex chain anchor \<Longrightarrow> in_sync key_hex chain anchor' \<Longrightarrow> anchor' = anchor"
  by (cases anchor, cases anchor') (simp add: in_sync_def)

lemma verifier_accepts_appended:
  assumes "in_sync key_hex chain anchor"
  shows "verify_receipt_audit_envelope env key_hex sid plan anchor = (Inr (), anchor') \<longleftrightarrow>
    (\<exists>chain'. chain_append chain sid plan (ar_receipt env) = (Inr env, chain') \<and> in_sync key_hex chain' anchor')"
proof
  assume ok: "verify_receipt_audit_envelope env key_hex sid plan anchor = (Inr (), anchor')"
  then have anchor': "anchor' = anchor\<lparr>an_sequence := ar_sequence env, an_head_hmac := ar_this_hmac env\<rparr>"
    and env: "ar_schema_version env = 1" "valid_identifier sid" "ar_session_id env = sid" "valid_digest plan"
    "ar_controller_plan_digest env = plan" "ar_key_id env = ac_key_id chain" "ac_sequence chain \<noteq> - 1"
    "ar_sequence env = ac_sequence chain + 1" "ar_previous_hmac env = ac_head_hmac chain"
    "resource_enforcement_receipt_digest (ar_receipt env) = Inr (ar_receipt_digest env)"
    "hmac_sha256_hex (ac_key chain) (envelope_material (ar_sequence env) (ar_key_id env) sid plan
      (ar_receipt_digest env) (ar_previous_hmac env)) = Inr (ar_this_hmac env)"
    using assms
    unfolding verify_receipt_audit_envelope_def digest_check Let_def in_sync_def by (auto split: if_splits)
  have "chain_append chain sid plan (ar_receipt env) =
      (Inr env, chain\<lparr>ac_sequence := ar_sequence env, ac_head_hmac := ar_this_hmac env\<rparr>)"
    using env by (cases env) (simp add: chain_append_def Let_def)
  moreover have "in_sync key_hex (chain\<lparr>ac_sequence := ar_sequence env, ac_head_hmac := ar_this_hmac env\<rparr>) anchor'"
    using assms anchor' hmac_valid [OF env(11)] by (simp add: in_sync_def)
  ultimately show "\<exists>chain'. chain_append chain sid plan (ar_receipt env) = (Inr env, chain') \<and> in_sync key_hex chain' anchor'"
    by blast
next
  assume "\<exists>chain'. chain_append chain sid plan (ar_receipt env) = (Inr env, chain') \<and> in_sync key_hex chain' anchor'"
  then obtain chain' where step: "chain_append chain sid plan (ar_receipt env) = (Inr env, chain')"
    and sync: "in_sync key_hex chain' anchor'" by blast
  note ids = appended_envelope(1,2) [OF step]
  from resource_chain.append_verifies [OF assms, of "(sid, plan, ar_receipt env)" env chain'] step
  obtain a where "verify_receipt_audit_envelope env key_hex sid plan anchor = (Inr (), a)" "in_sync key_hex chain' a"
    by (auto simp: ids)
  then show "verify_receipt_audit_envelope env key_hex sid plan anchor = (Inr (), anchor')"
    using in_sync_unique [OF sync] by simp
qed

lemma appended_in_sync:
  assumes "in_sync key_hex chain anchor" and "chain_append chain sid plan receipt = (Inr env, chain')"
  shows "\<exists>anchor'. in_sync key_hex chain' anchor'"
  using resource_chain.append_verifies [OF assms(1), of "(sid, plan, receipt)" env chain'] assms(2) by auto

text \<open>A peer reads a log of envelopes, each for the session and the plan it expects; the producer answers
  a log of receipts.\<close>

fun verify_log ::
    "string \<Rightarrow> (string \<times> string \<times> authenticated_resource_enforcement_receipt) list \<Rightarrow> receipt_audit_anchor \<Rightarrow>
     receipt_audit_anchor option" where
  "verify_log key_hex [] anchor = Some anchor"
| "verify_log key_hex ((sid, plan, env) # rest) anchor =
     (case verify_receipt_audit_envelope env key_hex sid plan anchor of
        (Inl _, _) \<Rightarrow> None
      | (Inr _, anchor') \<Rightarrow> verify_log key_hex rest anchor')"

fun append_log ::
    "(string \<times> string \<times> resource_enforcement_receipt) list \<Rightarrow> receipt_audit_chain \<Rightarrow>
     (authenticated_resource_enforcement_receipt list \<times> receipt_audit_chain) option" where
  "append_log [] chain = Some ([], chain)"
| "append_log ((sid, plan, receipt) # rest) chain =
     (case chain_append chain sid plan receipt of
        (Inl _, _) \<Rightarrow> None
      | (Inr env, chain') \<Rightarrow> map_option (apfst (Cons env)) (append_log rest chain'))"

text \<open>
  C33. The verifier accepts what the producer wrote and nothing else.  From a synchronised anchor a log
  of envelopes verifies, each in turn, if and only if it is word for word the log the producer's chain
  answers for the receipts in it; producer and verifier are then synchronised again.  So a receipt
  has one acceptable envelope at each place, and a log with an envelope changed, left out, repeated
  or moved does not verify.  An envelope that is refused leaves the anchor as it was.
\<close>

theorem verifier_accepts_producer_log:
  assumes "in_sync key_hex chain anchor"
  shows "(verify_log key_hex log anchor = Some anchor' \<longleftrightarrow>
     (\<exists>chain'. append_log (map (\<lambda>(sid, plan, env). (sid, plan, ar_receipt env)) log) chain =
        Some (map (\<lambda>(sid, plan, env). env) log, chain') \<and>
      in_sync key_hex chain' anchor')) \<and>
    (verify_receipt_audit_envelope env key_hex sid plan anchor = (Inl e, refused) \<longrightarrow> refused = anchor)"
proof
  show "verify_receipt_audit_envelope env key_hex sid plan anchor = (Inl e, refused) \<longrightarrow> refused = anchor"
    by (auto simp: verify_receipt_audit_envelope_def Let_def split: sum.splits if_splits)
  show "verify_log key_hex log anchor = Some anchor' \<longleftrightarrow>
     (\<exists>chain'. append_log (map (\<lambda>(sid, plan, env). (sid, plan, ar_receipt env)) log) chain =
        Some (map (\<lambda>(sid, plan, env). env) log, chain') \<and>
      in_sync key_hex chain' anchor')"
    using assms
  proof (induction log arbitrary: chain anchor)
    case Nil
    then show ?case using in_sync_unique by (auto simp del: not_None_eq)
  next
    case (Cons x log)
    obtain sid plan env where x: "x = (sid, plan, env)" by (metis prod_cases3)
    note accepts = verifier_accepts_appended [OF Cons.prems, of env sid plan]
    show ?case
    proof (cases "\<exists>a. verify_receipt_audit_envelope env key_hex sid plan anchor = (Inr (), a)")
      case True
      then obtain a where a: "verify_receipt_audit_envelope env key_hex sid plan anchor = (Inr (), a)" by blast
      then obtain c where "chain_append chain sid plan (ar_receipt env) = (Inr env, c)" "in_sync key_hex c a"
        using accepts by blast
      with Cons.IH [of c a] a show ?thesis by (auto simp: x)
    next
      case False
      then have "verify_log key_hex (x # log) anchor = None"
        by (cases "verify_receipt_audit_envelope env key_hex sid plan anchor") (auto simp: x split: sum.split)
      moreover have "fst (chain_append chain sid plan (ar_receipt env)) \<noteq> Inr env"
        using False accepts appended_in_sync [OF Cons.prems, of sid plan "ar_receipt env" env] by (metis prod.collapse)
      ultimately show ?thesis
        by (cases "chain_append chain sid plan (ar_receipt env)") (auto simp: x split: sum.splits)
    qed
  qed
qed

subsection \<open>The receipt digest binds every field\<close>

definition projection_fields :: "library_projection_receipt \<Rightarrow> field list" where
  "projection_fields p =
     [Str (lp_projection_id p), Str (lp_destination_alias p), Str (lp_target_path p),
      Str (lp_content_digest p)]"

definition change_fields :: "retained_change_receipt \<Rightarrow> field list" where
  "change_fields c =
     [Str (ch_exposure_id c), U64 (ch_generation c), Str (ch_scope_digest c),
      Str (ch_source_identity_digest c), Str (ch_baseline_tree_digest c),
      Str (ch_staged_tree_digest c), Str (ch_manifest_digest c), U64 (ch_created c),
      U64 (ch_modified c), U64 (ch_renamed c), U64 (ch_removed c), U64 (ch_before_bytes c),
      U64 (ch_after_bytes c)]"

text \<open>An optional section: a domain, a version, a count and that many blocks of fields.\<close>

definition section_fields :: "string \<Rightarrow> ('a \<Rightarrow> field list) \<Rightarrow> 'a list \<Rightarrow> field list" where
  "section_fields domain f xs =
     (if xs = [] then []
      else [Str domain, U8 1, U32 (of_nat (length xs))] @ concat (map f xs))"

definition identity_fields :: "resource_enforcement_receipt \<Rightarrow> field list" where
  "identity_fields r =
     [Str ''glove.resource-enforcement-receipt'', U8 1, U8 (rr_schema_version r),
      Str (rr_profile_digest r), Str (backend_name (rr_backend r)), Str (rr_backend_id r)]"

definition authority_fields :: "resource_enforcement_receipt \<Rightarrow> field list" where
  "authority_fields r =
     (if rr_backend r = Remote_linux_container
      then [Str ''glove.remote-observation-authority'', U8 1,
            Str (authority_name (rr_observation_authority r)),
            U8 (if rr_independently_verified r then 1 else 0)]
      else [])"

definition limits_fields :: "resource_limits \<Rightarrow> field list" where
  "limits_fields l =
     [U64 (lim_cpu_time_ms l), U64 (lim_memory_bytes l), U32 (lim_pids l), U64 (lim_wall_time_ms l),
      U64 (lim_disk_bytes l), U64 (lim_terminal_output_bytes l)]"

definition capability_fields :: "resource_enforcement_capabilities \<Rightarrow> field list" where
  "capability_fields c =
     [Str (mechanism_name (cap_cpu_time c)), Str (mechanism_name (cap_memory c)),
      Str (mechanism_name (cap_pids c)), Str (mechanism_name (cap_wall_time c)),
      Str (mechanism_name (cap_disk c)), Str (mechanism_name (cap_terminal_output c)),
      U8 (cap_receipt_schema_version c)]"

definition usage_fields :: "resource_usage \<Rightarrow> field list" where
  "usage_fields u =
     [U64 (use_cpu_time_ms u), U64 (use_peak_memory_bytes u), U32 (use_peak_pids u),
      U64 (use_wall_time_ms u), U64 (use_disk_bytes u), U64 (use_terminal_output_bytes u)]"

definition measure_fields :: "resource_enforcement_receipt \<Rightarrow> field list" where
  "measure_fields r =
     authority_fields r @ limits_fields (rr_configured_limits r) @
     capability_fields (rr_mechanisms r) @ usage_fields (rr_observed r) @
     [Str (termination_name (rr_termination_cause r)),
      U8 (if rr_exit_code r = None then 0 else 1)]"

definition time_fields :: "resource_enforcement_receipt \<Rightarrow> field list" where
  "time_fields r =
     (case rr_exit_code r of None \<Rightarrow> [] | Some c \<Rightarrow> [U32 (word_of_int c)]) @
     [U64 (rr_started_at_ms r), U64 (rr_finished_at_ms r)]"

definition receipt_fields :: "resource_enforcement_receipt \<Rightarrow> field list" where
  "receipt_fields r =
     identity_fields r @ measure_fields r @ time_fields r @
     section_fields ''glove.library-projection-receipts'' projection_fields (rr_library_projections r) @
     section_fields ''glove.retained-change-receipts'' change_fields (rr_retained_changes r)"

lemmas append_enc = encoder_append_string_enc append_u8_def append_u32_enc append_u64_enc

lemma foldl_projection_fields:
  "foldl append_library_projection enc ps = enc @ enc_fields (concat (map projection_fields ps))"
  by (induction ps arbitrary: enc)
     (simp_all add: append_library_projection_def projection_fields_def append_enc)

lemma foldl_change_fields:
  "foldl append_retained_change enc cs = enc @ enc_fields (concat (map change_fields cs))"
  by (induction cs arbitrary: enc)
     (simp_all add: append_retained_change_def change_fields_def append_enc)

definition auditable :: "resource_enforcement_receipt \<Rightarrow> bool" where
  "auditable r =
     (if rr_backend r = Remote_linux_container
      then is_value (validate_trusted_remote_resource_claim r (rr_configured_limits r) (rr_profile_digest r))
      else is_value (validate_resource_enforcement_receipt r (rr_configured_limits r) (rr_mechanisms r)
             (rr_backend r) (rr_profile_digest r)))"

lemma encode_receipt_Inr:
  "encode_receipt r = Inr b \<longleftrightarrow> auditable r \<and> b = enc_fields (receipt_fields r)"
  by (auto simp: encode_receipt_def auditable_def is_value_iff Let_def receipt_fields_def
      identity_fields_def measure_fields_def authority_fields_def limits_fields_def
      capability_fields_def usage_fields_def time_fields_def section_fields_def append_limits_def
      append_capabilities_def append_exit_code_def append_enc foldl_projection_fields
      foldl_change_fields split: sum.splits option.splits)

lemma backend_name_inject [simp]: "backend_name a = backend_name b \<longleftrightarrow> a = b"
  by (cases a; cases b; simp)

lemma mechanism_name_inject [simp]: "mechanism_name a = mechanism_name b \<longleftrightarrow> a = b"
  by (cases a; cases b; simp)

lemma termination_name_inject [simp]: "termination_name a = termination_name b \<longleftrightarrow> a = b"
  by (cases a; cases b; simp)

lemma authority_name_inject [simp]: "authority_name a = authority_name b \<longleftrightarrow> a = b"
  by (cases a; cases b; simp)

lemma concat_layout:
  assumes "\<And>x y. same_layout (f x) (f y)" and "length xs = length ys"
  shows "same_layout (concat (map f xs)) (concat (map f ys))"
  using assms(2) by (induction xs ys rule: list_induct2) (simp_all add: assms(1) list_all2_appendI)

lemma section_prefix:
  assumes eq: "enc_fields (section_fields d f xs) @ u = enc_fields (section_fields d f ys) @ v"
    and layout: "\<And>x y. same_layout (f x) (f y)" and f_inj: "\<And>x y. f x = f y \<Longrightarrow> x = y"
    and bounded: "bounded_string d" "list_all (\<lambda>x. list_all bounded_field (f x)) xs"
      "list_all (\<lambda>x. list_all bounded_field (f x)) ys"
    and count: "length xs \<le> 128" "length ys \<le> 128"
    and tails: "\<And>z. enc_string d @ z \<noteq> u" "\<And>z. enc_string d @ z \<noteq> v"
  shows "xs = ys \<and> u = v"
proof (cases "xs = [] \<or> ys = []")
  case True
  have start: "\<exists>z. enc_fields (section_fields d f zs) @ w = enc_string d @ z" if "zs \<noteq> []" for zs w
    using that by (simp add: section_fields_def)
  have nil: "enc_fields (section_fields d f []) @ w = w" for w by (simp add: section_fields_def)
  from True have "xs = [] \<and> ys = []"
  proof
    assume "xs = []"
    with eq nil [of u] have "u = enc_fields (section_fields d f ys) @ v" by simp
    with start [of ys v] tails(1) \<open>xs = []\<close> show ?thesis by metis
  next
    assume "ys = []"
    with eq nil [of v] have "v = enc_fields (section_fields d f xs) @ u" by simp
    with start [of xs u] tails(2) \<open>ys = []\<close> show ?thesis by metis
  qed
  with eq show ?thesis by (simp add: section_fields_def)
next
  case False
  let ?h = "\<lambda>zs. [Str d, U8 1, U32 (of_nat (length zs))]"
  from False eq have eq': "enc_fields (?h xs) @ (enc_fields (concat (map f xs)) @ u) =
      enc_fields (?h ys) @ (enc_fields (concat (map f ys)) @ v)"
    by (simp add: section_fields_def)
  from enc_fields_prefix [OF _ _ _ eq'] bounded(1)
  have heads: "(of_nat (length xs) :: u32) = of_nat (length ys)"
    and rest: "enc_fields (concat (map f xs)) @ u = enc_fields (concat (map f ys)) @ v" by auto
  have "unat (of_nat (length xs) :: u32) = length xs" "unat (of_nat (length ys) :: u32) = length ys"
    using count by (simp_all add: unat_of_nat take_bit_nat_eq_self)
  with heads have len: "length xs = length ys" by metis
  have "list_all bounded_field (concat (map f xs))" "list_all bounded_field (concat (map f ys))"
    using bounded by (auto simp: list_all_iff)
  from enc_fields_prefix [OF concat_layout [OF layout len] this rest]
  have "concat (map f xs) = concat (map f ys)" and uv: "u = v" by auto
  moreover have "map f xs = map f ys"
    using len calculation(1)
  proof (induction xs ys rule: list_induct2)
    case (Cons x xs y ys)
    have "length (f x) = length (f y)" using layout by (rule list_all2_lengthD)
    with Cons show ?case by (auto simp: append_eq_append_len)
  qed simp
  ultimately show ?thesis using f_inj by (auto dest: map_inj_on intro: inj_onI)
qed

lemma fields_inject:
  "projection_fields p = projection_fields q \<Longrightarrow> p = q"
  "change_fields c = change_fields e \<Longrightarrow> c = e"
  by (simp_all add: projection_fields_def change_fields_def)

lemma bounded_of_valid:
  "valid_digest v \<Longrightarrow> bounded_string v" "valid_bounded_identifier v \<Longrightarrow> bounded_string v"
  by (simp_all add: valid_digest_def valid_bounded_identifier_def)

lemma projections_ok_bounded:
  "projections_ok prev targets ps \<Longrightarrow> list_all (\<lambda>p. bounded_string (lp_target_path p)) ps \<Longrightarrow>
   list_all (\<lambda>p. list_all bounded_field (projection_fields p)) ps"
  by (induction ps arbitrary: prev targets)
     (auto simp: Let_def projection_fields_def dest: bounded_of_valid)

lemma changes_ok_bounded:
  "changes_ok prev disk cs \<Longrightarrow> list_all (\<lambda>c. list_all bounded_field (change_fields c)) cs"
  by (induction cs arbitrary: prev) (auto simp: change_fields_def dest: bounded_of_valid)

lemma auditable_facts:
  assumes "auditable r"
  shows "valid_digest (rr_profile_digest r)" "valid_bounded_identifier (rr_backend_id r)"
    "valid_library_projection_receipts (rr_library_projections r)"
    "valid_retained_change_receipts (rr_retained_changes r) (lim_disk_bytes (rr_configured_limits r))"
    "exit_code_ok (rr_termination_cause r) (rr_exit_code r)"
    "rr_backend r \<noteq> Remote_linux_container \<longrightarrow>
       rr_observation_authority r = Local_enforcement \<and> rr_independently_verified r"
  using assms
  by (auto simp: auditable_def is_value_iff validate_receipt_Inr validate_remote_Inr
      valid_retained_change_receipts_def split: if_splits)

lemma exit_code_word_inject:
  "exit_code_ok t (Some a) \<Longrightarrow> exit_code_ok t (Some b) \<Longrightarrow> (word_of_int a :: u32) = word_of_int b \<Longrightarrow> a = b"
proof -
  assume a: "exit_code_ok t (Some a)" and b: "exit_code_ok t (Some b)"
    and eq: "(word_of_int a :: u32) = word_of_int b"
  have "uint (word_of_int x :: u32) = x" if "exit_code_ok t (Some x)" for x
    using that by (simp add: exit_code_ok_def uint_word_of_int)
  with a b eq show ?thesis by metis
qed

lemma measure_layout:
  "rr_backend r = rr_backend r' \<Longrightarrow> same_layout (measure_fields r) (measure_fields r')"
  by (simp add: measure_fields_def authority_fields_def limits_fields_def capability_fields_def
      usage_fields_def)

lemma name_bounded [simp]:
  "length (backend_name a) \<le> 4294967295" "length (mechanism_name m) \<le> 4294967295"
  "length (termination_name t) \<le> 4294967295" "length (authority_name x) \<le> 4294967295"
proof -
  show "length (backend_name a) \<le> 4294967295" by (cases a) simp_all
  show "length (mechanism_name m) \<le> 4294967295" by (cases m) simp_all
  show "length (termination_name t) \<le> 4294967295" by (cases t) simp_all
  show "length (authority_name x) \<le> 4294967295" by (cases x) simp_all
qed

lemma measure_bounded: "list_all bounded_field (measure_fields r)"
  by (simp add: measure_fields_def authority_fields_def limits_fields_def capability_fields_def
      usage_fields_def)

lemma sections_inject:
  assumes "auditable r" "auditable r'"
    and "list_all (\<lambda>p. bounded_string (lp_target_path p)) (rr_library_projections r)"
    and "list_all (\<lambda>p. bounded_string (lp_target_path p)) (rr_library_projections r')"
    and eq: "enc_fields (section_fields ''glove.library-projection-receipts'' projection_fields (rr_library_projections r)) @
         enc_fields (section_fields ''glove.retained-change-receipts'' change_fields (rr_retained_changes r)) =
       enc_fields (section_fields ''glove.library-projection-receipts'' projection_fields (rr_library_projections r')) @
         enc_fields (section_fields ''glove.retained-change-receipts'' change_fields (rr_retained_changes r'))"
  shows "rr_library_projections r = rr_library_projections r' \<and> rr_retained_changes r = rr_retained_changes r'"
proof -
  have tails: "enc_string ''glove.library-projection-receipts'' @ z \<noteq>
      enc_fields (section_fields ''glove.retained-change-receipts'' change_fields cs)" for z cs
    using string_code.prefix_inj [of "''glove.library-projection-receipts''" "''glove.retained-change-receipts''" z]
    by (auto simp: section_fields_def enc_string_def enc_u32_def append_u32_def)
  have lib: "length (rr_library_projections x) \<le> 128"
    "list_all (\<lambda>p. list_all bounded_field (projection_fields p)) (rr_library_projections x)"
    if "auditable x" "list_all (\<lambda>p. bounded_string (lp_target_path p)) (rr_library_projections x)" for x
    using auditable_facts(3) [OF that(1)] that(2)
    by (auto simp: valid_library_projection_receipts_def dest: projections_ok_bounded)
  have ch: "length (rr_retained_changes x) \<le> 128"
    "list_all (\<lambda>c. list_all bounded_field (change_fields c)) (rr_retained_changes x)"
    if "auditable x" for x
    using auditable_facts(4) [OF that]
    by (auto simp: valid_retained_change_receipts_def dest: changes_ok_bounded)
  have 1: "rr_library_projections r = rr_library_projections r' \<and>
      enc_fields (section_fields ''glove.retained-change-receipts'' change_fields (rr_retained_changes r)) =
      enc_fields (section_fields ''glove.retained-change-receipts'' change_fields (rr_retained_changes r'))"
    by (rule section_prefix [OF eq])
       (use assms(1-4) lib tails fields_inject in \<open>auto simp: projection_fields_def\<close>)
  have "rr_retained_changes r = rr_retained_changes r' \<and> [] = ([] :: bytes)"
    by (rule section_prefix [where u = "[]" and v = "[]" and d = "''glove.retained-change-receipts''" and f = change_fields])
       (use assms(1-4) ch 1 fields_inject in \<open>auto simp: change_fields_def enc_string_def enc_u32_def append_u32_def\<close>)
  with 1 show ?thesis by blast
qed

lemma receipt_fields_inject:
  assumes r: "auditable r" and r': "auditable r'"
    and b: "list_all (\<lambda>p. bounded_string (lp_target_path p)) (rr_library_projections r)"
      "list_all (\<lambda>p. bounded_string (lp_target_path p)) (rr_library_projections r')"
    and eq: "enc_fields (receipt_fields r) = enc_fields (receipt_fields r')"
  shows "r = r'"
proof -
  let ?tail = "\<lambda>x. enc_fields (section_fields ''glove.library-projection-receipts'' projection_fields (rr_library_projections x)) @
         enc_fields (section_fields ''glove.retained-change-receipts'' change_fields (rr_retained_changes x))"
  have split: "enc_fields (receipt_fields x) = enc_fields (identity_fields x) @ enc_fields (measure_fields x) @
      enc_fields (time_fields x) @ ?tail x" for x
    by (simp add: receipt_fields_def)
  have idb: "list_all bounded_field (identity_fields x)" if "auditable x" for x
    using auditable_facts(1,2) [OF that] by (auto simp: identity_fields_def dest: bounded_of_valid)
  from eq have "identity_fields r = identity_fields r' \<and>
      enc_fields (measure_fields r) @ enc_fields (time_fields r) @ ?tail r =
      enc_fields (measure_fields r') @ enc_fields (time_fields r') @ ?tail r'"
    unfolding split by (intro enc_fields_prefix idb r r') (simp add: identity_fields_def)
  then have id: "identity_fields r = identity_fields r'"
    and 1: "enc_fields (measure_fields r) @ (enc_fields (time_fields r) @ ?tail r) =
      enc_fields (measure_fields r') @ (enc_fields (time_fields r') @ ?tail r')" by auto
  from id have backend: "rr_backend r = rr_backend r'" by (simp add: identity_fields_def)
  from enc_fields_prefix [OF measure_layout [OF backend] measure_bounded measure_bounded 1]
  have m: "measure_fields r = measure_fields r'"
    and 2: "enc_fields (time_fields r) @ ?tail r = enc_fields (time_fields r') @ ?tail r'" by auto
  from m backend have cause: "rr_termination_cause r = rr_termination_cause r'"
    and some: "(rr_exit_code r = None) = (rr_exit_code r' = None)"
    and limits: "rr_configured_limits r = rr_configured_limits r'"
    and caps: "rr_mechanisms r = rr_mechanisms r'" and usage: "rr_observed r = rr_observed r'"
    and authority: "authority_fields r = authority_fields r'"
    by (auto simp: measure_fields_def limits_fields_def capability_fields_def usage_fields_def
        authority_fields_def split: if_splits)
  from some have "same_layout (time_fields r) (time_fields r')"
    by (auto simp: time_fields_def split: option.splits)
  from enc_fields_prefix [OF this _ _ 2]
  have t: "time_fields r = time_fields r'" and 3: "?tail r = ?tail r'"
    by (auto simp: time_fields_def split: option.splits)
  from t some cause auditable_facts(5) [OF r] auditable_facts(5) [OF r']
  have times: "rr_started_at_ms r = rr_started_at_ms r'" "rr_finished_at_ms r = rr_finished_at_ms r'"
    and code: "rr_exit_code r = rr_exit_code r'"
    by (auto simp: time_fields_def split: option.splits dest: exit_code_word_inject)
  have auth: "rr_observation_authority r = rr_observation_authority r' \<and>
      rr_independently_verified r = rr_independently_verified r'"
  proof (cases "rr_backend r = Remote_linux_container")
    case True
    with authority backend show ?thesis by (auto simp: authority_fields_def split: if_splits)
  next
    case False
    with backend auditable_facts(6) [OF r] auditable_facts(6) [OF r'] show ?thesis by auto
  qed
  from sections_inject [OF r r' b 3] id backend cause limits caps usage times code auth show ?thesis
    by (simp add: identity_fields_def)
qed

text \<open>
  A receipt digest commits to the whole receipt: two receipts that encode to the same bytes
  are equal in every field, whatever their backends and optional sections (target paths within
  the 32-bit length bound, beyond which the encoder would truncate the size).
\<close>

theorem encode_receipt_inject:
  assumes "encode_receipt r = Inr b" and "encode_receipt r' = Inr b"
    and "list_all (\<lambda>p. bounded_string (lp_target_path p)) (rr_library_projections r)"
    and "list_all (\<lambda>p. bounded_string (lp_target_path p)) (rr_library_projections r')"
  shows "r = r'"
  using assms by (intro receipt_fields_inject) (auto simp: encode_receipt_Inr)

subsection \<open>Concrete receipts\<close>

text \<open>A minimal local receipt and a refinement receipt without an outcome.\<close>

definition sample_receipt :: resource_enforcement_receipt where
  "sample_receipt =
     \<lparr>rr_schema_version = 1, rr_profile_digest = zero_digest, rr_backend = Linux_production,
      rr_backend_id = ''linux'', rr_observation_authority = Local_enforcement,
      rr_independently_verified = True,
      rr_configured_limits = \<lparr>lim_cpu_time_ms = 1, lim_memory_bytes = 1, lim_pids = 1,
        lim_wall_time_ms = 1, lim_disk_bytes = 1, lim_terminal_output_bytes = 1\<rparr>,
      rr_mechanisms = \<lparr>cap_cpu_time = Rlimit, cap_memory = Cgroup_v2, cap_pids = Cgroup_v2,
        cap_wall_time = Watchdog, cap_disk = Filesystem_quota, cap_terminal_output = Byte_counter,
        cap_receipt_schema_version = 1\<rparr>,
      rr_observed = \<lparr>use_cpu_time_ms = 1, use_peak_memory_bytes = 1, use_peak_pids = 1,
        use_wall_time_ms = 1, use_disk_bytes = 1, use_terminal_output_bytes = 1\<rparr>,
      rr_termination_cause = Exited, rr_exit_code = Some 0, rr_started_at_ms = 1,
      rr_finished_at_ms = 2, rr_library_projections = [], rr_retained_changes = []\<rparr>"

definition sample_projection :: "string \<Rightarrow> refinement_projection_binding" where
  "sample_projection name =
     \<lparr>rp_projection_id = name, rp_content_digest = zero_digest, rp_destination_alias = name\<rparr>"

definition sample_refinement :: refinement_evaluation_receipt where
  "sample_refinement =
     \<lparr>re_schema_version = 1, re_runtime_template_id = refinement_runtime_template_id,
      re_resource_receipt = sample_receipt, re_evidence_status = Invalid_outcome, re_variant = Base,
      re_fixture = sample_projection ''fixture'', re_base = sample_projection ''base'',
      re_candidate = sample_projection ''candidate'', re_matched_context_digest = zero_digest,
      re_outcome = \<lparr>oc_schema = refinement_outcome_schema, oc_encoding = refinement_outcome_encoding,
        oc_digest = sha256_reference [], oc_byte_length = 0\<rparr>,
      re_evaluated_outcome = None,
      re_transcript = \<lparr>tc_schema = ''glove.raw-pty-transcript-v1'', tc_digest = zero_digest,
        tc_byte_count = 1, tc_complete = False\<rparr>,
      re_evaluator = \<lparr>ec_schema = ''glove.declarative-refinement-evaluator-v1'',
        ec_fixture_complete = False, ec_transcript_utf8 = False, ec_required_literals = 0,
        ec_forbidden_literals = 0\<rparr>\<rparr>"

definition sample_chain :: receipt_audit_chain where
  "sample_chain =
     (case chain_create zero_digest of Inr chain \<Rightarrow> chain
      | Inl _ \<Rightarrow> \<lparr>ac_key = [], ac_key_id = [], ac_sequence = 0, ac_head_hmac = []\<rparr>)"

definition sample_anchor :: receipt_audit_anchor where
  "sample_anchor =
     (case anchor_create zero_digest of Inr anchor \<Rightarrow> anchor
      | Inl _ \<Rightarrow> \<lparr>an_key_id = [], an_sequence = 0, an_head_hmac = []\<rparr>)"

lemma sample_receipt_auditable: "auditable sample_receipt"
  by (simp add: auditable_def is_value_iff validate_receipt_Inr sample_receipt_def complete_def
      valid_bounded_identifier_def is_alnum_def is_alpha_def byte_of_def
      valid_library_projection_receipts_def valid_retained_change_receipts_def exit_code_ok_def)

lemma sample_receipt_bytes: "\<exists>b. encode_receipt sample_receipt = Inr b \<and> length b < 1000"
  using sample_receipt_auditable
  by (simp add: encode_receipt_Inr)
     (simp add: receipt_fields_def identity_fields_def measure_fields_def authority_fields_def
        limits_fields_def capability_fields_def usage_fields_def time_fields_def section_fields_def
        sample_receipt_def enc_string_def zero_digest_def)

lemma sample_receipt_digest: "\<exists>d. resource_enforcement_receipt_digest sample_receipt = Inr d"
  using sample_receipt_bytes
  by (auto simp: resource_enforcement_receipt_digest_def sha256_hex_cases)

lemma zero_key: "\<exists>key. decode_digest zero_digest = Inr key \<and> length key = 32"
  using valid_digest_decode [of zero_digest] by auto

lemma key_id_of_key: "length key = 32 \<Longrightarrow> \<exists>k. derive_key_id key = Inr k \<and> length k = 64"
proof -
  assume "length key = 32"
  moreover have "foldl append_u8 e key = e @ key" for e
    by (induction key arbitrary: e) (simp_all add: append_u8_def)
  ultimately show ?thesis
    by (simp add: derive_key_id_def Let_def sha256_hex_cases append_enc enc_string_def)
qed

lemma sample_sync:
  "in_sync zero_digest sample_chain sample_anchor" "ac_sequence sample_chain = 0"
  "length (ac_key sample_chain) = 32" "length (ac_key_id sample_chain) = 64"
  "ac_head_hmac sample_chain = zero_digest"
proof -
  obtain key k where key: "decode_digest zero_digest = Inr key" "length key = 32"
    and k: "derive_key_id key = Inr k" "length k = 64" using zero_key key_id_of_key by blast
  then show "in_sync zero_digest sample_chain sample_anchor"
    by (intro in_sync_start) (simp_all add: sample_chain_def sample_anchor_def chain_create_def anchor_create_def)
  from key k show "ac_sequence sample_chain = 0" "length (ac_key sample_chain) = 32"
    "length (ac_key_id sample_chain) = 64" "ac_head_hmac sample_chain = zero_digest"
    by (simp_all add: sample_chain_def chain_create_def)
qed

lemma envelope_hmac:
  assumes "length key \<le> 64" "list_all (\<lambda>x. length x \<le> 128) [k, s, p, d, h]"
  shows "\<exists>mac. hmac_sha256_hex key (envelope_material n k s p d h) = Inr mac"
    and "\<exists>mac. hmac_sha256_hex key (refinement_envelope_material n k s p d h) = Inr mac"
  using assms by (simp_all add: hmac_cases envelope_material_fields envelope_fields_def enc_string_def)

lemma sample_append:
  "\<exists>e c. chain_append sample_chain ''s'' zero_digest sample_receipt = (Inr e, c)"
proof -
  obtain d where d: "resource_enforcement_receipt_digest sample_receipt = Inr d"
    using sample_receipt_digest by blast
  then have "length d = 64" using resource_digest_valid by (auto simp: valid_digest_def)
  then obtain mac where
    "hmac_sha256_hex (ac_key sample_chain) (envelope_material 1 (ac_key_id sample_chain) ''s''
       zero_digest d (ac_head_hmac sample_chain)) = Inr mac"
    using envelope_hmac(1) [of "ac_key sample_chain" "ac_key_id sample_chain" "''s''" zero_digest d
        "ac_head_hmac sample_chain" 1] sample_sync by (auto simp: zero_digest_def)
  with d sample_sync(2) show ?thesis
    by (simp add: chain_append_def Let_def valid_identifier_def identifier_byte_def byte_of_def)
qed

lemma sample_append_refinement:
  "\<exists>e c. chain_append_refinement sample_chain ''s'' zero_digest sample_refinement = (Inr e, c)"
proof -
  obtain rd where rd: "resource_enforcement_receipt_digest sample_receipt = Inr rd"
    using sample_receipt_digest by blast
  then have "length rd = 64" using resource_digest_valid by (auto simp: valid_digest_def)
  moreover have "valid_receipt_evidence sample_refinement"
    by (simp add: valid_receipt_evidence_def sample_refinement_def valid_projection_def
        sample_projection_def valid_token_def byte_of_def empty_outcome_commitment_def
        sha256_hex_cases sample_receipt_def)
  ultimately have "\<exists>d. refinement_evaluation_receipt_digest sample_refinement = Inr d"
    using rd
    by (simp add: refinement_evaluation_receipt_digest_def Let_def sample_refinement_def)
       (simp add: sample_projection_def append_projection_def append_bool_def append_enc
          enc_string_def sha256_hex_cases refinement_runtime_template_id_def zero_digest_def
          refinement_outcome_schema_def refinement_outcome_encoding_def)
  then obtain d where d: "refinement_evaluation_receipt_digest sample_refinement = Inr d" by blast
  then have "length d = 64" using refinement_digest_valid by (auto simp: valid_digest_def)
  then obtain mac where
    "hmac_sha256_hex (ac_key sample_chain) (refinement_envelope_material 1 (ac_key_id sample_chain)
       ''s'' zero_digest d (ac_head_hmac sample_chain)) = Inr mac"
    using envelope_hmac(2) [of "ac_key sample_chain" "ac_key_id sample_chain" "''s''" zero_digest d
        "ac_head_hmac sample_chain" 1] sample_sync by (auto simp: zero_digest_def)
  with d sample_sync(2) show ?thesis
    by (simp add: chain_append_refinement_def Let_def valid_identifier_def identifier_byte_def byte_of_def)
qed

theorem chain_append_verifies_witness:
  "\<exists>env anchor. verify_receipt_audit_envelope env zero_digest ''s'' zero_digest sample_anchor = (Inr (), anchor)"
  using sample_append chain_append_verifies [OF sample_sync(1)] by blast

theorem verifier_accepts_producer_log_witness:
  "\<exists>e c anchor'. append_log [(''s'', zero_digest, sample_receipt)] sample_chain = Some ([e], c) \<and>
     verify_log zero_digest [(''s'', zero_digest, e)] sample_anchor = Some anchor' \<and> in_sync zero_digest c anchor' \<and>
     verify_log zero_digest [(''s'', zero_digest, e\<lparr>ar_sequence := 2\<rparr>)] sample_anchor = None"
proof -
  obtain e c where step: "chain_append sample_chain ''s'' zero_digest sample_receipt = (Inr e, c)" using sample_append by blast
  obtain a where a: "in_sync zero_digest c a" using appended_in_sync [OF sample_sync(1) step] by blast
  have fields: "ar_receipt e = sample_receipt" "ar_sequence e = 1"
    using step sample_sync by (auto simp: chain_append_def Let_def split: if_splits sum.splits)
  then have moved: "e\<lparr>ar_sequence := 2\<rparr> \<noteq> e" by (cases e) simp
  have "verify_log zero_digest [(''s'', zero_digest, e)] sample_anchor = Some a"
    using verifier_accepts_producer_log [OF sample_sync(1), of "[(''s'', zero_digest, e)]" a] step a fields by simp
  moreover have "verify_log zero_digest [(''s'', zero_digest, e\<lparr>ar_sequence := 2\<rparr>)] sample_anchor \<noteq> Some b" for b
    using verifier_accepts_producer_log [OF sample_sync(1), of "[(''s'', zero_digest, e\<lparr>ar_sequence := 2\<rparr>)]" b] step fields moved by auto
  ultimately show ?thesis using step a by auto
qed

theorem chain_append_refinement_verifies_witness:
  "\<exists>env anchor. verify_refinement_receipt_audit_envelope env zero_digest ''s'' zero_digest sample_anchor =
     (Inr (), anchor)"
  using sample_append_refinement chain_append_refinement_verifies [OF sample_sync(1)] by blast

theorem encode_receipt_inject_witness:
  "\<exists>b. encode_receipt sample_receipt = Inr b \<and>
     encode_receipt (sample_receipt\<lparr>rr_finished_at_ms := 3\<rparr>) \<noteq> Inr b"
proof -
  obtain b where b: "encode_receipt sample_receipt = Inr b" using sample_receipt_bytes by blast
  have "encode_receipt (sample_receipt\<lparr>rr_finished_at_ms := 3\<rparr>) \<noteq> Inr b"
  proof
    assume "encode_receipt (sample_receipt\<lparr>rr_finished_at_ms := 3\<rparr>) = Inr b"
    from encode_receipt_inject [OF b this] have "sample_receipt = sample_receipt\<lparr>rr_finished_at_ms := 3\<rparr>"
      by (simp add: sample_receipt_def)
    then show False by (simp add: sample_receipt_def)
  qed
  with b show ?thesis by blast
qed

end
