(* ===== verification/Registry_Wire.thy ===== *)
theory Registry_Wire
  imports Receipt_Chain
begin

text \<open>
  The durable record of the session registry and the commitments hashed over it:
  \<open>include/glove/control/session_registry.hpp\<close>, \<open>session_registry_wire.hpp\<close> and
  \<open>src/control/session_registry_wire.cpp\<close>.  The JSON text of a record is produced and parsed by
  the third-party library glaze: \<open>write_json\<close>, \<open>read_json\<close> and \<open>read_header\<close> are parameters,
  collected in the record \<open>json_codec\<close>.  A default-initialised \<open>persisted_session{}\<close> is
  \<open>blank_session\<close>.
\<close>

subsection \<open>Data\<close>

datatype intent_disposition = Pending | Accepted | Rejected | Expired

datatype session_state =
  St_created | St_preparing | St_starting | St_running | St_stopping | St_exited | St_failed

datatype session_failure_code =
  Authorization_expired | Launch_failed | Supervisor_error | Recovered_without_process
| Recovered_terminated

record linux_cgroup_recovery_identity =
  cg_schema_version :: u8
  cg_device :: u64
  cg_inode :: u64

record linux_filesystem_quota_partition =
  fp_alias :: string
  fp_quota_bytes :: u64

record linux_filesystem_recovery_identity =
  fs_schema_version :: u8
  fs_disk_limit_bytes :: u64
  fs_partitions :: "linux_filesystem_quota_partition list"

record managed_runtime_recovery_identity =
  mr_schema_version :: u8
  mr_backend :: string
  mr_instance_id :: string
  mr_launch_identity_digest :: string

record linux_process_identity =
  pi_schema_version :: u8
  pi_pid :: u32
  pi_boot_id :: string
  pi_start_time_ticks :: u64
  pi_cgroup_device :: u64
  pi_cgroup_inode :: u64
  pi_cgroup_path_digest :: string

record observation_intent_context =
  ox_session_id :: string
  ox_controller_plan_digest :: string
  ox_profile_digest :: string
  ox_runtime_id :: string
  ox_projection_digest :: string
  ox_policy_revision :: u64
  ox_channel_id :: string
  ox_channel_generation :: u64
  ox_issued_at_ms :: u64
  ox_expires_at_ms :: u64

record observation_intent_disposition =
  od_session_id :: string
  od_channel_generation :: u64
  od_intent_id :: string
  od_intent_digest :: string
  od_disposition :: intent_disposition
  od_decided_at_ms :: u64

record session_start_authorization =
  sa_schema_version :: u8
  sa_authorization_id :: string
  sa_session_id :: string
  sa_controller_plan_digest :: string
  sa_plan_content_digest :: string
  sa_approved_at_ms :: u64
  sa_expires_at_ms :: u64

record session_execution_binding =
  eb_schema_version :: u8
  eb_session_id :: string
  eb_controller_plan_digest :: string
  eb_plan_content_digest :: string
  eb_authorization_id :: string
  eb_profile_digest :: string
  eb_cgroup_identity :: linux_cgroup_recovery_identity
  eb_filesystem_identity :: linux_filesystem_recovery_identity

record session_running_commitment =
  rc_schema_version :: u8
  rc_session_id :: string
  rc_controller_plan_digest :: string
  rc_plan_content_digest :: string
  rc_authorization_id :: string
  rc_profile_digest :: string
  rc_process_identity :: linux_process_identity
  rc_filesystem_identity :: linux_filesystem_recovery_identity

record managed_session_execution_binding =
  mb_schema_version :: u8
  mb_session_id :: string
  mb_controller_plan_digest :: string
  mb_plan_content_digest :: string
  mb_authorization_id :: string
  mb_profile_digest :: string
  mb_runtime_identity :: managed_runtime_recovery_identity

record managed_session_running_commitment =
  mc_schema_version :: u8
  mc_session_id :: string
  mc_controller_plan_digest :: string
  mc_plan_content_digest :: string
  mc_authorization_id :: string
  mc_profile_digest :: string
  mc_runtime_identity :: managed_runtime_recovery_identity

record session_failure_commitment =
  fc_schema_version :: u8
  fc_session_id :: string
  fc_controller_plan_digest :: string
  fc_plan_content_digest :: string
  fc_authorization_id :: string
  fc_profile_digest :: string
  fc_code :: session_failure_code

record terminal_reference =
  tr_schema_version :: u8
  tr_sequence :: u64
  tr_key_id :: string
  tr_session_id :: string
  tr_controller_plan_digest :: string
  tr_profile_digest :: string
  tr_receipt_digest :: string
  tr_previous_hmac :: string
  tr_this_hmac :: string
  tr_termination_cause :: resource_termination_cause
  tr_started_at_ms :: u64
  tr_finished_at_ms :: u64
  tr_exit_code :: "int option"

record persisted_observation_intent =
  oi_schema_version :: u8
  oi_schema :: string
  oi_intent_id :: string
  oi_observation :: string
  oi_value_digest :: string
  oi_item_count :: u64
  oi_intent_digest :: string
  oi_profile_digest :: string
  oi_runtime_id :: string
  oi_projection_digest :: string
  oi_channel_id :: string
  oi_channel_generation :: u64
  oi_issued_at_ms :: u64
  oi_expires_at_ms :: u64
  oi_disposition :: string
  oi_decided_at_ms :: u64

record persisted_session =
  p_schema_version :: u8
  p_sequence :: u64
  p_operation :: string
  p_idempotency_key :: string
  p_session_id :: string
  p_controller_plan_digest :: string
  p_request_digest :: string
  p_plan_content_digest :: string
  p_state :: string
  p_policy_revision :: u64
  p_expires_at_ms :: u64
  p_created_at_ms :: u64
  p_authorization_id :: string
  p_authorized_at_ms :: u64
  p_authorization_expires_at_ms :: u64
  p_launch_profile_digest :: string
  p_starting_at_ms :: u64
  p_running_at_ms :: u64
  p_stopping_at_ms :: u64
  p_process_identity_schema_version :: u8
  p_process_pid :: u32
  p_process_boot_id :: string
  p_process_start_time_ticks :: u64
  p_process_cgroup_device :: u64
  p_process_cgroup_inode :: u64
  p_process_cgroup_path_digest :: string
  p_cgroup_identity :: "linux_cgroup_recovery_identity option"
  p_filesystem_identity :: "linux_filesystem_recovery_identity option"
  p_managed_runtime_identity :: "managed_runtime_recovery_identity option"
  p_failure_code :: string
  p_finished_at_ms :: u64
  p_receipt_started_at_ms :: u64
  p_receipt_key_id :: string
  p_receipt_sequence :: u64
  p_receipt_digest :: string
  p_receipt_previous_hmac :: string
  p_receipt_hmac :: string
  p_termination_cause :: string
  p_exit_code :: "int option"
  p_canonical_plan_json :: string
  p_previous_hash :: string
  p_this_hash :: string
  p_observation_intent :: "persisted_observation_intent option"

definition blank_session :: persisted_session where
  "blank_session =
     \<lparr>p_schema_version = 0, p_sequence = 0, p_operation = [], p_idempotency_key = [],
      p_session_id = [], p_controller_plan_digest = [], p_request_digest = [],
      p_plan_content_digest = [], p_state = [], p_policy_revision = 0, p_expires_at_ms = 0,
      p_created_at_ms = 0, p_authorization_id = [], p_authorized_at_ms = 0,
      p_authorization_expires_at_ms = 0, p_launch_profile_digest = [], p_starting_at_ms = 0,
      p_running_at_ms = 0, p_stopping_at_ms = 0, p_process_identity_schema_version = 0,
      p_process_pid = 0, p_process_boot_id = [], p_process_start_time_ticks = 0,
      p_process_cgroup_device = 0, p_process_cgroup_inode = 0, p_process_cgroup_path_digest = [],
      p_cgroup_identity = None, p_filesystem_identity = None, p_managed_runtime_identity = None,
      p_failure_code = [], p_finished_at_ms = 0, p_receipt_started_at_ms = 0,
      p_receipt_key_id = [], p_receipt_sequence = 0, p_receipt_digest = [],
      p_receipt_previous_hmac = [], p_receipt_hmac = [], p_termination_cause = [],
      p_exit_code = None, p_canonical_plan_json = [], p_previous_hash = [], p_this_hash = [],
      p_observation_intent = None\<rparr>"

record plan_runtime_header =
  ph_runtime_id :: string
  ph_runtime_template_id :: string

record json_codec =
  write_json :: "persisted_session \<Rightarrow> string option"
  read_json :: "string \<Rightarrow> persisted_session option"
  read_header :: "string \<Rightarrow> plan_runtime_header option"

definition max_record_payload_bytes :: nat where
  "max_record_payload_bytes = 1024 * 1024"

subsection \<open>Names on the wire\<close>

fun disposition_name :: "intent_disposition \<Rightarrow> string" where
  "disposition_name Pending = ''pending''"
| "disposition_name Accepted = ''accepted''"
| "disposition_name Rejected = ''rejected''"
| "disposition_name Expired = ''expired''"

fun termination_cause_name :: "resource_termination_cause \<Rightarrow> string" where
  "termination_cause_name Exited = ''exited''"
| "termination_cause_name Signaled = ''signaled''"
| "termination_cause_name Cpu_time_limit = ''cpu_time_limit''"
| "termination_cause_name Memory_limit = ''memory_limit''"
| "termination_cause_name Pid_limit = ''pid_limit''"
| "termination_cause_name Wall_time_limit = ''wall_time_limit''"
| "termination_cause_name Disk_limit = ''disk_limit''"
| "termination_cause_name Terminal_output_limit = ''terminal_output_limit''"
| "termination_cause_name Supervisor_error_cause = ''supervisor_error''"

definition termination_cause_from_wire :: "string \<Rightarrow> resource_termination_cause option" where
  "termination_cause_from_wire v =
     (if v = ''exited'' then Some Exited
      else if v = ''signaled'' then Some Signaled
      else if v = ''cpu_time_limit'' then Some Cpu_time_limit
      else if v = ''memory_limit'' then Some Memory_limit
      else if v = ''pid_limit'' then Some Pid_limit
      else if v = ''wall_time_limit'' then Some Wall_time_limit
      else if v = ''disk_limit'' then Some Disk_limit
      else if v = ''terminal_output_limit'' then Some Terminal_output_limit
      else if v = ''supervisor_error'' then Some Supervisor_error_cause
      else None)"

fun failure_code_name :: "session_failure_code \<Rightarrow> string" where
  "failure_code_name Authorization_expired = ''authorization_expired''"
| "failure_code_name Launch_failed = ''launch_failed''"
| "failure_code_name Supervisor_error = ''supervisor_error''"
| "failure_code_name Recovered_without_process = ''recovered_without_process''"
| "failure_code_name Recovered_terminated = ''recovered_terminated''"

definition failure_code_from_wire :: "string \<Rightarrow> session_failure_code option" where
  "failure_code_from_wire v =
     (if v = ''authorization_expired'' then Some Authorization_expired
      else if v = ''launch_failed'' then Some Launch_failed
      else if v = ''supervisor_error'' then Some Supervisor_error
      else if v = ''recovered_without_process'' then Some Recovered_without_process
      else if v = ''recovered_terminated'' then Some Recovered_terminated
      else None)"

definition state_from_wire :: "string \<Rightarrow> session_state option" where
  "state_from_wire v =
     (if v = ''created'' then Some St_created
      else if v = ''preparing'' then Some St_preparing
      else if v = ''starting'' then Some St_starting
      else if v = ''running'' then Some St_running
      else if v = ''stopping'' then Some St_stopping
      else if v = ''exited'' then Some St_exited
      else if v = ''failed'' then Some St_failed
      else None)"

definition intent_disposition_from_wire :: "string \<Rightarrow> intent_disposition option" where
  "intent_disposition_from_wire v =
     (if v = ''pending'' then Some Pending
      else if v = ''accepted'' then Some Accepted
      else if v = ''rejected'' then Some Rejected
      else if v = ''expired'' then Some Expired
      else None)"

subsection \<open>Identities\<close>

fun append_partitions :: "bytes \<Rightarrow> linux_filesystem_quota_partition list \<Rightarrow> bytes expected" where
  "append_partitions output [] = Inr output"
| "append_partitions output (part # parts) =
     (case append_string output (fp_alias part) of
        None \<Rightarrow> Inl ''filesystem recovery alias exceeds its hash bound''
      | Some output' \<Rightarrow> append_partitions (append_u64 output' (fp_quota_bytes part)) parts)"

definition append_filesystem_identity ::
    "bytes \<Rightarrow> linux_filesystem_recovery_identity option \<Rightarrow> bytes expected" where
  "append_filesystem_identity output identity =
     (case identity of
        None \<Rightarrow> Inr (append_u8 output 0)
      | Some i \<Rightarrow>
          let output = append_u8 output 1;
              output = append_u8 output (fs_schema_version i);
              output = append_u64 output (fs_disk_limit_bytes i);
              output = append_u32 output (of_nat (length (fs_partitions i)))
          in append_partitions output (fs_partitions i))"

definition append_cgroup_identity ::
    "bytes \<Rightarrow> linux_cgroup_recovery_identity option \<Rightarrow> bytes" where
  "append_cgroup_identity output identity =
     (case identity of
        None \<Rightarrow> append_u8 output 0
      | Some i \<Rightarrow>
          let output = append_u8 output 1;
              output = append_u8 output (cg_schema_version i);
              output = append_u64 output (cg_device i)
          in append_u64 output (cg_inode i))"

definition append_managed_runtime_identity ::
    "bytes \<Rightarrow> managed_runtime_recovery_identity option \<Rightarrow> bytes expected" where
  "append_managed_runtime_identity output identity =
     (case identity of
        None \<Rightarrow> Inr output
      | Some i \<Rightarrow>
          and_then (or_error ''managed runtime hash domain is invalid''
                     (append_string (append_u8 output 1) ''glove.managed-runtime-identity.v1''))
            (\<lambda>output. append_strings ''managed runtime identity exceeds its hash bound''
                       (append_u8 output (mr_schema_version i))
                       [mr_backend i, mr_instance_id i, mr_launch_identity_digest i]))"

subsection \<open>The record commitment\<close>

definition launch_section :: "persisted_session \<Rightarrow> bytes \<Rightarrow> bytes expected" where
  "launch_section r m =
     (if p_state r \<in> {''starting'', ''running'', ''stopping'', ''exited'', ''failed''}
      then and_then (or_error ''session registry launch profile exceeds its hash bound''
                       (append_string m (p_launch_profile_digest r))) (\<lambda>m.
           let m = append_u64 m (p_starting_at_ms r);
               m = append_cgroup_identity m (p_cgroup_identity r)
           in and_then (append_filesystem_identity m (p_filesystem_identity r)) (\<lambda>m.
              append_managed_runtime_identity m (p_managed_runtime_identity r)))
      else Inr m)"

definition process_section :: "persisted_session \<Rightarrow> bytes \<Rightarrow> bytes expected" where
  "process_section r m =
     (if p_state r \<in> {''running'', ''stopping'', ''exited'', ''failed''}
      then let m = append_u64 m (p_running_at_ms r);
               m = append_u8 m (p_process_identity_schema_version r);
               m = append_u32 m (p_process_pid r)
           in and_then (or_error ''session registry process boot identity exceeds its hash bound''
                          (append_string m (p_process_boot_id r))) (\<lambda>m.
              let m = append_u64 m (p_process_start_time_ticks r);
                  m = append_u64 m (p_process_cgroup_device r);
                  m = append_u64 m (p_process_cgroup_inode r)
              in or_error ''session registry process cgroup identity exceeds its hash bound''
                   (append_string m (p_process_cgroup_path_digest r)))
      else Inr m)"

definition stop_section :: "persisted_session \<Rightarrow> bytes \<Rightarrow> bytes" where
  "stop_section r m =
     (if p_state r \<in> {''stopping'', ''exited'', ''failed''} then append_u64 m (p_stopping_at_ms r)
      else m)"

definition failure_section :: "persisted_session \<Rightarrow> bytes \<Rightarrow> bytes expected" where
  "failure_section r m =
     (if p_state r = ''failed''
      then and_then (or_error ''session registry failure code exceeds its hash bound''
                       (append_string m (p_failure_code r))) (\<lambda>m.
           Inr (append_u64 m (p_finished_at_ms r)))
      else Inr m)"

definition terminal_section :: "persisted_session \<Rightarrow> bytes \<Rightarrow> bytes expected" where
  "terminal_section r m =
     (if p_state r = ''exited''
      then and_then (append_strings ''session registry terminal field exceeds its hash bound'' m
                       [p_receipt_key_id r, p_receipt_digest r, p_receipt_previous_hmac r,
                        p_receipt_hmac r, p_termination_cause r]) (\<lambda>m.
           let m = append_u64 m (p_receipt_sequence r);
               m = append_u64 m (p_receipt_started_at_ms r);
               m = append_u64 m (p_finished_at_ms r)
           in Inr (append_exit_code m (p_exit_code r)))
      else Inr m)"

definition intent_section :: "persisted_session \<Rightarrow> bytes \<Rightarrow> bytes expected" where
  "intent_section r m =
     (case p_observation_intent r of
        None \<Rightarrow> Inr m
      | Some i \<Rightarrow>
          and_then (or_error ''observation intent hash domain is invalid''
                     (append_string m ''glove.session-registry.observation-intent.v1'')) (\<lambda>m.
          and_then (append_strings ''session registry observation intent exceeds its hash bound''
                     (append_u8 m (oi_schema_version i))
                     [oi_schema i, oi_intent_id i, oi_observation i, oi_value_digest i,
                      oi_intent_digest i, oi_profile_digest i, oi_runtime_id i,
                      oi_projection_digest i, oi_channel_id i, oi_disposition i]) (\<lambda>m.
          let m = append_u64 m (oi_item_count i);
              m = append_u64 m (oi_channel_generation i);
              m = append_u64 m (oi_issued_at_ms i);
              m = append_u64 m (oi_expires_at_ms i)
          in Inr (append_u64 m (oi_decided_at_ms i)))))"

definition record_material :: "persisted_session \<Rightarrow> bytes expected" where
  "record_material r =
     and_then (or_error ''session registry hash domain is invalid''
                (append_string [] ''glove.session-registry.record'')) (\<lambda>m.
     and_then (append_strings ''session registry hash field exceeds its bound''
                (append_u64 (append_u8 m (p_schema_version r)) (p_sequence r))
                [p_operation r, p_idempotency_key r, p_session_id r, p_controller_plan_digest r,
                 p_request_digest r, p_plan_content_digest r, p_state r, p_authorization_id r]) (\<lambda>m.
     let m = append_u64 m (p_policy_revision r);
         m = append_u64 m (p_expires_at_ms r);
         m = append_u64 m (p_created_at_ms r);
         m = append_u64 m (p_authorized_at_ms r);
         m = append_u64 m (p_authorization_expires_at_ms r)
     in and_then (launch_section r m) (\<lambda>m.
        and_then (process_section r m) (\<lambda>m.
        and_then (failure_section r (stop_section r m)) (\<lambda>m.
        and_then (terminal_section r m) (\<lambda>m.
        and_then (intent_section r m) (\<lambda>m.
          append_strings ''session registry plan exceeds its hash bound'' m
            [p_canonical_plan_json r, p_previous_hash r])))))))"

definition hash_record :: "persisted_session \<Rightarrow> string expected" where
  "hash_record r = and_then (record_material r) sha256_hex"

definition hash_plan :: "string \<Rightarrow> string expected" where
  "hash_plan plan = sha256_hex (bytes_of_string plan)"

subsection \<open>Request commitments\<close>

definition start_authorization_material :: "session_start_authorization \<Rightarrow> bytes expected" where
  "start_authorization_material a =
     and_then (or_error ''start authorization hash domain is invalid''
                (append_string [] ''glove.session-start-authorization'')) (\<lambda>m.
     and_then (append_strings ''start authorization field exceeds its bound''
                (append_u8 m (sa_schema_version a))
                [sa_authorization_id a, sa_session_id a, sa_controller_plan_digest a,
                 sa_plan_content_digest a]) (\<lambda>m.
       Inr (append_u64 (append_u64 m (sa_approved_at_ms a)) (sa_expires_at_ms a))))"

definition hash_start_authorization :: "session_start_authorization \<Rightarrow> string expected" where
  "hash_start_authorization a = and_then (start_authorization_material a) sha256_hex"

definition execution_binding_material :: "session_execution_binding \<Rightarrow> bytes expected" where
  "execution_binding_material b =
     and_then (or_error ''execution binding hash domain is invalid''
                (append_string [] ''glove.session-execution-binding'')) (\<lambda>m.
     and_then (append_strings ''execution binding field exceeds its bound''
                (append_u8 m (eb_schema_version b))
                [eb_session_id b, eb_controller_plan_digest b, eb_plan_content_digest b,
                 eb_authorization_id b, eb_profile_digest b]) (\<lambda>m.
       append_filesystem_identity (append_cgroup_identity m (Some (eb_cgroup_identity b)))
         (Some (eb_filesystem_identity b))))"

definition hash_execution_binding :: "session_execution_binding \<Rightarrow> string expected" where
  "hash_execution_binding b = and_then (execution_binding_material b) sha256_hex"

text \<open>
  \<open>hash_running_commitment\<close> and \<open>hash_stopping_commitment\<close> differ in their domain and in the
  word that starts their messages; the shared body takes both.
\<close>

definition running_material ::
    "string \<Rightarrow> string \<Rightarrow> session_running_commitment \<Rightarrow> bytes expected" where
  "running_material domain phase c =
     and_then (or_error (phase @ '' commitment hash domain is invalid'') (append_string [] domain)) (\<lambda>m.
     and_then (append_strings (phase @ '' commitment field exceeds its bound'')
                (append_u8 m (rc_schema_version c))
                [rc_session_id c, rc_controller_plan_digest c, rc_plan_content_digest c,
                 rc_authorization_id c, rc_profile_digest c]) (\<lambda>m.
     let m = append_u8 m (pi_schema_version (rc_process_identity c));
         m = append_u32 m (pi_pid (rc_process_identity c))
     in and_then (or_error (phase @ '' process boot identity exceeds its bound'')
                   (append_string m (pi_boot_id (rc_process_identity c)))) (\<lambda>m.
        let m = append_u64 m (pi_start_time_ticks (rc_process_identity c));
            m = append_u64 m (pi_cgroup_device (rc_process_identity c));
            m = append_u64 m (pi_cgroup_inode (rc_process_identity c))
        in and_then (or_error (phase @ '' process cgroup identity exceeds its bound'')
                      (append_string m (pi_cgroup_path_digest (rc_process_identity c)))) (\<lambda>m.
           append_filesystem_identity m (Some (rc_filesystem_identity c))))))"

definition hash_running_commitment :: "session_running_commitment \<Rightarrow> string expected" where
  "hash_running_commitment c =
     and_then (running_material ''glove.session-running-commitment'' ''running'' c) sha256_hex"

definition hash_stopping_commitment :: "session_running_commitment \<Rightarrow> string expected" where
  "hash_stopping_commitment c =
     and_then (running_material ''glove.session-stopping-commitment'' ''stopping'' c) sha256_hex"

definition managed_execution_binding_material ::
    "managed_session_execution_binding \<Rightarrow> bytes expected" where
  "managed_execution_binding_material b =
     and_then (or_error ''managed execution binding hash domain is invalid''
                (append_string [] ''glove.managed-session-execution-binding'')) (\<lambda>m.
     and_then (append_strings ''managed execution binding field exceeds its bound''
                (append_u8 m (mb_schema_version b))
                [mb_session_id b, mb_controller_plan_digest b, mb_plan_content_digest b,
                 mb_authorization_id b, mb_profile_digest b]) (\<lambda>m.
       append_managed_runtime_identity m (Some (mb_runtime_identity b))))"

definition hash_managed_execution_binding :: "managed_session_execution_binding \<Rightarrow> string expected" where
  "hash_managed_execution_binding b = and_then (managed_execution_binding_material b) sha256_hex"

definition managed_running_material ::
    "managed_session_running_commitment \<Rightarrow> string \<Rightarrow> bytes expected" where
  "managed_running_material c domain =
     and_then (or_error ''managed lifecycle hash domain is invalid'' (append_string [] domain)) (\<lambda>m.
     and_then (append_strings ''managed lifecycle field exceeds its bound''
                (append_u8 m (mc_schema_version c))
                [mc_session_id c, mc_controller_plan_digest c, mc_plan_content_digest c,
                 mc_authorization_id c, mc_profile_digest c]) (\<lambda>m.
       append_managed_runtime_identity m (Some (mc_runtime_identity c))))"

definition hash_managed_running_commitment ::
    "managed_session_running_commitment \<Rightarrow> string \<Rightarrow> string expected" where
  "hash_managed_running_commitment c domain = and_then (managed_running_material c domain) sha256_hex"

definition terminal_material :: "terminal_reference \<Rightarrow> bytes expected" where
  "terminal_material t =
     and_then (or_error ''terminal envelope hash domain is invalid''
                (append_string [] ''glove.session-terminal-envelope'')) (\<lambda>m.
     and_then (append_strings ''terminal envelope hash field exceeds its bound''
                (append_u64 (append_u8 m (tr_schema_version t)) (tr_sequence t))
                [tr_key_id t, tr_session_id t, tr_controller_plan_digest t, tr_profile_digest t,
                 tr_receipt_digest t, tr_previous_hmac t, tr_this_hmac t,
                 termination_cause_name (tr_termination_cause t)]) (\<lambda>m.
       Inr (append_exit_code (append_u64 (append_u64 m (tr_started_at_ms t)) (tr_finished_at_ms t))
              (tr_exit_code t))))"

definition hash_terminal_reference :: "terminal_reference \<Rightarrow> string expected" where
  "hash_terminal_reference t = and_then (terminal_material t) sha256_hex"

definition resource_terminal_reference ::
    "authenticated_resource_enforcement_receipt \<Rightarrow> terminal_reference" where
  "resource_terminal_reference t =
     \<lparr>tr_schema_version = ar_schema_version t, tr_sequence = ar_sequence t,
      tr_key_id = ar_key_id t, tr_session_id = ar_session_id t,
      tr_controller_plan_digest = ar_controller_plan_digest t,
      tr_profile_digest = rr_profile_digest (ar_receipt t),
      tr_receipt_digest = ar_receipt_digest t, tr_previous_hmac = ar_previous_hmac t,
      tr_this_hmac = ar_this_hmac t, tr_termination_cause = rr_termination_cause (ar_receipt t),
      tr_started_at_ms = rr_started_at_ms (ar_receipt t),
      tr_finished_at_ms = rr_finished_at_ms (ar_receipt t),
      tr_exit_code = rr_exit_code (ar_receipt t)\<rparr>"

definition refinement_terminal_reference ::
    "authenticated_refinement_evaluation_receipt \<Rightarrow> terminal_reference" where
  "refinement_terminal_reference t =
     (let resource = re_resource_receipt (af_receipt t) in
      \<lparr>tr_schema_version = af_schema_version t, tr_sequence = af_sequence t,
       tr_key_id = af_key_id t, tr_session_id = af_session_id t,
       tr_controller_plan_digest = af_controller_plan_digest t,
       tr_profile_digest = rr_profile_digest resource,
       tr_receipt_digest = af_receipt_digest t, tr_previous_hmac = af_previous_hmac t,
       tr_this_hmac = af_this_hmac t, tr_termination_cause = rr_termination_cause resource,
       tr_started_at_ms = rr_started_at_ms resource,
       tr_finished_at_ms = rr_finished_at_ms resource,
       tr_exit_code = rr_exit_code resource\<rparr>)"

definition hash_terminal_envelope ::
    "authenticated_resource_enforcement_receipt \<Rightarrow> string expected" where
  "hash_terminal_envelope t = hash_terminal_reference (resource_terminal_reference t)"

definition hash_refinement_terminal_envelope ::
    "authenticated_refinement_evaluation_receipt \<Rightarrow> string expected" where
  "hash_refinement_terminal_envelope t = hash_terminal_reference (refinement_terminal_reference t)"

definition failure_material :: "session_failure_commitment \<Rightarrow> bytes expected" where
  "failure_material c =
     and_then (or_error ''failure commitment hash domain is invalid''
                (append_string [] ''glove.session-failure-commitment'')) (\<lambda>m.
       append_strings ''failure commitment field exceeds its bound''
         (append_u8 m (fc_schema_version c))
         [fc_session_id c, fc_controller_plan_digest c, fc_plan_content_digest c,
          fc_authorization_id c, fc_profile_digest c, failure_code_name (fc_code c)])"

definition hash_failure_commitment :: "session_failure_commitment \<Rightarrow> string expected" where
  "hash_failure_commitment c = and_then (failure_material c) sha256_hex"

definition observation_body_material :: "glove_observation_body \<Rightarrow> bytes expected" where
  "observation_body_material b =
     and_then (or_error ''observation intent hash domain is invalid''
                (append_string [] ''glove.observation-body.v1'')) (\<lambda>m.
     and_then (append_strings ''observation intent field exceeds its hash bound'' m
                [ob_schema b, ob_intent_id b, ob_observation b, ob_value_digest b]) (\<lambda>m.
       Inr (append_u64 m (ob_item_count b))))"

definition hash_observation_intent_body :: "glove_observation_body \<Rightarrow> string expected" where
  "hash_observation_intent_body b = and_then (observation_body_material b) sha256_hex"

definition observation_request_material ::
    "glove_observation_body \<Rightarrow> observation_intent_context \<Rightarrow> bytes expected" where
  "observation_request_material b c =
     and_then (or_error ''observation enqueue hash domain is invalid''
                (append_string [] ''glove.observation-intent-enqueue.v1'')) (\<lambda>m.
     and_then (append_strings ''observation enqueue field exceeds its hash bound'' m
                [ob_schema b, ob_intent_id b, ob_observation b, ob_value_digest b,
                 ox_session_id c, ox_controller_plan_digest c, ox_profile_digest c,
                 ox_runtime_id c, ox_projection_digest c, ox_channel_id c]) (\<lambda>m.
     let m = append_u64 m (ob_item_count b);
         m = append_u64 m (ox_policy_revision c);
         m = append_u64 m (ox_channel_generation c);
         m = append_u64 m (ox_issued_at_ms c)
     in Inr (append_u64 m (ox_expires_at_ms c))))"

definition hash_observation_intent_request ::
    "glove_observation_body \<Rightarrow> observation_intent_context \<Rightarrow> string expected" where
  "hash_observation_intent_request b c = and_then (observation_request_material b c) sha256_hex"

definition observation_disposition_material :: "observation_intent_disposition \<Rightarrow> bytes expected" where
  "observation_disposition_material d =
     and_then (or_error ''observation disposition hash domain is invalid''
                (append_string [] ''glove.observation-intent-disposition.v1'')) (\<lambda>m.
     and_then (append_strings ''observation disposition field exceeds its hash bound'' m
                [od_session_id d, od_intent_id d, od_intent_digest d,
                 disposition_name (od_disposition d)]) (\<lambda>m.
       Inr (append_u64 (append_u64 m (od_channel_generation d)) (od_decided_at_ms d))))"

definition hash_observation_intent_disposition :: "observation_intent_disposition \<Rightarrow> string expected" where
  "hash_observation_intent_disposition d = and_then (observation_disposition_material d) sha256_hex"

subsection \<open>Frames\<close>

definition encode_record :: "json_codec \<Rightarrow> persisted_session \<Rightarrow> bytes expected" where
  "encode_record jc r =
     (case write_json jc r of
        None \<Rightarrow> Inl ''encode session registry record failed''
      | Some payload \<Rightarrow>
          if payload = [] \<or> length payload > max_record_payload_bytes
          then Inl ''session registry record exceeds its bound''
          else Inr (append_u32 (append_u32 [] (of_nat (length payload)) @ bytes_of_string payload)
                      (of_nat (length payload))))"

definition decode_record :: "json_codec \<Rightarrow> string \<Rightarrow> persisted_session expected" where
  "decode_record jc payload =
     or_error ''decode session registry record failed'' (read_json jc payload)"

end
