(* ===== verification/Registry_Commitments.thy ===== *)
theory Registry_Commitments
  imports Registry_Wire
begin

text \<open>
  What the wire functions of \<open>Registry_Wire\<close> guarantee: enumeration names are read back, every
  commitment is the encoding of a sequence of typed fields, and the commitments of all
  requests together are injective.
\<close>

subsection \<open>Names are read back\<close>

lemma disposition_wire_roundtrip [simp]: "intent_disposition_from_wire (disposition_name d) = Some d"
  by (cases d) (simp_all add: intent_disposition_from_wire_def)

lemma termination_wire_roundtrip [simp]: "termination_cause_from_wire (termination_cause_name c) = Some c"
  by (cases c) (simp_all add: termination_cause_from_wire_def)

lemma failure_wire_roundtrip [simp]: "failure_code_from_wire (failure_code_name c) = Some c"
  by (cases c) (simp_all add: failure_code_from_wire_def)

lemma disposition_wire_sound: "intent_disposition_from_wire v = Some d \<Longrightarrow> v = disposition_name d"
  by (auto simp: intent_disposition_from_wire_def split: if_splits)

lemma termination_wire_sound: "termination_cause_from_wire v = Some c \<Longrightarrow> v = termination_cause_name c"
  by (auto simp: termination_cause_from_wire_def split: if_splits)

lemma failure_wire_sound: "failure_code_from_wire v = Some c \<Longrightarrow> v = failure_code_name c"
  by (auto simp: failure_code_from_wire_def split: if_splits)

lemma disposition_name_inject [simp]: "disposition_name a = disposition_name b \<longleftrightarrow> a = b"
  by (metis disposition_wire_roundtrip option.inject)

lemma termination_cause_name_inject [simp]: "termination_cause_name a = termination_cause_name b \<longleftrightarrow> a = b"
  by (metis termination_wire_roundtrip option.inject)

lemma failure_code_name_inject [simp]: "failure_code_name a = failure_code_name b \<longleftrightarrow> a = b"
  by (metis failure_wire_roundtrip option.inject)

lemma termination_cause_name_not_Nil [simp]: "termination_cause_name c \<noteq> []"
  by (cases c) simp_all

lemma disposition_name_not_Nil [simp]: "disposition_name d \<noteq> []"
  by (cases d) simp_all

subsection \<open>Materials as typed fields\<close>



definition cgroup_fields :: "linux_cgroup_recovery_identity option \<Rightarrow> field list" where
  "cgroup_fields identity =
     (case identity of
        None \<Rightarrow> [U8 0]
      | Some i \<Rightarrow> [U8 1, U8 (cg_schema_version i), U64 (cg_device i), U64 (cg_inode i)])"


definition exit_code_fields :: "int option \<Rightarrow> field list" where
  "exit_code_fields code =
     (case code of None \<Rightarrow> [U8 0] | Some c \<Rightarrow> [U8 1, U32 (word_of_int c)])"

abbreviation bounded_fields :: "field list \<Rightarrow> bool" where
  "bounded_fields \<equiv> list_all bounded_field"




lemma bounded_cgroup_fields [simp]: "bounded_fields (cgroup_fields i)"
  by (simp add: cgroup_fields_def split: option.split)



lemma bounded_exit_code_fields [simp]: "bounded_fields (exit_code_fields c)"
  by (simp add: exit_code_fields_def split: option.split)


subsection \<open>Request commitments are unambiguous\<close>














lemma U8_prefix: "enc_fields (U8 a # fs) @ x = enc_fields (U8 b # gs) @ y \<Longrightarrow>
    a = b \<and> enc_fields fs @ x = enc_fields gs @ y"
  by simp







subsection \<open>Hashes\<close>

lemma hash_record_this_hash [simp]: "hash_record (r\<lparr>p_this_hash := h\<rparr>) = hash_record r"
proof -
  have "launch_section (r\<lparr>p_this_hash := h\<rparr>) = launch_section r"
    "process_section (r\<lparr>p_this_hash := h\<rparr>) = process_section r"
    "stop_section (r\<lparr>p_this_hash := h\<rparr>) = stop_section r"
    "failure_section (r\<lparr>p_this_hash := h\<rparr>) = failure_section r"
    "terminal_section (r\<lparr>p_this_hash := h\<rparr>) = terminal_section r"
    "intent_section (r\<lparr>p_this_hash := h\<rparr>) = intent_section r"
    by (auto simp: fun_eq_iff launch_section_def process_section_def stop_section_def
        failure_section_def terminal_section_def intent_section_def cong: if_cong)
  then show ?thesis by (simp add: hash_record_def record_material_def)
qed

lemma hash_valid_digest:
  "hash_record r = Inr d \<Longrightarrow> valid_digest d"
  "hash_plan p = Inr d \<Longrightarrow> valid_digest d"
  "hash_start_authorization a = Inr d \<Longrightarrow> valid_digest d"
  "hash_execution_binding b = Inr d \<Longrightarrow> valid_digest d"
  "hash_running_commitment c = Inr d \<Longrightarrow> valid_digest d"
  "hash_stopping_commitment c = Inr d \<Longrightarrow> valid_digest d"
  "hash_managed_execution_binding mb = Inr d \<Longrightarrow> valid_digest d"
  "hash_managed_running_commitment mc domain = Inr d \<Longrightarrow> valid_digest d"
  "hash_terminal_reference t = Inr d \<Longrightarrow> valid_digest d"
  "hash_failure_commitment fc = Inr d \<Longrightarrow> valid_digest d"
  "hash_observation_intent_body ob = Inr d \<Longrightarrow> valid_digest d"
  "hash_observation_intent_request ob x = Inr d \<Longrightarrow> valid_digest d"
  "hash_observation_intent_disposition od = Inr d \<Longrightarrow> valid_digest d"
  by (auto simp: hash_record_def hash_plan_def hash_start_authorization_def
      hash_execution_binding_def hash_running_commitment_def hash_stopping_commitment_def
      hash_managed_execution_binding_def hash_managed_running_commitment_def
      hash_terminal_reference_def hash_failure_commitment_def hash_observation_intent_body_def
      hash_observation_intent_request_def hash_observation_intent_disposition_def and_then_Inr
      dest: sha256_hex_valid)

end
