(* ===== verification/Registry_Shape.thy ===== *)
theory Registry_Shape
  imports Registry_Commitments
begin

text \<open>
  The structural predicates of \<open>src/control/session_registry_impl.hpp\<close>, up to
  \<open>valid_record_shape\<close>, which decides whether one durable record is well formed on its own,
  and the projections of a durable record to the public lifecycle records
  (\<open>src/control/session_registry_replay.cpp\<close>).
\<close>

subsection \<open>Errors\<close>

datatype session_registry_error_code =
  Invalid_request | Invalid_plan | Invalid_authorization | Invalid_state | Idempotency_conflict
| Session_conflict | Not_found | Capacity | Storage

record session_registry_error =
  err_code :: session_registry_error_code
  err_message :: string

type_synonym 'a registry_result = "session_registry_error + 'a"

definition failure :: "session_registry_error_code \<Rightarrow> string \<Rightarrow> session_registry_error" where
  "failure code message = \<lparr>err_code = code, err_message = message\<rparr>"

definition storage_failure :: "string \<Rightarrow> session_registry_error" where
  "storage_failure message = failure Storage message"

subsection \<open>Constants\<close>

definition registry_magic :: bytes where
  "registry_magic = bytes_of_string ''GLVSES05''"

definition min_registry_bytes :: u64 where "min_registry_bytes = 1024"
definition max_records :: nat where "max_records = 10000"
definition max_start_authorization_ttl_ms :: u64 where "max_start_authorization_ttl_ms = 120000"

subsection \<open>Observation intents\<close>

definition observation_intent_key :: "string \<Rightarrow> u64 \<Rightarrow> string \<Rightarrow> string" where
  "observation_intent_key session_id channel_generation intent_id =
     session_id @ ''\<newline>'' @ decimal (unat channel_generation) @ ''\<newline>'' @ intent_id"

datatype observation_quarantine_reason = Schema_unavailable | Schema_incompatible

fun observation_quarantine_reason_name :: "observation_quarantine_reason \<Rightarrow> string" where
  "observation_quarantine_reason_name Schema_unavailable = ''schema_unavailable''"
| "observation_quarantine_reason_name Schema_incompatible = ''schema_incompatible''"

definition observation_body_bytes :: "glove_observation_body \<Rightarrow> nat" where
  "observation_body_bytes b =
     length (ob_schema b) + length (ob_intent_id b) + length (ob_observation b) +
     length (ob_value_digest b) + 8"

definition valid_observation_body_shape :: "glove_observation_body \<Rightarrow> bool" where
  "valid_observation_body_shape b =
     (valid_identifier (ob_intent_id b) \<and> valid_identifier (ob_observation b) \<and>
      valid_digest (ob_value_digest b) \<and> unat (ob_item_count b) \<le> max_observation_items \<and>
      observation_body_bytes b \<le> max_observation_body_bytes)"

definition body_validator_accepts :: "channel_descriptor \<Rightarrow> glove_observation_body \<Rightarrow> bool" where
  "body_validator_accepts d b = (case body_validator d of None \<Rightarrow> False | Some f \<Rightarrow> f b)"

definition admitted :: "channel_host option \<Rightarrow> string \<Rightarrow> channel_descriptor option" where
  "admitted host schema = (case host of None \<Rightarrow> None | Some h \<Rightarrow> admits h schema)"

definition historical_observation_quarantine_reason ::
    "channel_host option \<Rightarrow> glove_observation_body \<Rightarrow> u64 \<Rightarrow> observation_quarantine_reason option" where
  "historical_observation_quarantine_reason host b ttl_ms =
     (case admitted host (ob_schema b) of
        None \<Rightarrow> Some Schema_unavailable
      | Some d \<Rightarrow>
          if unat (ob_item_count b) > max_items (bounds d) \<or>
             observation_body_bytes b > max_body_bytes (bounds d) \<or>
             ttl_ms > max_ttl_ms (bounds d) \<or> \<not> body_validator_accepts d b
          then Some Schema_incompatible else None)"

definition observation_body_from_wire :: "persisted_observation_intent \<Rightarrow> glove_observation_body" where
  "observation_body_from_wire i =
     \<lparr>ob_schema = oi_schema i, ob_intent_id = oi_intent_id i, ob_observation = oi_observation i,
      ob_value_digest = oi_value_digest i, ob_item_count = oi_item_count i\<rparr>"

definition observation_context_from_wire ::
    "persisted_session \<Rightarrow> persisted_observation_intent \<Rightarrow> observation_intent_context" where
  "observation_context_from_wire r i =
     \<lparr>ox_session_id = p_session_id r, ox_controller_plan_digest = p_controller_plan_digest r,
      ox_profile_digest = oi_profile_digest i, ox_runtime_id = oi_runtime_id i,
      ox_projection_digest = oi_projection_digest i, ox_policy_revision = p_policy_revision r,
      ox_channel_id = oi_channel_id i, ox_channel_generation = oi_channel_generation i,
      ox_issued_at_ms = oi_issued_at_ms i, ox_expires_at_ms = oi_expires_at_ms i\<rparr>"

record observation_intent_item =
  it_sequence :: u64
  it_body :: glove_observation_body
  it_context :: observation_intent_context
  it_intent_digest :: string
  it_disposition :: intent_disposition
  it_decided_at_ms :: u64

definition observation_item_from_wire :: "persisted_session \<Rightarrow> observation_intent_item registry_result" where
  "observation_item_from_wire r =
     (case p_observation_intent r of
        None \<Rightarrow> Inl (failure Invalid_state ''session registry record has no observation intent'')
      | Some i \<Rightarrow>
          (case intent_disposition_from_wire (oi_disposition i) of
             None \<Rightarrow> Inl (failure Invalid_state ''session registry observation disposition is invalid'')
           | Some disposition \<Rightarrow>
               Inr \<lparr>it_sequence = p_sequence r, it_body = observation_body_from_wire i,
                    it_context = observation_context_from_wire r i,
                    it_intent_digest = oi_intent_digest i, it_disposition = disposition,
                    it_decided_at_ms = oi_decided_at_ms i\<rparr>))"

definition refinement_plan :: "json_codec \<Rightarrow> string \<Rightarrow> bool" where
  "refinement_plan jc plan =
     (case read_header jc plan of
        None \<Rightarrow> False
      | Some h \<Rightarrow> ph_runtime_template_id h = refinement_runtime_template_id)"

subsection \<open>Process, file-system and runtime identities\<close>

definition valid_boot_id :: "string \<Rightarrow> bool" where
  "valid_boot_id v =
     (length v = 36 \<and>
      list_all (\<lambda>(index, c). if index \<in> {8, 13, 18, 23} then c = CHR ''-'' else hex_byte c)
        (enumerate 0 v))"

definition valid_process_identity :: "linux_process_identity \<Rightarrow> bool" where
  "valid_process_identity i =
     (pi_schema_version i = 1 \<and> pi_pid i \<noteq> 0 \<and> unat (pi_pid i) \<le> 2 ^ 31 - 1 \<and>
      valid_boot_id (pi_boot_id i) \<and> pi_start_time_ticks i \<noteq> 0 \<and> pi_cgroup_device i \<noteq> 0 \<and>
      pi_cgroup_inode i \<noteq> 0 \<and> valid_digest (pi_cgroup_path_digest i))"

fun partitions_allocated ::
    "u64 \<Rightarrow> u64 \<Rightarrow> string \<Rightarrow> linux_filesystem_quota_partition list \<Rightarrow> u64 option" where
  "partitions_allocated limit allocated previous_alias [] = Some allocated"
| "partitions_allocated limit allocated previous_alias (part # parts) =
     (if \<not> valid_identifier (fp_alias part) \<or> fp_quota_bytes part = 0 \<or>
         (previous_alias \<noteq> [] \<and> fp_alias part \<le> previous_alias) \<or>
         fp_quota_bytes part > limit - allocated
      then None
      else partitions_allocated limit (allocated + fp_quota_bytes part) (fp_alias part) parts)"

definition valid_filesystem_identity :: "linux_filesystem_recovery_identity \<Rightarrow> bool" where
  "valid_filesystem_identity i =
     (if fs_schema_version i \<noteq> 1 \<or> fs_disk_limit_bytes i = 0 \<or> length (fs_partitions i) > 128
      then False
      else (case partitions_allocated (fs_disk_limit_bytes i) 0 [] (fs_partitions i) of
              None \<Rightarrow> False
            | Some allocated \<Rightarrow> allocated < fs_disk_limit_bytes i))"

definition valid_cgroup_identity :: "linux_cgroup_recovery_identity \<Rightarrow> bool" where
  "valid_cgroup_identity i = (cg_schema_version i = 1 \<and> cg_device i \<noteq> 0 \<and> cg_inode i \<noteq> 0)"

definition valid_managed_runtime_identity :: "managed_runtime_recovery_identity \<Rightarrow> bool" where
  "valid_managed_runtime_identity i =
     (mr_schema_version i = 1 \<and> mr_backend i = ''apple_container'' \<and>
      valid_identifier (mr_instance_id i) \<and> valid_digest (mr_launch_identity_digest i))"

definition no_process_identity :: "persisted_session \<Rightarrow> bool" where
  "no_process_identity r =
     (p_process_identity_schema_version r = 0 \<and> p_process_pid r = 0 \<and> p_process_boot_id r = [] \<and>
      p_process_start_time_ticks r = 0 \<and> p_process_cgroup_device r = 0 \<and>
      p_process_cgroup_inode r = 0 \<and> p_process_cgroup_path_digest r = [])"

definition no_resource_identity :: "persisted_session \<Rightarrow> bool" where
  "no_resource_identity r =
     (no_process_identity r \<and> p_cgroup_identity r = None \<and> p_filesystem_identity r = None \<and>
      p_managed_runtime_identity r = None)"

definition wire_process_identity :: "persisted_session \<Rightarrow> linux_process_identity" where
  "wire_process_identity r =
     \<lparr>pi_schema_version = p_process_identity_schema_version r, pi_pid = p_process_pid r,
      pi_boot_id = p_process_boot_id r, pi_start_time_ticks = p_process_start_time_ticks r,
      pi_cgroup_device = p_process_cgroup_device r, pi_cgroup_inode = p_process_cgroup_inode r,
      pi_cgroup_path_digest = p_process_cgroup_path_digest r\<rparr>"

definition process_identity_from_wire :: "persisted_session \<Rightarrow> linux_process_identity option" where
  "process_identity_from_wire r =
     (if \<not> valid_process_identity (wire_process_identity r) then None
      else Some (wire_process_identity r))"

definition same_process_identity :: "persisted_session \<Rightarrow> persisted_session \<Rightarrow> bool" where
  "same_process_identity l r =
     (p_process_identity_schema_version l = p_process_identity_schema_version r \<and>
      p_process_pid l = p_process_pid r \<and> p_process_boot_id l = p_process_boot_id r \<and>
      p_process_start_time_ticks l = p_process_start_time_ticks r \<and>
      p_process_cgroup_device l = p_process_cgroup_device r \<and>
      p_process_cgroup_inode l = p_process_cgroup_inode r \<and>
      p_process_cgroup_path_digest l = p_process_cgroup_path_digest r)"

definition matches_process_identity :: "persisted_session \<Rightarrow> linux_process_identity \<Rightarrow> bool" where
  "matches_process_identity r i =
     (p_process_identity_schema_version r = pi_schema_version i \<and> p_process_pid r = pi_pid i \<and>
      p_process_boot_id r = pi_boot_id i \<and> p_process_start_time_ticks r = pi_start_time_ticks i \<and>
      p_process_cgroup_device r = pi_cgroup_device i \<and>
      p_process_cgroup_inode r = pi_cgroup_inode i \<and>
      p_process_cgroup_path_digest r = pi_cgroup_path_digest i)"

subsection \<open>Shape of one durable record\<close>

definition common_shape :: "persisted_session \<Rightarrow> u64 \<Rightarrow> bool" where
  "common_shape r sequence =
     (p_schema_version r = 1 \<and> p_sequence r = sequence \<and> valid_identifier (p_operation r) \<and>
      valid_identifier (p_idempotency_key r) \<and> valid_identifier (p_session_id r) \<and>
      valid_digest (p_controller_plan_digest r) \<and> valid_digest (p_request_digest r) \<and>
      valid_digest (p_plan_content_digest r) \<and> state_from_wire (p_state r) \<noteq> None \<and>
      p_policy_revision r \<noteq> 0 \<and> p_expires_at_ms r \<noteq> 0 \<and> p_created_at_ms r \<noteq> 0 \<and>
      p_canonical_plan_json r \<noteq> [] \<and>
      length (p_canonical_plan_json r) \<le> max_record_payload_bytes \<and>
      valid_digest (p_previous_hash r) \<and> valid_digest (p_this_hash r))"

definition intent_shape :: "persisted_session \<Rightarrow> bool" where
  "intent_shape r =
     (case p_observation_intent r of
        None \<Rightarrow> False
      | Some i \<Rightarrow>
          oi_schema_version i = 1 \<and> valid_identifier (oi_schema i) \<and>
          valid_observation_body_shape (observation_body_from_wire i) \<and>
          valid_digest (oi_intent_digest i) \<and> valid_digest (oi_profile_digest i) \<and>
          valid_identifier (oi_runtime_id i) \<and> valid_digest (oi_projection_digest i) \<and>
          valid_identifier (oi_channel_id i) \<and> oi_channel_generation i \<noteq> 0 \<and>
          oi_issued_at_ms i \<noteq> 0 \<and> oi_expires_at_ms i > oi_issued_at_ms i \<and>
          oi_expires_at_ms i - oi_issued_at_ms i \<le> max_observation_intent_ttl_ms \<and>
          (case intent_disposition_from_wire (oi_disposition i) of
             None \<Rightarrow> False
           | Some disposition \<Rightarrow>
               if p_operation r = ''enqueue_observation_intent_v1''
               then disposition = Pending \<and> oi_decided_at_ms i = 0
               else disposition \<noteq> Pending \<and> oi_decided_at_ms i \<ge> oi_issued_at_ms i \<and>
                    (if disposition = Expired then oi_decided_at_ms i \<ge> oi_expires_at_ms i
                     else oi_decided_at_ms i < oi_expires_at_ms i)))"

definition no_terminal_receipt :: "persisted_session \<Rightarrow> bool" where
  "no_terminal_receipt r =
     (p_receipt_started_at_ms r = 0 \<and> p_receipt_key_id r = [] \<and> p_receipt_sequence r = 0 \<and>
      p_receipt_digest r = [] \<and> p_receipt_previous_hmac r = [] \<and> p_receipt_hmac r = [] \<and>
      p_termination_cause r = [] \<and> p_exit_code r = None)"

definition authorization_shape :: "persisted_session \<Rightarrow> bool" where
  "authorization_shape r =
     (valid_identifier (p_authorization_id r) \<and> p_authorized_at_ms r \<noteq> 0 \<and>
      p_authorization_expires_at_ms r > p_authorized_at_ms r \<and>
      p_authorization_expires_at_ms r - p_authorized_at_ms r \<le> max_start_authorization_ttl_ms \<and>
      p_authorization_expires_at_ms r \<le> p_expires_at_ms r)"

definition started_shape :: "persisted_session \<Rightarrow> bool" where
  "started_shape r =
     (authorization_shape r \<and> valid_digest (p_launch_profile_digest r) \<and>
      p_starting_at_ms r \<ge> p_authorized_at_ms r \<and>
      p_starting_at_ms r < p_authorization_expires_at_ms r)"

definition prepared_resources :: "persisted_session \<Rightarrow> bool" where
  "prepared_resources r =
     ((case p_cgroup_identity r of None \<Rightarrow> False | Some i \<Rightarrow> valid_cgroup_identity i) \<and>
      (case p_filesystem_identity r of None \<Rightarrow> False | Some i \<Rightarrow> valid_filesystem_identity i) \<and>
      p_managed_runtime_identity r = None)"

definition managed_resources :: "persisted_session \<Rightarrow> bool" where
  "managed_resources r =
     (no_process_identity r \<and> p_cgroup_identity r = None \<and> p_filesystem_identity r = None \<and>
      (case p_managed_runtime_identity r of None \<Rightarrow> False | Some i \<Rightarrow> valid_managed_runtime_identity i))"

definition process_in_cgroup :: "persisted_session \<Rightarrow> bool" where
  "process_in_cgroup r =
     (case (process_identity_from_wire r, p_cgroup_identity r) of
        (Some i, Some c) \<Rightarrow> pi_cgroup_device i = cg_device c \<and> pi_cgroup_inode i = cg_inode c
      | _ \<Rightarrow> False)"

definition running_shape :: "persisted_session \<Rightarrow> bool" where
  "running_shape r =
     (p_running_at_ms r \<ge> p_starting_at_ms r \<and> p_running_at_ms r < p_authorization_expires_at_ms r \<and>
      process_identity_from_wire r \<noteq> None \<and> prepared_resources r \<and> process_in_cgroup r)"

definition managed_running_shape :: "persisted_session \<Rightarrow> bool" where
  "managed_running_shape r =
     (p_running_at_ms r \<ge> p_starting_at_ms r \<and> p_running_at_ms r < p_authorization_expires_at_ms r \<and>
      managed_resources r)"

definition valid_exit_code :: "persisted_session \<Rightarrow> bool" where
  "valid_exit_code r =
     (case termination_cause_from_wire (p_termination_cause r) of
        None \<Rightarrow> False
      | Some cause \<Rightarrow>
          (case p_exit_code r of
             None \<Rightarrow> cause \<noteq> Exited
           | Some code \<Rightarrow> cause = Exited \<and> code \<ge> 0 \<and> code \<le> 255))"

definition terminal_shape :: "persisted_session \<Rightarrow> bool" where
  "terminal_shape r =
     ((p_stopping_at_ms r = 0 \<or> p_stopping_at_ms r \<ge> p_running_at_ms r) \<and> p_failure_code r = [] \<and>
      p_receipt_started_at_ms r \<noteq> 0 \<and> p_receipt_started_at_ms r \<le> p_running_at_ms r \<and>
      p_finished_at_ms r \<ge>
        (if p_stopping_at_ms r = 0 then p_running_at_ms r else p_stopping_at_ms r) \<and>
      valid_digest (p_receipt_key_id r) \<and> p_receipt_sequence r \<noteq> 0 \<and>
      valid_digest (p_receipt_digest r) \<and> valid_digest (p_receipt_previous_hmac r) \<and>
      valid_digest (p_receipt_hmac r) \<and> valid_exit_code r)"

definition post_launch_failure :: "session_failure_code option \<Rightarrow> bool" where
  "post_launch_failure code =
     (code \<in> {Some Supervisor_error, Some Recovered_without_process, Some Recovered_terminated})"

definition valid_record_shape :: "persisted_session \<Rightarrow> u64 \<Rightarrow> bool" where
  "valid_record_shape r sequence =
     (let operation = p_operation r; state = p_state r;
          no_stop_intent = (p_stopping_at_ms r = 0);
          open_ended = (p_failure_code r = [] \<and> p_finished_at_ms r = 0 \<and> no_terminal_receipt r);
          not_launched = (p_launch_profile_digest r = [] \<and> p_starting_at_ms r = 0 \<and>
            p_running_at_ms r = 0 \<and> no_stop_intent \<and> no_resource_identity r \<and> open_ended);
          code = failure_code_from_wire (p_failure_code r);
          stopping = (running_shape r \<and> p_stopping_at_ms r \<ge> p_running_at_ms r)
      in
      if \<not> common_shape r sequence then False
      else if operation = ''enqueue_observation_intent_v1'' \<or>
              operation = ''set_observation_intent_disposition_v1''
      then intent_shape r
      else if p_observation_intent r \<noteq> None then False
      else if operation = ''create'' \<and> state = ''created''
      then p_authorization_id r = [] \<and> p_authorized_at_ms r = 0 \<and>
           p_authorization_expires_at_ms r = 0 \<and> not_launched
      else if operation = ''reserve_start'' \<and> state = ''preparing''
      then authorization_shape r \<and> not_launched
      else if operation = ''mark_starting'' \<and> state = ''starting''
      then started_shape r \<and> p_running_at_ms r = 0 \<and> no_stop_intent \<and> no_process_identity r \<and>
           prepared_resources r \<and> open_ended
      else if operation = ''mark_managed_starting'' \<and> state = ''starting''
      then started_shape r \<and> p_running_at_ms r = 0 \<and> no_stop_intent \<and> managed_resources r \<and> open_ended
      else if operation = ''mark_running'' \<and> state = ''running''
      then started_shape r \<and> running_shape r \<and> no_stop_intent \<and> open_ended
      else if operation = ''mark_managed_running'' \<and> state = ''running''
      then started_shape r \<and> managed_running_shape r \<and> no_stop_intent \<and> open_ended
      else if operation = ''mark_stopping'' \<and> state = ''stopping''
      then started_shape r \<and> stopping \<and> open_ended
      else if operation = ''mark_managed_stopping'' \<and> state = ''stopping''
      then started_shape r \<and> managed_running_shape r \<and> p_stopping_at_ms r \<ge> p_running_at_ms r \<and>
           open_ended
      else if (operation = ''mark_exited'' \<or> operation = ''mark_refinement_exited'') \<and> state = ''exited''
      then started_shape r \<and> running_shape r \<and> terminal_shape r
      else if operation = ''mark_managed_exited'' \<and> state = ''exited''
      then started_shape r \<and> managed_running_shape r \<and> terminal_shape r
      else if operation = ''mark_managed_failed'' \<and> state = ''failed''
      then started_shape r \<and> code \<noteq> None \<and>
           (managed_resources r \<and>
            ((p_running_at_ms r = 0 \<and> no_stop_intent) \<or>
             (p_running_at_ms r \<noteq> 0 \<and>
              (no_stop_intent \<or> p_stopping_at_ms r \<ge> p_running_at_ms r) \<and> post_launch_failure code))) \<and>
           no_terminal_receipt r \<and>
           p_finished_at_ms r \<ge>
             (if p_stopping_at_ms r \<noteq> 0 then p_stopping_at_ms r
              else if p_running_at_ms r \<noteq> 0 then p_running_at_ms r else p_starting_at_ms r)
      else operation = ''mark_failed'' \<and> state = ''failed'' \<and> started_shape r \<and> code \<noteq> None \<and>
           ((p_running_at_ms r = 0 \<and> no_process_identity r \<and> prepared_resources r \<and> no_stop_intent) \<or>
            (running_shape r \<and> (no_stop_intent \<or> stopping) \<and> post_launch_failure code)) \<and>
           no_terminal_receipt r \<and>
           p_finished_at_ms r \<ge>
             (if stopping then p_stopping_at_ms r
              else if running_shape r then p_running_at_ms r else p_starting_at_ms r))"

end
