(* ===== verification/Registry_Projections.thy ===== *)
theory Registry_Projections
  imports Registry_Shape
begin

text \<open>
  The public lifecycle records of the registry and the functions that rebuild them from a
  durable record: \<open>public_record\<close> of \<open>session_registry_impl.hpp\<close> and the
  \<open>..._from_wire\<close> functions of \<open>src/control/session_registry_replay.cpp\<close>.  Each checks the
  record again and reports an invalid state otherwise.
\<close>

record session_record =
  s_schema_version :: u8
  s_session_id :: string
  s_controller_plan_digest :: string
  s_plan_content_digest :: string
  s_state :: session_state
  s_policy_revision :: u64
  s_expires_at_ms :: u64
  s_created_at_ms :: u64

record session_starting_record =
  sg_session :: session_record
  sg_authorization_id :: string
  sg_authorization_expires_at_ms :: u64
  sg_profile_digest :: string
  sg_starting_at_ms :: u64
  sg_cgroup_identity :: linux_cgroup_recovery_identity
  sg_filesystem_identity :: linux_filesystem_recovery_identity

record session_running_record =
  rg_session :: session_record
  rg_profile_digest :: string
  rg_starting_at_ms :: u64
  rg_running_at_ms :: u64
  rg_process_identity :: linux_process_identity
  rg_filesystem_identity :: linux_filesystem_recovery_identity

record session_stopping_record =
  pg_session :: session_record
  pg_profile_digest :: string
  pg_starting_at_ms :: u64
  pg_running_at_ms :: u64
  pg_stopping_at_ms :: u64
  pg_process_identity :: linux_process_identity
  pg_filesystem_identity :: linux_filesystem_recovery_identity

record session_exited_record =
  xg_session :: session_record
  xg_profile_digest :: string
  xg_starting_at_ms :: u64
  xg_running_at_ms :: u64
  xg_stopping_at_ms :: u64
  xg_process_identity :: linux_process_identity
  xg_filesystem_identity :: linux_filesystem_recovery_identity
  xg_finished_at_ms :: u64
  xg_receipt_key_id :: string
  xg_receipt_sequence :: u64
  xg_receipt_digest :: string
  xg_receipt_hmac :: string
  xg_termination_cause :: resource_termination_cause
  xg_exit_code :: "int option"
  xg_refinement_receipt :: bool

record session_failed_record =
  fg_session :: session_record
  fg_profile_digest :: string
  fg_starting_at_ms :: u64
  fg_running_at_ms :: u64
  fg_stopping_at_ms :: u64
  fg_process_identity :: "linux_process_identity option"
  fg_cgroup_identity :: "linux_cgroup_recovery_identity option"
  fg_filesystem_identity :: "linux_filesystem_recovery_identity option"
  fg_failed_at_ms :: u64
  fg_code :: session_failure_code

record managed_session_lifecycle_record =
  ml_session :: session_record
  ml_authorization_id :: string
  ml_authorization_expires_at_ms :: u64
  ml_profile_digest :: string
  ml_starting_at_ms :: u64
  ml_running_at_ms :: u64
  ml_stopping_at_ms :: u64
  ml_runtime_identity :: managed_runtime_recovery_identity

record managed_session_exited_record =
  me_lifecycle :: managed_session_lifecycle_record
  me_finished_at_ms :: u64
  me_receipt_key_id :: string
  me_receipt_sequence :: u64
  me_receipt_digest :: string
  me_receipt_hmac :: string
  me_termination_cause :: resource_termination_cause
  me_exit_code :: "int option"

record managed_session_failed_record =
  mf_lifecycle :: managed_session_lifecycle_record
  mf_failed_at_ms :: u64
  mf_code :: session_failure_code

definition public_record :: "persisted_session \<Rightarrow> session_record" where
  "public_record r =
     \<lparr>s_schema_version = p_schema_version r, s_session_id = p_session_id r,
      s_controller_plan_digest = p_controller_plan_digest r,
      s_plan_content_digest = p_plan_content_digest r,
      s_state = (case state_from_wire (p_state r) of None \<Rightarrow> St_created | Some st \<Rightarrow> st),
      s_policy_revision = p_policy_revision r, s_expires_at_ms = p_expires_at_ms r,
      s_created_at_ms = p_created_at_ms r\<rparr>"

definition lacks_cgroup :: "persisted_session \<Rightarrow> bool" where
  "lacks_cgroup r =
     (case p_cgroup_identity r of None \<Rightarrow> True | Some i \<Rightarrow> \<not> valid_cgroup_identity i)"

definition lacks_filesystem :: "persisted_session \<Rightarrow> bool" where
  "lacks_filesystem r =
     (case p_filesystem_identity r of None \<Rightarrow> True | Some i \<Rightarrow> \<not> valid_filesystem_identity i)"

definition starting_record_from_wire :: "persisted_session \<Rightarrow> session_starting_record registry_result" where
  "starting_record_from_wire r =
     (if p_state r \<noteq> ''starting'' \<or> \<not> valid_digest (p_launch_profile_digest r) \<or>
         p_starting_at_ms r = 0 \<or> lacks_cgroup r \<or> lacks_filesystem r
      then Inl (failure Invalid_state ''session has no durable starting commitment'')
      else Inr \<lparr>sg_session = public_record r, sg_authorization_id = p_authorization_id r,
                sg_authorization_expires_at_ms = p_authorization_expires_at_ms r,
                sg_profile_digest = p_launch_profile_digest r, sg_starting_at_ms = p_starting_at_ms r,
                sg_cgroup_identity = the (p_cgroup_identity r),
                sg_filesystem_identity = the (p_filesystem_identity r)\<rparr>)"

definition running_record_from_wire :: "persisted_session \<Rightarrow> session_running_record registry_result" where
  "running_record_from_wire r =
     (if p_state r \<noteq> ''running'' \<or> \<not> valid_digest (p_launch_profile_digest r) \<or>
         p_starting_at_ms r = 0 \<or> p_running_at_ms r < p_starting_at_ms r \<or>
         process_identity_from_wire r = None \<or> lacks_cgroup r \<or> \<not> process_in_cgroup r \<or>
         lacks_filesystem r
      then Inl (failure Invalid_state ''session has no durable running commitment'')
      else Inr \<lparr>rg_session = public_record r, rg_profile_digest = p_launch_profile_digest r,
                rg_starting_at_ms = p_starting_at_ms r, rg_running_at_ms = p_running_at_ms r,
                rg_process_identity = the (process_identity_from_wire r),
                rg_filesystem_identity = the (p_filesystem_identity r)\<rparr>)"

definition stopping_record_from_wire :: "persisted_session \<Rightarrow> session_stopping_record registry_result" where
  "stopping_record_from_wire r =
     (if p_state r \<noteq> ''stopping'' \<or> \<not> valid_digest (p_launch_profile_digest r) \<or>
         p_starting_at_ms r = 0 \<or> p_running_at_ms r < p_starting_at_ms r \<or>
         p_stopping_at_ms r < p_running_at_ms r \<or> process_identity_from_wire r = None \<or>
         lacks_cgroup r \<or> \<not> process_in_cgroup r \<or> lacks_filesystem r
      then Inl (failure Invalid_state ''session has no durable stopping commitment'')
      else Inr \<lparr>pg_session = public_record r, pg_profile_digest = p_launch_profile_digest r,
                pg_starting_at_ms = p_starting_at_ms r, pg_running_at_ms = p_running_at_ms r,
                pg_stopping_at_ms = p_stopping_at_ms r,
                pg_process_identity = the (process_identity_from_wire r),
                pg_filesystem_identity = the (p_filesystem_identity r)\<rparr>)"

definition exited_record_from_wire :: "persisted_session \<Rightarrow> session_exited_record registry_result" where
  "exited_record_from_wire r =
     (case termination_cause_from_wire (p_termination_cause r) of
        None \<Rightarrow> Inl (failure Invalid_state ''session has no durable terminal receipt'')
      | Some cause \<Rightarrow>
        if p_state r \<noteq> ''exited'' \<or> \<not> valid_digest (p_launch_profile_digest r) \<or>
           p_starting_at_ms r = 0 \<or> p_running_at_ms r < p_starting_at_ms r \<or>
           process_identity_from_wire r = None \<or>
           p_finished_at_ms r <
             (if p_stopping_at_ms r = 0 then p_running_at_ms r else p_stopping_at_ms r) \<or>
           lacks_cgroup r \<or> \<not> process_in_cgroup r \<or> lacks_filesystem r \<or>
           \<not> valid_digest (p_receipt_key_id r) \<or> p_receipt_sequence r = 0 \<or>
           \<not> valid_digest (p_receipt_digest r) \<or> \<not> valid_digest (p_receipt_hmac r)
        then Inl (failure Invalid_state ''session has no durable terminal receipt'')
        else Inr \<lparr>xg_session = public_record r, xg_profile_digest = p_launch_profile_digest r,
                  xg_starting_at_ms = p_starting_at_ms r, xg_running_at_ms = p_running_at_ms r,
                  xg_stopping_at_ms = p_stopping_at_ms r,
                  xg_process_identity = the (process_identity_from_wire r),
                  xg_filesystem_identity = the (p_filesystem_identity r),
                  xg_finished_at_ms = p_finished_at_ms r, xg_receipt_key_id = p_receipt_key_id r,
                  xg_receipt_sequence = p_receipt_sequence r,
                  xg_receipt_digest = p_receipt_digest r, xg_receipt_hmac = p_receipt_hmac r,
                  xg_termination_cause = cause, xg_exit_code = p_exit_code r,
                  xg_refinement_receipt = (p_operation r = ''mark_refinement_exited'')\<rparr>)"

definition failed_record_from_wire :: "persisted_session \<Rightarrow> session_failed_record registry_result" where
  "failed_record_from_wire r =
     (let unprepared = (lacks_cgroup r \<or> lacks_filesystem r) in
      case failure_code_from_wire (p_failure_code r) of
        None \<Rightarrow> Inl (failure Invalid_state ''session has no durable failure commitment'')
      | Some code \<Rightarrow>
        if p_state r \<noteq> ''failed'' \<or> \<not> valid_digest (p_launch_profile_digest r) \<or>
           p_starting_at_ms r = 0 \<or>
           p_finished_at_ms r <
             (if p_stopping_at_ms r = 0
              then (if p_running_at_ms r = 0 then p_starting_at_ms r else p_running_at_ms r)
              else p_stopping_at_ms r) \<or>
           (p_running_at_ms r = 0 \<and> (\<not> no_process_identity r \<or> unprepared)) \<or>
           (p_running_at_ms r \<noteq> 0 \<and> \<not> (\<not> unprepared \<and> process_in_cgroup r))
        then Inl (failure Invalid_state ''session has no durable failure commitment'')
        else Inr \<lparr>fg_session = public_record r, fg_profile_digest = p_launch_profile_digest r,
                  fg_starting_at_ms = p_starting_at_ms r, fg_running_at_ms = p_running_at_ms r,
                  fg_stopping_at_ms = p_stopping_at_ms r,
                  fg_process_identity = process_identity_from_wire r,
                  fg_cgroup_identity = p_cgroup_identity r,
                  fg_filesystem_identity = p_filesystem_identity r,
                  fg_failed_at_ms = p_finished_at_ms r, fg_code = code\<rparr>)"

definition managed_lifecycle_from_wire ::
    "persisted_session \<Rightarrow> managed_session_lifecycle_record registry_result" where
  "managed_lifecycle_from_wire r =
     (case p_managed_runtime_identity r of
        None \<Rightarrow> Inl (failure Invalid_state ''session has no durable managed runtime commitment'')
      | Some identity \<Rightarrow>
        if p_state r \<notin> {''starting'', ''running'', ''stopping'', ''exited'', ''failed''} \<or>
           \<not> valid_digest (p_launch_profile_digest r) \<or> p_starting_at_ms r = 0 \<or>
           (p_running_at_ms r \<noteq> 0 \<and> p_running_at_ms r < p_starting_at_ms r) \<or>
           (p_stopping_at_ms r \<noteq> 0 \<and> p_stopping_at_ms r < p_running_at_ms r) \<or>
           \<not> no_process_identity r \<or> p_cgroup_identity r \<noteq> None \<or> p_filesystem_identity r \<noteq> None \<or>
           \<not> valid_managed_runtime_identity identity
        then Inl (failure Invalid_state ''session has no durable managed runtime commitment'')
        else Inr \<lparr>ml_session = public_record r, ml_authorization_id = p_authorization_id r,
                  ml_authorization_expires_at_ms = p_authorization_expires_at_ms r,
                  ml_profile_digest = p_launch_profile_digest r,
                  ml_starting_at_ms = p_starting_at_ms r, ml_running_at_ms = p_running_at_ms r,
                  ml_stopping_at_ms = p_stopping_at_ms r, ml_runtime_identity = identity\<rparr>)"

definition managed_exited_from_wire ::
    "persisted_session \<Rightarrow> managed_session_exited_record registry_result" where
  "managed_exited_from_wire r =
     (case (managed_lifecycle_from_wire r, termination_cause_from_wire (p_termination_cause r)) of
        (Inr lifecycle, Some cause) \<Rightarrow>
          if p_state r \<noteq> ''exited'' \<or> p_running_at_ms r = 0 \<or>
             p_finished_at_ms r <
               (if p_stopping_at_ms r = 0 then p_running_at_ms r else p_stopping_at_ms r) \<or>
             \<not> valid_digest (p_receipt_key_id r) \<or> p_receipt_sequence r = 0 \<or>
             \<not> valid_digest (p_receipt_digest r) \<or> \<not> valid_digest (p_receipt_hmac r)
          then Inl (failure Invalid_state ''session has no durable managed terminal receipt'')
          else Inr \<lparr>me_lifecycle = lifecycle, me_finished_at_ms = p_finished_at_ms r,
                    me_receipt_key_id = p_receipt_key_id r,
                    me_receipt_sequence = p_receipt_sequence r,
                    me_receipt_digest = p_receipt_digest r, me_receipt_hmac = p_receipt_hmac r,
                    me_termination_cause = cause, me_exit_code = p_exit_code r\<rparr>
      | _ \<Rightarrow> Inl (failure Invalid_state ''session has no durable managed terminal receipt''))"

definition managed_failed_from_wire ::
    "persisted_session \<Rightarrow> managed_session_failed_record registry_result" where
  "managed_failed_from_wire r =
     (case (managed_lifecycle_from_wire r, failure_code_from_wire (p_failure_code r)) of
        (Inr lifecycle, Some code) \<Rightarrow>
          if p_state r \<noteq> ''failed'' \<or>
             p_finished_at_ms r <
               (if p_stopping_at_ms r \<noteq> 0 then p_stopping_at_ms r
                else if p_running_at_ms r \<noteq> 0 then p_running_at_ms r else p_starting_at_ms r)
          then Inl (failure Invalid_state ''session has no durable managed failure commitment'')
          else Inr \<lparr>mf_lifecycle = lifecycle, mf_failed_at_ms = p_finished_at_ms r, mf_code = code\<rparr>
      | _ \<Rightarrow> Inl (failure Invalid_state ''session has no durable managed failure commitment''))"

end
