(* ===== verification/Plan_Interface.thy ===== *)
theory Plan_Interface
  imports Receipt_Chain
begin

text \<open>
  What the session registry sees of the supervisor's plan layer: the data of
  \<open>include/glove/supervisor/session_plan.hpp\<close> that crosses the interface, and the calls of
  \<open>session_plan_validator\<close>, \<open>library_bundle_store\<close> and \<open>receipt_audit_producer\<close> that the registry
  makes, as records of functions.  The registry is verified for every such provider.  Descriptor
  sets that the registry only hands on (\<open>resolved_path_grant\<close>, \<open>resolved_library_bundle\<close>) are
  opaque handles.
\<close>

datatype plan_backend =
  Linux_production | Remote_linux_container | Apple_container | Macos_experimental

record egress_target_policy =
  et_host :: string
  et_port :: "16 word"
  et_allow_private :: bool

record secret_mount_policy =
  sm_handle :: string
  sm_runtime_id :: string
  sm_source_path :: string
  sm_target_path :: string

record native_harness_adoption_identity =
  na_manifest_digest :: string
  na_snapshot_digest :: string

record resolved_native_harness_adoption =
  ha_runtime_id :: string
  ha_identity :: native_harness_adoption_identity
  ha_generated_settings_json :: string
  ha_payload_count :: nat

record session_plan_validation =
  sv_schema_version :: u8
  sv_policy_revision :: u64

record refinement_execution_binding =
  rb_schema_version :: u8
  rb_variant :: refinement_variant
  rb_fixture :: refinement_projection_binding
  rb_base :: refinement_projection_binding
  rb_candidate :: refinement_projection_binding
  rb_matched_context_digest :: string
  rb_plan_context_digest :: string

record runtime_launch_projection =
  rl_validation :: session_plan_validation
  rl_runtime_id :: string
  rl_runtime_template_id :: string
  rl_adapter_command_digest :: string
  rl_backend :: plan_backend
  rl_argv :: "string list"
  rl_environment :: "string list"
  rl_read_only_paths :: "string list"
  rl_limits :: resource_limits
  rl_expires_at_ms :: u64
  rl_requires_direct_write_approval :: bool
  rl_egress_policy_id :: string
  rl_egress_targets :: "egress_target_policy list"
  rl_secret_mounts :: "secret_mount_policy list"
  rl_adoption :: "native_harness_adoption_identity option"
  rl_refinement :: "refinement_execution_binding option"

record validated_session_plan_document =
  vd_validation :: session_plan_validation
  vd_expires_at_ms :: u64
  vd_canonical_json :: string

record library_bundle_projection =
  lb_projection_id :: string
  lb_content_digest :: string
  lb_destination_alias :: string

record resolved_library_projection_target =
  lt_projection :: library_bundle_projection
  lt_target_path :: string

type_synonym resolved_path_grant = nat
type_synonym resolved_library_bundle = nat

record resolved_library_projection =
  lr_projection_id :: string
  lr_destination_alias :: string
  lr_target_path :: string
  lr_bundle :: resolved_library_bundle

record session_plan_validator =
  canonicalize_json :: "string \<Rightarrow> u64 \<Rightarrow> validated_session_plan_document expected"
  resolve_runtime_launch_json :: "string \<Rightarrow> u64 \<Rightarrow> runtime_launch_projection expected"
  resolve_native_harness_adoption_json ::
    "string \<Rightarrow> u64 \<Rightarrow> resolved_native_harness_adoption option expected"
  resolve_path_grants_json :: "string \<Rightarrow> u64 \<Rightarrow> resolved_path_grant list expected"
  resolve_library_projection_targets_json ::
    "string \<Rightarrow> u64 \<Rightarrow> resolved_library_projection_target list expected"

record library_bundle_store =
  resolve_projections ::
    "resolved_library_projection_target list \<Rightarrow> resolved_library_projection list expected"

text \<open>A reservation token of \<open>receipt_audit_producer\<close>; \<open>rv_owner\<close> is false once it is released.\<close>

record terminal_reservation =
  rv_owner :: bool
  rv_session_id :: string
  rv_controller_plan_digest :: string
  rv_profile_digest :: string

definition matches_execution ::
    "terminal_reservation \<Rightarrow> string \<Rightarrow> string \<Rightarrow> string \<Rightarrow> bool" where
  "matches_execution rv session_id controller_plan_digest profile_digest =
     (rv_owner rv \<and> rv_session_id rv \<noteq> [] \<and> rv_session_id rv = session_id \<and>
      rv_controller_plan_digest rv = controller_plan_digest \<and> rv_profile_digest rv = profile_digest)"

record receipt_audit_producer =
  confirms_terminal :: "authenticated_resource_enforcement_receipt \<Rightarrow> bool expected"
  confirms_refinement_terminal :: "authenticated_refinement_evaluation_receipt \<Rightarrow> bool expected"

end
