(* ===== verification/Registry_Store.thy ===== *)
theory Registry_Store
  imports Storage Registry_Projections Plan_Interface "HOL-Library.AList"
begin

text \<open>
  The state of \<open>session_registry::implementation\<close> and its storage layer: the system calls and the
  helpers around them (\<open>src/control/session_registry_impl.hpp\<close>), the identity check and the
  rollback of \<open>src/control/session_registry_recovery.cpp\<close>, and \<open>append_record_locked\<close> of
  \<open>src/control/session_registry_replay.cpp\<close>.
\<close>

subsection \<open>The registry file\<close>

definition registry_text :: io_text where
  "registry_text =
     \<lparr>io_range = Some ''session registry offset exceeds platform range'',
      io_write = ''write session registry'', io_stalled = ''session registry write made no progress'',
      io_read = ''read session registry'', io_ended = ''session registry ended unexpectedly''\<rparr>"

definition write_at :: "disk \<Rightarrow> bytes \<Rightarrow> u64 \<Rightarrow> unit expected \<times> disk" where
  "write_at d bs offset = write_bytes registry_text d bs offset"

definition read_at :: "disk \<Rightarrow> nat \<Rightarrow> u64 \<Rightarrow> bytes expected \<times> disk" where
  "read_at d wanted offset = read_bytes registry_text d wanted offset"

definition inspect_file :: "disk \<Rightarrow> u64 expected \<times> disk" where
  "inspect_file d =
     (case single_call d of
        (Some e, d') \<Rightarrow> (Inl (system_error ''inspect session registry'' e), d')
      | (None, d') \<Rightarrow>
          if \<not> owner_only_file (d_euid d) (d_meta d)
          then (Inl ''session registry must be an owner-only, single-link regular file'', d')
          else (Inr (of_nat (length (d_bytes d))), d'))"

record registry_identity =
  ri_device :: u64
  ri_inode :: u64
  ri_size :: u64
  ri_change :: "int \<times> int"

definition identity_of :: "disk \<Rightarrow> registry_identity" where
  "identity_of d =
     \<lparr>ri_device = fm_device (d_meta d), ri_inode = fm_inode (d_meta d),
      ri_size = of_nat (length (d_bytes d)), ri_change = fm_change (d_meta d)\<rparr>"

definition capture_identity :: "disk \<Rightarrow> registry_identity expected \<times> disk" where
  "capture_identity d =
     (case single_call d of
        (Some e, d') \<Rightarrow> (Inl (system_error ''capture session registry identity'' e), d')
      | (None, d') \<Rightarrow> (Inr (identity_of d), d'))"

subsection \<open>The registry state\<close>

record quarantined_observation_state =
  qs_enqueue_index :: nat
  qs_disposition_index :: "nat option"
  qs_reason :: observation_quarantine_reason

text \<open>\<open>std::unordered_map\<close> is a finite map; the one map the source iterates over, \<open>sessions\<close>, is an
  association list with distinct keys.\<close>

record registry =
  reg_disk :: disk
  reg_validator :: session_plan_validator
  reg_library_bundles :: "library_bundle_store option"
  reg_channels :: "channel_host option"
  reg_max_bytes :: u64
  reg_durable_bytes :: u64
  reg_identity :: registry_identity
  reg_poisoned :: bool
  reg_records :: "persisted_session list"
  reg_sessions :: "(string \<times> nat) list"
  reg_requests :: "string \<rightharpoonup> nat"
  reg_observation_intents :: "string \<rightharpoonup> nat"
  reg_observation_dispositions :: "string \<rightharpoonup> nat"
  reg_quarantined :: "string \<rightharpoonup> quarantined_observation_state"

abbreviation find_session :: "registry \<Rightarrow> string \<Rightarrow> nat option" where
  "find_session s session_id \<equiv> map_of (reg_sessions s) session_id"

definition verify_identity :: "registry \<Rightarrow> bool \<times> registry" where
  "verify_identity s =
     (let (captured, d1) = capture_identity (reg_disk s);
          (path_error, d2) = single_call d1;
          s1 = s\<lparr>reg_disk := d2\<rparr>;
          verified =
            (case (captured, path_error, d_path (reg_disk s)) of
               (Inr identity, None, Some path_metadata) \<Rightarrow>
                 owner_only_file (d_euid (reg_disk s)) path_metadata \<and>
                 fm_device path_metadata = ri_device identity \<and>
                 fm_inode path_metadata = ri_inode identity \<and>
                 identity = reg_identity s \<and> ri_size identity = reg_durable_bytes s
             | _ \<Rightarrow> False)
      in if verified then (True, s1) else (False, s1\<lparr>reg_poisoned := True\<rparr>))"

text \<open>The guard \<open>state.poisoned || !verify_identity(state)\<close> at the head of every locked section.\<close>

definition unusable :: "registry \<Rightarrow> bool \<times> registry" where
  "unusable s =
     (if reg_poisoned s then (True, s)
      else (case verify_identity s of (verified, s1) \<Rightarrow> (\<not> verified, s1)))"

definition rollback_append :: "registry \<Rightarrow> u64 \<Rightarrow> bool \<times> registry" where
  "rollback_append s original_size =
     (case retried_call (reg_disk s) of
        (Some e, d1) \<Rightarrow> (False, s\<lparr>reg_disk := d1, reg_poisoned := True\<rparr>)
      | (None, d1) \<Rightarrow>
        (case sync_descriptor (ftruncate d1 (unat original_size)) ''sync session registry rollback'' of
           (Inl e, d2) \<Rightarrow> (False, s\<lparr>reg_disk := d2, reg_poisoned := True\<rparr>)
         | (Inr _, d2) \<Rightarrow>
           (case capture_identity d2 of
              (Inl e, d3) \<Rightarrow> (False, s\<lparr>reg_disk := d3, reg_poisoned := True\<rparr>)
            | (Inr identity, d3) \<Rightarrow>
                if ri_size identity \<noteq> original_size
                then (False, s\<lparr>reg_disk := d3, reg_poisoned := True\<rparr>)
                else (True, s\<lparr>reg_disk := d3, reg_identity := identity\<rparr>))))"

text \<open>The in-memory half of an append: which index the new record enters.\<close>

definition index_appended :: "registry \<Rightarrow> persisted_session \<Rightarrow> registry" where
  "index_appended s r =
     (let index = length (reg_records s);
          s1 = (case p_observation_intent r of
                  Some i \<Rightarrow>
                    (let key = observation_intent_key (p_session_id r) (oi_channel_generation i)
                                 (oi_intent_id i) in
                     if p_operation r = ''enqueue_observation_intent_v1''
                     then s\<lparr>reg_observation_intents := emplace key index (reg_observation_intents s)\<rparr>
                     else if p_operation r = ''set_observation_intent_disposition_v1''
                     then s\<lparr>reg_observation_dispositions :=
                              emplace key index (reg_observation_dispositions s)\<rparr>
                     else s\<lparr>reg_sessions := AList.update (p_session_id r) index (reg_sessions s)\<rparr>)
                | None \<Rightarrow> s\<lparr>reg_sessions := AList.update (p_session_id r) index (reg_sessions s)\<rparr>)
      in s1\<lparr>reg_requests := emplace (p_idempotency_key r) index (reg_requests s1),
            reg_records := reg_records s1 @ [r]\<rparr>)"

text \<open>The durable half: write the frame, flush it, and take over the file's new identity.\<close>

definition store_frame ::
    "registry \<Rightarrow> bytes \<Rightarrow> persisted_session \<Rightarrow> session_record registry_result \<times> registry" where
  "store_frame s encoded record =
     (let original_size = reg_durable_bytes s in
      case write_at (reg_disk s) encoded original_size of
        (Inl e, d1) \<Rightarrow>
          (Inl (storage_failure e), snd (rollback_append (s\<lparr>reg_disk := d1\<rparr>) original_size))
      | (Inr _, d1) \<Rightarrow>
     (case sync_descriptor d1 ''sync session registry append'' of
        (Inl e, d2) \<Rightarrow>
          (Inl (storage_failure e), snd (rollback_append (s\<lparr>reg_disk := d2\<rparr>) original_size))
      | (Inr _, d2) \<Rightarrow>
     (case capture_identity d2 of
        (Inl e, d3) \<Rightarrow>
          (Inl (storage_failure ''session registry identity update failed''),
           s\<lparr>reg_disk := d3, reg_poisoned := True\<rparr>)
      | (Inr identity, d3) \<Rightarrow>
          if ri_size identity \<noteq> original_size + of_nat (length encoded)
          then (Inl (storage_failure ''session registry identity update failed''),
                s\<lparr>reg_disk := d3, reg_poisoned := True\<rparr>)
          else
            (Inr (public_record record),
             index_appended
               (s\<lparr>reg_disk := d3, reg_identity := identity,
                  reg_durable_bytes := reg_durable_bytes s + of_nat (length encoded)\<rparr>)
               record))))"

definition append_record_locked ::
    "json_codec \<Rightarrow> registry \<Rightarrow> persisted_session \<Rightarrow> session_record registry_result \<times> registry" where
  "append_record_locked jc s record0 =
     (case unusable s of
        (True, s1) \<Rightarrow> (Inl (storage_failure ''session registry is poisoned''), s1)
      | (False, s1) \<Rightarrow>
     (case hash_record record0 of
        Inl e \<Rightarrow> (Inl (storage_failure e), s1)
      | Inr this_hash \<Rightarrow>
     (let record = record0\<lparr>p_this_hash := this_hash\<rparr> in
      case encode_record jc record of
        Inl e \<Rightarrow> (Inl (failure Capacity e), s1)
      | Inr encoded \<Rightarrow>
          if length encoded > unat (reg_max_bytes s1 - reg_durable_bytes s1)
          then (Inl (failure Capacity ''session registry byte limit exhausted''), s1)
          else store_frame s1 encoded record)))"

end
