(* ===== verification/Framing.thy ===== *)
theory Framing
  imports Storage
begin

text \<open>
  The frame the binary journals and the session registry share: the payload between two copies of
  its 32-bit size.  The readers differ in their checks and in the texts of their errors; what the
  three positioned reads of a frame give is proved here once, in both directions.
\<close>

definition frame_of :: "string \<Rightarrow> bytes" where
  "frame_of payload =
     enc_u32 (of_nat (length payload)) @ bytes_of_string payload @ enc_u32 (of_nat (length payload))"

lemma length_frame_of [simp]: "length (frame_of payload) = length payload + 8"
  by (simp add: frame_of_def)

lemma outcomes_refl: "\<exists>os. d = d\<lparr>d_outcomes := os\<rparr>"
  by (rule exI [of _ "d_outcomes d"]) simp

lemma unat_file_size: "n \<le> off_t_max \<Longrightarrow> unat (of_nat n :: u64) = n"
  by (simp add: unsigned_of_nat take_bit_nat_eq_self off_t_max_def)

lemma size_roundtrip:
  assumes "n < 2 ^ 32"
  shows "(ucast (of_nat n :: u32) :: u64) = of_nat n" "unat (of_nat n :: u64) = n" "unat (of_nat n :: u32) = n"
proof -
  show "unat (of_nat n :: u64) = n"
    using assms by (simp add: unsigned_of_nat take_bit_nat_eq_self)
  show "unat (of_nat n :: u32) = n"
    using assms by (simp add: unsigned_of_nat take_bit_nat_eq_self)
  then show "(ucast (of_nat n :: u32) :: u64) = of_nat n"
    by (metis of_nat_unat)
qed

lemma unat_widen: "unat (ucast (w :: u32) :: u64) = unat w"
proof -
  have "unat w < 2 ^ 64"
    using unsigned_less [of w, where 'a = nat] by simp
  then show ?thesis by (simp add: unsigned_ucast_eq take_bit_nat_eq_self)
qed

lemma enc_decode_u32:
  assumes "length h = 4"
  shows "enc_u32 (decode_u32 h) = h"
proof -
  obtain a b c d where h: "h = [a, b, c, d]"
    using assms by (auto simp: numeral_eq_Suc length_Suc_conv)
  have "ucast (drop_bit 24 (decode_u32 h)) = a" "ucast (drop_bit 16 (decode_u32 h)) = b"
    "ucast (drop_bit 8 (decode_u32 h)) = c" "ucast (decode_u32 h) = d"
    by (intro bit_word_eqI; auto simp: h decode_u32_def bit_simps dest: bit_imp_le_length)+
  then show ?thesis
    by (simp add: enc_u32_def append_u32_def low_byte_u32 h)
qed

lemma drop_split: "drop n xs = take k (drop n xs) @ drop (n + k) xs"
  by (metis append_take_drop_id drop_drop add.commute)

text \<open>Reading a frame that is there.\<close>

lemma frame_reads:
  assumes bytes: "d_bytes d = pre @ frame_of payload @ rest" and len: "length (d_bytes d) \<le> off_t_max"
    and offset: "unat offset = length pre" and small: "length payload < 2 ^ 32"
    and h: "read_bytes t d 4 offset = (h, d1)"
    and p: "read_bytes t d1 (length payload) (offset + 4) = (p, d2)"
    and f: "read_bytes t d2 4 (offset + 4 + of_nat (length payload)) = (f, d3)"
  shows "\<exists>os. d1 = d\<lparr>d_outcomes := os\<rparr>" "\<exists>os. d2 = d\<lparr>d_outcomes := os\<rparr>" "\<exists>os. d3 = d\<lparr>d_outcomes := os\<rparr>"
    "h = Inr (enc_u32 (of_nat (length payload))) \<or> (\<exists>e. h = Inl e)"
    "p = Inr (bytes_of_string payload) \<or> (\<exists>e. p = Inl e)"
    "f = Inr (enc_u32 (of_nat (length payload))) \<or> (\<exists>e. f = Inl e)"
    "d_outcomes d = [] \<Longrightarrow> h = Inr (enc_u32 (of_nat (length payload))) \<and> p = Inr (bytes_of_string payload) \<and>
       f = Inr (enc_u32 (of_nat (length payload))) \<and> d_outcomes d3 = []"
proof -
  let ?head = "enc_u32 (of_nat (length payload))"
  have whole: "d_bytes d = pre @ ?head @ bytes_of_string payload @ ?head @ rest"
    using bytes by (simp add: frame_of_def)
  have offsets: "unat (offset + 4) = length (pre @ ?head)"
    "unat (offset + 4 + of_nat (length payload)) = length (pre @ ?head @ bytes_of_string payload)"
    using len bytes offset size_roundtrip(2) [OF small] by (simp_all add: unat_word_ariths off_t_max_def)
  obtain o1 where o1: "d1 = d\<lparr>d_outcomes := o1\<rparr>" "d_outcomes d = [] \<longrightarrow> o1 = [] \<and> h = Inr ?head"
      "h = Inr ?head \<or> (\<exists>e. h = Inl e)"
    using read_bytes_laws [of t d ?head offset h d1 pre "bytes_of_string payload @ ?head @ rest"] h whole
      offset len by auto
  obtain o2 where o2: "d2 = d\<lparr>d_outcomes := o2\<rparr>"
      "o1 = [] \<longrightarrow> o2 = [] \<and> p = Inr (bytes_of_string payload)"
      "p = Inr (bytes_of_string payload) \<or> (\<exists>e. p = Inl e)"
    using read_bytes_laws [of t d1 "bytes_of_string payload" "offset + 4" p d2 "pre @ ?head" "?head @ rest"]
      p whole offsets(1) len o1(1) by auto
  obtain o3 where o3: "d3 = d\<lparr>d_outcomes := o3\<rparr>" "o2 = [] \<longrightarrow> o3 = [] \<and> f = Inr ?head"
      "f = Inr ?head \<or> (\<exists>e. f = Inl e)"
    using read_bytes_laws [of t d2 ?head "offset + 4 + of_nat (length payload)" f d3
        "pre @ ?head @ bytes_of_string payload" rest] f whole offsets(2) len o2(1) by auto
  show "\<exists>os. d1 = d\<lparr>d_outcomes := os\<rparr>" "\<exists>os. d2 = d\<lparr>d_outcomes := os\<rparr>" "\<exists>os. d3 = d\<lparr>d_outcomes := os\<rparr>"
    "h = Inr ?head \<or> (\<exists>e. h = Inl e)" "p = Inr (bytes_of_string payload) \<or> (\<exists>e. p = Inl e)"
    "f = Inr ?head \<or> (\<exists>e. f = Inl e)"
    "d_outcomes d = [] \<Longrightarrow> h = Inr ?head \<and> p = Inr (bytes_of_string payload) \<and> f = Inr ?head \<and> d_outcomes d3 = []"
    using o1 o2 o3 by auto
qed

text \<open>What three successful reads with matching sizes say about the file.\<close>

lemma frame_sound:
  assumes h: "read_bytes t d 4 offset = (Inr h, d1)"
    and p: "read_bytes t d1 (unat n) (offset + 4) = (Inr p, d2)"
    and f: "read_bytes t d2 4 (offset + 4 + n) = (Inr f, d3)"
    and n: "n = (ucast (decode_u32 h) :: u64)" and foot: "decode_u32 f = decode_u32 h"
    and len: "length (d_bytes d) \<le> off_t_max" and inside: "unat offset + 8 + unat n \<le> length (d_bytes d)"
  shows "drop (unat offset) (d_bytes d) =
      frame_of (string_of_bytes p) @ drop (unat offset + length (frame_of (string_of_bytes p))) (d_bytes d)"
    "length (string_of_bytes p) = unat n" "\<exists>os. d3 = d\<lparr>d_outcomes := os\<rparr>"
proof -
  note sound = read_bytes_sound [OF h] read_bytes_sound [OF p] read_bytes_sound [OF f]
  have offsets: "unat (offset + 4) = unat offset + 4" "unat (offset + 4 + n) = unat offset + 4 + unat n"
    using inside len by (simp_all add: unat_word_ariths off_t_max_def)
  have "unat n = unat (decode_u32 h)"
    by (simp only: n unat_widen)
  then have "(of_nat (unat n) :: u32) = decode_u32 h"
    by (metis of_nat_unat ucast_id)
  then have "enc_u32 (of_nat (unat n)) = h" "enc_u32 (of_nat (unat n)) = f"
    using enc_decode_u32 [OF sound(1)] enc_decode_u32 [OF sound(7)] foot by simp_all
  moreover show size: "length (string_of_bytes p) = unat n"
    using sound(4) by (simp add: string_of_bytes_def)
  ultimately have frame: "frame_of (string_of_bytes p) = h @ p @ f"
    by (simp add: frame_of_def)
  have same: "d_bytes d1 = d_bytes d" "d_bytes d2 = d_bytes d"
    using sound(3,6) by auto
  then have parts: "h = take 4 (drop (unat offset) (d_bytes d))"
      "p = take (unat n) (drop (unat offset + 4) (d_bytes d))"
      "f = take 4 (drop (unat offset + 4 + unat n) (d_bytes d))"
    using sound(2,5,8) offsets by simp_all
  have "drop (unat offset) (d_bytes d) = h @ p @ f @ drop (unat offset + 4 + unat n + 4) (d_bytes d)"
    using drop_split [of "unat offset" "d_bytes d" 4] drop_split [of "unat offset + 4" "d_bytes d" "unat n"]
      drop_split [of "unat offset + 4 + unat n" "d_bytes d" 4] parts by simp
  then show "drop (unat offset) (d_bytes d) =
      frame_of (string_of_bytes p) @ drop (unat offset + length (frame_of (string_of_bytes p))) (d_bytes d)"
    using frame sound(1,4,7) by (simp add: add.assoc)
  show "\<exists>os. d3 = d\<lparr>d_outcomes := os\<rparr>"
    using sound(3,6,9) by auto
qed

subsection \<open>Sequences of frames\<close>

definition framed_by :: "(string \<Rightarrow> 'r \<Rightarrow> bool) \<Rightarrow> 'r list \<Rightarrow> bytes \<Rightarrow> bool" where
  "framed_by holds rs body = (\<exists>payloads. list_all2 holds payloads rs \<and> body = concat (map frame_of payloads))"

lemma framed_by_Nil [simp]: "framed_by holds [] body \<longleftrightarrow> body = []"
  by (auto simp: framed_by_def)

lemma framed_by_Cons:
  "framed_by holds (r # rs) body \<longleftrightarrow>
     (\<exists>payload tail. holds payload r \<and> framed_by holds rs tail \<and> body = frame_of payload @ tail)"
  by (fastforce simp: framed_by_def list_all2_Cons2)

lemma framed_by_snoc:
  assumes "framed_by holds rs body" and "holds payload r"
  shows "framed_by holds (rs @ [r]) (body @ frame_of payload)"
proof -
  obtain payloads where "list_all2 holds payloads rs" "body = concat (map frame_of payloads)"
    using assms(1) by (auto simp: framed_by_def)
  with assms(2) have "list_all2 holds (payloads @ [payload]) (rs @ [r])"
    "body @ frame_of payload = concat (map frame_of (payloads @ [payload]))"
    by (simp_all add: list_all2_appendI)
  then show ?thesis unfolding framed_by_def by blast
qed

end
