(* ===== verification/Storage_Laws.thy ===== *)
theory Storage_Laws
  imports Registry_Store Framing
begin

text \<open>
  What the storage layer guarantees whatever the kernel answers: a positioned write extends the
  file by a prefix of its data and never touches what precedes it, a rollback restores the length or
  poisons the registry, and an append either adds exactly one frame and one index entry or leaves
  the index as it was and the file unchanged, unless the registry is poisoned.
\<close>

subsection \<open>The identity of the file\<close>

lemma capture_identity_file:
  "capture_identity d = (r, d') \<Longrightarrow>
     d_bytes d' = d_bytes d \<and> d_meta d' = d_meta d \<and> same_file d d' \<and>
     (\<forall>identity. r = Inr identity \<longrightarrow> identity = identity_of d)"
  by (auto simp: capture_identity_def dest: single_call_file split: prod.splits option.splits)

lemma write_at_extends:
  assumes "write_at d bs offset = (r, d')" and "unat offset = length (d_bytes d)"
  shows "same_file d d' \<and>
    (\<exists>k \<le> length bs. d_bytes d' = d_bytes d @ take k bs \<and> (r = Inr () \<longrightarrow> k = length bs))"
  using write_bytes_extends [OF assms(1) [unfolded write_at_def] assms(2)] .

subsection \<open>The registry's use of them\<close>

text \<open>Two states with the same index and configuration: they differ at most in the disk, its
  recorded identity and length, and the poisoned flag.\<close>

definition same_index :: "registry \<Rightarrow> registry \<Rightarrow> bool" where
  "same_index s s' =
     (s' = s\<lparr>reg_disk := reg_disk s', reg_identity := reg_identity s',
            reg_durable_bytes := reg_durable_bytes s', reg_poisoned := reg_poisoned s'\<rparr>)"

lemma same_index_iff:
  "same_index s s' \<longleftrightarrow>
     reg_validator s' = reg_validator s \<and> reg_library_bundles s' = reg_library_bundles s \<and>
     reg_channels s' = reg_channels s \<and> reg_max_bytes s' = reg_max_bytes s \<and>
     reg_records s' = reg_records s \<and> reg_sessions s' = reg_sessions s \<and>
     reg_requests s' = reg_requests s \<and>
     reg_observation_intents s' = reg_observation_intents s \<and>
     reg_observation_dispositions s' = reg_observation_dispositions s \<and>
     reg_quarantined s' = reg_quarantined s"
  by (cases s, cases s') (auto simp: same_index_def)

lemma same_index_refl [simp]: "same_index s s"
  by (simp add: same_index_iff)

lemma same_index_trans: "same_index s s' \<Longrightarrow> same_index s' s'' \<Longrightarrow> same_index s s''"
  by (simp add: same_index_iff)

definition file_bytes :: "registry \<Rightarrow> bytes" where
  "file_bytes s = d_bytes (reg_disk s)"

text \<open>A usable registry's file has the length and the identity it recorded.\<close>

definition recorded :: "registry \<Rightarrow> bool" where
  "recorded s =
     (reg_identity s = identity_of (reg_disk s) \<and> ri_size (reg_identity s) = reg_durable_bytes s)"

lemma verify_identity_laws:
  assumes "verify_identity s = (verified, s')"
  shows "same_index s s'" "file_bytes s' = file_bytes s" "reg_durable_bytes s' = reg_durable_bytes s"
    "same_file (reg_disk s) (reg_disk s')" "reg_identity s' = reg_identity s"
    "reg_poisoned s' = (reg_poisoned s \<or> \<not> verified)" "verified \<Longrightarrow> recorded s'"
proof -
  obtain captured d1 path_error d2 where
    captured: "capture_identity (reg_disk s) = (captured, d1)" and
    path: "single_call d1 = (path_error, d2)"
    by (cases "capture_identity (reg_disk s)", cases "single_call (snd (capture_identity (reg_disk s)))")
      auto
  note files = capture_identity_file [OF captured] single_call_file [OF path]
  have same: "same_file (reg_disk s) d2"
    using files same_file_trans by blast
  show "same_index s s'" "file_bytes s' = file_bytes s" "reg_durable_bytes s' = reg_durable_bytes s"
    "same_file (reg_disk s) (reg_disk s')" "reg_identity s' = reg_identity s"
    "reg_poisoned s' = (reg_poisoned s \<or> \<not> verified)"
    using assms files same
    by (auto simp: verify_identity_def captured path same_index_iff file_bytes_def Let_def
        split: if_splits)
  show "recorded s'" if verified
    using that assms files
    by (auto simp: verify_identity_def captured path recorded_def identity_of_def Let_def
        split: if_splits sum.splits option.splits)
qed

lemma unusable_laws:
  assumes "unusable s = (refused, s')"
  shows "same_index s s'" "file_bytes s' = file_bytes s" "reg_durable_bytes s' = reg_durable_bytes s"
    "same_file (reg_disk s) (reg_disk s')" "reg_identity s' = reg_identity s"
    "reg_poisoned s' = refused" "\<not> refused \<Longrightarrow> recorded s'"
proof -
  obtain verified s1 where v: "verify_identity s = (verified, s1)"
    by fastforce
  note laws = verify_identity_laws [OF v]
  show "same_index s s'" "file_bytes s' = file_bytes s" "reg_durable_bytes s' = reg_durable_bytes s"
    "same_file (reg_disk s) (reg_disk s')" "reg_identity s' = reg_identity s"
    "reg_poisoned s' = refused" "\<not> refused \<Longrightarrow> recorded s'"
    using assms laws by (auto simp: unusable_def v split: if_splits)
qed

lemma rollback_laws:
  assumes "rollback_append s n = (ok, s')" and "unat n \<le> length (file_bytes s)"
  shows "same_index s s'" "reg_durable_bytes s' = reg_durable_bytes s"
    "same_file (reg_disk s) (reg_disk s')"
    "reg_poisoned s' \<or> file_bytes s' = take (unat n) (file_bytes s)"
    "\<not> reg_poisoned s' \<Longrightarrow> n = reg_durable_bytes s \<Longrightarrow> recorded s'"
proof -
  obtain r1 d1 r2 d2 r3 d3 where
    c1: "retried_call (reg_disk s) = (r1, d1)" and
    c2: "sync_descriptor (ftruncate d1 (unat n)) ''sync session registry rollback'' = (r2, d2)" and
    c3: "capture_identity d2 = (r3, d3)"
    by (cases "retried_call (reg_disk s)") (metis surj_pair)
  note f1 = retried_call_file [OF c1] and f2 = sync_descriptor_file [OF c2]
    and f3 = capture_identity_file [OF c3]
  have same: "same_file (reg_disk s) d1" "same_file (reg_disk s) d2" "same_file (reg_disk s) d3"
    using f1 f2 f3 same_file_trans same_file_ftruncate by blast+
  have bytes: "d_bytes d3 = take (unat n) (file_bytes s)"
    using f1 f2 f3 assms(2) by (simp add: ftruncate_def file_bytes_def)
  show "same_index s s'" "reg_durable_bytes s' = reg_durable_bytes s"
    "same_file (reg_disk s) (reg_disk s')"
    using assms(1) same
    by (auto simp: rollback_append_def c1 c2 c3 same_index_iff split: option.splits sum.splits if_splits)
  show "reg_poisoned s' \<or> file_bytes s' = take (unat n) (file_bytes s)"
    using assms(1) bytes
    by (auto simp: rollback_append_def c1 c2 c3 file_bytes_def split: option.splits sum.splits if_splits)
  have "reg_identity s' = identity_of (reg_disk s') \<and> ri_size (reg_identity s') = n \<and>
      reg_durable_bytes s' = reg_durable_bytes s" if "\<not> reg_poisoned s'"
    using that assms(1) f3
    by (auto simp: rollback_append_def c1 c2 c3 identity_of_def
        split: option.splits sum.splits if_splits)
  then show "recorded s'" if "\<not> reg_poisoned s'" "n = reg_durable_bytes s"
    using that by (auto simp: recorded_def)
qed

lemma index_appended_laws:
  "reg_disk (index_appended s r) = reg_disk s"
  "reg_durable_bytes (index_appended s r) = reg_durable_bytes s"
  "reg_identity (index_appended s r) = reg_identity s"
  "reg_poisoned (index_appended s r) = reg_poisoned s"
  "reg_records (index_appended s r) = reg_records s @ [r]"
  "reg_requests (index_appended s r) = emplace (p_idempotency_key r) (length (reg_records s)) (reg_requests s)"
  "reg_validator (index_appended s r) = reg_validator s"
  "reg_library_bundles (index_appended s r) = reg_library_bundles s"
  "reg_channels (index_appended s r) = reg_channels s"
  "reg_max_bytes (index_appended s r) = reg_max_bytes s"
  "reg_quarantined (index_appended s r) = reg_quarantined s"
  by (auto simp: index_appended_def Let_def split: option.splits)

lemma index_appended_same_index:
  "same_index s s' \<Longrightarrow> same_index (index_appended s r) (index_appended s' r)"
  by (auto simp: index_appended_def Let_def same_index_iff split: option.splits)

text \<open>The outcome of an append, as one relation: it commits the stamped record and its frame, or it
  fails and the index is untouched.\<close>

definition committed :: "json_codec \<Rightarrow> registry \<Rightarrow> persisted_session \<Rightarrow> registry \<Rightarrow> bool" where
  "committed jc s r0 s' =
     (case hash_record r0 of
        Inl e \<Rightarrow> False
      | Inr h \<Rightarrow>
        (case encode_record jc (r0\<lparr>p_this_hash := h\<rparr>) of
           Inl e \<Rightarrow> False
         | Inr encoded \<Rightarrow>
             length encoded \<le> unat (reg_max_bytes s - reg_durable_bytes s) \<and>
             file_bytes s' = file_bytes s @ encoded \<and>
             reg_durable_bytes s' = reg_durable_bytes s + of_nat (length encoded) \<and>
             same_index (index_appended s (r0\<lparr>p_this_hash := h\<rparr>)) s' \<and>
             \<not> reg_poisoned s' \<and> recorded s'))"

definition rolled_back :: "registry \<Rightarrow> registry \<Rightarrow> bool" where
  "rolled_back s s' =
     (same_index s s' \<and> reg_durable_bytes s' = reg_durable_bytes s \<and>
      (reg_poisoned s' \<or> (file_bytes s' = file_bytes s \<and> recorded s')))"

lemma durable_length:
  assumes "recorded s" and "length (file_bytes s) < 2 ^ 64"
  shows "unat (reg_durable_bytes s) = length (file_bytes s)"
proof -
  have "reg_durable_bytes s = of_nat (length (file_bytes s))"
    using assms(1) by (auto simp: recorded_def identity_of_def file_bytes_def)
  then show ?thesis
    using assms(2) by (simp add: unsigned_of_nat take_bit_nat_eq_self)
qed

lemma rollback_from:
  assumes "recorded s" and "\<not> reg_poisoned s" and "length (file_bytes s) < 2 ^ 64"
    and "d_bytes d = file_bytes s @ extension"
  shows "rolled_back s (snd (rollback_append (s\<lparr>reg_disk := d\<rparr>) (reg_durable_bytes s)))"
proof -
  note len = durable_length [OF assms(1,3)]
  obtain ok s' where r: "rollback_append (s\<lparr>reg_disk := d\<rparr>) (reg_durable_bytes s) = (ok, s')"
    by fastforce
  have le: "unat (reg_durable_bytes s) \<le> length (file_bytes (s\<lparr>reg_disk := d\<rparr>))"
    using assms(4) len by (simp add: file_bytes_def)
  show ?thesis
    using rollback_laws [OF r le] assms(4) len r
    by (auto simp: rolled_back_def same_index_iff file_bytes_def)
qed

lemma committed_cong:
  assumes "same_index s s1" and "file_bytes s1 = file_bytes s"
    and "reg_durable_bytes s1 = reg_durable_bytes s" and "committed jc s1 r0 s'"
  shows "committed jc s r0 s'"
  using assms index_appended_same_index [OF assms(1)]
  by (auto simp: committed_def same_index_iff split: sum.splits)

lemma rolled_back_cong:
  assumes "same_index s s1" and "file_bytes s1 = file_bytes s"
    and "reg_durable_bytes s1 = reg_durable_bytes s" and "rolled_back s1 s'"
  shows "rolled_back s s'"
  using assms by (auto simp: rolled_back_def intro: same_index_trans)

lemma append_commit_laws:
  assumes rec: "recorded s" and clean: "\<not> reg_poisoned s" and len: "length (file_bytes s) < 2 ^ 63"
    and hash: "hash_record r0 = Inr h" and enc: "encode_record jc (r0\<lparr>p_this_hash := h\<rparr>) = Inr encoded"
    and fits: "length encoded \<le> unat (reg_max_bytes s - reg_durable_bytes s)"
    and bytes: "d_bytes d2 = file_bytes s @ encoded"
    and cap: "capture_identity d2 = (Inr identity, d3)"
    and size: "ri_size identity = reg_durable_bytes s + of_nat (length encoded)"
  shows "committed jc s r0 (index_appended
           (s\<lparr>reg_disk := d3, reg_identity := identity,
              reg_durable_bytes := reg_durable_bytes s + of_nat (length encoded)\<rparr>)
           (r0\<lparr>p_this_hash := h\<rparr>))"
  using capture_identity_file [OF cap] clean hash enc fits bytes size
  by (auto simp: committed_def index_appended_laws file_bytes_def recorded_def identity_of_def
      intro!: index_appended_same_index simp: same_index_iff [of s])

lemma store_frame_laws:
  assumes step: "store_frame s encoded (r0\<lparr>p_this_hash := h\<rparr>) = (result, s')"
    and rec: "recorded s" and clean: "\<not> reg_poisoned s" and len: "length (file_bytes s) < 2 ^ 63"
    and hash: "hash_record r0 = Inr h" and enc: "encode_record jc (r0\<lparr>p_this_hash := h\<rparr>) = Inr encoded"
    and fits: "length encoded \<le> unat (reg_max_bytes s - reg_durable_bytes s)"
  shows "(\<exists>e. result = Inl e) \<and> rolled_back s s' \<or>
    result = Inr (public_record (last (reg_records s'))) \<and> committed jc s r0 s'"
proof -
  have len64: "length (file_bytes s) < 2 ^ 64"
    using len by simp
  obtain w d1 y d2 c d3 where
    w: "write_at (reg_disk s) encoded (reg_durable_bytes s) = (w, d1)" and
    y: "sync_descriptor d1 ''sync session registry append'' = (y, d2)" and
    c: "capture_identity d2 = (c, d3)"
    by (metis surj_pair)
  have "unat (reg_durable_bytes s) = length (d_bytes (reg_disk s))"
    using durable_length [OF rec len64] by (simp add: file_bytes_def)
  then obtain k where k: "d_bytes d1 = file_bytes s @ take k encoded" "w = Inr () \<longrightarrow> k = length encoded"
    using write_at_extends [OF w] by (auto simp: file_bytes_def)
  have bytes2: "d_bytes d2 = d_bytes d1"
    using sync_descriptor_file [OF y] by simp
  note rolled = rollback_from [OF rec clean len64 k(1)]
    rollback_from [OF rec clean len64 bytes2 [unfolded k(1)]]
  note unfolded = step [unfolded store_frame_def Let_def w y c prod.case]
  show ?thesis
  proof (cases "\<exists>identity. w = Inr () \<and> y = Inr () \<and> c = Inr identity")
    case False
    with unfolded rolled show ?thesis
      by (cases w; cases y; cases c) (auto simp: rolled_back_def same_index_iff)
  next
    case True
    then obtain identity where ok: "w = Inr ()" "y = Inr ()" "c = Inr identity"
      by blast
    with k bytes2 have "d_bytes d2 = file_bytes s @ encoded"
      by simp
    from append_commit_laws [OF rec clean len hash enc fits this c [unfolded ok]] unfolded ok
    show ?thesis
      by (auto simp: rolled_back_def same_index_iff index_appended_laws split: if_splits)
  qed
qed

lemma append_record_locked_laws:
  assumes step: "append_record_locked jc s r0 = (result, s')"
    and len: "length (file_bytes s) < 2 ^ 63"
  shows "(\<exists>e. result = Inl e) \<and> rolled_back s s' \<or>
    result = Inr (public_record (last (reg_records s'))) \<and> committed jc s r0 s'"
proof -
  obtain refused s1 where u: "unusable s = (refused, s1)"
    by fastforce
  note laws = unusable_laws [OF u]
  have "(\<exists>e. result = Inl e) \<and> rolled_back s1 s' \<or>
    result = Inr (public_record (last (reg_records s'))) \<and> committed jc s1 r0 s'"
  proof (cases refused)
    case True
    then show ?thesis
      using step laws(6) by (auto simp: append_record_locked_def u rolled_back_def)
  next
    case False
    then have rec: "recorded s1" and clean: "\<not> reg_poisoned s1" and self: "rolled_back s1 s1"
      using laws by (simp_all add: rolled_back_def)
    have len1: "length (file_bytes s1) < 2 ^ 63"
      using len laws(2) by simp
    show ?thesis
      using step False self store_frame_laws [OF _ rec clean len1]
      by (auto simp: append_record_locked_def u Let_def split: sum.splits if_splits)
  qed
  then show ?thesis
    using committed_cong [OF laws(1-3)] rolled_back_cong [OF laws(1-3)] by blast
qed

end
