(* ===== verification/Registry_Recovery.thy ===== *)
theory Registry_Recovery
  imports Storage_Laws
begin

text \<open>
  Recovery of the registry from its file (\<open>src/control/session_registry_recovery.cpp\<close>): the frame
  reader, the acceptance of one recovered record against the index rebuilt so far, the recovery loop
  and the constructor \<open>open_or_create\<close> of \<open>src/control/session_registry.cpp\<close>.  The acceptance of a
  record is split by the lifecycle state it claims, in the order of the source.
\<close>

subsection \<open>Comparing records\<close>

definition neutral_snapshot :: "persisted_session \<Rightarrow> persisted_session" where
  "neutral_snapshot r =
     r\<lparr>p_sequence := 0, p_operation := [], p_idempotency_key := [], p_request_digest := [],
       p_previous_hash := [], p_this_hash := [], p_state := [], p_running_at_ms := 0,
       p_policy_revision := 0, p_observation_intent := None\<rparr>"

definition same_session_snapshot :: "persisted_session \<Rightarrow> persisted_session \<Rightarrow> bool" where
  "same_session_snapshot l r = (neutral_snapshot l = neutral_snapshot r)"

definition same_observation_intent_binding ::
    "persisted_observation_intent \<Rightarrow> persisted_observation_intent \<Rightarrow> bool" where
  "same_observation_intent_binding l r =
     (l\<lparr>oi_disposition := [], oi_decided_at_ms := 0\<rparr> = r\<lparr>oi_disposition := [], oi_decided_at_ms := 0\<rparr>)"

text \<open>The conjuncts that the transition checks of recovery share.\<close>

definition same_plan :: "persisted_session \<Rightarrow> persisted_session \<Rightarrow> bool" where
  "same_plan prior r =
     (p_session_id prior = p_session_id r \<and>
      p_controller_plan_digest prior = p_controller_plan_digest r \<and>
      p_plan_content_digest prior = p_plan_content_digest r \<and>
      p_policy_revision prior = p_policy_revision r \<and> p_expires_at_ms prior = p_expires_at_ms r \<and>
      p_created_at_ms prior = p_created_at_ms r \<and>
      p_canonical_plan_json prior = p_canonical_plan_json r)"

definition same_authorization :: "persisted_session \<Rightarrow> persisted_session \<Rightarrow> bool" where
  "same_authorization prior r =
     (p_authorization_id prior = p_authorization_id r \<and>
      p_authorized_at_ms prior = p_authorized_at_ms r \<and>
      p_authorization_expires_at_ms prior = p_authorization_expires_at_ms r)"

definition same_launch :: "persisted_session \<Rightarrow> persisted_session \<Rightarrow> bool" where
  "same_launch prior r =
     (p_launch_profile_digest prior = p_launch_profile_digest r \<and>
      p_starting_at_ms prior = p_starting_at_ms r \<and>
      p_cgroup_identity prior = p_cgroup_identity r \<and>
      p_filesystem_identity prior = p_filesystem_identity r \<and>
      p_managed_runtime_identity prior = p_managed_runtime_identity r)"

subsection \<open>Commitments rebuilt from a record\<close>

definition wire_start_authorization :: "persisted_session \<Rightarrow> session_start_authorization" where
  "wire_start_authorization r =
     \<lparr>sa_schema_version = p_schema_version r, sa_authorization_id = p_authorization_id r,
      sa_session_id = p_session_id r, sa_controller_plan_digest = p_controller_plan_digest r,
      sa_plan_content_digest = p_plan_content_digest r, sa_approved_at_ms = p_authorized_at_ms r,
      sa_expires_at_ms = p_authorization_expires_at_ms r\<rparr>"

definition wire_managed_running ::
    "persisted_session \<Rightarrow> managed_runtime_recovery_identity \<Rightarrow> managed_session_running_commitment" where
  "wire_managed_running r identity =
     \<lparr>mc_schema_version = p_schema_version r, mc_session_id = p_session_id r,
      mc_controller_plan_digest = p_controller_plan_digest r,
      mc_plan_content_digest = p_plan_content_digest r, mc_authorization_id = p_authorization_id r,
      mc_profile_digest = p_launch_profile_digest r, mc_runtime_identity = identity\<rparr>"

definition wire_running ::
    "persisted_session \<Rightarrow> linux_process_identity \<Rightarrow> linux_filesystem_recovery_identity \<Rightarrow>
     session_running_commitment" where
  "wire_running r process_identity filesystem_identity =
     \<lparr>rc_schema_version = p_schema_version r, rc_session_id = p_session_id r,
      rc_controller_plan_digest = p_controller_plan_digest r,
      rc_plan_content_digest = p_plan_content_digest r, rc_authorization_id = p_authorization_id r,
      rc_profile_digest = p_launch_profile_digest r, rc_process_identity = process_identity,
      rc_filesystem_identity = filesystem_identity\<rparr>"

definition starting_digest :: "persisted_session \<Rightarrow> string expected" where
  "starting_digest r =
     (case (p_operation r = ''mark_managed_starting'', p_managed_runtime_identity r) of
        (True, Some identity) \<Rightarrow>
          hash_managed_execution_binding
            \<lparr>mb_schema_version = p_schema_version r, mb_session_id = p_session_id r,
             mb_controller_plan_digest = p_controller_plan_digest r,
             mb_plan_content_digest = p_plan_content_digest r,
             mb_authorization_id = p_authorization_id r,
             mb_profile_digest = p_launch_profile_digest r, mb_runtime_identity = identity\<rparr>
      | _ \<Rightarrow>
        (case (p_operation r = ''mark_starting'', p_cgroup_identity r, p_filesystem_identity r) of
           (True, Some cgroup, Some fsi) \<Rightarrow>
             hash_execution_binding
               \<lparr>eb_schema_version = p_schema_version r, eb_session_id = p_session_id r,
                eb_controller_plan_digest = p_controller_plan_digest r,
                eb_plan_content_digest = p_plan_content_digest r,
                eb_authorization_id = p_authorization_id r,
                eb_profile_digest = p_launch_profile_digest r, eb_cgroup_identity = cgroup,
                eb_filesystem_identity = fsi\<rparr>
         | _ \<Rightarrow> Inl ''unknown starting operation''))"

definition running_digest :: "persisted_session \<Rightarrow> string expected" where
  "running_digest r =
     (case (p_operation r = ''mark_managed_running'', p_managed_runtime_identity r) of
        (True, Some identity) \<Rightarrow>
          hash_managed_running_commitment (wire_managed_running r identity)
            ''glove.managed-session-running-commitment''
      | _ \<Rightarrow>
        (case (p_operation r = ''mark_running'', p_filesystem_identity r, process_identity_from_wire r) of
           (True, Some fsi, Some identity) \<Rightarrow>
             hash_running_commitment (wire_running r identity fsi)
         | _ \<Rightarrow> Inl ''unknown running operation''))"

definition stopping_digest :: "persisted_session \<Rightarrow> string expected" where
  "stopping_digest r =
     (case (p_operation r = ''mark_managed_stopping'', p_managed_runtime_identity r) of
        (True, Some identity) \<Rightarrow>
          hash_managed_running_commitment (wire_managed_running r identity)
            ''glove.managed-session-stopping-commitment''
      | _ \<Rightarrow>
        (case (p_operation r = ''mark_stopping'', p_filesystem_identity r, process_identity_from_wire r) of
           (True, Some fsi, Some identity) \<Rightarrow>
             hash_stopping_commitment (wire_running r identity fsi)
         | _ \<Rightarrow> Inl ''unknown stopping operation''))"

definition wire_terminal :: "persisted_session \<Rightarrow> resource_termination_cause \<Rightarrow> terminal_reference" where
  "wire_terminal r cause =
     \<lparr>tr_schema_version = 1, tr_sequence = p_receipt_sequence r, tr_key_id = p_receipt_key_id r,
      tr_session_id = p_session_id r, tr_controller_plan_digest = p_controller_plan_digest r,
      tr_profile_digest = p_launch_profile_digest r, tr_receipt_digest = p_receipt_digest r,
      tr_previous_hmac = p_receipt_previous_hmac r, tr_this_hmac = p_receipt_hmac r,
      tr_termination_cause = cause, tr_started_at_ms = p_receipt_started_at_ms r,
      tr_finished_at_ms = p_finished_at_ms r, tr_exit_code = p_exit_code r\<rparr>"

definition wire_failure :: "persisted_session \<Rightarrow> session_failure_code \<Rightarrow> session_failure_commitment" where
  "wire_failure r code =
     \<lparr>fc_schema_version = p_schema_version r, fc_session_id = p_session_id r,
      fc_controller_plan_digest = p_controller_plan_digest r,
      fc_plan_content_digest = p_plan_content_digest r, fc_authorization_id = p_authorization_id r,
      fc_profile_digest = p_launch_profile_digest r, fc_code = code\<rparr>"

subsection \<open>Transitions\<close>

text \<open>Each check answers a record given the session's current record, if it has one.\<close>

definition accept_created :: "persisted_session option \<Rightarrow> persisted_session \<Rightarrow> unit expected" where
  "accept_created existing r =
     (if existing \<noteq> None then Inl ''session registry create transition is invalid'' else Inr ())"

definition accept_preparing :: "persisted_session option \<Rightarrow> persisted_session \<Rightarrow> unit expected" where
  "accept_preparing existing r =
     (case existing of
        None \<Rightarrow> Inl ''session registry start transition is orphaned''
      | Some prior \<Rightarrow>
          if p_state prior \<noteq> ''created'' \<or> \<not> same_plan prior r \<or>
             p_authorized_at_ms r < p_created_at_ms r
          then Inl ''session registry start transition is invalid''
          else if hash_start_authorization (wire_start_authorization r) \<noteq> Inr (p_request_digest r)
          then Inl ''session registry start authorization commitment mismatch''
          else Inr ())"

definition accept_starting :: "persisted_session option \<Rightarrow> persisted_session \<Rightarrow> unit expected" where
  "accept_starting existing r =
     (case existing of
        None \<Rightarrow> Inl ''session registry starting transition is orphaned''
      | Some prior \<Rightarrow>
          if p_state prior \<noteq> ''preparing'' \<or> \<not> same_plan prior r \<or> \<not> same_authorization prior r
          then Inl ''session registry starting transition is invalid''
          else if starting_digest r \<noteq> Inr (p_request_digest r)
          then Inl ''session registry execution binding commitment mismatch''
          else Inr ())"

definition accept_running :: "persisted_session option \<Rightarrow> persisted_session \<Rightarrow> unit expected" where
  "accept_running existing r =
     (case existing of
        None \<Rightarrow> Inl ''session registry running transition is orphaned''
      | Some prior \<Rightarrow>
          if p_state prior \<noteq> ''starting'' \<or> \<not> same_plan prior r \<or> \<not> same_authorization prior r \<or>
             \<not> same_launch prior r
          then Inl ''session registry running transition is invalid''
          else if running_digest r \<noteq> Inr (p_request_digest r)
          then Inl ''session registry running commitment mismatch''
          else Inr ())"

definition accept_stopping :: "persisted_session option \<Rightarrow> persisted_session \<Rightarrow> unit expected" where
  "accept_stopping existing r =
     (case existing of
        None \<Rightarrow> Inl ''session registry stopping transition is orphaned''
      | Some prior \<Rightarrow>
          if p_state prior \<noteq> ''running'' \<or> \<not> same_plan prior r \<or> \<not> same_authorization prior r \<or>
             \<not> same_launch prior r \<or> p_running_at_ms prior \<noteq> p_running_at_ms r \<or>
             \<not> same_process_identity prior r
          then Inl ''session registry stopping transition is invalid''
          else if stopping_digest r \<noteq> Inr (p_request_digest r)
          then Inl ''session registry stopping commitment mismatch''
          else Inr ())"

definition accept_exited :: "persisted_session option \<Rightarrow> persisted_session \<Rightarrow> unit expected" where
  "accept_exited existing r =
     (case existing of
        None \<Rightarrow> Inl ''session registry exit transition is orphaned''
      | Some prior \<Rightarrow>
          if (p_state prior \<noteq> ''running'' \<and> p_state prior \<noteq> ''stopping'') \<or> \<not> same_plan prior r \<or>
             \<not> same_authorization prior r \<or> \<not> same_launch prior r \<or>
             p_running_at_ms prior \<noteq> p_running_at_ms r \<or>
             p_stopping_at_ms prior \<noteq> p_stopping_at_ms r \<or> \<not> same_process_identity prior r
          then Inl ''session registry exit transition is invalid''
          else (case termination_cause_from_wire (p_termination_cause r) of
                  None \<Rightarrow> Inl ''session registry terminal cause is invalid''
                | Some cause \<Rightarrow>
                    if hash_terminal_reference (wire_terminal r cause) \<noteq> Inr (p_request_digest r)
                    then Inl ''session registry terminal envelope commitment mismatch''
                    else Inr ()))"

definition accept_failed :: "persisted_session option \<Rightarrow> persisted_session \<Rightarrow> unit expected" where
  "accept_failed existing r =
     (case existing of
        None \<Rightarrow> Inl ''session registry failure transition is orphaned''
      | Some prior \<Rightarrow>
          if (p_state prior \<noteq> ''starting'' \<and> p_state prior \<noteq> ''running'' \<and>
              p_state prior \<noteq> ''stopping'') \<or>
             \<not> same_plan prior r \<or> \<not> same_authorization prior r \<or> \<not> same_launch prior r \<or>
             p_running_at_ms prior \<noteq> p_running_at_ms r \<or>
             p_stopping_at_ms prior \<noteq> p_stopping_at_ms r \<or> \<not> same_process_identity prior r
          then Inl ''session registry failure transition is invalid''
          else (case failure_code_from_wire (p_failure_code r) of
                  None \<Rightarrow> Inl ''session registry failure code is invalid''
                | Some code \<Rightarrow>
                    if hash_failure_commitment (wire_failure r code) \<noteq> Inr (p_request_digest r)
                    then Inl ''session registry failure commitment mismatch''
                    else Inr ()))"

definition accept_lifecycle :: "persisted_session option \<Rightarrow> persisted_session \<Rightarrow> unit expected" where
  "accept_lifecycle existing r =
     (if p_state r = ''created'' then accept_created existing r
      else if p_state r = ''preparing'' then accept_preparing existing r
      else if p_state r = ''starting'' then accept_starting existing r
      else if p_state r = ''running'' then accept_running existing r
      else if p_state r = ''stopping'' then accept_stopping existing r
      else if p_state r = ''exited'' then accept_exited existing r
      else accept_failed existing r)"

subsection \<open>Observation records\<close>

datatype recovered_entry =
  Session_entry
| Intent_entry string "observation_quarantine_reason option"
| Disposition_entry string bool

definition accept_enqueue ::
    "json_codec \<Rightarrow> registry \<Rightarrow> persisted_session \<Rightarrow> persisted_session \<Rightarrow>
     persisted_observation_intent \<Rightarrow> string \<Rightarrow> recovered_entry expected" where
  "accept_enqueue jc s current r i key =
     (let body = observation_body_from_wire i;
          runtime = read_header jc (p_canonical_plan_json current)
      in if hash_observation_intent_request body (observation_context_from_wire r i) \<noteq>
              Inr (p_request_digest r) \<or>
            p_idempotency_key r \<noteq> ''intent-enqueue:'' @ p_request_digest r \<or>
            reg_observation_intents s key \<noteq> None \<or> reg_quarantined s key \<noteq> None \<or>
            p_state current \<noteq> ''running'' \<or>
            (case runtime of None \<Rightarrow> True | Some h \<Rightarrow> ph_runtime_id h \<noteq> oi_runtime_id i) \<or>
            oi_profile_digest i \<noteq> p_launch_profile_digest current \<or>
            oi_issued_at_ms i < p_running_at_ms current
         then Inl ''session registry observation enqueue commitment mismatch''
         else Inr (Intent_entry key
                (historical_observation_quarantine_reason (reg_channels s) body
                  (oi_expires_at_ms i - oi_issued_at_ms i))))"

definition wire_disposition ::
    "persisted_session \<Rightarrow> persisted_observation_intent \<Rightarrow> intent_disposition \<Rightarrow>
     observation_intent_disposition" where
  "wire_disposition r i disposition =
     \<lparr>od_session_id = p_session_id r, od_channel_generation = oi_channel_generation i,
      od_intent_id = oi_intent_id i, od_intent_digest = oi_intent_digest i,
      od_disposition = disposition, od_decided_at_ms = oi_decided_at_ms i\<rparr>"

definition accept_disposition ::
    "registry \<Rightarrow> persisted_session \<Rightarrow> persisted_observation_intent \<Rightarrow> string \<Rightarrow>
     recovered_entry expected" where
  "accept_disposition s r i key =
     (let enqueued = reg_observation_intents s key;
          quarantined = reg_quarantined s key
      in if (enqueued \<noteq> None) = (quarantined \<noteq> None) \<or>
            reg_observation_dispositions s key \<noteq> None \<or>
            (case quarantined of None \<Rightarrow> False | Some q \<Rightarrow> qs_disposition_index q \<noteq> None)
         then Inl ''session registry observation disposition is orphaned''
         else
           let original_index = (case enqueued of Some index \<Rightarrow> index
                                 | None \<Rightarrow> qs_enqueue_index (the quarantined));
               original = reg_records s ! original_index
           in if (case p_observation_intent original of
                    None \<Rightarrow> True | Some o' \<Rightarrow> \<not> same_observation_intent_binding i o')
              then Inl ''session registry observation disposition crossed its binding''
              else (case intent_disposition_from_wire (oi_disposition i) of
                      None \<Rightarrow> Inl ''session registry observation disposition commitment mismatch''
                    | Some disposition \<Rightarrow>
                        if disposition = Pending \<or>
                           hash_observation_intent_disposition (wire_disposition r i disposition) \<noteq>
                             Inr (p_request_digest r) \<or>
                           p_idempotency_key r \<noteq> ''intent-disposition:'' @ p_request_digest r
                        then Inl ''session registry observation disposition commitment mismatch''
                        else Inr (Disposition_entry key (quarantined \<noteq> None))))"

definition accept_observation ::
    "json_codec \<Rightarrow> registry \<Rightarrow> persisted_session option \<Rightarrow> persisted_session \<Rightarrow>
     recovered_entry expected" where
  "accept_observation jc s existing r =
     (case (existing, p_observation_intent r) of
        (Some current, Some i) \<Rightarrow>
          (let body = observation_body_from_wire i;
               key = observation_intent_key (p_session_id r) (oi_channel_generation i) (oi_intent_id i)
           in if \<not> same_session_snapshot r current
              then Inl ''session registry observation intent crossed its session binding''
              else if hash_observation_intent_body body \<noteq> Inr (oi_intent_digest i)
              then Inl ''session registry observation body commitment mismatch''
              else if p_operation r = ''enqueue_observation_intent_v1''
              then accept_enqueue jc s current r i key
              else accept_disposition s r i key)
      | _ \<Rightarrow> Inl ''session registry observation intent is orphaned'')"

subsection \<open>Accepting one record\<close>

definition is_observation :: "persisted_session \<Rightarrow> bool" where
  "is_observation r =
     (p_operation r = ''enqueue_observation_intent_v1'' \<or>
      p_operation r = ''set_observation_intent_disposition_v1'')"

definition current_session :: "registry \<Rightarrow> string \<Rightarrow> persisted_session option" where
  "current_session s session_id = map_option (\<lambda>i. reg_records s ! i) (find_session s session_id)"

definition index_recovered :: "registry \<Rightarrow> persisted_session \<Rightarrow> recovered_entry \<Rightarrow> registry" where
  "index_recovered s r entry =
     (let index = length (reg_records s);
          s1 = (case entry of
                  Intent_entry key (Some reason) \<Rightarrow>
                    s\<lparr>reg_quarantined := emplace key
                        \<lparr>qs_enqueue_index = index, qs_disposition_index = None, qs_reason = reason\<rparr>
                        (reg_quarantined s)\<rparr>
                | Intent_entry key None \<Rightarrow>
                    s\<lparr>reg_observation_intents := emplace key index (reg_observation_intents s)\<rparr>
                | Disposition_entry key True \<Rightarrow>
                    s\<lparr>reg_quarantined :=
                        (reg_quarantined s)(key :=
                           map_option (\<lambda>q. q\<lparr>qs_disposition_index := Some index\<rparr>)
                             (reg_quarantined s key))\<rparr>
                | Disposition_entry key False \<Rightarrow>
                    s\<lparr>reg_observation_dispositions :=
                        emplace key index (reg_observation_dispositions s)\<rparr>
                | Session_entry \<Rightarrow>
                    s\<lparr>reg_sessions := AList.update (p_session_id r) index (reg_sessions s)\<rparr>)
      in s1\<lparr>reg_requests := emplace (p_idempotency_key r) index (reg_requests s1),
            reg_records := reg_records s1 @ [r]\<rparr>)"

definition accept_recovered_record ::
    "json_codec \<Rightarrow> registry \<Rightarrow> persisted_session \<Rightarrow> string \<Rightarrow> registry expected" where
  "accept_recovered_record jc s r previous_hash =
     (if \<not> valid_record_shape r (of_nat (length (reg_records s)) + 1) \<or>
         p_previous_hash r \<noteq> previous_hash \<or> reg_requests s (p_idempotency_key r) \<noteq> None
      then Inl ''session registry record is invalid''
      else if hash_plan (p_canonical_plan_json r) \<noteq> Inr (p_plan_content_digest r) \<or>
              hash_record r \<noteq> Inr (p_this_hash r)
      then Inl ''session registry content commitment mismatch''
      else
        let existing = current_session s (p_session_id r) in
        and_then
          (if is_observation r then accept_observation jc s existing r
           else and_then (accept_lifecycle existing r) (\<lambda>_. Inr Session_entry))
          (\<lambda>entry. Inr (index_recovered s r entry)))"

lemma index_recovered_laws:
  "reg_disk (index_recovered s r entry) = reg_disk s"
  "reg_durable_bytes (index_recovered s r entry) = reg_durable_bytes s"
  "reg_records (index_recovered s r entry) = reg_records s @ [r]"
  "reg_requests (index_recovered s r entry) =
     emplace (p_idempotency_key r) (length (reg_records s)) (reg_requests s)"
  "reg_channels (index_recovered s r entry) = reg_channels s"
  "reg_max_bytes (index_recovered s r entry) = reg_max_bytes s"
  "reg_validator (index_recovered s r entry) = reg_validator s"
  "reg_library_bundles (index_recovered s r entry) = reg_library_bundles s"
  by (auto simp: index_recovered_def Let_def split: recovered_entry.splits option.splits bool.splits)

lemma accept_recovered_length:
  "accept_recovered_record jc s r previous_hash = Inr s' \<Longrightarrow>
     length (reg_records s') = Suc (length (reg_records s))"
  by (auto simp: accept_recovered_record_def Let_def and_then_Inr index_recovered_laws split: if_splits)

subsection \<open>Frames and the recovery loop\<close>

definition read_persisted_record ::
    "json_codec \<Rightarrow> disk \<Rightarrow> u64 \<Rightarrow> u64 \<Rightarrow> (persisted_session \<times> u64) expected \<times> disk" where
  "read_persisted_record jc d file_size offset =
     (if file_size - offset < 8 then (Inl ''session registry record boundary is invalid'', d)
      else (case read_at d 4 offset of
        (Inl e, d1) \<Rightarrow> (Inl e, d1)
      | (Inr head4, d1) \<Rightarrow>
        (let payload_size = (ucast (decode_u32 head4) :: u64) in
         if payload_size = 0 \<or> unat payload_size > max_record_payload_bytes \<or>
            payload_size > file_size - offset - 8
         then (Inl ''session registry record length is invalid'', d1)
         else (case read_at d1 (unat payload_size) (offset + 4) of
           (Inl e, d2) \<Rightarrow> (Inl e, d2)
         | (Inr payload, d2) \<Rightarrow>
           (case read_at d2 4 (offset + 4 + payload_size) of
              (Inl e, d3) \<Rightarrow> (Inl e, d3)
            | (Inr foot4, d3) \<Rightarrow>
                if (ucast (decode_u32 foot4) :: u64) \<noteq> payload_size
                then (Inl ''session registry record footer mismatch'', d3)
                else (case decode_record jc (string_of_bytes payload) of
                        Inl e \<Rightarrow> (Inl e, d3)
                      | Inr r \<Rightarrow> (Inr (r, offset + payload_size + 8), d3)))))))"

function recover_loop ::
    "json_codec \<Rightarrow> u64 \<Rightarrow> registry \<Rightarrow> u64 \<Rightarrow> string \<Rightarrow> (registry \<times> u64) expected" where
  "recover_loop jc file_size s offset previous_hash =
     (if \<not> offset < file_size then Inr (s, offset)
      else if length (reg_records s) \<ge> max_records
      then Inl ''session registry record capacity is invalid''
      else (case read_persisted_record jc (reg_disk s) file_size offset of
              (Inl e, d) \<Rightarrow> Inl e
            | (Inr (r, next_offset), d) \<Rightarrow>
                (case accept_recovered_record jc (s\<lparr>reg_disk := d\<rparr>) r previous_hash of
                   Inl e \<Rightarrow> Inl e
                 | Inr s' \<Rightarrow> recover_loop jc file_size s' next_offset (p_this_hash r))))"
  by pat_completeness auto

termination
  by (relation "measure (\<lambda>(jc, file_size, s, offset, previous_hash). max_records - length (reg_records s))")
    (auto dest: accept_recovered_length)

declare recover_loop.simps [simp del]

definition recover :: "json_codec \<Rightarrow> registry \<Rightarrow> registry expected" where
  "recover jc s =
     (case inspect_file (reg_disk s) of
        (Inl e, d1) \<Rightarrow> Inl ''session registry size is invalid''
      | (Inr file_size, d1) \<Rightarrow>
          if unat file_size < length registry_magic \<or> file_size > reg_max_bytes s
          then Inl ''session registry size is invalid''
          else (case read_at d1 (length registry_magic) 0 of
             (Inl e, d2) \<Rightarrow> Inl e
           | (Inr header, d2) \<Rightarrow>
               if header \<noteq> registry_magic then Inl ''session registry header mismatch''
               else
                 and_then (recover_loop jc file_size (s\<lparr>reg_disk := d2\<rparr>)
                             (of_nat (length registry_magic)) zero_digest)
                   (\<lambda>(s1, offset).
                      case capture_identity (reg_disk s1) of
                        (Inr identity, d3) \<Rightarrow>
                          if ri_size identity \<noteq> offset
                          then Inl ''session registry identity changed during recovery''
                          else Inr (s1\<lparr>reg_disk := d3, reg_durable_bytes := offset,
                                       reg_identity := identity\<rparr>)
                      | (Inl e, d3) \<Rightarrow> Inl ''session registry identity changed during recovery'')))"

subsection \<open>Opening the registry\<close>

text \<open>What the kernel answers while the file is located: \<open>loc_parent\<close> is the opened parent directory
  (a directory, its owner and its permission bits), or the error of opening or inspecting it;
  \<open>loc_entry\<close> is the outcome of \<open>openat\<close> on the name.\<close>

record directory_meta =
  dm_directory :: bool
  dm_uid :: nat
  dm_permissions :: nat

datatype lookup = Entry disk | Created disk | Refused string

record location =
  loc_parent :: "directory_meta expected"
  loc_euid :: nat
  loc_entry :: lookup

definition open_registry :: "string \<Rightarrow> location \<Rightarrow> (disk \<times> bool) expected" where
  "open_registry path loc =
     (let name = filename path in
      if name \<in> {[], ''.'', ''..''} then Inl ''session registry path requires a bounded filename''
      else
        and_then (loc_parent loc) (\<lambda>parent.
          if \<not> dm_directory parent \<or> dm_uid parent \<noteq> loc_euid loc \<or> dm_permissions parent \<noteq> 448
          then Inl ''session registry parent must be owner-only''
          else
            and_then
              (case loc_entry loc of
                 Entry d \<Rightarrow> Inr (d, False)
               | Created d \<Rightarrow> Inr (d, True)
               | Refused e \<Rightarrow> Inl (system_error ''open session registry'' e))
              (\<lambda>(file, created).
                 case inspect_file file of
                   (Inl e, file1) \<Rightarrow> Inl e
                 | (Inr _, file1) \<Rightarrow>
                     (case retried_call file1 of
                        (Some e, file2) \<Rightarrow> Inl (system_error ''lock session registry'' e)
                      | (None, file2) \<Rightarrow> Inr (file2, created)))))"

definition initialize_empty :: "disk \<Rightarrow> unit expected \<times> disk" where
  "initialize_empty d =
     (case write_at d registry_magic 0 of
        (Inl e, d1) \<Rightarrow> (Inl e, d1)
      | (Inr _, d1) \<Rightarrow>
        (case sync_descriptor d1 ''sync session registry'' of
           (Inl e, d2) \<Rightarrow> (Inl e, d2)
         | (Inr _, d2) \<Rightarrow> sync_descriptor d2 ''sync session registry directory''))"

text \<open>The error of a failed initialisation, extended by the outcome of removing the file again.\<close>

definition cleanup_error :: "string \<Rightarrow> disk \<Rightarrow> string" where
  "cleanup_error error d =
     (case single_call d of
        (Some e, _) \<Rightarrow> error @ ''; '' @ system_error ''remove incomplete session registry'' e
      | (None, d1) \<Rightarrow>
          (case sync_descriptor d1 ''sync incomplete registry cleanup'' of
             (Inl e, _) \<Rightarrow> error @ ''; '' @ e
           | (Inr _, _) \<Rightarrow> error))"

definition fresh_registry ::
    "disk \<Rightarrow> session_plan_validator \<Rightarrow> library_bundle_store option \<Rightarrow> u64 \<Rightarrow> channel_host option \<Rightarrow>
     registry" where
  "fresh_registry d validator bundles max_bytes host =
     \<lparr>reg_disk = d, reg_validator = validator, reg_library_bundles = bundles,
      reg_channels = host, reg_max_bytes = max_bytes,
      reg_durable_bytes = of_nat (length registry_magic),
      reg_identity = \<lparr>ri_device = 0, ri_inode = 0, ri_size = 0, ri_change = (0, 0)\<rparr>,
      reg_poisoned = False, reg_records = [], reg_sessions = [],
      reg_requests = Map.empty, reg_observation_intents = Map.empty,
      reg_observation_dispositions = Map.empty, reg_quarantined = Map.empty\<rparr>"

definition open_or_create ::
    "json_codec \<Rightarrow> string \<Rightarrow> session_plan_validator option \<Rightarrow> library_bundle_store option \<Rightarrow> u64 \<Rightarrow>
     channel_host option \<Rightarrow> location \<Rightarrow> registry registry_result" where
  "open_or_create jc path validator bundles max_bytes host loc =
     (case validator of
        None \<Rightarrow> Inl (failure Invalid_request ''invalid session registry configuration'')
      | Some v \<Rightarrow>
          if path = [] \<or> max_bytes < min_registry_bytes \<or> unat max_bytes > off_t_max \<or>
             (case host of None \<Rightarrow> False | Some h \<Rightarrow> \<not> frozen h \<or> descriptors h = [])
          then Inl (failure Invalid_request ''invalid session registry configuration'')
          else
            (case open_registry path loc of
               Inl e \<Rightarrow> Inl (storage_failure e)
             | Inr (d, created) \<Rightarrow>
                 (case (if created then initialize_empty d else (Inr (), d)) of
                    (Inl e, d1) \<Rightarrow> Inl (storage_failure (cleanup_error e d1))
                  | (Inr _, d1) \<Rightarrow>
                      (case recover jc (fresh_registry d1 v bundles max_bytes host) of
                         Inl e \<Rightarrow> Inl (storage_failure e)
                       | Inr s \<Rightarrow> Inr s))))"

end
