(* ===== verification/Registry_Ops.thy ===== *)
theory Registry_Ops
  imports Registry_Recovery
begin

text \<open>
  The lifecycle operations of \<open>session_registry\<close> (\<open>src/control/session_registry.cpp\<close>) and the
  idempotent replay lookups they start with (\<open>src/control/session_registry_replay.cpp\<close>).  Each
  operation is a function from the state to its result and the next state; a critical section is
  \<open>locked\<close>, which refuses on a poisoned registry.  The sections that \<open>create\<close>, \<open>reserve_start\<close> and
  \<open>resolve_start_inputs\<close> run under separate acquisitions of the mutex are definitions of their own.
\<close>

subsection \<open>Critical sections, replays and appends\<close>

definition locked ::
    "registry \<Rightarrow> (registry \<Rightarrow> 'a registry_result \<times> registry) \<Rightarrow> 'a registry_result \<times> registry" where
  "locked s body =
     (case unusable s of
        (True, s1) \<Rightarrow> (Inl (storage_failure ''session registry is poisoned''), s1)
      | (False, s1) \<Rightarrow> body s1)"

definition find_replay ::
    "registry \<Rightarrow> string \<Rightarrow> (persisted_session \<Rightarrow> bool) \<Rightarrow> string \<Rightarrow>
     (persisted_session \<Rightarrow> 'a registry_result) \<Rightarrow> 'a option registry_result" where
  "find_replay s key matches conflict project =
     (case reg_requests s key of
        None \<Rightarrow> Inr None
      | Some index \<Rightarrow>
          (let r = reg_records s ! index in
           if \<not> matches r then Inl (failure Idempotency_conflict conflict)
           else and_then (project r) (\<lambda>x. Inr (Some x))))"

text \<open>The tail every transition shares: replay, else plan a record, append it, answer.\<close>

definition transition ::
    "json_codec \<Rightarrow> 'a option registry_result \<times> registry \<Rightarrow>
     (registry \<Rightarrow> persisted_session registry_result \<times> registry) \<Rightarrow>
     (registry \<Rightarrow> registry \<Rightarrow> session_record \<Rightarrow> 'a registry_result) \<Rightarrow> 'a registry_result \<times> registry" where
  "transition jc replay plan respond =
     (case replay of
        (Inl e, s1) \<Rightarrow> (Inl e, s1)
      | (Inr (Some x), s1) \<Rightarrow> (Inr x, s1)
      | (Inr None, s1) \<Rightarrow>
          (case plan s1 of
             (Inl e, s2) \<Rightarrow> (Inl e, s2)
           | (Inr record, s2) \<Rightarrow>
               (case append_record_locked jc s2 record of
                  (Inl e, s3) \<Rightarrow> (Inl e, s3)
                | (Inr appended, s3) \<Rightarrow> (respond s1 s3 appended, s3))))"

definition pure_plan ::
    "(registry \<Rightarrow> persisted_session registry_result) \<Rightarrow> registry \<Rightarrow>
     persisted_session registry_result \<times> registry" where
  "pure_plan plan s = (plan s, s)"

definition with_session ::
    "registry \<Rightarrow> string \<Rightarrow> (persisted_session \<Rightarrow> 'a registry_result) \<Rightarrow> 'a registry_result" where
  "with_session s session_id f =
     (case current_session s session_id of
        None \<Rightarrow> Inl (failure Not_found ''session was not found'')
      | Some prior \<Rightarrow> f prior)"

definition capacity_exhausted :: session_registry_error where
  "capacity_exhausted = failure Capacity ''session registry capacity exhausted''"

definition next_sequence :: "registry \<Rightarrow> u64" where
  "next_sequence s = of_nat (length (reg_records s)) + 1"

definition last_hash :: "registry \<Rightarrow> string" where
  "last_hash s = (if reg_records s = [] then zero_digest else p_this_hash (last (reg_records s)))"

text \<open>The designated initialiser of a successor record: everything not named here is blank.\<close>

definition successor ::
    "registry \<Rightarrow> persisted_session \<Rightarrow> string \<Rightarrow> string \<Rightarrow> string \<Rightarrow> string \<Rightarrow> persisted_session" where
  "successor s prior operation key digest state =
     blank_session
       \<lparr>p_schema_version := 1, p_sequence := next_sequence s, p_operation := operation,
        p_idempotency_key := key, p_session_id := p_session_id prior,
        p_controller_plan_digest := p_controller_plan_digest prior, p_request_digest := digest,
        p_plan_content_digest := p_plan_content_digest prior, p_state := state,
        p_policy_revision := p_policy_revision prior, p_expires_at_ms := p_expires_at_ms prior,
        p_created_at_ms := p_created_at_ms prior,
        p_canonical_plan_json := p_canonical_plan_json prior, p_previous_hash := last_hash s\<rparr>"

definition authorized_successor ::
    "registry \<Rightarrow> persisted_session \<Rightarrow> string \<Rightarrow> string \<Rightarrow> string \<Rightarrow> string \<Rightarrow> persisted_session" where
  "authorized_successor s prior operation key digest state =
     (successor s prior operation key digest state)
       \<lparr>p_authorization_id := p_authorization_id prior,
        p_authorized_at_ms := p_authorized_at_ms prior,
        p_authorization_expires_at_ms := p_authorization_expires_at_ms prior\<rparr>"

definition launched_successor ::
    "registry \<Rightarrow> persisted_session \<Rightarrow> string \<Rightarrow> string \<Rightarrow> string \<Rightarrow> string \<Rightarrow> persisted_session" where
  "launched_successor s prior operation key digest state =
     (authorized_successor s prior operation key digest state)
       \<lparr>p_launch_profile_digest := p_launch_profile_digest prior,
        p_starting_at_ms := p_starting_at_ms prior, p_running_at_ms := p_running_at_ms prior,
        p_stopping_at_ms := p_stopping_at_ms prior,
        p_process_identity_schema_version := p_process_identity_schema_version prior,
        p_process_pid := p_process_pid prior, p_process_boot_id := p_process_boot_id prior,
        p_process_start_time_ticks := p_process_start_time_ticks prior,
        p_process_cgroup_device := p_process_cgroup_device prior,
        p_process_cgroup_inode := p_process_cgroup_inode prior,
        p_process_cgroup_path_digest := p_process_cgroup_path_digest prior,
        p_cgroup_identity := p_cgroup_identity prior,
        p_filesystem_identity := p_filesystem_identity prior\<rparr>"

text \<open>The copy of the current record that the managed and observation operations start from.\<close>

definition copied_successor ::
    "registry \<Rightarrow> persisted_session \<Rightarrow> string \<Rightarrow> string \<Rightarrow> string \<Rightarrow> persisted_session" where
  "copied_successor s prior operation key digest =
     prior\<lparr>p_sequence := next_sequence s, p_operation := operation, p_idempotency_key := key,
           p_request_digest := digest, p_previous_hash := last_hash s, p_this_hash := []\<rparr>"

subsection \<open>create\<close>

definition find_create_replay ::
    "string \<Rightarrow> string \<Rightarrow> string \<Rightarrow> string \<Rightarrow> registry \<Rightarrow> session_record option registry_result" where
  "find_create_replay session_id controller_plan_digest request_digest idempotency_key s =
     find_replay s idempotency_key
       (\<lambda>r. p_operation r = ''create'' \<and> p_session_id r = session_id \<and>
            p_controller_plan_digest r = controller_plan_digest \<and> p_request_digest r = request_digest)
       ''session create idempotency payload changed''
       (\<lambda>r. Inr (public_record r))"

definition find_create_replay_locked ::
    "string \<Rightarrow> string \<Rightarrow> string \<Rightarrow> string \<Rightarrow> registry \<Rightarrow>
     session_record option registry_result \<times> registry" where
  "find_create_replay_locked session_id controller_plan_digest request_digest idempotency_key s =
     locked s (\<lambda>s1. (find_create_replay session_id controller_plan_digest request_digest
                       idempotency_key s1, s1))"

definition create_plan ::
    "string \<Rightarrow> string \<Rightarrow> string \<Rightarrow> string \<Rightarrow> validated_session_plan_document \<Rightarrow> string \<Rightarrow> u64 \<Rightarrow>
     registry \<Rightarrow> persisted_session registry_result" where
  "create_plan session_id controller_plan_digest request_digest idempotency_key canonical
     content_digest now_ms s =
     (if find_session s session_id \<noteq> None
      then Inl (failure Session_conflict ''session identity already exists'')
      else if length (reg_records s) \<ge> max_records then Inl capacity_exhausted
      else
        Inr (blank_session
          \<lparr>p_schema_version := 1, p_sequence := next_sequence s, p_operation := ''create'',
           p_idempotency_key := idempotency_key, p_session_id := session_id,
           p_controller_plan_digest := controller_plan_digest, p_request_digest := request_digest,
           p_plan_content_digest := content_digest, p_state := ''created'',
           p_policy_revision := sv_policy_revision (vd_validation canonical),
           p_expires_at_ms := vd_expires_at_ms canonical, p_created_at_ms := now_ms,
           p_canonical_plan_json := vd_canonical_json canonical,
           p_previous_hash := last_hash s\<rparr>))"

definition create_commit ::
    "json_codec \<Rightarrow> string \<Rightarrow> string \<Rightarrow> string \<Rightarrow> string \<Rightarrow> validated_session_plan_document \<Rightarrow> string \<Rightarrow>
     u64 \<Rightarrow> registry \<Rightarrow> session_record registry_result \<times> registry" where
  "create_commit jc session_id controller_plan_digest request_digest idempotency_key canonical
     content_digest now_ms s =
     transition jc
       (find_create_replay_locked session_id controller_plan_digest request_digest idempotency_key s)
       (pure_plan (create_plan session_id controller_plan_digest request_digest idempotency_key
                     canonical content_digest now_ms))
       (\<lambda>s1 s3 appended. Inr appended)"

definition create ::
    "json_codec \<Rightarrow> string \<Rightarrow> string \<Rightarrow> string \<Rightarrow> string \<Rightarrow> u64 \<Rightarrow> registry \<Rightarrow>
     session_record registry_result \<times> registry" where
  "create jc session_id controller_plan_digest plan_json idempotency_key now_ms s =
     (if \<not> valid_identifier session_id \<or> \<not> valid_digest controller_plan_digest \<or>
         \<not> valid_identifier idempotency_key \<or> now_ms = 0
      then (Inl (failure Invalid_request ''invalid session create request''), s)
      else (case hash_plan plan_json of
        Inl e \<Rightarrow> (Inl (storage_failure e), s)
      | Inr request_digest \<Rightarrow>
        (case find_create_replay_locked session_id controller_plan_digest request_digest
                idempotency_key s of
           (Inl e, s1) \<Rightarrow> (Inl e, s1)
         | (Inr (Some r), s1) \<Rightarrow> (Inr r, s1)
         | (Inr None, s1) \<Rightarrow>
           (case canonicalize_json (reg_validator s1) plan_json now_ms of
              Inl e \<Rightarrow> (Inl (failure Invalid_plan ''session plan was rejected''), s1)
            | Inr canonical \<Rightarrow>
              (case hash_plan (vd_canonical_json canonical) of
                 Inl e \<Rightarrow> (Inl (storage_failure e), s1)
               | Inr content_digest \<Rightarrow>
                   create_commit jc session_id controller_plan_digest request_digest
                     idempotency_key canonical content_digest now_ms s1)))))"

subsection \<open>reserve\_start\<close>

record session_start_reservation =
  sr_session :: session_record
  sr_launch :: runtime_launch_projection
  sr_authorization_id :: string
  sr_authorization_expires_at_ms :: u64

definition resolved_launch ::
    "registry \<Rightarrow> string \<Rightarrow> u64 \<Rightarrow> runtime_launch_projection registry_result" where
  "resolved_launch s plan now_ms =
     (case resolve_runtime_launch_json (reg_validator s) plan now_ms of
        Inl e \<Rightarrow> Inl (failure Invalid_plan
          (''stored session plan no longer resolves to a runtime launch: '' @ e))
      | Inr launch \<Rightarrow>
          if rl_requires_direct_write_approval launch
          then Inl (failure Invalid_authorization ''direct-write start authorization is unavailable'')
          else Inr launch)"

definition start_reservation_from_record ::
    "registry \<Rightarrow> persisted_session \<Rightarrow> session_start_reservation registry_result" where
  "start_reservation_from_record s r =
     and_then (resolved_launch s (p_canonical_plan_json r) (p_authorized_at_ms r))
       (\<lambda>launch. Inr \<lparr>sr_session = public_record r, sr_launch = launch,
                     sr_authorization_id = p_authorization_id r,
                     sr_authorization_expires_at_ms = p_authorization_expires_at_ms r\<rparr>)"

definition find_start_replay_locked ::
    "session_start_authorization \<Rightarrow> string \<Rightarrow> string \<Rightarrow> registry \<Rightarrow>
     session_start_reservation option registry_result \<times> registry" where
  "find_start_replay_locked a request_digest idempotency_key s =
     locked s (\<lambda>s1.
       (find_replay s1 idempotency_key
          (\<lambda>r. p_operation r = ''reserve_start'' \<and> p_session_id r = sa_session_id a \<and>
               p_controller_plan_digest r = sa_controller_plan_digest a \<and>
               p_plan_content_digest r = sa_plan_content_digest a \<and>
               p_authorization_id r = sa_authorization_id a \<and>
               p_authorized_at_ms r = sa_approved_at_ms a \<and>
               p_authorization_expires_at_ms r = sa_expires_at_ms a \<and>
               p_request_digest r = request_digest)
          ''session start idempotency payload changed''
          (start_reservation_from_record s1), s1))"

definition reserve_start_request_ok ::
    "session_start_authorization \<Rightarrow> string \<Rightarrow> u64 \<Rightarrow> bool" where
  "reserve_start_request_ok a idempotency_key now_ms =
     (sa_schema_version a = 1 \<and> valid_identifier (sa_authorization_id a) \<and>
      valid_identifier (sa_session_id a) \<and> valid_digest (sa_controller_plan_digest a) \<and>
      valid_digest (sa_plan_content_digest a) \<and> valid_identifier idempotency_key \<and>
      sa_approved_at_ms a \<noteq> 0 \<and> sa_expires_at_ms a > sa_approved_at_ms a \<and>
      sa_expires_at_ms a - sa_approved_at_ms a \<le> max_start_authorization_ttl_ms \<and> now_ms \<noteq> 0)"

definition reserve_start_eligible ::
    "session_start_authorization \<Rightarrow> registry \<Rightarrow> string registry_result \<times> registry" where
  "reserve_start_eligible a s =
     locked s (\<lambda>s1.
       (with_session s1 (sa_session_id a) (\<lambda>r.
          if p_state r \<noteq> ''created''
          then Inl (failure Invalid_state ''session is not eligible for start reservation'')
          else if p_controller_plan_digest r \<noteq> sa_controller_plan_digest a \<or>
                  p_plan_content_digest r \<noteq> sa_plan_content_digest a \<or>
                  sa_approved_at_ms a < p_created_at_ms r \<or> sa_expires_at_ms a > p_expires_at_ms r
          then Inl (failure Invalid_authorization
                      ''start authorization does not bind the stored session plan'')
          else Inr (p_canonical_plan_json r)), s1))"

definition reserve_start_plan ::
    "session_start_authorization \<Rightarrow> string \<Rightarrow> string \<Rightarrow> string \<Rightarrow> registry \<Rightarrow>
     persisted_session registry_result" where
  "reserve_start_plan a request_digest idempotency_key canonical_plan s =
     with_session s (sa_session_id a) (\<lambda>prior.
       if p_state prior \<noteq> ''created'' \<or>
          p_controller_plan_digest prior \<noteq> sa_controller_plan_digest a \<or>
          p_plan_content_digest prior \<noteq> sa_plan_content_digest a \<or>
          p_canonical_plan_json prior \<noteq> canonical_plan
       then Inl (failure Invalid_state ''session changed before start reservation'')
       else if length (reg_records s) \<ge> max_records then Inl capacity_exhausted
       else
         Inr ((successor s prior ''reserve_start'' idempotency_key request_digest ''preparing'')
           \<lparr>p_authorization_id := sa_authorization_id a, p_authorized_at_ms := sa_approved_at_ms a,
            p_authorization_expires_at_ms := sa_expires_at_ms a\<rparr>))"

definition reserve_start_commit ::
    "json_codec \<Rightarrow> session_start_authorization \<Rightarrow> string \<Rightarrow> string \<Rightarrow> string \<Rightarrow>
     runtime_launch_projection \<Rightarrow> registry \<Rightarrow> session_start_reservation registry_result \<times> registry" where
  "reserve_start_commit jc a request_digest idempotency_key canonical_plan launch s =
     transition jc (find_start_replay_locked a request_digest idempotency_key s)
       (pure_plan (reserve_start_plan a request_digest idempotency_key canonical_plan))
       (\<lambda>s1 s3 appended.
          Inr \<lparr>sr_session = appended, sr_launch = launch,
               sr_authorization_id = sa_authorization_id a,
               sr_authorization_expires_at_ms = sa_expires_at_ms a\<rparr>)"

definition reserve_start ::
    "json_codec \<Rightarrow> session_start_authorization \<Rightarrow> string \<Rightarrow> u64 \<Rightarrow> registry \<Rightarrow>
     session_start_reservation registry_result \<times> registry" where
  "reserve_start jc a idempotency_key now_ms s =
     (if \<not> reserve_start_request_ok a idempotency_key now_ms
      then (Inl (failure Invalid_authorization ''invalid session start authorization''), s)
      else (case hash_start_authorization a of
        Inl e \<Rightarrow> (Inl (storage_failure e), s)
      | Inr request_digest \<Rightarrow>
        (case find_start_replay_locked a request_digest idempotency_key s of
           (Inl e, s1) \<Rightarrow> (Inl e, s1)
         | (Inr (Some r), s1) \<Rightarrow> (Inr r, s1)
         | (Inr None, s1) \<Rightarrow>
           if sa_approved_at_ms a > now_ms \<or> sa_expires_at_ms a \<le> now_ms
           then (Inl (failure Invalid_authorization
                        ''session start authorization is not currently valid''), s1)
           else (case reserve_start_eligible a s1 of
              (Inl e, s2) \<Rightarrow> (Inl e, s2)
            | (Inr canonical_plan, s2) \<Rightarrow>
              (case resolved_launch s2 canonical_plan now_ms of
                 Inl e \<Rightarrow> (Inl e, s2)
               | Inr launch \<Rightarrow>
                   reserve_start_commit jc a request_digest idempotency_key canonical_plan launch s2)))))"

subsection \<open>resolve\_start\_inputs\<close>

record session_start_inputs =
  si_session :: session_record
  si_launch :: runtime_launch_projection
  si_path_grants :: "resolved_path_grant list"
  si_library_projections :: "resolved_library_projection list"
  si_adoption :: "resolved_native_harness_adoption option"
  si_authorization_id :: string
  si_authorization_expires_at_ms :: u64

definition start_inputs_eligible ::
    "string \<Rightarrow> string \<Rightarrow> u64 \<Rightarrow> registry \<Rightarrow> persisted_session registry_result \<times> registry" where
  "start_inputs_eligible session_id authorization_id now_ms s =
     locked s (\<lambda>s1.
       (with_session s1 session_id (\<lambda>r.
          if p_state r \<noteq> ''preparing''
          then Inl (failure Invalid_state ''session has no durable start reservation'')
          else if p_authorization_id r \<noteq> authorization_id \<or> p_authorization_expires_at_ms r \<le> now_ms
          then Inl (failure Invalid_authorization
                      ''session start reservation is not currently authorized'')
          else Inr r), s1))"

definition resolved_libraries ::
    "registry \<Rightarrow> resolved_library_projection_target list \<Rightarrow> resolved_library_projection list registry_result" where
  "resolved_libraries s targets =
     (if targets = [] then Inr []
      else (case reg_library_bundles s of
              None \<Rightarrow> Inl (failure Invalid_plan ''session library bundle store is unavailable'')
            | Some store \<Rightarrow>
                (case resolve_projections store targets of
                   Inl e \<Rightarrow> Inl (failure Invalid_plan ''stored session library bundles no longer resolve'')
                 | Inr projections \<Rightarrow> Inr projections)))"

definition resolve_inputs ::
    "registry \<Rightarrow> string \<Rightarrow> u64 \<Rightarrow>
     (runtime_launch_projection \<times> resolved_native_harness_adoption option \<times>
      resolved_path_grant list \<times> resolved_library_projection list) registry_result" where
  "resolve_inputs s canonical_plan now_ms =
     and_then (resolved_launch s canonical_plan now_ms) (\<lambda>launch.
     (case resolve_native_harness_adoption_json (reg_validator s) canonical_plan now_ms of
        Inl e \<Rightarrow> Inl (failure Invalid_plan ''stored session adoption binding no longer resolves'')
      | Inr adoption \<Rightarrow>
          if rl_adoption launch \<noteq> map_option ha_identity adoption
          then Inl (failure Invalid_plan
                      ''stored session adoption binding differs from launch projection'')
          else (case resolve_path_grants_json (reg_validator s) canonical_plan now_ms of
             Inl e \<Rightarrow> Inl (failure Invalid_plan ''stored session path grants no longer resolve'')
           | Inr grants \<Rightarrow>
             (case resolve_library_projection_targets_json (reg_validator s) canonical_plan now_ms of
                Inl e \<Rightarrow> Inl (failure Invalid_plan
                           ''stored session library projections no longer resolve'')
              | Inr targets \<Rightarrow>
                  and_then (resolved_libraries s targets)
                    (\<lambda>libraries. Inr (launch, adoption, grants, libraries))))))"

definition resolve_start_inputs ::
    "string \<Rightarrow> string \<Rightarrow> u64 \<Rightarrow> registry \<Rightarrow> session_start_inputs registry_result \<times> registry" where
  "resolve_start_inputs session_id authorization_id now_ms s =
     (if \<not> valid_identifier session_id \<or> \<not> valid_identifier authorization_id \<or> now_ms = 0
      then (Inl (failure Invalid_request ''invalid session start-input request''), s)
      else (case start_inputs_eligible session_id authorization_id now_ms s of
         (Inl e, s1) \<Rightarrow> (Inl e, s1)
       | (Inr prepared, s1) \<Rightarrow>
         (case resolve_inputs s1 (p_canonical_plan_json prepared) now_ms of
            Inl e \<Rightarrow> (Inl e, s1)
          | Inr (launch, adoption, grants, libraries) \<Rightarrow>
            locked s1 (\<lambda>s2.
              (with_session s2 session_id (\<lambda>current.
                 if p_state current \<noteq> ''preparing'' \<or> p_authorization_id current \<noteq> authorization_id \<or>
                    p_authorization_expires_at_ms current \<noteq> p_authorization_expires_at_ms prepared \<or>
                    p_authorization_expires_at_ms current \<le> now_ms \<or>
                    p_canonical_plan_json current \<noteq> p_canonical_plan_json prepared \<or>
                    public_record current \<noteq> public_record prepared
                 then Inl (failure Invalid_state ''session changed while resolving start inputs'')
                 else Inr \<lparr>si_session = public_record prepared, si_launch = launch,
                           si_path_grants = grants, si_library_projections = libraries,
                           si_adoption = adoption, si_authorization_id = authorization_id,
                           si_authorization_expires_at_ms =
                             p_authorization_expires_at_ms prepared\<rparr>), s2)))))"

subsection \<open>mark\_starting\<close>

definition find_starting_replay_locked ::
    "session_execution_binding \<Rightarrow> string \<Rightarrow> string \<Rightarrow> registry \<Rightarrow>
     session_starting_record option registry_result \<times> registry" where
  "find_starting_replay_locked b request_digest idempotency_key s =
     locked s (\<lambda>s1.
       (find_replay s1 idempotency_key
          (\<lambda>r. p_operation r = ''mark_starting'' \<and> p_session_id r = eb_session_id b \<and>
               p_controller_plan_digest r = eb_controller_plan_digest b \<and>
               p_plan_content_digest r = eb_plan_content_digest b \<and>
               p_authorization_id r = eb_authorization_id b \<and>
               p_launch_profile_digest r = eb_profile_digest b \<and>
               p_cgroup_identity r = Some (eb_cgroup_identity b) \<and>
               p_filesystem_identity r = Some (eb_filesystem_identity b) \<and>
               p_request_digest r = request_digest)
          ''session starting idempotency payload changed''
          starting_record_from_wire, s1))"

definition mark_starting_request_ok :: "session_execution_binding \<Rightarrow> string \<Rightarrow> u64 \<Rightarrow> bool" where
  "mark_starting_request_ok b idempotency_key now_ms =
     (eb_schema_version b = 1 \<and> valid_identifier (eb_session_id b) \<and>
      valid_digest (eb_controller_plan_digest b) \<and> valid_digest (eb_plan_content_digest b) \<and>
      valid_identifier (eb_authorization_id b) \<and> valid_digest (eb_profile_digest b) \<and>
      valid_cgroup_identity (eb_cgroup_identity b) \<and>
      valid_filesystem_identity (eb_filesystem_identity b) \<and> valid_identifier idempotency_key \<and>
      now_ms \<noteq> 0)"

definition mark_starting_plan ::
    "session_execution_binding \<Rightarrow> string \<Rightarrow> string \<Rightarrow> u64 \<Rightarrow> registry \<Rightarrow>
     persisted_session registry_result" where
  "mark_starting_plan b request_digest idempotency_key now_ms s =
     with_session s (eb_session_id b) (\<lambda>prior.
       if p_state prior \<noteq> ''preparing''
       then Inl (failure Invalid_state ''session is not eligible for the starting transition'')
       else if p_session_id prior \<noteq> eb_session_id b \<or>
               p_controller_plan_digest prior \<noteq> eb_controller_plan_digest b \<or>
               p_plan_content_digest prior \<noteq> eb_plan_content_digest b \<or>
               p_authorization_id prior \<noteq> eb_authorization_id b \<or>
               p_authorization_expires_at_ms prior \<le> now_ms \<or> p_expires_at_ms prior \<le> now_ms
       then Inl (failure Invalid_authorization
                   ''execution commitment does not bind the current authorized session'')
       else (case resolve_runtime_launch_json (reg_validator s) (p_canonical_plan_json prior) now_ms of
          Inl e \<Rightarrow> Inl (failure Invalid_plan ''stored session plan no longer resolves before starting'')
        | Inr launch \<Rightarrow>
            if rl_requires_direct_write_approval launch
            then Inl (failure Invalid_authorization ''direct-write start authorization is unavailable'')
            else if length (reg_records s) \<ge> max_records then Inl capacity_exhausted
            else
              Inr ((authorized_successor s prior ''mark_starting'' idempotency_key request_digest
                      ''starting'')
                \<lparr>p_launch_profile_digest := eb_profile_digest b, p_starting_at_ms := now_ms,
                 p_cgroup_identity := Some (eb_cgroup_identity b),
                 p_filesystem_identity := Some (eb_filesystem_identity b)\<rparr>)))"

text \<open>The fields of the durable record that a response repeats come from the session's record before
  the append, as in the source, which copies them first.\<close>

definition prior_of :: "registry \<Rightarrow> string \<Rightarrow> persisted_session" where
  "prior_of s session_id =
     (case current_session s session_id of None \<Rightarrow> blank_session | Some prior \<Rightarrow> prior)"

definition mark_starting ::
    "json_codec \<Rightarrow> session_execution_binding \<Rightarrow> terminal_reservation \<Rightarrow> string \<Rightarrow> u64 \<Rightarrow> registry \<Rightarrow>
     session_starting_record registry_result \<times> registry" where
  "mark_starting jc b reservation idempotency_key now_ms s =
     (if \<not> mark_starting_request_ok b idempotency_key now_ms
      then (Inl (failure Invalid_request ''invalid session execution commitment''), s)
      else if \<not> matches_execution reservation (eb_session_id b) (eb_controller_plan_digest b)
                 (eb_profile_digest b)
      then (Inl (failure Invalid_authorization
                   ''execution commitment has no matching terminal receipt reservation''), s)
      else (case hash_execution_binding b of
        Inl e \<Rightarrow> (Inl (storage_failure e), s)
      | Inr request_digest \<Rightarrow>
          transition jc (find_starting_replay_locked b request_digest idempotency_key s)
            (pure_plan (mark_starting_plan b request_digest idempotency_key now_ms))
            (\<lambda>s1 s3 appended.
               Inr \<lparr>sg_session = appended, sg_authorization_id = eb_authorization_id b,
                    sg_authorization_expires_at_ms =
                      p_authorization_expires_at_ms (prior_of s1 (eb_session_id b)),
                    sg_profile_digest = eb_profile_digest b, sg_starting_at_ms = now_ms,
                    sg_cgroup_identity = eb_cgroup_identity b,
                    sg_filesystem_identity = eb_filesystem_identity b\<rparr>)))"

subsection \<open>mark\_running\<close>

definition commitment_request_ok :: "session_running_commitment \<Rightarrow> string \<Rightarrow> u64 \<Rightarrow> bool" where
  "commitment_request_ok c idempotency_key now_ms =
     (rc_schema_version c = 1 \<and> valid_identifier (rc_session_id c) \<and>
      valid_digest (rc_controller_plan_digest c) \<and> valid_digest (rc_plan_content_digest c) \<and>
      valid_identifier (rc_authorization_id c) \<and> valid_digest (rc_profile_digest c) \<and>
      valid_process_identity (rc_process_identity c) \<and>
      valid_filesystem_identity (rc_filesystem_identity c) \<and> valid_identifier idempotency_key \<and>
      now_ms \<noteq> 0)"

definition matches_commitment :: "session_running_commitment \<Rightarrow> persisted_session \<Rightarrow> bool" where
  "matches_commitment c r =
     (p_session_id r = rc_session_id c \<and> p_controller_plan_digest r = rc_controller_plan_digest c \<and>
      p_plan_content_digest r = rc_plan_content_digest c \<and>
      p_authorization_id r = rc_authorization_id c \<and>
      p_launch_profile_digest r = rc_profile_digest c \<and>
      p_filesystem_identity r = Some (rc_filesystem_identity c))"

definition find_running_replay_locked ::
    "session_running_commitment \<Rightarrow> string \<Rightarrow> string \<Rightarrow> registry \<Rightarrow>
     session_running_record option registry_result \<times> registry" where
  "find_running_replay_locked c request_digest idempotency_key s =
     locked s (\<lambda>s1.
       (find_replay s1 idempotency_key
          (\<lambda>r. p_operation r = ''mark_running'' \<and> matches_commitment c r \<and>
               matches_process_identity r (rc_process_identity c) \<and> p_request_digest r = request_digest)
          ''session running idempotency payload changed''
          running_record_from_wire, s1))"

definition mark_running_plan ::
    "session_running_commitment \<Rightarrow> string \<Rightarrow> string \<Rightarrow> u64 \<Rightarrow> registry \<Rightarrow>
     persisted_session registry_result" where
  "mark_running_plan c request_digest idempotency_key now_ms s =
     with_session s (rc_session_id c) (\<lambda>prior.
       if p_state prior \<noteq> ''starting''
       then Inl (failure Invalid_state ''session is not eligible for the running transition'')
       else if \<not> matches_commitment c prior \<or>
               (case p_cgroup_identity prior of
                  None \<Rightarrow> True
                | Some g \<Rightarrow> cg_device g \<noteq> pi_cgroup_device (rc_process_identity c) \<or>
                            cg_inode g \<noteq> pi_cgroup_inode (rc_process_identity c)) \<or>
               now_ms < p_starting_at_ms prior \<or> now_ms \<ge> p_authorization_expires_at_ms prior \<or>
               now_ms \<ge> p_expires_at_ms prior
       then Inl (failure Invalid_authorization
                   ''running commitment does not bind the current authorized session'')
       else (case resolve_runtime_launch_json (reg_validator s) (p_canonical_plan_json prior) now_ms of
          Inl e \<Rightarrow> Inl (failure Invalid_plan ''stored session plan is not eligible before child release'')
        | Inr launch \<Rightarrow>
            if rl_requires_direct_write_approval launch
            then Inl (failure Invalid_authorization
                        ''stored session plan is not eligible before child release'')
            else if length (reg_records s) \<ge> max_records then Inl capacity_exhausted
            else
              Inr ((authorized_successor s prior ''mark_running'' idempotency_key request_digest
                      ''running'')
                \<lparr>p_launch_profile_digest := p_launch_profile_digest prior,
                 p_starting_at_ms := p_starting_at_ms prior, p_running_at_ms := now_ms,
                 p_process_identity_schema_version := pi_schema_version (rc_process_identity c),
                 p_process_pid := pi_pid (rc_process_identity c),
                 p_process_boot_id := pi_boot_id (rc_process_identity c),
                 p_process_start_time_ticks := pi_start_time_ticks (rc_process_identity c),
                 p_process_cgroup_device := pi_cgroup_device (rc_process_identity c),
                 p_process_cgroup_inode := pi_cgroup_inode (rc_process_identity c),
                 p_process_cgroup_path_digest := pi_cgroup_path_digest (rc_process_identity c),
                 p_cgroup_identity := p_cgroup_identity prior,
                 p_filesystem_identity := p_filesystem_identity prior\<rparr>)))"

definition mark_running ::
    "json_codec \<Rightarrow> session_running_commitment \<Rightarrow> terminal_reservation \<Rightarrow> string \<Rightarrow> u64 \<Rightarrow> registry \<Rightarrow>
     session_running_record registry_result \<times> registry" where
  "mark_running jc c reservation idempotency_key now_ms s =
     (if \<not> commitment_request_ok c idempotency_key now_ms
      then (Inl (failure Invalid_request ''invalid session running commitment''), s)
      else if \<not> matches_execution reservation (rc_session_id c) (rc_controller_plan_digest c)
                 (rc_profile_digest c)
      then (Inl (failure Invalid_authorization
                   ''running commitment has no matching terminal receipt reservation''), s)
      else (case hash_running_commitment c of
        Inl e \<Rightarrow> (Inl (storage_failure e), s)
      | Inr request_digest \<Rightarrow>
          transition jc (find_running_replay_locked c request_digest idempotency_key s)
            (pure_plan (mark_running_plan c request_digest idempotency_key now_ms))
            (\<lambda>s1 s3 appended.
               Inr \<lparr>rg_session = appended, rg_profile_digest = rc_profile_digest c,
                    rg_starting_at_ms = p_starting_at_ms (prior_of s1 (rc_session_id c)),
                    rg_running_at_ms = now_ms, rg_process_identity = rc_process_identity c,
                    rg_filesystem_identity = rc_filesystem_identity c\<rparr>)))"

subsection \<open>mark\_stopping\<close>

definition find_stopping_replay_locked ::
    "session_running_commitment \<Rightarrow> string \<Rightarrow> string \<Rightarrow> registry \<Rightarrow>
     session_stopping_record option registry_result \<times> registry" where
  "find_stopping_replay_locked c request_digest idempotency_key s =
     locked s (\<lambda>s1.
       (find_replay s1 idempotency_key
          (\<lambda>r. p_operation r = ''mark_stopping'' \<and> matches_commitment c r \<and>
               matches_process_identity r (rc_process_identity c) \<and> p_request_digest r = request_digest)
          ''session stopping idempotency payload changed''
          stopping_record_from_wire, s1))"

definition mark_stopping_plan ::
    "session_running_commitment \<Rightarrow> string \<Rightarrow> string \<Rightarrow> u64 \<Rightarrow> registry \<Rightarrow>
     persisted_session registry_result" where
  "mark_stopping_plan c request_digest idempotency_key now_ms s =
     with_session s (rc_session_id c) (\<lambda>prior.
       if p_state prior \<noteq> ''running''
       then Inl (failure Invalid_state ''session is not eligible for the stopping transition'')
       else if \<not> matches_commitment c prior \<or>
               \<not> matches_process_identity prior (rc_process_identity c) \<or>
               now_ms < p_running_at_ms prior
       then Inl (failure Invalid_state
                   ''stopping commitment does not match the durable running session'')
       else if length (reg_records s) \<ge> max_records then Inl capacity_exhausted
       else
         Inr ((launched_successor s prior ''mark_stopping'' idempotency_key request_digest ''stopping'')
           \<lparr>p_stopping_at_ms := now_ms\<rparr>))"

definition mark_stopping ::
    "json_codec \<Rightarrow> session_running_commitment \<Rightarrow> string \<Rightarrow> u64 \<Rightarrow> registry \<Rightarrow>
     session_stopping_record registry_result \<times> registry" where
  "mark_stopping jc c idempotency_key now_ms s =
     (if \<not> commitment_request_ok c idempotency_key now_ms
      then (Inl (failure Invalid_request ''invalid session stopping commitment''), s)
      else (case hash_stopping_commitment c of
        Inl e \<Rightarrow> (Inl (storage_failure e), s)
      | Inr request_digest \<Rightarrow>
          transition jc (find_stopping_replay_locked c request_digest idempotency_key s)
            (pure_plan (mark_stopping_plan c request_digest idempotency_key now_ms))
            (\<lambda>s1 s3 appended.
               let prior = prior_of s1 (rc_session_id c) in
               Inr \<lparr>pg_session = appended, pg_profile_digest = rc_profile_digest c,
                    pg_starting_at_ms = p_starting_at_ms prior,
                    pg_running_at_ms = p_running_at_ms prior, pg_stopping_at_ms = now_ms,
                    pg_process_identity = rc_process_identity c,
                    pg_filesystem_identity = rc_filesystem_identity c\<rparr>)))"

end
