(* ===== verification/Registry_Terminal.thy ===== *)
theory Registry_Terminal
  imports Registry_Ops
begin

text \<open>
  The terminal transitions of \<open>session_registry\<close>, its managed-runtime transitions and its
  read-only queries (\<open>src/control/session_registry.cpp\<close>, lines 1037 to 2123).
\<close>

subsection \<open>mark\_exited and mark\_refinement\_exited\<close>

definition confirmed_terminal :: "bool expected \<Rightarrow> string \<Rightarrow> unit registry_result" where
  "confirmed_terminal answer message =
     (case answer of
        Inl e \<Rightarrow> Inl (storage_failure e)
      | Inr confirmed \<Rightarrow>
          if confirmed then Inr () else Inl (failure Invalid_authorization message))"

definition terminal_request_ok ::
    "authenticated_resource_enforcement_receipt \<Rightarrow> string \<Rightarrow> bool" where
  "terminal_request_ok t idempotency_key =
     (ar_schema_version t = 1 \<and> ar_sequence t \<noteq> 0 \<and> valid_digest (ar_key_id t) \<and>
      valid_identifier (ar_session_id t) \<and> valid_digest (ar_controller_plan_digest t) \<and>
      rr_schema_version (ar_receipt t) = 1 \<and> valid_digest (rr_profile_digest (ar_receipt t)) \<and>
      valid_digest (ar_receipt_digest t) \<and> valid_digest (ar_previous_hmac t) \<and>
      valid_digest (ar_this_hmac t) \<and>
      termination_cause_name (rr_termination_cause (ar_receipt t)) \<noteq> [] \<and>
      rr_started_at_ms (ar_receipt t) \<noteq> 0 \<and>
      rr_finished_at_ms (ar_receipt t) \<ge> rr_started_at_ms (ar_receipt t) \<and>
      valid_identifier idempotency_key \<and>
      resource_enforcement_receipt_digest (ar_receipt t) = Inr (ar_receipt_digest t))"

definition find_exited_replay_locked ::
    "authenticated_resource_enforcement_receipt \<Rightarrow> string \<Rightarrow> string \<Rightarrow> registry \<Rightarrow>
     session_exited_record option registry_result \<times> registry" where
  "find_exited_replay_locked t request_digest idempotency_key s =
     locked s (\<lambda>s1.
       (find_replay s1 idempotency_key
          (\<lambda>r. p_operation r = ''mark_exited'' \<and> p_session_id r = ar_session_id t \<and>
               p_controller_plan_digest r = ar_controller_plan_digest t \<and>
               p_launch_profile_digest r = rr_profile_digest (ar_receipt t) \<and>
               p_request_digest r = request_digest)
          ''session terminal idempotency payload changed''
          exited_record_from_wire, s1))"

definition find_refinement_exited_replay_locked ::
    "authenticated_refinement_evaluation_receipt \<Rightarrow> string \<Rightarrow> string \<Rightarrow> registry \<Rightarrow>
     session_exited_record option registry_result \<times> registry" where
  "find_refinement_exited_replay_locked t request_digest idempotency_key s =
     locked s (\<lambda>s1.
       (find_replay s1 idempotency_key
          (\<lambda>r. p_operation r = ''mark_refinement_exited'' \<and> p_session_id r = af_session_id t \<and>
               p_controller_plan_digest r = af_controller_plan_digest t \<and>
               p_launch_profile_digest r = rr_profile_digest (re_resource_receipt (af_receipt t)) \<and>
               p_request_digest r = request_digest)
          ''refinement session terminal idempotency payload changed''
          exited_record_from_wire, s1))"

text \<open>The window a terminal receipt has to cover, shared by the exit transitions.\<close>

definition receipt_outside_session :: "resource_enforcement_receipt \<Rightarrow> persisted_session \<Rightarrow> bool" where
  "receipt_outside_session receipt prior =
     (rr_started_at_ms receipt > p_running_at_ms prior \<or>
      rr_finished_at_ms receipt <
        (if p_state prior = ''stopping'' then p_stopping_at_ms prior else p_running_at_ms prior))"

definition mark_exited_plan ::
    "json_codec \<Rightarrow> authenticated_resource_enforcement_receipt \<Rightarrow> string \<Rightarrow> string \<Rightarrow> registry \<Rightarrow>
     persisted_session registry_result \<times> registry" where
  "mark_exited_plan jc t request_digest idempotency_key s =
     (case current_session s (ar_session_id t) of
        None \<Rightarrow> (Inl (failure Not_found ''session was not found''), s)
      | Some prior \<Rightarrow>
          if refinement_plan jc (p_canonical_plan_json prior)
          then (Inl (failure Invalid_authorization
                       ''refinement sessions require a distinct refinement receipt''), s)
          else if p_state prior \<noteq> ''running'' \<and> p_state prior \<noteq> ''stopping''
          then (Inl (failure Invalid_state ''session is not eligible for the exited transition''), s)
          else if p_session_id prior \<noteq> ar_session_id t \<or>
                  p_controller_plan_digest prior \<noteq> ar_controller_plan_digest t \<or>
                  p_launch_profile_digest prior \<noteq> rr_profile_digest (ar_receipt t) \<or>
                  receipt_outside_session (ar_receipt t) prior
          then (Inl (failure Invalid_state
                       ''terminal envelope does not match the durable running session''), s)
          else if length (reg_records s) \<ge> max_records then (Inl capacity_exhausted, s)
          else (case process_identity_from_wire prior of
             None \<Rightarrow> (Inl (storage_failure ''session registry process identity is invalid''),
                      s\<lparr>reg_poisoned := True\<rparr>)
           | Some identity \<Rightarrow>
               (Inr ((launched_successor s prior ''mark_exited'' idempotency_key request_digest
                        ''exited'')
                  \<lparr>p_finished_at_ms := rr_finished_at_ms (ar_receipt t),
                   p_receipt_started_at_ms := rr_started_at_ms (ar_receipt t),
                   p_receipt_key_id := ar_key_id t, p_receipt_sequence := ar_sequence t,
                   p_receipt_digest := ar_receipt_digest t,
                   p_receipt_previous_hmac := ar_previous_hmac t,
                   p_receipt_hmac := ar_this_hmac t,
                   p_termination_cause :=
                     termination_cause_name (rr_termination_cause (ar_receipt t)),
                   p_exit_code := rr_exit_code (ar_receipt t)\<rparr>), s)))"

definition exited_response ::
    "persisted_session \<Rightarrow> session_record \<Rightarrow> resource_enforcement_receipt \<Rightarrow> string \<Rightarrow> u64 \<Rightarrow> string \<Rightarrow>
     string \<Rightarrow> bool \<Rightarrow> session_exited_record" where
  "exited_response prior appended receipt key_id sequence receipt_digest this_hmac refinement =
     \<lparr>xg_session = appended, xg_profile_digest = rr_profile_digest receipt,
      xg_starting_at_ms = p_starting_at_ms prior, xg_running_at_ms = p_running_at_ms prior,
      xg_stopping_at_ms = p_stopping_at_ms prior,
      xg_process_identity = the (process_identity_from_wire prior),
      xg_filesystem_identity = the (p_filesystem_identity prior),
      xg_finished_at_ms = rr_finished_at_ms receipt, xg_receipt_key_id = key_id,
      xg_receipt_sequence = sequence, xg_receipt_digest = receipt_digest,
      xg_receipt_hmac = this_hmac, xg_termination_cause = rr_termination_cause receipt,
      xg_exit_code = rr_exit_code receipt, xg_refinement_receipt = refinement\<rparr>"

definition mark_exited ::
    "json_codec \<Rightarrow> receipt_audit_producer \<Rightarrow> authenticated_resource_enforcement_receipt \<Rightarrow> string \<Rightarrow>
     registry \<Rightarrow> session_exited_record registry_result \<times> registry" where
  "mark_exited jc producer t idempotency_key s =
     (if \<not> terminal_request_ok t idempotency_key
      then (Inl (failure Invalid_request ''invalid authenticated session terminal envelope''), s)
      else (case confirmed_terminal (confirms_terminal producer t)
                   ''terminal envelope is not durable in the receipt journal'' of
        Inl e \<Rightarrow> (Inl e, s)
      | Inr _ \<Rightarrow>
        (case hash_terminal_envelope t of
           Inl e \<Rightarrow> (Inl (storage_failure e), s)
         | Inr request_digest \<Rightarrow>
             transition jc (find_exited_replay_locked t request_digest idempotency_key s)
               (mark_exited_plan jc t request_digest idempotency_key)
               (\<lambda>s1 s3 appended.
                  Inr (exited_response (prior_of s1 (ar_session_id t)) appended (ar_receipt t)
                         (ar_key_id t) (ar_sequence t) (ar_receipt_digest t) (ar_this_hmac t)
                         False)))))"

definition refinement_terminal_request_ok ::
    "authenticated_refinement_evaluation_receipt \<Rightarrow> string \<Rightarrow> bool" where
  "refinement_terminal_request_ok t idempotency_key =
     (let receipt = re_resource_receipt (af_receipt t) in
      af_schema_version t = 1 \<and> af_sequence t \<noteq> 0 \<and> valid_digest (af_key_id t) \<and>
      valid_identifier (af_session_id t) \<and> valid_digest (af_controller_plan_digest t) \<and>
      re_schema_version (af_receipt t) = 1 \<and>
      re_runtime_template_id (af_receipt t) = refinement_runtime_template_id \<and>
      rr_schema_version receipt = 1 \<and> valid_digest (rr_profile_digest receipt) \<and>
      valid_digest (af_receipt_digest t) \<and> valid_digest (af_previous_hmac t) \<and>
      valid_digest (af_this_hmac t) \<and>
      termination_cause_name (rr_termination_cause receipt) \<noteq> [] \<and>
      rr_started_at_ms receipt \<noteq> 0 \<and> rr_finished_at_ms receipt \<ge> rr_started_at_ms receipt \<and>
      valid_identifier idempotency_key \<and>
      refinement_evaluation_receipt_digest (af_receipt t) = Inr (af_receipt_digest t))"

definition mark_refinement_exited_plan ::
    "json_codec \<Rightarrow> authenticated_refinement_evaluation_receipt \<Rightarrow> string \<Rightarrow> string \<Rightarrow> registry \<Rightarrow>
     persisted_session registry_result \<times> registry" where
  "mark_refinement_exited_plan jc t request_digest idempotency_key s =
     (let receipt = re_resource_receipt (af_receipt t) in
      case current_session s (af_session_id t) of
        None \<Rightarrow> (Inl (failure Not_found ''session was not found''), s)
      | Some prior \<Rightarrow>
          if \<not> refinement_plan jc (p_canonical_plan_json prior)
          then (Inl (failure Invalid_authorization
                       ''non-refinement sessions cannot accept a refinement receipt''), s)
          else if p_state prior \<noteq> ''running'' \<and> p_state prior \<noteq> ''stopping''
          then (Inl (failure Invalid_state
                       ''session is not eligible for the refinement exited transition''), s)
          else if p_session_id prior \<noteq> af_session_id t \<or>
                  p_controller_plan_digest prior \<noteq> af_controller_plan_digest t \<or>
                  p_launch_profile_digest prior \<noteq> rr_profile_digest receipt \<or>
                  receipt_outside_session receipt prior
          then (Inl (failure Invalid_state
                       ''refinement envelope does not match the durable running session''), s)
          else if length (reg_records s) \<ge> max_records then (Inl capacity_exhausted, s)
          else (case process_identity_from_wire prior of
             None \<Rightarrow> (Inl (storage_failure ''session registry process identity is invalid''),
                      s\<lparr>reg_poisoned := True\<rparr>)
           | Some identity \<Rightarrow>
               (Inr ((copied_successor s prior ''mark_refinement_exited'' idempotency_key
                        request_digest)
                  \<lparr>p_schema_version := 1, p_state := ''exited'', p_failure_code := [],
                   p_finished_at_ms := rr_finished_at_ms receipt,
                   p_receipt_started_at_ms := rr_started_at_ms receipt,
                   p_receipt_key_id := af_key_id t, p_receipt_sequence := af_sequence t,
                   p_receipt_digest := af_receipt_digest t,
                   p_receipt_previous_hmac := af_previous_hmac t,
                   p_receipt_hmac := af_this_hmac t,
                   p_termination_cause := termination_cause_name (rr_termination_cause receipt),
                   p_exit_code := rr_exit_code receipt\<rparr>), s)))"

definition mark_refinement_exited ::
    "json_codec \<Rightarrow> receipt_audit_producer \<Rightarrow> authenticated_refinement_evaluation_receipt \<Rightarrow> string \<Rightarrow>
     registry \<Rightarrow> session_exited_record registry_result \<times> registry" where
  "mark_refinement_exited jc producer t idempotency_key s =
     (if \<not> refinement_terminal_request_ok t idempotency_key
      then (Inl (failure Invalid_request ''invalid authenticated refinement terminal envelope''), s)
      else (case confirmed_terminal (confirms_refinement_terminal producer t)
                   ''refinement terminal envelope is not durable in the receipt journal'' of
        Inl e \<Rightarrow> (Inl e, s)
      | Inr _ \<Rightarrow>
        (case hash_refinement_terminal_envelope t of
           Inl e \<Rightarrow> (Inl (storage_failure e), s)
         | Inr request_digest \<Rightarrow>
             transition jc (find_refinement_exited_replay_locked t request_digest idempotency_key s)
               (mark_refinement_exited_plan jc t request_digest idempotency_key)
               (\<lambda>s1 s3 appended.
                  Inr (exited_response (prior_of s1 (af_session_id t)) appended
                         (re_resource_receipt (af_receipt t)) (af_key_id t) (af_sequence t)
                         (af_receipt_digest t) (af_this_hmac t) True)))))"

subsection \<open>mark\_failed\<close>

definition failure_request_ok :: "session_failure_commitment \<Rightarrow> string \<Rightarrow> u64 \<Rightarrow> bool" where
  "failure_request_ok c idempotency_key now_ms =
     (fc_schema_version c = 1 \<and> valid_identifier (fc_session_id c) \<and>
      valid_digest (fc_controller_plan_digest c) \<and> valid_digest (fc_plan_content_digest c) \<and>
      valid_identifier (fc_authorization_id c) \<and> valid_digest (fc_profile_digest c) \<and>
      valid_identifier idempotency_key \<and> now_ms \<noteq> 0 \<and>
      failure_code_from_wire (failure_code_name (fc_code c)) = Some (fc_code c))"

definition find_failure_replay_locked ::
    "session_failure_commitment \<Rightarrow> string \<Rightarrow> string \<Rightarrow> registry \<Rightarrow>
     session_failed_record option registry_result \<times> registry" where
  "find_failure_replay_locked c request_digest idempotency_key s =
     locked s (\<lambda>s1.
       (find_replay s1 idempotency_key
          (\<lambda>r. p_operation r = ''mark_failed'' \<and> p_session_id r = fc_session_id c \<and>
               p_controller_plan_digest r = fc_controller_plan_digest c \<and>
               p_plan_content_digest r = fc_plan_content_digest c \<and>
               p_authorization_id r = fc_authorization_id c \<and>
               p_launch_profile_digest r = fc_profile_digest c \<and>
               p_failure_code r = failure_code_name (fc_code c) \<and> p_request_digest r = request_digest)
          ''session failure idempotency payload changed''
          failed_record_from_wire, s1))"

text \<open>When the failed transition may happen: not before the last transition, and after launch only
  with a code that a supervisor or a recovery reports.\<close>

definition failure_too_early :: "persisted_session \<Rightarrow> u64 \<Rightarrow> bool" where
  "failure_too_early prior now_ms =
     (now_ms < (if p_state prior = ''stopping'' then p_stopping_at_ms prior
                else if p_state prior = ''running'' then p_running_at_ms prior
                else p_starting_at_ms prior))"

definition launched_state :: "persisted_session \<Rightarrow> bool" where
  "launched_state r = (p_state r = ''running'' \<or> p_state r = ''stopping'')"

definition mark_failed_plan ::
    "session_failure_commitment \<Rightarrow> string \<Rightarrow> string \<Rightarrow> u64 \<Rightarrow> registry \<Rightarrow>
     persisted_session registry_result \<times> registry" where
  "mark_failed_plan c request_digest idempotency_key now_ms s =
     (case current_session s (fc_session_id c) of
        None \<Rightarrow> (Inl (failure Not_found ''session was not found''), s)
      | Some prior \<Rightarrow>
          if p_state prior \<noteq> ''starting'' \<and> \<not> launched_state prior
          then (Inl (failure Invalid_state ''session is not eligible for the failed transition''), s)
          else if p_session_id prior \<noteq> fc_session_id c \<or>
                  p_controller_plan_digest prior \<noteq> fc_controller_plan_digest c \<or>
                  p_plan_content_digest prior \<noteq> fc_plan_content_digest c \<or>
                  p_authorization_id prior \<noteq> fc_authorization_id c \<or>
                  p_launch_profile_digest prior \<noteq> fc_profile_digest c \<or>
                  failure_too_early prior now_ms \<or>
                  (launched_state prior \<and> \<not> post_launch_failure (Some (fc_code c)))
          then (Inl (failure Invalid_state
                       ''failure commitment does not match the durable starting session''), s)
          else if length (reg_records s) \<ge> max_records then (Inl capacity_exhausted, s)
          else if launched_state prior \<and> process_identity_from_wire prior = None
          then (Inl (storage_failure ''session registry process identity is invalid''),
                s\<lparr>reg_poisoned := True\<rparr>)
          else
            (Inr ((launched_successor s prior ''mark_failed'' idempotency_key request_digest ''failed'')
               \<lparr>p_failure_code := failure_code_name (fc_code c), p_finished_at_ms := now_ms\<rparr>), s))"

definition mark_failed ::
    "json_codec \<Rightarrow> session_failure_commitment \<Rightarrow> string \<Rightarrow> u64 \<Rightarrow> registry \<Rightarrow>
     session_failed_record registry_result \<times> registry" where
  "mark_failed jc c idempotency_key now_ms s =
     (if \<not> failure_request_ok c idempotency_key now_ms
      then (Inl (failure Invalid_request ''invalid session failure commitment''), s)
      else (case hash_failure_commitment c of
        Inl e \<Rightarrow> (Inl (storage_failure e), s)
      | Inr request_digest \<Rightarrow>
          transition jc (find_failure_replay_locked c request_digest idempotency_key s)
            (mark_failed_plan c request_digest idempotency_key now_ms)
            (\<lambda>s1 s3 appended.
               let prior = prior_of s1 (fc_session_id c) in
               Inr \<lparr>fg_session = appended, fg_profile_digest = fc_profile_digest c,
                    fg_starting_at_ms = p_starting_at_ms prior,
                    fg_running_at_ms = p_running_at_ms prior,
                    fg_stopping_at_ms = p_stopping_at_ms prior,
                    fg_process_identity = process_identity_from_wire prior,
                    fg_cgroup_identity = p_cgroup_identity prior,
                    fg_filesystem_identity = p_filesystem_identity prior,
                    fg_failed_at_ms = now_ms, fg_code = fc_code c\<rparr>)))"

end
