(* ===== verification/Registry_Managed.thy ===== *)
theory Registry_Managed
  imports Registry_Terminal
begin

text \<open>
  The transitions of sessions that run in a managed runtime, the status queries and the recovery
  inventories of \<open>session_registry\<close> (\<open>src/control/session_registry.cpp\<close>).  A managed
  transition answers with the projection of the record it has just appended.
\<close>

subsection \<open>Managed transitions\<close>

definition respond_last ::
    "(persisted_session \<Rightarrow> 'a registry_result) \<Rightarrow> registry \<Rightarrow> registry \<Rightarrow> session_record \<Rightarrow> 'a registry_result" where
  "respond_last project s1 s3 appended = project (last (reg_records s3))"

definition managed_starting_request_ok ::
    "managed_session_execution_binding \<Rightarrow> string \<Rightarrow> u64 \<Rightarrow> bool" where
  "managed_starting_request_ok b idempotency_key now_ms =
     (mb_schema_version b = 1 \<and> valid_identifier (mb_session_id b) \<and>
      valid_digest (mb_controller_plan_digest b) \<and> valid_digest (mb_plan_content_digest b) \<and>
      valid_identifier (mb_authorization_id b) \<and> valid_digest (mb_profile_digest b) \<and>
      valid_managed_runtime_identity (mb_runtime_identity b) \<and> valid_identifier idempotency_key \<and>
      now_ms \<noteq> 0)"

definition find_managed_starting_replay ::
    "managed_session_execution_binding \<Rightarrow> string \<Rightarrow> string \<Rightarrow> registry \<Rightarrow>
     managed_session_lifecycle_record option registry_result \<times> registry" where
  "find_managed_starting_replay b request_digest idempotency_key s =
     locked s (\<lambda>s1.
       (find_replay s1 idempotency_key
          (\<lambda>r. p_operation r = ''mark_managed_starting'' \<and> p_session_id r = mb_session_id b \<and>
               p_controller_plan_digest r = mb_controller_plan_digest b \<and>
               p_plan_content_digest r = mb_plan_content_digest b \<and>
               p_authorization_id r = mb_authorization_id b \<and>
               p_launch_profile_digest r = mb_profile_digest b \<and>
               p_managed_runtime_identity r = Some (mb_runtime_identity b) \<and>
               p_request_digest r = request_digest)
          ''managed starting idempotency payload changed''
          managed_lifecycle_from_wire, s1))"

definition eligible_launch :: "registry \<Rightarrow> string \<Rightarrow> u64 \<Rightarrow> string \<Rightarrow> unit registry_result" where
  "eligible_launch s plan now_ms message =
     (case resolve_runtime_launch_json (reg_validator s) plan now_ms of
        Inl e \<Rightarrow> Inl (failure Invalid_plan message)
      | Inr launch \<Rightarrow>
          if rl_requires_direct_write_approval launch
          then Inl (failure Invalid_authorization message) else Inr ())"

definition mark_managed_starting_plan ::
    "managed_session_execution_binding \<Rightarrow> string \<Rightarrow> string \<Rightarrow> u64 \<Rightarrow> registry \<Rightarrow>
     persisted_session registry_result" where
  "mark_managed_starting_plan b request_digest idempotency_key now_ms s =
     with_session s (mb_session_id b) (\<lambda>prior.
       if p_state prior \<noteq> ''preparing'' \<or> p_session_id prior \<noteq> mb_session_id b \<or>
          p_controller_plan_digest prior \<noteq> mb_controller_plan_digest b \<or>
          p_plan_content_digest prior \<noteq> mb_plan_content_digest b \<or>
          p_authorization_id prior \<noteq> mb_authorization_id b \<or>
          p_authorization_expires_at_ms prior \<le> now_ms \<or> p_expires_at_ms prior \<le> now_ms
       then Inl (failure Invalid_authorization
                   ''managed execution commitment does not bind the current authorized session'')
       else
         and_then (eligible_launch s (p_canonical_plan_json prior) now_ms
                     ''stored session plan is not eligible for managed start'') (\<lambda>_.
           if length (reg_records s) \<ge> max_records then Inl capacity_exhausted
           else
             Inr ((authorized_successor s prior ''mark_managed_starting'' idempotency_key
                     request_digest ''starting'')
               \<lparr>p_launch_profile_digest := mb_profile_digest b, p_starting_at_ms := now_ms,
                p_managed_runtime_identity := Some (mb_runtime_identity b)\<rparr>)))"

definition mark_managed_starting ::
    "json_codec \<Rightarrow> managed_session_execution_binding \<Rightarrow> terminal_reservation \<Rightarrow> string \<Rightarrow> u64 \<Rightarrow>
     registry \<Rightarrow> managed_session_lifecycle_record registry_result \<times> registry" where
  "mark_managed_starting jc b reservation idempotency_key now_ms s =
     (if \<not> managed_starting_request_ok b idempotency_key now_ms
      then (Inl (failure Invalid_request ''invalid managed session execution commitment''), s)
      else if \<not> matches_execution reservation (mb_session_id b) (mb_controller_plan_digest b)
                 (mb_profile_digest b)
      then (Inl (failure Invalid_authorization
               ''managed execution commitment has no matching terminal receipt reservation''), s)
      else (case hash_managed_execution_binding b of
        Inl e \<Rightarrow> (Inl (storage_failure e), s)
      | Inr request_digest \<Rightarrow>
          transition jc (find_managed_starting_replay b request_digest idempotency_key s)
            (pure_plan (mark_managed_starting_plan b request_digest idempotency_key now_ms))
            (respond_last managed_lifecycle_from_wire)))"

definition managed_request_ok ::
    "managed_session_running_commitment \<Rightarrow> string \<Rightarrow> u64 \<Rightarrow> bool" where
  "managed_request_ok c idempotency_key now_ms =
     (mc_schema_version c = 1 \<and> valid_identifier (mc_session_id c) \<and>
      valid_digest (mc_controller_plan_digest c) \<and> valid_digest (mc_plan_content_digest c) \<and>
      valid_identifier (mc_authorization_id c) \<and> valid_digest (mc_profile_digest c) \<and>
      valid_managed_runtime_identity (mc_runtime_identity c) \<and> valid_identifier idempotency_key \<and>
      now_ms \<noteq> 0)"

definition matches_managed_commitment ::
    "managed_session_running_commitment \<Rightarrow> persisted_session \<Rightarrow> bool" where
  "matches_managed_commitment c r =
     (p_session_id r = mc_session_id c \<and> p_controller_plan_digest r = mc_controller_plan_digest c \<and>
      p_plan_content_digest r = mc_plan_content_digest c \<and>
      p_authorization_id r = mc_authorization_id c \<and>
      p_launch_profile_digest r = mc_profile_digest c \<and>
      p_managed_runtime_identity r = Some (mc_runtime_identity c))"

definition find_managed_replay ::
    "string \<Rightarrow> string \<Rightarrow> managed_session_running_commitment \<Rightarrow> string \<Rightarrow> string \<Rightarrow> registry \<Rightarrow>
     managed_session_lifecycle_record option registry_result \<times> registry" where
  "find_managed_replay operation conflict c request_digest idempotency_key s =
     locked s (\<lambda>s1.
       (find_replay s1 idempotency_key
          (\<lambda>r. p_operation r = operation \<and> matches_managed_commitment c r \<and>
               p_request_digest r = request_digest)
          conflict managed_lifecycle_from_wire, s1))"

definition mark_managed_running_plan ::
    "managed_session_running_commitment \<Rightarrow> string \<Rightarrow> string \<Rightarrow> u64 \<Rightarrow> registry \<Rightarrow>
     persisted_session registry_result" where
  "mark_managed_running_plan c request_digest idempotency_key now_ms s =
     with_session s (mc_session_id c) (\<lambda>prior.
       if p_state prior \<noteq> ''starting'' \<or> \<not> matches_managed_commitment c prior \<or>
          now_ms < p_starting_at_ms prior \<or> now_ms \<ge> p_authorization_expires_at_ms prior \<or>
          now_ms \<ge> p_expires_at_ms prior
       then Inl (failure Invalid_authorization
                   ''managed running commitment does not bind the current authorized session'')
       else
         and_then (eligible_launch s (p_canonical_plan_json prior) now_ms
                     ''stored session plan is not eligible before managed child release'') (\<lambda>_.
           if length (reg_records s) \<ge> max_records then Inl capacity_exhausted
           else
             Inr ((copied_successor s prior ''mark_managed_running'' idempotency_key request_digest)
               \<lparr>p_state := ''running'', p_running_at_ms := now_ms\<rparr>)))"

definition mark_managed_running ::
    "json_codec \<Rightarrow> managed_session_running_commitment \<Rightarrow> terminal_reservation \<Rightarrow> string \<Rightarrow> u64 \<Rightarrow>
     registry \<Rightarrow> managed_session_lifecycle_record registry_result \<times> registry" where
  "mark_managed_running jc c reservation idempotency_key now_ms s =
     (if \<not> managed_request_ok c idempotency_key now_ms
      then (Inl (failure Invalid_request ''invalid managed session running commitment''), s)
      else if \<not> matches_execution reservation (mc_session_id c) (mc_controller_plan_digest c)
                 (mc_profile_digest c)
      then (Inl (failure Invalid_authorization
               ''managed running commitment has no matching terminal receipt reservation''), s)
      else (case hash_managed_running_commitment c ''glove.managed-session-running-commitment'' of
        Inl e \<Rightarrow> (Inl (storage_failure e), s)
      | Inr request_digest \<Rightarrow>
          transition jc
            (find_managed_replay ''mark_managed_running''
               ''managed running idempotency payload changed'' c request_digest idempotency_key s)
            (pure_plan (mark_managed_running_plan c request_digest idempotency_key now_ms))
            (respond_last managed_lifecycle_from_wire)))"

definition mark_managed_stopping_plan ::
    "managed_session_running_commitment \<Rightarrow> string \<Rightarrow> string \<Rightarrow> u64 \<Rightarrow> registry \<Rightarrow>
     persisted_session registry_result" where
  "mark_managed_stopping_plan c request_digest idempotency_key now_ms s =
     with_session s (mc_session_id c) (\<lambda>prior.
       if p_state prior \<noteq> ''running'' \<or> \<not> matches_managed_commitment c prior \<or>
          now_ms < p_running_at_ms prior
       then Inl (failure Invalid_state
                   ''managed stopping commitment does not match the durable running session'')
       else if length (reg_records s) \<ge> max_records then Inl capacity_exhausted
       else
         Inr ((copied_successor s prior ''mark_managed_stopping'' idempotency_key request_digest)
           \<lparr>p_state := ''stopping'', p_stopping_at_ms := now_ms\<rparr>))"

definition mark_managed_stopping ::
    "json_codec \<Rightarrow> managed_session_running_commitment \<Rightarrow> string \<Rightarrow> u64 \<Rightarrow>
     registry \<Rightarrow> managed_session_lifecycle_record registry_result \<times> registry" where
  "mark_managed_stopping jc c idempotency_key now_ms s =
     (if \<not> managed_request_ok c idempotency_key now_ms
      then (Inl (failure Invalid_request ''invalid managed session stopping commitment''), s)
      else (case hash_managed_running_commitment c ''glove.managed-session-stopping-commitment'' of
        Inl e \<Rightarrow> (Inl (storage_failure e), s)
      | Inr request_digest \<Rightarrow>
          transition jc
            (find_managed_replay ''mark_managed_stopping''
               ''managed stopping idempotency payload changed'' c request_digest idempotency_key s)
            (pure_plan (mark_managed_stopping_plan c request_digest idempotency_key now_ms))
            (respond_last managed_lifecycle_from_wire)))"

definition find_managed_exited_replay ::
    "authenticated_resource_enforcement_receipt \<Rightarrow> string \<Rightarrow> string \<Rightarrow> registry \<Rightarrow>
     managed_session_exited_record option registry_result \<times> registry" where
  "find_managed_exited_replay t request_digest idempotency_key s =
     locked s (\<lambda>s1.
       (find_replay s1 idempotency_key
          (\<lambda>r. p_operation r = ''mark_managed_exited'' \<and> p_session_id r = ar_session_id t \<and>
               p_controller_plan_digest r = ar_controller_plan_digest t \<and>
               p_launch_profile_digest r = rr_profile_digest (ar_receipt t) \<and>
               p_receipt_sequence r = ar_sequence t \<and> p_receipt_digest r = ar_receipt_digest t \<and>
               p_receipt_hmac r = ar_this_hmac t \<and> p_request_digest r = request_digest)
          ''managed terminal idempotency payload changed''
          managed_exited_from_wire, s1))"

definition mark_managed_exited_plan ::
    "authenticated_resource_enforcement_receipt \<Rightarrow> string \<Rightarrow> string \<Rightarrow> registry \<Rightarrow>
     persisted_session registry_result" where
  "mark_managed_exited_plan t request_digest idempotency_key s =
     with_session s (ar_session_id t) (\<lambda>prior.
       if \<not> launched_state prior \<or> p_managed_runtime_identity prior = None \<or>
          p_session_id prior \<noteq> ar_session_id t \<or>
          p_controller_plan_digest prior \<noteq> ar_controller_plan_digest t \<or>
          p_launch_profile_digest prior \<noteq> rr_profile_digest (ar_receipt t) \<or>
          receipt_outside_session (ar_receipt t) prior
       then Inl (failure Invalid_state
                   ''managed terminal envelope does not match the durable running session'')
       else if length (reg_records s) \<ge> max_records then Inl capacity_exhausted
       else
         Inr ((copied_successor s prior ''mark_managed_exited'' idempotency_key request_digest)
           \<lparr>p_state := ''exited'', p_finished_at_ms := rr_finished_at_ms (ar_receipt t),
            p_receipt_started_at_ms := rr_started_at_ms (ar_receipt t),
            p_receipt_key_id := ar_key_id t, p_receipt_sequence := ar_sequence t,
            p_receipt_digest := ar_receipt_digest t, p_receipt_previous_hmac := ar_previous_hmac t,
            p_receipt_hmac := ar_this_hmac t,
            p_termination_cause := termination_cause_name (rr_termination_cause (ar_receipt t)),
            p_exit_code := rr_exit_code (ar_receipt t)\<rparr>))"

definition mark_managed_exited ::
    "json_codec \<Rightarrow> receipt_audit_producer \<Rightarrow> authenticated_resource_enforcement_receipt \<Rightarrow> string \<Rightarrow>
     registry \<Rightarrow> managed_session_exited_record registry_result \<times> registry" where
  "mark_managed_exited jc producer t idempotency_key s =
     (if \<not> terminal_request_ok t idempotency_key
      then (Inl (failure Invalid_request
                   ''invalid authenticated managed session terminal envelope''), s)
      else (case confirmed_terminal (confirms_terminal producer t)
                   ''managed terminal envelope is not durable in the receipt journal'' of
        Inl e \<Rightarrow> (Inl e, s)
      | Inr _ \<Rightarrow>
        (case hash_terminal_envelope t of
           Inl e \<Rightarrow> (Inl (storage_failure e), s)
         | Inr request_digest \<Rightarrow>
             transition jc (find_managed_exited_replay t request_digest idempotency_key s)
               (pure_plan (mark_managed_exited_plan t request_digest idempotency_key))
               (respond_last managed_exited_from_wire))))"

definition managed_failure_request_ok :: "session_failure_commitment \<Rightarrow> string \<Rightarrow> u64 \<Rightarrow> bool" where
  "managed_failure_request_ok c idempotency_key now_ms =
     (fc_schema_version c = 1 \<and> valid_identifier (fc_session_id c) \<and>
      valid_digest (fc_controller_plan_digest c) \<and> valid_digest (fc_plan_content_digest c) \<and>
      valid_identifier (fc_authorization_id c) \<and> valid_digest (fc_profile_digest c) \<and>
      valid_identifier idempotency_key \<and> now_ms \<noteq> 0 \<and>
      failure_code_from_wire (failure_code_name (fc_code c)) \<noteq> None)"

definition find_managed_failure_replay ::
    "session_failure_commitment \<Rightarrow> string \<Rightarrow> string \<Rightarrow> registry \<Rightarrow>
     managed_session_failed_record option registry_result \<times> registry" where
  "find_managed_failure_replay c request_digest idempotency_key s =
     locked s (\<lambda>s1.
       (find_replay s1 idempotency_key
          (\<lambda>r. p_operation r = ''mark_managed_failed'' \<and> p_session_id r = fc_session_id c \<and>
               p_controller_plan_digest r = fc_controller_plan_digest c \<and>
               p_plan_content_digest r = fc_plan_content_digest c \<and>
               p_authorization_id r = fc_authorization_id c \<and>
               p_launch_profile_digest r = fc_profile_digest c \<and>
               p_failure_code r = failure_code_name (fc_code c) \<and> p_request_digest r = request_digest)
          ''managed failure idempotency payload changed''
          managed_failed_from_wire, s1))"

definition mark_managed_failed_plan ::
    "session_failure_commitment \<Rightarrow> string \<Rightarrow> string \<Rightarrow> u64 \<Rightarrow> registry \<Rightarrow>
     persisted_session registry_result" where
  "mark_managed_failed_plan c request_digest idempotency_key now_ms s =
     with_session s (fc_session_id c) (\<lambda>prior.
       if (p_state prior \<noteq> ''starting'' \<and> \<not> launched_state prior) \<or>
          p_managed_runtime_identity prior = None \<or>
          p_controller_plan_digest prior \<noteq> fc_controller_plan_digest c \<or>
          p_plan_content_digest prior \<noteq> fc_plan_content_digest c \<or>
          p_authorization_id prior \<noteq> fc_authorization_id c \<or>
          p_launch_profile_digest prior \<noteq> fc_profile_digest c \<or>
          failure_too_early prior now_ms \<or>
          (launched_state prior \<and> \<not> post_launch_failure (Some (fc_code c)))
       then Inl (failure Invalid_state
                   ''managed failure commitment does not match the durable session'')
       else if length (reg_records s) \<ge> max_records then Inl capacity_exhausted
       else
         Inr ((copied_successor s prior ''mark_managed_failed'' idempotency_key request_digest)
           \<lparr>p_state := ''failed'', p_failure_code := failure_code_name (fc_code c),
            p_finished_at_ms := now_ms\<rparr>))"

definition mark_managed_failed ::
    "json_codec \<Rightarrow> session_failure_commitment \<Rightarrow> string \<Rightarrow> u64 \<Rightarrow> registry \<Rightarrow>
     managed_session_failed_record registry_result \<times> registry" where
  "mark_managed_failed jc c idempotency_key now_ms s =
     (if \<not> managed_failure_request_ok c idempotency_key now_ms
      then (Inl (failure Invalid_request ''invalid managed session failure commitment''), s)
      else (case hash_failure_commitment c of
        Inl e \<Rightarrow> (Inl (storage_failure e), s)
      | Inr request_digest \<Rightarrow>
          transition jc (find_managed_failure_replay c request_digest idempotency_key s)
            (pure_plan (mark_managed_failed_plan c request_digest idempotency_key now_ms))
            (respond_last managed_failed_from_wire)))"

subsection \<open>Queries\<close>

definition query ::
    "string \<Rightarrow> registry \<Rightarrow> (persisted_session \<Rightarrow> 'a registry_result) \<Rightarrow> 'a registry_result \<times> registry" where
  "query session_id s project =
     (if \<not> valid_identifier session_id
      then (Inl (failure Invalid_request ''invalid session identity''), s)
      else locked s (\<lambda>s1. (with_session s1 session_id project, s1)))"

definition status :: "string \<Rightarrow> registry \<Rightarrow> session_record registry_result \<times> registry" where
  "status session_id s = query session_id s (\<lambda>r. Inr (public_record r))"

definition starting_status ::
    "string \<Rightarrow> registry \<Rightarrow> session_starting_record registry_result \<times> registry" where
  "starting_status session_id s = query session_id s starting_record_from_wire"

definition running_status ::
    "string \<Rightarrow> registry \<Rightarrow> session_running_record registry_result \<times> registry" where
  "running_status session_id s = query session_id s running_record_from_wire"

definition stopping_status ::
    "string \<Rightarrow> registry \<Rightarrow> session_stopping_record registry_result \<times> registry" where
  "stopping_status session_id s = query session_id s stopping_record_from_wire"

definition exited_status ::
    "string \<Rightarrow> registry \<Rightarrow> session_exited_record registry_result \<times> registry" where
  "exited_status session_id s = query session_id s exited_record_from_wire"

definition failed_status ::
    "string \<Rightarrow> registry \<Rightarrow> session_failed_record registry_result \<times> registry" where
  "failed_status session_id s = query session_id s failed_record_from_wire"

definition managed_lifecycle_status ::
    "string \<Rightarrow> registry \<Rightarrow> managed_session_lifecycle_record registry_result \<times> registry" where
  "managed_lifecycle_status session_id s = query session_id s managed_lifecycle_from_wire"

definition canonical_plan :: "string \<Rightarrow> registry \<Rightarrow> string registry_result \<times> registry" where
  "canonical_plan session_id s = query session_id s (\<lambda>r. Inr (p_canonical_plan_json r))"

record session_recovery_record =
  rx_session :: session_record
  rx_authorization_id :: string
  rx_profile_digest :: string
  rx_starting_at_ms :: u64
  rx_running_at_ms :: u64
  rx_stopping_at_ms :: u64
  rx_process_identity :: "linux_process_identity option"
  rx_cgroup_identity :: "linux_cgroup_recovery_identity option"
  rx_filesystem_identity :: "linux_filesystem_recovery_identity option"
  rx_requires_refinement_receipt :: bool

definition recovery_record :: "json_codec \<Rightarrow> persisted_session \<Rightarrow> session_recovery_record" where
  "recovery_record jc r =
     \<lparr>rx_session = public_record r, rx_authorization_id = p_authorization_id r,
      rx_profile_digest = p_launch_profile_digest r, rx_starting_at_ms = p_starting_at_ms r,
      rx_running_at_ms = p_running_at_ms r, rx_stopping_at_ms = p_stopping_at_ms r,
      rx_process_identity = process_identity_from_wire r, rx_cgroup_identity = p_cgroup_identity r,
      rx_filesystem_identity = p_filesystem_identity r,
      rx_requires_refinement_receipt = refinement_plan jc (p_canonical_plan_json r)\<rparr>"

definition may_hold_process :: "persisted_session \<Rightarrow> bool" where
  "may_hold_process r = (p_state r = ''starting'' \<or> p_state r = ''running'' \<or> p_state r = ''stopping'')"

definition session_records :: "registry \<Rightarrow> persisted_session list" where
  "session_records s = map (\<lambda>(session_id, index). reg_records s ! index) (reg_sessions s)"

definition recovery_candidates ::
    "json_codec \<Rightarrow> registry \<Rightarrow> session_recovery_record list registry_result \<times> registry" where
  "recovery_candidates jc s =
     locked s (\<lambda>s1.
       (Inr (sort_key (\<lambda>c. s_session_id (rx_session c))
               (map (recovery_record jc)
                  (filter (\<lambda>r. may_hold_process r \<and> p_managed_runtime_identity r = None)
                     (session_records s1)))), s1))"

fun managed_candidates ::
    "persisted_session list \<Rightarrow> managed_session_lifecycle_record list registry_result" where
  "managed_candidates [] = Inr []"
| "managed_candidates (r # rs) =
     (if \<not> may_hold_process r \<or> p_managed_runtime_identity r = None then managed_candidates rs
      else and_then (managed_lifecycle_from_wire r) (\<lambda>candidate.
             and_then (managed_candidates rs) (\<lambda>candidates. Inr (candidate # candidates))))"

definition managed_recovery_candidates ::
    "registry \<Rightarrow> managed_session_lifecycle_record list registry_result \<times> registry" where
  "managed_recovery_candidates s =
     locked s (\<lambda>s1.
       (and_then (managed_candidates (session_records s1))
          (\<lambda>candidates. Inr (sort_key (\<lambda>c. s_session_id (ml_session c)) candidates)), s1))"

definition record_count :: "registry \<Rightarrow> u64" where
  "record_count s = of_nat (length (reg_records s))"

definition library_projections_available :: "registry \<Rightarrow> bool" where
  "library_projections_available s = (reg_library_bundles s \<noteq> None)"

end
