(* ===== verification/Registry_Observation.thy ===== *)
theory Registry_Observation
  imports Registry_Managed
begin

text \<open>
  Observation intents: a running session's guest may queue a bounded observation, and a host later
  records one disposition for it (\<open>src/control/session_registry.cpp\<close>, lines 36 to 69 and 2125 to
  2463).
\<close>

definition same_observation_replay_context ::
    "persisted_session \<Rightarrow> persisted_observation_intent \<Rightarrow> observation_intent_context \<Rightarrow> bool" where
  "same_observation_replay_context r i x =
     (p_session_id r = ox_session_id x \<and> p_controller_plan_digest r = ox_controller_plan_digest x \<and>
      oi_profile_digest i = ox_profile_digest x \<and> oi_runtime_id i = ox_runtime_id x \<and>
      oi_projection_digest i = ox_projection_digest x \<and>
      p_policy_revision r = ox_policy_revision x \<and> oi_channel_id i = ox_channel_id x \<and>
      oi_channel_generation i = ox_channel_generation x)"

definition current_observation_item_locked ::
    "registry \<Rightarrow> string \<Rightarrow> observation_intent_item registry_result" where
  "current_observation_item_locked s key =
     (case reg_observation_intents s key of
        None \<Rightarrow> Inl (failure Not_found ''observation intent was not found'')
      | Some enqueued \<Rightarrow>
          (let current = (case reg_observation_dispositions s key of
                            None \<Rightarrow> reg_records s ! enqueued
                          | Some index \<Rightarrow> reg_records s ! index)
           in and_then (observation_item_from_wire current)
                (\<lambda>item. Inr (item\<lparr>it_sequence := p_sequence (reg_records s ! enqueued)\<rparr>))))"

subsection \<open>enqueue\_observation\_intent\<close>

definition context_ok :: "observation_intent_context \<Rightarrow> u64 \<Rightarrow> bool" where
  "context_ok x now_ms =
     (valid_digest (ox_controller_plan_digest x) \<and> valid_digest (ox_profile_digest x) \<and>
      valid_identifier (ox_runtime_id x) \<and> valid_digest (ox_projection_digest x) \<and>
      ox_policy_revision x \<noteq> 0 \<and> valid_identifier (ox_channel_id x) \<and> ox_issued_at_ms x \<noteq> 0 \<and>
      ox_expires_at_ms x > ox_issued_at_ms x \<and> now_ms \<noteq> 0)"

definition outside_time_binding :: "channel_bounds \<Rightarrow> observation_intent_context \<Rightarrow> u64 \<Rightarrow> bool" where
  "outside_time_binding b x now_ms =
     ((ox_issued_at_ms x > now_ms \<and> ox_issued_at_ms x - now_ms > max_skew_ms b) \<or>
      now_ms \<ge> ox_expires_at_ms x)"

definition pending_intent ::
    "glove_observation_body \<Rightarrow> observation_intent_context \<Rightarrow> string \<Rightarrow> persisted_observation_intent" where
  "pending_intent body x intent_digest =
     \<lparr>oi_schema_version = 1, oi_schema = ob_schema body, oi_intent_id = ob_intent_id body,
      oi_observation = ob_observation body, oi_value_digest = ob_value_digest body,
      oi_item_count = ob_item_count body, oi_intent_digest = intent_digest,
      oi_profile_digest = ox_profile_digest x, oi_runtime_id = ox_runtime_id x,
      oi_projection_digest = ox_projection_digest x, oi_channel_id = ox_channel_id x,
      oi_channel_generation = ox_channel_generation x, oi_issued_at_ms = ox_issued_at_ms x,
      oi_expires_at_ms = ox_expires_at_ms x, oi_disposition = ''pending'', oi_decided_at_ms = 0\<rparr>"

definition enqueue_plan ::
    "json_codec \<Rightarrow> channel_descriptor \<Rightarrow> glove_observation_body \<Rightarrow> observation_intent_context \<Rightarrow>
     string \<Rightarrow> u64 \<Rightarrow> registry \<Rightarrow> persisted_session registry_result" where
  "enqueue_plan jc descriptor body x intent_digest now_ms s =
     (if \<not> context_ok x now_ms
      then Inl (failure Invalid_request ''invalid observation intent request'')
      else (case hash_observation_intent_request body x of
        Inl e \<Rightarrow> Inl (storage_failure ''hash observation intent failed'')
      | Inr request_digest \<Rightarrow>
        if outside_time_binding (bounds descriptor) x now_ms
        then Inl (failure Invalid_request
                    ''observation intent is expired or outside its host time binding'')
        else
          with_session s (ox_session_id x) (\<lambda>prior.
            if p_state prior \<noteq> ''running'' \<or>
               (case read_header jc (p_canonical_plan_json prior) of
                  None \<Rightarrow> True | Some h \<Rightarrow> ox_runtime_id x \<noteq> ph_runtime_id h) \<or>
               ox_controller_plan_digest x \<noteq> p_controller_plan_digest prior \<or>
               ox_profile_digest x \<noteq> p_launch_profile_digest prior \<or>
               ox_policy_revision x \<noteq> p_policy_revision prior \<or>
               ox_issued_at_ms x < p_running_at_ms prior
            then Inl (failure Invalid_state
                        ''observation intent does not bind the current running session'')
            else if ox_expires_at_ms x - ox_issued_at_ms x > max_ttl_ms (bounds descriptor)
            then Inl (failure Invalid_request ''observation intent ttl'')
            else if length (reg_records s) \<ge> max_records then Inl capacity_exhausted
            else
              Inr ((copied_successor s prior ''enqueue_observation_intent_v1''
                      (''intent-enqueue:'' @ request_digest) request_digest)
                \<lparr>p_observation_intent := Some (pending_intent body x intent_digest)\<rparr>))))"

definition find_enqueue_replay ::
    "observation_intent_context \<Rightarrow> string \<Rightarrow> string \<Rightarrow> registry \<Rightarrow>
     observation_intent_item option registry_result" where
  "find_enqueue_replay x intent_digest key s =
     (case reg_observation_intents s key of
        None \<Rightarrow> Inr None
      | Some index \<Rightarrow>
          (let r = reg_records s ! index in
           if (case p_observation_intent r of
                 None \<Rightarrow> True
               | Some i \<Rightarrow> oi_intent_digest i \<noteq> intent_digest \<or>
                           \<not> same_observation_replay_context r i x)
           then Inl (failure Idempotency_conflict
                       ''observation intent body or security context changed'')
           else and_then (current_observation_item_locked s key) (\<lambda>item. Inr (Some item))))"

definition enqueue_commit ::
    "json_codec \<Rightarrow> channel_descriptor \<Rightarrow> glove_observation_body \<Rightarrow> observation_intent_context \<Rightarrow>
     string \<Rightarrow> string \<Rightarrow> u64 \<Rightarrow> registry \<Rightarrow> observation_intent_item registry_result \<times> registry" where
  "enqueue_commit jc descriptor body x intent_digest key now_ms s =
     transition jc (locked s (\<lambda>s1. (find_enqueue_replay x intent_digest key s1, s1)))
       (pure_plan (enqueue_plan jc descriptor body x intent_digest now_ms))
       (\<lambda>s1 s3 appended. current_observation_item_locked s3 key)"

definition enqueue_observation_intent ::
    "json_codec \<Rightarrow> glove_observation_body \<Rightarrow> observation_intent_context \<Rightarrow> u64 \<Rightarrow> registry \<Rightarrow>
     observation_intent_item registry_result \<times> registry" where
  "enqueue_observation_intent jc body x now_ms s =
     (if \<not> valid_observation_body_shape body \<or> \<not> valid_identifier (ox_session_id x) \<or>
         ox_channel_generation x = 0
      then (Inl (failure Invalid_request ''invalid observation intent request''), s)
      else
        let key = observation_intent_key (ox_session_id x) (ox_channel_generation x)
                    (ob_intent_id body) in
        (case locked s (\<lambda>s1.
                (if reg_quarantined s1 key \<noteq> None
                 then Inl (failure Invalid_state ''observation intent schema is unavailable'')
                 else Inr (), s1)) of
           (Inl e, s1) \<Rightarrow> (Inl e, s1)
         | (Inr _, s1) \<Rightarrow>
           (case admitted (reg_channels s1) (ob_schema body) of
              None \<Rightarrow>
                (Inl (failure Invalid_request
                   (if reg_channels s1 \<noteq> None then ''observation schema is not registered''
                    else ''invalid observation intent request'')), s1)
            | Some descriptor \<Rightarrow>
                if unat (ob_item_count body) > max_items (bounds descriptor) \<or>
                   observation_body_bytes body > max_body_bytes (bounds descriptor) \<or>
                   \<not> body_validator_accepts descriptor body
                then (Inl (failure Invalid_request ''observation body rejected''), s1)
                else (case hash_observation_intent_body body of
                  Inl e \<Rightarrow> (Inl (storage_failure ''hash observation intent failed''), s1)
                | Inr intent_digest \<Rightarrow>
                    enqueue_commit jc descriptor body x intent_digest key now_ms s1))))"

subsection \<open>set\_observation\_intent\_disposition\<close>

definition disposition_request_ok :: "observation_intent_disposition \<Rightarrow> bool" where
  "disposition_request_ok d =
     (valid_identifier (od_session_id d) \<and> od_channel_generation d \<noteq> 0 \<and>
      valid_identifier (od_intent_id d) \<and> valid_digest (od_intent_digest d) \<and>
      od_disposition d \<noteq> Pending \<and> disposition_name (od_disposition d) \<noteq> [] \<and>
      od_decided_at_ms d \<noteq> 0)"

definition find_disposition_replay ::
    "observation_intent_disposition \<Rightarrow> string \<Rightarrow> string \<Rightarrow> registry \<Rightarrow>
     observation_intent_item option registry_result" where
  "find_disposition_replay d request_digest key s =
     (if reg_quarantined s key \<noteq> None
      then Inl (failure Invalid_state ''observation intent schema is unavailable'')
      else if reg_observation_intents s key = None
      then Inl (failure Not_found ''observation intent was not found'')
      else (case reg_observation_dispositions s key of
        None \<Rightarrow> Inr None
      | Some index \<Rightarrow>
          (let r = reg_records s ! index in
           if (case p_observation_intent r of
                 None \<Rightarrow> True
               | Some i \<Rightarrow> oi_intent_digest i \<noteq> od_intent_digest d \<or>
                           oi_disposition i \<noteq> disposition_name (od_disposition d) \<or>
                           oi_decided_at_ms i \<noteq> od_decided_at_ms d \<or>
                           p_request_digest r \<noteq> request_digest)
           then Inl (failure Idempotency_conflict ''observation intent disposition changed'')
           else and_then (current_observation_item_locked s key) (\<lambda>item. Inr (Some item)))))"

definition outside_validity_window ::
    "persisted_observation_intent \<Rightarrow> observation_intent_disposition \<Rightarrow> bool" where
  "outside_validity_window i d =
     (let expired = (od_disposition d = Expired) in
      od_decided_at_ms d < oi_issued_at_ms i \<or>
      (expired \<and> od_decided_at_ms d < oi_expires_at_ms i) \<or>
      (\<not> expired \<and> od_decided_at_ms d \<ge> oi_expires_at_ms i))"

definition disposition_plan ::
    "observation_intent_disposition \<Rightarrow> string \<Rightarrow> string \<Rightarrow> registry \<Rightarrow>
     persisted_session registry_result" where
  "disposition_plan d request_digest key s =
     (case reg_observation_intents s key of
        None \<Rightarrow> Inl (failure Not_found ''observation intent was not found'')
      | Some enqueued \<Rightarrow>
        (case p_observation_intent (reg_records s ! enqueued) of
           None \<Rightarrow> Inl (failure Idempotency_conflict ''observation intent digest changed'')
         | Some intent \<Rightarrow>
             if oi_intent_digest intent \<noteq> od_intent_digest d
             then Inl (failure Idempotency_conflict ''observation intent digest changed'')
             else if outside_validity_window intent d
             then Inl (failure Invalid_request
                         ''observation intent disposition is outside its validity window'')
             else
               with_session s (od_session_id d) (\<lambda>session.
                 if length (reg_records s) \<ge> max_records then Inl capacity_exhausted
                 else
                   Inr ((copied_successor s session ''set_observation_intent_disposition_v1''
                           (''intent-disposition:'' @ request_digest) request_digest)
                     \<lparr>p_observation_intent :=
                        Some (intent\<lparr>oi_disposition := disposition_name (od_disposition d),
                                     oi_decided_at_ms := od_decided_at_ms d\<rparr>)\<rparr>))))"

definition set_observation_intent_disposition ::
    "json_codec \<Rightarrow> observation_intent_disposition \<Rightarrow> registry \<Rightarrow>
     observation_intent_item registry_result \<times> registry" where
  "set_observation_intent_disposition jc d s =
     (if \<not> disposition_request_ok d
      then (Inl (failure Invalid_request ''invalid observation intent disposition''), s)
      else (case hash_observation_intent_disposition d of
        Inl e \<Rightarrow> (Inl (storage_failure e), s)
      | Inr request_digest \<Rightarrow>
          (let key = observation_intent_key (od_session_id d) (od_channel_generation d)
                       (od_intent_id d) in
           transition jc (locked s (\<lambda>s1. (find_disposition_replay d request_digest key s1, s1)))
             (pure_plan (disposition_plan d request_digest key))
             (\<lambda>s1 s3 appended. current_observation_item_locked s3 key))))"

subsection \<open>Pages\<close>

definition max_pending_intent_page_size :: nat where
  "max_pending_intent_page_size = 256"

record pending_intent_page =
  pp_items :: "observation_intent_item list"
  pp_next_after_sequence :: "u64 option"

record observation_intent_quarantine_entry =
  qe_sequence :: u64
  qe_session_id :: string
  qe_schema_id :: string
  qe_intent_id :: string
  qe_channel_generation :: u64
  qe_closed_reason :: string

record observation_intent_quarantine_page =
  qp_items :: "observation_intent_quarantine_entry list"
  qp_next_after_sequence :: "u64 option"

definition listed_intent ::
    "u64 \<Rightarrow> persisted_session \<Rightarrow> (persisted_observation_intent \<times> string) option" where
  "listed_intent after_sequence r =
     (if p_sequence r \<le> after_sequence \<or> p_operation r \<noteq> ''enqueue_observation_intent_v1'' then None
      else map_option (\<lambda>i. (i, observation_intent_key (p_session_id r) (oi_channel_generation i)
                                 (oi_intent_id i))) (p_observation_intent r))"

text \<open>The paging loop: collect what \<open>select\<close> admits, stop at the first admitted record beyond the
  limit and report where to continue.\<close>

fun page_loop ::
    "nat \<Rightarrow> (persisted_session \<Rightarrow> 'a registry_result option) \<Rightarrow> ('a \<Rightarrow> u64) \<Rightarrow> 'a list \<Rightarrow>
     persisted_session list \<Rightarrow> ('a list \<times> u64 option) registry_result" where
  "page_loop limit select sequence_of items [] = Inr (items, None)"
| "page_loop limit select sequence_of items (r # rs) =
     (case select r of
        None \<Rightarrow> page_loop limit select sequence_of items rs
      | Some item \<Rightarrow>
          if length items = limit then Inr (items, Some (sequence_of (last items)))
          else and_then item
                 (\<lambda>x. page_loop limit select sequence_of (items @ [x]) rs))"

definition pending_observation_intents ::
    "u64 \<Rightarrow> nat \<Rightarrow> u64 \<Rightarrow> registry \<Rightarrow> pending_intent_page registry_result \<times> registry" where
  "pending_observation_intents after_sequence limit now_ms s =
     (if limit = 0 \<or> limit > max_pending_intent_page_size \<or> now_ms = 0
      then (Inl (failure Invalid_request ''invalid pending observation intent page request''), s)
      else
        locked s (\<lambda>s1.
          (and_then
             (page_loop limit
                (\<lambda>r. case listed_intent after_sequence r of
                       None \<Rightarrow> None
                     | Some (i, key) \<Rightarrow>
                         if reg_observation_intents s1 key = None \<or>
                            reg_observation_dispositions s1 key \<noteq> None
                         then None else Some (observation_item_from_wire r))
                it_sequence [] (reg_records s1))
             (\<lambda>(items, next_after). Inr \<lparr>pp_items = items, pp_next_after_sequence = next_after\<rparr>), s1)))"

definition quarantine_entry ::
    "persisted_session \<Rightarrow> persisted_observation_intent \<Rightarrow> quarantined_observation_state \<Rightarrow>
     observation_intent_quarantine_entry" where
  "quarantine_entry r i q =
     \<lparr>qe_sequence = p_sequence r, qe_session_id = p_session_id r, qe_schema_id = oi_schema i,
      qe_intent_id = oi_intent_id i, qe_channel_generation = oi_channel_generation i,
      qe_closed_reason = observation_quarantine_reason_name (qs_reason q)\<rparr>"

definition quarantined_observation_intents ::
    "u64 \<Rightarrow> nat \<Rightarrow> registry \<Rightarrow> observation_intent_quarantine_page registry_result \<times> registry" where
  "quarantined_observation_intents after_sequence limit s =
     (if limit = 0 \<or> limit > max_pending_intent_page_size
      then (Inl (failure Invalid_request ''invalid observation intent quarantine page request''), s)
      else
        locked s (\<lambda>s1.
          (and_then
             (page_loop limit
                (\<lambda>r. case listed_intent after_sequence r of
                       None \<Rightarrow> None
                     | Some (i, key) \<Rightarrow>
                         (case reg_quarantined s1 key of
                            None \<Rightarrow> None
                          | Some q \<Rightarrow>
                              if qs_enqueue_index q \<ge> length (reg_records s1) \<or>
                                 p_sequence (reg_records s1 ! qs_enqueue_index q) \<noteq> p_sequence r
                              then None else Some (Inr (quarantine_entry r i q))))
                qe_sequence [] (reg_records s1))
             (\<lambda>(items, next_after). Inr \<lparr>qp_items = items, qp_next_after_sequence = next_after\<rparr>), s1)))"

end
