(* ===== verification/Registry_Index.thy ===== *)
theory Registry_Index
  imports Registry_Observation
begin

text \<open>
  The index of a recovered registry: replaying a list of records from an empty index, and what
  every index built that way satisfies.  Both recovery and the running registry are measured
  against this replay.
\<close>

subsection \<open>Replaying records\<close>

fun accept_all :: "json_codec \<Rightarrow> registry \<Rightarrow> string \<Rightarrow> persisted_session list \<Rightarrow> registry expected" where
  "accept_all jc s previous_hash [] = Inr s"
| "accept_all jc s previous_hash (r # rs) =
     and_then (accept_recovered_record jc s r previous_hash)
       (\<lambda>s'. accept_all jc s' (p_this_hash r) rs)"

definition blank_index :: "registry \<Rightarrow> registry" where
  "blank_index s =
     s\<lparr>reg_records := [], reg_sessions := [], reg_requests := Map.empty,
       reg_observation_intents := Map.empty, reg_observation_dispositions := Map.empty,
       reg_quarantined := Map.empty\<rparr>"

definition replayable :: "json_codec \<Rightarrow> registry \<Rightarrow> bool" where
  "replayable jc s =
     (\<exists>s0. accept_all jc (blank_index s) zero_digest (reg_records s) = Inr s0 \<and> same_index s0 s)"

lemma accept_recovered_records:
  "accept_recovered_record jc s r previous_hash = Inr s' \<Longrightarrow> reg_records s' = reg_records s @ [r]"
  by (auto simp: accept_recovered_record_def Let_def and_then_Inr index_recovered_laws split: if_splits)

lemma accept_all_append:
  "accept_all jc s previous_hash (rs @ [r]) =
     and_then (accept_all jc s previous_hash rs)
       (\<lambda>s'. accept_recovered_record jc s' r
                (if rs = [] then previous_hash else p_this_hash (last rs)))"
proof (induction rs arbitrary: s previous_hash)
  case Nil
  show ?case by (cases "accept_recovered_record jc s r previous_hash") auto
next
  case (Cons x rs)
  show ?case
    by (cases "accept_recovered_record jc s x previous_hash") (auto simp: Cons.IH)
qed

subsection \<open>Replay depends on the index only\<close>

lemma same_index_sym: "same_index s t \<Longrightarrow> same_index t s"
  by (simp add: same_index_iff)

lemma current_session_cong: "same_index s t \<Longrightarrow> current_session t = current_session s"
  by (simp add: same_index_iff current_session_def fun_eq_iff)

lemma index_recovered_cong:
  "same_index s t \<Longrightarrow> same_index (index_recovered s r entry) (index_recovered t r entry)"
  by (auto simp: index_recovered_def Let_def same_index_iff
      split: recovered_entry.splits option.splits bool.splits)

lemma accept_observation_cong:
  assumes "same_index s t"
  shows "accept_observation jc t existing r = accept_observation jc s existing r"
proof -
  have "accept_enqueue jc t current r i key = accept_enqueue jc s current r i key"
    and "accept_disposition t r i key = accept_disposition s r i key" for current i key
    by (simp_all only: assms [unfolded same_index_iff] accept_enqueue_def accept_disposition_def)
  then show ?thesis
    by (simp only: accept_observation_def)
qed

lemma accept_recovered_cong:
  assumes "same_index s t" and "accept_recovered_record jc s r previous_hash = Inr s'"
  shows "\<exists>t'. accept_recovered_record jc t r previous_hash = Inr t' \<and> same_index s' t'"
proof -
  have eqs: "reg_records t = reg_records s" "reg_requests t = reg_requests s"
    using assms(1) by (simp_all add: same_index_iff)
  from assms(2) show ?thesis
    unfolding accept_recovered_record_def Let_def eqs current_session_cong [OF assms(1)]
      accept_observation_cong [OF assms(1)]
    using index_recovered_cong [OF assms(1)]
    by (auto simp: and_then_Inr split: if_splits)
qed

lemma accept_all_cong:
  "same_index s t \<Longrightarrow> accept_all jc s previous_hash rs = Inr s' \<Longrightarrow>
     \<exists>t'. accept_all jc t previous_hash rs = Inr t' \<and> same_index s' t'"
proof (induction rs arbitrary: s t previous_hash)
  case Nil
  then show ?case by simp
next
  case (Cons r rs)
  then obtain s1 where s1: "accept_recovered_record jc s r previous_hash = Inr s1"
      "accept_all jc s1 (p_this_hash r) rs = Inr s'"
    by (auto simp: and_then_Inr)
  obtain t1 where "accept_recovered_record jc t r previous_hash = Inr t1" "same_index s1 t1"
    using accept_recovered_cong [OF Cons.prems(1) s1(1)] by blast
  then show ?case
    using Cons.IH [OF _ s1(2)] by auto
qed

lemma blank_index_cong: "same_index s t \<Longrightarrow> same_index (blank_index s) (blank_index t)"
  by (simp add: same_index_iff blank_index_def)

lemma replayable_cong:
  assumes "same_index s t" and "replayable jc s"
  shows "replayable jc t"
proof -
  obtain s0 where s0: "accept_all jc (blank_index s) zero_digest (reg_records s) = Inr s0"
      "same_index s0 s"
    using assms(2) by (auto simp: replayable_def)
  obtain t0 where "accept_all jc (blank_index t) zero_digest (reg_records s) = Inr t0"
      "same_index s0 t0"
    using accept_all_cong [OF blank_index_cong [OF assms(1)] s0(1)] by blast
  moreover have "same_index t0 t"
    using \<open>same_index s0 t0\<close> s0(2) assms(1) by (metis same_index_trans same_index_sym)
  moreover have "reg_records t = reg_records s"
    using assms(1) by (simp add: same_index_iff)
  ultimately show ?thesis
    by (auto simp: replayable_def)
qed

text \<open>A record that recovery would accept extends a replayable registry to a replayable one.\<close>

lemma replayable_extend:
  assumes "replayable jc s" and "accept_recovered_record jc s r (last_hash s) = Inr s1"
    and "same_index s1 t"
  shows "replayable jc t"
proof -
  obtain s0 where s0: "accept_all jc (blank_index s) zero_digest (reg_records s) = Inr s0"
      "same_index s0 s"
    using assms(1) by (auto simp: replayable_def)
  obtain t1 where t1: "accept_recovered_record jc s0 r (last_hash s) = Inr t1" "same_index s1 t1"
    using accept_recovered_cong [OF same_index_sym [OF s0(2)] assms(2)] by blast
  have records: "reg_records t = reg_records s @ [r]"
    using accept_recovered_records [OF assms(2)] assms(3) by (simp add: same_index_iff)
  have "accept_all jc (blank_index s) zero_digest (reg_records t) = Inr t1"
    unfolding records accept_all_append s0(1) using t1(1) by (simp add: last_hash_def)
  moreover have "same_index (blank_index s) (blank_index t)"
    using assms(2,3)
    by (auto simp: accept_recovered_record_def Let_def and_then_Inr same_index_iff blank_index_def
        index_recovered_laws split: if_splits)
  ultimately obtain t2 where "accept_all jc (blank_index t) zero_digest (reg_records t) = Inr t2"
      "same_index t1 t2"
    using accept_all_cong by blast
  moreover have "same_index t2 t"
    using \<open>same_index t1 t2\<close> t1(2) assms(3) by (metis same_index_trans same_index_sym)
  ultimately show ?thesis
    by (auto simp: replayable_def)
qed

subsection \<open>What every replayed index satisfies\<close>

definition chained :: "persisted_session list \<Rightarrow> bool" where
  "chained rs =
     (\<forall>i < length rs. p_previous_hash (rs ! i) =
        (if i = 0 then zero_digest else p_this_hash (rs ! (i - 1))))"

definition sealed :: "persisted_session \<Rightarrow> nat \<Rightarrow> bool" where
  "sealed r i =
     (valid_record_shape r (of_nat i + 1) \<and>
      hash_plan (p_canonical_plan_json r) = Inr (p_plan_content_digest r) \<and>
      hash_record r = Inr (p_this_hash r))"

definition queued_as :: "persisted_session \<Rightarrow> string \<Rightarrow> bool" where
  "queued_as r key =
     (p_operation r = ''enqueue_observation_intent_v1'' \<and>
      (\<exists>i. p_observation_intent r = Some i \<and>
           hash_observation_intent_body (observation_body_from_wire i) = Inr (oi_intent_digest i) \<and>
           key = observation_intent_key (p_session_id r) (oi_channel_generation i) (oi_intent_id i)))"

definition index_ok :: "registry \<Rightarrow> bool" where
  "index_ok s =
     ((\<forall>i < length (reg_records s). sealed (reg_records s ! i) i \<and>
         reg_requests s (p_idempotency_key (reg_records s ! i)) = Some i) \<and>
      (\<forall>key i. reg_requests s key = Some i \<longrightarrow>
         i < length (reg_records s) \<and> p_idempotency_key (reg_records s ! i) = key) \<and>
      distinct (map fst (reg_sessions s)) \<and>
      (\<forall>session_id i. find_session s session_id = Some i \<longrightarrow>
         i < length (reg_records s) \<and> p_session_id (reg_records s ! i) = session_id \<and>
         \<not> is_observation (reg_records s ! i)) \<and>
      (\<forall>key i. reg_observation_intents s key = Some i \<longrightarrow>
         i < length (reg_records s) \<and> queued_as (reg_records s ! i) key) \<and>
      chained (reg_records s))"

lemma index_okD:
  assumes "index_ok s"
  shows "\<And>i. i < length (reg_records s) \<Longrightarrow> sealed (reg_records s ! i) i"
    and "\<And>i. i < length (reg_records s) \<Longrightarrow>
      reg_requests s (p_idempotency_key (reg_records s ! i)) = Some i"
    and "\<And>key i. reg_requests s key = Some i \<Longrightarrow> i < length (reg_records s)"
    and "\<And>key i. reg_requests s key = Some i \<Longrightarrow> p_idempotency_key (reg_records s ! i) = key"
    and "distinct (map fst (reg_sessions s))"
    and "\<And>session_id i. find_session s session_id = Some i \<Longrightarrow> i < length (reg_records s)"
    and "\<And>session_id i. find_session s session_id = Some i \<Longrightarrow>
      p_session_id (reg_records s ! i) = session_id \<and> \<not> is_observation (reg_records s ! i)"
    and "\<And>key i. reg_observation_intents s key = Some i \<Longrightarrow>
      i < length (reg_records s) \<and> queued_as (reg_records s ! i) key"
    and "chained (reg_records s)"
  using assms unfolding index_ok_def by blast+

lemma index_ok_cong: "same_index s t \<Longrightarrow> index_ok s \<Longrightarrow> index_ok t"
  by (simp add: index_ok_def same_index_iff)

lemma index_ok_blank: "index_ok (blank_index s)"
  by (simp add: index_ok_def blank_index_def chained_def)

lemma chained_snoc:
  "chained rs \<Longrightarrow> p_previous_hash r = (if rs = [] then zero_digest else p_this_hash (last rs)) \<Longrightarrow>
     chained (rs @ [r])"
  by (auto simp: chained_def nth_append last_conv_nth less_Suc_eq split: if_splits)

text \<open>The observation entries an accepted record may carry.\<close>

lemma accept_observation_entry:
  assumes "accept_observation jc s existing r = Inr entry" and "is_observation r"
  shows "(\<exists>key reason. entry = Intent_entry key reason \<and> queued_as r key) \<or>
    (\<exists>key quarantined. entry = Disposition_entry key quarantined)"
  using assms
  by (auto simp: accept_observation_def accept_enqueue_def accept_disposition_def queued_as_def Let_def
      split: option.splits if_splits)

lemma index_ok_accept:
  assumes ok: "index_ok s" and accepted: "accept_recovered_record jc s r (last_hash s) = Inr s'"
  shows "index_ok s'"
proof -
  let ?n = "length (reg_records s)"
  from accepted obtain entry where entry:
      "s' = index_recovered s r entry"
      "is_observation r \<Longrightarrow> accept_observation jc s (current_session s (p_session_id r)) r = Inr entry"
      "\<not> is_observation r \<Longrightarrow> entry = Session_entry"
    by (auto simp: accept_recovered_record_def Let_def and_then_Inr split: if_splits)
  from accepted have new: "sealed r ?n" "p_previous_hash r = last_hash s"
      "reg_requests s (p_idempotency_key r) = None"
    by (auto simp: accept_recovered_record_def sealed_def split: if_splits)
  have requests: "reg_requests s' = (reg_requests s)(p_idempotency_key r \<mapsto> ?n)"
    using entry(1) new(3) by (simp add: index_recovered_laws)
  have records: "reg_records s' = reg_records s @ [r]"
    using entry(1) by (simp add: index_recovered_laws)
  have chain: "chained (reg_records s')"
    unfolding records using ok new(2) by (intro chained_snoc) (auto simp: index_ok_def last_hash_def)
  have sessions: "reg_sessions s' =
      (if is_observation r then reg_sessions s
       else AList.update (p_session_id r) ?n (reg_sessions s))"
    using entry accept_observation_entry [OF entry(2)]
    by (auto simp: index_recovered_def Let_def split: option.splits bool.splits)
  have intents: "reg_observation_intents s key = Some i \<or> i = ?n \<and> queued_as r key"
    if "reg_observation_intents s' key = Some i" for key i
    using that entry accept_observation_entry [OF entry(2)]
    by (cases "is_observation r")
      (auto simp: index_recovered_def Let_def emplace_def split: option.splits bool.splits if_splits)
  note okD = index_okD [OF ok]
  have "i < length (reg_records s') \<and> p_session_id (reg_records s' ! i) = session_id \<and>
      \<not> is_observation (reg_records s' ! i)" if "find_session s' session_id = Some i" for session_id i
    using that okD(6,7) [of session_id i] unfolding sessions records
    by (auto simp: nth_append update_conv' split: if_splits)
  moreover have "i < length (reg_records s') \<and> queued_as (reg_records s' ! i) key"
    if "reg_observation_intents s' key = Some i" for key i
    using intents [OF that] okD(8) [of key i] by (auto simp: records nth_append)
  moreover have "distinct (map fst (reg_sessions s'))"
    using okD(5) by (simp add: sessions distinct_update)
  moreover have "sealed (reg_records s' ! i) i \<and>
      reg_requests s' (p_idempotency_key (reg_records s' ! i)) = Some i"
    if "i < length (reg_records s')" for i
    using that okD(1,2) [of i] new by (auto simp: records requests nth_append less_Suc_eq)
  moreover have "i < length (reg_records s') \<and> p_idempotency_key (reg_records s' ! i) = key"
    if "reg_requests s' key = Some i" for key i
    using that okD(3,4) [of key i] by (auto simp: records requests nth_append split: if_splits)
  ultimately show ?thesis
    using chain unfolding index_ok_def by blast
qed

lemma index_ok_accept_all:
  "index_ok s \<Longrightarrow> accept_all jc s (last_hash s) rs = Inr s' \<Longrightarrow> index_ok s'"
proof (induction rs arbitrary: s)
  case Nil
  then show ?case by simp
next
  case (Cons r rs)
  then obtain s1 where s1: "accept_recovered_record jc s r (last_hash s) = Inr s1"
      "accept_all jc s1 (p_this_hash r) rs = Inr s'"
    by (auto simp: and_then_Inr)
  have "last_hash s1 = p_this_hash r"
    using accept_recovered_records [OF s1(1)] by (simp add: last_hash_def)
  then show ?case
    using Cons.IH [OF index_ok_accept [OF Cons.prems(1) s1(1)]] s1(2) by simp
qed

lemma replayable_index_ok: "replayable jc s \<Longrightarrow> index_ok s"
  using index_ok_accept_all [OF index_ok_blank] index_ok_cong
  by (force simp: replayable_def last_hash_def blank_index_def)

end
