(* ===== verification/Registry_Transitions.thy ===== *)
theory Registry_Transitions
  imports Registry_Index
begin

text \<open>
  The records that the operations plan are records that recovery accepts.  The lifecycle shapes of
  durable records are taken apart once; then, for every operation, the planned record is shown
  acceptable to \<open>accept_recovered_record\<close> in the state in which it was planned.
\<close>

subsection \<open>Shapes by lifecycle state\<close>

definition open_ended :: "persisted_session \<Rightarrow> bool" where
  "open_ended r = (p_failure_code r = [] \<and> p_finished_at_ms r = 0 \<and> no_terminal_receipt r)"

definition not_launched :: "persisted_session \<Rightarrow> bool" where
  "not_launched r =
     (p_launch_profile_digest r = [] \<and> p_starting_at_ms r = 0 \<and> p_running_at_ms r = 0 \<and>
      p_stopping_at_ms r = 0 \<and> no_resource_identity r \<and> open_ended r)"

lemma shape_common:
  assumes "valid_record_shape r n"
  shows "common_shape r n" and "\<not> is_observation r \<Longrightarrow> p_observation_intent r = None"
    and "is_observation r \<Longrightarrow> intent_shape r"
  using assms by (auto simp: valid_record_shape_def Let_def is_observation_def split: if_splits)

lemma shape_created:
  assumes "valid_record_shape r n" and "\<not> is_observation r" and "p_state r = ''created''"
  shows "not_launched r"
  using assms
  by (simp add: valid_record_shape_def Let_def is_observation_def not_launched_def open_ended_def
      split: if_splits)

lemma shape_preparing:
  assumes "valid_record_shape r n" and "\<not> is_observation r" and "p_state r = ''preparing''"
  shows "authorization_shape r" "not_launched r"
  using assms
  by (simp_all add: valid_record_shape_def Let_def is_observation_def not_launched_def open_ended_def
      split: if_splits)

lemma shape_starting:
  assumes "valid_record_shape r n" and "\<not> is_observation r" and "p_state r = ''starting''"
  shows "started_shape r" "p_running_at_ms r = 0" "p_stopping_at_ms r = 0" "no_process_identity r"
    "open_ended r" "prepared_resources r \<or> managed_resources r"
  using assms
  by (auto simp: valid_record_shape_def Let_def is_observation_def managed_resources_def open_ended_def
      split: if_splits)

lemma shape_running:
  assumes "valid_record_shape r n" and "\<not> is_observation r" and "p_state r = ''running''"
  shows "started_shape r" "p_stopping_at_ms r = 0" "open_ended r"
    "running_shape r \<or> managed_running_shape r"
  using assms
  by (auto simp: valid_record_shape_def Let_def is_observation_def open_ended_def split: if_splits)

lemma shape_stopping:
  assumes "valid_record_shape r n" and "\<not> is_observation r" and "p_state r = ''stopping''"
  shows "started_shape r" "p_stopping_at_ms r \<ge> p_running_at_ms r" "open_ended r"
    "running_shape r \<or> managed_running_shape r"
  using assms
  by (auto simp: valid_record_shape_def Let_def is_observation_def open_ended_def split: if_splits)

lemma shape_launched:
  assumes "valid_record_shape r n" and "\<not> is_observation r" and "launched_state r"
  shows "started_shape r" "p_stopping_at_ms r = 0 \<or> p_stopping_at_ms r \<ge> p_running_at_ms r"
    "open_ended r" "running_shape r \<or> managed_running_shape r"
    "(if p_state r = ''stopping'' then p_stopping_at_ms r else p_running_at_ms r) =
      (if p_stopping_at_ms r = 0 then p_running_at_ms r else p_stopping_at_ms r)"
  using assms(3) shape_running [OF assms(1,2)] shape_stopping [OF assms(1,2)]
  by (auto simp: launched_state_def)

text \<open>Sealing a record with its hash touches nothing but the common part of its shape.\<close>

lemma wire_this_hash [simp]:
  "wire_process_identity (r\<lparr>p_this_hash := h\<rparr>) = wire_process_identity r"
  "wire_start_authorization (r\<lparr>p_this_hash := h\<rparr>) = wire_start_authorization r"
  "wire_managed_running (r\<lparr>p_this_hash := h\<rparr>) = wire_managed_running r"
  "wire_running (r\<lparr>p_this_hash := h\<rparr>) = wire_running r"
  "wire_terminal (r\<lparr>p_this_hash := h\<rparr>) = wire_terminal r"
  "wire_failure (r\<lparr>p_this_hash := h\<rparr>) = wire_failure r"
  by (simp_all add: fun_eq_iff wire_process_identity_def wire_start_authorization_def
      wire_managed_running_def wire_running_def wire_terminal_def wire_failure_def)

lemma identity_this_hash [simp]:
  "process_identity_from_wire (r\<lparr>p_this_hash := h\<rparr>) = process_identity_from_wire r"
  "process_in_cgroup (r\<lparr>p_this_hash := h\<rparr>) = process_in_cgroup r"
  "valid_exit_code (r\<lparr>p_this_hash := h\<rparr>) = valid_exit_code r"
  "no_process_identity (r\<lparr>p_this_hash := h\<rparr>) = no_process_identity r"
  by (simp_all add: process_identity_from_wire_def process_in_cgroup_def valid_exit_code_def
      no_process_identity_def split: option.splits)

lemma shape_this_hash [simp]:
  "authorization_shape (r\<lparr>p_this_hash := h\<rparr>) = authorization_shape r"
  "started_shape (r\<lparr>p_this_hash := h\<rparr>) = started_shape r"
  "prepared_resources (r\<lparr>p_this_hash := h\<rparr>) = prepared_resources r"
  "managed_resources (r\<lparr>p_this_hash := h\<rparr>) = managed_resources r"
  "no_resource_identity (r\<lparr>p_this_hash := h\<rparr>) = no_resource_identity r"
  "no_terminal_receipt (r\<lparr>p_this_hash := h\<rparr>) = no_terminal_receipt r"
  "running_shape (r\<lparr>p_this_hash := h\<rparr>) = running_shape r"
  "managed_running_shape (r\<lparr>p_this_hash := h\<rparr>) = managed_running_shape r"
  "terminal_shape (r\<lparr>p_this_hash := h\<rparr>) = terminal_shape r"
  by (simp_all add: started_shape_def authorization_shape_def prepared_resources_def
      managed_resources_def no_resource_identity_def no_terminal_receipt_def running_shape_def
      managed_running_shape_def terminal_shape_def cong: if_cong)

lemma intent_shape_this_hash [simp]: "intent_shape (r\<lparr>p_this_hash := h\<rparr>) = intent_shape r"
  by (simp add: intent_shape_def cong: option.case_cong if_cong)

lemma lineage_this_hash [simp]:
  "same_plan prior (r\<lparr>p_this_hash := h\<rparr>) = same_plan prior r"
  "same_authorization prior (r\<lparr>p_this_hash := h\<rparr>) = same_authorization prior r"
  "same_launch prior (r\<lparr>p_this_hash := h\<rparr>) = same_launch prior r"
  "same_process_identity prior (r\<lparr>p_this_hash := h\<rparr>) = same_process_identity prior r"
  by (simp_all add: same_plan_def same_authorization_def same_launch_def same_process_identity_def)

lemma digest_this_hash [simp]:
  "starting_digest (r\<lparr>p_this_hash := h\<rparr>) = starting_digest r"
  "running_digest (r\<lparr>p_this_hash := h\<rparr>) = running_digest r"
  "stopping_digest (r\<lparr>p_this_hash := h\<rparr>) = stopping_digest r"
  by (simp_all add: starting_digest_def running_digest_def stopping_digest_def
      split: option.splits bool.splits)

lemma accept_lifecycle_this_hash [simp]:
  "accept_lifecycle existing (r\<lparr>p_this_hash := h\<rparr>) = accept_lifecycle existing r"
  by (cases existing)
    (simp_all add: accept_lifecycle_def accept_created_def accept_preparing_def accept_starting_def
      accept_running_def accept_stopping_def accept_exited_def accept_failed_def
      cong: if_cong option.case_cong)

lemma common_this_hash:
  "common_shape (r\<lparr>p_this_hash := z\<rparr>) n \<Longrightarrow> valid_digest h \<Longrightarrow> common_shape (r\<lparr>p_this_hash := h\<rparr>) n"
  by (simp add: common_shape_def)

subsection \<open>Acceptable records\<close>

definition acceptable :: "json_codec \<Rightarrow> registry \<Rightarrow> persisted_session \<Rightarrow> bool" where
  "acceptable jc s r0 =
     (\<forall>h. hash_record r0 = Inr h \<longrightarrow>
        (\<exists>s1. accept_recovered_record jc s (r0\<lparr>p_this_hash := h\<rparr>) (last_hash s) = Inr s1 \<and>
              same_index s1 (index_appended s (r0\<lparr>p_this_hash := h\<rparr>))))"

text \<open>The fields every planned record has in common.\<close>

definition fresh_record :: "registry \<Rightarrow> persisted_session \<Rightarrow> bool" where
  "fresh_record s r =
     (p_schema_version r = 1 \<and> p_sequence r = next_sequence s \<and> valid_identifier (p_operation r) \<and>
      valid_identifier (p_idempotency_key r) \<and> valid_identifier (p_session_id r) \<and>
      valid_digest (p_controller_plan_digest r) \<and> valid_digest (p_request_digest r) \<and>
      state_from_wire (p_state r) \<noteq> None \<and> p_policy_revision r \<noteq> 0 \<and> p_expires_at_ms r \<noteq> 0 \<and>
      p_created_at_ms r \<noteq> 0 \<and> p_canonical_plan_json r \<noteq> [] \<and>
      length (p_canonical_plan_json r) \<le> max_record_payload_bytes \<and>
      hash_plan (p_canonical_plan_json r) = Inr (p_plan_content_digest r) \<and>
      p_previous_hash r = last_hash s \<and> reg_requests s (p_idempotency_key r) = None)"

lemma last_hash_valid: "index_ok s \<Longrightarrow> valid_digest (last_hash s)"
proof (cases "reg_records s = []")
  case False
  assume "index_ok s"
  with False have "sealed (last (reg_records s)) (length (reg_records s) - 1)"
    by (simp add: last_conv_nth index_okD(1))
  with False show ?thesis
    using hash_valid_digest(1) by (auto simp: sealed_def last_hash_def)
qed (simp add: last_hash_def valid_zero_digest)

lemma fresh_common:
  assumes "index_ok s" and "fresh_record s r" and "hash_record r = Inr h"
  shows "common_shape (r\<lparr>p_this_hash := h\<rparr>) (of_nat (length (reg_records s)) + 1)"
  using assms(2) hash_valid_digest(1) [OF assms(3)] last_hash_valid [OF assms(1)]
    hash_valid_digest(2) [of "p_canonical_plan_json r" "p_plan_content_digest r"]
  by (simp add: fresh_record_def common_shape_def next_sequence_def)

text \<open>A lifecycle record is acceptable once its shape and its transition are right.\<close>

definition lifecycle_shape :: "persisted_session \<Rightarrow> bool" where
  "lifecycle_shape r = (\<forall>n. common_shape r n \<longrightarrow> valid_record_shape r n)"

lemma acceptable_lifecycle:
  assumes ok: "index_ok s" and fresh: "fresh_record s r"
    and shape: "\<And>h. lifecycle_shape (r\<lparr>p_this_hash := h\<rparr>)"
    and lifecycle: "\<not> is_observation r" "p_observation_intent r = None"
    and transition: "accept_lifecycle (current_session s (p_session_id r)) r = Inr ()"
  shows "acceptable jc s r"
  unfolding acceptable_def
proof (intro allI impI)
  fix h
  assume h: "hash_record r = Inr h"
  have "valid_record_shape (r\<lparr>p_this_hash := h\<rparr>) (of_nat (length (reg_records s)) + 1)"
    using fresh_common [OF ok fresh h] shape by (simp add: lifecycle_shape_def)
  then have "accept_recovered_record jc s (r\<lparr>p_this_hash := h\<rparr>) (last_hash s) =
      Inr (index_recovered s (r\<lparr>p_this_hash := h\<rparr>) Session_entry)"
    using fresh lifecycle transition h
    by (simp add: accept_recovered_record_def fresh_record_def is_observation_def)
  moreover have "index_recovered s (r\<lparr>p_this_hash := h\<rparr>) Session_entry =
      index_appended s (r\<lparr>p_this_hash := h\<rparr>)"
    using lifecycle by (simp add: index_recovered_def index_appended_def)
  ultimately show "\<exists>s1. accept_recovered_record jc s (r\<lparr>p_this_hash := h\<rparr>) (last_hash s) = Inr s1 \<and>
      same_index s1 (index_appended s (r\<lparr>p_this_hash := h\<rparr>))"
    by simp
qed

text \<open>What a session's current record guarantees.\<close>

lemma current_session_sealed:
  assumes "index_ok s" and "current_session s session_id = Some prior"
  shows "\<exists>n. valid_record_shape prior n" "\<not> is_observation prior" "p_session_id prior = session_id"
    "hash_plan (p_canonical_plan_json prior) = Inr (p_plan_content_digest prior)"
    "p_observation_intent prior = None"
proof -
  obtain i where i: "find_session s session_id = Some i" "prior = reg_records s ! i"
    using assms(2) by (auto simp: current_session_def)
  have sealed: "sealed prior i"
    using index_okD(1) [OF assms(1)] index_okD(6) [OF assms(1) i(1)] i(2) by simp
  show obs: "\<not> is_observation prior" and "p_session_id prior = session_id"
    using index_okD(7) [OF assms(1) i(1)] i(2) by simp_all
  from sealed show "\<exists>n. valid_record_shape prior n"
      "hash_plan (p_canonical_plan_json prior) = Inr (p_plan_content_digest prior)"
    by (auto simp: sealed_def)
  from sealed obs show "p_observation_intent prior = None"
    by (auto simp: sealed_def shape_common)
qed

lemma fresh_from_prior:
  assumes "index_ok s" and "current_session s session_id = Some prior" and "same_plan prior r"
    and "p_schema_version r = 1" and "p_sequence r = next_sequence s"
    and "valid_identifier (p_operation r)" and "valid_identifier (p_idempotency_key r)"
    and "valid_digest (p_request_digest r)" and "state_from_wire (p_state r) \<noteq> None"
    and "p_previous_hash r = last_hash s" and "reg_requests s (p_idempotency_key r) = None"
  shows "fresh_record s r"
proof -
  note prior = current_session_sealed [OF assms(1,2)]
  obtain n where "common_shape prior n"
    using prior(1) shape_common(1) by blast
  with assms prior(4) show ?thesis
    by (simp add: fresh_record_def common_shape_def same_plan_def)
qed

lemma with_session_Inr:
  "with_session s session_id f = Inr x \<longleftrightarrow>
     (\<exists>prior. current_session s session_id = Some prior \<and> f prior = Inr x)"
  by (auto simp: with_session_def split: option.splits)

lemmas successor_defs = successor_def authorized_successor_def launched_successor_def
  blank_session_def

lemmas lineage_defs = same_plan_def same_authorization_def same_launch_def same_process_identity_def

lemmas absence_defs = no_resource_identity_def no_process_identity_def no_terminal_receipt_def

subsection \<open>Shapes of planned records\<close>

text \<open>A record is sealable when every hash makes its common fields the only ones left to check.\<close>

definition sealable :: "persisted_session \<Rightarrow> bool" where
  "sealable r = (\<forall>h. lifecycle_shape (r\<lparr>p_this_hash := h\<rparr>))"

lemmas sealable_defs = sealable_def lifecycle_shape_def valid_record_shape_def Let_def

lemma sealable_created:
  assumes "p_operation r = ''create''" "p_state r = ''created''" "p_observation_intent r = None"
    "p_authorization_id r = []" "p_authorized_at_ms r = 0" "p_authorization_expires_at_ms r = 0"
    "not_launched r"
  shows "sealable r"
  using assms by (simp add: sealable_defs not_launched_def open_ended_def)

lemma sealable_preparing:
  assumes "p_operation r = ''reserve_start''" "p_state r = ''preparing''" "p_observation_intent r = None"
    "authorization_shape r" "not_launched r"
  shows "sealable r"
  using assms by (simp add: sealable_defs not_launched_def open_ended_def)

lemma sealable_starting:
  assumes "p_operation r = ''mark_starting''" "p_state r = ''starting''" "p_observation_intent r = None"
    "started_shape r" "p_running_at_ms r = 0" "p_stopping_at_ms r = 0" "no_process_identity r"
    "prepared_resources r" "open_ended r"
  shows "sealable r"
  using assms by (simp add: sealable_defs open_ended_def)

lemma sealable_managed_starting:
  assumes "p_operation r = ''mark_managed_starting''" "p_state r = ''starting''"
    "p_observation_intent r = None" "started_shape r" "p_running_at_ms r = 0"
    "p_stopping_at_ms r = 0" "managed_resources r" "open_ended r"
  shows "sealable r"
  using assms by (simp add: sealable_defs open_ended_def)

lemma sealable_running:
  assumes "p_operation r = ''mark_running''" "p_state r = ''running''" "p_observation_intent r = None"
    "started_shape r" "running_shape r" "p_stopping_at_ms r = 0" "open_ended r"
  shows "sealable r"
  using assms by (simp add: sealable_defs open_ended_def)

lemma sealable_managed_running:
  assumes "p_operation r = ''mark_managed_running''" "p_state r = ''running''"
    "p_observation_intent r = None" "started_shape r" "managed_running_shape r"
    "p_stopping_at_ms r = 0" "open_ended r"
  shows "sealable r"
  using assms by (simp add: sealable_defs open_ended_def)

lemma sealable_stopping:
  assumes "p_operation r = ''mark_stopping''" "p_state r = ''stopping''" "p_observation_intent r = None"
    "started_shape r" "running_shape r" "p_stopping_at_ms r \<ge> p_running_at_ms r" "open_ended r"
  shows "sealable r"
  using assms by (simp add: sealable_defs open_ended_def)

lemma sealable_managed_stopping:
  assumes "p_operation r = ''mark_managed_stopping''" "p_state r = ''stopping''"
    "p_observation_intent r = None" "started_shape r" "managed_running_shape r"
    "p_stopping_at_ms r \<ge> p_running_at_ms r" "open_ended r"
  shows "sealable r"
  using assms by (simp add: sealable_defs open_ended_def)

lemma sealable_exited:
  assumes "p_operation r \<in> {''mark_exited'', ''mark_refinement_exited''}" "p_state r = ''exited''"
    "p_observation_intent r = None" "started_shape r" "running_shape r" "terminal_shape r"
  shows "sealable r"
  using assms by (auto simp: sealable_defs)

lemma sealable_managed_exited:
  assumes "p_operation r = ''mark_managed_exited''" "p_state r = ''exited''"
    "p_observation_intent r = None" "started_shape r" "managed_running_shape r" "terminal_shape r"
  shows "sealable r"
  using assms by (simp add: sealable_defs)

lemma sealable_failed:
  assumes "p_operation r = ''mark_failed''" "p_state r = ''failed''" "p_observation_intent r = None"
    "started_shape r" "failure_code_from_wire (p_failure_code r) = Some code" "no_terminal_receipt r"
    "if running_shape r
     then post_launch_failure (Some code) \<and> p_running_at_ms r \<le> p_finished_at_ms r \<and>
          (p_stopping_at_ms r = 0 \<or>
           p_running_at_ms r \<le> p_stopping_at_ms r \<and> p_stopping_at_ms r \<le> p_finished_at_ms r)
     else p_running_at_ms r = 0 \<and> no_process_identity r \<and> prepared_resources r \<and>
          p_stopping_at_ms r = 0 \<and> p_starting_at_ms r \<le> p_finished_at_ms r"
  shows "sealable r"
  using assms by (auto simp: sealable_defs split: if_splits)

lemma sealable_managed_failed:
  assumes "p_operation r = ''mark_managed_failed''" "p_state r = ''failed''"
    "p_observation_intent r = None" "started_shape r"
    "failure_code_from_wire (p_failure_code r) = Some code" "no_terminal_receipt r"
    "managed_resources r"
    "if p_running_at_ms r = 0
     then p_stopping_at_ms r = 0 \<and> p_starting_at_ms r \<le> p_finished_at_ms r
     else post_launch_failure (Some code) \<and> p_running_at_ms r \<le> p_finished_at_ms r \<and>
          (p_stopping_at_ms r = 0 \<or>
           p_running_at_ms r \<le> p_stopping_at_ms r \<and> p_stopping_at_ms r \<le> p_finished_at_ms r)"
  shows "sealable r"
  using assms by (auto simp: sealable_defs split: if_splits)

text \<open>What a record that follows another one of its session inherits from it.\<close>

lemma lineage_shape:
  assumes "same_plan prior r" "same_authorization prior r"
  shows "authorization_shape r = authorization_shape prior"
    "same_launch prior r \<Longrightarrow> started_shape r = started_shape prior"
    "same_launch prior r \<Longrightarrow> prepared_resources r = prepared_resources prior"
  using assms
  by (simp_all add: lineage_defs authorization_shape_def started_shape_def prepared_resources_def)

lemma lineage_running_shape:
  assumes "same_authorization prior r" "same_launch prior r" "same_process_identity prior r"
    "p_running_at_ms r = p_running_at_ms prior"
  shows "process_identity_from_wire r = process_identity_from_wire prior"
    "running_shape r = running_shape prior" "managed_running_shape r = managed_running_shape prior"
    "managed_resources r = managed_resources prior" "no_process_identity r = no_process_identity prior"
proof -
  show wire: "process_identity_from_wire r = process_identity_from_wire prior"
    using assms(3) by (simp add: process_identity_from_wire_def wire_process_identity_def
        same_process_identity_def)
  show "no_process_identity r = no_process_identity prior"
    using assms(3) by (simp add: no_process_identity_def same_process_identity_def)
  then show managed: "managed_resources r = managed_resources prior"
    using assms(2) by (simp add: managed_resources_def same_launch_def)
  show "running_shape r = running_shape prior" "managed_running_shape r = managed_running_shape prior"
    using wire managed assms
    by (simp_all add: running_shape_def managed_running_shape_def prepared_resources_def
        process_in_cgroup_def lineage_defs)
qed

subsection \<open>Records that follow a session's current record\<close>

definition succeeds ::
    "registry \<Rightarrow> persisted_session \<Rightarrow> string \<Rightarrow> string \<Rightarrow> string \<Rightarrow> string \<Rightarrow> persisted_session \<Rightarrow> bool" where
  "succeeds s prior operation key digest state r =
     (p_schema_version r = 1 \<and> p_sequence r = next_sequence s \<and> p_operation r = operation \<and>
      p_idempotency_key r = key \<and> p_request_digest r = digest \<and> p_state r = state \<and>
      p_previous_hash r = last_hash s \<and> p_observation_intent r = None \<and> same_plan prior r)"

definition lifecycle_states :: "string set" where
  "lifecycle_states =
     {''created'', ''preparing'', ''starting'', ''running'', ''stopping'', ''exited'', ''failed''}"

definition lifecycle_operations :: "string set" where
  "lifecycle_operations =
     {''create'', ''reserve_start'', ''mark_starting'', ''mark_running'', ''mark_stopping'',
      ''mark_exited'', ''mark_refinement_exited'', ''mark_failed'', ''mark_managed_starting'',
      ''mark_managed_running'', ''mark_managed_stopping'', ''mark_managed_exited'',
      ''mark_managed_failed''}"

lemma lifecycle_operation_valid:
  assumes "operation \<in> lifecycle_operations"
  shows "valid_identifier operation" "operation \<noteq> ''enqueue_observation_intent_v1''"
    "operation \<noteq> ''set_observation_intent_disposition_v1''"
  using assms
  by (auto simp: lifecycle_operations_def valid_identifier_def identifier_byte_def byte_of_def)

lemma lifecycle_state_known: "state \<in> lifecycle_states \<Longrightarrow> state_from_wire state \<noteq> None"
  by (auto simp: lifecycle_states_def state_from_wire_def)

lemma acceptable_successor:
  assumes ok: "index_ok s" and cur: "current_session s session_id = Some prior"
    and follows: "succeeds s prior operation key digest state r"
    and names: "operation \<in> lifecycle_operations" "state \<in> lifecycle_states"
    and request: "valid_identifier key" "valid_digest digest" "reg_requests s key = None"
    and shape: "sealable r" and transition: "accept_lifecycle (Some prior) r = Inr ()"
  shows "acceptable jc s r"
proof (rule acceptable_lifecycle [OF ok])
  show "fresh_record s r"
    using follows request names(1) lifecycle_state_known [OF names(2)]
    by (intro fresh_from_prior [OF ok cur]) (simp_all add: succeeds_def lifecycle_operation_valid(1))
  show "lifecycle_shape (r\<lparr>p_this_hash := h\<rparr>)" for h
    using shape by (simp add: sealable_def)
  show "\<not> is_observation r" "p_observation_intent r = None"
    using follows lifecycle_operation_valid(2,3) [OF names(1)]
    by (simp_all add: succeeds_def is_observation_def)
  have "p_session_id r = session_id"
    using follows current_session_sealed(3) [OF ok cur] by (simp add: succeeds_def same_plan_def)
  then show "accept_lifecycle (current_session s (p_session_id r)) r = Inr ()"
    using cur transition by simp
qed

lemma successor_succeeds:
  "succeeds s prior operation key digest state (successor s prior operation key digest state)"
  "succeeds s prior operation key digest state (authorized_successor s prior operation key digest state)"
  "succeeds s prior operation key digest state (launched_successor s prior operation key digest state)"
  by (simp_all add: succeeds_def same_plan_def successor_defs)

lemma successor_lineage:
  "same_authorization prior (authorized_successor s prior operation key digest state)"
  "same_authorization prior (launched_successor s prior operation key digest state)"
  by (simp_all add: same_authorization_def successor_defs)

subsection \<open>create\<close>

definition plan_document_ok :: "validated_session_plan_document \<Rightarrow> bool" where
  "plan_document_ok d =
     (sv_policy_revision (vd_validation d) \<noteq> 0 \<and> vd_expires_at_ms d \<noteq> 0 \<and>
      vd_canonical_json d \<noteq> [] \<and> length (vd_canonical_json d) \<le> max_record_payload_bytes)"

lemma create_acceptable:
  assumes ok: "index_ok s"
    and plan: "create_plan session_id cpd request_digest key canonical content_digest now_ms s = Inr r"
    and request: "valid_identifier session_id" "valid_digest cpd" "valid_identifier key" "now_ms \<noteq> 0"
      "valid_digest request_digest"
    and content: "hash_plan (vd_canonical_json canonical) = Inr content_digest"
      "plan_document_ok canonical"
    and unused: "reg_requests s key = None"
  shows "acceptable jc s r"
proof (rule acceptable_lifecycle [OF ok])
  have r: "r = blank_session
          \<lparr>p_schema_version := 1, p_sequence := next_sequence s, p_operation := ''create'',
           p_idempotency_key := key, p_session_id := session_id,
           p_controller_plan_digest := cpd, p_request_digest := request_digest,
           p_plan_content_digest := content_digest, p_state := ''created'',
           p_policy_revision := sv_policy_revision (vd_validation canonical),
           p_expires_at_ms := vd_expires_at_ms canonical, p_created_at_ms := now_ms,
           p_canonical_plan_json := vd_canonical_json canonical,
           p_previous_hash := last_hash s\<rparr>" and new: "find_session s session_id = None"
    using plan by (auto simp: create_plan_def split: if_splits)
  have "valid_identifier ''create''"
    by (rule lifecycle_operation_valid(1)) (simp add: lifecycle_operations_def)
  then show "fresh_record s r"
    unfolding r using request content unused
    by (simp add: fresh_record_def plan_document_ok_def state_from_wire_def)
  have "sealable r"
    unfolding r
    by (rule sealable_created)
      (simp_all add: not_launched_def open_ended_def absence_defs blank_session_def)
  then show "lifecycle_shape (r\<lparr>p_this_hash := h\<rparr>)" for h
    by (simp add: sealable_def)
  show "\<not> is_observation r" "p_observation_intent r = None"
    unfolding r by (simp_all add: is_observation_def blank_session_def)
  show "accept_lifecycle (current_session s (p_session_id r)) r = Inr ()"
    using new unfolding r by (simp add: accept_lifecycle_def accept_created_def current_session_def)
qed

subsection \<open>reserve\_start\<close>

lemma reserve_start_acceptable:
  assumes ok: "index_ok s"
    and plan: "reserve_start_plan a request_digest key plan_json s = Inr r"
    and request: "reserve_start_request_ok a key now_ms" "hash_start_authorization a = Inr request_digest"
    and bound: "\<And>prior. current_session s (sa_session_id a) = Some prior \<Longrightarrow>
      sa_approved_at_ms a \<ge> p_created_at_ms prior \<and> sa_expires_at_ms a \<le> p_expires_at_ms prior"
    and unused: "reg_requests s key = None"
  shows "acceptable jc s r"
proof -
  obtain prior where cur: "current_session s (sa_session_id a) = Some prior"
    and state: "p_state prior = ''created''"
    and binds: "p_controller_plan_digest prior = sa_controller_plan_digest a"
      "p_plan_content_digest prior = sa_plan_content_digest a"
    and r: "r = (successor s prior ''reserve_start'' key request_digest ''preparing'')
           \<lparr>p_authorization_id := sa_authorization_id a, p_authorized_at_ms := sa_approved_at_ms a,
            p_authorization_expires_at_ms := sa_expires_at_ms a\<rparr>"
    using plan by (auto simp: reserve_start_plan_def with_session_Inr split: if_splits)
  note session = current_session_sealed(3) [OF ok cur]
  have req: "sa_schema_version a = 1" "valid_identifier (sa_authorization_id a)" "sa_approved_at_ms a \<noteq> 0"
    "sa_expires_at_ms a > sa_approved_at_ms a" "valid_identifier key"
    "sa_expires_at_ms a - sa_approved_at_ms a \<le> max_start_authorization_ttl_ms"
    using request(1) by (simp_all add: reserve_start_request_ok_def)
  have fields: "not_launched r" "authorization_shape r" "p_authorized_at_ms r = sa_approved_at_ms a"
    unfolding r using req bound [OF cur]
    by (simp_all add: not_launched_def open_ended_def absence_defs successor_defs authorization_shape_def)
  have wire: "wire_start_authorization r = a"
    unfolding r using binds session req(1) by (simp add: wire_start_authorization_def successor_defs)
  have follows: "succeeds s prior ''reserve_start'' key request_digest ''preparing'' r"
    unfolding r by (simp add: succeeds_def same_plan_def successor_defs)
  show ?thesis
  proof (rule acceptable_successor [OF ok cur follows])
    show "sealable r"
      using follows fields by (intro sealable_preparing) (simp_all add: succeeds_def)
    show "accept_lifecycle (Some prior) r = Inr ()"
      using follows state bound [OF cur] request(2) wire fields(3)
      by (simp add: accept_lifecycle_def accept_preparing_def succeeds_def not_less same_plan_def)
  qed (use req(5) unused hash_valid_digest(3) [OF request(2)] in
      \<open>simp_all add: lifecycle_operations_def lifecycle_states_def\<close>)
qed

subsection \<open>mark\_starting and mark\_managed\_starting\<close>

lemma mark_starting_acceptable:
  assumes ok: "index_ok s"
    and plan: "mark_starting_plan b request_digest key now_ms s = Inr r"
    and request: "mark_starting_request_ok b key now_ms" "hash_execution_binding b = Inr request_digest"
    and clock: "\<And>prior. current_session s (eb_session_id b) = Some prior \<Longrightarrow>
      p_authorized_at_ms prior \<le> now_ms"
    and unused: "reg_requests s key = None"
  shows "acceptable jc s r"
proof -
  obtain prior where cur: "current_session s (eb_session_id b) = Some prior"
    and state: "p_state prior = ''preparing''"
    and binds: "p_session_id prior = eb_session_id b"
      "p_controller_plan_digest prior = eb_controller_plan_digest b"
      "p_plan_content_digest prior = eb_plan_content_digest b"
      "p_authorization_id prior = eb_authorization_id b"
      "now_ms < p_authorization_expires_at_ms prior"
    and r: "r = (authorized_successor s prior ''mark_starting'' key request_digest ''starting'')
                \<lparr>p_launch_profile_digest := eb_profile_digest b, p_starting_at_ms := now_ms,
                 p_cgroup_identity := Some (eb_cgroup_identity b),
                 p_filesystem_identity := Some (eb_filesystem_identity b)\<rparr>"
    using plan
    by (auto simp: mark_starting_plan_def with_session_Inr not_le split: if_splits sum.splits)
  have shape: "authorization_shape prior"
    using current_session_sealed(1,2) [OF ok cur] state shape_preparing by blast
  have req: "eb_schema_version b = 1" "valid_digest (eb_profile_digest b)" "valid_identifier key"
    "valid_cgroup_identity (eb_cgroup_identity b)" "valid_filesystem_identity (eb_filesystem_identity b)"
    using request(1) by (simp_all add: mark_starting_request_ok_def)
  have follows: "succeeds s prior ''mark_starting'' key request_digest ''starting'' r"
    and auth: "same_authorization prior r"
    unfolding r by (simp_all add: succeeds_def lineage_defs successor_defs)
  then have "authorization_shape r"
    using shape lineage_shape(1) by (auto simp: succeeds_def)
  then have fields: "started_shape r" "prepared_resources r" "open_ended r" "no_process_identity r"
    "p_running_at_ms r = 0" "p_stopping_at_ms r = 0"
    using req binds(5) clock [OF cur]
    by (simp_all add: started_shape_def)
      (simp_all add: r prepared_resources_def open_ended_def absence_defs successor_defs)
  have "starting_digest r = hash_execution_binding b"
    unfolding r using binds req(1) by (cases b) (simp add: starting_digest_def successor_defs)
  then have commit: "starting_digest r = Inr request_digest"
    using request(2) by simp
  show ?thesis
  proof (rule acceptable_successor [OF ok cur follows])
    show "sealable r"
      using follows fields by (intro sealable_starting) (simp_all add: succeeds_def)
    show "accept_lifecycle (Some prior) r = Inr ()"
      using follows state auth commit by (simp add: accept_lifecycle_def accept_starting_def succeeds_def)
  qed (use req(3) unused hash_valid_digest(4) [OF request(2)] in
      \<open>simp_all add: lifecycle_operations_def lifecycle_states_def\<close>)
qed

end
