(* ===== verification/Registry_Acceptance.thy ===== *)
theory Registry_Acceptance
  imports Registry_Transitions
begin

text \<open>
  The launch, stop and terminal transitions: every record they plan is acceptable to recovery in the
  state in which it was planned.  The preconditions that the operations of the source do not check
  themselves appear as hypotheses of the lemmas concerned: the clock of the two starting
  transitions, and the kind of runtime of the session that \<open>mark_failed\<close> ends.
\<close>

subsection \<open>mark\_running and mark\_stopping\<close>

lemma prior_shapes:
  assumes "index_ok s" and "current_session s session_id = Some prior"
  shows "p_state prior = ''preparing'' \<Longrightarrow> authorization_shape prior"
    "p_state prior = ''starting'' \<Longrightarrow> started_shape prior \<and> open_ended prior \<and>
       p_running_at_ms prior = 0 \<and> p_stopping_at_ms prior = 0 \<and> no_process_identity prior \<and>
       (prepared_resources prior \<or> managed_resources prior)"
    "p_state prior = ''running'' \<Longrightarrow> p_stopping_at_ms prior = 0"
    "launched_state prior \<Longrightarrow> started_shape prior \<and> open_ended prior \<and>
       (running_shape prior \<or> managed_running_shape prior) \<and>
       (p_stopping_at_ms prior = 0 \<or> p_stopping_at_ms prior \<ge> p_running_at_ms prior) \<and>
       (if p_state prior = ''stopping'' then p_stopping_at_ms prior else p_running_at_ms prior) =
         (if p_stopping_at_ms prior = 0 then p_running_at_ms prior else p_stopping_at_ms prior)"
proof -
  obtain n where n: "valid_record_shape prior n" and obs: "\<not> is_observation prior"
    using current_session_sealed(1,2) [OF assms] by blast
  show "authorization_shape prior" if "p_state prior = ''preparing''"
    using shape_preparing [OF n obs that] by simp
  show "started_shape prior \<and> open_ended prior \<and> p_running_at_ms prior = 0 \<and>
      p_stopping_at_ms prior = 0 \<and> no_process_identity prior \<and>
      (prepared_resources prior \<or> managed_resources prior)" if "p_state prior = ''starting''"
    using shape_starting [OF n obs that] by simp
  show "p_stopping_at_ms prior = 0" if "p_state prior = ''running''"
    using shape_running [OF n obs that] by simp
  show "started_shape prior \<and> open_ended prior \<and>
       (running_shape prior \<or> managed_running_shape prior) \<and>
       (p_stopping_at_ms prior = 0 \<or> p_stopping_at_ms prior \<ge> p_running_at_ms prior) \<and>
       (if p_state prior = ''stopping'' then p_stopping_at_ms prior else p_running_at_ms prior) =
         (if p_stopping_at_ms prior = 0 then p_running_at_ms prior else p_stopping_at_ms prior)"
    if "launched_state prior"
    using shape_launched [OF n obs that] by simp
qed

lemma succeeds_same_plan: "succeeds s prior operation key digest state r \<Longrightarrow> same_plan prior r"
  by (simp add: succeeds_def)

lemma no_process_identity_wire: "no_process_identity r \<Longrightarrow> process_identity_from_wire r = None"
  by (simp add: no_process_identity_def process_identity_from_wire_def wire_process_identity_def
      valid_process_identity_def)

lemma process_session_shape:
  assumes "index_ok s" and "current_session s session_id = Some prior" and "launched_state prior"
    and "process_identity_from_wire prior \<noteq> None \<or> p_filesystem_identity prior \<noteq> None"
  shows "running_shape prior"
  using prior_shapes(4) [OF assms(1-3)] assms(4)
  by (auto simp: managed_running_shape_def managed_resources_def no_process_identity_wire)

lemma managed_session_shape:
  assumes "index_ok s" and "current_session s session_id = Some prior" and "launched_state prior"
    and "p_managed_runtime_identity prior \<noteq> None"
  shows "managed_running_shape prior"
  using prior_shapes(4) [OF assms(1-3)] assms(4)
  by (auto simp: running_shape_def prepared_resources_def)

lemma mark_running_acceptable:
  assumes ok: "index_ok s"
    and plan: "mark_running_plan c request_digest key now_ms s = Inr r"
    and request: "commitment_request_ok c key now_ms" "hash_running_commitment c = Inr request_digest"
    and unused: "reg_requests s key = None"
  shows "acceptable jc s r"
proof -
  let ?i = "rc_process_identity c"
  obtain prior g where cur: "current_session s (rc_session_id c) = Some prior"
    and state: "p_state prior = ''starting''" and binds: "matches_commitment c prior"
    and g: "p_cgroup_identity prior = Some g" "cg_device g = pi_cgroup_device ?i"
      "cg_inode g = pi_cgroup_inode ?i"
    and window: "p_starting_at_ms prior \<le> now_ms" "now_ms < p_authorization_expires_at_ms prior"
    and r: "r = (authorized_successor s prior ''mark_running'' key request_digest ''running'')
                \<lparr>p_launch_profile_digest := p_launch_profile_digest prior,
                 p_starting_at_ms := p_starting_at_ms prior, p_running_at_ms := now_ms,
                 p_process_identity_schema_version := pi_schema_version ?i,
                 p_process_pid := pi_pid ?i, p_process_boot_id := pi_boot_id ?i,
                 p_process_start_time_ticks := pi_start_time_ticks ?i,
                 p_process_cgroup_device := pi_cgroup_device ?i,
                 p_process_cgroup_inode := pi_cgroup_inode ?i,
                 p_process_cgroup_path_digest := pi_cgroup_path_digest ?i,
                 p_cgroup_identity := p_cgroup_identity prior,
                 p_filesystem_identity := p_filesystem_identity prior\<rparr>"
    using plan
    by (auto simp: mark_running_plan_def with_session_Inr not_le not_less
        split: if_splits sum.splits option.splits)
  have start: "started_shape prior" "prepared_resources prior"
    using prior_shapes(2) [OF ok cur state] g(1) by (auto simp: managed_resources_def)
  have req: "rc_schema_version c = 1" "valid_identifier key" "valid_process_identity ?i"
    using request(1) by (simp_all add: commitment_request_ok_def)
  have follows: "succeeds s prior ''mark_running'' key request_digest ''running'' r"
    and auth: "same_authorization prior r" and rest: "open_ended r" "p_stopping_at_ms r = 0"
      "p_running_at_ms r = now_ms" "wire_process_identity r = ?i"
    unfolding r by (simp_all add: succeeds_def lineage_defs successor_defs open_ended_def absence_defs
        wire_process_identity_def)
  have launch: "same_launch prior r"
    using start(2) unfolding r by (simp add: prepared_resources_def same_launch_def successor_defs)
  have shape: "started_shape r" "prepared_resources r"
    using start launch lineage_shape [OF succeeds_same_plan [OF follows] auth] by simp_all
  have identity: "process_identity_from_wire r = Some ?i"
    using rest(4) req(3) by (simp add: process_identity_from_wire_def)
  have resources: "p_cgroup_identity r = Some g" "p_filesystem_identity r = Some (rc_filesystem_identity c)"
    using launch g(1) binds by (simp_all add: same_launch_def matches_commitment_def)
  have running: "running_shape r"
    using shape(2) identity rest(3) window g(2,3) resources auth launch
    by (simp add: running_shape_def process_in_cgroup_def same_launch_def same_authorization_def)
  have "wire_running r ?i (rc_filesystem_identity c) = c"
    using binds req(1) follows auth launch
    by (simp add: wire_running_def matches_commitment_def succeeds_def lineage_defs)
  then have commit: "running_digest r = Inr request_digest"
    using request(2) identity resources(2) follows by (simp add: running_digest_def succeeds_def)
  show ?thesis
  proof (rule acceptable_successor [OF ok cur follows])
    show "sealable r"
      using follows rest shape running by (intro sealable_running) (simp_all add: succeeds_def)
    show "accept_lifecycle (Some prior) r = Inr ()"
      using follows state auth launch commit
      by (simp add: accept_lifecycle_def accept_running_def succeeds_def)
  qed (use req(2) unused hash_valid_digest(5) [OF request(2)] in
      \<open>simp_all add: lifecycle_operations_def lifecycle_states_def\<close>)
qed

lemma launched_follower:
  assumes "index_ok s" and "current_session s session_id = Some prior" and "launched_state prior"
    and "same_plan prior r" and "same_authorization prior r" and "same_launch prior r"
    and "same_process_identity prior r" and "p_running_at_ms r = p_running_at_ms prior"
  shows "started_shape r" "running_shape r = running_shape prior"
    "managed_running_shape r = managed_running_shape prior"
    "process_identity_from_wire r = process_identity_from_wire prior"
  using prior_shapes(4) [OF assms(1-3)] lineage_shape(2) [OF assms(4-6)]
    lineage_running_shape [OF assms(5-8)] by simp_all

lemma matches_process_identity_wire:
  "matches_process_identity r i \<Longrightarrow> wire_process_identity r = i"
  by (simp add: matches_process_identity_def wire_process_identity_def)

lemma mark_stopping_acceptable:
  assumes ok: "index_ok s"
    and plan: "mark_stopping_plan c request_digest key now_ms s = Inr r"
    and request: "commitment_request_ok c key now_ms" "hash_stopping_commitment c = Inr request_digest"
    and unused: "reg_requests s key = None"
  shows "acceptable jc s r"
proof -
  obtain prior where cur: "current_session s (rc_session_id c) = Some prior"
    and state: "p_state prior = ''running''" and binds: "matches_commitment c prior"
      "matches_process_identity prior (rc_process_identity c)"
    and time: "p_running_at_ms prior \<le> now_ms"
    and r: "r = (launched_successor s prior ''mark_stopping'' key request_digest ''stopping'')
                \<lparr>p_stopping_at_ms := now_ms\<rparr>"
    using plan by (auto simp: mark_stopping_plan_def with_session_Inr not_less split: if_splits)
  have launched: "launched_state prior"
    using state by (simp add: launched_state_def)
  have running: "running_shape prior"
    using process_session_shape [OF ok cur launched] binds(1) by (simp add: matches_commitment_def)
  have req: "rc_schema_version c = 1" "valid_identifier key"
    "valid_process_identity (rc_process_identity c)"
    using request(1) by (simp_all add: commitment_request_ok_def)
  have follows: "succeeds s prior ''mark_stopping'' key request_digest ''stopping'' r"
    and auth: "same_authorization prior r" and process: "same_process_identity prior r"
    and rest: "open_ended r" "p_stopping_at_ms r = now_ms" "p_running_at_ms r = p_running_at_ms prior"
    unfolding r by (simp_all add: succeeds_def lineage_defs successor_defs open_ended_def absence_defs)
  have launch: "same_launch prior r"
    using running unfolding r
    by (simp add: running_shape_def prepared_resources_def same_launch_def successor_defs)
  note shape = launched_follower [OF ok cur launched succeeds_same_plan [OF follows] auth launch
      process rest(3)]
  have identity: "process_identity_from_wire r = Some (rc_process_identity c)"
    using shape(4) binds(2) req(3)
    by (simp add: process_identity_from_wire_def matches_process_identity_wire)
  have "wire_running r (rc_process_identity c) (rc_filesystem_identity c) = c"
    using binds(1) req(1) follows auth launch
    by (simp add: wire_running_def matches_commitment_def succeeds_def lineage_defs)
  moreover have "p_filesystem_identity r = Some (rc_filesystem_identity c)"
    using launch binds(1) by (simp add: same_launch_def matches_commitment_def)
  ultimately have commit: "stopping_digest r = Inr request_digest"
    using request(2) identity follows by (simp add: stopping_digest_def succeeds_def)
  show ?thesis
  proof (rule acceptable_successor [OF ok cur follows])
    show "sealable r"
      using follows rest shape running time by (intro sealable_stopping) (simp_all add: succeeds_def)
    show "accept_lifecycle (Some prior) r = Inr ()"
      using follows state auth launch process rest(3) commit
      by (simp add: accept_lifecycle_def accept_stopping_def succeeds_def)
  qed (use req(2) unused hash_valid_digest(6) [OF request(2)] in
      \<open>simp_all add: lifecycle_operations_def lifecycle_states_def\<close>)
qed

subsection \<open>Exits\<close>

text \<open>A record carries a terminal reference when the reference rebuilt from its fields is that one.\<close>

definition carries :: "persisted_session \<Rightarrow> terminal_reference \<Rightarrow> bool" where
  "carries r t =
     (wire_terminal r (tr_termination_cause t) = t \<and> p_failure_code r = [] \<and>
      p_termination_cause r = termination_cause_name (tr_termination_cause t))"

definition reference_ok :: "terminal_reference \<Rightarrow> bool" where
  "reference_ok t =
     (tr_sequence t \<noteq> 0 \<and> valid_digest (tr_key_id t) \<and> valid_digest (tr_receipt_digest t) \<and>
      valid_digest (tr_previous_hmac t) \<and> valid_digest (tr_this_hmac t) \<and> tr_started_at_ms t \<noteq> 0 \<and>
      exit_code_ok (tr_termination_cause t) (tr_exit_code t))"

definition covers :: "terminal_reference \<Rightarrow> persisted_session \<Rightarrow> bool" where
  "covers t prior =
     (tr_started_at_ms t \<le> p_running_at_ms prior \<and>
      (if p_state prior = ''stopping'' then p_stopping_at_ms prior else p_running_at_ms prior)
        \<le> tr_finished_at_ms t)"

lemma receipt_digest_auditable:
  assumes "resource_enforcement_receipt_digest receipt = Inr d"
  shows "exit_code_ok (rr_termination_cause receipt) (rr_exit_code receipt)"
  using assms auditable_facts(5)
  by (auto simp: resource_enforcement_receipt_digest_def and_then_Inr encode_receipt_Inr)

lemma exit_acceptable:
  assumes ok: "index_ok s" and cur: "current_session s session_id = Some prior"
    and launched: "launched_state prior"
    and follows: "succeeds s prior operation key digest ''exited'' r"
    and lineage: "same_authorization prior r" "same_launch prior r" "same_process_identity prior r"
      "p_running_at_ms r = p_running_at_ms prior" "p_stopping_at_ms r = p_stopping_at_ms prior"
    and terminal: "carries r t" "reference_ok t" "covers t prior" "hash_terminal_reference t = Inr digest"
    and kind: "running_shape prior \<and> operation \<in> {''mark_exited'', ''mark_refinement_exited''} \<or>
      managed_running_shape prior \<and> operation = ''mark_managed_exited''"
    and request: "valid_identifier key" "reg_requests s key = None"
  shows "acceptable jc s r"
proof (rule acceptable_successor [OF ok cur follows])
  note shape = launched_follower [OF ok cur launched succeeds_same_plan [OF follows] lineage(1-4)]
  have fields: "p_receipt_sequence r = tr_sequence t" "p_receipt_key_id r = tr_key_id t"
    "p_receipt_digest r = tr_receipt_digest t" "p_receipt_previous_hmac r = tr_previous_hmac t"
    "p_receipt_hmac r = tr_this_hmac t" "p_receipt_started_at_ms r = tr_started_at_ms t"
    "p_finished_at_ms r = tr_finished_at_ms t" "p_exit_code r = tr_exit_code t"
    "p_failure_code r = []"
    "p_termination_cause r = termination_cause_name (tr_termination_cause t)"
    using terminal(1) by (cases t; simp add: carries_def wire_terminal_def)+
  have "valid_exit_code r"
    using terminal(2) fields
    by (auto simp: valid_exit_code_def reference_ok_def exit_code_ok_def split: option.splits)
  moreover have "tr_finished_at_ms t \<ge>
      (if p_stopping_at_ms prior = 0 then p_running_at_ms prior else p_stopping_at_ms prior)"
    "p_stopping_at_ms prior = 0 \<or> p_stopping_at_ms prior \<ge> p_running_at_ms prior"
    using terminal(3) prior_shapes(4) [OF ok cur launched] by (simp_all add: covers_def)
  ultimately have "terminal_shape r"
    using terminal(2,3) fields lineage(4,5)
    by (simp add: terminal_shape_def reference_ok_def covers_def split: if_splits)
  with kind follows shape show "sealable r"
    by (auto intro: sealable_exited sealable_managed_exited simp: succeeds_def)
  show "accept_lifecycle (Some prior) r = Inr ()"
    using follows launched lineage terminal(1,4)
    by (auto simp: accept_lifecycle_def accept_exited_def succeeds_def carries_def launched_state_def)
qed (use kind request hash_valid_digest(9) [OF terminal(4)] in
    \<open>auto simp: lifecycle_operations_def lifecycle_states_def\<close>)

lemma receipt_inside_session: "covers t prior" if "\<not> receipt_outside_session receipt prior"
    and "tr_started_at_ms t = rr_started_at_ms receipt" "tr_finished_at_ms t = rr_finished_at_ms receipt"
  using that by (auto simp: covers_def receipt_outside_session_def not_less split: if_splits)

lemma terminal_request_reference:
  assumes "terminal_request_ok t key"
  shows "reference_ok (resource_terminal_reference t)" "valid_identifier key" "ar_schema_version t = 1"
  using assms receipt_digest_auditable
  by (auto simp: terminal_request_ok_def reference_ok_def resource_terminal_reference_def)

lemma refinement_digest_resource:
  assumes "refinement_evaluation_receipt_digest r = Inr d"
  shows "\<exists>resource. resource_enforcement_receipt_digest (re_resource_receipt r) = Inr resource"
  using assms
  by (cases "resource_enforcement_receipt_digest (re_resource_receipt r)")
    (simp_all add: refinement_evaluation_receipt_digest_def)

lemma refinement_request_reference:
  assumes "refinement_terminal_request_ok t key"
  shows "reference_ok (refinement_terminal_reference t)" "valid_identifier key" "af_schema_version t = 1"
  using assms receipt_digest_auditable
    refinement_digest_resource [of "af_receipt t" "af_receipt_digest t"]
  by (auto simp: refinement_terminal_request_ok_def reference_ok_def refinement_terminal_reference_def
      Let_def)

lemma mark_exited_acceptable:
  assumes ok: "index_ok s"
    and plan: "mark_exited_plan jc t request_digest key s = (Inr r, s')"
    and request: "terminal_request_ok t key" "hash_terminal_envelope t = Inr request_digest"
    and unused: "reg_requests s key = None"
  shows "acceptable jc' s r" "s' = s"
proof -
  let ?receipt = "ar_receipt t"
  obtain prior where cur: "current_session s (ar_session_id t) = Some prior"
    using plan by (cases "current_session s (ar_session_id t)") (simp_all add: mark_exited_plan_def)
  have launched: "launched_state prior" and process: "process_identity_from_wire prior \<noteq> None"
    and binds: "p_session_id prior = ar_session_id t"
      "p_controller_plan_digest prior = ar_controller_plan_digest t"
      "p_launch_profile_digest prior = rr_profile_digest ?receipt"
    and window: "\<not> receipt_outside_session ?receipt prior"
    and r: "r = (launched_successor s prior ''mark_exited'' key request_digest ''exited'')
                  \<lparr>p_finished_at_ms := rr_finished_at_ms ?receipt,
                   p_receipt_started_at_ms := rr_started_at_ms ?receipt,
                   p_receipt_key_id := ar_key_id t, p_receipt_sequence := ar_sequence t,
                   p_receipt_digest := ar_receipt_digest t,
                   p_receipt_previous_hmac := ar_previous_hmac t, p_receipt_hmac := ar_this_hmac t,
                   p_termination_cause := termination_cause_name (rr_termination_cause ?receipt),
                   p_exit_code := rr_exit_code ?receipt\<rparr>" and "s' = s"
    using plan cur
    by (auto simp: mark_exited_plan_def launched_state_def split: if_splits option.splits)
  have running: "running_shape prior"
    using process_session_shape [OF ok cur launched] process by simp
  show "acceptable jc' s r"
  proof (rule exit_acceptable [OF ok cur launched])
    show "succeeds s prior ''mark_exited'' key request_digest ''exited'' r"
      "same_authorization prior r" "same_process_identity prior r"
      "p_running_at_ms r = p_running_at_ms prior" "p_stopping_at_ms r = p_stopping_at_ms prior"
      unfolding r by (simp_all add: succeeds_def lineage_defs successor_defs)
    show "same_launch prior r"
      using running unfolding r
      by (simp add: running_shape_def prepared_resources_def same_launch_def successor_defs)
    show "carries r (resource_terminal_reference t)"
      using binds terminal_request_reference(3) [OF request(1)] unfolding r
      by (simp add: carries_def wire_terminal_def resource_terminal_reference_def successor_defs)
    show "covers (resource_terminal_reference t) prior"
      by (rule receipt_inside_session [OF window]) (simp_all add: resource_terminal_reference_def)
  qed (use request running unused terminal_request_reference [OF request(1)] in
      \<open>simp_all add: hash_terminal_envelope_def\<close>)
  show "s' = s" by fact
qed

lemma copied_follows:
  assumes "index_ok s" and "current_session s session_id = Some prior"
  shows "succeeds s prior operation key digest state
      ((copied_successor s prior operation key digest)\<lparr>p_state := state\<rparr>)"
proof -
  obtain n where "common_shape prior n"
    using current_session_sealed(1) [OF assms] shape_common(1) by blast
  then show ?thesis
    using current_session_sealed(5) [OF assms]
    by (simp add: succeeds_def same_plan_def copied_successor_def common_shape_def)
qed

lemma copied_lineage:
  "same_plan prior (copied_successor s prior operation key digest)"
  "same_authorization prior (copied_successor s prior operation key digest)"
  "same_launch prior (copied_successor s prior operation key digest)"
  "same_process_identity prior (copied_successor s prior operation key digest)"
  by (simp_all add: lineage_defs copied_successor_def)

lemma mark_refinement_exited_acceptable:
  assumes ok: "index_ok s"
    and plan: "mark_refinement_exited_plan jc t request_digest key s = (Inr r, s')"
    and request: "refinement_terminal_request_ok t key"
      "hash_refinement_terminal_envelope t = Inr request_digest"
    and unused: "reg_requests s key = None"
  shows "acceptable jc' s r" "s' = s"
proof -
  let ?receipt = "re_resource_receipt (af_receipt t)"
  obtain prior where cur: "current_session s (af_session_id t) = Some prior"
    using plan
    by (cases "current_session s (af_session_id t)") (simp_all add: mark_refinement_exited_plan_def)
  have launched: "launched_state prior" and process: "process_identity_from_wire prior \<noteq> None"
    and binds: "p_session_id prior = af_session_id t"
      "p_controller_plan_digest prior = af_controller_plan_digest t"
      "p_launch_profile_digest prior = rr_profile_digest ?receipt"
    and window: "\<not> receipt_outside_session ?receipt prior"
    and r: "r = (copied_successor s prior ''mark_refinement_exited'' key request_digest)
                  \<lparr>p_schema_version := 1, p_state := ''exited'', p_failure_code := [],
                   p_finished_at_ms := rr_finished_at_ms ?receipt,
                   p_receipt_started_at_ms := rr_started_at_ms ?receipt,
                   p_receipt_key_id := af_key_id t, p_receipt_sequence := af_sequence t,
                   p_receipt_digest := af_receipt_digest t,
                   p_receipt_previous_hmac := af_previous_hmac t, p_receipt_hmac := af_this_hmac t,
                   p_termination_cause := termination_cause_name (rr_termination_cause ?receipt),
                   p_exit_code := rr_exit_code ?receipt\<rparr>" and "s' = s"
    using plan cur
    by (auto simp: mark_refinement_exited_plan_def Let_def launched_state_def
        split: if_splits option.splits)
  have running: "running_shape prior"
    using process_session_shape [OF ok cur launched] process by simp
  show "acceptable jc' s r"
  proof (rule exit_acceptable [OF ok cur launched])
    show "succeeds s prior ''mark_refinement_exited'' key request_digest ''exited'' r"
      using copied_follows [OF ok cur] unfolding r by (simp add: succeeds_def same_plan_def)
    show "same_authorization prior r" "same_process_identity prior r" "same_launch prior r"
      "p_running_at_ms r = p_running_at_ms prior" "p_stopping_at_ms r = p_stopping_at_ms prior"
      unfolding r by (simp_all add: lineage_defs copied_successor_def)
    show "carries r (refinement_terminal_reference t)"
      using binds refinement_request_reference(3) [OF request(1)] unfolding r
      by (simp add: carries_def wire_terminal_def refinement_terminal_reference_def Let_def
          copied_successor_def)
    show "covers (refinement_terminal_reference t) prior"
      by (rule receipt_inside_session [OF window]) (simp_all add: refinement_terminal_reference_def Let_def)
  qed (use request running unused refinement_request_reference [OF request(1)] in
      \<open>simp_all add: hash_refinement_terminal_envelope_def\<close>)
  show "s' = s" by fact
qed

lemma mark_managed_exited_acceptable:
  assumes ok: "index_ok s"
    and plan: "mark_managed_exited_plan t request_digest key s = Inr r"
    and request: "terminal_request_ok t key" "hash_terminal_envelope t = Inr request_digest"
    and unused: "reg_requests s key = None"
  shows "acceptable jc s r"
proof -
  let ?receipt = "ar_receipt t"
  obtain prior where cur: "current_session s (ar_session_id t) = Some prior"
    and launched: "launched_state prior" and managed: "p_managed_runtime_identity prior \<noteq> None"
    and binds: "p_session_id prior = ar_session_id t"
      "p_controller_plan_digest prior = ar_controller_plan_digest t"
      "p_launch_profile_digest prior = rr_profile_digest ?receipt"
    and window: "\<not> receipt_outside_session ?receipt prior"
    and r: "r = (copied_successor s prior ''mark_managed_exited'' key request_digest)
           \<lparr>p_state := ''exited'', p_finished_at_ms := rr_finished_at_ms ?receipt,
            p_receipt_started_at_ms := rr_started_at_ms ?receipt,
            p_receipt_key_id := ar_key_id t, p_receipt_sequence := ar_sequence t,
            p_receipt_digest := ar_receipt_digest t, p_receipt_previous_hmac := ar_previous_hmac t,
            p_receipt_hmac := ar_this_hmac t,
            p_termination_cause := termination_cause_name (rr_termination_cause ?receipt),
            p_exit_code := rr_exit_code ?receipt\<rparr>"
    using plan
    by (auto simp: mark_managed_exited_plan_def with_session_Inr simp del: not_None_eq
        split: if_splits)
  show "acceptable jc s r"
  proof (rule exit_acceptable [OF ok cur launched])
    show "succeeds s prior ''mark_managed_exited'' key request_digest ''exited'' r"
      using copied_follows [OF ok cur] unfolding r by (simp add: succeeds_def same_plan_def)
    show "same_authorization prior r" "same_process_identity prior r" "same_launch prior r"
      "p_running_at_ms r = p_running_at_ms prior" "p_stopping_at_ms r = p_stopping_at_ms prior"
      unfolding r by (simp_all add: lineage_defs copied_successor_def)
    have "p_failure_code prior = []"
      using prior_shapes(4) [OF ok cur launched] by (simp add: open_ended_def)
    then show "carries r (resource_terminal_reference t)"
      using binds terminal_request_reference(3) [OF request(1)] unfolding r
      by (simp add: carries_def wire_terminal_def resource_terminal_reference_def copied_successor_def)
    show "covers (resource_terminal_reference t) prior"
      by (rule receipt_inside_session [OF window]) (simp_all add: resource_terminal_reference_def)
  qed (use request unused managed_session_shape [OF ok cur launched managed]
        terminal_request_reference [OF request(1)] in \<open>simp_all add: hash_terminal_envelope_def\<close>)
qed

subsection \<open>Failures\<close>

lemma failure_request_wire:
  assumes "hash_failure_commitment c = Inr request_digest" and "fc_schema_version c = 1"
    and "succeeds s prior operation key request_digest ''failed'' r"
    and "same_authorization prior r" "same_launch prior r" "same_process_identity prior r"
      "p_running_at_ms r = p_running_at_ms prior" "p_stopping_at_ms r = p_stopping_at_ms prior"
    and "p_failure_code r = failure_code_name (fc_code c)"
    and "p_session_id prior = fc_session_id c"
      "p_controller_plan_digest prior = fc_controller_plan_digest c"
      "p_plan_content_digest prior = fc_plan_content_digest c"
      "p_authorization_id prior = fc_authorization_id c"
      "p_launch_profile_digest prior = fc_profile_digest c"
    and "p_state prior = ''starting'' \<or> launched_state prior"
  shows "accept_lifecycle (Some prior) r = Inr ()"
proof -
  have "wire_failure r (fc_code c) = c"
    using assms by (simp add: wire_failure_def succeeds_def lineage_defs)
  with assms show ?thesis
    by (auto simp: accept_lifecycle_def accept_failed_def succeeds_def launched_state_def)
qed

lemma mark_failed_acceptable:
  assumes ok: "index_ok s"
    and plan: "mark_failed_plan c request_digest key now_ms s = (Inr r, s')"
    and request: "failure_request_ok c key now_ms" "hash_failure_commitment c = Inr request_digest"
    and direct: "\<And>prior. current_session s (fc_session_id c) = Some prior \<Longrightarrow>
      p_managed_runtime_identity prior = None"
    and unused: "reg_requests s key = None"
  shows "acceptable jc s r" "s' = s"
proof -
  obtain prior where cur: "current_session s (fc_session_id c) = Some prior"
    using plan by (cases "current_session s (fc_session_id c)") (simp_all add: mark_failed_plan_def)
  have state: "p_state prior = ''starting'' \<or> launched_state prior"
    and binds: "p_session_id prior = fc_session_id c"
      "p_controller_plan_digest prior = fc_controller_plan_digest c"
      "p_plan_content_digest prior = fc_plan_content_digest c"
      "p_authorization_id prior = fc_authorization_id c"
      "p_launch_profile_digest prior = fc_profile_digest c"
    and time: "\<not> failure_too_early prior now_ms"
    and code: "launched_state prior \<Longrightarrow> post_launch_failure (Some (fc_code c))"
    and process: "launched_state prior \<Longrightarrow> process_identity_from_wire prior \<noteq> None"
    and r: "r = (launched_successor s prior ''mark_failed'' key request_digest ''failed'')
               \<lparr>p_failure_code := failure_code_name (fc_code c), p_finished_at_ms := now_ms\<rparr>"
    and "s' = s"
    using plan cur by (auto simp: mark_failed_plan_def split: if_splits)
  have req: "fc_schema_version c = 1" "valid_identifier key"
    "failure_code_from_wire (failure_code_name (fc_code c)) = Some (fc_code c)"
    using request(1) by (simp_all add: failure_request_ok_def)
  have follows: "succeeds s prior ''mark_failed'' key request_digest ''failed'' r"
    and auth: "same_authorization prior r" and same: "same_process_identity prior r"
      "p_running_at_ms r = p_running_at_ms prior" "p_stopping_at_ms r = p_stopping_at_ms prior"
    and rest: "no_terminal_receipt r" "p_failure_code r = failure_code_name (fc_code c)"
      "p_finished_at_ms r = now_ms"
    unfolding r by (simp_all add: succeeds_def lineage_defs successor_defs absence_defs)
  have launch: "same_launch prior r"
    using direct [OF cur] unfolding r by (simp add: same_launch_def successor_defs)
  note shape = lineage_shape(2,3) [OF succeeds_same_plan [OF follows] auth launch]
    lineage_running_shape [OF auth launch same(1,2)]
  have "if running_shape r
     then post_launch_failure (Some (fc_code c)) \<and> p_running_at_ms r \<le> p_finished_at_ms r \<and>
          (p_stopping_at_ms r = 0 \<or>
           p_running_at_ms r \<le> p_stopping_at_ms r \<and> p_stopping_at_ms r \<le> p_finished_at_ms r)
     else p_running_at_ms r = 0 \<and> no_process_identity r \<and> prepared_resources r \<and>
          p_stopping_at_ms r = 0 \<and> p_starting_at_ms r \<le> p_finished_at_ms r"
  proof (cases "launched_state prior")
    case True
    have "running_shape r"
      using process_session_shape [OF ok cur True] process [OF True] shape(4) by simp
    moreover have "(if p_stopping_at_ms prior = 0 then p_running_at_ms prior
        else p_stopping_at_ms prior) \<le> now_ms"
      using time True prior_shapes(4) [OF ok cur True]
      by (auto simp: failure_too_early_def launched_state_def not_less split: if_splits)
    ultimately show ?thesis
      using code [OF True] prior_shapes(4) [OF ok cur True] same rest by (auto split: if_splits)
  next
    case False
    with state have starting: "p_state prior = ''starting''" by simp
    have "\<not> managed_resources prior"
      using direct [OF cur] by (simp add: managed_resources_def)
    moreover have "p_starting_at_ms r = p_starting_at_ms prior"
      using launch by (simp add: same_launch_def)
    moreover have "\<not> running_shape r"
      using prior_shapes(2) [OF ok cur starting] shape
      by (simp add: running_shape_def no_process_identity_wire)
    ultimately show ?thesis
      using prior_shapes(2) [OF ok cur starting] shape time starting same rest
      by (simp add: failure_too_early_def not_less)
  qed
  moreover have "started_shape r"
    using state prior_shapes(2,4) [OF ok cur] shape(1) by auto
  ultimately have "sealable r"
    using follows rest req(3) by (intro sealable_failed) (simp_all add: succeeds_def)
  moreover have "accept_lifecycle (Some prior) r = Inr ()"
    using failure_request_wire [OF request(2) req(1) follows auth launch same rest(2)] binds state
    by simp
  ultimately show "acceptable jc s r"
    by (rule acceptable_successor [OF ok cur follows, rotated 5])
      (use req(2) unused hash_valid_digest(10) [OF request(2)] in
        \<open>simp_all add: lifecycle_operations_def lifecycle_states_def\<close>)
  show "s' = s" by fact
qed

end
