(* ===== verification/Managed_Acceptance.thy ===== *)
theory Managed_Acceptance
  imports Registry_Acceptance
begin

text \<open>
  The transitions of managed sessions plan records that are acceptable to recovery.
\<close>

lemma and_then_eligible_Inr:
  "and_then (eligible_launch s plan now_ms message) f = Inr x \<Longrightarrow> f () = Inr x"
  by (auto simp: and_then_Inr)

lemma mark_managed_starting_acceptable:
  assumes ok: "index_ok s"
    and plan: "mark_managed_starting_plan b request_digest key now_ms s = Inr r"
    and request: "managed_starting_request_ok b key now_ms"
      "hash_managed_execution_binding b = Inr request_digest"
    and clock: "\<And>prior. current_session s (mb_session_id b) = Some prior \<Longrightarrow>
      p_authorized_at_ms prior \<le> now_ms"
    and unused: "reg_requests s key = None"
  shows "acceptable jc s r"
proof -
  obtain prior where cur: "current_session s (mb_session_id b) = Some prior"
    and state: "p_state prior = ''preparing''"
    and binds: "p_session_id prior = mb_session_id b"
      "p_controller_plan_digest prior = mb_controller_plan_digest b"
      "p_plan_content_digest prior = mb_plan_content_digest b"
      "p_authorization_id prior = mb_authorization_id b"
      "now_ms < p_authorization_expires_at_ms prior"
    and r: "r = (authorized_successor s prior ''mark_managed_starting'' key request_digest ''starting'')
               \<lparr>p_launch_profile_digest := mb_profile_digest b, p_starting_at_ms := now_ms,
                p_managed_runtime_identity := Some (mb_runtime_identity b)\<rparr>"
    using plan
    by (auto simp: mark_managed_starting_plan_def with_session_Inr not_le split: if_splits
        dest!: and_then_eligible_Inr)
  have req: "mb_schema_version b = 1" "valid_digest (mb_profile_digest b)" "valid_identifier key"
    "valid_managed_runtime_identity (mb_runtime_identity b)"
    using request(1) by (simp_all add: managed_starting_request_ok_def)
  have follows: "succeeds s prior ''mark_managed_starting'' key request_digest ''starting'' r"
    and auth: "same_authorization prior r"
    unfolding r by (simp_all add: succeeds_def lineage_defs successor_defs)
  have "authorization_shape r"
    using prior_shapes(1) [OF ok cur state] lineage_shape(1) [OF succeeds_same_plan [OF follows] auth]
    by simp
  then have fields: "started_shape r" "managed_resources r" "open_ended r"
    "p_running_at_ms r = 0" "p_stopping_at_ms r = 0"
    using req binds(5) clock [OF cur]
    by (simp_all add: started_shape_def)
      (simp_all add: r managed_resources_def open_ended_def absence_defs successor_defs)
  have "starting_digest r = hash_managed_execution_binding b"
    unfolding r using binds req(1) by (cases b) (simp add: starting_digest_def successor_defs)
  then have commit: "starting_digest r = Inr request_digest"
    using request(2) by simp
  show ?thesis
  proof (rule acceptable_successor [OF ok cur follows])
    show "sealable r"
      using follows fields by (intro sealable_managed_starting) (simp_all add: succeeds_def)
    show "accept_lifecycle (Some prior) r = Inr ()"
      using follows state auth commit by (simp add: accept_lifecycle_def accept_starting_def succeeds_def)
  qed (use req(3) unused hash_valid_digest(7) [OF request(2)] in
      \<open>simp_all add: lifecycle_operations_def lifecycle_states_def\<close>)
qed

text \<open>A copy of the current record with its state and one time changed.\<close>

lemma managed_copy:
  assumes "index_ok s" and "current_session s session_id = Some prior"
    and "r = (copied_successor s prior operation key digest)
      \<lparr>p_state := state, p_running_at_ms := running, p_stopping_at_ms := stopping\<rparr>"
  shows "succeeds s prior operation key digest state r" "same_authorization prior r"
    "same_launch prior r" "same_process_identity prior r" "open_ended r = open_ended prior"
    "p_running_at_ms r = running" "p_stopping_at_ms r = stopping"
  using copied_follows [OF assms(1,2), of operation key digest state] unfolding assms(3)
  by (simp_all add: succeeds_def lineage_defs copied_successor_def open_ended_def
      no_terminal_receipt_def)

lemma copied_times:
  "(copied_successor s prior operation key digest)\<lparr>p_state := state, p_running_at_ms := t\<rparr> =
   (copied_successor s prior operation key digest)
     \<lparr>p_state := state, p_running_at_ms := t, p_stopping_at_ms := p_stopping_at_ms prior\<rparr>"
  "(copied_successor s prior operation key digest)\<lparr>p_state := state, p_stopping_at_ms := t\<rparr> =
   (copied_successor s prior operation key digest)
     \<lparr>p_state := state, p_running_at_ms := p_running_at_ms prior, p_stopping_at_ms := t\<rparr>"
  by (simp_all add: copied_successor_def)

lemma managed_commitment_wire:
  assumes "matches_managed_commitment c prior" and "mc_schema_version c = 1"
    and "succeeds s prior operation key digest state r" and "same_authorization prior r"
    and "same_launch prior r"
  shows "wire_managed_running r (mc_runtime_identity c) = c"
    "p_managed_runtime_identity r = Some (mc_runtime_identity c)"
  using assms
  by (simp_all add: wire_managed_running_def matches_managed_commitment_def succeeds_def lineage_defs)

lemma mark_managed_running_acceptable:
  assumes ok: "index_ok s"
    and plan: "mark_managed_running_plan c request_digest key now_ms s = Inr r"
    and request: "managed_request_ok c key now_ms"
      "hash_managed_running_commitment c ''glove.managed-session-running-commitment'' =
         Inr request_digest"
    and unused: "reg_requests s key = None"
  shows "acceptable jc s r"
proof -
  obtain prior where cur: "current_session s (mc_session_id c) = Some prior"
    and state: "p_state prior = ''starting''" and binds: "matches_managed_commitment c prior"
    and window: "p_starting_at_ms prior \<le> now_ms" "now_ms < p_authorization_expires_at_ms prior"
    and r: "r = (copied_successor s prior ''mark_managed_running'' key request_digest)
               \<lparr>p_state := ''running'', p_running_at_ms := now_ms\<rparr>"
    using plan
    by (auto simp: mark_managed_running_plan_def with_session_Inr not_le not_less split: if_splits
        dest!: and_then_eligible_Inr)
  have req: "mc_schema_version c = 1" "valid_identifier key"
    using request(1) by (simp_all add: managed_request_ok_def)
  note copy = managed_copy [OF ok cur trans [OF r copied_times(1)]]
  note prior = prior_shapes(2) [OF ok cur state]
  have managed: "managed_resources prior"
    using prior binds by (auto simp: matches_managed_commitment_def prepared_resources_def)
  then have "managed_running_shape r"
    using window copy(2-4,6)
    by (simp add: managed_running_shape_def managed_resources_def lineage_defs no_process_identity_def)
  moreover have "started_shape r"
    using prior lineage_shape(2) [OF succeeds_same_plan [OF copy(1)] copy(2,3)] by simp
  ultimately have shape: "sealable r"
    using prior copy by (intro sealable_managed_running) (simp_all add: succeeds_def)
  have commit: "running_digest r = Inr request_digest"
    using managed_commitment_wire [OF binds req(1) copy(1-3)] request(2) copy(1)
    by (simp add: running_digest_def succeeds_def)
  show ?thesis
  proof (rule acceptable_successor [OF ok cur copy(1) _ _ _ _ _ shape])
    show "accept_lifecycle (Some prior) r = Inr ()"
      using copy state commit by (simp add: accept_lifecycle_def accept_running_def succeeds_def)
  qed (use req(2) unused hash_valid_digest(8) [OF request(2)] in
      \<open>simp_all add: lifecycle_operations_def lifecycle_states_def\<close>)
qed

lemma mark_managed_stopping_acceptable:
  assumes ok: "index_ok s"
    and plan: "mark_managed_stopping_plan c request_digest key now_ms s = Inr r"
    and request: "managed_request_ok c key now_ms"
      "hash_managed_running_commitment c ''glove.managed-session-stopping-commitment'' =
         Inr request_digest"
    and unused: "reg_requests s key = None"
  shows "acceptable jc s r"
proof -
  obtain prior where cur: "current_session s (mc_session_id c) = Some prior"
    and state: "p_state prior = ''running''" and binds: "matches_managed_commitment c prior"
    and time: "p_running_at_ms prior \<le> now_ms"
    and r: "r = (copied_successor s prior ''mark_managed_stopping'' key request_digest)
               \<lparr>p_state := ''stopping'', p_stopping_at_ms := now_ms\<rparr>"
    using plan by (auto simp: mark_managed_stopping_plan_def with_session_Inr not_less split: if_splits)
  have launched: "launched_state prior"
    using state by (simp add: launched_state_def)
  have req: "mc_schema_version c = 1" "valid_identifier key"
    using request(1) by (simp_all add: managed_request_ok_def)
  note copy = managed_copy [OF ok cur trans [OF r copied_times(2)]]
  note follower = launched_follower [OF ok cur launched succeeds_same_plan [OF copy(1)] copy(2-4,6)]
  have "managed_running_shape prior"
    using managed_session_shape [OF ok cur launched] binds by (simp add: matches_managed_commitment_def)
  then have shape: "sealable r"
    using follower prior_shapes(4) [OF ok cur launched] time copy
    by (intro sealable_managed_stopping) (simp_all add: succeeds_def)
  have commit: "stopping_digest r = Inr request_digest"
    using managed_commitment_wire [OF binds req(1) copy(1-3)] request(2) copy(1)
    by (simp add: stopping_digest_def succeeds_def)
  show ?thesis
  proof (rule acceptable_successor [OF ok cur copy(1) _ _ _ _ _ shape])
    show "accept_lifecycle (Some prior) r = Inr ()"
      using copy state commit by (simp add: accept_lifecycle_def accept_stopping_def succeeds_def)
  qed (use req(2) unused hash_valid_digest(8) [OF request(2)] in
      \<open>simp_all add: lifecycle_operations_def lifecycle_states_def\<close>)
qed

lemma launched_running_time:
  assumes "index_ok s" and "current_session s session_id = Some prior" and "launched_state prior"
  shows "p_running_at_ms prior \<noteq> 0"
proof
  assume "p_running_at_ms prior = 0"
  with prior_shapes(4) [OF assms] have "p_starting_at_ms prior = 0" "started_shape prior"
    by (auto simp: running_shape_def managed_running_shape_def)
  then show False
    by (auto simp: started_shape_def authorization_shape_def)
qed

lemma mark_managed_failed_acceptable:
  assumes ok: "index_ok s"
    and plan: "mark_managed_failed_plan c request_digest key now_ms s = Inr r"
    and request: "managed_failure_request_ok c key now_ms" "hash_failure_commitment c = Inr request_digest"
    and unused: "reg_requests s key = None"
  shows "acceptable jc s r"
proof -
  obtain prior where cur: "current_session s (fc_session_id c) = Some prior"
    and state: "p_state prior = ''starting'' \<or> launched_state prior"
    and managed: "p_managed_runtime_identity prior \<noteq> None"
    and binds: "p_controller_plan_digest prior = fc_controller_plan_digest c"
      "p_plan_content_digest prior = fc_plan_content_digest c"
      "p_authorization_id prior = fc_authorization_id c"
      "p_launch_profile_digest prior = fc_profile_digest c"
    and time: "\<not> failure_too_early prior now_ms"
    and code: "launched_state prior \<longrightarrow> post_launch_failure (Some (fc_code c))"
    and r: "r = (copied_successor s prior ''mark_managed_failed'' key request_digest)
           \<lparr>p_state := ''failed'', p_failure_code := failure_code_name (fc_code c),
            p_finished_at_ms := now_ms\<rparr>"
    using plan
    by (auto simp: mark_managed_failed_plan_def with_session_Inr simp del: not_None_eq
        split: if_splits)
  have req: "fc_schema_version c = 1" "valid_identifier key"
    "failure_code_from_wire (failure_code_name (fc_code c)) = Some (fc_code c)"
    using request(1) by (simp_all add: managed_failure_request_ok_def)
  have follows: "succeeds s prior ''mark_managed_failed'' key request_digest ''failed'' r"
    using copied_follows [OF ok cur] unfolding r by (simp add: succeeds_def same_plan_def)
  have lineage: "same_authorization prior r" "same_launch prior r" "same_process_identity prior r"
      "p_running_at_ms r = p_running_at_ms prior" "p_stopping_at_ms r = p_stopping_at_ms prior"
    and rest: "no_terminal_receipt r = no_terminal_receipt prior"
      "p_failure_code r = failure_code_name (fc_code c)" "p_finished_at_ms r = now_ms"
      "p_starting_at_ms r = p_starting_at_ms prior"
    unfolding r by (simp_all add: lineage_defs copied_successor_def no_terminal_receipt_def)
  note shape = lineage_shape(2) [OF succeeds_same_plan [OF follows] lineage(1,2)]
    lineage_running_shape(4) [OF lineage(1-4)]
  have prior: "started_shape prior" "open_ended prior" "managed_resources prior"
    using state managed prior_shapes(2,4) [OF ok cur]
    by (auto simp: prepared_resources_def running_shape_def managed_running_shape_def)
  have "if p_running_at_ms r = 0
     then p_stopping_at_ms r = 0 \<and> p_starting_at_ms r \<le> p_finished_at_ms r
     else post_launch_failure (Some (fc_code c)) \<and> p_running_at_ms r \<le> p_finished_at_ms r \<and>
          (p_stopping_at_ms r = 0 \<or>
           p_running_at_ms r \<le> p_stopping_at_ms r \<and> p_stopping_at_ms r \<le> p_finished_at_ms r)"
  proof (cases "launched_state prior")
    case True
    then show ?thesis
      using launched_running_time [OF ok cur True] prior_shapes(4) [OF ok cur True] time code
        lineage(4,5) rest(3)
      by (auto simp: failure_too_early_def launched_state_def not_less split: if_splits)
  next
    case False
    then show ?thesis
      using state prior_shapes(2) [OF ok cur] time lineage(4,5) rest
      by (simp add: failure_too_early_def not_less)
  qed
  then have "sealable r"
    using follows rest req(3) shape prior
    by (intro sealable_managed_failed) (simp_all add: succeeds_def open_ended_def)
  moreover have "accept_lifecycle (Some prior) r = Inr ()"
    using failure_request_wire [OF request(2) req(1) follows lineage rest(2)
        current_session_sealed(3) [OF ok cur] binds state] .
  ultimately show ?thesis
    by (rule acceptable_successor [OF ok cur follows, rotated 5])
      (use req(2) unused hash_valid_digest(10) [OF request(2)] in
        \<open>simp_all add: lifecycle_operations_def lifecycle_states_def\<close>)
qed

end
