(* ===== verification/Observation_Acceptance.thy ===== *)
theory Observation_Acceptance
  imports Managed_Acceptance
begin

text \<open>
  The two observation operations plan records that are acceptable to recovery, and the keys under
  which observation intents are indexed do not collide.
\<close>

subsection \<open>Intent keys\<close>

lemma split_at_separator:
  assumes "c \<notin> set a" "c \<notin> set a'" and "a @ c # b = a' @ c # b'"
  shows "a = a' \<and> b = b'"
  using assms
proof (induction a arbitrary: a')
  case Nil
  then show ?case by (cases a') auto
next
  case (Cons x a)
  then show ?case by (cases a') auto
qed

lemma decimal_no_newline: "CHR ''\<newline>'' \<notin> set (decimal n)"
  using decimal_digits [of "CHR ''\<newline>''" n] by auto

lemma observation_intent_key_inject:
  assumes "valid_identifier session_id" "valid_identifier session_id'"
    and "observation_intent_key session_id generation intent_id =
         observation_intent_key session_id' generation' intent_id'"
  shows "session_id = session_id' \<and> generation = generation' \<and> intent_id = intent_id'"
proof -
  have eq: "session_id @ CHR ''\<newline>'' # decimal (unat generation) @ CHR ''\<newline>'' # intent_id =
      session_id' @ CHR ''\<newline>'' # decimal (unat generation') @ CHR ''\<newline>'' # intent_id'"
    using assms(3) by (simp add: observation_intent_key_def)
  have outer: "session_id = session_id'"
    and tail: "decimal (unat generation) @ CHR ''\<newline>'' # intent_id =
      decimal (unat generation') @ CHR ''\<newline>'' # intent_id'"
    using split_at_separator [OF identifier_no_newline [OF assms(1)]
        identifier_no_newline [OF assms(2)] eq] by simp_all
  have "unat generation = unat generation'" "intent_id = intent_id'"
    using split_at_separator [OF decimal_no_newline decimal_no_newline tail] by simp_all
  with outer show ?thesis by (simp add: word_unat_eq_iff)
qed

subsection \<open>Observation records\<close>

text \<open>A copy of the current record that carries an observation is acceptable once recovery accepts
  the observation and files it under the key the append uses.\<close>

definition observation_entry :: "persisted_session \<Rightarrow> persisted_observation_intent \<Rightarrow> recovered_entry" where
  "observation_entry r i =
     (let key = observation_intent_key (p_session_id r) (oi_channel_generation i) (oi_intent_id i) in
      if p_operation r = ''enqueue_observation_intent_v1'' then Intent_entry key None
      else Disposition_entry key False)"

lemma observation_this_hash [simp]:
  "is_observation (r\<lparr>p_this_hash := h\<rparr>) = is_observation r"
  "same_session_snapshot (r\<lparr>p_this_hash := h\<rparr>) current = same_session_snapshot r current"
  "observation_context_from_wire (r\<lparr>p_this_hash := h\<rparr>) i = observation_context_from_wire r i"
  "wire_disposition (r\<lparr>p_this_hash := h\<rparr>) i d = wire_disposition r i d"
  "observation_entry (r\<lparr>p_this_hash := h\<rparr>) i = observation_entry r i"
  by (simp_all add: is_observation_def same_session_snapshot_def neutral_snapshot_def
      observation_context_from_wire_def wire_disposition_def observation_entry_def)

lemma accept_observation_this_hash [simp]:
  "accept_observation jc s existing (r\<lparr>p_this_hash := h\<rparr>) = accept_observation jc s existing r"
  by (simp add: accept_observation_def accept_enqueue_def accept_disposition_def
      cong: if_cong option.case_cong)

lemma observation_index:
  assumes "is_observation r" and "p_observation_intent r = Some i"
  shows "index_recovered s r (observation_entry r i) = index_appended s r"
  using assms
  by (auto simp: index_recovered_def index_appended_def observation_entry_def is_observation_def Let_def)

lemma acceptable_observation:
  assumes ok: "index_ok s" and fresh: "fresh_record s r"
    and obs: "is_observation r" "p_observation_intent r = Some i" "intent_shape r"
    and accepted: "accept_observation jc s (current_session s (p_session_id r)) r =
      Inr (observation_entry r i)"
  shows "acceptable jc s r"
  unfolding acceptable_def
proof (intro allI impI)
  fix h
  assume h: "hash_record r = Inr h"
  have "valid_record_shape (r\<lparr>p_this_hash := h\<rparr>) (of_nat (length (reg_records s)) + 1)"
    using fresh_common [OF ok fresh h] obs by (auto simp: valid_record_shape_def is_observation_def)
  then have "accept_recovered_record jc s (r\<lparr>p_this_hash := h\<rparr>) (last_hash s) =
      Inr (index_recovered s (r\<lparr>p_this_hash := h\<rparr>) (observation_entry r i))"
    using fresh obs accepted h by (simp add: accept_recovered_record_def fresh_record_def)
  moreover have "index_recovered s (r\<lparr>p_this_hash := h\<rparr>) (observation_entry r i) =
      index_appended s (r\<lparr>p_this_hash := h\<rparr>)"
    using observation_index [of "r\<lparr>p_this_hash := h\<rparr>" i] obs by simp
  ultimately show "\<exists>s1. accept_recovered_record jc s (r\<lparr>p_this_hash := h\<rparr>) (last_hash s) = Inr s1 \<and>
      same_index s1 (index_appended s (r\<lparr>p_this_hash := h\<rparr>))"
    by simp
qed

lemma observation_copy:
  assumes ok: "index_ok s" and cur: "current_session s session_id = Some prior"
    and op: "operation = ''enqueue_observation_intent_v1'' \<or>
      operation = ''set_observation_intent_disposition_v1''"
    and request: "valid_identifier key" "valid_digest digest" "reg_requests s key = None"
    and r: "r = (copied_successor s prior operation key digest)\<lparr>p_observation_intent := Some i\<rparr>"
  shows "fresh_record s r" "is_observation r" "p_observation_intent r = Some i"
    "same_session_snapshot r prior" "p_session_id r = session_id" "p_operation r = operation"
    "p_request_digest r = digest" "p_idempotency_key r = key"
    "p_controller_plan_digest r = p_controller_plan_digest prior"
    "p_policy_revision r = p_policy_revision prior"
proof -
  obtain n where "common_shape prior n"
    using current_session_sealed(1) [OF ok cur] shape_common(1) by blast
  moreover have "valid_identifier operation"
    using op by (auto simp: valid_identifier_def identifier_byte_def byte_of_def)
  ultimately show "fresh_record s r"
    unfolding r using request
    by (intro fresh_from_prior [OF ok cur])
      (simp_all add: copied_successor_def same_plan_def common_shape_def)
qed (use op current_session_sealed(3) [OF ok cur] in \<open>simp_all add: r copied_successor_def
      is_observation_def same_session_snapshot_def neutral_snapshot_def\<close>)

lemma digest_key_valid:
  assumes "valid_digest d"
  shows "valid_identifier (''intent-enqueue:'' @ d)" "valid_identifier (''intent-disposition:'' @ d)"
  using assms valid_digest_identifier [OF assms]
  by (auto simp: valid_identifier_def valid_digest_def identifier_byte_def byte_of_def)

subsection \<open>enqueue\_observation\_intent\<close>

lemma pending_intent_wire:
  "observation_body_from_wire (pending_intent body x d) = body"
  "oi_intent_digest (pending_intent body x d) = d"
  by (simp_all add: observation_body_from_wire_def pending_intent_def)

lemma enqueue_acceptable:
  assumes ok: "index_ok s"
    and plan: "enqueue_plan jc descriptor body x intent_digest now_ms s = Inr r"
    and body: "valid_observation_body_shape body" "hash_observation_intent_body body = Inr intent_digest"
    and channel: "admitted (reg_channels s) (ob_schema body) = Some descriptor"
      "unat (ob_item_count body) \<le> max_items (bounds descriptor)"
      "observation_body_bytes body \<le> max_body_bytes (bounds descriptor)"
      "body_validator_accepts descriptor body"
    and catalog: "\<And>host. reg_channels s = Some host \<Longrightarrow> catalog_ok host"
    and request: "valid_identifier (ox_session_id x)" "ox_channel_generation x \<noteq> 0"
    and key: "key = observation_intent_key (ox_session_id x) (ox_channel_generation x) (ob_intent_id body)"
      "reg_observation_intents s key = None" "reg_quarantined s key = None"
    and unused: "\<And>d. hash_observation_intent_request body x = Inr d \<Longrightarrow>
      reg_requests s (''intent-enqueue:'' @ d) = None"
  shows "acceptable jc s r"
proof -
  let ?i = "pending_intent body x intent_digest"
  obtain digest prior h where ctx: "context_ok x now_ms"
    and digest: "hash_observation_intent_request body x = Inr digest"
    and cur: "current_session s (ox_session_id x) = Some prior"
    and state: "p_state prior = ''running''"
    and header: "read_header jc (p_canonical_plan_json prior) = Some h" "ph_runtime_id h = ox_runtime_id x"
    and binds: "p_controller_plan_digest prior = ox_controller_plan_digest x"
      "p_launch_profile_digest prior = ox_profile_digest x"
      "p_policy_revision prior = ox_policy_revision x" "p_running_at_ms prior \<le> ox_issued_at_ms x"
    and ttl: "ox_expires_at_ms x - ox_issued_at_ms x \<le> max_ttl_ms (bounds descriptor)"
    and r: "r = (copied_successor s prior ''enqueue_observation_intent_v1''
                   (''intent-enqueue:'' @ digest) digest)\<lparr>p_observation_intent := Some ?i\<rparr>"
    using plan
    by (auto simp: enqueue_plan_def with_session_Inr not_less split: if_splits sum.splits option.splits)
  have digest_ok: "valid_digest digest" "valid_digest intent_digest"
    using hash_valid_digest(12) [OF digest] hash_valid_digest(11) [OF body(2)] .
  note copy = observation_copy [OF ok cur disjI1 [OF refl] digest_key_valid(1) [OF digest_ok(1)]
      digest_ok(1) unused [OF digest] r]
  have admissible: "admissible descriptor" "schema_id descriptor = ob_schema body"
    using channel(1) catalog catalog_ok_admits by (auto simp: admitted_def split: option.splits)
  then have "max_ttl_ms (bounds descriptor) \<le> max_observation_intent_ttl_ms"
    by (auto simp: admissible_def valid_bounds_def not_less)
  then have ttl': "ox_expires_at_ms x - ox_issued_at_ms x \<le> max_observation_intent_ttl_ms"
    using ttl by (rule order.trans [rotated])
  have shape: "intent_shape r"
    using ctx digest_ok body(1) admissible ttl' request(2) copy(3,6)
    by (simp add: intent_shape_def pending_intent_wire)
      (auto simp: pending_intent_def context_ok_def admissible_def intent_disposition_from_wire_def)
  have fields: "observation_context_from_wire r ?i = x"
    using copy(5,9,10) binds by (simp add: observation_context_from_wire_def pending_intent_def)
  have history: "historical_observation_quarantine_reason (reg_channels s) body
      (oi_expires_at_ms ?i - oi_issued_at_ms ?i) = None"
    using channel ttl
    by (simp add: historical_observation_quarantine_reason_def pending_intent_def not_less)
  have key': "observation_intent_key (p_session_id r) (oi_channel_generation ?i) (oi_intent_id ?i) = key"
    using copy(5) key(1) by (simp add: pending_intent_def)
  have "accept_enqueue jc s prior r ?i key = Inr (Intent_entry key None)"
    using digest fields copy(7,8) key state header binds history
    by (simp add: accept_enqueue_def pending_intent_wire Let_def)
      (simp add: pending_intent_def)
  then have "accept_observation jc s (current_session s (p_session_id r)) r =
      Inr (observation_entry r ?i)"
    using cur copy body(2) key'
    by (simp add: accept_observation_def observation_entry_def Let_def pending_intent_wire)
  then show ?thesis
    using acceptable_observation [OF ok copy(1-3) shape] by blast
qed

subsection \<open>set\_observation\_intent\_disposition\<close>

lemma queued_intent:
  assumes ok: "index_ok s" and queued: "reg_observation_intents s key = Some index"
    and i: "p_observation_intent (reg_records s ! index) = Some i"
  shows "intent_shape (reg_records s ! index)" "valid_identifier (p_session_id (reg_records s ! index))"
    "hash_observation_intent_body (observation_body_from_wire i) = Inr (oi_intent_digest i)"
    "key = observation_intent_key (p_session_id (reg_records s ! index)) (oi_channel_generation i)
       (oi_intent_id i)"
proof -
  note facts = index_okD(8) [OF ok queued]
  then have "sealed (reg_records s ! index) index"
    using index_okD(1) [OF ok] by blast
  then obtain n where shape: "valid_record_shape (reg_records s ! index) n"
    by (auto simp: sealed_def)
  show "intent_shape (reg_records s ! index)"
    using shape_common(3) [OF shape] facts by (simp add: queued_as_def is_observation_def)
  show "valid_identifier (p_session_id (reg_records s ! index))"
    using shape_common(1) [OF shape] by (simp add: common_shape_def)
  show "hash_observation_intent_body (observation_body_from_wire i) = Inr (oi_intent_digest i)"
    "key = observation_intent_key (p_session_id (reg_records s ! index)) (oi_channel_generation i)
       (oi_intent_id i)"
    using facts i by (auto simp: queued_as_def)
qed

lemma decided_intent_shape:
  assumes "intent_shape original" and "p_observation_intent original = Some i"
    and "p_observation_intent r = Some (i\<lparr>oi_disposition := disposition_name (od_disposition d),
      oi_decided_at_ms := od_decided_at_ms d\<rparr>)"
    and "p_operation r = ''set_observation_intent_disposition_v1''"
    and "od_disposition d \<noteq> Pending" and "\<not> outside_validity_window i d"
  shows "intent_shape r"
  using assms
  by (auto simp: intent_shape_def observation_body_from_wire_def outside_validity_window_def Let_def
      not_less not_le split: option.splits if_splits)

lemma disposition_acceptable:
  assumes ok: "index_ok s"
    and plan: "disposition_plan d digest key s = Inr r"
    and request: "disposition_request_ok d" "hash_observation_intent_disposition d = Inr digest"
    and key: "key = observation_intent_key (od_session_id d) (od_channel_generation d) (od_intent_id d)"
      "reg_quarantined s key = None" "reg_observation_dispositions s key = None"
    and unused: "reg_requests s (''intent-disposition:'' @ digest) = None"
  shows "acceptable jc s r"
proof -
  obtain index i prior where queued: "reg_observation_intents s key = Some index"
    and i: "p_observation_intent (reg_records s ! index) = Some i"
    and binds: "oi_intent_digest i = od_intent_digest d" "\<not> outside_validity_window i d"
    and cur: "current_session s (od_session_id d) = Some prior"
    and r: "r = (copied_successor s prior ''set_observation_intent_disposition_v1''
                 (''intent-disposition:'' @ digest) digest)
               \<lparr>p_observation_intent := Some (i\<lparr>oi_disposition := disposition_name (od_disposition d),
                                              oi_decided_at_ms := od_decided_at_ms d\<rparr>)\<rparr>"
    using plan by (auto simp: disposition_plan_def with_session_Inr split: if_splits option.splits)
  let ?i = "i\<lparr>oi_disposition := disposition_name (od_disposition d), oi_decided_at_ms := od_decided_at_ms d\<rparr>"
  have req: "valid_identifier (od_session_id d)" "od_disposition d \<noteq> Pending"
    using request(1) by (simp_all add: disposition_request_ok_def)
  note original = queued_intent [OF ok queued i]
  have same: "od_session_id d = p_session_id (reg_records s ! index)"
    "od_channel_generation d = oi_channel_generation i" "od_intent_id d = oi_intent_id i"
    using observation_intent_key_inject [OF req(1) original(2)] original(4) key(1) by simp_all
  have digest: "valid_digest digest"
    using hash_valid_digest(13) [OF request(2)] .
  note copy = observation_copy [OF ok cur disjI2 [OF refl] digest_key_valid(2) [OF digest] digest
      unused r]
  have wire: "wire_disposition r ?i (od_disposition d) = d"
    using copy(5) same binds(1) by (cases d) (simp add: wire_disposition_def)
  have "same_observation_intent_binding ?i i"
    by (simp add: same_observation_intent_binding_def)
  then have "accept_disposition s r ?i key = Inr (Disposition_entry key False)"
    using queued i key(2,3) req(2) wire request(2) copy(7,8)
    by (simp add: accept_disposition_def Let_def)
  moreover have "observation_intent_key (p_session_id r) (oi_channel_generation ?i) (oi_intent_id ?i) = key"
    using copy(5) same key(1) by simp
  ultimately have "accept_observation jc s (current_session s (p_session_id r)) r =
      Inr (observation_entry r ?i)"
    using cur copy original(3)
    by (simp add: accept_observation_def observation_entry_def Let_def observation_body_from_wire_def)
  moreover have "intent_shape r"
    by (rule decided_intent_shape [OF original(1) i copy(3,6) req(2) binds(2)])
  ultimately show ?thesis
    using acceptable_observation [OF ok copy(1-3)] by blast
qed

end
