(* ===== verification/Registry_Durability.thy ===== *)
theory Registry_Durability
  imports Observation_Acceptance
begin

text \<open>
  The invariant of a running registry and what one critical section may do to it.  A section leaves
  the registry as it was (possibly poisoned), or it commits one record that recovery accepts; both
  keep the invariant, so that the file of a usable registry is always the image of its records.
\<close>

subsection \<open>The image of the records\<close>

text \<open>The JSON library is a parameter of the model.  The registry relies on one law of it: reading
  back what it wrote gives the value that was written.\<close>

definition codec_faithful :: "json_codec \<Rightarrow> bool" where
  "codec_faithful jc = (\<forall>r payload. write_json jc r = Some payload \<longrightarrow> read_json jc payload = Some r)"

definition payload_of :: "json_codec \<Rightarrow> string \<Rightarrow> persisted_session \<Rightarrow> bool" where
  "payload_of jc payload r =
     (payload \<noteq> [] \<and> length payload \<le> max_record_payload_bytes \<and> read_json jc payload = Some r)"

abbreviation framed :: "json_codec \<Rightarrow> persisted_session list \<Rightarrow> bytes \<Rightarrow> bool" where
  "framed jc \<equiv> framed_by (payload_of jc)"

lemma encode_record_frame:
  assumes "codec_faithful jc" and "encode_record jc r = Inr frame"
  shows "\<exists>payload. payload_of jc payload r \<and> frame = frame_of payload"
  using assms
  by (auto simp: encode_record_def append_u32_enc payload_of_def frame_of_def codec_faithful_def
      split: option.splits if_splits)

definition collaborators_ok :: "registry \<Rightarrow> bool" where
  "collaborators_ok s =
     ((\<forall>plan now_ms d. canonicalize_json (reg_validator s) plan now_ms = Inr d \<longrightarrow> plan_document_ok d) \<and>
      (\<forall>host. reg_channels s = Some host \<longrightarrow> catalog_ok host))"

definition imaged :: "json_codec \<Rightarrow> registry \<Rightarrow> bool" where
  "imaged jc s =
     ((\<exists>body. framed jc (reg_records s) body \<and> file_bytes s = registry_magic @ body) \<and>
      unat (reg_durable_bytes s) = length (file_bytes s) \<and>
      reg_durable_bytes s \<le> reg_max_bytes s)"

definition well_formed :: "json_codec \<Rightarrow> registry \<Rightarrow> bool" where
  "well_formed jc s =
     (codec_faithful jc \<and> replayable jc s \<and> collaborators_ok s \<and> length (reg_records s) \<le> max_records \<and>
      unat (reg_max_bytes s) \<le> off_t_max \<and> (reg_poisoned s \<or> imaged jc s))"

lemma well_formedD:
  assumes "well_formed jc s"
  shows "index_ok s" "collaborators_ok s" "length (reg_records s) \<le> max_records"
    "\<not> reg_poisoned s \<Longrightarrow> imaged jc s" "\<not> reg_poisoned s \<Longrightarrow> length (file_bytes s) < 2 ^ 63"
proof -
  show "index_ok s" "collaborators_ok s" "length (reg_records s) \<le> max_records"
    "\<not> reg_poisoned s \<Longrightarrow> imaged jc s"
    using assms by (auto simp: well_formed_def intro: replayable_index_ok)
  assume "\<not> reg_poisoned s"
  then have "unat (reg_durable_bytes s) = length (file_bytes s)"
    "unat (reg_durable_bytes s) \<le> unat (reg_max_bytes s)"
    using assms by (auto simp: well_formed_def imaged_def word_le_nat_alt)
  then show "length (file_bytes s) < 2 ^ 63"
    using assms by (simp add: well_formed_def off_t_max_def)
qed

subsection \<open>What a section may do\<close>

definition advances :: "json_codec \<Rightarrow> registry \<Rightarrow> registry \<Rightarrow> bool" where
  "advances jc s s' =
     (s' = s \<or> rolled_back s s' \<or>
      (\<exists>r. committed jc s r s' \<and> acceptable jc s r \<and> length (reg_records s) < max_records))"

lemma last_hash_cong: "same_index s t \<Longrightarrow> last_hash t = last_hash s"
  by (simp add: same_index_iff last_hash_def)

lemma acceptable_cong:
  assumes "same_index s t" and "acceptable jc s r"
  shows "acceptable jc t r"
  unfolding acceptable_def last_hash_cong [OF assms(1)]
proof (intro allI impI)
  fix h
  assume "hash_record r = Inr h"
  with assms(2) obtain s1 where
      s1: "accept_recovered_record jc s (r\<lparr>p_this_hash := h\<rparr>) (last_hash s) = Inr s1"
      "same_index s1 (index_appended s (r\<lparr>p_this_hash := h\<rparr>))"
    by (auto simp: acceptable_def)
  obtain t1 where "accept_recovered_record jc t (r\<lparr>p_this_hash := h\<rparr>) (last_hash s) = Inr t1"
      "same_index s1 t1"
    using accept_recovered_cong [OF assms(1) s1(1)] by blast
  moreover have "same_index t1 (index_appended t (r\<lparr>p_this_hash := h\<rparr>))"
    using \<open>same_index s1 t1\<close> s1(2) index_appended_same_index [OF assms(1)]
    by (metis same_index_trans same_index_sym)
  ultimately show "\<exists>s1. accept_recovered_record jc t (r\<lparr>p_this_hash := h\<rparr>) (last_hash s) = Inr s1 \<and>
      same_index s1 (index_appended t (r\<lparr>p_this_hash := h\<rparr>))"
    by blast
qed

lemma collaborators_ok_cong: "same_index s t \<Longrightarrow> collaborators_ok t = collaborators_ok s"
  by (simp add: same_index_iff collaborators_ok_def)

lemma well_formed_rolled_back:
  assumes "well_formed jc s" and "\<not> reg_poisoned s" and "rolled_back s s'"
  shows "well_formed jc s'"
proof -
  have same: "same_index s s'" "reg_poisoned s' \<or> file_bytes s' = file_bytes s"
      "reg_durable_bytes s' = reg_durable_bytes s"
    using assms(3) by (auto simp: rolled_back_def)
  then have "reg_poisoned s' \<or> imaged jc s'"
    using well_formedD(4) [OF assms(1,2)] by (auto simp: imaged_def same_index_iff)
  with assms(1) same(1) replayable_cong [OF same(1)] show ?thesis
    by (auto simp: well_formed_def collaborators_ok_cong) (simp_all add: same_index_iff)
qed

lemma committed_imaged:
  assumes wf: "well_formed jc s" and usable: "\<not> reg_poisoned s" and committed: "committed jc s r s'"
  shows "imaged jc s'"
proof -
  obtain h frame where h: "hash_record r = Inr h" "encode_record jc (r\<lparr>p_this_hash := h\<rparr>) = Inr frame"
    and fits: "length frame \<le> unat (reg_max_bytes s - reg_durable_bytes s)"
    and bytes: "file_bytes s' = file_bytes s @ frame"
    and durable: "reg_durable_bytes s' = reg_durable_bytes s + of_nat (length frame)"
    and index: "same_index (index_appended s (r\<lparr>p_this_hash := h\<rparr>)) s'"
    using committed by (auto simp: committed_def split: sum.splits)
  have "codec_faithful jc"
    using wf by (simp add: well_formed_def)
  then obtain payload where payload: "payload_of jc payload (r\<lparr>p_this_hash := h\<rparr>)" "frame = frame_of payload"
    using encode_record_frame h(2) by blast
  obtain body where body: "framed jc (reg_records s) body" "file_bytes s = registry_magic @ body"
    and len: "unat (reg_durable_bytes s) = length (file_bytes s)"
    and le: "reg_durable_bytes s \<le> reg_max_bytes s"
    using well_formedD(4) [OF wf usable] by (auto simp: imaged_def)
  have room: "unat (reg_durable_bytes s) + length frame \<le> unat (reg_max_bytes s)"
    using fits le by (simp add: unat_sub word_le_nat_alt)
  then have "unat (reg_durable_bytes s') = unat (reg_durable_bytes s) + length frame"
    using durable unsigned_less [of "reg_max_bytes s", where 'a = nat]
    by (simp add: unat_word_ariths unsigned_of_nat take_bit_nat_eq_self)
  moreover have "reg_records s' = reg_records s @ [r\<lparr>p_this_hash := h\<rparr>]" "reg_max_bytes s' = reg_max_bytes s"
    using index by (simp_all add: same_index_iff index_appended_laws)
  ultimately show ?thesis
    using framed_by_snoc [OF body(1) payload(1)] payload(2) body(2) bytes len room
    by (auto simp: imaged_def word_le_nat_alt)
qed

lemma committed_replayable:
  assumes "replayable jc s" and "committed jc s r s'" and "acceptable jc s r"
  shows "replayable jc s'"
proof -
  obtain h where h: "hash_record r = Inr h" "same_index (index_appended s (r\<lparr>p_this_hash := h\<rparr>)) s'"
    using assms(2) by (auto simp: committed_def split: sum.splits)
  with assms(3) obtain s1 where "accept_recovered_record jc s (r\<lparr>p_this_hash := h\<rparr>) (last_hash s) = Inr s1"
      "same_index s1 (index_appended s (r\<lparr>p_this_hash := h\<rparr>))"
    by (auto simp: acceptable_def)
  with assms(1) h(2) show ?thesis
    using replayable_extend same_index_trans by blast
qed

lemma committed_records:
  assumes "committed jc s r s'"
  shows "\<exists>h. hash_record r = Inr h \<and> reg_records s' = reg_records s @ [r\<lparr>p_this_hash := h\<rparr>]"
  using assms by (auto simp: committed_def same_index_iff index_appended_laws split: sum.splits)

lemma well_formed_advances:
  assumes wf: "well_formed jc s" and usable: "\<not> reg_poisoned s" and step: "advances jc s s'"
  shows "well_formed jc s'"
  using step unfolding advances_def
proof (elim disjE exE conjE)
  assume "s' = s"
  with wf show ?thesis by simp
next
  assume "rolled_back s s'"
  with wf usable show ?thesis by (rule well_formed_rolled_back)
next
  fix r
  assume r: "committed jc s r s'" "acceptable jc s r" "length (reg_records s) < max_records"
  have "reg_validator s' = reg_validator s" "reg_channels s' = reg_channels s"
    "reg_max_bytes s' = reg_max_bytes s"
    using r(1) by (auto simp: committed_def same_index_iff index_appended_laws split: sum.splits)
  then show ?thesis
    using wf committed_imaged [OF wf usable r(1)] committed_replayable [OF _ r(1,2)]
      committed_records [OF r(1)] r(3)
    by (auto simp: well_formed_def collaborators_ok_def)
qed

lemma advances_after:
  assumes "rolled_back s s1" and "\<not> reg_poisoned s1" and "advances jc s1 s'"
  shows "advances jc s s'"
proof -
  have same: "same_index s s1" "file_bytes s1 = file_bytes s"
      "reg_durable_bytes s1 = reg_durable_bytes s"
    using assms(1,2) by (auto simp: rolled_back_def)
  then have "length (reg_records s1) = length (reg_records s)"
    by (simp add: same_index_iff)
  then show ?thesis
    using assms(3) rolled_back_cong [OF same] committed_cong [OF same]
      acceptable_cong [OF same_index_sym [OF same(1)]]
    unfolding advances_def using assms(1) by metis
qed

end
