(* ===== verification/Registry_Sections.thy ===== *)
theory Registry_Sections
  imports Registry_Durability
begin

text \<open>
  Every operation of the registry that writes, as an instance of one contract: a poisoned registry
  refuses it unchanged, and on a well-formed registry it leaves the records as they were or commits
  exactly one record that recovery accepts.  The laws the clients use are proved once in the locale.
\<close>

subsection \<open>The contract of a durable operation\<close>

locale durable_operation =
  fixes codec :: json_codec
    and operation :: "registry \<Rightarrow> 'a registry_result \<times> registry"
    and guard :: "registry \<Rightarrow> bool"
  assumes refuses: "reg_poisoned s \<Longrightarrow> \<exists>e. operation s = (Inl e, s)"
    and durable: "well_formed codec s \<Longrightarrow> \<not> reg_poisoned s \<Longrightarrow> guard s \<Longrightarrow> operation s = (result, s') \<Longrightarrow>
      advances codec s s'"
begin

lemma preserves:
  assumes "well_formed codec s" and "guard s"
  shows "well_formed codec (snd (operation s))"
proof (cases "reg_poisoned s")
  case True
  then show ?thesis using refuses assms(1) by fastforce
next
  case False
  then show ?thesis
    using durable [OF assms(1) False assms(2)] well_formed_advances [OF assms(1) False]
    by (metis prod.collapse)
qed

lemma appends_at_most_one:
  assumes "well_formed codec s" and "guard s"
  shows "reg_records (snd (operation s)) = reg_records s \<or>
    (\<exists>r. reg_records (snd (operation s)) = reg_records s @ [r])"
proof (cases "reg_poisoned s")
  case True
  then show ?thesis using refuses by fastforce
next
  case False
  have "advances codec s (snd (operation s))"
    using durable [OF assms(1) False assms(2)] by (metis prod.collapse)
  then show ?thesis
    using committed_records by (fastforce simp: advances_def rolled_back_def same_index_iff)
qed

lemma keeps_records:
  assumes "well_formed codec s" and "guard s" and "i < length (reg_records s)"
  shows "i < length (reg_records (snd (operation s)))"
    "reg_records (snd (operation s)) ! i = reg_records s ! i"
  using appends_at_most_one [OF assms(1,2)] assms(3) by (auto simp: nth_append)

end

subsection \<open>Critical sections\<close>

lemma locked_laws:
  assumes "locked s body = (result, s')"
  shows "(\<exists>e. result = Inl e) \<and> rolled_back s s' \<and> reg_poisoned s' \<or>
    (\<exists>s1. rolled_back s s1 \<and> same_index s s1 \<and> \<not> reg_poisoned s \<and> \<not> reg_poisoned s1 \<and>
      body s1 = (result, s'))"
proof -
  obtain refused s1 where u: "unusable s = (refused, s1)"
    by fastforce
  have "rolled_back s s1" "same_index s s1" "reg_poisoned s1 = refused"
    using unusable_laws [OF u] by (auto simp: rolled_back_def)
  moreover have "\<not> refused \<Longrightarrow> \<not> reg_poisoned s"
    using u by (simp add: unusable_def split: if_splits)
  ultimately show ?thesis
    using assms u by (cases refused) (auto simp: locked_def)
qed

lemma locked_poisoned: "reg_poisoned s \<Longrightarrow> locked s body = (Inl (storage_failure ''session registry is poisoned''), s)"
  by (simp add: locked_def unusable_def)

lemma find_replay_None: "find_replay s key matches conflict project = Inr None \<longleftrightarrow> reg_requests s key = None"
  by (auto simp: find_replay_def Let_def and_then_Inr split: option.splits)

lemma transition_poisoned:
  "reg_poisoned s \<Longrightarrow>
     transition jc (locked s body) plan respond =
       (Inl (storage_failure ''session registry is poisoned''), s)"
  by (simp add: transition_def locked_poisoned)

text \<open>What a plan has to deliver for the transition built on it to be durable.\<close>

definition plans :: "json_codec \<Rightarrow> (registry \<Rightarrow> persisted_session registry_result \<times> registry) \<Rightarrow> registry \<Rightarrow> bool" where
  "plans jc plan s =
     (case plan s of
        (Inl e, s2) \<Rightarrow> s2 = s \<or> s2 = s\<lparr>reg_poisoned := True\<rparr>
      | (Inr r, s2) \<Rightarrow> s2 = s \<and> acceptable jc s r \<and> length (reg_records s) < max_records)"

lemma plans_pure:
  assumes "\<And>r. plan s = Inr r \<Longrightarrow> acceptable jc s r \<and> length (reg_records s) < max_records"
  shows "plans jc (pure_plan plan) s"
  using assms by (auto simp: plans_def pure_plan_def split: sum.splits)

lemma transition_advances:
  assumes wf: "well_formed jc s"
    and step: "transition jc (locked s (\<lambda>s1. (look s1, s1))) plan respond = (result, s')"
    and plan: "\<And>s1. same_index s s1 \<Longrightarrow> well_formed jc s1 \<Longrightarrow> look s1 = Inr None \<Longrightarrow> plans jc plan s1"
  shows "advances jc s s'"
proof -
  obtain found s1 where l: "locked s (\<lambda>s1. (look s1, s1)) = (found, s1)"
    by fastforce
  consider (replay) "s' = s1" "rolled_back s s1"
    | (planned) "rolled_back s s1" "same_index s s1" "\<not> reg_poisoned s" "\<not> reg_poisoned s1"
        "look s1 = Inr None" "found = Inr None"
    using locked_laws [OF l] step
    by (auto simp: transition_def l split: sum.splits option.splits)
  then show ?thesis
  proof cases
    case replay
    then show ?thesis by (simp add: advances_def)
  next
    case planned
    have wf1: "well_formed jc s1"
      using wf planned by (blast intro: well_formed_rolled_back)
    obtain p s2 where p: "plan s1 = (p, s2)"
      by fastforce
    have "advances jc s1 s'"
    proof (cases p)
      case (Inl e)
      then have "s' = s2" "s2 = s1 \<or> reg_poisoned s2 \<and> rolled_back s1 s2"
        using step plan [OF planned(2) wf1 planned(5)]
        by (auto simp: transition_def l planned(6) p plans_def rolled_back_def same_index_iff)
      moreover have "rolled_back s1 s1"
        using planned(1,4) by (auto simp: rolled_back_def)
      ultimately show ?thesis by (auto simp: advances_def)
    next
      case (Inr r)
      then have r: "s2 = s1" "acceptable jc s1 r" "length (reg_records s1) < max_records"
        using plan [OF planned(2) wf1 planned(5)] by (auto simp: plans_def p)
      obtain a s3 where a: "append_record_locked jc s1 r = (a, s3)"
        by fastforce
      then have "s' = s3"
        using step Inr r(1) by (auto simp: transition_def l planned(6) p split: sum.splits)
      then show ?thesis
        using append_record_locked_laws [OF a well_formedD(5) [OF wf1 planned(4)]] r
        by (auto simp: advances_def)
    qed
    then show ?thesis
      by (rule advances_after [OF planned(1,4)])
  qed
qed

end
