(* ===== verification/Registry_Contracts.thy ===== *)
theory Registry_Contracts
  imports Registry_Sections
begin

text \<open>
  Every writing operation of the registry meets the contract of \<open>durable_operation\<close>.  The guards
  are the conditions under which the source keeps its own file recoverable; where a guard is not
  \<open>True\<close> the operation does not check it itself.
\<close>

lemma advances_refl [simp, intro]: "advances jc s s"
  by (simp add: advances_def)

lemma records_cong: "same_index s s1 \<Longrightarrow> current_session s1 = current_session s"
  by (rule current_session_cong)

text \<open>A plan that answers a record has checked the record limit.\<close>

lemma plan_capacity:
  "create_plan session_id cpd digest key canonical content now_ms s = Inr r \<Longrightarrow> length (reg_records s) < max_records"
  "reserve_start_plan a digest key plan s = Inr r \<Longrightarrow> length (reg_records s) < max_records"
  "mark_starting_plan b digest key now_ms s = Inr r \<Longrightarrow> length (reg_records s) < max_records"
  "mark_running_plan c digest key now_ms s = Inr r \<Longrightarrow> length (reg_records s) < max_records"
  "mark_stopping_plan c digest key now_ms s = Inr r \<Longrightarrow> length (reg_records s) < max_records"
  "mark_managed_starting_plan mb digest key now_ms s = Inr r \<Longrightarrow> length (reg_records s) < max_records"
  "mark_managed_running_plan mc digest key now_ms s = Inr r \<Longrightarrow> length (reg_records s) < max_records"
  "mark_managed_stopping_plan mc digest key now_ms s = Inr r \<Longrightarrow> length (reg_records s) < max_records"
  "mark_managed_exited_plan t digest key s = Inr r \<Longrightarrow> length (reg_records s) < max_records"
  "mark_managed_failed_plan fc digest key now_ms s = Inr r \<Longrightarrow> length (reg_records s) < max_records"
  "enqueue_plan jc descriptor body x intent_digest now_ms s = Inr r \<Longrightarrow> length (reg_records s) < max_records"
  "disposition_plan d digest key s = Inr r \<Longrightarrow> length (reg_records s) < max_records"
  by (auto simp: create_plan_def reserve_start_plan_def mark_starting_plan_def mark_running_plan_def
      mark_stopping_plan_def mark_managed_starting_plan_def mark_managed_running_plan_def
      mark_managed_stopping_plan_def mark_managed_exited_plan_def mark_managed_failed_plan_def
      enqueue_plan_def disposition_plan_def with_session_Inr not_le
      dest!: and_then_eligible_Inr split: if_splits sum.splits option.splits)

lemma keyed_transition:
  assumes "well_formed jc s"
    and "transition jc (locked s (\<lambda>s1. (find_replay s1 key matches conflict (project s1), s1)))
      (pure_plan plan) respond = (result, s')"
    and "\<And>s1 r. same_index s s1 \<Longrightarrow> index_ok s1 \<Longrightarrow> reg_requests s1 key = None \<Longrightarrow> plan s1 = Inr r \<Longrightarrow>
      acceptable jc s1 r"
    and "\<And>s1 r. plan s1 = Inr r \<Longrightarrow> length (reg_records s1) < max_records"
  shows "advances jc s s'"
  using assms(1,2)
proof (rule transition_advances)
  fix s1
  assume "same_index s s1" "well_formed jc s1"
    "find_replay s1 key matches conflict (project s1) = Inr None"
  then show "plans jc (pure_plan plan) s1"
    using assms(3,4) by (intro plans_pure) (auto simp: find_replay_None dest: well_formedD(1))
qed

text \<open>The plans that look at the durable process identity may also poison the registry.\<close>

lemma impure_transition:
  assumes "well_formed jc s"
    and "transition jc (locked s (\<lambda>s1. (find_replay s1 key matches conflict (project s1), s1)))
      plan respond = (result, s')"
    and "\<And>s1 r s2. same_index s s1 \<Longrightarrow> index_ok s1 \<Longrightarrow> reg_requests s1 key = None \<Longrightarrow>
      plan s1 = (Inr r, s2) \<Longrightarrow> acceptable jc s1 r \<and> s2 = s1"
    and "\<And>s1 r s2. plan s1 = (Inr r, s2) \<Longrightarrow> length (reg_records s1) < max_records"
    and "\<And>s1 e s2. plan s1 = (Inl e, s2) \<Longrightarrow> s2 = s1 \<or> s2 = s1\<lparr>reg_poisoned := True\<rparr>"
  shows "advances jc s s'"
  using assms(1,2)
proof (rule transition_advances)
  fix s1
  assume s1: "same_index s s1" "well_formed jc s1"
    "find_replay s1 key matches conflict (project s1) = Inr None"
  obtain p s2 where p: "plan s1 = (p, s2)" by fastforce
  show "plans jc plan s1"
  proof (cases p)
    case (Inl e)
    then show ?thesis using assms(5) p by (simp add: plans_def)
  next
    case (Inr r)
    have "acceptable jc s1 r \<and> s2 = s1"
      using assms(3) [OF s1(1) well_formedD(1) [OF s1(2)]] s1(3) p Inr by (simp add: find_replay_None)
    then show ?thesis
      using assms(4) [of s1 r s2] p Inr by (simp add: plans_def)
  qed
qed

lemma impure_plan_laws:
  "mark_exited_plan jc t digest key s = (Inr r, s2) \<Longrightarrow> length (reg_records s) < max_records"
  "mark_refinement_exited_plan jc t' digest key s = (Inr r, s2) \<Longrightarrow> length (reg_records s) < max_records"
  "mark_failed_plan c digest key now_ms s = (Inr r, s2) \<Longrightarrow> length (reg_records s) < max_records"
  "mark_exited_plan jc t digest key s = (Inl e, s2) \<Longrightarrow> s2 = s \<or> s2 = s\<lparr>reg_poisoned := True\<rparr>"
  "mark_refinement_exited_plan jc t' digest key s = (Inl e, s2) \<Longrightarrow> s2 = s \<or> s2 = s\<lparr>reg_poisoned := True\<rparr>"
  "mark_failed_plan c digest key now_ms s = (Inl e, s2) \<Longrightarrow> s2 = s \<or> s2 = s\<lparr>reg_poisoned := True\<rparr>"
  by (auto simp: mark_exited_plan_def mark_refinement_exited_plan_def mark_failed_plan_def Let_def
      not_le split: if_splits option.splits)

subsection \<open>Launch transitions\<close>

definition starting_clock :: "string \<Rightarrow> u64 \<Rightarrow> registry \<Rightarrow> bool" where
  "starting_clock session_id now_ms s =
     (case current_session s session_id of
        None \<Rightarrow> True | Some prior \<Rightarrow> p_authorized_at_ms prior \<le> now_ms)"

lemma starting_clockD:
  "starting_clock session_id now_ms s \<Longrightarrow> same_index s s1 \<Longrightarrow>
     current_session s1 session_id = Some prior \<Longrightarrow> p_authorized_at_ms prior \<le> now_ms"
  by (simp add: starting_clock_def records_cong)

lemma mark_starting_durable:
  assumes wf: "well_formed jc s" and guard: "starting_clock (eb_session_id b) now_ms s"
    and step: "mark_starting jc b reservation key now_ms s = (result, s')"
  shows "advances jc s s'"
proof (cases "s' = s")
  case False
  then obtain digest respond where ok: "mark_starting_request_ok b key now_ms"
      "hash_execution_binding b = Inr digest"
    and t: "transition jc (find_starting_replay_locked b digest key s) (pure_plan (mark_starting_plan b digest key now_ms)) respond = (result, s')"
    using step by (auto simp: mark_starting_def split: if_splits sum.splits)
  show ?thesis
  proof (rule keyed_transition [OF wf t [unfolded find_starting_replay_locked_def]])
    fix s1 r
    assume s1: "same_index s s1" "index_ok s1" "reg_requests s1 key = None" "mark_starting_plan b digest key now_ms s1 = Inr r"
    show "acceptable jc s1 r"
      by (rule mark_starting_acceptable [OF s1(2,4) ok starting_clockD [OF guard s1(1)] s1(3)])
  qed (rule plan_capacity(3))
qed simp

interpretation starting: durable_operation jc "mark_starting jc b reservation key now_ms" "starting_clock (eb_session_id b) now_ms"
  for jc b reservation key now_ms
proof
  show "\<exists>e. mark_starting jc b reservation key now_ms s = (Inl e, s)" if "reg_poisoned s" for s
    using that
    by (simp add: mark_starting_def find_starting_replay_locked_def transition_poisoned split: sum.split)
qed (rule mark_starting_durable)

lemma mark_managed_starting_durable:
  assumes wf: "well_formed jc s" and guard: "starting_clock (mb_session_id b) now_ms s"
    and step: "mark_managed_starting jc b reservation key now_ms s = (result, s')"
  shows "advances jc s s'"
proof (cases "s' = s")
  case False
  then obtain digest respond where ok: "managed_starting_request_ok b key now_ms"
      "hash_managed_execution_binding b = Inr digest"
    and t: "transition jc (find_managed_starting_replay b digest key s) (pure_plan (mark_managed_starting_plan b digest key now_ms)) respond = (result, s')"
    using step by (auto simp: mark_managed_starting_def split: if_splits sum.splits)
  show ?thesis
  proof (rule keyed_transition [OF wf t [unfolded find_managed_starting_replay_def]])
    fix s1 r
    assume s1: "same_index s s1" "index_ok s1" "reg_requests s1 key = None" "mark_managed_starting_plan b digest key now_ms s1 = Inr r"
    show "acceptable jc s1 r"
      by (rule mark_managed_starting_acceptable [OF s1(2,4) ok starting_clockD [OF guard s1(1)] s1(3)])
  qed (rule plan_capacity(6))
qed simp

interpretation managed_starting: durable_operation jc "mark_managed_starting jc b reservation key now_ms" "starting_clock (mb_session_id b) now_ms"
  for jc b reservation key now_ms
proof
  show "\<exists>e. mark_managed_starting jc b reservation key now_ms s = (Inl e, s)" if "reg_poisoned s" for s
    using that
    by (simp add: mark_managed_starting_def find_managed_starting_replay_def transition_poisoned split: sum.split)
qed (rule mark_managed_starting_durable)

lemma mark_running_durable:
  assumes wf: "well_formed jc s"
    and step: "mark_running jc c reservation key now_ms s = (result, s')"
  shows "advances jc s s'"
proof (cases "s' = s")
  case False
  then obtain digest respond where ok: "commitment_request_ok c key now_ms"
      "hash_running_commitment c = Inr digest"
    and t: "transition jc (find_running_replay_locked c digest key s) (pure_plan (mark_running_plan c digest key now_ms)) respond = (result, s')"
    using step by (auto simp: mark_running_def split: if_splits sum.splits)
  show ?thesis
  proof (rule keyed_transition [OF wf t [unfolded find_running_replay_locked_def]])
    fix s1 r
    assume s1: "same_index s s1" "index_ok s1" "reg_requests s1 key = None" "mark_running_plan c digest key now_ms s1 = Inr r"
    show "acceptable jc s1 r"
      by (rule mark_running_acceptable [OF s1(2,4) ok s1(3)])
  qed (rule plan_capacity(4))
qed simp

interpretation running: durable_operation jc "mark_running jc c reservation key now_ms" "\<lambda>s. True"
  for jc c reservation key now_ms
proof
  show "\<exists>e. mark_running jc c reservation key now_ms s = (Inl e, s)" if "reg_poisoned s" for s
    using that
    by (simp add: mark_running_def find_running_replay_locked_def transition_poisoned split: sum.split)
qed (rule mark_running_durable)

lemma mark_stopping_durable:
  assumes wf: "well_formed jc s"
    and step: "mark_stopping jc c key now_ms s = (result, s')"
  shows "advances jc s s'"
proof (cases "s' = s")
  case False
  then obtain digest respond where ok: "commitment_request_ok c key now_ms"
      "hash_stopping_commitment c = Inr digest"
    and t: "transition jc (find_stopping_replay_locked c digest key s) (pure_plan (mark_stopping_plan c digest key now_ms)) respond = (result, s')"
    using step by (auto simp: mark_stopping_def split: if_splits sum.splits)
  show ?thesis
  proof (rule keyed_transition [OF wf t [unfolded find_stopping_replay_locked_def]])
    fix s1 r
    assume s1: "same_index s s1" "index_ok s1" "reg_requests s1 key = None" "mark_stopping_plan c digest key now_ms s1 = Inr r"
    show "acceptable jc s1 r"
      by (rule mark_stopping_acceptable [OF s1(2,4) ok s1(3)])
  qed (rule plan_capacity(5))
qed simp

interpretation stopping: durable_operation jc "mark_stopping jc c key now_ms" "\<lambda>s. True"
  for jc c key now_ms
proof
  show "\<exists>e. mark_stopping jc c key now_ms s = (Inl e, s)" if "reg_poisoned s" for s
    using that
    by (simp add: mark_stopping_def find_stopping_replay_locked_def transition_poisoned split: sum.split)
qed (rule mark_stopping_durable)

lemma mark_managed_running_durable:
  assumes wf: "well_formed jc s"
    and step: "mark_managed_running jc c reservation key now_ms s = (result, s')"
  shows "advances jc s s'"
proof (cases "s' = s")
  case False
  then obtain digest respond where ok: "managed_request_ok c key now_ms"
      "hash_managed_running_commitment c ''glove.managed-session-running-commitment'' = Inr digest"
    and t: "transition jc (find_managed_replay ''mark_managed_running'' ''managed running idempotency payload changed'' c digest key s) (pure_plan (mark_managed_running_plan c digest key now_ms)) respond = (result, s')"
    using step by (auto simp: mark_managed_running_def split: if_splits sum.splits)
  show ?thesis
  proof (rule keyed_transition [OF wf t [unfolded find_managed_replay_def]])
    fix s1 r
    assume s1: "same_index s s1" "index_ok s1" "reg_requests s1 key = None" "mark_managed_running_plan c digest key now_ms s1 = Inr r"
    show "acceptable jc s1 r"
      by (rule mark_managed_running_acceptable [OF s1(2,4) ok s1(3)])
  qed (rule plan_capacity(7))
qed simp

interpretation managed_running: durable_operation jc "mark_managed_running jc c reservation key now_ms" "\<lambda>s. True"
  for jc c reservation key now_ms
proof
  show "\<exists>e. mark_managed_running jc c reservation key now_ms s = (Inl e, s)" if "reg_poisoned s" for s
    using that
    by (simp add: mark_managed_running_def find_managed_replay_def transition_poisoned split: sum.split)
qed (rule mark_managed_running_durable)

lemma mark_managed_stopping_durable:
  assumes wf: "well_formed jc s"
    and step: "mark_managed_stopping jc c key now_ms s = (result, s')"
  shows "advances jc s s'"
proof (cases "s' = s")
  case False
  then obtain digest respond where ok: "managed_request_ok c key now_ms"
      "hash_managed_running_commitment c ''glove.managed-session-stopping-commitment'' = Inr digest"
    and t: "transition jc (find_managed_replay ''mark_managed_stopping'' ''managed stopping idempotency payload changed'' c digest key s) (pure_plan (mark_managed_stopping_plan c digest key now_ms)) respond = (result, s')"
    using step by (auto simp: mark_managed_stopping_def split: if_splits sum.splits)
  show ?thesis
  proof (rule keyed_transition [OF wf t [unfolded find_managed_replay_def]])
    fix s1 r
    assume s1: "same_index s s1" "index_ok s1" "reg_requests s1 key = None" "mark_managed_stopping_plan c digest key now_ms s1 = Inr r"
    show "acceptable jc s1 r"
      by (rule mark_managed_stopping_acceptable [OF s1(2,4) ok s1(3)])
  qed (rule plan_capacity(8))
qed simp

interpretation managed_stopping: durable_operation jc "mark_managed_stopping jc c key now_ms" "\<lambda>s. True"
  for jc c key now_ms
proof
  show "\<exists>e. mark_managed_stopping jc c key now_ms s = (Inl e, s)" if "reg_poisoned s" for s
    using that
    by (simp add: mark_managed_stopping_def find_managed_replay_def transition_poisoned split: sum.split)
qed (rule mark_managed_stopping_durable)

lemma mark_managed_failed_durable:
  assumes wf: "well_formed jc s"
    and step: "mark_managed_failed jc c key now_ms s = (result, s')"
  shows "advances jc s s'"
proof (cases "s' = s")
  case False
  then obtain digest respond where ok: "managed_failure_request_ok c key now_ms"
      "hash_failure_commitment c = Inr digest"
    and t: "transition jc (find_managed_failure_replay c digest key s) (pure_plan (mark_managed_failed_plan c digest key now_ms)) respond = (result, s')"
    using step by (auto simp: mark_managed_failed_def split: if_splits sum.splits)
  show ?thesis
  proof (rule keyed_transition [OF wf t [unfolded find_managed_failure_replay_def]])
    fix s1 r
    assume s1: "same_index s s1" "index_ok s1" "reg_requests s1 key = None" "mark_managed_failed_plan c digest key now_ms s1 = Inr r"
    show "acceptable jc s1 r"
      by (rule mark_managed_failed_acceptable [OF s1(2,4) ok s1(3)])
  qed (rule plan_capacity(10))
qed simp

interpretation managed_failed: durable_operation jc "mark_managed_failed jc c key now_ms" "\<lambda>s. True"
  for jc c key now_ms
proof
  show "\<exists>e. mark_managed_failed jc c key now_ms s = (Inl e, s)" if "reg_poisoned s" for s
    using that
    by (simp add: mark_managed_failed_def find_managed_failure_replay_def transition_poisoned split: sum.split)
qed (rule mark_managed_failed_durable)

lemma mark_managed_exited_durable:
  assumes wf: "well_formed jc s"
    and step: "mark_managed_exited jc producer t key s = (result, s')"
  shows "advances jc s s'"
proof (cases "s' = s")
  case False
  then obtain digest respond where ok: "terminal_request_ok t key"
      "hash_terminal_envelope t = Inr digest"
    and t: "transition jc (find_managed_exited_replay t digest key s) (pure_plan (mark_managed_exited_plan t digest key)) respond = (result, s')"
    using step by (auto simp: mark_managed_exited_def split: if_splits sum.splits)
  show ?thesis
  proof (rule keyed_transition [OF wf t [unfolded find_managed_exited_replay_def]])
    fix s1 r
    assume s1: "same_index s s1" "index_ok s1" "reg_requests s1 key = None" "mark_managed_exited_plan t digest key s1 = Inr r"
    show "acceptable jc s1 r"
      by (rule mark_managed_exited_acceptable [OF s1(2,4) ok s1(3)])
  qed (rule plan_capacity(9))
qed simp

interpretation managed_exited: durable_operation jc "mark_managed_exited jc producer t key" "\<lambda>s. True"
  for jc producer t key
proof
  show "\<exists>e. mark_managed_exited jc producer t key s = (Inl e, s)" if "reg_poisoned s" for s
    using that
    by (simp add: mark_managed_exited_def find_managed_exited_replay_def transition_poisoned split: sum.split)
qed (rule mark_managed_exited_durable)

subsection \<open>Terminal transitions\<close>

definition direct_session :: "string \<Rightarrow> registry \<Rightarrow> bool" where
  "direct_session session_id s =
     (case current_session s session_id of
        None \<Rightarrow> True | Some prior \<Rightarrow> p_managed_runtime_identity prior = None)"

lemma direct_sessionD:
  "direct_session session_id s \<Longrightarrow> same_index s s1 \<Longrightarrow>
     current_session s1 session_id = Some prior \<Longrightarrow> p_managed_runtime_identity prior = None"
  by (simp add: direct_session_def records_cong)

lemma mark_exited_durable:
  assumes wf: "well_formed jc s"
    and step: "mark_exited jc producer t key s = (result, s')"
  shows "advances jc s s'"
proof (cases "s' = s")
  case False
  then obtain digest respond where ok: "terminal_request_ok t key"
      "hash_terminal_envelope t = Inr digest"
    and t: "transition jc (find_exited_replay_locked t digest key s) (mark_exited_plan jc t digest key) respond = (result, s')"
    using step by (auto simp: mark_exited_def split: if_splits sum.splits)
  show ?thesis
  proof (rule impure_transition [OF wf t [unfolded find_exited_replay_locked_def]])
    fix s1 s2 r
    assume s1: "same_index s s1" "index_ok s1" "reg_requests s1 key = None"
      "mark_exited_plan jc t digest key s1 = (Inr r, s2)"
    show "acceptable jc s1 r \<and> s2 = s1"
      using mark_exited_acceptable [OF s1(2,4) ok s1(3)] by blast
  qed (fact impure_plan_laws(1,4))+
qed simp

interpretation exited: durable_operation jc "mark_exited jc producer t key" "\<lambda>s. True"
  for jc producer t key
proof
  show "\<exists>e. mark_exited jc producer t key s = (Inl e, s)" if "reg_poisoned s" for s
    using that
    by (simp add: mark_exited_def find_exited_replay_locked_def transition_poisoned split: sum.split)
qed (rule mark_exited_durable)

lemma mark_refinement_exited_durable:
  assumes wf: "well_formed jc s"
    and step: "mark_refinement_exited jc producer t key s = (result, s')"
  shows "advances jc s s'"
proof (cases "s' = s")
  case False
  then obtain digest respond where ok: "refinement_terminal_request_ok t key"
      "hash_refinement_terminal_envelope t = Inr digest"
    and t: "transition jc (find_refinement_exited_replay_locked t digest key s) (mark_refinement_exited_plan jc t digest key) respond = (result, s')"
    using step by (auto simp: mark_refinement_exited_def split: if_splits sum.splits)
  show ?thesis
  proof (rule impure_transition [OF wf t [unfolded find_refinement_exited_replay_locked_def]])
    fix s1 s2 r
    assume s1: "same_index s s1" "index_ok s1" "reg_requests s1 key = None"
      "mark_refinement_exited_plan jc t digest key s1 = (Inr r, s2)"
    show "acceptable jc s1 r \<and> s2 = s1"
      using mark_refinement_exited_acceptable [OF s1(2,4) ok s1(3)] by blast
  qed (fact impure_plan_laws(2,5))+
qed simp

interpretation refinement_exited: durable_operation jc "mark_refinement_exited jc producer t key" "\<lambda>s. True"
  for jc producer t key
proof
  show "\<exists>e. mark_refinement_exited jc producer t key s = (Inl e, s)" if "reg_poisoned s" for s
    using that
    by (simp add: mark_refinement_exited_def find_refinement_exited_replay_locked_def transition_poisoned split: sum.split)
qed (rule mark_refinement_exited_durable)

lemma mark_failed_durable:
  assumes wf: "well_formed jc s" and guard: "direct_session (fc_session_id c) s"
    and step: "mark_failed jc c key now_ms s = (result, s')"
  shows "advances jc s s'"
proof (cases "s' = s")
  case False
  then obtain digest respond where ok: "failure_request_ok c key now_ms"
      "hash_failure_commitment c = Inr digest"
    and t: "transition jc (find_failure_replay_locked c digest key s) (mark_failed_plan c digest key now_ms) respond = (result, s')"
    using step by (auto simp: mark_failed_def split: if_splits sum.splits)
  show ?thesis
  proof (rule impure_transition [OF wf t [unfolded find_failure_replay_locked_def]])
    fix s1 s2 r
    assume s1: "same_index s s1" "index_ok s1" "reg_requests s1 key = None"
      "mark_failed_plan c digest key now_ms s1 = (Inr r, s2)"
    show "acceptable jc s1 r \<and> s2 = s1"
      using mark_failed_acceptable [OF s1(2,4) ok direct_sessionD [OF guard s1(1)] s1(3)] by blast
  qed (fact impure_plan_laws(3,6))+
qed simp

interpretation failed: durable_operation jc "mark_failed jc c key now_ms" "direct_session (fc_session_id c)"
  for jc c key now_ms
proof
  show "\<exists>e. mark_failed jc c key now_ms s = (Inl e, s)" if "reg_poisoned s" for s
    using that
    by (simp add: mark_failed_def find_failure_replay_locked_def transition_poisoned split: sum.split)
qed (rule mark_failed_durable)

subsection \<open>create and reserve\_start\<close>

text \<open>A read-only section before the committing one.\<close>

lemma locked_pure:
  assumes "locked s (\<lambda>s1. (look s1, s1)) = (result, s1)"
  shows "rolled_back s s1" "result = Inr x \<Longrightarrow> \<not> reg_poisoned s \<and> \<not> reg_poisoned s1 \<and> look s1 = Inr x"
  using locked_laws [OF assms] by auto

lemma rolled_back_index: "rolled_back s s' \<Longrightarrow> same_index s s'"
  by (simp add: rolled_back_def)

lemma create_commit_durable:
  assumes wf: "well_formed jc s"
    and request: "valid_identifier session_id" "valid_digest cpd" "valid_identifier key" "now_ms \<noteq> 0"
      "valid_digest request_digest"
    and content: "hash_plan (vd_canonical_json canonical) = Inr content_digest"
      "plan_document_ok canonical"
    and step: "create_commit jc session_id cpd request_digest key canonical content_digest now_ms s =
      (result, s')"
  shows "advances jc s s'"
proof (rule keyed_transition [OF wf step [unfolded create_commit_def find_create_replay_locked_def
        find_create_replay_def]])
  fix s1 r
  assume s1: "index_ok s1" "reg_requests s1 key = None"
    "create_plan session_id cpd request_digest key canonical content_digest now_ms s1 = Inr r"
  show "acceptable jc s1 r"
    by (rule create_acceptable [OF s1(1,3) request content s1(2)])
qed (rule plan_capacity(1))

lemma create_durable:
  assumes wf: "well_formed jc s"
    and step: "create jc session_id cpd plan_json key now_ms s = (result, s')"
  shows "advances jc s s'"
proof (cases "s' = s")
  case False
  then obtain digest where ok: "valid_identifier session_id" "valid_digest cpd"
      "valid_identifier key" "now_ms \<noteq> 0" "hash_plan plan_json = Inr digest"
    using step by (auto simp: create_def split: if_splits sum.splits)
  obtain found s1 where l: "find_create_replay_locked session_id cpd digest key s = (found, s1)"
    by fastforce
  note critical = locked_pure [OF l [unfolded find_create_replay_locked_def]]
  show ?thesis
  proof (cases "s' = s1")
    case True
    with critical(1) show ?thesis by (simp add: advances_def)
  next
    case False
    then obtain canonical content where found: "found = Inr None"
      and doc: "canonicalize_json (reg_validator s1) plan_json now_ms = Inr canonical"
        "hash_plan (vd_canonical_json canonical) = Inr content"
      and commit: "create_commit jc session_id cpd digest key canonical content now_ms s1 = (result, s')"
      using step ok l by (auto simp: create_def split: sum.splits option.splits)
    have wf1: "well_formed jc s1"
      using wf critical(1) critical(2) [OF found] by (blast intro: well_formed_rolled_back)
    have "plan_document_ok canonical"
      using well_formedD(2) [OF wf1] doc(1) by (auto simp: collaborators_ok_def)
    then have "advances jc s1 s'"
      using create_commit_durable [OF wf1 ok(1-4) hash_valid_digest(2) [OF ok(5)] doc(2) _ commit] by blast
    then show ?thesis
      using advances_after critical(1) critical(2) [OF found] by blast
  qed
qed simp

interpretation create: durable_operation jc "create jc session_id cpd plan_json key now_ms" "\<lambda>s. True"
  for jc session_id cpd plan_json key now_ms
proof
  show "\<exists>e. create jc session_id cpd plan_json key now_ms s = (Inl e, s)" if "reg_poisoned s" for s
    using that
    by (simp add: create_def find_create_replay_locked_def locked_poisoned split: sum.split)
qed (rule create_durable)

lemma reserve_start_commit_durable:
  assumes wf: "well_formed jc s"
    and request: "reserve_start_request_ok a key now_ms" "hash_start_authorization a = Inr digest"
    and bound: "\<And>prior. current_session s (sa_session_id a) = Some prior \<Longrightarrow>
      sa_approved_at_ms a \<ge> p_created_at_ms prior \<and> sa_expires_at_ms a \<le> p_expires_at_ms prior"
    and step: "reserve_start_commit jc a digest key plan_json launch s = (result, s')"
  shows "advances jc s s'"
proof (rule keyed_transition [OF wf step [unfolded reserve_start_commit_def find_start_replay_locked_def]])
  fix s1 r
  assume s1: "same_index s s1" "index_ok s1" "reg_requests s1 key = None"
    "reserve_start_plan a digest key plan_json s1 = Inr r"
  have "current_session s1 = current_session s"
    using s1(1) by (rule records_cong)
  then show "acceptable jc s1 r"
    using reserve_start_acceptable [OF s1(2,4) request _ s1(3)] bound by simp
qed (rule plan_capacity(2))

lemma reserve_start_eligible_laws:
  assumes "reserve_start_eligible a s = (Inr plan_json, s1)"
    and "current_session s1 (sa_session_id a) = Some prior"
  shows "sa_approved_at_ms a \<ge> p_created_at_ms prior \<and> sa_expires_at_ms a \<le> p_expires_at_ms prior"
  using locked_pure(2) [OF assms(1) [unfolded reserve_start_eligible_def]] assms(2)
  by (auto simp: with_session_Inr not_less split: if_splits)

lemma reserve_start_durable:
  assumes wf: "well_formed jc s"
    and step: "reserve_start jc a key now_ms s = (result, s')"
  shows "advances jc s s'"
proof (cases "s' = s")
  case False
  then obtain digest where ok: "reserve_start_request_ok a key now_ms"
      "hash_start_authorization a = Inr digest"
    using step by (auto simp: reserve_start_def split: if_splits sum.splits)
  obtain found s1 where l: "find_start_replay_locked a digest key s = (found, s1)"
    by fastforce
  note replay = locked_pure [OF l [unfolded find_start_replay_locked_def]]
  obtain eligible s2 where e: "reserve_start_eligible a s1 = (eligible, s2)"
    by fastforce
  note critical = locked_pure [OF e [unfolded reserve_start_eligible_def]]
  consider "s' = s1" | "found = Inr None" "s' = s2"
    | plan launch where "found = Inr None" "eligible = Inr plan"
        "reserve_start_commit jc a digest key plan launch s2 = (result, s')"
    using step ok l e by (auto simp: reserve_start_def split: if_splits sum.splits option.splits)
  then show ?thesis
  proof cases
    case 1
    with replay(1) show ?thesis by (simp add: advances_def)
  next
    case 2
    then show ?thesis
      using advances_after [OF replay(1)] replay(2) [OF 2(1)] critical(1) by (auto simp: advances_def)
  next
    case (3 plan launch)
    have wf1: "well_formed jc s1" and usable: "\<not> reg_poisoned s1"
      using wf replay(1) replay(2) [OF 3(1)] by (blast intro: well_formed_rolled_back)+
    have wf2: "well_formed jc s2" and usable2: "\<not> reg_poisoned s2"
      using wf1 usable critical(1) critical(2) [OF 3(2)] by (blast intro: well_formed_rolled_back)+
    have "advances jc s2 s'"
      using reserve_start_commit_durable [OF wf2 ok _ 3(3)] reserve_start_eligible_laws e 3(2) by blast
    then show ?thesis
      using advances_after [OF critical(1) usable2] advances_after [OF replay(1) usable] by blast
  qed
qed simp

interpretation reserve: durable_operation jc "reserve_start jc a key now_ms" "\<lambda>s. True"
  for jc a key now_ms
proof
  show "\<exists>e. reserve_start jc a key now_ms s = (Inl e, s)" if "reg_poisoned s" for s
    using that
    by (simp add: reserve_start_def find_start_replay_locked_def locked_poisoned split: sum.split)
qed (rule reserve_start_durable)

subsection \<open>Observations\<close>

definition enqueue_key_free ::
    "glove_observation_body \<Rightarrow> observation_intent_context \<Rightarrow> registry \<Rightarrow> bool" where
  "enqueue_key_free body x s =
     (case hash_observation_intent_request body x of
        Inl e \<Rightarrow> True | Inr d \<Rightarrow> reg_requests s (''intent-enqueue:'' @ d) = None)"

definition disposition_key_free :: "observation_intent_disposition \<Rightarrow> registry \<Rightarrow> bool" where
  "disposition_key_free d s =
     (case hash_observation_intent_disposition d of
        Inl e \<Rightarrow> True | Inr digest \<Rightarrow> reg_requests s (''intent-disposition:'' @ digest) = None)"

lemma enqueue_key_free_cong: "same_index s s1 \<Longrightarrow> enqueue_key_free body x s1 = enqueue_key_free body x s"
  by (simp add: same_index_iff enqueue_key_free_def split: sum.split)

lemma enqueue_replay_None:
  "find_enqueue_replay x digest key s = Inr None \<longleftrightarrow> reg_observation_intents s key = None"
  by (auto simp: find_enqueue_replay_def Let_def and_then_Inr split: option.splits)

lemma disposition_replay_None:
  "find_disposition_replay d digest key s = Inr None \<Longrightarrow>
     reg_quarantined s key = None \<and> reg_observation_dispositions s key = None"
  by (auto simp: find_disposition_replay_def Let_def and_then_Inr split: option.splits if_splits)

lemma enqueue_commit_durable:
  assumes wf: "well_formed jc s" and guard: "enqueue_key_free body x s"
    and body: "valid_observation_body_shape body" "hash_observation_intent_body body = Inr digest"
    and channel: "admitted (reg_channels s) (ob_schema body) = Some descriptor"
      "unat (ob_item_count body) \<le> max_items (bounds descriptor)"
      "observation_body_bytes body \<le> max_body_bytes (bounds descriptor)"
      "body_validator_accepts descriptor body"
    and request: "valid_identifier (ox_session_id x)" "ox_channel_generation x \<noteq> 0"
    and key: "key = observation_intent_key (ox_session_id x) (ox_channel_generation x) (ob_intent_id body)"
      "reg_quarantined s key = None"
    and step: "enqueue_commit jc descriptor body x digest key now_ms s = (result, s')"
  shows "advances jc s s'"
  using wf step unfolding enqueue_commit_def
proof (rule transition_advances)
  fix s1
  assume s1: "same_index s s1" "well_formed jc s1" "find_enqueue_replay x digest key s1 = Inr None"
  have same: "reg_channels s1 = reg_channels s" "reg_quarantined s1 key = None"
    using s1(1) key(2) by (simp_all add: same_index_iff)
  have free: "enqueue_key_free body x s1"
    using guard enqueue_key_free_cong [OF s1(1)] by simp
  show "plans jc (pure_plan (enqueue_plan jc descriptor body x digest now_ms)) s1"
  proof (rule plans_pure)
    fix r
    assume plan: "enqueue_plan jc descriptor body x digest now_ms s1 = Inr r"
    have "acceptable jc s1 r"
      using same free s1(3) well_formedD(2) [OF s1(2)]
      by (intro enqueue_acceptable [OF well_formedD(1) [OF s1(2)] plan body _ channel(2-4) _ request
            key(1)])
        (auto simp: channel(1) enqueue_replay_None enqueue_key_free_def collaborators_ok_def)
    then show "acceptable jc s1 r \<and> length (reg_records s1) < max_records"
      using plan_capacity(11) [OF plan] by simp
  qed
qed

lemma enqueue_durable:
  assumes wf: "well_formed jc s" and guard: "enqueue_key_free body x s"
    and step: "enqueue_observation_intent jc body x now_ms s = (result, s')"
  shows "advances jc s s'"
proof (cases "s' = s")
  case False
  define key where "key = observation_intent_key (ox_session_id x) (ox_channel_generation x) (ob_intent_id body)"
  obtain answer s1 where l: "locked s (\<lambda>s1.
      (if reg_quarantined s1 key \<noteq> None
       then Inl (failure Invalid_state ''observation intent schema is unavailable'')
       else Inr (), s1)) = (answer, s1)"
    by fastforce
  note critical = locked_pure [OF l]
  have ok: "valid_observation_body_shape body" "valid_identifier (ox_session_id x)"
      "ox_channel_generation x \<noteq> 0"
    using step False by (auto simp: enqueue_observation_intent_def split: if_splits)
  show ?thesis
  proof (cases "s' = s1")
    case True
    with critical(1) show ?thesis by (simp add: advances_def)
  next
    case False
    then obtain descriptor digest where answer: "answer = Inr ()"
      and channel: "admitted (reg_channels s1) (ob_schema body) = Some descriptor"
        "unat (ob_item_count body) \<le> max_items (bounds descriptor)"
        "observation_body_bytes body \<le> max_body_bytes (bounds descriptor)"
        "body_validator_accepts descriptor body"
      and digest: "hash_observation_intent_body body = Inr digest"
      and commit: "enqueue_commit jc descriptor body x digest key now_ms s1 = (result, s')"
      using step ok l
      by (auto simp: enqueue_observation_intent_def Let_def simp flip: key_def
          split: if_splits sum.splits option.splits)
    have wf1: "well_formed jc s1" and usable: "\<not> reg_poisoned s1"
      using wf critical(1) critical(2) [OF answer] by (blast intro: well_formed_rolled_back)+
    have "reg_quarantined s1 key = None"
      using critical(2) [OF answer] by (auto split: if_splits)
    moreover have "enqueue_key_free body x s1"
      using guard enqueue_key_free_cong [OF rolled_back_index [OF critical(1)]] by simp
    ultimately have "advances jc s1 s'"
      using enqueue_commit_durable [OF wf1 _ ok(1) digest channel ok(2,3) key_def _ commit] by blast
    then show ?thesis
      by (rule advances_after [OF critical(1) usable])
  qed
qed simp

interpretation enqueue: durable_operation jc "enqueue_observation_intent jc body x now_ms"
  "enqueue_key_free body x" for jc body x now_ms
proof
  show "\<exists>e. enqueue_observation_intent jc body x now_ms s = (Inl e, s)" if "reg_poisoned s" for s
    using that by (simp add: enqueue_observation_intent_def locked_poisoned Let_def)
qed (rule enqueue_durable)

lemma disposition_durable:
  assumes wf: "well_formed jc s" and guard: "disposition_key_free d s"
    and step: "set_observation_intent_disposition jc d s = (result, s')"
  shows "advances jc s s'"
proof (cases "s' = s")
  case False
  define key where "key = observation_intent_key (od_session_id d) (od_channel_generation d) (od_intent_id d)"
  obtain digest respond where ok: "disposition_request_ok d"
      "hash_observation_intent_disposition d = Inr digest"
    and t: "transition jc (locked s (\<lambda>s1. (find_disposition_replay d digest key s1, s1)))
      (pure_plan (disposition_plan d digest key)) respond = (result, s')"
    using step False
    by (auto simp: set_observation_intent_disposition_def Let_def simp flip: key_def
        split: if_splits sum.splits)
  from wf t show ?thesis
  proof (rule transition_advances)
    fix s1
    assume s1: "same_index s s1" "well_formed jc s1" "find_disposition_replay d digest key s1 = Inr None"
    have free: "reg_requests s1 (''intent-disposition:'' @ digest) = None"
      using guard s1(1) ok(2) by (simp add: disposition_key_free_def same_index_iff)
    show "plans jc (pure_plan (disposition_plan d digest key)) s1"
    proof (rule plans_pure)
      fix r
      assume plan: "disposition_plan d digest key s1 = Inr r"
      show "acceptable jc s1 r \<and> length (reg_records s1) < max_records"
        using disposition_acceptable [OF well_formedD(1) [OF s1(2)] plan ok key_def _ _ free]
          disposition_replay_None [OF s1(3)] plan_capacity(12) [OF plan] by blast
    qed
  qed
qed simp

interpretation disposition: durable_operation jc "set_observation_intent_disposition jc d"
  "disposition_key_free d" for jc d
proof
  show "\<exists>e. set_observation_intent_disposition jc d s = (Inl e, s)" if "reg_poisoned s" for s
    using that
    by (simp add: set_observation_intent_disposition_def transition_poisoned Let_def split: sum.split)
qed (rule disposition_durable)

subsection \<open>Reads\<close>

lemma resolve_start_inputs_durable:
  assumes wf: "well_formed jc s"
    and step: "resolve_start_inputs session_id authorization_id now_ms s = (result, s')"
  shows "advances jc s s'"
proof (cases "s' = s")
  case False
  obtain prepared s1 where l: "start_inputs_eligible session_id authorization_id now_ms s = (prepared, s1)"
    by fastforce
  note critical = locked_pure [OF l [unfolded start_inputs_eligible_def]]
  show ?thesis
  proof (cases "s' = s1")
    case True
    with critical(1) show ?thesis by (simp add: advances_def)
  next
    case False': False
    then obtain r look where r: "prepared = Inr r" "locked s1 (\<lambda>s2. (look s2, s2)) = (result, s')"
      using step False l
      by (auto simp: resolve_start_inputs_def split: if_splits sum.splits prod.splits)
    have "rolled_back s1 s'"
      using locked_pure(1) [OF r(2)] .
    then show ?thesis
      using advances_after [OF critical(1)] critical(2) [OF r(1)] by (auto simp: advances_def)
  qed
qed simp

interpretation inputs: durable_operation jc "resolve_start_inputs session_id authorization_id now_ms"
  "\<lambda>s. True" for jc session_id authorization_id now_ms
proof
  show "\<exists>e. resolve_start_inputs session_id authorization_id now_ms s = (Inl e, s)"
    if "reg_poisoned s" for s
    using that
    by (simp add: resolve_start_inputs_def start_inputs_eligible_def locked_poisoned)
qed (rule resolve_start_inputs_durable)

end
