(* ===== verification/Registry_Restart.thy ===== *)
theory Registry_Restart
  imports Registry_Contracts
begin

text \<open>
  Opening the file of a usable registry again reproduces its state: recovery reads back every frame
  the appends wrote, accepts every record, and ends in the same index.  The JSON library is a
  parameter; what the registry relies on is that reading what it wrote gives the value back.
\<close>

lemmas read_at_laws = read_bytes_laws [of registry_text, folded read_at_def]

subsection \<open>Frames\<close>

lemma read_persisted_frame:
  assumes payload: "payload_of jc payload r" and frame: "frame = frame_of payload"
    and bytes: "d_bytes d = pre @ frame @ rest" and len: "length (d_bytes d) \<le> off_t_max"
    and offset: "offset = of_nat (length pre)" and size: "file_size = of_nat (length (d_bytes d))"
    and read: "read_persisted_record jc d file_size offset = (result, d')"
  shows "\<exists>os'. d' = d\<lparr>d_outcomes := os'\<rparr> \<and>
    (d_outcomes d = [] \<longrightarrow> os' = [] \<and> result = Inr (r, of_nat (length (pre @ frame)))) \<and>
    (result = Inr (r, of_nat (length (pre @ frame))) \<or> (\<exists>e. result = Inl e))"
proof -
  have payload: "read_json jc payload = Some r" "payload \<noteq> []" "length payload \<le> max_record_payload_bytes"
    using payload by (simp_all add: payload_of_def)
  then have small: "length payload < 2 ^ 32"
    by (simp add: max_record_payload_bytes_def)
  define n where "n = (of_nat (length payload) :: u64)"
  note size32 = size_roundtrip [OF small]
  have total: "length pre + length payload + 8 + length rest \<le> off_t_max"
    using len bytes frame by simp
  have remaining: "file_size - offset = of_nat (length payload + length rest) + 8"
    using bytes frame by (simp add: size offset)
  have n: "unat n = length payload" "n \<noteq> 0"
    using size32(2) payload(2) by (auto simp: n_def)
  have bound: "\<not> file_size - offset < 8" "\<not> n > file_size - offset - 8"
    using total unfolding remaining n_def
    by (auto simp: word_less_nat_alt unat_word_ariths unsigned_of_nat take_bit_nat_eq_self off_t_max_def
        simp flip: of_nat_add)
  have offsets: "unat offset = length pre" "offset + n + 8 = of_nat (length (pre @ frame))"
    using total size32(2) frame unfolding offset n_def
    by (auto simp: unsigned_of_nat take_bit_nat_eq_self off_t_max_def)
  obtain h d1 p d2 f d3 where
    h: "read_at d 4 offset = (h, d1)" and
    p: "read_at d1 (length payload) (offset + 4) = (p, d2)" and
    f: "read_at d2 4 (offset + 4 + n) = (f, d3)"
    by (metis surj_pair)
  note reads = frame_reads [OF bytes [unfolded frame] len offsets(1) small h [unfolded read_at_def]
      p [unfolded read_at_def] f [unfolded read_at_def n_def]]
  have decoded: "decode_record jc payload = Inr r"
    using payload(1) by (simp add: decode_record_def)
  have unfolded: "read_persisted_record jc d file_size offset =
      (case h of Inl e \<Rightarrow> (Inl e, d1)
       | Inr _ \<Rightarrow> (case p of Inl e \<Rightarrow> (Inl e, d2)
       | Inr _ \<Rightarrow> (case f of Inl e \<Rightarrow> (Inl e, d3)
       | Inr _ \<Rightarrow> (Inr (r, of_nat (length (pre @ frame))), d3))))"
    using h p f reads(4-6) n bound size32(1) decoded offsets(2) payload(3)
    by (auto simp: read_persisted_record_def Let_def n_def [symmetric])
  show ?thesis
    using read unfolded reads by (auto split: sum.splits)
qed

subsection \<open>The recovery loop\<close>

text \<open>A run of the loop reproduces a state when it ends in its index and leaves the file alone; a run
  may fail only while the kernel still has failures to report.\<close>

definition reproduces :: "(registry \<times> u64) expected \<Rightarrow> registry \<Rightarrow> registry \<Rightarrow> u64 \<Rightarrow> bool" where
  "reproduces result s final file_size =
     ((\<exists>s' os. result = Inr (s', file_size) \<and> same_index final s' \<and>
         reg_disk s' = (reg_disk s)\<lparr>d_outcomes := os\<rparr> \<and> (d_outcomes (reg_disk s) = [] \<longrightarrow> os = []) \<and>
         reg_poisoned s' = reg_poisoned s) \<or>
      (d_outcomes (reg_disk s) \<noteq> [] \<and> (\<exists>e. result = Inl e)))"

lemma reproduces_step:
  assumes "reproduces result t final' file_size" and "reg_disk t = (reg_disk s)\<lparr>d_outcomes := os\<rparr>"
    and "d_outcomes (reg_disk s) = [] \<longrightarrow> os = []" and "reg_poisoned t = reg_poisoned s"
    and "same_index final final'"
  shows "reproduces result s final file_size"
  using assms unfolding reproduces_def
  by (elim disjE exE conjE) (auto intro: same_index_trans)

lemma index_recovered_poisoned: "reg_poisoned (index_recovered s r entry) = reg_poisoned s"
  by (auto simp: index_recovered_def Let_def split: recovered_entry.splits option.splits bool.splits)

lemma accepted_disk:
  assumes "accept_recovered_record jc s r previous_hash = Inr s'"
  shows "reg_disk s' = reg_disk s" "reg_poisoned s' = reg_poisoned s"
  using assms
  by (auto simp: accept_recovered_record_def Let_def and_then_Inr index_recovered_laws
      index_recovered_poisoned split: if_splits)

lemma offset_inside:
  assumes "length (pre @ frame_of payload @ tail) \<le> off_t_max"
  shows "(of_nat (length pre) :: u64) < of_nat (length (pre @ frame_of payload @ tail))"
proof -
  have "length pre < length (pre @ frame_of payload @ tail)" by simp
  moreover have "unat (of_nat n :: u64) = n" if "n \<le> off_t_max" for n
    using that by (simp add: unsigned_of_nat take_bit_nat_eq_self off_t_max_def)
  ultimately show ?thesis
    using assms by (simp only: word_less_nat_alt)
qed

lemma recover_loop_image:
  assumes "framed jc rs body"
    and "d_bytes (reg_disk s) = pre @ body" and "length (pre @ body) \<le> off_t_max"
    and "accept_all jc s previous_hash rs = Inr final"
    and "length (reg_records s) + length rs \<le> max_records"
  shows "reproduces
    (recover_loop jc (of_nat (length (pre @ body))) s (of_nat (length pre)) previous_hash) s final
    (of_nat (length (pre @ body)))"
  using assms
proof (induction rs arbitrary: body s pre previous_hash final)
  case Nil
  then show ?case
    by (subst recover_loop.simps) (auto simp: reproduces_def intro!: exI [of _ "d_outcomes (reg_disk s)"])
next
  case (Cons r rs)
  obtain payload tail where frame: "payload_of jc payload r" "framed jc rs tail"
      "body = frame_of payload @ tail"
    using Cons.prems(1) by (auto simp: framed_by_Cons)
  define frame where "frame = frame_of payload"
  obtain s1 where s1: "accept_recovered_record jc s r previous_hash = Inr s1"
      "accept_all jc s1 (p_this_hash r) rs = Inr final"
    using Cons.prems(4) by (auto simp: and_then_Inr)
  define file_size where "file_size = (of_nat (length (pre @ body)) :: u64)"
  have inside: "of_nat (length pre) < file_size" and room: "length (reg_records s) < max_records"
    using offset_inside [of pre payload tail] Cons.prems(3,5) frame(3) by (simp_all add: file_size_def)
  obtain result d where read: "read_persisted_record jc (reg_disk s) file_size (of_nat (length pre)) = (result, d)"
    by fastforce
  obtain os where d: "d = (reg_disk s)\<lparr>d_outcomes := os\<rparr>"
      "d_outcomes (reg_disk s) = [] \<longrightarrow> os = [] \<and> result = Inr (r, of_nat (length (pre @ frame)))"
      "result = Inr (r, of_nat (length (pre @ frame))) \<or> (\<exists>e. result = Inl e)"
    using read_persisted_frame [OF frame(1) frame_def _ _ refl _ read, of tail] Cons.prems(2,3) frame(3)
    by (auto simp: file_size_def frame_def)
  note unfolded = recover_loop.simps [of jc file_size s]
  have "reproduces (recover_loop jc file_size s (of_nat (length pre)) previous_hash) s final file_size"
  proof (cases "\<exists>e. result = Inl e")
    case True
    then show ?thesis
      using d(2) inside room read
      by (auto simp: unfolded reproduces_def)
  next
    case False
    then have ok: "result = Inr (r, of_nat (length (pre @ frame)))"
      using d(3) by blast
    have "same_index s (s\<lparr>reg_disk := d\<rparr>)"
      by (simp add: same_index_iff)
    then obtain t1 where t1: "accept_recovered_record jc (s\<lparr>reg_disk := d\<rparr>) r previous_hash = Inr t1"
        "same_index s1 t1"
      using accept_recovered_cong s1(1) by blast
    obtain final' where final': "accept_all jc t1 (p_this_hash r) rs = Inr final'" "same_index final final'"
      using accept_all_cong [OF t1(2) s1(2)] by blast
    have step: "recover_loop jc file_size s (of_nat (length pre)) previous_hash =
        recover_loop jc file_size t1 (of_nat (length (pre @ frame))) (p_this_hash r)"
      using inside room read ok t1(1) by (simp add: unfolded)
    have "reproduces (recover_loop jc (of_nat (length ((pre @ frame) @ tail))) t1
        (of_nat (length (pre @ frame))) (p_this_hash r)) t1 final' (of_nat (length ((pre @ frame) @ tail)))"
      using Cons.IH [OF frame(2) _ _ final'(1), of "pre @ frame"] Cons.prems(2,3,5) frame(3)
        accepted_disk [OF t1(1)] accept_recovered_length [OF t1(1)] d(1) by (simp add: frame_def)
    then show ?thesis
      using accepted_disk [OF t1(1)] d(1,2) final'(2) frame(3) step
      by (auto simp: file_size_def frame_def intro: reproduces_step)
  qed
  then show ?case by (simp only: file_size_def)
qed

subsection \<open>Opening a file that a registry wrote\<close>

lemma single_call_calm:
  "single_call d = (answer, d') \<Longrightarrow>
     (\<exists>os. d' = d\<lparr>d_outcomes := os\<rparr> \<and> (d_outcomes d = [] \<longrightarrow> os = [] \<and> answer = None))"
  by (cases d) (auto simp: single_call_def split: list.splits outcome.splits)

lemma recover_reproduces:
  assumes wf: "well_formed jc s" and usable: "\<not> reg_poisoned s"
    and bytes: "d_bytes d = file_bytes s" and owner: "owner_only_file (d_euid d) (d_meta d)"
    and start: "start = fresh_registry d (reg_validator s) (reg_library_bundles s) (reg_max_bytes s)
      (reg_channels s)"
  shows "case recover jc start of
      Inl e \<Rightarrow> d_outcomes d \<noteq> []
    | Inr s' \<Rightarrow> same_index s s' \<and> file_bytes s' = file_bytes s \<and> recorded s' \<and> \<not> reg_poisoned s' \<and>
        reg_durable_bytes s' = reg_durable_bytes s"
proof -
  obtain body where body: "framed jc (reg_records s) body" "d_bytes d = registry_magic @ body"
    and durable: "unat (reg_durable_bytes s) = length (d_bytes d)" "reg_durable_bytes s \<le> reg_max_bytes s"
    using well_formedD(4) [OF wf usable] bytes by (auto simp: imaged_def)
  have len: "length (registry_magic @ body) \<le> off_t_max"
    using well_formedD(5) [OF wf usable] body(2) bytes by (simp add: off_t_max_def)
  define file_size where "file_size = (of_nat (length (registry_magic @ body)) :: u64)"
  have "file_size = of_nat (unat (reg_durable_bytes s))"
    unfolding durable(1) body(2) by (simp only: file_size_def)
  then have size: "file_size = reg_durable_bytes s" by simp
  have magic: "length registry_magic \<le> unat file_size" "file_size \<le> reg_max_bytes s"
    using durable body(2) by (simp_all add: size)
  obtain i d1 h d2 where i: "inspect_file d = (i, d1)" and h: "read_at d1 (length registry_magic) 0 = (h, d2)"
    by (metis surj_pair)
  obtain o1 where d1: "d1 = d\<lparr>d_outcomes := o1\<rparr>" "d_outcomes d = [] \<longrightarrow> o1 = [] \<and> i = Inr file_size"
      "i = Inr file_size \<or> (\<exists>e. i = Inl e)"
    using i owner body(2) by (cases "single_call d")
      (fastforce simp: inspect_file_def file_size_def dest: single_call_calm split: option.splits)
  obtain o2 where d2: "d2 = d\<lparr>d_outcomes := o2\<rparr>" "o1 = [] \<longrightarrow> o2 = [] \<and> h = Inr registry_magic"
      "h = Inr registry_magic \<or> (\<exists>e. h = Inl e)"
    using read_at_laws [OF h, of "[]" body] body(2) len d1(1) by auto
  define s2 where "s2 = start\<lparr>reg_disk := d2\<rparr>"
  obtain s0 where s0: "accept_all jc (blank_index s) zero_digest (reg_records s) = Inr s0" "same_index s0 s"
    using wf by (auto simp: well_formed_def replayable_def)
  have blank: "same_index (blank_index s) s2"
    by (simp add: s2_def start same_index_iff blank_index_def fresh_registry_def)
  obtain final where final: "accept_all jc s2 zero_digest (reg_records s) = Inr final" "same_index s0 final"
    using accept_all_cong [OF blank s0(1)] by blast
  have loop: "reproduces (recover_loop jc file_size s2 (of_nat (length registry_magic)) zero_digest) s2
      final file_size"
    unfolding file_size_def
    by (rule recover_loop_image [OF body(1) _ len final(1)])
      (use wf body(2) d2(1) in \<open>simp_all add: s2_def start fresh_registry_def well_formed_def\<close>)
  have calm: "d_outcomes (reg_disk s2) = []" if "d_outcomes d = []"
    using that d1(2) d2 by (simp add: s2_def)
  have head: "recover jc start =
      (case i of Inl e \<Rightarrow> Inl ''session registry size is invalid''
       | Inr _ \<Rightarrow> (case h of Inl e \<Rightarrow> Inl e
       | Inr _ \<Rightarrow> and_then (recover_loop jc file_size s2 (of_nat (length registry_magic)) zero_digest)
           (\<lambda>(s1, offset). case capture_identity (reg_disk s1) of
              (Inr identity, d3) \<Rightarrow>
                if ri_size identity \<noteq> offset
                then Inl ''session registry identity changed during recovery''
                else Inr (s1\<lparr>reg_disk := d3, reg_durable_bytes := offset, reg_identity := identity\<rparr>)
            | (Inl e, d3) \<Rightarrow> Inl ''session registry identity changed during recovery'')))"
    using i h d1(3) d2(3) magic
    by (auto simp: recover_def start fresh_registry_def s2_def not_less split: sum.splits)
  show ?thesis
  proof (cases "recover_loop jc file_size s2 (of_nat (length registry_magic)) zero_digest")
    case (Inl e)
    with loop calm have "d_outcomes d \<noteq> []" by (auto simp: reproduces_def)
    with Inl head show ?thesis by (auto split: sum.splits)
  next
    case (Inr x)
    then obtain s1 o3 where s1: "x = (s1, file_size)" "same_index final s1"
        "reg_disk s1 = (reg_disk s2)\<lparr>d_outcomes := o3\<rparr>" "d_outcomes (reg_disk s2) = [] \<longrightarrow> o3 = []"
        "\<not> reg_poisoned s1"
      using loop by (auto simp: reproduces_def s2_def start fresh_registry_def)
    obtain c d3 where c: "capture_identity (reg_disk s1) = (c, d3)" by fastforce
    note captured = capture_identity_file [OF c]
    have "ri_size (identity_of (reg_disk s1)) = file_size"
      using s1(3) body(2) d2(1) by (simp add: identity_of_def s2_def file_size_def)
    moreover have "same_index s s1"
      using s0(2) final(2) s1(2) by (metis same_index_sym same_index_trans)
    moreover have "d_bytes (reg_disk s1) = file_bytes s"
      using s1(3) d2(1) bytes by (simp add: s2_def)
    moreover have "\<exists>identity. c = Inr identity" if "d_outcomes d = []"
      using that calm s1(3,4) c by (auto simp: capture_identity_def single_call_def)
    ultimately show ?thesis
      using head Inr s1(1,5) c captured d1 d2 size
      by (cases c) (auto simp: recorded_def identity_of_def file_bytes_def same_index_iff split: sum.splits)
  qed
qed

end
