(* ===== verification/Registry_Open.thy ===== *)
theory Registry_Open
  imports Registry_Restart
begin

text \<open>
  What opening an arbitrary file establishes: when recovery accepts it, the file is the image of
  the records it indexed, and the index is the one their replay builds, whoever wrote the bytes.
\<close>

unbundle bit_operations_syntax

subsection \<open>Reading a frame\<close>

lemmas read_at_sound = read_bytes_sound [of registry_text, folded read_at_def]

lemma read_persisted_sound:
  assumes read: "read_persisted_record jc d file_size offset = (Inr (r, next_offset), d')"
    and len: "length (d_bytes d) \<le> off_t_max" and size: "file_size = of_nat (length (d_bytes d))"
    and inside: "unat offset \<le> length (d_bytes d)"
  shows "\<exists>payload rest. payload_of jc payload r \<and>
    d_bytes d = take (unat offset) (d_bytes d) @ frame_of payload @ rest \<and>
    unat next_offset = unat offset + length (frame_of payload) \<and> (\<exists>os. d' = d\<lparr>d_outcomes := os\<rparr>)"
proof -
  obtain h d1 p d2 f n where
    h: "read_at d 4 offset = (Inr h, d1)" and n: "n = (ucast (decode_u32 h) :: u64)" and
    p: "read_at d1 (unat n) (offset + 4) = (Inr p, d2)" and
    f: "read_at d2 4 (offset + 4 + n) = (Inr f, d')" and
    bounds': "\<not> file_size - offset < 8" "n \<noteq> 0" "unat n \<le> max_record_payload_bytes"
      "n \<le> file_size - offset - 8" and foot: "(ucast (decode_u32 f) :: u64) = n" and
    decoded: "decode_record jc (string_of_bytes p) = Inr r" and next_offset: "next_offset = offset + n + 8"
    using read
    by (auto simp: read_persisted_record_def Let_def not_less split: if_splits sum.splits prod.splits)
  have total: "unat file_size = length (d_bytes d)" "length (d_bytes d) < 2 ^ 63"
    using len by (simp_all add: size unsigned_of_nat take_bit_nat_eq_self off_t_max_def)
  have left: "unat (file_size - offset) = length (d_bytes d) - unat offset"
    using inside total(1) by (simp add: unat_sub word_le_nat_alt)
  have room: "8 \<le> length (d_bytes d) - unat offset"
    "unat n \<le> length (d_bytes d) - unat offset - 8"
    using bounds'(1,4) left by (auto simp: word_less_nat_alt word_le_nat_alt unat_sub not_less)
  have offsets: "unat (offset + 4) = unat offset + 4" "unat (offset + 4 + n) = unat offset + 4 + unat n"
    "unat next_offset = unat offset + unat n + 8"
    using room total(2) inside unfolding next_offset by (simp_all add: unat_word_ariths)
  have "unat n = unat (decode_u32 h)" "unat n = unat (decode_u32 f)"
    using unat_widen [of "decode_u32 h"] unat_widen [of "decode_u32 f"] n foot by metis+
  then have feet: "decode_u32 f = decode_u32 h"
    by (simp add: word_unat_eq_iff)
  have inside': "unat offset + 8 + unat n \<le> length (d_bytes d)"
    using room by simp
  note sound = frame_sound [OF h [unfolded read_at_def] p [unfolded read_at_def] f [unfolded read_at_def]
      n feet len inside']
  have "payload_of jc (string_of_bytes p) r"
    using decoded sound(2) bounds'(2,3)
    by (auto simp: payload_of_def decode_record_def or_error_def word_unat_eq_iff split: option.splits)
  then show ?thesis
    using sound offsets(3) by (metis append_take_drop_id length_frame_of add.assoc)
qed

subsection \<open>What an accepted file holds\<close>

definition recovered_from :: "json_codec \<Rightarrow> registry \<Rightarrow> nat \<Rightarrow> string \<Rightarrow> registry \<Rightarrow> bool" where
  "recovered_from jc s position previous_hash s' =
     (\<exists>rs final os. framed jc rs (drop position (file_bytes s)) \<and>
        accept_all jc s previous_hash rs = Inr final \<and> same_index final s' \<and>
        length (reg_records s') \<le> max_records \<and>
        reg_disk s' = (reg_disk s)\<lparr>d_outcomes := os\<rparr> \<and> reg_poisoned s' = reg_poisoned s)"

lemma recovered_from_step:
  assumes payload: "payload_of jc payload r"
    and bytes: "file_bytes s = take position (file_bytes s) @ frame_of payload @ rest"
      "position \<le> length (file_bytes s)"
    and accepted: "accept_recovered_record jc (s\<lparr>reg_disk := (reg_disk s)\<lparr>d_outcomes := os\<rparr>\<rparr>) r
      previous_hash = Inr s1"
    and later: "recovered_from jc s1 (position + length (frame_of payload)) (p_this_hash r) s'"
  shows "recovered_from jc s position previous_hash s'"
proof -
  let ?s = "s\<lparr>reg_disk := (reg_disk s)\<lparr>d_outcomes := os\<rparr>\<rparr>"
  have same: "same_index ?s s"
    by (simp add: same_index_iff)
  obtain t1 where t1: "accept_recovered_record jc s r previous_hash = Inr t1" "same_index s1 t1"
    using accept_recovered_cong [OF same accepted] by blast
  have disk: "reg_disk s1 = (reg_disk s)\<lparr>d_outcomes := os\<rparr>" "reg_poisoned s1 = reg_poisoned s"
    using accepted_disk [OF accepted] by simp_all
  then have here: "file_bytes s1 = file_bytes s"
    by (simp add: file_bytes_def)
  obtain rs final os' where rs: "framed jc rs (drop (position + length (frame_of payload)) (file_bytes s))"
      "accept_all jc s1 (p_this_hash r) rs = Inr final" "same_index final s'"
      "length (reg_records s') \<le> max_records"
      "reg_disk s' = (reg_disk s1)\<lparr>d_outcomes := os'\<rparr>" "reg_poisoned s' = reg_poisoned s1"
    using later here by (auto simp: recovered_from_def)
  obtain final' where final': "accept_all jc t1 (p_this_hash r) rs = Inr final'" "same_index final final'"
    using accept_all_cong [OF t1(2) rs(2)] by blast
  have split: "drop position (file_bytes s) = frame_of payload @ rest"
    "drop (position + length (frame_of payload)) (file_bytes s) = rest"
    using bytes by (metis append_eq_conv_conj append_take_drop_id length_take min.absorb2,
        metis append_eq_conv_conj append_take_drop_id drop_drop length_take min.absorb2 add.commute)
  then have "framed jc (r # rs) (drop position (file_bytes s))"
    using payload rs(1) by (auto simp: framed_by_Cons)
  moreover have "accept_all jc s previous_hash (r # rs) = Inr final'"
    using t1(1) final'(1) by simp
  moreover have "same_index final' s'"
    using final'(2) rs(3) same_index_sym same_index_trans by blast
  ultimately show ?thesis
    unfolding recovered_from_def using rs(4-6) disk
    by (intro exI [of _ "r # rs"] exI [of _ final'] exI [of _ os']) simp
qed

lemma recover_loop_sound:
  assumes "recover_loop jc file_size s offset previous_hash = Inr (s', final_offset)"
    and "length (file_bytes s) \<le> off_t_max" and "file_size = of_nat (length (file_bytes s))"
    and "unat offset \<le> length (file_bytes s)" and "length (reg_records s) \<le> max_records"
  shows "final_offset = file_size \<and> recovered_from jc s (unat offset) previous_hash s'"
  using assms
proof (induction jc file_size s offset previous_hash rule: recover_loop.induct)
  case (1 jc file_size s offset previous_hash)
  have size: "unat file_size = length (file_bytes s)"
    using 1(3,4) by (simp add: unsigned_of_nat take_bit_nat_eq_self off_t_max_def)
  note unfolded = 1(2) [unfolded recover_loop.simps [of jc file_size s]]
  show ?case
  proof (cases "offset < file_size")
    case False
    then have "unat offset = length (file_bytes s)"
      using 1(5) size by (simp add: word_less_nat_alt)
    then show ?thesis
      using False unfolded size 1(6)
      by (auto simp: recovered_from_def word_unat_eq_iff intro!: exI [of _ "[]"] exI [of _ "d_outcomes (reg_disk s)"])
  next
    case True
    then obtain r next_offset d s1 where room: "\<not> max_records \<le> length (reg_records s)"
      and read: "read_persisted_record jc (reg_disk s) file_size offset = (Inr (r, next_offset), d)"
      and accepted: "accept_recovered_record jc (s\<lparr>reg_disk := d\<rparr>) r previous_hash = Inr s1"
      and loop: "recover_loop jc file_size s1 next_offset (p_this_hash r) = Inr (s', final_offset)"
      using unfolded by (auto split: if_splits sum.splits prod.splits)
    obtain payload rest os where frame: "payload_of jc payload r"
        "file_bytes s = take (unat offset) (file_bytes s) @ frame_of payload @ rest"
        "unat next_offset = unat offset + length (frame_of payload)" "d = (reg_disk s)\<lparr>d_outcomes := os\<rparr>"
      using read_persisted_sound [OF read] 1(3-5) by (auto simp: file_bytes_def)
    have next_bytes: "file_bytes s1 = file_bytes s" "length (reg_records s1) \<le> max_records"
      using accepted_disk [OF accepted] accept_recovered_length [OF accepted] frame(4) room
      by (simp_all add: file_bytes_def)
    have inside: "unat next_offset \<le> length (file_bytes s)"
      using arg_cong [OF frame(2), of length] frame(3) 1(5) by simp
    have "final_offset = file_size \<and> recovered_from jc s1 (unat next_offset) (p_this_hash r) s'"
      using 1(1) [OF _ room read [symmetric] refl refl accepted loop] True 1(3,4) inside next_bytes
      by simp
    then show ?thesis
      using recovered_from_step [OF frame(1,2) 1(5) accepted [unfolded frame(4)]] frame(3) by simp
  qed
qed

lemma accept_all_records:
  "accept_all jc s previous_hash rs = Inr s' \<Longrightarrow> reg_records s' = reg_records s @ rs"
  by (induction rs arbitrary: s previous_hash)
    (auto simp: and_then_Inr dest!: accept_recovered_records)

lemma accept_all_config:
  "accept_all jc s previous_hash rs = Inr s' \<Longrightarrow>
     reg_validator s' = reg_validator s \<and> reg_channels s' = reg_channels s \<and> reg_max_bytes s' = reg_max_bytes s \<and>
     reg_library_bundles s' = reg_library_bundles s"
  by (induction rs arbitrary: s previous_hash)
    (fastforce simp: and_then_Inr accept_recovered_record_def Let_def index_recovered_laws
      split: if_splits)+

lemma recover_sound:
  assumes start: "start = fresh_registry d v bundles max_bytes host"
    and run: "recover jc start = Inr s" and len: "length (d_bytes d) \<le> off_t_max"
  shows "\<exists>rs final. framed jc rs (drop (length registry_magic) (d_bytes d)) \<and>
      accept_all jc start zero_digest rs = Inr final \<and> same_index final s \<and>
      length (reg_records s) \<le> max_records"
    "take (length registry_magic) (d_bytes d) = registry_magic" "length registry_magic \<le> length (d_bytes d)"
    "file_bytes s = d_bytes d" "reg_durable_bytes s = of_nat (length (d_bytes d))"
    "reg_durable_bytes s \<le> max_bytes" "recorded s" "\<not> reg_poisoned s"
proof -
  define finish where "finish = (\<lambda>(s1 :: registry, offset).
      case capture_identity (reg_disk s1) of
        (Inr identity, d3) \<Rightarrow>
          if ri_size identity \<noteq> offset
          then Inl ''session registry identity changed during recovery''
          else Inr (s1\<lparr>reg_disk := d3, reg_durable_bytes := offset, reg_identity := identity\<rparr>)
      | (Inl e, d3) \<Rightarrow> Inl ''session registry identity changed during recovery'')"
  have "reg_max_bytes start = max_bytes" "reg_disk start = d"
    by (simp_all add: start fresh_registry_def)
  then obtain file_size d1 d2 s1 offset where
    i: "inspect_file d = (Inr file_size, d1)" and
    size: "length registry_magic \<le> unat file_size" "file_size \<le> max_bytes" and
    h: "read_at d1 (length registry_magic) 0 = (Inr registry_magic, d2)" and
    loop: "recover_loop jc file_size (start\<lparr>reg_disk := d2\<rparr>) (of_nat (length registry_magic)) zero_digest =
      Inr (s1, offset)" and finish: "finish (s1, offset) = Inr s"
    using run unfolding recover_def finish_def [symmetric]
    by (auto simp: and_then_Inr not_less split: sum.splits prod.splits if_splits)
  obtain identity d3 where c: "capture_identity (reg_disk s1) = (Inr identity, d3)" "ri_size identity = offset"
    and s: "s = s1\<lparr>reg_disk := d3, reg_durable_bytes := offset, reg_identity := identity\<rparr>"
    using finish by (auto simp: finish_def split: prod.splits sum.splits if_splits)
  obtain o1 where d1: "d1 = d\<lparr>d_outcomes := o1\<rparr>" and file_size: "file_size = of_nat (length (d_bytes d))"
    using i by (cases "single_call d") (auto simp: inspect_file_def dest: single_call_calm split: option.splits if_splits)
  obtain o2 where d2: "d2 = d\<lparr>d_outcomes := o2\<rparr>"
    using read_at_sound(3) [OF h] d1 by auto
  have fs: "unat file_size = length (d_bytes d)"
    using len by (simp add: file_size unsigned_of_nat take_bit_nat_eq_self off_t_max_def)
  have magic: "unat (of_nat (length registry_magic) :: u64) = length registry_magic"
    by (simp add: registry_magic_def)
  have loop_end: "offset = file_size" "recovered_from jc (start\<lparr>reg_disk := d2\<rparr>) (length registry_magic) zero_digest s1"
    using recover_loop_sound [OF loop] len size(1) fs file_size magic
    by (simp_all add: file_bytes_def d2 start fresh_registry_def)
  then obtain os where disk: "reg_disk s1 = d\<lparr>d_outcomes := os\<rparr>" "\<not> reg_poisoned s1"
    by (auto simp: recovered_from_def d2 start fresh_registry_def)
  note captured = capture_identity_file [OF c(1)]
  obtain rs final where rs: "framed jc rs (drop (length registry_magic) (d_bytes d))"
      "accept_all jc (start\<lparr>reg_disk := d2\<rparr>) zero_digest rs = Inr final" "same_index final s1"
      "length (reg_records s1) \<le> max_records"
    using loop_end(2) by (auto simp: recovered_from_def file_bytes_def d2)
  have "same_index (start\<lparr>reg_disk := d2\<rparr>) start"
    by (simp add: same_index_iff)
  then obtain final' where "accept_all jc start zero_digest rs = Inr final'" "same_index final final'"
    using accept_all_cong [OF _ rs(2)] by blast
  moreover have "same_index s1 s" "length (reg_records s) \<le> max_records"
    using rs(4) by (simp_all add: s same_index_iff)
  ultimately show "\<exists>rs final. framed jc rs (drop (length registry_magic) (d_bytes d)) \<and>
      accept_all jc start zero_digest rs = Inr final \<and> same_index final s \<and>
      length (reg_records s) \<le> max_records"
    using rs(1,3) same_index_sym same_index_trans by blast
  show "take (length registry_magic) (d_bytes d) = registry_magic"
    using read_at_sound(2) [OF h] d1 by simp
  show "length registry_magic \<le> length (d_bytes d)" "reg_durable_bytes s \<le> max_bytes"
    "reg_durable_bytes s = of_nat (length (d_bytes d))"
    using size fs s loop_end(1) file_size by simp_all
  show "file_bytes s = d_bytes d" "recorded s" "\<not> reg_poisoned s"
    using s captured disk c(2) loop_end(1) file_size by (auto simp: file_bytes_def recorded_def identity_of_def)
qed

subsection \<open>Every opened registry is well formed\<close>

definition collaborators :: "session_plan_validator \<Rightarrow> channel_host option \<Rightarrow> bool" where
  "collaborators v host =
     ((\<forall>plan now_ms d. canonicalize_json v plan now_ms = Inr d \<longrightarrow> plan_document_ok d) \<and>
      (\<forall>h. host = Some h \<longrightarrow> catalog_ok h))"

definition entry_ok :: "location \<Rightarrow> bool" where
  "entry_ok loc =
     (case loc_entry loc of
        Entry d \<Rightarrow> length (d_bytes d) \<le> off_t_max | Created d \<Rightarrow> d_bytes d = [] | Refused e \<Rightarrow> True)"

lemma recover_well_formed:
  assumes "codec_faithful jc" and "collaborators v host" and "unat max_bytes \<le> off_t_max"
    and run: "recover jc (fresh_registry d v bundles max_bytes host) = Inr s"
    and len: "length (d_bytes d) \<le> off_t_max"
  shows "well_formed jc s" "\<not> reg_poisoned s" "recorded s"
proof -
  let ?start = "fresh_registry d v bundles max_bytes host"
  note sound = recover_sound [OF refl run len]
  obtain rs final where rs: "framed jc rs (drop (length registry_magic) (d_bytes d))"
      "accept_all jc ?start zero_digest rs = Inr final" "same_index final s"
      "length (reg_records s) \<le> max_records"
    using sound(1) by blast
  have records: "reg_records s = rs"
    using accept_all_records [OF rs(2)] rs(3) by (simp add: same_index_iff fresh_registry_def)
  have config: "reg_validator s = v" "reg_channels s = host" "reg_max_bytes s = max_bytes"
      "reg_library_bundles s = bundles"
    using accept_all_config [OF rs(2)] rs(3) by (simp_all add: same_index_iff fresh_registry_def)
  have "same_index ?start (blank_index s)"
    using config by (simp add: same_index_iff fresh_registry_def blank_index_def)
  then obtain final' where "accept_all jc (blank_index s) zero_digest rs = Inr final'" "same_index final final'"
    using accept_all_cong rs(2) by blast
  then have "replayable jc s"
    using records rs(3) same_index_sym same_index_trans unfolding replayable_def by blast
  moreover have "registry_magic @ drop (length registry_magic) (d_bytes d) = d_bytes d"
    using sound(2) by (metis append_take_drop_id)
  then have "imaged jc s"
    using rs(1) records sound(4-6) config len
    by (auto simp: imaged_def unsigned_of_nat take_bit_nat_eq_self off_t_max_def intro!: exI [of _ "drop (length registry_magic) (d_bytes d)"])
  ultimately show "well_formed jc s"
    using assms(1-3) rs(4) config by (simp add: well_formed_def collaborators_ok_def collaborators_def)
  show "\<not> reg_poisoned s" "recorded s" by (fact sound)+
qed

lemma initialize_length:
  assumes "initialize_empty d = (result, d')" and "d_bytes d = []"
  shows "length (d_bytes d') \<le> off_t_max"
proof -
  obtain w d1 where w: "write_at d registry_magic 0 = (w, d1)" by fastforce
  have "length (d_bytes d1) \<le> length registry_magic"
    using write_at_extends [OF w] assms(2) by auto
  moreover have "d_bytes d' = d_bytes d1"
    using assms(1) w by (auto simp: initialize_empty_def dest!: sync_descriptor_file split: sum.splits prod.splits)
  ultimately show ?thesis
    by (simp add: registry_magic_def off_t_max_def)
qed

lemma open_well_formed:
  assumes "codec_faithful jc" and "collaborators v host" and "entry_ok loc"
    and "open_or_create jc path (Some v) bundles max_bytes host loc = Inr s"
  shows "well_formed jc s" "\<not> reg_poisoned s" "recorded s"
proof -
  obtain d created d1 where o: "open_registry path loc = Inr (d, created)"
    and i: "(if created then initialize_empty d else (Inr (), d)) = (Inr (), d1)"
    and r: "recover jc (fresh_registry d1 v bundles max_bytes host) = Inr s"
    and "unat max_bytes \<le> off_t_max"
    using assms(4) by (auto simp: open_or_create_def not_less split: if_splits sum.splits prod.splits)
  have "if created then d_bytes d = [] else length (d_bytes d) \<le> off_t_max"
    using o assms(3)
    by (auto simp: open_registry_def Let_def and_then_Inr entry_ok_def inspect_file_def
        dest!: single_call_file retried_call_file
        split: if_splits lookup.splits sum.splits prod.splits option.splits)
  then have "length (d_bytes d1) \<le> off_t_max"
    using i initialize_length [of d "Inr ()" d1] by (auto split: if_splits)
  then show "well_formed jc s" "\<not> reg_poisoned s" "recorded s"
    using recover_well_formed [OF assms(1,2) _ r] \<open>unat max_bytes \<le> off_t_max\<close> by blast+
qed

end
