(* ===== verification/Registry_Reach.thy ===== *)
theory Registry_Reach
  imports Registry_Open "HOL-Library.Sublist"
begin

text \<open>
  The registries a program can hold: one that \<open>open_or_create\<close> returned, then any sequence of
  operations, of reads and of changes around the file that leave its bytes alone.  Every such
  registry is well formed, and the history of each session in it is a path of the lifecycle graph.
\<close>

subsection \<open>Reachable registries\<close>

text \<open>
  One step around a registry: a change of its file that leaves the bytes alone (other processes,
  the clock, the answers the kernel is about to give), a read, or one of the operations.

  Five operations carry a condition that the source does not check and that its recovery relies on:
  \<^item> \<open>mark_starting\<close>, \<open>mark_managed_starting\<close>: the time of the start is not before the time of the
    session's authorization (\<open>starting_clock\<close>);
  \<^item> \<open>mark_failed\<close>: the session is directly executed, not managed (\<open>direct_session\<close>);
  \<^item> \<open>enqueue_observation_intent\<close>, \<open>set_observation_intent_disposition\<close>: no record has the
    idempotency key that is derived for the observation (\<open>enqueue_key_free\<close>,
    \<open>disposition_key_free\<close>).
  Where a condition fails the code can write a record that its own recovery rejects; theory
  \<open>Registry_Guards\<close> shows that the conditions are exact in this sense.
\<close>

inductive operates :: "json_codec \<Rightarrow> registry \<Rightarrow> registry \<Rightarrow> bool" for jc where
  environment: "d_bytes d = file_bytes s \<Longrightarrow> operates jc s (s\<lparr>reg_disk := d\<rparr>)"
| read: "operates jc s (snd (unusable s))"
| create: "operates jc s (snd (create jc session_id cpd plan_json key now_ms s))"
| reserve_start: "operates jc s (snd (reserve_start jc a key now_ms s))"
| resolve_start_inputs: "operates jc s (snd (resolve_start_inputs session_id authorization_id now_ms s))"
| mark_starting: "starting_clock (eb_session_id b) now_ms s \<Longrightarrow>
     operates jc s (snd (mark_starting jc b reservation key now_ms s))"
| mark_running: "operates jc s (snd (mark_running jc c reservation key now_ms s))"
| mark_stopping: "operates jc s (snd (mark_stopping jc c key now_ms s))"
| mark_exited: "operates jc s (snd (mark_exited jc producer t key s))"
| mark_refinement_exited: "operates jc s (snd (mark_refinement_exited jc producer rt key s))"
| mark_failed: "direct_session (fc_session_id f) s \<Longrightarrow> operates jc s (snd (mark_failed jc f key now_ms s))"
| mark_managed_starting: "starting_clock (mb_session_id mb) now_ms s \<Longrightarrow>
     operates jc s (snd (mark_managed_starting jc mb reservation key now_ms s))"
| mark_managed_running: "operates jc s (snd (mark_managed_running jc mc reservation key now_ms s))"
| mark_managed_stopping: "operates jc s (snd (mark_managed_stopping jc mc key now_ms s))"
| mark_managed_exited: "operates jc s (snd (mark_managed_exited jc producer t key s))"
| mark_managed_failed: "operates jc s (snd (mark_managed_failed jc f key now_ms s))"
| enqueue: "enqueue_key_free body x s \<Longrightarrow>
     operates jc s (snd (enqueue_observation_intent jc body x now_ms s))"
| disposition: "disposition_key_free d s \<Longrightarrow>
     operates jc s (snd (set_observation_intent_disposition jc d s))"

inductive reachable :: "json_codec \<Rightarrow> registry \<Rightarrow> bool" for jc where
  opened: "open_or_create jc path (Some v) bundles max_bytes host loc = Inr s \<Longrightarrow> collaborators v host \<Longrightarrow>
     entry_ok loc \<Longrightarrow> reachable jc s"
| operated: "reachable jc s \<Longrightarrow> operates jc s s' \<Longrightarrow> reachable jc s'"

lemma well_formed_environment:
  assumes "well_formed jc s" and "d_bytes d = file_bytes s"
  shows "well_formed jc (s\<lparr>reg_disk := d\<rparr>)"
proof -
  have same: "same_index s (s\<lparr>reg_disk := d\<rparr>)"
    by (simp add: same_index_iff)
  have "imaged jc (s\<lparr>reg_disk := d\<rparr>) = imaged jc s"
    using assms(2) by (simp add: imaged_def file_bytes_def)
  then show ?thesis
    using assms(1) replayable_cong [OF same] by (auto simp: well_formed_def collaborators_ok_def)
qed

lemma well_formed_read:
  assumes "well_formed jc s"
  shows "well_formed jc (snd (unusable s))"
proof (cases "reg_poisoned s")
  case True
  then show ?thesis using assms by (simp add: unusable_def)
next
  case False
  obtain refused s1 where u: "unusable s = (refused, s1)" by fastforce
  have "rolled_back s s1"
    using unusable_laws [OF u] by (auto simp: rolled_back_def)
  with False assms u show ?thesis
    by (simp add: well_formed_rolled_back)
qed

lemmas section_preserves = create.preserves reserve.preserves inputs.preserves starting.preserves
  running.preserves stopping.preserves exited.preserves refinement_exited.preserves failed.preserves
  managed_starting.preserves managed_running.preserves managed_stopping.preserves
  managed_exited.preserves managed_failed.preserves enqueue.preserves disposition.preserves

lemmas section_appends = create.appends_at_most_one reserve.appends_at_most_one inputs.appends_at_most_one
  starting.appends_at_most_one running.appends_at_most_one stopping.appends_at_most_one
  exited.appends_at_most_one refinement_exited.appends_at_most_one failed.appends_at_most_one
  managed_starting.appends_at_most_one managed_running.appends_at_most_one
  managed_stopping.appends_at_most_one managed_exited.appends_at_most_one
  managed_failed.appends_at_most_one enqueue.appends_at_most_one disposition.appends_at_most_one

lemma operates_well_formed:
  assumes "operates jc s s'" and "well_formed jc s"
  shows "well_formed jc s'"
  using assms(1)
  by (cases rule: operates.cases)
    (simp_all add: section_preserves well_formed_environment well_formed_read assms(2))

lemma operates_appends:
  assumes "operates jc s s'" and "well_formed jc s"
  shows "reg_records s' = reg_records s \<or> (\<exists>r. reg_records s' = reg_records s @ [r])"
  using assms(1)
proof (cases rule: operates.cases)
  case read
  obtain refused s1 where u: "unusable s = (refused, s1)" by fastforce
  with read show ?thesis
    using unusable_laws(1) [OF u] by (simp add: same_index_iff)
next
  case (resolve_start_inputs session_id authorization_id now_ms)
  then show ?thesis using inputs.appends_at_most_one [OF assms(2)] by blast
qed (simp_all add: section_appends assms(2))

lemma reachable_well_formed:
  assumes "reachable jc s" and "codec_faithful jc"
  shows "well_formed jc s"
  using assms(1)
proof (induction rule: reachable.induct)
  case (opened path v bundles max_bytes host loc s)
  then show ?case using open_well_formed(1) [OF assms(2)] by blast
next
  case (operated s s')
  then show ?case using operates_well_formed by blast
qed

lemma reachable_star:
  assumes "(operates jc)\<^sup>*\<^sup>* s s'" and "reachable jc s"
  shows "reachable jc s'"
  using assms by (induction rule: rtranclp_induct) (auto intro: reachable.operated)

lemma reachable_prefix:
  assumes "(operates jc)\<^sup>*\<^sup>* s s'" and "reachable jc s" and "codec_faithful jc"
  shows "prefix (reg_records s) (reg_records s')"
  using assms(1)
proof (induction rule: rtranclp_induct)
  case (step s' s'')
  have "well_formed jc s'"
    using reachable_well_formed reachable_star step.hyps(1) assms(2,3) by blast
  then have "prefix (reg_records s') (reg_records s'')"
    using operates_appends [OF step.hyps(2)] by auto
  with step.IH show ?case by (rule prefix_order.trans)
qed simp

subsection \<open>Session histories\<close>

definition lifecycle_edges :: "(string \<times> string) set" where
  "lifecycle_edges =
     {(''created'', ''preparing''), (''preparing'', ''starting''), (''starting'', ''running''),
      (''running'', ''stopping''), (''running'', ''exited''), (''stopping'', ''exited''),
      (''starting'', ''failed''), (''running'', ''failed''), (''stopping'', ''failed'')}"

definition lifecycle_path :: "string list \<Rightarrow> bool" where
  "lifecycle_path states =
     (states = [] \<or> hd states = ''created'' \<and> successively (\<lambda>a b. (a, b) \<in> lifecycle_edges) states)"

definition lifecycle_records :: "persisted_session list \<Rightarrow> string \<Rightarrow> persisted_session list" where
  "lifecycle_records rs session_id = filter (\<lambda>r. \<not> is_observation r \<and> p_session_id r = session_id) rs"

definition history :: "registry \<Rightarrow> string \<Rightarrow> string list" where
  "history s session_id = map p_state (lifecycle_records (reg_records s) session_id)"

definition historic :: "registry \<Rightarrow> bool" where
  "historic s =
     (\<forall>session_id. lifecycle_path (history s session_id) \<and>
        current_session s session_id =
          (if history s session_id = [] then None else Some (last (lifecycle_records (reg_records s) session_id))))"

lemma lifecycle_path_snoc:
  "lifecycle_path states \<Longrightarrow>
     (if states = [] then state = ''created'' else (last states, state) \<in> lifecycle_edges) \<Longrightarrow>
     lifecycle_path (states @ [state])"
  by (cases "states = []") (auto simp: lifecycle_path_def successively_append_iff)

lemma accept_lifecycle_edge:
  assumes "accept_lifecycle existing r = Inr ()" and "state_from_wire (p_state r) \<noteq> None"
  shows "case existing of None \<Rightarrow> p_state r = ''created'' | Some prior \<Rightarrow> (p_state prior, p_state r) \<in> lifecycle_edges"
  using assms
  by (cases existing)
    (auto simp: accept_lifecycle_def accept_created_def accept_preparing_def accept_starting_def
      accept_running_def accept_stopping_def accept_exited_def accept_failed_def lifecycle_edges_def
      state_from_wire_def split: if_splits)

lemma accepted_sessions:
  assumes "accept_recovered_record jc s r previous_hash = Inr s'" and "index_ok s"
  shows "current_session s' session_id =
    (if \<not> is_observation r \<and> session_id = p_session_id r then Some r else current_session s session_id)"
    "\<not> is_observation r \<Longrightarrow> accept_lifecycle (current_session s (p_session_id r)) r = Inr ()"
    "state_from_wire (p_state r) \<noteq> None"
proof -
  from assms(1) obtain entry where entry: "s' = index_recovered s r entry"
      "is_observation r \<Longrightarrow> accept_observation jc s (current_session s (p_session_id r)) r = Inr entry"
      "\<not> is_observation r \<Longrightarrow> entry = Session_entry"
      "\<not> is_observation r \<Longrightarrow> accept_lifecycle (current_session s (p_session_id r)) r = Inr ()"
    and shape: "valid_record_shape r (of_nat (length (reg_records s)) + 1)"
    by (auto simp: accept_recovered_record_def Let_def and_then_Inr split: if_splits)
  show "\<not> is_observation r \<Longrightarrow> accept_lifecycle (current_session s (p_session_id r)) r = Inr ()"
    by (fact entry(4))
  show "state_from_wire (p_state r) \<noteq> None"
    using shape_common(1) [OF shape] by (simp add: common_shape_def)
  have sessions: "reg_sessions s' = (if is_observation r then reg_sessions s
      else AList.update (p_session_id r) (length (reg_records s)) (reg_sessions s))"
    using entry(1-3) accept_observation_entry [OF entry(2)]
    by (auto simp: index_recovered_def Let_def split: option.splits bool.splits)
  have records: "reg_records s' = reg_records s @ [r]"
    using entry(1) by (simp add: index_recovered_laws)
  show "current_session s' session_id =
    (if \<not> is_observation r \<and> session_id = p_session_id r then Some r else current_session s session_id)"
    using index_okD(6) [OF assms(2), of session_id]
    by (cases "find_session s session_id")
      (auto simp: current_session_def sessions records update_conv' nth_append)
qed

lemma historic_accept:
  assumes "historic s" and "index_ok s" and "accept_recovered_record jc s r previous_hash = Inr s'"
  shows "historic s'"
proof -
  note facts = accepted_sessions [OF assms(3,2)]
  have records: "lifecycle_records (reg_records s') session_id = lifecycle_records (reg_records s) session_id @
      (if \<not> is_observation r \<and> session_id = p_session_id r then [r] else [])" for session_id
    using accept_recovered_records [OF assms(3)] by (auto simp: lifecycle_records_def)
  then have history: "history s' session_id = history s session_id @
      (if \<not> is_observation r \<and> session_id = p_session_id r then [p_state r] else [])" for session_id
    by (simp add: history_def)
  have "lifecycle_path (history s' session_id)" for session_id
  proof (cases "\<not> is_observation r \<and> session_id = p_session_id r")
    case True
    then have "case current_session s session_id of None \<Rightarrow> p_state r = ''created''
        | Some prior \<Rightarrow> (p_state prior, p_state r) \<in> lifecycle_edges"
      using accept_lifecycle_edge [OF _ facts(3)] facts(2) by blast
    moreover have "lifecycle_path (history s session_id)"
      "current_session s session_id =
        (if history s session_id = [] then None else Some (last (lifecycle_records (reg_records s) session_id)))"
      using assms(1) by (simp_all add: historic_def)
    ultimately have "lifecycle_path (history s session_id @ [p_state r])"
      by (intro lifecycle_path_snoc) (auto simp: history_def last_map split: option.splits if_splits)
    with True show ?thesis by (simp add: history)
  next
    case False
    then have "history s' session_id = history s session_id"
      by (simp only: history if_False append_Nil2)
    then show ?thesis
      using assms(1) by (simp add: historic_def)
  qed
  moreover have "current_session s' session_id =
      (if history s' session_id = [] then None else Some (last (lifecycle_records (reg_records s') session_id)))"
    for session_id
    using assms(1) [unfolded historic_def, rule_format, of session_id]
    by (cases "\<not> is_observation r \<and> session_id = p_session_id r")
      (simp_all only: facts(1) history records, simp_all)
  ultimately show ?thesis by (simp add: historic_def)
qed

lemma historic_accept_all:
  "historic s \<Longrightarrow> index_ok s \<Longrightarrow> accept_all jc s (last_hash s) rs = Inr s' \<Longrightarrow> historic s'"
proof (induction rs arbitrary: s)
  case (Cons r rs)
  then obtain s1 where s1: "accept_recovered_record jc s r (last_hash s) = Inr s1"
      "accept_all jc s1 (p_this_hash r) rs = Inr s'"
    by (auto simp: and_then_Inr)
  have "last_hash s1 = p_this_hash r"
    using accept_recovered_records [OF s1(1)] by (simp add: last_hash_def)
  then show ?case
    using Cons.IH [OF historic_accept [OF Cons.prems(1,2) s1(1)] index_ok_accept [OF Cons.prems(2) s1(1)]]
      s1(2) by simp
qed simp

lemma replayable_historic:
  assumes "replayable jc s"
  shows "historic s"
proof -
  obtain s0 where s0: "accept_all jc (blank_index s) zero_digest (reg_records s) = Inr s0" "same_index s0 s"
    using assms by (auto simp: replayable_def)
  have "historic (blank_index s)"
    by (simp add: historic_def history_def lifecycle_records_def lifecycle_path_def blank_index_def
        current_session_def)
  then have "historic s0"
    using historic_accept_all [OF _ index_ok_blank] s0(1) by (simp add: last_hash_def blank_index_def)
  then show ?thesis
    using current_session_cong [OF s0(2)] s0(2)
    by (simp add: historic_def history_def same_index_iff)
qed

subsection \<open>Terminal states\<close>

lemma lifecycle_terminal:
  assumes "lifecycle_path (states @ later)" and "states \<noteq> []" and "last states \<in> {''exited'', ''failed''}"
  shows "later = []"
proof (cases later)
  case (Cons state rest)
  with assms have "(last states, state) \<in> lifecycle_edges"
    by (auto simp: lifecycle_path_def successively_append_iff)
  with assms(3) show ?thesis by (auto simp: lifecycle_edges_def)
qed

lemma terminal_session:
  assumes "historic s" and "historic s'" and "prefix (reg_records s) (reg_records s')"
    and "current_session s session_id = Some r" and "p_state r \<in> {''exited'', ''failed''}"
  shows "current_session s' session_id = Some r"
proof -
  let ?of = "\<lambda>t. lifecycle_records (reg_records t) session_id"
  obtain later where later: "?of s' = ?of s @ later"
    using assms(3) by (auto simp: prefix_def lifecycle_records_def)
  have last: "?of s \<noteq> []" "last (?of s) = r"
    using assms(1,4) by (auto simp: historic_def history_def split: if_splits)
  have "lifecycle_path (map p_state (?of s'))"
    using assms(2) by (simp add: historic_def history_def)
  then have path: "lifecycle_path (map p_state (?of s) @ map p_state later)"
    unfolding later by simp
  have "map p_state later = []"
    using last assms(5) by (intro lifecycle_terminal [OF path]) (auto simp: last_map)
  with later last show ?thesis
    using assms(2) by (simp add: historic_def history_def)
qed

end
