(* ===== verification/Registry_Guards.thy ===== *)
theory Registry_Guards
  imports Registry_Reach
begin

text \<open>
  The conditions of \<open>operates\<close> are exact.  Five operations write a record without checking everything
  that recovery demands of it; here the condition of each is shown to be what decides whether recovery
  accepts the record that the operation appended.
\<close>

definition recoverable :: "json_codec \<Rightarrow> registry \<Rightarrow> persisted_session \<Rightarrow> bool" where
  "recoverable jc s r = (\<exists>t. accept_recovered_record jc s r (last_hash s) = Inr t)"

lemma recoverable_demands:
  assumes "recoverable jc s r"
  shows "valid_record_shape r (of_nat (length (reg_records s)) + 1)" "reg_requests s (p_idempotency_key r) = None"
  using assms
  by (auto simp: recoverable_def accept_recovered_record_def Let_def and_then_Inr split: if_splits)

lemma advances_recoverable:
  assumes "advances jc s s'" and "reg_records s' = reg_records s @ [r]"
  shows "recoverable jc s r"
proof -
  obtain r0 where r0: "committed jc s r0 s'" "acceptable jc s r0"
    using assms by (auto simp: advances_def rolled_back_def same_index_iff)
  obtain h where "hash_record r0 = Inr h" "r = r0\<lparr>p_this_hash := h\<rparr>"
    using committed_records [OF r0(1)] assms(2) by auto
  with r0(2) show ?thesis by (auto simp: acceptable_def recoverable_def)
qed

text \<open>What a transition that grew the registry appended: the record its plan answered, sealed.\<close>

lemma transition_appended:
  assumes wf: "well_formed jc s"
    and step: "transition jc (locked s (\<lambda>s1. (look s1, s1))) plan respond = (result, s')"
    and grew: "reg_records s' = reg_records s @ [r]"
    and plan: "\<And>s1 e s2. plan s1 = (Inl e, s2) \<Longrightarrow> s2 = s1 \<or> s2 = s1\<lparr>reg_poisoned := True\<rparr>"
      "\<And>s1 r0 s2. plan s1 = (Inr r0, s2) \<Longrightarrow> s2 = s1"
  shows "\<exists>s1 r0 h. same_index s s1 \<and> plan s1 = (Inr r0, s1) \<and> r = r0\<lparr>p_this_hash := h\<rparr>"
proof -
  obtain found s1 where l: "locked s (\<lambda>s1. (look s1, s1)) = (found, s1)" by fastforce
  have s1: "rolled_back s s1" "same_index s s1"
    using locked_laws [OF l] by (auto simp: rolled_back_def)
  then have same: "reg_records s1 = reg_records s" by (simp add: same_index_iff)
  have none: "found = Inr None"
    using step grew same by (auto simp: transition_def l split: sum.splits option.splits)
  then have clean: "\<not> reg_poisoned s" "\<not> reg_poisoned s1"
    using locked_laws [OF l] by auto
  have wf1: "well_formed jc s1"
    using wf s1(1) clean by (blast intro: well_formed_rolled_back)
  obtain p s2 where p: "plan s1 = (p, s2)" by fastforce
  show ?thesis
  proof (cases p)
    case (Inl e)
    then have "s' = s2" using step by (simp add: transition_def l none p)
    then show ?thesis using plan(1) [OF p [unfolded Inl]] grew same by auto
  next
    case (Inr r0)
    then have s2: "s2 = s1" using plan(2) p by simp
    obtain a s3 where a: "append_record_locked jc s1 r0 = (a, s3)" by fastforce
    then have "s' = s3"
      using step Inr s2 by (auto simp: transition_def l none p split: sum.splits)
    then have "committed jc s1 r0 s'"
      using append_record_locked_laws [OF a well_formedD(5) [OF wf1 clean(2)]] grew same
      by (auto simp: rolled_back_def same_index_iff)
    then obtain h where "r = r0\<lparr>p_this_hash := h\<rparr>"
      using committed_records grew same by fastforce
    then show ?thesis using s1(2) p Inr s2 by blast
  qed
qed

lemma pure_appended:
  assumes "well_formed jc s" and "transition jc (locked s (\<lambda>s1. (look s1, s1))) (pure_plan plan) respond = (result, s')"
    and "reg_records s' = reg_records s @ [r]"
  shows "\<exists>s1 r0 h. same_index s s1 \<and> plan s1 = Inr r0 \<and> r = r0\<lparr>p_this_hash := h\<rparr>"
  using transition_appended [OF assms] by (auto simp: pure_plan_def)

lemma pure_needs:
  assumes "well_formed jc s" and "transition jc (locked s (\<lambda>s1. (look s1, s1))) (pure_plan plan) respond = (result, s')"
    and "reg_records s' = reg_records s @ [r]" and "recoverable jc s r"
    and "\<And>s1 r0 h. plan s1 = Inr r0 \<Longrightarrow> same_index s s1 \<Longrightarrow> recoverable jc s (r0\<lparr>p_this_hash := h\<rparr>) \<Longrightarrow> needed"
  shows needed
  using pure_appended [OF assms(1-3)] assms(4,5) by auto

subsection \<open>The clock at a start\<close>

lemma shape_started_time:
  assumes "valid_record_shape r n" and "p_operation r \<in> {''mark_starting'', ''mark_managed_starting''}"
  shows "p_authorized_at_ms r \<le> p_starting_at_ms r"
  using assms by (auto simp: valid_record_shape_def Let_def started_shape_def split: if_splits)

lemma starting_plan_clock:
  assumes "mark_starting_plan b digest key now_ms s1 = Inr r0" and "same_index s s1"
    and "recoverable jc s (r0\<lparr>p_this_hash := h\<rparr>)"
  shows "starting_clock (eb_session_id b) now_ms s"
proof -
  obtain prior where cur: "current_session s (eb_session_id b) = Some prior"
    and r0: "p_operation r0 = ''mark_starting''" "p_starting_at_ms r0 = now_ms" "p_authorized_at_ms r0 = p_authorized_at_ms prior"
    using assms(1) records_cong [OF assms(2)]
    by (auto simp: mark_starting_plan_def with_session_Inr successor_defs split: if_splits sum.splits)
  then have "p_authorized_at_ms prior \<le> now_ms"
    using shape_started_time [OF recoverable_demands(1) [OF assms(3)]] by simp
  then show ?thesis by (simp add: starting_clock_def cur)
qed

lemma managed_starting_plan_clock:
  assumes "mark_managed_starting_plan b digest key now_ms s1 = Inr r0" and "same_index s s1"
    and "recoverable jc s (r0\<lparr>p_this_hash := h\<rparr>)"
  shows "starting_clock (mb_session_id b) now_ms s"
proof -
  obtain prior where cur: "current_session s (mb_session_id b) = Some prior"
    and r0: "p_operation r0 = ''mark_managed_starting''" "p_starting_at_ms r0 = now_ms"
      "p_authorized_at_ms r0 = p_authorized_at_ms prior"
    using assms(1) records_cong [OF assms(2)]
    by (auto simp: mark_managed_starting_plan_def with_session_Inr successor_defs split: if_splits dest!: and_then_eligible_Inr)
  then have "p_authorized_at_ms prior \<le> now_ms"
    using shape_started_time [OF recoverable_demands(1) [OF assms(3)]] by simp
  then show ?thesis by (simp add: starting_clock_def cur)
qed

lemma mark_starting_exact:
  assumes wf: "well_formed jc s" and grew: "reg_records (snd (mark_starting jc b reservation key now_ms s)) = reg_records s @ [r]"
  shows "recoverable jc s r \<longleftrightarrow> starting_clock (eb_session_id b) now_ms s"
proof
  obtain result s' where step: "mark_starting jc b reservation key now_ms s = (result, s')" by fastforce
  show "recoverable jc s r" if "starting_clock (eb_session_id b) now_ms s"
    using advances_recoverable [OF mark_starting_durable [OF wf that step]] grew step by simp
  assume r: "recoverable jc s r"
  obtain digest respond where t:
    "transition jc (find_starting_replay_locked b digest key s) (pure_plan (mark_starting_plan b digest key now_ms)) respond = (result, s')"
    using step grew by (auto simp: mark_starting_def split: if_splits sum.splits)
  from pure_needs [OF wf t [unfolded find_starting_replay_locked_def] _ r starting_plan_clock]
  show "starting_clock (eb_session_id b) now_ms s" using grew step by simp
qed

lemma mark_managed_starting_exact:
  assumes wf: "well_formed jc s"
    and grew: "reg_records (snd (mark_managed_starting jc b reservation key now_ms s)) = reg_records s @ [r]"
  shows "recoverable jc s r \<longleftrightarrow> starting_clock (mb_session_id b) now_ms s"
proof
  obtain result s' where step: "mark_managed_starting jc b reservation key now_ms s = (result, s')" by fastforce
  show "recoverable jc s r" if "starting_clock (mb_session_id b) now_ms s"
    using advances_recoverable [OF mark_managed_starting_durable [OF wf that step]] grew step by simp
  assume r: "recoverable jc s r"
  obtain digest respond where t:
    "transition jc (find_managed_starting_replay b digest key s) (pure_plan (mark_managed_starting_plan b digest key now_ms)) respond = (result, s')"
    using step grew by (auto simp: mark_managed_starting_def split: if_splits sum.splits)
  from pure_needs [OF wf t [unfolded find_managed_starting_replay_def] _ r managed_starting_plan_clock]
  show "starting_clock (mb_session_id b) now_ms s" using grew step by simp
qed

subsection \<open>Failures of managed sessions\<close>

lemma failed_plan_direct:
  assumes "mark_failed_plan c digest key now_ms s1 = (Inr r0, s2)" and "same_index s s1"
    and "recoverable jc s (r0\<lparr>p_this_hash := h\<rparr>)"
  shows "direct_session (fc_session_id c) s"
proof -
  obtain prior where cur: "current_session s (fc_session_id c) = Some prior"
    and r0: "p_session_id r0 = fc_session_id c" "p_state r0 = ''failed''" "p_operation r0 = ''mark_failed''"
      "p_managed_runtime_identity r0 = None"
    using assms(1) records_cong [OF assms(2)]
    by (auto simp: mark_failed_plan_def successor_defs split: if_splits option.splits)
  have "accept_failed (Some prior) (r0\<lparr>p_this_hash := h\<rparr>) = Inr ()"
    using assms(3) r0 cur
    by (auto simp: recoverable_def accept_recovered_record_def Let_def and_then_Inr accept_lifecycle_def is_observation_def
        split: if_splits)
  then have "p_managed_runtime_identity prior = None"
    using r0(4) by (auto simp: accept_failed_def same_launch_def split: if_splits)
  then show ?thesis by (simp add: direct_session_def cur)
qed

lemma mark_failed_exact:
  assumes wf: "well_formed jc s" and grew: "reg_records (snd (mark_failed jc c key now_ms s)) = reg_records s @ [r]"
  shows "recoverable jc s r \<longleftrightarrow> direct_session (fc_session_id c) s"
proof
  obtain result s' where step: "mark_failed jc c key now_ms s = (result, s')" by fastforce
  show "recoverable jc s r" if "direct_session (fc_session_id c) s"
    using advances_recoverable [OF mark_failed_durable [OF wf that step]] grew step by simp
  assume r: "recoverable jc s r"
  obtain digest respond where t:
    "transition jc (find_failure_replay_locked c digest key s) (mark_failed_plan c digest key now_ms) respond = (result, s')"
    using step grew by (auto simp: mark_failed_def split: if_splits sum.splits)
  have pure: "s2 = s1" if "mark_failed_plan c digest key now_ms s1 = (Inr r0, s2)" for s1 r0 s2
    using that by (auto simp: mark_failed_plan_def split: if_splits option.splits)
  have "\<exists>s1 r0 h. same_index s s1 \<and> mark_failed_plan c digest key now_ms s1 = (Inr r0, s1) \<and> r = r0\<lparr>p_this_hash := h\<rparr>"
    using grew step
    by (intro transition_appended [OF wf t [unfolded find_failure_replay_locked_def] _ impure_plan_laws(6) pure]) simp_all
  then show "direct_session (fc_session_id c) s"
    using failed_plan_direct r by blast
qed

subsection \<open>The keys of observations\<close>

lemma enqueue_exact:
  assumes wf: "well_formed jc s"
    and grew: "reg_records (snd (enqueue_observation_intent jc body x now_ms s)) = reg_records s @ [r]"
  shows "recoverable jc s r \<longleftrightarrow> enqueue_key_free body x s"
proof
  obtain result s' where step: "enqueue_observation_intent jc body x now_ms s = (result, s')" by fastforce
  show "recoverable jc s r" if "enqueue_key_free body x s"
    using advances_recoverable [OF enqueue_durable [OF wf that step]] grew step by simp
  assume r: "recoverable jc s r"
  define key where "key = observation_intent_key (ox_session_id x) (ox_channel_generation x) (ob_intent_id body)"
  obtain found s1 where l: "locked s (\<lambda>s1. (if reg_quarantined s1 key \<noteq> None
      then Inl (failure Invalid_state ''observation intent schema is unavailable'') else Inr (), s1)) = (found, s1)"
    by fastforce
  have s1: "rolled_back s s1" "same_index s s1"
    using locked_laws [OF l] by (auto simp: rolled_back_def)
  then have same: "reg_records s1 = reg_records s" by (simp add: same_index_iff)
  obtain descriptor digest where commit: "found = Inr ()" "enqueue_commit jc descriptor body x digest key now_ms s1 = (result, s')"
    using step grew same l
    by (auto simp: enqueue_observation_intent_def Let_def simp flip: key_def split: if_splits sum.splits option.splits)
  have wf1: "well_formed jc s1"
    using wf s1(1) commit(1) locked_laws [OF l] by (blast intro: well_formed_rolled_back)
  obtain s2 r0 h where r0: "same_index s1 s2" "enqueue_plan jc descriptor body x digest now_ms s2 = Inr r0" "r = r0\<lparr>p_this_hash := h\<rparr>"
    using pure_appended [OF wf1 commit(2) [unfolded enqueue_commit_def]] grew step same by auto
  then obtain d where "hash_observation_intent_request body x = Inr d" "p_idempotency_key r = ''intent-enqueue:'' @ d"
    by (auto simp: enqueue_plan_def with_session_Inr copied_successor_def successor_defs split: if_splits sum.splits option.splits)
  then show "enqueue_key_free body x s"
    using recoverable_demands(2) [OF r] by (simp add: enqueue_key_free_def)
qed

lemma disposition_exact:
  assumes wf: "well_formed jc s"
    and grew: "reg_records (snd (set_observation_intent_disposition jc d s)) = reg_records s @ [r]"
  shows "recoverable jc s r \<longleftrightarrow> disposition_key_free d s"
proof
  obtain result s' where step: "set_observation_intent_disposition jc d s = (result, s')" by fastforce
  show "recoverable jc s r" if "disposition_key_free d s"
    using advances_recoverable [OF disposition_durable [OF wf that step]] grew step by simp
  assume r: "recoverable jc s r"
  let ?key = "observation_intent_key (od_session_id d) (od_channel_generation d) (od_intent_id d)"
  obtain digest respond where digest: "hash_observation_intent_disposition d = Inr digest" and t:
    "transition jc (locked s (\<lambda>s1. (find_disposition_replay d digest ?key s1, s1))) (pure_plan (disposition_plan d digest ?key)) respond = (result, s')"
    using step grew by (auto simp: set_observation_intent_disposition_def Let_def split: if_splits sum.splits)
  obtain s2 r0 h where "disposition_plan d digest ?key s2 = Inr r0" "r = r0\<lparr>p_this_hash := h\<rparr>"
    using pure_appended [OF wf t] grew step by auto
  then have "p_idempotency_key r = ''intent-disposition:'' @ digest"
    by (auto simp: disposition_plan_def with_session_Inr copied_successor_def successor_defs split: if_splits sum.splits option.splits)
  then show "disposition_key_free d s"
    using recoverable_demands(2) [OF r] digest by (simp add: disposition_key_free_def)
qed

end
