(* ===== verification/Receipt_Journal.thy ===== *)
theory Receipt_Journal
  imports Receipt_Chain Framing Paths
begin

text \<open>
  The durable receipt journal of \<open>src/container/receipt_journal.cpp\<close>: an owner-only file with a
  header that names the signing key, followed by framed, HMAC-chained receipt records.  The
  operations of \<open>receipt_audit_journal\<close> are functions on \<open>receipt_journal\<close>; the JSON library is the
  record \<open>journal_codec\<close> of its three calls.
\<close>

subsection \<open>Records and files\<close>

record receipt_journal_record =
  jr_kind :: string
  jr_resource :: "authenticated_resource_enforcement_receipt option"
  jr_refinement :: "authenticated_refinement_evaluation_receipt option"

text \<open>\<open>glz::write_json\<close> of a record, the strict read of a record, and the strict read of the naked
  envelope of older journals; the left side is the text of \<open>glz::format_error\<close>.\<close>

record journal_codec =
  jc_write :: "receipt_journal_record \<Rightarrow> string expected"
  jc_read :: "string \<Rightarrow> receipt_journal_record expected"
  jc_read_legacy :: "string \<Rightarrow> authenticated_resource_enforcement_receipt expected"

definition journal_magic :: bytes where
  "journal_magic = bytes_of_string ''GLVRJNL1''"

definition journal_header_bytes :: nat where
  "journal_header_bytes = 72"

definition max_journal_payload_bytes :: nat where
  "max_journal_payload_bytes = 64 * 1024"

definition min_journal_bytes :: u64 where
  "min_journal_bytes = 1024"

definition default_receipt_journal_bytes :: u64 where
  "default_receipt_journal_bytes = 64 * 1024 * 1024"

definition max_receipt_reconciliation_page :: nat where
  "max_receipt_reconciliation_page = 1000"

definition journal_text :: io_text where
  "journal_text =
     \<lparr>io_range = Some ''journal offset exceeds platform range'', io_write = ''journal write'',
      io_stalled = ''journal write made no progress'', io_read = ''journal read'',
      io_ended = ''journal ended unexpectedly''\<rparr>"

definition validate_file :: "disk \<Rightarrow> u64 expected \<times> disk" where
  "validate_file d =
     (case single_call d of
        (Some e, d1) \<Rightarrow> (Inl (system_error ''journal fstat'' e), d1)
      | (None, d1) \<Rightarrow>
          if \<not> owner_only_file (d_euid d) (d_meta d)
          then (Inl ''journal must be an owner-only, single-link regular file'', d1)
          else (Inr (of_nat (length (d_bytes d))), d1))"

definition remove_created_path :: "disk \<Rightarrow> unit expected" where
  "remove_created_path d =
     (case single_call d of
        (Some e, d1) \<Rightarrow> Inl (system_error ''created journal fstat'' e)
      | (None, d1) \<Rightarrow>
     (case single_call d1 of
        (Some e, d2) \<Rightarrow> Inl (system_error ''created journal path fstat'' e)
      | (None, d2) \<Rightarrow>
     (case d_path d of
        None \<Rightarrow> Inl (system_error ''created journal path fstat'' ''No such file or directory'')
      | Some path_metadata \<Rightarrow>
          if fm_device (d_meta d) \<noteq> fm_device path_metadata \<or> fm_inode (d_meta d) \<noteq> fm_inode path_metadata
          then Inl ''created journal path identity changed; refusing cleanup''
          else
     (case single_call d2 of
        (Some e, d3) \<Rightarrow> Inl (system_error ''created journal unlink'' e)
      | (None, d3) \<Rightarrow> fst (sync_descriptor d3 ''created journal cleanup directory sync'')))))"

text \<open>\<open>jl_parent\<close> is the error of opening the parent directory, if any; \<open>jl_file\<close> the outcome of
  \<open>openat\<close> on the name.\<close>

record journal_location =
  jl_parent :: "string option"
  jl_file :: "disk expected"

definition cleanup_failure :: "bool \<Rightarrow> string \<Rightarrow> disk \<Rightarrow> string" where
  "cleanup_failure created error d =
     (if \<not> created then error
      else (case remove_created_path d of Inr _ \<Rightarrow> error | Inl removed \<Rightarrow> error @ ''; '' @ removed))"

definition open_journal_path :: "string \<Rightarrow> bool \<Rightarrow> journal_location \<Rightarrow> disk expected" where
  "open_journal_path path created loc =
     (if filename path \<in> {[], ''.'', ''..''} then Inl ''journal path requires a bounded filename''
      else (case jl_parent loc of
        Some e \<Rightarrow> Inl (system_error ''journal parent open'' e)
      | None \<Rightarrow>
     (case jl_file loc of
        Inl e \<Rightarrow> Inl (system_error (if created then ''journal create'' else ''journal open'') e)
      | Inr d \<Rightarrow>
     (case validate_file d of
        (Inl e, d1) \<Rightarrow> Inl (cleanup_failure created e d1)
      | (Inr _, d1) \<Rightarrow>
     (case retried_call d1 of
        (Some e, d2) \<Rightarrow> Inl (cleanup_failure created (system_error ''journal exclusive lock'' e) d2)
      | (None, d2) \<Rightarrow> Inr d2)))))"

definition valid_journal_record :: "receipt_journal_record \<Rightarrow> bool" where
  "valid_journal_record r =
     (jr_kind r = ''resource_enforcement_v1'' \<and> jr_resource r \<noteq> None \<and> jr_refinement r = None \<or>
      jr_kind r = ''refinement_evaluation_v1'' \<and> jr_resource r = None \<and> jr_refinement r \<noteq> None)"

definition encode_journal_record :: "journal_codec \<Rightarrow> receipt_journal_record \<Rightarrow> string expected" where
  "encode_journal_record jc r =
     (if \<not> valid_journal_record r then Inl ''receipt journal record kind is invalid''
      else (case jc_write jc r of
              Inl e \<Rightarrow> Inl (''receipt journal encode: '' @ e)
            | Inr encoded \<Rightarrow>
                if encoded = [] \<or> length encoded > max_journal_payload_bytes
                then Inl ''receipt journal payload exceeds its bound''
                else Inr encoded))"

definition decode_journal_record :: "journal_codec \<Rightarrow> string \<Rightarrow> receipt_journal_record expected" where
  "decode_journal_record jc payload =
     (case jc_read jc payload of
        Inr r \<Rightarrow>
          if \<not> valid_journal_record r then Inl ''receipt journal record kind is invalid'' else Inr r
      | Inl _ \<Rightarrow>
          (case jc_read_legacy jc payload of
             Inl e \<Rightarrow> Inl (''receipt journal decode: '' @ e)
           | Inr legacy \<Rightarrow>
               Inr \<lparr>jr_kind = ''resource_enforcement_v1'', jr_resource = Some legacy, jr_refinement = None\<rparr>))"

definition make_record :: "string \<Rightarrow> bytes" where
  "make_record payload =
     append_u32 (append_u32 [] (of_nat (length payload)) @ bytes_of_string payload) (of_nat (length payload))"

definition record_hmac :: "receipt_journal_record \<Rightarrow> string" where
  "record_hmac r =
     (case jr_resource r of Some envelope \<Rightarrow> ar_this_hmac envelope | None \<Rightarrow> af_this_hmac (the (jr_refinement r)))"

definition anchor_is_prefix ::
    "receipt_audit_anchor \<Rightarrow> string \<Rightarrow> receipt_journal_record list \<Rightarrow> bool" where
  "anchor_is_prefix peer key_id records =
     (if an_key_id peer \<noteq> key_id \<or> unat (an_sequence peer) > length records then False
      else if an_sequence peer = 0 then an_head_hmac peer = zero_digest
      else an_head_hmac peer = record_hmac (records ! (unat (an_sequence peer) - 1)))"

definition validate_header :: "disk \<Rightarrow> string \<Rightarrow> unit expected \<times> disk" where
  "validate_header d expected_key_id =
     (if length expected_key_id \<noteq> 64 then (Inl ''receipt journal expected key identity is invalid'', d)
      else (case read_bytes journal_text d journal_header_bytes 0 of
        (Inl e, d1) \<Rightarrow> (Inl e, d1)
      | (Inr header, d1) \<Rightarrow>
          if take 8 header \<noteq> journal_magic then (Inl ''receipt journal header magic mismatch'', d1)
          else if drop 8 header \<noteq> bytes_of_string expected_key_id
          then (Inl ''receipt journal key identity mismatch'', d1)
          else (Inr (), d1)))"

subsection \<open>Recovery\<close>

definition verify_journal_record ::
    "receipt_journal_record \<Rightarrow> string \<Rightarrow> receipt_audit_anchor \<Rightarrow> unit expected \<times> receipt_audit_anchor" where
  "verify_journal_record r key_hex anchor =
     (case jr_resource r of
        Some envelope \<Rightarrow>
          verify_receipt_audit_envelope envelope key_hex (ar_session_id envelope)
            (ar_controller_plan_digest envelope) anchor
      | None \<Rightarrow>
          (let envelope = the (jr_refinement r) in
           verify_refinement_receipt_audit_envelope envelope key_hex (af_session_id envelope)
             (af_controller_plan_digest envelope) anchor))"

record recovered_journal =
  rec_records :: "receipt_journal_record list"
  rec_durable_size :: u64
  rec_torn_tail :: bool

lemma record_bytes_progress:
  assumes "durable < file_size" and "\<not> file_size - durable < (ucast (n :: u32) + 8 :: u64)"
    and "unat n \<le> max_journal_payload_bytes"
  shows "unat (file_size - (durable + (ucast n + 8))) < unat (file_size - durable)"
proof -
  have small: "unat n < 2 ^ 20"
    using assms(3) by (simp add: max_journal_payload_bytes_def)
  have wide: "unat (ucast n + 8 :: u64) = unat n + 8"
    using small unat_widen [of n] by (simp add: unat_word_ariths)
  have "file_size - (durable + (ucast n + 8)) = (file_size - durable) - (ucast n + 8)"
    by simp
  then have "unat (file_size - (durable + (ucast n + 8))) = unat (file_size - durable) - unat (ucast n + 8 :: u64)"
    using assms(2) by (metis not_less unat_sub)
  then show ?thesis
    using assms(1,2) wide by (simp add: word_less_nat_alt not_less)
qed

function recover_records ::
    "journal_codec \<Rightarrow> u64 \<Rightarrow> string \<Rightarrow> disk \<Rightarrow> receipt_audit_anchor \<Rightarrow> recovered_journal \<Rightarrow>
     (recovered_journal \<times> receipt_audit_anchor \<times> disk) expected" where
  "recover_records jc file_size key_hex d anchor recovered =
     (let durable = rec_durable_size recovered in
      if \<not> durable < file_size then Inr (recovered, anchor, d)
      else if file_size - durable < 4 then Inr (recovered\<lparr>rec_torn_tail := True\<rparr>, anchor, d)
      else (case read_bytes journal_text d 4 durable of
        (Inl e, d1) \<Rightarrow> Inl e
      | (Inr head4, d1) \<Rightarrow>
     (let payload_size = decode_u32 head4; record_bytes = ucast payload_size + 8 in
      if payload_size = 0 \<or> unat payload_size > max_journal_payload_bytes
      then Inl ''receipt journal record length is invalid''
      else if record_bytes > file_size - durable
      then Inr (recovered\<lparr>rec_torn_tail := True\<rparr>, anchor, d1)
      else (case read_bytes journal_text d1 (unat payload_size) (durable + 4) of
        (Inl e, d2) \<Rightarrow> Inl e
      | (Inr payload, d2) \<Rightarrow>
     (case read_bytes journal_text d2 4 (durable + 4 + ucast payload_size) of
        (Inl e, d3) \<Rightarrow> Inl e
      | (Inr foot4, d3) \<Rightarrow>
          if decode_u32 foot4 \<noteq> payload_size then Inl ''receipt journal record footer mismatch''
          else (case decode_journal_record jc (string_of_bytes payload) of
        Inl e \<Rightarrow> Inl e
      | Inr r \<Rightarrow>
     (case verify_journal_record r key_hex anchor of
        (Inl e, anchor1) \<Rightarrow> Inl (''receipt journal chain verification: '' @ e)
      | (Inr _, anchor1) \<Rightarrow>
          recover_records jc file_size key_hex d3 anchor1
            (recovered\<lparr>rec_records := rec_records recovered @ [r],
                       rec_durable_size := durable + record_bytes\<rparr>))))))))"
  by pat_completeness auto

termination
  by (relation "measure (\<lambda>(jc, file_size, key_hex, d, anchor, recovered).
        unat (file_size - rec_durable_size recovered))")
    (auto intro!: record_bytes_progress)

declare recover_records.simps [simp del]

subsection \<open>The journal\<close>

record receipt_journal =
  rj_disk :: disk
  rj_chain :: receipt_audit_chain
  rj_records :: "receipt_journal_record list"
  rj_durable_size :: u64
  rj_max_size :: u64
  rj_repaired_tail :: bool
  rj_poisoned :: bool

definition create_new :: "string \<Rightarrow> string \<Rightarrow> u64 \<Rightarrow> journal_location \<Rightarrow> receipt_journal expected" where
  "create_new path key_hex max_bytes loc =
     (if max_bytes < min_journal_bytes \<or> max_bytes > default_receipt_journal_bytes
      then Inl ''receipt journal size bound is invalid''
      else
        and_then (chain_create key_hex) (\<lambda>chain.
        and_then (open_journal_path path True loc) (\<lambda>d.
          let header = journal_magic @ bytes_of_string (ac_key_id chain) in
          case write_bytes journal_text d header 0 of
            (Inl e, d1) \<Rightarrow> Inl (cleanup_failure True e d1)
          | (Inr _, d1) \<Rightarrow>
         (case sync_descriptor d1 ''journal header sync'' of
            (Inl e, d2) \<Rightarrow> Inl (cleanup_failure True e d2)
          | (Inr _, d2) \<Rightarrow>
         (case sync_descriptor d2 ''journal directory sync'' of
            (Inl e, d3) \<Rightarrow> Inl (cleanup_failure True e d3)
          | (Inr _, d3) \<Rightarrow>
              Inr \<lparr>rj_disk = d3, rj_chain = chain, rj_records = [],
                   rj_durable_size = of_nat journal_header_bytes, rj_max_size = max_bytes,
                   rj_repaired_tail = False, rj_poisoned = False\<rparr>)))))"

definition repair_tail :: "disk \<Rightarrow> u64 \<Rightarrow> disk expected" where
  "repair_tail d durable =
     (if unat durable > off_t_max then Inl (system_error ''receipt journal torn-tail truncate'' ''Success'')
      else (case single_call d of
        (Some e, d1) \<Rightarrow> Inl (system_error ''receipt journal torn-tail truncate'' e)
      | (None, d1) \<Rightarrow>
     (case sync_descriptor (ftruncate d1 (unat durable)) ''receipt journal repair sync'' of
        (Inl e, d2) \<Rightarrow> Inl e
      | (Inr _, d2) \<Rightarrow> Inr d2)))"

definition open_existing ::
    "journal_codec \<Rightarrow> string \<Rightarrow> string \<Rightarrow> receipt_audit_anchor option \<Rightarrow> u64 \<Rightarrow> journal_location \<Rightarrow>
     receipt_journal expected" where
  "open_existing jc path key_hex trusted_peer_anchor max_bytes loc =
     (if max_bytes < min_journal_bytes \<or> max_bytes > default_receipt_journal_bytes
      then Inl ''receipt journal size bound is invalid''
      else
        and_then (chain_create key_hex) (\<lambda>chain.
        and_then (anchor_create key_hex) (\<lambda>anchor0.
        and_then (open_journal_path path False loc) (\<lambda>d.
          case validate_file d of
            (Inl e, d1) \<Rightarrow> Inl e
          | (Inr file_size, d1) \<Rightarrow>
              if unat file_size < journal_header_bytes \<or> file_size > max_bytes
              then Inl ''receipt journal file size is invalid''
              else
         (case validate_header d1 (ac_key_id chain) of
            (Inl e, d2) \<Rightarrow> Inl e
          | (Inr _, d2) \<Rightarrow>
            and_then (recover_records jc file_size key_hex d2 anchor0
                \<lparr>rec_records = [], rec_durable_size = of_nat journal_header_bytes, rec_torn_tail = False\<rparr>)
              (\<lambda>(recovered, anchor, d3).
                if (case trusted_peer_anchor of
                      None \<Rightarrow> False
                    | Some peer \<Rightarrow> \<not> anchor_is_prefix peer (ac_key_id chain) (rec_records recovered))
                then Inl ''trusted peer anchor is not a journal prefix''
                else if rec_torn_tail recovered \<and> trusted_peer_anchor = None
                then Inl ''receipt journal has a torn tail and requires a trusted peer anchor''
                else
                  and_then
                    (if rec_torn_tail recovered then repair_tail d3 (rec_durable_size recovered) else Inr d3)
                    (\<lambda>d4.
                      Inr \<lparr>rj_disk = d4,
                           rj_chain = chain\<lparr>ac_sequence := an_sequence anchor, ac_head_hmac := an_head_hmac anchor\<rparr>,
                           rj_records = rec_records recovered,
                           rj_durable_size = rec_durable_size recovered, rj_max_size = max_bytes,
                           rj_repaired_tail = rec_torn_tail recovered, rj_poisoned = False\<rparr>)))))))"

text \<open>The check at the head of every operation: the error it reports, if any.\<close>

definition journal_usable :: "receipt_journal \<Rightarrow> string option \<times> receipt_journal" where
  "journal_usable s =
     (if rj_poisoned s then (Some ''receipt journal is poisoned'', s)
      else (case validate_file (rj_disk s) of
        (Inl e, d1) \<Rightarrow> (Some e, s\<lparr>rj_disk := d1, rj_poisoned := True\<rparr>)
      | (Inr observed_size, d1) \<Rightarrow>
          if observed_size \<noteq> rj_durable_size s
          then (Some ''receipt journal size changed unexpectedly'', s\<lparr>rj_disk := d1, rj_poisoned := True\<rparr>)
          else (None, s\<lparr>rj_disk := d1\<rparr>)))"

definition journal_rollback :: "receipt_journal \<Rightarrow> unit expected \<times> receipt_journal" where
  "journal_rollback s =
     (if unat (rj_durable_size s) > off_t_max
      then (Inl (system_error ''receipt journal rollback truncate'' ''Success''), s\<lparr>rj_poisoned := True\<rparr>)
      else (case single_call (rj_disk s) of
        (Some e, d1) \<Rightarrow>
          (Inl (system_error ''receipt journal rollback truncate'' e), s\<lparr>rj_disk := d1, rj_poisoned := True\<rparr>)
      | (None, d1) \<Rightarrow>
     (case sync_descriptor (ftruncate d1 (unat (rj_durable_size s))) ''receipt journal rollback sync'' of
        (Inl e, d2) \<Rightarrow> (Inl e, s\<lparr>rj_disk := d2, rj_poisoned := True\<rparr>)
      | (Inr _, d2) \<Rightarrow> (Inr (), s\<lparr>rj_disk := d2\<rparr>))))"

definition rolled_back_error :: "string \<Rightarrow> unit expected \<Rightarrow> string" where
  "rolled_back_error error restored =
     (case restored of Inr _ \<Rightarrow> error | Inl e \<Rightarrow> error @ ''; '' @ e)"

text \<open>The part the two appends share: encode, write, flush, and only then advance the chain.\<close>

definition store_record ::
    "journal_codec \<Rightarrow> receipt_journal \<Rightarrow> receipt_journal_record \<Rightarrow> u64 \<Rightarrow> string \<Rightarrow> unit expected \<times> receipt_journal" where
  "store_record jc s r sequence next_head =
     (case encode_journal_record jc r of
        Inl e \<Rightarrow> (Inl e, s)
      | Inr payload \<Rightarrow>
          let record = make_record payload in
          if length record > unat (rj_max_size s - rj_durable_size s)
          then (Inl ''receipt journal capacity exhausted'', s)
          else (case write_bytes journal_text (rj_disk s) record (rj_durable_size s) of
        (Inl e, d1) \<Rightarrow>
          (case journal_rollback (s\<lparr>rj_disk := d1\<rparr>) of
             (restored, s1) \<Rightarrow> (Inl (rolled_back_error e restored), s1))
      | (Inr _, d1) \<Rightarrow>
     (case sync_descriptor d1 ''receipt journal record sync'' of
        (Inl e, d2) \<Rightarrow>
          (case journal_rollback (s\<lparr>rj_disk := d2\<rparr>) of
             (restored, s1) \<Rightarrow> (Inl (rolled_back_error e restored), s1))
      | (Inr _, d2) \<Rightarrow>
          (Inr (), s\<lparr>rj_disk := d2, rj_records := rj_records s @ [r],
                     rj_chain := (rj_chain s)\<lparr>ac_sequence := sequence, ac_head_hmac := next_head\<rparr>,
                     rj_durable_size := rj_durable_size s + of_nat (length record)\<rparr>))))"

definition journal_append ::
    "journal_codec \<Rightarrow> string \<Rightarrow> string \<Rightarrow> resource_enforcement_receipt \<Rightarrow> receipt_journal \<Rightarrow>
     authenticated_resource_enforcement_receipt expected \<times> receipt_journal" where
  "journal_append jc session_id controller_plan_digest receipt s =
     (case journal_usable s of
        (Some e, s1) \<Rightarrow> (Inl e, s1)
      | (None, s1) \<Rightarrow>
     (case chain_append (rj_chain s1) session_id controller_plan_digest receipt of
        (Inl e, _) \<Rightarrow> (Inl e, s1)
      | (Inr envelope, _) \<Rightarrow>
     (case store_record jc s1
             \<lparr>jr_kind = ''resource_enforcement_v1'', jr_resource = Some envelope, jr_refinement = None\<rparr>
             (ar_sequence envelope) (ar_this_hmac envelope) of
        (Inl e, s2) \<Rightarrow> (Inl e, s2)
      | (Inr _, s2) \<Rightarrow> (Inr envelope, s2))))"

definition journal_append_refinement ::
    "journal_codec \<Rightarrow> string \<Rightarrow> string \<Rightarrow> refinement_evaluation_receipt \<Rightarrow> receipt_journal \<Rightarrow>
     authenticated_refinement_evaluation_receipt expected \<times> receipt_journal" where
  "journal_append_refinement jc session_id controller_plan_digest receipt s =
     (case journal_usable s of
        (Some e, s1) \<Rightarrow> (Inl e, s1)
      | (None, s1) \<Rightarrow>
     (case chain_append_refinement (rj_chain s1) session_id controller_plan_digest receipt of
        (Inl e, _) \<Rightarrow> (Inl e, s1)
      | (Inr envelope, _) \<Rightarrow>
     (case store_record jc s1
             \<lparr>jr_kind = ''refinement_evaluation_v1'', jr_resource = None, jr_refinement = Some envelope\<rparr>
             (af_sequence envelope) (af_this_hmac envelope) of
        (Inl e, s2) \<Rightarrow> (Inl e, s2)
      | (Inr _, s2) \<Rightarrow> (Inr envelope, s2))))"

subsection \<open>Reading the journal\<close>

record receipt_journal_page =
  jp_envelopes :: "authenticated_resource_enforcement_receipt list"
  jp_refinement_envelopes :: "authenticated_refinement_evaluation_receipt list"
  jp_has_more :: bool
  jp_local_anchor :: receipt_audit_anchor

definition journal_anchor :: "receipt_journal \<Rightarrow> receipt_audit_anchor" where
  "journal_anchor s =
     \<lparr>an_key_id = ac_key_id (rj_chain s), an_sequence = ac_sequence (rj_chain s),
      an_head_hmac = ac_head_hmac (rj_chain s)\<rparr>"

definition page_after ::
    "receipt_audit_anchor \<Rightarrow> nat \<Rightarrow> receipt_journal \<Rightarrow> receipt_journal_page expected \<times> receipt_journal" where
  "page_after trusted_peer_anchor limit s =
     (if limit = 0 \<or> limit > max_receipt_reconciliation_page
      then (Inl ''receipt reconciliation page limit is invalid'', s)
      else (case journal_usable s of
        (Some e, s1) \<Rightarrow> (Inl e, s1)
      | (None, s1) \<Rightarrow>
          if \<not> anchor_is_prefix trusted_peer_anchor (ac_key_id (rj_chain s1)) (rj_records s1)
          then (Inl ''trusted peer anchor is not a journal prefix'', s1)
          else
            (let start = unat (an_sequence trusted_peer_anchor);
                 remaining = length (rj_records s1) - start;
                 count = min limit remaining;
                 selected = take count (drop start (rj_records s1))
             in (Inr \<lparr>jp_envelopes = List.map_filter jr_resource selected,
                      jp_refinement_envelopes =
                        List.map_filter (\<lambda>r. if jr_resource r = None then jr_refinement r else None) selected,
                      jp_has_more = (count < remaining), jp_local_anchor = journal_anchor s1\<rparr>, s1))))"

definition contains_exact ::
    "authenticated_resource_enforcement_receipt \<Rightarrow> receipt_journal \<Rightarrow> bool expected \<times> receipt_journal" where
  "contains_exact envelope s =
     (case journal_usable s of
        (Some e, s1) \<Rightarrow> (Inl e, s1)
      | (None, s1) \<Rightarrow>
          (Inr (ar_sequence envelope \<noteq> 0 \<and> unat (ar_sequence envelope) \<le> length (rj_records s1) \<and>
                jr_resource (rj_records s1 ! (unat (ar_sequence envelope) - 1)) = Some envelope), s1))"

definition contains_exact_refinement ::
    "authenticated_refinement_evaluation_receipt \<Rightarrow> receipt_journal \<Rightarrow> bool expected \<times> receipt_journal" where
  "contains_exact_refinement envelope s =
     (case journal_usable s of
        (Some e, s1) \<Rightarrow> (Inl e, s1)
      | (None, s1) \<Rightarrow>
          (Inr (af_sequence envelope \<noteq> 0 \<and> unat (af_sequence envelope) \<le> length (rj_records s1) \<and>
                jr_refinement (rj_records s1 ! (unat (af_sequence envelope) - 1)) = Some envelope), s1))"

text \<open>The lookup loop: the one record that \<open>select\<close> picks, an error when a second one follows.\<close>

fun unique_match :: "string \<Rightarrow> ('r \<Rightarrow> 'e option) \<Rightarrow> 'e option \<Rightarrow> 'r list \<Rightarrow> 'e option expected" where
  "unique_match message select found [] = Inr found"
| "unique_match message select found (r # rs) =
     (case select r of
        None \<Rightarrow> unique_match message select found rs
      | Some envelope \<Rightarrow>
          if found \<noteq> None then Inl message else unique_match message select (Some envelope) rs)"

definition lookup_binding_ok :: "string \<Rightarrow> string \<Rightarrow> string \<Rightarrow> bool" where
  "lookup_binding_ok session_id controller_plan_digest profile_digest =
     (valid_identifier session_id \<and> valid_digest controller_plan_digest \<and> valid_digest profile_digest)"

definition resource_for ::
    "string \<Rightarrow> string \<Rightarrow> string \<Rightarrow> receipt_journal_record \<Rightarrow>
     authenticated_resource_enforcement_receipt option" where
  "resource_for session_id controller_plan_digest profile_digest r =
     (case jr_resource r of
        None \<Rightarrow> None
      | Some envelope \<Rightarrow>
          if ar_session_id envelope \<noteq> session_id \<or>
             ar_controller_plan_digest envelope \<noteq> controller_plan_digest \<or>
             rr_profile_digest (ar_receipt envelope) \<noteq> profile_digest
          then None else Some envelope)"

definition terminal_for_execution ::
    "string \<Rightarrow> string \<Rightarrow> string \<Rightarrow> receipt_journal \<Rightarrow>
     authenticated_resource_enforcement_receipt option expected \<times> receipt_journal" where
  "terminal_for_execution session_id controller_plan_digest profile_digest s =
     (if \<not> lookup_binding_ok session_id controller_plan_digest profile_digest
      then (Inl ''receipt execution lookup binding is invalid'', s)
      else (case journal_usable s of
        (Some e, s1) \<Rightarrow> (Inl e, s1)
      | (None, s1) \<Rightarrow>
          (unique_match ''multiple terminal receipts exist for one execution''
             (resource_for session_id controller_plan_digest profile_digest) None (rj_records s1), s1)))"

definition refinement_for ::
    "string \<Rightarrow> string \<Rightarrow> string \<Rightarrow> receipt_journal_record \<Rightarrow>
     authenticated_refinement_evaluation_receipt option" where
  "refinement_for session_id controller_plan_digest profile_digest r =
     (case jr_refinement r of
        None \<Rightarrow> None
      | Some envelope \<Rightarrow>
          if af_session_id envelope \<noteq> session_id \<or>
             af_controller_plan_digest envelope \<noteq> controller_plan_digest \<or>
             rr_profile_digest (re_resource_receipt (af_receipt envelope)) \<noteq> profile_digest
          then None else Some envelope)"

definition refinement_terminal_for_execution ::
    "string \<Rightarrow> string \<Rightarrow> string \<Rightarrow> receipt_journal \<Rightarrow>
     authenticated_refinement_evaluation_receipt option expected \<times> receipt_journal" where
  "refinement_terminal_for_execution session_id controller_plan_digest profile_digest s =
     (if \<not> lookup_binding_ok session_id controller_plan_digest profile_digest
      then (Inl ''receipt execution lookup binding is invalid'', s)
      else (case journal_usable s of
        (Some e, s1) \<Rightarrow> (Inl e, s1)
      | (None, s1) \<Rightarrow>
          (unique_match ''multiple refinement receipts exist for one execution''
             (refinement_for session_id controller_plan_digest profile_digest) None (rj_records s1), s1)))"

definition remaining_capacity :: "receipt_journal \<Rightarrow> u64 expected \<times> receipt_journal" where
  "remaining_capacity s =
     (case journal_usable s of
        (Some e, s1) \<Rightarrow> (Inl e, s1)
      | (None, s1) \<Rightarrow> (Inr (rj_max_size s1 - rj_durable_size s1), s1))"

definition journal_record_count :: "receipt_journal \<Rightarrow> u64" where
  "journal_record_count s = of_nat (length (rj_records s))"

end
