(* ===== verification/Journal_Laws.thy ===== *)
theory Journal_Laws
  imports Receipt_Journal
begin

text \<open>
  What the receipt journal keeps: the file of a usable journal is its header followed by the frames
  of its records, and the records verify as one chain whose head is the producer's.  Recovery reads
  exactly the complete records back, whatever was cut off the last frame.
\<close>

subsection \<open>Vocabulary\<close>

definition journal_faithful :: "journal_codec \<Rightarrow> bool" where
  "journal_faithful jc = (\<forall>r payload. jc_write jc r = Inr payload \<longrightarrow> jc_read jc payload = Inr r)"

definition journal_payload :: "journal_codec \<Rightarrow> string \<Rightarrow> receipt_journal_record \<Rightarrow> bool" where
  "journal_payload jc payload r =
     (payload \<noteq> [] \<and> length payload \<le> max_journal_payload_bytes \<and> decode_journal_record jc payload = Inr r)"

fun verify_records ::
    "string \<Rightarrow> receipt_audit_anchor \<Rightarrow> receipt_journal_record list \<Rightarrow> receipt_audit_anchor option" where
  "verify_records key_hex anchor [] = Some anchor"
| "verify_records key_hex anchor (r # rs) =
     (case verify_journal_record r key_hex anchor of
        (Inl e, anchor') \<Rightarrow> None
      | (Inr _, anchor') \<Rightarrow> verify_records key_hex anchor' rs)"

lemma verify_records_append:
  "verify_records key_hex anchor (rs @ rs') =
     Option.bind (verify_records key_hex anchor rs) (\<lambda>anchor'. verify_records key_hex anchor' rs')"
  by (induction rs arbitrary: anchor) (auto split: prod.splits sum.splits)

text \<open>What a crash may leave of one more frame: a strict prefix of it.\<close>

definition torn_frame :: "bytes \<Rightarrow> bool" where
  "torn_frame tail =
     (\<exists>payload k. payload \<noteq> [] \<and> length payload \<le> max_journal_payload_bytes \<and>
        k < length (frame_of payload) \<and> tail = take k (frame_of payload))"

lemma make_record_frame: "make_record payload = frame_of payload"
  by (simp add: make_record_def frame_of_def append_u32_enc)

subsection \<open>Recovery reads the image back\<close>

definition recovers ::
    "(recovered_journal \<times> receipt_audit_anchor \<times> disk) expected \<Rightarrow> disk \<Rightarrow> recovered_journal \<Rightarrow>
     receipt_audit_anchor \<Rightarrow> bool" where
  "recovers result d recovered anchor =
     ((\<exists>os. result = Inr (recovered, anchor, d\<lparr>d_outcomes := os\<rparr>) \<and> (d_outcomes d = [] \<longrightarrow> os = [])) \<or>
      d_outcomes d \<noteq> [] \<and> (\<exists>e. result = Inl e))"

lemma torn_end:
  assumes "torn_frame tail" and "tail \<noteq> []" and "d_bytes d = pre @ tail"
    and "length (d_bytes d) \<le> off_t_max" and "rec_durable_size recovered = of_nat (length pre)"
  shows "recovers (recover_records jc (of_nat (length (d_bytes d))) key_hex d anchor recovered) d
    (recovered\<lparr>rec_torn_tail := True\<rparr>) anchor"
proof -
  obtain payload k where payload: "payload \<noteq> []" "length payload \<le> max_journal_payload_bytes"
      "k < length (frame_of payload)" "tail = take k (frame_of payload)"
    using assms(1) by (auto simp: torn_frame_def)
  have small: "length payload < 2 ^ 32"
    using payload(2) by (simp add: max_journal_payload_bytes_def)
  let ?durable = "rec_durable_size recovered" and ?size = "of_nat (length (d_bytes d)) :: u64"
  have sizes: "unat ?durable = length pre" "unat ?size = length (d_bytes d)"
    using unat_file_size [of "length pre"] unat_file_size [OF assms(4)] assms(3-5) by simp_all
  have remaining: "unat (?size - ?durable) = k" "?durable < ?size"
    using sizes assms(2,3) payload(3,4) by (auto simp: unat_sub word_le_nat_alt word_less_nat_alt)
  show ?thesis
  proof (cases "k < 4")
    case True
    then have "?size - ?durable < 4"
      using remaining(1) by (simp add: word_less_nat_alt)
    then show ?thesis
      using remaining(2) by (subst recover_records.simps) (auto simp: recovers_def Let_def intro!: exI [of _ "d_outcomes d"])
  next
    case False
    let ?head = "enc_u32 (of_nat (length payload))"
    obtain rest where rest: "tail = ?head @ rest"
      using False payload(4) by (auto simp: frame_of_def take_append)
    obtain h d1 where h: "read_bytes journal_text d 4 ?durable = (h, d1)" by fastforce
    obtain os where d1: "d1 = d\<lparr>d_outcomes := os\<rparr>" "d_outcomes d = [] \<longrightarrow> os = [] \<and> h = Inr ?head"
        "h = Inr ?head \<or> (\<exists>e. h = Inl e)"
      using read_bytes_laws [of journal_text d ?head ?durable h d1 pre rest] h assms(3,4) rest sizes(1) by auto
    have "\<not> ?size - ?durable < 4"
      using False remaining(1) by (simp add: word_less_nat_alt)
    moreover have "?size - ?durable < ucast (of_nat (length payload) :: u32) + 8"
      using remaining(1) payload(3) small size_roundtrip [OF small]
      by (simp add: word_less_nat_alt unat_word_ariths)
    moreover have "of_nat (length payload) \<noteq> (0 :: u32)" "unat (of_nat (length payload) :: u32) \<le> max_journal_payload_bytes"
      using payload(1,2) size_roundtrip(3) [OF small] by (auto simp: word_unat_eq_iff)
    ultimately show ?thesis
      using remaining(2) h d1
      by (subst recover_records.simps) (auto simp: recovers_def Let_def)
  qed
qed

lemma recover_one:
  assumes payload: "journal_payload jc payload r" and bytes: "d_bytes d = pre @ frame_of payload @ rest"
    and len: "length (d_bytes d) \<le> off_t_max" and durable: "rec_durable_size recovered = of_nat (length pre)"
    and verified: "verify_journal_record r key_hex anchor = (Inr u, anchor')"
  shows "(\<exists>os. recover_records jc (of_nat (length (d_bytes d))) key_hex d anchor recovered =
      recover_records jc (of_nat (length (d_bytes d))) key_hex (d\<lparr>d_outcomes := os\<rparr>) anchor'
        (recovered\<lparr>rec_records := rec_records recovered @ [r],
           rec_durable_size := of_nat (length (pre @ frame_of payload))\<rparr>) \<and> (d_outcomes d = [] \<longrightarrow> os = [])) \<or>
    d_outcomes d \<noteq> [] \<and> (\<exists>e. recover_records jc (of_nat (length (d_bytes d))) key_hex d anchor recovered = Inl e)"
proof -
  let ?durable = "rec_durable_size recovered" and ?size = "of_nat (length (d_bytes d)) :: u64"
  define n where "n = (of_nat (length payload) :: u32)"
  have payload: "payload \<noteq> []" "length payload \<le> max_journal_payload_bytes"
      "decode_journal_record jc payload = Inr r"
    using payload by (simp_all add: journal_payload_def)
  then have small: "length payload < 2 ^ 32"
    by (simp add: max_journal_payload_bytes_def)
  note wide = size_roundtrip [OF small, folded n_def]
  have sizes: "unat ?durable = length pre" "unat ?size = length (d_bytes d)"
    using unat_file_size [of "length pre"] unat_file_size [OF len] bytes len durable by simp_all
  have remaining: "unat (?size - ?durable) = length payload + 8 + length rest" "?durable < ?size"
    using sizes bytes by (auto simp: unat_sub word_le_nat_alt word_less_nat_alt)
  have checks: "\<not> ?size - ?durable < 4" "\<not> ?size - ?durable < ucast n + 8" "n \<noteq> 0"
      "\<not> max_journal_payload_bytes < unat n"
    using remaining payload(1,2) small wide by (auto simp: word_less_nat_alt unat_word_ariths word_unat_eq_iff)
  have next_size: "?durable + (ucast n + 8) = of_nat (length (pre @ frame_of payload))"
    by (simp add: durable wide(1))
  obtain h d1 p d2 f d3 where
    h: "read_bytes journal_text d 4 ?durable = (h, d1)" and
    p: "read_bytes journal_text d1 (length payload) (?durable + 4) = (p, d2)" and
    f: "read_bytes journal_text d2 4 (?durable + 4 + of_nat (length payload)) = (f, d3)"
    by (metis surj_pair)
  have p': "read_bytes journal_text d1 (unat n) (?durable + 4) = (p, d2)"
    and f': "read_bytes journal_text d2 4 (?durable + 4 + ucast n) = (f, d3)"
    using p f by (simp_all only: wide)
  note reads = frame_reads [OF bytes len sizes(1) small h p f, folded n_def]
  obtain os where os: "d3 = d\<lparr>d_outcomes := os\<rparr>" using reads(3) by blast
  have unfolded: "recover_records jc ?size key_hex d anchor recovered =
      (case h of Inl e \<Rightarrow> Inl e | Inr _ \<Rightarrow> (case p of Inl e \<Rightarrow> Inl e | Inr _ \<Rightarrow> (case f of Inl e \<Rightarrow> Inl e
       | Inr _ \<Rightarrow> recover_records jc ?size key_hex d3 anchor'
           (recovered\<lparr>rec_records := rec_records recovered @ [r],
              rec_durable_size := of_nat (length (pre @ frame_of payload))\<rparr>))))"
    using reads(4-6)
    by (elim disjE exE; subst recover_records.simps)
      (simp_all add: Let_def h p' f' checks remaining(2) payload(3) verified next_size)
  show ?thesis
    using unfolded reads(4-7) os by (auto split: sum.splits)
qed

lemma recover_image:
  assumes "framed_by (journal_payload jc) rs body" and "d_bytes d = pre @ body @ tail"
    and "torn_frame tail" and "length (d_bytes d) \<le> off_t_max"
    and "rec_durable_size recovered = of_nat (length pre)" and "verify_records key_hex anchor rs = Some anchor'"
  shows "recovers (recover_records jc (of_nat (length (d_bytes d))) key_hex d anchor recovered) d
    (recovered\<lparr>rec_records := rec_records recovered @ rs, rec_durable_size := of_nat (length (pre @ body)),
       rec_torn_tail := rec_torn_tail recovered \<or> tail \<noteq> []\<rparr>) anchor'"
  using assms
proof (induction rs arbitrary: body d pre recovered anchor)
  case Nil
  show ?case
  proof (cases "tail = []")
    case True
    with Nil show ?thesis
      by (subst recover_records.simps) (auto simp: recovers_def Let_def intro!: exI [of _ "d_outcomes d"])
  next
    case False
    have same: "recovered\<lparr>rec_records := rec_records recovered @ [], rec_durable_size := of_nat (length (pre @ body)),
        rec_torn_tail := rec_torn_tail recovered \<or> tail \<noteq> []\<rparr> = recovered\<lparr>rec_torn_tail := True\<rparr>"
      using Nil.prems(1,5) False by (cases recovered) simp
    show ?thesis
      using torn_end [OF Nil.prems(3) False _ Nil.prems(4,5), of jc key_hex anchor] Nil.prems(1,2,6)
      unfolding same by simp
  qed
next
  case (Cons r rs)
  obtain payload rest where body: "journal_payload jc payload r" "framed_by (journal_payload jc) rs rest"
      "body = frame_of payload @ rest"
    using Cons.prems(1) by (auto simp: framed_by_Cons)
  obtain anchor1 u where v: "verify_journal_record r key_hex anchor = (Inr u, anchor1)"
      "verify_records key_hex anchor1 rs = Some anchor'"
    using Cons.prems(6) by (auto split: prod.splits sum.splits)
  have bytes: "d_bytes d = pre @ frame_of payload @ rest @ tail"
    using Cons.prems(2) body(3) by simp
  show ?case
    using recover_one [OF body(1) bytes Cons.prems(4,5) v(1)]
  proof (elim disjE exE conjE)
    fix os
    let ?d = "d\<lparr>d_outcomes := os\<rparr>" and ?recovered = "recovered\<lparr>rec_records := rec_records recovered @ [r],
           rec_durable_size := of_nat (length (pre @ frame_of payload))\<rparr>"
    assume step: "recover_records jc (of_nat (length (d_bytes d))) key_hex d anchor recovered =
        recover_records jc (of_nat (length (d_bytes d))) key_hex ?d anchor1 ?recovered" "d_outcomes d = [] \<longrightarrow> os = []"
    have "recovers (recover_records jc (of_nat (length (d_bytes ?d))) key_hex ?d anchor1 ?recovered) ?d
        (?recovered\<lparr>rec_records := rec_records ?recovered @ rs,
           rec_durable_size := of_nat (length ((pre @ frame_of payload) @ rest)),
           rec_torn_tail := rec_torn_tail ?recovered \<or> tail \<noteq> []\<rparr>) anchor'"
      using Cons.prems(3,4) bytes v(2) by (intro Cons.IH [OF body(2)]) simp_all
    then show ?thesis
      using step body(3) by (auto simp: recovers_def)
  next
    fix e
    assume "d_outcomes d \<noteq> []" "recover_records jc (of_nat (length (d_bytes d))) key_hex d anchor recovered = Inl e"
    then show ?thesis by (simp add: recovers_def)
  qed
qed

subsection \<open>What recovery accepts\<close>

definition recovered_part ::
    "journal_codec \<Rightarrow> string \<Rightarrow> disk \<Rightarrow> receipt_audit_anchor \<Rightarrow> nat \<Rightarrow> recovered_journal \<Rightarrow> recovered_journal \<Rightarrow>
     receipt_audit_anchor \<Rightarrow> disk \<Rightarrow> bool" where
  "recovered_part jc key_hex d anchor position recovered recovered' anchor' d' =
     (\<exists>rs body tail os. framed_by (journal_payload jc) rs body \<and> drop position (d_bytes d) = body @ tail \<and>
        rec_records recovered' = rec_records recovered @ rs \<and> verify_records key_hex anchor rs = Some anchor' \<and>
        unat (rec_durable_size recovered') = position + length body \<and> d' = d\<lparr>d_outcomes := os\<rparr> \<and>
        rec_torn_tail recovered' = (rec_torn_tail recovered \<or> tail \<noteq> []))"

lemma recovered_part_end:
  assumes "unat (rec_durable_size recovered) = position" and "\<exists>os. d' = d\<lparr>d_outcomes := os\<rparr>"
    and "torn = (drop position (d_bytes d) \<noteq> [])"
    and "recovered' = (if torn then recovered\<lparr>rec_torn_tail := True\<rparr> else recovered)"
  shows "recovered_part jc key_hex d anchor position recovered recovered' anchor d'"
proof -
  obtain os where "d' = d\<lparr>d_outcomes := os\<rparr>" using assms(2) ..
  then show ?thesis
    using assms(1,3,4) unfolding recovered_part_def
    by (intro exI [of _ "[]"] exI [of _ "drop position (d_bytes d)"] exI [of _ os]) simp
qed

lemma recovered_part_step:
  assumes "journal_payload jc payload r" and "verify_journal_record r key_hex anchor = (Inr u, anchor1)"
    and "drop position (d_bytes d) = frame_of payload @ drop (position + length (frame_of payload)) (d_bytes d)"
    and "d1 = d\<lparr>d_outcomes := os\<rparr>"
    and "recovered_part jc key_hex d1 anchor1 (position + length (frame_of payload))
      (recovered\<lparr>rec_records := rec_records recovered @ [r], rec_durable_size := n\<rparr>) recovered' anchor' d'"
  shows "recovered_part jc key_hex d anchor position recovered recovered' anchor' d'"
proof -
  obtain rs body tail os' where later: "framed_by (journal_payload jc) rs body"
      "drop (position + length (frame_of payload)) (d_bytes d) = body @ tail"
      "rec_records recovered' = (rec_records recovered @ [r]) @ rs" "verify_records key_hex anchor1 rs = Some anchor'"
      "unat (rec_durable_size recovered') = position + length (frame_of payload) + length body"
      "d' = d1\<lparr>d_outcomes := os'\<rparr>" "rec_torn_tail recovered' = (rec_torn_tail recovered \<or> tail \<noteq> [])"
    using assms(4,5) by (auto simp: recovered_part_def)
  have "framed_by (journal_payload jc) (r # rs) (frame_of payload @ body)"
    using assms(1) later(1) by (auto simp: framed_by_Cons)
  moreover have "drop position (d_bytes d) = (frame_of payload @ body) @ tail"
    using assms(3) later(2) by simp
  moreover have "verify_records key_hex anchor (r # rs) = Some anchor'"
    using assms(2) later(4) by simp
  ultimately show ?thesis
    unfolding recovered_part_def using later(3,5,6,7) assms(4)
    by (intro exI [of _ "r # rs"] exI [of _ "frame_of payload @ body"] exI [of _ tail] exI [of _ os']) simp
qed

lemma recover_records_step:
  assumes "recover_records jc file_size key_hex d anchor recovered = Inr (recovered', anchor', d')"
    and "rec_durable_size recovered < file_size" and "\<not> file_size - rec_durable_size recovered < 4"
  obtains (torn) h d1 where "read_bytes journal_text d 4 (rec_durable_size recovered) = (Inr h, d1)"
      "recovered' = recovered\<lparr>rec_torn_tail := True\<rparr>" "anchor' = anchor" "d' = d1"
  | (complete) h d1 p d2 f d3 r u anchor1 where
      "read_bytes journal_text d 4 (rec_durable_size recovered) = (Inr h, d1)"
      "read_bytes journal_text d1 (unat (decode_u32 h)) (rec_durable_size recovered + 4) = (Inr p, d2)"
      "read_bytes journal_text d2 4 (rec_durable_size recovered + 4 + ucast (decode_u32 h)) = (Inr f, d3)"
      "decode_u32 f = decode_u32 h" "decode_u32 h \<noteq> 0" "unat (decode_u32 h) \<le> max_journal_payload_bytes"
      "\<not> file_size - rec_durable_size recovered < ucast (decode_u32 h) + 8"
      "decode_journal_record jc (string_of_bytes p) = Inr r"
      "verify_journal_record r key_hex anchor = (Inr u, anchor1)"
      "recover_records jc file_size key_hex d3 anchor1
         (recovered\<lparr>rec_records := rec_records recovered @ [r],
            rec_durable_size := rec_durable_size recovered + (ucast (decode_u32 h) + 8)\<rparr>) =
       Inr (recovered', anchor', d')"
proof -
  note run = assms(1) [unfolded recover_records.simps [of jc file_size key_hex d] Let_def]
  obtain hr d1 where h: "read_bytes journal_text d 4 (rec_durable_size recovered) = (hr, d1)" by fastforce
  show thesis
  proof (cases hr)
    case (Inl e)
    with run h assms(2,3) show ?thesis by simp
  next
    case (Inr head4)
    with run h assms(2,3) torn complete show ?thesis
      by (auto simp: not_less split: if_splits sum.splits prod.splits)
  qed
qed

lemma recover_records_sound:
  assumes "recover_records jc (of_nat (length (d_bytes d))) key_hex d anchor recovered = Inr (recovered', anchor', d')"
    and "length (d_bytes d) \<le> off_t_max" and "unat (rec_durable_size recovered) = position"
    and "position \<le> length (d_bytes d)"
  shows "recovered_part jc key_hex d anchor position recovered recovered' anchor' d'"
  using assms
proof (induction "length (d_bytes d) - position" arbitrary: d anchor recovered position rule: less_induct)
  case less
  let ?durable = "rec_durable_size recovered" and ?size = "of_nat (length (d_bytes d)) :: u64"
  note run = less.prems(1)
  have size: "unat ?size = length (d_bytes d)"
    by (rule unat_file_size [OF less.prems(2)])
  have left: "unat (?size - ?durable) = length (d_bytes d) - position"
    using size less.prems(3,4) by (simp add: unat_sub word_le_nat_alt)
  consider "\<not> ?durable < ?size" | "?durable < ?size" "?size - ?durable < 4" | "?durable < ?size" "\<not> ?size - ?durable < 4"
    by blast
  then show ?case
  proof cases
    case 1
    then have "recovered' = recovered" "anchor' = anchor" "d' = d"
      using run by (subst (asm) recover_records.simps, simp)+
    moreover have "drop position (d_bytes d) = []"
      using 1 size less.prems(3) by (simp add: word_less_nat_alt)
    ultimately show ?thesis
      using recovered_part_end [OF less.prems(3), of d d False] by (metis disk.surjective disk.update_convs(6))
  next
    case 2
    then have "recovered' = recovered\<lparr>rec_torn_tail := True\<rparr>" "anchor' = anchor" "d' = d"
      using run by (subst (asm) recover_records.simps, simp add: Let_def)+
    moreover have "drop position (d_bytes d) \<noteq> []"
      using 2 size less.prems(3) by (simp add: word_less_nat_alt)
    ultimately show ?thesis
      using recovered_part_end [OF less.prems(3), of d d True] by (metis disk.surjective disk.update_convs(6))
  next
    case 3
    show ?thesis
      using run 3
    proof (cases rule: recover_records_step)
      case (torn h d1)
      moreover have "drop position (d_bytes d) \<noteq> []"
        using 3 size less.prems(3) by (simp add: word_less_nat_alt)
      ultimately show ?thesis
        using recovered_part_end [OF less.prems(3) read_bytes_sound(3) [OF torn(1)], of True] by simp
    next
      case (complete h d1 p d2 f d3 r u anchor1)
      define n where "n = (ucast (decode_u32 h) :: u64)"
      have n: "unat n = unat (decode_u32 h)" unfolding n_def by (rule unat_widen)
      have wide: "unat (n + 8) = unat n + 8"
        using complete(6) n by (simp add: unat_word_ariths max_journal_payload_bytes_def)
      have room: "position + 8 + unat n \<le> length (d_bytes d)"
        using complete(7) left wide less.prems(4) by (simp add: word_less_nat_alt not_less n_def)
      note sound = frame_sound [OF complete(1) complete(2) [folded n] complete(3) [folded n_def] n_def complete(4)
          less.prems(2) room [folded less.prems(3)]]
      obtain os where d3: "d3 = d\<lparr>d_outcomes := os\<rparr>" using sound(3) ..
      have next_size: "unat (?durable + (n + 8)) = position + length (frame_of (string_of_bytes p))"
        using less.prems(2,3) room wide sound(2) by (simp add: unat_word_ariths off_t_max_def)
      have payload: "journal_payload jc (string_of_bytes p) r"
        using complete(5,6,8) sound(2) n by (auto simp: journal_payload_def word_unat_eq_iff)
      have "recovered_part jc key_hex d3 anchor1 (position + length (frame_of (string_of_bytes p)))
          (recovered\<lparr>rec_records := rec_records recovered @ [r], rec_durable_size := ?durable + (n + 8)\<rparr>)
          recovered' anchor' d'"
        using complete(10) next_size less.prems(2) room sound(2)
        by (intro less.hyps) (simp_all add: d3 n_def)
      then show ?thesis
        using sound(1) less.prems(3) by (intro recovered_part_step [OF payload complete(9) _ d3]) simp_all
    qed
  qed
qed
end
