(* ===== verification/Journal_Contracts.thy ===== *)
theory Journal_Contracts
  imports Journal_Laws
begin

text \<open>
  The invariant of the receipt journal and the contract of its operations: whatever the kernel
  answers, an operation leaves records, chain and file as they were (possibly poisoning the
  journal) or commits exactly one record that verifies at the head of the chain.
\<close>

subsection \<open>The chain of the records\<close>

lemma verify_journal_record_anchor:
  assumes "verify_journal_record r key_hex anchor = (Inr u, anchor')"
  shows "an_sequence anchor \<noteq> - 1"
    "anchor' = anchor\<lparr>an_sequence := an_sequence anchor + 1, an_head_hmac := record_hmac r\<rparr>"
  using assms
  by (auto simp: verify_journal_record_def verify_receipt_audit_envelope_def record_hmac_def
      verify_refinement_receipt_audit_envelope_def Let_def split: option.splits sum.splits if_splits)

lemma verify_records_anchor:
  "verify_records key_hex anchor rs = Some anchor' \<Longrightarrow>
     unat (an_sequence anchor') = unat (an_sequence anchor) + length rs \<and> an_key_id anchor' = an_key_id anchor \<and>
     an_head_hmac anchor' = (if rs = [] then an_head_hmac anchor else record_hmac (last rs))"
proof (induction rs arbitrary: anchor)
  case (Cons r rs)
  obtain anchor1 u where v: "verify_journal_record r key_hex anchor = (Inr u, anchor1)"
      "verify_records key_hex anchor1 rs = Some anchor'"
    using Cons.prems by (auto split: prod.splits sum.splits)
  note step = verify_journal_record_anchor [OF v(1)]
  have "unat (an_sequence anchor1) = Suc (unat (an_sequence anchor))"
    using step unatSuc [of "an_sequence anchor"] by (simp add: add.commute eq_neg_iff_add_eq_0)
  then show ?case
    using Cons.IH [OF v(2)] step(2) by (auto simp: word_unat_eq_iff)
qed simp

definition chained_records :: "string \<Rightarrow> receipt_journal \<Rightarrow> bool" where
  "chained_records key_hex s =
     (\<exists>origin head. anchor_create key_hex = Inr origin \<and> verify_records key_hex origin (rj_records s) = Some head \<and>
        in_sync key_hex (rj_chain s) head)"

definition journal_image :: "journal_codec \<Rightarrow> receipt_journal \<Rightarrow> bool" where
  "journal_image jc s =
     (unat (rj_durable_size s) = length (d_bytes (rj_disk s)) \<and> rj_durable_size s \<le> rj_max_size s \<and>
      (\<exists>body. framed_by (journal_payload jc) (rj_records s) body \<and>
         d_bytes (rj_disk s) = journal_magic @ bytes_of_string (ac_key_id (rj_chain s)) @ body))"

definition journal_ok :: "journal_codec \<Rightarrow> string \<Rightarrow> receipt_journal \<Rightarrow> bool" where
  "journal_ok jc key_hex s =
     (journal_faithful jc \<and> chained_records key_hex s \<and> min_journal_bytes \<le> rj_max_size s \<and>
      rj_max_size s \<le> default_receipt_journal_bytes \<and>
      (rj_poisoned s \<or> journal_image jc s))"

subsection \<open>One operation\<close>

lemma validate_file_laws:
  assumes "validate_file d = (result, d')"
  shows "\<exists>os. d' = d\<lparr>d_outcomes := os\<rparr> \<and> (d_outcomes d = [] \<longrightarrow> os = [])"
    "result = Inr n \<Longrightarrow> n = of_nat (length (d_bytes d)) \<and> owner_only_file (d_euid d) (d_meta d)"
    "d_outcomes d = [] \<Longrightarrow> owner_only_file (d_euid d) (d_meta d) \<Longrightarrow> result = Inr (of_nat (length (d_bytes d)))"
  using assms
  by (auto simp: validate_file_def single_call_def split: list.splits outcome.splits if_splits)

text \<open>Two journals that differ at most in the kernel's answers and the poisoned flag.\<close>

definition same_journal :: "receipt_journal \<Rightarrow> receipt_journal \<Rightarrow> bool" where
  "same_journal s s' =
     (rj_chain s' = rj_chain s \<and> rj_records s' = rj_records s \<and> rj_durable_size s' = rj_durable_size s \<and>
      rj_max_size s' = rj_max_size s \<and> rj_repaired_tail s' = rj_repaired_tail s)"

lemma same_journal_refl [simp]: "same_journal s s"
  by (simp add: same_journal_def)

lemma same_journal_trans: "same_journal s s' \<Longrightarrow> same_journal s' s'' \<Longrightarrow> same_journal s s''"
  by (simp add: same_journal_def)

lemma same_journal_update [simp]:
  "same_journal s (s'\<lparr>rj_disk := d\<rparr>) = same_journal s s'"
  "same_journal s (s'\<lparr>rj_poisoned := b\<rparr>) = same_journal s s'"
  by (simp_all add: same_journal_def)

lemma journal_ok_same:
  assumes "journal_ok jc key_hex s" and "same_journal s s'"
    and "rj_poisoned s' \<or> \<not> rj_poisoned s \<and> d_bytes (rj_disk s') = d_bytes (rj_disk s)"
  shows "journal_ok jc key_hex s'"
  using assms by (auto simp: journal_ok_def chained_records_def journal_image_def same_journal_def)

lemma journal_usable_laws:
  assumes "journal_usable s = (error, s1)"
  shows "same_journal s s1" "\<exists>os. rj_disk s1 = (rj_disk s)\<lparr>d_outcomes := os\<rparr>"
    "rj_poisoned s1 = (error \<noteq> None)" "rj_poisoned s \<Longrightarrow> error \<noteq> None \<and> s1 = s"
proof -
  obtain n d1 where v: "validate_file (rj_disk s) = (n, d1)" by fastforce
  have "rj_disk s1 = rj_disk s \<or> rj_disk s1 = d1"
    using assms v by (auto simp: journal_usable_def split: sum.splits if_splits)
  then show "\<exists>os. rj_disk s1 = (rj_disk s)\<lparr>d_outcomes := os\<rparr>"
    using validate_file_laws(1) [OF v] outcomes_refl [of "rj_disk s"] by auto
  show "same_journal s s1" "rj_poisoned s1 = (error \<noteq> None)" "rj_poisoned s \<Longrightarrow> error \<noteq> None \<and> s1 = s"
    using assms by (auto simp: journal_usable_def split: sum.splits prod.splits if_splits)
qed

lemma journal_ok_usable:
  assumes "journal_ok jc key_hex s" and "journal_usable s = (error, s1)"
  shows "journal_ok jc key_hex s1"
  using journal_usable_laws [OF assms(2)] by (intro journal_ok_same [OF assms(1)]) auto

lemma journal_rollback_laws:
  assumes "journal_rollback s = (restored, s')" and "unat (rj_durable_size s) = length content"
    and "d_bytes (rj_disk s) = content @ extension"
  shows "same_journal s s'" "rj_poisoned s' \<or> d_bytes (rj_disk s') = content"
proof -
  obtain error d1 synced d2 where calls: "single_call (rj_disk s) = (error, d1)"
    "sync_descriptor (ftruncate d1 (unat (rj_durable_size s))) ''receipt journal rollback sync'' = (synced, d2)"
    by (metis surj_pair)
  have "d_bytes d2 = content"
    using single_call_file [OF calls(1)] sync_descriptor_file [OF calls(2)] assms(2,3) by (simp add: ftruncate_def)
  then show "same_journal s s'" "rj_poisoned s' \<or> d_bytes (rj_disk s') = content"
    using assms(1) calls
    by (auto simp: journal_rollback_def split: if_splits option.splits sum.splits)
qed

text \<open>What storing a record does: it extends the file and the records, or it leaves both alone.\<close>

definition stored :: "journal_codec \<Rightarrow> receipt_journal \<Rightarrow> receipt_journal_record \<Rightarrow> u64 \<Rightarrow> string \<Rightarrow> receipt_journal \<Rightarrow> bool" where
  "stored jc s r sequence next_head s' =
     (\<exists>payload. encode_journal_record jc r = Inr payload \<and>
        length (frame_of payload) \<le> unat (rj_max_size s - rj_durable_size s) \<and>
        d_bytes (rj_disk s') = d_bytes (rj_disk s) @ frame_of payload \<and> rj_records s' = rj_records s @ [r] \<and>
        rj_chain s' = (rj_chain s)\<lparr>ac_sequence := sequence, ac_head_hmac := next_head\<rparr> \<and>
        rj_durable_size s' = rj_durable_size s + of_nat (length (frame_of payload)) \<and>
        rj_max_size s' = rj_max_size s \<and> rj_poisoned s' = rj_poisoned s)"

lemma store_record_laws:
  assumes "store_record jc s r sequence next_head = (result, s')"
    and "unat (rj_durable_size s) = length (d_bytes (rj_disk s))"
  shows "(\<exists>e. result = Inl e) \<and> same_journal s s' \<and> (rj_poisoned s' \<or> d_bytes (rj_disk s') = d_bytes (rj_disk s)) \<or>
    result = Inr () \<and> stored jc s r sequence next_head s'"
proof (cases "encode_journal_record jc r")
  case (Inl e)
  then show ?thesis using assms(1) by (auto simp: store_record_def)
next
  case (Inr payload)
  show ?thesis
  proof (cases "length (frame_of payload) \<le> unat (rj_max_size s - rj_durable_size s)")
    case False
    then show ?thesis using assms(1) Inr by (auto simp: store_record_def make_record_frame)
  next
    case fits: True
    obtain w d1 where w: "write_bytes journal_text (rj_disk s) (frame_of payload) (rj_durable_size s) = (w, d1)"
      by fastforce
    obtain k where k: "d_bytes d1 = d_bytes (rj_disk s) @ take k (frame_of payload)"
        "w = Inr () \<longrightarrow> k = length (frame_of payload)"
      using write_bytes_extends [OF w assms(2)] by blast
    obtain y d2 where y: "sync_descriptor d1 ''receipt journal record sync'' = (y, d2)" by fastforce
    have d2: "d_bytes d2 = d_bytes d1" using sync_descriptor_file [OF y] by blast
    have undone: "same_journal s t \<and> (rj_poisoned t \<or> d_bytes (rj_disk t) = d_bytes (rj_disk s))"
      if "journal_rollback (s\<lparr>rj_disk := d\<rparr>) = (restored, t)" "d_bytes d = d_bytes d1" for d restored t
      using journal_rollback_laws [OF that(1), of "d_bytes (rj_disk s)" "take k (frame_of payload)"] that(2) k(1) assms(2)
      by (auto simp: same_journal_def)
    show ?thesis
      using assms(1) Inr fits w y k d2 undone [of d1] undone [of d2]
      by (auto simp: store_record_def make_record_frame stored_def Let_def split: sum.splits prod.splits)
  qed
qed

lemma encode_journal_payload:
  assumes "journal_faithful jc" and "encode_journal_record jc r = Inr payload"
  shows "journal_payload jc payload r"
  using assms
  by (auto simp: encode_journal_record_def journal_payload_def decode_journal_record_def journal_faithful_def
      split: if_splits sum.splits)

text \<open>What any operation may do to a journal: leave records and chain alone, or commit one record.\<close>

definition journal_extends :: "journal_codec \<Rightarrow> receipt_journal \<Rightarrow> receipt_journal_record \<Rightarrow> receipt_journal \<Rightarrow> bool" where
  "journal_extends jc s r s' =
     (\<not> rj_poisoned s' \<and> rj_records s' = rj_records s @ [r] \<and> rj_max_size s' = rj_max_size s \<and>
      (\<exists>payload. journal_payload jc payload r \<and> d_bytes (rj_disk s') = d_bytes (rj_disk s) @ frame_of payload))"

definition journal_kept :: "receipt_journal \<Rightarrow> receipt_journal \<Rightarrow> bool" where
  "journal_kept s s' =
     (same_journal s s' \<and>
      (rj_poisoned s' \<or> \<not> rj_poisoned s \<and> d_bytes (rj_disk s') = d_bytes (rj_disk s)))"

lemma journal_usable_kept: "journal_usable s = (error, s1) \<Longrightarrow> journal_kept s s1"
  using journal_usable_laws [of s error s1] by (auto simp: journal_kept_def)

lemma journal_kept_ok: "journal_ok jc key_hex s \<Longrightarrow> journal_kept s s' \<Longrightarrow> journal_ok jc key_hex s'"
  by (auto simp: journal_kept_def intro: journal_ok_same)

lemma unat_grow: "unat a + n \<le> unat b \<Longrightarrow> unat (a + of_nat n) = unat a + n" for a b :: u64
  using unsigned_less [of b, where 'a = nat] by (simp add: unat_word_ariths unsigned_of_nat take_bit_nat_eq_self)

lemma store_record_ok:
  assumes ok: "journal_ok jc key_hex s" and usable: "\<not> rj_poisoned s"
    and store: "store_record jc s r sequence next_head = (result, s')"
    and verifies: "\<And>anchor. in_sync key_hex (rj_chain s) anchor \<Longrightarrow>
      \<exists>u anchor'. verify_journal_record r key_hex anchor = (Inr u, anchor') \<and>
        in_sync key_hex ((rj_chain s)\<lparr>ac_sequence := sequence, ac_head_hmac := next_head\<rparr>) anchor'"
  shows "journal_ok jc key_hex s'"
    "(\<exists>e. result = Inl e) \<and> journal_kept s s' \<or> result = Inr () \<and> journal_extends jc s r s'"
proof -
  have image: "journal_image jc s" using ok usable by (simp add: journal_ok_def)
  obtain origin head where chain: "anchor_create key_hex = Inr origin"
      "verify_records key_hex origin (rj_records s) = Some head" "in_sync key_hex (rj_chain s) head"
    using ok by (auto simp: journal_ok_def chained_records_def)
  have faithful: "journal_faithful jc" using ok by (simp add: journal_ok_def)
  have len: "unat (rj_durable_size s) = length (d_bytes (rj_disk s))"
    using image by (simp add: journal_image_def)
  consider (undone) e where "result = Inl e" "same_journal s s'" "rj_poisoned s' \<or> d_bytes (rj_disk s') = d_bytes (rj_disk s)"
    | (added) "result = Inr ()" "stored jc s r sequence next_head s'"
    using store_record_laws [OF store len] by blast
  then have "journal_ok jc key_hex s' \<and>
    ((\<exists>e. result = Inl e) \<and> journal_kept s s' \<or> result = Inr () \<and> journal_extends jc s r s')"
  proof cases
    case undone
    then have "journal_kept s s'" using usable by (simp add: journal_kept_def)
    then show ?thesis
      using journal_kept_ok [OF ok] undone(1) by simp
  next
    case added
    obtain payload where payload: "encode_journal_record jc r = Inr payload"
        "length (frame_of payload) \<le> unat (rj_max_size s - rj_durable_size s)"
        "d_bytes (rj_disk s') = d_bytes (rj_disk s) @ frame_of payload" "rj_records s' = rj_records s @ [r]"
        "rj_chain s' = (rj_chain s)\<lparr>ac_sequence := sequence, ac_head_hmac := next_head\<rparr>"
        "rj_durable_size s' = rj_durable_size s + of_nat (length (frame_of payload))"
        "rj_max_size s' = rj_max_size s" "rj_poisoned s' = rj_poisoned s"
      using added(2) by (auto simp: stored_def)
    have holds: "journal_payload jc payload r"
      by (rule encode_journal_payload [OF faithful payload(1)])
    obtain body where body: "framed_by (journal_payload jc) (rj_records s) body"
        "d_bytes (rj_disk s) = journal_magic @ bytes_of_string (ac_key_id (rj_chain s)) @ body"
        "rj_durable_size s \<le> rj_max_size s"
      using image by (auto simp: journal_image_def)
    have room: "unat (rj_durable_size s) + length (frame_of payload) \<le> unat (rj_max_size s)"
      using payload(2) body(3) by (simp add: unat_sub word_le_nat_alt)
    have size: "unat (rj_durable_size s') = unat (rj_durable_size s) + length (frame_of payload)"
      unfolding payload(6) by (rule unat_grow [OF room])
    have "framed_by (journal_payload jc) (rj_records s') (body @ frame_of payload)"
      using framed_by_snoc [OF body(1) holds] payload(4) by simp
    then have "journal_image jc s'"
      using size len payload(3,5,7) body(2) room by (auto simp: journal_image_def word_le_nat_alt)
    moreover have "chained_records key_hex s'"
      using chain verifies [OF chain(3)] payload(4,5) by (auto simp: chained_records_def verify_records_append)
    ultimately have "journal_ok jc key_hex s'"
      using ok payload(7) by (simp add: journal_ok_def)
    then show ?thesis
      using added(1) payload(3,4,7,8) holds usable by (auto simp: journal_extends_def)
  qed
  then show "journal_ok jc key_hex s'"
    "(\<exists>e. result = Inl e) \<and> journal_kept s s' \<or> result = Inr () \<and> journal_extends jc s r s'"
    by simp_all
qed

subsection \<open>The contract of the operations\<close>

locale journal_operation =
  fixes jc :: journal_codec and key_hex :: string
    and operation :: "receipt_journal \<Rightarrow> 'a expected \<times> receipt_journal"
  assumes refuses: "rj_poisoned s \<Longrightarrow> \<exists>e. operation s = (Inl e, s)"
    and keeps: "journal_ok jc key_hex s \<Longrightarrow> operation s = (result, s') \<Longrightarrow> journal_ok jc key_hex s'"
    and acts: "journal_ok jc key_hex s \<Longrightarrow> operation s = (result, s') \<Longrightarrow>
      journal_kept s s' \<or> is_value result \<and> (\<exists>r. journal_extends jc s r s')"
begin

lemma keeps_snd: "journal_ok jc key_hex s \<Longrightarrow> journal_ok jc key_hex (snd (operation s))"
  using keeps by (metis prod.collapse)

lemma grows:
  assumes "journal_ok jc key_hex s" and "operation s = (result, s')"
  shows "\<exists>rs. rj_records s' = rj_records s @ rs" "rj_max_size s' = rj_max_size s"
  using acts [OF assms] by (auto simp: journal_kept_def same_journal_def journal_extends_def)

lemma failure_keeps:
  assumes "journal_ok jc key_hex s" and "operation s = (Inl e, s')"
  shows "journal_kept s s'"
  using acts [OF assms] by simp

end

lemma chain_append_verified:
  assumes "in_sync key_hex chain anchor" and "chain_append chain session_id plan receipt = (Inr envelope, chain')"
  shows "\<exists>u anchor'. verify_journal_record
      \<lparr>jr_kind = ''resource_enforcement_v1'', jr_resource = Some envelope, jr_refinement = None\<rparr> key_hex anchor = (Inr u, anchor') \<and>
    in_sync key_hex (chain\<lparr>ac_sequence := ar_sequence envelope, ac_head_hmac := ar_this_hmac envelope\<rparr>) anchor'"
proof -
  have "chain' = chain\<lparr>ac_sequence := ar_sequence envelope, ac_head_hmac := ar_this_hmac envelope\<rparr>"
    using assms(2) by (auto simp: chain_append_def Let_def split: if_splits sum.splits)
  then show ?thesis
    using resource_chain.append_verifies [OF assms(1), of "(session_id, plan, receipt)" envelope chain'] assms(2)
    by (auto simp: verify_journal_record_def)
qed

lemma chain_append_refinement_verified:
  assumes "in_sync key_hex chain anchor"
    and "chain_append_refinement chain session_id plan receipt = (Inr envelope, chain')"
  shows "\<exists>u anchor'. verify_journal_record
      \<lparr>jr_kind = ''refinement_evaluation_v1'', jr_resource = None, jr_refinement = Some envelope\<rparr> key_hex anchor = (Inr u, anchor') \<and>
    in_sync key_hex (chain\<lparr>ac_sequence := af_sequence envelope, ac_head_hmac := af_this_hmac envelope\<rparr>) anchor'"
proof -
  have "chain' = chain\<lparr>ac_sequence := af_sequence envelope, ac_head_hmac := af_this_hmac envelope\<rparr>"
    using assms(2) by (auto simp: chain_append_refinement_def Let_def split: if_splits sum.splits)
  then show ?thesis
    using refinement_chain.append_verifies [OF assms(1), of "(session_id, plan, receipt)" envelope chain'] assms(2)
    by (auto simp: verify_journal_record_def)
qed

text \<open>The shape of both appends: check the file, ask the chain for an envelope, store its record.\<close>

lemma journal_append_cases:
  assumes "journal_append jc session_id plan receipt s = (result, s')"
  obtains (refused) e where "result = Inl e" "journal_kept s s'"
  | (asked) s1 envelope chain' stored_result where "journal_usable s = (None, s1)"
      "chain_append (rj_chain s1) session_id plan receipt = (Inr envelope, chain')"
      "store_record jc s1 \<lparr>jr_kind = ''resource_enforcement_v1'', jr_resource = Some envelope, jr_refinement = None\<rparr>
         (ar_sequence envelope) (ar_this_hmac envelope) = (stored_result, s')"
      "result = (case stored_result of Inl e \<Rightarrow> Inl e | Inr _ \<Rightarrow> Inr envelope)"
  using assms journal_usable_kept
  by (auto simp: journal_append_def split: prod.splits option.splits sum.splits)

lemma journal_append_refinement_cases:
  assumes "journal_append_refinement jc session_id plan receipt s = (result, s')"
  obtains (refused) e where "result = Inl e" "journal_kept s s'"
  | (asked) s1 envelope chain' stored_result where "journal_usable s = (None, s1)"
      "chain_append_refinement (rj_chain s1) session_id plan receipt = (Inr envelope, chain')"
      "store_record jc s1 \<lparr>jr_kind = ''refinement_evaluation_v1'', jr_resource = None, jr_refinement = Some envelope\<rparr>
         (af_sequence envelope) (af_this_hmac envelope) = (stored_result, s')"
      "result = (case stored_result of Inl e \<Rightarrow> Inl e | Inr _ \<Rightarrow> Inr envelope)"
  using assms journal_usable_kept
  by (auto simp: journal_append_refinement_def split: prod.splits option.splits sum.splits)

lemma journal_kept_trans:
  "journal_kept s s1 \<Longrightarrow> journal_kept s1 s2 \<Longrightarrow> journal_kept s s2"
  by (auto simp: journal_kept_def intro: same_journal_trans)

lemma journal_extends_after:
  assumes "journal_usable s = (None, s1)" and "journal_extends jc s1 r s'"
  shows "journal_extends jc s r s'"
  using journal_usable_laws [OF assms(1)] assms(2) by (auto simp: journal_extends_def same_journal_def)

lemma journal_append_laws:
  assumes ok: "journal_ok jc key_hex s" and run: "journal_append jc session_id plan receipt s = (result, s')"
  shows "journal_ok jc key_hex s' \<and>
    ((\<exists>e. result = Inl e) \<and> journal_kept s s' \<or>
     (\<exists>envelope. result = Inr envelope \<and> journal_extends jc s
        \<lparr>jr_kind = ''resource_enforcement_v1'', jr_resource = Some envelope, jr_refinement = None\<rparr> s'))"
  using run
proof (cases rule: journal_append_cases)
  case refused
  then show ?thesis using journal_kept_ok [OF ok] by auto
next
  case (asked s1 envelope chain' stored_result)
  have s1: "journal_ok jc key_hex s1" "\<not> rj_poisoned s1" "journal_kept s s1"
    using journal_ok_usable [OF ok asked(1)] journal_usable_laws(3) [OF asked(1)] journal_usable_kept [OF asked(1)]
    by simp_all
  note stored = store_record_ok [OF s1(1,2) asked(3) chain_append_verified [OF _ asked(2)]]
  show ?thesis
    using stored asked(4) journal_kept_trans [OF s1(3)] journal_extends_after [OF asked(1)] by auto
qed

lemma journal_append_refinement_laws:
  assumes ok: "journal_ok jc key_hex s" and run: "journal_append_refinement jc session_id plan receipt s = (result, s')"
  shows "journal_ok jc key_hex s' \<and>
    ((\<exists>e. result = Inl e) \<and> journal_kept s s' \<or>
     (\<exists>envelope. result = Inr envelope \<and> journal_extends jc s
        \<lparr>jr_kind = ''refinement_evaluation_v1'', jr_resource = None, jr_refinement = Some envelope\<rparr> s'))"
  using run
proof (cases rule: journal_append_refinement_cases)
  case refused
  then show ?thesis using journal_kept_ok [OF ok] by auto
next
  case (asked s1 envelope chain' stored_result)
  have s1: "journal_ok jc key_hex s1" "\<not> rj_poisoned s1" "journal_kept s s1"
    using journal_ok_usable [OF ok asked(1)] journal_usable_laws(3) [OF asked(1)] journal_usable_kept [OF asked(1)]
    by simp_all
  note stored = store_record_ok [OF s1(1,2) asked(3) chain_append_refinement_verified [OF _ asked(2)]]
  show ?thesis
    using stored asked(4) journal_kept_trans [OF s1(3)] journal_extends_after [OF asked(1)] by auto
qed

lemma journal_usable_poisoned: "rj_poisoned s \<Longrightarrow> journal_usable s = (Some ''receipt journal is poisoned'', s)"
  by (simp add: journal_usable_def)

interpretation appending: journal_operation jc key_hex "journal_append jc session_id plan receipt"
  for jc key_hex session_id plan receipt
proof
  fix s :: receipt_journal assume "rj_poisoned s"
  then show "\<exists>e. journal_append jc session_id plan receipt s = (Inl e, s)"
    by (simp add: journal_append_def journal_usable_poisoned)
next
  fix s result s'
  assume "journal_ok jc key_hex s" "journal_append jc session_id plan receipt s = (result, s')"
  note laws = journal_append_laws [OF this]
  then show "journal_ok jc key_hex s'" by simp
  show "journal_kept s s' \<or> is_value result \<and> (\<exists>r. journal_extends jc s r s')" using laws by auto
qed

interpretation appending_refinement: journal_operation jc key_hex "journal_append_refinement jc session_id plan receipt"
  for jc key_hex session_id plan receipt
proof
  fix s :: receipt_journal assume "rj_poisoned s"
  then show "\<exists>e. journal_append_refinement jc session_id plan receipt s = (Inl e, s)"
    by (simp add: journal_append_refinement_def journal_usable_poisoned)
next
  fix s result s'
  assume "journal_ok jc key_hex s" "journal_append_refinement jc session_id plan receipt s = (result, s')"
  note laws = journal_append_refinement_laws [OF this]
  then show "journal_ok jc key_hex s'" by simp
  show "journal_kept s s' \<or> is_value result \<and> (\<exists>r. journal_extends jc s r s')" using laws by auto
qed

text \<open>The readers: they check the file first and change nothing else.\<close>

lemma reader_operation:
  assumes "\<And>s. fst (journal_usable s) \<noteq> None \<Longrightarrow> \<exists>e. operation s = (Inl e, s) \<or> operation s = (Inl e, snd (journal_usable s))"
    and "\<And>s. operation s = (fst (operation s), s) \<or> snd (operation s) = snd (journal_usable s)"
  shows "journal_operation jc key_hex operation"
proof
  fix s :: receipt_journal assume "rj_poisoned s"
  then show "\<exists>e. operation s = (Inl e, s)"
    using assms(1) [of s] by (auto simp: journal_usable_poisoned)
next
  fix s s' :: receipt_journal and result
  assume ok: "journal_ok jc key_hex s" and run: "operation s = (result, s')"
  have kept: "s' = s \<or> journal_kept s s'"
    using assms(2) [of s] run journal_usable_kept [of s] by (metis prod.collapse snd_conv)
  then show "journal_ok jc key_hex s'"
    using ok journal_kept_ok by blast
  have "journal_kept s s"
    by (cases "rj_poisoned s") (simp_all add: journal_kept_def)
  then show "journal_kept s s' \<or> is_value result \<and> (\<exists>r. journal_extends jc s r s')"
    using kept by blast
qed

interpretation paging: journal_operation jc key_hex "page_after peer limit" for jc key_hex peer limit
  by (rule reader_operation) (auto simp: page_after_def Let_def split: prod.splits option.splits)

interpretation exact: journal_operation jc key_hex "contains_exact envelope" for jc key_hex envelope
  by (rule reader_operation) (auto simp: contains_exact_def split: prod.splits option.splits)

interpretation exact_refinement: journal_operation jc key_hex "contains_exact_refinement envelope" for jc key_hex envelope
  by (rule reader_operation) (auto simp: contains_exact_refinement_def split: prod.splits option.splits)

interpretation terminal: journal_operation jc key_hex "terminal_for_execution session_id plan profile"
  for jc key_hex session_id plan profile
  by (rule reader_operation) (auto simp: terminal_for_execution_def split: prod.splits option.splits)

interpretation refinement_terminal: journal_operation jc key_hex "refinement_terminal_for_execution session_id plan profile"
  for jc key_hex session_id plan profile
  by (rule reader_operation) (auto simp: refinement_terminal_for_execution_def split: prod.splits option.splits)

interpretation capacity: journal_operation jc key_hex remaining_capacity for jc key_hex
  by (rule reader_operation) (auto simp: remaining_capacity_def split: prod.splits option.splits)
end
