(* ===== verification/Journal_Open.thy ===== *)
theory Journal_Open
  imports Journal_Contracts
begin

text \<open>
  Creating and opening receipt journals: both establish the invariant, on a new file and on an
  arbitrary one, and opening the file of a journal with part of a frame behind it reads that
  journal back.
\<close>

text \<open>A call that leaves the file alone, and succeeds once the kernel interposes no faults.\<close>

lemma retried_call_calm:
  "retried_call d = (answer, d') \<Longrightarrow>
     (\<exists>os. d' = d\<lparr>d_outcomes := os\<rparr> \<and> (d_outcomes d = [] \<longrightarrow> os = [] \<and> answer = None))"
  by (auto simp: retried_call_def split: prod.splits)

lemma open_journal_path_laws:
  assumes "open_journal_path path created loc = Inr d'"
  obtains d os where "jl_file loc = Inr d" "d' = d\<lparr>d_outcomes := os\<rparr>" "d_outcomes d = [] \<longrightarrow> os = []"
    "owner_only_file (d_euid d) (d_meta d)"
proof -
  obtain d n d1 where d: "jl_file loc = Inr d" "validate_file d = (Inr n, d1)" "retried_call d1 = (None, d')"
    using assms by (auto simp: open_journal_path_def split: if_splits option.splits sum.splits prod.splits)
  obtain os1 where os1: "d1 = d\<lparr>d_outcomes := os1\<rparr>" "d_outcomes d = [] \<longrightarrow> os1 = []"
    using validate_file_laws(1) [OF d(2)] by blast
  obtain os2 where os2: "d' = d1\<lparr>d_outcomes := os2\<rparr>" "d_outcomes d1 = [] \<longrightarrow> os2 = []"
    using retried_call_calm [OF d(3)] by blast
  show thesis
    using os1 os2 validate_file_laws(2) [OF d(2) refl] by (intro that [OF d(1), of os2]) simp_all
qed

definition journal_opens :: "string \<Rightarrow> journal_location \<Rightarrow> disk \<Rightarrow> bool" where
  "journal_opens path loc d =
     (filename path \<notin> {[], ''.'', ''..''} \<and> jl_parent loc = None \<and> jl_file loc = Inr d \<and>
      owner_only_file (d_euid d) (d_meta d) \<and> d_outcomes d = [])"

lemma open_journal_path_calm:
  assumes "journal_opens path loc d"
  shows "open_journal_path path created loc = Inr d"
proof -
  obtain n d1 where v: "validate_file d = (n, d1)" by fastforce
  obtain e d2 where r: "retried_call d1 = (e, d2)" by fastforce
  have "d1 = d" "n = Inr (of_nat (length (d_bytes d)))"
    using validate_file_laws [OF v] assms by (auto simp: journal_opens_def)
  moreover have "d2 = d" "e = None"
    using retried_call_calm [OF r] \<open>d1 = d\<close> assms by (auto simp: journal_opens_def)
  ultimately show ?thesis
    using assms v r by (simp add: open_journal_path_def journal_opens_def)
qed

lemma chain_create_facts:
  assumes "chain_create key_hex = Inr chain"
  shows "length (ac_key_id chain) = 64"
    "anchor_create key_hex = Inr \<lparr>an_key_id = ac_key_id chain, an_sequence = 0, an_head_hmac = zero_digest\<rparr>"
    "in_sync key_hex chain \<lparr>an_key_id = ac_key_id chain, an_sequence = 0, an_head_hmac = zero_digest\<rparr>"
proof -
  obtain key where key: "decode_digest key_hex = Inr key" "derive_key_id key = Inr (ac_key_id chain)"
      "chain = \<lparr>ac_key = key, ac_key_id = ac_key_id chain, ac_sequence = 0, ac_head_hmac = zero_digest\<rparr>"
    using assms by (auto simp: chain_create_def and_then_Inr)
  show anchor: "anchor_create key_hex = Inr \<lparr>an_key_id = ac_key_id chain, an_sequence = 0, an_head_hmac = zero_digest\<rparr>"
    using key(1,2) by (simp add: anchor_create_def)
  show "in_sync key_hex chain \<lparr>an_key_id = ac_key_id chain, an_sequence = 0, an_head_hmac = zero_digest\<rparr>"
    by (rule in_sync_start [OF assms anchor])
  show "length (ac_key_id chain) = 64"
    using key(2) by (auto simp: derive_key_id_def valid_digest_def dest!: sha256_hex_valid)
qed

lemma magic_header_length: "length journal_magic = 8"
  by (simp add: journal_magic_def)

lemma create_new_ok:
  assumes "create_new path key_hex max_bytes loc = Inr s" and "journal_faithful jc"
    and "\<And>d. jl_file loc = Inr d \<Longrightarrow> d_bytes d = []"
  shows "journal_ok jc key_hex s" "rj_records s = []" "\<not> rj_poisoned s"
proof -
  obtain chain d where start: "chain_create key_hex = Inr chain" "open_journal_path path True loc = Inr d"
    using assms(1) by (auto simp: create_new_def and_then_Inr split: if_splits)
  obtain w d1 y d2 z d3 where calls:
      "write_bytes journal_text d (journal_magic @ bytes_of_string (ac_key_id chain)) 0 = (w, d1)"
      "sync_descriptor d1 ''journal header sync'' = (y, d2)" "sync_descriptor d2 ''journal directory sync'' = (z, d3)"
    by (metis surj_pair)
  have run: "w = Inr ()" "s = \<lparr>rj_disk = d3, rj_chain = chain, rj_records = [],
      rj_durable_size = of_nat journal_header_bytes, rj_max_size = max_bytes, rj_repaired_tail = False, rj_poisoned = False\<rparr>"
    "\<not> max_bytes < min_journal_bytes" "\<not> max_bytes > default_receipt_journal_bytes"
    using assms(1) start calls by (auto simp: create_new_def split: if_splits sum.splits)
  note chain = chain_create_facts [OF start(1)]
  obtain d0 os where d0: "jl_file loc = Inr d0" "d = d0\<lparr>d_outcomes := os\<rparr>"
    using open_journal_path_laws [OF start(2)] by blast
  have "d_bytes d = []" using d0 assms(3) by simp
  then have "d_bytes d1 = journal_magic @ bytes_of_string (ac_key_id chain)"
    using write_bytes_extends [OF calls(1)] run(1) by auto
  then have bytes: "d_bytes d3 = journal_magic @ bytes_of_string (ac_key_id chain)"
    using sync_descriptor_file [OF calls(2)] sync_descriptor_file [OF calls(3)] by simp
  have "journal_image jc s"
    using bytes chain(1) run(2,3)
    by (simp add: journal_image_def magic_header_length journal_header_bytes_def word_le_nat_alt word_less_nat_alt
        min_journal_bytes_def)
  moreover have "chained_records key_hex s"
    using chain(2,3) run(2) by (simp add: chained_records_def)
  ultimately show "journal_ok jc key_hex s"
    using run(2-4) assms(2) by (simp add: journal_ok_def not_less)
  show "rj_records s = []" "\<not> rj_poisoned s" using run(2) by simp_all
qed

text \<open>The two halves of \<open>open_existing\<close>: up to the scan, and after it.\<close>

definition empty_recovery :: recovered_journal where
  "empty_recovery = \<lparr>rec_records = [], rec_durable_size = of_nat journal_header_bytes, rec_torn_tail = False\<rparr>"

definition finish_open ::
    "receipt_audit_chain \<Rightarrow> receipt_audit_anchor option \<Rightarrow> u64 \<Rightarrow> recovered_journal \<times> receipt_audit_anchor \<times> disk \<Rightarrow>
     receipt_journal expected" where
  "finish_open chain peer max_bytes = (\<lambda>(recovered, anchor, d).
     if (case peer of None \<Rightarrow> False | Some a \<Rightarrow> \<not> anchor_is_prefix a (ac_key_id chain) (rec_records recovered))
     then Inl ''trusted peer anchor is not a journal prefix''
     else if rec_torn_tail recovered \<and> peer = None
     then Inl ''receipt journal has a torn tail and requires a trusted peer anchor''
     else and_then (if rec_torn_tail recovered then repair_tail d (rec_durable_size recovered) else Inr d)
       (\<lambda>d'. Inr \<lparr>rj_disk = d',
                  rj_chain = chain\<lparr>ac_sequence := an_sequence anchor, ac_head_hmac := an_head_hmac anchor\<rparr>,
                  rj_records = rec_records recovered, rj_durable_size = rec_durable_size recovered,
                  rj_max_size = max_bytes, rj_repaired_tail = rec_torn_tail recovered, rj_poisoned = False\<rparr>))"

lemma validate_header_sound:
  assumes "validate_header d key_id = (Inr u, d')"
  shows "d_bytes d = journal_magic @ bytes_of_string key_id @ drop 72 (d_bytes d)" "\<exists>os. d' = d\<lparr>d_outcomes := os\<rparr>"
proof -
  obtain header where header: "read_bytes journal_text d 72 0 = (Inr header, d')"
      "take 8 header = journal_magic" "drop 8 header = bytes_of_string key_id"
    using assms by (auto simp: validate_header_def journal_header_bytes_def split: if_splits sum.splits prod.splits)
  have "take 72 (d_bytes d) = journal_magic @ bytes_of_string key_id"
    using read_bytes_sound(2) [OF header(1)] header(2,3) by (metis append_take_drop_id drop_0 unsigned_0)
  then show "d_bytes d = journal_magic @ bytes_of_string key_id @ drop 72 (d_bytes d)"
    by (metis append.assoc append_take_drop_id)
  show "\<exists>os. d' = d\<lparr>d_outcomes := os\<rparr>" by (rule read_bytes_sound(3) [OF header(1)])
qed

lemma open_existing_scan:
  assumes "open_existing jc path key_hex peer max_bytes loc = Inr s"
  obtains chain d os scan where "chain_create key_hex = Inr chain" "jl_file loc = Inr d"
    "d_bytes d = journal_magic @ bytes_of_string (ac_key_id chain) @ drop 72 (d_bytes d)"
    "of_nat (length (d_bytes d)) \<le> max_bytes" "min_journal_bytes \<le> max_bytes \<and> max_bytes \<le> default_receipt_journal_bytes"
    "recover_records jc (of_nat (length (d_bytes d))) key_hex (d\<lparr>d_outcomes := os\<rparr>)
       \<lparr>an_key_id = ac_key_id chain, an_sequence = 0, an_head_hmac = zero_digest\<rparr> empty_recovery = Inr scan"
    "finish_open chain peer max_bytes scan = Inr s"
proof -
  obtain chain d0 where start: "chain_create key_hex = Inr chain" "open_journal_path path False loc = Inr d0"
    using assms by (auto simp: open_existing_def and_then_Inr split: if_splits)
  obtain d os where d: "jl_file loc = Inr d" "d0 = d\<lparr>d_outcomes := os\<rparr>"
    using open_journal_path_laws [OF start(2)] by blast
  obtain n d1 v d2 where calls: "validate_file d0 = (n, d1)" "validate_header d1 (ac_key_id chain) = (v, d2)"
    by (metis surj_pair)
  have run: "\<exists>scan size. n = Inr size \<and> v = Inr () \<and> size \<le> max_bytes \<and>
      (min_journal_bytes \<le> max_bytes \<and> max_bytes \<le> default_receipt_journal_bytes) \<and>
      recover_records jc size key_hex d2 \<lparr>an_key_id = ac_key_id chain, an_sequence = 0, an_head_hmac = zero_digest\<rparr>
        empty_recovery = Inr scan \<and> finish_open chain peer max_bytes scan = Inr s"
    using assms start calls chain_create_facts(2) [OF start(1)]
    by (auto simp: open_existing_def and_then_Inr finish_open_def empty_recovery_def not_less
        split: if_splits sum.splits)
  then obtain scan size where scan: "n = Inr size" "v = Inr ()" "size \<le> max_bytes"
      "min_journal_bytes \<le> max_bytes \<and> max_bytes \<le> default_receipt_journal_bytes"
      "recover_records jc size key_hex d2 \<lparr>an_key_id = ac_key_id chain, an_sequence = 0, an_head_hmac = zero_digest\<rparr>
        empty_recovery = Inr scan" "finish_open chain peer max_bytes scan = Inr s"
    by blast
  obtain os1 where d1: "d1 = d\<lparr>d_outcomes := os1\<rparr>" "size = of_nat (length (d_bytes d))"
    using validate_file_laws(1,2) [OF calls(1)] scan(1) d(2) by auto
  have header: "d_bytes d = journal_magic @ bytes_of_string (ac_key_id chain) @ drop 72 (d_bytes d)"
      "\<exists>os. d2 = d\<lparr>d_outcomes := os\<rparr>"
    using validate_header_sound [of d1 "ac_key_id chain" "()" d2] calls(2) scan(2) d1(1) by auto
  obtain os2 where "d2 = d\<lparr>d_outcomes := os2\<rparr>" using header(2) ..
  then show thesis
    using that [OF start(1) d(1) header(1), of os2 scan] scan(3-6) d1(2) by simp
qed

lemma finish_open_laws:
  assumes "finish_open chain peer max_bytes (recovered, anchor, d) = Inr s"
    and "unat (rec_durable_size recovered) = n" and "n \<le> length (d_bytes d)"
    and "rec_torn_tail recovered = (n \<noteq> length (d_bytes d))"
  shows "rj_records s = rec_records recovered" "rj_durable_size s = rec_durable_size recovered"
    "rj_chain s = chain\<lparr>ac_sequence := an_sequence anchor, ac_head_hmac := an_head_hmac anchor\<rparr>"
    "rj_max_size s = max_bytes" "\<not> rj_poisoned s" "d_bytes (rj_disk s) = take n (d_bytes d)"
    "rj_repaired_tail s = rec_torn_tail recovered"
proof -
  obtain d' where d': "(if rec_torn_tail recovered then repair_tail d (rec_durable_size recovered) else Inr d) = Inr d'"
      "s = \<lparr>rj_disk = d', rj_chain = chain\<lparr>ac_sequence := an_sequence anchor, ac_head_hmac := an_head_hmac anchor\<rparr>,
             rj_records = rec_records recovered, rj_durable_size = rec_durable_size recovered,
             rj_max_size = max_bytes, rj_repaired_tail = rec_torn_tail recovered, rj_poisoned = False\<rparr>"
    using assms(1) by (auto simp: finish_open_def and_then_Inr split: if_splits)
  show "rj_records s = rec_records recovered" "rj_durable_size s = rec_durable_size recovered"
    "rj_chain s = chain\<lparr>ac_sequence := an_sequence anchor, ac_head_hmac := an_head_hmac anchor\<rparr>"
    "rj_max_size s = max_bytes" "\<not> rj_poisoned s" "rj_repaired_tail s = rec_torn_tail recovered"
    using d'(2) by simp_all
  have "d_bytes d' = take n (d_bytes d)"
  proof (cases "rec_torn_tail recovered")
    case True
    obtain e d1 y d2 where calls: "single_call d = (e, d1)"
        "sync_descriptor (ftruncate d1 n) ''receipt journal repair sync'' = (y, d2)"
      by (metis surj_pair)
    have "d' = d2"
      using d'(1) True calls assms(2) by (auto simp: repair_tail_def split: if_splits option.splits sum.splits)
    then show ?thesis
      using single_call_file [OF calls(1)] sync_descriptor_file [OF calls(2)] assms(3) by (simp add: ftruncate_def)
  next
    case False
    then show ?thesis using d'(1) assms(4) by simp
  qed
  then show "d_bytes (rj_disk s) = take n (d_bytes d)" using d'(2) by simp
qed

text \<open>Verification carries synchronisation along: whatever verified is what the producer of the key
  could have appended.\<close>

lemma verify_record_digest:
  assumes "verify_journal_record r key_hex anchor = (Inr u, anchor')"
  shows "valid_digest (record_hmac r)"
  using assms
  by (auto simp: verify_journal_record_def verify_receipt_audit_envelope_def record_hmac_def
      verify_refinement_receipt_audit_envelope_def Let_def split: option.splits sum.splits if_splits)

lemma verify_records_sync:
  assumes "verify_records key_hex anchor rs = Some anchor'" and "in_sync key_hex chain anchor"
  shows "in_sync key_hex (chain\<lparr>ac_sequence := an_sequence anchor', ac_head_hmac := an_head_hmac anchor'\<rparr>) anchor'"
  using assms
proof (induction rs arbitrary: anchor chain)
  case Nil
  then show ?case by (simp add: in_sync_def)
next
  case (Cons r rs)
  obtain anchor1 u where v: "verify_journal_record r key_hex anchor = (Inr u, anchor1)"
      "verify_records key_hex anchor1 rs = Some anchor'"
    using Cons.prems by (auto split: prod.splits sum.splits)
  have "in_sync key_hex (chain\<lparr>ac_sequence := an_sequence anchor1, ac_head_hmac := an_head_hmac anchor1\<rparr>) anchor1"
    using verify_journal_record_anchor(2) [OF v(1)] verify_record_digest [OF v(1)] Cons.prems(2)
    by (simp add: in_sync_def)
  from Cons.IH [OF v(2) this] show ?case by simp
qed

lemma open_existing_ok:
  assumes run: "open_existing jc path key_hex peer max_bytes loc = Inr s" and faithful: "journal_faithful jc"
    and sized: "\<And>d. jl_file loc = Inr d \<Longrightarrow> length (d_bytes d) \<le> off_t_max"
  shows "journal_ok jc key_hex s" "\<not> rj_poisoned s"
proof -
  obtain chain d os scan where scan: "chain_create key_hex = Inr chain" "jl_file loc = Inr d"
      "d_bytes d = journal_magic @ bytes_of_string (ac_key_id chain) @ drop 72 (d_bytes d)"
      "of_nat (length (d_bytes d)) \<le> max_bytes" "min_journal_bytes \<le> max_bytes \<and> max_bytes \<le> default_receipt_journal_bytes"
      "recover_records jc (of_nat (length (d_bytes d))) key_hex (d\<lparr>d_outcomes := os\<rparr>)
         \<lparr>an_key_id = ac_key_id chain, an_sequence = 0, an_head_hmac = zero_digest\<rparr> empty_recovery = Inr scan"
      "finish_open chain peer max_bytes scan = Inr s"
    by (rule open_existing_scan [OF run])
  obtain recovered anchor d' where split: "scan = (recovered, anchor, d')" by (cases scan)
  note chain = chain_create_facts [OF scan(1)]
  have len: "72 \<le> length (d_bytes d)"
    using arg_cong [OF scan(3), of length] chain(1) by (simp add: magic_header_length)
  obtain rs body tail os' where part: "framed_by (journal_payload jc) rs body" "drop 72 (d_bytes d) = body @ tail"
      "rec_records recovered = rs"
      "verify_records key_hex \<lparr>an_key_id = ac_key_id chain, an_sequence = 0, an_head_hmac = zero_digest\<rparr> rs = Some anchor"
      "unat (rec_durable_size recovered) = 72 + length body" "d' = d\<lparr>d_outcomes := os'\<rparr>"
      "rec_torn_tail recovered = (tail \<noteq> [])"
    using recover_records_sound [of jc "d\<lparr>d_outcomes := os\<rparr>" key_hex
        "\<lparr>an_key_id = ac_key_id chain, an_sequence = 0, an_head_hmac = zero_digest\<rparr>" empty_recovery recovered anchor d' 72]
      scan(6) split sized [OF scan(2)] len
    by (auto simp: recovered_part_def empty_recovery_def journal_header_bytes_def)
  have total_length: "length (d_bytes d) = 72 + length body + length tail"
    using part(2) len by (metis add.assoc le_add_diff_inverse length_append length_drop)
  note finish = finish_open_laws [OF scan(7) [unfolded split] part(5)]
  have torn: "72 + length body \<le> length (d_bytes d')" "rec_torn_tail recovered = (72 + length body \<noteq> length (d_bytes d'))"
    using total_length part(6,7) by auto
  note opened = finish [OF torn]
  have head: "in_sync key_hex (rj_chain s) anchor"
    using verify_records_sync [OF part(4) chain(3)] opened(3) by simp
  have bytes: "d_bytes (rj_disk s) = journal_magic @ bytes_of_string (ac_key_id (rj_chain s)) @ body"
    using scan(3) part(2,6) opened(3,6) chain(1) by (simp add: magic_header_length)
  show "\<not> rj_poisoned s" by (rule opened(5))
  have "unat (rj_durable_size s) \<le> unat max_bytes"
    using opened(2) part(5) total_length scan(4) unat_file_size [OF sized [OF scan(2)]] by (simp add: word_le_nat_alt)
  then have "journal_image jc s"
    using bytes opened(1,2,4) part(1,3,5) chain(1) opened(3)
    by (auto simp: journal_image_def word_le_nat_alt magic_header_length)
  moreover have "chained_records key_hex s"
    using chain(2) part(3,4) opened(1) head by (auto simp: chained_records_def)
  ultimately show "journal_ok jc key_hex s"
    using faithful opened(4) scan(5) by (simp add: journal_ok_def)
qed

lemma validate_header_image:
  assumes "d_bytes d = journal_magic @ bytes_of_string key_id @ rest" and "length key_id = 64"
    and "length (d_bytes d) \<le> off_t_max" and "validate_header d key_id = (v, d')"
  shows "\<exists>os. d' = d\<lparr>d_outcomes := os\<rparr> \<and> (d_outcomes d = [] \<longrightarrow> os = [] \<and> v = Inr ()) \<and> (v = Inr () \<or> (\<exists>e. v = Inl e))"
proof -
  let ?header = "journal_magic @ bytes_of_string key_id"
  obtain r d1 where r: "read_bytes journal_text d 72 0 = (r, d1)" by fastforce
  have read: "\<exists>os. d1 = d\<lparr>d_outcomes := os\<rparr> \<and> (d_outcomes d = [] \<longrightarrow> os = [] \<and> r = Inr ?header) \<and>
      (r = Inr ?header \<or> (\<exists>e. r = Inl e))"
    using read_bytes_laws [of journal_text d ?header 0 r d1 "[]" rest] r assms(1-3) by (simp add: magic_header_length)
  have "validate_header d key_id = (case r of Inl e \<Rightarrow> (Inl e, d1) | Inr _ \<Rightarrow> (Inr (), d1))"
    using r read assms(2) by (auto simp: validate_header_def journal_header_bytes_def magic_header_length)
  then show ?thesis
    using read assms(4) by (auto split: sum.splits)
qed

text \<open>Opening a file that a journal wrote, with a torn frame at its end: unless the kernel interferes,
  the scan ends with the records and the head of that journal.\<close>

lemma open_existing_image:
  assumes ok: "journal_ok jc key_hex s" and usable: "\<not> rj_poisoned s" and torn: "torn_frame tail"
    and loc: "jl_file loc = Inr d" and bytes: "d_bytes d = d_bytes (rj_disk s) @ tail"
    and room: "length (d_bytes d) \<le> unat (rj_max_size s)"
  obtains (scanned) os where "open_existing jc path key_hex peer (rj_max_size s) loc =
      finish_open (rj_chain s) peer (rj_max_size s)
        (\<lparr>rec_records = rj_records s, rec_durable_size = rj_durable_size s, rec_torn_tail = (tail \<noteq> [])\<rparr>,
         journal_anchor s, d\<lparr>d_outcomes := os\<rparr>)" "d_outcomes d = [] \<longrightarrow> os = []"
  | (interfered) e where "open_existing jc path key_hex peer (rj_max_size s) loc = Inl e" "\<not> journal_opens path loc d"
proof -
  obtain origin head where chained: "anchor_create key_hex = Inr origin"
      "verify_records key_hex origin (rj_records s) = Some head" "in_sync key_hex (rj_chain s) head"
    using ok by (auto simp: journal_ok_def chained_records_def)
  obtain chain where chain: "chain_create key_hex = Inr chain"
      "rj_chain s = chain\<lparr>ac_sequence := an_sequence head, ac_head_hmac := an_head_hmac head\<rparr>"
    using chained(3) by (cases "rj_chain s") (auto simp: in_sync_def chain_create_def)
  note facts = chain_create_facts [OF chain(1)]
  have head: "journal_anchor s = head"
    using chained(3) by (cases head) (auto simp: in_sync_def journal_anchor_def)
  obtain body where image: "framed_by (journal_payload jc) (rj_records s) body"
      "d_bytes (rj_disk s) = journal_magic @ bytes_of_string (ac_key_id chain) @ body"
      "unat (rj_durable_size s) = length (d_bytes (rj_disk s))"
    using ok usable chain(2) by (auto simp: journal_ok_def journal_image_def)
  have bounds_ok: "\<not> rj_max_size s < min_journal_bytes" "\<not> rj_max_size s > default_receipt_journal_bytes"
    using ok by (simp_all add: journal_ok_def not_less)
  let ?size = "of_nat (length (d_bytes d)) :: u64"
  have len: "length (d_bytes d) \<le> off_t_max"
    using room bounds_ok(2) by (simp add: word_less_nat_alt default_receipt_journal_bytes_def off_t_max_def)
  have header: "d_bytes d = [] @ (journal_magic @ bytes_of_string (ac_key_id chain)) @ body @ tail"
    using bytes image(2) by simp
  have sizes: "\<not> unat ?size < journal_header_bytes" "\<not> ?size > rj_max_size s"
    using unat_file_size [OF len] header room facts(1)
    by (simp_all add: magic_header_length journal_header_bytes_def word_less_nat_alt)
  show thesis
  proof (cases "open_journal_path path False loc")
    case (Inl e)
    then show ?thesis
      using bounds_ok chain(1) facts(2) open_journal_path_calm [of path loc d False]
      by (intro interfered [of e]) (auto simp: open_existing_def)
  next
    case (Inr d0)
    obtain os0 where d0: "d0 = d\<lparr>d_outcomes := os0\<rparr>" "d_outcomes d = [] \<longrightarrow> os0 = []" "owner_only_file (d_euid d) (d_meta d)"
      using open_journal_path_laws [OF Inr] loc by auto
    obtain n d1 v d2 where calls: "validate_file d0 = (n, d1)" "validate_header d1 (ac_key_id chain) = (v, d2)"
      by (metis surj_pair)
    obtain os1 where d1: "d1 = d\<lparr>d_outcomes := os1\<rparr>" "d_outcomes d = [] \<longrightarrow> os1 = [] \<and> n = Inr ?size"
        "n = Inr ?size \<or> (\<exists>e. n = Inl e)"
      using validate_file_laws [OF calls(1)] d0 by (cases n) auto
    obtain os2 where d2: "d2 = d\<lparr>d_outcomes := os2\<rparr>" "d_outcomes d = [] \<longrightarrow> os2 = [] \<and> v = Inr ()"
        "v = Inr () \<or> (\<exists>e. v = Inl e)"
      using validate_header_image [OF _ facts(1) _ calls(2), of "body @ tail"] header len d1(1,2) by auto
    let ?recovered = "\<lparr>rec_records = rj_records s, rec_durable_size = rj_durable_size s, rec_torn_tail = (tail \<noteq> [])\<rparr>"
    have durable: "of_nat (length ((journal_magic @ bytes_of_string (ac_key_id chain)) @ body)) = rj_durable_size s"
      using image(2,3) by (metis append.assoc of_nat_unat ucast_id)
    have scan: "recovers (recover_records jc ?size key_hex d2 origin empty_recovery) d2 ?recovered head"
      using recover_image [OF image(1), of d2 "journal_magic @ bytes_of_string (ac_key_id chain)" tail empty_recovery key_hex origin head]
        header torn len chained(2) d2(1) durable facts(1)
      by (simp add: empty_recovery_def journal_header_bytes_def magic_header_length)
    have run: "open_existing jc path key_hex peer (rj_max_size s) loc =
        (case n of Inl e \<Rightarrow> Inl e | Inr _ \<Rightarrow> (case v of Inl e \<Rightarrow> Inl e
         | Inr _ \<Rightarrow> and_then (recover_records jc ?size key_hex d2 origin empty_recovery) (finish_open chain peer (rj_max_size s))))"
      using d1(3) Inr calls sizes bounds_ok chain(1) chained(1) facts(2)
      by (auto simp: open_existing_def empty_recovery_def finish_open_def [abs_def] split: sum.splits)
    have finished: "finish_open chain peer (rj_max_size s) x = finish_open (rj_chain s) peer (rj_max_size s) x" for x
      by (cases x; cases peer) (simp_all add: finish_open_def chain(2))
    show ?thesis
    proof (cases "d_outcomes d = []")
      case True
      then show ?thesis
        using run scan d1(2) d2(1,2) head by (intro scanned [of "[]"]) (auto simp: recovers_def finished)
    next
      case False
      then show ?thesis
        using run scan d1(3) d2(1,3) head
        by (auto simp: recovers_def finished journal_opens_def intro: interfered scanned)
    qed
  qed
qed
end
