(* ===== verification/Journal_Reach.thy ===== *)
theory Journal_Reach
  imports Journal_Open
begin

text \<open>
  The receipt journals a program can hold: one that was created or opened, then any sequence of
  operations and of changes around the file that leave its bytes alone.  All of them satisfy the
  invariant.  A concrete journal with one receipt serves the witnesses.
\<close>

inductive journal_operates :: "journal_codec \<Rightarrow> receipt_journal \<Rightarrow> receipt_journal \<Rightarrow> bool" for jc where
  environment: "d_bytes d = d_bytes (rj_disk s) \<Longrightarrow> journal_operates jc s (s\<lparr>rj_disk := d\<rparr>)"
| append: "journal_operates jc s (snd (journal_append jc session_id plan receipt s))"
| append_refinement: "journal_operates jc s (snd (journal_append_refinement jc session_id plan refinement s))"
| page: "journal_operates jc s (snd (page_after peer limit s))"
| exact: "journal_operates jc s (snd (contains_exact envelope s))"
| exact_refinement: "journal_operates jc s (snd (contains_exact_refinement evaluation s))"
| terminal: "journal_operates jc s (snd (terminal_for_execution session_id plan profile s))"
| refinement_terminal: "journal_operates jc s (snd (refinement_terminal_for_execution session_id plan profile s))"
| capacity: "journal_operates jc s (snd (remaining_capacity s))"

text \<open>The new file of a creation is empty, and an existing file is no longer than a file can be.\<close>

inductive journal_reachable :: "journal_codec \<Rightarrow> string \<Rightarrow> receipt_journal \<Rightarrow> bool" for jc key_hex where
  created: "create_new path key_hex max_bytes loc = Inr s \<Longrightarrow> (\<And>d. jl_file loc = Inr d \<Longrightarrow> d_bytes d = []) \<Longrightarrow>
    journal_reachable jc key_hex s"
| opened: "open_existing jc path key_hex peer max_bytes loc = Inr s \<Longrightarrow>
    (\<And>d. jl_file loc = Inr d \<Longrightarrow> length (d_bytes d) \<le> off_t_max) \<Longrightarrow> journal_reachable jc key_hex s"
| operated: "journal_reachable jc key_hex s \<Longrightarrow> journal_operates jc s s' \<Longrightarrow> journal_reachable jc key_hex s'"

lemma journal_operates_ok:
  assumes "journal_operates jc s s'" and "journal_ok jc key_hex s"
  shows "journal_ok jc key_hex s'"
  using assms
proof (cases rule: journal_operates.cases)
  case (environment d)
  then show ?thesis using assms(2) by (auto simp: journal_ok_def chained_records_def journal_image_def)
qed (use assms(2) in \<open>auto intro: appending.keeps_snd appending_refinement.keeps_snd paging.keeps_snd exact.keeps_snd
      exact_refinement.keeps_snd terminal.keeps_snd refinement_terminal.keeps_snd capacity.keeps_snd\<close>)

lemma journal_reachable_ok:
  assumes "journal_reachable jc key_hex s" and "journal_faithful jc"
  shows "journal_ok jc key_hex s"
  using assms
  by (induction rule: journal_reachable.induct)
    (auto dest: create_new_ok open_existing_ok intro: journal_operates_ok)

lemma journal_ok_anchor:
  assumes "journal_ok jc key_hex s"
  obtains origin where "anchor_create key_hex = Inr origin"
    "verify_records key_hex origin (rj_records s) = Some (journal_anchor s)"
    "unat (ac_sequence (rj_chain s)) = length (rj_records s)"
proof -
  obtain origin head where chained: "anchor_create key_hex = Inr origin"
      "verify_records key_hex origin (rj_records s) = Some head" "in_sync key_hex (rj_chain s) head"
    using assms by (auto simp: journal_ok_def chained_records_def)
  have "journal_anchor s = head"
    using chained(3) by (cases head) (auto simp: in_sync_def journal_anchor_def)
  moreover have "an_sequence origin = 0"
    using chained(1) by (auto simp: anchor_create_def and_then_Inr)
  ultimately show thesis
    using chained verify_records_anchor [OF chained(2)] by (intro that) (auto simp: in_sync_def)
qed

subsection \<open>Without interference\<close>

definition journal_calm :: "receipt_journal \<Rightarrow> bool" where
  "journal_calm s =
     (\<not> rj_poisoned s \<and> d_outcomes (rj_disk s) = [] \<and> owner_only_file (d_euid (rj_disk s)) (d_meta (rj_disk s)))"

lemma write_bytes_calm:
  assumes "d_outcomes d = []" and "bs \<noteq> []" and "unat offset \<le> off_t_max"
  shows "write_bytes t d bs offset = (Inr (), pwrite d bs (unat offset))"
  using assms by (simp add: write_bytes_def write_loop.simps in_range_def pwrite_def)

lemma sync_descriptor_calm: "d_outcomes d = [] \<Longrightarrow> sync_descriptor d operation = (Inr (), d)"
  by (simp add: sync_descriptor_def retried_call_def)

lemma journal_usable_calm:
  assumes "journal_ok jc key_hex s" and "journal_calm s"
  shows "journal_usable s = (None, s)"
proof -
  have image: "unat (rj_durable_size s) = length (d_bytes (rj_disk s))"
    using assms by (auto simp: journal_ok_def journal_calm_def journal_image_def)
  obtain n d1 where v: "validate_file (rj_disk s) = (n, d1)" by fastforce
  have "n = Inr (of_nat (length (d_bytes (rj_disk s))))" "d1 = rj_disk s"
    using validate_file_laws [OF v] assms(2) by (auto simp: journal_calm_def)
  moreover have "of_nat (length (d_bytes (rj_disk s))) = rj_durable_size s"
    using image by (metis of_nat_unat ucast_id)
  ultimately show ?thesis
    using v assms(2) by (simp add: journal_usable_def journal_calm_def)
qed

lemma store_record_calm:
  assumes ok: "journal_ok jc key_hex s" and calm: "journal_calm s" and payload: "encode_journal_record jc r = Inr payload"
    and room: "length payload + 8 \<le> unat (rj_max_size s - rj_durable_size s)"
  shows "\<exists>s'. store_record jc s r sequence next_head = (Inr (), s') \<and> journal_calm s'"
proof -
  have small: "unat (rj_durable_size s) \<le> off_t_max"
    using ok calm by (auto simp: journal_ok_def journal_calm_def journal_image_def word_le_nat_alt
        default_receipt_journal_bytes_def off_t_max_def)
  have "frame_of payload \<noteq> []" using length_frame_of [of payload] by fastforce
  then have "write_bytes journal_text (rj_disk s) (make_record payload) (rj_durable_size s) =
      (Inr (), pwrite (rj_disk s) (make_record payload) (unat (rj_durable_size s)))"
    using write_bytes_calm [OF _ _ small] calm by (simp add: journal_calm_def make_record_frame)
  then show ?thesis
    using payload room calm
    by (auto simp: store_record_def Let_def make_record_frame sync_descriptor_calm journal_calm_def pwrite_def
        owner_only_file_def)
qed

lemma journal_append_calm:
  assumes ok: "journal_ok jc key_hex s" and calm: "journal_calm s"
    and envelope: "chain_append (rj_chain s) session_id plan receipt = (Inr envelope, chain')"
    and payload: "encode_journal_record jc
      \<lparr>jr_kind = ''resource_enforcement_v1'', jr_resource = Some envelope, jr_refinement = None\<rparr> = Inr payload"
    and room: "length payload + 8 \<le> unat (rj_max_size s - rj_durable_size s)"
  shows "\<exists>s'. journal_append jc session_id plan receipt s = (Inr envelope, s') \<and> journal_calm s'"
  using store_record_calm [OF ok calm payload room, of "ar_sequence envelope" "ar_this_hmac envelope"]
    journal_usable_calm [OF ok calm] envelope
  by (auto simp: journal_append_def)

subsection \<open>A concrete journal\<close>

definition sample_envelope :: authenticated_resource_enforcement_receipt where
  "sample_envelope = projr (fst (chain_append sample_chain ''s'' zero_digest sample_receipt))"

definition sample_journal_record :: receipt_journal_record where
  "sample_journal_record =
     \<lparr>jr_kind = ''resource_enforcement_v1'', jr_resource = Some sample_envelope, jr_refinement = None\<rparr>"

definition sample_journal_codec :: journal_codec where
  "sample_journal_codec =
     \<lparr>jc_write = (\<lambda>r. if r = sample_journal_record then Inr ''r'' else Inl ''unknown''),
      jc_read = (\<lambda>p. if p = ''r'' then Inr sample_journal_record else Inl ''unknown''),
      jc_read_legacy = (\<lambda>p. Inl ''unknown'')\<rparr>"

definition journal_sample_disk :: disk where
  "journal_sample_disk =
     \<lparr>d_bytes = [], d_meta = \<lparr>fm_device = 1, fm_inode = 2, fm_regular = True, fm_uid = 0, fm_permissions = 384,
        fm_links = 1, fm_change = (0, 0)\<rparr>, d_path = None, d_euid = 0, d_clock = (0, 0), d_outcomes = []\<rparr>"

definition journal_sample_location :: "disk \<Rightarrow> journal_location" where
  "journal_sample_location d = \<lparr>jl_parent = None, jl_file = Inr d\<rparr>"

definition sample_new_journal :: receipt_journal where
  "sample_new_journal = projr (create_new ''j'' zero_digest 131072 (journal_sample_location journal_sample_disk))"

definition sample_journal :: receipt_journal where
  "sample_journal = snd (journal_append sample_journal_codec ''s'' zero_digest sample_receipt sample_new_journal)"

lemma sample_journal_faithful: "journal_faithful sample_journal_codec"
  by (simp add: journal_faithful_def sample_journal_codec_def)

lemma sample_chain_created: "chain_create zero_digest = Inr sample_chain"
proof -
  obtain key k where "decode_digest zero_digest = Inr key" "derive_key_id key = Inr k"
    using zero_key key_id_of_key by blast
  then show ?thesis by (simp add: sample_chain_def chain_create_def)
qed

lemma sample_journal_opens: "d_outcomes d = [] \<Longrightarrow> owner_only_file (d_euid d) (d_meta d) \<Longrightarrow>
    journal_opens ''j'' (journal_sample_location d) d"
  by (simp add: journal_opens_def journal_sample_location_def filename_def path_elements_def name_elements_def
      is_absolute_def)

lemma sample_new_journal:
  "create_new ''j'' zero_digest 131072 (journal_sample_location journal_sample_disk) = Inr sample_new_journal"
  "journal_calm sample_new_journal" "rj_chain sample_new_journal = sample_chain"
  "rj_max_size sample_new_journal = 131072" "rj_durable_size sample_new_journal = 72"
  "rj_records sample_new_journal = []"
proof -
  have opens: "open_journal_path ''j'' True (journal_sample_location journal_sample_disk) = Inr journal_sample_disk"
    by (intro open_journal_path_calm sample_journal_opens) (simp_all add: journal_sample_disk_def owner_only_file_def)
  let ?header = "journal_magic @ bytes_of_string (ac_key_id sample_chain)"
  have w: "write_bytes journal_text journal_sample_disk ?header 0 = (Inr (), pwrite journal_sample_disk ?header 0)"
    using magic_header_length by (subst write_bytes_calm) (auto simp: journal_sample_disk_def)
  have run: "create_new ''j'' zero_digest 131072 (journal_sample_location journal_sample_disk) =
      Inr \<lparr>rj_disk = pwrite journal_sample_disk ?header 0, rj_chain = sample_chain, rj_records = [],
           rj_durable_size = 72, rj_max_size = 131072, rj_repaired_tail = False, rj_poisoned = False\<rparr>"
    using opens w
    by (simp add: create_new_def sample_chain_created sync_descriptor_calm journal_header_bytes_def
        min_journal_bytes_def default_receipt_journal_bytes_def pwrite_def journal_sample_disk_def)
  show "create_new ''j'' zero_digest 131072 (journal_sample_location journal_sample_disk) = Inr sample_new_journal"
    "journal_calm sample_new_journal" "rj_chain sample_new_journal = sample_chain"
    "rj_max_size sample_new_journal = 131072" "rj_durable_size sample_new_journal = 72"
    "rj_records sample_new_journal = []"
    unfolding sample_new_journal_def run
    by (simp_all add: journal_calm_def pwrite_def journal_sample_disk_def owner_only_file_def)
qed

lemma sample_new_journal_reachable: "journal_reachable sample_journal_codec zero_digest sample_new_journal"
  by (rule journal_reachable.created [OF sample_new_journal(1)])
    (simp add: journal_sample_location_def journal_sample_disk_def)

lemma sample_journal_appended:
  "journal_append sample_journal_codec ''s'' zero_digest sample_receipt sample_new_journal = (Inr sample_envelope, sample_journal)"
  "journal_calm sample_journal"
proof -
  obtain chain' where envelope: "chain_append (rj_chain sample_new_journal) ''s'' zero_digest sample_receipt =
      (Inr sample_envelope, chain')"
    using sample_append by (auto simp: sample_new_journal sample_envelope_def)
  have payload: "encode_journal_record sample_journal_codec
      \<lparr>jr_kind = ''resource_enforcement_v1'', jr_resource = Some sample_envelope, jr_refinement = None\<rparr> = Inr ''r''"
    by (simp add: encode_journal_record_def sample_journal_codec_def sample_journal_record_def valid_journal_record_def
        max_journal_payload_bytes_def)
  have "\<exists>s'. journal_append sample_journal_codec ''s'' zero_digest sample_receipt sample_new_journal = (Inr sample_envelope, s') \<and>
      journal_calm s'"
    by (rule journal_append_calm [OF journal_reachable_ok [OF sample_new_journal_reachable sample_journal_faithful]
          sample_new_journal(2) envelope payload]) (simp add: sample_new_journal)
  then show "journal_append sample_journal_codec ''s'' zero_digest sample_receipt sample_new_journal = (Inr sample_envelope, sample_journal)"
    "journal_calm sample_journal"
    by (auto simp: sample_journal_def)
qed

lemma sample_journal_reachable: "journal_reachable sample_journal_codec zero_digest sample_journal"
  unfolding sample_journal_def
  by (rule journal_reachable.operated [OF sample_new_journal_reachable journal_operates.append])

end
