(* ===== verification/File_Status.thy ===== *)
theory File_Status
  imports Storage
begin

text \<open>
  The part of \<open>struct stat\<close> that identifies a file, the type and permission bits of its mode, and the
  files that are read whole between two calls of \<open>fstat\<close>.
\<close>

unbundle bit_operations_syntax

record file_stat =
  st_dev :: u64
  st_ino :: u64
  st_mode :: u32
  st_uid :: u32
  st_gid :: u32

definition is_directory :: "u32 \<Rightarrow> bool" where
  "is_directory mode = (mode AND 0xF000 = 0x4000)"

definition is_regular :: "u32 \<Rightarrow> bool" where
  "is_regular mode = (mode AND 0xF000 = 0x8000)"

definition permission_bits :: "u32 \<Rightarrow> u32" where
  "permission_bits mode = mode AND 0x1FF"

lemma regular_not_directory: "is_regular mode \<Longrightarrow> \<not> is_directory mode"
  by (auto simp: is_regular_def is_directory_def)

subsection \<open>Files read between two calls of fstat\<close>

record load_stat =
  ls_device :: u64
  ls_inode :: u64
  ls_mode :: u32
  ls_uid :: nat
  ls_links :: nat
  ls_size :: nat
  ls_modified :: "int \<times> int"
  ls_changed :: "int \<times> int"

text \<open>The opened file: what the two calls of \<open>fstat\<close> answer, the file the reads see, and the effective
  user of the process.\<close>

record loaded_file =
  lf_before :: "load_stat expected"
  lf_content :: disk
  lf_after :: "load_stat expected"
  lf_euid :: nat

definition owner_only_load :: "nat \<Rightarrow> load_stat \<Rightarrow> bool" where
  "owner_only_load euid st =
     (is_regular (ls_mode st) \<and> ls_uid st = euid \<and> ls_links st = 1 \<and> permission_bits (ls_mode st) = 0x180)"

definition same_loaded_file :: "load_stat \<Rightarrow> load_stat \<Rightarrow> bool" where
  "same_loaded_file left right =
     (ls_device left = ls_device right \<and> ls_inode left = ls_inode right \<and> ls_mode left = ls_mode right \<and>
      ls_uid left = ls_uid right \<and> ls_links left = ls_links right \<and> ls_size left = ls_size right \<and>
      ls_modified left = ls_modified right)"

end
