(* ===== verification/Receipt_Producer.thy ===== *)
theory Receipt_Producer
  imports Journal_Reach Plan_Interface File_Status
begin

text \<open>
  The supervisor's receipt producer of \<open>src/container/receipt_producer.cpp\<close>: it loads the signing
  key from an owner-only file, creates or recovers the receipt journal, and hands out reservations of
  journal capacity, so that a session is only started when its terminal receipt will fit.  A
  reservation is the token of \<open>Plan_Interface\<close>; its destructor is \<open>release_reservation\<close>, whose
  \<open>std::terminate\<close> is the value \<open>None\<close>.  Zeroing the key's buffer has no effect in the model.
\<close>

subsection \<open>The key file\<close>

definition key_text :: io_text where
  "key_text =
     \<lparr>io_range = None, io_write = [], io_stalled = [], io_read = ''read receipt audit key'',
      io_ended = ''receipt audit key ended unexpectedly''\<rparr>"

definition max_key_file_bytes :: nat where
  "max_key_file_bytes = 128"

definition ascii_whitespace :: "char \<Rightarrow> bool" where
  "ascii_whitespace c =
     (c = CHR '' '' \<or> of_char c = (9 :: nat) \<or> of_char c = (10 :: nat) \<or> of_char c = (13 :: nat) \<or>
      of_char c = (12 :: nat) \<or> of_char c = (11 :: nat))"

definition same_key_file :: "load_stat \<Rightarrow> load_stat \<Rightarrow> bool" where
  "same_key_file before after =
     (ls_device before = ls_device after \<and> ls_inode before = ls_inode after \<and> ls_mode before = ls_mode after \<and>
      ls_uid before = ls_uid after \<and> ls_links before = ls_links after \<and> ls_size before = ls_size after \<and>
      ls_modified before = ls_modified after \<and> ls_changed before = ls_changed after)"

definition trimmed :: "string \<Rightarrow> string" where
  "trimmed s = rev (dropWhile ascii_whitespace (rev (dropWhile ascii_whitespace s)))"

definition load_key :: "loaded_file expected \<Rightarrow> string expected" where
  "load_key opened =
     (case opened of
        Inl e \<Rightarrow> Inl (''open receipt audit key: '' @ e)
      | Inr kf \<Rightarrow>
     (case lf_before kf of
        Inl e \<Rightarrow> Inl (''inspect receipt audit key: '' @ e)
      | Inr before \<Rightarrow>
          if \<not> is_regular (ls_mode before) \<or> ls_uid before \<noteq> lf_euid kf \<or>
             permission_bits (ls_mode before) \<noteq> 0x180 \<or> ls_links before \<noteq> 1 \<or>
             ls_size before < 64 \<or> ls_size before > max_key_file_bytes
          then Inl ''receipt audit key must be an owner-only, single-link regular file''
          else (case read_bytes key_text (lf_content kf) (ls_size before) 0 of
        (Inl e, _) \<Rightarrow> Inl e
      | (Inr bs, _) \<Rightarrow>
          if (case lf_after kf of Inl _ \<Rightarrow> True | Inr after \<Rightarrow> \<not> same_key_file before after)
          then Inl ''receipt audit key changed while loading''
          else
            (let key = trimmed (string_of_bytes bs) in
             if \<not> valid_digest key then Inl ''receipt audit key must be 32-byte lowercase hex'' else Inr key))))"

subsection \<open>The producer\<close>

record receipt_audit_producer_config =
  cfg_key_path :: string
  cfg_journal_path :: string
  cfg_max_journal_bytes :: u64

text \<open>\<open>lexically_normal\<close> of a relative path: a leading dot-dot stays, and what vanishes is a dot.\<close>

fun relative_step :: "string list \<Rightarrow> string \<Rightarrow> string list" where
  "relative_step stack name =
     (if name = [] \<or> name = ''.'' then stack
      else if name = ''..'' then
        (case stack of [] \<Rightarrow> [''..''] | x # rest \<Rightarrow> if x = ''..'' then name # stack else rest)
      else name # stack)"

definition lexically_normal :: "string \<Rightarrow> string list" where
  "lexically_normal p =
     (if is_absolute p then normal_elements p
      else
        (let names = name_elements p; stack = foldl relative_step [] names in
         if names = [] then []
         else if stack = [] then [''.'']
         else rev stack @ (if hd stack \<noteq> ''..'' \<and> last names \<in> {[], ''.'', ''..''} then [[]] else [])))"

definition validate_config :: "receipt_audit_producer_config \<Rightarrow> unit expected" where
  "validate_config c =
     (if cfg_key_path c = [] \<or> cfg_journal_path c = [] \<or>
         lexically_normal (cfg_key_path c) = lexically_normal (cfg_journal_path c)
      then Inl ''receipt audit producer paths are invalid'' else Inr ())"

datatype lstat_answer = Present | Absent | Unreadable string

text \<open>What the host answers to the calls on the two paths.\<close>

record producer_host =
  ph_key :: "loaded_file expected"
  ph_lstat :: lstat_answer
  ph_journal :: journal_location

record audit_producer =
  ap_journal :: receipt_journal
  ap_reserved_bytes :: u64
  ap_bootstrap_reconciled :: bool

definition producer_initialize ::
    "receipt_audit_producer_config \<Rightarrow> producer_host \<Rightarrow> audit_producer expected" where
  "producer_initialize c h =
     and_then (validate_config c) (\<lambda>_.
     and_then (load_key (ph_key h)) (\<lambda>key.
     and_then (create_new (cfg_journal_path c) key (cfg_max_journal_bytes c) (ph_journal h)) (\<lambda>journal.
       Inr \<lparr>ap_journal = journal, ap_reserved_bytes = 0, ap_bootstrap_reconciled = False\<rparr>)))"

definition producer_anchor :: "audit_producer \<Rightarrow> receipt_audit_anchor" where
  "producer_anchor p = journal_anchor (ap_journal p)"

definition producer_recover ::
    "journal_codec \<Rightarrow> receipt_audit_producer_config \<Rightarrow> receipt_audit_anchor \<Rightarrow> producer_host \<Rightarrow> audit_producer expected" where
  "producer_recover jc c trusted_sage_anchor h =
     and_then (validate_config c) (\<lambda>_.
     and_then (load_key (ph_key h)) (\<lambda>key.
     and_then (open_existing jc (cfg_journal_path c) key (Some trusted_sage_anchor) (cfg_max_journal_bytes c) (ph_journal h))
       (\<lambda>journal.
         Inr \<lparr>ap_journal = journal, ap_reserved_bytes = 0,
              ap_bootstrap_reconciled = (journal_anchor journal = trusted_sage_anchor)\<rparr>)))"

definition producer_bootstrap ::
    "journal_codec \<Rightarrow> receipt_audit_producer_config \<Rightarrow> receipt_audit_anchor \<Rightarrow> producer_host \<Rightarrow> audit_producer expected" where
  "producer_bootstrap jc c trusted_sage_anchor h =
     and_then (validate_config c) (\<lambda>_.
       case ph_lstat h of
         Present \<Rightarrow> producer_recover jc c trusted_sage_anchor h
       | Unreadable e \<Rightarrow> Inl (''inspect receipt audit journal: '' @ e)
       | Absent \<Rightarrow>
           and_then (producer_initialize c h) (\<lambda>p.
             if producer_anchor p \<noteq> trusted_sage_anchor
             then Inl ''Sage bootstrap anchor does not match the new journal genesis'' else Inr p))"

definition audit_key_id :: "receipt_audit_producer_config \<Rightarrow> producer_host \<Rightarrow> string expected" where
  "audit_key_id c h =
     and_then (validate_config c) (\<lambda>_.
     and_then (load_key (ph_key h)) (\<lambda>key.
     and_then (anchor_create key) (\<lambda>anchor. Inr (an_key_id anchor))))"

definition acknowledge_bootstrap :: "receipt_audit_anchor \<Rightarrow> audit_producer \<Rightarrow> unit expected \<times> audit_producer" where
  "acknowledge_bootstrap sage_anchor p =
     (if sage_anchor \<noteq> producer_anchor p then (Inl ''Sage bootstrap anchor does not match the local head'', p)
      else (Inr (), p\<lparr>ap_bootstrap_reconciled := True\<rparr>))"

definition max_receipt_journal_record_bytes :: u64 where
  "max_receipt_journal_record_bytes = 64 * 1024 + 8"

text \<open>The locked part both overloads share: read the capacity that is left, and reserve a frame of
  the largest size.\<close>

definition reserve_capacity :: "audit_producer \<Rightarrow> unit expected \<times> audit_producer" where
  "reserve_capacity p =
     (if \<not> ap_bootstrap_reconciled p then (Inl ''receipt audit bootstrap reconciliation is required'', p)
      else (case remaining_capacity (ap_journal p) of
        (Inl e, j) \<Rightarrow> (Inl e, p\<lparr>ap_journal := j\<rparr>)
      | (Inr remaining, j) \<Rightarrow>
          if ap_reserved_bytes p > remaining \<or>
             max_receipt_journal_record_bytes > remaining - ap_reserved_bytes p
          then (Inl ''receipt audit journal capacity is unavailable'', p\<lparr>ap_journal := j\<rparr>)
          else (Inr (), p\<lparr>ap_journal := j,
                          ap_reserved_bytes := ap_reserved_bytes p + max_receipt_journal_record_bytes\<rparr>)))"

definition reserve_terminal :: "audit_producer \<Rightarrow> terminal_reservation expected \<times> audit_producer" where
  "reserve_terminal p =
     (case reserve_capacity p of
        (Inl e, p1) \<Rightarrow> (Inl e, p1)
      | (Inr _, p1) \<Rightarrow>
          (Inr \<lparr>rv_owner = True, rv_session_id = [], rv_controller_plan_digest = [], rv_profile_digest = []\<rparr>, p1))"

definition reserve_terminal_for ::
    "string \<Rightarrow> string \<Rightarrow> string \<Rightarrow> audit_producer \<Rightarrow> terminal_reservation expected \<times> audit_producer" where
  "reserve_terminal_for session_id controller_plan_digest profile_digest p =
     (if \<not> valid_identifier session_id \<or> \<not> valid_digest controller_plan_digest \<or> \<not> valid_digest profile_digest
      then (Inl ''receipt terminal reservation binding is invalid'', p)
      else (case reserve_capacity p of
        (Inl e, p1) \<Rightarrow> (Inl e, p1)
      | (Inr _, p1) \<Rightarrow>
          (Inr \<lparr>rv_owner = True, rv_session_id = session_id, rv_controller_plan_digest = controller_plan_digest,
                rv_profile_digest = profile_digest\<rparr>, p1)))"

definition release_reservation :: "audit_producer \<Rightarrow> audit_producer option" where
  "release_reservation p =
     (if ap_reserved_bytes p < max_receipt_journal_record_bytes then None
      else Some (p\<lparr>ap_reserved_bytes := ap_reserved_bytes p - max_receipt_journal_record_bytes\<rparr>))"

text \<open>The two commits.  \<open>owned\<close> says whether the reservation's owner is this producer; one of another
  producer is released there.  The reservation is a value parameter: it is released on every path.\<close>

definition commit_terminal ::
    "journal_codec \<Rightarrow> bool \<Rightarrow> terminal_reservation \<Rightarrow> string \<Rightarrow> string \<Rightarrow> resource_enforcement_receipt \<Rightarrow> audit_producer \<Rightarrow>
     (authenticated_resource_enforcement_receipt expected \<times> audit_producer) option" where
  "commit_terminal jc owned reservation session_id controller_plan_digest receipt p =
     (if \<not> owned then Some (Inl ''terminal reservation belongs to another producer'', p)
      else if rv_session_id reservation \<noteq> [] \<and>
              \<not> matches_execution reservation session_id controller_plan_digest (rr_profile_digest receipt)
      then Option.bind (release_reservation p)
             (\<lambda>p1. Some (Inl ''terminal reservation does not match the executed session'', p1))
      else (case journal_append jc session_id controller_plan_digest receipt (ap_journal p) of
              (appended, j) \<Rightarrow>
                Option.bind (release_reservation (p\<lparr>ap_journal := j\<rparr>)) (\<lambda>p1. Some (appended, p1))))"

definition commit_refinement_terminal ::
    "journal_codec \<Rightarrow> bool \<Rightarrow> terminal_reservation \<Rightarrow> string \<Rightarrow> string \<Rightarrow> refinement_evaluation_receipt \<Rightarrow> audit_producer \<Rightarrow>
     (authenticated_refinement_evaluation_receipt expected \<times> audit_producer) option" where
  "commit_refinement_terminal jc owned reservation session_id controller_plan_digest receipt p =
     (if \<not> owned then Some (Inl ''terminal reservation belongs to another producer'', p)
      else if rv_session_id reservation \<noteq> [] \<and>
              \<not> matches_execution reservation session_id controller_plan_digest
                  (rr_profile_digest (re_resource_receipt receipt))
      then Option.bind (release_reservation p)
             (\<lambda>p1. Some (Inl ''terminal reservation does not match the refinement execution'', p1))
      else (case journal_append_refinement jc session_id controller_plan_digest receipt (ap_journal p) of
              (appended, j) \<Rightarrow>
                Option.bind (release_reservation (p\<lparr>ap_journal := j\<rparr>)) (\<lambda>p1. Some (appended, p1))))"

text \<open>The queries hand the call on to the journal.\<close>

definition on_journal :: "(receipt_journal \<Rightarrow> 'a \<times> receipt_journal) \<Rightarrow> audit_producer \<Rightarrow> 'a \<times> audit_producer" where
  "on_journal query p = (case query (ap_journal p) of (answer, j) \<Rightarrow> (answer, p\<lparr>ap_journal := j\<rparr>))"

definition producer_confirms_terminal ::
    "authenticated_resource_enforcement_receipt \<Rightarrow> audit_producer \<Rightarrow> bool expected \<times> audit_producer" where
  "producer_confirms_terminal envelope = on_journal (contains_exact envelope)"

definition producer_confirms_refinement_terminal ::
    "authenticated_refinement_evaluation_receipt \<Rightarrow> audit_producer \<Rightarrow> bool expected \<times> audit_producer" where
  "producer_confirms_refinement_terminal envelope = on_journal (contains_exact_refinement envelope)"

definition producer_terminal_for_execution ::
    "string \<Rightarrow> string \<Rightarrow> string \<Rightarrow> audit_producer \<Rightarrow>
     authenticated_resource_enforcement_receipt option expected \<times> audit_producer" where
  "producer_terminal_for_execution session_id plan profile = on_journal (terminal_for_execution session_id plan profile)"

definition producer_refinement_terminal_for_execution ::
    "string \<Rightarrow> string \<Rightarrow> string \<Rightarrow> audit_producer \<Rightarrow>
     authenticated_refinement_evaluation_receipt option expected \<times> audit_producer" where
  "producer_refinement_terminal_for_execution session_id plan profile =
     on_journal (refinement_terminal_for_execution session_id plan profile)"

definition producer_page_after ::
    "receipt_audit_anchor \<Rightarrow> nat \<Rightarrow> audit_producer \<Rightarrow> receipt_journal_page expected \<times> audit_producer" where
  "producer_page_after trusted_sage_anchor limit = on_journal (page_after trusted_sage_anchor limit)"

text \<open>What the session registry sees of a producer.\<close>

definition producer_view :: "audit_producer \<Rightarrow> receipt_audit_producer" where
  "producer_view p =
     \<lparr>confirms_terminal = (\<lambda>envelope. fst (producer_confirms_terminal envelope p)),
      confirms_refinement_terminal = (\<lambda>envelope. fst (producer_confirms_refinement_terminal envelope p))\<rparr>"

end
