(* ===== verification/Producer_Theorems.thy ===== *)
theory Producer_Theorems
  imports Receipt_Producer
begin

text \<open>
  What a reservation of the receipt producer is worth: over every interleaving of reservations,
  appends and releases, the capacity that is still promised fits into the journal, so a session
  that was started with a reservation can always record its terminal receipt.
\<close>

subsection \<open>Producers and their outstanding reservations\<close>

text \<open>An outstanding reservation with the bytes its append has already written.  The append and the
  release of a commit are two critical sections, so they are two steps here, with any other step in
  between.\<close>

type_synonym outstanding = "(terminal_reservation \<times> nat) list"

definition written_by :: "receipt_journal \<Rightarrow> receipt_journal \<Rightarrow> nat" where
  "written_by j j' = unat (rj_durable_size j') - unat (rj_durable_size j)"

inductive producer_steps :: "journal_codec \<Rightarrow> audit_producer \<Rightarrow> outstanding \<Rightarrow> audit_producer \<Rightarrow> outstanding \<Rightarrow> bool"
  for jc p where
  environment: "d_bytes d = d_bytes (rj_disk (ap_journal p)) \<Longrightarrow>
    producer_steps jc p ts (p\<lparr>ap_journal := (ap_journal p)\<lparr>rj_disk := d\<rparr>\<rparr>) ts"
| acknowledge: "producer_steps jc p ts (snd (acknowledge_bootstrap anchor p)) ts"
| reserve: "reserve_terminal p = (Inr t, p') \<Longrightarrow> producer_steps jc p ts p' ((t, 0) # ts)"
| reserve_refused: "reserve_terminal p = (Inl e, p') \<Longrightarrow> producer_steps jc p ts p' ts"
| reserve_for: "reserve_terminal_for session_id plan profile p = (Inr t, p') \<Longrightarrow> producer_steps jc p ts p' ((t, 0) # ts)"
| reserve_for_refused: "reserve_terminal_for session_id plan profile p = (Inl e, p') \<Longrightarrow> producer_steps jc p ts p' ts"
| append: "journal_append jc session_id plan receipt (ap_journal p) = (result, j) \<Longrightarrow>
    producer_steps jc p (ts @ (t, 0) # us) (p\<lparr>ap_journal := j\<rparr>) (ts @ (t, written_by (ap_journal p) j) # us)"
| append_refinement: "journal_append_refinement jc session_id plan refinement (ap_journal p) = (answer, j) \<Longrightarrow>
    producer_steps jc p (ts @ (t, 0) # us) (p\<lparr>ap_journal := j\<rparr>) (ts @ (t, written_by (ap_journal p) j) # us)"
| release: "release_reservation p = Some p' \<Longrightarrow> producer_steps jc p (ts @ (t, n) # us) p' (ts @ us)"
| confirm: "producer_steps jc p ts (snd (producer_confirms_terminal envelope p)) ts"
| confirm_refinement: "producer_steps jc p ts (snd (producer_confirms_refinement_terminal evaluation p)) ts"
| find_terminal: "producer_steps jc p ts (snd (producer_terminal_for_execution session_id plan profile p)) ts"
| find_refinement: "producer_steps jc p ts (snd (producer_refinement_terminal_for_execution session_id plan profile p)) ts"
| page: "producer_steps jc p ts (snd (producer_page_after peer limit p)) ts"

inductive producer_reachable :: "journal_codec \<Rightarrow> string \<Rightarrow> audit_producer \<Rightarrow> outstanding \<Rightarrow> bool"
  for jc key_hex where
  initialized: "producer_initialize c h = Inr p \<Longrightarrow> load_key (ph_key h) = Inr key_hex \<Longrightarrow>
    (\<And>d. jl_file (ph_journal h) = Inr d \<Longrightarrow> d_bytes d = []) \<Longrightarrow> producer_reachable jc key_hex p []"
| recovered: "producer_recover jc c anchor h = Inr p \<Longrightarrow> load_key (ph_key h) = Inr key_hex \<Longrightarrow>
    (\<And>d. jl_file (ph_journal h) = Inr d \<Longrightarrow> length (d_bytes d) \<le> off_t_max) \<Longrightarrow> producer_reachable jc key_hex p []"
| step: "producer_reachable jc key_hex p ts \<Longrightarrow> producer_steps jc p ts p' ts' \<Longrightarrow> producer_reachable jc key_hex p' ts'"

subsection \<open>The invariant\<close>

definition promised :: "outstanding \<Rightarrow> nat" where
  "promised ts = sum_list (map (\<lambda>(t, n). 65544 - n) ts)"

definition producer_ok :: "journal_codec \<Rightarrow> string \<Rightarrow> audit_producer \<Rightarrow> outstanding \<Rightarrow> bool" where
  "producer_ok jc key_hex p ts =
     (journal_ok jc key_hex (ap_journal p) \<and> unat (ap_reserved_bytes p) = 65544 * length ts \<and>
      (ts \<noteq> [] \<longrightarrow> ap_bootstrap_reconciled p) \<and> list_all (\<lambda>(t, n). rv_owner t) ts \<and>
      (rj_poisoned (ap_journal p) \<or>
       unat (rj_durable_size (ap_journal p)) + promised ts \<le> unat (rj_max_size (ap_journal p))))"

lemma producer_ok_journal: "producer_ok jc key_hex p ts \<Longrightarrow> journal_ok jc key_hex (ap_journal p)"
  unfolding producer_ok_def by (elim conjE)

lemma promised_simps [simp]:
  "promised [] = 0" "promised ((t, n) # ts) = 65544 - n + promised ts" "promised (ts @ us) = promised ts + promised us"
  by (simp_all add: promised_def)

lemma promised_le: "promised ts \<le> 65544 * length ts"
  by (induction ts) auto

lemma unat_record_bytes: "unat max_receipt_journal_record_bytes = 65544"
  by (simp add: max_receipt_journal_record_bytes_def)

lemma journal_kept_sizes:
  assumes "journal_kept j j'"
  shows "rj_durable_size j' = rj_durable_size j" "rj_max_size j' = rj_max_size j" "rj_poisoned j \<Longrightarrow> rj_poisoned j'"
  using assms by (auto simp: journal_kept_def same_journal_def)

lemma journal_extends_sizes:
  assumes "journal_ok jc key_hex j" and "journal_ok jc key_hex j'" and "\<not> rj_poisoned j" and "journal_extends jc j r j'"
  shows "unat (rj_durable_size j) \<le> unat (rj_durable_size j')" "written_by j j' \<le> 65544" "rj_max_size j' = rj_max_size j"
proof -
  obtain payload where payload: "journal_payload jc payload r"
      "d_bytes (rj_disk j') = d_bytes (rj_disk j) @ frame_of payload" "rj_max_size j' = rj_max_size j" "\<not> rj_poisoned j'"
    using assms(4) by (auto simp: journal_extends_def)
  have "unat (rj_durable_size j') = unat (rj_durable_size j) + (length payload + 8)"
    using assms(1-3) payload(2,4) by (auto simp: journal_ok_def journal_image_def)
  then show "unat (rj_durable_size j) \<le> unat (rj_durable_size j')" "written_by j j' \<le> 65544" "rj_max_size j' = rj_max_size j"
    using payload(1,3) by (simp_all add: written_by_def journal_payload_def max_journal_payload_bytes_def)
qed

text \<open>A query keeps the invariant, whatever contract-abiding operation it runs on the journal.\<close>

lemma producer_ok_kept:
  assumes "producer_ok jc key_hex p ts" and "journal_ok jc key_hex j" and "journal_kept (ap_journal p) j"
  shows "producer_ok jc key_hex (p\<lparr>ap_journal := j\<rparr>) ts"
  using assms journal_kept_sizes [OF assms(3)] by (auto simp: producer_ok_def)

lemma reader_kept:
  assumes "\<And>s. snd (query s) = s \<or> snd (query s) = snd (journal_usable s)"
  shows "journal_kept s (snd (query s))"
proof -
  have "journal_kept s s" by (cases "rj_poisoned s") (simp_all add: journal_kept_def)
  moreover have "journal_kept s (snd (journal_usable s))"
    using journal_usable_kept [of s] by (metis prod.collapse)
  ultimately show ?thesis using assms [of s] by metis
qed

lemma queries_kept:
  "journal_kept s (snd (contains_exact e s))" "journal_kept s (snd (contains_exact_refinement x s))"
  "journal_kept s (snd (terminal_for_execution sid plan profile s))"
  "journal_kept s (snd (refinement_terminal_for_execution sid plan profile s))"
  "journal_kept s (snd (page_after peer limit s))" "journal_kept s (snd (remaining_capacity s))"
proof -
  show "journal_kept s (snd (contains_exact e s))"
    by (rule reader_kept [of "contains_exact e"]) (auto simp: contains_exact_def split: prod.splits option.splits)
  show "journal_kept s (snd (contains_exact_refinement x s))"
    by (rule reader_kept [of "contains_exact_refinement x"])
      (auto simp: contains_exact_refinement_def split: prod.splits option.splits)
  show "journal_kept s (snd (terminal_for_execution sid plan profile s))"
    by (rule reader_kept [of "terminal_for_execution sid plan profile"])
      (auto simp: terminal_for_execution_def split: prod.splits option.splits)
  show "journal_kept s (snd (refinement_terminal_for_execution sid plan profile s))"
    by (rule reader_kept [of "refinement_terminal_for_execution sid plan profile"])
      (auto simp: refinement_terminal_for_execution_def split: prod.splits option.splits)
  show "journal_kept s (snd (page_after peer limit s))"
    by (rule reader_kept [of "page_after peer limit"]) (auto simp: page_after_def Let_def split: prod.splits option.splits)
  show "journal_kept s (snd (remaining_capacity s))"
    by (rule reader_kept [of remaining_capacity]) (auto simp: remaining_capacity_def split: prod.splits option.splits)
qed

lemma on_journal_ok:
  assumes "producer_ok jc key_hex p ts" and "journal_kept (ap_journal p) (snd (query (ap_journal p)))"
  shows "producer_ok jc key_hex (snd (on_journal query p)) ts"
proof -
  obtain answer j where q: "query (ap_journal p) = (answer, j)" by fastforce
  have "journal_ok jc key_hex j"
    using journal_kept_ok [OF producer_ok_journal [OF assms(1)]] assms(2) q by simp
  then show ?thesis
    using producer_ok_kept [OF assms(1), of j] assms(2) q by (simp add: on_journal_def)
qed

lemma reserve_capacity_laws:
  assumes ok: "producer_ok jc key_hex p ts" and run: "reserve_capacity p = (result, p')"
  shows "result = Inl e \<Longrightarrow> producer_ok jc key_hex p' ts" "result = Inr () \<Longrightarrow> rv_owner t \<Longrightarrow> producer_ok jc key_hex p' ((t, 0) # ts)"
proof -
  obtain c j where c: "remaining_capacity (ap_journal p) = (c, j)" by fastforce
  have kept: "journal_kept (ap_journal p) j" using queries_kept(6) [of "ap_journal p"] c by simp
  have jok: "journal_ok jc key_hex j"
    by (rule journal_kept_ok [OF producer_ok_journal [OF ok] kept])
  note base = producer_ok_kept [OF ok jok kept]
  show "producer_ok jc key_hex p' ts" if "result = Inl e"
    using run that c ok base by (auto simp: reserve_capacity_def split: if_splits sum.splits)
  show "producer_ok jc key_hex p' ((t, 0) # ts)" if inr: "result = Inr ()" and owner: "rv_owner t"
  proof -
    obtain remaining where rem: "c = Inr remaining" "ap_bootstrap_reconciled p" "\<not> ap_reserved_bytes p > remaining"
        "\<not> max_receipt_journal_record_bytes > remaining - ap_reserved_bytes p"
        "p' = p\<lparr>ap_journal := j, ap_reserved_bytes := ap_reserved_bytes p + max_receipt_journal_record_bytes\<rparr>"
      using run inr c by (auto simp: reserve_capacity_def split: if_splits sum.splits)
    obtain usable: "\<not> rj_poisoned j" and left: "remaining = rj_max_size j - rj_durable_size j"
      using c rem(1) journal_usable_laws(3) [of "ap_journal p"]
      by (auto simp: remaining_capacity_def split: prod.splits option.splits)
    have image: "rj_durable_size j \<le> rj_max_size j"
      using jok usable by (auto simp: journal_ok_def journal_image_def)
    have room: "unat (ap_reserved_bytes p) + 65544 \<le> unat remaining"
      using rem(3,4) by (simp add: word_less_nat_alt not_less unat_sub word_le_nat_alt unat_record_bytes)
    have grown: "unat (ap_reserved_bytes p') = unat (ap_reserved_bytes p) + 65544"
      using unat_grow [OF room] rem(5) by (simp add: max_receipt_journal_record_bytes_def)
    have "unat (rj_durable_size j) + unat remaining = unat (rj_max_size j)"
      using image left by (simp add: unat_sub word_le_nat_alt)
    then have "unat (rj_durable_size j) + promised ((t, 0) # ts) \<le> unat (rj_max_size j)"
      using room promised_le [of ts] ok by (simp add: producer_ok_def)
    then show ?thesis
      using grown rem(2,5) jok ok owner by (simp add: producer_ok_def)
  qed
qed

context journal_operation
begin

lemma writes:
  assumes ok: "journal_ok jc key_hex s" and run: "operation s = (result, s')"
  shows "journal_kept s s' \<and> written_by s s' = 0 \<or>
    \<not> rj_poisoned s \<and> \<not> rj_poisoned s' \<and> written_by s s' \<le> 65544 \<and> rj_max_size s' = rj_max_size s \<and>
      unat (rj_durable_size s') = unat (rj_durable_size s) + written_by s s'"
proof (cases "journal_kept s s'")
  case True
  then show ?thesis by (simp add: written_by_def journal_kept_sizes)
next
  case False
  then obtain r where r: "journal_extends jc s r s'" using acts [OF ok run] by blast
  have kept: "journal_kept s s" by (cases "rj_poisoned s") (simp_all add: journal_kept_def)
  have "\<not> rj_poisoned s"
    using refuses [of s] run kept False by auto
  then show ?thesis
    using journal_extends_sizes [OF ok keeps [OF ok run] _ r] r by (simp add: written_by_def journal_extends_def)
qed

lemma writes_ok:
  assumes ok: "producer_ok jc key_hex p (ts @ (t, 0) # us)" and run: "operation (ap_journal p) = (result, j)"
  shows "producer_ok jc key_hex (p\<lparr>ap_journal := j\<rparr>) (ts @ (t, written_by (ap_journal p) j) # us)"
proof -
  note jok = producer_ok_journal [OF ok]
  have "rj_poisoned j \<or> unat (rj_durable_size j) + promised (ts @ (t, written_by (ap_journal p) j) # us) \<le> unat (rj_max_size j)"
    using writes [OF jok run] ok journal_kept_sizes [of "ap_journal p" j]
    by (auto simp: producer_ok_def)
  then show ?thesis
    using ok keeps [OF jok run] by (simp add: producer_ok_def)
qed

end

lemma release_reservation_ok:
  assumes "producer_ok jc key_hex p (ts @ (t, n) # us)"
  shows "\<exists>p'. release_reservation p = Some p' \<and> producer_ok jc key_hex p' (ts @ us) \<and> ap_journal p' = ap_journal p"
proof -
  have reserved: "unat (ap_reserved_bytes p) = 65544 * length (ts @ us) + 65544"
    using assms by (simp add: producer_ok_def)
  then have enough: "max_receipt_journal_record_bytes \<le> ap_reserved_bytes p"
    by (simp add: word_le_nat_alt unat_record_bytes)
  then have "unat (ap_reserved_bytes p - max_receipt_journal_record_bytes) = 65544 * length (ts @ us)"
    using reserved by (simp add: unat_sub unat_record_bytes)
  then show ?thesis
    using assms enough by (auto simp: release_reservation_def not_less producer_ok_def)
qed

lemma producer_steps_ok:
  assumes "producer_steps jc p ts p' ts'" and ok: "producer_ok jc key_hex p ts"
  shows "producer_ok jc key_hex p' ts'"
  using assms(1)
proof (cases rule: producer_steps.cases)
  case (environment d)
  have "journal_ok jc key_hex ((ap_journal p)\<lparr>rj_disk := d\<rparr>)"
    using producer_ok_journal [OF ok] environment(3) by (auto simp: journal_ok_def chained_records_def journal_image_def)
  then show ?thesis using ok environment(1,2) by (simp add: producer_ok_def)
next
  case (acknowledge anchor)
  then show ?thesis using ok by (auto simp: acknowledge_bootstrap_def producer_ok_def)
next
  case (reserve t)
  then show ?thesis
    using reserve_capacity_laws(2) [OF ok] by (auto simp: reserve_terminal_def split: prod.splits sum.splits)
next
  case (reserve_refused e)
  then show ?thesis
    using reserve_capacity_laws(1) [OF ok] by (auto simp: reserve_terminal_def split: prod.splits sum.splits)
next
  case (reserve_for session_id plan profile t)
  then show ?thesis
    using reserve_capacity_laws(2) [OF ok] by (auto simp: reserve_terminal_for_def split: prod.splits sum.splits if_splits)
next
  case (reserve_for_refused session_id plan profile e)
  then show ?thesis
    using reserve_capacity_laws(1) [OF ok] ok by (auto simp: reserve_terminal_for_def split: prod.splits sum.splits if_splits)
next
  case (append session_id plan receipt result j ts us t)
  then show ?thesis using appending.writes_ok ok by blast
next
  case (append_refinement session_id plan refinement answer j ts us t)
  then show ?thesis using appending_refinement.writes_ok ok by blast
next
  case (release ts t n us)
  then show ?thesis using release_reservation_ok ok by fastforce
qed (use ok in \<open>simp_all add: producer_confirms_terminal_def producer_confirms_refinement_terminal_def
      producer_terminal_for_execution_def producer_refinement_terminal_for_execution_def producer_page_after_def
      on_journal_ok queries_kept\<close>)

lemma producer_reachable_ok:
  assumes "producer_reachable jc key_hex p ts" and "journal_faithful jc"
  shows "producer_ok jc key_hex p ts"
  using assms
proof (induction rule: producer_reachable.induct)
  case (initialized c h p)
  then obtain j where j: "create_new (cfg_journal_path c) key_hex (cfg_max_journal_bytes c) (ph_journal h) = Inr j"
      "p = \<lparr>ap_journal = j, ap_reserved_bytes = 0, ap_bootstrap_reconciled = False\<rparr>"
    by (auto simp: producer_initialize_def and_then_Inr)
  have "journal_ok jc key_hex j" using create_new_ok(1) [OF j(1)] initialized by blast
  then show ?case using j(2) by (auto simp: producer_ok_def journal_ok_def journal_image_def word_le_nat_alt)
next
  case (recovered c anchor h p)
  then obtain j where j: "open_existing jc (cfg_journal_path c) key_hex (Some anchor) (cfg_max_journal_bytes c) (ph_journal h) = Inr j"
      "p = \<lparr>ap_journal = j, ap_reserved_bytes = 0, ap_bootstrap_reconciled = (journal_anchor j = anchor)\<rparr>"
    by (auto simp: producer_recover_def and_then_Inr)
  have "journal_ok jc key_hex j" using open_existing_ok(1) [OF j(1)] recovered by blast
  then show ?case using j(2) by (auto simp: producer_ok_def journal_ok_def journal_image_def word_le_nat_alt)
next
  case (step p ts p' ts')
  then show ?case using producer_steps_ok by blast
qed

subsection \<open>What a reservation is worth\<close>

definition bound_to :: "terminal_reservation \<Rightarrow> string \<Rightarrow> string \<Rightarrow> string \<Rightarrow> bool" where
  "bound_to t session_id plan profile = (rv_session_id t = [] \<or> matches_execution t session_id plan profile)"

lemma commit_terminal_run:
  assumes ok: "producer_ok jc key_hex p (ts @ (t, 0) # us)" and bound: "bound_to t session_id plan (rr_profile_digest receipt)"
    and run: "journal_append jc session_id plan receipt (ap_journal p) = (result, j)"
  obtains p' where "commit_terminal jc True t session_id plan receipt p = Some (result, p')" "ap_journal p' = j"
    "producer_ok jc key_hex p' (ts @ us)"
proof -
  obtain p' where "release_reservation (p\<lparr>ap_journal := j\<rparr>) = Some p'" "producer_ok jc key_hex p' (ts @ us)" "ap_journal p' = j"
    using release_reservation_ok [OF appending.writes_ok [OF ok run]] by auto
  then show thesis
    using that bound run by (auto simp: commit_terminal_def bound_to_def)
qed

lemma reservation_room:
  assumes "producer_ok jc key_hex p (ts @ (t, 0) # us)" and "\<not> rj_poisoned (ap_journal p)"
  shows "65544 \<le> unat (rj_max_size (ap_journal p) - rj_durable_size (ap_journal p))"
proof -
  have "unat (rj_durable_size (ap_journal p)) + 65544 \<le> unat (rj_max_size (ap_journal p))"
    using assms by (simp add: producer_ok_def)
  then show ?thesis by (simp add: unat_sub word_le_nat_alt)
qed

text \<open>
  C11. A reservation is a promise the producer keeps.  Over every interleaving of reservations,
  appends, releases and queries, reservations exist only after the peer confirmed the local head,
  the bytes the producer counts are those of the outstanding reservations, and releasing one never
  terminates the process.  Committing a receipt under a reservation that fits it always returns,
  with the journal's own answer, and when the kernel interposes no fault every receipt that the
  chain and the encoder accept is recorded: the journal cannot be out of capacity.
\<close>

theorem reservation_guarantees_commit:
  assumes "journal_faithful jc" and "producer_reachable jc key_hex p (ts @ (t, 0) # us)"
    and "bound_to t session_id plan (rr_profile_digest receipt)"
  shows "ap_bootstrap_reconciled p \<and> unat (ap_reserved_bytes p) = 65544 * length (ts @ (t, 0) # us) \<and>
    release_reservation p \<noteq> None \<and>
    (\<exists>result p'. commit_terminal jc True t session_id plan receipt p = Some (result, p') \<and>
       result = fst (journal_append jc session_id plan receipt (ap_journal p)) \<and>
       (journal_calm (ap_journal p) \<and>
        chain_append (rj_chain (ap_journal p)) session_id plan receipt = (Inr envelope, chain') \<and>
        encode_journal_record jc
          \<lparr>jr_kind = ''resource_enforcement_v1'', jr_resource = Some envelope, jr_refinement = None\<rparr> = Inr payload \<longrightarrow>
        result = Inr envelope \<and>
        last (rj_records (ap_journal p')) =
          \<lparr>jr_kind = ''resource_enforcement_v1'', jr_resource = Some envelope, jr_refinement = None\<rparr>))"
proof -
  note ok = producer_reachable_ok [OF assms(2,1)]
  note jok = producer_ok_journal [OF ok]
  obtain result j where run: "journal_append jc session_id plan receipt (ap_journal p) = (result, j)" by fastforce
  obtain p' where p': "commit_terminal jc True t session_id plan receipt p = Some (result, p')" "ap_journal p' = j"
    by (rule commit_terminal_run [OF ok assms(3) run])
  have "result = Inr envelope \<and> last (rj_records j) =
      \<lparr>jr_kind = ''resource_enforcement_v1'', jr_resource = Some envelope, jr_refinement = None\<rparr>"
    if calm: "journal_calm (ap_journal p)"
      and envelope: "chain_append (rj_chain (ap_journal p)) session_id plan receipt = (Inr envelope, chain')"
      and payload: "encode_journal_record jc
          \<lparr>jr_kind = ''resource_enforcement_v1'', jr_resource = Some envelope, jr_refinement = None\<rparr> = Inr payload"
  proof -
    have "length payload \<le> 65536"
      using payload by (auto simp: encode_journal_record_def max_journal_payload_bytes_def split: if_splits sum.splits)
    then have "length payload + 8 \<le> unat (rj_max_size (ap_journal p) - rj_durable_size (ap_journal p))"
      using reservation_room [OF ok] calm by (simp add: journal_calm_def)
    then show ?thesis
      using journal_append_calm [OF jok calm envelope payload] run journal_append_laws [OF jok run]
      by (auto simp: journal_extends_def)
  qed
  then show ?thesis
    using ok p' run release_reservation_ok [OF ok] by (auto simp: producer_ok_def)
qed

subsection \<open>A concrete producer\<close>

definition sample_config :: receipt_audit_producer_config where
  "sample_config = \<lparr>cfg_key_path = ''k'', cfg_journal_path = ''j'', cfg_max_journal_bytes = 131072\<rparr>"

definition sample_key_stat :: load_stat where
  "sample_key_stat = \<lparr>ls_device = 1, ls_inode = 3, ls_mode = 0x8180, ls_uid = 0, ls_links = 1,
     ls_size = 64, ls_modified = (0, 0), ls_changed = (0, 0)\<rparr>"

definition sample_key_file :: loaded_file where
  "sample_key_file = \<lparr>lf_before = Inr sample_key_stat,
     lf_content = journal_sample_disk\<lparr>d_bytes := bytes_of_string zero_digest\<rparr>, lf_after = Inr sample_key_stat, lf_euid = 0\<rparr>"

definition sample_host :: producer_host where
  "sample_host = \<lparr>ph_key = Inr sample_key_file, ph_lstat = Absent, ph_journal = journal_sample_location journal_sample_disk\<rparr>"

lemma sample_key_loaded: "load_key (ph_key sample_host) = Inr zero_digest"
proof -
  let ?content = "journal_sample_disk\<lparr>d_bytes := bytes_of_string zero_digest\<rparr>"
  obtain r d' where r: "read_bytes key_text ?content (length (bytes_of_string zero_digest)) 0 = (r, d')" by fastforce
  have "r = Inr (bytes_of_string zero_digest)"
    using read_bytes_laws [OF r, of "[]" "[]"]
    by (simp add: journal_sample_disk_def zero_digest_def off_t_max_def)
  moreover have "\<not> ascii_whitespace (CHR ''0'')" by (simp add: ascii_whitespace_def)
  then have "trimmed zero_digest = zero_digest" by (simp add: trimmed_def zero_digest_def)
  ultimately show ?thesis
    using r by (simp add: load_key_def sample_host_def sample_key_file_def sample_key_stat_def max_key_file_bytes_def
        same_key_file_def is_regular_def permission_bits_def zero_digest_def valid_zero_digest [unfolded zero_digest_def])
qed

definition sample_new_producer :: audit_producer where
  "sample_new_producer = \<lparr>ap_journal = sample_new_journal, ap_reserved_bytes = 0, ap_bootstrap_reconciled = False\<rparr>"

definition sample_producer :: audit_producer where
  "sample_producer = \<lparr>ap_journal = sample_new_journal, ap_reserved_bytes = 65544, ap_bootstrap_reconciled = True\<rparr>"

definition sample_reservation :: terminal_reservation where
  "sample_reservation = \<lparr>rv_owner = True, rv_session_id = ''s'', rv_controller_plan_digest = zero_digest,
     rv_profile_digest = zero_digest\<rparr>"

lemma sample_producer_initialized: "producer_initialize sample_config sample_host = Inr sample_new_producer"
  using sample_key_loaded sample_new_journal(1)
  by (simp add: producer_initialize_def validate_config_def sample_config_def lexically_normal_def is_absolute_def
      name_elements_def sample_host_def sample_new_producer_def)

lemma sample_new_journal_usable: "journal_usable sample_new_journal = (None, sample_new_journal)"
  by (rule journal_usable_calm [OF journal_reachable_ok [OF sample_new_journal_reachable sample_journal_faithful]
        sample_new_journal(2)])

lemma sample_producer_reserved:
  "reserve_terminal_for ''s'' zero_digest zero_digest (sample_new_producer\<lparr>ap_bootstrap_reconciled := True\<rparr>) =
     (Inr sample_reservation, sample_producer)"
  by (simp add: reserve_terminal_for_def valid_identifier_def identifier_byte_def byte_of_def reserve_capacity_def
      sample_new_producer_def remaining_capacity_def sample_new_journal_usable sample_new_journal
      max_receipt_journal_record_bytes_def sample_reservation_def sample_producer_def)

lemma sample_producer_reachable:
  "producer_reachable sample_journal_codec zero_digest sample_producer ([] @ (sample_reservation, 0) # [])"
proof -
  have new: "producer_reachable sample_journal_codec zero_digest sample_new_producer []"
    by (rule producer_reachable.initialized [OF sample_producer_initialized sample_key_loaded])
      (simp add: sample_host_def journal_sample_location_def journal_sample_disk_def)
  have "snd (acknowledge_bootstrap (producer_anchor sample_new_producer) sample_new_producer) =
      sample_new_producer\<lparr>ap_bootstrap_reconciled := True\<rparr>"
    by (simp add: acknowledge_bootstrap_def)
  with producer_reachable.step [OF new producer_steps.acknowledge]
  have "producer_reachable sample_journal_codec zero_digest (sample_new_producer\<lparr>ap_bootstrap_reconciled := True\<rparr>) []"
    by metis
  from producer_reachable.step [OF this producer_steps.reserve_for [OF sample_producer_reserved]] show ?thesis by simp
qed

theorem reservation_guarantees_commit_witness:
  "\<exists>p'. commit_terminal sample_journal_codec True sample_reservation ''s'' zero_digest sample_receipt sample_producer =
     Some (Inr sample_envelope, p')"
proof -
  have bound: "bound_to sample_reservation ''s'' zero_digest (rr_profile_digest sample_receipt)"
    by (simp add: bound_to_def matches_execution_def sample_reservation_def sample_receipt_def)
  show ?thesis
    using reservation_guarantees_commit [OF sample_journal_faithful sample_producer_reachable bound,
        where envelope = sample_envelope and chain' = sample_chain and payload = "''r''"]
    by (auto simp: sample_producer_def sample_journal_appended)
qed
end
