(* ===== verification/Durable_Receipts.thy ===== *)
theory Durable_Receipts
  imports Producer_Theorems Registry_Managed
begin

text \<open>
  The session registry closes a session only over a receipt that the receipt journal holds: the
  composition of \<open>session_registry\<close> with the receipt producer it asks.
\<close>

lemma confirmed_only_present:
  assumes "confirmed_terminal (confirms_terminal (producer_view p) t) message = Inr u"
  shows "\<exists>r \<in> set (rj_records (ap_journal p)). jr_resource r = Some t"
proof -
  obtain e j where usable: "journal_usable (ap_journal p) = (e, j)" by fastforce
  have same: "rj_records j = rj_records (ap_journal p)"
    using journal_usable_laws(1) [OF usable] by (simp add: same_journal_def)
  have "e = None" "ar_sequence t \<noteq> 0" "unat (ar_sequence t) \<le> length (rj_records j)"
      "jr_resource (rj_records j ! (unat (ar_sequence t) - 1)) = Some t"
    using assms usable
    by (auto simp: confirmed_terminal_def producer_view_def producer_confirms_terminal_def on_journal_def contains_exact_def
        split: option.splits sum.splits if_splits)
  moreover from this have "unat (ar_sequence t) - 1 < length (rj_records j)"
    using unat_gt_0 [of "ar_sequence t"] by linarith
  ultimately show ?thesis using same nth_mem by metis
qed

lemma confirmed_refinement_only_present:
  assumes "confirmed_terminal (confirms_refinement_terminal (producer_view p) t) message = Inr u"
  shows "\<exists>r \<in> set (rj_records (ap_journal p)). jr_refinement r = Some t"
proof -
  obtain e j where usable: "journal_usable (ap_journal p) = (e, j)" by fastforce
  have same: "rj_records j = rj_records (ap_journal p)"
    using journal_usable_laws(1) [OF usable] by (simp add: same_journal_def)
  have "e = None" "af_sequence t \<noteq> 0" "unat (af_sequence t) \<le> length (rj_records j)"
      "jr_refinement (rj_records j ! (unat (af_sequence t) - 1)) = Some t"
    using assms usable
    by (auto simp: confirmed_terminal_def producer_view_def producer_confirms_refinement_terminal_def on_journal_def
        contains_exact_refinement_def split: option.splits sum.splits if_splits)
  moreover from this have "unat (af_sequence t) - 1 < length (rj_records j)"
    using unat_gt_0 [of "af_sequence t"] by linarith
  ultimately show ?thesis using same nth_mem by metis
qed

text \<open>
  C12. A session is never recorded as exited over a receipt that could be lost: as long as the receipt
  journal does not hold the envelope, each of the three operations that close a session refuses it
  and leaves the registry as it was, whoever presents the envelope and whatever its contents.
\<close>

theorem undurable_receipt_refused:
  assumes "\<forall>r \<in> set (rj_records (ap_journal p)). jr_resource r \<noteq> Some t \<and> jr_refinement r \<noteq> Some t'"
  shows "(\<exists>e. mark_exited jc (producer_view p) t key s = (Inl e, s)) \<and>
    (\<exists>e. mark_managed_exited jc (producer_view p) t key s = (Inl e, s)) \<and>
    (\<exists>e. mark_refinement_exited jc (producer_view p) t' key s = (Inl e, s))"
proof -
  have "\<forall>message. \<exists>e. confirmed_terminal (confirms_terminal (producer_view p) t) message = Inl e"
    using confirmed_only_present [of p t] assms by (metis old.sum.exhaust)
  then obtain f where f: "confirmed_terminal (confirms_terminal (producer_view p) t) message = Inl (f message)" for message
    by metis
  have "\<forall>message. \<exists>e. confirmed_terminal (confirms_refinement_terminal (producer_view p) t') message = Inl e"
    using confirmed_refinement_only_present [of p t'] assms by (metis old.sum.exhaust)
  then obtain g where g: "confirmed_terminal (confirms_refinement_terminal (producer_view p) t') message = Inl (g message)" for message
    by metis
  show ?thesis
    by (simp add: mark_exited_def mark_managed_exited_def mark_refinement_exited_def f g)
qed

theorem undurable_receipt_refused_witness:
  "\<forall>jc key s. \<exists>e. mark_exited jc (producer_view sample_producer) sample_envelope key s = (Inl e, s)"
  using undurable_receipt_refused [of sample_producer sample_envelope
      "projr (fst (chain_append_refinement sample_chain ''s'' zero_digest sample_refinement))"]
  by (simp add: sample_producer_def sample_new_journal)

end
