(* ===== verification/Registry_Sample.thy ===== *)
theory Registry_Sample
  imports Registry_Reach
begin

text \<open>
  A concrete registry for the witnesses: a new file under an owner-only directory, opened, and one
  session created in it.  The JSON library is instantiated by a codec that knows the record the
  sample writes, and the plan validator by one that accepts one plan.  Digests stay symbolic: the
  sample uses only that SHA-256 is defined on short inputs.
\<close>

definition sample_meta :: file_meta where
  "sample_meta = \<lparr>fm_device = 1, fm_inode = 2, fm_regular = True, fm_uid = 0, fm_permissions = 384,
     fm_links = 1, fm_change = (0, 0)\<rparr>"

definition sample_disk :: disk where
  "sample_disk = \<lparr>d_bytes = [], d_meta = sample_meta, d_path = Some sample_meta, d_euid = 0,
     d_clock = (0, 0), d_outcomes = []\<rparr>"

definition sample_location :: "lookup \<Rightarrow> location" where
  "sample_location entry = \<lparr>loc_parent = Inr \<lparr>dm_directory = True, dm_uid = 0, dm_permissions = 448\<rparr>,
     loc_euid = 0, loc_entry = entry\<rparr>"

definition sample_document :: validated_session_plan_document where
  "sample_document = \<lparr>vd_validation = \<lparr>sv_schema_version = 1, sv_policy_revision = 1\<rparr>,
     vd_expires_at_ms = 100, vd_canonical_json = ''{}''\<rparr>"

definition sample_validator :: session_plan_validator where
  "sample_validator =
     \<lparr>canonicalize_json = (\<lambda>plan now_ms. if plan = ''{}'' then Inr sample_document else Inl ''rejected''),
      resolve_runtime_launch_json = (\<lambda>plan now_ms. Inl ''rejected''),
      resolve_native_harness_adoption_json = (\<lambda>plan now_ms. Inl ''rejected''),
      resolve_path_grants_json = (\<lambda>plan now_ms. Inl ''rejected''),
      resolve_library_projection_targets_json = (\<lambda>plan now_ms. Inl ''rejected'')\<rparr>"

definition sample_digest :: string where
  "sample_digest = replicate 64 (CHR ''a'')"

definition sample_plan_digest :: string where
  "sample_plan_digest = sha256_reference (bytes_of_string ''{}'')"

definition sample_record0 :: persisted_session where
  "sample_record0 = blank_session
     \<lparr>p_schema_version := 1, p_sequence := 1, p_operation := ''create'', p_idempotency_key := ''k1'',
      p_session_id := ''s1'', p_controller_plan_digest := sample_digest,
      p_request_digest := sample_plan_digest, p_plan_content_digest := sample_plan_digest,
      p_state := ''created'', p_policy_revision := 1, p_expires_at_ms := 100, p_created_at_ms := 5,
      p_canonical_plan_json := ''{}'', p_previous_hash := zero_digest\<rparr>"

definition sample_hash :: string where
  "sample_hash = (case hash_record sample_record0 of Inr h \<Rightarrow> h | Inl e \<Rightarrow> [])"

definition sample_record :: persisted_session where
  "sample_record = sample_record0\<lparr>p_this_hash := sample_hash\<rparr>"

definition sample_codec :: json_codec where
  "sample_codec =
     \<lparr>write_json = (\<lambda>r. if r = sample_record then Some ''r'' else None),
      read_json = (\<lambda>p. if p = ''r'' then Some sample_record else None), read_header = (\<lambda>p. None)\<rparr>"

definition sample_registry :: registry where
  "sample_registry = (fresh_registry (sample_disk\<lparr>d_bytes := registry_magic\<rparr>) sample_validator None 4096 None)
     \<lparr>reg_identity := \<lparr>ri_device = 1, ri_inode = 2, ri_size = 8, ri_change = (0, 0)\<rparr>\<rparr>"

definition sample_session :: registry where
  "sample_session = snd (create sample_codec ''s1'' sample_digest ''{}'' ''k1'' 5 sample_registry)"

lemmas sample_defs = sample_location_def sample_disk_def sample_meta_def sample_registry_def
  fresh_registry_def min_registry_bytes_def

lemmas storage_defs = inspect_file_def single_call_def owner_only_file_def retried_call_def write_at_def
  write_bytes_def in_range_def write_loop.simps sync_descriptor_def pwrite_def splice_def read_at_def read_bytes_def read_loop.simps capture_identity_def
  identity_of_def off_t_max_def

lemma sample_codec_faithful: "codec_faithful sample_codec"
  by (simp add: codec_faithful_def sample_codec_def)

lemma sample_collaborators: "collaborators sample_validator None"
  by (simp add: collaborators_def sample_validator_def plan_document_ok_def sample_document_def
      max_record_payload_bytes_def)

lemma sample_opened:
  "open_or_create sample_codec ''/run/glove/sessions'' (Some sample_validator) None 4096 None
     (sample_location (Created sample_disk)) = Inr sample_registry"
  by (simp add: open_or_create_def open_registry_def filename_def name_elements_def split_on.simps
      initialize_empty_def recover_def recover_loop.simps registry_magic_def Let_def bytes_of_string_def
      sample_defs storage_defs)

lemma sample_opened_reachable: "reachable sample_codec sample_registry"
  by (rule reachable.opened [OF sample_opened sample_collaborators])
    (simp add: entry_ok_def sample_defs)

lemma sample_session_reachable: "reachable sample_codec sample_session"
  unfolding sample_session_def by (rule reachable.operated [OF sample_opened_reachable operates.create])

lemma sample_hash_plan: "hash_plan ''{}'' = Inr sample_plan_digest"
  by (simp add: hash_plan_def sha256_hex_cases sample_plan_digest_def bytes_of_string_def)

lemma sample_digest_lengths [simp]: "length sample_plan_digest = 64" "length sample_digest = 64"
  using hash_valid_digest(2) [OF sample_hash_plan] by (simp_all add: valid_digest_def sample_digest_def)

lemma sample_hash: "hash_record sample_record0 = Inr sample_hash"
proof -
  have "\<exists>m. record_material sample_record0 = Inr m \<and> length m \<le> 2 ^ 61 - 1"
    by (simp add: record_material_def sample_record0_def blank_session_def launch_section_def process_section_def
      failure_section_def stop_section_def terminal_section_def intent_section_def append_string_def
      append_u64_enc append_u32_enc append_u8_def bytes_of_string_def zero_digest_def Let_def)
  then show ?thesis
    by (auto simp: sample_hash_def hash_record_def sha256_hex_cases)
qed

lemma sample_usable: "unusable sample_registry = (False, sample_registry)"
  by (simp add: unusable_def verify_identity_def capture_identity_def identity_of_def single_call_def
      owner_only_file_def registry_magic_def bytes_of_string_def sample_defs)

lemma sample_request: "valid_identifier ''s1''" "valid_identifier ''k1''" "valid_digest sample_digest"
  by (simp_all add: valid_identifier_def identifier_byte_def valid_digest_def sample_digest_def hex_byte_def
      byte_of_def list_all_iff)

lemma sample_planned:
  "create_plan ''s1'' sample_digest sample_plan_digest ''k1'' sample_document sample_plan_digest 5 sample_registry =
     Inr sample_record0"
  by (simp add: create_plan_def sample_defs max_records_def sample_record0_def sample_document_def
      next_sequence_def last_hash_def)

lemma sample_appended:
  "append_record_locked sample_codec sample_registry sample_record0 =
     (Inr (public_record sample_record), index_appended
        (sample_registry\<lparr>reg_disk := sample_disk\<lparr>d_bytes := registry_magic @ frame_of ''r''\<rparr>,
           reg_identity := \<lparr>ri_device = 1, ri_inode = 2, ri_size = 17, ri_change = (0, 0)\<rparr>,
           reg_durable_bytes := 17\<rparr>) sample_record)"
proof -
  have "encode_record sample_codec sample_record = Inr (frame_of ''r'')"
    by (simp add: encode_record_def sample_codec_def max_record_payload_bytes_def append_u32_enc frame_of_def)
  moreover have "length registry_magic = 8" by (simp add: registry_magic_def bytes_of_string_def)
  ultimately show ?thesis
  by (simp add: append_record_locked_def sample_usable sample_hash flip: sample_record_def)
   (simp add: store_frame_def storage_defs sample_defs)
qed

lemma sample_created:
  "create sample_codec ''s1'' sample_digest ''{}'' ''k1'' 5 sample_registry =
     (Inr (public_record sample_record), sample_session)"
  "reg_records sample_session = [sample_record]" "\<not> reg_poisoned sample_session"
  "reg_disk sample_session = sample_disk\<lparr>d_bytes := registry_magic @ frame_of ''r''\<rparr>"
  "reg_max_bytes sample_session = 4096" "reg_channels sample_session = None"
  "reg_identity sample_session = \<lparr>ri_device = 1, ri_inode = 2, ri_size = 17, ri_change = (0, 0)\<rparr>"
  "reg_durable_bytes sample_session = 17" "find_session sample_session ''s1'' = Some 0"
proof -
  have "reg_requests sample_registry = Map.empty" "reg_validator sample_registry = sample_validator"
    "canonicalize_json sample_validator ''{}'' 5 = Inr sample_document" "vd_canonical_json sample_document = ''{}''"
    by (simp_all add: sample_defs sample_validator_def sample_document_def)
  then have "create sample_codec ''s1'' sample_digest ''{}'' ''k1'' 5 sample_registry = 
     append_record_locked sample_codec sample_registry sample_record0"
    by (simp add: create_def sample_request sample_hash_plan find_create_replay_locked_def locked_def sample_usable
     find_create_replay_def find_replay_def create_commit_def transition_def pure_plan_def sample_planned sample_appended)
  then show "create sample_codec ''s1'' sample_digest ''{}'' ''k1'' 5 sample_registry =
     (Inr (public_record sample_record), sample_session)"
    "reg_records sample_session = [sample_record]" "\<not> reg_poisoned sample_session"
    "reg_disk sample_session = sample_disk\<lparr>d_bytes := registry_magic @ frame_of ''r''\<rparr>"
    "reg_max_bytes sample_session = 4096" "reg_channels sample_session = None"
    "reg_identity sample_session = \<lparr>ri_device = 1, ri_inode = 2, ri_size = 17, ri_change = (0, 0)\<rparr>"
    "reg_durable_bytes sample_session = 17" "find_session sample_session ''s1'' = Some 0"
    by (simp_all add: sample_session_def sample_appended index_appended_laws)
      (simp_all add: sample_defs index_appended_def sample_record_def sample_record0_def blank_session_def)
qed

lemma sample_session_usable: "unusable sample_session = (False, sample_session)"
  by (simp add: unusable_def verify_identity_def capture_identity_def identity_of_def single_call_def
      owner_only_file_def registry_magic_def bytes_of_string_def frame_of_def sample_created sample_disk_def
      sample_meta_def)

end
