(* ===== verification/Registry_Theorems.thy ===== *)
theory Registry_Theorems
  imports Registry_Sample
begin

text \<open>
  What the session registry promises, over every registry a program can reach: the state on disk
  and in memory, restart, the atomicity of an append, the lifecycle of a session, idempotent
  requests, the poisoned registry, the totality of the projections and the recovery lists.
\<close>

subsection \<open>The invariant and restart\<close>

text \<open>
  C1. Take a registry that was opened, over any file and by any process, and then any sequence of
  operations, reads, short and failed system calls, on four conditions that the code does not check:
  no session is marked as starting at a time before its authorization, \<open>mark_failed\<close> is called for
  directly executed sessions only, and no client key equals the key derived for an observation
  intent or for a disposition (the guards of \<open>operates\<close>).  Then the registry holds at most 10,000 records; every record is well shaped, is sealed by its own hash, names the
  hash of its predecessor, and is the one its idempotency key resolves to; every session resolves
  to a lifecycle record of its own.  While the registry is not poisoned its file is the magic
  followed by the frames of exactly these records, and its length is the recorded one.
\<close>

theorem registry_invariant:
  assumes "codec_faithful jc" and "reachable jc s"
  shows "length (reg_records s) \<le> max_records \<and> chained (reg_records s) \<and>
    (\<forall>i < length (reg_records s). sealed (reg_records s ! i) i \<and>
       reg_requests s (p_idempotency_key (reg_records s ! i)) = Some i) \<and>
    (\<forall>session_id r. current_session s session_id = Some r \<longrightarrow>
       r \<in> set (reg_records s) \<and> p_session_id r = session_id \<and> \<not> is_observation r) \<and>
    (reg_poisoned s \<or>
      (\<exists>body. framed jc (reg_records s) body \<and> file_bytes s = registry_magic @ body \<and>
         unat (reg_durable_bytes s) = length (file_bytes s) \<and> reg_durable_bytes s \<le> reg_max_bytes s))"
proof -
  note wf = reachable_well_formed [OF assms(2,1)]
  note ok = index_okD [OF well_formedD(1) [OF wf]]
  have "r \<in> set (reg_records s) \<and> p_session_id r = session_id \<and> \<not> is_observation r"
    if "current_session s session_id = Some r" for session_id r
    using that ok(6,7) by (auto simp: current_session_def)
  moreover have "reg_poisoned s \<or>
      (\<exists>body. framed jc (reg_records s) body \<and> file_bytes s = registry_magic @ body \<and>
         unat (reg_durable_bytes s) = length (file_bytes s) \<and> reg_durable_bytes s \<le> reg_max_bytes s)"
    using well_formedD(4) [OF wf] by (auto simp: imaged_def)
  ultimately show ?thesis
    using ok(1,2,9) well_formedD(3) [OF wf] by blast
qed

theorem registry_invariant_witness:
  "sealed sample_record 0 \<and> p_previous_hash sample_record = zero_digest \<and>
   reg_requests sample_session ''k1'' = Some 0"
  using registry_invariant [OF sample_codec_faithful sample_session_reachable]
  by (simp add: sample_created(2) sample_record_def sample_record0_def chained_def)

text \<open>Where a registry can be opened again: a bounded name in an owner-only directory, an owner-only
  file with the bytes the registry left, and the configuration it had.\<close>

definition reopenable :: "string \<Rightarrow> registry \<Rightarrow> location \<Rightarrow> disk \<Rightarrow> bool" where
  "reopenable path s loc d =
     (path \<noteq> [] \<and> filename path \<notin> {[], ''.'', ''..''} \<and>
      (\<exists>parent. loc_parent loc = Inr parent \<and> dm_directory parent \<and> dm_uid parent = loc_euid loc \<and>
         dm_permissions parent = 448) \<and>
      owner_only_file (d_euid d) (d_meta d) \<and> min_registry_bytes \<le> reg_max_bytes s \<and>
      (case reg_channels s of None \<Rightarrow> True | Some h \<Rightarrow> frozen h \<and> descriptors h \<noteq> []) \<and> d_outcomes d = [])"

definition reopened :: "json_codec \<Rightarrow> string \<Rightarrow> registry \<Rightarrow> location \<Rightarrow> registry registry_result" where
  "reopened jc path s loc =
     open_or_create jc path (Some (reg_validator s)) (reg_library_bundles s) (reg_max_bytes s)
       (reg_channels s) loc"

lemma inspect_file_laws:
  assumes "inspect_file d = (Inr n, d')"
  shows "owner_only_file (d_euid d) (d_meta d)" "\<exists>os. d' = d\<lparr>d_outcomes := os\<rparr>"
proof -
  obtain answer d1 where call: "single_call d = (answer, d1)" by fastforce
  then show "owner_only_file (d_euid d) (d_meta d)" "\<exists>os. d' = d\<lparr>d_outcomes := os\<rparr>"
    using assms single_call_calm [OF call]
    by (auto simp: inspect_file_def split: option.splits if_splits)
qed

lemma open_registry_entry:
  assumes "open_registry path loc = Inr (d1, created)" and "loc_entry loc = Entry d"
  shows "\<not> created" "owner_only_file (d_euid d) (d_meta d)" "\<exists>os. d1 = d\<lparr>d_outcomes := os\<rparr>"
proof -
  obtain n d2 answer where steps: "inspect_file d = (Inr n, d2)" "retried_call d2 = (answer, d1)" "\<not> created"
    using assms
    by (auto simp: open_registry_def Let_def and_then_Inr split: if_splits prod.splits sum.splits option.splits)
  obtain os where "d2 = d\<lparr>d_outcomes := os\<rparr>"
    using inspect_file_laws(2) [OF steps(1)] by blast
  moreover obtain os' where "d1 = d2\<lparr>d_outcomes := os'\<rparr>"
    using steps(2) by (auto simp: retried_call_def split: prod.splits)
  ultimately show "\<exists>os. d1 = d\<lparr>d_outcomes := os\<rparr>" by auto
  show "\<not> created" "owner_only_file (d_euid d) (d_meta d)"
    using steps inspect_file_laws(1) by blast+
qed

lemma open_registry_calm:
  assumes "reopenable path s loc d" and "loc_entry loc = Entry d"
  shows "open_registry path loc = Inr (d, False)"
  using assms
  by (auto simp: reopenable_def open_registry_def inspect_file_def single_call_def retried_call_def)

lemma reopened_recover:
  assumes "loc_entry loc = Entry d" and "reopened jc path s loc = Inr s'"
  shows "\<exists>os. owner_only_file (d_euid d) (d_meta d) \<and>
    recover jc (fresh_registry (d\<lparr>d_outcomes := os\<rparr>) (reg_validator s) (reg_library_bundles s)
      (reg_max_bytes s) (reg_channels s)) = Inr s'"
proof -
  obtain d1 created where opened: "open_registry path loc = Inr (d1, created)"
    and run: "\<not> created \<longrightarrow> recover jc (fresh_registry d1 (reg_validator s) (reg_library_bundles s)
      (reg_max_bytes s) (reg_channels s)) = Inr s'"
    using assms(2)
    by (auto simp: reopened_def open_or_create_def split: if_splits sum.splits prod.splits)
  then show ?thesis
    using open_registry_entry [OF opened assms(1)] by auto
qed

text \<open>
  C2. Restart refines to the identity on the index.  When the file of a usable registry, reached by
  operations under the four conditions of \<open>operates\<close> (no start before its authorization,
  \<open>mark_failed\<close> for directly executed sessions only, no client key equal to one derived for an
  intent or a disposition), is opened again with the same configuration, the call either fails or returns a registry with the same
  records, sessions, requests, pending and decided intents and quarantine, over the same bytes, and
  not poisoned; and when the kernel interposes no fault it does return one.
\<close>

theorem restart_reproduces:
  assumes "codec_faithful jc" and "reachable jc s" and "\<not> reg_poisoned s"
    and "loc_entry loc = Entry d" and "d_bytes d = file_bytes s"
  shows "(\<forall>s'. reopened jc path s loc = Inr s' \<longrightarrow>
       reg_records s' = reg_records s \<and> reg_sessions s' = reg_sessions s \<and> reg_requests s' = reg_requests s \<and>
       reg_observation_intents s' = reg_observation_intents s \<and>
       reg_observation_dispositions s' = reg_observation_dispositions s \<and>
       reg_quarantined s' = reg_quarantined s \<and> file_bytes s' = file_bytes s \<and> \<not> reg_poisoned s') \<and>
    (reopenable path s loc d \<longrightarrow> (\<exists>s'. reopened jc path s loc = Inr s'))"
proof -
  note wf = reachable_well_formed [OF assms(2,1)]
  have agrees: "same_index s s' \<and> file_bytes s' = file_bytes s \<and> \<not> reg_poisoned s'"
    if opened: "reopened jc path s loc = Inr s'" for s'
  proof -
    obtain os where owner: "owner_only_file (d_euid d) (d_meta d)"
      and run: "recover jc (fresh_registry (d\<lparr>d_outcomes := os\<rparr>) (reg_validator s) (reg_library_bundles s)
        (reg_max_bytes s) (reg_channels s)) = Inr s'"
      using reopened_recover [OF assms(4) opened] by blast
    then show ?thesis
      using recover_reproduces [OF wf assms(3), of "d\<lparr>d_outcomes := os\<rparr>", OF _ _ refl] assms(5) by simp
  qed
  have "\<exists>s'. reopened jc path s loc = Inr s'" if calm: "reopenable path s loc d"
  proof -
    have "owner_only_file (d_euid d) (d_meta d)" "d_outcomes d = []"
      using calm by (simp_all add: reopenable_def)
    then obtain s' where "recover jc (fresh_registry d (reg_validator s) (reg_library_bundles s)
        (reg_max_bytes s) (reg_channels s)) = Inr s'"
      using recover_reproduces [OF wf assms(3,5) _ refl] by (auto split: sum.splits)
    moreover have "unat (reg_max_bytes s) \<le> off_t_max"
      using wf by (simp add: well_formed_def)
    ultimately show ?thesis
      using calm open_registry_calm [OF calm assms(4)]
      by (auto simp: reopened_def open_or_create_def reopenable_def not_less split: option.splits)
  qed
  with agrees show ?thesis
    by (auto simp: same_index_iff)
qed

theorem restart_reproduces_witness:
  "\<exists>s'. reopened sample_codec ''/run/glove/sessions'' sample_session
     (sample_location (Entry (reg_disk sample_session))) = Inr s' \<and> reg_records s' = [sample_record]"
proof -
  have "reopenable ''/run/glove/sessions'' sample_session
      (sample_location (Entry (reg_disk sample_session))) (reg_disk sample_session)"
    by (simp add: reopenable_def filename_def name_elements_def split_on.simps sample_created(4-6)
        sample_location_def sample_disk_def sample_meta_def owner_only_file_def min_registry_bytes_def)
  then show ?thesis
    using restart_reproduces [OF sample_codec_faithful sample_session_reachable sample_created(3),
        of "sample_location (Entry (reg_disk sample_session))" "reg_disk sample_session" "''/run/glove/sessions''"]
    by (auto simp: sample_location_def file_bytes_def sample_created(2))
qed

subsection \<open>Appending a record\<close>

text \<open>
  C3. An append is atomic under every pattern of interrupted, short and failed system calls.  Either
  it reports an error, no index changes, and the file has its old bytes or the registry is
  poisoned; or it reports the new record, and both the records and the file grew by exactly that
  record, stamped with its hash, and its frame, within the byte limit.
\<close>

theorem append_atomic:
  assumes "append_record_locked jc s r0 = (result, s')" and "length (file_bytes s) < 2 ^ 63"
  shows "(\<exists>e. result = Inl e) \<and> same_index s s' \<and> (reg_poisoned s' \<or> file_bytes s' = file_bytes s) \<or>
    (\<exists>h frame. hash_record r0 = Inr h \<and> encode_record jc (r0\<lparr>p_this_hash := h\<rparr>) = Inr frame \<and>
       result = Inr (public_record (r0\<lparr>p_this_hash := h\<rparr>)) \<and>
       reg_records s' = reg_records s @ [r0\<lparr>p_this_hash := h\<rparr>] \<and> file_bytes s' = file_bytes s @ frame \<and>
       length frame \<le> unat (reg_max_bytes s - reg_durable_bytes s) \<and> recorded s' \<and> \<not> reg_poisoned s')"
  using append_record_locked_laws [OF assms]
proof (elim disjE conjE)
  assume "\<exists>e. result = Inl e" and "rolled_back s s'"
  then show ?thesis by (auto simp: rolled_back_def)
next
  assume answer: "result = Inr (public_record (last (reg_records s')))" and committed: "committed jc s r0 s'"
  then obtain h frame where "hash_record r0 = Inr h" "encode_record jc (r0\<lparr>p_this_hash := h\<rparr>) = Inr frame"
      "same_index (index_appended s (r0\<lparr>p_this_hash := h\<rparr>)) s'" "file_bytes s' = file_bytes s @ frame"
      "length frame \<le> unat (reg_max_bytes s - reg_durable_bytes s)" "recorded s'" "\<not> reg_poisoned s'"
    by (auto simp: committed_def split: sum.splits)
  with answer show ?thesis
    by (auto simp: same_index_iff index_appended_laws)
qed

theorem append_atomic_witness:
  "\<exists>s'. append_record_locked sample_codec sample_registry sample_record0 = (Inr (public_record sample_record), s') \<and>
     file_bytes s' = registry_magic @ frame_of ''r''"
proof -
  have "length (file_bytes sample_registry) < 2 ^ 63"
    by (simp add: file_bytes_def sample_defs registry_magic_def bytes_of_string_def)
  moreover have "encode_record sample_codec sample_record = Inr (frame_of ''r'')"
    by (simp add: encode_record_def sample_codec_def max_record_payload_bytes_def append_u32_enc frame_of_def)
  ultimately show ?thesis
    using append_atomic [OF sample_appended] sample_appended
    by (auto simp: sample_hash file_bytes_def sample_defs simp flip: sample_record_def)
qed

text \<open>
  C7. A poisoned registry stays as it is: each of the sixteen operations reports an error and
  returns the registry unchanged, so that nothing is written after an unresolved storage fault.
\<close>

theorem poisoned_registry_refuses:
  assumes "reg_poisoned s"
  shows "(\<exists>e. create jc session_id cpd plan_json key now_ms s = (Inl e, s)) \<and>
    (\<exists>e. reserve_start jc a key now_ms s = (Inl e, s)) \<and>
    (\<exists>e. resolve_start_inputs session_id authorization_id now_ms s = (Inl e, s)) \<and>
    (\<exists>e. mark_starting jc b reservation key now_ms s = (Inl e, s)) \<and>
    (\<exists>e. mark_running jc c reservation key now_ms s = (Inl e, s)) \<and>
    (\<exists>e. mark_stopping jc c key now_ms s = (Inl e, s)) \<and>
    (\<exists>e. mark_exited jc producer t key s = (Inl e, s)) \<and>
    (\<exists>e. mark_refinement_exited jc producer rt key s = (Inl e, s)) \<and>
    (\<exists>e. mark_failed jc f key now_ms s = (Inl e, s)) \<and>
    (\<exists>e. mark_managed_starting jc mb reservation key now_ms s = (Inl e, s)) \<and>
    (\<exists>e. mark_managed_running jc mc reservation key now_ms s = (Inl e, s)) \<and>
    (\<exists>e. mark_managed_stopping jc mc key now_ms s = (Inl e, s)) \<and>
    (\<exists>e. mark_managed_exited jc producer t key s = (Inl e, s)) \<and>
    (\<exists>e. mark_managed_failed jc f key now_ms s = (Inl e, s)) \<and>
    (\<exists>e. enqueue_observation_intent jc body x now_ms s = (Inl e, s)) \<and>
    (\<exists>e. set_observation_intent_disposition jc od s = (Inl e, s))"
  using assms
  by (intro conjI create.refuses reserve.refuses inputs.refuses starting.refuses running.refuses
      stopping.refuses exited.refuses refinement_exited.refuses failed.refuses managed_starting.refuses
      managed_running.refuses managed_stopping.refuses managed_exited.refuses managed_failed.refuses
      enqueue.refuses disposition.refuses)

theorem poisoned_registry_refuses_witness:
  "\<exists>e. create sample_codec ''s2'' sample_digest ''{}'' ''k2'' 5 (sample_session\<lparr>reg_poisoned := True\<rparr>) =
     (Inl e, sample_session\<lparr>reg_poisoned := True\<rparr>)"
  using poisoned_registry_refuses [of "sample_session\<lparr>reg_poisoned := True\<rparr>" sample_codec "''s2''" sample_digest
      "''{}''" "''k2''" 5] by simp

subsection \<open>The lifecycle of a session\<close>

text \<open>
  C4. The records of a session trace a path of the lifecycle graph: created, preparing, starting,
  running, optionally stopping, then exited or failed (a launch may fail while starting).  Its
  current record is the last of them.  Whatever happens later, no record is changed or removed, and
  a session that exited or failed keeps its terminal record for good.  All steps are those of
  \<open>operates\<close>, with its conditions.
\<close>

theorem session_lifecycle:
  assumes "codec_faithful jc" and "reachable jc s" and "(operates jc)\<^sup>*\<^sup>* s s'"
  shows "lifecycle_path (history s session_id) \<and>
    current_session s session_id =
      (if history s session_id = [] then None else Some (last (lifecycle_records (reg_records s) session_id))) \<and>
    prefix (reg_records s) (reg_records s') \<and>
    (\<forall>r. current_session s session_id = Some r \<and> p_state r \<in> {''exited'', ''failed''} \<longrightarrow>
       current_session s' session_id = Some r)"
proof -
  have historic: "historic t" if "reachable jc t" for t
    using reachable_well_formed [OF that assms(1)] by (auto simp: well_formed_def intro: replayable_historic)
  note grown = reachable_prefix [OF assms(3,2,1)]
  show ?thesis
    using historic [OF assms(2)] grown
      terminal_session [OF historic [OF assms(2)] historic [OF reachable_star [OF assms(3,2)]] grown]
    by (auto simp: historic_def)
qed

subsection \<open>Idempotent requests\<close>

text \<open>The record that answers a creation request, at a position of the registry.\<close>

definition answers_create ::
    "registry \<Rightarrow> string \<Rightarrow> string \<Rightarrow> string \<Rightarrow> string \<Rightarrow> session_record \<Rightarrow> nat \<Rightarrow> bool" where
  "answers_create s session_id cpd digest key x i =
     (i < length (reg_records s) \<and> p_idempotency_key (reg_records s ! i) = key \<and>
      p_operation (reg_records s ! i) = ''create'' \<and> p_session_id (reg_records s ! i) = session_id \<and>
      p_controller_plan_digest (reg_records s ! i) = cpd \<and> p_request_digest (reg_records s ! i) = digest \<and>
      x = public_record (reg_records s ! i))"

lemma create_replay_answers:
  assumes "find_create_replay_locked session_id cpd digest key s = (Inr (Some x), s1)" and "index_ok s"
  shows "\<exists>i. answers_create s1 session_id cpd digest key x i"
proof -
  note critical = locked_pure [OF assms(1) [unfolded find_create_replay_locked_def]]
  have ok: "index_ok s1"
    using index_ok_cong [OF rolled_back_index [OF critical(1)] assms(2)] .
  have "find_create_replay session_id cpd digest key s1 = Inr (Some x)"
    using critical(2) by blast
  then obtain i where "reg_requests s1 key = Some i" "p_operation (reg_records s1 ! i) = ''create''"
      "p_session_id (reg_records s1 ! i) = session_id" "p_controller_plan_digest (reg_records s1 ! i) = cpd"
      "p_request_digest (reg_records s1 ! i) = digest" "x = public_record (reg_records s1 ! i)"
    by (auto simp: find_create_replay_def find_replay_def Let_def and_then_Inr split: option.splits if_splits)
  then have "answers_create s1 session_id cpd digest key x i"
    using index_okD(3,4) [OF ok] by (simp add: answers_create_def)
  then show ?thesis ..
qed

lemma create_commit_answers:
  assumes "create_commit jc session_id cpd digest key canonical content now_ms s = (Inr x, s')"
    and "well_formed jc s"
  shows "\<exists>i. answers_create s' session_id cpd digest key x i"
proof -
  obtain found s1 where l: "find_create_replay_locked session_id cpd digest key s = (found, s1)"
    by fastforce
  note critical = locked_pure [OF l [unfolded find_create_replay_locked_def]]
  consider (replayed) y where "found = Inr (Some y)" "s' = s1" "x = y"
    | (planned) r where "found = Inr None" "append_record_locked jc s1 r = (Inr x, s')"
        "create_plan session_id cpd digest key canonical content now_ms s1 = Inr r"
    using assms(1)
    by (auto simp: create_commit_def transition_def l pure_plan_def split: sum.splits option.splits prod.splits)
  then show ?thesis
  proof cases
    case replayed
    then show ?thesis using create_replay_answers l well_formedD(1) [OF assms(2)] by blast
  next
    case planned
    have "well_formed jc s1" "\<not> reg_poisoned s1"
      using critical(1) critical(2) [OF planned(1)] assms(2) well_formed_rolled_back by blast+
    then have "committed jc s1 r s'" "x = public_record (last (reg_records s'))"
      using append_record_locked_laws [OF planned(2)] well_formedD(5) by auto
    with planned(3) show ?thesis
      using committed_records
      by (fastforce simp: answers_create_def create_plan_def split: if_splits)
  qed
qed

lemma create_answers:
  assumes "create jc session_id cpd plan_json key now_ms s = (Inr x, s')" and "well_formed jc s"
  shows "\<exists>digest i. valid_identifier session_id \<and> valid_digest cpd \<and> valid_identifier key \<and>
    hash_plan plan_json = Inr digest \<and> answers_create s' session_id cpd digest key x i"
proof -
  obtain digest where ok: "valid_identifier session_id" "valid_digest cpd" "valid_identifier key"
      "now_ms \<noteq> 0" "hash_plan plan_json = Inr digest"
    using assms(1) by (auto simp: create_def split: if_splits sum.splits)
  obtain found s1 where l: "find_create_replay_locked session_id cpd digest key s = (found, s1)"
    by fastforce
  note critical = locked_pure [OF l [unfolded find_create_replay_locked_def]]
  consider (replayed) "found = Inr (Some x)" "s' = s1"
    | (planned) canonical content where "found = Inr None"
        "create_commit jc session_id cpd digest key canonical content now_ms s1 = (Inr x, s')"
    using assms(1) ok l by (auto simp: create_def split: sum.splits option.splits)
  then have "\<exists>i. answers_create s' session_id cpd digest key x i"
  proof cases
    case replayed
    then show ?thesis using create_replay_answers l well_formedD(1) [OF assms(2)] by blast
  next
    case planned
    have "well_formed jc s1"
      using critical(1) critical(2) [OF planned(1)] assms(2) well_formed_rolled_back by blast
    then show ?thesis using create_commit_answers planned(2) by blast
  qed
  with ok show ?thesis by blast
qed

text \<open>
  C5. Creation is idempotent for good.  Once a creation request was answered, any later registry that
  is still usable answers the same request with the same record and writes nothing, at whatever
  time it is repeated; the same key with another session, another controller plan digest or a plan
  text of another digest is refused as an idempotency conflict, and nothing is written either.
  The operations in between meet the conditions of \<open>operates\<close>, as in C1.
\<close>

theorem create_idempotent:
  assumes "codec_faithful jc" and "reachable jc s"
    and "create jc session_id cpd plan_json key now_ms s = (Inr x, s1)"
    and "(operates jc)\<^sup>*\<^sup>* s1 s2" and "unusable s2 = (False, s3)"
    and "later_ms \<noteq> 0" and "valid_identifier other" and "valid_digest other_cpd"
    and "hash_plan other_json = Inr other_digest"
    and "other \<noteq> session_id \<or> other_cpd \<noteq> cpd \<or> hash_plan other_json \<noteq> hash_plan plan_json"
  shows "create jc session_id cpd plan_json key later_ms s2 = (Inr x, s3) \<and>
    create jc other other_cpd other_json key later_ms s2 =
      (Inl (failure Idempotency_conflict ''session create idempotency payload changed''), s3)"
proof -
  have reach1: "reachable jc s1"
    using reachable.operated [OF assms(2) operates.create] assms(3) by (metis snd_conv)
  obtain digest i where ok: "valid_identifier session_id" "valid_digest cpd" "valid_identifier key"
      "hash_plan plan_json = Inr digest" and answer: "answers_create s1 session_id cpd digest key x i"
    using create_answers [OF assms(3) reachable_well_formed [OF assms(2,1)]] by blast
  have "prefix (reg_records s1) (reg_records s3)"
    using reachable_prefix [OF assms(4) reach1 assms(1)] unusable_laws(1) [OF assms(5)]
    by (simp add: same_index_iff)
  then have kept: "answers_create s3 session_id cpd digest key x i"
    using answer by (auto simp: answers_create_def prefix_def nth_append)
  have "index_ok s2"
    using reachable_well_formed [OF reachable_star [OF assms(4) reach1] assms(1)] by (rule well_formedD(1))
  then have "index_ok s3"
    using unusable_laws(1) [OF assms(5)] index_ok_cong by blast
  then have "reg_requests s3 key = Some i"
    using index_okD(2) kept by (fastforce simp: answers_create_def)
  then show ?thesis
    using kept ok assms(5-10)
    by (auto simp: create_def find_create_replay_locked_def locked_def find_create_replay_def find_replay_def
        answers_create_def Let_def)
qed

theorem create_idempotent_witness:
  "create sample_codec ''s1'' sample_digest ''{}'' ''k1'' 9 sample_session =
     (Inr (public_record sample_record), sample_session) \<and>
   create sample_codec ''k1'' sample_digest ''{}'' ''k1'' 9 sample_session =
     (Inl (failure Idempotency_conflict ''session create idempotency payload changed''), sample_session)"
  using create_idempotent [OF sample_codec_faithful sample_opened_reachable sample_created(1)
    rtranclp.rtrancl_refl sample_session_usable, of 9 "''k1''" sample_digest "''{}''" sample_plan_digest]
    sample_request sample_hash_plan by simp

subsection \<open>Progress\<close>

text \<open>A file whose identity is the recorded one, and a kernel that interposes no fault.\<close>

definition calm :: "registry \<Rightarrow> bool" where
  "calm s =
     (\<not> reg_poisoned s \<and> recorded s \<and> d_outcomes (reg_disk s) = [] \<and>
      (\<exists>m. d_path (reg_disk s) = Some m \<and> owner_only_file (d_euid (reg_disk s)) m \<and>
         fm_device m = fm_device (d_meta (reg_disk s)) \<and> fm_inode m = fm_inode (d_meta (reg_disk s))))"

lemma calm_usable: "calm s \<Longrightarrow> unusable s = (False, s)"
  by (auto simp: calm_def unusable_def verify_identity_def capture_identity_def single_call_def recorded_def
      identity_of_def)

lemma write_at_calm:
  assumes "d_outcomes d = []" and "length (d_bytes d) \<le> off_t_max" and "unat offset = length (d_bytes d)"
  shows "write_at d bs offset = (Inr (), if bs = [] then d else pwrite d bs (length (d_bytes d)))"
  using assms by (auto simp: write_at_def write_bytes_def in_range_def write_loop.simps pwrite_def)

lemma append_calm:
  assumes "calm s" and "length (file_bytes s) < 2 ^ 63" and "hash_record r0 = Inr h"
    and "encode_record jc (r0\<lparr>p_this_hash := h\<rparr>) = Inr frame"
    and "length frame \<le> unat (reg_max_bytes s - reg_durable_bytes s)"
  shows "\<exists>s'. append_record_locked jc s r0 = (Inr (public_record (r0\<lparr>p_this_hash := h\<rparr>)), s')"
proof -
  have calm: "d_outcomes (reg_disk s) = []" "recorded s"
    using assms(1) by (simp_all add: calm_def)
  have len: "unat (reg_durable_bytes s) = length (file_bytes s)"
    using durable_length [OF calm(2)] assms(2) by simp
  have room: "length (file_bytes s) \<le> off_t_max"
    using assms(2) by (simp add: off_t_max_def)
  have "frame \<noteq> []"
    using assms(4) by (auto simp: encode_record_def append_u32_def split: option.splits if_splits)
  have written: "write_at (reg_disk s) frame (reg_durable_bytes s) = (Inr (), pwrite (reg_disk s) frame (length (file_bytes s)))"
    using write_at_calm [OF calm(1), of "reg_durable_bytes s" frame] len room \<open>frame \<noteq> []\<close> by (simp add: file_bytes_def)
  have size: "(of_nat (length (d_bytes (reg_disk s))) :: u64) = reg_durable_bytes s"
    using len by (metis file_bytes_def of_nat_unat ucast_id)
  show ?thesis
    using calm(1) assms(3-5) calm_usable [OF assms(1)]
    by (simp add: append_record_locked_def store_frame_def written sync_descriptor_def retried_call_def pwrite_def
        capture_identity_def single_call_def identity_of_def Let_def file_bytes_def size)
qed

text \<open>
  C6. Creation makes progress.  When the kernel interposes no fault, a valid request for a new
  session under a new key, with a plan the validator accepts, is created if the registry has fewer
  than 10,000 records, the JSON library can write the record and its frame fits the byte limit:
  the call answers and the session is afterwards current in state created.
\<close>

theorem create_succeeds:
  assumes "codec_faithful jc" and "reachable jc s" and "calm s"
    and "valid_identifier session_id" and "valid_digest cpd" and "valid_identifier key" and "now_ms \<noteq> 0"
    and "hash_plan plan_json = Inr digest" and "reg_requests s key = None"
    and "canonicalize_json (reg_validator s) plan_json now_ms = Inr canonical"
    and "hash_plan (vd_canonical_json canonical) = Inr content"
    and "create_plan session_id cpd digest key canonical content now_ms s = Inr r"
    and "hash_record r = Inr h" and "encode_record jc (r\<lparr>p_this_hash := h\<rparr>) = Inr frame"
    and "length frame \<le> unat (reg_max_bytes s - reg_durable_bytes s)"
  shows "\<exists>s'. create jc session_id cpd plan_json key now_ms s = (Inr (public_record (r\<lparr>p_this_hash := h\<rparr>)), s') \<and>
    current_session s' session_id = Some (r\<lparr>p_this_hash := h\<rparr>) \<and> s_state (public_record (r\<lparr>p_this_hash := h\<rparr>)) = St_created"
proof -
  note wf = reachable_well_formed [OF assms(2,1)] and usable = calm_usable [OF assms(3)]
  have bytes: "length (file_bytes s) < 2 ^ 63"
    using well_formedD(5) [OF wf] assms(3) by (simp add: calm_def)
  obtain s' where appended: "append_record_locked jc s r = (Inr (public_record (r\<lparr>p_this_hash := h\<rparr>)), s')"
    using append_calm [OF assms(3) bytes assms(13-15)] by blast
  have "create jc session_id cpd plan_json key now_ms s = append_record_locked jc s r"
    using assms(4-12) usable appended
    by (simp add: create_def find_create_replay_locked_def locked_def find_create_replay_def find_replay_def
        create_commit_def transition_def pure_plan_def)
  moreover have "committed jc s r s'"
    using append_record_locked_laws [OF appended bytes] by auto
  then have "same_index (index_appended s (r\<lparr>p_this_hash := h\<rparr>)) s'"
    using assms(13) by (auto simp: committed_def split: sum.splits)
  moreover have "p_session_id r = session_id" "p_observation_intent r = None" "p_state r = ''created''"
    using assms(12) by (auto simp: create_plan_def blank_session_def split: if_splits)
  ultimately show ?thesis
    using appended
    by (auto simp: current_session_def same_index_iff index_appended_def update_conv' public_record_def
        state_from_wire_def Let_def)
qed

theorem create_succeeds_witness:
  "\<exists>s'. create sample_codec ''s1'' sample_digest ''{}'' ''k1'' 5 sample_registry = (Inr (public_record sample_record), s') \<and>
     current_session s' ''s1'' = Some sample_record"
proof -
  have calm: "calm sample_registry"
    by (simp add: calm_def recorded_def identity_of_def owner_only_file_def registry_magic_def bytes_of_string_def sample_defs)
  have valid: "canonicalize_json (reg_validator sample_registry) ''{}'' 5 = Inr sample_document"
    "hash_plan (vd_canonical_json sample_document) = Inr sample_plan_digest" "reg_requests sample_registry ''k1'' = None"
    by (simp_all add: sample_defs sample_validator_def sample_document_def sample_hash_plan)
  have frame: "encode_record sample_codec (sample_record0\<lparr>p_this_hash := sample_hash\<rparr>) = Inr (frame_of ''r'')"
    by (simp add: encode_record_def sample_codec_def max_record_payload_bytes_def append_u32_enc frame_of_def
        flip: sample_record_def)
  have "length (frame_of ''r'') \<le> unat (reg_max_bytes sample_registry - reg_durable_bytes sample_registry)"
    by (simp add: sample_defs registry_magic_def bytes_of_string_def)
  then show ?thesis
    using create_succeeds [OF sample_codec_faithful sample_opened_reachable calm sample_request(1,3,2) _ sample_hash_plan
        valid(3,1,2) sample_planned sample_hash frame] by (auto simp flip: sample_record_def)
qed

end
