(* ===== verification/Registry_Views.thy ===== *)
theory Registry_Views
  imports Registry_Theorems
begin

text \<open>
  What a client reads from a registry: the projections of a current record, the recovery lists of a
  restarted supervisor, the quota check of a file-system identity and the pages of pending intents.
\<close>

subsection \<open>Totality of the projections\<close>

lemma shape_exited:
  assumes "valid_record_shape r n" and "\<not> is_observation r" and "p_state r = ''exited''"
  shows "started_shape r" "terminal_shape r" "running_shape r \<or> managed_running_shape r"
  using assms
  by (auto simp: valid_record_shape_def Let_def is_observation_def split: if_splits)

lemma running_shape_launched: "started_shape r \<Longrightarrow> running_shape r \<Longrightarrow> p_running_at_ms r \<noteq> 0"
  by (auto simp: started_shape_def authorization_shape_def running_shape_def)

lemma shape_failed:
  assumes "valid_record_shape r n" and "\<not> is_observation r" and "p_state r = ''failed''"
    and "p_managed_runtime_identity r = None"
  shows "started_shape r" "failure_code_from_wire (p_failure_code r) \<noteq> None"
    "p_running_at_ms r = 0 \<and> no_process_identity r \<and> prepared_resources r \<and> p_stopping_at_ms r = 0 \<and>
       p_finished_at_ms r \<ge> p_starting_at_ms r \<or>
     running_shape r \<and> (p_stopping_at_ms r = 0 \<or> p_stopping_at_ms r \<ge> p_running_at_ms r) \<and>
       p_finished_at_ms r \<ge> (if p_stopping_at_ms r = 0 then p_running_at_ms r else p_stopping_at_ms r)"
proof -
  define stopping where "stopping = (running_shape r \<and> p_stopping_at_ms r \<ge> p_running_at_ms r)"
  have raw: "started_shape r \<and> failure_code_from_wire (p_failure_code r) \<noteq> None \<and>
      (p_running_at_ms r = 0 \<and> no_process_identity r \<and> prepared_resources r \<and> p_stopping_at_ms r = 0 \<or>
       running_shape r \<and> (p_stopping_at_ms r = 0 \<or> stopping)) \<and>
      p_finished_at_ms r \<ge> (if stopping then p_stopping_at_ms r
        else if running_shape r then p_running_at_ms r else p_starting_at_ms r)"
    using assms
    by (auto simp: valid_record_shape_def Let_def is_observation_def managed_resources_def stopping_def
        split: if_splits)
  then show "started_shape r" "failure_code_from_wire (p_failure_code r) \<noteq> None" by blast+
  then show "p_running_at_ms r = 0 \<and> no_process_identity r \<and> prepared_resources r \<and> p_stopping_at_ms r = 0 \<and>
       p_finished_at_ms r \<ge> p_starting_at_ms r \<or>
     running_shape r \<and> (p_stopping_at_ms r = 0 \<or> p_stopping_at_ms r \<ge> p_running_at_ms r) \<and>
       p_finished_at_ms r \<ge> (if p_stopping_at_ms r = 0 then p_running_at_ms r else p_stopping_at_ms r)"
    using raw running_shape_launched by (auto simp: stopping_def split: if_splits)
qed

lemma prepared_present:
  "prepared_resources r \<Longrightarrow> \<not> lacks_cgroup r \<and> \<not> lacks_filesystem r"
  by (auto simp: prepared_resources_def lacks_cgroup_def lacks_filesystem_def split: option.splits)

lemma running_present:
  "running_shape r \<Longrightarrow> \<not> lacks_cgroup r \<and> \<not> lacks_filesystem r \<and> process_in_cgroup r \<and>
     process_identity_from_wire r \<noteq> None \<and> p_starting_at_ms r \<le> p_running_at_ms r"
  by (auto simp: running_shape_def dest: prepared_present)

lemma started_present:
  "started_shape r \<Longrightarrow> valid_digest (p_launch_profile_digest r) \<and> p_starting_at_ms r \<noteq> 0"
  by (auto simp: started_shape_def authorization_shape_def)

lemma terminal_cause: "terminal_shape r \<Longrightarrow> termination_cause_from_wire (p_termination_cause r) \<noteq> None"
  by (auto simp: terminal_shape_def valid_exit_code_def split: option.splits)

definition projected :: "persisted_session \<Rightarrow> bool" where
  "projected r =
     ((p_state r = ''starting'' \<longrightarrow> (\<exists>x. starting_record_from_wire r = Inr x)) \<and>
      (p_state r = ''running'' \<longrightarrow> (\<exists>x. running_record_from_wire r = Inr x)) \<and>
      (p_state r = ''stopping'' \<longrightarrow> (\<exists>x. stopping_record_from_wire r = Inr x)) \<and>
      (p_state r = ''exited'' \<longrightarrow> (\<exists>x. exited_record_from_wire r = Inr x)) \<and>
      (p_state r = ''failed'' \<longrightarrow> (\<exists>x. failed_record_from_wire r = Inr x)))"

definition managed_projected :: "persisted_session \<Rightarrow> bool" where
  "managed_projected r =
     ((may_hold_process r \<longrightarrow> (\<exists>x. managed_lifecycle_from_wire r = Inr x)) \<and>
      (p_state r = ''exited'' \<longrightarrow> (\<exists>x. managed_exited_from_wire r = Inr x)) \<and>
      (p_state r = ''failed'' \<longrightarrow> (\<exists>x. managed_failed_from_wire r = Inr x)))"

lemma direct_projected:
  assumes shape: "valid_record_shape r n" and "\<not> is_observation r" and "p_managed_runtime_identity r = None"
  shows "projected r"
proof -
  have unmanaged: "\<not> managed_resources r" "\<not> managed_running_shape r"
    using assms(3) by (auto simp: managed_resources_def managed_running_shape_def)
  have "\<exists>x. starting_record_from_wire r = Inr x" if "p_state r = ''starting''"
    using shape_starting [OF assms(1,2) that] unmanaged that started_present prepared_present
    by (auto simp: starting_record_from_wire_def)
  moreover have "\<exists>x. running_record_from_wire r = Inr x" if "p_state r = ''running''"
    using shape_running [OF assms(1,2) that] unmanaged that started_present running_present
    by (auto simp: running_record_from_wire_def not_less)
  moreover have "\<exists>x. stopping_record_from_wire r = Inr x" if "p_state r = ''stopping''"
    using shape_stopping [OF assms(1,2) that] unmanaged that started_present running_present
    by (auto simp: stopping_record_from_wire_def not_less)
  moreover have "\<exists>x. exited_record_from_wire r = Inr x" if "p_state r = ''exited''"
  proof -
    note pieces = shape_exited [OF assms(1,2) that]
    have "running_shape r" using pieces(3) unmanaged by blast
    moreover obtain cause where "termination_cause_from_wire (p_termination_cause r) = Some cause"
      using terminal_cause [OF pieces(2)] by blast
    ultimately show ?thesis
      using pieces(2) that started_present [OF pieces(1)] running_present [of r]
      by (auto simp: exited_record_from_wire_def terminal_shape_def not_less)
  qed
  moreover have "\<exists>x. failed_record_from_wire r = Inr x" if "p_state r = ''failed''"
  proof -
    note pieces = shape_failed [OF assms(1,2) that assms(3)]
    obtain code where "failure_code_from_wire (p_failure_code r) = Some code"
      using pieces(2) by blast
    then show ?thesis
      using pieces(3) that started_present [OF pieces(1)] running_present [of r] prepared_present [of r]
        running_shape_launched [OF pieces(1)]
      by (auto simp: failed_record_from_wire_def Let_def not_less)
  qed
  ultimately show ?thesis by (simp add: projected_def)
qed

lemma managed_lifecycle_projected:
  assumes "managed_resources r" and "started_shape r" and "p_state r \<in> {''starting'', ''running'', ''stopping'', ''exited'', ''failed''}"
    and "p_running_at_ms r = 0 \<or> p_running_at_ms r \<ge> p_starting_at_ms r"
    and "p_stopping_at_ms r = 0 \<or> p_stopping_at_ms r \<ge> p_running_at_ms r"
  shows "\<exists>x. managed_lifecycle_from_wire r = Inr x"
proof -
  obtain i where "p_managed_runtime_identity r = Some i" "valid_managed_runtime_identity i"
    using assms(1) by (auto simp: managed_resources_def split: option.splits)
  with assms started_present [OF assms(2)] show ?thesis
    by (auto simp: managed_lifecycle_from_wire_def managed_resources_def not_less)
qed

text \<open>The shape of a managed failure does not order the launch times; they are those of the record it
  follows.\<close>

definition launch_ordered :: "registry \<Rightarrow> bool" where
  "launch_ordered s =
     (\<forall>session_id r. current_session s session_id = Some r \<longrightarrow>
        p_running_at_ms r = 0 \<or> p_starting_at_ms r \<le> p_running_at_ms r)"

lemma shape_launch_ordered:
  assumes "valid_record_shape r n" and "\<not> is_observation r" and "p_state r \<noteq> ''failed''"
  shows "p_running_at_ms r = 0 \<or> p_starting_at_ms r \<le> p_running_at_ms r"
  using assms
  by (auto simp: valid_record_shape_def Let_def is_observation_def running_shape_def managed_running_shape_def
      split: if_splits)

lemma accepted_launch_ordered:
  assumes "launch_ordered s" and "index_ok s" and accept: "accept_recovered_record jc s r previous_hash = Inr s'"
  shows "launch_ordered s'"
proof -
  note facts = accepted_sessions [OF accept assms(2)]
  have "p_running_at_ms r = 0 \<or> p_starting_at_ms r \<le> p_running_at_ms r" if own: "\<not> is_observation r"
  proof (cases "p_state r = ''failed''")
    case True
    then have "accept_failed (current_session s (p_session_id r)) r = Inr ()"
      using facts(2) [OF own] by (simp add: accept_lifecycle_def)
    then obtain prior where "current_session s (p_session_id r) = Some prior"
        "p_starting_at_ms prior = p_starting_at_ms r" "p_running_at_ms prior = p_running_at_ms r"
      by (auto simp: accept_failed_def same_launch_def split: option.splits if_splits)
    then show ?thesis using assms(1) unfolding launch_ordered_def by metis
  next
    case False
    have "valid_record_shape r (of_nat (length (reg_records s)) + 1)"
      using accept by (auto simp: accept_recovered_record_def Let_def and_then_Inr split: if_splits)
    then show ?thesis using shape_launch_ordered own False by blast
  qed
  then show ?thesis
    using assms(1) by (auto simp: launch_ordered_def facts(1) split: if_splits)
qed

lemma accept_all_launch_ordered:
  "launch_ordered s \<Longrightarrow> index_ok s \<Longrightarrow> accept_all jc s (last_hash s) rs = Inr s' \<Longrightarrow> launch_ordered s'"
proof (induction rs arbitrary: s)
  case (Cons r rs)
  then obtain s1 where s1: "accept_recovered_record jc s r (last_hash s) = Inr s1"
      "accept_all jc s1 (p_this_hash r) rs = Inr s'"
    by (auto simp: and_then_Inr)
  have "last_hash s1 = p_this_hash r"
    using accept_recovered_records [OF s1(1)] by (simp add: last_hash_def)
  then show ?case
    using Cons.IH [OF accepted_launch_ordered [OF Cons.prems(1,2) s1(1)] index_ok_accept [OF Cons.prems(2) s1(1)]]
      s1(2) by simp
qed simp

lemma replayable_launch_ordered:
  assumes "replayable jc s"
  shows "launch_ordered s"
proof -
  obtain s0 where s0: "accept_all jc (blank_index s) zero_digest (reg_records s) = Inr s0" "same_index s0 s"
    using assms by (auto simp: replayable_def)
  have "launch_ordered (blank_index s)"
    by (simp add: launch_ordered_def blank_index_def current_session_def)
  then have "launch_ordered s0"
    using accept_all_launch_ordered [OF _ index_ok_blank] s0(1) by (simp add: last_hash_def blank_index_def)
  then show ?thesis
    using current_session_cong [OF s0(2)] by (simp add: launch_ordered_def)
qed

lemma shape_managed_failed:
  assumes "valid_record_shape r n" and "\<not> is_observation r" and "p_state r = ''failed''"
    and "p_managed_runtime_identity r \<noteq> None"
  shows "started_shape r" "managed_resources r" "failure_code_from_wire (p_failure_code r) \<noteq> None"
    "p_stopping_at_ms r = 0 \<or> p_stopping_at_ms r \<ge> p_running_at_ms r"
    "p_finished_at_ms r \<ge>
       (if p_stopping_at_ms r \<noteq> 0 then p_stopping_at_ms r
        else if p_running_at_ms r \<noteq> 0 then p_running_at_ms r else p_starting_at_ms r)"
  using assms
  by (auto simp: valid_record_shape_def Let_def is_observation_def prepared_resources_def running_shape_def
      split: if_splits)

lemma managed_projected:
  assumes shape: "valid_record_shape r n" and "\<not> is_observation r" and "p_managed_runtime_identity r \<noteq> None"
    and ordered: "p_running_at_ms r = 0 \<or> p_starting_at_ms r \<le> p_running_at_ms r"
  shows "managed_projected r"
proof -
  have direct: "\<not> prepared_resources r" "\<not> running_shape r"
    using assms(3) by (auto simp: prepared_resources_def running_shape_def)
  have "\<exists>x. managed_lifecycle_from_wire r = Inr x" if "may_hold_process r"
    using that shape_starting [OF assms(1,2)] shape_running [OF assms(1,2)] shape_stopping [OF assms(1,2)] direct
    by (auto simp: may_hold_process_def managed_running_shape_def intro!: managed_lifecycle_projected)
  moreover have "\<exists>x. managed_exited_from_wire r = Inr x" if exited: "p_state r = ''exited''"
  proof -
    note pieces = shape_exited [OF assms(1,2) exited]
    have managed: "managed_resources r" "p_starting_at_ms r \<le> p_running_at_ms r"
      using pieces(3) direct by (auto simp: managed_running_shape_def)
    moreover have "p_running_at_ms r \<noteq> 0"
      using managed(2) started_present [OF pieces(1)] by auto
    ultimately show ?thesis
      using managed_lifecycle_projected [of r] pieces exited terminal_cause [OF pieces(2)]
      by (auto simp: managed_exited_from_wire_def terminal_shape_def not_less split: option.splits)
  qed
  moreover have "\<exists>x. managed_failed_from_wire r = Inr x" if failed: "p_state r = ''failed''"
  proof -
    note pieces = shape_managed_failed [OF assms(1,2) failed assms(3)]
    obtain lifecycle code where "managed_lifecycle_from_wire r = Inr lifecycle"
        "failure_code_from_wire (p_failure_code r) = Some code"
      using managed_lifecycle_projected [of r] pieces failed ordered by auto
    then show ?thesis
      using pieces(5) failed by (auto simp: managed_failed_from_wire_def not_less)
  qed
  ultimately show ?thesis by (simp add: managed_projected_def)
qed

text \<open>
  C29. Every current record can be read back in full: on every registry reached under the conditions of
  \<open>operates\<close>, the projection for its state never reports a missing or malformed commitment.  A
  directly executed session projects in the states starting, running, stopping, exited and failed, and
  so does a managed one; in particular a managed failure projects, although its shape alone leaves the
  order of its launch times open.
\<close>

theorem projections_total:
  assumes "codec_faithful jc" and "reachable jc s" and "current_session s session_id = Some r"
  shows "if p_managed_runtime_identity r = None then projected r else managed_projected r"
proof -
  note wf = reachable_well_formed [OF assms(2,1)]
  note ok = index_okD [OF well_formedD(1) [OF wf]]
  obtain i where i: "find_session s session_id = Some i" "r = reg_records s ! i"
    using assms(3) by (auto simp: current_session_def)
  have "valid_record_shape r (of_nat i + 1)" "\<not> is_observation r"
    using ok(1) [OF ok(6) [OF i(1)]] ok(7) [OF i(1)] i(2) by (simp_all add: sealed_def)
  moreover have "p_running_at_ms r = 0 \<or> p_starting_at_ms r \<le> p_running_at_ms r"
    using replayable_launch_ordered [of jc s] wf assms(3) by (auto simp: launch_ordered_def well_formed_def)
  ultimately show ?thesis
    using direct_projected managed_projected [of r "of_nat i + 1"] by (cases "p_managed_runtime_identity r") auto
qed

text \<open>The sessions that may hold a process when the supervisor restarts.\<close>

definition in_flight :: "registry \<Rightarrow> string \<Rightarrow> bool" where
  "in_flight s session_id = (\<exists>r. current_session s session_id = Some r \<and> may_hold_process r)"

lemma managed_candidates_map:
  "(\<And>r. r \<in> set rs \<Longrightarrow> may_hold_process r \<Longrightarrow> p_managed_runtime_identity r \<noteq> None \<Longrightarrow>
      \<exists>x. managed_lifecycle_from_wire r = Inr x) \<Longrightarrow>
   \<exists>xs. managed_candidates rs = Inr xs \<and>
     map (\<lambda>x. s_session_id (ml_session x)) xs =
       map p_session_id (filter (\<lambda>r. may_hold_process r \<and> p_managed_runtime_identity r \<noteq> None) rs)"
proof (induction rs)
  case (Cons r rs)
  then obtain xs where xs: "managed_candidates rs = Inr xs"
      "map (\<lambda>x. s_session_id (ml_session x)) xs =
        map p_session_id (filter (\<lambda>r. may_hold_process r \<and> p_managed_runtime_identity r \<noteq> None) rs)"
    by auto
  show ?case
  proof (cases "may_hold_process r \<and> p_managed_runtime_identity r \<noteq> None")
    case True
    then obtain x where "managed_lifecycle_from_wire r = Inr x" using Cons.prems by auto
    moreover from this have "s_session_id (ml_session x) = p_session_id r"
      by (auto simp: managed_lifecycle_from_wire_def public_record_def split: option.splits if_splits)
    ultimately show ?thesis using True xs by simp
  next
    case False
    then show ?thesis using xs by auto
  qed
qed simp

lemma session_records_laws:
  assumes "index_ok s"
  shows "map p_session_id (session_records s) = map fst (reg_sessions s)"
    "set (session_records s) = {r. \<exists>session_id. current_session s session_id = Some r}"
    "\<And>r. r \<in> set (session_records s) \<Longrightarrow> current_session s (p_session_id r) = Some r"
proof -
  note ok = index_okD [OF assms]
  have entry: "p_session_id (reg_records s ! i) = session_id" "current_session s session_id = Some (reg_records s ! i)"
    if "(session_id, i) \<in> set (reg_sessions s)" for session_id i
    using that ok(5,7) by (simp_all add: current_session_def)
  show "map p_session_id (session_records s) = map fst (reg_sessions s)"
    using entry(1) by (auto simp: session_records_def)
  show "\<And>r. r \<in> set (session_records s) \<Longrightarrow> current_session s (p_session_id r) = Some r"
    using entry by (fastforce simp: session_records_def)
  show "set (session_records s) = {r. \<exists>session_id. current_session s session_id = Some r}"
    using entry(2) map_of_SomeD by (fastforce simp: session_records_def current_session_def)
qed

lemma sort_key_image:
  "f ` set (sort_key f xs) = f ` set xs" "distinct (map f (sort_key f xs)) = distinct (map f xs)"
  by (simp_all add: distinct_map)

lemma distinct_split:
  assumes "distinct (map f xs)"
  shows "distinct (map f (filter (\<lambda>x. P x \<and> \<not> Q x) xs) @ map f (filter (\<lambda>x. P x \<and> Q x) xs))"
  using assms by (induction xs) auto

lemma in_flight_records:
  assumes "index_ok s"
  shows "p_session_id ` {r \<in> set (session_records s). may_hold_process r} = {session_id. in_flight s session_id}"
proof (intro equalityI subsetI)
  fix session_id
  assume "session_id \<in> {session_id. in_flight s session_id}"
  then obtain r where r: "current_session s session_id = Some r" "may_hold_process r"
    by (auto simp: in_flight_def)
  moreover have "p_session_id r = session_id"
    using r(1) index_okD(7) [OF assms] by (auto simp: current_session_def)
  ultimately show "session_id \<in> p_session_id ` {r \<in> set (session_records s). may_hold_process r}"
    using session_records_laws(2) [OF assms] by blast
qed (use session_records_laws(3) [OF assms] in \<open>auto simp: in_flight_def\<close>)

text \<open>
  C28. At a restart the two recovery lists split the sessions that may still hold a process: both
  calls succeed, their session ids are sorted, no id occurs twice in or across the lists, and
  together they are exactly the sessions whose current state is starting, running or stopping.
\<close>

theorem recovery_lists_complete:
  assumes "codec_faithful jc" and "reachable jc s" and "unusable s = (False, s1)"
  shows "\<exists>direct managed. recovery_candidates jc s = (Inr direct, s1) \<and>
    managed_recovery_candidates s = (Inr managed, s1) \<and>
    sorted (map (\<lambda>c. s_session_id (rx_session c)) direct) \<and>
    sorted (map (\<lambda>c. s_session_id (ml_session c)) managed) \<and>
    distinct (map (\<lambda>c. s_session_id (rx_session c)) direct @ map (\<lambda>c. s_session_id (ml_session c)) managed) \<and>
    set (map (\<lambda>c. s_session_id (rx_session c)) direct @ map (\<lambda>c. s_session_id (ml_session c)) managed) =
      {session_id. in_flight s session_id}"
proof -
  note same = unusable_laws(1) [OF assms(3)]
  have index: "index_ok s1"
    using well_formedD(1) [OF reachable_well_formed [OF assms(2,1)]] index_ok_cong [OF same] by blast
  note laws = session_records_laws [OF index] and ok = index_okD [OF index]
  have distinct: "distinct (map p_session_id (session_records s1))"
    using ok(5) by (simp add: laws(1))
  have "\<exists>x. managed_lifecycle_from_wire r = Inr x"
    if held: "r \<in> set (session_records s1)" "may_hold_process r" "p_managed_runtime_identity r \<noteq> None" for r
  proof -
    obtain i where "find_session s1 (p_session_id r) = Some i" "r = reg_records s1 ! i"
      using laws(3) [OF held(1)] by (auto simp: current_session_def)
    then have "valid_record_shape r (of_nat i + 1)" "\<not> is_observation r"
      using ok(1,6,7) by (auto simp: sealed_def)
    moreover from this have "p_running_at_ms r = 0 \<or> p_starting_at_ms r \<le> p_running_at_ms r"
      using shape_launch_ordered [of r "of_nat i + 1"] held(2) by (auto simp: may_hold_process_def)
    ultimately show ?thesis
      using managed_projected [of r "of_nat i + 1"] held(2,3) by (auto simp: managed_projected_def)
  qed
  then obtain xs where xs: "managed_candidates (session_records s1) = Inr xs"
      "map (\<lambda>x. s_session_id (ml_session x)) xs =
        map p_session_id (filter (\<lambda>r. may_hold_process r \<and> p_managed_runtime_identity r \<noteq> None) (session_records s1))"
    using managed_candidates_map [of "session_records s1"] by blast
  define direct where "direct = map (recovery_record jc)
    (filter (\<lambda>r. may_hold_process r \<and> p_managed_runtime_identity r = None) (session_records s1))"
  have ids: "map (\<lambda>c. s_session_id (rx_session c)) direct =
      map p_session_id (filter (\<lambda>r. may_hold_process r \<and> p_managed_runtime_identity r = None) (session_records s1))"
    by (simp add: direct_def recovery_record_def public_record_def)
  have "distinct (map (\<lambda>c. s_session_id (rx_session c)) direct @ map (\<lambda>c. s_session_id (ml_session c)) xs)"
    unfolding ids xs(2)
    using distinct_split [OF distinct, of may_hold_process "\<lambda>r. p_managed_runtime_identity r \<noteq> None"] by simp
  moreover have "set (map (\<lambda>c. s_session_id (rx_session c)) direct @ map (\<lambda>c. s_session_id (ml_session c)) xs) =
      p_session_id ` {r \<in> set (session_records s1). may_hold_process r}"
    unfolding set_append ids xs(2) set_map set_filter image_Un [symmetric] by (rule arg_cong) blast
  moreover have "{session_id. in_flight s1 session_id} = {session_id. in_flight s session_id}"
    by (simp add: in_flight_def current_session_cong [OF same])
  ultimately show ?thesis
    using assms(3) xs(1) in_flight_records [OF index]
    by (simp add: recovery_candidates_def managed_recovery_candidates_def locked_def sort_key_image
        flip: direct_def)
qed


subsection \<open>Quotas\<close>

lemma partitions_allocated_iff:
  assumes "allocated \<le> limit"
  shows "partitions_allocated limit allocated previous_alias parts = Some amount \<longleftrightarrow>
    list_all (\<lambda>p. valid_identifier (fp_alias p) \<and> fp_quota_bytes p \<noteq> 0) parts \<and>
    sorted_wrt (<) ((if previous_alias = [] then [] else [previous_alias]) @ map fp_alias parts) \<and>
    unat allocated + (\<Sum>p\<leftarrow>parts. unat (fp_quota_bytes p)) \<le> unat limit \<and>
    unat amount = unat allocated + (\<Sum>p\<leftarrow>parts. unat (fp_quota_bytes p))"
  using assms
proof (induction parts arbitrary: allocated previous_alias)
  case Nil
  then show ?case by (auto simp: word_le_nat_alt word_unat_eq_iff)
next
  case (Cons p parts)
  let ?quota = "fp_quota_bytes p"
  have fits: "\<not> ?quota > limit - allocated \<longleftrightarrow> unat allocated + unat ?quota \<le> unat limit"
    using Cons.prems by (auto simp: not_less word_le_nat_alt unat_sub)
  show ?case
  proof (cases "unat allocated + unat ?quota \<le> unat limit")
    case True
    have wide: "unat (allocated + ?quota) = unat allocated + unat ?quota"
      using True unsigned_less [of limit, where 'a = nat] by (simp add: unat_word_ariths)
    then have "allocated + ?quota \<le> limit"
      using True by (simp add: word_le_nat_alt)
    note IH = Cons.IH [OF this, of "fp_alias p"]
    have named: "valid_identifier (fp_alias p) \<Longrightarrow> fp_alias p \<noteq> []"
      by (simp add: valid_identifier_def)
    show ?thesis
      using True fits IH named wide by (auto simp: not_le intro: less_trans)
  next
    case False
    with fits show ?thesis by auto
  qed
qed

text \<open>
  C31. The quota check is exact and never wraps: a file-system identity is valid if and only if its
  version is 1, it has at most 128 partitions with strictly ascending, hence distinct, valid aliases
  and non-zero quotas, and the sum of the quotas as natural numbers is below the disk limit, so that
  unpartitioned space remains.
\<close>

theorem valid_filesystem_identity_iff:
  "valid_filesystem_identity i \<longleftrightarrow>
     fs_schema_version i = 1 \<and> length (fs_partitions i) \<le> 128 \<and>
     list_all (\<lambda>p. valid_identifier (fp_alias p) \<and> fp_quota_bytes p \<noteq> 0) (fs_partitions i) \<and>
     sorted_wrt (<) (map fp_alias (fs_partitions i)) \<and>
     (\<Sum>p\<leftarrow>fs_partitions i. unat (fp_quota_bytes p)) < unat (fs_disk_limit_bytes i)"
proof -
  define amount where "amount = (\<Sum>p\<leftarrow>fs_partitions i. unat (fp_quota_bytes p))"
  define named where "named =
    (list_all (\<lambda>p. valid_identifier (fp_alias p) \<and> fp_quota_bytes p \<noteq> 0) (fs_partitions i) \<and>
     sorted_wrt (<) (map fp_alias (fs_partitions i)))"
  let ?run = "partitions_allocated (fs_disk_limit_bytes i) 0 [] (fs_partitions i)"
  have run: "?run = Some sum_of \<longleftrightarrow> named \<and> amount \<le> unat (fs_disk_limit_bytes i) \<and> unat sum_of = amount" for sum_of
    using partitions_allocated_iff [of 0 "fs_disk_limit_bytes i" "[]" "fs_partitions i" sum_of]
    by (auto simp: amount_def named_def)
  have small: "unat (of_nat amount :: u64) = amount" if "amount < unat (fs_disk_limit_bytes i)"
    using that unsigned_less [of "fs_disk_limit_bytes i", where 'a = nat]
    by (simp add: unsigned_of_nat take_bit_nat_eq_self)
  have "(case ?run of None \<Rightarrow> False | Some sum_of \<Rightarrow> sum_of < fs_disk_limit_bytes i) \<longleftrightarrow>
      named \<and> amount < unat (fs_disk_limit_bytes i)"
  proof (cases ?run)
    case None
    then show ?thesis using run [of "of_nat amount"] small by auto
  next
    case (Some sum_of)
    then show ?thesis using run [of sum_of] by (simp add: word_less_nat_alt)
  qed
  then show ?thesis
    by (auto simp: valid_filesystem_identity_def amount_def named_def not_less)
qed

subsection \<open>Paging\<close>

fun collect :: "'a registry_result list \<Rightarrow> 'a list registry_result" where
  "collect [] = Inr []"
| "collect (x # xs) = and_then x (\<lambda>y. and_then (collect xs) (\<lambda>ys. Inr (y # ys)))"

lemma page_loop_reference:
  assumes "length items \<le> limit"
  shows "page_loop limit select sequence_of items rs =
    (let wanted = List.map_filter select rs; room = limit - length items in
     and_then (collect (take room wanted)) (\<lambda>xs.
       Inr (items @ xs, if room < length wanted then Some (sequence_of (last (items @ xs))) else None)))"
  using assms
proof (induction rs arbitrary: items)
  case Nil
  then show ?case by (simp add: map_filter_simps)
next
  case (Cons r rs)
  show ?case
  proof (cases "select r")
    case None
    with Cons show ?thesis by (simp add: map_filter_simps)
  next
    case (Some item)
    show ?thesis
    proof (cases "length items = limit")
      case True
      with Some show ?thesis by (simp add: map_filter_simps)
    next
      case False
      then obtain room where room: "limit - length items = Suc room"
        using Cons.prems by (metis Suc_diff_Suc le_neq_implies_less)
      then have "limit - Suc (length items) = room" by simp
      with Some False room Cons.IH [of "items @ [x]" for x] Cons.prems show ?thesis
        by (cases item) (simp_all add: map_filter_simps Let_def and_then_assoc cong: if_cong)
    qed
  qed
qed

lemma sorted_cursor:
  assumes "sorted_wrt (<) (map f ys)" and "n < length ys"
  shows "filter (\<lambda>y. f (ys ! n) < (f y :: 'b :: linorder)) ys = drop (Suc n) ys"
proof -
  have split: "ys = take n ys @ ys ! n # drop (Suc n) ys"
    using assms(2) by (rule id_take_nth_drop)
  have "sorted_wrt (<) (map f (take n ys) @ f (ys ! n) # map f (drop (Suc n) ys))"
    using assms(1) by (subst (asm) split) simp
  then have "\<forall>y \<in> set (take n ys). f y < f (ys ! n)" "\<forall>y \<in> set (drop (Suc n) ys). f (ys ! n) < f y"
    by (auto simp: sorted_wrt_append)
  then have "filter (\<lambda>y. f (ys ! n) < f y) (take n ys) = []"
    "filter (\<lambda>y. f (ys ! n) < f y) (drop (Suc n) ys) = drop (Suc n) ys"
    by (auto simp: filter_empty_conv filter_id_conv)
  then show ?thesis
    by (subst split) (simp del: append_take_drop_id)
qed


definition awaiting :: "registry \<Rightarrow> u64 \<Rightarrow> persisted_session \<Rightarrow> bool" where
  "awaiting s after_sequence r =
     (after_sequence < p_sequence r \<and> p_operation r = ''enqueue_observation_intent_v1'' \<and>
      (\<exists>i. p_observation_intent r = Some i \<and>
         (let key = observation_intent_key (p_session_id r) (oi_channel_generation i) (oi_intent_id i) in
          reg_observation_intents s key \<noteq> None \<and> reg_observation_dispositions s key = None)))"

lemma collect_Inr: "(\<And>x. x \<in> set xs \<Longrightarrow> \<exists>y. f x = Inr y) \<Longrightarrow> \<exists>ys. collect (map f xs) = Inr ys \<and> map Inr ys = map f xs"
  by (induction xs) fastforce+

lemma pending_selection:
  "List.map_filter (\<lambda>r. case listed_intent after_sequence r of
       None \<Rightarrow> None
     | Some (i, key) \<Rightarrow>
         if reg_observation_intents s key = None \<or> reg_observation_dispositions s key \<noteq> None
         then None else Some (observation_item_from_wire r)) rs =
   map observation_item_from_wire (filter (awaiting s after_sequence) rs)"
  (is "List.map_filter ?select rs = _")
proof -
  have "?select r = (if awaiting s after_sequence r then Some (observation_item_from_wire r) else None)" for r
    by (cases "p_observation_intent r") (auto simp: listed_intent_def awaiting_def Let_def)
  then show ?thesis
    by (induction rs) (simp_all add: map_filter_simps)
qed

lemma awaiting_cong: "same_index s t \<Longrightarrow> awaiting t = awaiting s"
  by (simp add: fun_eq_iff awaiting_def same_index_iff)

lemma awaiting_after:
  "after_sequence \<le> cursor \<Longrightarrow>
     filter (awaiting s cursor) rs = filter (\<lambda>r. cursor < p_sequence r) (filter (awaiting s after_sequence) rs)"
  by (auto simp: awaiting_def intro!: filter_cong)

lemma index_ok_sequences:
  assumes "index_ok s" and "length (reg_records s) \<le> max_records"
  shows "sorted_wrt (<) (map p_sequence (reg_records s))"
proof -
  have sequence: "unat (p_sequence (reg_records s ! i)) = Suc i" if "i < length (reg_records s)" for i
  proof -
    have "p_sequence (reg_records s ! i) = of_nat i + 1"
      using index_okD(1) [OF assms(1) that] shape_common(1) by (fastforce simp: sealed_def common_shape_def)
    then have "p_sequence (reg_records s ! i) = of_nat (Suc i)" by simp
    moreover have "Suc i < 2 ^ 64"
      using that assms(2) by (simp add: max_records_def)
    ultimately show ?thesis
      by (simp only: unsigned_of_nat) (simp add: take_bit_nat_eq_self)
  qed
  then show ?thesis
    by (simp add: sorted_wrt_iff_nth_less word_less_nat_alt)
qed

lemma awaiting_projects:
  assumes "index_ok s" and "r \<in> set (reg_records s)" and "awaiting s after_sequence r"
  shows "\<exists>x. observation_item_from_wire r = Inr x \<and> it_sequence x = p_sequence r"
proof -
  obtain i where "i < length (reg_records s)" "r = reg_records s ! i"
    using assms(2) by (auto simp: in_set_conv_nth)
  then have "intent_shape r"
    using index_okD(1) [OF assms(1)] shape_common(3) assms(3)
    by (fastforce simp: sealed_def is_observation_def awaiting_def)
  then show ?thesis
    by (auto simp: intent_shape_def observation_item_from_wire_def split: option.splits)
qed

text \<open>
  C30. Paging through the pending intents is exact.  A page request on a usable registry succeeds and
  returns, in order, the first \<open>limit\<close> intents after the cursor that are queued and undecided; it
  carries a cursor exactly when more remain, and the intents after that cursor are exactly the
  remaining ones, so that following the cursors visits every pending intent once.
\<close>

theorem pending_pages_exact:
  assumes "codec_faithful jc" and "reachable jc s" and "unusable s = (False, s1)"
    and "0 < limit" and "limit \<le> max_pending_intent_page_size" and "now_ms \<noteq> 0"
  shows "let wanted = filter (awaiting s after_sequence) (reg_records s) in
    \<exists>page. pending_observation_intents after_sequence limit now_ms s = (Inr page, s1) \<and>
      map Inr (pp_items page) = map observation_item_from_wire (take limit wanted) \<and>
      (if length wanted \<le> limit then pp_next_after_sequence page = None
       else \<exists>cursor. pp_next_after_sequence page = Some cursor \<and>
         filter (awaiting s cursor) (reg_records s) = drop limit wanted)"
proof -
  note wf = reachable_well_formed [OF assms(2,1)]
  have same: "same_index s s1"
    by (rule unusable_laws(1) [OF assms(3)])
  define wanted where "wanted = filter (awaiting s after_sequence) (reg_records s)"
  have same_wanted: "filter (awaiting s1 after_sequence) (reg_records s1) = wanted"
    using same awaiting_cong [OF same] by (simp add: wanted_def same_index_iff)
  have projects: "\<exists>x. observation_item_from_wire r = Inr x \<and> it_sequence x = p_sequence r" if "r \<in> set wanted" for r
    using that awaiting_projects [OF well_formedD(1) [OF wf]] by (auto simp: wanted_def)
  then obtain items where items: "collect (map observation_item_from_wire (take limit wanted)) = Inr items"
      "map Inr items = map observation_item_from_wire (take limit wanted)"
    using collect_Inr [of "take limit wanted" observation_item_from_wire] by (meson in_set_takeD)
  define cursor where "cursor = it_sequence (last items)"
  have run: "pending_observation_intents after_sequence limit now_ms s =
      (Inr \<lparr>pp_items = items, pp_next_after_sequence = if limit < length wanted then Some cursor else None\<rparr>, s1)"
    using assms(3-6) items(1)
    by (simp add: pending_observation_intents_def locked_def page_loop_reference Let_def pending_selection
        same_wanted take_map cursor_def)
  have "filter (awaiting s cursor) (reg_records s) = drop limit wanted" if more: "limit < length wanted"
  proof -
    have at: "limit - 1 < length wanted" "Suc (limit - 1) = limit"
      using more assms(4) by simp_all
    have len: "length items = limit"
      using arg_cong [OF items(2), of length] more by simp
    have "(Inr (items ! (limit - 1)) :: observation_intent_item registry_result) =
        observation_item_from_wire (wanted ! (limit - 1))"
      using arg_cong [OF items(2), of "\<lambda>xs. xs ! (limit - 1)"] len at by simp
    then have cursor: "cursor = p_sequence (wanted ! (limit - 1))"
      using projects [of "wanted ! (limit - 1)"] at len assms(4)
      by (auto simp: cursor_def last_conv_nth)
    have "wanted ! (limit - 1) \<in> set wanted" using at(1) by (rule nth_mem)
    then have "after_sequence \<le> cursor"
      by (auto simp: cursor wanted_def awaiting_def)
    moreover have "sorted_wrt (<) (map p_sequence wanted)"
      using index_ok_sequences [OF well_formedD(1) [OF wf] well_formedD(3) [OF wf]]
      by (simp add: wanted_def sorted_wrt_map sorted_wrt_filter)
    ultimately show ?thesis
      using sorted_cursor [of p_sequence wanted, OF _ at(1)] at(2)
      by (simp add: awaiting_after cursor flip: wanted_def)
  qed
  with run items(2) show ?thesis
    by (auto simp: Let_def wanted_def)
qed


theorem pending_pages_exact_witness:
  "\<exists>page. pending_observation_intents 0 10 5 sample_session = (Inr page, sample_session) \<and> pp_items page = []"
  using pending_pages_exact [OF sample_codec_faithful sample_session_reachable sample_session_usable, of 10 5 0]
  by (auto simp: Let_def sample_created(2) awaiting_def sample_record_def sample_record0_def
      max_pending_intent_page_size_def)

end
