(* ===== verification/Process_Identity.thy ===== *)
theory Process_Identity
  imports Registry_Shape Storage File_Status
begin

text \<open>
  \<open>src/control/linux_process_identity.cpp\<close>: the identity of a Linux process, read from procfs and
  cgroupfs, and the comparison of a recorded identity with the process that has its number now.

  The kernel is the record \<open>process_host\<close> of what it answers.  A file is the list of answers of
  \<open>read\<close> on its descriptor; the two readings of \<open>stat\<close> and \<open>cgroup\<close> are separate, so the process may
  change between them.
\<close>

subsection \<open>The kernel\<close>

datatype read_answer = Read_bytes string | Read_interrupted | Read_failed string

datatype open_answer = Opened int | No_such_process | Open_failed string

record process_host =
  xo_boot_id :: "read_answer list expected"
  xo_proc :: "unit expected"
  xo_process :: "u32 \<Rightarrow> open_answer"
  xo_stat :: "int \<Rightarrow> read_answer list expected"
  xo_cgroup :: "int \<Rightarrow> read_answer list expected"
  xo_stat_again :: "int \<Rightarrow> read_answer list expected"
  xo_cgroup_again :: "int \<Rightarrow> read_answer list expected"
  xo_cgroup_root :: "int expected"
  xo_cgroup_openat :: "int \<Rightarrow> string \<Rightarrow> int expected"
  xo_cgroup_fstat :: "int \<Rightarrow> file_stat expected"

subsection \<open>Reading\<close>

definition max_proc_file_bytes :: nat where "max_proc_file_bytes = 64 * 1024"
definition max_cgroup_path_bytes :: nat where "max_cgroup_path_bytes = 4 * 1024"

fun read_bounded :: "string \<Rightarrow> read_answer list \<Rightarrow> string \<Rightarrow> string expected" where
  "read_bounded label [] contents = Inr contents"
| "read_bounded label (Read_interrupted # answers) contents = read_bounded label answers contents"
| "read_bounded label (Read_failed e # answers) contents = Inl (system_error (''read '' @ label) e)"
| "read_bounded label (Read_bytes chunk # answers) contents =
     (if chunk = [] then Inr contents
      else if length chunk > max_proc_file_bytes - length contents then Inl (label @ '' exceeds its bound'')
      else read_bounded label answers (contents @ chunk))"

definition read_file_at :: "string \<Rightarrow> read_answer list expected \<Rightarrow> string expected" where
  "read_file_at label opened_file =
     (case opened_file of
        Inl e \<Rightarrow> Inl (system_error (''open '' @ label) e)
      | Inr answers \<Rightarrow> read_bounded label answers [])"

definition strip_line_end :: "string \<Rightarrow> string" where
  "strip_line_end v = rev (dropWhile (\<lambda>c. c = CHR 0x0A \<or> c = CHR 0x0D) (rev v))"

definition read_boot_id :: "process_host \<Rightarrow> string expected" where
  "read_boot_id h =
     and_then (read_file_at ''Linux boot identity'' (xo_boot_id h)) (\<lambda>text.
       let boot_id = strip_line_end text in
       if \<not> valid_boot_id boot_id then Inl ''Linux boot identity is invalid'' else Inr boot_id)"

subsection \<open>Parsing\<close>

text \<open>\<open>std::from_chars\<close> into 64 bits, all characters used.\<close>

definition decimal_value :: "string \<Rightarrow> nat" where
  "decimal_value v = foldl (\<lambda>n c. 10 * n + (of_char c - 48)) 0 v"

definition from_chars :: "string \<Rightarrow> u64 option" where
  "from_chars v =
     (if v = [] \<or> \<not> list_all (\<lambda>c. 48 \<le> (of_char c :: nat) \<and> of_char c \<le> (57 :: nat)) v \<or> decimal_value v \<ge> 2 ^ 64
      then None else Some (of_nat (decimal_value v)))"

text \<open>The number of fields that are left before the start time.\<close>

fun start_time_field :: "nat \<Rightarrow> string \<Rightarrow> u64 expected" where
  "start_time_field n stat =
     (let token = takeWhile (\<lambda>c. c \<noteq> CHR '' '') stat in
      if token = [] then Inl ''Linux process stat fields are malformed''
      else (case n of
        0 \<Rightarrow> (case from_chars token of
               None \<Rightarrow> Inl ''Linux process start time is invalid''
             | Some parsed \<Rightarrow> if parsed = 0 then Inl ''Linux process start time is invalid'' else Inr parsed)
      | Suc m \<Rightarrow>
          if CHR '' '' \<notin> set stat then Inl ''Linux process stat ended before start time''
          else start_time_field m (drop (Suc (length token)) stat)))"

declare start_time_field.simps [simp del]

definition parse_start_time :: "string \<Rightarrow> u64 expected" where
  "parse_start_time stat =
     (let rest = rev (takeWhile (\<lambda>c. c \<noteq> CHR '')'') (rev stat)) in
      if CHR '')'' \<notin> set stat \<or> length rest < 2 \<or> hd rest \<noteq> CHR '' ''
      then Inl ''Linux process stat command is malformed''
      else start_time_field 19 (tl rest))"

text \<open>The components of a cgroup path behind its leading separator.\<close>

function cgroup_components :: "string \<Rightarrow> string list" where
  "cgroup_components rest =
     (if rest = [] then []
      else let component = takeWhile (\<lambda>c. c \<noteq> CHR ''/'') rest in
        component # (if CHR ''/'' \<notin> set rest then [] else cgroup_components (drop (Suc (length component)) rest)))"
  by auto
termination by (relation "measure length") auto

declare cgroup_components.simps [simp del]

definition check_cgroup_path :: "string \<Rightarrow> string expected" where
  "check_cgroup_path path =
     (if path = [] \<or> hd path \<noteq> CHR ''/'' \<or> length path > max_cgroup_path_bytes \<or>
         length path > 1 \<and> last path = CHR ''/'' \<or> CHR 0x00 \<in> set path
      then Inl ''unified cgroup path is invalid''
      else if list_ex (\<lambda>component. component = [] \<or> component = ''.'' \<or> component = ''..'') (cgroup_components (tl path))
      then Inl ''unified cgroup path is not canonical''
      else Inr path)"

function parse_cgroup_path :: "string \<Rightarrow> string expected" where
  "parse_cgroup_path text =
     (if text = [] then Inl ''unified cgroup membership is missing''
      else let line = takeWhile (\<lambda>c. c \<noteq> CHR 0x0A) text in
        if take 3 line = ''0::'' then check_cgroup_path (drop 3 line)
        else if CHR 0x0A \<notin> set text then Inl ''unified cgroup membership is missing''
        else parse_cgroup_path (drop (Suc (length line)) text))"
  by auto
termination by (relation "measure length") auto

declare parse_cgroup_path.simps [simp del]

subsection \<open>The identity\<close>

record cgroup_identity =
  ci_device :: u64
  ci_inode :: u64
  ci_path_digest :: string

fun open_cgroup :: "process_host \<Rightarrow> int \<Rightarrow> string list \<Rightarrow> int expected" where
  "open_cgroup h current [] = Inr current"
| "open_cgroup h current (component # components) =
     (case xo_cgroup_openat h current component of
        Inl e \<Rightarrow> Inl (system_error ''open process cgroup component'' e)
      | Inr opened \<Rightarrow> open_cgroup h opened components)"

definition inspect_cgroup :: "process_host \<Rightarrow> string \<Rightarrow> cgroup_identity expected" where
  "inspect_cgroup h path =
     (case xo_cgroup_root h of
        Inl e \<Rightarrow> Inl (system_error ''open cgroup v2 root'' e)
      | Inr root \<Rightarrow> and_then (open_cgroup h root (cgroup_components (tl path))) (\<lambda>directory.
          case xo_cgroup_fstat h directory of
            Inl e \<Rightarrow> Inl (system_error ''inspect process cgroup'' e)
          | Inr metadata \<Rightarrow>
              if \<not> is_directory (st_mode metadata) then Inl ''process cgroup is not a directory''
              else if st_dev metadata = 0 \<or> st_ino metadata = 0 then Inl ''process cgroup identity is invalid''
              else and_then (sha256_hex (bytes_of_string (''glove.linux-cgroup-path:'' @ path))) (\<lambda>digest.
                Inr \<lparr>ci_device = st_dev metadata, ci_inode = st_ino metadata, ci_path_digest = digest\<rparr>)))"

definition capture_from_directory :: "process_host \<Rightarrow> u32 \<Rightarrow> int \<Rightarrow> linux_process_identity expected" where
  "capture_from_directory h pid directory =
     and_then (read_boot_id h) (\<lambda>boot_id.
     and_then (read_file_at ''Linux process stat'' (xo_stat h directory)) (\<lambda>first_stat.
     and_then (read_file_at ''Linux process cgroup'' (xo_cgroup h directory)) (\<lambda>first_cgroup.
     and_then (parse_start_time first_stat) (\<lambda>start_time.
     and_then (parse_cgroup_path first_cgroup) (\<lambda>cgroup_path.
     and_then (inspect_cgroup h cgroup_path) (\<lambda>cgroup.
     and_then (read_file_at ''Linux process stat recheck'' (xo_stat_again h directory)) (\<lambda>second_stat.
     and_then (read_file_at ''Linux process cgroup recheck'' (xo_cgroup_again h directory)) (\<lambda>second_cgroup.
       if parse_start_time second_stat \<noteq> Inr start_time \<or> parse_cgroup_path second_cgroup \<noteq> Inr cgroup_path
       then Inl ''Linux process identity changed while capturing''
       else Inr \<lparr>pi_schema_version = 1, pi_pid = pid, pi_boot_id = boot_id, pi_start_time_ticks = start_time,
                 pi_cgroup_device = ci_device cgroup, pi_cgroup_inode = ci_inode cgroup,
                 pi_cgroup_path_digest = ci_path_digest cgroup\<rparr>))))))))"

definition open_process_directory :: "process_host \<Rightarrow> u32 \<Rightarrow> int option expected" where
  "open_process_directory h pid =
     (case xo_proc h of
        Inl e \<Rightarrow> Inl (system_error ''open procfs'' e)
      | Inr _ \<Rightarrow>
         (case xo_process h pid of
            Opened directory \<Rightarrow> Inr (Some directory)
          | No_such_process \<Rightarrow> Inr None
          | Open_failed e \<Rightarrow> Inl (system_error ''open Linux process directory'' e)))"

definition capture_linux_process_identity :: "process_host \<Rightarrow> int \<Rightarrow> linux_process_identity expected" where
  "capture_linux_process_identity h pid =
     (if pid \<le> 0 \<or> pid > 2 ^ 32 - 1 then Inl ''Linux process PID is invalid''
      else and_then (open_process_directory h (word_of_int pid)) (\<lambda>opened.
        case opened of
          None \<Rightarrow> Inl ''Linux process does not exist''
        | Some directory \<Rightarrow> capture_from_directory h (word_of_int pid) directory))"

datatype linux_process_identity_observation = Linux_exact | Linux_absent | Linux_mismatch

definition observe_linux_process_identity ::
    "process_host \<Rightarrow> linux_process_identity \<Rightarrow> linux_process_identity_observation expected" where
  "observe_linux_process_identity h recorded =
     (if \<not> valid_process_identity recorded then Inl ''expected Linux process identity is invalid''
      else and_then (open_process_directory h (pi_pid recorded)) (\<lambda>opened.
        case opened of
          None \<Rightarrow> Inr Linux_absent
        | Some directory \<Rightarrow> and_then (capture_from_directory h (pi_pid recorded) directory) (\<lambda>observed.
            Inr (if observed = recorded then Linux_exact else Linux_mismatch))))"

subsection \<open>What the readings say\<close>

lemma strip_line_end_clean:
  "valid_boot_id v \<Longrightarrow> strip_line_end (v @ replicate n (CHR 0x0A)) = v"
proof -
  assume valid: "valid_boot_id v"
  then have v: "v \<noteq> []" "length v = 36" by (auto simp: valid_boot_id_def)
  then have "last v = v ! 35" by (simp add: last_conv_nth)
  moreover have "(35, v ! 35) \<in> set (enumerate 0 v)"
    using v(2) by (auto simp: in_set_enumerate_eq)
  ultimately have "hex_byte (last v)"
    using valid by (fastforce simp: valid_boot_id_def list_all_iff)
  then have "last v \<noteq> CHR 0x0A" "last v \<noteq> CHR 0x0D" by (auto simp: hex_byte_def byte_of_def)
  then have "dropWhile (\<lambda>c. c = CHR 0x0A \<or> c = CHR 0x0D) (rev v) = rev v"
    using v(1) by (simp add: dropWhile_eq_self_iff hd_rev)
  moreover have "dropWhile P (replicate n x @ ys) = dropWhile P ys" if "P x" for P n ys and x :: char
    using that by (induction n) auto
  ultimately show ?thesis
    by (simp add: strip_line_end_def)
qed

lemma decimal_value_snoc: "decimal_value (v @ [c]) = 10 * decimal_value v + (of_char c - 48)"
  by (simp add: decimal_value_def)

lemma decimal_value_decimal: "decimal_value (decimal n) = n"
proof (induction n rule: decimal.induct)
  case (1 n)
  show ?case
  proof (cases "n < 10")
    case True
    then have "decimal n = [] @ [digit_char n]" by (subst decimal.simps) simp
    with True show ?thesis by (simp only: decimal_value_snoc) (simp add: decimal_value_def digit_char_code)
  next
    case False
    then have "decimal n = decimal (n div 10) @ [digit_char (n mod 10)]" by (subst decimal.simps) simp
    with False 1 show ?thesis by (simp only: decimal_value_snoc) (simp add: digit_char_code)
  qed
qed

lemma decimal_digit_codes: "list_all (\<lambda>c. 48 \<le> (of_char c :: nat) \<and> of_char c \<le> (57 :: nat)) (decimal n)"
proof (induction n rule: decimal.induct)
  case (1 n)
  show ?case
    using 1 by (subst decimal.simps) (auto simp: digit_char_code)
qed

lemma from_chars_decimal: "from_chars (decimal (unat t)) = Some t"
  using decimal_Nil unsigned_less [of t, where 'a = nat]
  by (auto simp: from_chars_def decimal_value_decimal decimal_digit_codes)

lemma takeWhile_token: "c \<notin> set token \<Longrightarrow> rest = [] \<or> hd rest = c \<Longrightarrow> takeWhile (\<lambda>x. x \<noteq> c) (token @ rest) = token"
  by (cases rest) (auto simp: takeWhile_append)

lemma start_time_field_tokens:
  assumes "list_all (\<lambda>t. t \<noteq> [] \<and> CHR '' '' \<notin> set t) ts" and "token \<noteq> []" and "CHR '' '' \<notin> set token"
    and "rest = [] \<or> hd rest = CHR '' ''" and "from_chars token = Some v" and "v \<noteq> 0"
  shows "start_time_field (length ts) (concat (map (\<lambda>t. t @ '' '') ts) @ token @ rest) = Inr v"
  using assms(1)
proof (induction ts)
  case Nil
  show ?case
    using assms takeWhile_token [OF assms(3,4)] by (subst start_time_field.simps) simp
next
  case (Cons t ts)
  let ?tail = "concat (map (\<lambda>t. t @ '' '') ts) @ token @ rest"
  have "takeWhile (\<lambda>c. c \<noteq> CHR '' '') (t @ '' '' @ ?tail) = t"
    using Cons.prems by (intro takeWhile_token) auto
  then show ?case
    using Cons by (subst start_time_field.simps) simp
qed

text \<open>A process chooses its own name, and the line of procfs puts it in parentheses unescaped.  The
  start time is found behind any name, parentheses and blanks included.\<close>

lemma parse_start_time_exact:
  assumes "length ts = 19" and "list_all (\<lambda>t. t \<noteq> [] \<and> CHR '' '' \<notin> set t \<and> CHR '')'' \<notin> set t) ts"
    and "rest = [] \<or> hd rest = CHR '' ''" and "CHR '')'' \<notin> set rest" and "t \<noteq> 0"
  shows "parse_start_time (command @ '') '' @ concat (map (\<lambda>t. t @ '' '') ts) @ decimal (unat t) @ rest) = Inr t"
proof -
  let ?fields = "concat (map (\<lambda>t. t @ '' '') ts) @ decimal (unat t) @ rest"
  have digits: "c \<in> set (decimal (unat t)) \<Longrightarrow> 48 \<le> (of_char c :: nat)" for c
    using decimal_digit_codes [of "unat t"] by (auto simp: list_all_iff)
  have clean: "CHR '')'' \<notin> set (decimal (unat t))" "CHR '' '' \<notin> set (decimal (unat t))"
    using digits [of "CHR '')''"] digits [of "CHR '' ''"] by auto
  have "CHR '')'' \<notin> set ('' '' @ ?fields)"
    using assms(2,4) clean(1) by (auto simp: list_all_iff)
  then have "takeWhile (\<lambda>c. c \<noteq> CHR '')'') (rev ('' '' @ ?fields) @ rev (command @ '')'')) = rev ('' '' @ ?fields)"
    by (intro takeWhile_token) auto
  then have rest: "rev (takeWhile (\<lambda>c. c \<noteq> CHR '')'') (rev (command @ '') '' @ ?fields))) = '' '' @ ?fields"
    by simp
  have "list_all (\<lambda>t. t \<noteq> [] \<and> CHR '' '' \<notin> set t) ts"
    using assms(2) by (auto simp: list_all_iff)
  then have "start_time_field (length ts) ?fields = Inr t"
    by (intro start_time_field_tokens clean(2) assms(3,5) from_chars_decimal) (simp_all add: decimal_Nil)
  moreover have "?fields \<noteq> []" using decimal_Nil by auto
  ultimately show ?thesis
    using assms(1) unfolding parse_start_time_def Let_def rest by (simp add: Suc_le_eq)
qed

lemma check_cgroup_path_Inr:
  "check_cgroup_path path = Inr path' \<longleftrightarrow>
     path' = path \<and> path \<noteq> [] \<and> hd path = CHR ''/'' \<and> length path \<le> max_cgroup_path_bytes \<and>
     (length path > 1 \<longrightarrow> last path \<noteq> CHR ''/'') \<and> CHR 0x00 \<notin> set path \<and>
     list_all (\<lambda>component. component \<noteq> [] \<and> component \<noteq> ''.'' \<and> component \<noteq> ''..'') (cgroup_components (tl path))"
  by (auto simp: check_cgroup_path_def list_ex_iff list_all_iff not_le)

text \<open>The unified membership is found behind the lines of the other hierarchies.\<close>

lemma parse_cgroup_path_found:
  assumes "list_all (\<lambda>line. CHR 0x0A \<notin> set line \<and> take 3 line \<noteq> ''0::'') lines" and "CHR 0x0A \<notin> set path"
  shows "parse_cgroup_path (concat (map (\<lambda>line. line @ [CHR 0x0A]) lines) @ ''0::'' @ path @ [CHR 0x0A] @ rest) =
    check_cgroup_path path"
  using assms(1)
proof (induction lines)
  case Nil
  have "takeWhile (\<lambda>c. c \<noteq> CHR 0x0A) ((''0::'' @ path) @ CHR 0x0A # rest) = ''0::'' @ path"
    using assms(2) by (intro takeWhile_token) auto
  then show ?case by (subst parse_cgroup_path.simps) simp
next
  case (Cons line lines)
  let ?tail = "concat (map (\<lambda>line. line @ [CHR 0x0A]) lines) @ ''0::'' @ path @ [CHR 0x0A] @ rest"
  have "takeWhile (\<lambda>c. c \<noteq> CHR 0x0A) (line @ CHR 0x0A # ?tail) = line"
    using Cons.prems by (intro takeWhile_token) auto
  then show ?case
    using Cons by (subst parse_cgroup_path.simps) simp
qed

text \<open>An exact observation means that all of the recorded identity was read from the kernel now, the
  changing parts of it twice.\<close>

lemma observed_exact:
  assumes "observe_linux_process_identity h i = Inr Linux_exact"
  shows "\<exists>directory stat cgroup path. xo_process h (pi_pid i) = Opened directory \<and> read_boot_id h = Inr (pi_boot_id i) \<and>
    read_file_at ''Linux process stat recheck'' (xo_stat_again h directory) = Inr stat \<and>
    parse_start_time stat = Inr (pi_start_time_ticks i) \<and>
    read_file_at ''Linux process cgroup recheck'' (xo_cgroup_again h directory) = Inr cgroup \<and>
    parse_cgroup_path cgroup = Inr path \<and>
    inspect_cgroup h path =
      Inr \<lparr>ci_device = pi_cgroup_device i, ci_inode = pi_cgroup_inode i, ci_path_digest = pi_cgroup_path_digest i\<rparr>"
proof -
  obtain directory where directory: "xo_process h (pi_pid i) = Opened directory"
    and captured: "capture_from_directory h (pi_pid i) directory = Inr i"
    using assms
    by (auto simp: observe_linux_process_identity_def open_process_directory_def and_then_Inr
        split: if_splits sum.splits open_answer.splits option.splits)
  from captured obtain boot start cgroup path stat membership where read: "read_boot_id h = Inr boot"
      "read_file_at ''Linux process stat recheck'' (xo_stat_again h directory) = Inr stat" "parse_start_time stat = Inr start"
      "read_file_at ''Linux process cgroup recheck'' (xo_cgroup_again h directory) = Inr membership"
      "parse_cgroup_path membership = Inr path" "inspect_cgroup h path = Inr cgroup"
    and i: "i = \<lparr>pi_schema_version = 1, pi_pid = pi_pid i, pi_boot_id = boot, pi_start_time_ticks = start,
        pi_cgroup_device = ci_device cgroup, pi_cgroup_inode = ci_inode cgroup,
        pi_cgroup_path_digest = ci_path_digest cgroup\<rparr>"
    by (auto simp: capture_from_directory_def and_then_Inr split: if_splits)
  have "pi_boot_id i = boot" "pi_start_time_ticks i = start" "ci_device cgroup = pi_cgroup_device i"
      "ci_inode cgroup = pi_cgroup_inode i" "ci_path_digest cgroup = pi_cgroup_path_digest i"
    using i by (metis linux_process_identity.select_convs)+
  then show ?thesis using directory read by (metis (full_types) cgroup_identity.surjective old.unit.exhaust)
qed

lemma observed_absent:
  "observe_linux_process_identity h i = Inr Linux_absent \<longleftrightarrow>
     valid_process_identity i \<and> (\<exists>u. xo_proc h = Inr u) \<and> xo_process h (pi_pid i) = No_such_process"
  by (auto simp: observe_linux_process_identity_def open_process_directory_def and_then_Inr
      split: if_splits sum.splits open_answer.splits option.splits)

end
