(* ===== verification/Session_Reconciliation.thy ===== *)
theory Session_Reconciliation
  imports Durable_Receipts Registry_Views Process_Identity
begin

text \<open>
  \<open>src/control/session_reconciliation.cpp\<close>: the repair of a registry when the supervisor starts.
  Sessions that were left starting are closed; sessions that were left running are closed over their
  durable receipt, or classified by looking for their process.

  The state is the registry and the receipt producer.  The registry confirms a receipt inside its own
  critical section, which asks the producer's journal; \<open>confirmed_producer\<close> is the producer after
  that question.  An observer is asked at most once for a session, so it is a function.
\<close>

datatype session_process_observation = Exact | Absent | Mismatch | Terminated

type_synonym session_process_observer = "session_recovery_record \<Rightarrow> session_process_observation expected"

record session_reconciliation_report =
  rn_inspected :: nat
  rn_recovered_exited :: nat
  rn_recovered_failed :: nat
  rn_recovered_terminated :: nat
  rn_orphan_materializations_inspected :: nat
  rn_orphan_materializations_removed :: nat
  rn_orphan_retained_changes_recovered :: nat
  rn_unresolved_running_session_ids :: "string list"
  rn_live_running_session_ids :: "string list"
  rn_identity_mismatch_session_ids :: "string list"

definition registry_error :: "string \<Rightarrow> session_registry_error \<Rightarrow> string" where
  "registry_error operation e = operation @ '': '' @ err_message e"

definition recovery_failure_key :: "session_recovery_record \<Rightarrow> string expected" where
  "recovery_failure_key candidate =
     and_then (sha256_hex (bytes_of_string
       (s_session_id (rx_session candidate) @ '':'' @ rx_authorization_id candidate @ '':'' @
        rx_profile_digest candidate @ '':'' @ decimal (unat (rx_starting_at_ms candidate)))))
       (\<lambda>digest. Inr (''recovery-fail-'' @ digest))"

definition recovery_failure :: "session_recovery_record \<Rightarrow> session_failure_code \<Rightarrow> session_failure_commitment" where
  "recovery_failure candidate code =
     \<lparr>fc_schema_version = 1, fc_session_id = s_session_id (rx_session candidate),
      fc_controller_plan_digest = s_controller_plan_digest (rx_session candidate),
      fc_plan_content_digest = s_plan_content_digest (rx_session candidate),
      fc_authorization_id = rx_authorization_id candidate, fc_profile_digest = rx_profile_digest candidate,
      fc_code = code\<rparr>"

definition close_recovered_without_process ::
    "json_codec \<Rightarrow> session_recovery_record \<Rightarrow> session_failure_code \<Rightarrow> u64 \<Rightarrow> registry \<Rightarrow> unit expected \<times> registry" where
  "close_recovered_without_process jc candidate code now_ms s =
     (case recovery_failure_key candidate of
        Inl e \<Rightarrow> (Inl (''derive session recovery key: '' @ e), s)
      | Inr idempotency_key \<Rightarrow>
         (case mark_failed jc (recovery_failure candidate code) idempotency_key now_ms s of
            (Inl e, s1) \<Rightarrow> (Inl (registry_error ''close session without an exact process'' e), s1)
          | (Inr _, s1) \<Rightarrow> (Inr (), s1)))"

definition classify_receiptless_running ::
    "json_codec \<Rightarrow> session_recovery_record \<Rightarrow> u64 \<Rightarrow> session_process_observer option \<Rightarrow>
     session_reconciliation_report \<Rightarrow> registry \<Rightarrow> session_reconciliation_report expected \<times> registry" where
  "classify_receiptless_running jc candidate now_ms process_observer report s =
     (let session_id = s_session_id (rx_session candidate) in
      case process_observer of
        None \<Rightarrow> (Inr (report\<lparr>rn_unresolved_running_session_ids :=
                              rn_unresolved_running_session_ids report @ [session_id]\<rparr>), s)
      | Some observe \<Rightarrow>
          if rx_process_identity candidate = None
          then (Inl ''running recovery candidate has no process identity'', s)
          else (case observe candidate of
             Inl e \<Rightarrow> (Inl (''observe recovered Linux process: '' @ e), s)
           | Inr Exact \<Rightarrow> (Inr (report\<lparr>rn_live_running_session_ids :=
                                     rn_live_running_session_ids report @ [session_id]\<rparr>), s)
           | Inr Mismatch \<Rightarrow> (Inr (report\<lparr>rn_identity_mismatch_session_ids :=
                                        rn_identity_mismatch_session_ids report @ [session_id]\<rparr>), s)
           | Inr Absent \<Rightarrow>
              (case close_recovered_without_process jc candidate Recovered_without_process now_ms s of
                 (Inl e, s1) \<Rightarrow> (Inl e, s1)
               | (Inr _, s1) \<Rightarrow> (Inr (report\<lparr>rn_recovered_failed := Suc (rn_recovered_failed report)\<rparr>), s1))
           | Inr Terminated \<Rightarrow>
              (case close_recovered_without_process jc candidate Recovered_terminated now_ms s of
                 (Inl e, s1) \<Rightarrow> (Inl e, s1)
               | (Inr _, s1) \<Rightarrow> (Inr (report\<lparr>rn_recovered_failed := Suc (rn_recovered_failed report),
                                             rn_recovered_terminated := Suc (rn_recovered_terminated report)\<rparr>), s1))))"

text \<open>The receipt that closes a running session, of the kind its plan asks for.\<close>

datatype durable_terminal =
  Resource_terminal authenticated_resource_enforcement_receipt
| Refinement_terminal authenticated_refinement_evaluation_receipt

definition lookup_terminal ::
    "session_recovery_record \<Rightarrow> audit_producer \<Rightarrow> durable_terminal option expected \<times> audit_producer" where
  "lookup_terminal candidate p =
     (let session_id = s_session_id (rx_session candidate);
          plan = s_controller_plan_digest (rx_session candidate);
          profile = rx_profile_digest candidate in
      if rx_requires_refinement_receipt candidate
      then (case producer_refinement_terminal_for_execution session_id plan profile p of
              (Inl e, p1) \<Rightarrow> (Inl (''lookup durable refinement receipt: '' @ e), p1)
            | (Inr found, p1) \<Rightarrow> (Inr (map_option Refinement_terminal found), p1))
      else (case producer_terminal_for_execution session_id plan profile p of
              (Inl e, p1) \<Rightarrow> (Inl (''lookup durable terminal receipt: '' @ e), p1)
            | (Inr found, p1) \<Rightarrow> (Inr (map_option Resource_terminal found), p1)))"

definition confirmed_producer :: "durable_terminal \<Rightarrow> string \<Rightarrow> audit_producer \<Rightarrow> audit_producer" where
  "confirmed_producer t idempotency_key p =
     (case t of
        Resource_terminal r \<Rightarrow>
          if terminal_request_ok r idempotency_key then snd (producer_confirms_terminal r p) else p
      | Refinement_terminal r \<Rightarrow>
          if refinement_terminal_request_ok r idempotency_key then snd (producer_confirms_refinement_terminal r p) else p)"

definition project_terminal ::
    "json_codec \<Rightarrow> durable_terminal \<Rightarrow> registry \<Rightarrow> audit_producer \<Rightarrow> unit expected \<times> registry \<times> audit_producer" where
  "project_terminal jc t s p =
     (let sequence = (case t of Resource_terminal r \<Rightarrow> ar_sequence r | Refinement_terminal r \<Rightarrow> af_sequence r);
          idempotency_key = ''recovery-exit-'' @ decimal (unat sequence);
          exited = (case t of
                      Resource_terminal r \<Rightarrow> mark_exited jc (producer_view p) r idempotency_key s
                    | Refinement_terminal r \<Rightarrow> mark_refinement_exited jc (producer_view p) r idempotency_key s);
          p1 = confirmed_producer t idempotency_key p in
      case exited of
        (Inl e, s1) \<Rightarrow> (Inl (registry_error ''project durable terminal receipt'' e), s1, p1)
      | (Inr _, s1) \<Rightarrow> (Inr (), s1, p1))"

definition reconcile_candidate ::
    "json_codec \<Rightarrow> u64 \<Rightarrow> session_process_observer option \<Rightarrow> session_recovery_record \<Rightarrow>
     session_reconciliation_report \<Rightarrow> registry \<Rightarrow> audit_producer \<Rightarrow>
     session_reconciliation_report expected \<times> registry \<times> audit_producer" where
  "reconcile_candidate jc now_ms process_observer candidate report s p =
     (if s_state (rx_session candidate) = St_starting
      then (case close_recovered_without_process jc candidate Recovered_without_process now_ms s of
              (Inl e, s1) \<Rightarrow> (Inl e, s1, p)
            | (Inr _, s1) \<Rightarrow> (Inr (report\<lparr>rn_recovered_failed := Suc (rn_recovered_failed report)\<rparr>), s1, p))
      else (case lookup_terminal candidate p of
              (Inl e, p1) \<Rightarrow> (Inl e, s, p1)
            | (Inr None, p1) \<Rightarrow>
               (case classify_receiptless_running jc candidate now_ms process_observer report s of
                  (result, s1) \<Rightarrow> (result, s1, p1))
            | (Inr (Some t), p1) \<Rightarrow>
               (case project_terminal jc t s p1 of
                  (Inl e, s1, p2) \<Rightarrow> (Inl e, s1, p2)
                | (Inr _, s1, p2) \<Rightarrow> (Inr (report\<lparr>rn_recovered_exited := Suc (rn_recovered_exited report)\<rparr>), s1, p2))))"

fun reconcile_candidates ::
    "json_codec \<Rightarrow> u64 \<Rightarrow> session_process_observer option \<Rightarrow> session_recovery_record list \<Rightarrow>
     session_reconciliation_report \<Rightarrow> registry \<Rightarrow> audit_producer \<Rightarrow>
     session_reconciliation_report expected \<times> registry \<times> audit_producer" where
  "reconcile_candidates jc now_ms process_observer [] report s p = (Inr report, s, p)"
| "reconcile_candidates jc now_ms process_observer (candidate # candidates) report s p =
     (case reconcile_candidate jc now_ms process_observer candidate report s p of
        (Inl e, s1, p1) \<Rightarrow> (Inl e, s1, p1)
      | (Inr report1, s1, p1) \<Rightarrow> reconcile_candidates jc now_ms process_observer candidates report1 s1 p1)"

definition new_report :: "nat \<Rightarrow> session_reconciliation_report" where
  "new_report inspected =
     \<lparr>rn_inspected = inspected, rn_recovered_exited = 0, rn_recovered_failed = 0, rn_recovered_terminated = 0,
      rn_orphan_materializations_inspected = 0, rn_orphan_materializations_removed = 0,
      rn_orphan_retained_changes_recovered = 0, rn_unresolved_running_session_ids = [],
      rn_live_running_session_ids = [], rn_identity_mismatch_session_ids = []\<rparr>"

definition reconcile_session_registry_impl ::
    "json_codec \<Rightarrow> u64 \<Rightarrow> session_process_observer option \<Rightarrow> registry \<Rightarrow> audit_producer \<Rightarrow>
     session_reconciliation_report expected \<times> registry \<times> audit_producer" where
  "reconcile_session_registry_impl jc now_ms process_observer s p =
     (if now_ms = 0 then (Inl ''session reconciliation requires a current time'', s, p)
      else (case recovery_candidates jc s of
        (Inl e, s1) \<Rightarrow> (Inl (registry_error ''inventory session recovery'' e), s1, p)
      | (Inr candidates, s1) \<Rightarrow>
          reconcile_candidates jc now_ms process_observer candidates (new_report (length candidates)) s1 p))"

text \<open>The observer of the Linux daemon: what the kernel says when it looks for the process of a session.\<close>

definition linux_process_observer :: "(string \<Rightarrow> process_host) \<Rightarrow> session_process_observer" where
  "linux_process_observer host candidate =
     (case rx_process_identity candidate of
        None \<Rightarrow> Inl ''running recovery candidate has no process identity''
      | Some identity \<Rightarrow>
          and_then (observe_linux_process_identity (host (s_session_id (rx_session candidate))) identity) (\<lambda>observed.
            Inr (case observed of Linux_exact \<Rightarrow> Exact | Linux_absent \<Rightarrow> Absent | Linux_mismatch \<Rightarrow> Mismatch)))"

definition reconcile_linux_registry ::
    "json_codec \<Rightarrow> (string \<Rightarrow> process_host) \<Rightarrow> u64 \<Rightarrow> registry \<Rightarrow> audit_producer \<Rightarrow>
     session_reconciliation_report expected \<times> registry \<times> audit_producer" where
  "reconcile_linux_registry jc host now_ms =
     reconcile_session_registry_impl jc now_ms (Some (linux_process_observer host))"

definition reconcile_session_registry ::
    "json_codec \<Rightarrow> u64 \<Rightarrow> session_process_observer option \<Rightarrow> registry \<Rightarrow> audit_producer \<Rightarrow>
     session_reconciliation_report expected \<times> registry \<times> audit_producer" where
  "reconcile_session_registry jc now_ms process_observer s p =
     (if process_observer = None then (Inl ''session reconciliation process observer is empty'', s, p)
      else reconcile_session_registry_impl jc now_ms process_observer s p)"

end
