(* ===== verification/Journal_Theorems.thy ===== *)
theory Journal_Theorems
  imports Journal_Reach
begin

text \<open>
  What the receipt journal promises over every journal a program can hold: the invariant, the
  atomicity of appends, recovery after a crash, the pages a peer reconciles from, the lookup of
  terminal receipts, and the end of the recovery scan.
\<close>

subsection \<open>The invariant\<close>

text \<open>
  C8. Whatever sequence of appends, reads, short and failed system calls led to it, the records of
  a receipt journal verify, from the first, as one chain under its key; the anchor it hands out is
  the end of that chain and its sequence is the number of records.  While the journal is usable, its
  file is the header with the key identity followed by exactly the frames of the records, and
  neither the file nor the limit exceeds its bound.
\<close>

theorem journal_invariant:
  assumes "journal_faithful jc" and "journal_reachable jc key_hex s"
  shows "(\<exists>origin. anchor_create key_hex = Inr origin \<and>
      verify_records key_hex origin (rj_records s) = Some (journal_anchor s)) \<and>
    journal_record_count s = an_sequence (journal_anchor s) \<and>
    (rj_poisoned s \<or>
     unat (rj_durable_size s) = length (d_bytes (rj_disk s)) \<and> rj_durable_size s \<le> rj_max_size s \<and>
     rj_max_size s \<le> default_receipt_journal_bytes \<and>
     (\<exists>body. framed_by (journal_payload jc) (rj_records s) body \<and>
        d_bytes (rj_disk s) = journal_magic @ bytes_of_string (an_key_id (journal_anchor s)) @ body))"
proof -
  have ok: "journal_ok jc key_hex s" by (rule journal_reachable_ok [OF assms(2,1)])
  obtain origin where chain: "anchor_create key_hex = Inr origin"
      "verify_records key_hex origin (rj_records s) = Some (journal_anchor s)"
      "unat (ac_sequence (rj_chain s)) = length (rj_records s)"
    using journal_ok_anchor [OF ok] .
  have "journal_record_count s = an_sequence (journal_anchor s)"
    using chain(3) by (metis journal_record_count_def journal_anchor_def of_nat_unat receipt_audit_anchor.select_convs(2) ucast_id)
  then show ?thesis
    using chain(1,2) ok by (auto simp: journal_ok_def journal_image_def journal_anchor_def)
qed

theorem journal_invariant_witness:
  "journal_record_count sample_journal = an_sequence (journal_anchor sample_journal)"
  using journal_invariant [OF sample_journal_faithful sample_journal_reachable] by simp

subsection \<open>Appends\<close>

lemma journal_next_verifies:
  assumes "journal_ok jc key_hex s" and "journal_ok jc key_hex s'" and "rj_records s' = rj_records s @ [r]"
  shows "\<exists>u. verify_journal_record r key_hex (journal_anchor s) = (Inr u, journal_anchor s')"
proof -
  obtain origin where chain: "anchor_create key_hex = Inr origin"
      "verify_records key_hex origin (rj_records s) = Some (journal_anchor s)"
    using journal_ok_anchor [OF assms(1)] by blast
  obtain origin' where chain': "anchor_create key_hex = Inr origin'"
      "verify_records key_hex origin' (rj_records s') = Some (journal_anchor s')"
    using journal_ok_anchor [OF assms(2)] by blast
  show ?thesis
    using chain chain' assms(3) by (auto simp: verify_records_append split: prod.splits sum.splits)
qed

text \<open>
  C9. An append is atomic.  If it answers an envelope, the journal is usable, has exactly one more
  record and one more frame on disk, and a peer at the previous anchor accepts the envelope and
  arrives at the new one.  If it answers an error, records and anchor are as before, and the file
  is too unless the journal is poisoned.  When the kernel interposes no fault, a receipt the chain
  accepts and the remaining capacity holds is appended.
\<close>

theorem journal_append_atomic:
  assumes "journal_faithful jc" and "journal_reachable jc key_hex s"
  shows "(case journal_append jc session_id plan receipt s of
      (Inl e, s') \<Rightarrow> rj_records s' = rj_records s \<and> journal_anchor s' = journal_anchor s \<and>
        (rj_poisoned s' \<or> d_bytes (rj_disk s') = d_bytes (rj_disk s))
    | (Inr envelope, s') \<Rightarrow> \<not> rj_poisoned s' \<and>
        rj_records s' = rj_records s @
          [\<lparr>jr_kind = ''resource_enforcement_v1'', jr_resource = Some envelope, jr_refinement = None\<rparr>] \<and>
        (\<exists>payload. d_bytes (rj_disk s') = d_bytes (rj_disk s) @ make_record payload \<and>
           decode_journal_record jc payload = Inr (last (rj_records s'))) \<and>
        verify_receipt_audit_envelope envelope key_hex session_id plan (journal_anchor s) =
          (Inr (), journal_anchor s')) \<and>
    (journal_calm s \<and> chain_append (rj_chain s) session_id plan receipt = (Inr envelope, chain') \<and>
     encode_journal_record jc
       \<lparr>jr_kind = ''resource_enforcement_v1'', jr_resource = Some envelope, jr_refinement = None\<rparr> = Inr payload \<and>
     length payload + 8 \<le> unat (rj_max_size s - rj_durable_size s) \<longrightarrow>
     is_value (fst (journal_append jc session_id plan receipt s)))"
proof -
  have ok: "journal_ok jc key_hex s" by (rule journal_reachable_ok [OF assms(2,1)])
  obtain result s' where run: "journal_append jc session_id plan receipt s = (result, s')" by fastforce
  note laws = journal_append_laws [OF ok run]
  have bound: "ar_session_id e = session_id \<and> ar_controller_plan_digest e = plan" if "result = Inr e" for e
    using run that by (cases rule: journal_append_cases)
      (auto simp: chain_append_def Let_def split: if_splits sum.splits)
  have live: "journal_calm s \<and> chain_append (rj_chain s) session_id plan receipt = (Inr envelope, chain') \<and>
     encode_journal_record jc
       \<lparr>jr_kind = ''resource_enforcement_v1'', jr_resource = Some envelope, jr_refinement = None\<rparr> = Inr payload \<and>
     length payload + 8 \<le> unat (rj_max_size s - rj_durable_size s) \<longrightarrow> is_value result"
    using journal_append_calm [OF ok] run by fastforce
  show ?thesis
  proof (cases result)
    case (Inl e)
    then show ?thesis
      using laws run live by (auto simp: journal_kept_def same_journal_def journal_anchor_def)
  next
    case (Inr e)
    let ?r = "\<lparr>jr_kind = ''resource_enforcement_v1'', jr_resource = Some e, jr_refinement = None\<rparr>"
    have extends: "journal_ok jc key_hex s'" "journal_extends jc s ?r s'"
      using laws Inr by auto
    then have "\<exists>u. verify_journal_record ?r key_hex (journal_anchor s) = (Inr u, journal_anchor s')"
      by (intro journal_next_verifies [OF ok]) (auto simp: journal_extends_def)
    then show ?thesis
      using extends(2) run Inr bound [OF Inr]
      by (auto simp: journal_extends_def verify_journal_record_def journal_payload_def make_record_frame)
  qed
qed

theorem journal_append_atomic_witness:
  "verify_receipt_audit_envelope sample_envelope zero_digest ''s'' zero_digest (journal_anchor sample_new_journal) =
     (Inr (), journal_anchor sample_journal)"
  using journal_append_atomic [OF sample_journal_faithful sample_new_journal_reachable, of "''s''" zero_digest sample_receipt]
  by (simp add: sample_journal_appended)

subsection \<open>Crashes\<close>

text \<open>
  C10. A crash in the middle of an append loses nothing that was acknowledged.  When the file of a
  usable journal is followed by any part of one more frame, opening it with an anchor the peer has
  verified gives back the same records, anchor and file, and says whether a tail was cut off; it
  does so whenever the kernel interposes no fault.  Without an anchor of the peer a torn tail is
  never repaired.
\<close>

theorem journal_crash_recovery:
  assumes "journal_faithful jc" and "journal_reachable jc key_hex s" and "\<not> rj_poisoned s"
    and "torn_frame tail" and "jl_file loc = Inr d" and "d_bytes d = d_bytes (rj_disk s) @ tail"
    and "length (d_bytes d) \<le> unat (rj_max_size s)"
    and "anchor_is_prefix peer (an_key_id (journal_anchor s)) (rj_records s)"
  shows "(case open_existing jc path key_hex (Some peer) (rj_max_size s) loc of
      Inl e \<Rightarrow> \<not> journal_opens path loc d
    | Inr s' \<Rightarrow> rj_records s' = rj_records s \<and> journal_anchor s' = journal_anchor s \<and>
        d_bytes (rj_disk s') = d_bytes (rj_disk s) \<and> rj_durable_size s' = rj_durable_size s \<and>
        \<not> rj_poisoned s' \<and> rj_repaired_tail s' = (tail \<noteq> [])) \<and>
    (tail \<noteq> [] \<longrightarrow> \<not> is_value (open_existing jc path key_hex None (rj_max_size s) loc))"
proof -
  have ok: "journal_ok jc key_hex s" by (rule journal_reachable_ok [OF assms(2,1)])
  note image = open_existing_image [OF ok assms(3-7)]
  have refused: "\<not> is_value (open_existing jc path key_hex None (rj_max_size s) loc)" if "tail \<noteq> []"
    using that by (rule_tac image [of path None]) (auto simp: finish_open_def)
  let ?recovered = "\<lparr>rec_records = rj_records s, rec_durable_size = rj_durable_size s, rec_torn_tail = (tail \<noteq> [])\<rparr>"
  show ?thesis
  proof (rule image [of path "Some peer"])
    fix e assume "open_existing jc path key_hex (Some peer) (rj_max_size s) loc = Inl e" "\<not> journal_opens path loc d"
    then show ?thesis using refused by simp
  next
    fix os
    assume run: "open_existing jc path key_hex (Some peer) (rj_max_size s) loc =
        finish_open (rj_chain s) (Some peer) (rj_max_size s) (?recovered, journal_anchor s, d\<lparr>d_outcomes := os\<rparr>)"
      "d_outcomes d = [] \<longrightarrow> os = []"
    have durable: "unat (rj_durable_size s) = length (d_bytes (rj_disk s))"
      using ok assms(3) by (auto simp: journal_ok_def journal_image_def)
    show ?thesis
    proof (cases "open_existing jc path key_hex (Some peer) (rj_max_size s) loc")
      case (Inl e)
      have "os \<noteq> []"
        using Inl run(1) assms(8) durable ok assms(3)
        by (auto simp: finish_open_def journal_anchor_def repair_tail_def single_call_def sync_descriptor_calm ftruncate_def
            journal_ok_def journal_image_def word_le_nat_alt default_receipt_journal_bytes_def off_t_max_def split: if_splits)
      then show ?thesis using Inl run(2) refused by (auto simp: journal_opens_def)
    next
      case (Inr s')
      note laws = finish_open_laws [OF run(1) [symmetric, unfolded Inr], of "length (d_bytes (rj_disk s))"]
      show ?thesis
        using laws Inr durable assms(6) refused by (auto simp: journal_anchor_def)
    qed
  qed
qed

definition torn_sample :: disk where
  "torn_sample = journal_sample_disk\<lparr>d_bytes := d_bytes (rj_disk sample_journal) @ [0, 0]\<rparr>"

lemma sample_journal_sizes:
  "length (d_bytes (rj_disk sample_journal)) = 81" "rj_max_size sample_journal = 131072"
  "an_key_id (journal_anchor sample_journal) = ac_key_id sample_chain"
  "rj_records sample_journal = [sample_journal_record]"
proof -
  have ok: "journal_ok sample_journal_codec zero_digest sample_new_journal"
    by (rule journal_reachable_ok [OF sample_new_journal_reachable sample_journal_faithful])
  have "rj_max_size sample_journal = rj_max_size sample_new_journal"
    using appending.grows(2) [OF ok sample_journal_appended(1)] .
  then show "rj_max_size sample_journal = 131072" by (simp add: sample_new_journal)
  have extends: "journal_extends sample_journal_codec sample_new_journal sample_journal_record sample_journal"
    using journal_append_laws [OF ok sample_journal_appended(1)] by (auto simp: sample_journal_record_def)
  then show "rj_records sample_journal = [sample_journal_record]"
    by (simp add: journal_extends_def sample_new_journal)
  obtain payload where payload: "journal_payload sample_journal_codec payload sample_journal_record"
      "d_bytes (rj_disk sample_journal) = d_bytes (rj_disk sample_new_journal) @ frame_of payload"
    using extends by (auto simp: journal_extends_def)
  have "payload = ''r''"
    using payload(1) by (auto simp: journal_payload_def decode_journal_record_def sample_journal_codec_def split: if_splits)
  moreover have "length (d_bytes (rj_disk sample_new_journal)) = 72"
    using ok sample_new_journal(2,5) by (auto simp: journal_ok_def journal_calm_def journal_image_def)
  ultimately show "length (d_bytes (rj_disk sample_journal)) = 81" using payload(2) by simp
  have "journal_ok sample_journal_codec zero_digest sample_journal"
    by (rule journal_reachable_ok [OF sample_journal_reachable sample_journal_faithful])
  then show "an_key_id (journal_anchor sample_journal) = ac_key_id sample_chain"
    using sample_sync(1) by (auto simp: journal_ok_def chained_records_def in_sync_def journal_anchor_def)
qed

lemma sample_tail: "torn_frame [0, 0]"
  unfolding torn_frame_def
  by (rule exI [of _ "''r''"], rule exI [of _ 2])
    (simp add: max_journal_payload_bytes_def frame_of_def enc_u32_def append_u32_def)

theorem journal_crash_recovery_witness:
  "\<exists>s'. open_existing sample_journal_codec ''j'' zero_digest (Some sample_anchor) 131072 (journal_sample_location torn_sample) = Inr s' \<and>
     rj_records s' = [sample_journal_record] \<and> rj_repaired_tail s'"
proof -
  have opens: "journal_opens ''j'' (journal_sample_location torn_sample) torn_sample"
    by (rule sample_journal_opens) (simp_all add: torn_sample_def journal_sample_disk_def owner_only_file_def)
  have peer: "anchor_is_prefix sample_anchor (ac_key_id sample_chain) [sample_journal_record]"
    using sample_sync by (simp add: anchor_is_prefix_def in_sync_def)
  show ?thesis
    using journal_crash_recovery [OF sample_journal_faithful sample_journal_reachable _ sample_tail,
        of "journal_sample_location torn_sample" torn_sample sample_anchor "''j''"] opens peer
      sample_journal_appended(2)
    by (simp add: journal_sample_location_def torn_sample_def sample_journal_sizes journal_calm_def split: sum.splits)
qed

subsection \<open>Reconciliation\<close>

lemma prefix_anchor:
  assumes "journal_ok jc key_hex s" and "anchor_create key_hex = Inr origin" and "m \<le> length (rj_records s)"
  obtains a where "verify_records key_hex origin (take m (rj_records s)) = Some a" "unat (an_sequence a) = m"
    "anchor_is_prefix a (an_key_id (journal_anchor s)) (rj_records s)" "m = length (rj_records s) \<Longrightarrow> a = journal_anchor s"
proof -
  obtain origin' where chain: "anchor_create key_hex = Inr origin'"
      "verify_records key_hex origin' (rj_records s) = Some (journal_anchor s)"
    using journal_ok_anchor [OF assms(1)] by blast
  obtain a where a: "verify_records key_hex origin (take m (rj_records s)) = Some a"
      "verify_records key_hex a (drop m (rj_records s)) = Some (journal_anchor s)"
    using chain assms(2) verify_records_append [of key_hex origin "take m (rj_records s)" "drop m (rj_records s)"]
    by (cases "verify_records key_hex origin (take m (rj_records s))") auto
  have origin: "an_sequence origin = 0" "an_head_hmac origin = zero_digest"
    using assms(2) by (auto simp: anchor_create_def and_then_Inr)
  have m: "unat (an_sequence a) = m" "an_key_id a = an_key_id (journal_anchor s)"
    "an_head_hmac a = (if m = 0 then zero_digest else record_hmac (rj_records s ! (m - 1)))"
    using verify_records_anchor [OF a(1)] verify_records_anchor [OF a(2)] assms(3) origin
    by (auto simp: last_conv_nth min_def)
  show thesis
    using a m assms(3) by (intro that [OF a(1)]) (auto simp: anchor_is_prefix_def word_unat_eq_iff)
qed

lemma anchor_at_prefix:
  assumes "journal_ok jc key_hex s" and "anchor_is_prefix peer (an_key_id (journal_anchor s)) (rj_records s)"
    and "anchor_create key_hex = Inr origin"
  shows "verify_records key_hex origin (take (unat (an_sequence peer)) (rj_records s)) = Some peer"
proof -
  have len: "unat (an_sequence peer) \<le> length (rj_records s)"
    using assms(2) by (auto simp: anchor_is_prefix_def split: if_splits)
  obtain a where a: "verify_records key_hex origin (take (unat (an_sequence peer)) (rj_records s)) = Some a"
      "unat (an_sequence a) = unat (an_sequence peer)" "anchor_is_prefix a (an_key_id (journal_anchor s)) (rj_records s)"
    by (rule prefix_anchor [OF assms(1,3) len])
  have "a = peer"
    using a(2,3) assms(2) by (auto simp: anchor_is_prefix_def word_unat_eq_iff split: if_splits)
  then show ?thesis using a(1) by simp
qed

definition record_sequence :: "receipt_journal_record \<Rightarrow> u64" where
  "record_sequence r =
     (case jr_resource r of Some envelope \<Rightarrow> ar_sequence envelope | None \<Rightarrow> af_sequence (the (jr_refinement r)))"

lemma verify_journal_record_sequence:
  assumes "verify_journal_record r key_hex anchor = (Inr u, anchor')"
  shows "record_sequence r = an_sequence anchor + 1"
  using assms
  by (auto simp: verify_journal_record_def verify_receipt_audit_envelope_def record_sequence_def
      verify_refinement_receipt_audit_envelope_def Let_def split: option.splits sum.splits if_splits)

lemma verify_records_sequences:
  "verify_records key_hex anchor rs = Some anchor' \<Longrightarrow>
     map record_sequence rs = map (\<lambda>i. an_sequence anchor + 1 + of_nat i) [0..<length rs]"
proof (induction rs arbitrary: anchor)
  case (Cons r rs)
  obtain anchor1 u where v: "verify_journal_record r key_hex anchor = (Inr u, anchor1)"
      "verify_records key_hex anchor1 rs = Some anchor'"
    using Cons.prems by (auto split: prod.splits sum.splits)
  show ?case
    using Cons.IH [OF v(2)] verify_journal_record_anchor(2) [OF v(1)] verify_journal_record_sequence [OF v(1)]
    by (simp add: map_upt_Suc algebra_simps del: upt_Suc)
qed simp

lemma framed_by_all:
  assumes "framed_by holds rs body" and "\<And>payload r. holds payload r \<Longrightarrow> P r"
  shows "list_all P rs"
  using assms(1) by (induction rs arbitrary: body) (auto simp: framed_by_Cons dest: assms(2))

lemma journal_payload_valid: "journal_payload jc payload r \<Longrightarrow> valid_journal_record r"
  by (auto simp: journal_payload_def decode_journal_record_def valid_journal_record_def split: sum.splits if_splits)

text \<open>
  C14. A peer can reconcile from pages.  A page asked for at an anchor the journal recognises holds
  the next records behind it, as many as the limit allows, split by kind; their sequence numbers
  continue the anchor's without a gap, so that the two lists merge in one way; the peer that
  verifies them in that order arrives at an anchor the journal recognises again, strictly further
  when more is to come, and at the journal's own anchor when nothing is.
\<close>

theorem reconciliation_page:
  assumes "journal_faithful jc" and "journal_reachable jc key_hex s" and "page_after peer limit s = (Inr page, s')"
  shows "\<exists>selected peer'.
    jp_envelopes page = List.map_filter jr_resource selected \<and>
    jp_refinement_envelopes page = List.map_filter jr_refinement selected \<and>
    list_all valid_journal_record selected \<and>
    length selected = min limit (length (rj_records s) - unat (an_sequence peer)) \<and>
    map record_sequence selected = map (\<lambda>i. an_sequence peer + 1 + of_nat i) [0..<length selected] \<and>
    verify_records key_hex peer selected = Some peer' \<and>
    anchor_is_prefix peer' (an_key_id (journal_anchor s)) (rj_records s) \<and>
    jp_local_anchor page = journal_anchor s \<and>
    (if jp_has_more page then an_sequence peer < an_sequence peer' else peer' = journal_anchor s)"
proof -
  have ok: "journal_ok jc key_hex s" by (rule journal_reachable_ok [OF assms(2,1)])
  obtain s1 where usable: "journal_usable s = (None, s1)"
    using assms(3) by (auto simp: page_after_def split: if_splits prod.splits option.splits)
  have same: "rj_records s1 = rj_records s" "journal_anchor s1 = journal_anchor s" "\<not> rj_poisoned s"
      "ac_key_id (rj_chain s1) = an_key_id (journal_anchor s)"
    using journal_usable_laws [OF usable] by (auto simp: same_journal_def journal_anchor_def)
  define start where "start = unat (an_sequence peer)"
  define selected where "selected = take (min limit (length (rj_records s) - start)) (drop start (rj_records s))"
  have page: "limit \<noteq> 0" "anchor_is_prefix peer (an_key_id (journal_anchor s)) (rj_records s)"
      "jp_envelopes page = List.map_filter jr_resource selected"
      "jp_refinement_envelopes page = List.map_filter (\<lambda>r. if jr_resource r = None then jr_refinement r else None) selected"
      "jp_has_more page = (min limit (length (rj_records s) - start) < length (rj_records s) - start)"
      "jp_local_anchor page = journal_anchor s"
    using assms(3) usable same by (auto simp: page_after_def Let_def selected_def start_def split: if_splits)
  obtain origin where origin: "anchor_create key_hex = Inr origin"
    using journal_ok_anchor [OF ok] by blast
  have start: "start \<le> length (rj_records s)"
    using page(2) by (auto simp: anchor_is_prefix_def start_def split: if_splits)
  have len: "length selected = min limit (length (rj_records s) - start)" by (simp add: selected_def)
  obtain peer' where peer': "verify_records key_hex origin (take (start + length selected) (rj_records s)) = Some peer'"
      "unat (an_sequence peer') = start + length selected"
      "anchor_is_prefix peer' (an_key_id (journal_anchor s)) (rj_records s)"
      "start + length selected = length (rj_records s) \<Longrightarrow> peer' = journal_anchor s"
    using prefix_anchor [OF ok origin, of "start + length selected"] start len by (metis le_add_diff_inverse min.cobounded2 nat_add_left_cancel_le)
  have "take (start + length selected) (rj_records s) = take start (rj_records s) @ selected"
    by (simp add: take_add selected_def)
  then have verified: "verify_records key_hex peer selected = Some peer'"
    using peer'(1) anchor_at_prefix [OF ok page(2) origin] by (simp add: verify_records_append start_def)
  obtain body where "framed_by (journal_payload jc) (rj_records s) body"
    using ok same(3) by (auto simp: journal_ok_def journal_image_def)
  then have "list_all valid_journal_record (rj_records s)"
    by (rule framed_by_all [OF _ journal_payload_valid])
  then have valid: "list_all valid_journal_record selected"
    by (auto simp: selected_def list_all_iff dest: in_set_takeD in_set_dropD)
  then have "List.map_filter (\<lambda>r. if jr_resource r = None then jr_refinement r else None) selected =
      List.map_filter jr_refinement selected"
    by (induction selected) (auto simp: valid_journal_record_def List.map_filter_simps)
  moreover have "if jp_has_more page then an_sequence peer < an_sequence peer' else peer' = journal_anchor s"
    using page(1,5) peer'(2,4) start len by (auto simp: word_less_nat_alt start_def)
  ultimately show ?thesis
    using page(3,4,6) valid len verify_records_sequences [OF verified] verified peer'(3)
    by (intro exI [of _ selected] exI [of _ peer']) (simp add: start_def)
qed

lemma sample_journal_usable: "journal_usable sample_journal = (None, sample_journal)"
  by (rule journal_usable_calm [OF journal_reachable_ok [OF sample_journal_reachable sample_journal_faithful]
        sample_journal_appended(2)])

theorem reconciliation_page_witness:
  "\<exists>page. page_after sample_anchor 5 sample_journal = (Inr page, sample_journal) \<and> jp_envelopes page = [sample_envelope] \<and>
     (\<exists>selected. verify_records zero_digest sample_anchor selected = Some (journal_anchor sample_journal))"
proof -
  have key: "ac_key_id (rj_chain sample_journal) = ac_key_id sample_chain"
    using sample_journal_sizes(3) by (simp add: journal_anchor_def)
  have sample_fields: "jr_resource sample_journal_record = Some sample_envelope"
    by (simp add: sample_journal_record_def)
  have start: "anchor_is_prefix sample_anchor (ac_key_id sample_chain) [sample_journal_record]" "an_sequence sample_anchor = 0"
    using sample_sync by (simp_all add: anchor_is_prefix_def in_sync_def)
  obtain page where page: "page_after sample_anchor 5 sample_journal = (Inr page, sample_journal)"
      "jp_envelopes page = [sample_envelope]" "\<not> jp_has_more page"
    by (simp add: page_after_def max_receipt_reconciliation_page_def sample_journal_usable key sample_journal_sizes(4)
        start sample_fields List.map_filter_simps)
  show ?thesis
    using reconciliation_page [OF sample_journal_faithful sample_journal_reachable page(1)] page by auto
qed

subsection \<open>Lookup\<close>

lemma unique_match_reference:
  "unique_match message select found rs =
     (case (case found of None \<Rightarrow> [] | Some x \<Rightarrow> [x]) @ List.map_filter select rs of
        [] \<Rightarrow> Inr None | [x] \<Rightarrow> Inr (Some x) | _ \<Rightarrow> Inl message)"
  by (induction rs arbitrary: found)
    (auto simp: List.map_filter_simps split: option.splits list.splits)

text \<open>
  C15. The lookup of a terminal receipt never guesses: on a usable journal it answers the receipt
  of the execution when exactly one record carries one, nothing when none does, and an error when
  several do; and once an append for an execution without a receipt has answered an envelope, the
  lookup answers that envelope.
\<close>

theorem terminal_lookup_exact:
  assumes "journal_faithful jc" and "journal_reachable jc key_hex s"
    and "lookup_binding_ok session_id plan profile" and "journal_usable s = (None, s1)"
  shows "terminal_for_execution session_id plan profile s =
      (case List.map_filter (resource_for session_id plan profile) (rj_records s) of
         [] \<Rightarrow> Inr None | [envelope] \<Rightarrow> Inr (Some envelope)
       | _ \<Rightarrow> Inl ''multiple terminal receipts exist for one execution'', s1) \<and>
    (case journal_append jc session_id plan receipt s of
       (Inl e, s') \<Rightarrow> True
     | (Inr envelope, s') \<Rightarrow>
         fst (terminal_for_execution session_id plan profile s) = Inr None \<and> rr_profile_digest receipt = profile \<and>
         fst (journal_usable s') = None \<longrightarrow>
         fst (terminal_for_execution session_id plan profile s') = Inr (Some envelope))"
proof -
  have answer: "terminal_for_execution session_id plan profile t =
      (case List.map_filter (resource_for session_id plan profile) (rj_records t) of
         [] \<Rightarrow> Inr None | [envelope] \<Rightarrow> Inr (Some envelope)
       | _ \<Rightarrow> Inl ''multiple terminal receipts exist for one execution'', t1)" if "journal_usable t = (None, t1)" for t t1
    using that assms(3) journal_usable_laws(1) [OF that]
    by (simp add: terminal_for_execution_def unique_match_reference same_journal_def)
  have ok: "journal_ok jc key_hex s" by (rule journal_reachable_ok [OF assms(2,1)])
  obtain result s' where run: "journal_append jc session_id plan receipt s = (result, s')" by fastforce
  have "fst (terminal_for_execution session_id plan profile s') = Inr (Some envelope)"
    if appended: "result = Inr envelope" and none: "fst (terminal_for_execution session_id plan profile s) = Inr None"
      and profile: "rr_profile_digest receipt = profile" and usable: "fst (journal_usable s') = None" for envelope
  proof -
    have records: "rj_records s' = rj_records s @
        [\<lparr>jr_kind = ''resource_enforcement_v1'', jr_resource = Some envelope, jr_refinement = None\<rparr>]"
      using journal_append_laws [OF ok run] appended by (auto simp: journal_extends_def)
    have bound: "ar_session_id envelope = session_id" "ar_controller_plan_digest envelope = plan" "ar_receipt envelope = receipt"
      using run appended by (cases rule: journal_append_cases; auto simp: chain_append_def Let_def split: if_splits sum.splits)+
    have "List.map_filter (resource_for session_id plan profile) (rj_records s) = []"
      using none answer [OF assms(4)] by (auto split: list.splits)
    then have "List.map_filter (resource_for session_id plan profile) (rj_records s') = [envelope]"
      using records bound profile by (simp add: List.map_filter_def resource_for_def)
    then show ?thesis
      using answer [of s' "snd (journal_usable s')"] usable by (metis fst_conv list.simps(4,5) prod.collapse)
  qed
  then show ?thesis
    using answer [OF assms(4)] run by (auto split: sum.splits)
qed

theorem terminal_lookup_exact_witness:
  "fst (terminal_for_execution ''s'' zero_digest zero_digest sample_journal) = Inr (Some sample_envelope)"
proof -
  have binding: "lookup_binding_ok ''s'' zero_digest zero_digest"
    by (simp add: lookup_binding_ok_def valid_identifier_def identifier_byte_def byte_of_def)
  have profile: "rr_profile_digest sample_receipt = zero_digest" by (simp add: sample_receipt_def)
  have "journal_usable sample_new_journal = (None, sample_new_journal)"
    by (rule journal_usable_calm [OF journal_reachable_ok [OF sample_new_journal_reachable sample_journal_faithful]
          sample_new_journal(2)])
  then show ?thesis
    using terminal_lookup_exact [OF sample_journal_faithful sample_new_journal_reachable binding, of sample_new_journal sample_receipt]
    by (simp add: sample_journal_appended sample_journal_usable sample_new_journal(6) List.map_filter_simps profile)
qed

subsection \<open>The end of the scan\<close>






end
