(* ===== verification/Reconciliation_Laws.thy ===== *)
theory Reconciliation_Laws
  imports Session_Reconciliation Journal_Theorems
begin

text \<open>
  What the pieces of the reconciliation do: a terminal transition that succeeds closes exactly its
  session, a lookup finds the receipt the journal holds or shows that there is none, and the questions
  to the producer leave its journal alone.
\<close>

subsection \<open>Terminal transitions\<close>

lemma terminal_record_current:
  assumes "historic s" and "r \<in> set (reg_records s)" and "\<not> is_observation r" and "p_session_id r = session_id"
    and "p_state r \<in> {''exited'', ''failed''}"
  shows "current_session s session_id = Some r"
proof -
  let ?of = "lifecycle_records (reg_records s) session_id"
  have "r \<in> set ?of" using assms(2-4) by (simp add: lifecycle_records_def)
  then obtain xs ys where split: "?of = xs @ r # ys" by (auto dest: split_list)
  have "lifecycle_path (map p_state (xs @ [r]) @ map p_state ys)"
    using assms(1) [unfolded historic_def history_def, rule_format, of session_id] split by simp
  then have "map p_state ys = []"
    by (rule lifecycle_terminal) (use assms(5) in auto)
  then have "last ?of = r" "?of \<noteq> []" using split by auto
  then show ?thesis using assms(1) by (simp add: historic_def history_def)
qed

lemma committed_current:
  assumes "index_ok s" and "acceptable jc s r" and "committed jc s r s'" and "\<not> is_observation r"
  shows "\<exists>h. \<forall>session_id. current_session s' session_id =
    (if session_id = p_session_id r then Some (r\<lparr>p_this_hash := h\<rparr>) else current_session s session_id)"
proof -
  obtain h where h: "hash_record r = Inr h" "same_index (index_appended s (r\<lparr>p_this_hash := h\<rparr>)) s'"
    using assms(3) by (auto simp: committed_def split: sum.splits)
  then obtain s1 where s1: "accept_recovered_record jc s (r\<lparr>p_this_hash := h\<rparr>) (last_hash s) = Inr s1"
      "same_index s1 (index_appended s (r\<lparr>p_this_hash := h\<rparr>))"
    using assms(2) unfolding acceptable_def by blast
  have "is_observation (r\<lparr>p_this_hash := h\<rparr>) = is_observation r" by (simp add: is_observation_def)
  moreover have "current_session s' = current_session s1"
    using current_session_cong [OF h(2)] current_session_cong [OF s1(2)] by simp
  ultimately show ?thesis
    using accepted_sessions(1) [OF s1(1) assms(1)] assms(4) by (intro exI [of _ h] allI) simp
qed

text \<open>A session in flight is closed by any transition that answers a terminal record: the answer
  cannot be a replay, because a session with a terminal record is no longer in flight.\<close>

lemma closing_transition:
  assumes wf: "well_formed jc s"
    and step: "transition jc (locked s (\<lambda>s1. (find_replay s1 key matches conflict project, s1))) plan respond = (Inr x, s')"
    and current: "current_session s session_id = Some prior" "may_hold_process prior"
    and replayed: "\<And>r x. matches r \<Longrightarrow> project r = Inr x \<Longrightarrow>
      p_session_id r = session_id \<and> \<not> is_observation r \<and> p_state r = state"
    and terminal: "state \<in> {''exited'', ''failed''}"
    and planned: "\<And>s1 r s2. same_index s s1 \<Longrightarrow> index_ok s1 \<Longrightarrow> reg_requests s1 key = None \<Longrightarrow> plan s1 = (Inr r, s2) \<Longrightarrow>
      acceptable jc s1 r \<and> s2 = s1 \<and> p_session_id r = session_id \<and> \<not> is_observation r \<and> p_state r = state"
  shows "\<exists>r. p_state r = state \<and> current_session s' = (current_session s)(session_id \<mapsto> r)"
proof -
  obtain found s1 where l: "locked s (\<lambda>s1. (find_replay s1 key matches conflict project, s1)) = (found, s1)"
    by fastforce
  have "\<nexists>e. found = Inl e" using step by (auto simp: transition_def l)
  then have s1: "rolled_back s s1" "same_index s s1" "\<not> reg_poisoned s" "\<not> reg_poisoned s1"
      and found: "find_replay s1 key matches conflict project = found"
    using locked_laws [OF l] by auto
  have wf1: "well_formed jc s1" by (rule well_formed_rolled_back [OF wf s1(3,1)])
  note ok = index_okD [OF well_formedD(1) [OF wf1]]
  have historic: "historic s1" using wf1 replayable_historic by (auto simp: well_formed_def)
  have same: "current_session s1 = current_session s" by (rule current_session_cong [OF s1(2)])
  show ?thesis
  proof (cases "reg_requests s1 key")
    case (Some i)
    then obtain y where "matches (reg_records s1 ! i)" "project (reg_records s1 ! i) = Inr y"
      using found \<open>\<nexists>e. found = Inl e\<close> by (auto simp: find_replay_def Let_def and_then_def split: if_splits sum.splits)
    from replayed [OF this] have "current_session s1 session_id = Some (reg_records s1 ! i)"
      using terminal ok(3) [OF Some] by (intro terminal_record_current [OF historic]) auto
    moreover have "p_state (reg_records s1 ! i) = state"
      using replayed [OF \<open>matches _\<close> \<open>project _ = _\<close>] by simp
    ultimately have False using current terminal same by (auto simp: may_hold_process_def)
    then show ?thesis ..
  next
    case None
    then have none: "found = Inr None" using found by (simp add: find_replay_def)
    obtain q s2 where q: "plan s1 = (q, s2)" by fastforce
    obtain r where r: "q = Inr r" using step by (cases q) (auto simp: transition_def l none q)
    note law = planned [OF s1(2) well_formedD(1) [OF wf1] None, of r s2]
    obtain a s3 where a: "append_record_locked jc s1 r = (a, s3)" by fastforce
    have "s2 = s1" using law q r by simp
    then have out: "s' = s3" "\<nexists>e. a = Inl e"
      using step by (auto simp: transition_def l none q r a split: sum.splits)
    then have "committed jc s1 r s'"
      using append_record_locked_laws [OF a well_formedD(5) [OF wf1 s1(4)]] by auto
    from committed_current [OF well_formedD(1) [OF wf1] _ this] law q r obtain h where
      "\<forall>id. current_session s' id = (if id = p_session_id r then Some (r\<lparr>p_this_hash := h\<rparr>) else current_session s1 id)"
      by blast
    then have "current_session s' = (current_session s)(session_id \<mapsto> r\<lparr>p_this_hash := h\<rparr>)"
      using law q r same by auto
    moreover have "p_state (r\<lparr>p_this_hash := h\<rparr>) = state" using law q r by simp
    ultimately show ?thesis by blast
  qed
qed

lemma launched_successor_keys:
  "p_session_id (launched_successor s r operation key digest state) = p_session_id r"
  "p_operation (launched_successor s r operation key digest state) = operation"
  "p_state (launched_successor s r operation key digest state) = state"
  by (simp_all add: launched_successor_def authorized_successor_def successor_def)

lemma mark_failed_closes:
  assumes wf: "well_formed jc s" and step: "mark_failed jc c key now_ms s = (Inr x, s')"
    and current: "current_session s (fc_session_id c) = Some prior" "may_hold_process prior"
    and direct: "p_managed_runtime_identity prior = None"
  shows "\<exists>r. p_state r = ''failed'' \<and> current_session s' = (current_session s)(fc_session_id c \<mapsto> r)"
proof -
  from step obtain digest respond where ok: "failure_request_ok c key now_ms" "hash_failure_commitment c = Inr digest"
    and t: "transition jc (find_failure_replay_locked c digest key s) (mark_failed_plan c digest key now_ms) respond = (Inr x, s')"
    by (auto simp: mark_failed_def split: if_splits sum.splits)
  show ?thesis
  proof (rule closing_transition [OF wf t [unfolded find_failure_replay_locked_def] current])
    fix s1 r s2
    assume s1: "same_index s s1" "index_ok s1" "reg_requests s1 key = None" "mark_failed_plan c digest key now_ms s1 = (Inr r, s2)"
    have "p_managed_runtime_identity p = None" if "current_session s1 (fc_session_id c) = Some p" for p
      using that current(1) direct current_session_cong [OF s1(1)] by simp
    note acceptable = mark_failed_acceptable [OF s1(2,4) ok this s1(3)]
    have "p_session_id r = fc_session_id c \<and> \<not> is_observation r \<and> p_state r = ''failed''"
      using s1(4)
      by (auto simp: mark_failed_plan_def launched_successor_keys is_observation_def
          split: if_splits option.splits)
    then show "acceptable jc s1 r \<and> s2 = s1 \<and> p_session_id r = fc_session_id c \<and> \<not> is_observation r \<and> p_state r = ''failed''"
      using acceptable by blast
  qed (auto simp: failed_record_from_wire_def is_observation_def Let_def split: option.splits if_splits)
qed

lemma mark_exited_closes:
  assumes wf: "well_formed jc s" and step: "mark_exited jc producer t key s = (Inr x, s')"
    and current: "current_session s (ar_session_id t) = Some prior" "may_hold_process prior"
  shows "\<exists>r. p_state r = ''exited'' \<and> current_session s' = (current_session s)(ar_session_id t \<mapsto> r)"
proof -
  from step obtain digest respond where ok: "terminal_request_ok t key" "hash_terminal_envelope t = Inr digest"
    and t: "transition jc (find_exited_replay_locked t digest key s) (mark_exited_plan jc t digest key) respond = (Inr x, s')"
    by (auto simp: mark_exited_def split: if_splits sum.splits)
  show ?thesis
  proof (rule closing_transition [OF wf t [unfolded find_exited_replay_locked_def] current])
    fix s1 r s2
    assume s1: "same_index s s1" "index_ok s1" "reg_requests s1 key = None" "mark_exited_plan jc t digest key s1 = (Inr r, s2)"
    have "p_session_id r = ar_session_id t \<and> \<not> is_observation r \<and> p_state r = ''exited''"
      using s1(4)
      by (auto simp: mark_exited_plan_def launched_successor_keys is_observation_def
          split: if_splits option.splits)
    then show "acceptable jc s1 r \<and> s2 = s1 \<and> p_session_id r = ar_session_id t \<and> \<not> is_observation r \<and> p_state r = ''exited''"
      using mark_exited_acceptable [OF s1(2,4) ok s1(3)] by blast
  qed (auto simp: exited_record_from_wire_def is_observation_def split: option.splits if_splits)
qed

lemma mark_refinement_exited_closes:
  assumes wf: "well_formed jc s" and step: "mark_refinement_exited jc producer t key s = (Inr x, s')"
    and current: "current_session s (af_session_id t) = Some prior" "may_hold_process prior"
  shows "\<exists>r. p_state r = ''exited'' \<and> current_session s' = (current_session s)(af_session_id t \<mapsto> r)"
proof -
  from step obtain digest respond where ok: "refinement_terminal_request_ok t key" "hash_refinement_terminal_envelope t = Inr digest"
    and t: "transition jc (find_refinement_exited_replay_locked t digest key s) (mark_refinement_exited_plan jc t digest key) respond = (Inr x, s')"
    by (auto simp: mark_refinement_exited_def split: if_splits sum.splits)
  show ?thesis
  proof (rule closing_transition [OF wf t [unfolded find_refinement_exited_replay_locked_def] current])
    fix s1 r s2
    assume s1: "same_index s s1" "index_ok s1" "reg_requests s1 key = None" "mark_refinement_exited_plan jc t digest key s1 = (Inr r, s2)"
    have "p_session_id r = af_session_id t \<and> \<not> is_observation r \<and> p_state r = ''exited''"
      using s1(4)
      by (auto simp: mark_refinement_exited_plan_def copied_successor_def is_observation_def Let_def
          split: if_splits option.splits)
    then show "acceptable jc s1 r \<and> s2 = s1 \<and> p_session_id r = af_session_id t \<and> \<not> is_observation r \<and> p_state r = ''exited''"
      using mark_refinement_exited_acceptable [OF s1(2,4) ok s1(3)] by blast
  qed (auto simp: exited_record_from_wire_def is_observation_def split: option.splits if_splits)
qed

subsection \<open>Receipts\<close>

text \<open>Whether the journal of a producer holds a receipt of the kind that closes a candidate.\<close>

definition terminal_receipt :: "session_recovery_record \<Rightarrow> audit_producer \<Rightarrow> bool" where
  "terminal_receipt c p =
     (let session_id = s_session_id (rx_session c); plan = s_controller_plan_digest (rx_session c);
          profile = rx_profile_digest c in
      \<exists>x \<in> set (rj_records (ap_journal p)).
        if rx_requires_refinement_receipt c then refinement_for session_id plan profile x \<noteq> None
        else resource_for session_id plan profile x \<noteq> None)"

lemma unique_match_found:
  assumes "unique_match message select None rs = Inr found"
  shows "found = None \<longleftrightarrow> (\<forall>r \<in> set rs. select r = None)" "found = Some x \<Longrightarrow> \<exists>r \<in> set rs. select r = Some x"
proof -
  have "set (List.map_filter select rs) = {y. \<exists>r \<in> set rs. select r = Some y}"
    by (induction rs) (auto simp: List.map_filter_simps split: option.splits)
  then show "found = None \<longleftrightarrow> (\<forall>r \<in> set rs. select r = None)" "found = Some x \<Longrightarrow> \<exists>r \<in> set rs. select r = Some x"
    using assms unfolding unique_match_reference by (auto split: list.splits) (metis not_None_eq)
qed

definition same_receipts :: "audit_producer \<Rightarrow> audit_producer \<Rightarrow> bool" where
  "same_receipts p p' = (rj_records (ap_journal p') = rj_records (ap_journal p))"

lemma same_receipts_refl [simp]: "same_receipts p p"
  by (simp add: same_receipts_def)

lemma same_receipts_trans: "same_receipts p q \<Longrightarrow> same_receipts q r \<Longrightarrow> same_receipts p r"
  by (simp add: same_receipts_def)

lemma terminal_receipt_cong: "same_receipts p p' \<Longrightarrow> terminal_receipt c p' = terminal_receipt c p"
  by (simp add: same_receipts_def terminal_receipt_def)

lemma on_journal_receipts:
  "journal_kept (ap_journal p) (snd (ask (ap_journal p))) \<Longrightarrow> same_receipts p (snd (on_journal ask p))"
  by (auto simp: same_receipts_def on_journal_def journal_kept_def same_journal_def split: prod.splits)

lemma producer_receipts:
  "same_receipts p (snd (producer_confirms_terminal r p))" "same_receipts p (snd (producer_confirms_refinement_terminal e p))"
  "same_receipts p (snd (producer_terminal_for_execution session_id plan profile p))"
  "same_receipts p (snd (producer_refinement_terminal_for_execution session_id plan profile p))"
  unfolding producer_confirms_terminal_def producer_confirms_refinement_terminal_def
    producer_terminal_for_execution_def producer_refinement_terminal_for_execution_def
  by (intro on_journal_receipts queries_kept)+

lemma confirmed_receipts: "same_receipts p (confirmed_producer t key p)"
  by (cases t) (simp_all add: confirmed_producer_def producer_receipts)

definition terminal_session_id :: "durable_terminal \<Rightarrow> string" where
  "terminal_session_id t = (case t of Resource_terminal r \<Rightarrow> ar_session_id r | Refinement_terminal r \<Rightarrow> af_session_id r)"

lemma resource_for_session: "resource_for session_id plan profile x = Some t \<Longrightarrow> ar_session_id t = session_id"
  by (auto simp: resource_for_def split: option.splits if_splits)

lemma refinement_for_session: "refinement_for session_id plan profile x = Some t \<Longrightarrow> af_session_id t = session_id"
  by (auto simp: refinement_for_def split: option.splits if_splits)

lemma terminal_lookup_answer:
  assumes "producer_terminal_for_execution session_id plan profile p = (Inr found, p1)"
  shows "unique_match ''multiple terminal receipts exist for one execution''
    (resource_for session_id plan profile) None (rj_records (ap_journal p)) = Inr found"
  using assms journal_usable_laws(1) [of "ap_journal p"]
  by (auto simp: producer_terminal_for_execution_def on_journal_def terminal_for_execution_def same_journal_def
      split: if_splits prod.splits option.splits)

lemma refinement_lookup_answer:
  assumes "producer_refinement_terminal_for_execution session_id plan profile p = (Inr found, p1)"
  shows "unique_match ''multiple refinement receipts exist for one execution''
    (refinement_for session_id plan profile) None (rj_records (ap_journal p)) = Inr found"
  using assms journal_usable_laws(1) [of "ap_journal p"]
  by (auto simp: producer_refinement_terminal_for_execution_def on_journal_def refinement_terminal_for_execution_def
      same_journal_def split: if_splits prod.splits option.splits)

lemma lookup_terminal_laws:
  assumes "lookup_terminal c p = (result, p1)"
  shows "same_receipts p p1" "result = Inr None \<Longrightarrow> \<not> terminal_receipt c p"
    "result = Inr (Some t) \<Longrightarrow> terminal_receipt c p \<and> terminal_session_id t = s_session_id (rx_session c)"
proof -
  let ?id = "s_session_id (rx_session c)" and ?plan = "s_controller_plan_digest (rx_session c)" and ?profile = "rx_profile_digest c"
  show "same_receipts p p1"
    using assms producer_receipts(3) [of p ?id ?plan ?profile] producer_receipts(4) [of p ?id ?plan ?profile]
    by (auto simp: lookup_terminal_def Let_def split: if_splits sum.splits prod.splits)
  have answers: "(result = Inr None \<longrightarrow> \<not> terminal_receipt c p) \<and>
      (\<forall>t. result = Inr (Some t) \<longrightarrow> terminal_receipt c p \<and> terminal_session_id t = ?id)"
  proof (cases "rx_requires_refinement_receipt c")
    case True
    obtain found q where q: "producer_refinement_terminal_for_execution ?id ?plan ?profile p = (found, q)" by fastforce
    show ?thesis
      using assms q True refinement_lookup_answer [of ?id ?plan ?profile p]
      by (cases found)
        (fastforce simp: lookup_terminal_def Let_def terminal_receipt_def terminal_session_id_def dest: unique_match_found refinement_for_session)+
  next
    case False
    obtain found q where q: "producer_terminal_for_execution ?id ?plan ?profile p = (found, q)" by fastforce
    show ?thesis
      using assms q False terminal_lookup_answer [of ?id ?plan ?profile p]
      by (cases found)
        (fastforce simp: lookup_terminal_def Let_def terminal_receipt_def terminal_session_id_def dest: unique_match_found resource_for_session)+
  qed
  then show "result = Inr None \<Longrightarrow> \<not> terminal_receipt c p"
    "result = Inr (Some t) \<Longrightarrow> terminal_receipt c p \<and> terminal_session_id t = s_session_id (rx_session c)"
    by blast+
qed

end
