(* ===== verification/Reconciliation_Sample.thy ===== *)
theory Reconciliation_Sample
  imports Reconciliation_Laws
begin

text \<open>
  A registry with a running session for the witness of the reconciliation: four records, from the
  creation to the launch, in a file that the supervisor opens when it restarts.  Digests stay symbolic.
\<close>

definition digest_value :: "string expected \<Rightarrow> string" where
  "digest_value x = (case x of Inr d \<Rightarrow> d | Inl _ \<Rightarrow> [])"

definition flight_cgroup :: linux_cgroup_recovery_identity where
  "flight_cgroup = \<lparr>cg_schema_version = 1, cg_device = 3, cg_inode = 4\<rparr>"

definition flight_filesystem :: linux_filesystem_recovery_identity where
  "flight_filesystem = \<lparr>fs_schema_version = 1, fs_disk_limit_bytes = 10, fs_partitions = []\<rparr>"

definition preparing_at :: "string \<Rightarrow> string \<Rightarrow> persisted_session" where
  "preparing_at request previous = sample_record0
     \<lparr>p_sequence := 2, p_operation := ''reserve_start'', p_idempotency_key := ''k2'', p_state := ''preparing'',
      p_authorization_id := ''a1'', p_authorized_at_ms := 6, p_authorization_expires_at_ms := 50,
      p_request_digest := request, p_previous_hash := previous\<rparr>"

definition starting_at :: "string \<Rightarrow> string \<Rightarrow> persisted_session" where
  "starting_at request previous = (preparing_at request previous)
     \<lparr>p_sequence := 3, p_operation := ''mark_starting'', p_idempotency_key := ''k3'', p_state := ''starting'',
      p_launch_profile_digest := sample_digest, p_starting_at_ms := 7, p_cgroup_identity := Some flight_cgroup,
      p_filesystem_identity := Some flight_filesystem\<rparr>"

definition running_at :: "string \<Rightarrow> string \<Rightarrow> persisted_session" where
  "running_at request previous = (starting_at request previous)
     \<lparr>p_sequence := 4, p_operation := ''mark_running'', p_idempotency_key := ''k4'', p_state := ''running'',
      p_running_at_ms := 8, p_process_identity_schema_version := 1, p_process_pid := 9,
      p_process_boot_id := ''aaaaaaaa-aaaa-aaaa-aaaa-aaaaaaaaaaaa'', p_process_start_time_ticks := 1,
      p_process_cgroup_device := 3, p_process_cgroup_inode := 4, p_process_cgroup_path_digest := sample_digest\<rparr>"

lemmas flight_records = preparing_at_def starting_at_def running_at_def sample_record0_def blank_session_def
  flight_cgroup_def flight_filesystem_def

lemmas flight_material = record_material_def launch_section_def process_section_def failure_section_def stop_section_def
  terminal_section_def intent_section_def append_string_def append_u64_enc append_u32_enc append_u8_def
  bytes_of_string_def zero_digest_def Let_def append_cgroup_identity_def append_filesystem_identity_def
  append_managed_runtime_identity_def append_partitions.simps

lemma hash_defined:
  "\<exists>m. material = Inr m \<and> length m \<le> 2 ^ 61 - 1 \<Longrightarrow> \<exists>h. and_then material sha256_hex = Inr h"
  by (auto simp: sha256_hex_cases)

lemma flight_hashes:
  assumes "length request = 64" and "length previous = 64"
  shows "\<exists>h. hash_record (preparing_at request previous) = Inr h" "\<exists>h. hash_record (starting_at request previous) = Inr h"
    "\<exists>h. hash_record (running_at request previous) = Inr h"
  unfolding hash_record_def
  by (intro hash_defined, simp add: flight_records flight_material assms)+

definition flight_process :: linux_process_identity where
  "flight_process =
     \<lparr>pi_schema_version = 1, pi_pid = 9, pi_boot_id = ''aaaaaaaa-aaaa-aaaa-aaaa-aaaaaaaaaaaa'',
      pi_start_time_ticks = 1, pi_cgroup_device = 3, pi_cgroup_inode = 4, pi_cgroup_path_digest = sample_digest\<rparr>"

lemma flight_process_valid: "valid_process_identity flight_process"
  using sample_request(3)
  by (simp add: valid_process_identity_def flight_process_def valid_boot_id_def enumerate_eq_zip upt_conv_Cons hex_byte_def byte_of_def)

lemma flight_process_wire [simp]: "process_identity_from_wire (running_at request previous) = Some flight_process"
proof -
  have "wire_process_identity (running_at request previous) = flight_process"
    by (simp add: wire_process_identity_def running_at_def flight_process_def)
  then show ?thesis by (simp add: process_identity_from_wire_def flight_process_valid)
qed

lemma flight_running_base:
  "p_managed_runtime_identity (running_at request previous) = None" "p_operation (running_at request previous) = ''mark_running''"
  "p_filesystem_identity (running_at request previous) = Some flight_filesystem"
  by (simp_all add: running_at_def starting_at_def preparing_at_def sample_record0_def blank_session_def)

lemma running_digest_at:
  "running_digest (running_at request previous) =
     hash_running_commitment (wire_running (running_at [] []) flight_process flight_filesystem)"
proof -
  have "wire_running (running_at request previous) flight_process flight_filesystem =
      wire_running (running_at [] []) flight_process flight_filesystem"
    by (simp add: wire_running_def flight_records)
  then show ?thesis by (simp add: running_digest_def flight_running_base)
qed

lemma flight_commitments:
  "\<exists>d. hash_start_authorization (wire_start_authorization (preparing_at request previous)) = Inr d"
  "\<exists>d. starting_digest (starting_at request previous) = Inr d"
  "\<exists>d. running_digest (running_at request previous) = Inr d"
proof -
  show "\<exists>d. hash_start_authorization (wire_start_authorization (preparing_at request previous)) = Inr d"
    unfolding hash_start_authorization_def
    by (intro hash_defined) (simp add: start_authorization_material_def wire_start_authorization_def flight_records flight_material)
  show "\<exists>d. starting_digest (starting_at request previous) = Inr d"
    unfolding starting_digest_def hash_execution_binding_def
    by (simp add: flight_records) (intro hash_defined, simp add: execution_binding_material_def flight_material)
  show "\<exists>d. running_digest (running_at request previous) = Inr d"
    unfolding running_digest_at hash_running_commitment_def
    by (intro hash_defined) (simp add: running_material_def wire_running_def flight_process_def flight_records flight_material)
qed

subsection \<open>The chain of records\<close>

definition flight_preparing :: persisted_session where
  "flight_preparing =
     (let r = preparing_at (digest_value (hash_start_authorization (wire_start_authorization (preparing_at [] [])))) sample_hash
      in r\<lparr>p_this_hash := digest_value (hash_record r)\<rparr>)"

definition flight_starting :: persisted_session where
  "flight_starting =
     (let r = starting_at (digest_value (starting_digest (starting_at [] []))) (p_this_hash flight_preparing)
      in r\<lparr>p_this_hash := digest_value (hash_record r)\<rparr>)"

definition flight_running :: persisted_session where
  "flight_running =
     (let r = running_at (digest_value (running_digest (running_at [] []))) (p_this_hash flight_starting)
      in r\<lparr>p_this_hash := digest_value (hash_record r)\<rparr>)"

lemma commitments_independent:
  "wire_start_authorization (preparing_at request previous) = wire_start_authorization (preparing_at [] [])"
  "starting_digest (starting_at request previous) = starting_digest (starting_at [] [])"
  "running_digest (running_at request previous) = running_digest (running_at [] [])"
proof -
  show "wire_start_authorization (preparing_at request previous) = wire_start_authorization (preparing_at [] [])"
    "starting_digest (starting_at request previous) = starting_digest (starting_at [] [])"
    by (simp_all add: wire_start_authorization_def starting_digest_def flight_records)
  show "running_digest (running_at request previous) = running_digest (running_at [] [])"
    by (simp only: running_digest_at)
qed

lemma flight_chain:
  obtains d2 d3 d4 where
    "flight_preparing = (preparing_at d2 sample_hash)\<lparr>p_this_hash := p_this_hash flight_preparing\<rparr>"
    "flight_starting = (starting_at d3 (p_this_hash flight_preparing))\<lparr>p_this_hash := p_this_hash flight_starting\<rparr>"
    "flight_running = (running_at d4 (p_this_hash flight_starting))\<lparr>p_this_hash := p_this_hash flight_running\<rparr>"
    "hash_start_authorization (wire_start_authorization (preparing_at [] [])) = Inr d2" "starting_digest (starting_at [] []) = Inr d3"
    "running_digest (running_at [] []) = Inr d4"
    "hash_record (preparing_at d2 sample_hash) = Inr (p_this_hash flight_preparing)"
    "hash_record (starting_at d3 (p_this_hash flight_preparing)) = Inr (p_this_hash flight_starting)"
    "hash_record (running_at d4 (p_this_hash flight_starting)) = Inr (p_this_hash flight_running)"
    "valid_digest d2" "valid_digest d3" "valid_digest d4"
    "valid_digest (p_this_hash flight_preparing)" "valid_digest (p_this_hash flight_starting)" "valid_digest (p_this_hash flight_running)"
proof -
  have long: "valid_digest v \<Longrightarrow> length v = 64" for v by (simp add: valid_digest_def)
  note sealed = hash_valid_digest(1)
  obtain d2 d3 d4 where d: "hash_start_authorization (wire_start_authorization (preparing_at [] [])) = Inr d2"
      "starting_digest (starting_at [] []) = Inr d3" "running_digest (running_at [] []) = Inr d4"
    using flight_commitments [of "[]" "[]"] by blast
  have vd: "valid_digest d2" by (rule hash_valid_digest(3) [OF d(1)])
  have vd': "valid_digest d3"
    using d(2) by (intro hash_valid_digest(4)) (auto simp: starting_digest_def flight_records)
  have vd'': "valid_digest d4"
    using d(3) unfolding running_digest_at by (rule hash_valid_digest(5))
  obtain h2 where h2: "hash_record (preparing_at d2 sample_hash) = Inr h2"
    using flight_hashes(1) [OF long [OF vd] long [OF sealed [OF sample_hash]]] by blast
  have p2: "p_this_hash flight_preparing = h2" "flight_preparing = (preparing_at d2 sample_hash)\<lparr>p_this_hash := h2\<rparr>"
    by (simp_all add: flight_preparing_def digest_value_def d(1) h2 Let_def)
  obtain h3 where h3: "hash_record (starting_at d3 h2) = Inr h3"
    using flight_hashes(2) [OF long [OF vd'] long [OF sealed [OF h2]]] by blast
  have p3: "p_this_hash flight_starting = h3" "flight_starting = (starting_at d3 h2)\<lparr>p_this_hash := h3\<rparr>"
    by (simp_all add: flight_starting_def digest_value_def d(2) p2(1) h3 Let_def)
  obtain h4 where h4: "hash_record (running_at d4 h3) = Inr h4"
    using flight_hashes(3) [OF long [OF vd''] long [OF sealed [OF h3]]] by blast
  have p4: "p_this_hash flight_running = h4" "flight_running = (running_at d4 h3)\<lparr>p_this_hash := h4\<rparr>"
    by (simp_all add: flight_running_def digest_value_def d(3) p3(1) h4 Let_def)
  show thesis
    by (rule that [of d2 d3 d4]) (use p2 p3 p4 d vd vd' vd'' h2 h3 h4 sealed in simp_all)
qed

subsection \<open>Recovery accepts the chain\<close>

lemma flight_identifiers:
  "valid_identifier ''k1''" "valid_identifier ''k2''" "valid_identifier ''k3''" "valid_identifier ''k4''" "valid_identifier ''s1''"
  "valid_identifier ''a1''" "valid_identifier ''create''" "valid_identifier ''reserve_start''" "valid_identifier ''mark_starting''"
  "valid_identifier ''mark_running''"
  by (simp_all add: valid_identifier_def identifier_byte_def byte_of_def)

lemma flight_plan: "valid_digest sample_plan_digest" "valid_digest sample_digest" "valid_digest sample_hash" "valid_digest zero_digest"
  using hash_valid_digest(2) [OF sample_hash_plan] sample_request(3) hash_valid_digest(1) [OF sample_hash]
  by (simp_all add: valid_digest_def zero_digest_def hex_byte_def byte_of_def list_all_iff)

lemmas flight_shape = valid_record_shape_def common_shape_def no_terminal_receipt_def no_resource_identity_def no_process_identity_def
  authorization_shape_def started_shape_def prepared_resources_def valid_cgroup_identity_def valid_filesystem_identity_def
  state_from_wire_def max_start_authorization_ttl_ms_def max_record_payload_bytes_def flight_identifiers flight_plan

lemma flight_shapes:
  assumes "valid_digest d" and "valid_digest p" and "valid_digest h"
  shows "valid_record_shape (sample_record0\<lparr>p_this_hash := h\<rparr>) 1" "valid_record_shape ((preparing_at d p)\<lparr>p_this_hash := h\<rparr>) 2"
    "valid_record_shape ((starting_at d p)\<lparr>p_this_hash := h\<rparr>) 3" "valid_record_shape ((running_at d p)\<lparr>p_this_hash := h\<rparr>) 4"
proof -
  show "valid_record_shape (sample_record0\<lparr>p_this_hash := h\<rparr>) 1" "valid_record_shape ((preparing_at d p)\<lparr>p_this_hash := h\<rparr>) 2"
    "valid_record_shape ((starting_at d p)\<lparr>p_this_hash := h\<rparr>) 3"
    using assms by (simp_all add: flight_shape flight_records Let_def)
  have "running_shape ((running_at d p)\<lparr>p_this_hash := h\<rparr>)"
  proof -
    have "process_in_cgroup (running_at d p)"
      by (simp add: process_in_cgroup_def) (simp add: flight_records flight_process_def)
    then show ?thesis
      by (simp add: running_shape_def) (simp add: flight_shape flight_records)
  qed
  then show "valid_record_shape ((running_at d p)\<lparr>p_this_hash := h\<rparr>) 4"
    using assms by (simp add: flight_shape flight_records Let_def)
qed

lemma accept_session_record:
  assumes "valid_record_shape r (of_nat (length (reg_records s)) + 1)" and "p_previous_hash r = previous"
    and "reg_requests s (p_idempotency_key r) = None" and "hash_plan (p_canonical_plan_json r) = Inr (p_plan_content_digest r)"
    and "hash_record r = Inr (p_this_hash r)" and "\<not> is_observation r"
    and "accept_lifecycle (current_session s (p_session_id r)) r = Inr ()"
  shows "accept_recovered_record jc s r previous = Inr (index_recovered s r Session_entry)"
  using assms by (simp add: accept_recovered_record_def)

definition flight_log :: "persisted_session list" where
  "flight_log = [sample_record, flight_preparing, flight_starting, flight_running]"

lemma flight_fields [simp]:
  "p_session_id (preparing_at d p) = ''s1''" "p_session_id (starting_at d p) = ''s1''" "p_session_id (running_at d p) = ''s1''"
  "p_idempotency_key (preparing_at d p) = ''k2''" "p_idempotency_key (starting_at d p) = ''k3''"
  "p_idempotency_key (running_at d p) = ''k4''" "p_previous_hash (preparing_at d p) = p"
  "p_previous_hash (starting_at d p) = p" "p_previous_hash (running_at d p) = p"
  "p_request_digest (preparing_at d p) = d" "p_request_digest (starting_at d p) = d" "p_request_digest (running_at d p) = d"
  "p_canonical_plan_json (preparing_at d p) = ''{}''" "p_canonical_plan_json (starting_at d p) = ''{}''"
  "p_canonical_plan_json (running_at d p) = ''{}''" "p_plan_content_digest (preparing_at d p) = sample_plan_digest"
  "p_plan_content_digest (starting_at d p) = sample_plan_digest" "p_plan_content_digest (running_at d p) = sample_plan_digest"
  "p_session_id sample_record = ''s1''" "p_idempotency_key sample_record = ''k1''" "p_this_hash sample_record = sample_hash"
  by (simp_all add: flight_records sample_record_def)

lemma flight_lifecycle:
  "hash_start_authorization (wire_start_authorization (preparing_at [] [])) = Inr d \<Longrightarrow>
     accept_lifecycle (Some sample_record) ((preparing_at d p)\<lparr>p_this_hash := h\<rparr>) = Inr ()"
  "starting_digest (starting_at [] []) = Inr d \<Longrightarrow>
     accept_lifecycle (Some ((preparing_at d' p')\<lparr>p_this_hash := h'\<rparr>)) ((starting_at d p)\<lparr>p_this_hash := h\<rparr>) = Inr ()"
  "running_digest (running_at [] []) = Inr d \<Longrightarrow>
     accept_lifecycle (Some ((starting_at d' p')\<lparr>p_this_hash := h'\<rparr>)) ((running_at d p)\<lparr>p_this_hash := h\<rparr>) = Inr ()"
proof -
  have sealed: "wire_start_authorization (r\<lparr>p_this_hash := h\<rparr>) = wire_start_authorization r" "starting_digest (r\<lparr>p_this_hash := h\<rparr>) = starting_digest r"
    "running_digest (r\<lparr>p_this_hash := h\<rparr>) = running_digest r" for r
    by (simp_all add: wire_start_authorization_def starting_digest_def running_digest_def wire_running_def
        process_identity_from_wire_def wire_process_identity_def split: option.split bool.split)
  note same = same_plan_def same_authorization_def same_launch_def
  show "accept_lifecycle (Some sample_record) ((preparing_at d p)\<lparr>p_this_hash := h\<rparr>) = Inr ()"
    if "hash_start_authorization (wire_start_authorization (preparing_at [] [])) = Inr d"
    using that commitments_independent(1) [of d p] sealed(1) [of "preparing_at d p"]
    by (simp add: accept_lifecycle_def accept_preparing_def) (simp add: same flight_records sample_record_def)
  show "accept_lifecycle (Some ((preparing_at d' p')\<lparr>p_this_hash := h'\<rparr>)) ((starting_at d p)\<lparr>p_this_hash := h\<rparr>) = Inr ()"
    if "starting_digest (starting_at [] []) = Inr d"
    using that commitments_independent(2) [of d p] sealed(2) [of "starting_at d p"]
    by (simp add: accept_lifecycle_def accept_starting_def) (simp add: same flight_records sample_record_def)
  show "accept_lifecycle (Some ((starting_at d' p')\<lparr>p_this_hash := h'\<rparr>)) ((running_at d p)\<lparr>p_this_hash := h\<rparr>) = Inr ()"
    if "running_digest (running_at [] []) = Inr d"
    using that commitments_independent(3) [of d p] sealed(3) [of "running_at d p"]
    by (simp add: accept_lifecycle_def accept_running_def) (simp add: same flight_records sample_record_def)
qed

lemma indexed_session:
  assumes "p_session_id r = ''s1''" and "reg_sessions s = [] \<or> reg_sessions s = [(''s1'', i)]"
  shows "reg_sessions (index_recovered s r Session_entry) = [(''s1'', length (reg_records s))]"
    "current_session (index_recovered s r Session_entry) ''s1'' = Some r"
proof -
  show "reg_sessions (index_recovered s r Session_entry) = [(''s1'', length (reg_records s))]"
    using assms by (auto simp: index_recovered_def Let_def)
  then show "current_session (index_recovered s r Session_entry) ''s1'' = Some r"
    by (simp add: current_session_def index_recovered_laws)
qed

lemma flight_steps:
  assumes "valid_digest d" and "valid_digest p" and "valid_digest h" and "current_session s ''s1'' = Some prior"
  shows "length (reg_records s) = 1 \<Longrightarrow> prior = sample_record \<Longrightarrow> reg_requests s ''k2'' = None \<Longrightarrow>
      hash_start_authorization (wire_start_authorization (preparing_at [] [])) = Inr d \<Longrightarrow> hash_record (preparing_at d p) = Inr h \<Longrightarrow>
      accept_recovered_record jc s ((preparing_at d p)\<lparr>p_this_hash := h\<rparr>) p =
        Inr (index_recovered s ((preparing_at d p)\<lparr>p_this_hash := h\<rparr>) Session_entry)"
    "length (reg_records s) = 2 \<Longrightarrow> prior = (preparing_at d' p')\<lparr>p_this_hash := h'\<rparr> \<Longrightarrow> reg_requests s ''k3'' = None \<Longrightarrow>
      starting_digest (starting_at [] []) = Inr d \<Longrightarrow> hash_record (starting_at d p) = Inr h \<Longrightarrow>
      accept_recovered_record jc s ((starting_at d p)\<lparr>p_this_hash := h\<rparr>) p =
        Inr (index_recovered s ((starting_at d p)\<lparr>p_this_hash := h\<rparr>) Session_entry)"
    "length (reg_records s) = 3 \<Longrightarrow> prior = (starting_at d' p')\<lparr>p_this_hash := h'\<rparr> \<Longrightarrow> reg_requests s ''k4'' = None \<Longrightarrow>
      running_digest (running_at [] []) = Inr d \<Longrightarrow> hash_record (running_at d p) = Inr h \<Longrightarrow>
      accept_recovered_record jc s ((running_at d p)\<lparr>p_this_hash := h\<rparr>) p =
        Inr (index_recovered s ((running_at d p)\<lparr>p_this_hash := h\<rparr>) Session_entry)"
proof -
  note shapes = flight_shapes [OF assms(1-3)]
  have lifecycle: "\<not> is_observation ((preparing_at d p)\<lparr>p_this_hash := h\<rparr>)" "\<not> is_observation ((starting_at d p)\<lparr>p_this_hash := h\<rparr>)"
    "\<not> is_observation ((running_at d p)\<lparr>p_this_hash := h\<rparr>)"
    by (simp_all add: is_observation_def flight_records)
  show "length (reg_records s) = 1 \<Longrightarrow> prior = sample_record \<Longrightarrow> reg_requests s ''k2'' = None \<Longrightarrow>
      hash_start_authorization (wire_start_authorization (preparing_at [] [])) = Inr d \<Longrightarrow> hash_record (preparing_at d p) = Inr h \<Longrightarrow>
      accept_recovered_record jc s ((preparing_at d p)\<lparr>p_this_hash := h\<rparr>) p =
        Inr (index_recovered s ((preparing_at d p)\<lparr>p_this_hash := h\<rparr>) Session_entry)"
    using shapes(2) assms(4) lifecycle(1) flight_lifecycle(1) [where d = d and p = p and h = h]
    by (intro accept_session_record) (simp_all add: sample_hash_plan)
  show "length (reg_records s) = 2 \<Longrightarrow> prior = (preparing_at d' p')\<lparr>p_this_hash := h'\<rparr> \<Longrightarrow> reg_requests s ''k3'' = None \<Longrightarrow>
      starting_digest (starting_at [] []) = Inr d \<Longrightarrow> hash_record (starting_at d p) = Inr h \<Longrightarrow>
      accept_recovered_record jc s ((starting_at d p)\<lparr>p_this_hash := h\<rparr>) p =
        Inr (index_recovered s ((starting_at d p)\<lparr>p_this_hash := h\<rparr>) Session_entry)"
    using shapes(3) assms(4) lifecycle(2) flight_lifecycle(2) [where d = d and p = p and h = h and d' = d' and p' = p' and h' = h']
    by (intro accept_session_record) (simp_all add: sample_hash_plan)
  show "length (reg_records s) = 3 \<Longrightarrow> prior = (starting_at d' p')\<lparr>p_this_hash := h'\<rparr> \<Longrightarrow> reg_requests s ''k4'' = None \<Longrightarrow>
      running_digest (running_at [] []) = Inr d \<Longrightarrow> hash_record (running_at d p) = Inr h \<Longrightarrow>
      accept_recovered_record jc s ((running_at d p)\<lparr>p_this_hash := h\<rparr>) p =
        Inr (index_recovered s ((running_at d p)\<lparr>p_this_hash := h\<rparr>) Session_entry)"
    using shapes(4) assms(4) lifecycle(3) flight_lifecycle(3) [where d = d and p = p and h = h and d' = d' and p' = p' and h' = h']
    by (intro accept_session_record) (simp_all add: sample_hash_plan)
qed

lemma flight_created:
  assumes "reg_records s = []" and "reg_sessions s = []" and "reg_requests s = Map.empty"
  shows "accept_recovered_record jc s sample_record zero_digest = Inr (index_recovered s sample_record Session_entry)"
proof (rule accept_session_record)
  show "valid_record_shape sample_record (of_nat (length (reg_records s)) + 1)"
    using flight_shapes(1) [OF flight_plan(3,3,3)] assms by (simp add: sample_record_def)
  show "hash_record sample_record = Inr (p_this_hash sample_record)"
    using sample_hash by (simp add: sample_record_def)
qed (use assms sample_hash_plan in \<open>simp_all add: sample_record_def sample_record0_def blank_session_def is_observation_def
    current_session_def accept_lifecycle_def accept_created_def\<close>)

lemma flight_accepted:
  assumes "reg_records s = []" and "reg_sessions s = []" and "reg_requests s = Map.empty"
  shows "\<exists>s'. accept_all jc s zero_digest flight_log = Inr s' \<and> reg_sessions s' = [(''s1'', 3)]"
proof -
  obtain d2 d3 d4 h2 h3 h4 where r2: "flight_preparing = (preparing_at d2 sample_hash)\<lparr>p_this_hash := h2\<rparr>"
    and r3: "flight_starting = (starting_at d3 h2)\<lparr>p_this_hash := h3\<rparr>"
    and r4: "flight_running = (running_at d4 h3)\<lparr>p_this_hash := h4\<rparr>"
    and d: "hash_start_authorization (wire_start_authorization (preparing_at [] [])) = Inr d2" "starting_digest (starting_at [] []) = Inr d3"
      "running_digest (running_at [] []) = Inr d4"
    and h: "hash_record (preparing_at d2 sample_hash) = Inr h2" "hash_record (starting_at d3 h2) = Inr h3" "hash_record (running_at d4 h3) = Inr h4"
    and v: "valid_digest d2" "valid_digest d3" "valid_digest d4" "valid_digest h2" "valid_digest h3" "valid_digest h4"
    by (rule flight_chain) blast
  let ?s1 = "index_recovered s sample_record Session_entry"
  let ?s2 = "index_recovered ?s1 flight_preparing Session_entry"
  let ?s3 = "index_recovered ?s2 flight_starting Session_entry"
  let ?s4 = "index_recovered ?s3 flight_running Session_entry"
  have ids: "p_session_id flight_preparing = ''s1''" "p_session_id flight_starting = ''s1''" "p_session_id flight_running = ''s1''"
    "p_idempotency_key flight_preparing = ''k2''" "p_idempotency_key flight_starting = ''k3''"
    "p_this_hash flight_preparing = h2" "p_this_hash flight_starting = h3"
    by (simp_all add: r2 r3 r4)
  note i1 = indexed_session [of sample_record s, OF flight_fields(19) disjI1 [OF assms(2)]]
  note i2 = indexed_session [of flight_preparing ?s1, OF ids(1) disjI2 [OF i1(1)]]
  note i3 = indexed_session [of flight_starting ?s2, OF ids(2) disjI2 [OF i2(1)]]
  note i4 = indexed_session [of flight_running ?s3, OF ids(3) disjI2 [OF i3(1)]]
  have keys: "reg_requests ?s1 ''k2'' = None" "reg_requests ?s2 ''k3'' = None" "reg_requests ?s3 ''k4'' = None"
    using assms by (simp_all add: index_recovered_laws ids emplace_def)
  have counts: "length (reg_records ?s1) = 1" "length (reg_records ?s2) = 2" "length (reg_records ?s3) = 3"
    using assms by (simp_all add: index_recovered_laws)
  have a1: "accept_recovered_record jc s sample_record zero_digest = Inr ?s1" by (rule flight_created [OF assms])
  have a2: "accept_recovered_record jc ?s1 flight_preparing sample_hash = Inr ?s2"
    unfolding r2 by (rule flight_steps(1) [OF v(1) flight_plan(3) v(4) i1(2) counts(1) refl keys(1) d(1) h(1)])
  have a3: "accept_recovered_record jc ?s2 flight_starting h2 = Inr ?s3"
    using flight_steps(2) [OF v(2) v(4) v(5) i2(2) counts(2) r2 keys(2) d(2) h(2)] unfolding r3 .
  have a4: "accept_recovered_record jc ?s3 flight_running h3 = Inr ?s4"
    using flight_steps(3) [OF v(3) v(5) v(6) i3(2) counts(3) r3 keys(3) d(3) h(3)] unfolding r4 .
  have "accept_all jc s zero_digest flight_log = Inr ?s4"
    using a1 a2 a3 a4 by (simp add: flight_log_def ids)
  then show ?thesis using i4(1) counts(3) by simp
qed

subsection \<open>The restarted registry\<close>

text \<open>The codec reads the four records and writes one more: the failure that may follow.\<close>

definition flight_failure :: session_failure_commitment where
  "flight_failure =
     \<lparr>fc_schema_version = 1, fc_session_id = ''s1'', fc_controller_plan_digest = sample_digest,
      fc_plan_content_digest = sample_plan_digest, fc_authorization_id = ''a1'', fc_profile_digest = sample_digest,
      fc_code = Recovered_without_process\<rparr>"

definition failed_at :: "string \<Rightarrow> string \<Rightarrow> persisted_session" where
  "failed_at request previous = (running_at request previous)
     \<lparr>p_sequence := 5, p_operation := ''mark_failed'', p_idempotency_key := ''k5'', p_state := ''failed'',
      p_failure_code := failure_code_name Recovered_without_process, p_finished_at_ms := 9\<rparr>"

definition flight_failed :: persisted_session where
  "flight_failed =
     (let r = failed_at (digest_value (hash_failure_commitment flight_failure)) (p_this_hash flight_running)
      in r\<lparr>p_this_hash := digest_value (hash_record r)\<rparr>)"

definition flight_codec :: json_codec where
  "flight_codec =
     \<lparr>write_json = (\<lambda>r. if r = flight_failed then Some ''5'' else None),
      read_json = map_of (zip [''1'', ''2'', ''3'', ''4'', ''5''] (flight_log @ [flight_failed])), read_header = (\<lambda>p. None)\<rparr>"

definition flight_disk :: disk where
  "flight_disk = sample_disk\<lparr>d_bytes := registry_magic @ concat (map frame_of [''1'', ''2'', ''3'', ''4''])\<rparr>"

lemma flight_codec_faithful: "codec_faithful flight_codec"
  by (simp add: codec_faithful_def flight_codec_def flight_log_def)

lemma flight_framed: "framed flight_codec flight_log (concat (map frame_of [''1'', ''2'', ''3'', ''4'']))"
  unfolding framed_by_def
  by (intro exI [of _ "[''1'', ''2'', ''3'', ''4'']"])
    (simp add: flight_log_def flight_codec_def payload_of_def max_record_payload_bytes_def)

lemma flight_disk_bytes: "length (d_bytes flight_disk) = 44"
  by (simp add: flight_disk_def registry_magic_def bytes_of_string_def)

lemma flight_image:
  "\<exists>s. well_formed flight_codec s \<and> \<not> reg_poisoned s \<and> reg_disk s = flight_disk \<and> reg_records s = flight_log \<and>
     reg_sessions s = [(''s1'', 3)] \<and> reg_validator s = sample_validator \<and> reg_library_bundles s = None \<and>
     reg_max_bytes s = 4096 \<and> reg_channels s = None"
proof -
  let ?fresh = "fresh_registry flight_disk sample_validator None 4096 None"
  obtain s0 where s0: "accept_all flight_codec ?fresh zero_digest flight_log = Inr s0" "reg_sessions s0 = [(''s1'', 3)]"
    using flight_accepted [of ?fresh flight_codec] by (auto simp: fresh_registry_def)
  let ?s = "\<lparr>reg_disk = flight_disk, reg_validator = sample_validator, reg_library_bundles = None,
      reg_channels = None, reg_max_bytes = 4096, reg_durable_bytes = 44, reg_identity = reg_identity s0,
      reg_poisoned = False, reg_records = reg_records s0, reg_sessions = reg_sessions s0,
      reg_requests = reg_requests s0, reg_observation_intents = reg_observation_intents s0,
      reg_observation_dispositions = reg_observation_dispositions s0, reg_quarantined = reg_quarantined s0\<rparr>"
  have records: "reg_records s0 = flight_log" using accept_all_records [OF s0(1)] by (simp add: fresh_registry_def)
  have "same_index ?fresh (blank_index ?s)" "same_index s0 ?s"
    using accept_all_config [OF s0(1)] by (simp_all add: same_index_iff blank_index_def fresh_registry_def)
  then have "replayable flight_codec ?s"
    using accept_all_cong [OF _ s0(1), of "blank_index ?s"] records same_index_trans
    by (auto simp: replayable_def same_index_iff)
  moreover have "collaborators_ok ?s"
    using sample_collaborators by (simp add: collaborators_ok_def collaborators_def)
  moreover have "imaged flight_codec ?s"
    using flight_framed flight_disk_bytes by (auto simp: imaged_def file_bytes_def records flight_disk_def)
  ultimately have "well_formed flight_codec ?s"
    using flight_codec_faithful by (simp add: well_formed_def records max_records_def off_t_max_def flight_log_def)
  then show ?thesis using s0(2) records by (intro exI [of _ ?s]) simp
qed

lemma flight_restarted:
  "\<exists>s. reachable flight_codec s \<and> recorded s \<and> \<not> reg_poisoned s \<and> reg_records s = flight_log \<and> reg_sessions s = [(''s1'', 3)] \<and>
     reg_max_bytes s = 4096 \<and> length (file_bytes s) = 44"
proof -
  obtain s where s: "well_formed flight_codec s" "\<not> reg_poisoned s" "reg_disk s = flight_disk" "reg_records s = flight_log"
      "reg_sessions s = [(''s1'', 3)]"
    and config: "reg_validator s = sample_validator" "reg_library_bundles s = None" "reg_max_bytes s = 4096" "reg_channels s = None"
    using flight_image by blast
  have owner: "owner_only_file (d_euid flight_disk) (d_meta flight_disk)" "d_outcomes flight_disk = []"
    by (simp_all add: flight_disk_def sample_disk_def sample_meta_def owner_only_file_def)
  let ?loc = "sample_location (Entry flight_disk)"
  obtain s' where s': "recover flight_codec (fresh_registry flight_disk sample_validator None 4096 None) = Inr s'"
      "same_index s s'" "recorded s'" "\<not> reg_poisoned s'" "file_bytes s' = file_bytes s"
    using recover_reproduces [OF s(1,2), of flight_disk, OF _ owner(1) refl] owner(2) s(3)
    by (auto simp: file_bytes_def config split: sum.splits)
  have "reopenable ''/run/glove/sessions'' s ?loc flight_disk"
    using owner config by (simp add: reopenable_def filename_def name_elements_def split_on.simps sample_location_def min_registry_bytes_def)
  then have "open_registry ''/run/glove/sessions'' ?loc = Inr (flight_disk, False)"
    by (rule open_registry_calm) (simp add: sample_location_def)
  then have "open_or_create flight_codec ''/run/glove/sessions'' (Some sample_validator) None 4096 None ?loc = Inr s'"
    using s'(1) by (simp add: open_or_create_def min_registry_bytes_def off_t_max_def)
  then have "reachable flight_codec s'"
    by (rule reachable.opened [OF _ sample_collaborators])
      (simp add: entry_ok_def sample_location_def flight_disk_bytes off_t_max_def)
  moreover have "length (file_bytes s') = 44" using s'(5) s(3) flight_disk_bytes by (simp add: file_bytes_def)
  ultimately show ?thesis using s' s(4,5) config(3) by (auto simp: same_index_iff)
qed

lemma flight_registry:
  "\<exists>s. reachable flight_codec s \<and> unusable s = (False, s) \<and> reg_records s = flight_log \<and> reg_sessions s = [(''s1'', 3)] \<and>
     calm s \<and> reg_max_bytes s = 4096 \<and> length (file_bytes s) = 44"
proof -
  obtain s where s: "reachable flight_codec s" "recorded s" "\<not> reg_poisoned s" "reg_records s = flight_log" "reg_sessions s = [(''s1'', 3)]"
      "reg_max_bytes s = 4096" "length (file_bytes s) = 44"
    using flight_restarted by blast
  let ?m = "sample_meta\<lparr>fm_device := ri_device (reg_identity s), fm_inode := ri_inode (reg_identity s), fm_change := ri_change (reg_identity s)\<rparr>"
  let ?d = "\<lparr>d_bytes = file_bytes s, d_meta = ?m, d_path = Some ?m, d_euid = 0, d_clock = (0, 0), d_outcomes = []\<rparr>"
  have same: "identity_of ?d = reg_identity s"
    using s(2) by (simp add: recorded_def identity_of_def file_bytes_def)
  have "reachable flight_codec (s\<lparr>reg_disk := ?d\<rparr>)"
    by (rule reachable.operated [OF s(1) operates.environment]) simp
  moreover have "unusable (s\<lparr>reg_disk := ?d\<rparr>) = (False, s\<lparr>reg_disk := ?d\<rparr>)"
    using s(3) same s(2) [unfolded recorded_def, THEN conjunct2]
    by (simp add: unusable_def verify_identity_def capture_identity_def single_call_def owner_only_file_def sample_meta_def Let_def)
  moreover have "calm (s\<lparr>reg_disk := ?d\<rparr>)"
    using s(3) same s(2) [unfolded recorded_def, THEN conjunct2]
    by (simp add: calm_def recorded_def owner_only_file_def sample_meta_def)
  ultimately show ?thesis using s(4-7) by (intro exI [of _ "s\<lparr>reg_disk := ?d\<rparr>"]) (simp add: file_bytes_def)
qed

lemma flight_running_fields:
  "p_session_id flight_running = ''s1''" "p_state flight_running = ''running''" "p_managed_runtime_identity flight_running = None"
  "p_controller_plan_digest flight_running = sample_digest" "p_launch_profile_digest flight_running = sample_digest"
  "process_identity_from_wire flight_running = Some flight_process"
  "p_canonical_plan_json flight_running = ''{}''"
proof -
  show "process_identity_from_wire flight_running = Some flight_process"
  proof -
    have "process_identity_from_wire (r\<lparr>p_this_hash := h\<rparr>) = process_identity_from_wire r" for r h
      by (simp add: process_identity_from_wire_def wire_process_identity_def)
    then show ?thesis by (simp add: flight_running_def Let_def)
  qed
  show "p_session_id flight_running = ''s1''" "p_state flight_running = ''running''" "p_managed_runtime_identity flight_running = None"
    "p_controller_plan_digest flight_running = sample_digest" "p_launch_profile_digest flight_running = sample_digest"
    "p_canonical_plan_json flight_running = ''{}''"
    by (simp_all add: flight_running_def Let_def) (simp_all add: flight_records)
qed

definition flight_observer :: session_process_observer where
  "flight_observer candidate = Inr Exact"

lemma flight_reconciled:
  assumes "unusable s = (False, s)" and "reg_records s = flight_log" and "reg_sessions s = [(''s1'', 3)]"
  shows "reconcile_session_registry_impl flight_codec 1 (Some flight_observer) s sample_producer =
    (Inr ((new_report 1)\<lparr>rn_live_running_session_ids := [''s1'']\<rparr>), s, sample_producer)"
proof -
  have candidates: "recovery_candidates flight_codec s = (Inr [recovery_record flight_codec flight_running], s)"
    using assms by (simp add: recovery_candidates_def locked_def session_records_def flight_log_def may_hold_process_def flight_running_fields)
  have "lookup_terminal (recovery_record flight_codec flight_running) sample_producer = (Inr None, sample_producer)"
    by (simp add: lookup_terminal_def recovery_record_def public_record_def flight_running_fields refinement_plan_def flight_codec_def
      producer_terminal_for_execution_def on_journal_def terminal_for_execution_def lookup_binding_ok_def flight_identifiers flight_plan
      sample_producer_def sample_new_journal_usable sample_new_journal(6) unique_match.simps)
  then show ?thesis
    by (simp add: reconcile_session_registry_impl_def candidates reconcile_candidate_def)
      (simp add: classify_receiptless_running_def recovery_record_def public_record_def flight_running_fields flight_observer_def
        new_report_def state_from_wire_def)
qed

subsection \<open>Closing the session\<close>

lemma flight_failure_hash: "\<exists>d. hash_failure_commitment flight_failure = Inr d"
  unfolding hash_failure_commitment_def
  by (intro hash_defined) (simp add: failure_material_def flight_failure_def flight_material)

lemma flight_failed_hash:
  assumes "length request = 64" and "length previous = 64"
  shows "\<exists>h. hash_record (failed_at request previous) = Inr h"
  unfolding hash_record_def
  by (intro hash_defined) (simp add: failed_at_def flight_records flight_material assms)

lemma flight_fails:
  assumes "reg_records s = flight_log" and "reg_sessions s = [(''s1'', 3)]"
  shows "mark_failed_plan flight_failure d ''k5'' 9 s = (Inr (failed_at d (p_this_hash flight_running)), s)"
proof -
  have cur: "current_session s ''s1'' = Some flight_running"
    using assms by (simp add: current_session_def flight_log_def)
  have last: "last_hash s = p_this_hash flight_running" "next_sequence s = 5" "length (reg_records s) < max_records"
    using assms(1) by (simp_all add: last_hash_def next_sequence_def flight_log_def max_records_def)
  obtain d4 h where running: "flight_running = (running_at d4 (p_this_hash flight_starting))\<lparr>p_this_hash := h\<rparr>"
    by (metis flight_chain)
  have fields: "p_state flight_running = ''running''" "process_identity_from_wire flight_running = Some flight_process"
    by (fact flight_running_fields)+
  have binds: "p_authorization_id flight_running = ''a1''" "p_plan_content_digest flight_running = sample_plan_digest"
      "p_running_at_ms flight_running = 8"
    unfolding running by (simp_all add: flight_records)
  have same: "(launched_successor s flight_running ''mark_failed'' ''k5'' d ''failed'')
      \<lparr>p_failure_code := failure_code_name Recovered_without_process, p_finished_at_ms := 9\<rparr> = failed_at d (p_this_hash flight_running)"
    unfolding successor_defs last by (simp add: failed_at_def running) (simp add: flight_records)
  show ?thesis
    using cur fields binds flight_running_fields same last(3)
    by (simp add: mark_failed_plan_def flight_failure_def launched_state_def failure_too_early_def post_launch_failure_def)
qed

lemma flight_closes:
  assumes "reachable flight_codec s" and "calm s" and "reg_records s = flight_log" and "reg_sessions s = [(''s1'', 3)]"
    and "reg_max_bytes s = 4096" and "length (file_bytes s) = 44"
  shows "reg_records (snd (mark_failed flight_codec flight_failure ''k5'' 9 s)) = reg_records s @ [flight_failed]"
proof -
  let ?p = "p_this_hash flight_running"
  have ok: "index_ok s" using well_formedD(1) [OF reachable_well_formed [OF assms(1) flight_codec_faithful]] .
  obtain d where d: "hash_failure_commitment flight_failure = Inr d" using flight_failure_hash by blast
  have "valid_digest d" "valid_digest ?p" by (fact hash_valid_digest(10) [OF d], metis flight_chain)
  then obtain h where h: "hash_record (failed_at d ?p) = Inr h"
    using flight_failed_hash [of d ?p] by (auto simp: valid_digest_def)
  have failed: "(failed_at d ?p)\<lparr>p_this_hash := h\<rparr> = flight_failed"
    by (simp add: flight_failed_def Let_def digest_value_def d h)
  have frame: "encode_record flight_codec ((failed_at d ?p)\<lparr>p_this_hash := h\<rparr>) = Inr (frame_of ''5'')"
    unfolding failed by (simp add: encode_record_def flight_codec_def max_record_payload_bytes_def frame_of_def append_u32_enc)
  have durable: "reg_durable_bytes s = 44"
    using assms(2,6) durable_length [of s] by (simp add: calm_def word_unat_eq_iff)
  obtain s' where s': "append_record_locked flight_codec s (failed_at d ?p) =
      (Inr (public_record ((failed_at d ?p)\<lparr>p_this_hash := h\<rparr>)), s')"
    using append_calm [OF assms(2) _ h frame] assms(5,6) durable by (auto simp: frame_of_def bytes_of_string_def)
  have grew: "reg_records s' = reg_records s @ [flight_failed]"
  proof -
    have "committed flight_codec s (failed_at d ?p) s'"
      using append_record_locked_laws [OF s'] assms(6) by simp
    from committed_records [OF this] h failed show ?thesis by auto
  qed
  have unused: "reg_requests s ''k5'' = None"
  proof (rule ccontr)
    assume "reg_requests s ''k5'' \<noteq> None"
    then obtain i where "i < length flight_log" "p_idempotency_key (flight_log ! i) = ''k5''"
      using index_okD(3,4) [OF ok, of "''k5''"] assms(3) by auto
    then have "''k5'' \<in> p_idempotency_key ` set flight_log" by (metis image_eqI nth_mem)
    then show False
      by (simp add: flight_log_def flight_preparing_def flight_starting_def flight_running_def Let_def)
  qed
  have request: "failure_request_ok flight_failure ''k5'' 9"
    using flight_identifiers flight_plan
    by (simp add: failure_request_ok_def flight_failure_def failure_code_from_wire_def valid_identifier_def identifier_byte_def byte_of_def)
  show ?thesis
    using request d flight_fails [OF assms(3,4)] s' grew unused calm_usable [OF assms(2)]
    by (simp add: mark_failed_def find_failure_replay_locked_def locked_def find_replay_def transition_def)
qed

end
