(* ===== verification/Guard_Theorems.thy ===== *)
theory Guard_Theorems
  imports Registry_Guards Reconciliation_Sample
begin

text \<open>
  The conditions of the step relation are exact; and the witnesses, on the restarted registry of
  \<open>Reconciliation_Sample\<close>, of three statements about reachable registries: the projections, the
  lifecycle and the recovery lists of a running session.
\<close>

text \<open>
  C25. The conditions under which the registry invariant is stated are exact.  On a registry reached
  under them, when one of the five operations that do not check everything recovery demands has
  appended a record, recovery accepts that record if and only if the condition of the operation
  held: the clock was not before the authorization (\<open>mark_starting\<close>, \<open>mark_managed_starting\<close>), the
  session is directly executed (\<open>mark_failed\<close>), no record has the key derived for the observation (\<open>enqueue_observation_intent\<close>,
  \<open>set_observation_intent_disposition\<close>).
\<close>

theorem recovery_accepts_iff_guarded:
  assumes "codec_faithful jc" and "reachable jc s"
  shows "(reg_records (snd (mark_starting jc b reservation key now_ms s)) = reg_records s @ [r] \<longrightarrow>
      (recoverable jc s r \<longleftrightarrow> starting_clock (eb_session_id b) now_ms s)) \<and>
    (reg_records (snd (mark_managed_starting jc mb reservation key now_ms s)) = reg_records s @ [r] \<longrightarrow>
      (recoverable jc s r \<longleftrightarrow> starting_clock (mb_session_id mb) now_ms s)) \<and>
    (reg_records (snd (mark_failed jc c key now_ms s)) = reg_records s @ [r] \<longrightarrow>
      (recoverable jc s r \<longleftrightarrow> direct_session (fc_session_id c) s)) \<and>
    (reg_records (snd (enqueue_observation_intent jc body x now_ms s)) = reg_records s @ [r] \<longrightarrow>
      (recoverable jc s r \<longleftrightarrow> enqueue_key_free body x s)) \<and>
    (reg_records (snd (set_observation_intent_disposition jc d s)) = reg_records s @ [r] \<longrightarrow>
      (recoverable jc s r \<longleftrightarrow> disposition_key_free d s))"
proof -
  note wf = reachable_well_formed [OF assms(2,1)]
  show ?thesis
    by (intro conjI impI)
      (erule mark_starting_exact [OF wf] mark_managed_starting_exact [OF wf] mark_failed_exact [OF wf]
        enqueue_exact [OF wf] disposition_exact [OF wf])+
qed

theorem recovery_accepts_iff_guarded_witness:
  "\<exists>s. reg_records (snd (mark_failed flight_codec flight_failure ''k5'' 9 s)) = reg_records s @ [flight_failed] \<and>
     direct_session ''s1'' s \<and> recoverable flight_codec s flight_failed"
proof -
  obtain s where s: "reachable flight_codec s" "calm s" "reg_records s = flight_log" "reg_sessions s = [(''s1'', 3)]"
      "reg_max_bytes s = 4096" "length (file_bytes s) = 44"
    using flight_registry by blast
  note grew = flight_closes [OF s]
  have "direct_session ''s1'' s"
    using s(3,4) by (simp add: direct_session_def current_session_def flight_log_def flight_running_fields)
  with grew recovery_accepts_iff_guarded [OF flight_codec_faithful s(1)] show ?thesis
    by (auto simp: flight_failure_def)
qed

theorem projections_total_witness:
  "projected flight_running \<and> (\<exists>x. running_record_from_wire flight_running = Inr x)"
proof -
  obtain s where s: "reachable flight_codec s" "reg_records s = flight_log" "reg_sessions s = [(''s1'', 3)]"
    using flight_registry by blast
  then have "current_session s ''s1'' = Some flight_running"
    by (simp add: current_session_def flight_log_def)
  from projections_total [OF flight_codec_faithful s(1) this] show ?thesis
    by (simp add: flight_running_fields projected_def)
qed

lemma flight_states:
  "lifecycle_records (flight_log @ [flight_failed]) ''s1'' = flight_log @ [flight_failed]"
  "map p_state flight_log = [''created'', ''preparing'', ''starting'', ''running'']" "p_state flight_failed = ''failed''"
proof -
  have own: "\<not> is_observation r \<and> p_session_id r = ''s1''" if "r \<in> set (flight_log @ [flight_failed])" for r
    using that
    by (auto simp: flight_log_def flight_preparing_def flight_starting_def flight_running_def flight_failed_def Let_def failed_at_def
        is_observation_def flight_records sample_record_def)
  then show "lifecycle_records (flight_log @ [flight_failed]) ''s1'' = flight_log @ [flight_failed]"
    unfolding lifecycle_records_def by (intro filter_True) blast
  show "map p_state flight_log = [''created'', ''preparing'', ''starting'', ''running'']" "p_state flight_failed = ''failed''"
    by (simp_all add: flight_log_def flight_preparing_def flight_starting_def flight_running_def flight_failed_def Let_def failed_at_def
        flight_records sample_record_def)
qed

theorem session_lifecycle_witness:
  "\<exists>s s'. operates flight_codec s s' \<and> prefix (reg_records s) (reg_records s') \<and> lifecycle_path (history s' ''s1'') \<and>
     history s' ''s1'' = [''created'', ''preparing'', ''starting'', ''running'', ''failed'']"
proof -
  obtain s where s: "reachable flight_codec s" "calm s" "reg_records s = flight_log" "reg_sessions s = [(''s1'', 3)]"
      "reg_max_bytes s = 4096" "length (file_bytes s) = 44"
    using flight_registry by blast
  let ?s = "snd (mark_failed flight_codec flight_failure ''k5'' 9 s)"
  have "direct_session (fc_session_id flight_failure) s"
    using s(3,4) by (simp add: direct_session_def current_session_def flight_log_def flight_running_fields flight_failure_def)
  then have step: "operates flight_codec s ?s" by (rule operates.mark_failed)
  have "history ?s ''s1'' = [''created'', ''preparing'', ''starting'', ''running'', ''failed'']"
    using flight_closes [OF s] flight_states by (simp add: history_def s(3))
  moreover have "prefix (reg_records s) (reg_records ?s)"
    using session_lifecycle [OF flight_codec_faithful s(1) r_into_rtranclp, OF step] by blast
  moreover have "lifecycle_path (history ?s ''s1'')"
    using session_lifecycle [OF flight_codec_faithful reachable.operated [OF s(1) step] rtranclp.rtrancl_refl] by blast
  ultimately show ?thesis using step by blast
qed

theorem recovery_lists_complete_witness:
  "\<exists>s direct managed. recovery_candidates flight_codec s = (Inr direct, s) \<and> managed_recovery_candidates s = (Inr managed, s) \<and>
     set (map (\<lambda>c. s_session_id (rx_session c)) direct @ map (\<lambda>c. s_session_id (ml_session c)) managed) = {''s1''}"
proof -
  obtain s where s: "reachable flight_codec s" "unusable s = (False, s)" "reg_records s = flight_log" "reg_sessions s = [(''s1'', 3)]"
    using flight_registry by blast
  have "{session_id. in_flight s session_id} = {''s1''}"
    using s(3,4) by (auto simp: in_flight_def current_session_def flight_log_def flight_running_fields may_hold_process_def split: if_splits)
  with recovery_lists_complete [OF flight_codec_faithful s(1,2)] show ?thesis by metis
qed

end
