(* ===== verification/Change_Journal.thy ===== *)
theory Change_Journal
  imports Guest_Channel Storage Paths
begin

text \<open>
  The durable ledger of change applications (\<open>src/supervisor/change_apply_journal.cpp\<close>): one line
  of JSON per record, hash chained, reserving a grant, an authorization and a manifest before the
  host is changed and closing the grant afterwards.  The JSON library is the record \<open>change_codec\<close> of
  its three calls; the file is the \<open>disk\<close> of \<open>Storage\<close>.  Identifiers and digests obey the grammars of
  \<open>Guest_Channel\<close>, which this file repeats.
\<close>

subsection \<open>Records\<close>

record change_apply_reservation_record =
  cr_grant_id :: string
  cr_authorization_digest :: string
  cr_manifest_digest :: string
  cr_session_id :: string
  cr_exposure_id :: string
  cr_generation :: u64
  cr_scope_digest :: string
  cr_source_identity_digest :: string
  cr_baseline_tree_digest :: string
  cr_staged_tree_digest :: string
  cr_reserved_at_ms :: u64

datatype change_apply_terminal_state = Applied | Rejected | Apply_failed

record change_apply_terminal_record =
  ct_grant_id :: string
  ct_authorization_digest :: string
  ct_manifest_digest :: string
  ct_state :: change_apply_terminal_state
  ct_receipt_digest :: string
  ct_final_source_identity_digest :: string
  ct_failure_code :: string
  ct_completed_at_ms :: u64

record change_apply_grant_status =
  gs_reservation :: change_apply_reservation_record
  gs_terminal :: "change_apply_terminal_record option"

record wire_record_body =
  wr_schema_version :: u8
  wr_sequence :: u64
  wr_kind :: string
  wr_grant_id :: string
  wr_authorization_digest :: string
  wr_manifest_digest :: string
  wr_session_id :: string
  wr_exposure_id :: string
  wr_generation :: u64
  wr_scope_digest :: string
  wr_source_identity_digest :: string
  wr_baseline_tree_digest :: string
  wr_staged_tree_digest :: string
  wr_state :: string
  wr_receipt_digest :: string
  wr_final_source_identity_digest :: string
  wr_failure_code :: string
  wr_occurred_at_ms :: u64
  wr_previous_hash :: string

record wire_record = wire_record_body +
  wr_record_hash :: string

text \<open>\<open>glz::write_json\<close> of a body and of a record, and the strict read of a record.\<close>

record change_codec =
  cc_write_body :: "wire_record_body \<Rightarrow> string option"
  cc_write :: "wire_record \<Rightarrow> string option"
  cc_read :: "string \<Rightarrow> wire_record option"

definition change_magic :: string where
  "change_magic = ''GLOVE-CHANGE-APPLY1'' @ [CHR 0x0A]"

definition max_change_record_bytes :: nat where
  "max_change_record_bytes = 4 * 1024"

definition max_change_records :: nat where
  "max_change_records = 8192"

definition terminal_name :: "change_apply_terminal_state \<Rightarrow> string" where
  "terminal_name state =
     (case state of Applied \<Rightarrow> ''applied'' | Rejected \<Rightarrow> ''rejected'' | Apply_failed \<Rightarrow> ''failed'')"

definition parse_terminal :: "string \<Rightarrow> change_apply_terminal_state expected" where
  "parse_terminal name =
     (if name = ''applied'' then Inr Applied else if name = ''rejected'' then Inr Rejected
      else if name = ''failed'' then Inr Apply_failed
      else Inl ''change apply journal terminal state is invalid'')"

definition wire_body :: "wire_record \<Rightarrow> wire_record_body" where
  "wire_body r = wire_record_body.truncate r"

definition record_digest :: "change_codec \<Rightarrow> wire_record \<Rightarrow> string expected" where
  "record_digest c r =
     (case cc_write_body c (wire_body r) of
        None \<Rightarrow> Inl ''encode change apply journal record''
      | Some json \<Rightarrow> sha256_hex (bytes_of_string json))"

definition encode_reservation :: "change_apply_reservation_record \<Rightarrow> u64 \<Rightarrow> string \<Rightarrow> wire_record" where
  "encode_reservation r sequence previous_hash =
     \<lparr>wr_schema_version = 1, wr_sequence = sequence, wr_kind = ''reserve'', wr_grant_id = cr_grant_id r,
      wr_authorization_digest = cr_authorization_digest r, wr_manifest_digest = cr_manifest_digest r,
      wr_session_id = cr_session_id r, wr_exposure_id = cr_exposure_id r, wr_generation = cr_generation r,
      wr_scope_digest = cr_scope_digest r, wr_source_identity_digest = cr_source_identity_digest r,
      wr_baseline_tree_digest = cr_baseline_tree_digest r, wr_staged_tree_digest = cr_staged_tree_digest r,
      wr_state = ''reserved'', wr_receipt_digest = [], wr_final_source_identity_digest = [],
      wr_failure_code = [], wr_occurred_at_ms = cr_reserved_at_ms r, wr_previous_hash = previous_hash,
      wr_record_hash = []\<rparr>"

definition encode_terminal :: "change_apply_terminal_record \<Rightarrow> u64 \<Rightarrow> string \<Rightarrow> wire_record" where
  "encode_terminal r sequence previous_hash =
     \<lparr>wr_schema_version = 1, wr_sequence = sequence, wr_kind = ''terminal'', wr_grant_id = ct_grant_id r,
      wr_authorization_digest = ct_authorization_digest r, wr_manifest_digest = ct_manifest_digest r,
      wr_session_id = [], wr_exposure_id = [], wr_generation = 0, wr_scope_digest = [],
      wr_source_identity_digest = [], wr_baseline_tree_digest = [], wr_staged_tree_digest = [],
      wr_state = terminal_name (ct_state r), wr_receipt_digest = ct_receipt_digest r,
      wr_final_source_identity_digest = ct_final_source_identity_digest r,
      wr_failure_code = ct_failure_code r, wr_occurred_at_ms = ct_completed_at_ms r,
      wr_previous_hash = previous_hash, wr_record_hash = []\<rparr>"

text \<open>A decoded record holds a reservation or a terminal record, never both and never neither.\<close>

datatype decoded_record = Reservation change_apply_reservation_record | Terminal change_apply_terminal_record

definition terminal_failure_code_ok :: "change_apply_terminal_state \<Rightarrow> string \<Rightarrow> bool" where
  "terminal_failure_code_ok state failure_code =
     (state = Applied \<and> failure_code = [] \<or> state \<noteq> Applied \<and> valid_identifier failure_code)"

definition decode_wire :: "wire_record \<Rightarrow> decoded_record expected" where
  "decode_wire r =
     (if \<not> valid_identifier (wr_grant_id r) \<or> \<not> valid_digest (wr_authorization_digest r) \<or>
         \<not> valid_digest (wr_manifest_digest r) \<or> wr_occurred_at_ms r = 0
      then Inl ''change apply journal record fields are invalid''
      else if wr_kind r = ''reserve'' \<and> wr_state r = ''reserved'' \<and> wr_receipt_digest r = [] \<and>
              wr_final_source_identity_digest r = [] \<and> wr_failure_code r = [] \<and>
              valid_identifier (wr_session_id r) \<and> valid_identifier (wr_exposure_id r) \<and>
              wr_generation r \<noteq> 0 \<and> valid_digest (wr_scope_digest r) \<and>
              valid_digest (wr_source_identity_digest r) \<and> valid_digest (wr_baseline_tree_digest r) \<and>
              valid_digest (wr_staged_tree_digest r)
      then Inr (Reservation
             \<lparr>cr_grant_id = wr_grant_id r, cr_authorization_digest = wr_authorization_digest r,
              cr_manifest_digest = wr_manifest_digest r, cr_session_id = wr_session_id r,
              cr_exposure_id = wr_exposure_id r, cr_generation = wr_generation r,
              cr_scope_digest = wr_scope_digest r, cr_source_identity_digest = wr_source_identity_digest r,
              cr_baseline_tree_digest = wr_baseline_tree_digest r,
              cr_staged_tree_digest = wr_staged_tree_digest r, cr_reserved_at_ms = wr_occurred_at_ms r\<rparr>)
      else (case parse_terminal (wr_state r) of
        Inl _ \<Rightarrow> Inl ''change apply journal record shape is invalid''
      | Inr state \<Rightarrow>
          if wr_kind r \<noteq> ''terminal'' \<or> \<not> valid_digest (wr_receipt_digest r) \<or>
             \<not> terminal_failure_code_ok state (wr_failure_code r) \<or>
             \<not> valid_digest (wr_final_source_identity_digest r) \<or> wr_session_id r \<noteq> [] \<or>
             wr_exposure_id r \<noteq> [] \<or> wr_generation r \<noteq> 0 \<or> wr_scope_digest r \<noteq> [] \<or>
             wr_source_identity_digest r \<noteq> [] \<or> wr_baseline_tree_digest r \<noteq> [] \<or>
             wr_staged_tree_digest r \<noteq> []
          then Inl ''change apply journal record shape is invalid''
          else Inr (Terminal
             \<lparr>ct_grant_id = wr_grant_id r, ct_authorization_digest = wr_authorization_digest r,
              ct_manifest_digest = wr_manifest_digest r, ct_state = state,
              ct_receipt_digest = wr_receipt_digest r,
              ct_final_source_identity_digest = wr_final_source_identity_digest r,
              ct_failure_code = wr_failure_code r, ct_completed_at_ms = wr_occurred_at_ms r\<rparr>)))"

subsection \<open>Files\<close>

definition change_text :: io_text where
  "change_text =
     \<lparr>io_range = Some ''change apply journal offset is too large'', io_write = ''write change apply journal'',
      io_stalled = ''write change apply journal: Success'', io_read = ''read change apply journal'',
      io_ended = ''change apply journal is truncated''\<rparr>"

definition change_read_text :: io_text where
  "change_read_text = change_text\<lparr>io_range := None\<rparr>"

definition write_all_at :: "disk \<Rightarrow> bytes \<Rightarrow> u64 \<Rightarrow> unit expected \<times> disk" where
  "write_all_at d bs offset = write_bytes change_text d bs offset"

definition read_all :: "disk \<Rightarrow> u64 \<Rightarrow> bytes expected \<times> disk" where
  "read_all d n = read_bytes change_read_text d (unat n) 0"

definition truncate_change :: "disk \<Rightarrow> u64 \<Rightarrow> unit expected \<times> disk" where
  "truncate_change d n =
     (if unat n > off_t_max then (Inl ''change apply journal offset is too large'', d)
      else (case retried_call d of
        (Some e, d1) \<Rightarrow> (Inl (system_error ''truncate change apply journal'' e), d1)
      | (None, d1) \<Rightarrow> (Inr (), ftruncate d1 (unat n))))"

definition sync_change :: "disk \<Rightarrow> unit expected \<times> disk" where
  "sync_change d = sync_descriptor d ''sync change apply journal''"

definition validate_change_file :: "disk \<Rightarrow> u64 \<Rightarrow> u64 expected \<times> disk" where
  "validate_change_file d max_bytes =
     (case single_call d of
        (Some e, d1) \<Rightarrow> (Inl (system_error ''inspect change apply journal'' e), d1)
      | (None, d1) \<Rightarrow>
          if \<not> owner_only_file (d_euid d) (d_meta d) \<or> length (d_bytes d) > unat max_bytes
          then (Inl ''change apply journal must be a bounded owner-only single-link file'', d1)
          else (Inr (of_nat (length (d_bytes d))), d1))"

text \<open>What the calls on the path answer: the error of opening the parent, whether \<open>fstat\<close> finds it an
  owner-only directory, and the file, with whether it had to be created.\<close>

datatype change_entry = Existing disk | Fresh disk | Unavailable string

record change_location =
  cl_parent :: "string option"
  cl_owner_only :: bool
  cl_entry :: change_entry

definition initialise_file :: "disk \<Rightarrow> u64 \<Rightarrow> (disk \<times> u64) expected" where
  "initialise_file d max_bytes =
     (if unat max_bytes < length change_magic then Inl ''change apply journal capacity is too small''
      else (case write_all_at d (bytes_of_string change_magic) 0 of
        (Inl e, d1) \<Rightarrow> Inl e
      | (Inr _, d1) \<Rightarrow>
     (case sync_change d1 of
        (Inl e, d2) \<Rightarrow> Inl e
      | (Inr _, d2) \<Rightarrow>
     (case sync_change d2 of
        (Inl e, d3) \<Rightarrow> Inl e
      | (Inr _, d3) \<Rightarrow> Inr (d3, of_nat (length change_magic))))))"

definition open_change_file :: "string \<Rightarrow> u64 \<Rightarrow> change_location \<Rightarrow> (disk \<times> u64) expected" where
  "open_change_file path max_bytes loc =
     (if \<not> is_absolute path \<or> filename path = [] then Inl ''change apply journal path must be absolute''
      else (case cl_parent loc of
        Some e \<Rightarrow> Inl (system_error ''open change apply journal parent'' e)
      | None \<Rightarrow>
          if \<not> cl_owner_only loc then Inl ''change apply journal parent must be owner-only''
          else (case cl_entry loc of
        Unavailable e \<Rightarrow> Inl (system_error ''open change apply journal'' e)
      | Existing d \<Rightarrow>
         (case retried_call d of
            (Some e, d1) \<Rightarrow> Inl (system_error ''lock change apply journal'' e)
          | (None, d1) \<Rightarrow>
             (case validate_change_file d1 max_bytes of
                (Inl e, d2) \<Rightarrow> Inl e
              | (Inr n, d2) \<Rightarrow> Inr (d2, n)))
      | Fresh d \<Rightarrow>
         (case retried_call d of
            (Some e, d1) \<Rightarrow> Inl (system_error ''lock change apply journal'' e)
          | (None, d1) \<Rightarrow>
             (case validate_change_file d1 max_bytes of
                (Inl e, d2) \<Rightarrow> Inl e
              | (Inr n, d2) \<Rightarrow> initialise_file d2 max_bytes)))))"

subsection \<open>The journal\<close>

text \<open>\<open>grants\<close> is an ordered map: an association list sorted by key.\<close>

record change_journal =
  cj_disk :: disk
  cj_size :: u64
  cj_max_bytes :: u64
  cj_sequence :: u64
  cj_head_hash :: string
  cj_grants :: "(string \<times> change_apply_grant_status) list"
  cj_authorization_digests :: "string set"
  cj_manifest_digests :: "string set"

definition grants_emplace ::
    "string \<Rightarrow> change_apply_grant_status \<Rightarrow> (string \<times> change_apply_grant_status) list \<Rightarrow>
     (string \<times> change_apply_grant_status) list" where
  "grants_emplace k v m = (if map_of m k = None then insort_key fst (k, v) m else m)"

definition grants_close ::
    "string \<Rightarrow> change_apply_terminal_record \<Rightarrow> (string \<times> change_apply_grant_status) list \<Rightarrow>
     (string \<times> change_apply_grant_status) list" where
  "grants_close k t m = map (\<lambda>(k', v). (k', if k' = k then v\<lparr>gs_terminal := Some t\<rparr> else v)) m"

definition append_change :: "change_codec \<Rightarrow> wire_record \<Rightarrow> change_journal \<Rightarrow> unit expected \<times> change_journal" where
  "append_change c record0 s =
     (if unat (cj_sequence s) \<ge> max_change_records then (Inl ''change apply journal capacity is exhausted'', s)
      else (case record_digest c record0 of
        Inl e \<Rightarrow> (Inl e, s)
      | Inr digest \<Rightarrow>
     (let record = record0\<lparr>wr_record_hash := digest\<rparr> in
      case cc_write c record of
        None \<Rightarrow> (Inl ''change apply journal record encoding is invalid'', s)
      | Some json0 \<Rightarrow>
          if json0 = [] \<or> length json0 > max_change_record_bytes
          then (Inl ''change apply journal record encoding is invalid'', s)
          else
     (let json = json0 @ [CHR 0x0A] in
      if length json > unat (cj_max_bytes s) \<or> cj_size s > cj_max_bytes s - of_nat (length json)
      then (Inl ''change apply journal byte capacity is exhausted'', s)
      else (case write_all_at (cj_disk s) (bytes_of_string json) (cj_size s) of
        (Inl e, d1) \<Rightarrow> (Inl e, s\<lparr>cj_disk := snd (truncate_change d1 (cj_size s))\<rparr>)
      | (Inr _, d1) \<Rightarrow>
     (case sync_change d1 of
        (Inl e, d2) \<Rightarrow>
          (Inl e, s\<lparr>cj_disk := snd (sync_change (snd (truncate_change d2 (cj_size s))))\<rparr>)
      | (Inr _, d2) \<Rightarrow>
          (Inr (), s\<lparr>cj_disk := d2, cj_size := cj_size s + of_nat (length json),
                     cj_sequence := wr_sequence record, cj_head_hash := wr_record_hash record\<rparr>)))))))"

definition reservation_valid :: "change_apply_reservation_record \<Rightarrow> bool" where
  "reservation_valid r =
     (valid_identifier (cr_grant_id r) \<and> valid_digest (cr_authorization_digest r) \<and>
      valid_digest (cr_manifest_digest r) \<and> valid_identifier (cr_session_id r) \<and>
      valid_identifier (cr_exposure_id r) \<and> cr_generation r \<noteq> 0 \<and> valid_digest (cr_scope_digest r) \<and>
      valid_digest (cr_source_identity_digest r) \<and> valid_digest (cr_baseline_tree_digest r) \<and>
      valid_digest (cr_staged_tree_digest r) \<and> cr_reserved_at_ms r \<noteq> 0)"

definition index_reservation :: "change_apply_reservation_record \<Rightarrow> change_journal \<Rightarrow> change_journal" where
  "index_reservation r s =
     s\<lparr>cj_authorization_digests := insert (cr_authorization_digest r) (cj_authorization_digests s),
       cj_manifest_digests := insert (cr_manifest_digest r) (cj_manifest_digests s),
       cj_grants := grants_emplace (cr_grant_id r) \<lparr>gs_reservation = r, gs_terminal = None\<rparr> (cj_grants s)\<rparr>"

definition change_reserve ::
    "change_codec \<Rightarrow> change_apply_reservation_record \<Rightarrow> change_journal \<Rightarrow> unit expected \<times> change_journal" where
  "change_reserve c r s =
     (if \<not> reservation_valid r then (Inl ''change apply reservation is invalid'', s)
      else if map_of (cj_grants s) (cr_grant_id r) \<noteq> None \<or>
              cr_authorization_digest r \<in> cj_authorization_digests s \<or>
              cr_manifest_digest r \<in> cj_manifest_digests s
      then (Inl ''change apply grant, authorization, or manifest was already consumed'', s)
      else (case append_change c (encode_reservation r (cj_sequence s + 1) (cj_head_hash s)) s of
        (Inl e, s1) \<Rightarrow> (Inl e, s1)
      | (Inr _, s1) \<Rightarrow> (Inr (), index_reservation r s1)))"

definition change_finalize ::
    "change_codec \<Rightarrow> change_apply_terminal_record \<Rightarrow> change_journal \<Rightarrow> unit expected \<times> change_journal" where
  "change_finalize c r s =
     (case map_of (cj_grants s) (ct_grant_id r) of
        None \<Rightarrow> (Inl ''change apply terminal transition is invalid'', s)
      | Some status \<Rightarrow>
          if gs_terminal status \<noteq> None \<or>
             ct_authorization_digest r \<noteq> cr_authorization_digest (gs_reservation status) \<or>
             ct_manifest_digest r \<noteq> cr_manifest_digest (gs_reservation status) \<or>
             terminal_name (ct_state r) = [] \<or> \<not> valid_digest (ct_receipt_digest r) \<or>
             \<not> valid_digest (ct_final_source_identity_digest r) \<or>
             \<not> terminal_failure_code_ok (ct_state r) (ct_failure_code r) \<or>
             ct_completed_at_ms r < cr_reserved_at_ms (gs_reservation status)
          then (Inl ''change apply terminal transition is invalid'', s)
          else (case append_change c (encode_terminal r (cj_sequence s + 1) (cj_head_hash s)) s of
             (Inl e, s1) \<Rightarrow> (Inl e, s1)
           | (Inr _, s1) \<Rightarrow> (Inr (), s1\<lparr>cj_grants := grants_close (ct_grant_id r) r (cj_grants s1)\<rparr>)))"

definition change_records :: "change_journal \<Rightarrow> change_apply_grant_status list" where
  "change_records s = map snd (cj_grants s)"

definition change_find :: "string \<Rightarrow> change_journal \<Rightarrow> change_apply_grant_status option" where
  "change_find grant_id s = map_of (cj_grants s) grant_id"

subsection \<open>Opening\<close>

text \<open>One line of the file: the checks of the loop in \<open>open\<close> in their order, those of the decoded record
  last.\<close>

definition recover_entry :: "decoded_record \<Rightarrow> change_journal \<Rightarrow> change_journal expected" where
  "recover_entry decoded s =
     (case decoded of
        Reservation r \<Rightarrow>
          if map_of (cj_grants s) (cr_grant_id r) \<noteq> None \<or>
             cr_authorization_digest r \<in> cj_authorization_digests s \<or>
             cr_manifest_digest r \<in> cj_manifest_digests s
          then Inl ''change apply journal contains a replay''
          else Inr (index_reservation r s)
      | Terminal t \<Rightarrow>
         (case map_of (cj_grants s) (ct_grant_id t) of
            None \<Rightarrow> Inl ''change apply journal transition is invalid''
          | Some status \<Rightarrow>
              if gs_terminal status \<noteq> None \<or>
                 ct_authorization_digest t \<noteq> cr_authorization_digest (gs_reservation status) \<or>
                 ct_manifest_digest t \<noteq> cr_manifest_digest (gs_reservation status) \<or>
                 ct_completed_at_ms t < cr_reserved_at_ms (gs_reservation status)
              then Inl ''change apply journal transition is invalid''
              else Inr (s\<lparr>cj_grants := grants_close (ct_grant_id t) t (cj_grants s)\<rparr>)))"

definition recover_line :: "change_codec \<Rightarrow> string \<Rightarrow> change_journal \<Rightarrow> change_journal expected" where
  "recover_line c json s =
     (case cc_read c json of
        None \<Rightarrow> Inl ''change apply journal chain metadata is invalid''
      | Some record \<Rightarrow>
          if wr_schema_version record \<noteq> 1 \<or> wr_sequence record \<noteq> cj_sequence s + 1 \<or>
             wr_previous_hash record \<noteq> cj_head_hash s \<or> \<not> valid_digest (wr_record_hash record)
          then Inl ''change apply journal chain metadata is invalid''
          else if cc_write c record \<noteq> Some json \<or> record_digest c record \<noteq> Inr (wr_record_hash record)
          then Inl ''change apply journal record hash mismatch''
          else and_then (decode_wire record) (\<lambda>decoded. and_then (recover_entry decoded s) (\<lambda>s1.
            Inr (s1\<lparr>cj_sequence := wr_sequence record, cj_head_hash := wr_record_hash record\<rparr>))))"

function recover_lines :: "change_codec \<Rightarrow> string \<Rightarrow> change_journal \<Rightarrow> change_journal expected" where
  "recover_lines c rest s =
     (if rest = [] then Inr s
      else
        let json = takeWhile (\<lambda>x. x \<noteq> CHR 0x0A) rest in
        if length json = length rest \<or> json = [] \<or> length json > max_change_record_bytes \<or>
           unat (cj_sequence s) \<ge> max_change_records
        then Inl ''change apply journal record framing is invalid''
        else and_then (recover_line c json s) (\<lambda>s1. recover_lines c (drop (Suc (length json)) rest) s1))"
  by pat_completeness auto

termination
  by (relation "measure (\<lambda>(c, rest, s). length rest)") auto

declare recover_lines.simps [simp del]

definition change_open :: "change_codec \<Rightarrow> string \<Rightarrow> u64 \<Rightarrow> change_location \<Rightarrow> change_journal expected" where
  "change_open c path max_bytes loc =
     (if unat max_bytes < length change_magic + 2 then Inl ''change apply journal capacity is invalid''
      else and_then (open_change_file path max_bytes loc) (\<lambda>(d, n).
        case read_all d n of
          (Inl e, d1) \<Rightarrow> Inl ''change apply journal header is invalid''
        | (Inr bs, d1) \<Rightarrow>
            let content = string_of_bytes bs in
            if take (length change_magic) content \<noteq> change_magic
            then Inl ''change apply journal header is invalid''
            else recover_lines c (drop (length change_magic) content)
                   \<lparr>cj_disk = d1, cj_size = n, cj_max_bytes = max_bytes, cj_sequence = 0,
                    cj_head_hash = replicate 64 (CHR ''0''), cj_grants = [],
                    cj_authorization_digests = {}, cj_manifest_digests = {}\<rparr>))"

end
