(* ===== verification/Change_Laws.thy ===== *)
theory Change_Laws
  imports Change_Journal Journal_Contracts
begin

text \<open>
  What the operations of the change-apply journal guarantee: the acknowledged prefix of the file always
  replays to the state in memory, whatever an append that failed left behind it.
\<close>

subsection \<open>Writing over a tail\<close>

lemma take_splice:
  assumes "n \<le> length content"
  shows "take (n + length bs) (splice content bs n) = take n content @ bs"
  using assms by (simp add: splice_def)

lemma length_splice: "n \<le> length content \<Longrightarrow> n + length bs \<le> length (splice content bs n)"
  by (simp add: splice_def)

lemma write_loop_overwrites:
  assumes "write_loop t os d bs offset written = (r, d')"
    and "take (unat offset + written) (d_bytes d) = content @ take written bs"
    and "unat offset = length content" and "written \<le> length bs"
  shows "same_file d d' \<and> (\<exists>k \<le> length bs. take (unat offset + k) (d_bytes d') = content @ take k bs \<and>
    (r = Inr () \<longrightarrow> k = length bs))"
  using assms
proof (induction t os d bs offset written rule: write_loop.induct)
  case (1 t os d bs offset written)
  have len: "unat offset + written \<le> length (d_bytes d)"
    using arg_cong [OF 1(4), of length] 1(5,6) by simp
  have written_part: "take (unat offset + written + length part) (d_bytes (pwrite d part (unat offset + written))) =
      content @ take written bs @ part" for part
    using take_splice [OF len, of part] 1(4) by (simp add: pwrite_def)
  note unfolded = 1(3) [unfolded write_loop.simps [of t os d]]
  show ?case
  proof (cases "written < length bs \<and> in_range t (unat offset + written)")
    case False
    then show ?thesis
      using unfolded 1(4,6) by (intro conjI exI [of _ written]) (auto split: if_splits)
  next
    case live: True
    show ?thesis
    proof (cases os)
      case Nil
      have "take (unat offset + length bs) (d_bytes (pwrite d (drop written bs) (unat offset + written))) = content @ bs"
        using written_part [of "drop written bs"] live by simp
      with Nil show ?thesis
        using unfolded live by (auto intro!: exI [of _ "length bs"])
    next
      case (Cons outcome rest)
      show ?thesis
      proof (cases outcome)
        case Interrupted
        then show ?thesis
          using 1(1) [of Interrupted rest] unfolded live Cons 1(4-6) by simp
      next
        case (Failed e)
        then show ?thesis
          using unfolded live Cons 1(4,6) by (auto intro!: exI [of _ written])
      next
        case (Progress n)
        define result where "result = min n (length bs - written)"
        show ?thesis
        proof (cases "result = 0")
          case True
          then show ?thesis
            using unfolded live Cons Progress 1(4,6)
            by (auto simp: result_def Let_def intro!: exI [of _ written])
        next
          case False
          have "write_loop t rest (pwrite d (take result (drop written bs)) (unat offset + written))
              bs offset (written + result) = (r, d')"
            using unfolded live Cons Progress False by (auto simp: result_def Let_def split: if_splits)
          moreover have "take (unat offset + (written + result))
              (d_bytes (pwrite d (take result (drop written bs)) (unat offset + written))) = content @ take (written + result) bs"
            using written_part [of "take result (drop written bs)"] by (simp add: result_def take_add add.assoc)
          moreover have "written + result \<le> length bs"
            using live by (auto simp: result_def)
          ultimately show ?thesis
            using 1(2) [of "Progress n" rest n result] 1(5) live Cons Progress False by (simp add: result_def)
        qed
      qed
    qed
  qed
qed

lemma write_bytes_overwrites:
  assumes "write_bytes t d bs offset = (r, d')" and "unat offset \<le> length (d_bytes d)"
  shows "same_file d d'" "take (unat offset) (d_bytes d') = take (unat offset) (d_bytes d)"
    "r = Inr () \<Longrightarrow> take (unat offset + length bs) (d_bytes d') = take (unat offset) (d_bytes d) @ bs"
proof -
  obtain k where k: "same_file d d'" "k \<le> length bs"
    "take (unat offset + k) (d_bytes d') = take (unat offset) (d_bytes d) @ take k bs" "r = Inr () \<longrightarrow> k = length bs"
    using write_loop_overwrites [of t "d_outcomes d" d bs offset 0 r d' "take (unat offset) (d_bytes d)"] assms
    by (auto simp: write_bytes_def)
  show "same_file d d'" by (rule k)
  show "take (unat offset) (d_bytes d') = take (unat offset) (d_bytes d)"
    using arg_cong [OF k(3), of "take (unat offset)"] assms(2) by (simp add: min_def)
  show "take (unat offset + length bs) (d_bytes d') = take (unat offset) (d_bytes d) @ bs" if "r = Inr ()"
    using k that by simp
qed

lemma truncate_change_keeps:
  assumes "unat n \<le> length (d_bytes d)"
  shows "take (unat n) (d_bytes (snd (truncate_change d n))) = take (unat n) (d_bytes d)"
    "unat n \<le> length (d_bytes (snd (truncate_change d n)))" "same_file d (snd (truncate_change d n))"
proof -
  obtain e d1 where call: "retried_call d = (e, d1)" by fastforce
  note same = retried_call_file [OF call]
  show "take (unat n) (d_bytes (snd (truncate_change d n))) = take (unat n) (d_bytes d)"
    "unat n \<le> length (d_bytes (snd (truncate_change d n)))" "same_file d (snd (truncate_change d n))"
    using assms same call by (auto simp: truncate_change_def ftruncate_def same_file_def split: option.splits)
qed

lemma sync_change_keeps:
  "d_bytes (snd (sync_change d)) = d_bytes d" "same_file d (snd (sync_change d))"
proof -
  obtain r d' where "sync_change d = (r, d')" by fastforce
  then show "d_bytes (snd (sync_change d)) = d_bytes d" "same_file d (snd (sync_change d))"
    using sync_descriptor_file unfolding sync_change_def by auto
qed

subsection \<open>Replaying\<close>

definition change_codec_faithful :: "change_codec \<Rightarrow> bool" where
  "change_codec_faithful c =
     (\<forall>r json. cc_write c r = Some json \<longrightarrow> cc_read c json = Some r \<and> CHR 0x0A \<notin> set json)"

text \<open>What a journal holds beside its file.\<close>

definition change_index where
  "change_index s = (cj_sequence s, cj_head_hash s, cj_grants s, cj_authorization_digests s, cj_manifest_digests s)"

definition change_fresh :: "change_journal \<Rightarrow> change_journal" where
  "change_fresh s =
     s\<lparr>cj_sequence := 0, cj_head_hash := replicate 64 (CHR ''0''), cj_grants := [],
       cj_authorization_digests := {}, cj_manifest_digests := {}\<rparr>"

definition change_outside :: "change_journal \<Rightarrow> change_journal \<Rightarrow> change_journal" where
  "change_outside t s = s\<lparr>cj_disk := cj_disk t, cj_size := cj_size t, cj_max_bytes := cj_max_bytes t\<rparr>"

text \<open>Recovery never looks at the file of the journal it builds.\<close>

lemma recover_line_outside:
  "recover_line c json (change_outside t s) = and_then (recover_line c json s) (\<lambda>s'. Inr (change_outside t s'))"
  by (auto simp: recover_line_def recover_entry_def change_outside_def index_reservation_def and_then_def
      split: option.splits sum.splits decoded_record.splits)

lemma recover_lines_outside:
  "recover_lines c rest (change_outside t s) = and_then (recover_lines c rest s) (\<lambda>s'. Inr (change_outside t s'))"
proof (induction c rest s rule: recover_lines.induct)
  case (1 c rest s)
  have sequence: "cj_sequence (change_outside t s) = cj_sequence s" by (simp add: change_outside_def)
  let ?json = "takeWhile (\<lambda>x. x \<noteq> CHR 0x0A) rest"
  show ?case
  proof (cases "rest = [] \<or> length ?json = length rest \<or> ?json = [] \<or> length ?json > max_change_record_bytes \<or>
           unat (cj_sequence s) \<ge> max_change_records")
    case True
    then show ?thesis
      by (subst (1 2) recover_lines.simps) (auto simp: sequence Let_def)
  next
    case False
    then show ?thesis
      using 1 [of ?json] by (subst (1 2) recover_lines.simps)
        (cases "recover_line c ?json s"; simp add: sequence Let_def recover_line_outside)
  qed
qed

lemma recover_lines_Nil [simp]: "recover_lines c [] s = Inr s"
  by (simp add: recover_lines.simps)

lemma takeWhile_line: "x \<notin> set json \<Longrightarrow> takeWhile (\<lambda>y. y \<noteq> x) (json @ x # rest) = json"
  by (induction json) auto

lemma recover_lines_Cons:
  assumes "CHR 0x0A \<notin> set json" "json \<noteq> []" "length json \<le> max_change_record_bytes"
    "unat (cj_sequence s) < max_change_records"
  shows "recover_lines c (json @ CHR 0x0A # rest) s = and_then (recover_line c json s) (recover_lines c rest)"
  using assms by (subst recover_lines.simps) (simp add: takeWhile_line Let_def)

lemma first_line:
  assumes "length (takeWhile (\<lambda>y. y \<noteq> x) xs) \<noteq> length xs"
  shows "xs = takeWhile (\<lambda>y. y \<noteq> x) xs @ x # drop (Suc (length (takeWhile (\<lambda>y. y \<noteq> x) xs))) xs"
proof -
  let ?n = "length (takeWhile (\<lambda>y. y \<noteq> x) xs)"
  have "?n < length xs"
    using assms length_takeWhile_le [of "\<lambda>y. y \<noteq> x" xs] by linarith
  then show ?thesis
    using id_take_nth_drop [of ?n xs] nth_length_takeWhile [of "\<lambda>y. y \<noteq> x" xs]
    by (simp add: takeWhile_eq_take [symmetric])
qed

text \<open>Replaying the first part of a file that itself ends at a line leaves the rest to the state reached.\<close>

lemma recover_lines_append:
  "recover_lines c content s = Inr s1 \<Longrightarrow> recover_lines c (content @ rest) s = recover_lines c rest s1"
proof (induction c content s rule: recover_lines.induct)
  case (1 c content s)
  let ?json = "takeWhile (\<lambda>x. x \<noteq> CHR 0x0A) content"
  show ?case
  proof (cases "content = []")
    case True
    then show ?thesis using 1(2) by simp
  next
    case False
    note step = 1(2) [unfolded recover_lines.simps [of c content]]
    have framed: "length ?json \<noteq> length content" "?json \<noteq> []" "length ?json \<le> max_change_record_bytes"
      "unat (cj_sequence s) < max_change_records"
      using step False by (auto simp: Let_def split: if_splits)
    then obtain s2 where line: "recover_line c ?json s = Inr s2"
      "recover_lines c (drop (Suc (length ?json)) content) s2 = Inr s1"
      using step False by (auto simp: Let_def and_then_Inr not_le split: if_splits)
    have split: "content = ?json @ CHR 0x0A # drop (Suc (length ?json)) content"
      by (rule first_line [OF framed(1)])
    have "CHR 0x0A \<notin> set ?json" by (auto dest: set_takeWhileD)
    then have "recover_lines c (?json @ CHR 0x0A # (drop (Suc (length ?json)) content @ rest)) s =
        and_then (recover_line c ?json s) (recover_lines c (drop (Suc (length ?json)) content @ rest))"
      by (intro recover_lines_Cons framed)
    also have "\<dots> = recover_lines c rest s1"
      using 1(1) [of ?json s2] framed False line by (simp add: not_le)
    finally show ?thesis
      using arg_cong [OF split, of "\<lambda>x. recover_lines c (x @ rest) s"] by simp
  qed
qed

subsection \<open>The invariant\<close>

text \<open>The acknowledged prefix of the file replays to the state in memory.\<close>

definition change_replays :: "change_codec \<Rightarrow> change_journal \<Rightarrow> bool" where
  "change_replays c s =
     (\<exists>content. take (unat (cj_size s)) (d_bytes (cj_disk s)) = bytes_of_string (change_magic @ content) \<and>
        recover_lines c content (change_fresh s) = Inr s)"

definition change_ok :: "change_codec \<Rightarrow> change_journal \<Rightarrow> bool" where
  "change_ok c s =
     (change_replays c s \<and> unat (cj_size s) \<le> length (d_bytes (cj_disk s)) \<and> cj_size s \<le> cj_max_bytes s \<and>
      unat (cj_sequence s) \<le> max_change_records \<and> length change_magic + 2 \<le> unat (cj_max_bytes s))"

text \<open>A failed append leaves all but the file as it was, and the acknowledged prefix of the file.\<close>

definition change_untouched :: "change_journal \<Rightarrow> change_journal \<Rightarrow> bool" where
  "change_untouched s s' =
     (\<exists>d. s' = s\<lparr>cj_disk := d\<rparr> \<and> take (unat (cj_size s)) (d_bytes d) = take (unat (cj_size s)) (d_bytes (cj_disk s)) \<and>
        unat (cj_size s) \<le> length (d_bytes d))"

definition change_appended :: "change_codec \<Rightarrow> wire_record \<Rightarrow> string \<Rightarrow> change_journal \<Rightarrow> change_journal \<Rightarrow> bool" where
  "change_appended c r json s s' =
     (\<exists>d. s' = s\<lparr>cj_disk := d, cj_size := cj_size s + of_nat (length json + 1), cj_sequence := wr_sequence r,
                 cj_head_hash := wr_record_hash r\<rparr> \<and>
        take (unat (cj_size s) + length json + 1) (d_bytes d) =
          take (unat (cj_size s)) (d_bytes (cj_disk s)) @ bytes_of_string (json @ [CHR 0x0A]))"

lemma append_change_laws:
  assumes "append_change c r0 s = (result, s')" and "unat (cj_size s) \<le> length (d_bytes (cj_disk s))"
  shows "(\<exists>e. result = Inl e) \<and> change_untouched s s' \<or>
    (\<exists>digest json. result = Inr () \<and> unat (cj_sequence s) < max_change_records \<and>
       record_digest c r0 = Inr digest \<and> cc_write c (r0\<lparr>wr_record_hash := digest\<rparr>) = Some json \<and> json \<noteq> [] \<and>
       length json \<le> max_change_record_bytes \<and> length json + 1 \<le> unat (cj_max_bytes s) \<and>
       cj_size s \<le> cj_max_bytes s - of_nat (length json + 1) \<and>
       change_appended c (r0\<lparr>wr_record_hash := digest\<rparr>) json s s')"
proof -
  have same: "change_untouched s s"
    using assms(2) by (auto simp: change_untouched_def intro: exI [of _ "cj_disk s"])
  consider (kept) e where "result = Inl e" "s' = s"
    | (wrote) digest json where "unat (cj_sequence s) < max_change_records" "record_digest c r0 = Inr digest"
      "cc_write c (r0\<lparr>wr_record_hash := digest\<rparr>) = Some json" "json \<noteq> []" "length json \<le> max_change_record_bytes"
      "length json + 1 \<le> unat (cj_max_bytes s)" "cj_size s \<le> cj_max_bytes s - of_nat (length json + 1)"
    using assms(1) by (auto simp: append_change_def Let_def not_less not_le split: if_splits sum.splits option.splits)
  then show ?thesis
  proof cases
    case kept
    then show ?thesis using same by blast
  next
    case wrote
    let ?json = "json @ [CHR 0x0A]"
    obtain w d1 where w: "write_bytes change_text (cj_disk s) (bytes_of_string ?json) (cj_size s) = (w, d1)" by fastforce
    note over = write_bytes_overwrites [OF w assms(2)]
    have long: "unat (cj_size s) \<le> length (d_bytes d1)"
      using arg_cong [OF over(2), of length] assms(2) by simp
    obtain y d2 where y: "sync_change d1 = (y, d2)" by fastforce
    have d2: "d_bytes d2 = d_bytes d1" using sync_change_keeps [of d1] y by simp
    have undone: "change_untouched s (s\<lparr>cj_disk := d\<rparr>)"
      if "d = snd (truncate_change d1 (cj_size s)) \<or> d = snd (sync_change (snd (truncate_change d2 (cj_size s))))" for d
      using that truncate_change_keeps [of "cj_size s" d1] truncate_change_keeps [of "cj_size s" d2] long d2 over(2)
      by (auto simp: change_untouched_def sync_change_keeps)
    have run: "append_change c r0 s =
        (case w of Inl e \<Rightarrow> (Inl e, s\<lparr>cj_disk := snd (truncate_change d1 (cj_size s))\<rparr>)
         | Inr _ \<Rightarrow> (case y of Inl e \<Rightarrow> (Inl e, s\<lparr>cj_disk := snd (sync_change (snd (truncate_change d2 (cj_size s))))\<rparr>)
         | Inr _ \<Rightarrow> (Inr (), s\<lparr>cj_disk := d2, cj_size := cj_size s + of_nat (length json + 1),
              cj_sequence := wr_sequence r0, cj_head_hash := digest\<rparr>)))"
      using wrote w y by (auto simp: append_change_def write_all_at_def Let_def dest: leD split: sum.splits)
    show ?thesis
    proof (cases "\<exists>e. w = Inl e \<or> y = Inl e")
      case True
      then show ?thesis
        using run assms(1) undone by (cases w; cases y) auto
    next
      case False
      have "w = Inr ()" using False by (cases w) auto
      moreover have "y = Inr ()" using False by (cases y) auto
      ultimately have "result = Inr ()" "change_appended c (r0\<lparr>wr_record_hash := digest\<rparr>) json s s'"
        using run assms(1) over(3) d2 by (auto simp: change_appended_def add.assoc)
      then show ?thesis using wrote by blast
    qed
  qed
qed

lemma change_fresh_outside [simp]:
  "change_fresh (change_outside t s) = change_outside t (change_fresh s)" "change_fresh (change_fresh s) = change_fresh s"
  by (simp_all add: change_fresh_def change_outside_def)

text \<open>A state whose index is that of a replayed prefix replays, wherever its file is.\<close>

lemma change_replays_outside:
  assumes "recover_lines c content (change_fresh s) = Inr s" and "s' = change_outside t s"
  shows "recover_lines c content (change_fresh s') = Inr s'"
  using assms by (simp add: recover_lines_outside)

lemma change_untouched_ok: "change_ok c s \<Longrightarrow> change_untouched s s' \<Longrightarrow> change_ok c s'"
proof -
  assume ok: "change_ok c s" and kept: "change_untouched s s'"
  obtain content where content: "take (unat (cj_size s)) (d_bytes (cj_disk s)) = bytes_of_string (change_magic @ content)"
    "recover_lines c content (change_fresh s) = Inr s"
    using ok by (auto simp: change_ok_def change_replays_def)
  have "s' = change_outside s' s"
    using kept by (auto simp: change_untouched_def change_outside_def)
  from change_replays_outside [OF content(2) this] show "change_ok c s'"
    using ok kept content(1) by (auto simp: change_ok_def change_replays_def change_untouched_def)
qed

lemma change_appended_ok:
  assumes ok: "change_ok c s" and faithful: "change_codec_faithful c"
    and json: "cc_write c r = Some json" "json \<noteq> []" "length json \<le> max_change_record_bytes"
    and room: "length json + 1 \<le> unat (cj_max_bytes s)" "cj_size s \<le> cj_max_bytes s - of_nat (length json + 1)"
    and records: "unat (cj_sequence s) < max_change_records" "wr_sequence r = cj_sequence s + 1"
    and appended: "change_appended c r json s s1"
    and line: "recover_line c json (change_outside s1 s) = Inr s2"
    and kept: "cj_disk s2 = cj_disk s1" "cj_size s2 = cj_size s1" "cj_max_bytes s2 = cj_max_bytes s1"
      "cj_sequence s2 = cj_sequence s1"
  shows "change_ok c s2"
proof -
  obtain content where content: "take (unat (cj_size s)) (d_bytes (cj_disk s)) = bytes_of_string (change_magic @ content)"
    "recover_lines c content (change_fresh s) = Inr s"
    using ok by (auto simp: change_ok_def change_replays_def)
  have fits: "unat (cj_size s) + (length json + 1) \<le> unat (cj_max_bytes s)"
  proof -
    have len: "unat (of_nat (length json + 1) :: u64) = length json + 1"
      using room(1) unsigned_less [of "cj_max_bytes s", where 'a = nat]
      by (simp add: unsigned_of_nat take_bit_nat_eq_self del: of_nat_Suc of_nat_add)
    then have "unat (cj_max_bytes s - of_nat (length json + 1)) = unat (cj_max_bytes s) - (length json + 1)"
      using room(1) by (subst unat_sub) (simp_all add: word_le_nat_alt del: of_nat_Suc of_nat_add)
    then show ?thesis using room by (simp add: word_le_nat_alt)
  qed
  have size: "unat (cj_size s1) = unat (cj_size s) + (length json + 1)"
    using appended unat_grow [OF fits] by (auto simp: change_appended_def)
  have bytes: "take (unat (cj_size s1)) (d_bytes (cj_disk s1)) =
      bytes_of_string (change_magic @ content @ json @ [CHR 0x0A])"
    using appended content(1) size by (auto simp: change_appended_def bytes_of_string_def)
  have newline: "CHR 0x0A \<notin> set json"
    using faithful json(1) by (auto simp: change_codec_faithful_def)
  have fresh: "change_fresh s2 = change_fresh (change_outside s1 s)"
    using kept by (simp add: change_fresh_def change_outside_def)
  have "recover_lines c (content @ json @ [CHR 0x0A]) (change_fresh s2) =
      recover_lines c (json @ [CHR 0x0A]) (change_outside s1 s)"
    unfolding fresh by (rule recover_lines_append [OF change_replays_outside [OF content(2) refl]])
  also have "\<dots> = Inr s2"
    using line newline json(2,3) records(1) by (simp add: recover_lines_Cons change_outside_def)
  finally have replay: "recover_lines c (content @ json @ [CHR 0x0A]) (change_fresh s2) = Inr s2" .
  have length: "unat (cj_size s1) \<le> length (d_bytes (cj_disk s1))"
    using arg_cong [OF bytes, of length] arg_cong [OF content(1), of length] ok size
    by (simp add: change_ok_def)
  have "unat (cj_sequence s + 1) \<le> max_change_records"
    using unat_grow [of "cj_sequence s" 1 "of_nat max_change_records"] records(1) by (simp add: max_change_records_def)
  moreover have "length change_magic + 2 \<le> unat (cj_max_bytes s)"
    using ok by (simp add: change_ok_def)
  ultimately show ?thesis
    using replay bytes length size fits kept records(2) appended
    by (auto simp: change_ok_def change_replays_def word_le_nat_alt change_appended_def)
qed

end
