(* ===== verification/Change_Contracts.thy ===== *)
theory Change_Contracts
  imports Change_Laws
begin

text \<open>
  The contract of the change-apply journal: an operation that fails leaves the index and the
  acknowledged bytes as they were, one that succeeds adds exactly its record, and the journal opened
  on the acknowledged bytes is the journal in memory.
\<close>

subsection \<open>Encoding and decoding records\<close>

lemma decode_encode_reservation:
  "reservation_valid r \<Longrightarrow> decode_wire ((encode_reservation r n h)\<lparr>wr_record_hash := d\<rparr>) = Inr (Reservation r)"
  by (simp add: decode_wire_def encode_reservation_def reservation_valid_def)

lemma parse_terminal_name: "parse_terminal (terminal_name state) = Inr state"
  by (cases state) (simp_all add: parse_terminal_def terminal_name_def)

lemma decode_encode_terminal:
  assumes "valid_identifier (ct_grant_id t)" "valid_digest (ct_authorization_digest t)"
    "valid_digest (ct_manifest_digest t)" "ct_completed_at_ms t \<noteq> 0" "valid_digest (ct_receipt_digest t)"
    "valid_digest (ct_final_source_identity_digest t)" "terminal_failure_code_ok (ct_state t) (ct_failure_code t)"
  shows "decode_wire ((encode_terminal t n h)\<lparr>wr_record_hash := d\<rparr>) = Inr (Terminal t)"
  using assms by (simp add: decode_wire_def encode_terminal_def parse_terminal_name)

lemma record_digest_hash [simp]: "record_digest c (r\<lparr>wr_record_hash := d\<rparr>) = record_digest c r"
  by (simp add: record_digest_def wire_body_def wire_record_body.truncate_def)

lemma record_digest_valid: "record_digest c r = Inr d \<Longrightarrow> valid_digest d"
  by (auto simp: record_digest_def dest: sha256_hex_valid split: option.splits)

subsection \<open>The ordered map of grants\<close>

text \<open>A field of the reservations, in the order of the map.\<close>

definition reserved_field :: "(change_apply_reservation_record \<Rightarrow> 'a) \<Rightarrow> change_journal \<Rightarrow> 'a list" where
  "reserved_field f s = map (\<lambda>p. f (gs_reservation (snd p))) (cj_grants s)"

definition grants_ok :: "change_journal \<Rightarrow> bool" where
  "grants_ok s =
     (distinct (map fst (cj_grants s)) \<and>
      (\<forall>(k, v) \<in> set (cj_grants s). cr_grant_id (gs_reservation v) = k \<and> reservation_valid (gs_reservation v)) \<and>
      cj_authorization_digests s = set (reserved_field cr_authorization_digest s) \<and>
      cj_manifest_digests s = set (reserved_field cr_manifest_digest s) \<and>
      distinct (reserved_field cr_authorization_digest s) \<and> distinct (reserved_field cr_manifest_digest s))"

lemma distinct_map_insort_key:
  "distinct (map f (insort_key k p m)) \<longleftrightarrow> f p \<notin> f ` set m \<and> distinct (map f m)"
  by (induction m) (auto simp: set_insort_key)

lemma map_of_insort_key:
  "map_of m k = None \<Longrightarrow> map_of (insort_key fst (k, v) m) = (map_of m)(k \<mapsto> v)"
  by (induction m) (auto simp: fun_eq_iff split: if_splits)

lemma map_of_grants_emplace:
  "map_of m k = None \<Longrightarrow> map_of (grants_emplace k v m) = (map_of m)(k \<mapsto> v)"
  by (simp add: grants_emplace_def map_of_insort_key)

lemma map_of_grants_close:
  "map_of (grants_close k t m) = (\<lambda>j. map_option (\<lambda>v. if j = k then v\<lparr>gs_terminal := Some t\<rparr> else v) (map_of m j))"
  by (rule ext, induction m) (auto simp: grants_close_def)

lemma grants_close_fst [simp]: "map fst (grants_close k t m) = map fst m"
  by (simp add: grants_close_def case_prod_beta comp_def)

lemma grants_close_reservations [simp]:
  "map (\<lambda>p. gs_reservation (snd p)) (grants_close k t m) = map (\<lambda>p. gs_reservation (snd p)) m"
  by (simp add: grants_close_def case_prod_beta comp_def)

lemma index_reservation_ok:
  assumes "grants_ok s" "reservation_valid r" "map_of (cj_grants s) (cr_grant_id r) = None"
    "cr_authorization_digest r \<notin> cj_authorization_digests s" "cr_manifest_digest r \<notin> cj_manifest_digests s"
  shows "grants_ok (index_reservation r s)"
  using assms
  by (auto simp: grants_ok_def index_reservation_def grants_emplace_def reserved_field_def distinct_map_insort_key
      set_insort_key map_of_eq_None_iff)

lemma close_grant_ok:
  assumes "grants_ok s"
  shows "grants_ok (s\<lparr>cj_grants := grants_close k t (cj_grants s)\<rparr>)"
proof -
  have fields: "reserved_field f (s\<lparr>cj_grants := grants_close k t (cj_grants s)\<rparr>) = reserved_field f s"
    for f :: "change_apply_reservation_record \<Rightarrow> string"
    by (simp add: reserved_field_def grants_close_def case_prod_beta comp_def)
  show ?thesis
    using assms by (auto simp: grants_ok_def fields) (auto simp: grants_close_def split: if_splits)
qed

lemma decode_wire_reservation: "decode_wire w = Inr (Reservation r) \<Longrightarrow> reservation_valid r"
  by (auto simp: decode_wire_def reservation_valid_def split: if_splits sum.splits)

lemma grants_ok_cong:
  "grants_ok s \<Longrightarrow> cj_grants s' = cj_grants s \<Longrightarrow> cj_authorization_digests s' = cj_authorization_digests s \<Longrightarrow>
     cj_manifest_digests s' = cj_manifest_digests s \<Longrightarrow> grants_ok s'"
  by (simp add: grants_ok_def reserved_field_def)

lemma recover_line_grants_ok:
  assumes "recover_line c json s = Inr s'" and "grants_ok s"
  shows "grants_ok s'"
proof -
  obtain w where w: "cc_read c json = Some w"
    using assms(1) by (auto simp: recover_line_def split: option.splits)
  obtain decoded where decoded: "decode_wire w = Inr decoded"
    using assms(1) w by (cases "decode_wire w") (auto simp: recover_line_def split: if_splits)
  obtain s1 where s1: "recover_entry decoded s = Inr s1"
    "s' = s1\<lparr>cj_sequence := wr_sequence w, cj_head_hash := wr_record_hash w\<rparr>"
    using assms(1) w decoded by (auto simp: recover_line_def and_then_Inr split: if_splits)
  have "grants_ok s1"
    using s1(1) decoded assms(2)
    by (auto simp: recover_entry_def intro: index_reservation_ok close_grant_ok dest: decode_wire_reservation
        split: decoded_record.splits if_splits option.splits)
  then show ?thesis using s1(2) by (auto intro: grants_ok_cong)
qed

lemma recover_lines_grants_ok: "recover_lines c content s = Inr s' \<Longrightarrow> grants_ok s \<Longrightarrow> grants_ok s'"
proof (induction c content s rule: recover_lines.induct)
  case (1 c rest s)
  show ?case
  proof (cases "rest = []")
    case False
    let ?json = "takeWhile (\<lambda>x. x \<noteq> CHR 0x0A) rest"
    obtain s1 where s1: "recover_line c ?json s = Inr s1" "recover_lines c (drop (Suc (length ?json)) rest) s1 = Inr s'"
      and framed: "\<not> (length ?json = length rest \<or> ?json = [] \<or> length ?json > max_change_record_bytes \<or>
        unat (cj_sequence s) \<ge> max_change_records)"
      using 1(2) False by (subst (asm) recover_lines.simps) (auto simp: Let_def and_then_Inr split: if_splits)
    show ?thesis
      using 1(1) [OF False refl framed s1(2)] recover_line_grants_ok [OF s1(1) 1(3)] by simp
  qed (use 1 in simp)
qed

lemma change_ok_grants: "change_ok c s \<Longrightarrow> grants_ok s"
proof -
  assume "change_ok c s"
  then obtain content where "recover_lines c content (change_fresh s) = Inr s"
    by (auto simp: change_ok_def change_replays_def)
  then show "grants_ok s"
    by (rule recover_lines_grants_ok) (simp add: change_fresh_def grants_ok_def reserved_field_def)
qed

subsection \<open>The operations\<close>

lemma change_untouched_refl: "change_ok c s \<Longrightarrow> change_untouched s s"
  by (auto simp: change_untouched_def change_ok_def intro: exI [of _ "cj_disk s"])

text \<open>Both operations append a record and then enter it into the index as recovery would.\<close>

definition enters :: "(change_journal \<Rightarrow> change_journal) \<Rightarrow> bool" where
  "enters index =
     (\<forall>s n h. index (s\<lparr>cj_sequence := n, cj_head_hash := h\<rparr>) = (index s)\<lparr>cj_sequence := n, cj_head_hash := h\<rparr> \<and>
        cj_disk (index s) = cj_disk s \<and> cj_size (index s) = cj_size s \<and> cj_max_bytes (index s) = cj_max_bytes s \<and>
        cj_sequence (index s) = cj_sequence s)"

lemma enters_index: "enters (index_reservation r)" "enters (\<lambda>s. s\<lparr>cj_grants := grants_close k t (cj_grants s)\<rparr>)"
  by (simp_all add: enters_def index_reservation_def)

lemma append_change_ok:
  assumes ok: "change_ok c s" and faithful: "change_codec_faithful c" and run: "append_change c r0 s = (a, s1)"
    and header: "wr_schema_version r0 = 1" "wr_sequence r0 = cj_sequence s + 1" "wr_previous_hash r0 = cj_head_hash s"
    and decodes: "\<And>d. decode_wire (r0\<lparr>wr_record_hash := d\<rparr>) = Inr decoded"
    and entered: "\<And>t. recover_entry decoded (change_outside t s) = Inr (index (change_outside t s))"
    and index: "enters index"
  shows "(\<exists>e. a = Inl e) \<and> change_untouched s s1 \<and> change_ok c s1 \<or>
    a = Inr () \<and> change_ok c (index s1) \<and>
      cj_grants s1 = cj_grants s \<and> cj_sequence s1 = cj_sequence s + 1"
proof -
  consider (failed) e where "a = Inl e" "change_untouched s s1"
    | (wrote) digest json where "a = Inr ()" "unat (cj_sequence s) < max_change_records" "record_digest c r0 = Inr digest"
      "cc_write c (r0\<lparr>wr_record_hash := digest\<rparr>) = Some json" "json \<noteq> []" "length json \<le> max_change_record_bytes"
      "length json + 1 \<le> unat (cj_max_bytes s)" "cj_size s \<le> cj_max_bytes s - of_nat (length json + 1)"
      "change_appended c (r0\<lparr>wr_record_hash := digest\<rparr>) json s s1"
    using append_change_laws [OF run] ok by (auto simp: change_ok_def)
  then show ?thesis
  proof cases
    case failed
    then show ?thesis using change_untouched_ok [OF ok] by auto
  next
    case wrote
    let ?r = "r0\<lparr>wr_record_hash := digest\<rparr>" and ?t = "change_outside s1 s"
    have s1: "s1 = ?t\<lparr>cj_sequence := cj_sequence s + 1, cj_head_hash := digest\<rparr>"
      using wrote(9) header(2) by (auto simp: change_appended_def change_outside_def)
    have read: "cc_read c json = Some ?r"
      using wrote(4) faithful by (auto simp: change_codec_faithful_def)
    have "recover_line c json ?t = Inr ((index ?t)\<lparr>cj_sequence := cj_sequence s + 1, cj_head_hash := digest\<rparr>)"
      using read wrote(3,4) header record_digest_valid [OF wrote(3)] decodes [of digest] entered [of s1]
      by (simp add: recover_line_def change_outside_def)
    moreover have "(index ?t)\<lparr>cj_sequence := cj_sequence s + 1, cj_head_hash := digest\<rparr> = index s1"
      using index s1 by (metis enters_def)
    ultimately have "recover_line c json ?t = Inr (index s1)" by simp
    then have "change_ok c (index s1)"
      using index header(2) by (intro change_appended_ok [OF ok faithful wrote(4-8,2) _ wrote(9)]) (simp_all add: enters_def)
    moreover have "cj_grants s1 = cj_grants s" "cj_sequence s1 = cj_sequence s + 1"
      using wrote(9) header(2) by (auto simp: change_appended_def)
    ultimately show ?thesis using wrote(1) by blast
  qed
qed

lemma change_reserve_laws:
  assumes ok: "change_ok c s" and faithful: "change_codec_faithful c" and run: "change_reserve c r s = (result, s')"
  shows "change_ok c s' \<and> ((\<exists>e. result = Inl e) \<and> change_untouched s s' \<or> result = Inr () \<and>
       reservation_valid r \<and> map_of (cj_grants s) (cr_grant_id r) = None \<and>
       cr_authorization_digest r \<notin> cj_authorization_digests s \<and> cr_manifest_digest r \<notin> cj_manifest_digests s \<and>
       cj_grants s' = grants_emplace (cr_grant_id r) \<lparr>gs_reservation = r, gs_terminal = None\<rparr> (cj_grants s) \<and>
       cj_sequence s' = cj_sequence s + 1)"
proof (cases "reservation_valid r \<and> map_of (cj_grants s) (cr_grant_id r) = None \<and>
     cr_authorization_digest r \<notin> cj_authorization_digests s \<and> cr_manifest_digest r \<notin> cj_manifest_digests s")
  case False
  then show ?thesis
    using run ok change_untouched_refl [OF ok] by (auto simp: change_reserve_def split: if_splits)
next
  case fresh: True
  obtain a s1 where a: "append_change c (encode_reservation r (cj_sequence s + 1) (cj_head_hash s)) s = (a, s1)"
    by fastforce
  have laws: "(\<exists>e. a = Inl e) \<and> change_untouched s s1 \<and> change_ok c s1 \<or>
    a = Inr () \<and> change_ok c (index_reservation r s1) \<and>
      cj_grants s1 = cj_grants s \<and> cj_sequence s1 = cj_sequence s + 1"
  proof (rule append_change_ok [OF ok faithful a])
    show "decode_wire ((encode_reservation r (cj_sequence s + 1) (cj_head_hash s))\<lparr>wr_record_hash := d\<rparr>) = Inr (Reservation r)"
      for d using fresh by (simp add: decode_encode_reservation)
    show "recover_entry (Reservation r) (change_outside t s) = Inr (index_reservation r (change_outside t s))" for t
      using fresh by (simp add: recover_entry_def change_outside_def)
  qed (simp_all add: encode_reservation_def enters_index)
  have "(result, s') = (case a of Inl e \<Rightarrow> (Inl e, s1) | Inr _ \<Rightarrow> (Inr (), index_reservation r s1))"
    using run fresh a by (auto simp: change_reserve_def split: sum.splits)
  then show ?thesis
    using laws fresh by (auto simp: index_reservation_def change_outside_def)
qed

lemma change_finalize_laws:
  assumes ok: "change_ok c s" and faithful: "change_codec_faithful c" and run: "change_finalize c t s = (result, s')"
  shows "change_ok c s' \<and> ((\<exists>e. result = Inl e) \<and> change_untouched s s' \<or> result = Inr () \<and>
       (\<exists>status. map_of (cj_grants s) (ct_grant_id t) = Some status \<and> gs_terminal status = None \<and>
          ct_authorization_digest t = cr_authorization_digest (gs_reservation status) \<and>
          ct_manifest_digest t = cr_manifest_digest (gs_reservation status) \<and>
          cr_reserved_at_ms (gs_reservation status) \<le> ct_completed_at_ms t) \<and>
       cj_grants s' = grants_close (ct_grant_id t) t (cj_grants s) \<and> cj_sequence s' = cj_sequence s + 1)"
proof (cases "\<exists>status. map_of (cj_grants s) (ct_grant_id t) = Some status \<and> gs_terminal status = None \<and>
          ct_authorization_digest t = cr_authorization_digest (gs_reservation status) \<and>
          ct_manifest_digest t = cr_manifest_digest (gs_reservation status) \<and>
          terminal_name (ct_state t) \<noteq> [] \<and> valid_digest (ct_receipt_digest t) \<and>
          valid_digest (ct_final_source_identity_digest t) \<and> terminal_failure_code_ok (ct_state t) (ct_failure_code t) \<and>
          cr_reserved_at_ms (gs_reservation status) \<le> ct_completed_at_ms t")
  case False
  then show ?thesis
    using run ok change_untouched_refl [OF ok] by (auto simp: change_finalize_def not_less split: if_splits option.splits)
next
  case True
  then obtain status where st: "map_of (cj_grants s) (ct_grant_id t) = Some status" "gs_terminal status = None"
    "ct_authorization_digest t = cr_authorization_digest (gs_reservation status)"
    "ct_manifest_digest t = cr_manifest_digest (gs_reservation status)"
    "terminal_name (ct_state t) \<noteq> []" "valid_digest (ct_receipt_digest t)"
    "valid_digest (ct_final_source_identity_digest t)" "terminal_failure_code_ok (ct_state t) (ct_failure_code t)"
    "cr_reserved_at_ms (gs_reservation status) \<le> ct_completed_at_ms t" by blast
  have valid: "reservation_valid (gs_reservation status)" "cr_grant_id (gs_reservation status) = ct_grant_id t"
    using change_ok_grants [OF ok] map_of_SomeD [OF st(1)] by (auto simp: grants_ok_def)
  let ?close = "\<lambda>s. s\<lparr>cj_grants := grants_close (ct_grant_id t) t (cj_grants s)\<rparr>"
  obtain a s1 where a: "append_change c (encode_terminal t (cj_sequence s + 1) (cj_head_hash s)) s = (a, s1)"
    by fastforce
  have laws: "(\<exists>e. a = Inl e) \<and> change_untouched s s1 \<and> change_ok c s1 \<or> a = Inr () \<and> change_ok c (?close s1) \<and>
      cj_grants s1 = cj_grants s \<and> cj_sequence s1 = cj_sequence s + 1"
  proof (rule append_change_ok [OF ok faithful a])
    have "ct_completed_at_ms t \<noteq> 0"
      using st(9) valid(1) by (auto simp: reservation_valid_def word_le_nat_alt unat_eq_0)
    then show "decode_wire ((encode_terminal t (cj_sequence s + 1) (cj_head_hash s))\<lparr>wr_record_hash := d\<rparr>) = Inr (Terminal t)"
      for d using valid st by (intro decode_encode_terminal) (auto simp: reservation_valid_def)
    show "recover_entry (Terminal t) (change_outside u s) = Inr (?close (change_outside u s))" for u
      using st leD [OF st(9)] by (simp add: recover_entry_def change_outside_def)
  qed (simp_all add: encode_terminal_def enters_index)
  have "(result, s') = (case a of Inl e \<Rightarrow> (Inl e, s1) | Inr _ \<Rightarrow> (Inr (), ?close s1))"
    using run st a leD [OF st(9)] by (simp add: change_finalize_def split: sum.splits)
  then show ?thesis
    using laws st by (auto simp: change_outside_def)
qed

end
