(* ===== verification/Change_Reach.thy ===== *)
theory Change_Reach
  imports Change_Contracts Journal_Reach
begin

text \<open>
  Opening the change-apply journal, the journals a process can hold, and what any sequence of
  operations keeps of the grants.
\<close>

subsection \<open>Opening\<close>

lemma recover_lines_sequence:
  "recover_lines c content s = Inr s' \<Longrightarrow> unat (cj_sequence s) \<le> max_change_records \<Longrightarrow>
     unat (cj_sequence s') \<le> max_change_records"
proof (induction c content s rule: recover_lines.induct)
  case (1 c rest s)
  show ?case
  proof (cases "rest = []")
    case False
    let ?json = "takeWhile (\<lambda>x. x \<noteq> CHR 0x0A) rest"
    obtain s1 where s1: "recover_line c ?json s = Inr s1" "recover_lines c (drop (Suc (length ?json)) rest) s1 = Inr s'"
      and framed: "\<not> (length ?json = length rest \<or> ?json = [] \<or> length ?json > max_change_record_bytes \<or>
        unat (cj_sequence s) \<ge> max_change_records)"
      using 1(2) False by (subst (asm) recover_lines.simps) (auto simp: Let_def and_then_Inr split: if_splits)
    have "cj_sequence s1 = cj_sequence s + 1"
      using s1(1) by (auto simp: recover_line_def and_then_Inr split: option.splits if_splits)
    then have "unat (cj_sequence s1) \<le> max_change_records"
      using framed unat_grow [of "cj_sequence s" 1 "of_nat max_change_records"]
      by (simp add: max_change_records_def)
    then show ?thesis
      using 1(1) [OF False refl framed s1(2)] by simp
  qed (use 1 in simp)
qed

lemma recover_lines_file:
  assumes "recover_lines c content s = Inr s'"
  shows "cj_disk s' = cj_disk s" "cj_size s' = cj_size s" "cj_max_bytes s' = cj_max_bytes s"
proof -
  have "recover_lines c content (change_outside s s) = Inr (change_outside s s')"
    using assms by (simp add: recover_lines_outside)
  then have "s' = change_outside s s'" using assms by (simp add: change_outside_def)
  then show "cj_disk s' = cj_disk s" "cj_size s' = cj_size s" "cj_max_bytes s' = cj_max_bytes s"
    by (metis (no_types) change_journal.select_convs(1-3) change_journal.update_convs(1-3) change_outside_def
        change_journal.surjective)+
qed

lemma validate_change_file_laws:
  assumes "validate_change_file d max_bytes = (Inr n, d')"
  shows "unat n = length (d_bytes d')" "n \<le> max_bytes"
proof -
  obtain e d1 where call: "single_call d = (e, d1)" by fastforce
  then have checked: "n = of_nat (length (d_bytes d))" "d_bytes d' = d_bytes d" "length (d_bytes d) \<le> unat max_bytes"
    using assms single_call_file [OF call] by (auto simp: validate_change_file_def split: if_splits option.splits)
  then show "unat n = length (d_bytes d')" "n \<le> max_bytes"
    using unsigned_less [of max_bytes, where 'a = nat]
    by (auto simp: unsigned_of_nat take_bit_nat_eq_self word_le_nat_alt)
qed

lemma open_change_file_laws:
  assumes "open_change_file path max_bytes loc = Inr (d, n)"
  shows "unat n \<le> length (d_bytes d)" "n \<le> max_bytes"
proof -
  have "unat n \<le> length (d_bytes d) \<and> n \<le> max_bytes"
  proof (cases "cl_entry loc")
    case (Existing d0)
    obtain e1 d1 where "retried_call d0 = (e1, d1)" by fastforce
    moreover obtain v d2 where v: "validate_change_file d1 max_bytes = (v, d2)" by fastforce
    ultimately have "v = Inr n" "d2 = d"
      using assms Existing by (auto simp: open_change_file_def split: if_splits option.splits sum.splits)
    then show ?thesis using validate_change_file_laws [of d1 max_bytes n d] v by simp
  next
    case (Fresh d0)
    obtain e1 d1 where "retried_call d0 = (e1, d1)" by fastforce
    moreover obtain v d2 where "validate_change_file d1 max_bytes = (v, d2)" by fastforce
    ultimately have "initialise_file d2 max_bytes = Inr (d, n)"
      using assms Fresh by (auto simp: open_change_file_def split: if_splits option.splits sum.splits)
    moreover obtain w d3 where w: "write_bytes change_text d2 (bytes_of_string change_magic) 0 = (w, d3)" by fastforce
    ultimately have init: "w = Inr ()" "d = snd (sync_change (snd (sync_change d3)))" "n = of_nat (length change_magic)"
      "length change_magic \<le> unat max_bytes"
      by (auto simp: initialise_file_def write_all_at_def split: if_splits prod.splits sum.splits)
    have "take (length change_magic) (d_bytes d) = bytes_of_string change_magic"
      using write_bytes_overwrites(3) [OF w] init by (simp add: sync_change_keeps)
    from arg_cong [OF this, of length] show ?thesis
      using init(3,4) by (simp add: change_magic_def word_le_nat_alt min_def split: if_splits)
  next
    case (Unavailable e)
    then show ?thesis using assms by (auto simp: open_change_file_def split: if_splits option.splits)
  qed
  then show "unat n \<le> length (d_bytes d)" "n \<le> max_bytes" by auto
qed

lemma change_open_ok:
  assumes "change_open c path max_bytes loc = Inr s"
  shows "change_ok c s" "cj_max_bytes s = max_bytes"
proof -
  obtain d n where opens: "open_change_file path max_bytes loc = Inr (d, n)"
    using assms by (auto simp: change_open_def and_then_Inr split: if_splits)
  obtain r d1 where r: "read_bytes change_read_text d (unat n) 0 = (r, d1)" by fastforce
  obtain bs where opened: "length change_magic + 2 \<le> unat max_bytes" "open_change_file path max_bytes loc = Inr (d, n)"
    "read_bytes change_read_text d (unat n) 0 = (Inr bs, d1)" "take (length change_magic) (string_of_bytes bs) = change_magic"
    "recover_lines c (drop (length change_magic) (string_of_bytes bs))
       \<lparr>cj_disk = d1, cj_size = n, cj_max_bytes = max_bytes, cj_sequence = 0,
        cj_head_hash = replicate 64 (CHR ''0''), cj_grants = [],
        cj_authorization_digests = {}, cj_manifest_digests = {}\<rparr> = Inr s"
    using assms opens r by (auto simp: change_open_def read_all_def Let_def not_less split: if_splits sum.splits)
  let ?s0 = "\<lparr>cj_disk = d1, cj_size = n, cj_max_bytes = max_bytes, cj_sequence = 0,
        cj_head_hash = replicate 64 (CHR ''0''), cj_grants = [],
        cj_authorization_digests = {}, cj_manifest_digests = {}\<rparr>"
  let ?content = "drop (length change_magic) (string_of_bytes bs)"
  note laws = open_change_file_laws [OF opened(2)] and bs = read_bytes_sound [OF opened(3)]
  have s: "cj_disk s = d1" "cj_size s = n" "cj_max_bytes s = max_bytes" "change_fresh s = ?s0"
    using recover_lines_file [OF opened(5)] by (simp_all add: change_fresh_def)
  have "string_of_bytes bs = change_magic @ ?content"
    using opened(4) by (metis append_take_drop_id)
  then have "take (unat n) (d_bytes d1) = bytes_of_string (change_magic @ ?content)"
    using bs by (metis (no_types) bytes_of_string_of_bytes disk.ext_inject disk.surjective disk.update_convs(6) drop_0 unat_0)
  then show "change_ok c s"
    using s opened(1,5) laws bs(3) recover_lines_sequence [OF opened(5)]
    by (auto simp: change_ok_def change_replays_def)
  show "cj_max_bytes s = max_bytes" by (rule s)
qed

subsection \<open>Reopening\<close>

text \<open>The calls of \<open>open\<close> on an owner-only file of the owner while nothing fails.\<close>

definition change_at :: "disk \<Rightarrow> change_location" where
  "change_at d = \<lparr>cl_parent = None, cl_owner_only = True, cl_entry = Existing d\<rparr>"

definition change_quiet :: "disk \<Rightarrow> bool" where
  "change_quiet d = (d_outcomes d = [] \<and> owner_only_file (d_euid d) (d_meta d))"

lemma read_bytes_calm:
  assumes "d_outcomes d = []" and "n \<le> length (d_bytes d)" and "io_range t = None"
  shows "read_bytes t d n 0 = (Inr (take n (d_bytes d)), d)"
  using assms by (cases d) (auto simp: read_bytes_def read_loop.simps in_range_def Let_def)

lemma change_open_quiet:
  assumes "change_quiet d" and "length (d_bytes d) \<le> unat max_bytes" and "length change_magic + 2 \<le> unat max_bytes"
    and "is_absolute path" and "filename path \<noteq> []" and "d_bytes d = bytes_of_string (change_magic @ content)"
  shows "change_open c path max_bytes (change_at d) = recover_lines c content
    \<lparr>cj_disk = d, cj_size = of_nat (length (d_bytes d)), cj_max_bytes = max_bytes, cj_sequence = 0,
     cj_head_hash = replicate 64 (CHR ''0''), cj_grants = [], cj_authorization_digests = {}, cj_manifest_digests = {}\<rparr>"
proof -
  have "unat (of_nat (length (d_bytes d)) :: u64) = length (d_bytes d)"
    using assms(2) unsigned_less [of max_bytes, where 'a = nat] by (simp add: unsigned_of_nat take_bit_nat_eq_self)
  moreover have "open_change_file path max_bytes (change_at d) = Inr (d, of_nat (length (d_bytes d)))"
    using assms(1,2,4,5)
    by (cases d) (simp add: open_change_file_def change_at_def change_quiet_def retried_call_def validate_change_file_def single_call_def)
  ultimately show ?thesis
    using assms(1,3,6) read_bytes_calm [of d "length (d_bytes d)" change_read_text]
    by (simp add: change_open_def read_all_def change_quiet_def change_read_text_def)
qed

lemma recover_torn:
  "tail \<noteq> [] \<Longrightarrow> CHR 0x0A \<notin> set tail \<Longrightarrow>
     recover_lines c tail s = Inl ''change apply journal record framing is invalid''"
proof -
  assume tail: "tail \<noteq> []" "CHR 0x0A \<notin> set tail"
  then have "takeWhile (\<lambda>x. x \<noteq> CHR 0x0A) tail = tail" by (auto simp: takeWhile_eq_all_conv)
  then show ?thesis using tail by (subst recover_lines.simps) (simp add: Let_def del: takeWhile_eq_all_conv)
qed

lemma change_ok_reopens:
  assumes ok: "change_ok c s" and quiet: "change_quiet d" and path: "is_absolute path" "filename path \<noteq> []"
    and bytes: "d_bytes d = take (unat (cj_size s)) (d_bytes (cj_disk s)) @ bytes_of_string tail"
    and fits: "length (d_bytes d) \<le> unat (cj_max_bytes s)"
  shows "tail = [] \<Longrightarrow> \<exists>s'. change_open c path (cj_max_bytes s) (change_at d) = Inr s' \<and> change_index s' = change_index s \<and>
      cj_size s' = cj_size s"
    "tail \<noteq> [] \<Longrightarrow> CHR 0x0A \<notin> set tail \<Longrightarrow>
      change_open c path (cj_max_bytes s) (change_at d) = Inl ''change apply journal record framing is invalid''"
proof -
  obtain content where content: "take (unat (cj_size s)) (d_bytes (cj_disk s)) = bytes_of_string (change_magic @ content)"
    "recover_lines c content (change_fresh s) = Inr s"
    using ok by (auto simp: change_ok_def change_replays_def)
  define t where "t = s\<lparr>cj_disk := d, cj_size := of_nat (length (d_bytes d))\<rparr>"
  have "d_bytes d = bytes_of_string (change_magic @ content @ tail)"
    using bytes content(1) by (simp add: bytes_of_string_def)
  moreover have "length change_magic + 2 \<le> unat (cj_max_bytes s)"
    using ok by (simp add: change_ok_def)
  ultimately have "change_open c path (cj_max_bytes s) (change_at d) =
      recover_lines c (content @ tail) (change_outside t (change_fresh s))"
    by (cases s, subst change_open_quiet [OF quiet fits _ path]) (simp_all add: t_def change_outside_def change_fresh_def)
  also have "\<dots> = recover_lines c tail (change_outside t s)"
    using recover_lines_append [of c content "change_outside t (change_fresh s)"] content(2)
    by (simp add: recover_lines_outside)
  finally have run: "change_open c path (cj_max_bytes s) (change_at d) = recover_lines c tail (change_outside t s)" .
  show "change_open c path (cj_max_bytes s) (change_at d) = Inl ''change apply journal record framing is invalid''"
    if "tail \<noteq> []" "CHR 0x0A \<notin> set tail"
    unfolding run by (rule recover_torn [OF that])
  show "\<exists>s'. change_open c path (cj_max_bytes s) (change_at d) = Inr s' \<and> change_index s' = change_index s \<and>
      cj_size s' = cj_size s" if "tail = []"
  proof -
    have "length (d_bytes d) = unat (cj_size s)"
      using bytes that ok by (simp add: change_ok_def)
    then have "of_nat (length (d_bytes d)) = cj_size s" by (metis of_nat_unat ucast_id)
    then show ?thesis
      using run that by (simp add: t_def change_outside_def change_index_def)
  qed
qed

subsection \<open>Ledgers\<close>

text \<open>What a ledger promises its clients: the entries under its keys only ever advance.\<close>

locale ledger =
  fixes ledger_ok :: "'s \<Rightarrow> bool" and entry :: "'s \<Rightarrow> 'k \<Rightarrow> 'v option"
    and moves :: "'s \<Rightarrow> 's \<Rightarrow> bool" and advances :: "'v \<Rightarrow> 'v \<Rightarrow> bool"
  assumes moves_ok: "ledger_ok s \<Longrightarrow> moves s s' \<Longrightarrow> ledger_ok s'"
    and moves_entry: "ledger_ok s \<Longrightarrow> moves s s' \<Longrightarrow> entry s k = Some v \<Longrightarrow> \<exists>v'. entry s' k = Some v' \<and> advances v v'"
    and advances_refl: "advances v v"
    and advances_trans: "advances u v \<Longrightarrow> advances v w \<Longrightarrow> advances u w"
begin

lemma run_ok: "moves\<^sup>*\<^sup>* s s' \<Longrightarrow> ledger_ok s \<Longrightarrow> ledger_ok s'"
  by (induction rule: rtranclp_induct) (auto intro: moves_ok)

lemma run_entry:
  "moves\<^sup>*\<^sup>* s s' \<Longrightarrow> ledger_ok s \<Longrightarrow> entry s k = Some v \<Longrightarrow> \<exists>v'. entry s' k = Some v' \<and> advances v v'"
proof (induction rule: rtranclp_induct)
  case base
  then show ?case by (auto intro: advances_refl)
next
  case (step t u)
  then obtain v' where "entry t k = Some v'" "advances v v'" by blast
  then show ?case
    using moves_entry [OF run_ok [OF step(1,4)] step(2)] advances_trans by blast
qed

end

inductive change_step :: "change_codec \<Rightarrow> change_journal \<Rightarrow> change_journal \<Rightarrow> bool" for c where
  reserves: "change_reserve c r s = (result, s') \<Longrightarrow> change_step c s s'"
| finalizes: "change_finalize c t s = (result, s') \<Longrightarrow> change_step c s s'"

inductive change_reachable :: "change_codec \<Rightarrow> change_journal \<Rightarrow> bool" for c where
  opened: "change_open c path max_bytes loc = Inr s \<Longrightarrow> change_reachable c s"
| stepped: "change_reachable c s \<Longrightarrow> change_step c s s' \<Longrightarrow> change_reachable c s'"

definition grant_advances :: "change_apply_grant_status \<Rightarrow> change_apply_grant_status \<Rightarrow> bool" where
  "grant_advances v v' =
     (gs_reservation v' = gs_reservation v \<and> (gs_terminal v \<noteq> None \<longrightarrow> gs_terminal v' = gs_terminal v))"

lemma change_step_ok: "change_codec_faithful c \<Longrightarrow> change_ok c s \<Longrightarrow> change_step c s s' \<Longrightarrow> change_ok c s'"
  by (auto elim!: change_step.cases dest: change_reserve_laws change_finalize_laws)

lemma change_reachable_ok: "change_reachable c s \<Longrightarrow> change_codec_faithful c \<Longrightarrow> change_ok c s"
  by (induction rule: change_reachable.induct) (auto intro: change_open_ok change_step_ok)

lemma change_untouched_grants: "change_untouched s s' \<Longrightarrow> cj_grants s' = cj_grants s"
  by (auto simp: change_untouched_def)

interpretation change: ledger "\<lambda>(c, s). change_codec_faithful c \<and> change_ok c s" "\<lambda>(c, s) k. change_find k s"
  "\<lambda>(c, s) (c', s'). c' = c \<and> change_step c s s'" grant_advances
proof (unfold_locales, goal_cases)
  case (1 p p')
  then show ?case by (auto intro: change_step_ok)
next
  case (2 p p' k v)
  then obtain c s s' where ps: "p = (c, s)" "p' = (c, s')" "change_codec_faithful c" "change_ok c s" "change_step c s s'"
    "change_find k s = Some v" by auto
  from ps(5) have "\<exists>v'. change_find k s' = Some v' \<and> grant_advances v v'"
  proof cases
    case (reserves r result)
    then show ?thesis
      using change_reserve_laws [OF ps(4,3) reserves] ps(6)
      by (auto simp: change_find_def change_untouched_grants map_of_grants_emplace grant_advances_def)
  next
    case (finalizes t result)
    then show ?thesis
      using change_finalize_laws [OF ps(4,3) finalizes] ps(6)
      by (auto simp: change_find_def change_untouched_grants map_of_grants_close grant_advances_def)
  qed
  then show ?case using ps by simp
qed (auto simp: grant_advances_def)

lemma change_steps_pairs: "(change_step c)\<^sup>*\<^sup>* s s' \<Longrightarrow> (\<lambda>(c, s) (c', s'). c' = c \<and> change_step c s s')\<^sup>*\<^sup>* (c, s) (c, s')"
  by (induction rule: rtranclp_induct) (auto intro: rtranclp.rtrancl_into_rtrancl)

lemma change_run_entry:
  assumes "(change_step c)\<^sup>*\<^sup>* s s'" and "change_codec_faithful c" and "change_ok c s" and "change_find k s = Some v"
  shows "change_ok c s'" "\<exists>v'. change_find k s' = Some v' \<and> grant_advances v v'"
  using change.run_ok [OF change_steps_pairs [OF assms(1)]] change.run_entry [OF change_steps_pairs [OF assms(1)]] assms
  by auto

text \<open>A grant in the index blocks the reuse of its identifier and digests.\<close>

lemma consumed_refused:
  assumes "change_ok c s" and "change_find k s = Some v"
    and "cr_grant_id r = k \<or> cr_authorization_digest r = cr_authorization_digest (gs_reservation v) \<or>
      cr_manifest_digest r = cr_manifest_digest (gs_reservation v)"
  shows "\<exists>e. change_reserve c r s = (Inl e, s)"
proof -
  have "(k, v) \<in> set (cj_grants s)"
    using assms(2) by (auto simp: change_find_def dest: map_of_SomeD)
  then have "cr_authorization_digest (gs_reservation v) \<in> cj_authorization_digests s"
    "cr_manifest_digest (gs_reservation v) \<in> cj_manifest_digests s"
    using change_ok_grants [OF assms(1)] by (auto simp: grants_ok_def reserved_field_def image_iff intro!: bexI [of _ "(k, v)"])
  then show ?thesis
    using assms(2,3) by (auto simp: change_reserve_def change_find_def)
qed

lemma closed_refused:
  assumes "change_find (ct_grant_id t) s = Some v" and "gs_terminal v \<noteq> None"
  shows "change_finalize c t s = (Inl ''change apply terminal transition is invalid'', s)"
  using assms by (simp add: change_finalize_def change_find_def)

end

