(* ===== verification/Change_Theorems.thy ===== *)
theory Change_Theorems
  imports Change_Reach
begin

text \<open>
  The properties of the change-apply journal: what it acknowledged is what a later process reads, and a
  grant is used once.
\<close>

subsection \<open>A concrete journal\<close>

definition sample_reservation :: change_apply_reservation_record where
  "sample_reservation =
     \<lparr>cr_grant_id = ''g'', cr_authorization_digest = zero_digest, cr_manifest_digest = zero_digest,
      cr_session_id = ''s'', cr_exposure_id = ''e'', cr_generation = 1, cr_scope_digest = zero_digest,
      cr_source_identity_digest = zero_digest, cr_baseline_tree_digest = zero_digest,
      cr_staged_tree_digest = zero_digest, cr_reserved_at_ms = 5\<rparr>"

definition sample_wire :: wire_record where
  "sample_wire = (encode_reservation sample_reservation 1 zero_digest)\<lparr>wr_record_hash := sha256_reference (bytes_of_string ''b'')\<rparr>"

definition sample_change_codec :: change_codec where
  "sample_change_codec =
     \<lparr>cc_write_body = \<lambda>_. Some ''b'', cc_write = \<lambda>r. if r = sample_wire then Some ''r'' else None,
      cc_read = \<lambda>json. if json = ''r'' then Some sample_wire else None\<rparr>"

definition sample_change_disk :: disk where
  "sample_change_disk = journal_sample_disk\<lparr>d_bytes := bytes_of_string change_magic\<rparr>"

definition sample_change_opened :: change_journal where
  "sample_change_opened =
     \<lparr>cj_disk = sample_change_disk, cj_size = 20, cj_max_bytes = 100, cj_sequence = 0,
      cj_head_hash = replicate 64 (CHR ''0''), cj_grants = [], cj_authorization_digests = {}, cj_manifest_digests = {}\<rparr>"

definition sample_change :: change_journal where
  "sample_change =
     \<lparr>cj_disk = pwrite sample_change_disk (bytes_of_string [CHR ''r'', CHR 0x0A]) 20, cj_size = 22, cj_max_bytes = 100,
      cj_sequence = 1, cj_head_hash = wr_record_hash sample_wire,
      cj_grants = [(''g'', \<lparr>gs_reservation = sample_reservation, gs_terminal = None\<rparr>)],
      cj_authorization_digests = {zero_digest}, cj_manifest_digests = {zero_digest}\<rparr>"

lemma sample_change_faithful: "change_codec_faithful sample_change_codec"
  by (simp add: change_codec_faithful_def sample_change_codec_def)

lemma sample_path: "is_absolute ''/j''" "filename ''/j'' \<noteq> []"
  by code_simp+

lemma sample_change_opens: "change_open c ''/j'' 100 (change_at sample_change_disk) = Inr sample_change_opened"
  using sample_path
  by (subst change_open_quiet [where content = "[]"])
    (simp_all add: change_quiet_def sample_change_disk_def journal_sample_disk_def owner_only_file_def change_magic_def
      sample_change_opened_def)

lemma sample_reservation_valid: "reservation_valid sample_reservation"
  by (simp add: reservation_valid_def sample_reservation_def valid_zero_digest)
    (simp add: valid_identifier_def identifier_byte_def byte_of_def)

lemma sample_change_reserves: "change_reserve sample_change_codec sample_reservation sample_change_opened = (Inr (), sample_change)"
proof -
  have wire: "(encode_reservation sample_reservation 1 (replicate 64 (CHR ''0'')))\<lparr>wr_record_hash := sha256_reference (bytes_of_string ''b'')\<rparr> =
      sample_wire"
    by (simp add: sample_wire_def zero_digest_def)
  have digest: "record_digest sample_change_codec r = Inr (sha256_reference (bytes_of_string ''b''))" for r
    by (simp add: record_digest_def sample_change_codec_def sha256_hex_cases)
  have "cc_write sample_change_codec sample_wire = Some ''r''" "wr_sequence sample_wire = 1"
    by (simp_all add: sample_change_codec_def sample_wire_def encode_reservation_def)
  moreover have "write_bytes change_text sample_change_disk (bytes_of_string [CHR ''r'', CHR 0x0A]) 20 =
      (Inr (), pwrite sample_change_disk (bytes_of_string [CHR ''r'', CHR 0x0A]) 20)"
    by (subst write_bytes_calm) (simp_all add: sample_change_disk_def journal_sample_disk_def bytes_of_string_def off_t_max_def)
  ultimately have "append_change sample_change_codec (encode_reservation sample_reservation 1 (replicate 64 (CHR ''0''))) sample_change_opened =
      (Inr (), sample_change_opened\<lparr>cj_disk := cj_disk sample_change, cj_size := 22, cj_sequence := 1,
         cj_head_hash := wr_record_hash sample_wire\<rparr>)"
    by (simp add: append_change_def write_all_at_def digest wire sample_change_opened_def max_change_records_def max_change_record_bytes_def
        sample_change_def sync_change_def sync_descriptor_calm sample_change_disk_def journal_sample_disk_def pwrite_def)
  then show ?thesis
    using sample_reservation_valid
    by (simp add: change_reserve_def sample_change_opened_def index_reservation_def sample_change_def grants_emplace_def
        sample_reservation_def)
qed

lemma sample_change_reachable: "change_reachable sample_change_codec sample_change"
  by (rule change_reachable.stepped [OF change_reachable.opened [OF sample_change_opens]
        change_step.reserves [OF sample_change_reserves]])

subsection \<open>Properties\<close>

text \<open>
  C17. Durability of the change-apply journal.  Whatever sequence of operations produced it and however
  the kernel answered them, a process that opens the acknowledged bytes recovers exactly the grants,
  consumed digests, sequence and head hash in memory; if a torn line follows them, opening refuses the
  file instead of dropping the tail.
\<close>

theorem change_journal_reopens:
  assumes "change_reachable c s" and "change_codec_faithful c" and "change_quiet d"
    and "is_absolute path" and "filename path \<noteq> []"
    and "d_bytes d = take (unat (cj_size s)) (d_bytes (cj_disk s)) @ bytes_of_string tail"
    and "length (d_bytes d) \<le> unat (cj_max_bytes s)" and "CHR 0x0A \<notin> set tail"
  shows "if tail = []
    then \<exists>s'. change_open c path (cj_max_bytes s) (change_at d) = Inr s' \<and> change_index s' = change_index s \<and>
           cj_size s' = cj_size s
    else change_open c path (cj_max_bytes s) (change_at d) = Inl ''change apply journal record framing is invalid''"
  using change_ok_reopens [OF change_reachable_ok [OF assms(1,2)] assms(3-7)] assms(8) by auto

theorem change_journal_reopens_witness:
  "\<exists>s'. change_open sample_change_codec ''/j'' 100 (change_at (cj_disk sample_change)) = Inr s' \<and>
     change_index s' = change_index sample_change \<and> cj_size s' = cj_size sample_change"
proof -
  have "d_bytes (cj_disk sample_change) = take (unat (cj_size sample_change)) (d_bytes (cj_disk sample_change)) @ bytes_of_string []"
    "length (d_bytes (cj_disk sample_change)) \<le> unat (cj_max_bytes sample_change)" "change_quiet (cj_disk sample_change)"
    by (simp_all add: sample_change_def pwrite_def sample_change_disk_def journal_sample_disk_def splice_def change_magic_def
        change_quiet_def owner_only_file_def bytes_of_string_def)
  from change_journal_reopens [OF sample_change_reachable sample_change_faithful this(3) sample_path this(1,2)] show ?thesis
    by (simp add: sample_change_def)
qed

text \<open>
  C18. A grant is used once.  Once a grant is in the journal, no later sequence of operations changes or
  removes its reservation or a terminal record it got, and in every later state a reservation with the
  same grant, authorization digest or manifest digest fails and leaves the journal as it was, as does
  closing a closed grant.
\<close>

theorem change_grant_single_use:
  assumes "change_reachable c s" and "change_codec_faithful c" and "change_find k s = Some v"
    and "(change_step c)\<^sup>*\<^sup>* s s'"
  shows "\<exists>v'. change_find k s' = Some v' \<and> gs_reservation v' = gs_reservation v \<and>
      (gs_terminal v \<noteq> None \<longrightarrow> gs_terminal v' = gs_terminal v) \<and>
      (\<forall>r. cr_grant_id r = k \<or> cr_authorization_digest r = cr_authorization_digest (gs_reservation v) \<or>
         cr_manifest_digest r = cr_manifest_digest (gs_reservation v) \<longrightarrow> (\<exists>e. change_reserve c r s' = (Inl e, s'))) \<and>
      (\<forall>t. ct_grant_id t = k \<and> gs_terminal v' \<noteq> None \<longrightarrow>
         change_finalize c t s' = (Inl ''change apply terminal transition is invalid'', s'))"
proof -
  note run = change_run_entry [OF assms(4,2) change_reachable_ok [OF assms(1,2)] assms(3)]
  obtain v' where v': "change_find k s' = Some v'" "grant_advances v v'" using run(2) by blast
  show ?thesis
    using v' consumed_refused [OF run(1) v'(1)] closed_refused [of _ s' v' c] by (auto simp: grant_advances_def)
qed

theorem change_grant_single_use_witness:
  "\<exists>e. change_reserve sample_change_codec (sample_reservation\<lparr>cr_grant_id := ''h''\<rparr>) sample_change = (Inl e, sample_change)"
proof -
  have "change_find ''g'' sample_change = Some \<lparr>gs_reservation = sample_reservation, gs_terminal = None\<rparr>"
    by (simp add: change_find_def sample_change_def)
  from change_grant_single_use [OF sample_change_reachable sample_change_faithful this rtranclp.rtrancl_refl] show ?thesis
    by fastforce
qed

end
