(* ===== verification/Change_Manifest.thy ===== *)
theory Change_Manifest
  imports Guest_Channel File_Status Paths "HOL-Library.Multiset" "HOL-Library.Product_Lexorder"
begin

text \<open>
  Snapshots of a directory tree and the manifest of the changes between two of them
  (\<open>src/supervisor/change_manifest.cpp\<close>).  A tree is a value: what the walk finds under each name, or
  the text of the error the kernel answers there.  The JSON library is the record \<open>manifest_codec\<close> of
  its calls.
\<close>

subsection \<open>Data\<close>

type_synonym u32 = "32 word"

record path_snapshot_entry =
  ps_path :: string
  ps_content_digest :: string
  ps_bytes :: u64
  ps_mode :: u32
  ps_directory :: bool

datatype path_change_kind = Create | Modify | Rename | Remove

record path_change_entry =
  pc_kind :: path_change_kind
  pc_path :: string
  pc_previous_path :: string
  pc_before_digest :: string
  pc_after_digest :: string
  pc_before_bytes :: u64
  pc_after_bytes :: u64
  pc_before_mode :: u32
  pc_after_mode :: u32
  pc_directory :: bool

record retained_change_manifest =
  rm_schema_version :: u8
  rm_session_id :: string
  rm_exposure_id :: string
  rm_generation :: u64
  rm_scope_digest :: string
  rm_source_identity_digest :: string
  rm_max_bytes :: u64
  rm_directory :: bool
  rm_baseline_tree_digest :: string
  rm_staged_tree_digest :: string
  rm_changes :: "path_change_entry list"
  rm_created :: u64
  rm_modified :: u64
  rm_renamed :: u64
  rm_removed :: u64
  rm_before_bytes :: u64
  rm_after_bytes :: u64
  rm_manifest_digest :: string
  rm_canonical_json :: string

record wire_change =
  wc_kind :: string
  wc_path :: string
  wc_previous_path :: string
  wc_before_digest :: string
  wc_after_digest :: string
  wc_before_bytes :: u64
  wc_after_bytes :: u64
  wc_before_mode :: u32
  wc_after_mode :: u32
  wc_directory :: bool

record wire_manifest =
  wm_schema_version :: u8
  wm_session_id :: string
  wm_exposure_id :: string
  wm_generation :: u64
  wm_scope_digest :: string
  wm_source_identity_digest :: string
  wm_max_bytes :: u64
  wm_directory :: bool
  wm_baseline_tree_digest :: string
  wm_staged_tree_digest :: string
  wm_changes :: "wire_change list"
  wm_created :: u64
  wm_modified :: u64
  wm_renamed :: u64
  wm_removed :: u64
  wm_before_bytes :: u64
  wm_after_bytes :: u64

record wire_manifest_envelope = wire_manifest +
  wm_manifest_digest :: string

text \<open>\<open>glz::write_json\<close> of a snapshot, a manifest body and an envelope, and the strict read of an envelope.\<close>

record manifest_codec =
  mc_write_snapshot :: "path_snapshot_entry list \<Rightarrow> string option"
  mc_write_body :: "wire_manifest \<Rightarrow> string option"
  mc_write :: "wire_manifest_envelope \<Rightarrow> string option"
  mc_read :: "string \<Rightarrow> wire_manifest_envelope option"

definition max_manifest_bytes :: nat where
  "max_manifest_bytes = 16 * 1024 * 1024"

definition max_snapshot_entries :: nat where
  "max_snapshot_entries = 100000"

definition max_snapshot_depth :: nat where
  "max_snapshot_depth = 64"

subsection \<open>Paths\<close>

definition valid_component :: "string \<Rightarrow> bool" where
  "valid_component v =
     (v \<noteq> [] \<and> v \<noteq> ''.'' \<and> v \<noteq> ''..'' \<and> length v \<le> 255 \<and> CHR ''/'' \<notin> set v \<and> CHR 0x00 \<notin> set v)"

text \<open>The elements of \<open>lexically_normal\<close> of a relative path.\<close>

fun relative_step :: "string list \<Rightarrow> string \<Rightarrow> string list" where
  "relative_step stack name =
     (if name = [] \<or> name = ''.'' then stack
      else if name = ''..'' \<and> stack \<noteq> [] \<and> hd stack \<noteq> ''..'' then tl stack
      else name # stack)"

definition relative_normal :: "string \<Rightarrow> string list" where
  "relative_normal p =
     (let names = name_elements p; stack = foldl relative_step [] names in
      if stack = [] then (if names = [] then [] else [''.''])
      else rev stack @ (if last names \<in> {[], ''.'', ''..''} \<and> hd stack \<noteq> ''..'' then [[]] else []))"

definition valid_relative_path :: "string \<Rightarrow> bool" where
  "valid_relative_path v =
     (v = ''.'' \<or>
      v \<noteq> [] \<and> length v \<le> 4096 \<and> CHR 0x00 \<notin> set v \<and> \<not> is_absolute v \<and> relative_normal v = path_elements v \<and>
      (\<forall>name \<in> set (path_elements v). name \<noteq> ''.'' \<and> name \<noteq> ''..''))"

definition checked_add :: "u64 \<Rightarrow> u64 \<Rightarrow> u64 option" where
  "checked_add total_bytes v = (if v > - 1 - total_bytes then None else Some (total_bytes + v))"

subsection \<open>Snapshots\<close>

text \<open>A name leads to a regular file with its \<open>st_mode\<close>, link count and content, to a directory with its
  \<open>st_mode\<close> and children, to something else, or to an error of the kernel.\<close>

datatype tree_node =
    Regular_file u32 nat bytes
  | Directory_node u32 "(string \<times> tree_node) list"
  | Special_file
  | Unreadable string

record snapshot_state =
  ss_max_bytes :: u64
  ss_bytes :: u64
  ss_max_entries :: nat
  ss_entries :: "path_snapshot_entry list"

text \<open>The digest of a file whose reads are neither cut short nor interrupted: one \<open>pread\<close> transfers the
  content, a second finds the end.\<close>

definition file_digest :: "bytes \<Rightarrow> u64 \<Rightarrow> string expected" where
  "file_digest content n =
     (case sha256_fd_hex 0 n content (replicate (length content + 2) (Transferred (length content))) of
        Some r \<Rightarrow> r
      | None \<Rightarrow> Inl [])"

definition append_regular :: "string \<Rightarrow> u32 \<Rightarrow> nat \<Rightarrow> bytes \<Rightarrow> snapshot_state \<Rightarrow> snapshot_state expected" where
  "append_regular path mode links content st =
     (if links \<noteq> 1 then Inl ''change snapshot contains an invalid regular file''
      else
        let n = of_nat (length content) in
        case checked_add (ss_bytes st) n of
          None \<Rightarrow> Inl ''change snapshot byte bound exceeded''
        | Some total_bytes \<Rightarrow>
            if total_bytes > ss_max_bytes st then Inl ''change snapshot byte bound exceeded''
            else and_then (file_digest content n) (\<lambda>digest.
              Inr (st\<lparr>ss_bytes := total_bytes,
                      ss_entries := ss_entries st @
                        [\<lparr>ps_path = path, ps_content_digest = digest, ps_bytes = n,
                          ps_mode = permission_bits mode, ps_directory = False\<rparr>]\<rparr>)))"

lemma size_list_sort_key: "size_list f (sort_key k xs) = size_list f xs"
proof -
  have "size_list f xs = (\<Sum>x \<in># mset xs. f x) + size (mset xs)" for xs :: "'a list"
    by (induction xs) auto
  then show ?thesis by simp
qed

text \<open>The loop over the sorted names of one directory, at the depth of that directory.\<close>

function snapshot_entries ::
    "string \<Rightarrow> nat \<Rightarrow> (string \<times> tree_node) list \<Rightarrow> snapshot_state \<Rightarrow> snapshot_state expected" where
  "snapshot_entries prefix_path depth [] st = Inr st"
| "snapshot_entries prefix_path depth ((name, node) # rest) st =
     (if length (ss_entries st) \<ge> ss_max_entries st then Inl ''change snapshot entry bound exceeded''
      else
        let path = (if prefix_path = [] then name else prefix_path @ ''/'' @ name) in
        and_then
          (case node of
             Unreadable e \<Rightarrow> Inl (system_error ''inspect change snapshot entry'' e)
           | Special_file \<Rightarrow> Inl ''change snapshot contains a symlink or special file''
           | Regular_file mode links content \<Rightarrow> append_regular path mode links content st
           | Directory_node mode children \<Rightarrow>
               let st1 = st\<lparr>ss_entries := ss_entries st @
                     [\<lparr>ps_path = path, ps_content_digest = [], ps_bytes = 0, ps_mode = permission_bits mode,
                       ps_directory = True\<rparr>]\<rparr> in
               if Suc depth > max_snapshot_depth then Inl ''change snapshot depth bound exceeded''
               else if \<not> list_all (\<lambda>(n, _). valid_component n) children
               then Inl ''change snapshot contains an invalid name''
               else snapshot_entries path (Suc depth) (sort_key fst children) st1)
          (\<lambda>st1. snapshot_entries prefix_path depth rest st1))"
  by pat_completeness auto

termination
  by (relation "measure (\<lambda>(p, d, xs, st). size_list (size_prod (\<lambda>_. 0) size) xs)") (auto simp: size_list_sort_key)

definition snapshot_directory ::
    "string \<Rightarrow> nat \<Rightarrow> (string \<times> tree_node) list \<Rightarrow> snapshot_state \<Rightarrow> snapshot_state expected" where
  "snapshot_directory prefix_path depth children st =
     (if depth > max_snapshot_depth then Inl ''change snapshot depth bound exceeded''
      else if \<not> list_all (\<lambda>(n, _). valid_component n) children then Inl ''change snapshot contains an invalid name''
      else snapshot_entries prefix_path depth (sort_key fst children) st)"

definition snapshot_path_tree :: "tree_node \<Rightarrow> u64 \<Rightarrow> nat \<Rightarrow> path_snapshot_entry list expected" where
  "snapshot_path_tree node max_bytes max_entries =
     (if max_bytes = 0 \<or> max_entries = 0 \<or> max_entries > max_snapshot_entries
      then Inl ''change snapshot bounds are invalid''
      else
        let st = \<lparr>ss_max_bytes = max_bytes, ss_bytes = 0, ss_max_entries = max_entries, ss_entries = []\<rparr> in
        case node of
          Unreadable e \<Rightarrow> Inl (system_error ''inspect change snapshot root'' e)
        | Special_file \<Rightarrow> Inl ''change snapshot root has an unsupported type''
        | Regular_file mode links content \<Rightarrow>
            and_then (append_regular ''.'' mode links content st) (\<lambda>st1. Inr (ss_entries st1))
        | Directory_node mode children \<Rightarrow>
            and_then (snapshot_directory [] 0 children st) (\<lambda>st1. Inr (ss_entries st1)))"

definition canonical_snapshot :: "path_snapshot_entry list \<Rightarrow> bool" where
  "canonical_snapshot entries = (sorted (map ps_path entries) \<and> distinct_adj (map ps_path entries))"

definition snapshot_entry_valid :: "path_snapshot_entry \<Rightarrow> bool" where
  "snapshot_entry_valid e =
     (valid_relative_path (ps_path e) \<and> ps_mode e \<le> 511 \<and>
      (\<not> ps_directory e \<longrightarrow> valid_digest (ps_content_digest e)) \<and>
      (ps_directory e \<longrightarrow> ps_path e \<noteq> ''.'' \<and> ps_content_digest e = [] \<and> ps_bytes e = 0))"

definition path_snapshot_digest :: "manifest_codec \<Rightarrow> path_snapshot_entry list \<Rightarrow> string expected" where
  "path_snapshot_digest c snapshot =
     (if length snapshot > max_snapshot_entries \<or> \<not> canonical_snapshot snapshot
      then Inl ''path snapshot is not canonical''
      else if \<not> list_all snapshot_entry_valid snapshot then Inl ''path snapshot entry is invalid''
      else (case mc_write_snapshot c snapshot of
        None \<Rightarrow> Inl ''encode path snapshot''
      | Some json \<Rightarrow> sha256_hex (bytes_of_string json)))"

subsection \<open>Building a manifest\<close>

definition change_kind_string :: "path_change_kind \<Rightarrow> string" where
  "change_kind_string kind =
     (case kind of Create \<Rightarrow> ''create'' | Modify \<Rightarrow> ''modify'' | Rename \<Rightarrow> ''rename'' | Remove \<Rightarrow> ''remove'')"

definition parse_change_kind :: "string \<Rightarrow> path_change_kind expected" where
  "parse_change_kind v =
     (if v = ''create'' then Inr Create else if v = ''modify'' then Inr Modify else if v = ''rename'' then Inr Rename
      else if v = ''remove'' then Inr Remove else Inl ''retained change manifest has an unknown change kind'')"

definition wire_entry :: "path_change_entry \<Rightarrow> wire_change" where
  "wire_entry e =
     \<lparr>wc_kind = change_kind_string (pc_kind e), wc_path = pc_path e, wc_previous_path = pc_previous_path e,
      wc_before_digest = pc_before_digest e, wc_after_digest = pc_after_digest e,
      wc_before_bytes = pc_before_bytes e, wc_after_bytes = pc_after_bytes e,
      wc_before_mode = pc_before_mode e, wc_after_mode = pc_after_mode e, wc_directory = pc_directory e\<rparr>"

definition removed_entry :: "path_snapshot_entry \<Rightarrow> path_change_entry" where
  "removed_entry e =
     \<lparr>pc_kind = Remove, pc_path = ps_path e, pc_previous_path = [], pc_before_digest = ps_content_digest e,
      pc_after_digest = [], pc_before_bytes = ps_bytes e, pc_after_bytes = 0, pc_before_mode = ps_mode e,
      pc_after_mode = 0, pc_directory = ps_directory e\<rparr>"

definition modified_entry :: "path_snapshot_entry \<Rightarrow> path_snapshot_entry \<Rightarrow> path_change_entry" where
  "modified_entry e found =
     \<lparr>pc_kind = Modify, pc_path = ps_path e, pc_previous_path = [], pc_before_digest = ps_content_digest e,
      pc_after_digest = ps_content_digest found, pc_before_bytes = ps_bytes e, pc_after_bytes = ps_bytes found,
      pc_before_mode = ps_mode e, pc_after_mode = ps_mode found, pc_directory = ps_directory found\<rparr>"

definition created_entry :: "path_snapshot_entry \<Rightarrow> path_change_entry" where
  "created_entry e =
     \<lparr>pc_kind = Create, pc_path = ps_path e, pc_previous_path = [], pc_before_digest = [],
      pc_after_digest = ps_content_digest e, pc_before_bytes = 0, pc_after_bytes = ps_bytes e, pc_before_mode = 0,
      pc_after_mode = ps_mode e, pc_directory = ps_directory e\<rparr>"

text \<open>The ordered maps \<open>before\<close> and \<open>after\<close> hold the entries of the two canonical snapshots in their order.\<close>

definition entry_at :: "path_snapshot_entry list \<Rightarrow> string \<Rightarrow> path_snapshot_entry option" where
  "entry_at entries = map_of (map (\<lambda>e. (ps_path e, e)) entries)"

definition removed_entries :: "path_snapshot_entry list \<Rightarrow> path_snapshot_entry list \<Rightarrow> path_change_entry list" where
  "removed_entries baseline current =
     map removed_entry (filter (\<lambda>e. entry_at current (ps_path e) = None) baseline)"

definition modified_entries :: "path_snapshot_entry list \<Rightarrow> path_snapshot_entry list \<Rightarrow> path_change_entry list" where
  "modified_entries baseline current =
     concat (map (\<lambda>e. case entry_at current (ps_path e) of
         None \<Rightarrow> []
       | Some found \<Rightarrow> if e \<noteq> found then [modified_entry e found] else []) baseline)"

definition created_entries :: "path_snapshot_entry list \<Rightarrow> path_snapshot_entry list \<Rightarrow> path_change_entry list" where
  "created_entries baseline current =
     map created_entry (filter (\<lambda>e. entry_at baseline (ps_path e) = None) current)"

text \<open>One round of the loop over \<open>removed\<close>: the changes so far and the two sets of paired indices.\<close>

type_synonym rename_state = "path_change_entry list \<times> nat set \<times> nat set"

definition rename_entry :: "path_change_entry \<Rightarrow> path_change_entry \<Rightarrow> path_change_entry" where
  "rename_entry candidate target =
     target\<lparr>pc_kind := Rename, pc_previous_path := pc_path candidate, pc_before_digest := pc_before_digest candidate,
            pc_before_bytes := pc_before_bytes candidate, pc_before_mode := pc_before_mode candidate\<rparr>"

definition rename_step ::
    "path_change_entry list \<Rightarrow> path_change_entry list \<Rightarrow> rename_state \<Rightarrow> nat \<Rightarrow> rename_state" where
  "rename_step removed created st removed_index =
     (case st of (changes, renamed_removed, renamed_created) \<Rightarrow>
      let candidate = removed ! removed_index in
      if pc_directory candidate \<or> pc_before_digest candidate = [] then st
      else
        let matches = filter (\<lambda>j. \<not> pc_directory (created ! j) \<and>
              pc_after_digest (created ! j) = pc_before_digest candidate \<and>
              pc_after_bytes (created ! j) = pc_before_bytes candidate) [0..<length created];
            duplicate_source = length (filter (\<lambda>e. \<not> pc_directory e \<and>
              pc_before_digest e = pc_before_digest candidate \<and> pc_before_bytes e = pc_before_bytes candidate) removed)
        in
        if length matches \<noteq> 1 then st
        else if duplicate_source \<noteq> 1 \<or> hd matches \<in> renamed_created then st
        else (changes @ [rename_entry candidate (created ! hd matches)],
              insert removed_index renamed_removed, insert (hd matches) renamed_created))"

definition without_indices :: "'a list \<Rightarrow> nat set \<Rightarrow> 'a list" where
  "without_indices xs skipped = map (\<lambda>i. xs ! i) (filter (\<lambda>i. i \<notin> skipped) [0..<length xs])"

definition kind_index :: "path_change_kind \<Rightarrow> nat" where
  "kind_index kind = (case kind of Create \<Rightarrow> 0 | Modify \<Rightarrow> 1 | Rename \<Rightarrow> 2 | Remove \<Rightarrow> 3)"

definition snapshot_changes :: "path_snapshot_entry list \<Rightarrow> path_snapshot_entry list \<Rightarrow> path_change_entry list" where
  "snapshot_changes baseline current =
     (let removed = removed_entries baseline current; created = created_entries baseline current in
      case foldl (rename_step removed created) (modified_entries baseline current, {}, {}) [0..<length removed] of
        (changes, renamed_removed, renamed_created) \<Rightarrow>
          sort_key (\<lambda>e. (pc_path e, kind_index (pc_kind e), pc_previous_path e))
            (changes @ without_indices removed renamed_removed @ without_indices created renamed_created))"

definition count_kind :: "path_change_kind \<Rightarrow> path_change_entry list \<Rightarrow> u64" where
  "count_kind kind changes = of_nat (length (filter (\<lambda>e. pc_kind e = kind) changes))"

definition is_directory_snapshot :: "path_snapshot_entry list \<Rightarrow> bool" where
  "is_directory_snapshot entries = (entries = [] \<or> ps_path (hd entries) \<noteq> ''.'')"

definition manifest_body :: "retained_change_manifest \<Rightarrow> wire_manifest" where
  "manifest_body m =
     \<lparr>wm_schema_version = rm_schema_version m, wm_session_id = rm_session_id m, wm_exposure_id = rm_exposure_id m,
      wm_generation = rm_generation m, wm_scope_digest = rm_scope_digest m,
      wm_source_identity_digest = rm_source_identity_digest m, wm_max_bytes = rm_max_bytes m,
      wm_directory = rm_directory m, wm_baseline_tree_digest = rm_baseline_tree_digest m,
      wm_staged_tree_digest = rm_staged_tree_digest m, wm_changes = map wire_entry (rm_changes m),
      wm_created = rm_created m, wm_modified = rm_modified m, wm_renamed = rm_renamed m, wm_removed = rm_removed m,
      wm_before_bytes = rm_before_bytes m, wm_after_bytes = rm_after_bytes m\<rparr>"

definition manifest_envelope :: "wire_manifest \<Rightarrow> string \<Rightarrow> wire_manifest_envelope" where
  "manifest_envelope body digest = wire_manifest.extend body (wire_manifest_envelope.fields digest)"

definition manifest_identity_valid :: "string \<Rightarrow> string \<Rightarrow> u64 \<Rightarrow> string \<Rightarrow> string \<Rightarrow> u64 \<Rightarrow> bool" where
  "manifest_identity_valid session_id exposure_id generation scope_digest source_identity_digest max_bytes =
     (valid_identifier session_id \<and> valid_identifier exposure_id \<and> generation \<noteq> 0 \<and> valid_digest scope_digest \<and>
      valid_digest source_identity_digest \<and> max_bytes \<noteq> 0)"

definition seal_manifest :: "manifest_codec \<Rightarrow> retained_change_manifest \<Rightarrow> retained_change_manifest expected" where
  "seal_manifest c m =
     (case mc_write_body c (manifest_body m) of
        None \<Rightarrow> Inl ''encode retained change manifest''
      | Some body \<Rightarrow> and_then (sha256_hex (bytes_of_string body)) (\<lambda>digest.
          case mc_write c (manifest_envelope (manifest_body m) digest) of
            None \<Rightarrow> Inl ''encode retained change manifest envelope''
          | Some canonical \<Rightarrow>
              if canonical = [] \<or> length canonical > max_manifest_bytes
              then Inl ''encode retained change manifest envelope''
              else Inr (m\<lparr>rm_manifest_digest := digest, rm_canonical_json := canonical\<rparr>)))"

definition build_retained_change_manifest ::
    "manifest_codec \<Rightarrow> string \<Rightarrow> string \<Rightarrow> u64 \<Rightarrow> string \<Rightarrow> string \<Rightarrow> u64 \<Rightarrow> path_snapshot_entry list \<Rightarrow>
     path_snapshot_entry list \<Rightarrow> retained_change_manifest expected" where
  "build_retained_change_manifest c session_id exposure_id generation scope_digest source_identity_digest
     max_bytes baseline current =
     (if \<not> manifest_identity_valid session_id exposure_id generation scope_digest source_identity_digest max_bytes \<or>
         length baseline > max_snapshot_entries \<or> length current > max_snapshot_entries
      then Inl ''retained change manifest identity is invalid''
      else if \<not> canonical_snapshot baseline \<or> \<not> canonical_snapshot current
      then Inl ''retained change snapshots are not canonical''
      else and_then (path_snapshot_digest c baseline) (\<lambda>baseline_digest.
        and_then (path_snapshot_digest c current) (\<lambda>staged_digest.
        let changes = snapshot_changes baseline current; directory = is_directory_snapshot baseline in
        if is_directory_snapshot current \<noteq> directory then Inl ''retained change root type changed''
        else seal_manifest c
          \<lparr>rm_schema_version = 1, rm_session_id = session_id, rm_exposure_id = exposure_id,
           rm_generation = generation, rm_scope_digest = scope_digest,
           rm_source_identity_digest = source_identity_digest, rm_max_bytes = max_bytes,
           rm_directory = directory, rm_baseline_tree_digest = baseline_digest,
           rm_staged_tree_digest = staged_digest, rm_changes = changes, rm_created = count_kind Create changes,
           rm_modified = count_kind Modify changes, rm_renamed = count_kind Rename changes,
           rm_removed = count_kind Remove changes, rm_before_bytes = sum_list (map pc_before_bytes changes),
           rm_after_bytes = sum_list (map pc_after_bytes changes), rm_manifest_digest = [],
           rm_canonical_json = []\<rparr>)))"

subsection \<open>Decoding a manifest\<close>

record decode_state =
  ds_created :: u64
  ds_modified :: u64
  ds_renamed :: u64
  ds_removed :: u64
  ds_before_bytes :: u64
  ds_after_bytes :: u64
  ds_previous_path :: string
  ds_changes :: "path_change_entry list"

definition wire_change_shape :: "path_change_kind \<Rightarrow> wire_change \<Rightarrow> bool" where
  "wire_change_shape kind e =
     (case kind of
        Create \<Rightarrow> wc_previous_path e = [] \<and> wc_before_digest e = [] \<and> wc_before_bytes e = 0 \<and> wc_before_mode e = 0
      | Modify \<Rightarrow> wc_previous_path e = []
      | Rename \<Rightarrow> wc_previous_path e \<noteq> [] \<and> wc_before_digest e \<noteq> [] \<and> wc_after_digest e \<noteq> [] \<and>
          wc_before_digest e = wc_after_digest e \<and> wc_before_bytes e = wc_after_bytes e
      | Remove \<Rightarrow> wc_previous_path e = [] \<and> wc_after_digest e = [] \<and> wc_after_bytes e = 0 \<and> wc_after_mode e = 0)"

definition wire_side_valid :: "string \<Rightarrow> u32 \<Rightarrow> bool" where
  "wire_side_valid digest mode = (digest = [] \<or> valid_digest digest \<and> mode \<noteq> 0)"

definition count_change :: "path_change_kind \<Rightarrow> decode_state \<Rightarrow> decode_state" where
  "count_change kind st =
     (case kind of
        Create \<Rightarrow> st\<lparr>ds_created := ds_created st + 1\<rparr>
      | Modify \<Rightarrow> st\<lparr>ds_modified := ds_modified st + 1\<rparr>
      | Rename \<Rightarrow> st\<lparr>ds_renamed := ds_renamed st + 1\<rparr>
      | Remove \<Rightarrow> st\<lparr>ds_removed := ds_removed st + 1\<rparr>)"

definition decoded_change :: "path_change_kind \<Rightarrow> wire_change \<Rightarrow> path_change_entry" where
  "decoded_change kind e =
     \<lparr>pc_kind = kind, pc_path = wc_path e, pc_previous_path = wc_previous_path e,
      pc_before_digest = wc_before_digest e, pc_after_digest = wc_after_digest e,
      pc_before_bytes = wc_before_bytes e, pc_after_bytes = wc_after_bytes e,
      pc_before_mode = wc_before_mode e, pc_after_mode = wc_after_mode e, pc_directory = wc_directory e\<rparr>"

text \<open>\<open>previous_path\<close> is a view of \<open>encoded.path\<close>, which the loop moves from before the next round reads the
  view.  Moving a long string hands its buffer over and the view still shows the path.  Up to
  \<open>short_string_capacity\<close> bytes libc++, which the project builds with, stores the bytes in the object
  itself and zeroes them when it is moved from.\<close>

definition short_string_capacity :: nat where
  "short_string_capacity = 22"

definition moved_view :: "string \<Rightarrow> string" where
  "moved_view v = (if length v \<le> short_string_capacity then replicate (length v) (CHR 0x00) else v)"

definition decode_change :: "wire_change \<Rightarrow> decode_state \<Rightarrow> decode_state expected" where
  "decode_change e st =
     (case (parse_change_kind (wc_kind e), checked_add (ds_before_bytes st) (wc_before_bytes e),
            checked_add (ds_after_bytes st) (wc_after_bytes e)) of
        (Inr kind, Some before_bytes, Some after_bytes) \<Rightarrow>
          if \<not> valid_relative_path (wc_path e) \<or>
             wc_previous_path e \<noteq> [] \<and> \<not> valid_relative_path (wc_previous_path e) \<or>
             \<not> wire_side_valid (wc_before_digest e) (wc_before_mode e) \<or>
             \<not> wire_side_valid (wc_after_digest e) (wc_after_mode e) \<or>
             ds_previous_path st \<noteq> [] \<and> ds_previous_path st \<ge> wc_path e
          then Inl ''retained change manifest entries are invalid''
          else if \<not> wire_change_shape kind e then Inl ''retained change manifest entry shape is invalid''
          else
            let st1 = count_change kind (st\<lparr>ds_before_bytes := before_bytes, ds_after_bytes := after_bytes\<rparr>) in
            Inr (st1\<lparr>ds_previous_path := moved_view (wc_path e), ds_changes := ds_changes st1 @ [decoded_change kind e]\<rparr>)
      | _ \<Rightarrow> Inl ''retained change manifest entries are invalid'')"

fun decode_changes :: "wire_change list \<Rightarrow> decode_state \<Rightarrow> decode_state expected" where
  "decode_changes [] st = Inr st"
| "decode_changes (e # es) st = and_then (decode_change e st) (decode_changes es)"

definition empty_decode_state :: decode_state where
  "empty_decode_state =
     \<lparr>ds_created = 0, ds_modified = 0, ds_renamed = 0, ds_removed = 0, ds_before_bytes = 0, ds_after_bytes = 0,
      ds_previous_path = [], ds_changes = []\<rparr>"

definition envelope_body :: "wire_manifest_envelope \<Rightarrow> wire_manifest" where
  "envelope_body e = wire_manifest.truncate e"

definition envelope_schema_valid :: "wire_manifest_envelope \<Rightarrow> bool" where
  "envelope_schema_valid e =
     (wm_schema_version e = 1 \<and> valid_identifier (wm_session_id e) \<and> valid_identifier (wm_exposure_id e) \<and>
      wm_generation e \<noteq> 0 \<and> valid_digest (wm_scope_digest e) \<and> valid_digest (wm_source_identity_digest e) \<and>
      wm_max_bytes e \<noteq> 0 \<and> valid_digest (wm_baseline_tree_digest e) \<and> valid_digest (wm_staged_tree_digest e) \<and>
      valid_digest (wm_manifest_digest e) \<and> length (wm_changes e) \<le> max_snapshot_entries)"

definition decoded_manifest :: "wire_manifest_envelope \<Rightarrow> string \<Rightarrow> path_change_entry list \<Rightarrow> retained_change_manifest" where
  "decoded_manifest e canonical_json changes =
     \<lparr>rm_schema_version = wm_schema_version e, rm_session_id = wm_session_id e, rm_exposure_id = wm_exposure_id e,
      rm_generation = wm_generation e, rm_scope_digest = wm_scope_digest e,
      rm_source_identity_digest = wm_source_identity_digest e, rm_max_bytes = wm_max_bytes e,
      rm_directory = wm_directory e, rm_baseline_tree_digest = wm_baseline_tree_digest e,
      rm_staged_tree_digest = wm_staged_tree_digest e, rm_changes = changes, rm_created = wm_created e,
      rm_modified = wm_modified e, rm_renamed = wm_renamed e, rm_removed = wm_removed e,
      rm_before_bytes = wm_before_bytes e, rm_after_bytes = wm_after_bytes e,
      rm_manifest_digest = wm_manifest_digest e, rm_canonical_json = canonical_json\<rparr>"

definition totals_match :: "decode_state \<Rightarrow> wire_manifest_envelope \<Rightarrow> bool" where
  "totals_match st e =
     (ds_created st = wm_created e \<and> ds_modified st = wm_modified e \<and> ds_renamed st = wm_renamed e \<and>
      ds_removed st = wm_removed e \<and> ds_before_bytes st = wm_before_bytes e \<and> ds_after_bytes st = wm_after_bytes e)"

definition decode_retained_change_manifest_json ::
    "manifest_codec \<Rightarrow> string \<Rightarrow> retained_change_manifest expected" where
  "decode_retained_change_manifest_json c canonical_json =
     (if canonical_json = [] \<or> length canonical_json > max_manifest_bytes
      then Inl ''retained change manifest exceeds its bound''
      else (case mc_read c canonical_json of
        None \<Rightarrow> Inl ''retained change manifest schema is invalid''
      | Some e \<Rightarrow>
          if \<not> envelope_schema_valid e then Inl ''retained change manifest schema is invalid''
          else (case mc_write_body c (envelope_body e) of
            None \<Rightarrow> Inl ''retained change manifest encoding failed''
          | Some body \<Rightarrow>
              if sha256_hex (bytes_of_string body) \<noteq> Inr (wm_manifest_digest e)
              then Inl ''retained change manifest digest mismatch''
              else if mc_write c e \<noteq> Some canonical_json then Inl ''retained change manifest is not canonical''
              else and_then (decode_changes (wm_changes e) empty_decode_state) (\<lambda>st.
                if \<not> totals_match st e then Inl ''retained change manifest totals are invalid''
                else Inr (decoded_manifest e canonical_json (ds_changes st))))))"

subsection \<open>Published stages\<close>

text \<open>What the calls of \<open>inspect_retained_change_stage\<close> find: the stage directory below the root, whether
  it is owner-only, the manifest file, and the staged content with its payload.\<close>

record retained_stage =
  rs_open :: "string option"
  rs_owner_only :: bool
  rs_manifest :: "disk expected"
  rs_content :: "tree_node expected"
  rs_payload :: "tree_node expected"

record stage_root =
  sr_open :: "string option"
  sr_stage :: "string \<Rightarrow> retained_stage"

definition stage_read_text :: io_text where
  "stage_read_text =
     \<lparr>io_range = None, io_write = [], io_stalled = [], io_read = ''read retained stage manifest'',
      io_ended = ''read retained stage manifest: Success''\<rparr>"

definition read_bounded_file :: "disk \<Rightarrow> nat \<Rightarrow> string expected" where
  "read_bounded_file d max_bytes =
     (case single_call d of
        (Some e, d1) \<Rightarrow> Inl ''retained stage manifest file is invalid''
      | (None, d1) \<Rightarrow>
          if \<not> fm_regular (d_meta d) \<or> fm_links (d_meta d) \<noteq> 1 \<or> d_bytes d = [] \<or> length (d_bytes d) > max_bytes
          then Inl ''retained stage manifest file is invalid''
          else (case read_bytes stage_read_text d1 (length (d_bytes d)) 0 of
            (Inl e, d2) \<Rightarrow> Inl e
          | (Inr bs, d2) \<Rightarrow> Inr (string_of_bytes bs)))"

definition stage_name :: "string \<Rightarrow> string \<Rightarrow> string" where
  "stage_name session_id exposure_id =
     ''glove-retained-s'' @ decimal (length session_id) @ ''-'' @ session_id @ ''-a'' @ decimal (length exposure_id) @
     ''-'' @ exposure_id"

definition verify_stage_content ::
    "manifest_codec \<Rightarrow> retained_change_manifest \<Rightarrow> tree_node \<Rightarrow> retained_change_manifest expected" where
  "verify_stage_content c m node =
     and_then (snapshot_path_tree node (rm_max_bytes m) max_snapshot_entries) (\<lambda>snapshot.
       and_then (path_snapshot_digest c snapshot) (\<lambda>digest.
         if digest \<noteq> rm_staged_tree_digest m then Inl ''retained stage content digest mismatch'' else Inr m))"

definition inspect_retained_change_stage ::
    "manifest_codec \<Rightarrow> stage_root \<Rightarrow> string \<Rightarrow> string \<Rightarrow> retained_change_manifest expected" where
  "inspect_retained_change_stage c root session_id exposure_id =
     (if \<not> valid_identifier session_id \<or> \<not> valid_identifier exposure_id then Inl ''invalid retained stage identity''
      else (case sr_open root of
        Some e \<Rightarrow> Inl e
      | None \<Rightarrow>
         (let stage = sr_stage root (stage_name session_id exposure_id) in
          case rs_open stage of
            Some e \<Rightarrow> Inl (system_error ''open retained stage'' e)
          | None \<Rightarrow>
              if \<not> rs_owner_only stage then Inl ''retained stage ownership is invalid''
              else (case rs_manifest stage of
                Inl e \<Rightarrow> Inl (system_error ''open retained stage manifest'' e)
              | Inr d \<Rightarrow>
                  and_then (read_bounded_file d (16 * 1024 * 1024)) (\<lambda>json.
                  and_then (decode_retained_change_manifest_json c json) (\<lambda>m.
                  if rm_session_id m \<noteq> session_id \<or> rm_exposure_id m \<noteq> exposure_id
                  then Inl ''retained stage manifest identity mismatch''
                  else (case rs_content stage of
                    Inl e \<Rightarrow> Inl (system_error ''open retained stage content'' e)
                  | Inr content \<Rightarrow>
                      if rm_directory m then verify_stage_content c m content
                      else (case rs_payload stage of
                        Inl e \<Rightarrow> Inl (system_error ''open retained stage payload'' e)
                      | Inr payload \<Rightarrow> verify_stage_content c m payload))))))))"

end
