(* ===== verification/Manifest_Laws.thy ===== *)
theory Manifest_Laws
  imports Change_Manifest
begin

text \<open>
  What the comparison of two snapshots produces: a list of changes with distinct paths that turns the
  first snapshot into the second.
\<close>

subsection \<open>Snapshots as maps\<close>

lemma canonical_distinct: "canonical_snapshot entries \<Longrightarrow> distinct (map ps_path entries)"
proof -
  have "sorted xs \<Longrightarrow> distinct_adj xs \<Longrightarrow> distinct xs" for xs :: "string list"
  proof (induction xs)
    case (Cons x xs)
    have "x \<notin> set xs"
    proof
      assume "x \<in> set xs"
      then obtain y ys where xs: "xs = y # ys" by (cases xs) auto
      have "x \<noteq> y" using Cons.prems(2) xs by simp
      moreover have "x \<le> y" "y \<le> x" using Cons.prems(1) \<open>x \<in> set xs\<close> xs by auto
      ultimately show False by simp
    qed
    then show ?case using Cons by (cases xs) auto
  qed simp
  then show "canonical_snapshot entries \<Longrightarrow> distinct (map ps_path entries)"
    by (simp add: canonical_snapshot_def)
qed

lemma entry_at_iff:
  assumes "distinct (map ps_path entries)"
  shows "entry_at entries p = Some e \<longleftrightarrow> e \<in> set entries \<and> ps_path e = p"
proof -
  have "distinct (map fst (map (\<lambda>e. (ps_path e, e)) entries))"
    using assms by (simp add: comp_def)
  then show ?thesis
    by (auto simp: entry_at_def map_of_eq_Some_iff)
qed

lemma entry_at_None: "entry_at entries p = None \<longleftrightarrow> p \<notin> ps_path ` set entries"
  by (simp add: entry_at_def map_of_eq_None_iff image_image)

subsection \<open>Renames\<close>

text \<open>The pairs of indices the rename loop has matched before index \<open>n\<close>.\<close>

definition rename_matches :: "path_change_entry list \<Rightarrow> path_change_entry list \<Rightarrow> nat \<Rightarrow> nat \<Rightarrow> bool" where
  "rename_matches removed created i j =
     (i < length removed \<and> j < length created \<and> \<not> pc_directory (removed ! i) \<and> pc_before_digest (removed ! i) \<noteq> [] \<and>
      \<not> pc_directory (created ! j) \<and> pc_after_digest (created ! j) = pc_before_digest (removed ! i) \<and>
      pc_after_bytes (created ! j) = pc_before_bytes (removed ! i))"

definition renames_found ::
    "path_change_entry list \<Rightarrow> path_change_entry list \<Rightarrow> path_change_entry list \<Rightarrow> nat \<Rightarrow> (nat \<times> nat) list \<Rightarrow>
     rename_state \<Rightarrow> bool" where
  "renames_found removed created base n found st =
     (st = (base @ map (\<lambda>(i, j). rename_entry (removed ! i) (created ! j)) found, set (map fst found), set (map snd found)) \<and>
      distinct (map fst found) \<and> distinct (map snd found) \<and>
      (\<forall>(i, j) \<in> set found. i < n \<and> rename_matches removed created i j))"

lemma rename_step_found:
  assumes found: "renames_found removed created base n found st" and "n < length removed"
  shows "\<exists>found'. renames_found removed created base (Suc n) found' (rename_step removed created st n)"
proof -
  define matches where "matches = filter (\<lambda>j. \<not> pc_directory (created ! j) \<and>
    pc_after_digest (created ! j) = pc_before_digest (removed ! n) \<and>
    pc_after_bytes (created ! j) = pc_before_bytes (removed ! n)) [0..<length created]"
  have keep: "renames_found removed created base (Suc n) found st"
    using found by (auto simp: renames_found_def less_Suc_eq)
  show ?thesis
  proof (cases "rename_step removed created st n = st")
    case True
    then show ?thesis using keep by auto
  next
    case False
    then have new: "\<not> pc_directory (removed ! n)" "pc_before_digest (removed ! n) \<noteq> []" "length matches = 1"
      "hd matches \<notin> set (map snd found)"
      and step: "rename_step removed created st n =
        (base @ map (\<lambda>(i, j). rename_entry (removed ! i) (created ! j)) (found @ [(n, hd matches)]),
         set (map fst (found @ [(n, hd matches)])), set (map snd (found @ [(n, hd matches)])))"
      using found unfolding renames_found_def
      by (auto simp: rename_step_def Let_def matches_def [symmetric] split: if_splits)
    have "hd matches \<in> set matches" using new(3) by (cases matches) auto
    then have "rename_matches removed created n (hd matches)"
      using assms(2) new(1,2) by (auto simp: rename_matches_def matches_def)
    moreover have "n \<notin> set (map fst found)" using found by (auto simp: renames_found_def)
    ultimately have "renames_found removed created base (Suc n) (found @ [(n, hd matches)]) (rename_step removed created st n)"
      using keep new(4) step by (auto simp: renames_found_def)
    then show ?thesis by blast
  qed
qed

lemma rename_loop_found:
  "n \<le> length removed \<Longrightarrow>
     \<exists>found. renames_found removed created base n found (foldl (rename_step removed created) (base, {}, {}) [0..<n])"
proof (induction n)
  case 0
  then show ?case by (auto simp: renames_found_def intro!: exI [of _ "[]"])
next
  case (Suc n)
  then obtain found where "renames_found removed created base n found (foldl (rename_step removed created) (base, {}, {}) [0..<n])"
    by auto
  from rename_step_found [OF this] Suc.prems show ?case by simp
qed

subsection \<open>The changes\<close>

lemma set_without_indices: "set (without_indices xs skipped) = {xs ! i |i. i < length xs \<and> i \<notin> skipped}"
  by (auto simp: without_indices_def)

text \<open>The unsorted list of changes.\<close>

definition raw_changes ::
    "path_change_entry list \<Rightarrow> path_change_entry list \<Rightarrow> path_change_entry list \<Rightarrow> (nat \<times> nat) list \<Rightarrow> path_change_entry list" where
  "raw_changes modified removed created found =
     modified @ map (\<lambda>(i, j). rename_entry (removed ! i) (created ! j)) found @
     without_indices removed (set (map fst found)) @ without_indices created (set (map snd found))"

lemma snapshot_changes_raw:
  obtains found st where "renames_found (removed_entries b c) (created_entries b c) (modified_entries b c)
      (length (removed_entries b c)) found st"
    "snapshot_changes b c = sort_key (\<lambda>e. (pc_path e, kind_index (pc_kind e), pc_previous_path e))
      (raw_changes (modified_entries b c) (removed_entries b c) (created_entries b c) found)"
proof -
  obtain found where "renames_found (removed_entries b c) (created_entries b c) (modified_entries b c)
      (length (removed_entries b c)) found (foldl (rename_step (removed_entries b c) (created_entries b c))
        (modified_entries b c, {}, {}) [0..<length (removed_entries b c)])"
    using rename_loop_found [OF order_refl] by blast
  with that show thesis
    by (fastforce simp: snapshot_changes_def Let_def raw_changes_def renames_found_def)
qed

text \<open>A canonical pair of snapshots and the renames found between them.\<close>

lemma rename_entry_simps [simp]:
  "pc_path (rename_entry r t) = pc_path t" "pc_kind (rename_entry r t) = Rename"
  "pc_previous_path (rename_entry r t) = pc_path r" "pc_after_digest (rename_entry r t) = pc_after_digest t"
  "pc_after_bytes (rename_entry r t) = pc_after_bytes t" "pc_after_mode (rename_entry r t) = pc_after_mode t"
  "pc_directory (rename_entry r t) = pc_directory t" "pc_before_digest (rename_entry r t) = pc_before_digest r"
  "pc_before_bytes (rename_entry r t) = pc_before_bytes r" "pc_before_mode (rename_entry r t) = pc_before_mode r"
  by (simp_all add: rename_entry_def)

lemma change_entry_simps [simp]:
  "pc_path (removed_entry e) = ps_path e" "pc_kind (removed_entry e) = Remove" "pc_previous_path (removed_entry e) = []"
  "pc_path (created_entry e) = ps_path e" "pc_kind (created_entry e) = Create" "pc_previous_path (created_entry e) = []"
  "pc_path (modified_entry e f) = ps_path e" "pc_kind (modified_entry e f) = Modify"
  "pc_previous_path (modified_entry e f) = []"
  by (simp_all add: removed_entry_def created_entry_def modified_entry_def)

lemma set_removed_entries:
  "set (removed_entries b c) = {removed_entry e |e. e \<in> set b \<and> entry_at c (ps_path e) = None}"
  by (auto simp: removed_entries_def)

lemma set_created_entries:
  "set (created_entries b c) = {created_entry e |e. e \<in> set c \<and> entry_at b (ps_path e) = None}"
  by (auto simp: created_entries_def)

lemma set_modified_entries:
  "set (modified_entries b c) =
     {modified_entry e f |e f. e \<in> set b \<and> entry_at c (ps_path e) = Some f \<and> e \<noteq> f}"
  by (auto simp: modified_entries_def split: option.splits if_splits) (metis)

lemma map_path_without: "map pc_path (without_indices xs s) = map (\<lambda>i. pc_path (xs ! i)) (filter (\<lambda>i. i \<notin> s) [0..<length xs])"
  by (simp add: without_indices_def comp_def)

lemma distinct_modified: "distinct (map ps_path b) \<Longrightarrow> distinct (map pc_path (modified_entries b c))"
proof -
  assume "distinct (map ps_path b)"
  moreover have "map pc_path (modified_entries b c) =
      map ps_path (filter (\<lambda>e. \<exists>f. entry_at c (ps_path e) = Some f \<and> e \<noteq> f) b)"
    by (induction b) (auto simp: modified_entries_def split: option.splits)
  ultimately show ?thesis by (simp add: distinct_map_filter)
qed

lemma distinct_removed: "distinct (map ps_path b) \<Longrightarrow> distinct (map pc_path (removed_entries b c))"
  by (simp add: removed_entries_def comp_def distinct_map_filter)

lemma distinct_created: "distinct (map ps_path c) \<Longrightarrow> distinct (map pc_path (created_entries b c))"
  by (simp add: created_entries_def comp_def distinct_map_filter)

lemma path_nth_inject:
  "distinct (map pc_path xs) \<Longrightarrow> i < length xs \<Longrightarrow> j < length xs \<Longrightarrow> pc_path (xs ! i) = pc_path (xs ! j) \<longleftrightarrow> i = j"
  by (metis distinct_conv_nth length_map nth_map)

lemma distinct_without:
  "distinct (map pc_path xs) \<Longrightarrow> distinct (map pc_path (without_indices xs s))"
  by (auto simp: map_path_without distinct_map inj_on_def path_nth_inject)

lemma distinct_four:
  assumes "distinct ms" "distinct rs" "distinct xs" "distinct ks"
    and "set ms \<subseteq> B \<inter> C" "X \<inter> C = {}" "K \<inter> B = {}" "K \<subseteq> C" "set rs \<subseteq> K" "set xs \<subseteq> X" "set ks \<subseteq> K" "set rs \<inter> set ks = {}"
  shows "distinct (ms @ rs @ xs @ ks)"
proof -
  have "set xs \<inter> C = {}" "set ks \<inter> B = {}" "set rs \<inter> B = {}" "set ks \<subseteq> C" "set rs \<subseteq> C"
    using assms by blast+
  then show ?thesis using assms(1-5,12) by auto
qed

lemma distinct_raw_changes:
  assumes "distinct (map ps_path b)" and "distinct (map ps_path c)"
    and found: "renames_found (removed_entries b c) (created_entries b c) base n found st"
  shows "distinct (map pc_path (raw_changes (modified_entries b c) (removed_entries b c) (created_entries b c) found))"
proof -
  let ?m = "modified_entries b c" and ?r = "removed_entries b c" and ?k = "created_entries b c"
  have rd: "distinct (map pc_path ?r)" and kd: "distinct (map pc_path ?k)"
    using distinct_removed distinct_created assms by auto
  have mp: "pc_path ` set ?m \<subseteq> ps_path ` set b \<inter> ps_path ` set c"
    using assms(2) by (auto simp: set_modified_entries entry_at_iff) (metis image_eqI)
  have rp: "pc_path ` set ?r \<inter> ps_path ` set c = {}"
    by (auto simp: set_removed_entries entry_at_None)
  have kp: "pc_path ` set ?k \<inter> ps_path ` set b = {}" "pc_path ` set ?k \<subseteq> ps_path ` set c"
    by (auto simp: set_created_entries entry_at_None)
  have pairs: "\<And>i j. (i, j) \<in> set found \<Longrightarrow> i < length ?r \<and> j < length ?k" "distinct (map snd found)"
    using found by (auto simp: renames_found_def rename_matches_def)
  have renames: "distinct (map (\<lambda>(i, j). pc_path (?k ! j)) found)"
    using pairs path_nth_inject [OF kd] by (auto simp: distinct_map inj_on_def) fastforce
  have rename_paths: "(\<lambda>(i, j). pc_path (?k ! j)) ` set found \<subseteq> pc_path ` set ?k"
    using pairs(1) by (auto intro!: imageI nth_mem)
  have apart: "(\<lambda>(i, j). pc_path (?k ! j)) ` set found \<inter> pc_path ` set (without_indices ?k (set (map snd found))) = {}"
    using pairs(1) path_nth_inject [OF kd] by (auto simp: set_without_indices) (metis snd_conv image_eqI)
  have subs: "pc_path ` set (without_indices ?k (set (map snd found))) \<subseteq> pc_path ` set ?k"
    "pc_path ` set (without_indices ?r (set (map fst found))) \<subseteq> pc_path ` set ?r"
    by (auto simp: set_without_indices)
  have "map pc_path (raw_changes ?m ?r ?k found) = map pc_path ?m @ map (\<lambda>(i, j). pc_path (?k ! j)) found @
      map pc_path (without_indices ?r (set (map fst found))) @ map pc_path (without_indices ?k (set (map snd found)))"
    by (simp add: raw_changes_def case_prod_beta comp_def)
  also have "distinct \<dots>"
    by (rule distinct_four [OF distinct_modified [OF assms(1)] renames distinct_without [OF rd] distinct_without [OF kd],
          where B = "ps_path ` set b" and C = "ps_path ` set c" and X = "pc_path ` set ?r" and K = "pc_path ` set ?k"])
      (use mp rp kp rename_paths apart subs in simp_all)
  finally show ?thesis .
qed

text \<open>Where a change comes from, and that none is lost.\<close>

lemma raw_changes_mem:
  "(i, j) \<in> set found \<Longrightarrow> rename_entry (r ! i) (k ! j) \<in> set (raw_changes m r k found)"
  "i < length r \<Longrightarrow> i \<notin> fst ` set found \<Longrightarrow> r ! i \<in> set (raw_changes m r k found)"
  "j < length k \<Longrightarrow> j \<notin> snd ` set found \<Longrightarrow> k ! j \<in> set (raw_changes m r k found)"
  by (auto simp: raw_changes_def set_without_indices intro: image_eqI [of _ _ "(i, j)"])

lemma raw_change_cases:
  assumes "x \<in> set (raw_changes (modified_entries b c) (removed_entries b c) (created_entries b c) found)"
    and found: "renames_found (removed_entries b c) (created_entries b c) base n found st"
  obtains (modify) e f where "x = modified_entry e f" "e \<in> set b" "entry_at c (ps_path e) = Some f" "e \<noteq> f"
  | (rename) e f where "x = rename_entry (removed_entry e) (created_entry f)" "e \<in> set b" "entry_at c (ps_path e) = None"
      "f \<in> set c" "entry_at b (ps_path f) = None" "\<not> ps_directory e" "\<not> ps_directory f" "ps_content_digest e \<noteq> []"
      "ps_content_digest f = ps_content_digest e" "ps_bytes f = ps_bytes e"
  | (remove) e where "x = removed_entry e" "e \<in> set b" "entry_at c (ps_path e) = None"
  | (create) f where "x = created_entry f" "f \<in> set c" "entry_at b (ps_path f) = None"
proof -
  let ?m = "modified_entries b c" and ?r = "removed_entries b c" and ?k = "created_entries b c"
  consider "x \<in> set ?m" | i j where "(i, j) \<in> set found" "x = rename_entry (?r ! i) (?k ! j)"
    | "x \<in> set ?r" | "x \<in> set ?k"
    using assms(1) by (auto simp: raw_changes_def set_without_indices)
  then show thesis
  proof cases
    case 1
    then show thesis by (auto simp: set_modified_entries intro: modify)
  next
    case 2
    then have match: "rename_matches ?r ?k i j" using found by (auto simp: renames_found_def)
    then have "?r ! i \<in> set ?r" "?k ! j \<in> set ?k" by (auto simp: rename_matches_def)
    then obtain e f where "?r ! i = removed_entry e" "e \<in> set b" "entry_at c (ps_path e) = None"
      "?k ! j = created_entry f" "f \<in> set c" "entry_at b (ps_path f) = None"
      by (auto simp: set_removed_entries set_created_entries)
    then show thesis
      using 2(2) match by (intro rename [of e f]) (auto simp: rename_matches_def removed_entry_def created_entry_def)
  next
    case 3
    then show thesis by (auto simp: set_removed_entries intro: remove)
  next
    case 4
    then show thesis by (auto simp: set_created_entries intro: create)
  qed
qed

subsection \<open>Applying the changes\<close>

text \<open>What a list of changes says about a tree: the side after the change of its path, nothing for a removed
  path or one that was renamed away, and the old entry otherwise.\<close>

definition after_entry :: "path_change_entry \<Rightarrow> path_snapshot_entry" where
  "after_entry e =
     \<lparr>ps_path = pc_path e, ps_content_digest = pc_after_digest e, ps_bytes = pc_after_bytes e,
      ps_mode = pc_after_mode e, ps_directory = pc_directory e\<rparr>"

definition patched ::
    "(string \<Rightarrow> path_snapshot_entry option) \<Rightarrow> path_change_entry list \<Rightarrow> string \<Rightarrow> path_snapshot_entry option" where
  "patched before changes path =
     (case map_of (map (\<lambda>e. (pc_path e, e)) changes) path of
        Some e \<Rightarrow> if pc_kind e = Remove then None else Some (after_entry e)
      | None \<Rightarrow>
          if list_ex (\<lambda>e. pc_kind e = Rename \<and> pc_previous_path e = path) changes then None else before path)"

lemma after_entry_simps [simp]:
  "after_entry (created_entry e) = e" "ps_path e = ps_path f \<Longrightarrow> after_entry (modified_entry e f) = f"
  "after_entry (rename_entry r t) = after_entry t"
  by (simp_all add: after_entry_def created_entry_def modified_entry_def rename_entry_def)

lemma map_of_sorted:
  assumes "distinct (map pc_path xs)"
  shows "map_of (map (\<lambda>e. (pc_path e, e)) (sort_key k xs)) = map_of (map (\<lambda>e. (pc_path e, e)) xs)"
proof -
  have "distinct (map pc_path (sort_key k xs))"
    by (metis assms distinct_map distinct_sort set_sort)
  then show ?thesis
    using assms by (intro map_of_inject_set [THEN iffD2]) (simp_all add: comp_def)
qed

lemma map_of_changes:
  assumes "distinct (map pc_path xs)"
  shows "map_of (map (\<lambda>e. (pc_path e, e)) xs) p = Some e \<longleftrightarrow> e \<in> set xs \<and> pc_path e = p"
  using assms by (auto simp: map_of_eq_Some_iff comp_def)

lemma list_ex_sort_key: "list_ex P (sort_key k xs) \<longleftrightarrow> list_ex P xs"
  by (simp add: list_ex_iff)

lemma patched_sorted:
  "distinct (map pc_path xs) \<Longrightarrow> patched before (sort_key k xs) = patched before xs"
  by (rule ext) (simp add: patched_def map_of_sorted list_ex_sort_key)

lemma patched_change:
  assumes "distinct (map pc_path xs)" and "e \<in> set xs" and "pc_path e = p"
  shows "patched before xs p = (if pc_kind e = Remove then None else Some (after_entry e))"
  using map_of_changes [OF assms(1), of p e] assms(2,3) by (simp add: patched_def)

lemma patched_raw_changes:
  assumes b: "distinct (map ps_path b)" and c: "distinct (map ps_path c)"
    and found: "renames_found (removed_entries b c) (created_entries b c) base n found st"
  shows "patched (entry_at b) (raw_changes (modified_entries b c) (removed_entries b c) (created_entries b c) found) p = entry_at c p"
    (is "patched _ ?changes p = _")
proof -
  let ?m = "modified_entries b c" and ?r = "removed_entries b c" and ?k = "created_entries b c"
  note distinct = distinct_raw_changes [OF b c found] and at = entry_at_iff [OF b] entry_at_iff [OF c]
  show ?thesis
  proof (cases "map_of (map (\<lambda>e. (pc_path e, e)) ?changes) p")
    case (Some x)
    then have x: "x \<in> set ?changes" "pc_path x = p" using map_of_changes [OF distinct] by auto
    have "entry_at c p = (if pc_kind x = Remove then None else Some (after_entry x))"
      using x(1) found
    proof (cases rule: raw_change_cases)
      case (modify e f)
      then show ?thesis using x(2) at by simp
    next
      case (rename e f)
      then show ?thesis using x(2) at by simp
    next
      case (remove e)
      then show ?thesis using x(2) by simp
    next
      case (create f)
      then show ?thesis using x(2) at by simp
    qed
    then show ?thesis using patched_change [OF distinct x] by simp
  next
    case None
    then have unchanged: "x \<in> set ?changes \<Longrightarrow> pc_path x \<noteq> p" for x
      by (auto simp: map_of_eq_None_iff image_image)
    have created: "entry_at c p = Some f \<Longrightarrow> entry_at b p \<noteq> None" for f
    proof
      assume f: "entry_at c p = Some f" "entry_at b p = None"
      then have "created_entry f \<in> set ?k" using at by (auto simp: set_created_entries)
      then obtain j where j: "j < length ?k" "?k ! j = created_entry f" by (auto simp: in_set_conv_nth)
      have "\<exists>x \<in> set ?changes. pc_path x = pc_path (?k ! j)"
      proof (cases "j \<in> snd ` set found")
        case True
        then obtain i where "(i, j) \<in> set found" by auto
        show ?thesis by (rule bexI [OF _ raw_changes_mem(1) [OF \<open>(i, j) \<in> set found\<close>]]) simp
      qed (use raw_changes_mem(3) [OF j(1)] in blast)
      then show False using unchanged f(1) at j(2) by auto
    qed
    have removed: "list_ex (\<lambda>x. pc_kind x = Rename \<and> pc_previous_path x = p) ?changes"
      if e: "entry_at b p = Some e" "entry_at c p = None" for e
    proof -
      have "removed_entry e \<in> set ?r" using e at by (auto simp: set_removed_entries)
      then obtain i where i: "i < length ?r" "?r ! i = removed_entry e" by (auto simp: in_set_conv_nth)
      have "\<exists>x \<in> set ?changes. pc_path x = pc_path (?r ! i) \<or> pc_kind x = Rename \<and> pc_previous_path x = pc_path (?r ! i)"
      proof (cases "i \<in> fst ` set found")
        case True
        then obtain j where "(i, j) \<in> set found" by auto
        show ?thesis by (rule bexI [OF _ raw_changes_mem(1) [OF \<open>(i, j) \<in> set found\<close>]]) simp
      qed (use raw_changes_mem(2) [OF i(1)] in blast)
      then show ?thesis using unchanged e(1) at i(2) by (auto simp: list_ex_iff)
    qed
    have kept: "entry_at c p = entry_at b p" "\<not> list_ex (\<lambda>x. pc_kind x = Rename \<and> pc_previous_path x = p) ?changes"
      if e: "entry_at b p = Some e" "entry_at c p = Some f" for e f
    proof -
      have "e = f"
      proof (rule ccontr)
        assume "e \<noteq> f"
        then have "modified_entry e f \<in> set ?changes"
          using e at by (auto simp: raw_changes_def set_modified_entries)
        from unchanged [OF this] show False using e at by simp
      qed
      then show "entry_at c p = entry_at b p" using e by simp
      show "\<not> list_ex (\<lambda>x. pc_kind x = Rename \<and> pc_previous_path x = p) ?changes"
        using e(2) found by (auto simp: list_ex_iff elim!: raw_change_cases)
    qed
    show ?thesis
      using None created removed kept
      by (cases "entry_at b p"; cases "entry_at c p") (auto simp: patched_def)
  qed
qed

subsection \<open>Decoding what was built\<close>

lemma moved_view_le: "moved_view v \<le> v"
proof -
  have "replicate (length v) (CHR 0x00) \<le> v"
  proof (induction v)
    case (Cons x v)
    have "CHR 0x00 \<le> x" by (simp add: less_eq_char_def)
    then show ?case using Cons by (auto simp: le_less)
  qed simp
  then show ?thesis by (simp add: moved_view_def)
qed

lemma checked_add_fits: "unat a + unat b < 2 ^ 64 \<Longrightarrow> checked_add a b = Some (a + b)"
proof -
  assume "unat a + unat b < 2 ^ 64"
  moreover have "unat (- 1 - a) = 2 ^ 64 - 1 - unat a"
    using unat_sub [of a "- 1"] by (simp add: unsigned_minus_1_eq_mask mask_eq_exp_minus_1)
  ultimately have "b \<le> - 1 - a" by (simp add: word_le_nat_alt)
  then show ?thesis by (auto simp: checked_add_def)
qed

lemma parse_change_kind_string: "parse_change_kind (change_kind_string kind) = Inr kind"
  by (cases kind) (simp_all add: parse_change_kind_def change_kind_string_def)

lemma decoded_wire_entry: "decoded_change (pc_kind e) (wire_entry e) = e"
  by (simp add: decoded_change_def wire_entry_def)

text \<open>What the decoder demands of one entry beside the order and the sums.\<close>

definition change_acceptable :: "path_change_entry \<Rightarrow> bool" where
  "change_acceptable e =
     (valid_relative_path (pc_path e) \<and> (pc_previous_path e \<noteq> [] \<longrightarrow> valid_relative_path (pc_previous_path e)) \<and>
      wire_side_valid (pc_before_digest e) (pc_before_mode e) \<and> wire_side_valid (pc_after_digest e) (pc_after_mode e) \<and>
      wire_change_shape (pc_kind e) (wire_entry e))"

lemma decode_change_accepts:
  assumes "change_acceptable e" and "ds_previous_path st = [] \<or> ds_previous_path st < pc_path e"
    and "unat (ds_before_bytes st) + unat (pc_before_bytes e) < 2 ^ 64"
    and "unat (ds_after_bytes st) + unat (pc_after_bytes e) < 2 ^ 64"
  shows "decode_change (wire_entry e) st =
    Inr ((count_change (pc_kind e) (st\<lparr>ds_before_bytes := ds_before_bytes st + pc_before_bytes e,
           ds_after_bytes := ds_after_bytes st + pc_after_bytes e\<rparr>))
         \<lparr>ds_previous_path := moved_view (pc_path e), ds_changes := ds_changes st @ [e]\<rparr>)"
  using assms checked_add_fits [OF assms(3)] checked_add_fits [OF assms(4)] decoded_wire_entry [of e]
  by (cases "pc_kind e")
    (auto simp: decode_change_def change_acceptable_def wire_entry_def parse_change_kind_string count_change_def Let_def
      decoded_change_def)

definition decode_totals :: "decode_state \<Rightarrow> path_change_entry list \<Rightarrow> decode_state" where
  "decode_totals st es =
     \<lparr>ds_created = ds_created st + count_kind Create es, ds_modified = ds_modified st + count_kind Modify es,
      ds_renamed = ds_renamed st + count_kind Rename es, ds_removed = ds_removed st + count_kind Remove es,
      ds_before_bytes = ds_before_bytes st + sum_list (map pc_before_bytes es),
      ds_after_bytes = ds_after_bytes st + sum_list (map pc_after_bytes es),
      ds_previous_path = (if es = [] then ds_previous_path st else moved_view (pc_path (last es))),
      ds_changes = ds_changes st @ es\<rparr>"

lemma decode_changes_accepts:
  "list_all change_acceptable es \<Longrightarrow> sorted_wrt (<) (map pc_path es) \<Longrightarrow>
   (es \<noteq> [] \<Longrightarrow> ds_previous_path st = [] \<or> ds_previous_path st < pc_path (hd es)) \<Longrightarrow>
   unat (ds_before_bytes st) + (\<Sum>e \<leftarrow> es. unat (pc_before_bytes e)) < 2 ^ 64 \<Longrightarrow>
   unat (ds_after_bytes st) + (\<Sum>e \<leftarrow> es. unat (pc_after_bytes e)) < 2 ^ 64 \<Longrightarrow>
     decode_changes (map wire_entry es) st = Inr (decode_totals st es)"
proof (induction es arbitrary: st)
  case Nil
  then show ?case by (simp add: decode_totals_def count_kind_def)
next
  case (Cons e es)
  let ?st = "(count_change (pc_kind e) (st\<lparr>ds_before_bytes := ds_before_bytes st + pc_before_bytes e,
           ds_after_bytes := ds_after_bytes st + pc_after_bytes e\<rparr>))
         \<lparr>ds_previous_path := moved_view (pc_path e), ds_changes := ds_changes st @ [e]\<rparr>"
  have step: "decode_change (wire_entry e) st = Inr ?st"
    using Cons.prems by (intro decode_change_accepts) auto
  have bytes: "ds_before_bytes ?st = ds_before_bytes st + pc_before_bytes e" "ds_after_bytes ?st = ds_after_bytes st + pc_after_bytes e"
    by (simp_all add: count_change_def split: path_change_kind.splits)
  have sums: "unat (ds_before_bytes ?st) = unat (ds_before_bytes st) + unat (pc_before_bytes e)"
    "unat (ds_after_bytes ?st) = unat (ds_after_bytes st) + unat (pc_after_bytes e)"
    unfolding bytes using Cons.prems(4,5) by (auto simp: unat_word_ariths)
  have "decode_changes (map wire_entry es) ?st = Inr (decode_totals ?st es)"
  proof (rule Cons.IH)
    show "ds_previous_path ?st = [] \<or> ds_previous_path ?st < pc_path (hd es)" if "es \<noteq> []"
    proof -
      have "pc_path e < pc_path (hd es)" using Cons.prems(2) that by (cases es) auto
      then show ?thesis using le_less_trans [OF moved_view_le [of "pc_path e"]] by simp
    qed
  qed (use Cons.prems sums in simp_all)
  moreover have "decode_totals ?st es = decode_totals st (e # es)"
    by (cases "pc_kind e") (simp_all add: decode_totals_def count_change_def count_kind_def)
  ultimately show ?case using step by simp
qed

end
