(* ===== verification/Manifest_Theorems.thy ===== *)
theory Manifest_Theorems
  imports Manifest_Laws Receipt_Chain
begin

text \<open>
  The properties of change manifests: a manifest turns the baseline into the staged tree, and the decoder
  gives back what the builder sealed.
\<close>

subsection \<open>The sorted list of changes\<close>

lemma sorted_map_fst: "sorted ps \<Longrightarrow> sorted (map fst ps)" for ps :: "('a::linorder \<times> 'b::linorder) list"
  by (induction ps) (auto simp: less_eq_prod_def)

lemma distinct_map_sort_key: "distinct (map f xs) \<Longrightarrow> distinct (map f (sort_key k xs))"
  by (simp add: distinct_map)

lemma snapshot_changes_sorted:
  assumes "canonical_snapshot b" and "canonical_snapshot c"
  shows "sorted_wrt (<) (map pc_path (snapshot_changes b c))"
proof -
  obtain found st where raw: "renames_found (removed_entries b c) (created_entries b c) (modified_entries b c)
      (length (removed_entries b c)) found st"
    "snapshot_changes b c = sort_key (\<lambda>e. (pc_path e, kind_index (pc_kind e), pc_previous_path e))
      (raw_changes (modified_entries b c) (removed_entries b c) (created_entries b c) found)"
    by (rule snapshot_changes_raw)
  have "sorted (map (\<lambda>e. (pc_path e, kind_index (pc_kind e), pc_previous_path e)) (snapshot_changes b c))"
    unfolding raw(2) by simp
  from sorted_map_fst [OF this] have "sorted (map pc_path (snapshot_changes b c))"
    by (simp add: comp_def)
  moreover have "distinct (map pc_path (snapshot_changes b c))"
    using distinct_map_sort_key [OF distinct_raw_changes [OF canonical_distinct [OF assms(1)] canonical_distinct [OF assms(2)] raw(1)]]
    unfolding raw(2) .
  ultimately show ?thesis by (simp add: strict_sorted_iff)
qed

lemma snapshot_changes_patch:
  assumes "canonical_snapshot b" and "canonical_snapshot c"
  shows "patched (entry_at b) (snapshot_changes b c) = entry_at c"
proof -
  obtain found st where raw: "renames_found (removed_entries b c) (created_entries b c) (modified_entries b c)
      (length (removed_entries b c)) found st"
    "snapshot_changes b c = sort_key (\<lambda>e. (pc_path e, kind_index (pc_kind e), pc_previous_path e))
      (raw_changes (modified_entries b c) (removed_entries b c) (created_entries b c) found)"
    by (rule snapshot_changes_raw)
  note distinct = canonical_distinct [OF assms(1)] canonical_distinct [OF assms(2)]
  show ?thesis
    unfolding raw(2) patched_sorted [OF distinct_raw_changes [OF distinct raw(1)]]
    by (rule ext) (rule patched_raw_changes [OF distinct raw(1)])
qed

text \<open>A file with some permission, as the decoder demands.\<close>

definition file_mode_set :: "path_snapshot_entry \<Rightarrow> bool" where
  "file_mode_set e = (ps_directory e \<or> ps_mode e \<noteq> 0)"

lemma snapshot_side_valid: "snapshot_entry_valid e \<Longrightarrow> file_mode_set e \<Longrightarrow> wire_side_valid (ps_content_digest e) (ps_mode e)"
  by (auto simp: snapshot_entry_valid_def file_mode_set_def wire_side_valid_def)

lemma snapshot_changes_acceptable:
  assumes "list_all snapshot_entry_valid b" "list_all snapshot_entry_valid c" "list_all file_mode_set b" "list_all file_mode_set c"
    and "distinct (map ps_path c)"
  shows "list_all change_acceptable (snapshot_changes b c)"
proof -
  obtain found st where raw: "renames_found (removed_entries b c) (created_entries b c) (modified_entries b c)
      (length (removed_entries b c)) found st"
    "snapshot_changes b c = sort_key (\<lambda>e. (pc_path e, kind_index (pc_kind e), pc_previous_path e))
      (raw_changes (modified_entries b c) (removed_entries b c) (created_entries b c) found)"
    by (rule snapshot_changes_raw)
  have valid: "valid_relative_path (ps_path e)" "wire_side_valid (ps_content_digest e) (ps_mode e)" if "e \<in> set b \<union> set c" for e
    using that assms snapshot_side_valid by (auto simp: list_all_iff snapshot_entry_valid_def)
  have nonempty: "valid_relative_path v \<Longrightarrow> v \<noteq> []" for v by (auto simp: valid_relative_path_def)
  have "change_acceptable x"
    if "x \<in> set (raw_changes (modified_entries b c) (removed_entries b c) (created_entries b c) found)" for x
    using that raw(1)
  proof (cases rule: raw_change_cases)
    case (modify e f)
    then have "f \<in> set c" using entry_at_iff [OF assms(5)] by auto
    then show ?thesis
      using modify(1,2) valid by (simp add: change_acceptable_def modified_entry_def wire_change_shape_def wire_entry_def)
  next
    case (rename e f)
    then show ?thesis
      using valid [of e] valid [of f] nonempty
      by (auto simp: change_acceptable_def rename_entry_def removed_entry_def created_entry_def wire_change_shape_def wire_entry_def)
  next
    case (remove e)
    then show ?thesis
      using valid by (simp add: change_acceptable_def removed_entry_def wire_change_shape_def wire_entry_def wire_side_valid_def)
  next
    case (create f)
    then show ?thesis
      using valid by (simp add: change_acceptable_def created_entry_def wire_change_shape_def wire_entry_def wire_side_valid_def)
  qed
  then show ?thesis by (simp add: raw(2) list_all_iff)
qed

subsection \<open>Round trip\<close>

definition manifest_codec_faithful :: "manifest_codec \<Rightarrow> bool" where
  "manifest_codec_faithful c = (\<forall>e json. mc_write c e = Some json \<longrightarrow> mc_read c json = Some e)"

lemma envelope_body_simps [simp]: "envelope_body (manifest_envelope body digest) = body" "wm_manifest_digest (manifest_envelope body digest) = digest"
  by (simp_all add: envelope_body_def manifest_envelope_def wire_manifest.defs wire_manifest_envelope.defs)

lemma envelope_fields [simp]:
  "wm_schema_version (manifest_envelope body digest) = wm_schema_version body" "wm_session_id (manifest_envelope body digest) = wm_session_id body"
  "wm_exposure_id (manifest_envelope body digest) = wm_exposure_id body" "wm_generation (manifest_envelope body digest) = wm_generation body"
  "wm_scope_digest (manifest_envelope body digest) = wm_scope_digest body"
  "wm_source_identity_digest (manifest_envelope body digest) = wm_source_identity_digest body"
  "wm_max_bytes (manifest_envelope body digest) = wm_max_bytes body" "wm_directory (manifest_envelope body digest) = wm_directory body"
  "wm_baseline_tree_digest (manifest_envelope body digest) = wm_baseline_tree_digest body"
  "wm_staged_tree_digest (manifest_envelope body digest) = wm_staged_tree_digest body"
  "wm_changes (manifest_envelope body digest) = wm_changes body" "wm_created (manifest_envelope body digest) = wm_created body"
  "wm_modified (manifest_envelope body digest) = wm_modified body" "wm_renamed (manifest_envelope body digest) = wm_renamed body"
  "wm_removed (manifest_envelope body digest) = wm_removed body" "wm_before_bytes (manifest_envelope body digest) = wm_before_bytes body"
  "wm_after_bytes (manifest_envelope body digest) = wm_after_bytes body"
  by (simp_all add: manifest_envelope_def wire_manifest.defs wire_manifest_envelope.defs)

lemma path_snapshot_digest_valid: "path_snapshot_digest c snapshot = Inr d \<Longrightarrow>
    valid_digest d \<and> canonical_snapshot snapshot \<and> list_all snapshot_entry_valid snapshot"
  by (auto simp: path_snapshot_digest_def dest: sha256_hex_valid split: if_splits option.splits)

text \<open>What a built manifest holds.\<close>

lemma seal_manifest_facts:
  assumes "seal_manifest c m0 = Inr m"
  shows "\<exists>body. mc_write_body c (manifest_body m) = Some body \<and> sha256_hex (bytes_of_string body) = Inr (rm_manifest_digest m)"
    "mc_write c (manifest_envelope (manifest_body m) (rm_manifest_digest m)) = Some (rm_canonical_json m)"
    "rm_canonical_json m \<noteq> []" "length (rm_canonical_json m) \<le> max_manifest_bytes"
    "m = m0\<lparr>rm_manifest_digest := rm_manifest_digest m, rm_canonical_json := rm_canonical_json m\<rparr>"
proof -
  obtain body where b: "mc_write_body c (manifest_body m0) = Some body"
    using assms by (cases "mc_write_body c (manifest_body m0)") (simp_all add: seal_manifest_def)
  obtain digest where d: "sha256_hex (bytes_of_string body) = Inr digest"
    using assms b by (cases "sha256_hex (bytes_of_string body)") (simp_all add: seal_manifest_def)
  obtain canonical where j: "mc_write c (manifest_envelope (manifest_body m0) digest) = Some canonical"
    using assms b d by (cases "mc_write c (manifest_envelope (manifest_body m0) digest)") (simp_all add: seal_manifest_def)
  have run: "canonical \<noteq> []" "length canonical \<le> max_manifest_bytes"
    "m = m0\<lparr>rm_manifest_digest := digest, rm_canonical_json := canonical\<rparr>"
    using assms b d j by (simp_all add: seal_manifest_def not_less split: if_splits)
  have body: "manifest_body m = manifest_body m0" "rm_manifest_digest m = digest" "rm_canonical_json m = canonical"
    unfolding run(3) by (simp_all add: manifest_body_def)
  show "\<exists>body. mc_write_body c (manifest_body m) = Some body \<and> sha256_hex (bytes_of_string body) = Inr (rm_manifest_digest m)"
    "mc_write c (manifest_envelope (manifest_body m) (rm_manifest_digest m)) = Some (rm_canonical_json m)"
    "rm_canonical_json m \<noteq> []" "length (rm_canonical_json m) \<le> max_manifest_bytes"
    unfolding body using b d j run(1,2) by simp_all
  show "m = m0\<lparr>rm_manifest_digest := rm_manifest_digest m, rm_canonical_json := rm_canonical_json m\<rparr>"
    unfolding body by (rule run(3))
qed

lemma build_manifest_facts:
  assumes "build_retained_change_manifest c session_id exposure_id generation scope source max_bytes b s = Inr m"
  shows "canonical_snapshot b" "canonical_snapshot s" "rm_changes m = snapshot_changes b s"
    "list_all snapshot_entry_valid b" "list_all snapshot_entry_valid s"
    "\<exists>body. mc_write_body c (manifest_body m) = Some body \<and> sha256_hex (bytes_of_string body) = Inr (rm_manifest_digest m)"
    "mc_write c (manifest_envelope (manifest_body m) (rm_manifest_digest m)) = Some (rm_canonical_json m)"
    "rm_canonical_json m \<noteq> []" "length (rm_canonical_json m) \<le> max_manifest_bytes" "rm_schema_version m = 1"
    "manifest_identity_valid (rm_session_id m) (rm_exposure_id m) (rm_generation m) (rm_scope_digest m)
       (rm_source_identity_digest m) (rm_max_bytes m)"
    "valid_digest (rm_baseline_tree_digest m)" "valid_digest (rm_staged_tree_digest m)"
    "rm_created m = count_kind Create (rm_changes m)" "rm_modified m = count_kind Modify (rm_changes m)"
    "rm_renamed m = count_kind Rename (rm_changes m)" "rm_removed m = count_kind Remove (rm_changes m)"
    "rm_before_bytes m = sum_list (map pc_before_bytes (rm_changes m))"
    "rm_after_bytes m = sum_list (map pc_after_bytes (rm_changes m))"
proof -
  obtain bd sd where digests: "path_snapshot_digest c b = Inr bd" "path_snapshot_digest c s = Inr sd"
    "manifest_identity_valid session_id exposure_id generation scope source max_bytes"
    using assms unfolding build_retained_change_manifest_def and_then_Inr by (auto simp: and_then_Inr split: if_splits)
  note snapshots = path_snapshot_digest_valid [OF digests(1)] path_snapshot_digest_valid [OF digests(2)]
  let ?changes = "snapshot_changes b s"
  let ?m = "\<lparr>rm_schema_version = 1, rm_session_id = session_id, rm_exposure_id = exposure_id,
           rm_generation = generation, rm_scope_digest = scope,
           rm_source_identity_digest = source, rm_max_bytes = max_bytes,
           rm_directory = is_directory_snapshot b, rm_baseline_tree_digest = bd,
           rm_staged_tree_digest = sd, rm_changes = ?changes, rm_created = count_kind Create ?changes,
           rm_modified = count_kind Modify ?changes, rm_renamed = count_kind Rename ?changes,
           rm_removed = count_kind Remove ?changes, rm_before_bytes = sum_list (map pc_before_bytes ?changes),
           rm_after_bytes = sum_list (map pc_after_bytes ?changes), rm_manifest_digest = [],
           rm_canonical_json = []\<rparr>"
  have "seal_manifest c ?m = Inr m"
    using assms digests by (simp add: build_retained_change_manifest_def Let_def split: if_splits)
  note sealed = seal_manifest_facts [OF this]
  show "canonical_snapshot b" "canonical_snapshot s" "list_all snapshot_entry_valid b" "list_all snapshot_entry_valid s"
    using snapshots by simp_all
  show "\<exists>body. mc_write_body c (manifest_body m) = Some body \<and> sha256_hex (bytes_of_string body) = Inr (rm_manifest_digest m)"
    "mc_write c (manifest_envelope (manifest_body m) (rm_manifest_digest m)) = Some (rm_canonical_json m)"
    "rm_canonical_json m \<noteq> []" "length (rm_canonical_json m) \<le> max_manifest_bytes"
    by (rule sealed)+
  show "rm_changes m = snapshot_changes b s" "rm_schema_version m = 1"
    "manifest_identity_valid (rm_session_id m) (rm_exposure_id m) (rm_generation m) (rm_scope_digest m)
       (rm_source_identity_digest m) (rm_max_bytes m)"
    "valid_digest (rm_baseline_tree_digest m)" "valid_digest (rm_staged_tree_digest m)"
    "rm_created m = count_kind Create (rm_changes m)" "rm_modified m = count_kind Modify (rm_changes m)"
    "rm_renamed m = count_kind Rename (rm_changes m)" "rm_removed m = count_kind Remove (rm_changes m)"
    "rm_before_bytes m = sum_list (map pc_before_bytes (rm_changes m))"
    "rm_after_bytes m = sum_list (map pc_after_bytes (rm_changes m))"
    by (subst sealed(5), use snapshots digests(3) in simp)+
qed

lemma built_manifest_decodes:
  assumes "build_retained_change_manifest c session_id exposure_id generation scope source max_bytes baseline current = Inr m"
    and "manifest_codec_faithful c" and "list_all file_mode_set baseline" and "list_all file_mode_set current"
    and "length (rm_changes m) \<le> max_snapshot_entries"
    and "(\<Sum>e \<leftarrow> rm_changes m. unat (pc_before_bytes e)) < 2 ^ 64" and "(\<Sum>e \<leftarrow> rm_changes m. unat (pc_after_bytes e)) < 2 ^ 64"
  shows "decode_retained_change_manifest_json c (rm_canonical_json m) = Inr m"
proof -
  note facts = build_manifest_facts [OF assms(1)]
  obtain body where body: "mc_write_body c (manifest_body m) = Some body" "sha256_hex (bytes_of_string body) = Inr (rm_manifest_digest m)"
    using facts(6) by blast
  let ?e = "manifest_envelope (manifest_body m) (rm_manifest_digest m)"
  have read: "mc_read c (rm_canonical_json m) = Some ?e"
    using facts(7) assms(2) by (auto simp: manifest_codec_faithful_def)
  have valid: "envelope_schema_valid ?e"
    using facts sha256_hex_valid [OF body(2)] assms(5)
    by (simp add: envelope_schema_valid_def manifest_body_def manifest_identity_valid_def)
  have "decode_changes (map wire_entry (rm_changes m)) empty_decode_state = Inr (decode_totals empty_decode_state (rm_changes m))"
  proof (rule decode_changes_accepts)
    show "list_all change_acceptable (rm_changes m)"
      using snapshot_changes_acceptable [OF facts(4,5) assms(3,4) canonical_distinct [OF facts(2)]] facts(3) by simp
    show "sorted_wrt (<) (map pc_path (rm_changes m))"
      using snapshot_changes_sorted [OF facts(1,2)] facts(3) by simp
  qed (use assms(6,7) in \<open>simp_all add: empty_decode_state_def\<close>)
  moreover have "totals_match (decode_totals empty_decode_state (rm_changes m)) ?e"
    using facts by (simp add: totals_match_def decode_totals_def empty_decode_state_def manifest_body_def)
  moreover have "decoded_manifest ?e (rm_canonical_json m) (rm_changes m) = m"
    by (simp add: decoded_manifest_def manifest_body_def)
  ultimately show ?thesis
    using facts read valid body
    by (simp add: decode_retained_change_manifest_json_def manifest_body_def decode_totals_def empty_decode_state_def)
qed

subsection \<open>A concrete manifest\<close>

definition sample_before :: "path_snapshot_entry list" where
  "sample_before = [\<lparr>ps_path = ''a'', ps_content_digest = zero_digest, ps_bytes = 1, ps_mode = 420, ps_directory = False\<rparr>]"

definition sample_after :: "path_snapshot_entry list" where
  "sample_after = [\<lparr>ps_path = ''b'', ps_content_digest = zero_digest, ps_bytes = 1, ps_mode = 420, ps_directory = False\<rparr>]"

definition sample_change_entry :: path_change_entry where
  "sample_change_entry =
     \<lparr>pc_kind = Rename, pc_path = ''b'', pc_previous_path = ''a'', pc_before_digest = zero_digest, pc_after_digest = zero_digest,
      pc_before_bytes = 1, pc_after_bytes = 1, pc_before_mode = 420, pc_after_mode = 420, pc_directory = False\<rparr>"

definition sample_tree_digest :: string where
  "sample_tree_digest = sha256_reference (bytes_of_string ''s'')"

definition sample_manifest :: retained_change_manifest where
  "sample_manifest =
     \<lparr>rm_schema_version = 1, rm_session_id = ''s'', rm_exposure_id = ''e'', rm_generation = 1,
      rm_scope_digest = zero_digest, rm_source_identity_digest = zero_digest, rm_max_bytes = 9, rm_directory = True,
      rm_baseline_tree_digest = sample_tree_digest, rm_staged_tree_digest = sample_tree_digest,
      rm_changes = [sample_change_entry], rm_created = 0, rm_modified = 0, rm_renamed = 1, rm_removed = 0,
      rm_before_bytes = 1, rm_after_bytes = 1, rm_manifest_digest = sha256_reference (bytes_of_string ''b''),
      rm_canonical_json = ''m''\<rparr>"

definition sample_manifest_envelope :: wire_manifest_envelope where
  "sample_manifest_envelope = manifest_envelope (manifest_body sample_manifest) (rm_manifest_digest sample_manifest)"

definition sample_manifest_codec :: manifest_codec where
  "sample_manifest_codec =
     \<lparr>mc_write_snapshot = \<lambda>_. Some ''s'', mc_write_body = \<lambda>_. Some ''b'',
      mc_write = \<lambda>e. if e = sample_manifest_envelope then Some ''m'' else None,
      mc_read = \<lambda>json. if json = ''m'' then Some sample_manifest_envelope else None\<rparr>"

lemma sample_manifest_faithful: "manifest_codec_faithful sample_manifest_codec"
  by (simp add: manifest_codec_faithful_def sample_manifest_codec_def)

lemma sample_relative_paths: "valid_relative_path ''a''" "valid_relative_path ''b''"
  by code_simp+

lemma zero_digest_nonempty: "zero_digest \<noteq> []"
  by (simp add: zero_digest_def)

lemma sample_snapshot_changes: "snapshot_changes sample_before sample_after = [sample_change_entry]"
  using zero_digest_nonempty
  by (simp add: snapshot_changes_def removed_entries_def created_entries_def modified_entries_def entry_at_def
      sample_before_def sample_after_def removed_entry_def created_entry_def rename_step_def rename_entry_def
      without_indices_def sample_change_entry_def Let_def)

lemma sample_snapshot_digests:
  "path_snapshot_digest sample_manifest_codec sample_before = Inr sample_tree_digest"
  "path_snapshot_digest sample_manifest_codec sample_after = Inr sample_tree_digest"
  using sample_relative_paths
  by (simp_all add: path_snapshot_digest_def sample_before_def sample_after_def canonical_snapshot_def snapshot_entry_valid_def
      max_snapshot_entries_def sample_manifest_codec_def sha256_hex_cases sample_tree_digest_def)

lemma sample_manifest_built:
  "build_retained_change_manifest sample_manifest_codec ''s'' ''e'' 1 zero_digest zero_digest 9 sample_before sample_after =
     Inr sample_manifest"
proof -
  let ?m0 = "sample_manifest\<lparr>rm_manifest_digest := [], rm_canonical_json := []\<rparr>"
  have "manifest_body ?m0 = manifest_body sample_manifest" by (simp add: manifest_body_def)
  then have "seal_manifest sample_manifest_codec ?m0 = Inr sample_manifest"
    by (simp add: seal_manifest_def sample_manifest_codec_def sha256_hex_cases max_manifest_bytes_def)
      (simp add: sample_manifest_envelope_def sample_manifest_def)
  moreover have "canonical_snapshot sample_before" "canonical_snapshot sample_after"
    "manifest_identity_valid ''s'' ''e'' 1 zero_digest zero_digest 9" "length sample_before \<le> max_snapshot_entries"
    "length sample_after \<le> max_snapshot_entries" "is_directory_snapshot sample_before" "is_directory_snapshot sample_after"
    by (simp_all add: sample_before_def sample_after_def canonical_snapshot_def manifest_identity_valid_def valid_identifier_def
        identifier_byte_def byte_of_def max_snapshot_entries_def is_directory_snapshot_def)
  ultimately show ?thesis
    by (simp add: build_retained_change_manifest_def sample_snapshot_digests sample_snapshot_changes Let_def count_kind_def
        sample_manifest_def sample_change_entry_def)
qed

subsection \<open>Properties\<close>

text \<open>
  C27. The decoder gives back what the builder sealed.  If every file of both snapshots has some
  permission bit, at most 100,000 paths changed and the byte totals fit 64 bits, then decoding the
  canonical text of a built manifest yields exactly that manifest.
\<close>

theorem manifest_roundtrip:
  assumes "build_retained_change_manifest c session_id exposure_id generation scope source max_bytes baseline current = Inr m"
    and "manifest_codec_faithful c" and "list_all file_mode_set baseline" and "list_all file_mode_set current"
    and "length (rm_changes m) \<le> max_snapshot_entries"
    and "(\<Sum>e \<leftarrow> rm_changes m. unat (pc_before_bytes e)) < 2 ^ 64" and "(\<Sum>e \<leftarrow> rm_changes m. unat (pc_after_bytes e)) < 2 ^ 64"
  shows "decode_retained_change_manifest_json c (rm_canonical_json m) = Inr m"
  by (rule built_manifest_decodes [OF assms])

theorem manifest_roundtrip_witness:
  "decode_retained_change_manifest_json sample_manifest_codec (rm_canonical_json sample_manifest) = Inr sample_manifest"
  by (rule manifest_roundtrip [OF sample_manifest_built sample_manifest_faithful])
    (simp_all add: sample_before_def sample_after_def file_mode_set_def sample_manifest_def sample_change_entry_def
      max_snapshot_entries_def)

text \<open>
  C26. A manifest describes the staged tree exactly.  The changes of a built manifest turn the baseline
  snapshot into the staged one: every path holds the side after its change, removed and renamed paths
  are gone, every other path keeps its entry; and they are sorted by path without repetition.
\<close>

theorem manifest_patches:
  assumes "build_retained_change_manifest c session_id exposure_id generation scope source max_bytes baseline current = Inr m"
  shows "patched (entry_at baseline) (rm_changes m) = entry_at current \<and> sorted_wrt (<) (map pc_path (rm_changes m))"
  using build_manifest_facts [OF assms] snapshot_changes_patch snapshot_changes_sorted by simp

theorem manifest_patches_witness:
  "patched (entry_at sample_before) (rm_changes sample_manifest) = entry_at sample_after \<and>
   sorted_wrt (<) (map pc_path (rm_changes sample_manifest))"
  by (rule manifest_patches [OF sample_manifest_built])

subsection \<open>Trees the snapshot cannot represent\<close>

text \<open>An empty file makes the snapshot of its directory fail: its size is the bound given to the digest, which
  rejects the bound zero.\<close>

lemma snapshot_refuses_empty_file:
  assumes "valid_component name" and "max_bytes \<noteq> 0"
  shows "snapshot_path_tree (Directory_node dir_mode [(name, Regular_file mode 1 [])]) max_bytes max_snapshot_entries =
    Inl ''invalid SHA-256 file input''"
  using assms
  by (simp add: snapshot_path_tree_def snapshot_directory_def append_regular_def file_digest_def sha256_fd_hex_def Let_def
      checked_add_def max_snapshot_entries_def)

text \<open>The walk lists the children of a directory before the siblings that follow it by name, but the digest
  demands the order of the whole paths, in which \<open>a.d\<close> precedes \<open>a/b\<close>.\<close>

lemma snapshot_refuses_sibling:
  assumes "max_bytes \<noteq> 0"
  shows "\<exists>entries. snapshot_path_tree (Directory_node 448 [(''a'', Directory_node 448 [(''b'', Directory_node 448 [])]),
        (''a.d'', Directory_node 448 [])]) max_bytes max_snapshot_entries = Inr entries \<and>
      map ps_path entries = [''a'', ''a/b'', ''a.d''] \<and>
      path_snapshot_digest c entries = Inl ''path snapshot is not canonical''"
  using assms
  by (simp add: snapshot_path_tree_def snapshot_directory_def Let_def max_snapshot_entries_def max_snapshot_depth_def
      valid_component_def path_snapshot_digest_def canonical_snapshot_def less_eq_char_def less_char_def)

text \<open>The decoder compares a path with the view of its predecessor that the move has zeroed, so entries with
  short paths pass in any order.\<close>

lemma decoder_misses_order:
  "\<exists>st. decode_changes
     (map (\<lambda>p. wire_entry (created_entry \<lparr>ps_path = p, ps_content_digest = [], ps_bytes = 0, ps_mode = 448, ps_directory = True\<rparr>))
        [''b'', ''a'', ''a'']) empty_decode_state = Inr st"
  using sample_relative_paths
  by (simp add: decode_change_def wire_entry_def created_entry_def empty_decode_state_def parse_change_kind_def
      change_kind_string_def checked_add_def wire_side_valid_def wire_change_shape_def count_change_def moved_view_def
      short_string_capacity_def Let_def less_eq_char_def less_char_def)

end

