(* ===== verification/Change_Authorization.thy ===== *)
theory Change_Authorization
  imports Guest_Channel File_Status Paths
begin

text \<open>
  The authorization of a change application and the policy of trusted keys
  (\<open>src/supervisor/change_apply_authorization.cpp\<close>, \<open>change_apply_trust_policy.cpp\<close>).  The signature
  verifier is a function, as the abstract class of the source; the JSON library is the record
  \<open>authorization_codec\<close>.
\<close>

subsection \<open>Claims and envelopes\<close>

record change_apply_authorization_claims =
  aa_schema_version :: u8
  aa_audience :: string
  aa_key_id :: string
  aa_grant_id :: string
  aa_executor_node_id :: string
  aa_session_id :: string
  aa_controller_plan_digest :: string
  aa_plan_content_digest :: string
  aa_exposure_id :: string
  aa_generation :: u64
  aa_scope_digest :: string
  aa_manifest_digest :: string
  aa_policy_revision :: u64
  aa_issued_at_ms :: u64
  aa_expires_at_ms :: u64

text \<open>The wire structures repeat the fields of the claims; \<open>wire\<close> and \<open>claims\<close> copy them.\<close>

record wire_signed_envelope = change_apply_authorization_claims +
  aw_signature :: string

record wire_authorization = wire_signed_envelope +
  aw_authorization_digest :: string

record change_apply_authorization =
  au_claims :: change_apply_authorization_claims
  au_signature :: string
  au_authorization_digest :: string
  au_canonical_json :: string

record change_apply_authorization_context =
  ax_executor_node_id :: string
  ax_session_id :: string
  ax_controller_plan_digest :: string
  ax_plan_content_digest :: string
  ax_exposure_id :: string
  ax_generation :: u64
  ax_scope_digest :: string
  ax_manifest_digest :: string
  ax_policy_revision :: u64

type_synonym signature_verifier = "change_apply_authorization_claims \<Rightarrow> bytes \<Rightarrow> string \<Rightarrow> u64 \<Rightarrow> unit expected"

record authorization_codec =
  ak_write_claims :: "change_apply_authorization_claims \<Rightarrow> string option"
  ak_write_signed :: "wire_signed_envelope \<Rightarrow> string option"
  ak_write :: "wire_authorization \<Rightarrow> string option"
  ak_read :: "string \<Rightarrow> wire_authorization option"

definition max_authorization_bytes :: nat where
  "max_authorization_bytes = 16 * 1024"

definition maximum_change_apply_authorization_lifetime_ms :: u64 where
  "maximum_change_apply_authorization_lifetime_ms = 5 * 60 * 1000"

definition signature_byte :: "char \<Rightarrow> bool" where
  "signature_byte c =
     (97 \<le> byte_of c \<and> byte_of c \<le> 122 \<or> 65 \<le> byte_of c \<and> byte_of c \<le> 90 \<or> 48 \<le> byte_of c \<and> byte_of c \<le> 57 \<or>
      c = CHR ''-'' \<or> c = CHR ''_'' \<or> c = CHR ''='')"

definition valid_signature :: "string \<Rightarrow> bool" where
  "valid_signature v = (16 \<le> length v \<and> length v \<le> 1024 \<and> list_all signature_byte v)"

definition valid_claims :: "change_apply_authorization_claims \<Rightarrow> bool" where
  "valid_claims a =
     (aa_schema_version a = 1 \<and> aa_audience a = ''gloved'' \<and> valid_identifier (aa_key_id a) \<and>
      valid_identifier (aa_grant_id a) \<and> valid_identifier (aa_executor_node_id a) \<and>
      valid_identifier (aa_session_id a) \<and> valid_digest (aa_controller_plan_digest a) \<and>
      valid_digest (aa_plan_content_digest a) \<and> valid_identifier (aa_exposure_id a) \<and> aa_generation a \<noteq> 0 \<and>
      valid_digest (aa_scope_digest a) \<and> valid_digest (aa_manifest_digest a) \<and> aa_policy_revision a \<noteq> 0 \<and>
      aa_issued_at_ms a \<noteq> 0 \<and> aa_expires_at_ms a > aa_issued_at_ms a \<and>
      aa_expires_at_ms a - aa_issued_at_ms a \<le> maximum_change_apply_authorization_lifetime_ms)"

definition wire_claims :: "wire_authorization \<Rightarrow> change_apply_authorization_claims" where
  "wire_claims w = change_apply_authorization_claims.truncate w"

definition signed_wire :: "change_apply_authorization_claims \<Rightarrow> string \<Rightarrow> wire_signed_envelope" where
  "signed_wire a signature =
     change_apply_authorization_claims.extend a (wire_signed_envelope.fields signature)"

definition final_wire :: "change_apply_authorization_claims \<Rightarrow> string \<Rightarrow> string \<Rightarrow> wire_authorization" where
  "final_wire a signature digest = wire_signed_envelope.extend (signed_wire a signature) (wire_authorization.fields digest)"

definition context_matches ::
    "change_apply_authorization_claims \<Rightarrow> change_apply_authorization_context \<Rightarrow> bool" where
  "context_matches a x =
     (aa_executor_node_id a = ax_executor_node_id x \<and> aa_session_id a = ax_session_id x \<and>
      aa_controller_plan_digest a = ax_controller_plan_digest x \<and>
      aa_plan_content_digest a = ax_plan_content_digest x \<and> aa_exposure_id a = ax_exposure_id x \<and>
      aa_generation a = ax_generation x \<and> aa_scope_digest a = ax_scope_digest x \<and>
      aa_manifest_digest a = ax_manifest_digest x \<and> aa_policy_revision a = ax_policy_revision x)"

definition change_apply_authorization_signing_payload ::
    "authorization_codec \<Rightarrow> change_apply_authorization_claims \<Rightarrow> string expected" where
  "change_apply_authorization_signing_payload c a =
     (if \<not> valid_claims a then Inl ''change apply authorization claims are invalid''
      else (case ak_write_claims c a of
        None \<Rightarrow> Inl ''encode change apply authorization claims''
      | Some payload \<Rightarrow>
          if payload = [] \<or> length payload > max_authorization_bytes
          then Inl ''encode change apply authorization claims'' else Inr payload))"

definition encode_change_apply_authorization ::
    "authorization_codec \<Rightarrow> change_apply_authorization_claims \<Rightarrow> string \<Rightarrow> change_apply_authorization expected" where
  "encode_change_apply_authorization c a signature =
     and_then (change_apply_authorization_signing_payload c a) (\<lambda>_.
     if \<not> valid_signature signature then Inl ''change apply authorization signature is invalid''
     else (case ak_write_signed c (signed_wire a signature) of
       None \<Rightarrow> Inl ''encode signed change apply authorization''
     | Some signed_envelope \<Rightarrow>
         if signed_envelope = [] \<or> length signed_envelope > max_authorization_bytes
         then Inl ''encode signed change apply authorization''
         else and_then (sha256_hex (bytes_of_string signed_envelope)) (\<lambda>digest.
           case ak_write c (final_wire a signature digest) of
             None \<Rightarrow> Inl ''encode change apply authorization envelope''
           | Some envelope \<Rightarrow>
               if envelope = [] \<or> length envelope > max_authorization_bytes
               then Inl ''encode change apply authorization envelope''
               else Inr \<lparr>au_claims = a, au_signature = signature, au_authorization_digest = digest,
                         au_canonical_json = envelope\<rparr>)))"

definition verify_change_apply_authorization ::
    "authorization_codec \<Rightarrow> signature_verifier \<Rightarrow> string \<Rightarrow> change_apply_authorization_context \<Rightarrow> u64 \<Rightarrow>
     change_apply_authorization expected" where
  "verify_change_apply_authorization c verifier canonical_json expected_context now_ms =
     (if canonical_json = [] \<or> length canonical_json > max_authorization_bytes
      then Inl ''change apply authorization exceeds its bound''
      else (case ak_read c canonical_json of
        None \<Rightarrow> Inl ''change apply authorization schema is invalid''
      | Some encoded \<Rightarrow>
         (let a = wire_claims encoded in
          if \<not> valid_claims a \<or> \<not> valid_signature (aw_signature encoded) \<or>
             \<not> valid_digest (aw_authorization_digest encoded)
          then Inl ''change apply authorization fields are invalid''
          else (case (change_apply_authorization_signing_payload c a, ak_write_signed c (signed_wire a (aw_signature encoded))) of
            (Inr payload, Some signed_envelope) \<Rightarrow>
              if sha256_hex (bytes_of_string signed_envelope) \<noteq> Inr (aw_authorization_digest encoded)
              then Inl ''change apply authorization digest mismatch''
              else if ak_write c encoded \<noteq> Some canonical_json then Inl ''change apply authorization is not canonical''
              else if \<not> context_matches a expected_context then Inl ''change apply authorization context mismatch''
              else if now_ms < aa_issued_at_ms a \<or> now_ms \<ge> aa_expires_at_ms a
              then Inl ''change apply authorization is not currently valid''
              else (case verifier a (bytes_of_string payload) (aw_signature encoded) now_ms of
                Inl e \<Rightarrow> Inl (''change apply authorization signature rejected: '' @ e)
              | Inr _ \<Rightarrow> Inr \<lparr>au_claims = a, au_signature = aw_signature encoded,
                             au_authorization_digest = aw_authorization_digest encoded,
                             au_canonical_json = canonical_json\<rparr>)
          | _ \<Rightarrow> Inl ''change apply authorization digest mismatch''))))"

subsection \<open>Trusted keys\<close>

record change_apply_trust_key =
  tk_key_id :: string
  tk_algorithm :: string
  tk_public_key_base64url :: string
  tk_not_before_ms :: u64
  tk_not_after_ms :: u64

record trust_policy_wire =
  tw_schema_version :: u8
  tw_revision :: u64
  tw_keys :: "change_apply_trust_key list"

record change_apply_trust_policy =
  tp_revision :: u64
  tp_keys :: "change_apply_trust_key list"

definition max_policy_bytes :: nat where
  "max_policy_bytes = 64 * 1024"

definition max_trust_keys :: nat where
  "max_trust_keys = 16"

definition base64url_byte :: "char \<Rightarrow> bool" where
  "base64url_byte c =
     (97 \<le> byte_of c \<and> byte_of c \<le> 122 \<or> 65 \<le> byte_of c \<and> byte_of c \<le> 90 \<or> 48 \<le> byte_of c \<and> byte_of c \<le> 57 \<or>
      c = CHR ''-'' \<or> c = CHR ''_'')"

definition valid_ed25519_key :: "string \<Rightarrow> bool" where
  "valid_ed25519_key v =
     (length v = 43 \<and> list_all base64url_byte v \<and> last v \<in> set ''AEIMQUYcgkosw048'')"

definition policy_text :: io_text where
  "policy_text =
     \<lparr>io_range = None, io_write = [], io_stalled = [], io_read = ''read change apply trust policy'',
      io_ended = ''change apply trust policy ended unexpectedly''\<rparr>"

text \<open>The file behind the path, or the error of opening it.\<close>

definition load_policy_file :: "string \<Rightarrow> loaded_file expected \<Rightarrow> string expected" where
  "load_policy_file path opened_file =
     (if \<not> is_absolute path then Inl ''change apply trust policy path must be absolute''
      else (case opened_file of
        Inl e \<Rightarrow> Inl (system_error ''open change apply trust policy'' e)
      | Inr lf \<Rightarrow>
         (case lf_before lf of
            Inl e \<Rightarrow> Inl (system_error ''inspect change apply trust policy'' e)
          | Inr before \<Rightarrow>
              if \<not> owner_only_load (lf_euid lf) before \<or> ls_size before = 0 \<or> ls_size before > max_policy_bytes
              then Inl ''change apply trust policy must be a bounded owner-only single-link file''
              else (case read_bytes policy_text (lf_content lf) (ls_size before) 0 of
                (Inl e, _) \<Rightarrow> Inl e
              | (Inr bs, _) \<Rightarrow>
                  if (case lf_after lf of Inl _ \<Rightarrow> True | Inr after \<Rightarrow> \<not> same_loaded_file before after)
                  then Inl ''change apply trust policy changed while loading''
                  else Inr (string_of_bytes bs)))))"

fun accept_keys :: "string \<Rightarrow> change_apply_trust_key list \<Rightarrow> change_apply_trust_key list expected" where
  "accept_keys previous_key_id [] = Inr []"
| "accept_keys previous_key_id (k # ks) =
     (if \<not> valid_identifier (tk_key_id k) \<or> tk_algorithm k \<noteq> ''ed25519'' \<or>
         \<not> valid_ed25519_key (tk_public_key_base64url k) \<or> tk_not_before_ms k = 0 \<or>
         tk_not_after_ms k \<le> tk_not_before_ms k \<or> previous_key_id \<noteq> [] \<and> previous_key_id \<ge> tk_key_id k
      then Inl ''change apply trust policy key is invalid''
      else and_then (accept_keys (tk_key_id k) ks) (\<lambda>accepted. Inr (k # accepted)))"

definition load_trust_policy ::
    "(string \<Rightarrow> trust_policy_wire option) \<Rightarrow> string \<Rightarrow> loaded_file expected \<Rightarrow> change_apply_trust_policy expected" where
  "load_trust_policy read_json path opened_file =
     and_then (load_policy_file path opened_file) (\<lambda>contents.
       case read_json contents of
         None \<Rightarrow> Inl ''change apply trust policy schema is invalid''
       | Some w \<Rightarrow>
           if tw_schema_version w \<noteq> 1 \<or> tw_revision w = 0 \<or> tw_keys w = [] \<or> length (tw_keys w) > max_trust_keys
           then Inl ''change apply trust policy schema is invalid''
           else and_then (accept_keys [] (tw_keys w)) (\<lambda>keys. Inr \<lparr>tp_revision = tw_revision w, tp_keys = keys\<rparr>))"

text \<open>\<open>std::ranges::lower_bound\<close> on the sorted keys: the first that is not below the key sought.\<close>

definition active_key :: "change_apply_trust_policy \<Rightarrow> string \<Rightarrow> u64 \<Rightarrow> change_apply_trust_key expected" where
  "active_key p key_id now_ms =
     (case List.find (\<lambda>k. \<not> tk_key_id k < key_id) (tp_keys p) of
        None \<Rightarrow> Inl ''change apply trust key is not configured''
      | Some k \<Rightarrow>
          if tk_key_id k \<noteq> key_id then Inl ''change apply trust key is not configured''
          else if now_ms < tk_not_before_ms k \<or> now_ms \<ge> tk_not_after_ms k
          then Inl ''change apply trust key is not currently active''
          else Inr k)"

definition authorization_key ::
    "change_apply_trust_policy \<Rightarrow> string \<Rightarrow> u64 \<Rightarrow> u64 \<Rightarrow> u64 \<Rightarrow> change_apply_trust_key expected" where
  "authorization_key p key_id issued_at_ms expires_at_ms now_ms =
     and_then (active_key p key_id now_ms) (\<lambda>k.
       if issued_at_ms < tk_not_before_ms k \<or> expires_at_ms \<le> issued_at_ms \<or> expires_at_ms > tk_not_after_ms k
       then Inl ''change apply authorization exceeds the trust key validity window''
       else Inr k)"

subsection \<open>The lookup of a key\<close>

lemma accept_keys_sorted:
  "accept_keys previous ks = Inr accepted \<Longrightarrow>
     accepted = ks \<and> sorted_wrt (<) (map tk_key_id ks) \<and> (previous \<noteq> [] \<longrightarrow> (\<forall>k \<in> set ks. previous < tk_key_id k))"
proof (induction ks arbitrary: previous accepted)
  case (Cons k ks)
  then obtain rest where rest: "accept_keys (tk_key_id k) ks = Inr rest" "accepted = k # rest"
    and valid: "valid_identifier (tk_key_id k)" "previous \<noteq> [] \<longrightarrow> previous < tk_key_id k"
    by (auto simp: and_then_Inr not_le split: if_splits)
  have "tk_key_id k \<noteq> []" using valid(1) by (auto simp: valid_identifier_def)
  with Cons.IH [OF rest(1)] rest(2) valid(2) show ?case
    by (auto intro: less_trans)
qed simp

text \<open>On the sorted keys of a loaded policy the lookup finds exactly the key with the identifier sought.\<close>

lemma active_key_iff:
  assumes "accept_keys [] ks = Inr (tp_keys p)"
  shows "active_key p key_id now_ms = Inr k \<longleftrightarrow>
    k \<in> set (tp_keys p) \<and> tk_key_id k = key_id \<and> tk_not_before_ms k \<le> now_ms \<and> now_ms < tk_not_after_ms k"
proof -
  have sorted: "sorted_wrt (<) (map tk_key_id (tp_keys p))"
    using accept_keys_sorted [OF assms] by simp
  have lookup: "(\<exists>j. List.find (\<lambda>k. \<not> tk_key_id k < key_id) keys = Some j \<and> tk_key_id j = key_id \<and> j = k) \<longleftrightarrow>
      k \<in> set keys \<and> tk_key_id k = key_id" if "sorted_wrt (<) (map tk_key_id keys)" for keys
    using that by (induction keys) (auto dest: less_asym)
  have "active_key p key_id now_ms = Inr k \<longleftrightarrow>
      (\<exists>j. List.find (\<lambda>k. \<not> tk_key_id k < key_id) (tp_keys p) = Some j \<and> tk_key_id j = key_id \<and> j = k) \<and>
      tk_not_before_ms k \<le> now_ms \<and> now_ms < tk_not_after_ms k"
    by (auto simp: active_key_def not_less not_le split: option.splits)
  with lookup [OF sorted] show ?thesis by blast
qed

end
