(* ===== verification/Change_Receipt.thy ===== *)
theory Change_Receipt
  imports Change_Journal
begin

text \<open>
  The receipt of a change application and the classification of what an interrupted one left behind
  (\<open>src/supervisor/change_apply_receipt.cpp\<close>, \<open>change_apply_recovery.cpp\<close>).
\<close>

subsection \<open>Receipts\<close>

record change_apply_exchange_result =
  er_candidate_name :: string
  er_final_source_identity_digest :: string
  er_final_tree_digest :: string

record receipt_body =
  rb_schema_version :: u8
  rb_state :: string
  rb_grant_id :: string
  rb_authorization_digest :: string
  rb_manifest_digest :: string
  rb_session_id :: string
  rb_exposure_id :: string
  rb_generation :: u64
  rb_scope_digest :: string
  rb_baseline_tree_digest :: string
  rb_staged_tree_digest :: string
  rb_final_source_identity_digest :: string
  rb_failure_code :: string
  rb_completed_at_ms :: u64

record receipt_envelope = receipt_body +
  rb_receipt_digest :: string

record change_apply_receipt = receipt_envelope +
  rb_canonical_json :: string

record apply_receipt_codec =
  rk_write_body :: "receipt_body \<Rightarrow> string option"
  rk_write :: "receipt_envelope \<Rightarrow> string option"
  rk_read :: "string \<Rightarrow> receipt_envelope option"

definition max_receipt_bytes :: nat where
  "max_receipt_bytes = 8 * 1024"

definition receipt_body_of :: "receipt_envelope \<Rightarrow> receipt_body" where
  "receipt_body_of e = receipt_body.truncate e"

definition receipt_body_digest :: "apply_receipt_codec \<Rightarrow> receipt_body \<Rightarrow> string expected" where
  "receipt_body_digest c b =
     (case rk_write_body c b of
        None \<Rightarrow> Inl ''encode change apply receipt body''
      | Some json \<Rightarrow> sha256_hex (bytes_of_string json))"

definition receipt_outcome_valid :: "receipt_envelope \<Rightarrow> bool" where
  "receipt_outcome_valid e =
     (rb_state e = ''applied'' \<and> rb_failure_code e = [] \<or> rb_state e = ''failed'' \<and> valid_identifier (rb_failure_code e))"

definition validate_receipt :: "receipt_envelope \<Rightarrow> unit expected" where
  "validate_receipt e =
     (if rb_schema_version e \<noteq> 1 \<or> \<not> receipt_outcome_valid e \<or> \<not> valid_identifier (rb_grant_id e) \<or>
         \<not> valid_digest (rb_authorization_digest e) \<or> \<not> valid_digest (rb_manifest_digest e) \<or>
         \<not> valid_identifier (rb_session_id e) \<or> \<not> valid_identifier (rb_exposure_id e) \<or> rb_generation e = 0 \<or>
         \<not> valid_digest (rb_scope_digest e) \<or> \<not> valid_digest (rb_baseline_tree_digest e) \<or>
         \<not> valid_digest (rb_staged_tree_digest e) \<or> \<not> valid_digest (rb_final_source_identity_digest e) \<or>
         rb_completed_at_ms e = 0 \<or> \<not> valid_digest (rb_receipt_digest e)
      then Inl ''change apply receipt fields are invalid''
      else Inr ())"

definition materialize :: "receipt_envelope \<Rightarrow> string \<Rightarrow> change_apply_receipt" where
  "materialize e canonical_json = receipt_envelope.extend e (change_apply_receipt.fields canonical_json)"

text \<open>The envelope of a reservation with its outcome, still without its digest.\<close>

definition reservation_envelope ::
    "change_apply_reservation_record \<Rightarrow> string \<Rightarrow> string \<Rightarrow> string \<Rightarrow> u64 \<Rightarrow> receipt_envelope" where
  "reservation_envelope r state final_source_identity_digest failure_code completed_at_ms =
     \<lparr>rb_schema_version = 1, rb_state = state, rb_grant_id = cr_grant_id r,
      rb_authorization_digest = cr_authorization_digest r, rb_manifest_digest = cr_manifest_digest r,
      rb_session_id = cr_session_id r, rb_exposure_id = cr_exposure_id r, rb_generation = cr_generation r,
      rb_scope_digest = cr_scope_digest r, rb_baseline_tree_digest = cr_baseline_tree_digest r,
      rb_staged_tree_digest = cr_staged_tree_digest r,
      rb_final_source_identity_digest = final_source_identity_digest, rb_failure_code = failure_code,
      rb_completed_at_ms = completed_at_ms, rb_receipt_digest = []\<rparr>"

definition seal_receipt :: "apply_receipt_codec \<Rightarrow> string \<Rightarrow> receipt_envelope \<Rightarrow> change_apply_receipt expected" where
  "seal_receipt c error e0 =
     and_then (receipt_body_digest c (receipt_body_of e0)) (\<lambda>digest.
     let e = e0\<lparr>rb_receipt_digest := digest\<rparr> in
     and_then (validate_receipt e) (\<lambda>_.
     case rk_write c e of
       None \<Rightarrow> Inl error
     | Some canonical \<Rightarrow>
         if canonical = [] \<or> length canonical > max_receipt_bytes then Inl error
         else Inr (materialize e canonical)))"

definition build_change_apply_receipt ::
    "apply_receipt_codec \<Rightarrow> change_apply_reservation_record \<Rightarrow> change_apply_exchange_result \<Rightarrow> u64 \<Rightarrow>
     change_apply_receipt expected" where
  "build_change_apply_receipt c r exchange completed_at_ms =
     (if er_final_tree_digest exchange \<noteq> cr_staged_tree_digest r \<or> completed_at_ms < cr_reserved_at_ms r
      then Inl ''change apply receipt outcome mismatch''
      else seal_receipt c ''encode change apply receipt envelope''
        (reservation_envelope r ''applied'' (er_final_source_identity_digest exchange) [] completed_at_ms))"

definition build_failed_change_apply_receipt ::
    "apply_receipt_codec \<Rightarrow> change_apply_reservation_record \<Rightarrow> string \<Rightarrow> string \<Rightarrow> u64 \<Rightarrow> change_apply_receipt expected" where
  "build_failed_change_apply_receipt c r final_source_identity_digest failure_code completed_at_ms =
     (if \<not> valid_digest final_source_identity_digest \<or> \<not> valid_identifier failure_code \<or>
         completed_at_ms < cr_reserved_at_ms r
      then Inl ''change apply failed receipt outcome mismatch''
      else seal_receipt c ''encode failed change apply receipt envelope''
        (reservation_envelope r ''failed'' final_source_identity_digest failure_code completed_at_ms))"

definition decode_change_apply_receipt :: "apply_receipt_codec \<Rightarrow> string \<Rightarrow> change_apply_receipt expected" where
  "decode_change_apply_receipt c canonical_json =
     (if canonical_json = [] \<or> length canonical_json > max_receipt_bytes
      then Inl ''change apply receipt exceeds its bound''
      else (case rk_read c canonical_json of
        None \<Rightarrow> Inl ''decode change apply receipt''
      | Some e \<Rightarrow>
          and_then (validate_receipt e) (\<lambda>_.
          and_then (receipt_body_digest c (receipt_body_of e)) (\<lambda>digest.
          if digest \<noteq> rb_receipt_digest e then Inl ''change apply receipt digest mismatch''
          else if rk_write c e \<noteq> Some canonical_json then Inl ''change apply receipt is not canonical''
          else Inr (materialize e canonical_json)))))"

definition reconstruct_change_apply_receipt ::
    "apply_receipt_codec \<Rightarrow> change_apply_reservation_record \<Rightarrow> change_apply_terminal_record \<Rightarrow> change_apply_receipt expected" where
  "reconstruct_change_apply_receipt c r t =
     (if ct_grant_id t \<noteq> cr_grant_id r \<or> ct_authorization_digest t \<noteq> cr_authorization_digest r \<or>
         ct_manifest_digest t \<noteq> cr_manifest_digest r
      then Inl ''change apply receipt journal binding mismatch''
      else and_then
        (case ct_state t of
           Applied \<Rightarrow> build_change_apply_receipt c r
             \<lparr>er_candidate_name = [], er_final_source_identity_digest = ct_final_source_identity_digest t,
              er_final_tree_digest = cr_staged_tree_digest r\<rparr> (ct_completed_at_ms t)
         | Apply_failed \<Rightarrow> build_failed_change_apply_receipt c r (ct_final_source_identity_digest t)
             (ct_failure_code t) (ct_completed_at_ms t)
         | Rejected \<Rightarrow> Inl ''change apply receipt terminal state is unsupported'')
        (\<lambda>receipt.
          if rb_receipt_digest receipt \<noteq> ct_receipt_digest t
          then Inl ''change apply reconstructed receipt digest mismatch''
          else Inr receipt))"

subsection \<open>Recovery\<close>

datatype change_apply_recovery_state = Reserved | Candidate_prepared | Exchange_committed | Ambiguous

definition change_apply_candidate_name :: "string \<Rightarrow> string expected" where
  "change_apply_candidate_name authorization_digest =
     (if \<not> valid_digest authorization_digest then Inl ''change apply authorization digest is invalid''
      else Inr (''.glove-apply-v1-'' @ authorization_digest))"

definition classify_change_apply_recovery ::
    "change_apply_reservation_record \<Rightarrow> string \<Rightarrow> string option \<Rightarrow> change_apply_recovery_state" where
  "classify_change_apply_recovery r source_tree_digest candidate_tree_digest =
     (if \<not> valid_digest (cr_baseline_tree_digest r) \<or> \<not> valid_digest (cr_staged_tree_digest r) \<or>
         \<not> valid_digest source_tree_digest \<or>
         (case candidate_tree_digest of None \<Rightarrow> False | Some d \<Rightarrow> \<not> valid_digest d)
      then Ambiguous
      else (case candidate_tree_digest of
        None \<Rightarrow> if source_tree_digest = cr_baseline_tree_digest r then Reserved else Ambiguous
      | Some candidate \<Rightarrow>
          if source_tree_digest = cr_baseline_tree_digest r \<and> candidate = cr_staged_tree_digest r
          then Candidate_prepared
          else if source_tree_digest = cr_staged_tree_digest r \<and> candidate = cr_baseline_tree_digest r
          then Exchange_committed
          else Ambiguous))"

subsection \<open>Receipts read back\<close>

definition receipt_codec_faithful :: "apply_receipt_codec \<Rightarrow> bool" where
  "receipt_codec_faithful c = (\<forall>e json. rk_write c e = Some json \<longrightarrow> rk_read c json = Some e)"

lemma receipt_body_of_digest [simp]: "receipt_body_of (e\<lparr>rb_receipt_digest := d\<rparr>) = receipt_body_of e"
  by (simp add: receipt_body_of_def receipt_body.defs)

lemma seal_receipt_facts:
  assumes "seal_receipt c error e0 = Inr receipt"
  obtains digest canonical where "receipt_body_digest c (receipt_body_of e0) = Inr digest"
    "validate_receipt (e0\<lparr>rb_receipt_digest := digest\<rparr>) = Inr ()" "rk_write c (e0\<lparr>rb_receipt_digest := digest\<rparr>) = Some canonical"
    "canonical \<noteq> []" "length canonical \<le> max_receipt_bytes" "receipt = materialize (e0\<lparr>rb_receipt_digest := digest\<rparr>) canonical"
proof -
  obtain digest where d: "receipt_body_digest c (receipt_body_of e0) = Inr digest"
    using assms by (cases "receipt_body_digest c (receipt_body_of e0)") (simp_all add: seal_receipt_def)
  have v: "validate_receipt (e0\<lparr>rb_receipt_digest := digest\<rparr>) = Inr ()"
    using assms d by (cases "validate_receipt (e0\<lparr>rb_receipt_digest := digest\<rparr>)") (simp_all add: seal_receipt_def Let_def)
  obtain canonical where "rk_write c (e0\<lparr>rb_receipt_digest := digest\<rparr>) = Some canonical"
    using assms d v by (cases "rk_write c (e0\<lparr>rb_receipt_digest := digest\<rparr>)") (simp_all add: seal_receipt_def Let_def)
  then show thesis
    using that d v assms by (simp add: seal_receipt_def Let_def not_less split: if_splits)
qed

lemma materialize_json [simp]: "rb_canonical_json (materialize e j) = j"
  by (simp add: materialize_def receipt_envelope.defs change_apply_receipt.defs)

lemma materialize_fields [simp]:
  "rb_schema_version (materialize e j) = rb_schema_version e" "rb_state (materialize e j) = rb_state e" "rb_grant_id (materialize e j) = rb_grant_id e"
  "rb_authorization_digest (materialize e j) = rb_authorization_digest e" "rb_manifest_digest (materialize e j) = rb_manifest_digest e"
  "rb_failure_code (materialize e j) = rb_failure_code e" "rb_completed_at_ms (materialize e j) = rb_completed_at_ms e"
  "rb_final_source_identity_digest (materialize e j) = rb_final_source_identity_digest e"
  "rb_receipt_digest (materialize e j) = rb_receipt_digest e"
  by (simp_all add: materialize_def receipt_envelope.defs change_apply_receipt.defs)

lemma sealed_receipt_decodes:
  assumes "seal_receipt c error e0 = Inr receipt" and "receipt_codec_faithful c"
  shows "decode_change_apply_receipt c (rb_canonical_json receipt) = Inr receipt"
  using assms(1)
proof (rule seal_receipt_facts)
  fix digest canonical
  assume facts: "receipt_body_digest c (receipt_body_of e0) = Inr digest"
    "validate_receipt (e0\<lparr>rb_receipt_digest := digest\<rparr>) = Inr ()" "rk_write c (e0\<lparr>rb_receipt_digest := digest\<rparr>) = Some canonical"
    "canonical \<noteq> []" "length canonical \<le> max_receipt_bytes" "receipt = materialize (e0\<lparr>rb_receipt_digest := digest\<rparr>) canonical"
  moreover have "rk_read c canonical = Some (e0\<lparr>rb_receipt_digest := digest\<rparr>)"
    using facts(3) assms(2) by (auto simp: receipt_codec_faithful_def)
  ultimately show ?thesis by (simp add: decode_change_apply_receipt_def)
qed

end
