(* ===== verification/Change_Gate.thy ===== *)
theory Change_Gate
  imports Change_Authorization Change_Receipt Change_Manifest
begin

text \<open>
  The gate in front of every change of the host (\<open>src/supervisor/change_apply_gate.cpp\<close>): verify the
  authorization, reserve it durably, exchange, record the outcome.  The calls of
  \<open>change_apply_exchange.cpp\<close> act on a host state \<open>'h\<close> and are the record \<open>exchange_host\<close>; the target of
  an exposure is a value of a type \<open>'t\<close> that only those calls look into.
\<close>

record change_apply_recovery_observation =
  ro_state :: change_apply_recovery_state
  ro_candidate_name :: string
  ro_current_source_identity_digest :: string
  ro_source_tree_digest :: string
  ro_candidate_tree_digest :: "string option"

text \<open>Preconditions and inspection only look at the host; the other three calls change it.\<close>

record ('t, 'h) exchange_host =
  eh_validate :: "retained_change_manifest \<Rightarrow> 't \<Rightarrow> int \<Rightarrow> 'h \<Rightarrow> unit expected"
  eh_execute :: "change_apply_reservation_record \<Rightarrow> retained_change_manifest \<Rightarrow> 't \<Rightarrow> int \<Rightarrow> 'h \<Rightarrow>
    change_apply_exchange_result expected \<times> 'h"
  eh_inspect :: "change_apply_reservation_record \<Rightarrow> retained_change_manifest \<Rightarrow> 't \<Rightarrow> 'h \<Rightarrow>
    change_apply_recovery_observation expected"
  eh_cleanup :: "change_apply_reservation_record \<Rightarrow> change_apply_terminal_record \<Rightarrow> retained_change_manifest \<Rightarrow> 't \<Rightarrow>
    'h \<Rightarrow> unit expected \<times> 'h"
  eh_discard :: "change_apply_reservation_record \<Rightarrow> retained_change_manifest \<Rightarrow> 't \<Rightarrow> 'h \<Rightarrow> unit expected \<times> 'h"

text \<open>The libraries a gate calls.\<close>

record gate_codecs =
  gk_journal :: change_codec
  gk_receipt :: apply_receipt_codec
  gk_manifest :: manifest_codec
  gk_authorization :: authorization_codec
  gk_verifier :: signature_verifier

text \<open>What a gate works on: the journal and the host.\<close>

record 'h gate =
  g_journal :: change_journal
  g_host :: 'h

record finalized_change_apply_recovery_result =
  fr_exchange :: "change_apply_exchange_result option"
  fr_receipt :: change_apply_receipt
  fr_baseline_cleanup_complete :: bool

record authorized_change_apply_result =
  az_authorization :: change_apply_authorization
  az_exchange :: "change_apply_exchange_result option"
  az_receipt :: change_apply_receipt
  az_baseline_cleanup_complete :: bool

definition gate_reserve :: "gate_codecs \<Rightarrow> change_apply_reservation_record \<Rightarrow> 'h gate \<Rightarrow> unit expected \<times> 'h gate" where
  "gate_reserve k r g = (case change_reserve (gk_journal k) r (g_journal g) of (res, j) \<Rightarrow> (res, g\<lparr>g_journal := j\<rparr>))"

definition gate_finalize :: "gate_codecs \<Rightarrow> change_apply_terminal_record \<Rightarrow> 'h gate \<Rightarrow> unit expected \<times> 'h gate" where
  "gate_finalize k t g = (case change_finalize (gk_journal k) t (g_journal g) of (res, j) \<Rightarrow> (res, g\<lparr>g_journal := j\<rparr>))"

definition verified_reservation ::
    "change_apply_authorization \<Rightarrow> retained_change_manifest \<Rightarrow> u64 \<Rightarrow> change_apply_reservation_record" where
  "verified_reservation a m now_ms =
     \<lparr>cr_grant_id = aa_grant_id (au_claims a), cr_authorization_digest = au_authorization_digest a,
      cr_manifest_digest = rm_manifest_digest m, cr_session_id = rm_session_id m, cr_exposure_id = rm_exposure_id m,
      cr_generation = rm_generation m, cr_scope_digest = rm_scope_digest m,
      cr_source_identity_digest = rm_source_identity_digest m, cr_baseline_tree_digest = rm_baseline_tree_digest m,
      cr_staged_tree_digest = rm_staged_tree_digest m, cr_reserved_at_ms = now_ms\<rparr>"

definition reserve_verified_change_apply ::
    "gate_codecs \<Rightarrow> change_apply_authorization \<Rightarrow> retained_change_manifest \<Rightarrow> u64 \<Rightarrow> 'h gate \<Rightarrow> unit expected \<times> 'h gate" where
  "reserve_verified_change_apply k a m now_ms g = gate_reserve k (verified_reservation a m now_ms) g"

definition terminal_for ::
    "change_apply_reservation_record \<Rightarrow> change_apply_receipt \<Rightarrow> change_apply_terminal_state \<Rightarrow> change_apply_terminal_record" where
  "terminal_for r receipt state =
     \<lparr>ct_grant_id = cr_grant_id r, ct_authorization_digest = cr_authorization_digest r,
      ct_manifest_digest = cr_manifest_digest r, ct_state = state, ct_receipt_digest = rb_receipt_digest receipt,
      ct_final_source_identity_digest = rb_final_source_identity_digest receipt,
      ct_failure_code = rb_failure_code receipt, ct_completed_at_ms = rb_completed_at_ms receipt\<rparr>"

definition finalize_applied_observation ::
    "gate_codecs \<Rightarrow> ('t, 'h) exchange_host \<Rightarrow> change_apply_reservation_record \<Rightarrow> retained_change_manifest \<Rightarrow> 't \<Rightarrow>
     change_apply_recovery_observation \<Rightarrow> u64 \<Rightarrow> 'h gate \<Rightarrow> finalized_change_apply_recovery_result expected \<times> 'h gate" where
  "finalize_applied_observation k h r m target o_seen completed_at_ms g =
     (if ro_state o_seen \<noteq> Exchange_committed \<or> ro_source_tree_digest o_seen \<noteq> cr_staged_tree_digest r \<or>
         ro_candidate_tree_digest o_seen \<noteq> Some (cr_baseline_tree_digest r)
      then (Inl ''change apply recovery is not committed'', g)
      else
       (let exchange = \<lparr>er_candidate_name = ro_candidate_name o_seen,
              er_final_source_identity_digest = ro_current_source_identity_digest o_seen,
              er_final_tree_digest = ro_source_tree_digest o_seen\<rparr> in
        case build_change_apply_receipt (gk_receipt k) r exchange completed_at_ms of
          Inl e \<Rightarrow> (Inl e, g)
        | Inr receipt \<Rightarrow>
           (let terminal = terminal_for r receipt Applied in
            case gate_finalize k terminal g of
              (Inl e, g1) \<Rightarrow> (Inl e, g1)
            | (Inr _, g1) \<Rightarrow>
               (case eh_cleanup h r terminal m target (g_host g1) of
                  (cleaned, h1) \<Rightarrow>
                    (Inr \<lparr>fr_exchange = Some exchange, fr_receipt = receipt,
                          fr_baseline_cleanup_complete = is_value cleaned\<rparr>,
                     g1\<lparr>g_host := h1\<rparr>)))))"

definition finalize_failed_observation ::
    "gate_codecs \<Rightarrow> change_apply_reservation_record \<Rightarrow> change_apply_recovery_observation \<Rightarrow> string \<Rightarrow> u64 \<Rightarrow> 'h gate \<Rightarrow>
     finalized_change_apply_recovery_result expected \<times> 'h gate" where
  "finalize_failed_observation k r o_seen failure_code completed_at_ms g =
     (if ro_state o_seen \<noteq> Reserved \<or> ro_current_source_identity_digest o_seen \<noteq> cr_source_identity_digest r \<or>
         ro_source_tree_digest o_seen \<noteq> cr_baseline_tree_digest r \<or> ro_candidate_tree_digest o_seen \<noteq> None
      then (Inl ''change apply failure state is not terminal-safe'', g)
      else
       (case build_failed_change_apply_receipt (gk_receipt k) r (ro_current_source_identity_digest o_seen) failure_code
               completed_at_ms of
          Inl e \<Rightarrow> (Inl e, g)
        | Inr receipt \<Rightarrow>
           (case gate_finalize k (terminal_for r receipt Apply_failed) g of
              (Inl e, g1) \<Rightarrow> (Inl e, g1)
            | (Inr _, g1) \<Rightarrow>
                (Inr \<lparr>fr_exchange = None, fr_receipt = receipt, fr_baseline_cleanup_complete = True\<rparr>, g1))))"

text \<open>The end of \<open>recover_record\<close>, on the observation it settled on.\<close>

definition settle_observation ::
    "gate_codecs \<Rightarrow> change_apply_reservation_record \<Rightarrow> change_apply_recovery_observation \<Rightarrow> string \<Rightarrow> u64 \<Rightarrow> 'h gate \<Rightarrow>
     finalized_change_apply_recovery_result expected \<times> 'h gate" where
  "settle_observation k r o_seen failure_code completed_at_ms g =
     (if ro_state o_seen = Reserved then finalize_failed_observation k r o_seen failure_code completed_at_ms g
      else (Inl ''change apply recovery state is ambiguous'', g))"

definition recover_record ::
    "gate_codecs \<Rightarrow> ('t, 'h) exchange_host \<Rightarrow> change_apply_reservation_record \<Rightarrow> retained_change_manifest \<Rightarrow> 't \<Rightarrow>
     string \<Rightarrow> u64 \<Rightarrow> 'h gate \<Rightarrow> finalized_change_apply_recovery_result expected \<times> 'h gate" where
  "recover_record k h r m target failure_code completed_at_ms g =
     (case eh_inspect h r m target (g_host g) of
        Inl e \<Rightarrow> (Inl e, g)
      | Inr o_seen \<Rightarrow>
          if ro_state o_seen = Exchange_committed
          then finalize_applied_observation k h r m target o_seen completed_at_ms g
          else if ro_state o_seen = Candidate_prepared
          then (case eh_discard h r m target (g_host g) of
              (Inl e, h1) \<Rightarrow> (Inl e, g\<lparr>g_host := h1\<rparr>)
            | (Inr _, h1) \<Rightarrow>
               (case eh_inspect h r m target h1 of
                  Inl e \<Rightarrow> (Inl e, g\<lparr>g_host := h1\<rparr>)
                | Inr again \<Rightarrow> settle_observation k r again failure_code completed_at_ms (g\<lparr>g_host := h1\<rparr>)))
          else settle_observation k r o_seen failure_code completed_at_ms g)"

definition pending_for :: "retained_change_manifest \<Rightarrow> change_apply_grant_status \<Rightarrow> bool" where
  "pending_for m status =
     (cr_session_id (gs_reservation status) = rm_session_id m \<and>
      cr_exposure_id (gs_reservation status) = rm_exposure_id m \<and>
      cr_manifest_digest (gs_reservation status) = rm_manifest_digest m \<and> gs_terminal status = None)"

definition find_pending_record :: "retained_change_manifest \<Rightarrow> change_journal \<Rightarrow> change_apply_reservation_record expected" where
  "find_pending_record m j =
     (case filter (pending_for m) (change_records j) of
        [] \<Rightarrow> Inl ''pending change apply recovery is unavailable''
      | [status] \<Rightarrow> Inr (gs_reservation status)
      | _ \<Rightarrow> Inl ''pending change apply recovery is ambiguous'')"

definition manifest_in_context ::
    "gate_codecs \<Rightarrow> change_apply_authorization_context \<Rightarrow> retained_change_manifest \<Rightarrow> bool" where
  "manifest_in_context k x m =
     (decode_retained_change_manifest_json (gk_manifest k) (rm_canonical_json m) = Inr m \<and>
      rm_session_id m = ax_session_id x \<and> rm_exposure_id m = ax_exposure_id x \<and> rm_generation m = ax_generation x \<and>
      rm_scope_digest m = ax_scope_digest x \<and> rm_manifest_digest m = ax_manifest_digest x)"

definition verify_and_reserve_change_apply ::
    "gate_codecs \<Rightarrow> string \<Rightarrow> change_apply_authorization_context \<Rightarrow> retained_change_manifest \<Rightarrow> u64 \<Rightarrow> 'h gate \<Rightarrow>
     change_apply_authorization expected \<times> 'h gate" where
  "verify_and_reserve_change_apply k canonical_authorization x m now_ms g =
     (if \<not> manifest_in_context k x m then (Inl ''change apply manifest context mismatch'', g)
      else (case verify_change_apply_authorization (gk_authorization k) (gk_verifier k) canonical_authorization x now_ms of
        Inl e \<Rightarrow> (Inl e, g)
      | Inr a \<Rightarrow>
         (case reserve_verified_change_apply k a m now_ms g of
            (Inl e, g1) \<Rightarrow> (Inl e, g1)
          | (Inr _, g1) \<Rightarrow> (Inr a, g1))))"

text \<open>The part of \<open>execute_authorized_change_apply\<close> after the reservation.\<close>

definition execute_reserved ::
    "gate_codecs \<Rightarrow> ('t, 'h) exchange_host \<Rightarrow> change_apply_authorization \<Rightarrow> change_apply_reservation_record \<Rightarrow>
     retained_change_manifest \<Rightarrow> 't \<Rightarrow> int \<Rightarrow> u64 \<Rightarrow> 'h gate \<Rightarrow> authorized_change_apply_result expected \<times> 'h gate" where
  "execute_reserved k h a r m target staged now_ms g =
     (case eh_execute h r m target staged (g_host g) of
        (Inl e, h1) \<Rightarrow>
         (case recover_record k h r m target ''exchange_failed_before_mutation'' now_ms (g\<lparr>g_host := h1\<rparr>) of
            (Inl e', g1) \<Rightarrow> (Inl (e @ ''; recovery required: '' @ e'), g1)
          | (Inr recovered, g1) \<Rightarrow>
              (Inr \<lparr>az_authorization = a, az_exchange = fr_exchange recovered, az_receipt = fr_receipt recovered,
                    az_baseline_cleanup_complete = fr_baseline_cleanup_complete recovered\<rparr>, g1))
      | (Inr exchange, h1) \<Rightarrow>
         (case build_change_apply_receipt (gk_receipt k) r exchange now_ms of
            Inl e \<Rightarrow> (Inl e, g\<lparr>g_host := h1\<rparr>)
          | Inr receipt \<Rightarrow>
             (let terminal = terminal_for r receipt Applied in
              case gate_finalize k terminal (g\<lparr>g_host := h1\<rparr>) of
                (Inl e, g1) \<Rightarrow> (Inl e, g1)
              | (Inr _, g1) \<Rightarrow>
                 (case eh_cleanup h r terminal m target (g_host g1) of
                    (cleaned, h2) \<Rightarrow>
                      (Inr \<lparr>az_authorization = a, az_exchange = Some exchange, az_receipt = receipt,
                            az_baseline_cleanup_complete = is_value cleaned\<rparr>,
                       g1\<lparr>g_host := h2\<rparr>)))))"

definition execute_authorized_change_apply ::
    "gate_codecs \<Rightarrow> ('t, 'h) exchange_host \<Rightarrow> string \<Rightarrow> change_apply_authorization_context \<Rightarrow>
     retained_change_manifest \<Rightarrow> 't \<Rightarrow> int \<Rightarrow> u64 \<Rightarrow> 'h gate \<Rightarrow> authorized_change_apply_result expected \<times> 'h gate" where
  "execute_authorized_change_apply k h canonical_authorization x m target staged now_ms g =
     (if \<not> manifest_in_context k x m then (Inl ''change apply manifest context mismatch'', g)
      else (case verify_change_apply_authorization (gk_authorization k) (gk_verifier k) canonical_authorization x now_ms of
        Inl e \<Rightarrow> (Inl e, g)
      | Inr a \<Rightarrow>
         (case eh_validate h m target staged (g_host g) of
            Inl e \<Rightarrow> (Inl e, g)
          | Inr _ \<Rightarrow>
             (case reserve_verified_change_apply k a m now_ms g of
                (Inl e, g1) \<Rightarrow> (Inl e, g1)
              | (Inr _, g1) \<Rightarrow>
                 (case change_find (aa_grant_id (au_claims a)) (g_journal g1) of
                    None \<Rightarrow> (Inl ''change apply reservation is unavailable'', g1)
                  | Some stored \<Rightarrow>
                      if gs_terminal stored \<noteq> None then (Inl ''change apply reservation is unavailable'', g1)
                      else execute_reserved k h a (gs_reservation stored) m target staged now_ms g1)))))"

definition recover_pending_change_apply ::
    "gate_codecs \<Rightarrow> ('t, 'h) exchange_host \<Rightarrow> retained_change_manifest \<Rightarrow> 't \<Rightarrow> u64 \<Rightarrow> 'h gate \<Rightarrow>
     finalized_change_apply_recovery_result expected \<times> 'h gate" where
  "recover_pending_change_apply k h m target completed_at_ms g =
     (case find_pending_record m (g_journal g) of
        Inl e \<Rightarrow> (Inl e, g)
      | Inr r \<Rightarrow> recover_record k h r m target ''interrupted_before_mutation'' completed_at_ms g)"

definition finalize_committed_change_apply_recovery ::
    "gate_codecs \<Rightarrow> ('t, 'h) exchange_host \<Rightarrow> retained_change_manifest \<Rightarrow> 't \<Rightarrow> u64 \<Rightarrow> 'h gate \<Rightarrow>
     finalized_change_apply_recovery_result expected \<times> 'h gate" where
  "finalize_committed_change_apply_recovery k h m target completed_at_ms g =
     (case find_pending_record m (g_journal g) of
        Inl e \<Rightarrow> (Inl e, g)
      | Inr r \<Rightarrow>
         (case eh_inspect h r m target (g_host g) of
            Inl e \<Rightarrow> (Inl e, g)
          | Inr o_seen \<Rightarrow>
              if ro_state o_seen \<noteq> Exchange_committed then (Inl ''change apply recovery is not committed'', g)
              else finalize_applied_observation k h r m target o_seen completed_at_ms g))"

subsection \<open>The startup sweep\<close>

record change_apply_reconciliation_issue =
  ci_grant_id :: string
  ci_manifest_digest :: string
  ci_code :: string

record change_apply_reconciliation_report =
  cp_applied_finalized :: u64
  cp_failed_finalized :: u64
  cp_cleanup_completed :: u64
  cp_unresolved :: u64
  cp_issues_truncated :: bool
  cp_issues :: "change_apply_reconciliation_issue list"

definition max_reconciliation_issues :: nat where
  "max_reconciliation_issues = 256"

definition add_issue ::
    "change_apply_reservation_record \<Rightarrow> string \<Rightarrow> change_apply_reconciliation_report \<Rightarrow> change_apply_reconciliation_report" where
  "add_issue r code report =
     (let counted = report\<lparr>cp_unresolved := cp_unresolved report + 1\<rparr> in
      if length (cp_issues report) < max_reconciliation_issues
      then counted\<lparr>cp_issues := cp_issues report @
             [\<lparr>ci_grant_id = cr_grant_id r, ci_manifest_digest = cr_manifest_digest r, ci_code = code\<rparr>]\<rparr>
      else counted\<lparr>cp_issues_truncated := True\<rparr>)"

definition stage_matches :: "change_apply_reservation_record \<Rightarrow> retained_change_manifest \<Rightarrow> bool" where
  "stage_matches r m =
     (rm_manifest_digest m = cr_manifest_digest r \<and> rm_generation m = cr_generation r \<and>
      rm_scope_digest m = cr_scope_digest r \<and> rm_source_identity_digest m = cr_source_identity_digest r)"

text \<open>The part of a round after stage and target are found: cleaning up after a terminal record, or
  recovering a pending reservation.\<close>

definition reconcile_terminal ::
    "('t, 'h) exchange_host \<Rightarrow> change_apply_reservation_record \<Rightarrow> change_apply_terminal_record \<Rightarrow> retained_change_manifest \<Rightarrow>
     't \<Rightarrow> change_apply_reconciliation_report \<times> 'h gate \<Rightarrow> change_apply_reconciliation_report \<times> 'h gate" where
  "reconcile_terminal h r t m target st =
     (case st of (report, g) \<Rightarrow>
      case eh_cleanup h r t m target (g_host g) of
        (Inl e, h1) \<Rightarrow> (add_issue r ''cleanup_pending'' report, g\<lparr>g_host := h1\<rparr>)
      | (Inr _, h1) \<Rightarrow> (report\<lparr>cp_cleanup_completed := cp_cleanup_completed report + 1\<rparr>, g\<lparr>g_host := h1\<rparr>))"

definition reconcile_pending ::
    "gate_codecs \<Rightarrow> ('t, 'h) exchange_host \<Rightarrow> change_apply_reservation_record \<Rightarrow> retained_change_manifest \<Rightarrow> 't \<Rightarrow> u64 \<Rightarrow>
     change_apply_reconciliation_report \<times> 'h gate \<Rightarrow> change_apply_reconciliation_report \<times> 'h gate" where
  "reconcile_pending k h r m target completed_at_ms st =
     (case st of (report, g) \<Rightarrow>
      case recover_record k h r m target ''interrupted_before_mutation'' completed_at_ms g of
        (Inl e, g1) \<Rightarrow> (add_issue r ''recovery_ambiguous'' report, g1)
      | (Inr recovered, g1) \<Rightarrow>
         (let counted =
            (if rb_state (fr_receipt recovered) = ''applied''
             then report\<lparr>cp_applied_finalized := cp_applied_finalized report + 1\<rparr>
             else report\<lparr>cp_failed_finalized := cp_failed_finalized report + 1\<rparr>)
          in
          (if fr_baseline_cleanup_complete recovered
           then counted\<lparr>cp_cleanup_completed := cp_cleanup_completed counted + 1\<rparr>
           else add_issue r ''cleanup_pending'' counted, g1)))"

definition reconcile_record ::
    "gate_codecs \<Rightarrow> ('t, 'h) exchange_host \<Rightarrow> stage_root \<Rightarrow> (string \<Rightarrow> u64 \<Rightarrow> string \<Rightarrow> string \<Rightarrow> 't expected) \<Rightarrow> u64 \<Rightarrow>
     change_apply_reconciliation_report \<times> 'h gate \<Rightarrow> change_apply_grant_status \<Rightarrow>
     change_apply_reconciliation_report \<times> 'h gate" where
  "reconcile_record k h root resolve_recovery_target completed_at_ms st status =
     (case st of (report, g) \<Rightarrow>
      let r = gs_reservation status in
      if (case gs_terminal status of
            None \<Rightarrow> False
          | Some t \<Rightarrow> \<not> is_value (reconstruct_change_apply_receipt (gk_receipt k) r t))
      then (add_issue r ''terminal_receipt_invalid'' report, g)
      else if (case gs_terminal status of None \<Rightarrow> False | Some t \<Rightarrow> ct_state t = Apply_failed) then (report, g)
      else (case inspect_retained_change_stage (gk_manifest k) root (cr_session_id r) (cr_exposure_id r) of
        Inl e \<Rightarrow> (add_issue r ''stage_unavailable'' report, g)
      | Inr m \<Rightarrow>
          if \<not> stage_matches r m then (add_issue r ''stage_unavailable'' report, g)
          else (case resolve_recovery_target (cr_exposure_id r) (cr_generation r) (cr_scope_digest r)
                       (cr_source_identity_digest r) of
            Inl e \<Rightarrow> (add_issue r ''target_unavailable'' report, g)
          | Inr target \<Rightarrow>
             (case gs_terminal status of
                Some t \<Rightarrow> reconcile_terminal h r t m target (report, g)
              | None \<Rightarrow> reconcile_pending k h r m target completed_at_ms (report, g)))))"

definition empty_reconciliation_report :: change_apply_reconciliation_report where
  "empty_reconciliation_report =
     \<lparr>cp_applied_finalized = 0, cp_failed_finalized = 0, cp_cleanup_completed = 0, cp_unresolved = 0,
      cp_issues_truncated = False, cp_issues = []\<rparr>"

definition reconcile_change_apply_journal ::
    "gate_codecs \<Rightarrow> ('t, 'h) exchange_host \<Rightarrow> stage_root \<Rightarrow> (string \<Rightarrow> u64 \<Rightarrow> string \<Rightarrow> string \<Rightarrow> 't expected) \<Rightarrow> u64 \<Rightarrow>
     'h gate \<Rightarrow> change_apply_reconciliation_report \<times> 'h gate" where
  "reconcile_change_apply_journal k h root resolve_recovery_target completed_at_ms g =
     foldl (reconcile_record k h root resolve_recovery_target completed_at_ms) (empty_reconciliation_report, g)
       (change_records (g_journal g))"

end
