(* ===== verification/Gate_Laws.thy ===== *)
theory Gate_Laws
  imports Change_Gate Change_Reach
begin

text \<open>
  What the steps of the gate do to the journal and the host: the journal only moves by its own
  operations, a receipt that is returned is the one its terminal record reconstructs, and only the
  three changing calls of the exchange touch the host.
\<close>

subsection \<open>The journal under the gate\<close>

abbreviation gate_moves :: "gate_codecs \<Rightarrow> 'h gate \<Rightarrow> 'h gate \<Rightarrow> bool" where
  "gate_moves k g g' \<equiv> (change_step (gk_journal k))\<^sup>*\<^sup>* (g_journal g) (g_journal g')"

lemma gate_reserve_moves: "gate_reserve k r g = (res, g') \<Longrightarrow> gate_moves k g g' \<and> g_host g' = g_host g"
  by (auto simp: gate_reserve_def split: prod.splits intro!: r_into_rtranclp intro: change_step.reserves)

lemma gate_finalize_moves: "gate_finalize k t g = (res, g') \<Longrightarrow> gate_moves k g g' \<and> g_host g' = g_host g"
  by (auto simp: gate_finalize_def split: prod.splits intro!: r_into_rtranclp intro: change_step.finalizes)

lemma finalize_applied_moves:
  "finalize_applied_observation k h r m target o_seen now g = (res, g') \<Longrightarrow> gate_moves k g g'"
  by (auto simp: finalize_applied_observation_def Let_def split: if_splits sum.splits prod.splits dest!: gate_finalize_moves)

lemma finalize_failed_moves:
  "finalize_failed_observation k r o_seen code now g = (res, g') \<Longrightarrow> gate_moves k g g' \<and> g_host g' = g_host g"
  by (auto simp: finalize_failed_observation_def split: if_splits sum.splits prod.splits dest!: gate_finalize_moves)

lemma settle_moves:
  "settle_observation k r o_seen code now g = (res, g') \<Longrightarrow> gate_moves k g g' \<and> g_host g' = g_host g"
  by (auto simp: settle_observation_def split: if_splits dest!: finalize_failed_moves)

lemma recover_record_moves: "recover_record k h r m target code now g = (res, g') \<Longrightarrow> gate_moves k g g'"
  by (auto simp: recover_record_def split: if_splits sum.splits prod.splits dest!: settle_moves finalize_applied_moves)

lemma execute_reserved_moves: "execute_reserved k h a r m target staged now g = (res, g') \<Longrightarrow> gate_moves k g g'"
  by (auto simp: execute_reserved_def Let_def split: sum.splits prod.splits dest!: recover_record_moves gate_finalize_moves)

subsection \<open>Receipts of terminal records\<close>

lemma reconstruct_applied:
  assumes "build_change_apply_receipt c r exchange now = Inr receipt"
  shows "reconstruct_change_apply_receipt c r (terminal_for r receipt Applied) = Inr receipt" "rb_state receipt = ''applied''"
    "er_final_tree_digest exchange = cr_staged_tree_digest r"
proof -
  have sealed: "seal_receipt c ''encode change apply receipt envelope''
      (reservation_envelope r ''applied'' (er_final_source_identity_digest exchange) [] now) = Inr receipt"
    and checks: "er_final_tree_digest exchange = cr_staged_tree_digest r" "\<not> now < cr_reserved_at_ms r"
    using assms by (auto simp: build_change_apply_receipt_def split: if_splits)
  have fields: "rb_final_source_identity_digest receipt = er_final_source_identity_digest exchange"
    "rb_completed_at_ms receipt = now" "rb_state receipt = ''applied''" "rb_failure_code receipt = []"
    by (rule seal_receipt_facts [OF sealed], simp add: reservation_envelope_def)+
  show "reconstruct_change_apply_receipt c r (terminal_for r receipt Applied) = Inr receipt"
    using sealed checks fields
    by (simp add: reconstruct_change_apply_receipt_def terminal_for_def build_change_apply_receipt_def)
  show "rb_state receipt = ''applied''" "er_final_tree_digest exchange = cr_staged_tree_digest r"
    using fields checks by simp_all
qed

lemma reconstruct_failed:
  assumes "build_failed_change_apply_receipt c r identity code now = Inr receipt"
  shows "reconstruct_change_apply_receipt c r (terminal_for r receipt Apply_failed) = Inr receipt" "rb_state receipt = ''failed''"
proof -
  have sealed: "seal_receipt c ''encode failed change apply receipt envelope''
      (reservation_envelope r ''failed'' identity code now) = Inr receipt"
    and checks: "valid_digest identity" "valid_identifier code" "\<not> now < cr_reserved_at_ms r"
    using assms by (auto simp: build_failed_change_apply_receipt_def split: if_splits)
  have fields: "rb_final_source_identity_digest receipt = identity"
    "rb_completed_at_ms receipt = now" "rb_state receipt = ''failed''" "rb_failure_code receipt = code"
    by (rule seal_receipt_facts [OF sealed], simp add: reservation_envelope_def)+
  show "reconstruct_change_apply_receipt c r (terminal_for r receipt Apply_failed) = Inr receipt"
    using sealed checks fields
    by (simp add: reconstruct_change_apply_receipt_def terminal_for_def build_failed_change_apply_receipt_def)
  show "rb_state receipt = ''failed''" by (rule fields(3))
qed

lemma built_receipt_decodes:
  "build_change_apply_receipt c r exchange now = Inr receipt \<Longrightarrow> receipt_codec_faithful c \<Longrightarrow>
     decode_change_apply_receipt c (rb_canonical_json receipt) = Inr receipt"
  "build_failed_change_apply_receipt c r identity code now = Inr receipt \<Longrightarrow> receipt_codec_faithful c \<Longrightarrow>
     decode_change_apply_receipt c (rb_canonical_json receipt) = Inr receipt"
  using sealed_receipt_decodes
  by (auto simp: build_change_apply_receipt_def build_failed_change_apply_receipt_def split: if_splits)

subsection \<open>Closing a grant\<close>

text \<open>The grant of a reservation is open, and it is closed by a record from which the receipt follows.\<close>

definition grant_open :: "change_apply_reservation_record \<Rightarrow> 'h gate \<Rightarrow> bool" where
  "grant_open r g = (change_find (cr_grant_id r) (g_journal g) = Some \<lparr>gs_reservation = r, gs_terminal = None\<rparr>)"

definition grant_closed :: "gate_codecs \<Rightarrow> change_apply_reservation_record \<Rightarrow> change_apply_receipt \<Rightarrow> 'h gate \<Rightarrow> bool" where
  "grant_closed k r receipt g =
     (\<exists>t. change_find (cr_grant_id r) (g_journal g) = Some \<lparr>gs_reservation = r, gs_terminal = Some t\<rparr> \<and>
        reconstruct_change_apply_receipt (gk_receipt k) r t = Inr receipt \<and>
        decode_change_apply_receipt (gk_receipt k) (rb_canonical_json receipt) = Inr receipt)"

definition gate_ok :: "gate_codecs \<Rightarrow> 'h gate \<Rightarrow> bool" where
  "gate_ok k g =
     (change_codec_faithful (gk_journal k) \<and> receipt_codec_faithful (gk_receipt k) \<and> change_ok (gk_journal k) (g_journal g))"

lemma grant_host [simp]:
  "grant_open r (g\<lparr>g_host := h\<rparr>) = grant_open r g" "grant_closed k r receipt (g\<lparr>g_host := h\<rparr>) = grant_closed k r receipt g"
  "gate_ok k (g\<lparr>g_host := h\<rparr>) = gate_ok k g"
  by (simp_all add: grant_open_def grant_closed_def gate_ok_def)

lemma gate_finalize_closes:
  assumes "gate_ok k g" and "grant_open r g" and "gate_finalize k (terminal_for r receipt state) g = (Inr u, g')"
    and "reconstruct_change_apply_receipt (gk_receipt k) r (terminal_for r receipt state) = Inr receipt"
    and "decode_change_apply_receipt (gk_receipt k) (rb_canonical_json receipt) = Inr receipt"
  shows "grant_closed k r receipt g'" "g_host g' = g_host g"
proof -
  obtain j where j: "change_finalize (gk_journal k) (terminal_for r receipt state) (g_journal g) = (Inr u, j)" "g' = g\<lparr>g_journal := j\<rparr>"
    using assms(3) by (auto simp: gate_finalize_def split: prod.splits)
  have "cj_grants j = grants_close (cr_grant_id r) (terminal_for r receipt state) (cj_grants (g_journal g))"
    using change_finalize_laws [OF _ _ j(1)] assms(1) by (auto simp: gate_ok_def terminal_for_def)
  then have "change_find (cr_grant_id r) j = Some \<lparr>gs_reservation = r, gs_terminal = Some (terminal_for r receipt state)\<rparr>"
    using assms(2) by (simp add: change_find_def map_of_grants_close grant_open_def)
  then show "grant_closed k r receipt g'" "g_host g' = g_host g"
    using j(2) assms(4,5) by (auto simp: grant_closed_def)
qed

lemma finalize_applied_closes:
  assumes "gate_ok k g" and "grant_open r g" and "finalize_applied_observation k h r m target o_seen now g = (Inr res, g')"
  shows "grant_closed k r (fr_receipt res) g'" "rb_state (fr_receipt res) = ''applied''"
    "\<exists>exchange. fr_exchange res = Some exchange \<and> er_final_tree_digest exchange = cr_staged_tree_digest r"
proof -
  let ?exchange = "\<lparr>er_candidate_name = ro_candidate_name o_seen,
    er_final_source_identity_digest = ro_current_source_identity_digest o_seen, er_final_tree_digest = ro_source_tree_digest o_seen\<rparr>"
  obtain receipt where receipt: "build_change_apply_receipt (gk_receipt k) r ?exchange now = Inr receipt"
    using assms(3) by (cases "build_change_apply_receipt (gk_receipt k) r ?exchange now")
      (simp_all add: finalize_applied_observation_def Let_def split: if_splits)
  obtain f g1 where f: "gate_finalize k (terminal_for r receipt Applied) g = (f, g1)" by fastforce
  obtain cleaned h1 where c: "eh_cleanup h r (terminal_for r receipt Applied) m target (g_host g1) = (cleaned, h1)" by fastforce
  have run: "f = Inr ()" "res = \<lparr>fr_exchange = Some ?exchange, fr_receipt = receipt, fr_baseline_cleanup_complete = is_value cleaned\<rparr>"
    "g' = g1\<lparr>g_host := h1\<rparr>"
    using assms(3) receipt f c by (auto simp: finalize_applied_observation_def Let_def split: if_splits sum.splits)
  note built = reconstruct_applied [OF receipt]
  have decodes: "decode_change_apply_receipt (gk_receipt k) (rb_canonical_json receipt) = Inr receipt"
    using built_receipt_decodes(1) [OF receipt] assms(1) by (simp add: gate_ok_def)
  show "grant_closed k r (fr_receipt res) g'"
    using gate_finalize_closes [OF assms(1,2) _ built(1) decodes, of "()" g1] f run by simp
  show "rb_state (fr_receipt res) = ''applied''"
    "\<exists>exchange. fr_exchange res = Some exchange \<and> er_final_tree_digest exchange = cr_staged_tree_digest r"
    using built run by simp_all
qed

text \<open>A failed outcome is recorded only over a host that still shows the baseline and no candidate.\<close>

definition host_untouched ::
    "('t, 'h) exchange_host \<Rightarrow> change_apply_reservation_record \<Rightarrow> retained_change_manifest \<Rightarrow> 't \<Rightarrow> 'h \<Rightarrow> bool" where
  "host_untouched h r m target host =
     (case eh_inspect h r m target host of
        Inl _ \<Rightarrow> False
      | Inr o_seen \<Rightarrow> ro_state o_seen = Reserved \<and> ro_current_source_identity_digest o_seen = cr_source_identity_digest r \<and>
          ro_source_tree_digest o_seen = cr_baseline_tree_digest r \<and> ro_candidate_tree_digest o_seen = None)"

lemma settle_closes:
  assumes "gate_ok k g" and "grant_open r g" and "settle_observation k r o_seen code now g = (Inr res, g')"
    and "eh_inspect h r m target (g_host g) = Inr o_seen"
  shows "grant_closed k r (fr_receipt res) g'" "rb_state (fr_receipt res) = ''failed''" "fr_exchange res = None"
    "host_untouched h r m target (g_host g')"
proof -
  have failed: "finalize_failed_observation k r o_seen code now g = (Inr res, g')"
    using assms(3) by (auto simp: settle_observation_def split: if_splits)
  obtain receipt where receipt: "build_failed_change_apply_receipt (gk_receipt k) r (ro_current_source_identity_digest o_seen) code now = Inr receipt"
    using failed by (cases "build_failed_change_apply_receipt (gk_receipt k) r (ro_current_source_identity_digest o_seen) code now")
      (simp_all add: finalize_failed_observation_def split: if_splits)
  obtain f g1 where f: "gate_finalize k (terminal_for r receipt Apply_failed) g = (f, g1)" by fastforce
  have run: "f = Inr ()" "res = \<lparr>fr_exchange = None, fr_receipt = receipt, fr_baseline_cleanup_complete = True\<rparr>" "g' = g1"
    "ro_state o_seen = Reserved" "ro_current_source_identity_digest o_seen = cr_source_identity_digest r"
    "ro_source_tree_digest o_seen = cr_baseline_tree_digest r" "ro_candidate_tree_digest o_seen = None"
    using failed receipt f by (auto simp: finalize_failed_observation_def split: if_splits sum.splits)
  note built = reconstruct_failed [OF receipt]
  have decodes: "decode_change_apply_receipt (gk_receipt k) (rb_canonical_json receipt) = Inr receipt"
    using built_receipt_decodes(2) [OF receipt] assms(1) by (simp add: gate_ok_def)
  note closes = gate_finalize_closes [OF assms(1,2) _ built(1) decodes, of "()" g1]
  show "grant_closed k r (fr_receipt res) g'" "rb_state (fr_receipt res) = ''failed''" "fr_exchange res = None"
    "host_untouched h r m target (g_host g')"
    using closes f run built(2) assms(4) by (simp_all add: host_untouched_def)
qed

text \<open>What a successful recovery leaves behind.\<close>

definition settled ::
    "gate_codecs \<Rightarrow> ('t, 'h) exchange_host \<Rightarrow> change_apply_reservation_record \<Rightarrow> retained_change_manifest \<Rightarrow> 't \<Rightarrow>
     change_apply_exchange_result option \<Rightarrow> change_apply_receipt \<Rightarrow> 'h gate \<Rightarrow> bool" where
  "settled k h r m target exchange receipt g =
     (grant_closed k r receipt g \<and>
      (case exchange of
         Some e \<Rightarrow> rb_state receipt = ''applied'' \<and> er_final_tree_digest e = cr_staged_tree_digest r
       | None \<Rightarrow> rb_state receipt = ''failed'' \<and> host_untouched h r m target (g_host g)))"

lemma recover_record_settles:
  assumes ok: "gate_ok k g" and grant: "grant_open r g"
    and run: "recover_record k h r m target code now g = (Inr res, g')"
  shows "settled k h r m target (fr_exchange res) (fr_receipt res) g'"
proof -
  obtain o_seen where seen: "eh_inspect h r m target (g_host g) = Inr o_seen"
    using run by (cases "eh_inspect h r m target (g_host g)") (simp_all add: recover_record_def)
  consider (applied) "ro_state o_seen = Exchange_committed" | (prepared) "ro_state o_seen = Candidate_prepared"
    | (other) "ro_state o_seen \<noteq> Exchange_committed" "ro_state o_seen \<noteq> Candidate_prepared" by blast
  then show ?thesis
  proof cases
    case applied
    then have "finalize_applied_observation k h r m target o_seen now g = (Inr res, g')"
      using run seen by (simp add: recover_record_def)
    from finalize_applied_closes [OF ok grant this] show ?thesis by (auto simp: settled_def)
  next
    case prepared
    obtain d h1 where d: "eh_discard h r m target (g_host g) = (d, h1)" by fastforce
    have "d = Inr ()" using run seen prepared d by (cases d) (simp_all add: recover_record_def)
    then obtain again where again: "eh_inspect h r m target h1 = Inr again"
      using run seen prepared d by (cases "eh_inspect h r m target h1") (simp_all add: recover_record_def)
    then have "settle_observation k r again code now (g\<lparr>g_host := h1\<rparr>) = (Inr res, g')"
      using run seen prepared d \<open>d = Inr ()\<close> by (simp add: recover_record_def)
    from settle_closes [OF _ _ this, of h m target] show ?thesis
      using ok grant again by (auto simp: settled_def)
  next
    case other
    then have "settle_observation k r o_seen code now g = (Inr res, g')"
      using run seen by (simp add: recover_record_def)
    from settle_closes [OF ok grant this seen] show ?thesis by (auto simp: settled_def)
  qed
qed

lemma execute_reserved_settles:
  assumes ok: "gate_ok k g" and grant: "grant_open r g"
    and run: "execute_reserved k h a r m target staged now g = (Inr res, g')"
  shows "settled k h r m target (az_exchange res) (az_receipt res) g' \<and> az_authorization res = a"
proof -
  obtain e h1 where e: "eh_execute h r m target staged (g_host g) = (e, h1)" by fastforce
  show ?thesis
  proof (cases e)
    case (Inl err)
    obtain rec g1 where rec: "recover_record k h r m target ''exchange_failed_before_mutation'' now (g\<lparr>g_host := h1\<rparr>) = (rec, g1)"
      by fastforce
    obtain recovered where "rec = Inr recovered" using run e Inl rec by (cases rec) (simp_all add: execute_reserved_def)
    then show ?thesis
      using recover_record_settles [of k "g\<lparr>g_host := h1\<rparr>" r h m target _ now recovered g1] ok grant run e Inl rec
      by (auto simp: execute_reserved_def)
  next
    case (Inr exchange)
    obtain receipt where receipt: "build_change_apply_receipt (gk_receipt k) r exchange now = Inr receipt"
      using run e Inr by (cases "build_change_apply_receipt (gk_receipt k) r exchange now") (simp_all add: execute_reserved_def)
    obtain f g1 where f: "gate_finalize k (terminal_for r receipt Applied) (g\<lparr>g_host := h1\<rparr>) = (f, g1)" by fastforce
    obtain cleaned h2 where c: "eh_cleanup h r (terminal_for r receipt Applied) m target (g_host g1) = (cleaned, h2)" by fastforce
    have done_: "f = Inr ()" "res = \<lparr>az_authorization = a, az_exchange = Some exchange, az_receipt = receipt,
        az_baseline_cleanup_complete = is_value cleaned\<rparr>" "g' = g1\<lparr>g_host := h2\<rparr>"
      using run e Inr receipt f c by (auto simp: execute_reserved_def Let_def split: sum.splits)
    note built = reconstruct_applied [OF receipt]
    have decodes: "decode_change_apply_receipt (gk_receipt k) (rb_canonical_json receipt) = Inr receipt"
      using built_receipt_decodes(1) [OF receipt] ok by (simp add: gate_ok_def)
    show ?thesis
      using gate_finalize_closes [OF _ _ _ built(1) decodes, of "g\<lparr>g_host := h1\<rparr>" "()" g1] ok grant f done_ built
      by (simp add: settled_def)
  qed
qed

end
