(* ===== verification/Gate_Sample.thy ===== *)
theory Gate_Sample
  imports Gate_Laws Change_Theorems Manifest_Theorems
begin

text \<open>A concrete run of the gate: libraries, an authorization, a host that counts its changes.\<close>

definition gate_claims :: change_apply_authorization_claims where
  "gate_claims =
     \<lparr>aa_schema_version = 1, aa_audience = ''gloved'', aa_key_id = ''k'', aa_grant_id = ''g'', aa_executor_node_id = ''n'',
      aa_session_id = ''s'', aa_controller_plan_digest = zero_digest, aa_plan_content_digest = zero_digest,
      aa_exposure_id = ''e'', aa_generation = 1, aa_scope_digest = zero_digest,
      aa_manifest_digest = rm_manifest_digest sample_manifest, aa_policy_revision = 1, aa_issued_at_ms = 1, aa_expires_at_ms = 100\<rparr>"

definition gate_context :: change_apply_authorization_context where
  "gate_context =
     \<lparr>ax_executor_node_id = ''n'', ax_session_id = ''s'', ax_controller_plan_digest = zero_digest,
      ax_plan_content_digest = zero_digest, ax_exposure_id = ''e'', ax_generation = 1, ax_scope_digest = zero_digest,
      ax_manifest_digest = rm_manifest_digest sample_manifest, ax_policy_revision = 1\<rparr>"

definition gate_wire_authorization :: wire_authorization where
  "gate_wire_authorization =
     final_wire gate_claims (replicate 16 (CHR ''A'')) (sha256_reference (bytes_of_string ''d''))"

definition gate_authorization_codec :: authorization_codec where
  "gate_authorization_codec =
     \<lparr>ak_write_claims = \<lambda>_. Some ''c'', ak_write_signed = \<lambda>_. Some ''d'',
      ak_write = \<lambda>w. if w = gate_wire_authorization then Some ''a'' else None,
      ak_read = \<lambda>json. if json = ''a'' then Some gate_wire_authorization else None\<rparr>"

definition gate_authorization :: change_apply_authorization where
  "gate_authorization =
     \<lparr>au_claims = gate_claims, au_signature = replicate 16 (CHR ''A''),
      au_authorization_digest = sha256_reference (bytes_of_string ''d''), au_canonical_json = ''a''\<rparr>"

definition gate_reservation :: change_apply_reservation_record where
  "gate_reservation = verified_reservation gate_authorization sample_manifest 5"

definition gate_exchange :: change_apply_exchange_result where
  "gate_exchange =
     \<lparr>er_candidate_name = [], er_final_source_identity_digest = zero_digest, er_final_tree_digest = sample_tree_digest\<rparr>"

definition gate_envelope :: receipt_envelope where
  "gate_envelope =
     (reservation_envelope gate_reservation ''applied'' zero_digest [] 5)\<lparr>rb_receipt_digest := sha256_reference (bytes_of_string ''e'')\<rparr>"

definition gate_receipt :: change_apply_receipt where
  "gate_receipt = materialize gate_envelope ''q''"

definition gate_receipt_codec :: apply_receipt_codec where
  "gate_receipt_codec =
     \<lparr>rk_write_body = \<lambda>_. Some ''e'', rk_write = \<lambda>e. if e = gate_envelope then Some ''q'' else None,
      rk_read = \<lambda>json. if json = ''q'' then Some gate_envelope else None\<rparr>"

definition gate_terminal :: change_apply_terminal_record where
  "gate_terminal = terminal_for gate_reservation gate_receipt Applied"

definition gate_hash :: string where
  "gate_hash = sha256_reference (bytes_of_string ''b'')"

definition gate_wire_reservation :: wire_record where
  "gate_wire_reservation = (encode_reservation gate_reservation 1 zero_digest)\<lparr>wr_record_hash := gate_hash\<rparr>"

definition gate_wire_terminal :: wire_record where
  "gate_wire_terminal = (encode_terminal gate_terminal 2 gate_hash)\<lparr>wr_record_hash := gate_hash\<rparr>"

definition gate_change_codec :: change_codec where
  "gate_change_codec =
     \<lparr>cc_write_body = \<lambda>_. Some ''b'',
      cc_write = \<lambda>r. if r = gate_wire_reservation then Some ''r'' else if r = gate_wire_terminal then Some ''t'' else None,
      cc_read = \<lambda>json. if json = ''r'' then Some gate_wire_reservation else if json = ''t'' then Some gate_wire_terminal else None\<rparr>"

definition gate_libraries :: gate_codecs where
  "gate_libraries =
     \<lparr>gk_journal = gate_change_codec, gk_receipt = gate_receipt_codec, gk_manifest = sample_manifest_codec,
      gk_authorization = gate_authorization_codec, gk_verifier = \<lambda>_ _ _ _. Inr ()\<rparr>"

definition gate_exchange_host :: "(unit, nat) exchange_host" where
  "gate_exchange_host =
     \<lparr>eh_validate = \<lambda>_ _ _ _. Inr (), eh_execute = \<lambda>_ _ _ _ h. (Inr gate_exchange, h + 1),
      eh_inspect = \<lambda>_ _ _ _. Inl [], eh_cleanup = \<lambda>_ _ _ _ h. (Inr (), h), eh_discard = \<lambda>_ _ _ h. (Inl [], h)\<rparr>"

definition gate_start :: "nat gate" where
  "gate_start = \<lparr>g_journal = sample_change_opened, g_host = 0\<rparr>"

definition gate_reserved_journal :: change_journal where
  "gate_reserved_journal = snd (change_reserve gate_change_codec gate_reservation sample_change_opened)"

definition gate_closed_journal :: change_journal where
  "gate_closed_journal = snd (change_finalize gate_change_codec gate_terminal gate_reserved_journal)"

definition gate_end :: "nat gate" where
  "gate_end = \<lparr>g_journal = gate_closed_journal, g_host = 1\<rparr>"

definition gate_result :: authorized_change_apply_result where
  "gate_result =
     \<lparr>az_authorization = gate_authorization, az_exchange = Some gate_exchange, az_receipt = gate_receipt,
      az_baseline_cleanup_complete = True\<rparr>"

lemma gate_codecs_faithful:
  "change_codec_faithful (gk_journal gate_libraries)" "receipt_codec_faithful (gk_receipt gate_libraries)"
  by (auto simp: change_codec_faithful_def receipt_codec_faithful_def gate_libraries_def gate_change_codec_def
      gate_receipt_codec_def)

lemma gate_start_reachable: "change_reachable (gk_journal gate_libraries) (g_journal gate_start)"
  using change_reachable.opened [OF sample_change_opens] by (simp add: gate_start_def)

subsection \<open>The steps\<close>

lemma wire_claims_final: "wire_claims (final_wire a s d) = a" "aw_signature (final_wire a s d) = s" "aw_authorization_digest (final_wire a s d) = d"
  by (simp_all add: wire_claims_def final_wire_def signed_wire_def change_apply_authorization_claims.defs wire_signed_envelope.defs
      wire_authorization.defs)

lemma gate_claims_valid: "valid_claims gate_claims"
  by (simp add: valid_claims_def gate_claims_def maximum_change_apply_authorization_lifetime_ms_def sample_manifest_def)
    (simp add: valid_identifier_def identifier_byte_def byte_of_def)

lemma gate_authorization_verifies:
  "verify_change_apply_authorization gate_authorization_codec (\<lambda>_ _ _ _. Inr ()) ''a'' gate_context 5 = Inr gate_authorization"
proof -
  have "valid_signature (replicate 16 (CHR ''A''))"
    by (simp add: valid_signature_def signature_byte_def byte_of_def list_all_iff)
  moreover have "context_matches gate_claims gate_context"
    by (simp add: context_matches_def gate_claims_def gate_context_def)
  moreover have "aa_issued_at_ms gate_claims = 1" "aa_expires_at_ms gate_claims = 100"
    by (simp_all add: gate_claims_def)
  moreover have "change_apply_authorization_signing_payload gate_authorization_codec gate_claims = Inr ''c''"
    using gate_claims_valid
    by (simp add: change_apply_authorization_signing_payload_def gate_authorization_codec_def max_authorization_bytes_def)
  ultimately show ?thesis
    using gate_claims_valid
    by (simp add: verify_change_apply_authorization_def gate_authorization_codec_def max_authorization_bytes_def
        gate_wire_authorization_def wire_claims_final sha256_hex_cases gate_authorization_def Let_def)
qed

lemma gate_manifest_in_context: "manifest_in_context gate_libraries gate_context sample_manifest"
proof -
  have "decode_retained_change_manifest_json sample_manifest_codec (rm_canonical_json sample_manifest) = Inr sample_manifest"
    by (rule built_manifest_decodes [OF sample_manifest_built sample_manifest_faithful])
      (simp_all add: sample_before_def sample_after_def file_mode_set_def sample_manifest_def sample_change_entry_def max_snapshot_entries_def)
  then show ?thesis
    by (simp add: manifest_in_context_def gate_libraries_def gate_context_def) (simp add: sample_manifest_def)
qed

lemma gate_receipt_built: "build_change_apply_receipt gate_receipt_codec gate_reservation gate_exchange 5 = Inr gate_receipt"
proof -
  let ?e0 = "reservation_envelope gate_reservation ''applied'' zero_digest [] 5"
  have "validate_receipt gate_envelope = Inr ()"
    by (simp add: validate_receipt_def gate_envelope_def reservation_envelope_def receipt_outcome_valid_def gate_reservation_def
        verified_reservation_def gate_authorization_def gate_claims_def sample_manifest_def sample_tree_digest_def)
      (simp add: valid_identifier_def identifier_byte_def byte_of_def)
  then have "seal_receipt gate_receipt_codec ''encode change apply receipt envelope'' ?e0 = Inr gate_receipt"
    by (simp add: seal_receipt_def receipt_body_digest_def gate_receipt_codec_def sha256_hex_cases gate_envelope_def Let_def
        max_receipt_bytes_def gate_receipt_def)
  then show ?thesis
    by (simp add: build_change_apply_receipt_def gate_exchange_def)
      (simp add: gate_reservation_def verified_reservation_def sample_manifest_def)
qed

text \<open>An append that nothing disturbs.\<close>

lemma append_change_calm:
  assumes "d_outcomes (cj_disk s) = []" and "unat (cj_size s) \<le> off_t_max" and "unat (cj_sequence s) < max_change_records"
    and "record_digest c r0 = Inr digest" and "cc_write c (r0\<lparr>wr_record_hash := digest\<rparr>) = Some json"
    and "json \<noteq> []" and "length json \<le> max_change_record_bytes" and "length json + 1 \<le> unat (cj_max_bytes s)"
    and "cj_size s \<le> cj_max_bytes s - of_nat (length json + 1)"
  shows "append_change c r0 s = (Inr (), s\<lparr>cj_disk := pwrite (cj_disk s) (bytes_of_string (json @ [CHR 0x0A])) (unat (cj_size s)),
    cj_size := cj_size s + of_nat (length json + 1), cj_sequence := wr_sequence r0, cj_head_hash := digest\<rparr>)"
proof -
  have "write_all_at (cj_disk s) (bytes_of_string (json @ [CHR 0x0A])) (cj_size s) =
      (Inr (), pwrite (cj_disk s) (bytes_of_string (json @ [CHR 0x0A])) (unat (cj_size s)))"
    unfolding write_all_at_def by (rule write_bytes_calm [OF assms(1) _ assms(2)]) (simp add: bytes_of_string_def)
  moreover have "sync_change (pwrite (cj_disk s) (bytes_of_string (json @ [CHR 0x0A])) (unat (cj_size s))) =
      (Inr (), pwrite (cj_disk s) (bytes_of_string (json @ [CHR 0x0A])) (unat (cj_size s)))"
    unfolding sync_change_def by (rule sync_descriptor_calm) (simp add: pwrite_def assms(1))
  ultimately show ?thesis
    using assms leD [OF assms(9)] by (simp add: append_change_def Let_def)
qed

lemma gate_record_digest: "record_digest gate_change_codec r = Inr gate_hash"
  by (simp add: record_digest_def gate_change_codec_def sha256_hex_cases gate_hash_def)

lemma gate_reservation_valid: "reservation_valid gate_reservation"
  by (simp add: reservation_valid_def gate_reservation_def verified_reservation_def gate_authorization_def gate_claims_def
      sample_manifest_def sample_tree_digest_def)
    (simp add: valid_identifier_def identifier_byte_def byte_of_def)

lemma gate_reserves:
  "change_reserve gate_change_codec gate_reservation sample_change_opened = (Inr (), gate_reserved_journal)"
  "d_outcomes (cj_disk gate_reserved_journal) = []" "cj_size gate_reserved_journal = 22" "cj_max_bytes gate_reserved_journal = 100"
  "cj_sequence gate_reserved_journal = 1" "cj_head_hash gate_reserved_journal = gate_hash"
  "cj_grants gate_reserved_journal = [(''g'', \<lparr>gs_reservation = gate_reservation, gs_terminal = None\<rparr>)]"
proof -
  let ?r0 = "encode_reservation gate_reservation 1 (replicate 64 (CHR ''0''))"
  let ?s1 = "sample_change_opened\<lparr>cj_disk := pwrite sample_change_disk (bytes_of_string [CHR ''r'', CHR 0x0A]) 20, cj_size := 22,
      cj_sequence := 1, cj_head_hash := gate_hash\<rparr>"
  have "cc_write gate_change_codec (?r0\<lparr>wr_record_hash := gate_hash\<rparr>) = Some ''r''"
    by (simp add: gate_change_codec_def gate_wire_reservation_def zero_digest_def)
  from append_change_calm [OF _ _ _ gate_record_digest this] have "append_change gate_change_codec ?r0 sample_change_opened = (Inr (), ?s1)"
    by (simp add: sample_change_opened_def sample_change_disk_def journal_sample_disk_def off_t_max_def max_change_records_def
        max_change_record_bytes_def encode_reservation_def)
  moreover have "cj_sequence sample_change_opened + 1 = 1" "cj_head_hash sample_change_opened = replicate 64 (CHR ''0'')"
    by (simp_all add: sample_change_opened_def)
  ultimately have run: "change_reserve gate_change_codec gate_reservation sample_change_opened = (Inr (), index_reservation gate_reservation ?s1)"
    using gate_reservation_valid by (simp add: change_reserve_def) (simp add: sample_change_opened_def)
  then have j: "gate_reserved_journal = index_reservation gate_reservation ?s1" by (simp add: gate_reserved_journal_def)
  have grant: "cr_grant_id gate_reservation = ''g''"
    by (simp add: gate_reservation_def verified_reservation_def gate_authorization_def gate_claims_def)
  show "change_reserve gate_change_codec gate_reservation sample_change_opened = (Inr (), gate_reserved_journal)"
    by (simp add: run gate_reserved_journal_def)
  show "d_outcomes (cj_disk gate_reserved_journal) = []" "cj_size gate_reserved_journal = 22" "cj_max_bytes gate_reserved_journal = 100"
    "cj_sequence gate_reserved_journal = 1" "cj_head_hash gate_reserved_journal = gate_hash"
    "cj_grants gate_reserved_journal = [(''g'', \<lparr>gs_reservation = gate_reservation, gs_terminal = None\<rparr>)]"
    unfolding j
    by (simp_all add: index_reservation_def sample_change_opened_def pwrite_def sample_change_disk_def journal_sample_disk_def
        grants_emplace_def grant)
qed

lemma gate_finalizes: "change_finalize gate_change_codec gate_terminal gate_reserved_journal = (Inr (), gate_closed_journal)"
proof -
  have t: "ct_grant_id gate_terminal = ''g''" "ct_authorization_digest gate_terminal = cr_authorization_digest gate_reservation"
    "ct_manifest_digest gate_terminal = cr_manifest_digest gate_reservation" "ct_state gate_terminal = Applied"
    "ct_failure_code gate_terminal = []" "valid_digest (ct_receipt_digest gate_terminal)"
    "valid_digest (ct_final_source_identity_digest gate_terminal)" "ct_completed_at_ms gate_terminal = 5"
    by (simp_all add: gate_terminal_def terminal_for_def gate_receipt_def gate_envelope_def reservation_envelope_def gate_reservation_def
        verified_reservation_def gate_authorization_def gate_claims_def)
  have five: "cr_reserved_at_ms gate_reservation = 5" by (simp add: gate_reservation_def verified_reservation_def)
  have "wr_sequence gate_wire_terminal = 2" "wr_sequence gate_wire_reservation = 1"
    by (simp_all add: gate_wire_terminal_def encode_terminal_def gate_wire_reservation_def encode_reservation_def)
  then have "gate_wire_terminal \<noteq> gate_wire_reservation" by auto
  then have "cc_write gate_change_codec ((encode_terminal gate_terminal 2 gate_hash)\<lparr>wr_record_hash := gate_hash\<rparr>) = Some ''t''"
    by (simp add: gate_change_codec_def gate_wire_terminal_def)
  from append_change_calm [OF gate_reserves(2) _ _ gate_record_digest this]
  have "\<exists>s1. append_change gate_change_codec (encode_terminal gate_terminal 2 gate_hash) gate_reserved_journal = (Inr (), s1)"
    by (simp add: gate_reserves off_t_max_def max_change_records_def max_change_record_bytes_def)
  then show ?thesis
    using t five by (auto simp: change_finalize_def gate_reserves terminal_name_def terminal_failure_code_ok_def gate_closed_journal_def)
qed

lemma gate_executes:
  "execute_authorized_change_apply gate_libraries gate_exchange_host ''a'' gate_context sample_manifest () 3 5 gate_start =
     (Inr gate_result, gate_end)"
proof -
  have grant: "aa_grant_id (au_claims gate_authorization) = ''g''" by (simp add: gate_authorization_def gate_claims_def)
  have verify: "verify_change_apply_authorization (gk_authorization gate_libraries) (gk_verifier gate_libraries) ''a'' gate_context 5 =
      Inr gate_authorization"
    using gate_authorization_verifies by (simp add: gate_libraries_def)
  have reserve: "reserve_verified_change_apply gate_libraries gate_authorization sample_manifest 5 gate_start =
      (Inr (), gate_start\<lparr>g_journal := gate_reserved_journal\<rparr>)"
    using gate_reserves(1)
    by (simp add: reserve_verified_change_apply_def gate_reserve_def gate_libraries_def gate_start_def gate_reservation_def)
  have found: "change_find ''g'' gate_reserved_journal = Some \<lparr>gs_reservation = gate_reservation, gs_terminal = None\<rparr>"
    by (simp add: change_find_def gate_reserves)
  have "execute_reserved gate_libraries gate_exchange_host gate_authorization gate_reservation sample_manifest () 3 5
      (gate_start\<lparr>g_journal := gate_reserved_journal\<rparr>) = (Inr gate_result, gate_end)"
    using gate_receipt_built gate_finalizes
    by (simp add: execute_reserved_def gate_exchange_host_def gate_libraries_def gate_start_def gate_finalize_def
        gate_terminal_def [symmetric] Let_def gate_result_def gate_end_def)
  then show ?thesis
    using gate_manifest_in_context verify reserve found
    by (simp add: execute_authorized_change_apply_def grant gate_exchange_host_def)
qed

end
