(* ===== verification/Gate_Theorems.thy ===== *)
theory Gate_Theorems
  imports Gate_Sample
begin

text \<open>
  The properties of the gate: the host changes only behind a verified authorization and a durable
  reservation, at most once per authorization and manifest, and what is returned is what the journal
  records.
\<close>

subsection \<open>Verification\<close>

lemma verify_accepts:
  assumes "verify_change_apply_authorization c verifier json x now = Inr a"
  obtains w payload where "ak_read c json = Some w" "au_claims a = wire_claims w" "au_authorization_digest a = aw_authorization_digest w"
    "au_signature a = aw_signature w" "au_canonical_json a = json" "valid_claims (au_claims a)" "context_matches (au_claims a) x"
    "aa_issued_at_ms (au_claims a) \<le> now" "now < aa_expires_at_ms (au_claims a)"
    "change_apply_authorization_signing_payload c (au_claims a) = Inr payload"
    "verifier (au_claims a) (bytes_of_string payload) (au_signature a) now = Inr ()"
proof -
  obtain w where w: "ak_read c json = Some w"
    using assms by (cases "ak_read c json") (simp_all add: verify_change_apply_authorization_def split: if_splits)
  obtain payload where payload: "change_apply_authorization_signing_payload c (wire_claims w) = Inr payload"
    using assms w by (cases "change_apply_authorization_signing_payload c (wire_claims w)")
      (simp_all add: verify_change_apply_authorization_def Let_def split: if_splits)
  obtain signed_json where signed: "ak_write_signed c (signed_wire (wire_claims w) (aw_signature w)) = Some signed_json"
    using assms w payload by (cases "ak_write_signed c (signed_wire (wire_claims w) (aw_signature w))")
      (simp_all add: verify_change_apply_authorization_def Let_def split: if_splits)
  have verified: "verifier (wire_claims w) (bytes_of_string payload) (aw_signature w) now = Inr ()"
    using assms w payload signed by (cases "verifier (wire_claims w) (bytes_of_string payload) (aw_signature w) now")
      (simp_all add: verify_change_apply_authorization_def Let_def split: if_splits)
  have "a = \<lparr>au_claims = wire_claims w, au_signature = aw_signature w, au_authorization_digest = aw_authorization_digest w,
      au_canonical_json = json\<rparr>" "valid_claims (wire_claims w)" "context_matches (wire_claims w) x"
    "aa_issued_at_ms (wire_claims w) \<le> now" "now < aa_expires_at_ms (wire_claims w)"
    using assms w payload signed verified
    by (simp_all add: verify_change_apply_authorization_def Let_def not_less not_le split: if_splits)
  then show thesis using that [OF w] payload verified by simp
qed

lemma verify_digest:
  assumes "verify_change_apply_authorization c verifier json x now = Inr a"
  shows "map_option aw_authorization_digest (ak_read c json) = Some (au_authorization_digest a)"
  using assms by (rule verify_accepts) simp

lemma verified_grant_id [simp]: "cr_grant_id (verified_reservation a m now) = aa_grant_id (au_claims a)"
  by (simp add: verified_reservation_def)

subsection \<open>The way to the host\<close>

lemma gate_reserve_opens:
  assumes "change_codec_faithful (gk_journal k)" and "change_ok (gk_journal k) (g_journal g)" and "gate_reserve k r g = (Inr u, g1)"
  shows "change_reserve (gk_journal k) r (g_journal g) = (Inr (), g_journal g1)" "g_host g1 = g_host g" "grant_open r g1"
    "change_find (cr_grant_id r) (g_journal g) = None" "change_ok (gk_journal k) (g_journal g1)"
proof -
  show run: "change_reserve (gk_journal k) r (g_journal g) = (Inr (), g_journal g1)" "g_host g1 = g_host g"
    using assms(3) by (auto simp: gate_reserve_def split: prod.splits)
  note laws = change_reserve_laws [OF assms(2,1) run(1)]
  show "grant_open r g1" "change_find (cr_grant_id r) (g_journal g) = None" "change_ok (gk_journal k) (g_journal g1)"
    using laws by (auto simp: grant_open_def change_find_def map_of_grants_emplace)
qed

lemma execute_authorized_cases:
  assumes "change_codec_faithful (gk_journal k)" and "change_ok (gk_journal k) (g_journal g)"
    and run: "execute_authorized_change_apply k h json x m target staged now g = (res, g')"
  obtains (refused) e where "res = Inl e" "g_host g' = g_host g"
  | (entered) a g1 where "manifest_in_context k x m"
      "verify_change_apply_authorization (gk_authorization k) (gk_verifier k) json x now = Inr a"
      "gate_reserve k (verified_reservation a m now) g = (Inr (), g1)"
      "execute_reserved k h a (verified_reservation a m now) m target staged now g1 = (res, g')"
proof (cases "manifest_in_context k x m")
  case False
  then show thesis using run refused by (auto simp: execute_authorized_change_apply_def)
next
  case ctx: True
  show thesis
  proof (cases "verify_change_apply_authorization (gk_authorization k) (gk_verifier k) json x now")
    case (Inl e)
    then show thesis using run ctx refused by (auto simp: execute_authorized_change_apply_def)
  next
    case a: (Inr a)
    obtain v where v: "eh_validate h m target staged (g_host g) = v" by simp
    obtain s g1 where s: "gate_reserve k (verified_reservation a m now) g = (s, g1)" by fastforce
    show thesis
    proof (cases "(\<exists>e. v = Inl e) \<or> (\<exists>e. s = Inl e)")
      case True
      then show thesis
        using run ctx a v s gate_reserve_moves [OF s] refused
        by (auto simp: execute_authorized_change_apply_def reserve_verified_change_apply_def split: sum.splits)
    next
      case False
      have "v = Inr ()" using False by (cases v) auto
      moreover have "s = Inr ()" using False by (cases s) auto
      ultimately have vs: "v = Inr ()" "s = Inr ()" by simp_all
      have "change_find (aa_grant_id (au_claims a)) (g_journal g1) = Some \<lparr>gs_reservation = verified_reservation a m now, gs_terminal = None\<rparr>"
        using gate_reserve_opens(3) [OF assms(1,2) s [unfolded vs(2)]] by (simp add: grant_open_def)
      then show thesis
        using run ctx a v s vs entered [of a g1]
        by (simp add: execute_authorized_change_apply_def reserve_verified_change_apply_def)
    qed
  qed
qed

text \<open>
  C19. The host changes only behind the gate.  If executing an authorization changes the host, then the
  manifest is the canonical one of the context, the claims match the context, are inside their time
  window and carry a signature the verifier accepted, and the grant, unknown to the journal before, was
  durably reserved while the host was still untouched.
\<close>

theorem change_apply_order:
  assumes "change_reachable (gk_journal k) (g_journal g)" and "change_codec_faithful (gk_journal k)"
    and "execute_authorized_change_apply k h json x m target staged now g = (res, g')" and "g_host g' \<noteq> g_host g"
  shows "\<exists>a payload g1.
    manifest_in_context k x m \<and> valid_claims (au_claims a) \<and> context_matches (au_claims a) x \<and>
    aa_issued_at_ms (au_claims a) \<le> now \<and> now < aa_expires_at_ms (au_claims a) \<and>
    change_apply_authorization_signing_payload (gk_authorization k) (au_claims a) = Inr payload \<and>
    gk_verifier k (au_claims a) (bytes_of_string payload) (au_signature a) now = Inr () \<and>
    change_find (aa_grant_id (au_claims a)) (g_journal g) = None \<and>
    change_reserve (gk_journal k) (verified_reservation a m now) (g_journal g) = (Inr (), g_journal g1) \<and>
    g_host g1 = g_host g \<and>
    change_find (aa_grant_id (au_claims a)) (g_journal g1) = Some \<lparr>gs_reservation = verified_reservation a m now, gs_terminal = None\<rparr> \<and>
    execute_reserved k h a (verified_reservation a m now) m target staged now g1 = (res, g')"
proof -
  note ok = change_reachable_ok [OF assms(1,2)]
  from assms(2) ok assms(3) show ?thesis
  proof (cases rule: execute_authorized_cases)
    case (refused e)
    then show ?thesis using assms(4) by simp
  next
    case (entered a g1)
    note reserved = gate_reserve_opens [OF assms(2) ok entered(3)]
    from entered(2) show ?thesis
    proof (rule verify_accepts)
      fix w payload
      assume "valid_claims (au_claims a)" "context_matches (au_claims a) x" "aa_issued_at_ms (au_claims a) \<le> now"
        "now < aa_expires_at_ms (au_claims a)" "change_apply_authorization_signing_payload (gk_authorization k) (au_claims a) = Inr payload"
        "gk_verifier k (au_claims a) (bytes_of_string payload) (au_signature a) now = Inr ()"
      then show ?thesis
        using entered reserved by (intro exI [of _ a] exI [of _ payload] exI [of _ g1]) (simp add: grant_open_def verified_reservation_def)
    qed
  qed
qed

theorem change_apply_order_witness:
  "\<exists>g1. change_reserve gate_change_codec (verified_reservation gate_authorization sample_manifest 5) sample_change_opened = (Inr (), g1) \<and>
     change_find ''g'' g1 \<noteq> None"
proof -
  have "g_host gate_end \<noteq> g_host gate_start" by (simp add: gate_end_def gate_start_def)
  from change_apply_order [OF gate_start_reachable gate_codecs_faithful(1) gate_executes this] obtain a g1 where
    "execute_reserved gate_libraries gate_exchange_host a (verified_reservation a sample_manifest 5) sample_manifest () 3 5 g1 =
       (Inr gate_result, gate_end)"
    "change_reserve gate_change_codec (verified_reservation a sample_manifest 5) sample_change_opened = (Inr (), g_journal g1)"
    "change_find (aa_grant_id (au_claims a)) (g_journal g1) \<noteq> None"
    by (auto simp: gate_libraries_def gate_start_def)
  moreover have "a = gate_authorization"
    using calculation(1) by (auto simp: execute_reserved_def gate_exchange_host_def gate_result_def Let_def split: sum.splits prod.splits)
  ultimately show ?thesis by (auto simp: gate_authorization_def gate_claims_def)
qed

text \<open>
  C20. A change is applied at most once.  After an execution changed the host, and whatever operations
  the journal saw since, a second execution with the same authorization, or with any authorization for
  the same manifest, fails and leaves journal and host as they are.
\<close>

theorem change_applied_once:
  assumes "change_reachable (gk_journal k) (g_journal g)" and "change_codec_faithful (gk_journal k)"
    and "execute_authorized_change_apply k h json x m target staged now g = (res, g')" and "g_host g' \<noteq> g_host g"
    and "(change_step (gk_journal k))\<^sup>*\<^sup>* (g_journal g') (g_journal g2)"
    and "json' = json \<or> rm_manifest_digest m' = rm_manifest_digest m"
  shows "\<exists>e. execute_authorized_change_apply k h json' x' m' target' staged' now' g2 = (Inl e, g2)"
proof -
  note ok = change_reachable_ok [OF assms(1,2)]
  obtain a g1 where entered: "verify_change_apply_authorization (gk_authorization k) (gk_verifier k) json x now = Inr a"
    "gate_reserve k (verified_reservation a m now) g = (Inr (), g1)"
    "execute_reserved k h a (verified_reservation a m now) m target staged now g1 = (res, g')"
  proof (rule execute_authorized_cases [OF assms(2) ok assms(3)])
    fix e
    assume "g_host g' = g_host g"
    then show thesis using assms(4) by simp
  qed
  note reserved = gate_reserve_opens [OF assms(2) ok entered(2)]
  let ?r = "verified_reservation a m now"
  have "(change_step (gk_journal k))\<^sup>*\<^sup>* (g_journal g1) (g_journal g2)"
    using execute_reserved_moves [OF entered(3)] assms(5) by (rule rtranclp_trans)
  note later = change_run_entry [OF this assms(2) reserved(5) reserved(3) [unfolded grant_open_def]]
  obtain v' where v': "change_find (cr_grant_id ?r) (g_journal g2) = Some v'" "gs_reservation v' = ?r"
    using later(2) by (auto simp: grant_advances_def)
  have refused: "\<exists>e. gate_reserve k (verified_reservation b m' now') g2 = (Inl e, g2)"
    if "verify_change_apply_authorization (gk_authorization k) (gk_verifier k) json' x' now' = Inr b" for b
  proof -
    have "json' = json \<Longrightarrow> au_authorization_digest b = au_authorization_digest a"
      using verify_digest [OF that] verify_digest [OF entered(1)] by simp
    then have "cr_authorization_digest (verified_reservation b m' now') = cr_authorization_digest ?r \<or>
        cr_manifest_digest (verified_reservation b m' now') = cr_manifest_digest ?r"
      using assms(6) by (elim disjE) (simp_all add: verified_reservation_def)
    then have "\<exists>e. change_reserve (gk_journal k) (verified_reservation b m' now') (g_journal g2) = (Inl e, g_journal g2)"
      by (intro consumed_refused [OF later(1) v'(1)]) (simp add: v'(2))
    then obtain e where "change_reserve (gk_journal k) (verified_reservation b m' now') (g_journal g2) = (Inl e, g_journal g2)" by blast
    then show ?thesis by (simp add: gate_reserve_def)
  qed
  show ?thesis
  proof (cases "verify_change_apply_authorization (gk_authorization k) (gk_verifier k) json' x' now'")
    case (Inr b)
    then show ?thesis
      using refused [OF Inr]
      by (cases "eh_validate h m' target' staged' (g_host g2)")
        (auto simp: execute_authorized_change_apply_def reserve_verified_change_apply_def)
  qed (simp add: execute_authorized_change_apply_def)
qed

theorem change_applied_once_witness:
  "\<exists>e. execute_authorized_change_apply gate_libraries gate_exchange_host ''a'' gate_context sample_manifest () 3 6 gate_end = (Inl e, gate_end)"
  by (rule change_applied_once [OF gate_start_reachable gate_codecs_faithful(1) gate_executes])
    (simp_all add: gate_end_def gate_start_def)

text \<open>
  C21. What is returned is what is recorded.  When an execution succeeds, the journal holds the
  reservation of the authorization closed by a terminal record from which the returned receipt is
  reconstructed, and the receipt's canonical text decodes to it.  The receipt says \<open>applied\<close> exactly if
  an exchange to the staged tree is returned, and says \<open>failed\<close> only while an inspection of the host
  shows the untouched baseline and no candidate.
\<close>

theorem change_apply_recorded:
  assumes "change_reachable (gk_journal k) (g_journal g)" and "change_codec_faithful (gk_journal k)"
    and "receipt_codec_faithful (gk_receipt k)"
    and "execute_authorized_change_apply k h json x m target staged now g = (Inr result, g')"
  shows "\<exists>r t. r = verified_reservation (az_authorization result) m now \<and>
    change_find (cr_grant_id r) (g_journal g') = Some \<lparr>gs_reservation = r, gs_terminal = Some t\<rparr> \<and>
    reconstruct_change_apply_receipt (gk_receipt k) r t = Inr (az_receipt result) \<and>
    decode_change_apply_receipt (gk_receipt k) (rb_canonical_json (az_receipt result)) = Inr (az_receipt result) \<and>
    (case az_exchange result of
       Some exchange \<Rightarrow> rb_state (az_receipt result) = ''applied'' \<and> er_final_tree_digest exchange = rm_staged_tree_digest m
     | None \<Rightarrow> rb_state (az_receipt result) = ''failed'' \<and> host_untouched h r m target (g_host g'))"
proof -
  note ok = change_reachable_ok [OF assms(1,2)]
  obtain a g1 where entered: "gate_reserve k (verified_reservation a m now) g = (Inr (), g1)"
    "execute_reserved k h a (verified_reservation a m now) m target staged now g1 = (Inr result, g')"
    by (rule execute_authorized_cases [OF assms(2) ok assms(4)]) simp_all
  note reserved = gate_reserve_opens [OF assms(2) ok entered(1)]
  have "settled k h (verified_reservation a m now) m target (az_exchange result) (az_receipt result) g' \<and> az_authorization result = a"
    using execute_reserved_settles [OF _ reserved(3) entered(2)] reserved(5) assms(2,3) by (simp add: gate_ok_def)
  then show ?thesis
    by (auto simp: settled_def grant_closed_def verified_reservation_def split: option.splits)
qed

theorem change_apply_recorded_witness:
  "\<exists>t. change_find ''g'' gate_closed_journal = Some \<lparr>gs_reservation = gate_reservation, gs_terminal = Some t\<rparr> \<and>
     reconstruct_change_apply_receipt gate_receipt_codec gate_reservation t = Inr gate_receipt"
  using change_apply_recorded [OF gate_start_reachable gate_codecs_faithful gate_executes]
  by (auto simp: gate_result_def gate_end_def gate_libraries_def gate_reservation_def gate_authorization_def gate_claims_def)

end
