(* ===== verification/Exposure_Journal.thy ===== *)
theory Exposure_Journal
  imports Change_Journal Framing
begin

text \<open>
  The durable journal of path exposures (\<open>src/supervisor/path_exposure_journal.cpp\<close>): a record for
  every exposure created or revoked, framed, hash chained and replayed when the registry is opened.
  The JSON library is the record \<open>exposure_codec\<close> of its two calls; the file is the \<open>disk\<close> of
  \<open>Storage\<close>.
\<close>

subsection \<open>Exposures\<close>

datatype path_access = Read_access | Ephemeral_write | Retained_write | Direct_write

datatype path_materialization = Bind | Snapshot | Git_worktree | Copy

datatype path_cleanup_policy = Retain | Remove

datatype path_exposure_state = Active | Revoked | Expired

record path_exposure_mode =
  pm_access :: path_access
  pm_materialization :: path_materialization
  pm_max_bytes :: u64
  pm_cleanup_policy :: path_cleanup_policy

record path_exposure_descriptor =
  pd_schema_version :: u8
  pd_exposure_id :: string
  pd_generation :: u64
  pd_root_id :: string
  pd_source_identity_digest :: string
  pd_scope_digest :: string
  pd_display_label :: string
  pd_allowed_modes :: "path_exposure_mode list"
  pd_expires_at_ms :: u64
  pd_allowed_runtime_template_ids :: "string list"
  pd_state :: path_exposure_state

record path_exposure_create_record =
  xc_descriptor :: path_exposure_descriptor
  xc_request_id :: string
  xc_request_digest :: string
  xc_host_path :: string
  xc_parent_identity_digest :: string

record path_exposure_revoke_record =
  xr_request_id :: string
  xr_request_digest :: string
  xr_exposure_id :: string
  xr_generation :: u64
  xr_state :: path_exposure_state
  xr_revoked_at_ms :: u64

datatype path_exposure_journal_record =
    Create_record path_exposure_create_record
  | Revoke_record path_exposure_revoke_record

subsection \<open>The wire format\<close>

record wire_mode =
  xm_access :: string
  xm_materialization :: string
  xm_max_bytes :: u64
  xm_cleanup_policy :: string

record wire_descriptor =
  xd_schema_version :: u8
  xd_exposure_id :: string
  xd_generation :: u64
  xd_root_id :: string
  xd_source_identity_digest :: string
  xd_scope_digest :: string
  xd_display_label :: string
  xd_allowed_modes :: "wire_mode list"
  xd_expires_at_ms :: u64
  xd_allowed_runtime_template_ids :: "string list"
  xd_state :: string

record exposure_wire =
  xw_schema_version :: u8
  xw_sequence :: u64
  xw_kind :: string
  xw_descriptor :: wire_descriptor
  xw_request_id :: string
  xw_request_digest :: string
  xw_host_path :: string
  xw_parent_identity_digest :: string
  xw_exposure_id :: string
  xw_generation :: u64
  xw_state :: string
  xw_revoked_at_ms :: u64
  xw_previous_hash :: string
  xw_record_hash :: string

record exposure_codec =
  ec_write :: "exposure_wire \<Rightarrow> string option"
  ec_read :: "string \<Rightarrow> exposure_wire option"

definition exposure_magic :: bytes where
  "exposure_magic = bytes_of_string (''GLOVE-EXPOSURE1'' @ [CHR 0x00])"

definition max_exposure_payload_bytes :: nat where
  "max_exposure_payload_bytes = 64 * 1024"

definition max_exposure_records :: nat where
  "max_exposure_records = 4096"

definition access_name :: "path_access \<Rightarrow> string" where
  "access_name access =
     (case access of Read_access \<Rightarrow> ''read'' | Ephemeral_write \<Rightarrow> ''ephemeral_write''
      | Retained_write \<Rightarrow> ''retained_write'' | Direct_write \<Rightarrow> ''direct_write'')"

definition materialization_name :: "path_materialization \<Rightarrow> string" where
  "materialization_name materialization =
     (case materialization of Bind \<Rightarrow> ''bind'' | Snapshot \<Rightarrow> ''snapshot''
      | Git_worktree \<Rightarrow> ''git_worktree'' | Copy \<Rightarrow> ''copy'')"

definition cleanup_name :: "path_cleanup_policy \<Rightarrow> string" where
  "cleanup_name cleanup = (case cleanup of Retain \<Rightarrow> ''retain'' | Remove \<Rightarrow> ''remove'')"

definition state_name :: "path_exposure_state \<Rightarrow> string" where
  "state_name state =
     (case state of Active \<Rightarrow> ''active'' | Revoked \<Rightarrow> ''revoked'' | Expired \<Rightarrow> ''expired'')"

text \<open>The parsers of names; legacy values have a name and no parse.  The policy file repeats them with
  another text.\<close>

definition parse_access :: "string \<Rightarrow> string \<Rightarrow> path_access expected" where
  "parse_access message name =
     (if name = ''read'' then Inr Read_access else if name = ''ephemeral_write'' then Inr Ephemeral_write
      else if name = ''retained_write'' then Inr Retained_write else Inl message)"

definition parse_materialization :: "string \<Rightarrow> string \<Rightarrow> path_materialization expected" where
  "parse_materialization message name =
     (if name = ''bind'' then Inr Bind else if name = ''git_worktree'' then Inr Git_worktree
      else if name = ''copy'' then Inr Copy else Inl message)"

definition parse_cleanup :: "string \<Rightarrow> string \<Rightarrow> path_cleanup_policy expected" where
  "parse_cleanup message name =
     (if name = ''retain'' then Inr Retain else if name = ''remove'' then Inr Remove else Inl message)"

definition parse_state :: "string \<Rightarrow> path_exposure_state expected" where
  "parse_state name =
     (if name = ''active'' then Inr Active else if name = ''revoked'' then Inr Revoked
      else if name = ''expired'' then Inr Expired else Inl ''invalid journal exposure state'')"

definition encode_mode_names :: "path_exposure_mode \<Rightarrow> wire_mode" where
  "encode_mode_names m =
     \<lparr>xm_access = access_name (pm_access m), xm_materialization = materialization_name (pm_materialization m),
      xm_max_bytes = pm_max_bytes m, xm_cleanup_policy = cleanup_name (pm_cleanup_policy m)\<rparr>"

definition encode_descriptor :: "path_exposure_descriptor \<Rightarrow> wire_descriptor" where
  "encode_descriptor d =
     \<lparr>xd_schema_version = pd_schema_version d, xd_exposure_id = pd_exposure_id d,
      xd_generation = pd_generation d, xd_root_id = pd_root_id d,
      xd_source_identity_digest = pd_source_identity_digest d, xd_scope_digest = pd_scope_digest d,
      xd_display_label = pd_display_label d, xd_allowed_modes = map encode_mode_names (pd_allowed_modes d),
      xd_expires_at_ms = pd_expires_at_ms d,
      xd_allowed_runtime_template_ids = pd_allowed_runtime_template_ids d,
      xd_state = state_name (pd_state d)\<rparr>"

fun decode_modes :: "wire_mode list \<Rightarrow> path_exposure_mode list expected" where
  "decode_modes [] = Inr []"
| "decode_modes (m # ms) =
     (case (parse_access ''invalid journal exposure access'' (xm_access m),
            parse_materialization ''invalid journal exposure materialization'' (xm_materialization m),
            parse_cleanup ''invalid journal exposure cleanup policy'' (xm_cleanup_policy m)) of
        (Inr access, Inr materialization, Inr cleanup) \<Rightarrow>
          and_then (decode_modes ms) (\<lambda>modes. Inr
            (\<lparr>pm_access = access, pm_materialization = materialization, pm_max_bytes = xm_max_bytes m,
              pm_cleanup_policy = cleanup\<rparr> # modes))
      | _ \<Rightarrow> Inl ''invalid journal exposure mode'')"

definition decode_descriptor :: "wire_descriptor \<Rightarrow> path_exposure_descriptor expected" where
  "decode_descriptor w =
     and_then (decode_modes (xd_allowed_modes w)) (\<lambda>modes.
     and_then (parse_state (xd_state w)) (\<lambda>state. Inr
       \<lparr>pd_schema_version = xd_schema_version w, pd_exposure_id = xd_exposure_id w,
        pd_generation = xd_generation w, pd_root_id = xd_root_id w,
        pd_source_identity_digest = xd_source_identity_digest w, pd_scope_digest = xd_scope_digest w,
        pd_display_label = xd_display_label w, pd_allowed_modes = modes,
        pd_expires_at_ms = xd_expires_at_ms w,
        pd_allowed_runtime_template_ids = xd_allowed_runtime_template_ids w, pd_state = state\<rparr>))"

text \<open>The default-initialised descriptor of a record that carries none.\<close>

definition empty_descriptor :: wire_descriptor where
  "empty_descriptor =
     \<lparr>xd_schema_version = 0, xd_exposure_id = [], xd_generation = 0, xd_root_id = [],
      xd_source_identity_digest = [], xd_scope_digest = [], xd_display_label = [], xd_allowed_modes = [],
      xd_expires_at_ms = 0, xd_allowed_runtime_template_ids = [], xd_state = []\<rparr>"

definition encode_exposure :: "path_exposure_journal_record \<Rightarrow> u64 \<Rightarrow> string \<Rightarrow> exposure_wire" where
  "encode_exposure r sequence previous_hash =
     (case r of
        Create_record x \<Rightarrow>
          \<lparr>xw_schema_version = 1, xw_sequence = sequence, xw_kind = ''create'',
           xw_descriptor = encode_descriptor (xc_descriptor x), xw_request_id = xc_request_id x,
           xw_request_digest = xc_request_digest x, xw_host_path = xc_host_path x,
           xw_parent_identity_digest = xc_parent_identity_digest x, xw_exposure_id = [], xw_generation = 0,
           xw_state = [], xw_revoked_at_ms = 0, xw_previous_hash = previous_hash, xw_record_hash = []\<rparr>
      | Revoke_record x \<Rightarrow>
          \<lparr>xw_schema_version = 1, xw_sequence = sequence, xw_kind = ''revoke'',
           xw_descriptor = empty_descriptor, xw_request_id = xr_request_id x,
           xw_request_digest = xr_request_digest x, xw_host_path = [], xw_parent_identity_digest = [],
           xw_exposure_id = xr_exposure_id x, xw_generation = xr_generation x,
           xw_state = state_name (xr_state x), xw_revoked_at_ms = xr_revoked_at_ms x,
           xw_previous_hash = previous_hash, xw_record_hash = []\<rparr>)"

definition mode_fields :: "wire_mode \<Rightarrow> field list" where
  "mode_fields m =
     [Str (xm_access m), Str (xm_materialization m), U64 (xm_max_bytes m), Str (xm_cleanup_policy m)]"

definition exposure_fields :: "exposure_wire \<Rightarrow> field list" where
  "exposure_fields w =
     [Str ''glove.path-exposure-journal-record'', U8 1, U64 (xw_sequence w), Str (xw_kind w)] @
     (if xw_kind w = ''create''
      then (let d = xw_descriptor w in
        [U8 (xd_schema_version d), Str (xd_exposure_id d), U64 (xd_generation d), Str (xd_root_id d),
         Str (xd_source_identity_digest d), Str (xd_scope_digest d), Str (xd_display_label d),
         U32 (of_nat (length (xd_allowed_modes d)))] @
        concat (map mode_fields (xd_allowed_modes d)) @
        [U64 (xd_expires_at_ms d), U32 (of_nat (length (xd_allowed_runtime_template_ids d)))] @
        map Str (xd_allowed_runtime_template_ids d) @
        [Str (xd_state d), Str (xw_request_id w), Str (xw_request_digest w), Str (xw_host_path w),
         Str (xw_parent_identity_digest w)])
      else
        [Str (xw_request_id w), Str (xw_request_digest w), Str (xw_exposure_id w), U64 (xw_generation w),
         Str (xw_state w), U64 (xw_revoked_at_ms w)]) @
     [Str (xw_previous_hash w)]"

definition exposure_digest :: "exposure_wire \<Rightarrow> string expected" where
  "exposure_digest w = sha256_hex (enc_fields (exposure_fields w))"

definition decode_exposure :: "exposure_wire \<Rightarrow> path_exposure_journal_record expected" where
  "decode_exposure w =
     (if xw_kind w = ''create''
      then (case decode_descriptor (xw_descriptor w) of
        Inl _ \<Rightarrow> Inl ''invalid journal create record''
      | Inr d \<Rightarrow>
          if pd_state d \<noteq> Active \<or> xw_request_id w = [] \<or> \<not> valid_digest (xw_request_digest w) \<or>
             xw_host_path w = [] \<or> \<not> valid_digest (xw_parent_identity_digest w) \<or> xw_exposure_id w \<noteq> [] \<or>
             xw_generation w \<noteq> 0 \<or> xw_state w \<noteq> [] \<or> xw_revoked_at_ms w \<noteq> 0
          then Inl ''invalid journal create record''
          else Inr (Create_record
            \<lparr>xc_descriptor = d, xc_request_id = xw_request_id w, xc_request_digest = xw_request_digest w,
             xc_host_path = xw_host_path w, xc_parent_identity_digest = xw_parent_identity_digest w\<rparr>))
      else if xw_kind w = ''revoke''
      then (case parse_state (xw_state w) of
        Inl _ \<Rightarrow> Inl ''invalid journal revoke record''
      | Inr state \<Rightarrow>
          if state = Active \<or> xw_request_id w = [] \<or> \<not> valid_digest (xw_request_digest w) \<or>
             xw_exposure_id w = [] \<or> xw_generation w = 0 \<or> xw_revoked_at_ms w = 0 \<or>
             xd_schema_version (xw_descriptor w) \<noteq> 0 \<or> xw_host_path w \<noteq> [] \<or>
             xw_parent_identity_digest w \<noteq> []
          then Inl ''invalid journal revoke record''
          else Inr (Revoke_record
            \<lparr>xr_request_id = xw_request_id w, xr_request_digest = xw_request_digest w,
             xr_exposure_id = xw_exposure_id w, xr_generation = xw_generation w, xr_state = state,
             xr_revoked_at_ms = xw_revoked_at_ms w\<rparr>))
      else Inl ''unknown journal record kind'')"

subsection \<open>Files\<close>

definition exposure_write_text :: io_text where
  "exposure_write_text =
     \<lparr>io_range = Some ''exposure journal offset exceeds platform range'', io_write = ''write exposure journal'',
      io_stalled = ''write exposure journal: Success'', io_read = ''read exposure journal'',
      io_ended = ''exposure journal ended unexpectedly''\<rparr>"

definition exposure_read_text :: io_text where
  "exposure_read_text = exposure_write_text\<lparr>io_range := None\<rparr>"

definition sync_exposure :: "disk \<Rightarrow> unit expected \<times> disk" where
  "sync_exposure d = sync_descriptor d ''sync exposure journal''"

text \<open>The truncation after a failed append, whose own failure is ignored.\<close>

definition try_truncate :: "disk \<Rightarrow> u64 \<Rightarrow> disk" where
  "try_truncate d n =
     (case single_call d of (Some _, d1) \<Rightarrow> d1 | (None, d1) \<Rightarrow> ftruncate d1 (unat n))"

definition validate_exposure_file :: "disk \<Rightarrow> u64 \<Rightarrow> u64 expected \<times> disk" where
  "validate_exposure_file d max_bytes =
     (case single_call d of
        (Some e, d1) \<Rightarrow> (Inl (system_error ''inspect exposure journal'' e), d1)
      | (None, d1) \<Rightarrow>
          if \<not> owner_only_file (d_euid d) (d_meta d) \<or> length (d_bytes d) > unat max_bytes
          then (Inl ''exposure journal must be a bounded owner-only single-link regular file'', d1)
          else (Inr (of_nat (length (d_bytes d))), d1))"

definition initialise_exposure_file :: "disk \<Rightarrow> u64 \<Rightarrow> (disk \<times> u64) expected" where
  "initialise_exposure_file d max_bytes =
     (if unat max_bytes < length exposure_magic then Inl ''exposure journal capacity is too small''
      else (case write_bytes exposure_write_text d exposure_magic 0 of
        (Inl e, d1) \<Rightarrow> Inl e
      | (Inr _, d1) \<Rightarrow>
     (case sync_exposure d1 of
        (Inl e, d2) \<Rightarrow> Inl e
      | (Inr _, d2) \<Rightarrow>
     (case sync_exposure d2 of
        (Inl e, d3) \<Rightarrow> Inl e
      | (Inr _, d3) \<Rightarrow> Inr (d3, of_nat (length exposure_magic))))))"

text \<open>The calls on the path answer with a \<open>change_location\<close>, as for the change-apply journal.\<close>

definition open_exposure_file :: "string \<Rightarrow> u64 \<Rightarrow> change_location \<Rightarrow> (disk \<times> u64) expected" where
  "open_exposure_file path max_bytes loc =
     (if \<not> is_absolute path \<or> filename path = [] then Inl ''exposure journal path must be absolute''
      else (case cl_parent loc of
        Some e \<Rightarrow> Inl (system_error ''open exposure journal parent'' e)
      | None \<Rightarrow>
          if \<not> cl_owner_only loc then Inl ''exposure journal parent must be owner-only''
          else (case cl_entry loc of
        Unavailable e \<Rightarrow> Inl (system_error ''open exposure journal'' e)
      | Existing d \<Rightarrow>
         (case retried_call d of
            (Some e, d1) \<Rightarrow> Inl (system_error ''lock exposure journal'' e)
          | (None, d1) \<Rightarrow>
             (case validate_exposure_file d1 max_bytes of
                (Inl e, d2) \<Rightarrow> Inl e
              | (Inr n, d2) \<Rightarrow> Inr (d2, n)))
      | Fresh d \<Rightarrow>
         (case retried_call d of
            (Some e, d1) \<Rightarrow> Inl (system_error ''lock exposure journal'' e)
          | (None, d1) \<Rightarrow>
             (case validate_exposure_file d1 max_bytes of
                (Inl e, d2) \<Rightarrow> Inl e
              | (Inr n, d2) \<Rightarrow> initialise_exposure_file d2 max_bytes)))))"

subsection \<open>The journal\<close>

record exposure_journal =
  ej_disk :: disk
  ej_size :: u64
  ej_max_bytes :: u64
  ej_sequence :: u64
  ej_head_hash :: string
  ej_records :: "path_exposure_journal_record list"

definition enter_exposure :: "exposure_wire \<Rightarrow> path_exposure_journal_record \<Rightarrow> exposure_journal \<Rightarrow> exposure_journal" where
  "enter_exposure w r s =
     s\<lparr>ej_records := ej_records s @ [r], ej_sequence := xw_sequence w, ej_head_hash := xw_record_hash w\<rparr>"

text \<open>The checks of a record that was read, in the order of the loop in \<open>open\<close>.\<close>

definition accept_exposure :: "exposure_wire \<Rightarrow> exposure_journal \<Rightarrow> exposure_journal expected" where
  "accept_exposure w s =
     (if xw_schema_version w \<noteq> 1 \<or> xw_sequence w \<noteq> ej_sequence s + 1 \<or>
         xw_previous_hash w \<noteq> ej_head_hash s \<or> \<not> valid_digest (xw_record_hash w)
      then Inl ''exposure journal chain metadata is invalid''
      else if exposure_digest w \<noteq> Inr (xw_record_hash w) then Inl ''exposure journal record hash mismatch''
      else and_then (decode_exposure w) (\<lambda>r. Inr (enter_exposure w r s)))"

text \<open>One round of that loop: the journal with the record at the offset, and the offset behind it.\<close>

definition scan_exposure :: "exposure_codec \<Rightarrow> u64 \<Rightarrow> exposure_journal \<Rightarrow> (exposure_journal \<times> u64) expected" where
  "scan_exposure c offset s =
     (if length (ej_records s) \<ge> max_exposure_records \<or> ej_size s - offset < 8
      then Inl ''exposure journal record framing is invalid''
      else (case read_bytes exposure_read_text (ej_disk s) 4 offset of
        (Inl e, d1) \<Rightarrow> Inl e
      | (Inr head4, d1) \<Rightarrow>
     (let payload_bytes = decode_u32 head4 in
      if payload_bytes = 0 \<or> unat payload_bytes > max_exposure_payload_bytes \<or>
         ej_size s - offset < ucast payload_bytes + 8
      then Inl ''exposure journal record length is invalid''
      else (case read_bytes exposure_read_text d1 (unat payload_bytes) (offset + 4) of
        (Inl e, d2) \<Rightarrow> Inl e
      | (Inr payload, d2) \<Rightarrow>
     (case read_bytes exposure_read_text d2 4 (offset + 4 + ucast payload_bytes) of
        (Inl e, d3) \<Rightarrow> Inl ''exposure journal record framing mismatch''
      | (Inr foot4, d3) \<Rightarrow>
          if decode_u32 foot4 \<noteq> payload_bytes then Inl ''exposure journal record framing mismatch''
          else (case ec_read c (string_of_bytes payload) of
        None \<Rightarrow> Inl ''exposure journal record schema is invalid''
      | Some w \<Rightarrow>
          and_then (accept_exposure w (s\<lparr>ej_disk := d3\<rparr>)) (\<lambda>s1.
            Inr (s1, offset + (ucast payload_bytes + 8)))))))))"

text \<open>What a round that succeeds has read.\<close>

lemma scan_exposure_cases:
  assumes "scan_exposure c offset s = Inr (s1, offset1)"
  obtains h d1 p d2 f d3 w where "read_bytes exposure_read_text (ej_disk s) 4 offset = (Inr h, d1)"
    "read_bytes exposure_read_text d1 (unat (decode_u32 h)) (offset + 4) = (Inr p, d2)"
    "read_bytes exposure_read_text d2 4 (offset + 4 + ucast (decode_u32 h)) = (Inr f, d3)"
    "decode_u32 f = decode_u32 h" "ec_read c (string_of_bytes p) = Some w"
    "length (ej_records s) < max_exposure_records" "decode_u32 h \<noteq> 0"
    "unat (decode_u32 h) \<le> max_exposure_payload_bytes" "ucast (decode_u32 h) + 8 \<le> ej_size s - offset"
    "accept_exposure w (s\<lparr>ej_disk := d3\<rparr>) = Inr s1" "offset1 = offset + (ucast (decode_u32 h) + 8)"
proof -
  obtain rh d1 where h: "read_bytes exposure_read_text (ej_disk s) 4 offset = (rh, d1)" by fastforce
  obtain h where rh: "rh = Inr h"
    using assms h by (cases rh) (simp_all add: scan_exposure_def split: if_splits)
  let ?n = "decode_u32 h"
  obtain rp d2 where p: "read_bytes exposure_read_text d1 (unat ?n) (offset + 4) = (rp, d2)" by fastforce
  obtain p where rp: "rp = Inr p"
    using assms h rh p by (cases rp) (simp_all add: scan_exposure_def Let_def split: if_splits)
  obtain rf d3 where f: "read_bytes exposure_read_text d2 4 (offset + 4 + ucast ?n) = (rf, d3)" by fastforce
  obtain f where rf: "rf = Inr f"
    using assms h rh p rp f by (cases rf) (simp_all add: scan_exposure_def Let_def split: if_splits)
  obtain w where w: "ec_read c (string_of_bytes p) = Some w"
    using assms h rh p rp f rf by (cases "ec_read c (string_of_bytes p)") (simp_all add: scan_exposure_def Let_def split: if_splits)
  show thesis
    using assms h rh p rp f rf w
    by (intro that [of h d1 p d2 f d3 w]) (simp_all add: scan_exposure_def Let_def and_then_Inr not_less not_le split: if_splits)
qed

lemma accept_exposure_keeps:
  "accept_exposure w s = Inr s1 \<Longrightarrow> ej_disk s1 = ej_disk s \<and> ej_size s1 = ej_size s \<and> ej_max_bytes s1 = ej_max_bytes s"
  by (auto simp: accept_exposure_def enter_exposure_def and_then_Inr split: if_splits)

lemma scan_exposure_progress:
  assumes "scan_exposure c offset s = Inr (s1, offset1)"
  shows "unat (ej_size s1 - offset1) < unat (ej_size s - offset)"
  using assms
proof (rule scan_exposure_cases)
  fix h d3 w
  let ?n = "decode_u32 h"
  assume small: "unat ?n \<le> max_exposure_payload_bytes" and room: "ucast ?n + 8 \<le> ej_size s - offset"
    and accepted: "accept_exposure w (s\<lparr>ej_disk := d3\<rparr>) = Inr s1" and next_offset: "offset1 = offset + (ucast ?n + 8)"
  have wide: "unat (ucast ?n + 8 :: u64) = unat ?n + 8"
    using small unat_widen [of ?n] by (simp add: unat_word_ariths max_exposure_payload_bytes_def)
  have "ej_size s - offset1 = (ej_size s - offset) - (ucast ?n + 8)"
    by (simp add: next_offset)
  then have "unat (ej_size s - offset1) = unat (ej_size s - offset) - (unat ?n + 8)"
    using room wide by (metis unat_sub)
  then show ?thesis
    using accept_exposure_keeps [OF accepted] room wide by (simp add: word_le_nat_alt)
qed

function scan_exposures :: "exposure_codec \<Rightarrow> u64 \<Rightarrow> exposure_journal \<Rightarrow> exposure_journal expected" where
  "scan_exposures c offset s =
     (if \<not> offset < ej_size s then Inr s
      else (case scan_exposure c offset s of
        Inl e \<Rightarrow> Inl e
      | Inr (s1, offset1) \<Rightarrow> scan_exposures c offset1 s1))"
  by pat_completeness auto
termination
  by (relation "measure (\<lambda>(c, offset, s). unat (ej_size s - offset))") (auto dest: scan_exposure_progress)

declare scan_exposures.simps [simp del]

definition exposure_open :: "exposure_codec \<Rightarrow> string \<Rightarrow> u64 \<Rightarrow> change_location \<Rightarrow> exposure_journal expected" where
  "exposure_open c path max_bytes loc =
     (if unat max_bytes < length exposure_magic + 8 then Inl ''exposure journal capacity is invalid''
      else and_then (open_exposure_file path max_bytes loc) (\<lambda>(d, n).
        if unat n < length exposure_magic then Inl ''exposure journal header is truncated''
        else (case read_bytes exposure_read_text d (length exposure_magic) 0 of
          (Inl e, d1) \<Rightarrow> Inl e
        | (Inr header, d1) \<Rightarrow>
            if header \<noteq> exposure_magic then Inl ''exposure journal header is invalid''
            else scan_exposures c (of_nat (length exposure_magic))
                   \<lparr>ej_disk = d1, ej_size = n, ej_max_bytes = max_bytes, ej_sequence = 0,
                    ej_head_hash = replicate 64 (CHR ''0''), ej_records = []\<rparr>)))"

definition exposure_append ::
    "exposure_codec \<Rightarrow> path_exposure_journal_record \<Rightarrow> exposure_journal \<Rightarrow> unit expected \<times> exposure_journal" where
  "exposure_append c record s =
     (if length (ej_records s) \<ge> max_exposure_records \<or> ej_sequence s = - 1
      then (Inl ''exposure journal capacity is exhausted'', s)
      else
     (let encoded0 = encode_exposure record (ej_sequence s + 1) (ej_head_hash s) in
      case exposure_digest encoded0 of
        Inl e \<Rightarrow> (Inl e, s)
      | Inr digest \<Rightarrow>
     (let encoded = encoded0\<lparr>xw_record_hash := digest\<rparr> in
      case ec_write c encoded of
        None \<Rightarrow> (Inl ''exposure journal record encoding is invalid'', s)
      | Some payload \<Rightarrow>
          if payload = [] \<or> length payload > max_exposure_payload_bytes
          then (Inl ''exposure journal record encoding is invalid'', s)
          else (case decode_exposure encoded of
        Inl e \<Rightarrow> (Inl e, s)
      | Inr decoded \<Rightarrow>
     (let frame = frame_of payload in
      if length frame > unat (ej_max_bytes s) \<or> ej_size s > ej_max_bytes s - of_nat (length frame)
      then (Inl ''exposure journal byte capacity is exhausted'', s)
      else (case write_bytes exposure_write_text (ej_disk s) frame (ej_size s) of
        (Inl e, d1) \<Rightarrow> (Inl e, s\<lparr>ej_disk := try_truncate d1 (ej_size s)\<rparr>)
      | (Inr _, d1) \<Rightarrow>
     (case sync_exposure d1 of
        (Inl e, d2) \<Rightarrow> (Inl e, s\<lparr>ej_disk := snd (sync_exposure (try_truncate d2 (ej_size s)))\<rparr>)
      | (Inr _, d2) \<Rightarrow>
          (Inr (), enter_exposure encoded decoded
             (s\<lparr>ej_disk := d2, ej_size := ej_size s + of_nat (length frame)\<rparr>)))))))))"

end
