(* ===== verification/Path_Exposure.thy ===== *)
theory Path_Exposure
  imports Exposure_Journal File_Status Change_Authorization "HOL-Library.Product_Lexorder"
begin

text \<open>
  The registry of path exposures (\<open>src/supervisor/path_exposure.cpp\<close>,
  \<open>src/supervisor/path_exposure_policy.cpp\<close>): an owner exposes files or directories below protected
  roots in numbered generations; a session presents a grant, and the registry resolves it to a
  descriptor only while the generation is active and the source is the object that was exposed.

  The kernel is the record \<open>exposure_host\<close> of the calls the file issues on directories.  A critical
  section sees one such record, so two calls of one section see the same file system; different
  sections may see different ones.  \<open>open_beneath_root\<close> is the Linux branch of the source.
\<close>

unbundle bit_operations_syntax

subsection \<open>The kernel\<close>

record exposure_host =
  xh_open_slash :: "int expected"
  xh_openat :: "int \<Rightarrow> string \<Rightarrow> bool \<Rightarrow> int expected"
  xh_openat2 :: "int \<Rightarrow> string \<Rightarrow> int expected"
  xh_open_self :: "int \<Rightarrow> int expected"
  xh_duplicate :: "int \<Rightarrow> int expected"
  xh_fstat :: "int \<Rightarrow> file_stat expected"

subsection \<open>Data\<close>

record path_exposure_root_policy =
  rp_root_id :: string
  rp_host_root :: string
  rp_allowed_modes :: "path_exposure_mode list"
  rp_max_ttl_secs :: u64
  rp_allowed_runtime_template_ids :: "string list"

record path_exposure_create_request =
  xq_request_id :: string
  xq_exposure_id :: string
  xq_root_id :: string
  xq_host_path :: string
  xq_display_label :: string
  xq_allowed_modes :: "path_exposure_mode list"
  xq_ttl_secs :: u64
  xq_allowed_runtime_template_ids :: "string list"

record path_exposure_projection =
  pp_schema_version :: u8
  pp_exposure_id :: string
  pp_generation :: u64
  pp_scope_digest :: string
  pp_display_label :: string
  pp_allowed_modes :: "path_exposure_mode list"
  pp_expires_at_ms :: u64
  pp_allowed_runtime_template_ids :: "string list"
  pp_state :: path_exposure_state

record path_exposure_grant =
  pg_exposure_id :: string
  pg_generation :: u64
  pg_scope_digest :: string
  pg_access :: path_access
  pg_materialization :: path_materialization
  pg_max_bytes :: u64
  pg_ttl_secs :: u64
  pg_cleanup_policy :: path_cleanup_policy

record source_identity =
  si_device :: u64
  si_inode :: u64
  si_mode :: u32
  si_owner :: u32
  si_group :: u32

record root_record =
  rt_policy :: path_exposure_root_policy
  rt_descriptor :: int
  rt_identity :: source_identity

record exposure_record =
  xp_descriptor :: path_exposure_descriptor
  xp_request_id :: string
  xp_request_digest :: string
  xp_host_path :: string
  xp_parent_identity_digest :: string
  xp_source_descriptor :: int

datatype request_kind = Create_request | Revoke_request

record request_record =
  rq_kind :: request_kind
  rq_digest :: string
  rq_exposure :: "string \<times> u64"

text \<open>\<open>roots\<close> and \<open>exposures\<close> are ordered maps, association lists sorted by key.  A missing generation
  counts as zero, the default that \<open>operator[]\<close> inserts and nothing else observes.\<close>

record exposure_registry =
  er_roots :: "(string \<times> root_record) list"
  er_exposures :: "((string \<times> u64) \<times> exposure_record) list"
  er_last_generation :: "string \<Rightarrow> u64"
  er_requests :: "string \<Rightarrow> request_record option"
  er_journal :: "exposure_journal option"

definition max_roots :: nat where "max_roots = 64"
definition max_exposures :: nat where "max_exposures = 1024"
definition max_modes :: nat where "max_modes = 8"
definition max_runtimes :: nat where "max_runtimes = 64"
definition max_label_bytes :: nat where "max_label_bytes = 256"

definition minimum_retained_copy_bytes :: u64 where
  "minimum_retained_copy_bytes = 32 * 1024 * 1024"

subsection \<open>Grammars\<close>

definition valid_path_component :: "string \<Rightarrow> bool" where
  "valid_path_component v =
     (v \<noteq> [] \<and> v \<noteq> ''.'' \<and> v \<noteq> ''..'' \<and> length v \<le> 255 \<and> CHR ''/'' \<notin> set v \<and> CHR 0x00 \<notin> set v)"

definition valid_label :: "string \<Rightarrow> bool" where
  "valid_label v =
     (v \<noteq> [] \<and> length v \<le> max_label_bytes \<and>
      list_all (\<lambda>c. \<not> (byte_of c < 32 \<or> byte_of c = 127 \<or> c = CHR ''/'' \<or> c = CHR 0x5C)) v)"

definition valid_absolute_path :: "string \<Rightarrow> bool" where
  "valid_absolute_path v =
     (v \<noteq> [] \<and> CHR 0x00 \<notin> set v \<and> is_absolute v \<and> \<not> path_equal v (root_path v) \<and>
      normal_elements v = path_elements v)"

definition reserved_host_path :: "string \<Rightarrow> bool" where
  "reserved_host_path candidate =
     (list_ex (\<lambda>root. path_within candidate root) [''/dev'', ''/proc'', ''/run'', ''/sys''] \<or>
      list_ex (\<lambda>name. name \<in> {''.aws'', ''.azure'', ''.gnupg'', ''.kube'', ''.sage'', ''.ssh''})
        (path_elements candidate))"

text \<open>\<open>lexically_relative\<close> of a path inside another: the remaining elements, or \<open>.\<close> when none is left or
  only the empty one of a trailing separator.\<close>

fun join_elements :: "string list \<Rightarrow> string" where
  "join_elements [] = []"
| "join_elements [name] = name"
| "join_elements (name # names) = name @ ''/'' @ join_elements names"

definition relative_below :: "string \<Rightarrow> string \<Rightarrow> string" where
  "relative_below root candidate =
     (let rest = drop (length (path_elements root)) (path_elements candidate)
      in if rest = [] \<or> hd rest = [] then ''.'' else join_elements rest)"

definition parent_path :: "string \<Rightarrow> string" where
  "parent_path p =
     (case butlast (name_elements p) of
        [] \<Rightarrow> root_path p
      | names \<Rightarrow> root_path p @ join_elements names)"

subsection \<open>Opening and identifying sources\<close>

definition identity_for :: "exposure_host \<Rightarrow> int \<Rightarrow> string \<Rightarrow> source_identity expected" where
  "identity_for h descriptor subject =
     (case xh_fstat h descriptor of
        Inl e \<Rightarrow> Inl (system_error (''inspect '' @ subject) e)
      | Inr st \<Rightarrow>
          if \<not> is_directory (st_mode st) \<and> \<not> is_regular (st_mode st)
          then Inl (subject @ '' must be a regular file or directory'')
          else Inr \<lparr>si_device = st_dev st, si_inode = st_ino st, si_mode = st_mode st,
                    si_owner = st_uid st, si_group = st_gid st\<rparr>)"

fun open_components :: "exposure_host \<Rightarrow> int \<Rightarrow> string list \<Rightarrow> int expected" where
  "open_components h current [] = Inr current"
| "open_components h current (name # names) =
     (case xh_openat h current name (names = []) of
        Inl e \<Rightarrow> Inl (system_error ''resolve protected path'' e)
      | Inr descriptor \<Rightarrow> open_components h descriptor names)"

definition open_absolute_no_follow :: "exposure_host \<Rightarrow> string \<Rightarrow> int expected" where
  "open_absolute_no_follow h path =
     (case xh_open_slash h of
        Inl e \<Rightarrow> Inl (system_error ''open filesystem root'' e)
      | Inr root \<Rightarrow> open_components h root (name_elements path))"

definition open_beneath_root :: "exposure_host \<Rightarrow> root_record \<Rightarrow> string \<Rightarrow> int expected" where
  "open_beneath_root h root candidate =
     (let root_path = rp_host_root (rt_policy root) in
      if path_equal candidate root_path \<or> \<not> path_within candidate root_path
      then Inl ''exposure path must be a strict protected-root descendant''
      else if identity_for h (rt_descriptor root) ''protected root'' \<noteq> Inr (rt_identity root)
      then Inl ''protected root identity changed''
      else (case xh_openat2 h (rt_descriptor root) (relative_below root_path candidate) of
        Inl e \<Rightarrow> Inl (system_error ''resolve exposure with openat2'' e)
      | Inr descriptor \<Rightarrow> Inr descriptor))"

subsection \<open>Modes and runtimes\<close>

fun access_code :: "path_access \<Rightarrow> nat" where
  "access_code Read_access = 0" | "access_code Ephemeral_write = 1"
| "access_code Retained_write = 2" | "access_code Direct_write = 3"

fun materialization_code :: "path_materialization \<Rightarrow> nat" where
  "materialization_code Bind = 0" | "materialization_code Snapshot = 1"
| "materialization_code Git_worktree = 2" | "materialization_code Copy = 3"

fun cleanup_code :: "path_cleanup_policy \<Rightarrow> nat" where
  "cleanup_code Retain = 0" | "cleanup_code Remove = 1"

text \<open>The tuple \<open>mode_less\<close> compares.\<close>

definition mode_key :: "path_exposure_mode \<Rightarrow> nat \<times> nat \<times> u64 \<times> nat" where
  "mode_key m =
     (access_code (pm_access m), materialization_code (pm_materialization m), pm_max_bytes m,
      cleanup_code (pm_cleanup_policy m))"

definition valid_mode :: "path_exposure_mode \<Rightarrow> bool" where
  "valid_mode m =
     (case pm_access m of
        Read_access \<Rightarrow> pm_materialization m = Bind \<and> pm_max_bytes m = 0 \<and> pm_cleanup_policy m = Retain
      | Ephemeral_write \<Rightarrow>
          pm_materialization m = Copy \<and> pm_max_bytes m \<noteq> 0 \<and> pm_cleanup_policy m = Remove
      | Retained_write \<Rightarrow>
          pm_materialization m = Copy \<and> pm_max_bytes m \<ge> minimum_retained_copy_bytes \<and>
          pm_cleanup_policy m = Retain
      | Direct_write \<Rightarrow> False)"

fun adjacent_equal :: "'a list \<Rightarrow> bool" where
  "adjacent_equal (x # y # ys) = (x = y \<or> adjacent_equal (y # ys))"
| "adjacent_equal _ = False"

definition canonical_modes :: "path_exposure_mode list \<Rightarrow> path_exposure_mode list expected" where
  "canonical_modes modes =
     (if modes = [] \<or> length modes > max_modes \<or> list_ex (\<lambda>m. \<not> valid_mode m) modes
      then Inl ''exposure modes are invalid''
      else (let sorted_modes = sort_key mode_key modes in
        if adjacent_equal sorted_modes then Inl ''exposure modes contain duplicates'' else Inr sorted_modes))"

definition canonical_runtimes :: "string list \<Rightarrow> string list expected" where
  "canonical_runtimes runtimes =
     (if runtimes = [] \<or> length runtimes > max_runtimes \<or> list_ex (\<lambda>v. \<not> valid_identifier v) runtimes
      then Inl ''exposure runtime templates are invalid''
      else (let sorted_runtimes = sort runtimes in
        if adjacent_equal sorted_runtimes then Inl ''exposure runtime templates contain duplicates''
        else Inr sorted_runtimes))"

text \<open>\<open>std::ranges::binary_search\<close>: the first element that is not below the one sought is it.\<close>

definition binary_search :: "'a :: linorder list \<Rightarrow> 'a \<Rightarrow> bool" where
  "binary_search xs x =
     (case List.find (\<lambda>y. \<not> y < x) xs of None \<Rightarrow> False | Some y \<Rightarrow> \<not> x < y)"

definition mode_is_subset :: "path_exposure_mode \<Rightarrow> path_exposure_mode list \<Rightarrow> bool" where
  "mode_is_subset requested allowed =
     list_ex (\<lambda>candidate. pm_access candidate = pm_access requested \<and>
       pm_materialization candidate = pm_materialization requested \<and>
       pm_cleanup_policy candidate = pm_cleanup_policy requested \<and>
       pm_max_bytes requested \<le> pm_max_bytes candidate) allowed"

subsection \<open>Digests\<close>

definition encode_mode :: "path_exposure_mode \<Rightarrow> field list" where
  "encode_mode m =
     [U8 (of_nat (access_code (pm_access m))), U8 (of_nat (materialization_code (pm_materialization m))),
      U64 (pm_max_bytes m), U8 (of_nat (cleanup_code (pm_cleanup_policy m)))]"

definition source_identity_fields :: "source_identity \<Rightarrow> field list" where
  "source_identity_fields i =
     [Str ''glove.path-exposure-source-identity'', U8 1, U64 (si_device i), U64 (si_inode i),
      U32 (si_mode i), U32 (si_owner i), U32 (si_group i)]"

definition identity_digest :: "source_identity \<Rightarrow> string expected" where
  "identity_digest i = sha256_hex (enc_fields (source_identity_fields i))"

definition scope_fields :: "path_exposure_descriptor \<Rightarrow> field list" where
  "scope_fields d =
     [Str ''glove.path-exposure-scope'', U8 1, Str (pd_exposure_id d), U64 (pd_generation d),
      Str (pd_root_id d), Str (pd_source_identity_digest d), U32 (of_nat (length (pd_allowed_modes d)))] @
     concat (map encode_mode (pd_allowed_modes d)) @
     [U64 (pd_expires_at_ms d), U32 (of_nat (length (pd_allowed_runtime_template_ids d)))] @
     map Str (pd_allowed_runtime_template_ids d)"

definition scope_digest :: "path_exposure_descriptor \<Rightarrow> string expected" where
  "scope_digest d = sha256_hex (enc_fields (scope_fields d))"

definition create_request_fields ::
    "path_exposure_create_request \<Rightarrow> path_exposure_mode list \<Rightarrow> string list \<Rightarrow> field list" where
  "create_request_fields q modes runtimes =
     [Str ''glove.path-exposure-create-request'', U8 1, Str (xq_request_id q), Str (xq_exposure_id q),
      Str (xq_root_id q), Str (xq_host_path q), Str (xq_display_label q), U32 (of_nat (length modes))] @
     concat (map encode_mode modes) @
     [U64 (xq_ttl_secs q), U32 (of_nat (length runtimes))] @ map Str runtimes"

definition create_request_digest ::
    "path_exposure_create_request \<Rightarrow> path_exposure_mode list \<Rightarrow> string list \<Rightarrow> string expected" where
  "create_request_digest q modes runtimes = sha256_hex (enc_fields (create_request_fields q modes runtimes))"

definition revoke_request_digest :: "string \<Rightarrow> string \<Rightarrow> u64 \<Rightarrow> string expected" where
  "revoke_request_digest request_id exposure_id generation =
     sha256_hex (enc_fields [Str ''glove.path-exposure-revoke-request'', U8 1, Str request_id,
       Str exposure_id, U64 generation])"

definition recovery_parent_identity_digest :: "exposure_host \<Rightarrow> root_record \<Rightarrow> string \<Rightarrow> string expected" where
  "recovery_parent_identity_digest h root host_path =
     (let root_path = rp_host_root (rt_policy root); parent = parent_path host_path in
      if parent = [] \<or> \<not> path_equal parent root_path \<and> \<not> path_within parent root_path
      then Inl ''path exposure parent is outside its protected root''
      else if path_equal parent root_path
      then (case identity_for h (rt_descriptor root) ''protected root'' of
          Inl e \<Rightarrow> Inl e
        | Inr inspected \<Rightarrow>
            if inspected \<noteq> rt_identity root then Inl ''protected root identity changed''
            else identity_digest inspected)
      else and_then (open_beneath_root h root parent) (\<lambda>descriptor.
        case identity_for h descriptor ''path exposure parent'' of
          Inl e \<Rightarrow> Inl e
        | Inr inspected \<Rightarrow>
            if \<not> is_directory (si_mode inspected) then Inl ''path exposure parent is not a directory''
            else identity_digest inspected))"

definition source_matches :: "exposure_host \<Rightarrow> root_record \<Rightarrow> exposure_record \<Rightarrow> bool" where
  "source_matches h root x =
     (case open_beneath_root h root (xp_host_path x) of
        Inl _ \<Rightarrow> False
      | Inr descriptor \<Rightarrow>
         (case identity_for h descriptor ''exposure source'' of
            Inl _ \<Rightarrow> False
          | Inr identity \<Rightarrow> identity_digest identity = Inr (pd_source_identity_digest (xp_descriptor x))))"

definition project_exposure :: "path_exposure_descriptor \<Rightarrow> u64 \<Rightarrow> path_exposure_projection" where
  "project_exposure d now_ms =
     \<lparr>pp_schema_version = pd_schema_version d, pp_exposure_id = pd_exposure_id d,
      pp_generation = pd_generation d, pp_scope_digest = pd_scope_digest d,
      pp_display_label = pd_display_label d, pp_allowed_modes = pd_allowed_modes d,
      pp_expires_at_ms = pd_expires_at_ms d,
      pp_allowed_runtime_template_ids = pd_allowed_runtime_template_ids d,
      pp_state = (if pd_state d = Active \<and> pd_expires_at_ms d \<le> now_ms then Expired else pd_state d)\<rparr>"

subsection \<open>Building and replaying\<close>

text \<open>\<open>std::map::emplace\<close>: a key that is present stays as it is.\<close>

definition map_emplace :: "'k :: linorder \<Rightarrow> 'v \<Rightarrow> ('k \<times> 'v) list \<Rightarrow> ('k \<times> 'v) list" where
  "map_emplace k v m = (if map_of m k = None then insort_key fst (k, v) m else m)"

definition map_change :: "'k \<Rightarrow> ('v \<Rightarrow> 'v) \<Rightarrow> ('k \<times> 'v) list \<Rightarrow> ('k \<times> 'v) list" where
  "map_change k f m = map (\<lambda>(k', v). (k', if k' = k then f v else v)) m"

text \<open>The paths of the roots accepted so far are those of the map.\<close>

definition roots_overlap :: "string \<Rightarrow> (string \<times> root_record) list \<Rightarrow> bool" where
  "roots_overlap path roots =
     list_ex (\<lambda>(_, existing). path_within path (rp_host_root (rt_policy existing)) \<or>
       path_within (rp_host_root (rt_policy existing)) path) roots"

definition add_root ::
    "exposure_host \<Rightarrow> path_exposure_root_policy \<Rightarrow> (string \<times> root_record) list \<Rightarrow> (string \<times> root_record) list expected" where
  "add_root h p roots =
     (if \<not> valid_identifier (rp_root_id p) \<or> \<not> valid_absolute_path (rp_host_root p) \<or>
         reserved_host_path (rp_host_root p) \<or> rp_max_ttl_secs p = 0
      then Inl ''protected exposure root is invalid''
      else and_then (canonical_modes (rp_allowed_modes p)) (\<lambda>modes.
        and_then (canonical_runtimes (rp_allowed_runtime_template_ids p)) (\<lambda>runtimes.
        if roots_overlap (rp_host_root p) roots then Inl ''protected exposure roots overlap''
        else and_then (open_absolute_no_follow h (rp_host_root p)) (\<lambda>descriptor.
        case identity_for h descriptor ''protected exposure root'' of
          Inl e \<Rightarrow> Inl e
        | Inr identity \<Rightarrow>
            if \<not> is_directory (si_mode identity) then Inl ''protected exposure root is not a directory''
            else if map_of roots (rp_root_id p) \<noteq> None
            then Inl ''protected exposure root identifier is duplicated''
            else Inr (map_emplace (rp_root_id p)
              \<lparr>rt_policy = p\<lparr>rp_allowed_modes := modes, rp_allowed_runtime_template_ids := runtimes\<rparr>,
               rt_descriptor = descriptor, rt_identity = identity\<rparr> roots)))))"

fun add_roots ::
    "exposure_host \<Rightarrow> path_exposure_root_policy list \<Rightarrow> (string \<times> root_record) list \<Rightarrow> (string \<times> root_record) list expected" where
  "add_roots h [] roots = Inr roots"
| "add_roots h (p # ps) roots = and_then (add_root h p roots) (add_roots h ps)"

definition build_exposures :: "exposure_host \<Rightarrow> path_exposure_root_policy list \<Rightarrow> exposure_registry expected" where
  "build_exposures h policies =
     (if policies = [] \<or> length policies > max_roots then Inl ''exposure root collection is invalid''
      else and_then (add_roots h policies []) (\<lambda>roots. Inr
        \<lparr>er_roots = roots, er_exposures = [], er_last_generation = (\<lambda>_. 0), er_requests = (\<lambda>_. None),
         er_journal = None\<rparr>))"

text \<open>The entries that a creation and a revocation leave in the maps, in memory and on replay.\<close>

definition enter_created ::
    "path_exposure_create_record \<Rightarrow> int \<Rightarrow> exposure_registry \<Rightarrow> exposure_registry" where
  "enter_created x descriptor s =
     (let d = xc_descriptor x; key = (pd_exposure_id d, pd_generation d) in
      s\<lparr>er_last_generation := (er_last_generation s)(pd_exposure_id d := pd_generation d),
        er_requests := emplace (xc_request_id x)
          \<lparr>rq_kind = Create_request, rq_digest = xc_request_digest x, rq_exposure = key\<rparr> (er_requests s),
        er_exposures := map_emplace key
          \<lparr>xp_descriptor = d, xp_request_id = xc_request_id x, xp_request_digest = xc_request_digest x,
           xp_host_path = xc_host_path x, xp_parent_identity_digest = xc_parent_identity_digest x,
           xp_source_descriptor = descriptor\<rparr> (er_exposures s)\<rparr>)"

definition enter_revoked :: "path_exposure_revoke_record \<Rightarrow> exposure_registry \<Rightarrow> exposure_registry" where
  "enter_revoked x s =
     s\<lparr>er_requests := emplace (xr_request_id x)
         \<lparr>rq_kind = Revoke_request, rq_digest = xr_request_digest x,
          rq_exposure = (xr_exposure_id x, xr_generation x)\<rparr> (er_requests s),
       er_exposures := map_change (xr_exposure_id x, xr_generation x)
         (\<lambda>v. v\<lparr>xp_descriptor := (xp_descriptor v)\<lparr>pd_state := xr_state x\<rparr>\<rparr>) (er_exposures s)\<rparr>"

definition within_policy :: "path_exposure_root_policy \<Rightarrow> path_exposure_mode list \<Rightarrow> string list \<Rightarrow> bool" where
  "within_policy p modes runtimes =
     (list_all (\<lambda>m. mode_is_subset m (rp_allowed_modes p)) modes \<and>
      list_all (\<lambda>runtime. binary_search (rp_allowed_runtime_template_ids p) runtime) runtimes)"

definition replayable_create :: "path_exposure_create_record \<Rightarrow> exposure_registry \<Rightarrow> bool" where
  "replayable_create x s =
     (let d = xc_descriptor x in
      case map_of (er_roots s) (pd_root_id d) of
        None \<Rightarrow> False
      | Some root \<Rightarrow>
          \<not> (pd_schema_version d \<noteq> 1 \<or> \<not> valid_identifier (pd_exposure_id d) \<or> pd_generation d = 0 \<or>
             \<not> valid_digest (pd_source_identity_digest d) \<or> \<not> valid_digest (pd_scope_digest d) \<or>
             \<not> valid_label (pd_display_label d) \<or> pd_expires_at_ms d = 0 \<or> pd_state d \<noteq> Active \<or>
             \<not> valid_identifier (xc_request_id x) \<or> \<not> valid_digest (xc_request_digest x) \<or>
             \<not> valid_absolute_path (xc_host_path x) \<or> reserved_host_path (xc_host_path x) \<or>
             \<not> valid_digest (xc_parent_identity_digest x) \<or>
             canonical_modes (pd_allowed_modes d) \<noteq> Inr (pd_allowed_modes d) \<or>
             canonical_runtimes (pd_allowed_runtime_template_ids d) \<noteq> Inr (pd_allowed_runtime_template_ids d) \<or>
             er_last_generation s (pd_exposure_id d) = - 1 \<or>
             pd_generation d \<noteq> er_last_generation s (pd_exposure_id d) + 1 \<or>
             length (er_exposures s) \<ge> max_exposures \<or> er_requests s (xc_request_id x) \<noteq> None \<or>
             xc_host_path x = rp_host_root (rt_policy root) \<or>
             \<not> path_within (xc_host_path x) (rp_host_root (rt_policy root)) \<or>
             \<not> within_policy (rt_policy root) (pd_allowed_modes d) (pd_allowed_runtime_template_ids d)))"

definition replay_create :: "exposure_host \<Rightarrow> path_exposure_create_record \<Rightarrow> exposure_registry \<Rightarrow> exposure_registry expected" where
  "replay_create h x s =
     (if \<not> replayable_create x s then Inl ''path exposure journal create replay is invalid''
      else if scope_digest (xc_descriptor x) \<noteq> Inr (pd_scope_digest (xc_descriptor x))
      then Inl ''path exposure journal scope binding is invalid''
      else (let root = the (map_of (er_roots s) (pd_root_id (xc_descriptor x))) in
        case open_beneath_root h root (xc_host_path x) of
          Inl _ \<Rightarrow> Inr (enter_created x (- 1) s)
        | Inr descriptor \<Rightarrow> Inr (enter_created x descriptor s)))"

definition replay_revoke :: "path_exposure_revoke_record \<Rightarrow> exposure_registry \<Rightarrow> exposure_registry expected" where
  "replay_revoke x s =
     (case map_of (er_exposures s) (xr_exposure_id x, xr_generation x) of
        None \<Rightarrow> Inl ''path exposure journal revoke replay is invalid''
      | Some v \<Rightarrow>
          if pd_state (xp_descriptor v) \<noteq> Active \<or> xr_state x = Active \<or> xr_revoked_at_ms x = 0 \<or>
             \<not> valid_identifier (xr_request_id x) \<or> \<not> valid_digest (xr_request_digest x) \<or>
             er_requests s (xr_request_id x) \<noteq> None
          then Inl ''path exposure journal revoke replay is invalid''
          else if revoke_request_digest (xr_request_id x) (xr_exposure_id x) (xr_generation x) \<noteq> Inr (xr_request_digest x)
          then Inl ''path exposure journal revoke binding is invalid''
          else Inr (enter_revoked x s))"

fun replay_events ::
    "exposure_host \<Rightarrow> path_exposure_journal_record list \<Rightarrow> exposure_registry \<Rightarrow> exposure_registry expected" where
  "replay_events h [] s = Inr s"
| "replay_events h (Create_record x # rs) s = and_then (replay_create h x s) (replay_events h rs)"
| "replay_events h (Revoke_record x # rs) s = and_then (replay_revoke x s) (replay_events h rs)"

definition open_exposures ::
    "exposure_codec \<Rightarrow> exposure_host \<Rightarrow> path_exposure_root_policy list \<Rightarrow> string \<Rightarrow> u64 \<Rightarrow> change_location \<Rightarrow>
     exposure_registry expected" where
  "open_exposures c h policies journal_path max_journal_bytes loc =
     and_then (build_exposures h policies) (\<lambda>s.
     and_then (exposure_open c journal_path max_journal_bytes loc) (\<lambda>j.
     and_then (replay_events h (ej_records j) s) (\<lambda>s1. Inr (s1\<lparr>er_journal := Some j\<rparr>))))"

subsection \<open>Creating and revoking\<close>

text \<open>The append of a registry with a journal; without one there is nothing to write.\<close>

definition journal_exposure ::
    "exposure_codec \<Rightarrow> path_exposure_journal_record \<Rightarrow> exposure_registry \<Rightarrow> unit expected \<times> exposure_registry" where
  "journal_exposure c r s =
     (case er_journal s of
        None \<Rightarrow> (Inr (), s)
      | Some j \<Rightarrow> (case exposure_append c r j of (result, j1) \<Rightarrow> (result, s\<lparr>er_journal := Some j1\<rparr>)))"

definition create_request_ok :: "path_exposure_create_request \<Rightarrow> u64 \<Rightarrow> bool" where
  "create_request_ok q now_ms =
     (now_ms \<noteq> 0 \<and> valid_identifier (xq_request_id q) \<and> valid_identifier (xq_exposure_id q) \<and>
      valid_identifier (xq_root_id q) \<and> valid_absolute_path (xq_host_path q) \<and>
      valid_label (xq_display_label q) \<and> xq_ttl_secs q \<noteq> 0)"

text \<open>The identities of the source and its parent, with the descriptor of the source.\<close>

definition exposure_sources :: "exposure_host \<Rightarrow> root_record \<Rightarrow> string \<Rightarrow> (int \<times> string \<times> string) expected" where
  "exposure_sources h root host_path =
     (if reserved_host_path host_path then Inl ''path exposure source is reserved''
      else and_then (open_beneath_root h root host_path) (\<lambda>source.
        and_then (identity_for h source ''exposure source'') (\<lambda>identity.
        and_then (identity_digest identity) (\<lambda>source_digest.
        and_then (recovery_parent_identity_digest h root host_path) (\<lambda>parent_digest.
          Inr (source, source_digest, parent_digest))))))"

text \<open>The generation that comes next, or why there is none.\<close>

definition next_generation :: "string \<Rightarrow> u64 \<Rightarrow> exposure_registry \<Rightarrow> u64 expected" where
  "next_generation exposure_id now_ms s =
     (let previous = er_last_generation s exposure_id in
      if length (er_exposures s) \<ge> max_exposures then Inl ''path exposure registry capacity exceeded''
      else if previous = - 1 then Inl ''path exposure generation exhausted''
      else if previous = 0 then Inr (previous + 1)
      else (case map_of (er_exposures s) (exposure_id, previous) of
        None \<Rightarrow> Inl ''path exposure generation state is corrupt''
      | Some prior \<Rightarrow>
          if pd_state (xp_descriptor prior) = Active \<and> pd_expires_at_ms (xp_descriptor prior) > now_ms
          then Inl ''active path exposure generation must be revoked before replacement''
          else Inr (previous + 1)))"

definition create_descriptor ::
    "path_exposure_create_request \<Rightarrow> path_exposure_mode list \<Rightarrow> string list \<Rightarrow> string \<Rightarrow> u64 \<Rightarrow> u64 \<Rightarrow>
     path_exposure_descriptor expected" where
  "create_descriptor q modes runtimes source_digest generation now_ms =
     (if xq_ttl_secs q > (- 1 - now_ms) div 1000 then Inl ''path exposure expiry overflows''
      else (let d =
        \<lparr>pd_schema_version = 1, pd_exposure_id = xq_exposure_id q, pd_generation = generation,
         pd_root_id = xq_root_id q, pd_source_identity_digest = source_digest, pd_scope_digest = [],
         pd_display_label = xq_display_label q, pd_allowed_modes = modes,
         pd_expires_at_ms = now_ms + xq_ttl_secs q * 1000,
         pd_allowed_runtime_template_ids = runtimes, pd_state = Active\<rparr> in
        and_then (scope_digest d) (\<lambda>scope. Inr (d\<lparr>pd_scope_digest := scope\<rparr>))))"

definition create_fresh ::
    "exposure_codec \<Rightarrow> exposure_host \<Rightarrow> path_exposure_create_request \<Rightarrow> path_exposure_mode list \<Rightarrow> string list \<Rightarrow> string \<Rightarrow>
     u64 \<Rightarrow> exposure_registry \<Rightarrow> path_exposure_descriptor expected \<times> exposure_registry" where
  "create_fresh c h q modes runtimes digest now_ms s =
     (case map_of (er_roots s) (xq_root_id q) of
        None \<Rightarrow> (Inl ''path exposure exceeds protected-root policy'', s)
      | Some root \<Rightarrow>
          if xq_ttl_secs q > rp_max_ttl_secs (rt_policy root) \<or> \<not> within_policy (rt_policy root) modes runtimes
          then (Inl ''path exposure exceeds protected-root policy'', s)
          else (case exposure_sources h root (xq_host_path q) of
        Inl e \<Rightarrow> (Inl e, s)
      | Inr (source, source_digest, parent_digest) \<Rightarrow>
     (case next_generation (xq_exposure_id q) now_ms s of
        Inl e \<Rightarrow> (Inl e, s)
      | Inr generation \<Rightarrow>
     (case create_descriptor q modes runtimes source_digest generation now_ms of
        Inl e \<Rightarrow> (Inl e, s)
      | Inr d \<Rightarrow>
     (let x = \<lparr>xc_descriptor = d, xc_request_id = xq_request_id q, xc_request_digest = digest,
               xc_host_path = xq_host_path q, xc_parent_identity_digest = parent_digest\<rparr> in
      case journal_exposure c (Create_record x) s of
        (Inl e, s1) \<Rightarrow> (Inl e, s1)
      | (Inr _, s1) \<Rightarrow> (Inr d, enter_created x source s1))))))"

definition exposure_create ::
    "exposure_codec \<Rightarrow> exposure_host \<Rightarrow> path_exposure_create_request \<Rightarrow> u64 \<Rightarrow> exposure_registry \<Rightarrow>
     path_exposure_descriptor expected \<times> exposure_registry" where
  "exposure_create c h q now_ms s =
     (if \<not> create_request_ok q now_ms then (Inl ''path exposure create request is invalid'', s)
      else (case canonical_modes (xq_allowed_modes q) of
        Inl e \<Rightarrow> (Inl e, s)
      | Inr modes \<Rightarrow>
     (case canonical_runtimes (xq_allowed_runtime_template_ids q) of
        Inl e \<Rightarrow> (Inl e, s)
      | Inr runtimes \<Rightarrow>
     (case create_request_digest q modes runtimes of
        Inl e \<Rightarrow> (Inl e, s)
      | Inr digest \<Rightarrow>
     (case er_requests s (xq_request_id q) of
        Some replay \<Rightarrow>
         (case map_of (er_exposures s) (rq_exposure replay) of
            None \<Rightarrow> (Inl ''path exposure request identifier conflict'', s)
          | Some v \<Rightarrow>
              if rq_kind replay \<noteq> Create_request \<or> rq_digest replay \<noteq> digest \<or> xp_request_digest v \<noteq> digest
              then (Inl ''path exposure request identifier conflict'', s)
              else (Inr (xp_descriptor v), s))
      | None \<Rightarrow> create_fresh c h q modes runtimes digest now_ms s)))))"

definition exposure_revoke ::
    "exposure_codec \<Rightarrow> string \<Rightarrow> string \<Rightarrow> u64 \<Rightarrow> u64 \<Rightarrow> exposure_registry \<Rightarrow> unit expected \<times> exposure_registry" where
  "exposure_revoke c request_id exposure_id generation now_ms s =
     (if \<not> valid_identifier request_id \<or> \<not> valid_identifier exposure_id \<or> generation = 0 \<or> now_ms = 0
      then (Inl ''path exposure revoke request is invalid'', s)
      else (case revoke_request_digest request_id exposure_id generation of
        Inl e \<Rightarrow> (Inl e, s)
      | Inr digest \<Rightarrow>
     (case er_requests s request_id of
        Some replay \<Rightarrow>
          if rq_kind replay \<noteq> Revoke_request \<or> rq_digest replay \<noteq> digest
          then (Inl ''path exposure request identifier conflict'', s)
          else (Inr (), s)
      | None \<Rightarrow>
     (case map_of (er_exposures s) (exposure_id, generation) of
        None \<Rightarrow> (Inl ''path exposure generation was not found'', s)
      | Some v \<Rightarrow>
          if pd_state (xp_descriptor v) \<noteq> Active then (Inl ''path exposure generation is no longer active'', s)
          else
     (let x = \<lparr>xr_request_id = request_id, xr_request_digest = digest, xr_exposure_id = exposure_id,
               xr_generation = generation,
               xr_state = (if pd_expires_at_ms (xp_descriptor v) \<le> now_ms then Expired else Revoked),
               xr_revoked_at_ms = now_ms\<rparr> in
      case journal_exposure c (Revoke_record x) s of
        (Inl e, s1) \<Rightarrow> (Inl e, s1)
      | (Inr _, s1) \<Rightarrow> (Inr (), enter_revoked x s1))))))"

subsection \<open>Looking and granting\<close>

definition exposure_list :: "exposure_host \<Rightarrow> u64 \<Rightarrow> exposure_registry \<Rightarrow> path_exposure_projection list" where
  "exposure_list h now_ms s =
     map (\<lambda>(_, v).
       let p = project_exposure (xp_descriptor v) now_ms in
       if pp_state p = Active \<and>
          (case map_of (er_roots s) (pd_root_id (xp_descriptor v)) of
             None \<Rightarrow> True | Some root \<Rightarrow> \<not> source_matches h root v)
       then p\<lparr>pp_state := Revoked\<rparr> else p) (er_exposures s)"

definition grant_mode :: "path_exposure_grant \<Rightarrow> path_exposure_mode" where
  "grant_mode g =
     \<lparr>pm_access = pg_access g, pm_materialization = pg_materialization g, pm_max_bytes = pg_max_bytes g,
      pm_cleanup_policy = pg_cleanup_policy g\<rparr>"

definition validate_grant ::
    "exposure_host \<Rightarrow> path_exposure_grant \<Rightarrow> string \<Rightarrow> u64 \<Rightarrow> exposure_registry \<Rightarrow> unit expected" where
  "validate_grant h g runtime_template_id now_ms s =
     (if \<not> valid_identifier (pg_exposure_id g) \<or> pg_generation g = 0 \<or> \<not> valid_digest (pg_scope_digest g) \<or>
         \<not> valid_identifier runtime_template_id \<or> pg_ttl_secs g = 0 \<or> \<not> valid_mode (grant_mode g)
      then Inl ''path exposure grant is invalid''
      else (case map_of (er_exposures s) (pg_exposure_id g, pg_generation g) of
        None \<Rightarrow> Inl ''path exposure generation is unavailable''
      | Some v \<Rightarrow>
     (let d = xp_descriptor v in
      if pd_state d \<noteq> Active \<or> pd_expires_at_ms d \<le> now_ms \<or> pd_scope_digest d \<noteq> pg_scope_digest g \<or>
         pg_ttl_secs g > (pd_expires_at_ms d - now_ms) div 1000 \<or>
         \<not> binary_search (pd_allowed_runtime_template_ids d) runtime_template_id \<or>
         \<not> mode_is_subset (grant_mode g) (pd_allowed_modes d)
      then Inl ''path exposure grant is stale or unauthorized''
      else (case map_of (er_roots s) (pd_root_id d) of
        None \<Rightarrow> Inl ''path exposure protected root is unavailable''
      | Some root \<Rightarrow>
          if \<not> source_matches h root v then Inl ''path exposure source identity changed'' else Inr ()))))"

datatype path_create_policy = Never | Empty_directory | Create_git_worktree

record pinned_path_grant =
  rg_descriptor_fd :: int
  rg_alias :: string
  rg_host_path :: string
  rg_target_path :: string
  rg_access :: path_access
  rg_materialization :: path_materialization
  rg_create_policy :: path_create_policy
  rg_cleanup_policy :: path_cleanup_policy
  rg_ttl_secs :: u64
  rg_max_bytes :: u64
  rg_identity :: "u64 \<times> u64 \<times> u32"
  rg_exposure_generation :: u64
  rg_exposure_scope_digest :: string
  rg_source_identity_digest :: string

text \<open>The second critical section of \<open>resolve_grant\<close>, which may see another file system and another
  registry than the validation before it.\<close>

definition resolve_validated ::
    "exposure_host \<Rightarrow> path_exposure_grant \<Rightarrow> u64 \<Rightarrow> exposure_registry \<Rightarrow> pinned_path_grant expected" where
  "resolve_validated h g now_ms s =
     (case map_of (er_exposures s) (pg_exposure_id g, pg_generation g) of
        None \<Rightarrow> Inl ''path exposure generation is unavailable''
      | Some v \<Rightarrow>
     (let d = xp_descriptor v in
      case map_of (er_roots s) (pd_root_id d) of
        None \<Rightarrow> Inl ''path exposure grant changed while resolving''
      | Some root \<Rightarrow>
          if pd_state d \<noteq> Active \<or> pd_expires_at_ms d \<le> now_ms \<or> pd_scope_digest d \<noteq> pg_scope_digest g
          then Inl ''path exposure grant changed while resolving''
          else and_then (open_beneath_root h root (xp_host_path v)) (\<lambda>source.
            and_then (identity_for h source ''path exposure source'') (\<lambda>identity.
            if identity_digest identity \<noteq> Inr (pd_source_identity_digest d)
            then Inl ''path exposure source identity changed''
            else (case xh_duplicate h source of
              Inl e \<Rightarrow> Inl (system_error ''duplicate path exposure descriptor'' e)
            | Inr duplicated \<Rightarrow> Inr
                \<lparr>rg_descriptor_fd = duplicated, rg_alias = pg_exposure_id g, rg_host_path = xp_host_path v,
                 rg_target_path = ''/workspace/exposures/'' @ pg_exposure_id g, rg_access = pg_access g,
                 rg_materialization = pg_materialization g,
                 rg_create_policy =
                   (if pg_materialization g = Git_worktree then Create_git_worktree
                    else if pg_materialization g = Bind then Never else Empty_directory),
                 rg_cleanup_policy = pg_cleanup_policy g, rg_ttl_secs = pg_ttl_secs g,
                 rg_max_bytes = pg_max_bytes g,
                 rg_identity = (si_device identity, si_inode identity, si_mode identity),
                 rg_exposure_generation = pd_generation d, rg_exposure_scope_digest = pd_scope_digest d,
                 rg_source_identity_digest = pd_source_identity_digest d\<rparr>)))))"

definition resolve_grant ::
    "exposure_host \<Rightarrow> exposure_registry \<Rightarrow> exposure_host \<Rightarrow> exposure_registry \<Rightarrow> path_exposure_grant \<Rightarrow> string \<Rightarrow>
     u64 \<Rightarrow> pinned_path_grant expected" where
  "resolve_grant h s h' s' g runtime_template_id now_ms =
     and_then (validate_grant h g runtime_template_id now_ms s) (\<lambda>_. resolve_validated h' g now_ms s')"

record path_exposure_recovery_target =
  xt_parent_descriptor_fd :: int
  xt_basename :: string
  xt_source_identity_digest :: string

definition current_source_identity_digest :: "exposure_host \<Rightarrow> path_exposure_recovery_target \<Rightarrow> string expected" where
  "current_source_identity_digest h t =
     (if xt_parent_descriptor_fd t < 0 \<or> \<not> valid_path_component (xt_basename t)
      then Inl ''path exposure recovery target is unavailable''
      else (case xh_openat h (xt_parent_descriptor_fd t) (xt_basename t) True of
        Inl e \<Rightarrow> Inl (system_error ''open path exposure recovery source'' e)
      | Inr source \<Rightarrow>
          and_then (identity_for h source ''path exposure recovery source'') identity_digest))"

definition recovery_parent :: "exposure_host \<Rightarrow> root_record \<Rightarrow> string \<Rightarrow> int expected" where
  "recovery_parent h root parent =
     (let opened =
        (if path_equal parent (rp_host_root (rt_policy root))
         then (if identity_for h (rt_descriptor root) ''protected root'' \<noteq> Inr (rt_identity root)
               then Inl ''protected root identity changed'' else Inr (rt_descriptor root))
         else and_then (open_beneath_root h root parent) (\<lambda>descriptor.
           case identity_for h descriptor ''path exposure recovery parent'' of
             Inl e \<Rightarrow> Inl e
           | Inr identity \<Rightarrow>
               if \<not> is_directory (si_mode identity) then Inl ''path exposure recovery parent is not a directory''
               else Inr descriptor))
      in and_then opened (\<lambda>descriptor.
        case xh_open_self h descriptor of
          Inl e \<Rightarrow> Inl (system_error ''duplicate path exposure recovery parent'' e)
        | Inr fd \<Rightarrow> Inr fd))"

definition resolve_recovery_target ::
    "exposure_host \<Rightarrow> string \<Rightarrow> u64 \<Rightarrow> string \<Rightarrow> string \<Rightarrow> exposure_registry \<Rightarrow> path_exposure_recovery_target expected" where
  "resolve_recovery_target h exposure_id generation scope source_identity s =
     (if \<not> valid_identifier exposure_id \<or> generation = 0 \<or> \<not> valid_digest scope \<or> \<not> valid_digest source_identity
      then Inl ''path exposure recovery binding is invalid''
      else (case map_of (er_exposures s) (exposure_id, generation) of
        None \<Rightarrow> Inl ''path exposure recovery generation is unavailable''
      | Some v \<Rightarrow>
     (let d = xp_descriptor v in
      if pd_scope_digest d \<noteq> scope \<or> pd_source_identity_digest d \<noteq> source_identity
      then Inl ''path exposure recovery binding is stale''
      else (case map_of (er_roots s) (pd_root_id d) of
        None \<Rightarrow> Inl ''path exposure protected root is unavailable''
      | Some root \<Rightarrow>
     (let parent = parent_path (xp_host_path v); root_path = rp_host_root (rt_policy root) in
      if filename (xp_host_path v) = [] \<or> parent = [] \<or>
         \<not> path_equal parent root_path \<and> \<not> path_within parent root_path
      then Inl ''path exposure recovery locator is invalid''
      else (case recovery_parent_identity_digest h root (xp_host_path v) of
        Inl e \<Rightarrow> Inl e
      | Inr parent_identity \<Rightarrow>
          if parent_identity \<noteq> xp_parent_identity_digest v
          then Inl ''path exposure recovery parent identity changed''
          else and_then (recovery_parent h root parent) (\<lambda>fd. Inr
            \<lparr>xt_parent_descriptor_fd = fd, xt_basename = filename (xp_host_path v),
             xt_source_identity_digest = pd_source_identity_digest d\<rparr>)))))))"

subsection \<open>Explaining refusals to the owner\<close>

fun comma_separated :: "string list \<Rightarrow> string" where
  "comma_separated [] = []"
| "comma_separated [name] = name"
| "comma_separated (name # names) = name @ '', '' @ comma_separated names"

definition mode_quota :: "path_exposure_mode \<Rightarrow> string" where
  "mode_quota m = access_name (pm_access m) @ ''(max_bytes='' @ decimal (unat (pm_max_bytes m)) @ '')''"

definition single_quoted :: "string \<Rightarrow> string" where
  "single_quoted name = [CHR 0x27] @ name @ [CHR 0x27]"

definition validate_create_policy :: "path_exposure_create_request \<Rightarrow> exposure_registry \<Rightarrow> unit expected" where
  "validate_create_policy q s =
     (case map_of (er_roots s) (xq_root_id q) of
        None \<Rightarrow> Inl (''root '' @ single_quoted (xq_root_id q) @ '' is not configured; allowed roots: '' @
                     comma_separated (map fst (er_roots s)))
      | Some root \<Rightarrow>
     (let p = rt_policy root in
      if xq_ttl_secs q > rp_max_ttl_secs p
      then Inl (''TTL '' @ decimal (unat (xq_ttl_secs q)) @ '' seconds exceeds root '' @ single_quoted (xq_root_id q) @
                '' maximum '' @ decimal (unat (rp_max_ttl_secs p)) @ '' seconds'')
      else and_then (canonical_modes (xq_allowed_modes q)) (\<lambda>modes.
        case List.find (\<lambda>m. \<not> mode_is_subset m (rp_allowed_modes p)) modes of
          Some m \<Rightarrow> Inl (''mode '' @ access_name (pm_access m) @ '' with max_bytes='' @
            decimal (unat (pm_max_bytes m)) @ '' is not allowed; allowed mode quotas: '' @
            comma_separated (map mode_quota (rp_allowed_modes p)))
        | None \<Rightarrow> and_then (canonical_runtimes (xq_allowed_runtime_template_ids q)) (\<lambda>runtimes.
            let rejected = filter (\<lambda>r. \<not> binary_search (rp_allowed_runtime_template_ids p) r) runtimes in
            if rejected \<noteq> []
            then Inl (''runtime templates not allowed: '' @ comma_separated rejected @ ''; allowed runtimes: '' @
                      comma_separated (rp_allowed_runtime_template_ids p))
            else Inr ()))))"

subsection \<open>The policy file\<close>

record policy_root_wire =
  yr_root_id :: string
  yr_host_root :: string
  yr_allowed_modes :: "wire_mode list"
  yr_max_ttl_secs :: u64
  yr_allowed_runtime_template_ids :: "string list"

record exposure_policy_wire =
  yp_schema_version :: u8
  yp_roots :: "policy_root_wire list"

definition max_exposure_policy_bytes :: nat where
  "max_exposure_policy_bytes = 1024 * 1024"

definition exposure_policy_text :: io_text where
  "exposure_policy_text =
     \<lparr>io_range = None, io_write = [], io_stalled = [], io_read = ''read path exposure policy'',
      io_ended = ''path exposure policy ended unexpectedly''\<rparr>"

definition load_policy_contents :: "string \<Rightarrow> loaded_file expected \<Rightarrow> string expected" where
  "load_policy_contents path opened_file =
     (if \<not> is_absolute path then Inl ''path exposure policy path must be absolute''
      else (case opened_file of
        Inl e \<Rightarrow> Inl (system_error ''open path exposure policy'' e)
      | Inr lf \<Rightarrow>
         (case lf_before lf of
            Inl e \<Rightarrow> Inl (system_error ''inspect path exposure policy'' e)
          | Inr before \<Rightarrow>
              if \<not> owner_only_load (lf_euid lf) before \<or> ls_size before = 0 \<or> ls_size before > max_exposure_policy_bytes
              then Inl ''path exposure policy must be a bounded owner-only single-link file''
              else (case read_bytes exposure_policy_text (lf_content lf) (ls_size before) 0 of
                (Inl e, _) \<Rightarrow> Inl e
              | (Inr bs, _) \<Rightarrow>
                  if (case lf_after lf of Inl _ \<Rightarrow> True | Inr after \<Rightarrow> \<not> same_loaded_file before after)
                  then Inl ''path exposure policy changed while loading''
                  else Inr (string_of_bytes bs)))))"

fun parse_policy_modes :: "wire_mode list \<Rightarrow> path_exposure_mode list expected" where
  "parse_policy_modes [] = Inr []"
| "parse_policy_modes (m # ms) =
     (case (parse_access ''path exposure policy access is invalid'' (xm_access m),
            parse_materialization ''path exposure policy materialization is invalid'' (xm_materialization m),
            parse_cleanup ''path exposure policy cleanup is invalid'' (xm_cleanup_policy m)) of
        (Inr access, Inr materialization, Inr cleanup) \<Rightarrow>
          and_then (parse_policy_modes ms) (\<lambda>modes. Inr
            (\<lparr>pm_access = access, pm_materialization = materialization, pm_max_bytes = xm_max_bytes m,
              pm_cleanup_policy = cleanup\<rparr> # modes))
      | _ \<Rightarrow> Inl ''path exposure policy mode is invalid'')"

fun parse_policy_roots :: "policy_root_wire list \<Rightarrow> path_exposure_root_policy list expected" where
  "parse_policy_roots [] = Inr []"
| "parse_policy_roots (r # rs) =
     and_then (parse_policy_modes (yr_allowed_modes r)) (\<lambda>modes.
     and_then (parse_policy_roots rs) (\<lambda>roots. Inr
       (\<lparr>rp_root_id = yr_root_id r, rp_host_root = yr_host_root r, rp_allowed_modes = modes,
         rp_max_ttl_secs = yr_max_ttl_secs r,
         rp_allowed_runtime_template_ids = yr_allowed_runtime_template_ids r\<rparr> # roots)))"

definition parse_policy ::
    "(string \<Rightarrow> exposure_policy_wire option) \<Rightarrow> string \<Rightarrow> loaded_file expected \<Rightarrow> path_exposure_root_policy list expected" where
  "parse_policy read_json path opened_file =
     and_then (load_policy_contents path opened_file) (\<lambda>contents.
       case read_json contents of
         None \<Rightarrow> Inl ''path exposure policy schema is invalid''
       | Some w \<Rightarrow>
           if yp_schema_version w \<noteq> 1 then Inl ''path exposure policy schema is invalid''
           else parse_policy_roots (yp_roots w))"

definition inspect_policy ::
    "(string \<Rightarrow> exposure_policy_wire option) \<Rightarrow> exposure_host \<Rightarrow> string \<Rightarrow> loaded_file expected \<Rightarrow> exposure_registry expected" where
  "inspect_policy read_json h path opened_file =
     and_then (parse_policy read_json path opened_file) (build_exposures h)"

definition load_exposures ::
    "(string \<Rightarrow> exposure_policy_wire option) \<Rightarrow> exposure_codec \<Rightarrow> exposure_host \<Rightarrow> string \<Rightarrow> loaded_file expected \<Rightarrow> string \<Rightarrow> u64 \<Rightarrow>
     change_location \<Rightarrow> exposure_registry expected" where
  "load_exposures read_json c h policy_path opened_file journal_path max_journal_bytes loc =
     and_then (parse_policy read_json policy_path opened_file) (\<lambda>policies.
       open_exposures c h policies journal_path max_journal_bytes loc)"

end
