(* ===== verification/Exposure_Journal_Laws.thy ===== *)
theory Exposure_Journal_Laws
  imports Exposure_Journal Change_Reach
begin

text \<open>
  What the exposure journal guarantees: the acknowledged bytes are a sequence of frames whose records
  replay to the journal in memory, whatever a failed append left behind them, and a process that opens
  them reads the same records.
\<close>

subsection \<open>Encoding and decoding\<close>

definition exposure_codec_faithful :: "exposure_codec \<Rightarrow> bool" where
  "exposure_codec_faithful c = (\<forall>w payload. ec_write c w = Some payload \<longrightarrow> ec_read c payload = Some w)"

text \<open>The modes whose names parse.\<close>

definition plain_mode :: "path_exposure_mode \<Rightarrow> bool" where
  "plain_mode m = (pm_access m \<noteq> Direct_write \<and> pm_materialization m \<noteq> Snapshot)"

lemma parse_names:
  "a \<noteq> Direct_write \<Longrightarrow> parse_access e (access_name a) = Inr a"
  "m \<noteq> Snapshot \<Longrightarrow> parse_materialization e (materialization_name m) = Inr m"
  "parse_cleanup e (cleanup_name k) = Inr k" "parse_state (state_name st) = Inr st"
  by (auto simp: parse_access_def access_name_def parse_materialization_def materialization_name_def parse_cleanup_def
      cleanup_name_def parse_state_def state_name_def
      split: path_access.splits path_materialization.splits path_cleanup_policy.splits path_exposure_state.splits)

lemma decode_encode_modes: "list_all plain_mode ms \<Longrightarrow> decode_modes (map encode_mode_names ms) = Inr ms"
  by (induction ms) (simp_all add: encode_mode_names_def plain_mode_def parse_names)

lemma decode_encode_descriptor:
  "list_all plain_mode (pd_allowed_modes d) \<Longrightarrow> decode_descriptor (encode_descriptor d) = Inr d"
  by (simp add: decode_descriptor_def encode_descriptor_def decode_encode_modes parse_names)

text \<open>The records that are written as they are read.\<close>

definition record_storable :: "path_exposure_journal_record \<Rightarrow> bool" where
  "record_storable r =
     (case r of
        Create_record x \<Rightarrow>
          list_all plain_mode (pd_allowed_modes (xc_descriptor x)) \<and> pd_state (xc_descriptor x) = Active \<and>
          xc_request_id x \<noteq> [] \<and> valid_digest (xc_request_digest x) \<and> xc_host_path x \<noteq> [] \<and>
          valid_digest (xc_parent_identity_digest x)
      | Revoke_record x \<Rightarrow>
          xr_state x \<noteq> Active \<and> xr_request_id x \<noteq> [] \<and> valid_digest (xr_request_digest x) \<and>
          xr_exposure_id x \<noteq> [] \<and> xr_generation x \<noteq> 0 \<and> xr_revoked_at_ms x \<noteq> 0)"

lemma decode_encode_exposure:
  "record_storable r \<Longrightarrow> decode_exposure ((encode_exposure r n h)\<lparr>xw_record_hash := d\<rparr>) = Inr r"
  by (cases r) (simp_all add: record_storable_def decode_exposure_def encode_exposure_def decode_encode_descriptor
      parse_names empty_descriptor_def)

lemma exposure_digest_hash [simp]: "exposure_digest (w\<lparr>xw_record_hash := d\<rparr>) = exposure_digest w"
  by (simp add: exposure_digest_def exposure_fields_def)

lemma encode_exposure_header [simp]:
  "xw_schema_version (encode_exposure r n h) = 1" "xw_sequence (encode_exposure r n h) = n"
  "xw_previous_hash (encode_exposure r n h) = h"
  by (simp_all add: encode_exposure_def split: path_exposure_journal_record.splits)

subsection \<open>Replaying\<close>

definition exposure_payload :: "exposure_codec \<Rightarrow> string \<Rightarrow> exposure_wire \<Rightarrow> bool" where
  "exposure_payload c payload w =
     (ec_read c payload = Some w \<and> payload \<noteq> [] \<and> length payload \<le> max_exposure_payload_bytes)"

fun replay_exposures :: "exposure_wire list \<Rightarrow> exposure_journal \<Rightarrow> exposure_journal expected" where
  "replay_exposures [] s = Inr s"
| "replay_exposures (w # ws) s =
     (if length (ej_records s) \<ge> max_exposure_records then Inl ''exposure journal record framing is invalid''
      else and_then (accept_exposure w s) (replay_exposures ws))"

definition exposure_fresh :: "exposure_journal \<Rightarrow> exposure_journal" where
  "exposure_fresh s = s\<lparr>ej_sequence := 0, ej_head_hash := replicate 64 (CHR ''0''), ej_records := []\<rparr>"

definition exposure_outside :: "exposure_journal \<Rightarrow> exposure_journal \<Rightarrow> exposure_journal" where
  "exposure_outside t s = s\<lparr>ej_disk := ej_disk t, ej_size := ej_size t, ej_max_bytes := ej_max_bytes t\<rparr>"

lemma accept_exposure_outside:
  "accept_exposure w (exposure_outside t s) = and_then (accept_exposure w s) (\<lambda>s'. Inr (exposure_outside t s'))"
  by (cases "decode_exposure w") (simp_all add: accept_exposure_def exposure_outside_def enter_exposure_def)

lemma exposure_outside_records [simp]: "ej_records (exposure_outside t s) = ej_records s"
  by (simp add: exposure_outside_def)

lemma replay_exposures_outside:
  "replay_exposures ws (exposure_outside t s) = and_then (replay_exposures ws s) (\<lambda>s'. Inr (exposure_outside t s'))"
  by (induction ws arbitrary: s) (simp_all add: accept_exposure_outside and_then_assoc)

lemma replay_exposures_append:
  "replay_exposures (us @ ws) s = and_then (replay_exposures us s) (replay_exposures ws)"
  by (induction us arbitrary: s) (auto simp: and_then_def split: sum.split)

lemma replay_exposures_file:
  "replay_exposures ws s = Inr s' \<Longrightarrow>
     ej_disk s' = ej_disk s \<and> ej_size s' = ej_size s \<and> ej_max_bytes s' = ej_max_bytes s"
  by (induction ws arbitrary: s) (auto simp: and_then_Inr dest: accept_exposure_keeps split: if_splits)

definition exposure_replays :: "exposure_codec \<Rightarrow> exposure_journal \<Rightarrow> bool" where
  "exposure_replays c s =
     (\<exists>ws body. take (unat (ej_size s)) (d_bytes (ej_disk s)) = exposure_magic @ body \<and>
        framed_by (exposure_payload c) ws body \<and> replay_exposures ws (exposure_fresh s) = Inr s)"

definition exposure_ok :: "exposure_codec \<Rightarrow> exposure_journal \<Rightarrow> bool" where
  "exposure_ok c s =
     (exposure_replays c s \<and> unat (ej_size s) \<le> length (d_bytes (ej_disk s)) \<and> ej_size s \<le> ej_max_bytes s \<and>
      length exposure_magic + 8 \<le> unat (ej_max_bytes s))"

text \<open>A failed append leaves all but the file as it was, and the acknowledged part of the file.\<close>

definition exposure_untouched :: "exposure_journal \<Rightarrow> exposure_journal \<Rightarrow> bool" where
  "exposure_untouched s s' =
     (\<exists>d. s' = s\<lparr>ej_disk := d\<rparr> \<and> unat (ej_size s) \<le> length (d_bytes d) \<and>
        take (unat (ej_size s)) (d_bytes d) = take (unat (ej_size s)) (d_bytes (ej_disk s)))"

lemma exposure_untouched_refl: "exposure_ok c s \<Longrightarrow> exposure_untouched s s"
  by (auto simp: exposure_untouched_def exposure_ok_def intro: exI [of _ "ej_disk s"])

lemma exposure_untouched_ok:
  assumes "exposure_ok c s" and "exposure_untouched s s'"
  shows "exposure_ok c s'"
proof -
  obtain ws body where ws: "take (unat (ej_size s)) (d_bytes (ej_disk s)) = exposure_magic @ body"
    "framed_by (exposure_payload c) ws body" "replay_exposures ws (exposure_fresh s) = Inr s"
    using assms(1) by (auto simp: exposure_ok_def exposure_replays_def)
  have "s' = exposure_outside s' s"
    using assms(2) by (auto simp: exposure_untouched_def exposure_outside_def)
  moreover have "exposure_fresh (exposure_outside s' s) = exposure_outside s' (exposure_fresh s)"
    by (simp add: exposure_fresh_def exposure_outside_def)
  ultimately have "replay_exposures ws (exposure_fresh s') = Inr s'"
    using replay_exposures_outside [of ws s' "exposure_fresh s"] ws(3) by simp
  then show ?thesis
    using assms ws(1,2) by (auto simp: exposure_ok_def exposure_replays_def exposure_untouched_def)
qed

subsection \<open>Appending\<close>

lemma try_truncate_keeps:
  assumes "unat n \<le> length (d_bytes d)"
  shows "take (unat n) (d_bytes (try_truncate d n)) = take (unat n) (d_bytes d)"
    "unat n \<le> length (d_bytes (try_truncate d n))"
proof -
  obtain e d1 where call: "single_call d = (e, d1)" by fastforce
  show "take (unat n) (d_bytes (try_truncate d n)) = take (unat n) (d_bytes d)"
    "unat n \<le> length (d_bytes (try_truncate d n))"
    using assms single_call_file [OF call] call by (auto simp: try_truncate_def ftruncate_def split: option.splits)
qed

lemma sync_exposure_keeps: "d_bytes (snd (sync_exposure d)) = d_bytes d"
proof -
  obtain r d' where "sync_exposure d = (r, d')" by fastforce
  then show ?thesis using sync_descriptor_file unfolding sync_exposure_def by auto
qed

text \<open>A successful append: the record, sealed, behind the acknowledged bytes.\<close>

definition exposure_appended ::
    "exposure_codec \<Rightarrow> path_exposure_journal_record \<Rightarrow> exposure_journal \<Rightarrow> exposure_journal \<Rightarrow> bool" where
  "exposure_appended c r s s' =
     (\<exists>digest payload d. let w = (encode_exposure r (ej_sequence s + 1) (ej_head_hash s))\<lparr>xw_record_hash := digest\<rparr> in
        length (ej_records s) < max_exposure_records \<and> exposure_digest w = Inr digest \<and>
        ec_write c w = Some payload \<and> payload \<noteq> [] \<and> length payload \<le> max_exposure_payload_bytes \<and>
        length (frame_of payload) \<le> unat (ej_max_bytes s) \<and>
        ej_size s \<le> ej_max_bytes s - of_nat (length (frame_of payload)) \<and>
        take (unat (ej_size s) + length (frame_of payload)) (d_bytes d) =
          take (unat (ej_size s)) (d_bytes (ej_disk s)) @ frame_of payload \<and>
        s' = enter_exposure w r (s\<lparr>ej_disk := d, ej_size := ej_size s + of_nat (length (frame_of payload))\<rparr>))"

lemma exposure_append_laws:
  assumes run: "exposure_append c r s = (result, s')" and len: "unat (ej_size s) \<le> length (d_bytes (ej_disk s))"
    and storable: "record_storable r"
  shows "(\<exists>e. result = Inl e) \<and> exposure_untouched s s' \<or> result = Inr () \<and> exposure_appended c r s s'"
proof -
  let ?w = "encode_exposure r (ej_sequence s + 1) (ej_head_hash s)"
  have same: "exposure_untouched s s"
    using len by (auto simp: exposure_untouched_def intro: exI [of _ "ej_disk s"])
  consider (kept) e where "result = Inl e" "s' = s"
    | (wrote) digest payload where "length (ej_records s) < max_exposure_records" "ej_sequence s \<noteq> - 1"
      "exposure_digest ?w = Inr digest" "ec_write c (?w\<lparr>xw_record_hash := digest\<rparr>) = Some payload" "payload \<noteq> []"
      "length payload \<le> max_exposure_payload_bytes" "length (frame_of payload) \<le> unat (ej_max_bytes s)"
      "ej_size s \<le> ej_max_bytes s - of_nat (length (frame_of payload))"
    using run decode_encode_exposure [OF storable]
    by (auto simp: exposure_append_def Let_def not_less not_le split: if_splits sum.splits option.splits)
  then show ?thesis
  proof cases
    case kept
    then show ?thesis using same by blast
  next
    case wrote
    let ?frame = "frame_of payload"
    obtain v d1 where v: "write_bytes exposure_write_text (ej_disk s) ?frame (ej_size s) = (v, d1)" by fastforce
    note over = write_bytes_overwrites [OF v len]
    have long: "unat (ej_size s) \<le> length (d_bytes d1)"
      using arg_cong [OF over(2), of length] len by simp
    obtain y d2 where y: "sync_exposure d1 = (y, d2)" by fastforce
    have d2: "d_bytes d2 = d_bytes d1" using sync_exposure_keeps [of d1] y by simp
    have undone: "exposure_untouched s (s\<lparr>ej_disk := d\<rparr>)"
      if "d = try_truncate d1 (ej_size s) \<or> d = snd (sync_exposure (try_truncate d2 (ej_size s)))" for d
      using that try_truncate_keeps [of "ej_size s" d1] try_truncate_keeps [of "ej_size s" d2] long d2 over(2)
      by (auto simp: exposure_untouched_def sync_exposure_keeps)
    have ran: "exposure_append c r s =
        (case v of Inl e \<Rightarrow> (Inl e, s\<lparr>ej_disk := try_truncate d1 (ej_size s)\<rparr>)
         | Inr _ \<Rightarrow> (case y of Inl e \<Rightarrow> (Inl e, s\<lparr>ej_disk := snd (sync_exposure (try_truncate d2 (ej_size s)))\<rparr>)
         | Inr _ \<Rightarrow> (Inr (), enter_exposure (?w\<lparr>xw_record_hash := digest\<rparr>) r
             (s\<lparr>ej_disk := d2, ej_size := ej_size s + of_nat (length ?frame)\<rparr>))))"
      using wrote v y decode_encode_exposure [OF storable] leD [OF wrote(8)]
      by (auto simp: exposure_append_def Let_def simp del: length_frame_of split: sum.splits)
    show ?thesis
    proof (cases "\<exists>e. v = Inl e \<or> y = Inl e")
      case True
      then show ?thesis using ran run undone by (cases v; cases y) auto
    next
      case False
      have "v = Inr ()" using False by (cases v) auto
      moreover have "y = Inr ()" using False by (cases y) auto
      ultimately have "result = Inr ()"
        "s' = enter_exposure (?w\<lparr>xw_record_hash := digest\<rparr>) r (s\<lparr>ej_disk := d2, ej_size := ej_size s + of_nat (length ?frame)\<rparr>)"
        "take (unat (ej_size s) + length ?frame) (d_bytes d2) = take (unat (ej_size s)) (d_bytes (ej_disk s)) @ ?frame"
        using ran run over(3) d2 by (auto simp del: length_frame_of)
      then show ?thesis
        using wrote unfolding exposure_appended_def Let_def
        by (intro disjI2 conjI exI [of _ digest] exI [of _ payload] exI [of _ d2]) (simp_all del: length_frame_of)
    qed
  qed
qed

lemma sum_fits:
  assumes "n \<le> unat (b :: u64)" and "a \<le> b - of_nat n"
  shows "unat a + n \<le> unat b"
proof -
  have "unat (of_nat n :: u64) = n"
    using assms(1) unsigned_less [of b, where 'a = nat] by (simp add: unsigned_of_nat take_bit_nat_eq_self)
  then have "unat (b - of_nat n) = unat b - n"
    using assms(1) by (subst unat_sub) (simp_all add: word_le_nat_alt)
  then show ?thesis using assms by (simp add: word_le_nat_alt)
qed

lemma exposure_appended_ok:
  assumes ok: "exposure_ok c s" and faithful: "exposure_codec_faithful c" and storable: "record_storable r"
    and appended: "exposure_appended c r s s'"
  shows "exposure_ok c s'" "ej_records s' = ej_records s @ [r]" "ej_max_bytes s' = ej_max_bytes s"
proof -
  let ?w = "\<lambda>digest. (encode_exposure r (ej_sequence s + 1) (ej_head_hash s))\<lparr>xw_record_hash := digest\<rparr>"
  obtain digest payload d where w: "length (ej_records s) < max_exposure_records" "exposure_digest (?w digest) = Inr digest"
    "ec_write c (?w digest) = Some payload" "payload \<noteq> []" "length payload \<le> max_exposure_payload_bytes"
    "length (frame_of payload) \<le> unat (ej_max_bytes s)"
    "ej_size s \<le> ej_max_bytes s - of_nat (length (frame_of payload))"
    "take (unat (ej_size s) + length (frame_of payload)) (d_bytes d) =
       take (unat (ej_size s)) (d_bytes (ej_disk s)) @ frame_of payload"
    "s' = enter_exposure (?w digest) r (s\<lparr>ej_disk := d, ej_size := ej_size s + of_nat (length (frame_of payload))\<rparr>)"
    using appended unfolding exposure_appended_def Let_def by blast
  let ?n = "length (frame_of payload)"
  obtain ws body where ws: "take (unat (ej_size s)) (d_bytes (ej_disk s)) = exposure_magic @ body"
    "framed_by (exposure_payload c) ws body" "replay_exposures ws (exposure_fresh s) = Inr s"
    using ok by (auto simp: exposure_ok_def exposure_replays_def)
  have fits: "unat (ej_size s) + ?n \<le> unat (ej_max_bytes s)"
    by (rule sum_fits [OF w(6,7)])
  then have size: "unat (ej_size s') = unat (ej_size s) + ?n"
    using w(9) unat_grow [OF fits] by (simp add: enter_exposure_def del: length_frame_of)
  have "exposure_payload c payload (?w digest)"
    using w(3-5) faithful by (auto simp: exposure_payload_def exposure_codec_faithful_def)
  then have framed: "framed_by (exposure_payload c) (ws @ [?w digest]) (body @ frame_of payload)"
    by (rule framed_by_snoc [OF ws(2)])
  have bytes: "take (unat (ej_size s')) (d_bytes (ej_disk s')) = exposure_magic @ body @ frame_of payload"
    using w(8,9) ws(1) size by (simp add: enter_exposure_def del: length_frame_of)
  have "valid_digest digest" using w(2) by (auto simp: exposure_digest_def dest: sha256_hex_valid)
  then have accepted: "accept_exposure (?w digest) (exposure_outside s' s) = Inr s'"
    using w(2,9) decode_encode_exposure [OF storable] by (simp add: accept_exposure_def exposure_outside_def enter_exposure_def)
  have "exposure_fresh s' = exposure_outside s' (exposure_fresh s)"
    using w(9) by (simp add: exposure_fresh_def exposure_outside_def enter_exposure_def)
  then have "replay_exposures ws (exposure_fresh s') = Inr (exposure_outside s' s)"
    by (simp add: replay_exposures_outside ws(3))
  then have "replay_exposures (ws @ [?w digest]) (exposure_fresh s') = Inr s'"
    using accepted w(1) by (simp add: replay_exposures_append)
  moreover have "unat (ej_size s') \<le> length (d_bytes (ej_disk s'))"
    using arg_cong [OF bytes, of length] arg_cong [OF ws(1), of length] ok size
    by (simp add: exposure_ok_def del: length_frame_of)
  moreover show "ej_max_bytes s' = ej_max_bytes s" using w(9) by (simp add: enter_exposure_def)
  ultimately show "exposure_ok c s'"
    using ok framed bytes size fits by (auto simp: exposure_ok_def exposure_replays_def word_le_nat_alt)
  show "ej_records s' = ej_records s @ [r]" using w(9) by (simp add: enter_exposure_def)
qed

lemma exposure_append_contract:
  assumes "exposure_ok c s" and "exposure_codec_faithful c" and "record_storable r"
    and "exposure_append c r s = (result, s')"
  shows "exposure_ok c s'" "ej_max_bytes s' = ej_max_bytes s"
    "(\<exists>e. result = Inl e) \<and> ej_records s' = ej_records s \<or> result = Inr () \<and> ej_records s' = ej_records s @ [r]"
proof -
  have "(\<exists>e. result = Inl e) \<and> exposure_untouched s s' \<or> result = Inr () \<and> exposure_appended c r s s'"
    using exposure_append_laws [OF assms(4) _ assms(3)] assms(1) by (simp add: exposure_ok_def)
  then show "exposure_ok c s'" "ej_max_bytes s' = ej_max_bytes s"
    "(\<exists>e. result = Inl e) \<and> ej_records s' = ej_records s \<or> result = Inr () \<and> ej_records s' = ej_records s @ [r]"
    using exposure_untouched_ok [OF assms(1)] exposure_appended_ok [OF assms(1-3)]
    by (auto simp: exposure_untouched_def)
qed

subsection \<open>Opening\<close>

text \<open>The scan of an arbitrary file: what it accepts is framed and replays.\<close>

lemma scan_exposures_sound:
  assumes "scan_exposures c offset s = Inr s'" and "offset \<le> ej_size s"
    and "unat (ej_size s) \<le> length (d_bytes (ej_disk s))" and "length (d_bytes (ej_disk s)) \<le> off_t_max"
  shows "\<exists>ws body os. take (unat (ej_size s)) (d_bytes (ej_disk s)) =
      take (unat offset) (d_bytes (ej_disk s)) @ body \<and> framed_by (exposure_payload c) ws body \<and>
      replay_exposures ws (s\<lparr>ej_disk := (ej_disk s)\<lparr>d_outcomes := os\<rparr>\<rparr>) = Inr s'"
  using assms
proof (induction c offset s rule: scan_exposures.induct)
  case (1 c offset s)
  show ?case
  proof (cases "offset < ej_size s")
    case False
    then have "s' = s" using 1(2) by (simp add: scan_exposures.simps [of c offset s])
    moreover have "offset = ej_size s" using False 1(3) by simp
    ultimately have "offset = ej_size s" "s' = s" by simp_all
    then show ?thesis by (intro exI [of _ "[]"] exI [of _ "d_outcomes (ej_disk s)"]) simp
  next
    case True
    obtain s1 offset1 where step: "scan_exposure c offset s = Inr (s1, offset1)" "scan_exposures c offset1 s1 = Inr s'"
      using 1(2) True by (auto simp: scan_exposures.simps [of c offset s] split: sum.splits)
    from step(1) show ?thesis
    proof (rule scan_exposure_cases)
      fix h d1 p d2 f d3 w
      let ?n = "decode_u32 h"
      assume reads: "read_bytes exposure_read_text (ej_disk s) 4 offset = (Inr h, d1)"
        "read_bytes exposure_read_text d1 (unat ?n) (offset + 4) = (Inr p, d2)"
        "read_bytes exposure_read_text d2 4 (offset + 4 + ucast ?n) = (Inr f, d3)"
        and foot: "decode_u32 f = ?n" and w: "ec_read c (string_of_bytes p) = Some w"
        and room: "length (ej_records s) < max_exposure_records" "?n \<noteq> 0"
        "unat ?n \<le> max_exposure_payload_bytes" "ucast ?n + 8 \<le> ej_size s - offset"
        and next_state: "accept_exposure w (s\<lparr>ej_disk := d3\<rparr>) = Inr s1" "offset1 = offset + (ucast ?n + 8)"
      have wide: "unat (ucast ?n + 8 :: u64) = unat ?n + 8" "unat (ucast ?n :: u64) = unat ?n"
        using room(3) unat_widen [of ?n] by (simp_all add: unat_word_ariths max_exposure_payload_bytes_def)
      have gap: "unat (ej_size s - offset) = unat (ej_size s) - unat offset"
        using 1(3) by (rule unat_sub)
      then have inside: "unat offset + 8 + unat (ucast ?n :: u64) \<le> unat (ej_size s)"
        using room(4) wide 1(3) by (simp add: word_le_nat_alt)
      then have inside': "unat offset + 8 + unat (ucast ?n :: u64) \<le> length (d_bytes (ej_disk s))"
        using 1(4) by simp
      have reads2: "read_bytes exposure_read_text d1 (unat (ucast ?n :: u64)) (offset + 4) = (Inr p, d2)"
        using reads(2) wide(2) by simp
      note frame = frame_sound [OF reads(1) reads2 reads(3) refl foot 1(5) inside']
      obtain os where d3: "d3 = (ej_disk s)\<lparr>d_outcomes := os\<rparr>" using frame(3) by blast
      have kept: "ej_disk s1 = d3" "ej_size s1 = ej_size s"
        using accept_exposure_keeps [OF next_state(1)] by simp_all
      have offset1: "unat offset1 = unat offset + (unat ?n + 8)"
      proof -
        have "unat offset + (unat ?n + 8) < 2 ^ 64"
          using inside wide(2) unsigned_less [of "ej_size s", where 'a = nat] by simp
        then show ?thesis using next_state(2) wide(1) by (simp add: unat_word_ariths)
      qed
      have "offset1 \<le> ej_size s1"
        using offset1 inside wide(2) kept(2) by (simp add: word_le_nat_alt)
      moreover have "unat (ej_size s1) \<le> length (d_bytes (ej_disk s1))" "length (d_bytes (ej_disk s1)) \<le> off_t_max"
        using 1(4,5) kept d3 by simp_all
      ultimately obtain ws body os1 where rest: "take (unat (ej_size s)) (d_bytes (ej_disk s)) =
          take (unat offset1) (d_bytes (ej_disk s)) @ body" "framed_by (exposure_payload c) ws body"
          "replay_exposures ws (s1\<lparr>ej_disk := (ej_disk s)\<lparr>d_outcomes := os1\<rparr>\<rparr>) = Inr s'"
        using 1(1) [OF _ step(1) refl step(2)] True kept d3 by auto
      let ?frame = "frame_of (string_of_bytes p)"
      have length_frame: "length ?frame = unat ?n + 8" using frame(2) wide(2) by simp
      have "take (unat offset1) (d_bytes (ej_disk s)) = take (unat offset) (d_bytes (ej_disk s)) @ ?frame"
      proof -
        have "take (unat offset1) (d_bytes (ej_disk s)) =
            take (unat offset) (d_bytes (ej_disk s)) @ take (unat ?n + 8) (drop (unat offset) (d_bytes (ej_disk s)))"
          using offset1 by (simp add: take_add)
        also have "take (unat ?n + 8) (drop (unat offset) (d_bytes (ej_disk s))) = ?frame"
          using arg_cong [OF frame(1), of "take (unat ?n + 8)"] length_frame by simp
        finally show ?thesis .
      qed
      then have bytes: "take (unat (ej_size s)) (d_bytes (ej_disk s)) =
          take (unat offset) (d_bytes (ej_disk s)) @ (?frame @ body)"
        using rest(1) by simp
      have "exposure_payload c (string_of_bytes p) w"
        using w frame(2) room(2,3) wide(2) by (auto simp: exposure_payload_def unat_eq_zero)
      then have framed: "framed_by (exposure_payload c) (w # ws) (?frame @ body)"
        using rest(2) by (auto simp: framed_by_Cons)
      let ?d = "(ej_disk s)\<lparr>d_outcomes := os1\<rparr>"
      have "accept_exposure w (s\<lparr>ej_disk := ?d\<rparr>) = Inr (s1\<lparr>ej_disk := ?d\<rparr>)"
        using next_state(1) by (auto simp: accept_exposure_def enter_exposure_def and_then_Inr split: if_splits)
      then have "replay_exposures (w # ws) (s\<lparr>ej_disk := ?d\<rparr>) = Inr s'"
        using rest(3) room(1) by simp
      with bytes framed show ?thesis by blast
    qed
  qed
qed

lemma validate_exposure_file_laws:
  assumes "validate_exposure_file d max_bytes = (Inr n, d')"
  shows "unat n = length (d_bytes d')" "n \<le> max_bytes"
proof -
  obtain e d1 where call: "single_call d = (e, d1)" by fastforce
  then have checked: "n = of_nat (length (d_bytes d))" "d_bytes d' = d_bytes d" "length (d_bytes d) \<le> unat max_bytes"
    using assms single_call_file [OF call] by (auto simp: validate_exposure_file_def split: if_splits option.splits)
  then show "unat n = length (d_bytes d')" "n \<le> max_bytes"
    using unsigned_less [of max_bytes, where 'a = nat]
    by (auto simp: unsigned_of_nat take_bit_nat_eq_self word_le_nat_alt)
qed

lemma open_exposure_file_laws:
  assumes "open_exposure_file path max_bytes loc = Inr (d, n)"
  shows "unat n \<le> length (d_bytes d)" "n \<le> max_bytes"
proof -
  have "unat n \<le> length (d_bytes d) \<and> n \<le> max_bytes"
  proof (cases "cl_entry loc")
    case (Existing d0)
    obtain e1 d1 where "retried_call d0 = (e1, d1)" by fastforce
    moreover obtain v d2 where v: "validate_exposure_file d1 max_bytes = (v, d2)" by fastforce
    ultimately have "v = Inr n" "d2 = d"
      using assms Existing by (auto simp: open_exposure_file_def split: if_splits option.splits sum.splits)
    then show ?thesis using validate_exposure_file_laws [of d1 max_bytes n d] v by simp
  next
    case (Fresh d0)
    obtain e1 d1 where "retried_call d0 = (e1, d1)" by fastforce
    moreover obtain v d2 where "validate_exposure_file d1 max_bytes = (v, d2)" by fastforce
    ultimately have "initialise_exposure_file d2 max_bytes = Inr (d, n)"
      using assms Fresh by (auto simp: open_exposure_file_def split: if_splits option.splits sum.splits)
    moreover obtain w d3 where w: "write_bytes exposure_write_text d2 exposure_magic 0 = (w, d3)" by fastforce
    ultimately have init: "w = Inr ()" "d = snd (sync_exposure (snd (sync_exposure d3)))" "n = of_nat (length exposure_magic)"
      "length exposure_magic \<le> unat max_bytes"
      by (auto simp: initialise_exposure_file_def split: if_splits prod.splits sum.splits)
    have "take (length exposure_magic) (d_bytes d) = exposure_magic"
      using write_bytes_overwrites(3) [OF w] init by (simp add: sync_exposure_keeps)
    from arg_cong [OF this, of length] show ?thesis
      using init(3,4) by (simp add: exposure_magic_def word_le_nat_alt min_def split: if_splits)
  next
    case (Unavailable e)
    then show ?thesis using assms by (auto simp: open_exposure_file_def split: if_splits option.splits)
  qed
  then show "unat n \<le> length (d_bytes d)" "n \<le> max_bytes" by auto
qed

lemma length_exposure_magic [simp]: "length exposure_magic = 16"
  by (simp add: exposure_magic_def)

lemma scan_exposures_file:
  "scan_exposures c offset t = Inr t' \<Longrightarrow>
     ej_size t' = ej_size t \<and> ej_max_bytes t' = ej_max_bytes t \<and> d_bytes (ej_disk t') = d_bytes (ej_disk t)"
proof (induction c offset t rule: scan_exposures.induct)
  case (1 c offset t)
  show ?case
  proof (cases "offset < ej_size t")
    case True
    then obtain t1 offset1 where step: "scan_exposure c offset t = Inr (t1, offset1)" "scan_exposures c offset1 t1 = Inr t'"
      using 1(2) by (auto simp: scan_exposures.simps [of c offset t] split: sum.splits)
    have "ej_size t1 = ej_size t \<and> ej_max_bytes t1 = ej_max_bytes t \<and> d_bytes (ej_disk t1) = d_bytes (ej_disk t)"
      using step(1)
    proof (rule scan_exposure_cases)
      fix h da p db f dc w
      assume reads: "read_bytes exposure_read_text (ej_disk t) 4 offset = (Inr h, da)"
        "read_bytes exposure_read_text da (unat (decode_u32 h)) (offset + 4) = (Inr p, db)"
        "read_bytes exposure_read_text db 4 (offset + 4 + ucast (decode_u32 h)) = (Inr f, dc)"
        and accepted: "accept_exposure w (t\<lparr>ej_disk := dc\<rparr>) = Inr t1"
      have "d_bytes dc = d_bytes (ej_disk t)"
        using read_bytes_sound(3) [OF reads(1)] read_bytes_sound(3) [OF reads(2)] read_bytes_sound(3) [OF reads(3)] by auto
      then show ?thesis using accept_exposure_keeps [OF accepted] by simp
    qed
    then show ?thesis using 1(1) [OF _ step(1) refl step(2)] True by simp
  qed (use 1(2) in \<open>simp add: scan_exposures.simps [of c offset t]\<close>)
qed

lemma exposure_open_ok:
  assumes "exposure_open c path max_bytes loc = Inr s" and "length (d_bytes (ej_disk s)) \<le> off_t_max"
  shows "exposure_ok c s" "ej_max_bytes s = max_bytes"
proof -
  obtain d n where opens: "open_exposure_file path max_bytes loc = Inr (d, n)"
    using assms(1) by (auto simp: exposure_open_def and_then_Inr split: if_splits)
  obtain r d1 where r: "read_bytes exposure_read_text d 16 0 = (r, d1)" by fastforce
  let ?s0 = "\<lparr>ej_disk = d1, ej_size = n, ej_max_bytes = max_bytes, ej_sequence = 0,
      ej_head_hash = replicate 64 (CHR ''0''), ej_records = []\<rparr>"
  have opened: "r = Inr exposure_magic" "24 \<le> unat max_bytes" "16 \<le> unat n" "scan_exposures c 16 ?s0 = Inr s"
    using assms(1) opens r by (auto simp: exposure_open_def not_less split: if_splits sum.splits)
  note laws = open_exposure_file_laws [OF opens] and header = read_bytes_sound [OF r [unfolded opened(1)]]
  have d1: "d_bytes d1 = d_bytes d" using header(3) by auto
  have kept: "ej_size s = n \<and> ej_max_bytes s = max_bytes \<and> d_bytes (ej_disk s) = d_bytes d"
    using scan_exposures_file [OF opened(4)] d1 by simp
  then show "ej_max_bytes s = max_bytes" by simp
  have "(16 :: u64) \<le> ej_size ?s0" using opened(3) by (simp add: word_le_nat_alt)
  moreover have "unat (ej_size ?s0) \<le> length (d_bytes (ej_disk ?s0))" "length (d_bytes (ej_disk ?s0)) \<le> off_t_max"
    using laws(1) d1 kept assms(2) by simp_all
  ultimately obtain ws body os where scanned: "take (unat n) (d_bytes d) = take 16 (d_bytes d) @ body"
    "framed_by (exposure_payload c) ws body" "replay_exposures ws (?s0\<lparr>ej_disk := d1\<lparr>d_outcomes := os\<rparr>\<rparr>) = Inr s"
    using scan_exposures_sound [OF opened(4)] d1 by auto
  have "ej_disk s = d1\<lparr>d_outcomes := os\<rparr>" using replay_exposures_file [OF scanned(3)] by simp
  then have "exposure_fresh s = ?s0\<lparr>ej_disk := d1\<lparr>d_outcomes := os\<rparr>\<rparr>"
    using kept by (simp add: exposure_fresh_def)
  moreover have "take 16 (d_bytes d) = exposure_magic" using header(2) by simp
  ultimately show "exposure_ok c s"
    using scanned kept laws opened(2) by (auto simp: exposure_ok_def exposure_replays_def)
qed

text \<open>The scan of frames that replay, when the kernel interposes nothing.\<close>

lemma scan_exposures_complete:
  assumes "framed_by (exposure_payload c) ws body" and "replay_exposures ws s = Inr s'"
    and "d_bytes (ej_disk s) = pre @ body" and "unat offset = length pre"
    and "unat (ej_size s) = length (pre @ body)" and "length (pre @ body) \<le> off_t_max" and "d_outcomes (ej_disk s) = []"
  shows "scan_exposures c offset s = Inr s'"
  using assms
proof (induction ws arbitrary: s pre body offset)
  case Nil
  then have "\<not> offset < ej_size s" by (simp add: word_less_nat_alt)
  then have "scan_exposures c offset s = Inr s" by (simp add: scan_exposures.simps [of c offset s])
  with Nil show ?case by simp
next
  case (Cons w ws)
  obtain payload tail where split: "exposure_payload c payload w" "framed_by (exposure_payload c) ws tail"
    "body = frame_of payload @ tail"
    using Cons.prems(1) by (auto simp: framed_by_Cons)
  obtain s1 where s1: "length (ej_records s) < max_exposure_records" "accept_exposure w s = Inr s1" "replay_exposures ws s1 = Inr s'"
    using Cons.prems(2) by (auto simp: and_then_Inr not_le split: if_splits)
  have small: "length payload < 2 ^ 32" "payload \<noteq> []" "length payload \<le> max_exposure_payload_bytes"
    "ec_read c payload = Some w"
    using split(1) by (auto simp: exposure_payload_def max_exposure_payload_bytes_def)
  note sizes = size_roundtrip [OF small(1)]
  let ?n = "of_nat (length payload) :: u32"
  obtain h d1 where h: "read_bytes exposure_read_text (ej_disk s) 4 offset = (h, d1)" by fastforce
  obtain p d2 where p: "read_bytes exposure_read_text d1 (length payload) (offset + 4) = (p, d2)" by fastforce
  obtain f d3 where f: "read_bytes exposure_read_text d2 4 (offset + 4 + of_nat (length payload)) = (f, d3)" by fastforce
  have whole: "d_bytes (ej_disk s) = pre @ frame_of payload @ tail"
    using Cons.prems(3) split(3) by simp
  have bounded: "length (d_bytes (ej_disk s)) \<le> off_t_max" using Cons.prems(3,6) by simp
  note reads = frame_reads [OF whole bounded Cons.prems(4) small(1) h p f]
  have read: "h = Inr (enc_u32 ?n)" "p = Inr (bytes_of_string payload)" "f = Inr (enc_u32 ?n)" "d_outcomes d3 = []"
    using reads(7) Cons.prems(7) by auto
  obtain os where "d3 = (ej_disk s)\<lparr>d_outcomes := os\<rparr>" using reads(3) by blast
  then have d3: "d3 = ej_disk s" using read(4) Cons.prems(7) by (cases "ej_disk s") simp
  have size: "unat (ej_size s) = length pre + (length payload + 8) + length tail"
    using Cons.prems(5) split(3) by simp
  have "offset \<le> ej_size s" using size Cons.prems(4) by (simp add: word_le_nat_alt)
  then have gap: "unat (ej_size s - offset) = length payload + 8 + length tail"
    using size Cons.prems(4) by (simp add: unat_sub)
  have wide: "unat (of_nat (length payload) + 8 :: u64) = length payload + 8"
    using small(3) by (simp add: unat_word_ariths unsigned_of_nat take_bit_nat_eq_self max_exposure_payload_bytes_def)
  have room: "\<not> ej_size s - offset < 8" "\<not> ej_size s - offset < of_nat (length payload) + 8"
    using gap wide by (simp_all add: word_less_nat_alt)
  have offset1: "unat (offset + (of_nat (length payload) + 8)) = length (pre @ frame_of payload)"
  proof -
    have "length pre + (length payload + 8) < 2 ^ 64"
      using size unsigned_less [of "ej_size s", where 'a = nat] by simp
    then show ?thesis using Cons.prems(4) wide by (simp add: unat_word_ariths)
  qed
  have nonzero: "?n \<noteq> 0" using sizes(3) small(2) by auto
  have "scan_exposure c offset s = Inr (s1, offset + (of_nat (length payload) + 8))"
    using h p f read d3 room nonzero sizes s1(1,2) small(3,4) leD [of "length (ej_records s)"]
    by (simp add: scan_exposure_def Let_def not_le)
  moreover have "scan_exposures c (offset + (of_nat (length payload) + 8)) s1 = Inr s'"
    using accept_exposure_keeps [OF s1(2)] whole Cons.prems(5-7) split(3)
    by (intro Cons.IH [OF split(2) s1(3) _ offset1]) simp_all
  moreover have "offset < ej_size s" using size Cons.prems(4) by (simp add: word_less_nat_alt)
  ultimately show ?case by (simp add: scan_exposures.simps [of c offset s])
qed

lemma exposure_ok_reopens:
  assumes "exposure_ok c s" and "change_quiet d" and "is_absolute path" and "filename path \<noteq> []"
    and "d_bytes d = take (unat (ej_size s)) (d_bytes (ej_disk s))" and "length (d_bytes d) \<le> off_t_max"
  shows "exposure_open c path (ej_max_bytes s) (change_at d) =
    Inr (s\<lparr>ej_disk := d\<rparr>)"
proof -
  obtain ws body where ws: "take (unat (ej_size s)) (d_bytes (ej_disk s)) = exposure_magic @ body"
    "framed_by (exposure_payload c) ws body" "replay_exposures ws (exposure_fresh s) = Inr s"
    using assms(1) by (auto simp: exposure_ok_def exposure_replays_def)
  have len: "length (d_bytes d) = unat (ej_size s)" using assms(1,5) by (simp add: exposure_ok_def)
  have quiet: "d_outcomes d = []" "owner_only_file (d_euid d) (d_meta d)"
    using assms(2) by (simp_all add: change_quiet_def)
  have "of_nat (length (d_bytes d)) = ej_size s" using len by (metis of_nat_unat ucast_id)
  moreover have "length (d_bytes d) \<le> unat (ej_max_bytes s)"
    using len assms(1) by (simp add: exposure_ok_def word_le_nat_alt)
  ultimately have opens: "open_exposure_file path (ej_max_bytes s) (change_at d) = Inr (d, ej_size s)"
    using assms(3,4) quiet by (cases d)
      (simp add: open_exposure_file_def change_at_def retried_call_def validate_exposure_file_def single_call_def)
  have bytes: "d_bytes d = exposure_magic @ body" using assms(5) ws(1) by simp
  have header: "read_bytes exposure_read_text d 16 0 = (Inr exposure_magic, d)"
    using bytes by (subst read_bytes_calm) (simp_all add: quiet exposure_read_text_def)
  let ?s = "s\<lparr>ej_disk := d\<rparr>"
  have outside: "?s = exposure_outside ?s s" "exposure_fresh ?s = exposure_outside ?s (exposure_fresh s)"
    by (simp_all add: exposure_outside_def exposure_fresh_def)
  have replayed: "replay_exposures ws (exposure_fresh ?s) = Inr ?s"
    unfolding outside(2) replay_exposures_outside ws(3) using outside(1) by simp
  have "scan_exposures c 16 (exposure_fresh ?s) = Inr ?s"
    using bytes len assms(6) quiet
    by (intro scan_exposures_complete [OF ws(2) replayed, of exposure_magic]) (simp_all add: exposure_fresh_def)
  moreover have "unat (ej_size s) \<ge> 16" "24 \<le> unat (ej_max_bytes s)"
    using len bytes assms(1) by (simp_all add: exposure_ok_def)
  ultimately show ?thesis
    using opens header by (cases s) (simp add: exposure_open_def exposure_fresh_def)
qed

end
