(* ===== verification/Exposure_Laws.thy ===== *)
theory Exposure_Laws
  imports Path_Exposure Exposure_Journal_Laws
begin

text \<open>
  What the operations of the exposure registry guarantee: they journal what they enter into the maps,
  and replaying the journal enters it again.  Descriptors of open files are the one part of the
  registry that a restart does not reproduce; the view of a registry leaves them out.
\<close>

subsection \<open>Canonical collections\<close>

lemma adjacent_equal_sorted: "sorted xs \<Longrightarrow> adjacent_equal xs \<longleftrightarrow> \<not> distinct xs" for xs :: "'a :: linorder list"
  by (induction xs rule: adjacent_equal.induct) auto

lemma binary_search_iff: "sorted xs \<Longrightarrow> binary_search xs x \<longleftrightarrow> x \<in> set xs"
  by (induction xs) (auto simp: binary_search_def split: if_splits option.splits)

lemma sort_key_Nil [simp]: "sort_key f xs = [] \<longleftrightarrow> xs = []"
  by (metis length_0_conv length_sort)

lemma canonical_modes_laws:
  assumes "canonical_modes modes = Inr canonical"
  shows "canonical_modes canonical = Inr canonical" "list_all valid_mode canonical" "set canonical = set modes"
  using assms by (auto simp: canonical_modes_def Let_def list_ex_iff list_all_iff sort_key_id_if_sorted split: if_splits)

lemma canonical_runtimes_laws:
  assumes "canonical_runtimes runtimes = Inr canonical"
  shows "canonical_runtimes canonical = Inr canonical" "sorted canonical" "set canonical = set runtimes"
  using assms by (auto simp: canonical_runtimes_def Let_def list_ex_iff sorted_sort_id split: if_splits)

lemma valid_mode_plain: "valid_mode m \<Longrightarrow> plain_mode m"
  by (auto simp: valid_mode_def plain_mode_def split: path_access.splits)

subsection \<open>Ordered maps\<close>

definition map_values :: "('v \<Rightarrow> 'w) \<Rightarrow> ('k \<times> 'v) list \<Rightarrow> ('k \<times> 'w) list" where
  "map_values f m = map (\<lambda>(k, v). (k, f v)) m"

lemma map_of_map_values: "map_of (map_values f m) k = map_option f (map_of m k)"
  by (simp add: map_values_def map_of_map)

lemma length_map_values [simp]: "length (map_values f m) = length m"
  by (simp add: map_values_def)

lemma map_values_insort:
  "map_values f (insort_key fst (k, v) m) = insort_key fst (k, f v) (map_values f m)"
  by (induction m) (auto simp: map_values_def)

lemma map_values_emplace: "map_values f (map_emplace k v m) = map_emplace k (f v) (map_values f m)"
  by (simp add: map_emplace_def map_values_insort map_of_map_values)

lemma map_values_change:
  "(\<And>v. f (g v) = g (f v)) \<Longrightarrow> map_values f (map_change k g m) = map_change k g (map_values f m)"
  by (induction m) (auto simp: map_values_def map_change_def)

lemma map_of_map_emplace: "map_of m k = None \<Longrightarrow> map_of (map_emplace k v m) = (map_of m)(k \<mapsto> v)"
  by (simp add: map_emplace_def map_of_insort_key)

lemma map_of_map_change: "map_of (map_change k f m) j = map_option (if j = k then f else id) (map_of m j)"
  by (induction m) (auto simp: map_change_def)

subsection \<open>Views\<close>

definition forget_descriptor :: "exposure_record \<Rightarrow> exposure_record" where
  "forget_descriptor v = v\<lparr>xp_source_descriptor := 0\<rparr>"

definition exposure_view where
  "exposure_view s =
     (map_values rt_policy (er_roots s), map_values forget_descriptor (er_exposures s), er_last_generation s, er_requests s)"

lemma forget_descriptor_simps [simp]:
  "xp_descriptor (forget_descriptor v) = xp_descriptor v" "xp_request_digest (forget_descriptor v) = xp_request_digest v"
  "xp_host_path (forget_descriptor v) = xp_host_path v"
  "forget_descriptor (v\<lparr>xp_source_descriptor := fd\<rparr>) = forget_descriptor v"
  by (simp_all add: forget_descriptor_def)

definition exposure_entry :: "exposure_registry \<Rightarrow> string \<times> u64 \<Rightarrow> exposure_record option" where
  "exposure_entry s k = map_option forget_descriptor (map_of (er_exposures s) k)"

definition root_policy :: "exposure_registry \<Rightarrow> string \<Rightarrow> path_exposure_root_policy option" where
  "root_policy s k = map_option rt_policy (map_of (er_roots s) k)"

lemma view_eqD:
  assumes "exposure_view s = exposure_view t"
  shows "root_policy s = root_policy t" "exposure_entry s = exposure_entry t"
    "length (er_exposures s) = length (er_exposures t)" "er_last_generation s = er_last_generation t" "er_requests s = er_requests t"
proof -
  have eqs: "map_values rt_policy (er_roots s) = map_values rt_policy (er_roots t)"
    "map_values forget_descriptor (er_exposures s) = map_values forget_descriptor (er_exposures t)"
    "er_last_generation s = er_last_generation t" "er_requests s = er_requests t"
    using assms by (simp_all add: exposure_view_def)
  show "root_policy s = root_policy t"
    using arg_cong [OF eqs(1), of map_of] by (auto simp: fun_eq_iff root_policy_def map_of_map_values)
  show "exposure_entry s = exposure_entry t"
    using arg_cong [OF eqs(2), of map_of] by (auto simp: fun_eq_iff exposure_entry_def map_of_map_values)
  show "length (er_exposures s) = length (er_exposures t)"
    using arg_cong [OF eqs(2), of length] by simp
  show "er_last_generation s = er_last_generation t" "er_requests s = er_requests t"
    by (rule eqs)+
qed

text \<open>The conditions of replay, read off the view.\<close>

lemma replayable_create_policy:
  "replayable_create x s =
     (let d = xc_descriptor x in
      case root_policy s (pd_root_id d) of
        None \<Rightarrow> False
      | Some p \<Rightarrow>
          pd_schema_version d = 1 \<and> valid_identifier (pd_exposure_id d) \<and> pd_generation d \<noteq> 0 \<and>
          valid_digest (pd_source_identity_digest d) \<and> valid_digest (pd_scope_digest d) \<and> valid_label (pd_display_label d) \<and>
          pd_expires_at_ms d \<noteq> 0 \<and> pd_state d = Active \<and> valid_identifier (xc_request_id x) \<and>
          valid_digest (xc_request_digest x) \<and> valid_absolute_path (xc_host_path x) \<and> \<not> reserved_host_path (xc_host_path x) \<and>
          valid_digest (xc_parent_identity_digest x) \<and> canonical_modes (pd_allowed_modes d) = Inr (pd_allowed_modes d) \<and>
          canonical_runtimes (pd_allowed_runtime_template_ids d) = Inr (pd_allowed_runtime_template_ids d) \<and>
          er_last_generation s (pd_exposure_id d) \<noteq> - 1 \<and>
          pd_generation d = er_last_generation s (pd_exposure_id d) + 1 \<and>
          length (er_exposures s) < max_exposures \<and> er_requests s (xc_request_id x) = None \<and>
          xc_host_path x \<noteq> rp_host_root p \<and> path_within (xc_host_path x) (rp_host_root p) \<and>
          within_policy p (pd_allowed_modes d) (pd_allowed_runtime_template_ids d))"
  by (cases "map_of (er_roots s) (pd_root_id (xc_descriptor x))")
    (auto simp only: replayable_create_def root_policy_def Let_def option.map option.case de_Morgan_disj not_not not_le)

lemma replayable_create_view:
  "exposure_view s = exposure_view t \<Longrightarrow> replayable_create x s = replayable_create x t"
  unfolding replayable_create_policy by (frule view_eqD(1), frule view_eqD(3), frule view_eqD(4), frule view_eqD(5))
    (simp add: Let_def cong del: option.case_cong_weak)

lemma enter_created_view:
  assumes "exposure_view s = exposure_view t"
  shows "exposure_view (enter_created x fd s) = exposure_view (enter_created x fd' t)"
  using assms by (simp add: exposure_view_def enter_created_def Let_def map_values_emplace forget_descriptor_def)

lemma enter_revoked_view:
  assumes "exposure_view s = exposure_view t"
  shows "exposure_view (enter_revoked x s) = exposure_view (enter_revoked x t)"
  using assms by (simp add: exposure_view_def enter_revoked_def map_values_change forget_descriptor_def)

lemma replay_create_Inr:
  "replay_create h x s = Inr s' \<longleftrightarrow>
     replayable_create x s \<and> scope_digest (xc_descriptor x) = Inr (pd_scope_digest (xc_descriptor x)) \<and>
     s' = enter_created x (case open_beneath_root h (the (map_of (er_roots s) (pd_root_id (xc_descriptor x)))) (xc_host_path x) of
       Inl _ \<Rightarrow> - 1 | Inr fd \<Rightarrow> fd) s"
  by (auto simp: replay_create_def Let_def split: sum.splits)

definition replayable_revoke :: "path_exposure_revoke_record \<Rightarrow> exposure_registry \<Rightarrow> bool" where
  "replayable_revoke x s =
     (\<exists>v. exposure_entry s (xr_exposure_id x, xr_generation x) = Some v \<and> pd_state (xp_descriptor v) = Active \<and>
        xr_state x \<noteq> Active \<and> xr_revoked_at_ms x \<noteq> 0 \<and> valid_identifier (xr_request_id x) \<and>
        valid_digest (xr_request_digest x) \<and> er_requests s (xr_request_id x) = None \<and>
        revoke_request_digest (xr_request_id x) (xr_exposure_id x) (xr_generation x) = Inr (xr_request_digest x))"

lemma replay_revoke_Inr: "replay_revoke x s = Inr s' \<longleftrightarrow> replayable_revoke x s \<and> s' = enter_revoked x s"
  by (auto simp: replay_revoke_def replayable_revoke_def exposure_entry_def split: option.splits)

lemma replayable_revoke_view: "exposure_view s = exposure_view t \<Longrightarrow> replayable_revoke x s = replayable_revoke x t"
  unfolding replayable_revoke_def by (frule view_eqD(2), frule view_eqD(5)) simp

text \<open>Replay succeeds alike on registries with the same view, whatever the host's files are.\<close>

lemma replay_events_view:
  "replay_events h rs s = Inr s' \<Longrightarrow> exposure_view s = exposure_view t \<Longrightarrow>
     \<exists>t'. replay_events h' rs t = Inr t' \<and> exposure_view s' = exposure_view t'"
proof (induction rs arbitrary: s t)
  case (Cons r rs)
  show ?case
  proof (cases r)
    case (Create_record x)
    then obtain s1 where s1: "replay_create h x s = Inr s1" "replay_events h rs s1 = Inr s'"
      using Cons.prems(1) by (auto simp: and_then_Inr)
    obtain t1 where "replay_create h' x t = Inr t1" "exposure_view s1 = exposure_view t1"
      using s1(1) replayable_create_view [OF Cons.prems(2)] enter_created_view [OF Cons.prems(2)]
      by (auto simp: replay_create_Inr)
    then show ?thesis using Cons.IH [OF s1(2)] Create_record by simp
  next
    case (Revoke_record x)
    then obtain s1 where s1: "replay_revoke x s = Inr s1" "replay_events h rs s1 = Inr s'"
      using Cons.prems(1) by (auto simp: and_then_Inr)
    obtain t1 where "replay_revoke x t = Inr t1" "exposure_view s1 = exposure_view t1"
      using s1(1) replayable_revoke_view [OF Cons.prems(2)] enter_revoked_view [OF Cons.prems(2)]
      by (auto simp: replay_revoke_Inr)
    then show ?thesis using Cons.IH [OF s1(2)] Revoke_record by simp
  qed
qed simp

lemma replay_events_append: "replay_events h (rs @ us) s = and_then (replay_events h rs s) (replay_events h us)"
proof (induction rs arbitrary: s)
  case (Cons r rs)
  then show ?case by (cases r) (auto simp: and_then_def split: sum.split)
qed simp

end
