(* ===== verification/Exposure_Contracts.thy ===== *)
theory Exposure_Contracts
  imports Exposure_Laws
begin

text \<open>
  The contract of the operations that write: an operation that fails leaves the maps as they were, one
  that succeeds appends one record to the journal that replay accepts, and enters it.
\<close>

definition registry_kept :: "exposure_codec \<Rightarrow> exposure_registry \<Rightarrow> exposure_registry \<Rightarrow> bool" where
  "registry_kept c s s' =
     (s' = s \<or> (\<exists>r j j1 e. record_storable r \<and> er_journal s = Some j \<and> exposure_append c r j = (Inl e, j1) \<and>
        s' = s\<lparr>er_journal := Some j1\<rparr>))"

definition registry_journals ::
    "exposure_codec \<Rightarrow> path_exposure_journal_record \<Rightarrow> exposure_registry \<Rightarrow> exposure_registry \<Rightarrow> bool" where
  "registry_journals c r s s1 =
     (record_storable r \<and>
      (case er_journal s of
         None \<Rightarrow> s1 = s
       | Some j \<Rightarrow> \<exists>j1. exposure_append c r j = (Inr (), j1) \<and> s1 = s\<lparr>er_journal := Some j1\<rparr>))"

lemma journal_exposure_cases:
  assumes "journal_exposure c r s = (result, s1)" and "record_storable r"
  shows "(\<exists>e. result = Inl e) \<and> registry_kept c s s1 \<or> result = Inr () \<and> registry_journals c r s s1"
proof (cases "er_journal s")
  case None
  then show ?thesis using assms by (auto simp: journal_exposure_def registry_journals_def)
next
  case (Some j)
  obtain a j1 where a: "exposure_append c r j = (a, j1)" by fastforce
  then show ?thesis
    using assms Some by (cases a) (auto simp: journal_exposure_def registry_journals_def registry_kept_def)
qed

definition registry_created ::
    "exposure_codec \<Rightarrow> path_exposure_create_record \<Rightarrow> u64 \<Rightarrow> exposure_registry \<Rightarrow> exposure_registry \<Rightarrow> bool" where
  "registry_created c x now s s' =
     (\<exists>s1 fd. registry_journals c (Create_record x) s s1 \<and> s' = enter_created x fd s1 \<and> replayable_create x s \<and>
        scope_digest (xc_descriptor x) = Inr (pd_scope_digest (xc_descriptor x)) \<and>
        next_generation (pd_exposure_id (xc_descriptor x)) now s = Inr (pd_generation (xc_descriptor x)) \<and>
        now < pd_expires_at_ms (xc_descriptor x))"

definition registry_revoked ::
    "exposure_codec \<Rightarrow> path_exposure_revoke_record \<Rightarrow> exposure_registry \<Rightarrow> exposure_registry \<Rightarrow> bool" where
  "registry_revoked c x s s' =
     (\<exists>s1. registry_journals c (Revoke_record x) s s1 \<and> s' = enter_revoked x s1 \<and> replayable_revoke x s)"

subsection \<open>Creating\<close>

lemma next_generation_laws:
  assumes "next_generation exposure_id now s = Inr generation"
  shows "length (er_exposures s) < max_exposures" "er_last_generation s exposure_id \<noteq> - 1"
    "generation = er_last_generation s exposure_id + 1" "generation \<noteq> 0"
proof -
  show room: "length (er_exposures s) < max_exposures" "er_last_generation s exposure_id \<noteq> - 1"
    "generation = er_last_generation s exposure_id + 1"
    using assms by (auto simp: next_generation_def Let_def not_le split: if_splits option.splits)
  show "generation \<noteq> 0"
    using room(2,3) by (metis add_diff_cancel diff_0)
qed

lemma max_minus: "unat (- 1 - (now :: u64)) = 2 ^ 64 - 1 - unat now"
proof -
  have one: "unat (- 1 :: u64) = 2 ^ 64 - 1" by (simp add: unsigned_minus_1_eq_mask mask_eq_exp_minus_1)
  have "now \<le> - 1" by simp
  from unat_sub [OF this] one show ?thesis by simp
qed

lemma expiry_exact:
  assumes "ttl \<le> (- 1 - now) div (1000 :: u64)"
  shows "unat (now + ttl * 1000) = unat now + unat ttl * 1000"
proof -
  have "unat ttl \<le> (2 ^ 64 - 1 - unat now) div 1000"
    using assms by (simp add: word_le_nat_alt unat_div max_minus)
  then have "unat now + unat ttl * 1000 < 2 ^ 64" 
    using unsigned_less [of now, where 'a = nat] by simp
  then show ?thesis by (simp add: unat_word_ariths)
qed
lemma create_descriptor_laws:
  assumes "create_descriptor q modes runtimes source_digest generation now = Inr d" and "xq_ttl_secs q \<noteq> 0"
  shows "pd_schema_version d = 1" "pd_exposure_id d = xq_exposure_id q" "pd_generation d = generation"
    "pd_root_id d = xq_root_id q" "pd_source_identity_digest d = source_digest"
    "pd_display_label d = xq_display_label q" "pd_allowed_modes d = modes"
    "pd_allowed_runtime_template_ids d = runtimes" "pd_state d = Active" "now < pd_expires_at_ms d"
    "scope_digest d = Inr (pd_scope_digest d)"
    "unat (pd_expires_at_ms d) = unat now + unat (xq_ttl_secs q) * 1000"
proof -
  show facts: "pd_schema_version d = 1" "pd_exposure_id d = xq_exposure_id q" "pd_generation d = generation"
    "pd_root_id d = xq_root_id q" "pd_source_identity_digest d = source_digest"
    "pd_display_label d = xq_display_label q" "pd_allowed_modes d = modes"
    "pd_allowed_runtime_template_ids d = runtimes" "pd_state d = Active"
    using assms(1) by (auto simp: create_descriptor_def Let_def and_then_Inr split: if_splits)
  show "scope_digest d = Inr (pd_scope_digest d)"
    using assms(1) by (auto simp: create_descriptor_def Let_def and_then_Inr scope_digest_def scope_fields_def split: if_splits)
  have "pd_expires_at_ms d = now + xq_ttl_secs q * 1000" "xq_ttl_secs q \<le> (- 1 - now) div 1000"
    using assms(1) by (auto simp: create_descriptor_def Let_def and_then_Inr not_less split: if_splits)
  then show wide: "unat (pd_expires_at_ms d) = unat now + unat (xq_ttl_secs q) * 1000"
    by (simp add: expiry_exact)
  show "now < pd_expires_at_ms d"
    using wide assms(2) by (simp add: word_less_nat_alt unat_gt_0)
qed

lemma digests_valid:
  "identity_digest i = Inr d \<Longrightarrow> valid_digest d" "scope_digest ds = Inr d \<Longrightarrow> valid_digest d"
  "create_request_digest q ms rs = Inr d \<Longrightarrow> valid_digest d" "revoke_request_digest a b n = Inr d \<Longrightarrow> valid_digest d"
  by (auto simp: identity_digest_def scope_digest_def create_request_digest_def revoke_request_digest_def dest: sha256_hex_valid)

lemma recovery_parent_digest_valid: "recovery_parent_identity_digest h root p = Inr d \<Longrightarrow> valid_digest d"
  by (auto simp: recovery_parent_identity_digest_def Let_def and_then_def dest: digests_valid split: if_splits sum.splits)

lemma open_beneath_root_within:
  assumes "open_beneath_root h root p = Inr fd"
  shows "path_within p (rp_host_root (rt_policy root))" "\<not> path_equal p (rp_host_root (rt_policy root))"
  using assms by (auto simp: open_beneath_root_def Let_def split: if_splits)

lemma exposure_sources_laws:
  assumes "exposure_sources h root p = Inr (source, source_digest, parent_digest)"
  shows "\<not> reserved_host_path p" "open_beneath_root h root p = Inr source" "valid_digest source_digest" "valid_digest parent_digest"
    "\<exists>i. identity_for h source ''exposure source'' = Inr i \<and> identity_digest i = Inr source_digest"
  using assms by (auto simp: exposure_sources_def and_then_Inr dest: digests_valid recovery_parent_digest_valid split: if_splits)

lemma create_fresh_laws:
  assumes run: "create_fresh c h q modes runtimes digest now s = (result, s')" and valid: "create_request_ok q now"
    and modes: "canonical_modes (xq_allowed_modes q) = Inr modes"
    and runtimes: "canonical_runtimes (xq_allowed_runtime_template_ids q) = Inr runtimes"
    and digest: "create_request_digest q modes runtimes = Inr digest" and new: "er_requests s (xq_request_id q) = None"
  shows "(\<exists>e. result = Inl e) \<and> registry_kept c s s' \<or>
    (\<exists>x. result = Inr (xc_descriptor x) \<and> registry_created c x now s s')"
proof -
  consider (refused) e where "result = Inl e" "s' = s"
    | (passed) root source source_digest parent_digest generation d where
      "map_of (er_roots s) (xq_root_id q) = Some root" "within_policy (rt_policy root) modes runtimes"
      "exposure_sources h root (xq_host_path q) = Inr (source, source_digest, parent_digest)"
      "next_generation (xq_exposure_id q) now s = Inr generation"
      "create_descriptor q modes runtimes source_digest generation now = Inr d"
      "(result, s') = (case journal_exposure c (Create_record
          \<lparr>xc_descriptor = d, xc_request_id = xq_request_id q, xc_request_digest = digest,
           xc_host_path = xq_host_path q, xc_parent_identity_digest = parent_digest\<rparr>) s of
        (Inl e, s1) \<Rightarrow> (Inl e, s1)
      | (Inr _, s1) \<Rightarrow> (Inr d, enter_created
          \<lparr>xc_descriptor = d, xc_request_id = xq_request_id q, xc_request_digest = digest,
           xc_host_path = xq_host_path q, xc_parent_identity_digest = parent_digest\<rparr> source s1))"
    using run by (auto simp: create_fresh_def Let_def split: option.splits if_splits sum.splits)
      (drule sym [of "Inl _"], blast)
  then show ?thesis
  proof cases
    case refused
    then show ?thesis by (simp add: registry_kept_def)
  next
    case passed
    let ?x = "\<lparr>xc_descriptor = d, xc_request_id = xq_request_id q, xc_request_digest = digest,
           xc_host_path = xq_host_path q, xc_parent_identity_digest = parent_digest\<rparr>"
    have ttl: "xq_ttl_secs q \<noteq> 0" using valid by (simp add: create_request_ok_def)
    note d = create_descriptor_laws [OF passed(5) ttl] and src = exposure_sources_laws [OF passed(3)]
      and gen = next_generation_laws [OF passed(4)]
    have storable: "record_storable (Create_record ?x)"
      using canonical_modes_laws(2) [OF modes] valid d src(4) digests_valid(3) [OF digest]
      by (auto simp: record_storable_def list_all_iff valid_mode_plain create_request_ok_def valid_absolute_path_def valid_identifier_def)
    have "pd_expires_at_ms d \<noteq> 0" using d(10) by auto
    moreover have "xq_host_path q \<noteq> rp_host_root (rt_policy root)"
      using open_beneath_root_within(2) [OF src(2)] by (auto simp: path_equal_def)
    ultimately have replayable: "replayable_create ?x s"
      using valid d src gen new passed(1,2) canonical_modes_laws(1) [OF modes] canonical_runtimes_laws(1) [OF runtimes]
        digests_valid(2) [OF d(11)] digests_valid(3) [OF digest] open_beneath_root_within(1) [OF src(2)]
      by (simp add: replayable_create_policy root_policy_def create_request_ok_def)
    obtain a s1 where a: "journal_exposure c (Create_record ?x) s = (a, s1)" by fastforce
    from journal_exposure_cases [OF a storable] show ?thesis
    proof
      assume "(\<exists>e. a = Inl e) \<and> registry_kept c s s1"
      then show ?thesis using passed(6) a by auto
    next
      assume journaled: "a = Inr () \<and> registry_journals c (Create_record ?x) s s1"
      then have "result = Inr (xc_descriptor ?x)" "s' = enter_created ?x source s1" using passed(6) a by auto
      then have "registry_created c ?x now s s'"
        using journaled replayable d(2,3,10,11) passed(4) unfolding registry_created_def by auto
      with \<open>result = Inr (xc_descriptor ?x)\<close> show ?thesis by blast
    qed
  qed
qed

lemma exposure_create_laws:
  assumes "exposure_create c h q now s = (result, s')"
  shows "registry_kept c s s' \<or> (\<exists>x. result = Inr (xc_descriptor x) \<and> registry_created c x now s s')"
proof (cases "create_request_ok q now")
  case False
  then show ?thesis using assms by (simp add: exposure_create_def registry_kept_def)
next
  case valid: True
  show ?thesis
  proof (cases "\<exists>modes runtimes digest. canonical_modes (xq_allowed_modes q) = Inr modes \<and>
      canonical_runtimes (xq_allowed_runtime_template_ids q) = Inr runtimes \<and> create_request_digest q modes runtimes = Inr digest \<and>
      er_requests s (xq_request_id q) = None")
    case True
    then obtain modes runtimes digest where canonical: "canonical_modes (xq_allowed_modes q) = Inr modes"
      "canonical_runtimes (xq_allowed_runtime_template_ids q) = Inr runtimes"
      "create_request_digest q modes runtimes = Inr digest" "er_requests s (xq_request_id q) = None"
      by blast
    then have "create_fresh c h q modes runtimes digest now s = (result, s')"
      using assms valid by (simp add: exposure_create_def)
    from create_fresh_laws [OF this valid canonical] show ?thesis by blast
  next
    case False
    then have "s' = s"
      using assms valid by (auto simp: exposure_create_def split: sum.splits option.splits if_splits)
    then show ?thesis by (simp add: registry_kept_def)
  qed
qed

subsection \<open>Revoking\<close>

lemma exposure_revoke_laws:
  assumes "exposure_revoke c request_id exposure_id generation now s = (result, s')"
  shows "registry_kept c s s' \<or>
    (\<exists>x. result = Inr () \<and> xr_exposure_id x = exposure_id \<and> xr_generation x = generation \<and> registry_revoked c x s s')"
proof (cases "\<exists>digest v. valid_identifier request_id \<and> valid_identifier exposure_id \<and> generation \<noteq> 0 \<and> now \<noteq> 0 \<and>
    revoke_request_digest request_id exposure_id generation = Inr digest \<and> er_requests s request_id = None \<and>
    map_of (er_exposures s) (exposure_id, generation) = Some v \<and> pd_state (xp_descriptor v) = Active")
  case False
  then have "s' = s"
    using assms by (auto simp: exposure_revoke_def split: sum.splits option.splits if_splits)
  then show ?thesis by (simp add: registry_kept_def)
next
  case True
  then obtain digest v where ok: "valid_identifier request_id" "valid_identifier exposure_id" "generation \<noteq> 0" "now \<noteq> 0"
    "revoke_request_digest request_id exposure_id generation = Inr digest" "er_requests s request_id = None"
    "map_of (er_exposures s) (exposure_id, generation) = Some v" "pd_state (xp_descriptor v) = Active" by blast
  let ?x = "\<lparr>xr_request_id = request_id, xr_request_digest = digest, xr_exposure_id = exposure_id, xr_generation = generation,
      xr_state = (if pd_expires_at_ms (xp_descriptor v) \<le> now then Expired else Revoked), xr_revoked_at_ms = now\<rparr>"
  have storable: "record_storable (Revoke_record ?x)"
    using ok digests_valid(4) [OF ok(5)] by (auto simp: record_storable_def valid_identifier_def)
  have "replayable_revoke ?x s"
    using ok digests_valid(4) [OF ok(5)] by (simp add: replayable_revoke_def exposure_entry_def)
  moreover obtain a s1 where a: "journal_exposure c (Revoke_record ?x) s = (a, s1)" by fastforce
  moreover have "(result, s') = (case a of Inl e \<Rightarrow> (Inl e, s1) | Inr _ \<Rightarrow> (Inr (), enter_revoked ?x s1))"
    using assms ok a by (auto simp: exposure_revoke_def Let_def split: sum.splits)
  ultimately have "registry_kept c s s' \<or> result = Inr () \<and> registry_revoked c ?x s s'"
    using journal_exposure_cases [OF a storable] unfolding registry_revoked_def by auto
  then show ?thesis by (elim disjE) (auto intro!: exI [of _ ?x])
qed

end
