(* ===== verification/Exposure_Reach.thy ===== *)
theory Exposure_Reach
  imports Exposure_Contracts
begin

text \<open>
  The registries a program can hold over the life of one journal, restarts included, and what holds of
  all of them: the journal replays to the maps, and of the generations of an exposure only the newest
  can still be granted.
\<close>

subsection \<open>Protected roots\<close>

lemma add_root_policies:
  assumes "add_root h p roots = Inr r" and "add_root h' p roots' = Inr r'"
    and "map_values rt_policy roots = map_values rt_policy roots'"
  shows "map_values rt_policy r = map_values rt_policy r'"
proof -
  have entered: "\<exists>modes runtimes. canonical_modes (rp_allowed_modes p) = Inr modes \<and>
      canonical_runtimes (rp_allowed_runtime_template_ids p) = Inr runtimes \<and>
      map_values rt_policy m' = map_emplace (rp_root_id p)
        (p\<lparr>rp_allowed_modes := modes, rp_allowed_runtime_template_ids := runtimes\<rparr>) (map_values rt_policy m)"
    if "add_root k p m = Inr m'" for k m m'
    using that by (auto simp: add_root_def and_then_def map_values_emplace split: if_splits sum.splits)
  show ?thesis
    using entered [OF assms(1)] entered [OF assms(2)] assms(3) by auto
qed

lemma add_roots_policies:
  "add_roots h ps roots = Inr r \<Longrightarrow> add_roots h' ps roots' = Inr r' \<Longrightarrow>
     map_values rt_policy roots = map_values rt_policy roots' \<Longrightarrow> map_values rt_policy r = map_values rt_policy r'"
proof (induction ps arbitrary: roots roots')
  case (Cons p ps)
  then obtain m m' where "add_root h p roots = Inr m" "add_roots h ps m = Inr r"
    "add_root h' p roots' = Inr m'" "add_roots h' ps m' = Inr r'"
    by (auto simp: and_then_Inr)
  then show ?case using Cons.IH [of m m'] add_root_policies Cons.prems(3) by blast
qed simp

definition policies_sorted :: "(string \<times> path_exposure_root_policy) list \<Rightarrow> bool" where
  "policies_sorted ps = (\<forall>(k, p) \<in> set ps. sorted (rp_allowed_runtime_template_ids p))"

lemma add_roots_sorted:
  "add_roots h ps roots = Inr r \<Longrightarrow> policies_sorted (map_values rt_policy roots) \<Longrightarrow> policies_sorted (map_values rt_policy r)"
proof (induction ps arbitrary: roots)
  case (Cons p ps)
  then obtain m where m: "add_root h p roots = Inr m" "add_roots h ps m = Inr r" by (auto simp: and_then_Inr)
  have "policies_sorted (map_values rt_policy m)"
    using m(1) Cons.prems(2) canonical_runtimes_laws(2)
    by (fastforce simp: add_root_def and_then_def policies_sorted_def map_values_def map_emplace_def set_insort_key
        split: if_splits sum.splits)
  then show ?case using Cons.IH [OF m(2)] by simp
qed simp

text \<open>The registry's roots are those of the policy it was opened with.\<close>

definition roots_ok :: "path_exposure_root_policy list \<Rightarrow> exposure_registry \<Rightarrow> bool" where
  "roots_ok policies s =
     (\<exists>h roots. add_roots h policies [] = Inr roots \<and> map_values rt_policy (er_roots s) = map_values rt_policy roots)"

lemma roots_ok_sorted:
  assumes "roots_ok policies s" and "root_policy s k = Some p"
  shows "sorted (rp_allowed_runtime_template_ids p)"
proof -
  obtain h roots where roots: "add_roots h policies [] = Inr roots" "map_values rt_policy (er_roots s) = map_values rt_policy roots"
    using assms(1) by (auto simp: roots_ok_def)
  then have "policies_sorted (map_values rt_policy (er_roots s))"
    using add_roots_sorted [OF roots(1)] by (simp add: policies_sorted_def map_values_def)
  moreover have "(k, p) \<in> set (map_values rt_policy (er_roots s))"
    using assms(2) map_of_SomeD [of "map_values rt_policy (er_roots s)" k p] by (simp add: root_policy_def map_of_map_values)
  ultimately show ?thesis by (auto simp: policies_sorted_def)
qed

lemma build_exposures_laws:
  assumes "build_exposures h policies = Inr s"
  shows "roots_ok policies s" "er_exposures s = []" "er_last_generation s = (\<lambda>_. 0)" "er_requests s = (\<lambda>_. None)" "er_journal s = None"
proof -
  obtain roots where "add_roots h policies [] = Inr roots" "s = \<lparr>er_roots = roots, er_exposures = [],
      er_last_generation = (\<lambda>_. 0), er_requests = (\<lambda>_. None), er_journal = None\<rparr>"
    using assms by (auto simp: build_exposures_def and_then_Inr split: if_splits)
  then show "roots_ok policies s" "er_exposures s = []" "er_last_generation s = (\<lambda>_. 0)" "er_requests s = (\<lambda>_. None)"
    "er_journal s = None"
    by (auto simp: roots_ok_def)
qed

subsection \<open>The invariant\<close>

definition registry_fresh :: "exposure_registry \<Rightarrow> exposure_registry" where
  "registry_fresh s =
     s\<lparr>er_exposures := [], er_last_generation := (\<lambda>_. 0), er_requests := (\<lambda>_. None), er_journal := None\<rparr>"

definition registry_ok :: "exposure_codec \<Rightarrow> path_exposure_root_policy list \<Rightarrow> exposure_registry \<Rightarrow> bool" where
  "registry_ok c policies s =
     (exposure_codec_faithful c \<and> roots_ok policies s \<and>
      (\<exists>j h s1. er_journal s = Some j \<and> exposure_ok c j \<and>
         replay_events h (ej_records j) (registry_fresh s) = Inr s1 \<and> exposure_view s1 = exposure_view s))"

lemma view_journal [simp]: "exposure_view (s\<lparr>er_journal := j\<rparr>) = exposure_view s"
  by (simp add: exposure_view_def)

lemma fresh_simps [simp]:
  "registry_fresh (s\<lparr>er_journal := j\<rparr>) = registry_fresh s" "registry_fresh (enter_created x fd s) = registry_fresh s"
  "registry_fresh (enter_revoked y s) = registry_fresh s"
  by (simp_all add: registry_fresh_def enter_created_def enter_revoked_def Let_def)

lemma roots_ok_simps [simp]:
  "roots_ok policies (s\<lparr>er_journal := j\<rparr>) = roots_ok policies s"
  "roots_ok policies (enter_created x fd s) = roots_ok policies s"
  "roots_ok policies (enter_revoked y s) = roots_ok policies s"
  by (simp_all add: roots_ok_def enter_created_def enter_revoked_def Let_def)

lemma enter_journal [simp]: "er_journal (enter_created x fd s) = er_journal s" "er_journal (enter_revoked y s) = er_journal s"
  by (simp_all add: enter_created_def enter_revoked_def Let_def)

lemma registry_kept_ok:
  assumes "registry_ok c policies s" and "registry_kept c s s'"
  shows "registry_ok c policies s'" "exposure_view s' = exposure_view s"
proof -
  show "exposure_view s' = exposure_view s" using assms(2) by (auto simp: registry_kept_def)
  show "registry_ok c policies s'"
  proof (cases "s' = s")
    case False
    then obtain r j j1 e where append: "record_storable r" "er_journal s = Some j" "exposure_append c r j = (Inl e, j1)"
      "s' = s\<lparr>er_journal := Some j1\<rparr>" using assms(2) by (auto simp: registry_kept_def)
    then have "exposure_ok c j1 \<and> ej_records j1 = ej_records j"
      using assms(1) exposure_append_contract [OF _ _ append(1,3)] by (fastforce simp: registry_ok_def)
    then show ?thesis using assms(1) append(2,4) by (auto simp: registry_ok_def)
  qed (use assms(1) in simp)
qed

text \<open>A journaled record that replay accepts, entered as replay enters it, keeps the invariant.\<close>

lemma registry_entered_ok:
  assumes ok: "registry_ok c policies s" and journaled: "registry_journals c r s s1"
    and fresh: "registry_fresh s' = registry_fresh s1" and roots: "roots_ok policies s' = roots_ok policies s1"
    and journal: "er_journal s' = er_journal s1"
    and replays: "\<And>h t. exposure_view t = exposure_view s \<Longrightarrow> \<exists>t'. replay_events h [r] t = Inr t' \<and> exposure_view t' = exposure_view s'"
  shows "registry_ok c policies s'"
proof -
  obtain j h t where j: "er_journal s = Some j" "exposure_ok c j" "replay_events h (ej_records j) (registry_fresh s) = Inr t"
    "exposure_view t = exposure_view s" using ok by (auto simp: registry_ok_def)
  obtain j1 where j1: "record_storable r" "exposure_append c r j = (Inr (), j1)" "s1 = s\<lparr>er_journal := Some j1\<rparr>"
    using journaled j(1) by (auto simp: registry_journals_def)
  have faithful: "exposure_codec_faithful c" using ok by (simp add: registry_ok_def)
  note laws = exposure_append_contract [OF j(2) faithful j1(1,2)]
  obtain t' where "replay_events h [r] t = Inr t'" "exposure_view t' = exposure_view s'"
    using replays [OF j(4)] by blast
  then have "replay_events h (ej_records j1) (registry_fresh s') = Inr t'"
    using laws(3) j(3) fresh j1(3) by (simp add: replay_events_append)
  moreover have "er_journal s' = Some j1" "roots_ok policies s'"
    using journal roots j1(3) ok by (simp_all add: registry_ok_def)
  ultimately show ?thesis
    using faithful laws(1) \<open>exposure_view t' = exposure_view s'\<close> unfolding registry_ok_def by blast
qed

lemma registry_created_ok:
  assumes "registry_ok c policies s" and "registry_created c x now s s'"
  shows "registry_ok c policies s'" "\<exists>fd. exposure_view s' = exposure_view (enter_created x fd s)"
proof -
  obtain s1 fd where created: "registry_journals c (Create_record x) s s1" "s' = enter_created x fd s1" "replayable_create x s"
    "scope_digest (xc_descriptor x) = Inr (pd_scope_digest (xc_descriptor x))"
    using assms(2) by (auto simp: registry_created_def)
  have s1: "exposure_view s1 = exposure_view s"
    using created(1) by (auto simp: registry_journals_def split: option.splits)
  show "\<exists>fd. exposure_view s' = exposure_view (enter_created x fd s)"
    using enter_created_view [OF s1] created(2) by blast
  show "registry_ok c policies s'"
  proof (rule registry_entered_ok [OF assms(1) created(1)])
    show "\<exists>t'. replay_events h [Create_record x] t = Inr t' \<and> exposure_view t' = exposure_view s'"
      if "exposure_view t = exposure_view s" for h t
      using that created(3,4) replayable_create_view [OF that] enter_created_view [of t s1] s1
      unfolding created(2) by (auto simp: replay_create_Inr and_then_Inr)
  qed (simp_all add: created(2))
qed

lemma registry_revoked_ok:
  assumes "registry_ok c policies s" and "registry_revoked c x s s'"
  shows "registry_ok c policies s'" "exposure_view s' = exposure_view (enter_revoked x s)" "replayable_revoke x s"
proof -
  obtain s1 where revoked: "registry_journals c (Revoke_record x) s s1" "s' = enter_revoked x s1" "replayable_revoke x s"
    using assms(2) by (auto simp: registry_revoked_def)
  have s1: "exposure_view s1 = exposure_view s"
    using revoked(1) by (auto simp: registry_journals_def split: option.splits)
  show "exposure_view s' = exposure_view (enter_revoked x s)"
    using enter_revoked_view [OF s1] revoked(2) by simp
  show "replayable_revoke x s" by (rule revoked(3))
  show "registry_ok c policies s'"
  proof (rule registry_entered_ok [OF assms(1) revoked(1)])
    show "\<exists>t'. replay_events h [Revoke_record x] t = Inr t' \<and> exposure_view t' = exposure_view s'"
      if "exposure_view t = exposure_view s" for h t
      using that revoked(3) replayable_revoke_view [OF that] enter_revoked_view [of t s1] s1
      unfolding revoked(2) by (auto simp: replay_revoke_Inr and_then_Inr)
  qed (simp_all add: revoked(2))
qed

subsection \<open>Restarting\<close>

lemma registry_reopens:
  assumes ok: "registry_ok c policies s" and journal: "er_journal s = Some j" and built: "build_exposures h policies = Inr t"
    and quiet: "change_quiet d" and path: "is_absolute path" "filename path \<noteq> []"
    and bytes: "d_bytes d = take (unat (ej_size j)) (d_bytes (ej_disk j))" "length (d_bytes d) \<le> off_t_max"
  shows "\<exists>s'. open_exposures c h policies path (ej_max_bytes j) (change_at d) = Inr s' \<and> exposure_view s' = exposure_view s \<and>
    er_journal s' = Some (j\<lparr>ej_disk := d\<rparr>) \<and> roots_ok policies s'"
proof -
  obtain h0 s1 where replayed: "exposure_ok c j" "replay_events h0 (ej_records j) (registry_fresh s) = Inr s1"
    "exposure_view s1 = exposure_view s"
    using ok journal by (auto simp: registry_ok_def)
  note t = build_exposures_laws [OF built]
  have "map_values rt_policy (er_roots s) = map_values rt_policy (er_roots t)"
    using ok t(1) add_roots_policies unfolding registry_ok_def roots_ok_def by metis
  then have "exposure_view (registry_fresh s) = exposure_view t"
    using t by (simp add: exposure_view_def registry_fresh_def map_values_def)
  from replay_events_view [OF replayed(2) this, of h] obtain t' where
    t': "replay_events h (ej_records j) t = Inr t'" "exposure_view s1 = exposure_view t'" by blast
  have "exposure_open c path (ej_max_bytes j) (change_at d) = Inr (j\<lparr>ej_disk := d\<rparr>)"
    by (rule exposure_ok_reopens [OF replayed(1) quiet path bytes])
  then have "open_exposures c h policies path (ej_max_bytes j) (change_at d) = Inr (t'\<lparr>er_journal := Some (j\<lparr>ej_disk := d\<rparr>)\<rparr>)"
    using built t'(1) by (simp add: open_exposures_def)
  moreover have "map_values rt_policy (er_roots t') = map_values rt_policy (er_roots s)"
    using t'(2) replayed(3) by (simp add: exposure_view_def)
  then have "roots_ok policies t'" using ok by (simp add: registry_ok_def roots_ok_def)
  ultimately show ?thesis using t'(2) replayed(3) by simp
qed

subsection \<open>Steps\<close>

text \<open>An operation at a time, or a restart on the acknowledged bytes.\<close>

inductive exposure_step ::
    "exposure_codec \<Rightarrow> path_exposure_root_policy list \<Rightarrow> u64 \<Rightarrow> exposure_registry \<Rightarrow> exposure_registry \<Rightarrow> bool" for c policies where
  creates: "exposure_create c h q now s = (result, s') \<Longrightarrow> exposure_step c policies now s s'"
| revokes: "exposure_revoke c request_id exposure_id generation now s = (answer, s') \<Longrightarrow> exposure_step c policies now s s'"
| restarts: "er_journal s = Some j \<Longrightarrow> change_quiet d \<Longrightarrow> d_bytes d = take (unat (ej_size j)) (d_bytes (ej_disk j)) \<Longrightarrow>
    length (d_bytes d) \<le> off_t_max \<Longrightarrow> open_exposures c h policies path (ej_max_bytes j) (change_at d) = Inr s' \<Longrightarrow>
    exposure_step c policies now s s'"

text \<open>A new journal and any operations and restarts after it, whatever the clock does; a journal that an
  earlier process filled is reached through the restarts.\<close>

inductive exposures_run :: "exposure_codec \<Rightarrow> path_exposure_root_policy list \<Rightarrow> exposure_registry \<Rightarrow> bool" for c policies where
  run_started: "open_exposures c h policies path max_bytes loc = Inr s \<Longrightarrow> er_journal s = Some j \<Longrightarrow> ej_records j = [] \<Longrightarrow>
    length (d_bytes (ej_disk j)) \<le> off_t_max \<Longrightarrow> exposures_run c policies s"
| run_stepped: "exposures_run c policies s \<Longrightarrow> exposure_step c policies now s s' \<Longrightarrow> exposures_run c policies s'"

text \<open>The same while the clock does not go back.  The operations take the time as an argument and do not
  compare it with earlier ones, so this is a condition on the caller: with a clock that goes back an
  expired generation, replaced since, becomes valid again.\<close>

inductive exposures_reachable ::
    "exposure_codec \<Rightarrow> path_exposure_root_policy list \<Rightarrow> u64 \<Rightarrow> exposure_registry \<Rightarrow> bool" for c policies where
  started: "open_exposures c h policies path max_bytes loc = Inr s \<Longrightarrow> er_journal s = Some j \<Longrightarrow> ej_records j = [] \<Longrightarrow>
    length (d_bytes (ej_disk j)) \<le> off_t_max \<Longrightarrow> exposures_reachable c policies now s"
| stepped: "exposures_reachable c policies now s \<Longrightarrow> now \<le> later \<Longrightarrow> exposure_step c policies later s s' \<Longrightarrow>
    exposures_reachable c policies later s'"

lemma open_exposures_parts:
  assumes "open_exposures c h policies path max_bytes loc = Inr s"
  obtains t j t' where "build_exposures h policies = Inr t" "exposure_open c path max_bytes loc = Inr j"
    "replay_events h (ej_records j) t = Inr t'" "s = t'\<lparr>er_journal := Some j\<rparr>"
  using assms by (auto simp: open_exposures_def and_then_Inr)

lemma exposure_open_path:
  "exposure_open c path max_bytes loc = Inr j \<Longrightarrow> is_absolute path \<and> filename path \<noteq> []"
  by (auto simp: exposure_open_def and_then_Inr open_exposure_file_def split: if_splits)

lemma exposure_step_ok:
  assumes ok: "registry_ok c policies s" and step: "exposure_step c policies now s s'"
  shows "registry_ok c policies s' \<and>
    (exposure_view s' = exposure_view s \<or>
     (\<exists>x fd. registry_created c x now s s' \<and> exposure_view s' = exposure_view (enter_created x fd s)) \<or>
     (\<exists>y. replayable_revoke y s \<and> exposure_view s' = exposure_view (enter_revoked y s)))"
  using step
proof cases
  case (creates h q result)
  from exposure_create_laws [OF creates] show ?thesis
    using registry_kept_ok [OF ok] registry_created_ok [OF ok] by blast
next
  case (revokes request_id exposure_id generation answer)
  from exposure_revoke_laws [OF revokes] show ?thesis
    using registry_kept_ok [OF ok] registry_revoked_ok [OF ok] by blast
next
  case (restarts j d h path)
  obtain t where t: "build_exposures h policies = Inr t" and path: "is_absolute path" "filename path \<noteq> []"
    using restarts(5) exposure_open_path by (elim open_exposures_parts) blast
  from registry_reopens [OF ok restarts(1) t restarts(2) path restarts(3,4)] restarts(5)
  have view: "exposure_view s' = exposure_view s" "er_journal s' = Some (j\<lparr>ej_disk := d\<rparr>)" "roots_ok policies s'"
    by auto
  obtain h0 s1 where replayed: "exposure_ok c j" "replay_events h0 (ej_records j) (registry_fresh s) = Inr s1"
    "exposure_view s1 = exposure_view s"
    using ok restarts(1) by (auto simp: registry_ok_def)
  have "exposure_view (registry_fresh s) = exposure_view (registry_fresh s')"
    using view(1) by (simp add: exposure_view_def registry_fresh_def)
  from replay_events_view [OF replayed(2) this, of h0] obtain t1 where
    "replay_events h0 (ej_records j) (registry_fresh s') = Inr t1" "exposure_view t1 = exposure_view s'"
    using replayed(3) view(1) by auto
  moreover have "exposure_untouched j (j\<lparr>ej_disk := d\<rparr>)"
    using restarts(3) replayed(1) by (auto simp: exposure_untouched_def exposure_ok_def)
  then have "exposure_ok c (j\<lparr>ej_disk := d\<rparr>)" by (rule exposure_untouched_ok [OF replayed(1)])
  ultimately have "registry_ok c policies s'"
    using ok view(2,3) unfolding registry_ok_def by auto
  with view(1) show ?thesis by blast
qed

lemma exposures_started_ok:
  assumes "open_exposures c h policies path max_bytes loc = Inr s" and "er_journal s = Some j"
    and "length (d_bytes (ej_disk j)) \<le> off_t_max" and "exposure_codec_faithful c"
  shows "registry_ok c policies s"
  using assms(1)
proof (rule open_exposures_parts)
  fix t j' t'
  assume t: "build_exposures h policies = Inr t" "exposure_open c path max_bytes loc = Inr j'"
    "replay_events h (ej_records j') t = Inr t'" "s = t'\<lparr>er_journal := Some j'\<rparr>"
  have keeps: "replay_events h rs u = Inr u' \<Longrightarrow> er_roots u' = er_roots u" for rs u u'
  proof (induction rs arbitrary: u)
    case (Cons r rs)
    then show ?case
      by (cases r) (auto simp: and_then_Inr replay_create_Inr replay_revoke_Inr enter_created_def enter_revoked_def Let_def)
  qed simp
  note built = build_exposures_laws [OF t(1)]
  have "registry_fresh s = t"
    using built keeps [OF t(3)] t(4) by (cases t) (simp add: registry_fresh_def)
  moreover have "roots_ok policies s"
    using built(1) keeps [OF t(3)] t(4) by (simp add: roots_ok_def)
  moreover have "exposure_ok c j'" using exposure_open_ok(1) [OF t(2)] assms(2,3) t(4) by simp
  ultimately show ?thesis
    using t(3,4) assms(4) unfolding registry_ok_def by fastforce
qed

lemma exposures_run_ok:
  "exposures_run c policies s \<Longrightarrow> exposure_codec_faithful c \<Longrightarrow> registry_ok c policies s"
  by (induction rule: exposures_run.induct) (auto intro: exposures_started_ok dest: exposure_step_ok)

lemma exposures_reachable_run: "exposures_reachable c policies now s \<Longrightarrow> exposures_run c policies s"
  by (induction rule: exposures_reachable.induct) (auto intro: exposures_run.intros)

lemma exposures_reachable_ok:
  "exposures_reachable c policies now s \<Longrightarrow> exposure_codec_faithful c \<Longrightarrow> registry_ok c policies s"
  using exposures_run_ok exposures_reachable_run by blast

subsection \<open>The registry as a ledger\<close>

definition exposure_advances :: "exposure_record \<Rightarrow> exposure_record \<Rightarrow> bool" where
  "exposure_advances v v' =
     (v' = v \<or> (\<exists>state. pd_state (xp_descriptor v) = Active \<and> state \<noteq> Active \<and>
        v' = v\<lparr>xp_descriptor := (xp_descriptor v)\<lparr>pd_state := state\<rparr>\<rparr>))"

lemma entry_created:
  assumes "map_of (er_exposures s) (pd_exposure_id (xc_descriptor x), pd_generation (xc_descriptor x)) = None"
  shows "exposure_entry (enter_created x fd s) k =
    (if k = (pd_exposure_id (xc_descriptor x), pd_generation (xc_descriptor x))
     then Some \<lparr>xp_descriptor = xc_descriptor x, xp_request_id = xc_request_id x, xp_request_digest = xc_request_digest x,
           xp_host_path = xc_host_path x, xp_parent_identity_digest = xc_parent_identity_digest x, xp_source_descriptor = 0\<rparr>
     else exposure_entry s k)"
  using assms by (simp add: exposure_entry_def enter_created_def Let_def map_of_map_emplace forget_descriptor_def)

lemma entry_revoked:
  "exposure_entry (enter_revoked y s) k =
     (if k = (xr_exposure_id y, xr_generation y)
      then map_option (\<lambda>v. v\<lparr>xp_descriptor := (xp_descriptor v)\<lparr>pd_state := xr_state y\<rparr>\<rparr>) (exposure_entry s k)
      else exposure_entry s k)"
  by (cases "map_of (er_exposures s) k") (auto simp: exposure_entry_def enter_revoked_def map_of_map_change forget_descriptor_def)

lemma entry_created_present:
  "exposure_entry s k = Some v \<Longrightarrow> exposure_entry (enter_created x fd s) k = Some v"
  by (cases "map_of (er_exposures s) (pd_exposure_id (xc_descriptor x), pd_generation (xc_descriptor x))")
    (auto simp: exposure_entry_def enter_created_def Let_def map_emplace_def map_of_insort_key)

interpretation exposures: ledger "\<lambda>(c, policies, s). registry_ok c policies s" "\<lambda>(c, policies, s). exposure_entry s"
  "\<lambda>(c, policies, s) (c', policies', s'). c' = c \<and> policies' = policies \<and> (\<exists>now. exposure_step c policies now s s')"
  exposure_advances
proof (unfold_locales, goal_cases)
  case (1 p p')
  obtain c policies s s' now where p: "p = (c, policies, s)" "p' = (c, policies, s')" "registry_ok c policies s"
    "exposure_step c policies now s s'" using 1 by (cases p; cases p') auto
  show ?case using exposure_step_ok [OF p(3,4)] p(2) by simp
next
  case (2 p p' k v)
  obtain c policies s s' now where p: "p = (c, policies, s)" "p' = (c, policies, s')" "registry_ok c policies s"
    "exposure_step c policies now s s'" "exposure_entry s k = Some v" using 2 by (cases p; cases p') auto
  have "\<exists>v'. exposure_entry s' k = Some v' \<and> exposure_advances v v'"
    using exposure_step_ok [OF p(3,4)]
  proof (elim conjE disjE exE)
    assume same: "exposure_view s' = exposure_view s"
    show ?thesis using view_eqD(2) [OF same] p(5) by (auto simp: exposure_advances_def)
  next
    fix x fd
    assume same: "exposure_view s' = exposure_view (enter_created x fd s)"
    show ?thesis using view_eqD(2) [OF same] entry_created_present [OF p(5)] by (auto simp: exposure_advances_def)
  next
    fix y
    assume y: "replayable_revoke y s" "exposure_view s' = exposure_view (enter_revoked y s)"
    show ?thesis
      using y(1) p(5) unfolding view_eqD(2) [OF y(2)] entry_revoked by (auto simp: replayable_revoke_def exposure_advances_def)
  qed
  then show ?case using p(1,2) by simp
next
  case (3 v)
  then show ?case by (simp add: exposure_advances_def)
next
  case (4 u v w)
  then show ?case by (auto simp: exposure_advances_def)
qed

end
