(* ===== verification/Exposure_Generations.thy ===== *)
theory Exposure_Generations
  imports Exposure_Reach
begin

text \<open>
  Two invariants behind the authority of a grant.  The maps are what the journal says: an exposure is
  active exactly if its creation is journaled and no revocation of it is.  And every generation but the
  newest of an exposure is closed or has expired.
\<close>

subsection \<open>What the journal says\<close>

definition create_key :: "path_exposure_create_record \<Rightarrow> string \<times> u64" where
  "create_key x = (pd_exposure_id (xc_descriptor x), pd_generation (xc_descriptor x))"

definition revoke_key :: "path_exposure_revoke_record \<Rightarrow> string \<times> u64" where
  "revoke_key y = (xr_exposure_id y, xr_generation y)"

definition entry_journaled :: "path_exposure_journal_record list \<Rightarrow> string \<times> u64 \<Rightarrow> exposure_record \<Rightarrow> bool" where
  "entry_journaled rs k v =
     ((\<exists>x. Create_record x \<in> set rs \<and> create_key x = k \<and> xp_host_path v = xc_host_path x \<and>
         xp_descriptor v = (xc_descriptor x)\<lparr>pd_state := pd_state (xp_descriptor v)\<rparr>) \<and>
      (pd_state (xp_descriptor v) = Active \<longleftrightarrow> (\<forall>y. Revoke_record y \<in> set rs \<longrightarrow> revoke_key y \<noteq> k)))"

definition journaled :: "path_exposure_journal_record list \<Rightarrow> exposure_registry \<Rightarrow> bool" where
  "journaled rs s =
     ((\<forall>k v. exposure_entry s k = Some v \<longrightarrow> snd k \<le> er_last_generation s (fst k) \<and> entry_journaled rs k v) \<and>
      (\<forall>y. Revoke_record y \<in> set rs \<longrightarrow> exposure_entry s (revoke_key y) \<noteq> None))"

lemma journaled_view: "exposure_view s = exposure_view t \<Longrightarrow> journaled rs s = journaled rs t"
  unfolding journaled_def by (frule view_eqD(2), frule view_eqD(4)) simp

lemma journaledD:
  assumes "journaled rs s"
  shows "exposure_entry s k = Some v \<Longrightarrow> snd k \<le> er_last_generation s (fst k)"
    "exposure_entry s k = Some v \<Longrightarrow> entry_journaled rs k v"
    "Revoke_record y \<in> set rs \<Longrightarrow> exposure_entry s (revoke_key y) \<noteq> None"
  using assms unfolding journaled_def by blast+

lemma journaledI:
  assumes "\<And>k v. exposure_entry s k = Some v \<Longrightarrow> snd k \<le> er_last_generation s (fst k)"
    and "\<And>k v. exposure_entry s k = Some v \<Longrightarrow> entry_journaled rs k v"
    and "\<And>y. Revoke_record y \<in> set rs \<Longrightarrow> exposure_entry s (revoke_key y) \<noteq> None"
  shows "journaled rs s"
  using assms unfolding journaled_def by blast

lemma entry_journaled_snoc:
  assumes "entry_journaled rs k v" and "\<And>y. r = Revoke_record y \<Longrightarrow> revoke_key y \<noteq> k"
  shows "entry_journaled (rs @ [r]) k v"
proof -
  obtain x where "Create_record x \<in> set (rs @ [r])" "create_key x = k" "xp_host_path v = xc_host_path x"
    "xp_descriptor v = (xc_descriptor x)\<lparr>pd_state := pd_state (xp_descriptor v)\<rparr>"
    using assms(1) unfolding entry_journaled_def by auto
  moreover have "(\<forall>y. Revoke_record y \<in> set (rs @ [r]) \<longrightarrow> revoke_key y \<noteq> k) \<longleftrightarrow> (\<forall>y. Revoke_record y \<in> set rs \<longrightarrow> revoke_key y \<noteq> k)"
    using assms(2) by auto
  ultimately show ?thesis using assms(1) unfolding entry_journaled_def by blast
qed

lemma below_next: "x \<noteq> - 1 \<Longrightarrow> x < x + 1" for x :: u64
proof -
  assume "x \<noteq> - 1"
  then have "x < - 1" by (simp add: word_order.not_eq_extremum)
  then have "unat x + 1 \<le> unat (- 1 :: u64)" by (simp add: word_less_nat_alt)
  from unat_grow [OF this] show ?thesis by (simp add: word_less_nat_alt)
qed

lemma fresh_key:
  assumes "\<And>k v. exposure_entry s k = Some v \<Longrightarrow> snd k \<le> er_last_generation s (fst k)"
    and "pd_generation (xc_descriptor x) = er_last_generation s (pd_exposure_id (xc_descriptor x)) + 1"
    and "er_last_generation s (pd_exposure_id (xc_descriptor x)) \<noteq> - 1"
  shows "exposure_entry s (create_key x) = None"
    "map_of (er_exposures s) (pd_exposure_id (xc_descriptor x), pd_generation (xc_descriptor x)) = None"
    "er_last_generation s (pd_exposure_id (xc_descriptor x)) < pd_generation (xc_descriptor x)"
proof -
  show less: "er_last_generation s (pd_exposure_id (xc_descriptor x)) < pd_generation (xc_descriptor x)"
    using below_next [OF assms(3)] assms(2) by simp
  show none: "exposure_entry s (create_key x) = None"
  proof (cases "exposure_entry s (create_key x)")
    case (Some v)
    then have "pd_generation (xc_descriptor x) \<le> er_last_generation s (pd_exposure_id (xc_descriptor x))"
      using assms(1) [OF Some] by (simp add: create_key_def)
    then show ?thesis using less by simp
  qed
  then show "map_of (er_exposures s) (pd_exposure_id (xc_descriptor x), pd_generation (xc_descriptor x)) = None"
    by (simp add: exposure_entry_def create_key_def)
qed

lemma last_generation_created:
  "er_last_generation (enter_created x fd s) =
     (er_last_generation s)(pd_exposure_id (xc_descriptor x) := pd_generation (xc_descriptor x))"
  by (simp add: enter_created_def Let_def)

lemma last_generation_revoked [simp]: "er_last_generation (enter_revoked y s) = er_last_generation s"
  by (simp add: enter_revoked_def)

lemma replayable_create_generation:
  "replayable_create x s \<Longrightarrow> pd_generation (xc_descriptor x) = er_last_generation s (pd_exposure_id (xc_descriptor x)) + 1 \<and>
     er_last_generation s (pd_exposure_id (xc_descriptor x)) \<noteq> - 1 \<and> pd_state (xc_descriptor x) = Active"
  by (simp add: replayable_create_policy Let_def split: option.splits)

lemma journaled_created:
  assumes "journaled rs s" and "replayable_create x s"
  shows "journaled (rs @ [Create_record x]) (enter_created x fd s)"
proof -
  note gen = replayable_create_generation [OF assms(2)]
  have new: "exposure_entry s (create_key x) = None"
    "map_of (er_exposures s) (pd_exposure_id (xc_descriptor x), pd_generation (xc_descriptor x)) = None"
    "er_last_generation s (pd_exposure_id (xc_descriptor x)) < pd_generation (xc_descriptor x)"
    by (rule fresh_key [of s x]; use journaledD(1) [OF assms(1)] gen in blast)+
  note entry = entry_created [OF new(2), of fd, folded create_key_def]
  show ?thesis
  proof (rule journaledI)
    fix k v
    assume v: "exposure_entry (enter_created x fd s) k = Some v"
    show "entry_journaled (rs @ [Create_record x]) k v"
    proof (cases "k = create_key x")
      case True
      have "Revoke_record y \<in> set rs \<Longrightarrow> revoke_key y \<noteq> create_key x" for y
        using journaledD(3) [OF assms(1), of y] new(1) by metis
      then show ?thesis using v True gen by (auto simp: entry entry_journaled_def)
    next
      case False
      then have "exposure_entry s k = Some v" using v by (simp add: entry)
      from journaledD(2) [OF assms(1) this] show ?thesis by (rule entry_journaled_snoc) simp
    qed
    show "snd k \<le> er_last_generation (enter_created x fd s) (fst k)"
    proof (cases "k = create_key x")
      case False
      then have "exposure_entry s k = Some v" using v by (simp add: entry)
      from journaledD(1) [OF assms(1) this] show ?thesis using new(3) by (auto simp: last_generation_created)
    qed (simp add: last_generation_created create_key_def)
  next
    fix y
    assume "Revoke_record y \<in> set (rs @ [Create_record x])"
    then have "exposure_entry s (revoke_key y) \<noteq> None" using journaledD(3) [OF assms(1)] by simp
    then show "exposure_entry (enter_created x fd s) (revoke_key y) \<noteq> None" by (simp add: entry)
  qed
qed

lemma journaled_revoked:
  assumes "journaled rs s" and "replayable_revoke y s"
  shows "journaled (rs @ [Revoke_record y]) (enter_revoked y s)"
proof (rule journaledI)
  obtain u where u: "exposure_entry s (revoke_key y) = Some u" "xr_state y \<noteq> Active"
    using assms(2) by (auto simp: replayable_revoke_def revoke_key_def)
  note entry = entry_revoked [of y s, folded revoke_key_def]
  fix k v
  assume v: "exposure_entry (enter_revoked y s) k = Some v"
  show "snd k \<le> er_last_generation (enter_revoked y s) (fst k)"
    using v journaledD(1) [OF assms(1), of k] by (auto simp: entry split: if_splits)
  show "entry_journaled (rs @ [Revoke_record y]) k v"
  proof (cases "k = revoke_key y")
    case True
    have v': "v = u\<lparr>xp_descriptor := (xp_descriptor u)\<lparr>pd_state := xr_state y\<rparr>\<rparr>"
      using v u(1) True by (simp add: entry)
    obtain x where x: "Create_record x \<in> set rs" "create_key x = k" "xp_host_path u = xc_host_path x"
      "xp_descriptor u = (xc_descriptor x)\<lparr>pd_state := pd_state (xp_descriptor u)\<rparr>"
      using journaledD(2) [OF assms(1) u(1)] True unfolding entry_journaled_def by blast
    have "xp_descriptor v = (xc_descriptor x)\<lparr>pd_state := pd_state (xp_descriptor v)\<rparr>"
      unfolding v' using arg_cong [OF x(4), of "\<lambda>d. d\<lparr>pd_state := xr_state y\<rparr>"] by simp
    moreover have "xp_host_path v = xc_host_path x" "pd_state (xp_descriptor v) \<noteq> Active"
      using v' x(3) u(2) by simp_all
    ultimately show ?thesis using x(1,2) True unfolding entry_journaled_def by auto
  next
    case False
    then have "exposure_entry s k = Some v" using v by (simp add: entry)
    from journaledD(2) [OF assms(1) this] show ?thesis by (rule entry_journaled_snoc) (use False in simp)
  qed
next
  fix z
  assume "Revoke_record z \<in> set (rs @ [Revoke_record y])"
  then have "exposure_entry s (revoke_key z) \<noteq> None"
    using journaledD(3) [OF assms(1)] assms(2) by (auto simp: replayable_revoke_def revoke_key_def)
  then show "exposure_entry (enter_revoked y s) (revoke_key z) \<noteq> None" by (auto simp: entry_revoked)
qed

lemma replay_journaled:
  "replay_events h rs t = Inr s \<Longrightarrow> er_exposures t = [] \<Longrightarrow> journaled rs s"
proof (induction rs arbitrary: s rule: rev_induct)
  case Nil
  then show ?case by (auto simp: journaled_def exposure_entry_def)
next
  case (snoc r rs)
  obtain u where u: "replay_events h rs t = Inr u" "replay_events h [r] u = Inr s"
    using snoc.prems(1) by (auto simp: replay_events_append and_then_Inr)
  then show ?case
    using snoc.IH [OF u(1) snoc.prems(2)]
    by (cases r) (auto simp: and_then_Inr replay_create_Inr replay_revoke_Inr intro: journaled_created journaled_revoked)
qed

lemma registry_ok_journaled:
  assumes "registry_ok c policies s" and "er_journal s = Some j"
  shows "journaled (ej_records j) s"
proof -
  obtain h s1 where s1: "replay_events h (ej_records j) (registry_fresh s) = Inr s1" "exposure_view s1 = exposure_view s"
    using assms by (auto simp: registry_ok_def)
  have "journaled (ej_records j) s1" by (rule replay_journaled [OF s1(1)]) (simp add: registry_fresh_def)
  then show ?thesis using journaled_view [OF s1(2)] by simp
qed

subsection \<open>The newest generation\<close>

definition generation_ok :: "exposure_registry \<Rightarrow> u64 \<Rightarrow> string \<times> u64 \<Rightarrow> exposure_record \<Rightarrow> bool" where
  "generation_ok s now k v =
     (let d = xp_descriptor v in
      snd k \<noteq> 0 \<and> (snd k < er_last_generation s (fst k) \<longrightarrow> pd_state d = Active \<longrightarrow> pd_expires_at_ms d \<le> now) \<and>
      sorted (pd_allowed_runtime_template_ids d) \<and>
      (\<exists>p. root_policy s (pd_root_id d) = Some p \<and> path_within (xp_host_path v) (rp_host_root p) \<and>
         within_policy p (pd_allowed_modes d) (pd_allowed_runtime_template_ids d)))"

definition generations_ok :: "u64 \<Rightarrow> exposure_registry \<Rightarrow> bool" where
  "generations_ok now s = (\<forall>k v. exposure_entry s k = Some v \<longrightarrow> generation_ok s now k v)"

lemma generations_okD: "generations_ok now s \<Longrightarrow> exposure_entry s k = Some v \<Longrightarrow> generation_ok s now k v"
  unfolding generations_ok_def by blast

lemma generations_okI: "(\<And>k v. exposure_entry s k = Some v \<Longrightarrow> generation_ok s now k v) \<Longrightarrow> generations_ok now s"
  unfolding generations_ok_def by blast

lemma generations_ok_view:
  assumes "exposure_view s = exposure_view t"
  shows "generations_ok now s = generations_ok now t"
  unfolding generations_ok_def generation_ok_def view_eqD [OF assms] by simp

lemma generation_ok_later: "generation_ok s now k v \<Longrightarrow> now \<le> later \<Longrightarrow> generation_ok s later k v"
  unfolding generation_ok_def Let_def by (auto intro: order_trans)

lemma root_policy_enter [simp]:
  "root_policy (enter_created x fd s) = root_policy s" "root_policy (enter_revoked y s) = root_policy s"
  by (simp_all add: fun_eq_iff root_policy_def enter_created_def enter_revoked_def Let_def)

lemma generations_created:
  assumes ok: "registry_ok c policies s" and gens: "generations_ok now s" and now: "now \<le> later"
    and created: "registry_created c x later s s'"
  shows "generations_ok later (enter_created x fd s)"
proof (rule generations_okI)
  fix k v
  assume v: "exposure_entry (enter_created x fd s) k = Some v"
  let ?d = "xc_descriptor x"
  have replayable: "replayable_create x s" and generation: "next_generation (pd_exposure_id ?d) later s = Inr (pd_generation ?d)"
    using created by (auto simp: registry_created_def)
  note gen = replayable_create_generation [OF replayable]
  obtain j where "er_journal s = Some j" using ok by (auto simp: registry_ok_def)
  note journaled = registry_ok_journaled [OF ok this]
  have new: "map_of (er_exposures s) (pd_exposure_id ?d, pd_generation ?d) = None"
    by (rule fresh_key(2)) (use journaledD(1) [OF journaled] gen in blast)+
  note entry = entry_created [OF new, of fd, folded create_key_def]
  show "generation_ok (enter_created x fd s) later k v"
  proof (cases "k = create_key x")
    case True
    obtain p where "root_policy s (pd_root_id ?d) = Some p" "path_within (xc_host_path x) (rp_host_root p)"
      "within_policy p (pd_allowed_modes ?d) (pd_allowed_runtime_template_ids ?d)"
      "canonical_runtimes (pd_allowed_runtime_template_ids ?d) = Inr (pd_allowed_runtime_template_ids ?d)" "pd_generation ?d \<noteq> 0"
      using replayable by (auto simp: replayable_create_policy Let_def split: option.splits)
    then show ?thesis
      using v True canonical_runtimes_laws(2) by (auto simp: entry generation_ok_def Let_def last_generation_created create_key_def)
  next
    case False
    then have old: "exposure_entry s k = Some v" using v by (simp add: entry)
    note kept = generation_ok_later [OF generations_okD [OF gens old] now]
    have "pd_expires_at_ms (xp_descriptor v) \<le> later"
      if "pd_state (xp_descriptor v) = Active" "fst k = pd_exposure_id ?d"
    proof (cases "snd k < er_last_generation s (fst k)")
      case True
      then show ?thesis using kept that(1) by (simp add: generation_ok_def Let_def)
    next
      case newest: False
      have bound: "snd k \<le> er_last_generation s (fst k)" by (rule journaledD(1) [OF journaled old])
      then have k: "k = (pd_exposure_id ?d, er_last_generation s (pd_exposure_id ?d))"
        using newest that(2) by (metis antisym_conv2 prod.collapse)
      obtain u where u: "map_of (er_exposures s) k = Some u" "forget_descriptor u = v"
        using old by (auto simp: exposure_entry_def)
      have "er_last_generation s (pd_exposure_id ?d) \<noteq> 0"
        using kept k by (simp add: generation_ok_def Let_def)
      then show ?thesis
        using generation u that(1) by (auto simp: next_generation_def Let_def k not_less split: if_splits)
    qed
    then show ?thesis
      using kept by (cases "fst k = pd_exposure_id ?d") (auto simp: generation_ok_def Let_def last_generation_created)
  qed
qed

lemma generations_revoked:
  assumes "generations_ok now s" and "now \<le> later" and "replayable_revoke y s"
  shows "generations_ok later (enter_revoked y s)"
proof (rule generations_okI)
  fix k v
  assume v: "exposure_entry (enter_revoked y s) k = Some v"
  obtain u where u: "exposure_entry s k = Some u" using v by (auto simp: entry_revoked split: if_splits)
  have "xr_state y \<noteq> Active" using assms(3) by (auto simp: replayable_revoke_def)
  then show "generation_ok (enter_revoked y s) later k v"
    using generation_ok_later [OF generations_okD [OF assms(1) u] assms(2)] v u
    by (auto simp: entry_revoked generation_ok_def Let_def split: if_splits)
qed

lemma exposures_reachable_generations:
  "exposures_reachable c policies now s \<Longrightarrow> exposure_codec_faithful c \<Longrightarrow> generations_ok now s"
proof (induction rule: exposures_reachable.induct)
  case (started h path max_bytes loc s j now)
  from started(1) have "exposure_entry s k = None" for k
  proof (rule open_exposures_parts)
    fix t j' t'
    assume t: "build_exposures h policies = Inr t" "replay_events h (ej_records j') t = Inr t'" "s = t'\<lparr>er_journal := Some j'\<rparr>"
    then have "t' = t" using started(2,3) by simp
    then show ?thesis using build_exposures_laws(2) [OF t(1)] t(3) by (simp add: exposure_entry_def)
  qed
  then show ?case by (simp add: generations_ok_def)
next
  case (stepped now s later s')
  note ok = exposures_reachable_ok [OF stepped(1,5)] and gens = stepped(4) [OF stepped(5)]
  have later: "generations_ok later s"
    by (rule generations_okI) (rule generation_ok_later [OF generations_okD [OF gens] stepped(2)])
  show ?case
    using exposure_step_ok [OF ok stepped(3)]
  proof (elim conjE disjE exE)
    assume same: "exposure_view s' = exposure_view s"
    show ?thesis using generations_ok_view [OF same] later by simp
  next
    fix x fd
    assume x: "registry_created c x later s s'" "exposure_view s' = exposure_view (enter_created x fd s)"
    show ?thesis using generations_ok_view [OF x(2)] generations_created [OF ok gens stepped(2) x(1)] by simp
  next
    fix y
    assume y: "replayable_revoke y s" "exposure_view s' = exposure_view (enter_revoked y s)"
    show ?thesis using generations_ok_view [OF y(2)] generations_revoked [OF gens stepped(2) y(1)] by simp
  qed
qed

lemma mode_is_subset_trans:
  assumes "mode_is_subset m modes" and "list_all (\<lambda>m. mode_is_subset m allowed) modes"
  shows "mode_is_subset m allowed"
proof -
  obtain a where a: "a \<in> set modes" "pm_access a = pm_access m" "pm_materialization a = pm_materialization m"
    "pm_cleanup_policy a = pm_cleanup_policy m" "pm_max_bytes m \<le> pm_max_bytes a"
    using assms(1) by (auto simp: mode_is_subset_def list_ex_iff)
  obtain b where b: "b \<in> set allowed" "pm_access b = pm_access a" "pm_materialization b = pm_materialization a"
    "pm_cleanup_policy b = pm_cleanup_policy a" "pm_max_bytes a \<le> pm_max_bytes b"
    using assms(2) a(1) by (auto simp: mode_is_subset_def list_ex_iff list_all_iff)
  have "pm_max_bytes m \<le> pm_max_bytes b" using a(5) b(5) by simp
  then show ?thesis using a b by (auto simp: mode_is_subset_def list_ex_iff)
qed

end
