(* ===== verification/Exposure_Sample.thy ===== *)
theory Exposure_Sample
  imports Exposure_Generations Change_Theorems
begin

text \<open>
  A small host with one protected root and one file in it, and a registry that exposes the file: the
  concrete inputs of the witnesses.
\<close>

text \<open>The last two digits of a descriptor name the file behind it: the file system root, the protected
  root or the file in it.  The digits before count the calls: \<open>exposure_host_sample n\<close> answers with the
  descriptors of the \<open>n\<close>-th call, which are new.\<close>

definition sample_stat :: "int \<Rightarrow> file_stat" where
  "sample_stat fd =
     (let i = fd mod 100 in
      \<lparr>st_dev = 1, st_ino = of_int i, st_mode = (if i = 2 then 0x8180 else 0x41C0), st_uid = 7, st_gid = 7\<rparr>)"

definition exposure_host_sample :: "int \<Rightarrow> exposure_host" where
  "exposure_host_sample n =
     \<lparr>xh_open_slash = Inr (n * 100),
      xh_openat = (\<lambda>fd name final. if fd mod 100 = 0 \<and> name = ''r'' then Inr (n * 100 + 1) else Inl ''missing''),
      xh_openat2 = (\<lambda>fd name. if fd mod 100 = 1 \<and> name = ''.'' then Inr (n * 100 + 1)
        else if fd mod 100 = 1 \<and> name = ''x'' then Inr (n * 100 + 2) else Inl ''missing''),
      xh_open_self = (\<lambda>fd. Inr (n * 100 + fd mod 100)), xh_duplicate = (\<lambda>fd. Inr (n * 100 + fd mod 100)),
      xh_fstat = (\<lambda>fd. Inr (sample_stat fd))\<rparr>"

definition read_mode :: path_exposure_mode where
  "read_mode = \<lparr>pm_access = Read_access, pm_materialization = Bind, pm_max_bytes = 0, pm_cleanup_policy = Retain\<rparr>"

definition sample_policy :: path_exposure_root_policy where
  "sample_policy =
     \<lparr>rp_root_id = ''r'', rp_host_root = ''/r'', rp_allowed_modes = [read_mode], rp_max_ttl_secs = 100,
      rp_allowed_runtime_template_ids = [''t'']\<rparr>"

definition sample_root :: root_record where
  "sample_root =
     \<lparr>rt_policy = sample_policy, rt_descriptor = 101,
      rt_identity = \<lparr>si_device = 1, si_inode = 1, si_mode = 0x41C0, si_owner = 7, si_group = 7\<rparr>\<rparr>"

definition exposure_request_sample :: "string \<Rightarrow> path_exposure_create_request" where
  "exposure_request_sample host_path =
     \<lparr>xq_request_id = ''q'', xq_exposure_id = ''e'', xq_root_id = ''r'', xq_host_path = host_path, xq_display_label = ''l'',
      xq_allowed_modes = [read_mode], xq_ttl_secs = 10, xq_allowed_runtime_template_ids = [''t'']\<rparr>"

definition sample_built :: exposure_registry where
  "sample_built =
     \<lparr>er_roots = [(''r'', sample_root)], er_exposures = [], er_last_generation = (\<lambda>_. 0), er_requests = (\<lambda>_. None),
      er_journal = None\<rparr>"

lemma sample_paths:
  "valid_absolute_path ''/r''" "valid_absolute_path ''/r/x''" "\<not> reserved_host_path ''/r''" "\<not> reserved_host_path ''/r/x''"
  "path_within ''/r/x'' ''/r''" "\<not> path_equal ''/r/x'' ''/r''" "relative_below ''/r'' ''/r/x'' = ''x''"
  "name_elements ''/r'' = [''r'']" "parent_path ''/r/x'' = ''/r''"
  by code_simp+

lemma sample_identifiers:
  "valid_identifier ''r''" "valid_identifier ''q''" "valid_identifier ''e''" "valid_identifier ''t''" "valid_identifier ''v''"
  "valid_label ''l''"
  by (simp_all add: valid_identifier_def identifier_byte_def byte_of_def valid_label_def max_label_bytes_def)

lemma sample_collections:
  "canonical_modes [read_mode] = Inr [read_mode]" "canonical_runtimes [''t''] = Inr [''t'']" "valid_mode read_mode"
  using sample_identifiers
  by (simp_all add: canonical_modes_def canonical_runtimes_def max_modes_def max_runtimes_def valid_mode_def read_mode_def)

lemma sample_kinds:
  "is_directory 0x41C0" "\<not> is_directory 0x8180" "is_regular 0x8180"
  by (simp_all add: is_directory_def is_regular_def)

lemma sample_builds: "build_exposures (exposure_host_sample 1) [sample_policy] = Inr sample_built"
  using sample_paths sample_identifiers sample_collections sample_kinds
  by (simp add: build_exposures_def max_roots_def add_root_def sample_policy_def roots_overlap_def open_absolute_no_follow_def
      exposure_host_sample_def sample_stat_def identity_for_def map_emplace_def sample_built_def sample_root_def)

lemma sample_root_identity: "identity_for (exposure_host_sample n) 101 subject = Inr (rt_identity sample_root)"
  using sample_kinds by (simp add: identity_for_def exposure_host_sample_def sample_stat_def sample_root_def)

lemma sample_policy_within: "within_policy sample_policy [read_mode] [''t'']"
  by (simp add: within_policy_def sample_policy_def mode_is_subset_def binary_search_def)

text \<open>What exposing a path of the sample opens and digests.\<close>

definition sample_identity :: source_identity where
  "sample_identity = \<lparr>si_device = 1, si_inode = 2, si_mode = 0x8180, si_owner = 7, si_group = 7\<rparr>"

definition digest_of :: "field list \<Rightarrow> string" where
  "digest_of fs = sha256_reference (enc_fields fs)"

lemma sample_opens: "open_beneath_root (exposure_host_sample n) sample_root ''/r/x'' = Inr (n * 100 + 2)"
  using sample_paths sample_root_identity
  by (simp add: open_beneath_root_def sample_root_def sample_policy_def) (simp add: exposure_host_sample_def)

lemma sample_identifies: "fd mod 100 = 2 \<Longrightarrow> identity_for (exposure_host_sample n) fd subject = Inr sample_identity"
  using sample_kinds
  by (simp add: identity_for_def exposure_host_sample_def sample_stat_def sample_identity_def)

lemma digest_of_small: "length (enc_fields fs) \<le> 2 ^ 61 - 1 \<Longrightarrow> sha256_hex (enc_fields fs) = Inr (digest_of fs)"
  by (simp add: sha256_hex_cases digest_of_def)

lemma sample_identity_digest: "identity_digest i = Inr (digest_of (source_identity_fields i))"
  unfolding identity_digest_def by (rule digest_of_small) (simp add: source_identity_fields_def enc_string_def)

lemma sample_sources:
  assumes "open_beneath_root (exposure_host_sample n) sample_root p = Inr fd" "\<not> reserved_host_path p" "parent_path p = ''/r''"
    "fd mod 100 = 2"
  shows "exposure_sources (exposure_host_sample n) sample_root p =
    Inr (fd, digest_of (source_identity_fields sample_identity), digest_of (source_identity_fields (rt_identity sample_root)))"
proof -
  have "recovery_parent_identity_digest (exposure_host_sample n) sample_root p = Inr (digest_of (source_identity_fields (rt_identity sample_root)))"
    using assms(3) sample_root_identity
    by (simp add: recovery_parent_identity_digest_def sample_identity_digest)
      (simp add: sample_root_def sample_policy_def path_equal_def sample_identity_digest)
  then show ?thesis
    using assms by (simp add: exposure_sources_def sample_identifies sample_identity_digest)
qed

definition sample_descriptor0 :: path_exposure_descriptor where
  "sample_descriptor0 =
     \<lparr>pd_schema_version = 1, pd_exposure_id = ''e'', pd_generation = 1, pd_root_id = ''r'',
      pd_source_identity_digest = digest_of (source_identity_fields sample_identity), pd_scope_digest = [],
      pd_display_label = ''l'', pd_allowed_modes = [read_mode], pd_expires_at_ms = 10005,
      pd_allowed_runtime_template_ids = [''t''], pd_state = Active\<rparr>"

definition sample_descriptor :: path_exposure_descriptor where
  "sample_descriptor = sample_descriptor0\<lparr>pd_scope_digest := digest_of (scope_fields sample_descriptor0)\<rparr>"

lemma length_digest_of [simp]: "length (digest_of fs) = 64"
  by (simp add: digest_of_def)

lemma digest_of_valid [simp]: "valid_digest (digest_of fs)"
  by (simp add: digest_of_def)

lemma sample_describes:
  "create_descriptor (exposure_request_sample p) [read_mode] [''t''] (digest_of (source_identity_fields sample_identity)) 1 5 = Inr sample_descriptor"
proof -
  have "length (enc_fields (scope_fields sample_descriptor0)) \<le> 2 ^ 61 - 1"
    by (simp add: scope_fields_def sample_descriptor0_def encode_mode_def enc_string_def)
  then have "scope_digest sample_descriptor0 = Inr (digest_of (scope_fields sample_descriptor0))"
    unfolding scope_digest_def by (rule digest_of_small)
  moreover have "\<not> (- 1 - (5 :: u64)) div 1000 < 10" by (simp add: word_less_nat_alt unat_div max_minus)
  ultimately show ?thesis
    by (simp add: create_descriptor_def exposure_request_sample_def sample_descriptor_def) (simp add: sample_descriptor0_def)
qed

definition exposure_record_sample :: "string \<Rightarrow> path_exposure_create_record" where
  "exposure_record_sample p =
     \<lparr>xc_descriptor = sample_descriptor, xc_request_id = ''q'',
      xc_request_digest = digest_of (create_request_fields (exposure_request_sample p) [read_mode] [''t'']), xc_host_path = p,
      xc_parent_identity_digest = digest_of (source_identity_fields (rt_identity sample_root))\<rparr>"

text \<open>Creating an exposure in a registry without entries comes down to the journal.\<close>

lemma sample_creates:
  assumes "open_beneath_root (exposure_host_sample n) sample_root p = Inr fd" "\<not> reserved_host_path p" "parent_path p = ''/r''"
    "fd mod 100 = 2"
    and "valid_absolute_path p" "length p \<le> 100" and "s = sample_built\<lparr>er_journal := j\<rparr>"
  shows "exposure_create c (exposure_host_sample n) (exposure_request_sample p) 5 s =
    (case journal_exposure c (Create_record (exposure_record_sample p)) s of
       (Inl e, s1) \<Rightarrow> (Inl e, s1)
     | (Inr _, s1) \<Rightarrow> (Inr sample_descriptor, enter_created (exposure_record_sample p) fd s1))"
proof -
  have request: "create_request_ok (exposure_request_sample p) 5"
    using assms(5) sample_identifiers by (simp add: create_request_ok_def exposure_request_sample_def)
  have "create_request_digest (exposure_request_sample p) [read_mode] [''t''] =
      Inr (digest_of (create_request_fields (exposure_request_sample p) [read_mode] [''t'']))"
    unfolding create_request_digest_def
    by (rule digest_of_small) (use assms(6) in \<open>simp add: create_request_fields_def exposure_request_sample_def encode_mode_def enc_string_def\<close>)
  moreover have "next_generation ''e'' 5 s = Inr 1"
    by (simp add: next_generation_def assms(7) sample_built_def max_exposures_def)
  moreover have "map_of (er_roots s) ''r'' = Some sample_root" "rt_policy sample_root = sample_policy"
    by (simp_all add: assms(7) sample_built_def sample_root_def)
  moreover have parts: "xq_root_id (exposure_request_sample p) = ''r''" "xq_host_path (exposure_request_sample p) = p" "xq_exposure_id (exposure_request_sample p) = ''e''"
    "xq_request_id (exposure_request_sample p) = ''q''" "xq_allowed_modes (exposure_request_sample p) = [read_mode]" "xq_ttl_secs (exposure_request_sample p) = 10"
    "xq_allowed_runtime_template_ids (exposure_request_sample p) = [''t'']"
    by (simp_all add: exposure_request_sample_def)
  ultimately have "create_fresh c (exposure_host_sample n) (exposure_request_sample p) [read_mode] [''t'']
      (digest_of (create_request_fields (exposure_request_sample p) [read_mode] [''t''])) 5 s =
    (case journal_exposure c (Create_record (exposure_record_sample p)) s of
       (Inl e, s1) \<Rightarrow> (Inl e, s1)
     | (Inr _, s1) \<Rightarrow> (Inr sample_descriptor, enter_created (exposure_record_sample p) fd s1))"
    using sample_policy_within sample_sources [OF assms(1-4)] sample_describes
    by (simp add: create_fresh_def Let_def exposure_record_sample_def sample_policy_def split: prod.splits sum.splits)
  then show ?thesis
    using request parts sample_collections \<open>create_request_digest _ _ _ = _\<close>
    by (simp add: exposure_create_def assms(7) sample_built_def)
qed

subsection \<open>The same with a journal\<close>

definition sample_exposure :: path_exposure_journal_record where
  "sample_exposure = Create_record (exposure_record_sample ''/r/x'')"

definition sample_exposure_wire :: exposure_wire where
  "sample_exposure_wire =
     (let w = encode_exposure sample_exposure 1 (replicate 64 (CHR ''0'')) in
      w\<lparr>xw_record_hash := digest_of (exposure_fields w)\<rparr>)"

definition sample_revocation :: path_exposure_revoke_record where
  "sample_revocation =
     \<lparr>xr_request_id = ''v'',
      xr_request_digest = digest_of [Str ''glove.path-exposure-revoke-request'', U8 1, Str ''v'', Str ''e'', U64 1],
      xr_exposure_id = ''e'', xr_generation = 1, xr_state = Revoked, xr_revoked_at_ms = 6\<rparr>"

definition sample_revocation_wire :: exposure_wire where
  "sample_revocation_wire =
     (let w = encode_exposure (Revoke_record sample_revocation) 2 (xw_record_hash sample_exposure_wire) in
      w\<lparr>xw_record_hash := digest_of (exposure_fields w)\<rparr>)"

definition sample_exposure_codec :: exposure_codec where
  "sample_exposure_codec =
     \<lparr>ec_write = \<lambda>w. if w = sample_exposure_wire then Some ''w'' else if w = sample_revocation_wire then Some ''z'' else None,
      ec_read = \<lambda>payload. if payload = ''w'' then Some sample_exposure_wire
        else if payload = ''z'' then Some sample_revocation_wire else None\<rparr>"

definition sample_exposure_disk :: disk where
  "sample_exposure_disk = journal_sample_disk\<lparr>d_bytes := exposure_magic\<rparr>"

definition sample_exposure_journal0 :: exposure_journal where
  "sample_exposure_journal0 =
     \<lparr>ej_disk = sample_exposure_disk, ej_size = 16, ej_max_bytes = 1000, ej_sequence = 0,
      ej_head_hash = replicate 64 (CHR ''0''), ej_records = []\<rparr>"

definition sample_exposure_journal :: exposure_journal where
  "sample_exposure_journal =
     enter_exposure sample_exposure_wire sample_exposure
       (sample_exposure_journal0\<lparr>ej_disk := pwrite sample_exposure_disk (frame_of ''w'') 16, ej_size := 25\<rparr>)"

definition sample_exposures0 :: exposure_registry where
  "sample_exposures0 = sample_built\<lparr>er_journal := Some sample_exposure_journal0\<rparr>"

definition sample_exposures :: exposure_registry where
  "sample_exposures =
     enter_created (exposure_record_sample ''/r/x'') 202 (sample_built\<lparr>er_journal := Some sample_exposure_journal\<rparr>)"

lemma sample_exposure_faithful: "exposure_codec_faithful sample_exposure_codec"
  by (auto simp: exposure_codec_faithful_def sample_exposure_codec_def split: if_splits)

lemma sample_exposure_quiet: "change_quiet sample_exposure_disk"
  by (simp add: change_quiet_def sample_exposure_disk_def journal_sample_disk_def owner_only_file_def)

lemma sample_exposures_open:
  "open_exposures sample_exposure_codec (exposure_host_sample 1) [sample_policy] ''/j'' 1000 (change_at sample_exposure_disk) =
     Inr sample_exposures0"
proof -
  have "exposure_ok sample_exposure_codec sample_exposure_journal0"
    by (auto simp: exposure_ok_def exposure_replays_def sample_exposure_journal0_def sample_exposure_disk_def exposure_fresh_def
        intro!: exI [of _ "[]"])
  from exposure_ok_reopens [OF this sample_exposure_quiet sample_path]
  have "exposure_open sample_exposure_codec ''/j'' 1000 (change_at sample_exposure_disk) = Inr sample_exposure_journal0"
    by (simp add: sample_exposure_journal0_def sample_exposure_disk_def off_t_max_def)
  then show ?thesis
    by (simp add: open_exposures_def sample_builds sample_exposures0_def sample_exposure_journal0_def)
qed

lemma sample_exposure_storable: "record_storable sample_exposure"
  using sample_collections valid_mode_plain [of read_mode]
  by (simp add: sample_exposure_def record_storable_def exposure_record_sample_def sample_descriptor_def sample_descriptor0_def
      digest_of_valid)

text \<open>An append of a record whose payload is one character, while nothing fails.\<close>

lemma sample_exposure_append:
  assumes "d_outcomes (ej_disk s) = []" "unat (ej_size s) \<le> 900" "ej_max_bytes s = 1000" "length (ej_records s) < 2" "ej_sequence s \<noteq> - 1"
    and storable: "record_storable r" and w: "w = encode_exposure r (ej_sequence s + 1) (ej_head_hash s)"
    and small: "length (enc_fields (exposure_fields w)) \<le> 2 ^ 61 - 1"
    and written: "ec_write c (w\<lparr>xw_record_hash := digest_of (exposure_fields w)\<rparr>) = Some [x]"
  shows "exposure_append c r s = (Inr (), enter_exposure (w\<lparr>xw_record_hash := digest_of (exposure_fields w)\<rparr>) r
      (s\<lparr>ej_disk := pwrite (ej_disk s) (frame_of [x]) (unat (ej_size s)), ej_size := ej_size s + 9\<rparr>))"
proof -
  have digest: "exposure_digest w = Inr (digest_of (exposure_fields w))"
    unfolding exposure_digest_def by (rule digest_of_small [OF small])
  have decoded: "decode_exposure (w\<lparr>xw_record_hash := digest_of (exposure_fields w)\<rparr>) = Inr r"
    unfolding w by (rule decode_encode_exposure [OF storable])
  let ?d = "pwrite (ej_disk s) (frame_of [x]) (unat (ej_size s))"
  have "write_bytes exposure_write_text (ej_disk s) (frame_of [x]) (ej_size s) = (Inr (), ?d)"
    using assms(1,2) by (intro write_bytes_calm) (simp_all add: off_t_max_def frame_of_def bytes_of_string_def)
  moreover have "sync_exposure ?d = (Inr (), ?d)"
    unfolding sync_exposure_def using assms(1) by (intro sync_descriptor_calm) (simp add: pwrite_def)
  moreover have "\<not> 1000 - 9 < ej_size s" using assms(2) by (simp add: word_less_nat_alt)
  ultimately show ?thesis
    using digest decoded written assms(3-5) w
    by (simp add: exposure_append_def Let_def max_exposure_records_def max_exposure_payload_bytes_def)
qed

lemma sample_exposure_appends:
  "exposure_append sample_exposure_codec sample_exposure sample_exposure_journal0 = (Inr (), sample_exposure_journal)"
proof -
  let ?w = "encode_exposure sample_exposure 1 (replicate 64 (CHR ''0''))"
  have small: "length (enc_fields (exposure_fields ?w)) \<le> 2 ^ 61 - 1"
    by (simp add: exposure_fields_def encode_exposure_def sample_exposure_def exposure_record_sample_def encode_descriptor_def
        sample_descriptor_def sample_descriptor0_def encode_mode_names_def read_mode_def mode_fields_def access_name_def
        materialization_name_def cleanup_name_def state_name_def enc_string_def Let_def)
  have wire: "?w\<lparr>xw_record_hash := digest_of (exposure_fields ?w)\<rparr> = sample_exposure_wire"
    by (simp add: sample_exposure_wire_def Let_def)
  have "exposure_append sample_exposure_codec sample_exposure sample_exposure_journal0 =
      (Inr (), enter_exposure (?w\<lparr>xw_record_hash := digest_of (exposure_fields ?w)\<rparr>) sample_exposure
        (sample_exposure_journal0\<lparr>ej_disk := pwrite (ej_disk sample_exposure_journal0) (frame_of ''w'') (unat (ej_size sample_exposure_journal0)),
           ej_size := ej_size sample_exposure_journal0 + 9\<rparr>))"
    using small
    by (intro sample_exposure_append sample_exposure_storable)
      (simp_all add: wire sample_exposure_journal0_def sample_exposure_disk_def journal_sample_disk_def sample_exposure_codec_def)
  then show ?thesis
    by (simp add: wire sample_exposure_journal_def sample_exposure_journal0_def)
qed

lemma sample_exposures_create:
  "exposure_create sample_exposure_codec (exposure_host_sample 2) (exposure_request_sample ''/r/x'') 5 sample_exposures0 =
     (Inr sample_descriptor, sample_exposures)"
proof -
  have "journal_exposure sample_exposure_codec (Create_record (exposure_record_sample ''/r/x'')) sample_exposures0 =
      (Inr (), sample_built\<lparr>er_journal := Some sample_exposure_journal\<rparr>)"
    using sample_exposure_appends by (simp add: journal_exposure_def sample_exposures0_def sample_exposure_def)
  then show ?thesis
    using sample_creates [OF sample_opens [of 2] sample_paths(4,9) _ sample_paths(2) _ sample_exposures0_def, of sample_exposure_codec]
    by (simp add: sample_exposures_def)
qed

lemma sample_exposures_reachable: "exposures_reachable sample_exposure_codec [sample_policy] 5 sample_exposures"
proof (rule exposures_reachable.stepped)
  show "exposures_reachable sample_exposure_codec [sample_policy] 0 sample_exposures0"
    by (rule exposures_reachable.started [OF sample_exposures_open, of sample_exposure_journal0])
      (simp_all add: sample_exposures0_def sample_exposure_journal0_def sample_exposure_disk_def off_t_max_def)
  show "exposure_step sample_exposure_codec [sample_policy] 5 sample_exposures0 sample_exposures"
    by (rule exposure_step.creates [OF sample_exposures_create])
qed simp

definition sample_grant :: path_exposure_grant where
  "sample_grant =
     \<lparr>pg_exposure_id = ''e'', pg_generation = 1, pg_scope_digest = pd_scope_digest sample_descriptor, pg_access = Read_access,
      pg_materialization = Bind, pg_max_bytes = 0, pg_ttl_secs = 5, pg_cleanup_policy = Retain\<rparr>"

lemma sample_exposures_entry:
  "map_of (er_exposures sample_exposures) (''e'', 1) = Some
     \<lparr>xp_descriptor = sample_descriptor, xp_request_id = ''q'',
      xp_request_digest = xc_request_digest (exposure_record_sample ''/r/x''), xp_host_path = ''/r/x'',
      xp_parent_identity_digest = xc_parent_identity_digest (exposure_record_sample ''/r/x''), xp_source_descriptor = 202\<rparr>"
  by (simp add: sample_exposures_def enter_created_def Let_def map_emplace_def sample_built_def exposure_record_sample_def
      sample_descriptor_def sample_descriptor0_def)

lemma sample_grant_valid: "validate_grant (exposure_host_sample 3) sample_grant ''t'' 6 sample_exposures = Inr ()"
proof -
  have mode: "grant_mode sample_grant = read_mode" by (simp add: grant_mode_def sample_grant_def read_mode_def)
  have roots: "map_of (er_roots sample_exposures) ''r'' = Some sample_root"
    by (simp add: sample_exposures_def enter_created_def Let_def sample_built_def)
  have "valid_digest (pg_scope_digest sample_grant)"
    by (simp add: sample_grant_def sample_descriptor_def digest_of_valid)
  moreover have "source_matches (exposure_host_sample 3) sample_root
     \<lparr>xp_descriptor = sample_descriptor, xp_request_id = ''q'',
      xp_request_digest = xc_request_digest (exposure_record_sample ''/r/x''), xp_host_path = ''/r/x'',
      xp_parent_identity_digest = xc_parent_identity_digest (exposure_record_sample ''/r/x''), xp_source_descriptor = 202\<rparr>"
    by (simp add: source_matches_def sample_opens sample_identifies sample_identity_digest sample_descriptor_def sample_descriptor0_def)
  moreover have "pd_state sample_descriptor = Active" "pd_expires_at_ms sample_descriptor = 10005"
    "pd_allowed_runtime_template_ids sample_descriptor = [''t'']" "pd_allowed_modes sample_descriptor = [read_mode]"
    "pd_root_id sample_descriptor = ''r''"
    by (simp_all add: sample_descriptor_def sample_descriptor0_def)
  moreover have "pg_exposure_id sample_grant = ''e''" "pg_generation sample_grant = 1" "pg_ttl_secs sample_grant = 5"
    "pg_scope_digest sample_grant = pd_scope_digest sample_descriptor"
    by (simp_all add: sample_grant_def)
  ultimately show ?thesis
    using sample_identifiers sample_collections(3) mode roots sample_exposures_entry
    by (simp add: validate_grant_def binary_search_def mode_is_subset_def word_less_nat_alt unat_div)
qed

subsection \<open>A revocation\<close>

definition sample_revoked_journal :: exposure_journal where
  "sample_revoked_journal =
     enter_exposure sample_revocation_wire (Revoke_record sample_revocation)
       (sample_exposure_journal\<lparr>ej_disk := pwrite (ej_disk sample_exposure_journal) (frame_of ''z'') 25, ej_size := 34\<rparr>)"

definition sample_exposures_revoked :: exposure_registry where
  "sample_exposures_revoked = enter_revoked sample_revocation (sample_exposures\<lparr>er_journal := Some sample_revoked_journal\<rparr>)"

lemma sample_revocation_appends:
  "exposure_append sample_exposure_codec (Revoke_record sample_revocation) sample_exposure_journal = (Inr (), sample_revoked_journal)"
proof -
  let ?w = "encode_exposure (Revoke_record sample_revocation) 2 (xw_record_hash sample_exposure_wire)"
  have hash: "length (xw_record_hash sample_exposure_wire) = 64"
    by (simp add: sample_exposure_wire_def Let_def)
  have small: "length (enc_fields (exposure_fields ?w)) \<le> 2 ^ 61 - 1"
    by (simp add: exposure_fields_def encode_exposure_def sample_revocation_def state_name_def enc_string_def hash)
  have wire: "?w\<lparr>xw_record_hash := digest_of (exposure_fields ?w)\<rparr> = sample_revocation_wire"
    by (simp add: sample_revocation_wire_def Let_def)
  have kinds: "xw_kind sample_revocation_wire = ''revoke''" "xw_kind sample_exposure_wire = ''create''"
    by (simp_all add: sample_revocation_wire_def sample_exposure_wire_def encode_exposure_def sample_exposure_def Let_def)
  then have other: "sample_revocation_wire \<noteq> sample_exposure_wire" by auto
  have storable: "record_storable (Revoke_record sample_revocation)"
    by (simp add: record_storable_def sample_revocation_def)
  have wire1: "xw_sequence sample_exposure_wire = 1" by (simp add: sample_exposure_wire_def Let_def)
  have "exposure_append sample_exposure_codec (Revoke_record sample_revocation) sample_exposure_journal =
      (Inr (), enter_exposure (?w\<lparr>xw_record_hash := digest_of (exposure_fields ?w)\<rparr>) (Revoke_record sample_revocation)
        (sample_exposure_journal\<lparr>ej_disk := pwrite (ej_disk sample_exposure_journal) (frame_of ''z'') (unat (ej_size sample_exposure_journal)),
           ej_size := ej_size sample_exposure_journal + 9\<rparr>))"
    using small other
    by (intro sample_exposure_append storable)
      (simp_all add: wire wire1 sample_exposure_journal_def enter_exposure_def sample_exposure_journal0_def sample_exposure_disk_def
        journal_sample_disk_def sample_exposure_codec_def pwrite_def)
  then show ?thesis
    by (simp add: wire sample_revoked_journal_def) (simp add: sample_exposure_journal_def enter_exposure_def)
qed

lemma sample_exposures_revoke:
  "exposure_revoke sample_exposure_codec ''v'' ''e'' 1 6 sample_exposures = (Inr (), sample_exposures_revoked)"
proof -
  have "revoke_request_digest ''v'' ''e'' 1 = Inr (xr_request_digest sample_revocation)"
    unfolding revoke_request_digest_def sample_revocation_def
    by (simp add: digest_of_def sha256_hex_cases enc_string_def)
  moreover have "er_requests sample_exposures ''v'' = None"
    by (simp add: sample_exposures_def enter_created_def Let_def sample_built_def emplace_apply exposure_record_sample_def)
  moreover have "pd_state sample_descriptor = Active" "pd_expires_at_ms sample_descriptor = 10005"
    by (simp_all add: sample_descriptor_def sample_descriptor0_def)
  moreover have "\<lparr>xr_request_id = ''v'', xr_request_digest = xr_request_digest sample_revocation, xr_exposure_id = ''e'', xr_generation = 1,
      xr_state = Revoked, xr_revoked_at_ms = 6\<rparr> = sample_revocation"
    by (simp add: sample_revocation_def)
  moreover have "journal_exposure sample_exposure_codec (Revoke_record sample_revocation) sample_exposures =
      (Inr (), sample_exposures\<lparr>er_journal := Some sample_revoked_journal\<rparr>)"
    using sample_revocation_appends by (simp add: journal_exposure_def) (simp add: sample_exposures_def)
  ultimately show ?thesis
    using sample_identifiers sample_exposures_entry
    by (simp add: exposure_revoke_def sample_exposures_revoked_def)
qed

end
