(* ===== verification/Exposure_Theorems.thy ===== *)
theory Exposure_Theorems
  imports Exposure_Sample
begin

text \<open>
  The properties of the exposure registry: durability, the authority behind a grant, the finality of a
  revocation, and how a request reaches a protected root itself.
\<close>

text \<open>
  C22. Durability of exposures.  Whatever operations and restarts after a new journal produced it, however
  the kernel answered them and whatever the clock did, a process that opens the acknowledged bytes of the journal with the same policy has the
  same exposures, generations and answered requests; only open file descriptors differ.
\<close>

theorem exposure_registry_reopens:
  assumes "exposures_run c policies s" and "exposure_codec_faithful c" and "er_journal s = Some j"
    and "build_exposures h policies = Inr t" and "change_quiet d" and "is_absolute path" and "filename path \<noteq> []"
    and "d_bytes d = take (unat (ej_size j)) (d_bytes (ej_disk j))" and "length (d_bytes d) \<le> off_t_max"
  shows "\<exists>s'. open_exposures c h policies path (ej_max_bytes j) (change_at d) = Inr s' \<and> exposure_view s' = exposure_view s"
  using registry_reopens [OF exposures_run_ok [OF assms(1,2)] assms(3-9)] by blast

theorem exposure_registry_reopens_witness:
  "\<exists>s'. open_exposures sample_exposure_codec (exposure_host_sample 1) [sample_policy] ''/j'' 1000
     (change_at (ej_disk sample_exposure_journal)) = Inr s' \<and> exposure_view s' = exposure_view sample_exposures"
proof -
  have journal: "er_journal sample_exposures = Some sample_exposure_journal"
    by (simp add: sample_exposures_def)
  have disk: "d_bytes (ej_disk sample_exposure_journal) = exposure_magic @ frame_of ''w''"
    using splice_at_end [of exposure_magic "frame_of ''w''"]
    by (simp add: sample_exposure_journal_def enter_exposure_def pwrite_def sample_exposure_disk_def)
  have "change_quiet (ej_disk sample_exposure_journal)" "unat (ej_size sample_exposure_journal) = 25"
    "ej_max_bytes sample_exposure_journal = 1000"
    by (simp_all add: sample_exposure_journal_def enter_exposure_def pwrite_def sample_exposure_disk_def change_quiet_def
        journal_sample_disk_def owner_only_file_def sample_exposure_journal0_def)
  then show ?thesis
    using exposure_registry_reopens [OF exposures_reachable_run [OF sample_exposures_reachable] sample_exposure_faithful journal sample_builds _ sample_path, of "ej_disk sample_exposure_journal"]
      disk by (simp add: off_t_max_def)
qed

lemma validate_grant_accepts:
  assumes "validate_grant h g runtime now s = Inr ()"
  obtains v root where "map_of (er_exposures s) (pg_exposure_id g, pg_generation g) = Some v"
    "map_of (er_roots s) (pd_root_id (xp_descriptor v)) = Some root" "pd_state (xp_descriptor v) = Active"
    "now < pd_expires_at_ms (xp_descriptor v)" "pg_ttl_secs g \<le> (pd_expires_at_ms (xp_descriptor v) - now) div 1000"
    "binary_search (pd_allowed_runtime_template_ids (xp_descriptor v)) runtime"
    "mode_is_subset (grant_mode g) (pd_allowed_modes (xp_descriptor v))" "source_matches h root v"
  using assms by (auto simp: validate_grant_def Let_def not_less not_le split: if_splits option.splits)

lemma lifetime_fits:
  assumes "now < expires" and "ttl \<le> (expires - now) div (1000 :: u64)"
  shows "unat now + unat ttl * 1000 \<le> unat expires"
proof -
  have "unat (expires - now) = unat expires - unat now" using assms(1) by (simp add: unat_sub)
  then have "unat ttl \<le> (unat expires - unat now) div 1000" using assms(2) by (simp add: word_le_nat_alt unat_div)
  then show ?thesis using assms(1) by (simp add: word_less_nat_alt)
qed

text \<open>
  C23. The authority behind a grant.  Suppose the registry came from a new journal by operations and
  restarts at times that never went back, and the grant is checked at a time not before the last of
  them.  Then a grant that validates names the newest generation of its exposure; that generation was created in the journal and is revoked
  nowhere in it; the grant ends before the exposure does; mode, runtime and path are inside the policy of
  the protected root; and the file behind the path still has the identity that was exposed.
\<close>

theorem exposure_grant_authority:
  assumes "exposures_reachable c policies past s" and "exposure_codec_faithful c" and "past \<le> now"
    and "validate_grant h g runtime now s = Inr ()"
  shows "\<exists>j x root. er_journal s = Some j \<and> Create_record x \<in> set (ej_records j) \<and>
    create_key x = (pg_exposure_id g, pg_generation g) \<and>
    (\<forall>y. Revoke_record y \<in> set (ej_records j) \<longrightarrow> revoke_key y \<noteq> (pg_exposure_id g, pg_generation g)) \<and>
    pg_generation g = er_last_generation s (pg_exposure_id g) \<and>
    unat now + unat (pg_ttl_secs g) * 1000 \<le> unat (pd_expires_at_ms (xc_descriptor x)) \<and>
    map_of (er_roots s) (pd_root_id (xc_descriptor x)) = Some root \<and>
    path_within (xc_host_path x) (rp_host_root (rt_policy root)) \<and>
    mode_is_subset (grant_mode g) (rp_allowed_modes (rt_policy root)) \<and>
    runtime \<in> set (rp_allowed_runtime_template_ids (rt_policy root)) \<and>
    (\<exists>fd i. open_beneath_root h root (xc_host_path x) = Inr fd \<and> identity_for h fd ''exposure source'' = Inr i \<and>
       identity_digest i = Inr (pd_source_identity_digest (xc_descriptor x)))"
  using assms(4)
proof (rule validate_grant_accepts)
  fix v :: exposure_record and root :: root_record
  let ?k = "(pg_exposure_id g, pg_generation g)" and ?d = "xp_descriptor v"
  assume v: "map_of (er_exposures s) ?k = Some v" and root: "map_of (er_roots s) (pd_root_id ?d) = Some root"
    and active: "pd_state ?d = Active" and time: "now < pd_expires_at_ms ?d" "pg_ttl_secs g \<le> (pd_expires_at_ms ?d - now) div 1000"
    and runtime: "binary_search (pd_allowed_runtime_template_ids ?d) runtime" and mode: "mode_is_subset (grant_mode g) (pd_allowed_modes ?d)"
    and source: "source_matches h root v"
  note ok = exposures_reachable_ok [OF assms(1,2)]
  obtain j where j: "er_journal s = Some j" and roots: "roots_ok policies s" using ok by (auto simp: registry_ok_def)
  note journaled = registry_ok_journaled [OF ok j]
  have entry: "exposure_entry s ?k = Some (forget_descriptor v)" using v by (simp add: exposure_entry_def)
  obtain x where x: "Create_record x \<in> set (ej_records j)" "create_key x = ?k" "xp_host_path v = xc_host_path x"
    "?d = (xc_descriptor x)\<lparr>pd_state := Active\<rparr>" "\<forall>y. Revoke_record y \<in> set (ej_records j) \<longrightarrow> revoke_key y \<noteq> ?k"
    using journaledD(2) [OF journaled entry] active unfolding entry_journaled_def by auto
  have same: "pd_expires_at_ms ?d = pd_expires_at_ms (xc_descriptor x)" "pd_root_id ?d = pd_root_id (xc_descriptor x)"
    "pd_source_identity_digest ?d = pd_source_identity_digest (xc_descriptor x)"
    using x(4) by simp_all
  have gen: "generation_ok s past ?k (forget_descriptor v)"
    by (rule generations_okD [OF exposures_reachable_generations [OF assms(1,2)] entry])
  have "\<not> pg_generation g < er_last_generation s (pg_exposure_id g)"
    using gen active time(1) assms(3) by (auto simp: generation_ok_def Let_def dest: order_trans)
  then have newest: "pg_generation g = er_last_generation s (pg_exposure_id g)"
    using journaledD(1) [OF journaled entry] by simp
  have policy: "root_policy s (pd_root_id ?d) = Some (rt_policy root)" using root by (simp add: root_policy_def)
  have inside: "path_within (xp_host_path v) (rp_host_root (rt_policy root))" "sorted (pd_allowed_runtime_template_ids ?d)"
    "within_policy (rt_policy root) (pd_allowed_modes ?d) (pd_allowed_runtime_template_ids ?d)"
    using gen policy by (auto simp: generation_ok_def Let_def)
  have "mode_is_subset (grant_mode g) (rp_allowed_modes (rt_policy root))"
    using mode_is_subset_trans [OF mode] inside(3) by (simp add: within_policy_def)
  moreover have "runtime \<in> set (rp_allowed_runtime_template_ids (rt_policy root))"
    using runtime inside(2,3) binary_search_iff [OF roots_ok_sorted [OF roots policy]]
    by (auto simp: within_policy_def list_all_iff binary_search_iff)
  moreover have "\<exists>fd i. open_beneath_root h root (xc_host_path x) = Inr fd \<and> identity_for h fd ''exposure source'' = Inr i \<and>
       identity_digest i = Inr (pd_source_identity_digest (xc_descriptor x))"
    using source x(3) same(3) by (auto simp: source_matches_def split: sum.splits)
  ultimately show ?thesis
    using j x newest lifetime_fits [OF time] root inside(1) same by (intro exI [of _ j] exI [of _ x] exI [of _ root]) simp
qed

theorem exposure_grant_authority_witness:
  "\<exists>x. Create_record x \<in> set (ej_records sample_exposure_journal) \<and> create_key x = (''e'', 1) \<and>
     path_within (xc_host_path x) ''/r''"
proof -
  have roots: "map_of (er_roots sample_exposures) k = Some root \<Longrightarrow> rp_host_root (rt_policy root) = ''/r''" for k root
    by (auto simp: sample_exposures_def enter_created_def Let_def sample_built_def sample_root_def sample_policy_def split: if_splits)
  have "er_journal sample_exposures = Some sample_exposure_journal" by (simp add: sample_exposures_def)
  moreover have "(5 :: u64) \<le> 6" by simp
  ultimately show ?thesis
    using exposure_grant_authority [OF sample_exposures_reachable sample_exposure_faithful _ sample_grant_valid] roots
    by (fastforce simp: sample_grant_def)
qed

lemma exposure_steps_triples:
  assumes "(\<lambda>s s'. \<exists>now. exposure_step c policies now s s')\<^sup>*\<^sup>* s s'"
  shows "(\<lambda>(c, policies, s) (c', policies', s'). c' = c \<and> policies' = policies \<and> (\<exists>now. exposure_step c policies now s s'))\<^sup>*\<^sup>*
    (c, policies, s) (c, policies, s')"
  using assms by (induction rule: rtranclp_induct) (auto intro: rtranclp.rtrancl_into_rtrancl)

lemma closed_stays_closed:
  assumes "registry_ok c policies s" and "exposure_entry s k = Some v" and "pd_state (xp_descriptor v) \<noteq> Active"
    and "(\<lambda>s s'. \<exists>now. exposure_step c policies now s s')\<^sup>*\<^sup>* s s'"
  shows "exposure_entry s' k = Some v"
  using exposures.run_entry [OF exposure_steps_triples [OF assms(4)]] assms(1-3) by (fastforce simp: exposure_advances_def)

text \<open>
  C24. Revocation is final.  Once a new revocation request succeeded, no sequence of operations and
  restarts, whatever the clock does, makes a grant of that generation validate or resolve again.
\<close>

theorem exposure_revocation_final:
  assumes "exposures_run c policies s" and "exposure_codec_faithful c"
    and "exposure_revoke c request_id (pg_exposure_id g) (pg_generation g) now s = (Inr (), s')"
    and "er_requests s request_id = None"
    and "(\<lambda>s s'. \<exists>now. exposure_step c policies now s s')\<^sup>*\<^sup>* s' s2"
  shows "\<exists>e e'. validate_grant h g runtime later s2 = Inl e \<and> resolve_validated h g later s2 = Inl e'"
proof -
  note ok = exposures_run_ok [OF assms(1,2)]
  let ?k = "(pg_exposure_id g, pg_generation g)"
  obtain y where y: "xr_exposure_id y = pg_exposure_id g" "xr_generation y = pg_generation g" "registry_revoked c y s s'"
  proof -
    have "\<not> registry_kept c s s'"
    proof
      assume kept: "registry_kept c s s'"
      have "er_requests s' request_id \<noteq> None"
        using assms(3,4) by (auto simp: exposure_revoke_def Let_def enter_revoked_def emplace_apply journal_exposure_def
            split: if_splits sum.splits option.splits prod.splits)
      moreover have "er_requests s' = er_requests s"
        by (rule view_eqD(5) [OF registry_kept_ok(2) [OF ok kept]])
      ultimately show False using assms(4) by simp
    qed
    then show thesis using exposure_revoke_laws [OF assms(3)] that by blast
  qed
  note revoked = registry_revoked_ok [OF ok y(3)]
  obtain u where u: "exposure_entry s ?k = Some u" "xr_state y \<noteq> Active"
    using revoked(3) y(1,2) by (auto simp: replayable_revoke_def)
  then have "exposure_entry s' ?k = Some (u\<lparr>xp_descriptor := (xp_descriptor u)\<lparr>pd_state := xr_state y\<rparr>\<rparr>)"
    using y(1,2) by (simp add: view_eqD(2) [OF revoked(2)] entry_revoked)
  from closed_stays_closed [OF revoked(1) this _ assms(5)] u(2) obtain w where
    w: "map_of (er_exposures s2) ?k = Some w" "pd_state (xp_descriptor w) \<noteq> Active"
    by (auto simp: exposure_entry_def dest!: arg_cong [of _ _ xp_descriptor])
  then show ?thesis
    by (cases "map_of (er_roots s2) (pd_root_id (xp_descriptor w))")
      (simp_all add: validate_grant_def resolve_validated_def Let_def)
qed

theorem exposure_revocation_final_witness:
  "\<exists>e e'. validate_grant (exposure_host_sample 3) sample_grant ''t'' 7 sample_exposures_revoked = Inl e \<and>
     resolve_validated (exposure_host_sample 3) sample_grant 7 sample_exposures_revoked = Inl e'"
proof -
  have "exposure_revoke sample_exposure_codec ''v'' (pg_exposure_id sample_grant) (pg_generation sample_grant) 6 sample_exposures =
      (Inr (), sample_exposures_revoked)" "er_requests sample_exposures ''v'' = None"
    using sample_exposures_revoke
    by (simp_all add: sample_grant_def sample_exposures_def enter_created_def Let_def sample_built_def emplace_apply exposure_record_sample_def)
  from exposure_revocation_final [OF exposures_reachable_run [OF sample_exposures_reachable] sample_exposure_faithful this rtranclp.rtrancl_refl] show ?thesis .
qed

subsection \<open>The protected root itself\<close>

lemma split_on_snoc: "split_on d (s @ [d]) = split_on d s @ [[]]"
  by (induction s) (auto split: list.split)

lemma split_on_last: "last (split_on d s) = [] \<longleftrightarrow> s = [] \<or> last s = d"
proof (induction s)
  case (Cons c s)
  then show ?case by (cases s) (auto split: list.splits if_splits)
qed simp

lemma name_elements_separator:
  assumes "name_elements p \<noteq> []" and "last p \<noteq> CHR ''/''"
  shows "name_elements (p @ ''/'') = name_elements p @ [[]]"
  using assms split_on_last [of "CHR ''/''" p]
  by (cases "p = []") (auto simp: name_elements_def Let_def split_on_snoc split: if_splits)

lemma trailing_separator:
  assumes "valid_absolute_path p" and "last p \<noteq> CHR ''/''"
  shows "path_elements (p @ ''/'') = path_elements p @ [[]]" "valid_absolute_path (p @ ''/'')"
proof -
  have p: "is_absolute p" "name_elements p \<noteq> []"
    using assms(1) by (auto simp: valid_absolute_path_def path_equal_def path_elements_def root_path_def is_absolute_def name_elements_def)
  then have names: "name_elements (p @ ''/'') = name_elements p @ [[]]" "is_absolute (p @ ''/'')"
    using name_elements_separator assms(2) by (auto simp: is_absolute_def split: list.splits)
  then show "path_elements (p @ ''/'') = path_elements p @ [[]]"
    using p by (simp add: path_elements_def)
  then show "valid_absolute_path (p @ ''/'')"
  proof -
    let ?stack = "foldl normal_step [] (name_elements p)"
    have "last (name_elements p) \<noteq> []"
      using p assms(2) split_on_last [of "CHR ''/''" p] last_in_set [of "name_elements p"]
      by (cases "p = []") (auto simp: name_elements_def Let_def split: if_splits)
    moreover have "rev ?stack @ (if ?stack \<noteq> [] \<and> last (name_elements p) \<in> {[], ''.'', ''..''} then [[]] else []) = name_elements p"
      using assms(1) p(1) by (simp add: valid_absolute_path_def normal_elements_def path_elements_def Let_def)
    ultimately have "rev ?stack = name_elements p"
      by (cases "?stack \<noteq> [] \<and> last (name_elements p) \<in> {[], ''.'', ''..''}") (simp_all only: if_True if_False append_Nil2, metis last_snoc)
    moreover from this have "?stack \<noteq> []" using p(2) by auto
    ultimately have "normal_elements (p @ ''/'') = path_elements (p @ ''/'')"
      using names by (simp add: normal_elements_def path_elements_def)
    moreover have "name_elements ''/'' = []" by (simp add: name_elements_def)
    ultimately show ?thesis
      using assms(1) names p
      by (simp add: valid_absolute_path_def path_equal_def path_elements_def root_path_def is_absolute_def)
  qed
qed

text \<open>
  \<open>open_beneath_root\<close> means to refuse the protected root, but it compares paths element by element: for
  every root and every host on which the root still has its identity, the root's path with a trailing
  separator is a valid path that passes the check, and what is opened is the root's own directory.
\<close>

lemma protected_root_reopened:
  assumes "valid_absolute_path (rp_host_root (rt_policy root))" and "last (rp_host_root (rt_policy root)) \<noteq> CHR ''/''"
    and "identity_for h (rt_descriptor root) ''protected root'' = Inr (rt_identity root)"
    and "xh_openat2 h (rt_descriptor root) ''.'' = Inr descriptor"
  shows "valid_absolute_path (rp_host_root (rt_policy root) @ ''/'')"
    "open_beneath_root h root (rp_host_root (rt_policy root) @ ''/'') = Inr descriptor"
  using assms(3,4) trailing_separator [OF assms(1,2)]
  by (simp_all add: open_beneath_root_def path_equal_def path_within_def relative_below_def)

end
