(* ===== verification/Reconciliation_Theorems.thy ===== *)
theory Reconciliation_Theorems
  imports Reconciliation_Sample "HOL-Library.Multiset"
begin

text \<open>
  The reconciliation of a registry at startup: what it leaves of every session, and that its report
  accounts for all of them.
\<close>

subsection \<open>One candidate\<close>

text \<open>A session that runs outside a managed runtime and may hold a process.\<close>

definition direct_in_flight :: "registry \<Rightarrow> string \<Rightarrow> persisted_session \<Rightarrow> bool" where
  "direct_in_flight s session_id r =
     (current_session s session_id = Some r \<and> may_hold_process r \<and> p_managed_runtime_identity r = None)"

definition listed :: "session_reconciliation_report \<Rightarrow> string list" where
  "listed report =
     rn_unresolved_running_session_ids report @ rn_live_running_session_ids report @ rn_identity_mismatch_session_ids report"

definition closed_count :: "session_reconciliation_report \<Rightarrow> nat" where
  "closed_count report = rn_recovered_exited report + rn_recovered_failed report"

text \<open>What the reconciliation may make of a session, given what the observer and the journal say.\<close>

definition session_settled ::
    "json_codec \<Rightarrow> session_process_observer option \<Rightarrow> audit_producer \<Rightarrow> persisted_session \<Rightarrow> persisted_session \<Rightarrow> bool" where
  "session_settled jc observer p r r' =
     (let c = recovery_record jc r in
      if p_state r' = ''exited'' then p_state r \<noteq> ''starting'' \<and> terminal_receipt c p
      else if p_state r' = ''failed''
      then p_state r = ''starting'' \<or>
           \<not> terminal_receipt c p \<and> (\<exists>observe. observer = Some observe \<and> observe c \<in> {Inr Absent, Inr Terminated})
      else r' = r \<and> p_state r \<noteq> ''starting'' \<and> \<not> terminal_receipt c p \<and>
           (observer = None \<or> (\<exists>observe. observer = Some observe \<and> observe c \<in> {Inr Exact, Inr Mismatch})))"

lemma recovery_record_state:
  "may_hold_process r \<Longrightarrow> s_state (rx_session (recovery_record jc r)) = St_starting \<longleftrightarrow> p_state r = ''starting''"
  by (auto simp: may_hold_process_def recovery_record_def public_record_def state_from_wire_def)

lemma recovery_record_session [simp]: "s_session_id (rx_session (recovery_record jc r)) = p_session_id r"
  by (simp add: recovery_record_def public_record_def)

lemma direct_in_flight_id: "index_ok s \<Longrightarrow> direct_in_flight s session_id r \<Longrightarrow> p_session_id r = session_id"
  using index_okD(7) [of s] by (auto simp: direct_in_flight_def current_session_def)

lemma close_recovered_laws:
  assumes "direct_in_flight s session_id r" and "p_session_id r = session_id"
    and "close_recovered_without_process jc (recovery_record jc r) code now_ms s = (result, s')"
  shows "(operates jc)\<^sup>*\<^sup>* s s'"
    "well_formed jc s \<Longrightarrow> result = Inr () \<Longrightarrow> \<exists>r'. p_state r' = ''failed'' \<and> current_session s' = (current_session s)(session_id \<mapsto> r')"
proof -
  let ?c = "recovery_record jc r" and ?f = "recovery_failure (recovery_record jc r) code"
  have id: "fc_session_id ?f = session_id" using assms(2) by (simp add: recovery_failure_def)
  show "(operates jc)\<^sup>*\<^sup>* s s'"
  proof (cases "recovery_failure_key ?c")
    case (Inl e)
    then show ?thesis using assms(3) by (simp add: close_recovered_without_process_def)
  next
    case (Inr key)
    obtain x s1 where x: "mark_failed jc ?f key now_ms s = (x, s1)" by fastforce
    have "operates jc s s1"
      using operates.mark_failed [of ?f s jc key now_ms] id assms(1) x
      by (simp add: direct_session_def direct_in_flight_def)
    moreover have "s' = s1"
      using assms(3) Inr x by (auto simp: close_recovered_without_process_def split: sum.splits)
    ultimately show ?thesis by blast
  qed
  assume wf: "well_formed jc s" and ok: "result = Inr ()"
  obtain key x where x: "mark_failed jc ?f key now_ms s = (Inr x, s')"
    using assms(3) ok by (auto simp: close_recovered_without_process_def split: sum.splits prod.splits)
  show "\<exists>r'. p_state r' = ''failed'' \<and> current_session s' = (current_session s)(session_id \<mapsto> r')"
    using mark_failed_closes [OF wf x] id assms(1) by (simp add: direct_in_flight_def)
qed

lemma classify_laws:
  assumes "direct_in_flight s session_id r" and "p_session_id r = session_id" and "p_state r \<noteq> ''starting''"
    and "\<not> terminal_receipt (recovery_record jc r) p" and "well_formed jc s"
    and "classify_receiptless_running jc (recovery_record jc r) now_ms observer report s = (result, s')"
  shows "(operates jc)\<^sup>*\<^sup>* s s'"
    "result = Inr report' \<Longrightarrow> \<exists>r'. current_session s' = (current_session s)(session_id \<mapsto> r') \<and> session_settled jc observer p r r' \<and>
      (if may_hold_process r' then mset (listed report') = add_mset session_id (mset (listed report)) \<and> closed_count report' = closed_count report
       else listed report' = listed report \<and> closed_count report' = Suc (closed_count report)) \<and>
      rn_inspected report' = rn_inspected report"
proof -
  let ?c = "recovery_record jc r"
  have unchanged: "current_session s = (current_session s)(session_id \<mapsto> r)"
    using assms(1) by (auto simp: direct_in_flight_def)
  have held: "may_hold_process r" "p_state r \<noteq> ''exited''" "p_state r \<noteq> ''failed''"
    using assms(1) by (auto simp: direct_in_flight_def may_hold_process_def)
  note close = close_recovered_laws [OF assms(1,2)]
  show "(operates jc)\<^sup>*\<^sup>* s s'"
    using assms(6) close(1)
    by (auto simp: classify_receiptless_running_def Let_def
        split: option.splits if_splits sum.splits prod.splits session_process_observation.splits)
  assume answer: "result = Inr report'"
  show "\<exists>r'. current_session s' = (current_session s)(session_id \<mapsto> r') \<and> session_settled jc observer p r r' \<and>
      (if may_hold_process r' then mset (listed report') = add_mset session_id (mset (listed report)) \<and> closed_count report' = closed_count report
       else listed report' = listed report \<and> closed_count report' = Suc (closed_count report)) \<and>
      rn_inspected report' = rn_inspected report"
  proof (cases observer)
    case None
    with assms(2,3,4,6) answer held unchanged show ?thesis
      by (intro exI [of _ r]) (auto simp: classify_receiptless_running_def Let_def session_settled_def listed_def closed_count_def)
  next
    case (Some observe)
    then obtain x where x: "observe ?c = Inr x"
      using assms(6) answer
      by (auto simp: classify_receiptless_running_def Let_def split: if_splits sum.splits)
    consider (kept) "x = Exact \<or> x = Mismatch" | (gone) "x = Absent \<or> x = Terminated"
      by (cases x) auto
    then show ?thesis
    proof cases
      case kept
      with Some x assms(2,3,4,6) answer held unchanged show ?thesis
        by (intro exI [of _ r])
          (auto simp: classify_receiptless_running_def Let_def session_settled_def listed_def closed_count_def split: if_splits)
    next
      case gone
      obtain code where code: "close_recovered_without_process jc ?c code now_ms s = (Inr (), s')"
          "listed report' = listed report" "closed_count report' = Suc (closed_count report)" "rn_inspected report' = rn_inspected report"
        using gone Some x assms(6) answer
        by (auto simp: classify_receiptless_running_def Let_def listed_def closed_count_def
            split: if_splits prod.splits sum.splits)
      from close(2) [OF this(1) assms(5)] obtain r' where "p_state r' = ''failed''" "current_session s' = (current_session s)(session_id \<mapsto> r')"
        by blast
      then show ?thesis
        using Some x gone assms(4) code by (intro exI [of _ r']) (auto simp: session_settled_def may_hold_process_def)
    qed
  qed
qed

lemma project_terminal_laws:
  assumes "direct_in_flight s session_id r" and "terminal_session_id t = session_id" and "project_terminal jc t s p = (result, s', p')"
  shows "(operates jc)\<^sup>*\<^sup>* s s'" "same_receipts p p'"
    "well_formed jc s \<Longrightarrow> result = Inr () \<Longrightarrow> \<exists>r'. p_state r' = ''exited'' \<and> current_session s' = (current_session s)(session_id \<mapsto> r')"
proof -
  show "same_receipts p p'"
    using assms(3) confirmed_receipts by (auto simp: project_terminal_def Let_def split: sum.splits prod.splits)
  have "\<exists>key x s1. (case t of Resource_terminal e \<Rightarrow> mark_exited jc (producer_view p) e key s = (x, s1)
      | Refinement_terminal e \<Rightarrow> mark_refinement_exited jc (producer_view p) e key s = (x, s1)) \<and>
      s' = s1 \<and> (result = Inr () \<longrightarrow> (\<exists>y. x = Inr y))"
    using assms(3) by (auto simp: project_terminal_def Let_def split: durable_terminal.splits sum.splits prod.splits)
  then obtain key x where x: "case t of Resource_terminal e \<Rightarrow> mark_exited jc (producer_view p) e key s = (x, s')
      | Refinement_terminal e \<Rightarrow> mark_refinement_exited jc (producer_view p) e key s = (x, s')"
    and ok: "result = Inr () \<Longrightarrow> \<exists>y. x = Inr y"
    by blast
  have "operates jc s s'"
  proof (cases t)
    case (Resource_terminal e)
    then show ?thesis using x operates.mark_exited [of jc s "producer_view p" e key] by simp
  next
    case (Refinement_terminal e)
    then show ?thesis using x operates.mark_refinement_exited [of jc s "producer_view p" e key] by simp
  qed
  then show "(operates jc)\<^sup>*\<^sup>* s s'" by blast
  assume "well_formed jc s" and "result = Inr ()"
  then show "\<exists>r'. p_state r' = ''exited'' \<and> current_session s' = (current_session s)(session_id \<mapsto> r')"
    using x ok assms(1,2) mark_exited_closes [of jc s _ _ key] mark_refinement_exited_closes [of jc s _ _ key]
    by (fastforce simp: direct_in_flight_def terminal_session_id_def split: durable_terminal.splits)
qed

lemma session_settled_cong: "same_receipts p p' \<Longrightarrow> session_settled jc observer p' r r' = session_settled jc observer p r r'"
  by (simp add: session_settled_def terminal_receipt_cong)

lemma reconcile_candidate_laws:
  assumes "direct_in_flight s session_id r" and "p_session_id r = session_id" and "well_formed jc s"
    and "reconcile_candidate jc now_ms observer (recovery_record jc r) report s p = (result, s', p')"
  shows "(operates jc)\<^sup>*\<^sup>* s s'" "same_receipts p p'"
    "result = Inr report' \<Longrightarrow> \<exists>r'. current_session s' = (current_session s)(session_id \<mapsto> r') \<and> session_settled jc observer p r r' \<and>
      (if may_hold_process r' then mset (listed report') = add_mset session_id (mset (listed report)) \<and> closed_count report' = closed_count report
       else listed report' = listed report \<and> closed_count report' = Suc (closed_count report)) \<and>
      rn_inspected report' = rn_inspected report"
proof -
  let ?c = "recovery_record jc r"
  have state: "s_state (rx_session ?c) = St_starting \<longleftrightarrow> p_state r = ''starting''"
    using assms(1) by (intro recovery_record_state) (simp add: direct_in_flight_def)
  note close = close_recovered_laws [OF assms(1,2)]
  have laws: "(operates jc)\<^sup>*\<^sup>* s s' \<and> same_receipts p p' \<and>
    (\<forall>report'. result = Inr report' \<longrightarrow> (\<exists>r'. current_session s' = (current_session s)(session_id \<mapsto> r') \<and> session_settled jc observer p r r' \<and>
      (if may_hold_process r' then mset (listed report') = add_mset session_id (mset (listed report)) \<and> closed_count report' = closed_count report
       else listed report' = listed report \<and> closed_count report' = Suc (closed_count report)) \<and>
      rn_inspected report' = rn_inspected report))"
  proof (cases "p_state r = ''starting''")
    case True
    obtain x s1 where x: "close_recovered_without_process jc ?c Recovered_without_process now_ms s = (x, s1)" by fastforce
    have run: "s' = s1" "p' = p" "\<And>report'. result = Inr report' \<Longrightarrow> x = Inr () \<and>
        report' = report\<lparr>rn_recovered_failed := Suc (rn_recovered_failed report)\<rparr>"
      using assms(4) True state x by (auto simp: reconcile_candidate_def split: sum.splits)
    have "\<exists>r'. p_state r' = ''failed'' \<and> current_session s' = (current_session s)(session_id \<mapsto> r')" if "result = Inr report'" for report'
      using close(2) [OF x assms(3)] run that by blast
    then show ?thesis
      using close(1) [OF x] run True
      by (fastforce simp: session_settled_def may_hold_process_def listed_def closed_count_def)
  next
    case False
    obtain found p1 where look: "lookup_terminal ?c p = (found, p1)" by fastforce
    note lookup = lookup_terminal_laws [OF look]
    consider (error) e where "found = Inl e" | (none) "found = Inr None" | (terminal) t where "found = Inr (Some t)"
      by (cases found) auto
    then show ?thesis
    proof cases
      case error
      then show ?thesis using assms(4) False state look lookup(1) by (auto simp: reconcile_candidate_def)
    next
      case none
      obtain x s1 where x: "classify_receiptless_running jc ?c now_ms observer report s = (x, s1)" by fastforce
      have "s' = s1" "p' = p1" "result = x"
        using assms(4) False state look none x by (auto simp: reconcile_candidate_def)
      then show ?thesis
        using classify_laws [OF assms(1,2) False lookup(2) [OF none] assms(3) x] lookup(1) by blast
    next
      case terminal
      note found = lookup(3) [OF terminal]
      obtain x s1 p2 where x: "project_terminal jc t s p1 = (x, s1, p2)" by (metis prod_cases3)
      have run: "s' = s1" "p' = p2" "\<And>report'. result = Inr report' \<Longrightarrow> x = Inr () \<and>
          report' = report\<lparr>rn_recovered_exited := Suc (rn_recovered_exited report)\<rparr>"
        using assms(4) False state look terminal x by (auto simp: reconcile_candidate_def split: sum.splits)
      note project = project_terminal_laws [OF assms(1) _ x]
      have "terminal_session_id t = session_id" using found assms(2) by simp
      note project = project [OF this]
      have "\<exists>r'. p_state r' = ''exited'' \<and> current_session s' = (current_session s)(session_id \<mapsto> r')" if "result = Inr report'" for report'
        using project(3) [OF assms(3)] run that by blast
      then show ?thesis
        using project(1,2) run False found same_receipts_trans [OF lookup(1)]
        by (fastforce simp: session_settled_def may_hold_process_def listed_def closed_count_def)
    qed
  qed
  then show "(operates jc)\<^sup>*\<^sup>* s s'" "same_receipts p p'"
    "result = Inr report' \<Longrightarrow> \<exists>r'. current_session s' = (current_session s)(session_id \<mapsto> r') \<and> session_settled jc observer p r r' \<and>
      (if may_hold_process r' then mset (listed report') = add_mset session_id (mset (listed report)) \<and> closed_count report' = closed_count report
       else listed report' = listed report \<and> closed_count report' = Suc (closed_count report)) \<and>
      rn_inspected report' = rn_inspected report"
    by blast+
qed

subsection \<open>All candidates\<close>

lemma operates_star_well_formed: "(operates jc)\<^sup>*\<^sup>* s s' \<Longrightarrow> well_formed jc s \<Longrightarrow> well_formed jc s'"
  by (induction rule: rtranclp_induct) (auto intro: operates_well_formed)

definition settles ::
    "json_codec \<Rightarrow> session_process_observer option \<Rightarrow> audit_producer \<Rightarrow> persisted_session list \<Rightarrow> registry \<Rightarrow> registry \<Rightarrow> bool" where
  "settles jc observer p rs s s' =
     ((\<forall>session_id. session_id \<notin> p_session_id ` set rs \<longrightarrow> current_session s' session_id = current_session s session_id) \<and>
      (\<forall>r \<in> set rs. \<exists>r'. current_session s' (p_session_id r) = Some r' \<and> session_settled jc observer p r r'))"

lemma reconcile_candidates_laws:
  assumes "list_all (\<lambda>r. direct_in_flight s (p_session_id r) r) rs" and "distinct (map p_session_id rs)" and "well_formed jc s"
    and "reconcile_candidates jc now_ms observer (map (recovery_record jc) rs) report s p = (result, s', p')"
  shows "(operates jc)\<^sup>*\<^sup>* s s' \<and> same_receipts p p' \<and>
    (\<forall>report'. result = Inr report' \<longrightarrow> settles jc observer p rs s s' \<and>
      mset (listed report') = mset (listed report) + mset (filter (in_flight s') (map p_session_id rs)) \<and>
      closed_count report' + length (listed report') = closed_count report + length (listed report) + length rs \<and>
      rn_inspected report' = rn_inspected report)"
  using assms
proof (induction rs arbitrary: s p report)
  case Nil
  then show ?case by (auto simp: settles_def)
next
  case (Cons r rs)
  let ?id = "p_session_id r"
  obtain x s1 p1 where x: "reconcile_candidate jc now_ms observer (recovery_record jc r) report s p = (x, s1, p1)"
    by (metis prod_cases3)
  have r: "direct_in_flight s ?id r" using Cons.prems(1) by simp
  note one = reconcile_candidate_laws [OF r refl Cons.prems(3) x]
  show ?case
  proof (cases x)
    case (Inl e)
    then show ?thesis using Cons.prems(4) x one(1,2) by auto
  next
    case (Inr report1)
    obtain r' where r': "current_session s1 = (current_session s)(?id \<mapsto> r')" "session_settled jc observer p r r'"
      and count: "if may_hold_process r' then mset (listed report1) = add_mset ?id (mset (listed report)) \<and> closed_count report1 = closed_count report
       else listed report1 = listed report \<and> closed_count report1 = Suc (closed_count report)"
      and inspected: "rn_inspected report1 = rn_inspected report"
      using one(3) [OF Inr] by blast
    have "list_all (\<lambda>q. direct_in_flight s1 (p_session_id q) q) rs"
      unfolding list_all_iff
    proof
      fix q assume "q \<in> set rs"
      then have "p_session_id q \<noteq> ?id" "direct_in_flight s (p_session_id q) q"
        using Cons.prems(1,2) by (auto simp: list_all_iff image_iff)
      then show "direct_in_flight s1 (p_session_id q) q" by (simp add: direct_in_flight_def r'(1))
    qed
    moreover have "distinct (map p_session_id rs)" using Cons.prems(2) by simp
    moreover have "reconcile_candidates jc now_ms observer (map (recovery_record jc) rs) report1 s1 p1 = (result, s', p')"
      using Cons.prems(4) x Inr by simp
    ultimately have rest: "(operates jc)\<^sup>*\<^sup>* s1 s'" "same_receipts p1 p'"
      "\<And>report'. result = Inr report' \<Longrightarrow> settles jc observer p1 rs s1 s' \<and>
        mset (listed report') = mset (listed report1) + mset (filter (in_flight s') (map p_session_id rs)) \<and>
        closed_count report' + length (listed report') = closed_count report1 + length (listed report1) + length rs \<and>
        rn_inspected report' = rn_inspected report1"
      using Cons.IH [OF _ _ operates_star_well_formed [OF one(1) Cons.prems(3)]] by blast+
    have "settles jc observer p (r # rs) s s' \<and>
        mset (listed report') = mset (listed report) + mset (filter (in_flight s') (map p_session_id (r # rs))) \<and>
        closed_count report' + length (listed report') = closed_count report + length (listed report) + length (r # rs) \<and>
        rn_inspected report' = rn_inspected report"
      if "result = Inr report'" for report'
    proof -
      note tail = rest(3) [OF that]
      have "?id \<notin> p_session_id ` set rs" using Cons.prems(2) by simp
      then have last: "current_session s' ?id = Some r'" using tail r'(1) by (simp add: settles_def)
      have "settles jc observer p (r # rs) s s'"
        using tail last r' session_settled_cong [OF one(2)] by (auto simp: settles_def)
      moreover have "in_flight s' ?id = may_hold_process r'" using last by (simp add: in_flight_def)
      moreover have "closed_count report1 + length (listed report1) = Suc (closed_count report + length (listed report))"
        using count by (auto split: if_splits dest: arg_cong [of _ _ size])
      ultimately show ?thesis using tail count inspected by (cases "may_hold_process r'") simp_all
    qed
    then show ?thesis
      using rtranclp_trans [OF one(1) rest(1)] same_receipts_trans [OF one(2) rest(2)] by blast
  qed
qed

lemma insort_key_map: "insort_key f (g x) (map g xs) = map g (insort_key (\<lambda>y. f (g y)) x xs)"
  by (induction xs) auto

lemma sort_key_map: "sort_key f (map g xs) = map g (sort_key (\<lambda>y. f (g y)) xs)"
  by (induction xs) (simp_all add: insort_key_map)

lemma candidates_listed:
  assumes "well_formed jc s" and "recovery_candidates jc s = (Inr candidates, s1)"
  shows "\<exists>rs. candidates = map (recovery_record jc) rs \<and> distinct (map p_session_id rs) \<and>
      (\<forall>r. r \<in> set rs \<longleftrightarrow> direct_in_flight s1 (p_session_id r) r)"
    "operates jc s s1" "current_session s1 = current_session s"
proof -
  have u: "unusable s = (False, s1)"
    and c: "candidates = sort_key (\<lambda>c. s_session_id (rx_session c)) (map (recovery_record jc)
      (filter (\<lambda>r. may_hold_process r \<and> p_managed_runtime_identity r = None) (session_records s1)))"
    using assms(2) by (auto simp: recovery_candidates_def locked_def split: prod.splits bool.splits)
  note same = unusable_laws(1) [OF u]
  have index: "index_ok s1" by (rule index_ok_cong [OF same well_formedD(1) [OF assms(1)]])
  note laws = session_records_laws [OF index]
  let ?rs = "sort_key p_session_id (filter (\<lambda>r. may_hold_process r \<and> p_managed_runtime_identity r = None) (session_records s1))"
  have "distinct (map p_session_id (session_records s1))" using index_okD(5) [OF index] by (simp add: laws(1))
  then have "distinct (map p_session_id ?rs)" by (auto simp: distinct_map inj_on_def)
  moreover have "r \<in> set ?rs \<longleftrightarrow> direct_in_flight s1 (p_session_id r) r" for r
    using laws(2,3) by (auto simp: direct_in_flight_def)
  moreover have "candidates = map (recovery_record jc) ?rs" by (simp add: c sort_key_map)
  ultimately show "\<exists>rs. candidates = map (recovery_record jc) rs \<and> distinct (map p_session_id rs) \<and>
      (\<forall>r. r \<in> set rs \<longleftrightarrow> direct_in_flight s1 (p_session_id r) r)"
    by blast
  show "operates jc s s1" using operates.read [of jc s] u by simp
  show "current_session s1 = current_session s" by (rule current_session_cong [OF same])
qed

text \<open>
  C13. Reconciliation settles every session.  When it succeeds, whatever the observer and the journal say,
  every session that ran outside a managed runtime is closed or listed: a session left starting is
  failed; a running one is exited exactly if the journal holds its receipt, failed only if the observer
  found its process gone, and otherwise kept as it was.  The lists of the report are, without
  repetition, exactly the sessions that may still hold a process, its counters add up to the number of
  sessions inspected, and no other session is touched.
\<close>

theorem reconciliation_settles:
  assumes "codec_faithful jc" and "reachable jc s"
    and "reconcile_session_registry_impl jc now_ms observer s p = (Inr report, s', p')"
  shows "reachable jc s' \<and>
    (\<forall>session_id r. current_session s session_id = Some r \<longrightarrow>
      (if direct_in_flight s session_id r then \<exists>r'. current_session s' session_id = Some r' \<and> session_settled jc observer p r r'
       else current_session s' session_id = Some r)) \<and>
    distinct (listed report) \<and> set (listed report) = {session_id. \<exists>r. direct_in_flight s' session_id r} \<and>
    rn_inspected report = rn_recovered_exited report + rn_recovered_failed report + length (listed report)"
proof -
  note wf = reachable_well_formed [OF assms(2,1)]
  obtain candidates s1 where c: "recovery_candidates jc s = (Inr candidates, s1)"
    and run: "reconcile_candidates jc now_ms observer candidates (new_report (length candidates)) s1 p = (Inr report, s', p')"
    using assms(3) by (auto simp: reconcile_session_registry_impl_def split: if_splits sum.splits prod.splits)
  note listed1 = candidates_listed [OF wf c]
  obtain rs where rs: "candidates = map (recovery_record jc) rs" "distinct (map p_session_id rs)"
      "\<And>r. r \<in> set rs \<longleftrightarrow> direct_in_flight s1 (p_session_id r) r"
    using listed1(1) by blast
  have wf1: "well_formed jc s1" by (rule operates_well_formed [OF listed1(2) wf])
  have all: "list_all (\<lambda>r. direct_in_flight s1 (p_session_id r) r) rs" using rs(3) by (auto simp: list_all_iff)
  note laws = reconcile_candidates_laws [OF all rs(2) wf1 run [unfolded rs(1)]]
  have star: "(operates jc)\<^sup>*\<^sup>* s s'" using laws listed1(2) by (meson converse_rtranclp_into_rtranclp)
  have settles: "settles jc observer p rs s1 s'"
    and lists: "mset (listed report) = mset (filter (in_flight s') (map p_session_id rs))"
    and count: "closed_count report + length (listed report) = length rs" "rn_inspected report = length rs"
    using laws by (simp_all add: new_report_def listed_def closed_count_def rs(1))
  have same: "current_session s1 = current_session s" by (rule listed1(3))
  have flight: "direct_in_flight s1 = direct_in_flight s" by (simp add: direct_in_flight_def same fun_eq_iff)
  have id: "p_session_id r = session_id" if "direct_in_flight s session_id r" for session_id r
    by (rule direct_in_flight_id [OF well_formedD(1) [OF wf] that])
  have other: "current_session s' session_id = current_session s session_id" if "\<nexists>r. direct_in_flight s session_id r" for session_id
  proof -
    have "session_id \<notin> p_session_id ` set rs" using that rs(3) flight by auto
    then show ?thesis using settles same by (simp add: settles_def)
  qed
  have mine: "\<exists>r'. current_session s' session_id = Some r' \<and> session_settled jc observer p r r'" if "direct_in_flight s session_id r" for session_id r
  proof -
    have "r \<in> set rs" using rs(3) [of r] flight that id [OF that] by simp
    then show ?thesis using settles id [OF that] unfolding settles_def by blast
  qed
  have "set (listed report) = {session_id. in_flight s' session_id \<and> (\<exists>r. direct_in_flight s session_id r)}"
  proof -
    have "set (listed report) = set (filter (in_flight s') (map p_session_id rs))" using lists by (metis set_mset_mset)
    also have "\<dots> = {session_id. in_flight s' session_id \<and> (\<exists>r. direct_in_flight s session_id r)}"
    proof (intro equalityI subsetI)
      fix session_id assume "session_id \<in> {session_id. in_flight s' session_id \<and> (\<exists>r. direct_in_flight s session_id r)}"
      then obtain r where r: "in_flight s' session_id" "direct_in_flight s session_id r" by blast
      then have "r \<in> set rs" "p_session_id r = session_id" using rs(3) [of r] flight id by auto
      then show "session_id \<in> set (filter (in_flight s') (map p_session_id rs))" using r(1) by auto
    qed (use rs(3) flight in auto)
    finally show ?thesis .
  qed
  moreover have "in_flight s' session_id \<and> (\<exists>r. direct_in_flight s session_id r) \<longleftrightarrow> (\<exists>r. direct_in_flight s' session_id r)" for session_id
  proof (cases "\<exists>r. direct_in_flight s session_id r")
    case True
    then obtain r where r: "direct_in_flight s session_id r" by blast
    then obtain r' where r': "current_session s' session_id = Some r'" "session_settled jc observer p r r'" using mine by blast
    have "may_hold_process r' \<Longrightarrow> r' = r" using r'(2) by (auto simp: session_settled_def Let_def may_hold_process_def split: if_splits)
    then show ?thesis using r r'(1) by (auto simp: in_flight_def direct_in_flight_def)
  next
    case False
    then show ?thesis using other [OF False] by (auto simp: direct_in_flight_def)
  qed
  moreover have "distinct (listed report)"
  proof -
    have "distinct (filter (in_flight s') (map p_session_id rs))" using rs(2) by (rule distinct_filter)
    then show ?thesis using lists by (metis mset_eq_imp_distinct_iff)
  qed
  moreover have "current_session s' session_id = Some r" if "current_session s session_id = Some r" "\<not> direct_in_flight s session_id r" for session_id r
    using other [of session_id] that by (auto simp: direct_in_flight_def)
  ultimately show ?thesis
    using reachable_star [OF star assms(2)] mine count by (auto simp: closed_count_def)
qed

theorem reconciliation_settles_witness:
  "\<exists>s report s' p'. reconcile_session_registry_impl flight_codec 1 (Some flight_observer) s sample_producer = (Inr report, s', p') \<and>
     rn_live_running_session_ids report = [''s1''] \<and> (\<exists>r. direct_in_flight s' ''s1'' r)"
proof -
  obtain s where s: "reachable flight_codec s" "unusable s = (False, s)" "reg_records s = flight_log" "reg_sessions s = [(''s1'', 3)]"
    using flight_registry by blast
  note run = flight_reconciled [OF s(2-4)]
  have "listed ((new_report 1)\<lparr>rn_live_running_session_ids := [''s1'']\<rparr>) = [''s1'']"
    by (simp add: listed_def new_report_def)
  then have "''s1'' \<in> {session_id. \<exists>r. direct_in_flight s session_id r}"
    using reconciliation_settles [OF flight_codec_faithful s(1) run] by (metis list.set_intros(1))
  then show ?thesis
    using run
    by (intro exI [of _ s] exI [of _ "(new_report 1)\<lparr>rn_live_running_session_ids := [''s1'']\<rparr>"] exI [of _ sample_producer]) simp
qed

end
