(* ===== verification/Path_Alias.thy ===== *)
theory Path_Alias
  imports Path_Exposure Profile
begin

text \<open>
  The registry of path aliases (\<open>src/supervisor/path_alias.cpp\<close>): host paths that the owner's policy
  names, so that a plan refers to them without naming a path.  The kernel is the \<open>exposure_host\<close> of
  \<open>Path_Exposure\<close>; the source issues the same three calls.  The unordered map of policies is an
  association list in the order of insertion, which only decides which of several errors is reported.
\<close>

unbundle bit_operations_syntax

subsection \<open>Data\<close>

record path_access_policy =
  am_access :: path_access
  am_materialization :: path_materialization
  am_create_policy :: path_create_policy
  am_cleanup_policy :: path_cleanup_policy
  am_max_bytes :: u64

record path_alias_policy =
  al_alias :: string
  al_host_path :: string
  al_target_path :: string
  al_max_ttl_secs :: u64
  al_access :: "path_access_policy list"

record path_grant_request =
  gq_alias :: string
  gq_access :: path_access
  gq_ttl_secs :: u64
  gq_max_bytes :: u64

record path_grant_plan_request =
  gp_grant :: path_grant_request
  gp_materialization :: path_materialization
  gp_cleanup_policy :: path_cleanup_policy

text \<open>Device, inode and mode.\<close>

type_synonym path_identity = "u64 \<times> u64 \<times> u32"

type_synonym path_alias_registry = "(string \<times> path_alias_policy) list"

subsection \<open>Grammars\<close>

definition valid_alias :: "string \<Rightarrow> bool" where
  "valid_alias alias =
     (alias \<noteq> [] \<and> length alias \<le> 128 \<and> list_all (\<lambda>c. is_alnum c \<or> c \<in> {CHR ''-'', CHR ''_'', CHR ''.''}) alias)"

definition valid_alias_path :: "string \<Rightarrow> bool" where
  "valid_alias_path raw =
     (raw \<noteq> [] \<and> is_absolute raw \<and> \<not> path_equal raw (root_path raw) \<and> normal_elements raw = path_elements raw \<and>
      list_all (\<lambda>component. component \<noteq> ''.'' \<and> component \<noteq> ''..'') (path_elements raw))"

definition reserved_target :: "string \<Rightarrow> bool" where
  "reserved_target raw =
     list_ex (\<lambda>root. path_within raw root)
       [''/bin'', ''/dev'', ''/etc'', ''/lib'', ''/lib64'', ''/proc'', ''/sbin'', ''/sys'', ''/usr'']"

definition reserved_host :: "string \<Rightarrow> bool" where
  "reserved_host raw =
     (list_ex (\<lambda>root. path_within raw root) [''/dev'', ''/proc'', ''/run'', ''/sys''] \<or>
      path_equal raw ''/root'' \<or> path_equal raw ''/var/root'' \<or>
      length (name_elements raw) = 2 \<and> hd (name_elements raw) \<in> {''home'', ''Users''} \<or>
      list_ex (\<lambda>name. name \<in> {''.aws'', ''.azure'', ''.gnupg'', ''.kube'', ''.sage'', ''.ssh''}) (path_elements raw))"

definition is_symlink :: "u32 \<Rightarrow> bool" where
  "is_symlink mode = (mode AND 0xF000 = 0xA000)"

subsection \<open>Opening\<close>

fun open_alias_components :: "exposure_host \<Rightarrow> string \<Rightarrow> int \<Rightarrow> string list \<Rightarrow> int expected" where
  "open_alias_components h alias current [] = Inr current"
| "open_alias_components h alias current (name # names) =
     (case xh_openat h current name (names = []) of
        Inl e \<Rightarrow> Inl (system_error (''resolve path alias '' @ single_quoted alias) e)
      | Inr descriptor \<Rightarrow> open_alias_components h alias descriptor names)"

definition open_path_no_follow :: "exposure_host \<Rightarrow> string \<Rightarrow> string \<Rightarrow> int expected" where
  "open_path_no_follow h raw alias =
     (case xh_open_slash h of
        Inl e \<Rightarrow> Inl (system_error ''open alias root'' e)
      | Inr slash \<Rightarrow> and_then (open_alias_components h alias slash (name_elements raw)) (\<lambda>current.
          case xh_fstat h current of
            Inl e \<Rightarrow> Inl (system_error (''inspect path alias '' @ single_quoted alias) e)
          | Inr status \<Rightarrow>
              if is_symlink (st_mode status)
              then Inl (''path alias '' @ single_quoted alias @ '' resolves to a symlink'')
              else if \<not> is_regular (st_mode status) \<and> \<not> is_directory (st_mode status)
              then Inl (''path alias '' @ single_quoted alias @ '' must resolve to a regular file or directory'')
              else Inr current))"

definition alias_identity :: "exposure_host \<Rightarrow> int \<Rightarrow> string \<Rightarrow> path_identity expected" where
  "alias_identity h fd alias =
     (case xh_fstat h fd of
        Inl e \<Rightarrow> Inl (system_error (''inspect path alias '' @ single_quoted alias) e)
      | Inr status \<Rightarrow> Inr (st_dev status, st_ino status, st_mode status))"

text \<open>The two calls that every use of an alias makes.\<close>

definition alias_source :: "exposure_host \<Rightarrow> path_alias_policy \<Rightarrow> (int \<times> path_identity) expected" where
  "alias_source h p =
     and_then (open_path_no_follow h (al_host_path p) (al_alias p)) (\<lambda>source.
     and_then (alias_identity h source (al_alias p)) (\<lambda>identity. Inr (source, identity)))"

subsection \<open>Building the registry\<close>

definition validate_access_policy :: "path_access_policy \<Rightarrow> unit expected" where
  "validate_access_policy m =
     (if am_materialization m = Bind \<and> am_create_policy m \<noteq> Never
      then Inl ''bind materialization cannot create a target''
      else if (am_materialization m = Git_worktree) \<noteq> (am_create_policy m = Create_git_worktree)
      then Inl ''git worktree materialization/create policy mismatch''
      else (case am_access m of
        Read_access \<Rightarrow>
          if am_max_bytes m \<noteq> 0 then Inl ''read access may not declare a write quota''
          else if am_materialization m = Bind \<and> am_cleanup_policy m \<noteq> Retain
          then Inl ''read bind must retain its host source''
          else Inr ()
      | Ephemeral_write \<Rightarrow>
          if am_materialization m = Bind \<or> am_max_bytes m = 0 \<or> am_cleanup_policy m \<noteq> Remove
          then Inl ''ephemeral write requires bounded removable materialization'' else Inr ()
      | Retained_write \<Rightarrow>
          if am_materialization m = Bind \<or> am_max_bytes m = 0 \<or> am_cleanup_policy m \<noteq> Retain
          then Inl ''retained write requires bounded retained materialization'' else Inr ()
      | Direct_write \<Rightarrow>
          if am_materialization m \<noteq> Bind \<or> am_max_bytes m \<noteq> 0 \<or> am_create_policy m \<noteq> Never \<or> am_cleanup_policy m \<noteq> Retain
          then Inl ''direct write must be a retained existing bind'' else Inr ()))"

fun check_access_modes :: "path_access set \<Rightarrow> path_access_policy list \<Rightarrow> unit expected" where
  "check_access_modes seen [] = Inr ()"
| "check_access_modes seen (m # ms) =
     (if am_access m \<in> seen then Inl ''path alias has duplicate access policy''
      else and_then (validate_access_policy m) (\<lambda>_. check_access_modes (insert (am_access m) seen) ms))"

fun check_existing_aliases ::
    "exposure_host \<Rightarrow> path_alias_policy \<Rightarrow> path_identity \<Rightarrow> path_alias_registry \<Rightarrow> unit expected" where
  "check_existing_aliases h p identity [] = Inr ()"
| "check_existing_aliases h p identity ((_, existing) # registry) =
     (if path_within (al_host_path p) (al_host_path existing) \<or> path_within (al_host_path existing) (al_host_path p)
      then Inl ''overlapping host path aliases''
      else if path_within (al_target_path p) (al_target_path existing) \<or> path_within (al_target_path existing) (al_target_path p)
      then Inl ''overlapping sandbox target aliases''
      else and_then (alias_source h existing) (\<lambda>(_, existing_identity).
        if existing_identity = identity then Inl ''path aliases reference the same host object''
        else check_existing_aliases h p identity registry))"

definition add_alias :: "exposure_host \<Rightarrow> path_alias_policy \<Rightarrow> path_alias_registry \<Rightarrow> path_alias_registry expected" where
  "add_alias h p registry =
     (if \<not> valid_alias (al_alias p) then Inl ''invalid bounded path alias''
      else if \<not> valid_alias_path (al_host_path p) \<or> reserved_host (al_host_path p)
      then Inl ''path alias has invalid host path''
      else if \<not> valid_alias_path (al_target_path p) \<or> reserved_target (al_target_path p)
      then Inl ''path alias has invalid or reserved target path''
      else if al_max_ttl_secs p = 0 \<or> al_access p = [] then Inl ''path alias requires TTL and access policy''
      else and_then (check_access_modes {} (al_access p)) (\<lambda>_.
        and_then (alias_source h p) (\<lambda>(_, identity).
        if map_of registry (al_alias p) \<noteq> None then Inl ''duplicate path alias''
        else and_then (check_existing_aliases h p identity registry) (\<lambda>_.
          Inr (registry @ [(al_alias p, p)])))))"

fun add_aliases :: "exposure_host \<Rightarrow> path_alias_policy list \<Rightarrow> path_alias_registry \<Rightarrow> path_alias_registry expected" where
  "add_aliases h [] registry = Inr registry"
| "add_aliases h (p # ps) registry = and_then (add_alias h p registry) (add_aliases h ps)"

definition build_aliases :: "exposure_host \<Rightarrow> path_alias_policy list \<Rightarrow> path_alias_registry expected" where
  "build_aliases h policies = add_aliases h policies []"

subsection \<open>Planning and resolving\<close>

definition selected_policy :: "path_alias_policy \<Rightarrow> path_access \<Rightarrow> path_access_policy option" where
  "selected_policy p requested = List.find (\<lambda>m. am_access m = requested) (al_access p)"

definition validate_request_bounds :: "path_alias_policy \<Rightarrow> path_access_policy \<Rightarrow> path_grant_request \<Rightarrow> unit expected" where
  "validate_request_bounds p m q =
     (if gq_ttl_secs q = 0 \<or> gq_ttl_secs q > al_max_ttl_secs p then Inl ''path grant TTL exceeds host policy''
      else if gq_access q = Ephemeral_write \<or> gq_access q = Retained_write
      then (if gq_max_bytes q = 0 \<or> gq_max_bytes q > am_max_bytes m then Inl ''path grant quota exceeds host policy'' else Inr ())
      else if gq_max_bytes q \<noteq> 0 then Inl ''read or legacy direct-write grants may not request a write quota''
      else Inr ())"

text \<open>The part that planning and resolving share: the policy and the mode behind a request.\<close>

definition alias_mode :: "path_grant_request \<Rightarrow> path_alias_registry \<Rightarrow> (path_alias_policy \<times> path_access_policy) expected" where
  "alias_mode q registry =
     (if \<not> valid_alias (gq_alias q) then Inl ''invalid bounded path alias request''
      else (case map_of registry (gq_alias q) of
        None \<Rightarrow> Inl ''unknown path alias''
      | Some p \<Rightarrow>
         (case selected_policy p (gq_access q) of
            None \<Rightarrow> Inl ''requested path access is not allowed''
          | Some m \<Rightarrow> Inr (p, m))))"

definition resolve_alias :: "exposure_host \<Rightarrow> path_grant_request \<Rightarrow> path_alias_registry \<Rightarrow> pinned_path_grant expected" where
  "resolve_alias h q registry =
     and_then (alias_mode q registry) (\<lambda>(p, m).
       if gq_access q = Direct_write then Inl ''direct write requires authenticated local approval''
       else and_then (validate_request_bounds p m q) (\<lambda>_.
       and_then (alias_source h p) (\<lambda>(source, identity). Inr
         \<lparr>rg_descriptor_fd = source, rg_alias = al_alias p, rg_host_path = al_host_path p,
          rg_target_path = al_target_path p, rg_access = am_access m, rg_materialization = am_materialization m,
          rg_create_policy = am_create_policy m, rg_cleanup_policy = am_cleanup_policy m,
          rg_ttl_secs = gq_ttl_secs q, rg_max_bytes = gq_max_bytes q, rg_identity = identity,
          rg_exposure_generation = 0, rg_exposure_scope_digest = [], rg_source_identity_digest = []\<rparr>)))"

definition validate_alias_plan :: "exposure_host \<Rightarrow> path_grant_plan_request \<Rightarrow> path_alias_registry \<Rightarrow> unit expected" where
  "validate_alias_plan h q registry =
     and_then (alias_mode (gp_grant q) registry) (\<lambda>(p, m).
       if am_materialization m \<noteq> gp_materialization q \<or> am_cleanup_policy m \<noteq> gp_cleanup_policy q
       then Inl ''path grant projection differs from host policy''
       else and_then (validate_request_bounds p m (gp_grant q)) (\<lambda>_.
       and_then (alias_source h p) (\<lambda>_. Inr ())))"

definition verify_alias_identity :: "exposure_host \<Rightarrow> pinned_path_grant \<Rightarrow> unit expected" where
  "verify_alias_identity h g =
     (if rg_descriptor_fd g < 0 then Inl ''path grant is closed''
      else and_then (open_path_no_follow h (rg_host_path g) (rg_alias g)) (\<lambda>reopened.
        and_then (alias_identity h reopened (rg_alias g)) (\<lambda>current.
        if current \<noteq> rg_identity g then Inl ''path alias identity changed before launch'' else Inr ())))"

subsection \<open>What a registry holds\<close>

definition alias_admitted :: "path_alias_policy \<Rightarrow> bool" where
  "alias_admitted p =
     (valid_alias (al_alias p) \<and> valid_alias_path (al_host_path p) \<and> \<not> reserved_host (al_host_path p) \<and>
      valid_alias_path (al_target_path p) \<and> \<not> reserved_target (al_target_path p) \<and> al_max_ttl_secs p \<noteq> 0 \<and>
      distinct (map am_access (al_access p)) \<and> list_all (\<lambda>m. validate_access_policy m = Inr ()) (al_access p))"

definition separate_aliases :: "exposure_host \<Rightarrow> path_alias_policy \<Rightarrow> path_alias_policy \<Rightarrow> bool" where
  "separate_aliases h p q =
     (\<not> path_within (al_host_path p) (al_host_path q) \<and> \<not> path_within (al_host_path q) (al_host_path p) \<and>
      \<not> path_within (al_target_path p) (al_target_path q) \<and> \<not> path_within (al_target_path q) (al_target_path p) \<and>
      (\<exists>fd identity fd' identity'. alias_source h p = Inr (fd, identity) \<and> alias_source h q = Inr (fd', identity') \<and>
         identity \<noteq> identity'))"

definition alias_registry_ok :: "exposure_host \<Rightarrow> path_alias_registry \<Rightarrow> bool" where
  "alias_registry_ok h registry =
     (distinct (map fst registry) \<and> list_all (\<lambda>(alias, p). alias = al_alias p \<and> alias_admitted p) registry \<and>
      sorted_wrt (separate_aliases h) (map snd registry))"

lemma check_access_modes_Inr:
  "check_access_modes seen ms = Inr () \<longleftrightarrow>
     distinct (map am_access ms) \<and> set (map am_access ms) \<inter> seen = {} \<and> list_all (\<lambda>m. validate_access_policy m = Inr ()) ms"
  by (induction ms arbitrary: seen) (auto simp: and_then_Inr)

lemma check_existing_separate:
  assumes "alias_source h p = Inr (fd, identity)" and "check_existing_aliases h p identity registry = Inr ()"
  shows "list_all (\<lambda>(_, q). separate_aliases h q p) registry"
  using assms(2)
proof (induction registry)
  case (Cons entry registry)
  obtain name q where "entry = (name, q)" by fastforce
  then show ?case
    using Cons assms(1) by (fastforce simp: separate_aliases_def and_then_Inr split: if_splits)
qed simp

lemma add_alias_ok:
  assumes "alias_registry_ok h registry" and "add_alias h p registry = Inr registry'"
  shows "alias_registry_ok h registry'"
proof -
  obtain fd identity where checks: "valid_alias (al_alias p)" "valid_alias_path (al_host_path p)" "\<not> reserved_host (al_host_path p)"
      "valid_alias_path (al_target_path p)" "\<not> reserved_target (al_target_path p)" "al_max_ttl_secs p \<noteq> 0"
      "check_access_modes {} (al_access p) = Inr ()" "alias_source h p = Inr (fd, identity)" "map_of registry (al_alias p) = None"
      "check_existing_aliases h p identity registry = Inr ()" and last: "registry' = registry @ [(al_alias p, p)]"
    using assms(2) by (auto simp: add_alias_def and_then_Inr split: if_splits)
  have "alias_admitted p" using checks by (simp add: alias_admitted_def check_access_modes_Inr)
  moreover have "al_alias p \<notin> set (map fst registry)" using checks(9) by (simp add: map_of_eq_None_iff)
  ultimately show ?thesis
    using assms(1) check_existing_separate [OF checks(8,10)]
    by (auto simp: alias_registry_ok_def last sorted_wrt_append list_all_iff)
qed

lemma build_aliases_ok: "build_aliases h policies = Inr registry \<Longrightarrow> alias_registry_ok h registry"
proof -
  have "alias_registry_ok h start \<Longrightarrow> add_aliases h policies start = Inr registry \<Longrightarrow> alias_registry_ok h registry" for start
    by (induction policies arbitrary: start) (auto simp: and_then_Inr intro: add_alias_ok)
  moreover have "alias_registry_ok h []" by (simp add: alias_registry_ok_def)
  moreover assume "build_aliases h policies = Inr registry"
  ultimately show ?thesis unfolding build_aliases_def by blast
qed

lemma build_aliases_length: "build_aliases h policies = Inr registry \<Longrightarrow> length registry = length policies"
proof -
  have "add_aliases h policies start = Inr registry \<Longrightarrow> length registry = length start + length policies" for start
    by (induction policies arbitrary: start) (auto simp: and_then_Inr add_alias_def split: if_splits)
  moreover assume "build_aliases h policies = Inr registry"
  ultimately show ?thesis unfolding build_aliases_def by fastforce
qed

text \<open>A planned request other than a direct write resolves on the same file system, to the object the
  plan was checked against; and the grant verifies for as long as the path leads to that object.\<close>

lemma planned_alias_resolves:
  assumes "validate_alias_plan h q registry = Inr ()" and "gq_access (gp_grant q) \<noteq> Direct_write"
  shows "\<exists>g. resolve_alias h (gp_grant q) registry = Inr g \<and> rg_materialization g = gp_materialization q \<and>
    rg_cleanup_policy g = gp_cleanup_policy q \<and> rg_access g = gq_access (gp_grant q)"
  using assms
  by (auto simp: validate_alias_plan_def resolve_alias_def alias_mode_def selected_policy_def and_then_Inr find_Some_iff
      split: if_splits option.splits)

lemma resolved_alias_verifies:
  assumes "resolve_alias h q registry = Inr g" and "rg_descriptor_fd g \<ge> 0"
  shows "verify_alias_identity h g = Inr ()"
  using assms
  by (auto simp: resolve_alias_def alias_source_def verify_alias_identity_def and_then_Inr split: if_splits)

lemma no_direct_write_resolves: "gq_access q = Direct_write \<Longrightarrow> \<exists>e. resolve_alias h q registry = Inl e"
  by (cases "alias_mode q registry") (auto simp: resolve_alias_def)

end
