(* ===== verification/Launch_Template.thy ===== *)
theory Launch_Template
  imports Path_Alias Plan_Interface Codec
begin

text \<open>
  The launch templates of \<open>src/supervisor/session_plan.cpp\<close>: what a host policy says about the process of
  a runtime, the digest that commits to it, the search for its executable and the place of the
  arguments that the adapter of the runtime (\<open>src/supervisor/native_skill_runtime_adapter.cpp\<close>) adds.
  The record \<open>launch_host\<close> is what the file system says during the search; \<open>lh_canonical\<close> is
  \<open>std::filesystem::canonical\<close>, whose answers are absolute and normal, so that the parents of an answer
  are the prefixes of its elements.
\<close>

unbundle bit_operations_syntax

subsection \<open>Adapters\<close>

record native_harness_adoption_manifest =
  hm_schema_version :: u32
  hm_source_artifact_ids :: "string list"
  hm_excluded_host_state_ids :: "string list"
  hm_require_snapshot :: bool

record native_skill_runtime_configuration =
  rc_directory_components :: "string list"
  rc_filename :: string
  rc_contents :: string

record native_skill_runtime_adapter =
  ra_runtime_id :: string
  ra_executable_name :: string
  ra_home_mount_alias :: string
  ra_skill_root_components :: "string list"
  ra_managed_environment :: "string list"
  ra_managed_arguments :: "string list"
  ra_adoption_manifest :: "native_harness_adoption_manifest option"
  ra_managed_configuration :: "native_skill_runtime_configuration option"

definition double_quoted :: "string \<Rightarrow> string" where
  "double_quoted v = [CHR 0x22] @ v @ [CHR 0x22]"

definition native_skill_runtime_adapter_for :: "string \<Rightarrow> native_skill_runtime_adapter option" where
  "native_skill_runtime_adapter_for runtime_id =
     (if runtime_id = ''codex'' then Some
        \<lparr>ra_runtime_id = ''codex'', ra_executable_name = ''codex'', ra_home_mount_alias = ''__runtime_home_codex'',
         ra_skill_root_components = [''.codex'', ''skills''],
         ra_managed_environment = [''CODEX_HOME=/home/agent/.codex''],
         ra_managed_arguments = [''--dangerously-bypass-approvals-and-sandbox''],
         ra_adoption_manifest = None,
         ra_managed_configuration = Some
           \<lparr>rc_directory_components = [''.codex''], rc_filename = ''config.toml'',
            rc_contents = ''[projects.'' @ double_quoted ''/home/agent'' @ '']'' @ [CHR 0x0A] @
              ''trust_level = '' @ double_quoted ''trusted'' @ [CHR 0x0A]\<rparr>\<rparr>
      else if runtime_id = ''claude-code'' then Some
        \<lparr>ra_runtime_id = ''claude-code'', ra_executable_name = ''claude'',
         ra_home_mount_alias = ''__runtime_home_claude-code'', ra_skill_root_components = [''.claude'', ''skills''],
         ra_managed_environment = [], ra_managed_arguments = [], ra_adoption_manifest = None,
         ra_managed_configuration = None\<rparr>
      else if runtime_id = ''pi'' then Some
        \<lparr>ra_runtime_id = ''pi'', ra_executable_name = ''pi'', ra_home_mount_alias = ''__runtime_home_pi'',
         ra_skill_root_components = [''.pi'', ''agent'', ''skills''], ra_managed_environment = [],
         ra_managed_arguments = [],
         ra_adoption_manifest = Some
           \<lparr>hm_schema_version = 1, hm_source_artifact_ids = [''runtime-executable'', ''runtime-dependency-closure''],
            hm_excluded_host_state_ids =
              [''host-auth'', ''host-sessions'', ''host-settings'', ''host-model-state'', ''host-package-credentials''],
            hm_require_snapshot = True\<rparr>,
         ra_managed_configuration = Some
           \<lparr>rc_directory_components = [''.pi'', ''agent''], rc_filename = ''settings.json'',
            rc_contents = ''{'' @ double_quoted ''packages'' @ '':[],'' @ double_quoted ''enableSkillCommands'' @
              '':true}'' @ [CHR 0x0A]\<rparr>\<rparr>
      else if runtime_id = ''copilot'' then Some
        \<lparr>ra_runtime_id = ''copilot'', ra_executable_name = ''copilot'', ra_home_mount_alias = ''__runtime_home_copilot'',
         ra_skill_root_components = [''.copilot'', ''skills''],
         ra_managed_environment = [''COPILOT_HOME=/home/agent/.copilot''], ra_managed_arguments = [],
         ra_adoption_manifest = None, ra_managed_configuration = None\<rparr>
      else if runtime_id = ''opencode'' then Some
        \<lparr>ra_runtime_id = ''opencode'', ra_executable_name = ''opencode'',
         ra_home_mount_alias = ''__runtime_home_opencode'',
         ra_skill_root_components = [''.config'', ''opencode'', ''skills''],
         ra_managed_environment = [''XDG_CONFIG_HOME=/home/agent/.config''], ra_managed_arguments = [],
         ra_adoption_manifest = None, ra_managed_configuration = None\<rparr>
      else None)"

definition native_skill_runtime_adapters :: "native_skill_runtime_adapter list" where
  "native_skill_runtime_adapters =
     List.map_filter native_skill_runtime_adapter_for [''codex'', ''claude-code'', ''pi'', ''copilot'', ''opencode'']"

subsection \<open>Templates\<close>

record runtime_launch_template =
  tl_runtime_discovery :: string
  tl_executable_path :: string
  tl_executable_search_paths :: "string list"
  tl_arguments :: "string list"
  tl_environment :: "string list"
  tl_read_only_paths :: "string list"

definition max_launch_fields :: nat where "max_launch_fields = 256"
definition max_launch_string_bytes :: nat where "max_launch_string_bytes = 64 * 1024"
definition max_launch_path_bytes :: nat where "max_launch_path_bytes = 4096"

definition valid_launch_string :: "string \<Rightarrow> bool" where
  "valid_launch_string v = (v \<noteq> [] \<and> length v \<le> max_launch_string_bytes \<and> CHR 0x00 \<notin> set v)"

definition valid_launch_path :: "string \<Rightarrow> bool" where
  "valid_launch_path raw =
     (raw \<noteq> [] \<and> length raw \<le> max_launch_path_bytes \<and> CHR 0x00 \<notin> set raw \<and> is_absolute raw \<and>
      \<not> path_equal raw (root_path raw) \<and> normal_elements raw = path_elements raw)"

definition launch_entry :: "string \<Rightarrow> nat \<Rightarrow> string" where
  "launch_entry field_name index = ''launch.'' @ field_name @ ''['' @ decimal index @ '']''"

fun check_arguments :: "nat \<Rightarrow> string list \<Rightarrow> unit expected" where
  "check_arguments index [] = Inr ()"
| "check_arguments index (argument # arguments) =
     (if \<not> valid_launch_string argument then Inl (launch_entry ''arguments'' index @ '' is empty or exceeds 64 KiB'')
      else check_arguments (Suc index) arguments)"

definition environment_name :: "string \<Rightarrow> string" where
  "environment_name e = takeWhile (\<lambda>c. c \<noteq> CHR ''='') e"

fun check_environment :: "nat \<Rightarrow> string set \<Rightarrow> string \<Rightarrow> string list \<Rightarrow> unit expected" where
  "check_environment index names previous [] = Inr ()"
| "check_environment index names previous (entry # entries) =
     (let name = environment_name entry in
      if \<not> valid_launch_string entry then Inl (launch_entry ''environment'' index @ '' is empty or exceeds 64 KiB'')
      else if CHR ''='' \<notin> set entry then Inl (launch_entry ''environment'' index @ '' must be NAME=VALUE'')
      else if \<not> valid_environment_name name then Inl (launch_entry ''environment'' index @ '' has an invalid name'')
      else if name \<in> names then Inl (launch_entry ''environment'' index @ '' duplicates '' @ name)
      else if previous \<noteq> [] \<and> previous \<ge> entry
      then Inl (launch_entry ''environment'' index @ '' is not in strictly increasing byte order'')
      else check_environment (Suc index) (insert name names) entry entries)"

fun check_launch_paths :: "string \<Rightarrow> nat \<Rightarrow> string list \<Rightarrow> string list \<Rightarrow> unit expected" where
  "check_launch_paths field_name index accepted [] = Inr ()"
| "check_launch_paths field_name index accepted (raw # raws) =
     (if \<not> valid_launch_path raw
      then Inl (launch_entry field_name index @ '' must be a canonical absolute non-root path'')
      else if list_ex (\<lambda>existing. path_within raw existing \<or> path_within existing raw) accepted
      then Inl (launch_entry field_name index @ '' duplicates or overlaps an earlier entry'')
      else check_launch_paths field_name (Suc index) (accepted @ [raw]) raws)"

definition check_executable :: "runtime_launch_template \<Rightarrow> unit expected" where
  "check_executable t =
     (if tl_runtime_discovery t = []
      then (if \<not> valid_launch_path (tl_executable_path t)
            then Inl ''launch.executable_path must be a canonical absolute non-root path''
            else if tl_executable_search_paths t \<noteq> []
            then Inl ''launch.executable_search_paths requires launch.runtime_discovery''
            else Inr ())
      else if native_skill_runtime_adapter_for (tl_runtime_discovery t) = None
      then Inl (''launch.runtime_discovery is unsupported: '' @ tl_runtime_discovery t)
      else if tl_executable_path t \<noteq> []
      then Inl ''launch.executable_path must be empty when launch.runtime_discovery is set''
      else if tl_executable_search_paths t = []
      then Inl ''launch.executable_search_paths must contain at least one explicit directory''
      else Inr ())"

definition check_field_counts :: "runtime_launch_template \<Rightarrow> unit expected" where
  "check_field_counts t =
     (if length (tl_arguments t) > max_launch_fields then Inl ''launch.arguments exceeds 256 entries''
      else if length (tl_environment t) > max_launch_fields then Inl ''launch.environment exceeds 256 entries''
      else if length (tl_read_only_paths t) > max_launch_fields then Inl ''launch.read_only_paths exceeds 256 entries''
      else if length (tl_executable_search_paths t) > max_launch_fields
      then Inl ''launch.executable_search_paths exceeds 256 entries''
      else Inr ())"

definition validate_runtime_launch_template :: "runtime_launch_template \<Rightarrow> unit expected" where
  "validate_runtime_launch_template t =
     and_then (check_executable t) (\<lambda>_.
     and_then (check_field_counts t) (\<lambda>_.
     and_then (check_arguments 0 (tl_arguments t)) (\<lambda>_.
     and_then (check_environment 0 {} [] (tl_environment t)) (\<lambda>_.
     and_then (check_launch_paths ''read_only_paths'' 0 [] (tl_read_only_paths t)) (\<lambda>_.
     check_launch_paths ''executable_search_paths'' 0 [] (tl_executable_search_paths t))))))"

subsection \<open>The commitment\<close>

definition counted_strings :: "string list \<Rightarrow> field list" where
  "counted_strings vs = U32 (of_nat (length vs)) # map Str vs"

definition launch_template_fields :: "runtime_launch_template \<Rightarrow> field list" where
  "launch_template_fields t =
     [Str ''glove.runtime-launch-template'', U8 (if tl_runtime_discovery t = [] then 1 else 2)] @
     (if tl_runtime_discovery t = [] then []
      else Str (tl_runtime_discovery t) # counted_strings (tl_executable_search_paths t)) @
     [Str (tl_executable_path t)] @ counted_strings (tl_arguments t) @ counted_strings (tl_environment t) @
     counted_strings (tl_read_only_paths t)"

definition runtime_launch_template_digest :: "runtime_launch_template \<Rightarrow> string expected" where
  "runtime_launch_template_digest t =
     and_then (validate_runtime_launch_template t) (\<lambda>_. sha256_hex (enc_fields (launch_template_fields t)))"

subsection \<open>The executable\<close>

record launch_host =
  lh_canonical :: "string \<Rightarrow> string expected"
  lh_is_directory :: "string \<Rightarrow> bool expected"
  lh_stat :: "string \<Rightarrow> file_stat expected"
  lh_status :: "string \<Rightarrow> u32 expected"
  lh_euid :: u32

definition append_name :: "string \<Rightarrow> string \<Rightarrow> string" where
  "append_name directory name =
     (if directory = [] \<or> last directory = CHR ''/'' then directory @ name else directory @ ''/'' @ name)"

text \<open>A directory and its parents up to the root.\<close>

definition ancestor_paths :: "string \<Rightarrow> string list" where
  "ancestor_paths path =
     map (\<lambda>n. root_path path @ join_elements (take n (name_elements path)))
       (rev [0..<Suc (length (name_elements path))])"

definition check_ancestor :: "launch_host \<Rightarrow> string \<Rightarrow> unit expected" where
  "check_ancestor h current =
     (case lh_stat h current of
        Inl _ \<Rightarrow> Inl (''cannot inspect trusted ancestor '' @ current)
      | Inr status \<Rightarrow>
          if \<not> is_directory (st_mode status) then Inl (''cannot inspect trusted ancestor '' @ current)
          else if st_uid status \<noteq> 0 \<and> st_uid status \<noteq> lh_euid h
          then Inl (''ancestor '' @ current @ '' is not owned by root or the service user'')
          else if st_mode status AND 0x12 \<noteq> 0 \<and> \<not> (st_uid status = 0 \<and> st_mode status AND 0x200 \<noteq> 0)
          then Inl (''ancestor '' @ current @ '' is writable by another principal'')
          else Inr ())"

fun check_ancestors :: "launch_host \<Rightarrow> string list \<Rightarrow> unit expected" where
  "check_ancestors h [] = Inr ()"
| "check_ancestors h (current # parents) = and_then (check_ancestor h current) (\<lambda>_. check_ancestors h parents)"

text \<open>One round of the search: the executable in a configured directory, or why it is not there.\<close>

definition discover_executable :: "launch_host \<Rightarrow> string \<Rightarrow> string \<Rightarrow> string expected" where
  "discover_executable h executable_name configured_root =
     (case lh_canonical h configured_root of
        Inl e \<Rightarrow> Inl (''cannot canonicalize directory ('' @ e @ '')'')
      | Inr root \<Rightarrow>
     (case lh_is_directory h root of
        Inl e \<Rightarrow> Inl (''cannot inspect directory ('' @ e @ '')'')
      | Inr directory \<Rightarrow>
          if \<not> directory then Inl ''is not a directory''
          else and_then (check_ancestors h (ancestor_paths root)) (\<lambda>_.
            let candidate = append_name root executable_name in
            case lh_status h candidate of
              Inl e \<Rightarrow> Inl (''cannot inspect expected executable '' @ candidate @ '' ('' @ e @ '')'')
            | Inr mode \<Rightarrow>
                if \<not> is_regular mode then Inl (''expected executable is not a regular file: '' @ candidate)
                else if mode AND 0x49 = 0 then Inl (''expected executable is not executable: '' @ candidate)
                else (case lh_canonical h candidate of
                  Inl e \<Rightarrow> Inl (''cannot canonicalize executable ('' @ e @ '')'')
                | Inr resolved \<Rightarrow>
                    if valid_launch_path resolved then Inr resolved else Inl ''resolved executable path is invalid''))))"

fun semicolon_separated :: "string list \<Rightarrow> string" where
  "semicolon_separated [] = []"
| "semicolon_separated [v] = v"
| "semicolon_separated (v # vs) = v @ ''; '' @ semicolon_separated vs"

fun search_executable :: "launch_host \<Rightarrow> native_skill_runtime_adapter \<Rightarrow> string list \<Rightarrow> string list \<Rightarrow> string expected" where
  "search_executable h adapter diagnostics [] =
     Inl (''operator-installed '' @ ra_runtime_id adapter @ '' executable is unavailable'' @
       (if diagnostics = [] then [] else '': '' @ semicolon_separated diagnostics))"
| "search_executable h adapter diagnostics (configured_root # roots) =
     (case discover_executable h (ra_executable_name adapter) configured_root of
        Inr resolved \<Rightarrow> Inr resolved
      | Inl reason \<Rightarrow> search_executable h adapter (diagnostics @ [configured_root @ '': '' @ reason]) roots)"

definition resolve_runtime_executable :: "launch_host \<Rightarrow> runtime_launch_template \<Rightarrow> string expected" where
  "resolve_runtime_executable h t =
     and_then (validate_runtime_launch_template t) (\<lambda>_.
       if tl_runtime_discovery t = [] then Inr (tl_executable_path t)
       else (case native_skill_runtime_adapter_for (tl_runtime_discovery t) of
         None \<Rightarrow> Inl ''runtime discovery adapter is unavailable''
       | Some adapter \<Rightarrow> search_executable h adapter [] (tl_executable_search_paths t)))"

subsection \<open>Managed arguments\<close>

definition global_flags :: "string list" where
  "global_flags = [''--no-alt-screen'', ''--oss'', ''--search'']"

definition global_options :: "string list" where
  "global_options =
     [''--add-dir'', ''--ask-for-approval'', ''--cd'', ''--config'', ''--disable'', ''--enable'', ''--image'',
      ''--local-provider'', ''--model'', ''--profile'', ''--sandbox'', ''-C'', ''-a'', ''-c'', ''-m'', ''-p'', ''-s'']"

definition option_matches :: "string \<Rightarrow> string \<Rightarrow> bool" where
  "option_matches token option = (token = option \<or> prefix ''--'' option \<and> prefix (option @ ''='') token)"

text \<open>The loop over the arguments before the subcommand, with the index of the current one.\<close>

function codex_scan :: "nat \<Rightarrow> string list \<Rightarrow> nat expected" where
  "codex_scan index [] = Inl ''Codex launch has no exec subcommand''"
| "codex_scan index (token # rest) =
     (if token = ''exec''
      then (if ''exec'' \<in> set rest then Inl ''Codex launch contains a later literal exec'' else Inr (Suc index))
      else if token = ''--'' then Inl ''Codex end-of-options delimiter precedes the exec subcommand''
      else if token \<in> set global_flags then codex_scan (Suc index) rest
      else (case List.find (option_matches token) global_options of
        None \<Rightarrow> Inl (''Codex launch has an unsupported token before exec: '' @ token)
      | Some option \<Rightarrow>
          if token = option
          then (if rest = [] then Inl (''Codex global option requires a value: '' @ option)
                else if hd rest = ''exec'' then Inl ''Codex global option value cannot be literal exec''
                else codex_scan (index + 2) (tl rest))
          else let option_value = drop (Suc (length option)) token in
            if option_value = [] \<or> option_value = ''exec'' then Inl ''Codex global option value is invalid''
            else codex_scan (Suc index) rest))"
  by pat_completeness auto
termination by (relation "measure (length \<circ> snd)") auto

definition codex_exec_managed_argument_offset :: "string \<Rightarrow> string list \<Rightarrow> nat expected" where
  "codex_exec_managed_argument_offset executable arguments =
     (if filename executable = ''node'' \<and> arguments = [] then Inl ''Codex Node wrapper has no script''
      else if filename executable = ''node'' \<and>
              (\<not> is_absolute (hd arguments) \<or> filename (hd arguments) \<noteq> ''codex.js'')
      then Inl ''Codex Node wrapper script is not owner-bound''
      else (let index = (if filename executable = ''node'' then 1 else 0); rest = drop index arguments in
        if rest = [''--version''] then Inr (length arguments) else codex_scan index rest))"

end
