(* ===== verification/Launch_Laws.thy ===== *)
theory Launch_Laws
  imports Launch_Template
begin

text \<open>
  What a launch template that passed its checks looks like, that its digest commits to every field of it,
  where the managed arguments go, and which executables a search can return.
\<close>

subsection \<open>Validated templates\<close>

definition launch_string_lists :: "runtime_launch_template \<Rightarrow> string list list" where
  "launch_string_lists t =
     [tl_executable_search_paths t, tl_arguments t, tl_environment t, tl_read_only_paths t]"

lemma check_arguments_Inr: "check_arguments index vs = Inr () \<longleftrightarrow> list_all valid_launch_string vs"
  by (induction vs arbitrary: index) auto

lemma check_environment_Inr:
  "check_environment index names previous vs = Inr () \<longleftrightarrow>
     list_all (\<lambda>v. valid_launch_string v \<and> CHR ''='' \<in> set v \<and> valid_environment_name (environment_name v)) vs \<and>
     distinct (map environment_name vs) \<and> set (map environment_name vs) \<inter> names = {} \<and>
     sorted_wrt (<) (if previous = [] then vs else previous # vs)"
proof (induction vs arbitrary: index names previous)
  case (Cons v vs)
  have "v \<noteq> []" if "valid_launch_string v" using that by (simp add: valid_launch_string_def)
  moreover have "sorted_wrt (<) (previous # v # vs) \<longleftrightarrow> previous < v \<and> sorted_wrt (<) (v # vs)" for previous
    by (auto simp: sorted_wrt.simps(2) dest: order.strict_trans)
  ultimately show ?case
    using Cons by (auto simp: Let_def not_le simp del: sorted_wrt.simps(2))
qed simp

definition overlapping_paths :: "string \<Rightarrow> string \<Rightarrow> bool" where
  "overlapping_paths p q = (path_within p q \<or> path_within q p)"

lemma check_launch_paths_Inr:
  "check_launch_paths field_name index accepted vs = Inr () \<longleftrightarrow>
     list_all valid_launch_path vs \<and> sorted_wrt (\<lambda>p q. \<not> overlapping_paths p q) vs \<and>
     (\<forall>p \<in> set accepted. \<forall>q \<in> set vs. \<not> overlapping_paths p q)"
  by (induction vs arbitrary: index accepted) (auto simp: list_ex_iff overlapping_paths_def)

text \<open>The declarative reading of the checks.\<close>

definition launch_template_ok :: "runtime_launch_template \<Rightarrow> bool" where
  "launch_template_ok t =
     ((if tl_runtime_discovery t = [] then valid_launch_path (tl_executable_path t) \<and> tl_executable_search_paths t = []
       else native_skill_runtime_adapter_for (tl_runtime_discovery t) \<noteq> None \<and> tl_executable_path t = [] \<and>
            tl_executable_search_paths t \<noteq> []) \<and>
      list_all (\<lambda>vs. length vs \<le> max_launch_fields) (launch_string_lists t) \<and>
      list_all valid_launch_string (tl_arguments t) \<and>
      list_all (\<lambda>v. valid_launch_string v \<and> CHR ''='' \<in> set v \<and> valid_environment_name (environment_name v)) (tl_environment t) \<and>
      distinct (map environment_name (tl_environment t)) \<and> sorted_wrt (<) (tl_environment t) \<and>
      list_all (\<lambda>ps. list_all valid_launch_path ps \<and> sorted_wrt (\<lambda>p q. \<not> overlapping_paths p q) ps)
        [tl_read_only_paths t, tl_executable_search_paths t])"

lemma validate_runtime_launch_template_Inr:
  "validate_runtime_launch_template t = Inr () \<longleftrightarrow> launch_template_ok t"
proof -
  have "check_executable t = Inr () \<longleftrightarrow>
      (if tl_runtime_discovery t = [] then valid_launch_path (tl_executable_path t) \<and> tl_executable_search_paths t = []
       else native_skill_runtime_adapter_for (tl_runtime_discovery t) \<noteq> None \<and> tl_executable_path t = [] \<and>
            tl_executable_search_paths t \<noteq> [])"
    by (auto simp: check_executable_def)
  moreover have "check_field_counts t = Inr () \<longleftrightarrow> list_all (\<lambda>vs. length vs \<le> max_launch_fields) (launch_string_lists t)"
    by (auto simp: check_field_counts_def launch_string_lists_def)
  moreover have "and_then r f = Inr () \<longleftrightarrow> r = Inr () \<and> f () = Inr ()" for r :: "unit expected" and f
    by (auto simp: and_then_Inr)
  ultimately show ?thesis
    by (simp add: validate_runtime_launch_template_def check_arguments_Inr check_environment_Inr check_launch_paths_Inr
        launch_template_ok_def)
qed

subsection \<open>The digest\<close>

lemma counted_prefix:
  assumes "list_all (\<lambda>v. length v \<le> max_launch_string_bytes) vs" and "list_all (\<lambda>v. length v \<le> max_launch_string_bytes) ws"
    and "length vs \<le> max_launch_fields" and "length ws \<le> max_launch_fields"
    and "enc_fields (counted_strings vs) @ x = enc_fields (counted_strings ws) @ y"
  shows "vs = ws \<and> x = y"
proof -
  have strings: "enc_fields (map Str us) = concat (map enc_string us)" for us
    by (simp add: enc_fields_def comp_def)
  from assms(5) have "enc_u32 (of_nat (length vs)) @ (concat (map enc_string vs) @ x) =
      enc_u32 (of_nat (length ws)) @ (concat (map enc_string ws) @ y)"
    by (simp add: counted_strings_def strings)
  from u32_code.prefix_inj [OF _ _ this]
  have count: "(of_nat (length vs) :: u32) = of_nat (length ws)"
    and rest: "concat (map enc_string vs) @ x = concat (map enc_string ws) @ y" by auto
  have "unat (of_nat (length us) :: u32) = length us" if "length us \<le> max_launch_fields" for us :: "string list"
    using that by (simp add: max_launch_fields_def unat_of_nat take_bit_nat_eq_self)
  with count assms(3,4) have "length vs = length ws" by metis
  then show ?thesis
    using assms(1,2) rest by (intro string_code.list_inj) (auto simp: list_all_iff max_launch_string_bytes_def)
qed

lemma launch_lists_bounded:
  assumes "launch_template_ok t"
  shows "list_all (\<lambda>v. length v \<le> max_launch_string_bytes) (tl_arguments t)"
    "list_all (\<lambda>v. length v \<le> max_launch_string_bytes) (tl_environment t)"
    "list_all (\<lambda>v. length v \<le> max_launch_string_bytes) (tl_read_only_paths t)"
    "list_all (\<lambda>v. length v \<le> max_launch_string_bytes) (tl_executable_search_paths t)"
    "length (tl_arguments t) \<le> max_launch_fields" "length (tl_environment t) \<le> max_launch_fields"
    "length (tl_read_only_paths t) \<le> max_launch_fields" "length (tl_executable_search_paths t) \<le> max_launch_fields"
    "bounded_string (tl_executable_path t)" "bounded_string (tl_runtime_discovery t)"
proof -
  show "bounded_string (tl_runtime_discovery t)"
    using assms by (auto simp: launch_template_ok_def native_skill_runtime_adapter_for_def split: if_splits)
qed (use assms in \<open>auto simp: launch_template_ok_def launch_string_lists_def list_all_iff valid_launch_string_def
      valid_launch_path_def max_launch_path_bytes_def max_launch_string_bytes_def split: if_splits\<close>)

lemma launch_template_fields_inject:
  assumes ok: "launch_template_ok t" "launch_template_ok u"
    and eq: "enc_fields (launch_template_fields t) = enc_fields (launch_template_fields u)"
  shows "t = u"
proof -
  note bt = launch_lists_bounded [OF ok(1)] and bu = launch_lists_bounded [OF ok(2)]
  let ?tail = "\<lambda>t. enc_string (tl_executable_path t) @ enc_fields (counted_strings (tl_arguments t)) @
    enc_fields (counted_strings (tl_environment t)) @ enc_fields (counted_strings (tl_read_only_paths t)) @ []"
  have "tl_runtime_discovery t = [] \<longleftrightarrow> tl_runtime_discovery u = []"
    using eq by (auto simp: launch_template_fields_def split: if_splits)
  then have same: "tl_runtime_discovery t = tl_runtime_discovery u \<and>
      tl_executable_search_paths t = tl_executable_search_paths u \<and> ?tail t = ?tail u"
  proof (cases "tl_runtime_discovery t = []")
    case True
    then show ?thesis
      using \<open>_ \<longleftrightarrow> _\<close> eq ok by (simp add: launch_template_fields_def launch_template_ok_def)
  next
    case False
    then have "enc_string (tl_runtime_discovery t) @ (enc_fields (counted_strings (tl_executable_search_paths t)) @ ?tail t) =
        enc_string (tl_runtime_discovery u) @ (enc_fields (counted_strings (tl_executable_search_paths u)) @ ?tail u)"
      using \<open>_ \<longleftrightarrow> _\<close> eq by (simp add: launch_template_fields_def)
    from string_code.prefix_inj [OF bt(10) bu(10) this]
    have "tl_runtime_discovery t = tl_runtime_discovery u"
      and rest: "enc_fields (counted_strings (tl_executable_search_paths t)) @ ?tail t =
        enc_fields (counted_strings (tl_executable_search_paths u)) @ ?tail u" by blast+
    with counted_prefix [OF bt(4) bu(4) bt(8) bu(8) rest] show ?thesis by blast
  qed
  then have "tl_executable_path t = tl_executable_path u" and tail:
      "enc_fields (counted_strings (tl_arguments t)) @ enc_fields (counted_strings (tl_environment t)) @
         enc_fields (counted_strings (tl_read_only_paths t)) @ [] =
       enc_fields (counted_strings (tl_arguments u)) @ enc_fields (counted_strings (tl_environment u)) @
         enc_fields (counted_strings (tl_read_only_paths u)) @ []"
    using string_code.prefix_inj [OF bt(9) bu(9)] by blast+
  moreover from counted_prefix [OF bt(1) bu(1) bt(5) bu(5) tail]
  have "tl_arguments t = tl_arguments u" and env:
      "enc_fields (counted_strings (tl_environment t)) @ enc_fields (counted_strings (tl_read_only_paths t)) @ [] =
       enc_fields (counted_strings (tl_environment u)) @ enc_fields (counted_strings (tl_read_only_paths u)) @ []" by blast+
  moreover from counted_prefix [OF bt(2) bu(2) bt(6) bu(6) env]
  have "tl_environment t = tl_environment u" and "enc_fields (counted_strings (tl_read_only_paths t)) @ [] =
       enc_fields (counted_strings (tl_read_only_paths u)) @ []" by blast+
  moreover from this(2) have "tl_read_only_paths t = tl_read_only_paths u"
    using counted_prefix [OF bt(3) bu(3) bt(7) bu(7)] by blast
  ultimately show ?thesis using same by simp
qed

subsection \<open>Managed arguments\<close>

lemma extend_scan:
  assumes "rest = before @ ''exec'' # after \<and> offset = index + Suc (length before) \<and> ''exec'' \<notin> set before \<and> ''exec'' \<notin> set after"
    and "''exec'' \<notin> set tokens" and "index' + length tokens = index"
  shows "\<exists>before after. tokens @ rest = before @ ''exec'' # after \<and> offset = index' + Suc (length before) \<and>
    ''exec'' \<notin> set before \<and> ''exec'' \<notin> set after"
  using assms by (intro exI [of _ "tokens @ before"] exI [of _ after]) auto

lemma codex_scan_split:
  assumes "codex_scan index arguments = Inr offset"
  shows "\<exists>before after. arguments = before @ ''exec'' # after \<and> offset = index + Suc (length before) \<and>
    ''exec'' \<notin> set before \<and> ''exec'' \<notin> set after"
  using assms
proof (induction index arguments rule: codex_scan.induct)
  case (2 index token rest)
  show ?case
  proof (cases "token = ''exec''")
    case True
    then show ?thesis using "2.prems" by (intro exI [of _ "[]"] exI [of _ rest]) (auto split: if_splits)
  next
    case False
    consider (skip) "token \<in> set global_flags" "token \<noteq> ''--''" "codex_scan (Suc index) rest = Inr offset"
      | (pair) option where "token \<noteq> ''--''" "token \<notin> set global_flags" "List.find (option_matches token) global_options = Some option"
          "token = option" "rest \<noteq> []" "hd rest \<noteq> ''exec''" "codex_scan (index + 2) (tl rest) = Inr offset"
      | (inline) option where "token \<noteq> ''--''" "token \<notin> set global_flags" "List.find (option_matches token) global_options = Some option"
          "token \<noteq> option" "\<not> (drop (Suc (length option)) token = [] \<or> drop (Suc (length option)) token = ''exec'')"
          "codex_scan (Suc index) rest = Inr offset"
      using "2.prems" False by (auto simp: Let_def split: if_splits option.splits)
    then show ?thesis
    proof cases
      case skip
      from "2.IH"(1) [OF False skip(2,1,3)] show ?thesis
        using extend_scan [of rest _ _ offset "Suc index" "[token]" index] False by auto
    next
      case pair
      from "2.IH"(2) [OF False pair(1-7)] obtain before after where
        "tl rest = before @ ''exec'' # after \<and> offset = index + 2 + Suc (length before) \<and> ''exec'' \<notin> set before \<and> ''exec'' \<notin> set after"
        by blast
      from extend_scan [OF this, of "[token, hd rest]" index] False pair(5,6) show ?thesis by simp
    next
      case inline
      from "2.IH"(3) [OF False inline(1-4) refl inline(5,6)] show ?thesis
        using extend_scan [of rest _ _ offset "Suc index" "[token]" index] False by auto
    qed
  qed
qed simp

text \<open>The managed arguments go behind the subcommand, which is the only literal \<open>exec\<close>, or behind a
  request for the version, which runs nothing.\<close>

lemma codex_offset_split:
  assumes "codex_exec_managed_argument_offset executable arguments = Inr offset"
  shows "(\<exists>before after. arguments = before @ ''exec'' # after \<and> offset = Suc (length before) \<and> ''exec'' \<notin> set after) \<or>
    (arguments \<noteq> [] \<and> last arguments = ''--version'' \<and> offset = length arguments)"
proof (cases "codex_scan (if filename executable = ''node'' then 1 else 0)
    (drop (if filename executable = ''node'' then 1 else 0) arguments) = Inr offset")
  case True
  from codex_scan_split [OF this] obtain before after where
    split: "drop (if filename executable = ''node'' then 1 else 0) arguments = before @ ''exec'' # after"
      "offset = (if filename executable = ''node'' then 1 else 0) + Suc (length before)" "''exec'' \<notin> set after"
    by blast
  let ?n = "if filename executable = ''node'' then 1 else 0 :: nat"
  have "?n \<le> length arguments" using split(1) by (cases arguments) (auto split: if_splits)
  then have "arguments = (take ?n arguments @ before) @ ''exec'' # after" "offset = Suc (length (take ?n arguments @ before))"
    using append_take_drop_id [of ?n arguments] split by (simp_all only: append_assoc length_append length_take split(1))
  then show ?thesis using split(3) by blast
next
  case False
  then have "drop (if filename executable = ''node'' then 1 else 0) arguments = [''--version'']" "offset = length arguments"
    using assms by (auto simp: codex_exec_managed_argument_offset_def Let_def split: if_splits)
  then show ?thesis by (cases arguments) (auto split: if_splits)
qed

subsection \<open>The search\<close>

text \<open>An executable that the search returns is the canonical name of a file, executable for somebody, that
  stands under the adapter's name in a configured directory that nobody but root and the service can change.\<close>

definition trusted_directory :: "launch_host \<Rightarrow> string \<Rightarrow> bool" where
  "trusted_directory h current =
     (\<exists>status. lh_stat h current = Inr status \<and> is_directory (st_mode status) \<and>
       (st_uid status = 0 \<or> st_uid status = lh_euid h) \<and>
       (st_mode status AND 0x12 = 0 \<or> st_uid status = 0 \<and> st_mode status AND 0x200 \<noteq> 0))"

lemma check_ancestors_Inr: "check_ancestors h ps = Inr () \<longleftrightarrow> list_all (trusted_directory h) ps"
proof -
  have "check_ancestor h p = Inr () \<longleftrightarrow> trusted_directory h p" for p
    by (auto simp: check_ancestor_def trusted_directory_def split: sum.splits)
  then show ?thesis by (induction ps) (auto simp: and_then_Inr)
qed

definition discovered :: "launch_host \<Rightarrow> string \<Rightarrow> string \<Rightarrow> string \<Rightarrow> bool" where
  "discovered h executable_name configured_root resolved =
     (\<exists>root mode. lh_canonical h configured_root = Inr root \<and> list_all (trusted_directory h) (ancestor_paths root) \<and>
       lh_status h (append_name root executable_name) = Inr mode \<and> is_regular mode \<and> mode AND 0x49 \<noteq> 0 \<and>
       lh_canonical h (append_name root executable_name) = Inr resolved \<and> valid_launch_path resolved)"

lemma discover_executable_sound: "discover_executable h name root = Inr resolved \<Longrightarrow> discovered h name root resolved"
  by (auto simp: discover_executable_def discovered_def and_then_Inr check_ancestors_Inr Let_def
      split: sum.splits if_splits)

lemma search_executable_sound:
  "search_executable h adapter diagnostics roots = Inr resolved \<Longrightarrow>
     \<exists>root \<in> set roots. discovered h (ra_executable_name adapter) root resolved"
  by (induction roots arbitrary: diagnostics) (auto dest: discover_executable_sound split: sum.splits)

lemma resolved_executable:
  assumes "resolve_runtime_executable h t = Inr resolved"
  shows "launch_template_ok t" "valid_launch_path resolved"
    "if tl_runtime_discovery t = [] then resolved = tl_executable_path t
     else \<exists>adapter. native_skill_runtime_adapter_for (tl_runtime_discovery t) = Some adapter \<and>
       (\<exists>root \<in> set (tl_executable_search_paths t). discovered h (ra_executable_name adapter) root resolved)"
proof -
  show ok: "launch_template_ok t"
    using assms by (auto simp: resolve_runtime_executable_def and_then_Inr simp flip: validate_runtime_launch_template_Inr)
  show origin: "if tl_runtime_discovery t = [] then resolved = tl_executable_path t
     else \<exists>adapter. native_skill_runtime_adapter_for (tl_runtime_discovery t) = Some adapter \<and>
       (\<exists>root \<in> set (tl_executable_search_paths t). discovered h (ra_executable_name adapter) root resolved)"
    using assms by (auto simp: resolve_runtime_executable_def and_then_Inr dest: search_executable_sound split: if_splits option.splits)
  show "valid_launch_path resolved"
    using origin ok by (auto simp: launch_template_ok_def discovered_def split: if_splits)
qed

end
