(* ===== verification/Spec2Isabelle.thy ===== *)
theory Spec2Isabelle
  imports Guard_Theorems Journal_Theorems Durable_Receipts Change_Theorems Manifest_Theorems
    Gate_Theorems Exposure_Theorems Reconciliation_Theorems Launch_Laws
begin

text \<open>
  A verification development for the durable core of glove, a supervisor that runs agent sessions
  in sandboxes, records what it did in append-only files and hands authenticated receipts to a
  peer.

  \<^bold>\<open>The program's parts.\<close>  A controller asks for a session; the \<^emph>\<open>session registry\<close>
  (\<open>src/control/session_registry*.cpp\<close>) records every step of its life in a hash-chained file and
  answers repeated requests from it.  A sandbox \<^emph>\<open>profile\<close> (\<open>src/container/profile.cpp\<close>) says what
  the session may touch and which limits must be enforced.  When a session ends, the enforced limits
  become a receipt that the \<^emph>\<open>receipt chain\<close> (\<open>src/container/receipt_chain.cpp\<close>) authenticates
  with an HMAC over its predecessor and the \<^emph>\<open>receipt journal\<close>
  (\<open>src/container/receipt_journal.cpp\<close>) keeps on disk until the peer has it.  The guest talks to the
  host over channels whose schemas a \<^emph>\<open>channel catalog\<close> (\<open>src/control/guest_channel.cpp\<close>) admits.
  All digests come from one SHA-256 (\<open>src/container/sha256.cpp\<close>).

  \<^bold>\<open>Shared foundations.\<close>
  \<^item> \<open>Prelude\<close>: machine types, \<open>std::expected\<close> as a sum, finite maps of the standard library.
  \<^item> \<open>Sha256\<close>: the streaming digest, its one-shot and descriptor forms; proved equal to a reference
    transcription of the standard for every way of cutting the input.
  \<^item> \<open>Codec\<close>: the length-prefixed encodings every commitment is hashed over; injectivity of field
    layouts.
  \<^item> \<open>Paths\<close>: the part of \<open>std::filesystem::path\<close> the sources use.
  \<^item> \<open>Storage\<close>: a file descriptor as a record \<open>disk\<close> of the bytes, the metadata and the list of
    answers the kernel is about to give (short transfers, interruptions, failures).  A theorem
    quantifies over that list, so it covers every pattern of faults; once the list is empty the
    kernel interposes none.  The loops around \<open>pread\<close>, \<open>pwrite\<close> and \<open>fsync\<close> recurse over it.
  \<^item> \<open>File_Status\<close>: the part of \<open>struct stat\<close> that identifies a file, and files that are read whole
    between two calls of \<open>fstat\<close>.
  \<^item> \<open>Framing\<close>: the frame that registry and receipt journal share, a payload between two copies of
    its size, and what reading it gives in both directions.

  \<^bold>\<open>The session registry.\<close>  \<open>Registry_Wire\<close>, \<open>Registry_Commitments\<close> and \<open>Registry_Shape\<close> model the
  durable record, the commitments hashed over it and the predicates on its shape; \<open>Registry_Store\<close>
  the state and the append with its rollback; \<open>Registry_Recovery\<close> the checks and the loop of
  recovery; \<open>Registry_Ops\<close>, \<open>Registry_Terminal\<close>, \<open>Registry_Managed\<close>, \<open>Registry_Observation\<close> and
  \<open>Registry_Projections\<close> every public operation.  \<open>Plan_Interface\<close> is what the registry sees of the
  plan validator, the bundle store and the receipt producer.  A critical section of the source is a
  function that takes the registry and returns its answer and the new registry.
  \<open>Storage_Laws\<close>, \<open>Registry_Index\<close>, \<open>Registry_Transitions\<close>, the three acceptance theories and
  \<open>Registry_Durability\<close> build up to the locale \<open>durable_operation\<close> of \<open>Registry_Sections\<close>, which
  \<open>Registry_Contracts\<close> interprets for every writing operation: an operation leaves the records alone
  or commits one record that recovery will accept.  \<open>Registry_Restart\<close> and \<open>Registry_Open\<close> show that
  recovery inverts the appends, on files the registry wrote and on arbitrary ones;
  \<open>Registry_Reach\<close> defines the registries a program can hold by rules, and \<open>Registry_Theorems\<close> and
  \<open>Registry_Views\<close> state what holds of all of them.  The operations do not establish four facts that
  recovery demands; they appear as the guards \<open>starting_clock\<close> (a session is not marked as starting
  at a time before its authorization), \<open>direct_session\<close> (\<open>mark_failed\<close> is called for directly
  executed sessions), \<open>enqueue_key_free\<close> and \<open>disposition_key_free\<close> (no client key equals a key
  derived for an observation) of the step relation, and every statement about reachable registries is
  made under them.  \<open>Registry_Guards\<close> and \<open>Guard_Theorems\<close> show that they are exact: the record such an
  operation appends is accepted by the next recovery if and only if its guard held.

  \<^bold>\<open>Receipts.\<close>  \<open>Profile\<close> models the profile, the enforcement coverage and the receipt validators.
  \<open>Receipt_Chain\<close> models HMAC, the encodings, the producer's chain and the verifier's anchor; the
  locale \<open>audited_chain\<close> is the contract of one kind of receipt, interpreted for resource and for
  refinement receipts, and a log of envelopes verifies exactly if it is the log the producer writes.  \<open>Receipt_Journal\<close> models the durable journal; \<open>Journal_Laws\<close> shows that
  recovery returns exactly the complete records of a file, whatever was cut off the last frame.
  \<open>Journal_Contracts\<close> states the contract of an operation as the locale \<open>journal_operation\<close> and
  interprets it for every operation of the journal, \<open>Journal_Open\<close> treats creation and opening,
  \<open>Journal_Reach\<close> the journals a program can hold, and \<open>Journal_Theorems\<close> what holds of them: the
  invariant, atomic appends, recovery after a crash, reconciliation pages, the lookup of terminal
  receipts and the end of the recovery scan.  \<open>Receipt_Producer\<close> models the owner of the journal
  (\<open>src/container/receipt_producer.cpp\<close>): key loading, bootstrap and the reservations of capacity;
  \<open>Producer_Theorems\<close> shows, over every interleaving of its critical sections, that a reservation
  is enough to record a receipt, and \<open>Durable_Receipts\<close> that the registry closes sessions only over
  receipts the journal holds.

  \<^bold>\<open>Applying changes.\<close>  \<open>Change_Journal\<close> models the ledger of change applications
  (\<open>src/supervisor/change_apply_journal.cpp\<close>): a line of JSON per record, hash chained, that reserves
  a grant before the host is changed and closes it afterwards.  \<open>Change_Laws\<close> and \<open>Change_Contracts\<close>
  show that the acknowledged bytes always replay to the index in memory, \<open>Change_Reach\<close> states what a
  ledger promises as the locale \<open>ledger\<close>, interprets it on the journal, and treats opening, and
  \<open>Change_Theorems\<close> holds the properties: reopening and single use.  \<open>Change_Manifest\<close> models
  snapshots of a tree and the manifest of the changes between two of them
  (\<open>src/supervisor/change_manifest.cpp\<close>); \<open>Manifest_Laws\<close> and \<open>Manifest_Theorems\<close> show that the
  changes turn the first snapshot into the second and that a sealed manifest decodes to itself, and
  exhibit three trees or texts on which the code errs.
  \<open>Change_Authorization\<close> models the signed permission to apply a manifest and the policy of trusted
  keys (\<open>src/supervisor/change_apply_authorization.cpp\<close>, \<open>change_apply_trust_policy.cpp\<close>),
  \<open>Change_Receipt\<close> the receipt of an application (\<open>change_apply_receipt.cpp\<close>) and \<open>Change_Gate\<close> the way
  from the one to the other (\<open>change_apply_gate.cpp\<close>, \<open>change_apply_recovery.cpp\<close>): execution behind a
  reservation, recovery of a pending grant and the sweep at startup.  Its state is the journal and
  the host; the host is changed only through the record \<open>exchange_host\<close> of the exchange component's
  calls.  \<open>Gate_Laws\<close> shows that every path moves the journal by its own steps and settles a grant only
  over what the host showed, and \<open>Gate_Theorems\<close>, with the inputs of \<open>Gate_Sample\<close>, that the host
  changes only behind a verified and durable reservation, at most once, and that the receipt returned
  is the one the journal records.

  \<^bold>\<open>Restarting.\<close>  \<open>Process_Identity\<close> models how a Linux process is identified from procfs and
  cgroupfs (\<open>src/control/linux_process_identity.cpp\<close>), with the parsers of their files;
  \<open>Session_Reconciliation\<close> the repair of the registry when the supervisor starts
  (\<open>src/control/session_reconciliation.cpp\<close>): every session that may hold a process is closed over its
  durable receipt, closed as failed, or listed in a report.  \<open>Reconciliation_Laws\<close> shows that a
  closing operation that succeeds on such a session moves exactly that session, and that a lookup in the
  journal finds the receipt it holds; \<open>Reconciliation_Theorems\<close>, with the registry of
  \<open>Reconciliation_Sample\<close>, that a successful reconciliation settles every session and that its report
  is complete.  The observer of a process is a parameter; \<open>process_host\<close> is what the kernel answers to
  the Linux one.

  \<^bold>\<open>Exposing paths.\<close>  A host path reaches a session only as a generation of an exposure.
  \<open>Exposure_Journal\<close> models the framed, hash-chained file of creations and revocations
  (\<open>src/supervisor/path_exposure_journal.cpp\<close>), \<open>Path_Exposure\<close> the registry above it
  (\<open>path_exposure.cpp\<close>, \<open>path_exposure_policy.cpp\<close>): protected roots, creation, revocation, listing,
  the two critical sections that validate and resolve a grant, recovery targets and the policy file.
  \<open>Exposure_Journal_Laws\<close> shows that the acknowledged bytes scan back to the records,
  \<open>Exposure_Laws\<close> and \<open>Exposure_Contracts\<close> that every operation moves the registry as the replay of
  its record would, \<open>Exposure_Reach\<close> defines the registries that operations and restarts reach from a new journal, whatever
  the clock does (\<open>exposures_run\<close>) and while it does not go back (\<open>exposures_reachable\<close>, a condition
  on the caller), and interprets \<open>ledger\<close> on them, and \<open>Exposure_Generations\<close> follows the generations of one exposure through time.
  \<open>Exposure_Theorems\<close>, with the inputs of \<open>Exposure_Sample\<close>, states what holds: reopening, the
  authority behind a grant (while the clock does not go back) and the finality of a revocation, and
  that a request for a protected root with a trailing separator opens the root itself.  The Linux branches are modelled; what the kernel says about paths is the record
  \<open>exposure_host\<close>, one value per critical section.

  \<^bold>\<open>Aliases and launch templates.\<close>  \<open>Path_Alias\<close> models the registry of host paths that a policy names
  (\<open>src/supervisor/path_alias.cpp\<close>) and shows that a built registry holds admitted, pairwise separate
  aliases, that a planned request resolves and that the grant verifies on the same file system.
  \<open>Launch_Template\<close> models the launch templates of \<open>src/supervisor/session_plan.cpp\<close> with the table of
  runtime adapters (\<open>native_skill_runtime_adapter.cpp\<close>): the checks, the digest, the search for the
  executable and the place of managed arguments.  \<open>Launch_Laws\<close> gives the checks their declarative
  reading and shows that the digest is taken over an encoding that determines the template, that a found
  executable lies in a trusted directory of the policy, and that managed arguments go right behind the
  one \<open>exec\<close> subcommand.

  \<^bold>\<open>Channels.\<close>  \<open>Guest_Channel\<close> models the catalog of channel schemas and its freezing.

  \<^bold>\<open>Parameters.\<close>  The JSON library is a record of its calls (\<open>json_codec\<close>, \<open>journal_codec\<close>,
  \<open>change_codec\<close>, \<open>manifest_codec\<close>, \<open>authorization_codec\<close>, \<open>apply_receipt_codec\<close>,
  \<open>exposure_codec\<close>); what the code relies on is that a value read back is the value written
  (\<open>codec_faithful\<close>, \<open>journal_faithful\<close>, \<open>change_codec_faithful\<close>,
  \<open>manifest_codec_faithful\<close>, \<open>receipt_codec_faithful\<close>, \<open>exposure_codec_faithful\<close>).  The signature verifier, the calls of the
  exchange component, the plan validator, the bundle store, the receipt producer and the host
  validators of channel payloads are functions with named hypotheses.  \<open>Registry_Sample\<close> instantiates
  them for the witnesses.

  \<^bold>\<open>Bounds and fuel.\<close>  No function of the model uses fuel: the loops over the kernel's answers
  recurse on the list of answers and the remaining bytes, the recovery loops on the bytes that are
  left in the file.  Integers of the source are words of their width; lengths of buffers are natural
  numbers bounded by \<open>off_t_max\<close> where they enter a word.

  \<^bold>\<open>Not modelled.\<close>  Locks (each operation runs under one mutex and is one step here), the contents of
  directories above the files, and the parts of the program that are sequences of system calls or
  bindings: the container runtimes, the network proxies and TLS, the servers on Unix sockets, the
  host tools and the terminal.  Of the refinement protocol only what the receipt chain calls is
  modelled.  The exchange of directories behind the change-apply gate
  (\<open>src/supervisor/change_apply_exchange.cpp\<close>) is a sequence of system calls on two trees and appears
  as the parameter described above.  The policy engines and the session plan parser are
  not modelled; of the session plan only the launch templates are.
\<close>

end
